(* ===== verification/Sdk_Prelude.thy ===== *)
theory Sdk_Prelude
  imports
    Main
    "HOL-Library.Word"
    "HOL-Library.Product_Lexorder"
    "HOL-Library.List_Lexorder"
    "HOL-Library.Char_ord"
begin

text \<open>
  Shared vocabulary of the development: results with errors and panics, the pieces of the Go
  runtime the modules use (64-bit wrap-around, truncated division, times), the Cosmos SDK values
  (integers, decimals, coins) and services (bank and account keepers) as parameters with named
  laws, and the ordered key-value store every keeper writes to.
\<close>

named_theorems result_simps \<open>rewriting of sequenced results\<close>
named_theorems kv_simps \<open>the ordered store\<close>
named_theorems bank_simps \<open>what bank operations do to balances\<close>

section \<open>Results: errors and panics\<close>

text \<open>
  A keeper method returns an error or panics. Both discard the writes of the running transaction
  (the SDK executes a message on a branched store and commits it on success only), so a failing
  operation is its fault and nothing else. The string is the name of the registered error or the
  panic message of the source.
\<close>

datatype fault = Err string | Panic string

type_synonym 'a result = "fault + 'a"

definition bnd :: "'a result \<Rightarrow> ('a \<Rightarrow> 'b result) \<Rightarrow> 'b result" where
  "bnd m f = (case m of Inl e \<Rightarrow> Inl e | Inr x \<Rightarrow> f x)"

definition panic_on_err :: "'a result \<Rightarrow> 'a result" where
  \<comment> \<open>the idiom \<open>if err != nil { panic(err) }\<close>\<close>
  "panic_on_err m = (case m of Inl (Err e) \<Rightarrow> Inl (Panic e) | Inl (Panic e) \<Rightarrow> Inl (Panic e) | Inr x \<Rightarrow> Inr x)"

lemma bnd_Inl [simp, result_simps]: "bnd (Inl e) f = Inl e"
  and bnd_Inr [simp, result_simps]: "bnd (Inr x) f = f x"
  by (simp_all add: bnd_def)

lemma bnd_eq_Inr [simp, result_simps]: "bnd m f = Inr y \<longleftrightarrow> (\<exists>x. m = Inr x \<and> f x = Inr y)"
  by (simp add: bnd_def split: sum.splits)

lemma bnd_eq_Inl [result_simps]:
  "bnd m f = Inl e \<longleftrightarrow> m = Inl e \<or> (\<exists>x. m = Inr x \<and> f x = Inl e)"
  by (auto simp: bnd_def split: sum.splits)

lemma panic_on_err_Inr [simp, result_simps]: "panic_on_err m = Inr x \<longleftrightarrow> m = Inr x"
  by (auto simp: panic_on_err_def split: sum.splits fault.splits)

lemma bnd_assoc: "bnd (bnd m f) g = bnd m (\<lambda>x. bnd (f x) g)"
  by (simp add: bnd_def split: sum.splits)

lemma bnd_cong [fundef_cong]:
  "m = m' \<Longrightarrow> (\<And>x. m' = Inr x \<Longrightarrow> f x = f' x) \<Longrightarrow> bnd m f = bnd m' f'"
  by (simp add: bnd_def split: sum.splits)

text \<open>Indexing a Go slice.\<close>

definition idx :: "'a list \<Rightarrow> nat \<Rightarrow> 'a result" where
  "idx xs i = (if i < length xs then Inr (xs ! i) else Inl (Panic ''index out of range''))"

lemma idx_Inr [simp]: "idx xs i = Inr x \<longleftrightarrow> i < length xs \<and> x = xs ! i"
  by (auto simp: idx_def)

text \<open>A Go loop that stops at the first error: the accumulator is threaded through the list.\<close>

fun foldR :: "('a \<Rightarrow> 's \<Rightarrow> 's result) \<Rightarrow> 'a list \<Rightarrow> 's \<Rightarrow> 's result" where
  "foldR f [] s = Inr s"
| "foldR f (x # xs) s = bnd (f x s) (foldR f xs)"

lemma foldR_append: "foldR f (xs @ ys) s = bnd (foldR f xs s) (foldR f ys)"
  by (induction xs arbitrary: s) (auto simp: bnd_def split: sum.splits)

lemma foldR_fold: "foldR (\<lambda>x s. Inr (f x s)) xs s = Inr (fold f xs s)"
  by (induction xs arbitrary: s) auto

lemma foldR_invariant:
  assumes "foldR f xs s = Inr t" and "P s"
    and "\<And>x s s'. x \<in> set xs \<Longrightarrow> P s \<Longrightarrow> f x s = Inr s' \<Longrightarrow> P s'"
  shows "P t"
  using assms
proof (induction xs arbitrary: s)
  case (Cons x xs)
  from Cons.prems(1) obtain s1 where s1: "f x s = Inr s1" "foldR f xs s1 = Inr t" by auto
  have "P s1" using Cons.prems(2,3) s1(1) by auto
  then show ?case using Cons.IH [OF s1(2)] Cons.prems(3) by auto
qed simp

section \<open>Go runtime\<close>

type_synonym uint64 = "64 word"

text \<open>Two's complement wrap-around of \<open>int64\<close> (so also of \<open>time.Duration\<close>).\<close>

definition int64_wrap :: "int \<Rightarrow> int" where
  "int64_wrap x = (x + 2 ^ 63) mod 2 ^ 64 - 2 ^ 63"

lemma int64_wrap_id: "- (2 ^ 63) \<le> x \<Longrightarrow> x < 2 ^ 63 \<Longrightarrow> int64_wrap x = x"
  by (simp add: int64_wrap_def)

text \<open>\<open>big.Int.Quo\<close>: truncated division. The sources divide by positive numbers.\<close>

definition Quo :: "int \<Rightarrow> int \<Rightarrow> int" where
  "Quo a b = sgn a * sgn b * (\<bar>a\<bar> div \<bar>b\<bar>)"

lemma Quo_nonneg [simp]: "0 \<le> a \<Longrightarrow> 0 < b \<Longrightarrow> Quo a b = a div b"
  by (cases "a = 0") (auto simp: Quo_def)

text \<open>
  \<open>strings.TrimSpace(s) == ""\<close> is \<open>list_all isSpace s\<close>, with the white space of ASCII text;
  \<open>strings.Split\<close> is needed on a one-character separator.
\<close>

definition isSpace :: "char \<Rightarrow> bool" where
  "isSpace c \<longleftrightarrow> c \<in> {CHR 0x09, CHR 0x0A, CHR 0x0B, CHR 0x0C, CHR 0x0D, CHR '' ''}"

fun strings_Split :: "char \<Rightarrow> string \<Rightarrow> string list" where
  "strings_Split c [] = [[]]"
| "strings_Split c (x # xs) =
     (if x = c then [] # strings_Split c xs
      else case strings_Split c xs of [] \<Rightarrow> [[x]] | t # ts \<Rightarrow> (x # t) # ts)"

lemma strings_Split_nonempty [simp]: "strings_Split c s \<noteq> []"
  by (induction c s rule: strings_Split.induct) (auto split: list.splits)

lemma strings_Split_single: "c \<notin> set s \<Longrightarrow> strings_Split c s = [s]"
  by (induction s) auto

lemma strings_Split_pair: "c \<notin> set a \<Longrightarrow> strings_Split c (a @ c # b) = a # strings_Split c b"
  by (induction a) auto

lemma strings_Split_eq_single: "strings_Split c s = [t] \<Longrightarrow> t = s \<and> c \<notin> set s"
  by (induction s arbitrary: t) (auto split: if_splits list.splits)

lemma strings_Split_eq_pair:
  "strings_Split c s = [a, b] \<Longrightarrow> s = a @ c # b \<and> c \<notin> set a \<and> c \<notin> set b"
proof (induction s arbitrary: a)
  case (Cons x xs)
  then show ?case
    by (auto split: if_splits list.splits dest: strings_Split_eq_single)
qed simp

text \<open>
  Times are nanoseconds since the epoch; a duration is a number of nanoseconds that fits in an
  \<open>int64\<close>. \<open>Time.Sub\<close> saturates at the ends of that range.
\<close>

type_synonym time = int
type_synonym duration = int

abbreviation (input) second :: duration where "second \<equiv> 1000000000"
abbreviation (input) minute :: duration where "minute \<equiv> 60000000000"

definition time_Sub :: "time \<Rightarrow> time \<Rightarrow> duration" where
  "time_Sub t u = max (- (2 ^ 63)) (min (2 ^ 63 - 1) (t - u))"

definition time_Unix :: "time \<Rightarrow> int" where
  "time_Unix t = t div second"

section \<open>Cosmos SDK values\<close>

type_synonym address = string
type_synonym denom = string

datatype coin = Coin (Denom: denom) (Amount: int)

type_synonym coins = "coin list"

text \<open>
  \<open>sdk.Dec\<close> is a fixed-point number with 18 decimals. A value is its number of \<open>10\<^sup>-\<^sup>1\<^sup>8\<close> units.
\<close>

type_synonym dec = int

abbreviation (input) Precision :: int where "Precision \<equiv> 1000000000000000000"

definition OneDec :: dec where "OneDec = Precision"

definition NewDecFromInt :: "int \<Rightarrow> dec" where "NewDecFromInt n = n * Precision"

text \<open>
  The number types of \<open>cosmossdk.io/math\<close> are not part of this repository. What they round and
  when they overflow is the parameter \<open>sdk_math\<close>: \<open>IntInRange\<close> tells the values an
  \<open>sdkmath.Int\<close> holds (an operation whose result is outside panics), the \<open>Dec\<close> operations
  return the rounded decimal or a panic, \<open>DecInRange\<close> is the range of the decimals, and \<open>ValidDenom\<close> is \<open>sdk.ValidateDenom(d) == nil\<close>.
\<close>

record sdk_math =
  IntInRange :: "int \<Rightarrow> bool"
  DecMul :: "dec \<Rightarrow> dec \<Rightarrow> dec result"
  DecQuo :: "dec \<Rightarrow> dec \<Rightarrow> dec result"
  DecTruncateInt :: "dec \<Rightarrow> int result"
  DecRoundInt :: "dec \<Rightarrow> int result"
  DecCeil :: "dec \<Rightarrow> dec result"
  DecInRange :: "dec \<Rightarrow> bool"
  ValidDenom :: "denom \<Rightarrow> bool"

abbreviation overflow :: fault where "overflow \<equiv> Panic ''overflow''"

text \<open>\<open>NewIntFromBigInt\<close>, \<open>Add\<close>, \<open>Sub\<close>, \<open>Mul\<close>: exact, or a panic out of range.\<close>

definition toInt :: "sdk_math \<Rightarrow> int \<Rightarrow> int result" where
  "toInt m x = (if IntInRange m x then Inr x else Inl overflow)"

lemma toInt_Inr [simp]: "toInt m x = Inr y \<longleftrightarrow> IntInRange m x \<and> y = x"
  and toInt_Inl [simp]: "toInt m x = Inl e \<longleftrightarrow> \<not> IntInRange m x \<and> e = overflow"
  by (auto simp: toInt_def)

text \<open>\<open>Dec.Add\<close>, \<open>Sub\<close>, \<open>MulInt\<close>: likewise, with the range of the decimals.\<close>

definition toDec :: "sdk_math \<Rightarrow> dec \<Rightarrow> dec result" where
  "toDec m x = (if DecInRange m x then Inr x else Inl overflow)"

lemma toDec_Inr [simp]: "toDec m x = Inr y \<longleftrightarrow> DecInRange m x \<and> y = x"
  by (auto simp: toDec_def)

text \<open>
  The documented behaviour of the decimals: \<open>Mul\<close>, \<open>Quo\<close> and \<open>RoundInt\<close> round to a nearest
  value, \<open>TruncateInt\<close> drops the fraction, \<open>Ceil\<close> goes up to the next whole number, and the only
  failures are overflow and division by zero. The range of the integers is bounded by magnitude.
\<close>

definition mul_law :: "sdk_math \<Rightarrow> bool" where
  "mul_law m \<longleftrightarrow>
     (\<forall>a b c. DecMul m a b = Inr c \<longrightarrow> 2 * \<bar>c * Precision - a * b\<bar> \<le> Precision) \<and>
     (\<forall>a b e. DecMul m a b = Inl e \<longrightarrow> e = overflow)"

definition quo_law :: "sdk_math \<Rightarrow> bool" where
  "quo_law m \<longleftrightarrow>
     (\<forall>a b c. DecQuo m a b = Inr c \<longrightarrow> b \<noteq> 0 \<and> 2 * \<bar>c * b - a * Precision\<bar> \<le> \<bar>b\<bar>) \<and>
     (\<forall>a b e. DecQuo m a b = Inl e \<longrightarrow> b \<noteq> 0 \<longrightarrow> e = overflow)"

definition round_law :: "sdk_math \<Rightarrow> bool" where
  "round_law m \<longleftrightarrow>
     (\<forall>a n. DecTruncateInt m a = Inr n \<longrightarrow> n = Quo a Precision) \<and>
     (\<forall>a n. DecRoundInt m a = Inr n \<longrightarrow> 2 * \<bar>n * Precision - a\<bar> \<le> Precision) \<and>
     (\<forall>a c. DecCeil m a = Inr c \<longrightarrow> c = - ((- a) div Precision) * Precision) \<and>
     (\<forall>a e. DecTruncateInt m a = Inl e \<or> DecRoundInt m a = Inl e \<or> DecCeil m a = Inl e
        \<longrightarrow> e = overflow)"

definition range_law :: "sdk_math \<Rightarrow> bool" where
  "range_law m \<longleftrightarrow>
     IntInRange m 0 \<and> (\<forall>x y. IntInRange m x \<longrightarrow> \<bar>y\<bar> \<le> \<bar>x\<bar> \<longrightarrow> IntInRange m y)"

definition math_laws :: "sdk_math \<Rightarrow> bool" where
  "math_laws m \<longleftrightarrow> range_law m \<and> mul_law m \<and> quo_law m \<and> round_law m"

lemma IntInRange_le: "math_laws m \<Longrightarrow> IntInRange m x \<Longrightarrow> 0 \<le> y \<Longrightarrow> y \<le> x \<Longrightarrow> IntInRange m y"
  unfolding math_laws_def range_law_def by (metis abs_of_nonneg order_trans)

lemma DecMul_bound:
  "math_laws m \<Longrightarrow> DecMul m a b = Inr c \<Longrightarrow> 2 * \<bar>c * Precision - a * b\<bar> \<le> Precision"
  unfolding math_laws_def mul_law_def by blast

lemma DecQuo_bound:
  "math_laws m \<Longrightarrow> DecQuo m a b = Inr c \<Longrightarrow> 0 < b \<Longrightarrow> 2 * \<bar>c * b - a * Precision\<bar> \<le> b"
  unfolding math_laws_def quo_law_def using abs_of_pos by metis

lemma DecRoundInt_bound:
  "math_laws m \<Longrightarrow> DecRoundInt m a = Inr n \<Longrightarrow> 2 * \<bar>n * Precision - a\<bar> \<le> Precision"
  unfolding math_laws_def round_law_def by blast

lemma nearest_multiple_unique:
  fixes p :: int
  assumes "0 < p" "2 * \<bar>c * p - k * p\<bar> \<le> p"
  shows "c = k"
proof (rule ccontr)
  define x where "x = \<bar>c * p - k * p\<bar>"
  assume "c \<noteq> k"
  then have "1 * p \<le> \<bar>c - k\<bar> * p" using \<open>0 < p\<close> by (intro mult_right_mono) auto
  also have "\<dots> = x"
    unfolding x_def using \<open>0 < p\<close> by (metis abs_mult abs_of_pos left_diff_distrib)
  finally have "p \<le> x" by simp
  then show False using assms unfolding x_def [symmetric] by linarith
qed

lemma DecMul_exact:
  assumes "math_laws m" "DecMul m a b = Inr c" "a * b = k * Precision"
  shows "c = k"
  using DecMul_bound [OF assms(1,2)] unfolding assms(3)
  by (rule nearest_multiple_unique [rotated]) simp

lemma math_faults:
  assumes "math_laws m"
  shows "DecMul m a b = Inl e \<Longrightarrow> e = overflow"
    and "b \<noteq> 0 \<Longrightarrow> DecQuo m a b = Inl e \<Longrightarrow> e = overflow"
    and "DecTruncateInt m a = Inl e \<Longrightarrow> e = overflow"
    and "DecRoundInt m a = Inl e \<Longrightarrow> e = overflow"
    and "DecCeil m a = Inl e \<Longrightarrow> e = overflow"
  using assms by (auto simp: math_laws_def mul_law_def quo_law_def round_law_def)

text \<open>A rounding error below one unit cannot cross a multiple of the divisor.\<close>

lemma DecQuo_lower:
  assumes "math_laws m" "DecQuo m a b = Inr c" "0 < b" "k * b \<le> a * Precision"
  shows "k \<le> c"
proof (rule ccontr)
  assume "\<not> k \<le> c"
  then have "c * b \<le> (k - 1) * b" using \<open>0 < b\<close> by (intro mult_right_mono) auto
  moreover have "2 * \<bar>c * b - a * Precision\<bar> \<le> b"
    by (rule DecQuo_bound [OF assms(1-3)])
  ultimately show False using assms(3,4) by (simp add: algebra_simps abs_le_iff)
qed

lemma DecQuo_upper:
  assumes "math_laws m" "DecQuo m a b = Inr c" "0 < b" "a * Precision \<le> k * b"
  shows "c \<le> k"
proof (rule ccontr)
  assume "\<not> c \<le> k"
  then have "(k + 1) * b \<le> c * b" using \<open>0 < b\<close> by (intro mult_right_mono) auto
  moreover have "2 * \<bar>c * b - a * Precision\<bar> \<le> b"
    by (rule DecQuo_bound [OF assms(1-3)])
  ultimately show False using assms(3,4) by (simp add: algebra_simps abs_le_iff)
qed

lemma DecTruncateInt_nonneg:
  "math_laws m \<Longrightarrow> DecTruncateInt m a = Inr n \<Longrightarrow> 0 \<le> a \<Longrightarrow> n = a div Precision"
  unfolding math_laws_def round_law_def by (metis Quo_nonneg zero_less_numeral)

lemma DecCeil_whole:
  assumes "math_laws m" "DecCeil m a = Inr c"
  shows "c = - ((- a) div Precision) * Precision"
  using assms unfolding math_laws_def round_law_def by blast

section \<open>Coins\<close>

text \<open>Single coins: \<open>NewCoin\<close>, \<open>Coin.Add\<close>, \<open>Coin.Sub\<close>, \<open>Coin.IsLT\<close> and their panics.\<close>

definition NewCoin :: "sdk_math \<Rightarrow> denom \<Rightarrow> int \<Rightarrow> coin result" where
  "NewCoin m d a =
     (if \<not> ValidDenom m d then Inl (Panic ''invalid denom'')
      else if a < 0 then Inl (Panic ''negative coin amount'')
      else Inr (Coin d a))"

definition coin_Add :: "sdk_math \<Rightarrow> coin \<Rightarrow> coin \<Rightarrow> coin result" where
  "coin_Add m c1 c2 =
     (if Denom c1 \<noteq> Denom c2 then Inl (Panic ''invalid coin denominations'')
      else bnd (toInt m (Amount c1 + Amount c2)) (\<lambda>a. Inr (Coin (Denom c1) a)))"

definition coin_Sub :: "sdk_math \<Rightarrow> coin \<Rightarrow> coin \<Rightarrow> coin result" where
  "coin_Sub m c1 c2 =
     (if Denom c1 \<noteq> Denom c2 then Inl (Panic ''invalid coin denominations'')
      else if Amount c1 - Amount c2 < 0 then Inl (Panic ''negative coin amount'')
      else bnd (toInt m (Amount c1 - Amount c2)) (\<lambda>a. Inr (Coin (Denom c1) a)))"

definition coin_IsLT :: "coin \<Rightarrow> coin \<Rightarrow> bool result" where
  "coin_IsLT c1 c2 =
     (if Denom c1 \<noteq> Denom c2 then Inl (Panic ''invalid coin denominations'')
      else Inr (Amount c1 < Amount c2))"

definition coin_IsValid :: "sdk_math \<Rightarrow> coin \<Rightarrow> bool" where
  "coin_IsValid m c \<longleftrightarrow> ValidDenom m (Denom c) \<and> 0 \<le> Amount c"

text \<open>
  A coin set lists positive coins in increasing order of their denominations; \<open>AmountOf\<close> looks a
  denomination up.
\<close>

fun AmountOf :: "coins \<Rightarrow> denom \<Rightarrow> int" where
  "AmountOf [] d = 0"
| "AmountOf (c # cs) d = (if Denom c = d then Amount c else AmountOf cs d)"

definition coins_Valid :: "sdk_math \<Rightarrow> coins \<Rightarrow> bool" where
  "coins_Valid m cs \<longleftrightarrow>
     sorted_wrt (<) (map Denom cs) \<and> (\<forall>c\<in>set cs. 0 < Amount c \<and> ValidDenom m (Denom c))"

lemma AmountOf_notin: "d \<notin> Denom ` set cs \<Longrightarrow> AmountOf cs d = 0"
  by (induction cs) auto

lemma coins_Valid_Cons:
  "coins_Valid m (c # cs) \<longleftrightarrow>
     0 < Amount c \<and> ValidDenom m (Denom c) \<and> (\<forall>d\<in>Denom ` set cs. Denom c < d) \<and> coins_Valid m cs"
  by (auto simp: coins_Valid_def)

lemma AmountOf_valid:
  assumes "coins_Valid m cs"
  shows "0 \<le> AmountOf cs d" "d \<in> Denom ` set cs \<Longrightarrow> 0 < AmountOf cs d \<and> ValidDenom m d"
  using assms by (induction cs) (auto simp: coins_Valid_def)

lemma AmountOf_single: "AmountOf [c] d = (if Denom c = d then Amount c else 0)"
  by simp

text \<open>Coin sets are determined by their amounts.\<close>

lemma coins_Valid_denoms: "coins_Valid m cs \<Longrightarrow> Denom ` set cs = {d. AmountOf cs d \<noteq> 0}"
  using AmountOf_valid(2) AmountOf_notin by fastforce

lemma coins_Valid_eqI:
  assumes "coins_Valid m a" "coins_Valid m b" "\<And>d. AmountOf a d = AmountOf b d"
  shows "a = b"
proof -
  have sorted: "sorted_wrt (<) (map Denom a)" "sorted_wrt (<) (map Denom b)"
    using assms(1,2) by (simp_all add: coins_Valid_def)
  have "set (map Denom a) = set (map Denom b)"
    using coins_Valid_denoms [OF assms(1)] coins_Valid_denoms [OF assms(2)] assms(3) by simp
  with sorted have ds: "map Denom a = map Denom b"
    by (metis sorted_distinct_set_unique strict_sorted_iff)
  have rebuild: "map (\<lambda>c. Coin (Denom c) (AmountOf cs (Denom c))) cs = cs" if "coins_Valid m cs" for cs
  proof (rule map_idI)
    fix c assume "c \<in> set cs"
    then have "AmountOf cs (Denom c) = Amount c"
      using that by (induction cs) (auto simp: coins_Valid_Cons)
    then show "Coin (Denom c) (AmountOf cs (Denom c)) = c" by simp
  qed
  have "map (\<lambda>d. Coin d (AmountOf a d)) (map Denom a) = map (\<lambda>d. Coin d (AmountOf b d)) (map Denom b)"
    unfolding ds by (simp add: assms(3))
  then show ?thesis
    using rebuild [OF assms(1)] rebuild [OF assms(2)] by (simp add: comp_def)
qed

lemma NewCoin_Inr [simp]:
  "NewCoin m d a = Inr c \<longleftrightarrow> ValidDenom m d \<and> 0 \<le> a \<and> c = Coin d a"
  by (auto simp: NewCoin_def)

lemma coin_Add_Inr [simp]:
  "coin_Add m c1 c2 = Inr c \<longleftrightarrow>
     Denom c1 = Denom c2 \<and> IntInRange m (Amount c1 + Amount c2) \<and>
     c = Coin (Denom c1) (Amount c1 + Amount c2)"
  by (auto simp: coin_Add_def)

lemma coin_Sub_Inr [simp]:
  "coin_Sub m c1 c2 = Inr c \<longleftrightarrow>
     Denom c1 = Denom c2 \<and> Amount c2 \<le> Amount c1 \<and> IntInRange m (Amount c1 - Amount c2) \<and>
     c = Coin (Denom c1) (Amount c1 - Amount c2)"
  by (auto simp: coin_Sub_def)

lemma coin_IsLT_Inr [simp]:
  "coin_IsLT c1 c2 = Inr b \<longleftrightarrow> Denom c1 = Denom c2 \<and> b = (Amount c1 < Amount c2)"
  by (auto simp: coin_IsLT_def)

section \<open>Cosmos SDK services\<close>

text \<open>
  Coin sets and the bank and account keepers live outside this repository as well. \<open>'b\<close> is
  whatever state those modules keep; the fields are the calls the modules make.
  \<open>NewCoins\<close> and \<open>CoinsAdd\<close> build coin sets, \<open>ModuleAddress\<close> is
  \<open>authtypes.NewModuleAddress\<close>, \<open>HasAccount\<close> is \<open>GetAccount(..) != nil\<close>.
\<close>

record 'b sdk =
  Math :: sdk_math
  NewCoins :: "coin list \<Rightarrow> coins result"
  CoinsAdd :: "coins \<Rightarrow> coins \<Rightarrow> coins result"
  CoinsIsEqual :: "coins \<Rightarrow> coins \<Rightarrow> bool result"
  ModuleAddress :: "string \<Rightarrow> address"
  HasAccount :: "'b \<Rightarrow> address \<Rightarrow> bool"
  IsModuleAccount :: "'b \<Rightarrow> address \<Rightarrow> bool"
  HasModuleAccount :: "'b \<Rightarrow> string \<Rightarrow> bool"
  CanMint :: "'b \<Rightarrow> string \<Rightarrow> bool"
  CanBurn :: "'b \<Rightarrow> string \<Rightarrow> bool"
  RegisterAccount :: "'b \<Rightarrow> address \<Rightarrow> 'b"
  GetBalance :: "'b \<Rightarrow> address \<Rightarrow> denom \<Rightarrow> int"
  GetAllBalances :: "'b \<Rightarrow> address \<Rightarrow> coins"
  SpendableCoins :: "'b \<Rightarrow> address \<Rightarrow> coins"
  GetSupply :: "'b \<Rightarrow> denom \<Rightarrow> int"
  SendCoins :: "'b \<Rightarrow> address \<Rightarrow> address \<Rightarrow> coins \<Rightarrow> 'b result"
  SendCoinsFromAccountToModule :: "'b \<Rightarrow> address \<Rightarrow> string \<Rightarrow> coins \<Rightarrow> 'b result"
  SendCoinsFromModuleToAccount :: "'b \<Rightarrow> string \<Rightarrow> address \<Rightarrow> coins \<Rightarrow> 'b result"
  SendCoinsFromModuleToModule :: "'b \<Rightarrow> string \<Rightarrow> string \<Rightarrow> coins \<Rightarrow> 'b result"
  MintCoins :: "'b \<Rightarrow> string \<Rightarrow> coins \<Rightarrow> 'b result"
  BurnCoins :: "'b \<Rightarrow> string \<Rightarrow> coins \<Rightarrow> 'b result"

text \<open>
  The documented behaviour the modules rely on. \<open>NewCoins\<close> drops zero coins and sorts, and panics
  exactly when what is left is no coin set. A transfer that succeeds moves the amount and nothing
  else; minting and burning change one balance and the supply.
\<close>

definition new_coins_law :: "'b sdk \<Rightarrow> bool" where
  "new_coins_law S \<longleftrightarrow>
     (\<forall>cs r. NewCoins S cs = Inr r \<longleftrightarrow>
        r = sort_key Denom (filter (\<lambda>c. Amount c \<noteq> 0) cs) \<and> coins_Valid (Math S) r)"

definition coins_add_law :: "'b sdk \<Rightarrow> bool" where
  "coins_add_law S \<longleftrightarrow>
     (\<forall>a b r. CoinsAdd S a b = Inr r \<longrightarrow> coins_Valid (Math S) a \<longrightarrow> coins_Valid (Math S) b \<longrightarrow>
        coins_Valid (Math S) r \<and> (\<forall>d. AmountOf r d = AmountOf a d + AmountOf b d)) \<and>
     (\<forall>a b. coins_Valid (Math S) a \<longrightarrow> coins_Valid (Math S) b \<longrightarrow>
        (\<forall>d. IntInRange (Math S) (AmountOf a d + AmountOf b d)) \<longrightarrow> (\<exists>r. CoinsAdd S a b = Inr r)) \<and>
     (\<forall>a b. coins_Valid (Math S) a \<longrightarrow> coins_Valid (Math S) b \<longrightarrow>
        (CoinsIsEqual S a b = Inr True \<longleftrightarrow> a = b))"

definition moved :: "'b sdk \<Rightarrow> 'b \<Rightarrow> 'b \<Rightarrow> address \<Rightarrow> address \<Rightarrow> coins \<Rightarrow> bool" where
  "moved S b b' x y cs \<longleftrightarrow>
     (\<forall>a d. GetBalance S b' a d =
        GetBalance S b a d - (if a = x then AmountOf cs d else 0) + (if a = y then AmountOf cs d else 0)) \<and>
     (\<forall>d. GetSupply S b' d = GetSupply S b d)"

definition send_law :: "'b sdk \<Rightarrow> bool" where
  "send_law S \<longleftrightarrow>
     (\<forall>b b' x y cs. SendCoins S b x y cs = Inr b' \<longrightarrow> moved S b b' x y cs) \<and>
     (\<forall>b b' x y cs. SendCoinsFromAccountToModule S b x y cs = Inr b' \<longrightarrow>
        moved S b b' x (ModuleAddress S y) cs) \<and>
     (\<forall>b b' x y cs. SendCoinsFromModuleToAccount S b x y cs = Inr b' \<longrightarrow>
        moved S b b' (ModuleAddress S x) y cs) \<and>
     (\<forall>b b' x y cs. SendCoinsFromModuleToModule S b x y cs = Inr b' \<longrightarrow>
        moved S b b' (ModuleAddress S x) (ModuleAddress S y) cs)"

definition mint_law :: "'b sdk \<Rightarrow> bool" where
  "mint_law S \<longleftrightarrow>
     (\<forall>b b' x cs. MintCoins S b x cs = Inr b' \<longrightarrow>
        (\<forall>a d. GetBalance S b' a d =
           GetBalance S b a d + (if a = ModuleAddress S x then AmountOf cs d else 0)) \<and>
        (\<forall>d. GetSupply S b' d = GetSupply S b d + AmountOf cs d)) \<and>
     (\<forall>b b' x cs. BurnCoins S b x cs = Inr b' \<longrightarrow>
        (\<forall>a d. GetBalance S b' a d =
           GetBalance S b a d - (if a = ModuleAddress S x then AmountOf cs d else 0)) \<and>
        (\<forall>d. GetSupply S b' d = GetSupply S b d - AmountOf cs d))"

definition account_law :: "'b sdk \<Rightarrow> bool" where
  "account_law S \<longleftrightarrow>
     (\<forall>b a. GetBalance S (RegisterAccount S b a) = GetBalance S b) \<and>
     (\<forall>b a. GetSupply S (RegisterAccount S b a) = GetSupply S b) \<and>
     (\<forall>b a d. AmountOf (GetAllBalances S b a) d = GetBalance S b a d) \<and>
     (\<forall>b a. coins_Valid (Math S) (GetAllBalances S b a)) \<and>
     (\<forall>b a d. 0 \<le> GetBalance S b a d \<and> IntInRange (Math S) (GetBalance S b a d)) \<and>
     inj (ModuleAddress S) \<and> (\<forall>n. ModuleAddress S n \<noteq> [])"

text \<open>
  Denominations are non-empty and never contain the character \<open>|\<close>, which the share store uses as
  a separator in its keys.
\<close>

definition denom_law :: "sdk_math \<Rightarrow> bool" where
  "denom_law m \<longleftrightarrow> (\<forall>d. ValidDenom m d \<longrightarrow> d \<noteq> [] \<and> CHR ''|'' \<notin> set d)"

definition sdk_laws :: "'b sdk \<Rightarrow> bool" where
  "sdk_laws S \<longleftrightarrow> math_laws (Math S) \<and> denom_law (Math S) \<and> new_coins_law S \<and> coins_add_law S \<and>
     send_law S \<and> mint_law S \<and> account_law S"

lemma sdk_lawsD:
  assumes "sdk_laws S"
  shows "math_laws (Math S)" "denom_law (Math S)" "new_coins_law S" "coins_add_law S" "send_law S" "mint_law S"
    "account_law S"
  using assms by (simp_all add: sdk_laws_def)

section \<open>What bank calls do to balances\<close>

definition coin_amt :: "coin \<Rightarrow> denom \<Rightarrow> int" where
  "coin_amt c d = (if d = Denom c then Amount c else 0)"

lemma NewCoins_one:
  assumes "sdk_laws S" "NewCoins S [c] = Inr r"
  shows "AmountOf r d = coin_amt c d" "0 \<le> Amount c"
proof -
  have r: "r = sort_key Denom (filter (\<lambda>c. Amount c \<noteq> 0) [c])" "coins_Valid (Math S) r"
    using sdk_lawsD(3) [OF assms(1)] assms(2) unfolding new_coins_law_def by blast+
  show "AmountOf r d = coin_amt c d" using r(1) by (simp add: coin_amt_def)
  show "0 \<le> Amount c" using r by (cases "Amount c = 0") (simp_all add: coins_Valid_def)
qed

lemma CoinsAdd_ok:
  assumes "sdk_laws S" "coins_Valid (Math S) a" "coins_Valid (Math S) b"
    "\<And>d. IntInRange (Math S) (AmountOf a d + AmountOf b d)"
  obtains r where "CoinsAdd S a b = Inr r" "coins_Valid (Math S) r" "\<forall>d. AmountOf r d = AmountOf a d + AmountOf b d"
proof -
  note law = sdk_lawsD(4) [OF assms(1), unfolded coins_add_law_def]
  obtain r where r: "CoinsAdd S a b = Inr r" using law assms(2-4) by blast
  moreover have "coins_Valid (Math S) r \<and> (\<forall>d. AmountOf r d = AmountOf a d + AmountOf b d)"
    using law assms(2,3) r by blast
  ultimately show ?thesis using that by blast
qed

lemma CoinsAdd_amount:
  assumes "sdk_laws S" "coins_Valid (Math S) a" "coins_Valid (Math S) b" "CoinsAdd S a b = Inr r"
  shows "coins_Valid (Math S) r" "AmountOf r d = AmountOf a d + AmountOf b d"
  using sdk_lawsD(4) [OF assms(1), unfolded coins_add_law_def] assms(2-4) by blast+

lemma CoinsIsEqual_iff:
  "sdk_laws S \<Longrightarrow> coins_Valid (Math S) a \<Longrightarrow> coins_Valid (Math S) b \<Longrightarrow> CoinsIsEqual S a b = Inr True \<longleftrightarrow> a = b"
  using sdk_lawsD(4) unfolding coins_add_law_def by blast

lemma NewCoins_valid: "sdk_laws S \<Longrightarrow> NewCoins S cs = Inr r \<Longrightarrow> coins_Valid (Math S) r"
  using sdk_lawsD(3) unfolding new_coins_law_def by blast

lemma NewCoins_one_total:
  assumes "sdk_laws S" "coin_IsValid (Math S) c"
  obtains r where "NewCoins S [c] = Inr r"
proof -
  have "coins_Valid (Math S) (sort_key Denom (filter (\<lambda>c. Amount c \<noteq> 0) [c]))"
    using assms(2) by (auto simp: coin_IsValid_def coins_Valid_def)
  then show ?thesis using that sdk_lawsD(3) [OF assms(1)] unfolding new_coins_law_def by blast
qed

lemma balances:
  assumes "sdk_laws S"
  shows "AmountOf (GetAllBalances S b a) d = GetBalance S b a d" "coins_Valid (Math S) (GetAllBalances S b a)"
    "IntInRange (Math S) (GetBalance S b a d)" "0 \<le> GetBalance S b a d"
  using sdk_lawsD(7) [OF assms] unfolding account_law_def by auto

lemma sends:
  assumes "sdk_laws S"
  shows "SendCoins S b x y cs = Inr b' \<Longrightarrow> moved S b b' x y cs"
    and "SendCoinsFromAccountToModule S b x n cs = Inr b' \<Longrightarrow> moved S b b' x (ModuleAddress S n) cs"
    and "SendCoinsFromModuleToAccount S b n y cs = Inr b' \<Longrightarrow> moved S b b' (ModuleAddress S n) y cs"
    and "SendCoinsFromModuleToModule S b n k cs = Inr b' \<Longrightarrow> moved S b b' (ModuleAddress S n) (ModuleAddress S k) cs"
  using sdk_lawsD(5) [OF assms] unfolding send_law_def by blast+

lemma mints:
  assumes "sdk_laws S"
  shows "MintCoins S b n cs = Inr b' \<Longrightarrow>
      GetBalance S b' a d = GetBalance S b a d + (if a = ModuleAddress S n then AmountOf cs d else 0)"
    and "BurnCoins S b n cs = Inr b' \<Longrightarrow>
      GetBalance S b' a d = GetBalance S b a d - (if a = ModuleAddress S n then AmountOf cs d else 0)"
    and "MintCoins S b n cs = Inr b' \<Longrightarrow> GetSupply S b' d = GetSupply S b d + AmountOf cs d"
    and "BurnCoins S b n cs = Inr b' \<Longrightarrow> GetSupply S b' d = GetSupply S b d - AmountOf cs d"
  using sdk_lawsD(6) [OF assms] unfolding mint_law_def by blast+

lemma moved_balance:
  "moved S b b' x y cs \<Longrightarrow> GetBalance S b' a d =
     GetBalance S b a d - (if a = x then AmountOf cs d else 0) + (if a = y then AmountOf cs d else 0)"
  and moved_supply: "moved S b b' x y cs \<Longrightarrow> GetSupply S b' d = GetSupply S b d"
  by (simp_all add: moved_def)

lemma ModuleAddress_eq: "sdk_laws S \<Longrightarrow> ModuleAddress S n = ModuleAddress S k \<longleftrightarrow> n = k"
  using sdk_lawsD(7) unfolding account_law_def by (metis injD)

lemma ModuleAddress_nonempty: "sdk_laws S \<Longrightarrow> ModuleAddress S n \<noteq> []"
  using sdk_lawsD(7) unfolding account_law_def by blast

end
