(* ===== verification/Sdk_Reference.thy ===== *)
theory Sdk_Reference
  imports Sdk_Prelude
begin

text \<open>
  A concrete instance of the SDK parameters that satisfies their laws: 256-bit integers, decimals
  rounded half up, and a ledger of balances. The components never mention it; it shows that the
  hypotheses of the theorems can hold, at the inputs their witnesses choose.
\<close>

section \<open>Numbers\<close>

definition nearest :: "int \<Rightarrow> int \<Rightarrow> int" where
  "nearest a b = (2 * a + b) div (2 * b)"

lemma nearest_bound:
  assumes "0 < b"
  shows "2 * \<bar>nearest a b * b - a\<bar> \<le> b"
proof -
  have e: "2 * a + b = nearest a b * (2 * b) + (2 * a + b) mod (2 * b)"
    unfolding nearest_def by (rule div_mult_mod_eq [symmetric])
  have "0 \<le> (2 * a + b) mod (2 * b)" "(2 * a + b) mod (2 * b) < 2 * b" using assms by auto
  moreover have "2 * (nearest a b * b - a) = b - (2 * a + b) mod (2 * b)" using e by (simp add: algebra_simps)
  ultimately show ?thesis by linarith
qed

definition dec_range :: "dec \<Rightarrow> dec result" where
  "dec_range x = (if \<bar>x\<bar> < 2 ^ 315 then Inr x else Inl overflow)"

definition int_range :: "int \<Rightarrow> int result" where
  "int_range x = (if \<bar>x\<bar> < 2 ^ 256 then Inr x else Inl overflow)"

definition ref_denom :: "denom \<Rightarrow> bool" where
  "ref_denom d \<longleftrightarrow> 3 \<le> length d \<and> list_all (\<lambda>c. c \<noteq> CHR ''|'') d"

definition ref_math :: sdk_math where
  "ref_math = \<lparr>
     IntInRange = (\<lambda>x. \<bar>x\<bar> < 2 ^ 256),
     DecMul = (\<lambda>a b. dec_range (nearest (a * b) Precision)),
     DecQuo = (\<lambda>a b. if b = 0 then Inl (Panic ''division by zero'')
                 else dec_range (nearest (a * Precision * sgn b) \<bar>b\<bar>)),
     DecTruncateInt = (\<lambda>a. int_range (Quo a Precision)),
     DecRoundInt = (\<lambda>a. int_range (nearest a Precision)),
     DecCeil = (\<lambda>a. dec_range (- ((- a) div Precision) * Precision)),
     DecInRange = (\<lambda>a. \<bar>a\<bar> < 2 ^ 315),
     ValidDenom = ref_denom\<rparr>"

lemma ranges [simp]:
  "dec_range x = Inr y \<longleftrightarrow> \<bar>x\<bar> < 2 ^ 315 \<and> y = x"
  "dec_range x = Inl e \<longleftrightarrow> \<not> \<bar>x\<bar> < 2 ^ 315 \<and> e = overflow"
  "int_range x = Inr y \<longleftrightarrow> \<bar>x\<bar> < 2 ^ 256 \<and> y = x"
  "int_range x = Inl e \<longleftrightarrow> \<not> \<bar>x\<bar> < 2 ^ 256 \<and> e = overflow"
  by (auto simp: dec_range_def int_range_def)

lemma ref_math_laws: "math_laws ref_math"
proof -
  have "mul_law ref_math"
    using nearest_bound [of Precision] unfolding mul_law_def by (simp add: ref_math_def)
  moreover have "quo_law ref_math"
    unfolding quo_law_def
  proof (intro conjI allI impI)
    fix a b c
    assume q: "DecQuo ref_math a b = Inr c"
    then show b: "b \<noteq> 0" by (auto simp: ref_math_def split: if_splits)
    have c: "c = nearest (a * Precision * sgn b) \<bar>b\<bar>"
      using q b by (simp add: ref_math_def)
    have "2 * \<bar>c * \<bar>b\<bar> - a * Precision * sgn b\<bar> \<le> \<bar>b\<bar>"
      unfolding c using b by (intro nearest_bound) auto
    moreover have "c * b - a * Precision = (c * \<bar>b\<bar> - a * Precision * sgn b) * sgn b"
      using b by (cases "0 < b") (auto simp: algebra_simps)
    moreover have "\<bar>sgn b\<bar> = 1" using b by (simp add: sgn_if)
    ultimately show "2 * \<bar>c * b - a * Precision\<bar> \<le> \<bar>b\<bar>" by (simp only: abs_mult mult_1_right)
  next
    fix a b e
    assume "DecQuo ref_math a b = Inl e" "b \<noteq> 0"
    then show "e = overflow" by (simp add: ref_math_def)
  qed
  moreover have "round_law ref_math"
    using nearest_bound [of Precision] unfolding round_law_def by (auto simp: ref_math_def)
  moreover have "range_law ref_math" unfolding range_law_def by (simp add: ref_math_def)
  ultimately show ?thesis by (simp add: math_laws_def)
qed

section \<open>A ledger\<close>

record ledger =
  lbal :: "((address \<times> denom) \<times> int) list"
  lsupply :: "(denom \<times> int) list"

definition amount_ok :: "denom \<Rightarrow> int \<Rightarrow> bool" where
  "amount_ok d v \<longleftrightarrow> 0 \<le> v \<and> v < 2 ^ 256 \<and> (v \<noteq> 0 \<longrightarrow> ref_denom d)"

definition lget :: "ledger \<Rightarrow> address \<Rightarrow> denom \<Rightarrow> int" where
  "lget l a d = (case map_of (lbal l) (a, d) of None \<Rightarrow> 0 | Some v \<Rightarrow> if amount_ok d v then v else 0)"

definition lsup :: "ledger \<Rightarrow> denom \<Rightarrow> int" where
  "lsup l d = (case map_of (lsupply l) d of None \<Rightarrow> 0 | Some v \<Rightarrow> v)"

definition credit :: "address \<Rightarrow> int \<Rightarrow> coins \<Rightarrow> ledger \<Rightarrow> ledger result" where
  "credit x k cs l =
     (if list_all (\<lambda>c. amount_ok (Denom c) (lget l x (Denom c) + k * AmountOf cs (Denom c))) cs
      then Inr (l\<lparr>lbal :=
        map (\<lambda>c. ((x, Denom c), lget l x (Denom c) + k * AmountOf cs (Denom c))) cs @ lbal l\<rparr>)
      else Inl (Err ''insufficient funds''))"

definition issue :: "int \<Rightarrow> coins \<Rightarrow> ledger \<Rightarrow> ledger" where
  "issue k cs l = l\<lparr>lsupply :=
     map (\<lambda>c. (Denom c, lsup l (Denom c) + k * AmountOf cs (Denom c))) cs @ lsupply l\<rparr>"

definition ledger_send :: "ledger \<Rightarrow> address \<Rightarrow> address \<Rightarrow> coins \<Rightarrow> ledger result" where
  "ledger_send l x y cs = bnd (credit x (- 1) cs l) (credit y 1 cs)"

definition ledger_mint :: "ledger \<Rightarrow> address \<Rightarrow> coins \<Rightarrow> ledger result" where
  "ledger_mint l x cs = bnd (credit x 1 cs l) (\<lambda>l'. Inr (issue 1 cs l'))"

definition ledger_burn :: "ledger \<Rightarrow> address \<Rightarrow> coins \<Rightarrow> ledger result" where
  "ledger_burn l x cs = bnd (credit x (- 1) cs l) (\<lambda>l'. Inr (issue (- 1) cs l'))"

definition ledger_coins :: "ledger \<Rightarrow> address \<Rightarrow> coins" where
  "ledger_coins l a =
     map (\<lambda>d. Coin d (lget l a d))
       (sort (remdups (filter (\<lambda>d. lget l a d \<noteq> 0) (map (\<lambda>((x, d), v). d) (lbal l)))))"

definition module_address :: "string \<Rightarrow> address" where
  "module_address n = ''module/'' @ n"

definition ref_NewCoins :: "coin list \<Rightarrow> coins result" where
  "ref_NewCoins cs = (let r = sort_key Denom (filter (\<lambda>c. Amount c \<noteq> 0) cs) in
     if coins_Valid ref_math r then Inr r else Inl (Panic ''invalid coins''))"

definition ref_CoinsAdd :: "coins \<Rightarrow> coins \<Rightarrow> coins" where
  "ref_CoinsAdd xs ys =
     filter (\<lambda>c. Amount c \<noteq> 0)
       (map (\<lambda>d. Coin d (AmountOf xs d + AmountOf ys d)) (sort (remdups (map Denom (xs @ ys)))))"

definition ref_sdk :: "ledger sdk" where
  "ref_sdk = \<lparr>
     Math = ref_math,
     NewCoins = ref_NewCoins,
     CoinsAdd = (\<lambda>a b. Inr (ref_CoinsAdd a b)),
     CoinsIsEqual = (\<lambda>a b. Inr (a = b)),
     ModuleAddress = module_address,
     HasAccount = (\<lambda>l a. True),
     IsModuleAccount = (\<lambda>l a. take 7 a = ''module/''),
     HasModuleAccount = (\<lambda>l n. True),
     CanMint = (\<lambda>l n. True),
     CanBurn = (\<lambda>l n. True),
     RegisterAccount = (\<lambda>l a. l),
     GetBalance = lget,
     GetAllBalances = ledger_coins,
     SpendableCoins = ledger_coins,
     GetSupply = lsup,
     SendCoins = ledger_send,
     SendCoinsFromAccountToModule = (\<lambda>l x n. ledger_send l x (module_address n)),
     SendCoinsFromModuleToAccount = (\<lambda>l n y. ledger_send l (module_address n) y),
     SendCoinsFromModuleToModule = (\<lambda>l n k. ledger_send l (module_address n) (module_address k)),
     MintCoins = (\<lambda>l n cs. ledger_mint l (module_address n) cs),
     BurnCoins = (\<lambda>l n cs. ledger_burn l (module_address n) cs)\<rparr>"

section \<open>The ledger satisfies the laws\<close>

lemma map_of_updates:
  "map_of (map (\<lambda>c. (f (Denom c), g (Denom c))) cs @ s) k =
     (case find (\<lambda>c. f (Denom c) = k) cs of Some c \<Rightarrow> Some (g (Denom c)) | None \<Rightarrow> map_of s k)"
  by (induction cs) auto

lemma lget_credit:
  assumes "credit x k cs l = Inr l'"
  shows "lget l' a d = lget l a d + (if a = x then k * AmountOf cs d else 0)" "lsup l' d = lsup l d"
proof -
  have ok: "c \<in> set cs \<Longrightarrow> amount_ok (Denom c) (lget l x (Denom c) + k * AmountOf cs (Denom c))" for c
    using assms by (auto simp: credit_def list_all_iff split: if_splits)
  have l': "l' = l\<lparr>lbal :=
      map (\<lambda>c. ((x, Denom c), lget l x (Denom c) + k * AmountOf cs (Denom c))) cs @ lbal l\<rparr>"
    using assms by (auto simp: credit_def split: if_splits)
  show "lsup l' d = lsup l d" by (simp add: l' lsup_def)
  note m = map_of_updates [of "\<lambda>e. (x, e)" "\<lambda>e. lget l x e + k * AmountOf cs e" cs "lbal l" "(a, d)"]
  show "lget l' a d = lget l a d + (if a = x then k * AmountOf cs d else 0)"
  proof (cases "find (\<lambda>c. (x, Denom c) = (a, d)) cs")
    case None
    then have "a = x \<Longrightarrow> AmountOf cs d = 0"
      by (intro AmountOf_notin) (auto simp: find_None_iff)
    then show ?thesis using None m by (auto simp: l' lget_def [of "_\<lparr>lbal := _\<rparr>"] lget_def [of l a d])
  next
    case (Some c)
    then have "x = a" "Denom c = d" "c \<in> set cs" by (auto simp: find_Some_iff)
    then show ?thesis using Some m ok [of c] by (auto simp: l' lget_def [of "_\<lparr>lbal := _\<rparr>"])
  qed
qed

lemma lsup_issue: "lsup (issue k cs l) d = lsup l d + k * AmountOf cs d"
proof (cases "find (\<lambda>c. Denom c = d) cs")
  case None
  then have "AmountOf cs d = 0" by (intro AmountOf_notin) (auto simp: find_None_iff)
  then show ?thesis
    using None map_of_updates [of "\<lambda>e. e" "\<lambda>e. lsup l e + k * AmountOf cs e" cs "lsupply l" d]
    by (simp add: issue_def lsup_def [of "_\<lparr>lsupply := _\<rparr>"] lsup_def [of l d])
next
  case (Some c)
  then have "Denom c = d" by (auto simp: find_Some_iff)
  then show ?thesis
    using Some map_of_updates [of "\<lambda>e. e" "\<lambda>e. lsup l e + k * AmountOf cs e" cs "lsupply l" d]
    by (simp add: issue_def lsup_def [of "_\<lparr>lsupply := _\<rparr>"])
qed

lemma lget_issue [simp]: "lget (issue k cs l) = lget l"
  by (simp add: fun_eq_iff issue_def lget_def)

lemma lget_ok: "amount_ok d (lget l a d)"
  by (auto simp: lget_def amount_ok_def split: option.splits)

lemma AmountOf_map: "AmountOf (map (\<lambda>d. Coin d (f d)) ds) e = (if e \<in> set ds then f e else 0)"
  by (induction ds) auto

lemma ledger_coins:
  "AmountOf (ledger_coins l a) d = lget l a d" "coins_Valid ref_math (ledger_coins l a)"
proof -
  let ?ds = "sort (remdups (filter (\<lambda>d. lget l a d \<noteq> 0) (map (\<lambda>((x, d), v). d) (lbal l))))"
  have "d \<in> set ?ds \<longleftrightarrow> lget l a d \<noteq> 0"
    by (force simp: lget_def dest: map_of_SomeD split: option.splits)
  then show "AmountOf (ledger_coins l a) d = lget l a d"
    unfolding ledger_coins_def AmountOf_map by simp
  have "map Denom (ledger_coins l a) = ?ds" by (simp add: ledger_coins_def comp_def)
  moreover have "sorted_wrt (<) ?ds" by (simp add: strict_sorted_iff)
  moreover have "0 < lget l a e \<and> ref_denom e" if "e \<in> set ?ds" for e
    using that lget_ok [of e l a] by (auto simp: amount_ok_def)
  moreover have "ValidDenom ref_math = ref_denom" by (simp add: ref_math_def)
  ultimately show "coins_Valid ref_math (ledger_coins l a)"
    unfolding coins_Valid_def by (auto simp: ledger_coins_def)
qed

text \<open>Coin sets built from a function on denominations.\<close>

lemma AmountOf_filter_map:
  "AmountOf (filter (\<lambda>c. Amount c \<noteq> 0) (map (\<lambda>d. Coin d (f d)) ds)) e = (if e \<in> set ds then f e else 0)"
  by (induction ds) (auto simp: AmountOf_notin)

lemma filter_map_valid:
  assumes "\<And>d. d \<in> set ds \<Longrightarrow> 0 \<le> f d \<and> ValidDenom m d"
  shows "coins_Valid m (filter (\<lambda>c. Amount c \<noteq> 0) (map (\<lambda>d. Coin d (f d)) (sort (remdups ds))))"
proof -
  let ?cs = "map (\<lambda>d. Coin d (f d)) (sort (remdups ds))"
  have "sorted_wrt (\<lambda>x y. Denom x < Denom y) ?cs" by (simp add: sorted_wrt_map strict_sorted_iff)
  from sorted_wrt_filter [OF this] have "sorted_wrt (<) (map Denom (filter (\<lambda>c. Amount c \<noteq> 0) ?cs))"
    by (subst sorted_wrt_map)
  moreover have "0 < Amount c \<and> ValidDenom m (Denom c)" if "c \<in> set (filter (\<lambda>c. Amount c \<noteq> 0) ?cs)" for c
    using that assms by force
  ultimately show ?thesis unfolding coins_Valid_def by blast
qed

lemma ref_CoinsAdd_loose:
  assumes "coins_Valid m xs" "\<And>c. c \<in> set ys \<Longrightarrow> 0 \<le> Amount c \<and> ValidDenom m (Denom c)"
  shows "coins_Valid m (ref_CoinsAdd xs ys)" "AmountOf (ref_CoinsAdd xs ys) d = AmountOf xs d + AmountOf ys d"
proof -
  have "0 \<le> AmountOf ys e" for e using assms(2) by (induction ys) auto
  then have "0 \<le> AmountOf xs e + AmountOf ys e \<and> ValidDenom m e" if "e \<in> set (map Denom (xs @ ys))" for e
    using that AmountOf_valid [OF assms(1), of e] assms(2) by auto
  then show "coins_Valid m (ref_CoinsAdd xs ys)" unfolding ref_CoinsAdd_def by (rule filter_map_valid)
  show "AmountOf (ref_CoinsAdd xs ys) d = AmountOf xs d + AmountOf ys d"
    using AmountOf_notin [of d xs] AmountOf_notin [of d ys] by (auto simp: ref_CoinsAdd_def AmountOf_filter_map)
qed

lemma ref_CoinsAdd_amount:
  assumes "coins_Valid m xs" "coins_Valid m ys"
  shows "coins_Valid m (ref_CoinsAdd xs ys)" "AmountOf (ref_CoinsAdd xs ys) d = AmountOf xs d + AmountOf ys d"
proof -
  have "0 \<le> Amount c \<and> ValidDenom m (Denom c)" if "c \<in> set ys" for c
    using assms(2) that by (auto simp: coins_Valid_def)
  then show "coins_Valid m (ref_CoinsAdd xs ys)" "AmountOf (ref_CoinsAdd xs ys) d = AmountOf xs d + AmountOf ys d"
    using ref_CoinsAdd_loose [OF assms(1)] by auto
qed

lemma ref_denom_law: "denom_law ref_math"
proof -
  have "d \<noteq> [] \<and> CHR ''|'' \<notin> set d" if "ref_denom d" for d
    using that unfolding ref_denom_def list_all_iff by (metis list.size(3) not_numeral_le_zero)
  moreover have "ValidDenom ref_math = ref_denom" by (simp add: ref_math_def)
  ultimately show ?thesis unfolding denom_law_def by metis
qed

theorem ref_sdk_laws: "sdk_laws ref_sdk"
proof -
  have m: "Math ref_sdk = ref_math" by (simp add: ref_sdk_def)
  have "new_coins_law ref_sdk"
    by (auto simp: new_coins_law_def ref_sdk_def ref_NewCoins_def Let_def)
  moreover have "coins_add_law ref_sdk"
    by (auto simp: coins_add_law_def ref_sdk_def ref_CoinsAdd_amount)
  moreover have "send_law ref_sdk"
    by (auto simp: send_law_def moved_def ref_sdk_def ledger_send_def lget_credit)
  moreover have "mint_law ref_sdk"
    by (auto simp: mint_law_def ref_sdk_def ledger_mint_def ledger_burn_def lget_credit lsup_issue)
  moreover have "account_law ref_sdk"
  proof -
    have "IntInRange ref_math (lget l a d) \<and> 0 \<le> lget l a d" for l a d
      using lget_ok [of d l a] by (simp add: ref_math_def amount_ok_def)
    then show ?thesis
      unfolding account_law_def m
      by (simp add: ref_sdk_def ledger_coins module_address_def inj_def)
  qed
  ultimately show ?thesis using ref_math_laws ref_denom_law by (simp only: sdk_laws_def m simp_thms)
qed

end
