(* ===== verification/Swap_Base_Pool.thy ===== *)
theory Swap_Base_Pool
  imports Sdk_Reference
begin

text \<open>
  The unitless constant-product pool, \<open>x/swap/types/base_pool.go\<close>: its state, the assertions it
  panics on, adding and removing liquidity, and the four swaps. Intermediate products are
  \<open>big.Int\<close> and never overflow; a value stored as \<open>sdkmath.Int\<close> goes through \<open>toInt\<close>.
\<close>

section \<open>Integer square root of \<open>math/big\<close>\<close>

fun bitLen :: "nat \<Rightarrow> nat" where
  "bitLen n = (if n = 0 then 0 else Suc (bitLen (n div 2)))"

declare bitLen.simps [simp del]

function sqrt_loop :: "nat \<Rightarrow> nat \<Rightarrow> nat" where
  "sqrt_loop x z1 =
     (let z2 = (x div z1 + z1) div 2 in if z2 \<ge> z1 then z1 else sqrt_loop x z2)"
  by pat_completeness auto
termination by (relation "measure snd") auto

declare sqrt_loop.simps [simp del]

definition big_Sqrt :: "int \<Rightarrow> int" where
  "big_Sqrt x = (let n = nat x in
     if n \<le> 1 then x else int (sqrt_loop n (2 ^ ((bitLen n + 1) div 2))))"

section \<open>The pool\<close>

record BasePool =
  reservesA :: int
  reservesB :: int
  totalShares :: int

definition calculateInitialShares :: "sdk_math \<Rightarrow> int \<Rightarrow> int \<Rightarrow> int result" where
  "calculateInitialShares m rA rB = toInt m (big_Sqrt (rA * rB))"

definition NewBasePool :: "sdk_math \<Rightarrow> int \<Rightarrow> int \<Rightarrow> BasePool result" where
  "NewBasePool m rA rB =
     (if rA \<le> 0 \<or> rB \<le> 0 then Inl (Err ''ErrInvalidPool'')
      else bnd (calculateInitialShares m rA rB) (\<lambda>s.
        Inr \<lparr>reservesA = rA, reservesB = rB, totalShares = s\<rparr>))"

definition NewBasePoolWithExistingShares :: "int \<Rightarrow> int \<Rightarrow> int \<Rightarrow> BasePool result" where
  "NewBasePoolWithExistingShares rA rB s =
     (if rA \<le> 0 \<or> rB \<le> 0 then Inl (Err ''ErrInvalidPool'')
      else if s \<le> 0 then Inl (Err ''ErrInvalidPool'')
      else Inr \<lparr>reservesA = rA, reservesB = rB, totalShares = s\<rparr>)"

definition IsEmpty :: "BasePool \<Rightarrow> bool" where
  "IsEmpty p \<longleftrightarrow> reservesA p = 0 \<and> reservesB p = 0"

subsection \<open>Assertions\<close>

definition assertSwapInputIsValid :: "int \<Rightarrow> unit result" where
  "assertSwapInputIsValid inp =
     (if \<not> 0 < inp then Inl (Panic ''invalid value: swap input must be positive'') else Inr ())"

definition assertSwapOutputIsValid :: "int \<Rightarrow> int \<Rightarrow> unit result" where
  "assertSwapOutputIsValid out reserves =
     (if \<not> 0 < out then Inl (Panic ''invalid value: swap output must be positive'')
      else if out \<ge> reserves then Inl (Panic ''invalid value: swap output must be less than reserves'')
      else Inr ())"

definition assertFeeIsValid :: "dec \<Rightarrow> unit result" where
  "assertFeeIsValid fee =
     (if fee < 0 \<or> fee \<ge> OneDec then Inl (Panic ''invalid value: fee must be between 0 and 1'')
      else Inr ())"

definition assertSharesArePositive :: "int \<Rightarrow> unit result" where
  "assertSharesArePositive shares =
     (if \<not> 0 < shares then Inl (Panic ''invalid value: shares must be positive'') else Inr ())"

definition assertSharesAreLessThanTotal :: "BasePool \<Rightarrow> int \<Rightarrow> unit result" where
  "assertSharesAreLessThanTotal p shares =
     (if shares > totalShares p then Inl (Panic ''out of bounds: shares > total shares'') else Inr ())"

definition assertDepositsArePositive :: "int \<Rightarrow> int \<Rightarrow> unit result" where
  "assertDepositsArePositive a b =
     (if \<not> 0 < a then Inl (Panic ''invalid value: deposit A must be positive'')
      else if \<not> 0 < b then Inl (Panic ''invalid state: deposit B must be positive'')
      else Inr ())"

definition assertReservesArePositive :: "BasePool \<Rightarrow> unit result" where
  "assertReservesArePositive p =
     (if \<not> 0 < reservesA p then Inl (Panic ''invalid state: reserves A must be positive'')
      else if \<not> 0 < reservesB p then Inl (Panic ''invalid state: reserves B must be positive'')
      else Inr ())"

definition assertReservesAreNotNegative :: "BasePool \<Rightarrow> unit result" where
  "assertReservesAreNotNegative p =
     (if reservesA p < 0 then Inl (Panic ''invalid state: reserves A can not be negative'')
      else if reservesB p < 0 then Inl (Panic ''invalid state: reserves B can not be negative'')
      else Inr ())"

definition assertInvariant :: "int \<Rightarrow> int \<Rightarrow> unit result" where
  "assertInvariant prevInvariant newInvariant =
     (if prevInvariant > newInvariant then Inl (Panic ''invalid state: invariant decreased'')
      else Inr ())"

definition big_Quo :: "int \<Rightarrow> int \<Rightarrow> int result" where
  "big_Quo a b = (if b = 0 then Inl (Panic ''division by zero'') else Inr (Quo a b))"

subsection \<open>Liquidity\<close>

definition AddLiquidity :: "sdk_math \<Rightarrow> BasePool \<Rightarrow> int \<Rightarrow> int \<Rightarrow> (BasePool \<times> int \<times> int \<times> int) result" where
  "AddLiquidity m p desiredA desiredB =
     bnd (assertDepositsArePositive desiredA desiredB) (\<lambda>_.
     if IsEmpty p then
       bnd (calculateInitialShares m desiredA desiredB) (\<lambda>s.
       Inr (\<lparr>reservesA = desiredA, reservesB = desiredB, totalShares = s\<rparr>, desiredA, desiredB, s))
     else
       bnd (assertReservesArePositive p) (\<lambda>_.
       let productA = reservesB p * desiredA;
           productB = reservesA p * desiredB;
           actualA = (if productA \<le> productB then desiredA else Quo productB (reservesB p));
           actualB = (if productA \<le> productB then Quo productA (reservesA p) else desiredB);
           sharesA = Quo (actualA * totalShares p) (reservesA p);
           sharesB = Quo (actualB * totalShares p) (reservesB p)
       in bnd (toInt m (if sharesA \<le> sharesB then sharesA else sharesB)) (\<lambda>shares.
          bnd (toInt m actualA) (\<lambda>depositA.
          bnd (toInt m actualB) (\<lambda>depositB.
          bnd (toInt m (reservesA p + depositA)) (\<lambda>rA.
          bnd (toInt m (reservesB p + depositB)) (\<lambda>rB.
          bnd (toInt m (totalShares p + shares)) (\<lambda>s.
          Inr (\<lparr>reservesA = rA, reservesB = rB, totalShares = s\<rparr>, depositA, depositB, shares)))))))))"

definition ShareValue :: "sdk_math \<Rightarrow> BasePool \<Rightarrow> int \<Rightarrow> (int \<times> int) result" where
  "ShareValue m p shares =
     bnd (assertSharesArePositive shares) (\<lambda>_.
     bnd (assertSharesAreLessThanTotal p shares) (\<lambda>_.
     bnd (big_Quo (reservesA p * shares) (totalShares p)) (\<lambda>resultA.
     bnd (big_Quo (reservesB p * shares) (totalShares p)) (\<lambda>resultB.
     bnd (toInt m resultA) (\<lambda>a.
     bnd (toInt m resultB) (\<lambda>b. Inr (a, b)))))))"

definition RemoveLiquidity :: "sdk_math \<Rightarrow> BasePool \<Rightarrow> int \<Rightarrow> (BasePool \<times> int \<times> int) result" where
  "RemoveLiquidity m p shares =
     bnd (ShareValue m p shares) (\<lambda>(withdrawA, withdrawB).
     bnd (toInt m (reservesA p - withdrawA)) (\<lambda>rA.
     bnd (toInt m (reservesB p - withdrawB)) (\<lambda>rB.
     bnd (toInt m (totalShares p - shares)) (\<lambda>s.
     let p' = \<lparr>reservesA = rA, reservesB = rB, totalShares = s\<rparr>
     in bnd (assertReservesAreNotNegative p') (\<lambda>_. Inr (p', withdrawA, withdrawB))))))"

subsection \<open>Swaps\<close>

definition assertInvariantAndUpdateReserves ::
    "sdk_math \<Rightarrow> BasePool \<Rightarrow> int \<Rightarrow> int \<Rightarrow> int \<Rightarrow> int \<Rightarrow> BasePool result" where
  "assertInvariantAndUpdateReserves m p newReservesA feeA newReservesB feeB =
     bnd (toInt m (newReservesA - feeA)) (\<lambda>netA.
     bnd (toInt m (newReservesB - feeB)) (\<lambda>netB.
     bnd (assertInvariant (reservesA p * reservesB p) (netA * netB)) (\<lambda>_.
     Inr (p\<lparr>reservesA := newReservesA, reservesB := newReservesB\<rparr>))))"

definition calculateOutputForExactInput ::
    "sdk_math \<Rightarrow> int \<Rightarrow> int \<Rightarrow> int \<Rightarrow> dec \<Rightarrow> (int \<times> int) result" where
  "calculateOutputForExactInput m inp inReserves outReserves fee =
     bnd (assertSwapInputIsValid inp) (\<lambda>_.
     bnd (assertFeeIsValid fee) (\<lambda>_.
     bnd (DecMul m (NewDecFromInt inp) (OneDec - fee)) (\<lambda>net.
     bnd (DecTruncateInt m net) (\<lambda>inAfterFee.
     bnd (toInt m (inReserves + inAfterFee)) (\<lambda>newInReserves.
     bnd (big_Quo (outReserves * inAfterFee) newInReserves) (\<lambda>result.
     bnd (toInt m result) (\<lambda>out.
     bnd (toInt m (inp - inAfterFee)) (\<lambda>feeValue. Inr (out, feeValue)))))))))"

definition calculateInputForExactOutput ::
    "sdk_math \<Rightarrow> int \<Rightarrow> int \<Rightarrow> int \<Rightarrow> dec \<Rightarrow> (int \<times> int) result" where
  "calculateInputForExactOutput m out outReserves inReserves fee =
     bnd (assertSwapOutputIsValid out outReserves) (\<lambda>_.
     bnd (assertFeeIsValid fee) (\<lambda>_.
     bnd (toInt m (outReserves - out)) (\<lambda>newOutReserves.
     bnd (big_Quo (inReserves * out) newOutReserves) (\<lambda>quotient.
     let remainder = inReserves * out - quotient * newOutReserves
     in bnd (toInt m quotient) (\<lambda>floorIn.
        bnd (if remainder \<noteq> 0 then toInt m (floorIn + 1) else Inr floorIn) (\<lambda>inWithoutFee.
        bnd (DecQuo m (NewDecFromInt inWithoutFee) (OneDec - fee)) (\<lambda>gross.
        bnd (DecCeil m gross) (\<lambda>ceiled.
        bnd (DecTruncateInt m ceiled) (\<lambda>inp.
        bnd (toInt m (inp - inWithoutFee)) (\<lambda>feeValue. Inr (inp, feeValue)))))))))))"

definition SwapExactAForB :: "sdk_math \<Rightarrow> BasePool \<Rightarrow> int \<Rightarrow> dec \<Rightarrow> (BasePool \<times> int \<times> int) result" where
  "SwapExactAForB m p a fee =
     bnd (calculateOutputForExactInput m a (reservesA p) (reservesB p) fee) (\<lambda>(b, feeValue).
     bnd (toInt m (reservesA p + a)) (\<lambda>newA.
     bnd (toInt m (reservesB p - b)) (\<lambda>newB.
     bnd (assertInvariantAndUpdateReserves m p newA feeValue newB 0) (\<lambda>p'.
     Inr (p', b, feeValue)))))"

definition SwapExactBForA :: "sdk_math \<Rightarrow> BasePool \<Rightarrow> int \<Rightarrow> dec \<Rightarrow> (BasePool \<times> int \<times> int) result" where
  "SwapExactBForA m p b fee =
     bnd (calculateOutputForExactInput m b (reservesB p) (reservesA p) fee) (\<lambda>(a, feeValue).
     bnd (toInt m (reservesA p - a)) (\<lambda>newA.
     bnd (toInt m (reservesB p + b)) (\<lambda>newB.
     bnd (assertInvariantAndUpdateReserves m p newA 0 newB feeValue) (\<lambda>p'.
     Inr (p', a, feeValue)))))"

definition SwapAForExactB :: "sdk_math \<Rightarrow> BasePool \<Rightarrow> int \<Rightarrow> dec \<Rightarrow> (BasePool \<times> int \<times> int) result" where
  "SwapAForExactB m p b fee =
     bnd (calculateInputForExactOutput m b (reservesB p) (reservesA p) fee) (\<lambda>(a, feeValue).
     bnd (toInt m (reservesA p + a)) (\<lambda>newA.
     bnd (toInt m (reservesB p - b)) (\<lambda>newB.
     bnd (assertInvariantAndUpdateReserves m p newA feeValue newB 0) (\<lambda>p'.
     Inr (p', a, feeValue)))))"

definition SwapBForExactA :: "sdk_math \<Rightarrow> BasePool \<Rightarrow> int \<Rightarrow> dec \<Rightarrow> (BasePool \<times> int \<times> int) result" where
  "SwapBForExactA m p a fee =
     bnd (calculateInputForExactOutput m a (reservesA p) (reservesB p) fee) (\<lambda>(b, feeValue).
     bnd (toInt m (reservesA p - a)) (\<lambda>newA.
     bnd (toInt m (reservesB p + b)) (\<lambda>newB.
     bnd (assertInvariantAndUpdateReserves m p newA 0 newB feeValue) (\<lambda>p'.
     Inr (p', b, feeValue)))))"

section \<open>The square root is the floor of the root\<close>

lemma bitLen_bound: "n < 2 ^ bitLen n"
proof (induction n rule: bitLen.induct)
  case (1 n)
  show ?case
  proof (cases "n = 0")
    case False
    then have "n div 2 < 2 ^ bitLen (n div 2)" using 1 by simp
    then show ?thesis using False by (simp add: bitLen.simps [of n])
  qed simp
qed

lemma newton_step:
  fixes x z :: nat
  assumes "0 < z"
  shows "x < ((x div z + z) div 2 + 1)\<^sup>2"
proof -
  define q where "q = x div z"
  define y where "y = (q + z) div 2 + 1"
  have "4 * x < 4 * ((q + 1) * z)"
    using dividend_less_div_times [OF assms, of x] by (simp add: q_def algebra_simps)
  also have "\<dots> \<le> (q + 1 + z)\<^sup>2"
  proof -
    have "int (4 * ((q + 1) * z)) \<le> int ((q + 1 + z)\<^sup>2)"
      using zero_le_power2 [of "int q + 1 - int z"] by (simp add: power2_eq_square algebra_simps)
    then show ?thesis by (simp only: of_nat_le_iff)
  qed
  also have "\<dots> \<le> (2 * y)\<^sup>2" by (rule power_mono) (auto simp: y_def)
  finally show ?thesis by (simp add: power2_eq_square y_def q_def)
qed

lemma sqrt_loop_floor:
  assumes "0 < x" "0 < z" "x < (z + 1)\<^sup>2"
  shows "(sqrt_loop x z)\<^sup>2 \<le> x \<and> x < (sqrt_loop x z + 1)\<^sup>2"
  using assms
proof (induction x z rule: sqrt_loop.induct)
  case (1 x z)
  define z2 where "z2 = (x div z + z) div 2"
  show ?case
  proof (cases "z2 \<ge> z")
    case True
    then have "z * z \<le> x div z * z" by (intro mult_right_mono) (auto simp: z2_def)
    also have "\<dots> \<le> x" by simp
    finally have "z\<^sup>2 \<le> x" by (simp add: power2_eq_square)
    then show ?thesis using True "1.prems" by (simp add: sqrt_loop.simps [of x z] z2_def)
  next
    case False
    have "0 < z2"
      using "1.prems"(1,2) by (cases "z = 1") (auto simp: z2_def div_greater_zero_iff)
    moreover have "x < (z2 + 1)\<^sup>2" using newton_step [OF "1.prems"(2)] by (simp add: z2_def)
    ultimately have "(sqrt_loop x z2)\<^sup>2 \<le> x \<and> x < (sqrt_loop x z2 + 1)\<^sup>2"
      using "1.IH" [OF z2_def] False "1.prems"(1) by simp
    then show ?thesis using False by (simp add: sqrt_loop.simps [of x z] z2_def Let_def)
  qed
qed

lemma big_Sqrt_floor:
  assumes "0 \<le> x"
  shows "0 \<le> big_Sqrt x" "(big_Sqrt x)\<^sup>2 \<le> x" "x < (big_Sqrt x + 1)\<^sup>2"
proof -
  define n where "n = nat x"
  define z where "z = (2::nat) ^ ((bitLen n + 1) div 2)"
  have x: "x = int n" using assms by (simp add: n_def)
  have "0 \<le> big_Sqrt x \<and> (big_Sqrt x)\<^sup>2 \<le> x \<and> x < (big_Sqrt x + 1)\<^sup>2"
  proof (cases "n \<le> 1")
    case True
    then have "n = 0 \<or> n = 1" by auto
    then show ?thesis by (auto simp: big_Sqrt_def x)
  next
    case False
    have "n < 2 ^ bitLen n" by (rule bitLen_bound)
    also have "\<dots> \<le> 2 ^ ((bitLen n + 1) div 2 * 2)" by (rule power_increasing) auto
    also have "\<dots> = z\<^sup>2" by (simp add: z_def power_mult)
    also have "\<dots> \<le> (z + 1)\<^sup>2" by (rule power_mono) auto
    finally have "(sqrt_loop n z)\<^sup>2 \<le> n \<and> n < (sqrt_loop n z + 1)\<^sup>2"
      using False by (intro sqrt_loop_floor) (auto simp: z_def)
    moreover have "big_Sqrt x = int (sqrt_loop n z)"
      using False by (simp add: big_Sqrt_def z_def n_def Let_def)
    ultimately show ?thesis
      unfolding x by (metis of_nat_0_le_iff of_nat_1 of_nat_add of_nat_le_iff of_nat_less_iff of_nat_power)
  qed
  then show "0 \<le> big_Sqrt x" "(big_Sqrt x)\<^sup>2 \<le> x" "x < (big_Sqrt x + 1)\<^sup>2" by auto
qed

lemma big_Sqrt_pos: "0 < x \<Longrightarrow> 0 < big_Sqrt x"
  using big_Sqrt_floor [of x] by (cases "big_Sqrt x = 0") auto

section \<open>Well-formed pools\<close>

definition pool_wf :: "BasePool \<Rightarrow> bool" where
  "pool_wf p \<longleftrightarrow> 0 < reservesA p \<and> 0 < reservesB p \<and> 0 < totalShares p"

lemmas pool_asserts =
  assertSwapInputIsValid_def assertSwapOutputIsValid_def assertFeeIsValid_def
  assertSharesArePositive_def assertSharesAreLessThanTotal_def assertDepositsArePositive_def
  assertReservesArePositive_def assertReservesAreNotNegative_def assertInvariant_def

lemma div_times_bounds:
  fixes a c :: int
  assumes "0 < c"
  shows "a div c * c \<le> a" "a < (a div c + 1) * c"
proof -
  have eq: "a = a div c * c + a mod c" by simp
  have r: "0 \<le> a mod c" "a mod c < c" using assms by auto
  show "a div c * c \<le> a" using eq r by linarith
  show "a < (a div c + 1) * c" unfolding distrib_right using eq r by linarith
qed

lemma floor_min_ratio:
  fixes x y c d :: int
  assumes "0 < c" "0 < d"
  defines "s \<equiv> min (x div c) (y div d)"
  shows "s * c \<le> x" "s * d \<le> y" "x < (s + 1) * c \<or> y < (s + 1) * d"
proof -
  have "s * c \<le> x div c * c" "s * d \<le> y div d * d"
    using assms(1,2) by (simp_all add: s_def)
  then show "s * c \<le> x" "s * d \<le> y"
    using div_times_bounds(1) assms(1,2) order_trans by blast+
  have "s = x div c \<or> s = y div d" by (auto simp: s_def min_def)
  then show "x < (s + 1) * c \<or> y < (s + 1) * d"
    using div_times_bounds(2) [OF assms(1), of x] div_times_bounds(2) [OF assms(2), of y] by metis
qed

lemma div_le_of_mult_le:
  fixes a b c :: int
  assumes "0 < c" "a \<le> b * c"
  shows "a div c \<le> b"
  using zdiv_mono1 [OF assms(2,1)] assms(1) by simp

lemma le_div_of_mult_le:
  fixes a b c :: int
  assumes "0 < c" "b * c \<le> a"
  shows "b \<le> a div c"
  using zdiv_mono1 [OF assms(2,1)] assms(1) by simp

lemma div_less_of_less_mult:
  fixes a b c :: int
  assumes "0 < c" "a < b * c"
  shows "a div c < b"
proof -
  have "a div c * c < b * c" using div_times_bounds(1) [OF assms(1), of a] assms(2) by linarith
  then show ?thesis using assms(1) by simp
qed

subsection \<open>Liquidity\<close>

text \<open>The deposit the pool takes and the shares it mints, in plain arithmetic.\<close>

definition takenA :: "BasePool \<Rightarrow> int \<Rightarrow> int \<Rightarrow> int" where
  "takenA p dA dB = (if reservesB p * dA \<le> reservesA p * dB then dA else reservesA p * dB div reservesB p)"

definition takenB :: "BasePool \<Rightarrow> int \<Rightarrow> int \<Rightarrow> int" where
  "takenB p dA dB = (if reservesB p * dA \<le> reservesA p * dB then reservesB p * dA div reservesA p else dB)"

definition mintedShares :: "BasePool \<Rightarrow> int \<Rightarrow> int \<Rightarrow> int" where
  "mintedShares p dA dB =
     min (takenA p dA dB * totalShares p div reservesA p) (takenB p dA dB * totalShares p div reservesB p)"

lemma taken_bounds:
  assumes "pool_wf p" "0 < dA" "0 < dB"
  shows "0 \<le> takenA p dA dB" "takenA p dA dB \<le> dA" "0 \<le> takenB p dA dB" "takenB p dA dB \<le> dB"
    "takenA p dA dB = dA \<or> takenB p dA dB = dB"
  using assms div_le_of_mult_le [of "reservesB p" "reservesA p * dB" dA]
    div_le_of_mult_le [of "reservesA p" "reservesB p * dA" dB]
  by (auto simp: takenA_def takenB_def pool_wf_def pos_imp_zdiv_nonneg_iff mult.commute)

lemma AddLiquidity_eq:
  assumes "pool_wf p" "0 < dA" "0 < dB"
  shows "AddLiquidity m p dA dB =
    (let a = takenA p dA dB; b = takenB p dA dB; s = mintedShares p dA dB in
     if list_all (IntInRange m) [s, a, b, reservesA p + a, reservesB p + b, totalShares p + s]
     then Inr (\<lparr>reservesA = reservesA p + a, reservesB = reservesB p + b, totalShares = totalShares p + s\<rparr>, a, b, s)
     else Inl overflow)"
proof -
  have nn: "0 \<le> takenA p dA dB" "0 \<le> takenB p dA dB" using taken_bounds [OF assms] by auto
  have q: "Quo (reservesA p * dB) (reservesB p) = reservesA p * dB div reservesB p"
    "Quo (reservesB p * dA) (reservesA p) = reservesB p * dA div reservesA p"
    "Quo (takenA p dA dB * totalShares p) (reservesA p) = takenA p dA dB * totalShares p div reservesA p"
    "Quo (takenB p dA dB * totalShares p) (reservesB p) = takenB p dA dB * totalShares p div reservesB p"
    using assms nn by (auto simp: pool_wf_def)
  have "\<not> IsEmpty p" using assms by (simp add: pool_wf_def IsEmpty_def)
  then show ?thesis
    using assms unfolding AddLiquidity_def Let_def q(1,2)
    unfolding takenA_def [symmetric] takenB_def [symmetric] q(3,4) min_def [symmetric]
      mintedShares_def [symmetric]
    by (simp add: pool_asserts pool_wf_def toInt_def)
qed

lemma AddLiquidity_fault: "pool_wf p \<Longrightarrow> 0 < dA \<Longrightarrow> 0 < dB \<Longrightarrow> AddLiquidity m p dA dB = Inl e \<Longrightarrow> e = overflow"
  by (simp add: AddLiquidity_eq Let_def split: if_splits)

lemma AddLiquidity_ok:
  assumes "pool_wf p" "0 < dA" "0 < dB" "AddLiquidity m p dA dB = Inr (p', a, b, s)"
  shows "p' = \<lparr>reservesA = reservesA p + a, reservesB = reservesB p + b, totalShares = totalShares p + s\<rparr>"
    and "a = takenA p dA dB" "b = takenB p dA dB" "s = mintedShares p dA dB" "0 \<le> s" "pool_wf p'"
    and "s * reservesA p \<le> a * totalShares p" "s * reservesB p \<le> b * totalShares p"
    and "a * totalShares p < (s + 1) * reservesA p \<or> b * totalShares p < (s + 1) * reservesB p"
proof -
  have pos: "0 < reservesA p" "0 < reservesB p" "0 < totalShares p"
    using assms by (simp_all add: pool_wf_def)
  note t = taken_bounds [OF assms(1-3)]
  have eqs: "p' = \<lparr>reservesA = reservesA p + a, reservesB = reservesB p + b, totalShares = totalShares p + s\<rparr>"
    "a = takenA p dA dB" "b = takenB p dA dB" "s = mintedShares p dA dB"
    using assms(4) by (auto simp: AddLiquidity_eq [OF assms(1-3)] Let_def split: if_splits)
  show "p' = \<lparr>reservesA = reservesA p + a, reservesB = reservesB p + b, totalShares = totalShares p + s\<rparr>"
    "a = takenA p dA dB" "b = takenB p dA dB" "s = mintedShares p dA dB" by (fact eqs)+
  show s: "0 \<le> s" using t pos by (simp add: eqs(4) mintedShares_def pos_imp_zdiv_nonneg_iff)
  show "pool_wf p'" using s pos t eqs by (simp add: pool_wf_def)
  show "s * reservesA p \<le> a * totalShares p" "s * reservesB p \<le> b * totalShares p"
    "a * totalShares p < (s + 1) * reservesA p \<or> b * totalShares p < (s + 1) * reservesB p"
    unfolding eqs(2-4) mintedShares_def by (rule floor_min_ratio [OF pos(1,2)])+
qed

lemma RemoveLiquidity_eq:
  assumes "pool_wf p" "0 < s" "s \<le> totalShares p"
  shows "RemoveLiquidity m p s =
    (let a = reservesA p * s div totalShares p; b = reservesB p * s div totalShares p in
     if list_all (IntInRange m) [a, b, reservesA p - a, reservesB p - b, totalShares p - s]
     then Inr (\<lparr>reservesA = reservesA p - a, reservesB = reservesB p - b, totalShares = totalShares p - s\<rparr>, a, b)
     else Inl overflow)"
proof -
  let ?a = "reservesA p * s div totalShares p" and ?b = "reservesB p * s div totalShares p"
  have "?a \<le> reservesA p" "?b \<le> reservesB p"
    using assms by (auto simp: pool_wf_def intro!: div_le_of_mult_le mult_left_mono)
  then show ?thesis
    using assms
    by (simp add: RemoveLiquidity_def ShareValue_def pool_asserts big_Quo_def pool_wf_def Let_def toInt_def)
qed

lemma RemoveLiquidity_range:
  assumes "RemoveLiquidity m p s = Inr r"
  shows "0 < s" "s \<le> totalShares p"
  using assms by (auto simp: RemoveLiquidity_def ShareValue_def pool_asserts split: if_splits)

subsection \<open>Swaps\<close>

lemma fee_split:
  assumes "math_laws m" "0 < inp" "0 \<le> fee" "fee < OneDec"
    and "DecMul m (NewDecFromInt inp) (OneDec - fee) = Inr net" "DecTruncateInt m net = Inr n"
  shows "n = inp * (OneDec - fee) div OneDec" "0 \<le> n" "n \<le> inp" "0 < fee \<Longrightarrow> n < inp"
    "inp * fee \<le> (inp - n) * OneDec" "(inp - n) * OneDec < inp * fee + OneDec"
proof -
  have one: "0 < OneDec" by (simp add: OneDec_def)
  have "net = inp * (OneDec - fee)"
    by (rule DecMul_exact [OF assms(1,5)]) (simp add: NewDecFromInt_def)
  moreover have "0 \<le> inp * (OneDec - fee)" using assms by simp
  ultimately show n: "n = inp * (OneDec - fee) div OneDec"
    using DecTruncateInt_nonneg [OF assms(1,6)] by (simp add: OneDec_def)
  show "0 \<le> n" using assms one by (simp add: n pos_imp_zdiv_nonneg_iff)
  show "n \<le> inp" unfolding n using assms one by (intro div_le_of_mult_le) auto
  show "0 < fee \<Longrightarrow> n < inp" unfolding n using assms one by (intro div_less_of_less_mult) auto
  show "inp * fee \<le> (inp - n) * OneDec" "(inp - n) * OneDec < inp * fee + OneDec"
    using div_times_bounds [OF one, of "inp * (OneDec - fee)"]
    by (simp_all add: n algebra_simps)
qed

lemma product_after_exact_input:
  fixes A B n :: int
  assumes "0 < A" "0 < B" "0 \<le> n"
  defines "b \<equiv> B * n div (A + n)"
  shows "0 \<le> b" "b < B" "A * B \<le> (A + n) * (B - b)"
proof -
  have den: "0 < A + n" using assms by simp
  show "0 \<le> b" using assms den by (simp add: pos_imp_zdiv_nonneg_iff)
  show "b < B" unfolding b_def using assms den by (intro div_less_of_less_mult) auto
  have "b * (A + n) \<le> B * n" unfolding b_def by (rule div_times_bounds(1) [OF den])
  then show "A * B \<le> (A + n) * (B - b)" by (simp add: algebra_simps)
qed

lemma calculateOutput_spec:
  assumes "math_laws m" "0 < A" "0 < B" "0 < inp" "0 \<le> fee" "fee < OneDec"
  shows "case calculateOutputForExactInput m inp A B fee of
      Inl e \<Rightarrow> e = overflow
    | Inr (out, f) \<Rightarrow>
        out = B * (inp - f) div (A + (inp - f)) \<and> 0 \<le> f \<and> f \<le> inp \<and> (0 < fee \<longrightarrow> 1 \<le> f) \<and>
        inp * fee \<le> f * OneDec \<and> f * OneDec < inp * fee + OneDec"
proof (cases "calculateOutputForExactInput m inp A B fee")
  case (Inl e)
  have "e = overflow"
  proof (cases "DecMul m (NewDecFromInt inp) (OneDec - fee)")
    case (Inr net)
    show ?thesis
    proof (cases "DecTruncateInt m net")
      case (Inr n)
      then have "0 \<le> n" using fee_split(2) [OF assms(1,4-6)] \<open>DecMul _ _ _ = _\<close> by blast
      then show ?thesis
        using Inl Inr \<open>DecMul _ _ _ = _\<close> assms
        by (auto simp: calculateOutputForExactInput_def pool_asserts big_Quo_def toInt_def split: if_splits)
    qed (use Inl Inr assms in \<open>auto simp: calculateOutputForExactInput_def pool_asserts math_faults\<close>)
  qed (use Inl assms in \<open>auto simp: calculateOutputForExactInput_def pool_asserts math_faults\<close>)
  then show ?thesis using Inl by simp
next
  case (Inr r)
  then obtain out f where r: "r = (out, f)" by (cases r)
  obtain net n where n: "DecMul m (NewDecFromInt inp) (OneDec - fee) = Inr net" "DecTruncateInt m net = Inr n"
    "big_Quo (B * n) (A + n) = Inr out" "f = inp - n"
    using Inr r assms by (auto simp: calculateOutputForExactInput_def pool_asserts split: if_splits)
  note fs = fee_split [OF assms(1,4-6) n(1,2)]
  have "out = B * n div (A + n)" using n(3) fs assms by (simp add: big_Quo_def split: if_splits)
  then show ?thesis using Inr r n(4) fs by auto
qed

definition ceil_div :: "int \<Rightarrow> int \<Rightarrow> int" where
  "ceil_div a b = - ((- a) div b)"

lemma ceil_div_bounds:
  assumes "0 < b"
  shows "a \<le> ceil_div a b * b" "(ceil_div a b - 1) * b < a"
  using div_times_bounds [OF assms, of "- a"] by (simp_all add: ceil_div_def algebra_simps)

lemma ceil_div_least:
  assumes "0 < b" "a \<le> k * b"
  shows "ceil_div a b \<le> k"
proof -
  have "(ceil_div a b - 1) * b < k * b" using ceil_div_bounds(2) [OF assms(1), of a] assms(2) by linarith
  then show ?thesis using assms(1) by simp
qed

lemma ceil_div_greatest:
  assumes "0 < b" "(k - 1) * b < a"
  shows "k \<le> ceil_div a b"
proof -
  have "(k - 1) * b < ceil_div a b * b" using ceil_div_bounds(1) [OF assms(1), of a] assms(2) by linarith
  then show ?thesis using assms(1) by simp
qed

text \<open>Quotient and remainder as the code computes them are the rounded-up quotient.\<close>

lemma quotient_rounded_up:
  fixes x d :: int
  assumes "0 < d"
  shows "(if x - x div d * d \<noteq> 0 then x div d + 1 else x div d) = ceil_div x d"
proof (rule antisym)
  let ?q = "if x - x div d * d \<noteq> 0 then x div d + 1 else x div d"
  show "?q \<le> ceil_div x d"
    using div_times_bounds(1) [OF assms, of x] assms
    by (intro ceil_div_greatest) (auto simp: algebra_simps)
  show "ceil_div x d \<le> ?q"
    using div_times_bounds(2) [OF assms, of x] assms by (intro ceil_div_least) auto
qed

lemma gross_input:
  assumes "math_laws m" "0 < n" "0 \<le> fee" "fee < OneDec"
    and "DecQuo m (NewDecFromInt n) (OneDec - fee) = Inr g" "DecCeil m g = Inr c" "DecTruncateInt m c = Inr inp"
  shows "n \<le> inp" "0 < fee \<Longrightarrow> n < inp"
proof -
  have den: "0 < OneDec - fee" using assms by simp
  have P: "0 < Precision" by simp
  have c: "c = ceil_div g Precision * Precision"
    using DecCeil_whole [OF assms(1,6)] by (simp add: ceil_div_def)
  have "n * Precision \<le> g"
    using assms(2,3) by (intro DecQuo_lower [OF assms(1,5) den]) (simp add: NewDecFromInt_def OneDec_def algebra_simps)
  then have n: "n \<le> ceil_div g Precision"
    by (intro ceil_div_greatest) (auto simp: algebra_simps)
  then have "0 \<le> c" unfolding c using assms(2) by simp
  then have inp: "inp = ceil_div g Precision"
    using DecTruncateInt_nonneg [OF assms(1,7)] by (simp add: c)
  show "n \<le> inp" using n inp by simp
  show "n < inp" if "0 < fee"
  proof -
    have "Precision * 1 \<le> Precision * (n * fee)" using assms(2) that by (intro mult_left_mono) (auto simp: int_one_le_iff_zero_less)
    then have "n * Precision + 1 \<le> g"
      using that by (intro DecQuo_lower [OF assms(1,5) den]) (simp add: NewDecFromInt_def OneDec_def algebra_simps)
    then have "n + 1 \<le> ceil_div g Precision" by (intro ceil_div_greatest) auto
    then show ?thesis using inp by simp
  qed
qed

lemma calculateInput_spec:
  assumes "math_laws m" "0 < A" "0 < out" "out < B" "0 \<le> fee" "fee < OneDec"
  shows "case calculateInputForExactOutput m out B A fee of
      Inl e \<Rightarrow> e = overflow
    | Inr (inp, f) \<Rightarrow> inp - f = ceil_div (A * out) (B - out) \<and> 0 \<le> f \<and> (0 < fee \<longrightarrow> 1 \<le> f)"
proof -
  let ?d = "B - out" and ?n = "ceil_div (A * out) (B - out)"
  have d: "0 < ?d" using assms by simp
  have n: "0 < ?n" using ceil_div_greatest [OF d, of 1 "A * out"] assms by simp
  have q: "big_Quo (A * out) ?d = Inr (A * out div ?d)"
    using d assms by (simp add: big_Quo_def)
  show ?thesis
  proof (cases "calculateInputForExactOutput m out B A fee")
    case (Inl e)
    have qf: "DecQuo m a (OneDec - fee) = Inl e \<Longrightarrow> e = overflow" for a e
      using math_faults(2) [OF assms(1), of "OneDec - fee"] assms(6) by auto
    have "e = overflow"
      using Inl assms unfolding calculateInputForExactOutput_def
      by (auto simp: pool_asserts bnd_eq_Inl q Let_def dest: qf math_faults(3,5) [OF assms(1)]
          split: if_splits)
    then show ?thesis using Inl by simp
  next
    case (Inr r)
    then obtain inp f where r: "r = (inp, f)" by (cases r)
    obtain i g c where i: "i = (if A * out - A * out div ?d * ?d \<noteq> 0 then A * out div ?d + 1 else A * out div ?d)"
      and g: "DecQuo m (NewDecFromInt i) (OneDec - fee) = Inr g" "DecCeil m g = Inr c"
      "DecTruncateInt m c = Inr inp" "f = inp - i"
      using Inr assms unfolding calculateInputForExactOutput_def r
      by (auto simp: pool_asserts q Let_def split: if_splits)
    have "i = ?n" unfolding i by (rule quotient_rounded_up [OF d])
    show ?thesis
      using gross_input [OF assms(1) n assms(5,6) g(1-3) [unfolded \<open>i = ?n\<close>]] g(4) Inr r \<open>i = ?n\<close>
      by auto
  qed
qed

lemma SwapExactAForB_spec:
  assumes "math_laws m" "pool_wf p" "0 < a" "0 \<le> fee" "fee < OneDec"
  shows "case SwapExactAForB m p a fee of
      Inl e \<Rightarrow> e = overflow
    | Inr (p', b, f) \<Rightarrow>
        p' = p\<lparr>reservesA := reservesA p + a, reservesB := reservesB p - b\<rparr> \<and> pool_wf p' \<and>
        b = reservesB p * (a - f) div (reservesA p + (a - f)) \<and> 0 \<le> b \<and>
        0 \<le> f \<and> f \<le> a \<and> (0 < fee \<longrightarrow> 1 \<le> f) \<and>
        a * fee \<le> f * OneDec \<and> f * OneDec < a * fee + OneDec \<and>
        reservesA p * reservesB p \<le> (reservesA p' - f) * reservesB p'"
proof -
  have pos: "0 < reservesA p" "0 < reservesB p" "0 < totalShares p"
    using assms by (simp_all add: pool_wf_def)
  note calc = calculateOutput_spec [OF assms(1) pos(1,2) assms(3-5)]
  show ?thesis
  proof (cases "calculateOutputForExactInput m a (reservesA p) (reservesB p) fee")
    case (Inl e)
    then show ?thesis using calc by (simp add: SwapExactAForB_def)
  next
    case (Inr r)
    obtain b f where r: "r = (b, f)" by (cases r)
    have c: "b = reservesB p * (a - f) div (reservesA p + (a - f))" "0 \<le> f" "f \<le> a"
      "0 < fee \<longrightarrow> 1 \<le> f" "a * fee \<le> f * OneDec" "f * OneDec < a * fee + OneDec"
      using calc Inr r by auto
    have pr: "0 \<le> b" "b < reservesB p" "reservesA p * reservesB p \<le> (reservesA p + (a - f)) * (reservesB p - b)"
      using product_after_exact_input [OF pos(1,2), of "a - f"] c(1,3) by auto
    then show ?thesis
      using Inr r c pos assms(3)
      by (auto simp: SwapExactAForB_def assertInvariantAndUpdateReserves_def pool_asserts toInt_def
          pool_wf_def add_diff_eq)
  qed
qed

lemma SwapAForExactB_spec:
  assumes "math_laws m" "pool_wf p" "0 < b" "b < reservesB p" "0 \<le> fee" "fee < OneDec"
  shows "case SwapAForExactB m p b fee of
      Inl e \<Rightarrow> e = overflow
    | Inr (p', a, f) \<Rightarrow>
        p' = p\<lparr>reservesA := reservesA p + a, reservesB := reservesB p - b\<rparr> \<and> pool_wf p' \<and>
        0 \<le> f \<and> (0 < fee \<longrightarrow> 1 \<le> f) \<and> f < a \<and>
        reservesA p * reservesB p \<le> (reservesA p' - f) * reservesB p' \<and>
        (\<forall>n. reservesA p * reservesB p \<le> (reservesA p + n) * (reservesB p - b) \<longrightarrow> a - f \<le> n)"
proof -
  have pos: "0 < reservesA p" "0 < reservesB p" "0 < totalShares p"
    using assms by (simp_all add: pool_wf_def)
  have d: "0 < reservesB p - b" using assms by simp
  note calc = calculateInput_spec [OF assms(1) pos(1) assms(3-6)]
  show ?thesis
  proof (cases "calculateInputForExactOutput m b (reservesB p) (reservesA p) fee")
    case (Inl e)
    then show ?thesis using calc by (simp add: SwapAForExactB_def)
  next
    case (Inr r)
    obtain a f where r: "r = (a, f)" by (cases r)
    define n where "n = ceil_div (reservesA p * b) (reservesB p - b)"
    have c: "a - f = n" "0 \<le> f" "0 < fee \<longrightarrow> 1 \<le> f" using calc Inr r by (auto simp: n_def)
    have "0 < n" using ceil_div_greatest [OF d, of 1 "reservesA p * b"] pos assms(3) by (simp add: n_def)
    have pr: "reservesA p * reservesB p \<le> (reservesA p + n) * (reservesB p - b)"
      using ceil_div_bounds(1) [OF d, of "reservesA p * b"] by (simp add: n_def algebra_simps)
    have least: "n \<le> k" if "reservesA p * reservesB p \<le> (reservesA p + k) * (reservesB p - b)" for k
      unfolding n_def using that by (intro ceil_div_least [OF d]) (simp add: algebra_simps)
    have fa: "reservesA p + a - f = reservesA p + n" using c(1) by simp
    show ?thesis
      using Inr r c(2,3) \<open>0 < n\<close> pr least pos assms(3,4) c(1)
      by (auto simp: SwapAForExactB_def assertInvariantAndUpdateReserves_def pool_asserts toInt_def
          pool_wf_def fa)
  qed
qed

section \<open>Symmetry\<close>

definition flip_pool :: "BasePool \<Rightarrow> BasePool" where
  "flip_pool p = \<lparr>reservesA = reservesB p, reservesB = reservesA p, totalShares = totalShares p\<rparr>"

lemma flip_pool_simps [simp]:
  "reservesA (flip_pool p) = reservesB p" "reservesB (flip_pool p) = reservesA p"
  "totalShares (flip_pool p) = totalShares p" "pool_wf (flip_pool p) = pool_wf p"
  "flip_pool (flip_pool p) = p"
  "flip_pool \<lparr>reservesA = x, reservesB = y, totalShares = z\<rparr> = \<lparr>reservesA = y, reservesB = x, totalShares = z\<rparr>"
  by (auto simp: flip_pool_def pool_wf_def)

lemma SwapExactBForA_flip:
  "SwapExactBForA m p x fee = map_sum id (map_prod flip_pool id) (SwapExactAForB m (flip_pool p) x fee)"
  by (auto simp: SwapExactBForA_def SwapExactAForB_def assertInvariantAndUpdateReserves_def
      assertInvariant_def bnd_def toInt_def flip_pool_def mult.commute split: sum.splits prod.splits)

lemma SwapBForExactA_flip:
  "SwapBForExactA m p x fee = map_sum id (map_prod flip_pool id) (SwapAForExactB m (flip_pool p) x fee)"
  by (auto simp: SwapBForExactA_def SwapAForExactB_def assertInvariantAndUpdateReserves_def
      assertInvariant_def bnd_def toInt_def flip_pool_def mult.commute split: sum.splits prod.splits)

lemma taken_flip:
  assumes "pool_wf p" "0 < dA" "0 < dB"
  shows "takenA (flip_pool p) dB dA = takenB p dA dB" "takenB (flip_pool p) dB dA = takenA p dA dB"
proof -
  have pos: "0 < reservesA p" "0 < reservesB p" using assms by (simp_all add: pool_wf_def)
  show "takenA (flip_pool p) dB dA = takenB p dA dB" "takenB (flip_pool p) dB dA = takenA p dA dB"
  proof (atomize (full), cases "reservesB p * dA = reservesA p * dB")
    case True
    then have "reservesB p * dA div reservesA p = dB" "reservesA p * dB div reservesB p = dA"
      using pos by (metis less_irrefl nonzero_mult_div_cancel_left)+
    then show "takenA (flip_pool p) dB dA = takenB p dA dB \<and> takenB (flip_pool p) dB dA = takenA p dA dB"
      using True by (simp add: takenA_def takenB_def)
  next
    case False
    then have "reservesA p * dB \<le> reservesB p * dA \<longleftrightarrow> \<not> reservesB p * dA \<le> reservesA p * dB" by linarith
    then show "takenA (flip_pool p) dB dA = takenB p dA dB \<and> takenB (flip_pool p) dB dA = takenA p dA dB"
      by (simp add: takenA_def takenB_def)
  qed
qed

lemma AddLiquidity_flip:
  assumes "pool_wf p" "0 < dA" "0 < dB"
  shows "AddLiquidity m (flip_pool p) dB dA =
    map_sum id (\<lambda>(p', a, b, s). (flip_pool p', b, a, s)) (AddLiquidity m p dA dB)"
proof -
  have "mintedShares (flip_pool p) dB dA = mintedShares p dA dB"
    using taken_flip [OF assms] by (simp add: mintedShares_def min.commute)
  then show ?thesis
    using assms taken_flip [OF assms] by (auto simp: AddLiquidity_eq Let_def)
qed

lemma RemoveLiquidity_flip:
  assumes "pool_wf p" "0 < s" "s \<le> totalShares p"
  shows "RemoveLiquidity m (flip_pool p) s =
    map_sum id (\<lambda>(p', a, b). (flip_pool p', b, a)) (RemoveLiquidity m p s)"
  using assms by (auto simp: RemoveLiquidity_eq Let_def)

section \<open>Properties\<close>

text \<open>
  A new pool is refused unless both reserves are positive, and otherwise holds exactly the
  deposited reserves and the integer part of the geometric mean as its shares, so every new pool
  is well formed. The only other outcome is integer overflow.
\<close>

theorem NewBasePool_shares:
  "case NewBasePool m rA rB of
     Inl e \<Rightarrow> (if rA \<le> 0 \<or> rB \<le> 0 then e = Err ''ErrInvalidPool'' else e = overflow)
   | Inr p \<Rightarrow> reservesA p = rA \<and> reservesB p = rB \<and> pool_wf p \<and>
       (totalShares p)\<^sup>2 \<le> rA * rB \<and> rA * rB < (totalShares p + 1)\<^sup>2"
  using big_Sqrt_floor [of "rA * rB"] big_Sqrt_pos [of "rA * rB"]
  by (auto simp: NewBasePool_def calculateInitialShares_def toInt_def pool_wf_def zero_less_mult_iff)

text \<open>
  Adding liquidity to a well-formed pool takes at most what was offered, all of one side of
  it, and mints the largest number of shares whose ratio to the old shares exceeds the deposit
  ratio of neither side; so no existing shareholder is diluted. The only failure is overflow.
\<close>

theorem AddLiquidity_fair:
  assumes "pool_wf p" "0 < dA" "0 < dB"
  shows "case AddLiquidity m p dA dB of
      Inl e \<Rightarrow> e = overflow
    | Inr (p', a, b, s) \<Rightarrow>
        0 \<le> a \<and> a \<le> dA \<and> 0 \<le> b \<and> b \<le> dB \<and> (a = dA \<or> b = dB) \<and>
        p' = \<lparr>reservesA = reservesA p + a, reservesB = reservesB p + b, totalShares = totalShares p + s\<rparr> \<and>
        pool_wf p' \<and> 0 \<le> s \<and>
        s * reservesA p \<le> a * totalShares p \<and> s * reservesB p \<le> b * totalShares p \<and>
        (a * totalShares p < (s + 1) * reservesA p \<or> b * totalShares p < (s + 1) * reservesB p)"
proof (cases "AddLiquidity m p dA dB")
  case (Inl e)
  then show ?thesis using AddLiquidity_fault [OF assms] by simp
next
  case (Inr r)
  obtain p' a b s where r: "r = (p', a, b, s)" by (cases r)
  show ?thesis
    using AddLiquidity_ok [OF assms Inr [unfolded r]] taken_bounds [OF assms] by (simp add: Inr r)
qed

definition ex_pool :: BasePool where
  "ex_pool = \<lparr>reservesA = 1000, reservesB = 4000, totalShares = 2000\<rparr>"

lemma ex_pool_wf: "pool_wf ex_pool"
  by (simp add: ex_pool_def pool_wf_def)

lemma ex_add: "AddLiquidity ref_math ex_pool 100 500 =
    Inr (\<lparr>reservesA = 1100, reservesB = 4400, totalShares = 2200\<rparr>, 100, 400, 200)"
  by code_simp

theorem AddLiquidity_fair_witness:
  "AddLiquidity ref_math ex_pool 100 500 =
     Inr (\<lparr>reservesA = 1100, reservesB = 4400, totalShares = 2200\<rparr>, 100, 400, 200) \<and>
   pool_wf \<lparr>reservesA = 1100, reservesB = 4400, totalShares = 2200\<rparr> \<and> (400::int) \<le> 500"
  using AddLiquidity_fair [OF ex_pool_wf, of 100 500 ref_math] unfolding ex_add by simp

text \<open>
  Removing shares from a well-formed pool pays out the integer part of their proportion of
  both reserves. Removing all shares empties the pool exactly; removing fewer leaves it well
  formed, and what remains per share is not less than before. The only failure is overflow: the
  assertion that reserves do not go negative never fires.
\<close>

theorem RemoveLiquidity_fair:
  assumes "pool_wf p" "0 < s" "s \<le> totalShares p"
  shows "case RemoveLiquidity m p s of
      Inl e \<Rightarrow> e = overflow
    | Inr (p', a, b) \<Rightarrow>
        p' = \<lparr>reservesA = reservesA p - a, reservesB = reservesB p - b, totalShares = totalShares p - s\<rparr> \<and>
        0 \<le> a \<and> a * totalShares p \<le> reservesA p * s \<and> reservesA p * s < (a + 1) * totalShares p \<and>
        0 \<le> b \<and> b * totalShares p \<le> reservesB p * s \<and> reservesB p * s < (b + 1) * totalShares p \<and>
        (if s = totalShares p then IsEmpty p' else pool_wf p')"
proof -
  let ?a = "reservesA p * s div totalShares p" and ?b = "reservesB p * s div totalShares p"
  have pos: "0 < reservesA p" "0 < reservesB p" "0 < totalShares p"
    using assms by (simp_all add: pool_wf_def)
  have nn: "0 \<le> ?a" "0 \<le> ?b" using pos assms by (simp_all add: pos_imp_zdiv_nonneg_iff)
  have part: "s < totalShares p \<Longrightarrow> ?a < reservesA p \<and> ?b < reservesB p"
    using pos by (auto intro!: div_less_of_less_mult)
  show ?thesis
  proof (cases "s = totalShares p")
    case True
    then show ?thesis
      using pos nn assms by (simp add: RemoveLiquidity_eq Let_def IsEmpty_def)
  next
    case False
    then have "s < totalShares p" using assms by simp
    then show ?thesis
      using part nn False assms
        div_times_bounds [OF pos(3), of "reservesA p * s"] div_times_bounds [OF pos(3), of "reservesB p * s"]
      by (simp add: RemoveLiquidity_eq Let_def pool_wf_def)
  qed
qed

lemma ex_remove: "RemoveLiquidity ref_math ex_pool 3 =
    Inr (\<lparr>reservesA = 999, reservesB = 3994, totalShares = 1997\<rparr>, 1, 6)"
  by code_simp

theorem RemoveLiquidity_fair_witness:
  "RemoveLiquidity ref_math ex_pool 3 =
     Inr (\<lparr>reservesA = 999, reservesB = 3994, totalShares = 1997\<rparr>, 1, 6) \<and>
   pool_wf \<lparr>reservesA = 999, reservesB = 3994, totalShares = 1997\<rparr>"
  using RemoveLiquidity_fair [OF ex_pool_wf, of 3 ref_math] unfolding ex_remove
  by (simp add: ex_pool_def)

text \<open>
  C34: Depositing and at once withdrawing the minted shares never returns more of either side than
  was deposited, and leaves the other shareholders' reserves at least as large as before.
\<close>

theorem deposit_withdraw_no_profit:
  assumes "pool_wf p" "0 < dA" "0 < dB"
    and "AddLiquidity m p dA dB = Inr (p', a, b, s)"
    and "RemoveLiquidity m p' s = Inr (p'', a', b')"
  shows "a' \<le> a \<and> b' \<le> b \<and> reservesA p \<le> reservesA p'' \<and> reservesB p \<le> reservesB p'' \<and>
    totalShares p'' = totalShares p"
proof -
  have add: "p' = \<lparr>reservesA = reservesA p + a, reservesB = reservesB p + b, totalShares = totalShares p + s\<rparr>"
    "pool_wf p'" "s * reservesA p \<le> a * totalShares p" "s * reservesB p \<le> b * totalShares p"
    using AddLiquidity_ok [OF assms(1-4)] by auto
  have s: "0 < s" "s \<le> totalShares p'"
    using RemoveLiquidity_range [OF assms(5)] by auto
  have rem: "a' = (reservesA p + a) * s div (totalShares p + s)"
    "b' = (reservesB p + b) * s div (totalShares p + s)"
    "p'' = \<lparr>reservesA = reservesA p + a - a', reservesB = reservesB p + b - b', totalShares = totalShares p\<rparr>"
    using assms(5) unfolding RemoveLiquidity_eq [OF add(2) s]
    by (auto simp: add(1) Let_def split: if_splits)
  have "0 < totalShares p + s" using assms(1) s by (simp add: pool_wf_def)
  then have "a' \<le> a" "b' \<le> b"
    unfolding rem using add(3,4) by (auto intro!: div_le_of_mult_le simp: algebra_simps)
  then show ?thesis by (simp add: rem(3))
qed

lemma ex_add2: "AddLiquidity ref_math \<lparr>reservesA = 7, reservesB = 11, totalShares = 9\<rparr> 3 5 =
    Inr (\<lparr>reservesA = 10, reservesB = 15, totalShares = 12\<rparr>, 3, 4, 3)"
  by code_simp

lemma ex_remove2: "RemoveLiquidity ref_math \<lparr>reservesA = 10, reservesB = 15, totalShares = 12\<rparr> 3 =
    Inr (\<lparr>reservesA = 8, reservesB = 12, totalShares = 9\<rparr>, 2, 3)"
  by code_simp

theorem deposit_withdraw_no_profit_witness: "(2::int) \<le> 3 \<and> (3::int) \<le> 4 \<and>
    RemoveLiquidity ref_math \<lparr>reservesA = 10, reservesB = 15, totalShares = 12\<rparr> 3 =
      Inr (\<lparr>reservesA = 8, reservesB = 12, totalShares = 9\<rparr>, 2, 3)"
  using deposit_withdraw_no_profit [OF _ _ _ ex_add2 ex_remove2] ex_remove2 by (simp add: pool_wf_def)

text \<open>
  C2: Swapping an exact input: the output is the constant-product formula on the input after the
  fee, the fee is the rounded-up fraction of the input (at least one unit when the rate is
  positive), the product of the reserves without the fee never falls, and the pool stays well
  formed. Neither the invariant assertion nor any other panic but overflow can happen.
\<close>

theorem swap_exact_input_keeps_product:
  assumes "math_laws m" "pool_wf p" "0 < a" "0 \<le> fee" "fee < OneDec"
  shows "case SwapExactAForB m p a fee of
      Inl e \<Rightarrow> e = overflow
    | Inr (p', b, f) \<Rightarrow>
        p' = p\<lparr>reservesA := reservesA p + a, reservesB := reservesB p - b\<rparr> \<and> pool_wf p' \<and>
        b = reservesB p * (a - f) div (reservesA p + (a - f)) \<and> 0 \<le> b \<and>
        0 \<le> f \<and> f \<le> a \<and> (0 < fee \<longrightarrow> 1 \<le> f) \<and>
        a * fee \<le> f * OneDec \<and> f * OneDec < a * fee + OneDec \<and>
        reservesA p * reservesB p \<le> (reservesA p' - f) * reservesB p'"
  using assms by (rule SwapExactAForB_spec)

lemma ex_swap_in: "SwapExactAForB ref_math ex_pool 100 3000000000000000 =
    Inr (\<lparr>reservesA = 1100, reservesB = 3640, totalShares = 2000\<rparr>, 360, 1)"
  by code_simp

theorem swap_exact_input_keeps_product_witness:
  "SwapExactAForB ref_math ex_pool 100 3000000000000000 =
     Inr (\<lparr>reservesA = 1100, reservesB = 3640, totalShares = 2000\<rparr>, 360, 1) \<and>
   1000 * 4000 \<le> (1100 - 1) * (3640::int)"
  using swap_exact_input_keeps_product [OF ref_math_laws ex_pool_wf, of 100 3000000000000000]
  unfolding ex_swap_in by (simp add: ex_pool_def OneDec_def)

text \<open>
  C10: Swapping for an exact output: the input without the fee is the least amount that keeps the
  product of the reserves, the fee comes on top of it (at least one unit when the rate is
  positive), and the pool stays well formed. Neither the invariant assertion nor any other panic
  but overflow can happen.
\<close>

theorem swap_exact_output_least_input:
  assumes "math_laws m" "pool_wf p" "0 < b" "b < reservesB p" "0 \<le> fee" "fee < OneDec"
  shows "case SwapAForExactB m p b fee of
      Inl e \<Rightarrow> e = overflow
    | Inr (p', a, f) \<Rightarrow>
        p' = p\<lparr>reservesA := reservesA p + a, reservesB := reservesB p - b\<rparr> \<and> pool_wf p' \<and>
        0 \<le> f \<and> (0 < fee \<longrightarrow> 1 \<le> f) \<and> f < a \<and>
        reservesA p * reservesB p \<le> (reservesA p' - f) * reservesB p' \<and>
        (\<forall>n. reservesA p * reservesB p \<le> (reservesA p + n) * (reservesB p - b) \<longrightarrow> a - f \<le> n)"
  using assms by (rule SwapAForExactB_spec)

lemma ex_swap_out: "SwapAForExactB ref_math ex_pool 360 3000000000000000 =
    Inr (\<lparr>reservesA = 1100, reservesB = 3640, totalShares = 2000\<rparr>, 100, 1)"
  by code_simp

theorem swap_exact_output_least_input_witness:
  "SwapAForExactB ref_math ex_pool 360 3000000000000000 =
     Inr (\<lparr>reservesA = 1100, reservesB = 3640, totalShares = 2000\<rparr>, 100, 1) \<and>
   1000 * 4000 \<le> (1100 - 1) * (3640::int)"
  using swap_exact_output_least_input [OF ref_math_laws ex_pool_wf, of 360 3000000000000000]
  unfolding ex_swap_out by (simp add: ex_pool_def OneDec_def)

text \<open>
  C40: The pool is symmetric: every operation on a well-formed pool with its two sides exchanged
  gives the exchanged result, faults included. So what holds of the swaps of A for B holds of
  the swaps of B for A.
\<close>

theorem pool_symmetric:
  assumes "pool_wf p" "0 < dA" "0 < dB" "0 < s" "s \<le> totalShares p"
  shows "AddLiquidity m (flip_pool p) dB dA =
      map_sum id (\<lambda>(p', a, b, s). (flip_pool p', b, a, s)) (AddLiquidity m p dA dB) \<and>
    RemoveLiquidity m (flip_pool p) s =
      map_sum id (\<lambda>(p', a, b). (flip_pool p', b, a)) (RemoveLiquidity m p s) \<and>
    SwapExactBForA m p x fee =
      map_sum id (map_prod flip_pool id) (SwapExactAForB m (flip_pool p) x fee) \<and>
    SwapBForExactA m p x fee =
      map_sum id (map_prod flip_pool id) (SwapAForExactB m (flip_pool p) x fee)"
  using assms
  by (simp add: AddLiquidity_flip RemoveLiquidity_flip SwapExactBForA_flip SwapBForExactA_flip)

theorem pool_symmetric_witness:
  "AddLiquidity ref_math (flip_pool ex_pool) 500 100 =
     Inr (\<lparr>reservesA = 4400, reservesB = 1100, totalShares = 2200\<rparr>, 400, 100, 200)"
  using pool_symmetric [OF ex_pool_wf, of 100 500 3 ref_math 1 0] unfolding ex_add
  by (simp add: ex_pool_def)

end
