(* ===== verification/Ordered_Store.thy ===== *)
theory Ordered_Store
  imports Sdk_Prelude
begin

text \<open>
  The key-value store behind every keeper (\<open>prefix.NewStore(ctx.KVStore(key), prefix)\<close>): a finite
  map whose iterator runs in increasing order of the keys. The contract is the locale
  \<open>ordered_store\<close>; what the module invariants need of it, how a total over all entries changes
  with one write, is proved there once. The model's stores are the sorted association lists that
  interpret it.
\<close>

section \<open>The contract of an ordered store\<close>

locale ordered_store =
  fixes get :: "'s \<Rightarrow> 'k::linorder \<Rightarrow> 'v option"
    and put :: "'s \<Rightarrow> 'k \<Rightarrow> 'v \<Rightarrow> 's"
    and del :: "'s \<Rightarrow> 'k \<Rightarrow> 's"
    and entries :: "'s \<Rightarrow> ('k \<times> 'v) list"
    and invar :: "'s \<Rightarrow> bool"
  assumes entries_sorted: "invar s \<Longrightarrow> sorted_wrt (<) (map fst (entries s))"
    and get_entries: "invar s \<Longrightarrow> get s k = map_of (entries s) k"
    and get_put: "invar s \<Longrightarrow> get (put s k v) = (get s)(k \<mapsto> v)"
    and get_del: "invar s \<Longrightarrow> get (del s k) = (get s)(k := None)"
    and invar_put: "invar s \<Longrightarrow> invar (put s k v)"
    and invar_del: "invar s \<Longrightarrow> invar (del s k)"
begin

lemma keys_distinct: "invar s \<Longrightarrow> distinct (map fst (entries s))"
  using entries_sorted [of s] by (simp add: strict_sorted_iff)

lemma entry_iff: "invar s \<Longrightarrow> (k, v) \<in> set (entries s) \<longleftrightarrow> get s k = Some v"
  by (simp add: get_entries keys_distinct)

lemma keys_dom: "invar s \<Longrightarrow> fst ` set (entries s) = dom (get s)"
  using get_entries [of s] by (force simp: dom_def map_of_eq_Some_iff keys_distinct)

lemma finite_keys: "invar s \<Longrightarrow> finite (dom (get s))"
  by (simp flip: keys_dom)

lemma total_as_sum:
  fixes f :: "'k \<Rightarrow> 'v \<Rightarrow> 'a::comm_monoid_add"
  assumes "invar s"
  shows "(\<Sum>(k, v)\<leftarrow>entries s. f k v) = (\<Sum>k\<in>dom (get s). f k (the (get s k)))"
proof -
  have d: "distinct (map fst (entries s))" using assms by (rule keys_distinct)
  then have "distinct (entries s)" by (simp add: distinct_map)
  then have "(\<Sum>(k, v)\<leftarrow>entries s. f k v) = (\<Sum>(k, v)\<in>set (entries s). f k v)"
    by (rule sum_list_distinct_conv_sum_set)
  also have "\<dots> = (\<Sum>k\<in>fst ` set (entries s). f k (the (get s k)))"
    using d assms by (subst sum.reindex) (auto simp: distinct_map get_entries intro!: sum.cong)
  finally show ?thesis by (simp add: keys_dom assms)
qed

lemma total_put:
  fixes f :: "'k \<Rightarrow> 'v \<Rightarrow> int"
  assumes "invar s"
  shows "(\<Sum>(i, w)\<leftarrow>entries (put s k v). f i w) =
    (\<Sum>(i, w)\<leftarrow>entries s. f i w) - (case get s k of None \<Rightarrow> 0 | Some w \<Rightarrow> f k w) + f k v"
proof -
  let ?D = "dom (get s) - {k}"
  have fin: "finite ?D" by (simp add: finite_keys assms)
  have "(\<Sum>(i, w)\<leftarrow>entries (put s k v). f i w) = (\<Sum>i\<in>insert k ?D. f i (the (((get s)(k \<mapsto> v)) i)))"
    by (simp add: total_as_sum invar_put get_put assms insert_absorb)
  also have "\<dots> = f k v + (\<Sum>i\<in>?D. f i (the (get s i)))"
    using fin by (subst sum.insert) (auto intro!: sum.cong)
  also have "(\<Sum>i\<in>?D. f i (the (get s i))) =
      (\<Sum>i\<in>dom (get s). f i (the (get s i))) - (case get s k of None \<Rightarrow> 0 | Some w \<Rightarrow> f k w)"
    using finite_keys [OF assms] by (cases "get s k") (auto simp: sum_diff1 domIff)
  finally show ?thesis by (simp add: total_as_sum assms)
qed

lemma total_del:
  fixes f :: "'k \<Rightarrow> 'v \<Rightarrow> int"
  assumes "invar s"
  shows "(\<Sum>(i, w)\<leftarrow>entries (del s k). f i w) =
    (\<Sum>(i, w)\<leftarrow>entries s. f i w) - (case get s k of None \<Rightarrow> 0 | Some w \<Rightarrow> f k w)"
proof -
  have "(\<Sum>(i, w)\<leftarrow>entries (del s k). f i w) = (\<Sum>i\<in>dom (get s) - {k}. f i (the (get s i)))"
    by (simp add: total_as_sum invar_del get_del assms)
  also have "\<dots> =
      (\<Sum>i\<in>dom (get s). f i (the (get s i))) - (case get s k of None \<Rightarrow> 0 | Some w \<Rightarrow> f k w)"
    using finite_keys [OF assms] by (cases "get s k") (auto simp: sum_diff1 domIff)
  finally show ?thesis by (simp add: total_as_sum assms)
qed

lemma total_member_le:
  fixes f :: "'k \<Rightarrow> 'v \<Rightarrow> int"
  assumes "invar s" "get s k = Some v" "\<And>i w. get s i = Some w \<Longrightarrow> 0 \<le> f i w"
  shows "f k v \<le> (\<Sum>(i, w)\<leftarrow>entries s. f i w)"
proof -
  have "f k (the (get s k)) \<le> (\<Sum>i\<in>dom (get s). f i (the (get s i)))"
    using assms by (intro member_le_sum) (auto simp: finite_keys)
  then show ?thesis using assms by (simp add: total_as_sum)
qed

end

section \<open>Sorted association lists\<close>

type_synonym ('k, 'v) kv = "('k \<times> 'v) list"

abbreviation kv_get :: "('k, 'v) kv \<Rightarrow> 'k \<Rightarrow> 'v option" where
  "kv_get \<equiv> map_of"

fun kv_set :: "('k::linorder, 'v) kv \<Rightarrow> 'k \<Rightarrow> 'v \<Rightarrow> ('k, 'v) kv" where
  "kv_set [] k v = [(k, v)]"
| "kv_set ((i, w) # s) k v =
     (if k < i then (k, v) # (i, w) # s
      else if k = i then (k, v) # s
      else (i, w) # kv_set s k v)"

definition kv_del :: "('k, 'v) kv \<Rightarrow> 'k \<Rightarrow> ('k, 'v) kv" where
  "kv_del s k = filter (\<lambda>(i, w). i \<noteq> k) s"

definition kv_ok :: "('k::linorder, 'v) kv \<Rightarrow> bool" where
  "kv_ok s \<longleftrightarrow> sorted_wrt (<) (map fst s)"

lemma kv_ok_Nil [simp, kv_simps]: "kv_ok []"
  by (simp add: kv_ok_def)

lemma kv_set_keys: "fst ` set (kv_set s k v) = insert k (fst ` set s)"
  by (induction s k v rule: kv_set.induct) auto

lemma kv_ok_set [simp, kv_simps]: "kv_ok s \<Longrightarrow> kv_ok (kv_set s k v)"
proof (induction s k v rule: kv_set.induct)
  case (2 i w s k v)
  then show ?case
    using kv_set_keys [of s k v] by (auto simp: kv_ok_def image_iff dest: order_less_trans)
qed (simp add: kv_ok_def)

lemma kv_ok_del [simp, kv_simps]: "kv_ok s \<Longrightarrow> kv_ok (kv_del s k)"
  by (auto simp: kv_ok_def kv_del_def sorted_wrt_map intro: sorted_wrt_filter)

lemma kv_get_set [simp, kv_simps]: "kv_get (kv_set s k v) = (kv_get s)(k \<mapsto> v)"
  by (induction s k v rule: kv_set.induct) (auto simp: fun_eq_iff)

lemma kv_get_del [simp, kv_simps]: "kv_get (kv_del s k) = (kv_get s)(k := None)"
  by (induction s) (auto simp: kv_del_def fun_eq_iff)

interpretation kv: ordered_store map_of kv_set kv_del "\<lambda>s. s" kv_ok
  by unfold_locales (simp_all, simp add: kv_ok_def)

text \<open>Writing an optional value: set it, or delete the key.\<close>

definition kv_upd :: "('k::linorder, 'v) kv \<Rightarrow> 'k \<Rightarrow> 'v option \<Rightarrow> ('k, 'v) kv" where
  "kv_upd s k ov = (case ov of None \<Rightarrow> kv_del s k | Some v \<Rightarrow> kv_set s k v)"

lemma kv_ok_upd [simp, kv_simps]: "kv_ok s \<Longrightarrow> kv_ok (kv_upd s k ov)"
  and kv_get_upd [simp, kv_simps]: "kv_get (kv_upd s k ov) = (kv_get s)(k := ov)"
  by (auto simp: kv_upd_def split: option.splits)

lemma kv_total_upd:
  fixes f :: "'k::linorder \<Rightarrow> 'v \<Rightarrow> int"
  assumes "kv_ok s"
  shows "(\<Sum>(i, w)\<leftarrow>kv_upd s k ov. f i w) =
    (\<Sum>(i, w)\<leftarrow>s. f i w) - (case kv_get s k of None \<Rightarrow> 0 | Some w \<Rightarrow> f k w) + (case ov of None \<Rightarrow> 0 | Some w \<Rightarrow> f k w)"
  using assms by (cases ov) (simp_all add: kv_upd_def kv.total_put kv.total_del)

text \<open>Two stores with the same contents are the same list.\<close>

lemma kv_ext:
  assumes "kv_ok s" "kv_ok t" "kv_get s = kv_get t"
  shows "s = t"
proof -
  have keys: "map fst s = map fst t"
    using assms kv.keys_dom [OF assms(1)] kv.keys_dom [OF assms(2)]
    by (intro sorted_distinct_set_unique) (auto simp: kv_ok_def strict_sorted_iff)
  have vals: "map snd u = map (\<lambda>k. the (kv_get u k)) (map fst u)" if "kv_ok u" for u :: "('a, 'b) kv"
    using that kv.entry_iff [OF that] by (auto intro!: map_cong [OF refl])
  have "map snd s = map snd t" using vals [OF assms(1)] vals [OF assms(2)] assms(3) keys by simp
  then show ?thesis using keys by (metis zip_map_fst_snd)
qed

text \<open>Loading a list of records, as the genesis code does.\<close>

definition kv_load :: "('v \<Rightarrow> 'k::linorder) \<Rightarrow> 'v list \<Rightarrow> ('k, 'v) kv \<Rightarrow> ('k, 'v) kv" where
  "kv_load key vs s = fold (\<lambda>v t. kv_set t (key v) v) vs s"

lemma kv_load_Nil [simp]: "kv_load key [] s = s"
  and kv_load_Cons [simp]: "kv_load key (v # vs) s = kv_load key vs (kv_set s (key v) v)"
  by (simp_all add: kv_load_def)

lemma kv_load:
  assumes "distinct (map key vs)"
  shows "kv_ok (kv_load key vs [])"
    and "kv_get (kv_load key vs []) k = map_of (map (\<lambda>v. (key v, v)) vs) k"
    and "(\<Sum>(k, v)\<leftarrow>kv_load key vs []. f k v) = (\<Sum>v\<leftarrow>vs. f (key v) v :: int)"
proof -
  have "kv_ok (kv_load key vs []) \<and> (\<forall>k. kv_get (kv_load key vs []) k = map_of (map (\<lambda>v. (key v, v)) vs) k) \<and>
      (\<Sum>(k, v)\<leftarrow>kv_load key vs []. f k v) = (\<Sum>v\<leftarrow>vs. f (key v) v)"
    using assms
  proof (induction vs rule: rev_induct)
    case (snoc v vs)
    then have ok: "kv_ok (kv_load key vs [])"
        and g: "\<And>k. kv_get (kv_load key vs []) k = map_of (map (\<lambda>v. (key v, v)) vs) k" by auto
    have new: "map_of (map (\<lambda>v. (key v, v)) vs) (key v) = None"
      using snoc.prems by (auto simp: map_of_eq_None_iff)
    have step: "kv_load key (vs @ [v]) [] = kv_set (kv_load key vs []) (key v) v" by (simp add: kv_load_def)
    show ?case
      using snoc ok g new unfolding step
      by (auto simp: kv.total_put map_add_def split: option.splits)
  qed simp
  then show "kv_ok (kv_load key vs [])"
    "kv_get (kv_load key vs []) k = map_of (map (\<lambda>v. (key v, v)) vs) k"
    "(\<Sum>(k, v)\<leftarrow>kv_load key vs []. f k v) = (\<Sum>v\<leftarrow>vs. f (key v) v)" by auto
qed

lemma kv_load_values:
  assumes "kv_ok s" "\<And>k v. kv_get s k = Some v \<Longrightarrow> key v = k"
  shows "kv_load key (map snd s) [] = s"
proof -
  have "\<forall>(k, v)\<in>set s. key v = k" using assms kv.entry_iff [OF assms(1)] by blast
  then have m: "map (\<lambda>v. (key v, v)) (map snd s) = s" "map key (map snd s) = map fst s"
    by (auto intro!: map_idI map_cong)
  have d: "distinct (map key (map snd s))" unfolding m(2) by (rule kv.keys_distinct [OF assms(1)])
  show ?thesis
    by (rule kv_ext [OF kv_load(1) [OF d] assms(1)]) (rule ext, simp only: kv_load(2) [OF d] m(1))
qed

lemma kv_set_twice [simp]: "kv_set (kv_set s k v) k w = kv_set s k w"
  by (induction s k v rule: kv_set.induct) auto

lemma kv_set_same: "kv_ok s \<Longrightarrow> kv_get s k = Some v \<Longrightarrow> kv_set s k v = s"
  by (rule kv_ext) (auto simp: fun_eq_iff)

lemmas kv_totals = kv.total_put kv.total_del kv_total_upd

end
