(* ===== verification/Swap_Keeper.thy ===== *)
theory Swap_Keeper
  imports Swap_Base_Pool Ordered_Store
begin

text \<open>
  The swap module above the base pool: denominated pools (\<open>x/swap/types/denominated_pool.go\<close>),
  the stored records and their validation (\<open>types/state.go\<close>, \<open>types/params.go\<close>), the keeper's
  store (\<open>keeper/keeper.go\<close>), and the operations deposit, withdraw and swap with the messages
  that reach them (\<open>keeper/deposit.go\<close>, \<open>withdraw.go\<close>, \<open>swap.go\<close>, \<open>msg_server.go\<close>), and the
  registered invariants (\<open>keeper/invariants.go\<close>).
\<close>

section \<open>Denominated pools\<close>

record DenominatedPool =
  dp_pool :: BasePool
  dp_denomA :: denom
  dp_denomB :: denom

definition NewDenominatedPool :: "sdk_math \<Rightarrow> coins \<Rightarrow> DenominatedPool result" where
  "NewDenominatedPool m reserves =
     (if length reserves \<noteq> 2 then Inl (Err ''ErrInvalidPool'')
      else bnd (NewBasePool m (Amount (reserves ! 0)) (Amount (reserves ! 1))) (\<lambda>p.
        Inr \<lparr>dp_pool = p, dp_denomA = Denom (reserves ! 0), dp_denomB = Denom (reserves ! 1)\<rparr>))"

definition NewDenominatedPoolWithExistingShares :: "coins \<Rightarrow> int \<Rightarrow> DenominatedPool result" where
  "NewDenominatedPoolWithExistingShares reserves shares =
     (if length reserves \<noteq> 2 then Inl (Err ''ErrInvalidPool'')
      else bnd (NewBasePoolWithExistingShares (Amount (reserves ! 0)) (Amount (reserves ! 1)) shares) (\<lambda>p.
        Inr \<lparr>dp_pool = p, dp_denomA = Denom (reserves ! 0), dp_denomB = Denom (reserves ! 1)\<rparr>))"

definition dp_coinA :: "sdk_math \<Rightarrow> DenominatedPool \<Rightarrow> int \<Rightarrow> coin result" where
  "dp_coinA m p a = NewCoin m (dp_denomA p) a"

definition dp_coinB :: "sdk_math \<Rightarrow> DenominatedPool \<Rightarrow> int \<Rightarrow> coin result" where
  "dp_coinB m p b = NewCoin m (dp_denomB p) b"

definition dp_coins :: "'b sdk \<Rightarrow> DenominatedPool \<Rightarrow> int \<Rightarrow> int \<Rightarrow> coins result" where
  "dp_coins S p a b =
     bnd (dp_coinA (Math S) p a) (\<lambda>cA. bnd (dp_coinB (Math S) p b) (\<lambda>cB. NewCoins S [cA, cB]))"

definition dp_Reserves :: "'b sdk \<Rightarrow> DenominatedPool \<Rightarrow> coins result" where
  "dp_Reserves S p = dp_coins S p (reservesA (dp_pool p)) (reservesB (dp_pool p))"

definition dp_TotalShares :: "DenominatedPool \<Rightarrow> int" where
  "dp_TotalShares p = totalShares (dp_pool p)"

definition dp_AddLiquidity :: "'b sdk \<Rightarrow> DenominatedPool \<Rightarrow> coins \<Rightarrow> (DenominatedPool \<times> coins \<times> int) result" where
  "dp_AddLiquidity S p deposit =
     bnd (AddLiquidity (Math S) (dp_pool p) (AmountOf deposit (dp_denomA p)) (AmountOf deposit (dp_denomB p)))
       (\<lambda>(bp, actualA, actualB, shares).
     bnd (dp_coins S p actualA actualB) (\<lambda>cs. Inr (p\<lparr>dp_pool := bp\<rparr>, cs, shares)))"

definition dp_RemoveLiquidity :: "'b sdk \<Rightarrow> DenominatedPool \<Rightarrow> int \<Rightarrow> (DenominatedPool \<times> coins) result" where
  "dp_RemoveLiquidity S p shares =
     bnd (RemoveLiquidity (Math S) (dp_pool p) shares) (\<lambda>(bp, withdrawnA, withdrawnB).
     bnd (dp_coins S p withdrawnA withdrawnB) (\<lambda>cs. Inr (p\<lparr>dp_pool := bp\<rparr>, cs)))"

definition dp_ShareValue :: "'b sdk \<Rightarrow> DenominatedPool \<Rightarrow> int \<Rightarrow> coins result" where
  "dp_ShareValue S p shares =
     bnd (ShareValue (Math S) (dp_pool p) shares) (\<lambda>(valueA, valueB). dp_coins S p valueA valueB)"

definition SwapWithExactInput :: "sdk_math \<Rightarrow> DenominatedPool \<Rightarrow> coin \<Rightarrow> dec \<Rightarrow> (DenominatedPool \<times> coin \<times> coin) result" where
  "SwapWithExactInput m p swapInput fee =
     (if Denom swapInput = dp_denomA p then
        bnd (SwapExactAForB m (dp_pool p) (Amount swapInput) fee) (\<lambda>(bp, out, feePaid).
        bnd (dp_coinB m p out) (\<lambda>o'. bnd (dp_coinA m p feePaid) (\<lambda>f. Inr (p\<lparr>dp_pool := bp\<rparr>, o', f))))
      else if Denom swapInput = dp_denomB p then
        bnd (SwapExactBForA m (dp_pool p) (Amount swapInput) fee) (\<lambda>(bp, out, feePaid).
        bnd (dp_coinA m p out) (\<lambda>o'. bnd (dp_coinB m p feePaid) (\<lambda>f. Inr (p\<lparr>dp_pool := bp\<rparr>, o', f))))
      else Inl (Panic ''invalid denomination: does not match pool reserves''))"

definition SwapWithExactOutput :: "sdk_math \<Rightarrow> DenominatedPool \<Rightarrow> coin \<Rightarrow> dec \<Rightarrow> (DenominatedPool \<times> coin \<times> coin) result" where
  "SwapWithExactOutput m p swapOutput fee =
     (if Denom swapOutput = dp_denomA p then
        bnd (SwapBForExactA m (dp_pool p) (Amount swapOutput) fee) (\<lambda>(bp, inp, feePaid).
        bnd (dp_coinB m p inp) (\<lambda>i. bnd (dp_coinB m p feePaid) (\<lambda>f. Inr (p\<lparr>dp_pool := bp\<rparr>, i, f))))
      else if Denom swapOutput = dp_denomB p then
        bnd (SwapAForExactB m (dp_pool p) (Amount swapOutput) fee) (\<lambda>(bp, inp, feePaid).
        bnd (dp_coinA m p inp) (\<lambda>i. bnd (dp_coinA m p feePaid) (\<lambda>f. Inr (p\<lparr>dp_pool := bp\<rparr>, i, f))))
      else Inl (Panic ''invalid denomination: does not match pool reserves''))"

section \<open>Records\<close>

definition PoolIDSep :: char where "PoolIDSep = CHR '':''"

definition PoolID :: "denom \<Rightarrow> denom \<Rightarrow> string" where
  "PoolID a b = (if b < a then b @ PoolIDSep # a else a @ PoolIDSep # b)"

definition PoolIDFromCoins :: "coins \<Rightarrow> string result" where
  "PoolIDFromCoins cs = bnd (idx cs 0) (\<lambda>c0. bnd (idx cs 1) (\<lambda>c1. Inr (PoolID (Denom c0) (Denom c1))))"

record PoolRecord =
  pr_PoolID :: string
  pr_ReservesA :: coin
  pr_ReservesB :: coin
  pr_TotalShares :: int

record ShareRecord =
  sr_Depositor :: address
  sr_PoolID :: string
  sr_SharesOwned :: int

definition NewPoolRecord :: "coins \<Rightarrow> int \<Rightarrow> PoolRecord result" where
  "NewPoolRecord reserves shares =
     (if length reserves \<noteq> 2 then Inl (Panic ''reserves must have two denominations'')
      else bnd (PoolIDFromCoins reserves) (\<lambda>i.
        Inr \<lparr>pr_PoolID = i, pr_ReservesA = reserves ! 0, pr_ReservesB = reserves ! 1, pr_TotalShares = shares\<rparr>))"

definition NewPoolRecordFromPool :: "'b sdk \<Rightarrow> DenominatedPool \<Rightarrow> PoolRecord result" where
  "NewPoolRecordFromPool S p =
     bnd (dp_Reserves S p) (\<lambda>reserves.
     bnd (PoolIDFromCoins reserves) (\<lambda>i.
     bnd (idx reserves 0) (\<lambda>rA.
     bnd (idx reserves 1) (\<lambda>rB.
     Inr \<lparr>pr_PoolID = i, pr_ReservesA = rA, pr_ReservesB = rB, pr_TotalShares = dp_TotalShares p\<rparr>))))"

text \<open>The check on pool identifiers that both records share; the tokens of a valid one.\<close>

definition poolID_tokens :: "sdk_math \<Rightarrow> string \<Rightarrow> (denom \<times> denom) result" where
  "poolID_tokens m i =
     (if i = [] then Inl (Err ''poolID must be set'')
      else case strings_Split PoolIDSep i of
        [t0, t1] \<Rightarrow>
          (if t0 = [] \<or> t1 = [] \<or> t1 < t0 \<or> t0 = t1 then Inl (Err ''poolID is invalid'')
           else if \<not> ValidDenom m t0 \<or> \<not> ValidDenom m t1 then Inl (Err ''poolID is invalid'')
           else Inr (t0, t1))
      | _ \<Rightarrow> Inl (Err ''poolID is invalid''))"

definition PoolRecord_Validate :: "sdk_math \<Rightarrow> PoolRecord \<Rightarrow> unit result" where
  "PoolRecord_Validate m p =
     bnd (poolID_tokens m (pr_PoolID p)) (\<lambda>(t0, t1).
     if t0 \<noteq> Denom (pr_ReservesA p) \<or> t1 \<noteq> Denom (pr_ReservesB p)
       then Inl (Err ''poolID does not match reserves'')
     else if \<not> 0 < Amount (pr_ReservesA p) then Inl (Err ''pool has invalid reserves'')
     else if \<not> 0 < Amount (pr_ReservesB p) then Inl (Err ''pool has invalid reserves'')
     else if \<not> 0 < pr_TotalShares p then Inl (Err ''pool has invalid total shares'')
     else Inr ())"

definition PoolRecord_Reserves :: "'b sdk \<Rightarrow> PoolRecord \<Rightarrow> coins result" where
  "PoolRecord_Reserves S p = NewCoins S [pr_ReservesA p, pr_ReservesB p]"

definition NewShareRecord :: "address \<Rightarrow> string \<Rightarrow> int \<Rightarrow> ShareRecord" where
  "NewShareRecord a i s = \<lparr>sr_Depositor = a, sr_PoolID = i, sr_SharesOwned = s\<rparr>"

definition ShareRecord_Validate :: "sdk_math \<Rightarrow> ShareRecord \<Rightarrow> unit result" where
  "ShareRecord_Validate m sr =
     bnd (poolID_tokens m (sr_PoolID sr)) (\<lambda>_.
     if sr_Depositor sr = [] then Inl (Err ''share record cannot have empty depositor address'')
     else if \<not> 0 < sr_SharesOwned sr then Inl (Err ''invalid total shares'')
     else Inr ())"

text \<open>Slices of records: every record is valid and no key occurs twice.\<close>

fun PoolRecords_check :: "sdk_math \<Rightarrow> string list \<Rightarrow> PoolRecord list \<Rightarrow> unit result" where
  "PoolRecords_check m seen [] = Inr ()"
| "PoolRecords_check m seen (p # ps) =
     bnd (PoolRecord_Validate m p) (\<lambda>_.
     if pr_PoolID p \<in> set seen then Inl (Err ''duplicate poolID'')
     else PoolRecords_check m (pr_PoolID p # seen) ps)"

fun ShareRecords_check :: "sdk_math \<Rightarrow> (address \<times> string) list \<Rightarrow> ShareRecord list \<Rightarrow> unit result" where
  "ShareRecords_check m seen [] = Inr ()"
| "ShareRecords_check m seen (sr # srs) =
     bnd (ShareRecord_Validate m sr) (\<lambda>_.
     if (sr_Depositor sr, sr_PoolID sr) \<in> set seen then Inl (Err ''duplicate depositor and poolID'')
     else ShareRecords_check m ((sr_Depositor sr, sr_PoolID sr) # seen) srs)"

section \<open>Parameters\<close>

record AllowedPool =
  TokenA :: denom
  TokenB :: denom

record swap_params =
  AllowedPools :: "AllowedPool list"
  SwapFee :: dec

definition AllowedPool_Validate :: "sdk_math \<Rightarrow> AllowedPool \<Rightarrow> unit result" where
  "AllowedPool_Validate m p =
     (if \<not> ValidDenom m (TokenA p) then Inl (Err ''invalid denom'')
      else if \<not> ValidDenom m (TokenB p) then Inl (Err ''invalid denom'')
      else if PoolIDSep \<in> set (TokenA p) then Inl (Err ''tokenA cannot have colons in the denom'')
      else if PoolIDSep \<in> set (TokenB p) then Inl (Err ''tokenB cannot have colons in the denom'')
      else if TokenA p = TokenB p then Inl (Err ''pool cannot have two tokens of the same type'')
      else if TokenA p > TokenB p then Inl (Err ''invalid token order'')
      else Inr ())"

definition AllowedPool_Name :: "AllowedPool \<Rightarrow> string" where
  "AllowedPool_Name p = PoolID (TokenA p) (TokenB p)"

fun AllowedPools_check :: "sdk_math \<Rightarrow> string list \<Rightarrow> AllowedPool list \<Rightarrow> unit result" where
  "AllowedPools_check m seen [] = Inr ()"
| "AllowedPools_check m seen (p # ps) =
     bnd (AllowedPool_Validate m p) (\<lambda>_.
     if AllowedPool_Name p \<in> set seen then Inl (Err ''duplicate pool'')
     else AllowedPools_check m (AllowedPool_Name p # seen) ps)"

definition validateSwapFee :: "dec \<Rightarrow> unit result" where
  "validateSwapFee fee = (if fee < 0 \<or> fee \<ge> OneDec then Inl (Err ''invalid swap fee'') else Inr ())"

definition swap_params_Validate :: "sdk_math \<Rightarrow> swap_params \<Rightarrow> unit result" where
  "swap_params_Validate m p =
     bnd (AllowedPools_check m [] (AllowedPools p)) (\<lambda>_. validateSwapFee (SwapFee p))"

section \<open>The keeper's store\<close>

text \<open>
  \<open>sk_hookst\<close> is the state of whoever listens to the keeper's hooks; the incentive module keeps its
  claims there. Share records are stored under the depositor's bytes, a separator and the pool.
\<close>

record ('b, 'h) swap_state =
  sk_pools :: "(string, PoolRecord) kv"
  sk_shares :: "(string, ShareRecord) kv"
  sk_params :: swap_params
  sk_bank :: 'b
  sk_hookst :: 'h

record 'h swap_hooks =
  hk_AfterPoolDepositCreated :: "'h \<Rightarrow> string \<Rightarrow> address \<Rightarrow> int \<Rightarrow> 'h"
  hk_BeforePoolDepositModified :: "'h \<Rightarrow> string \<Rightarrow> address \<Rightarrow> int \<Rightarrow> 'h"

definition DepositorPoolSharesKey :: "address \<Rightarrow> string \<Rightarrow> string" where
  "DepositorPoolSharesKey depositor i = depositor @ CHR ''|'' # i"

definition GetPool :: "('b, 'h) swap_state \<Rightarrow> string \<Rightarrow> PoolRecord option" where
  "GetPool st i = kv_get (sk_pools st) i"

definition SetPool_Raw :: "('b, 'h) swap_state \<Rightarrow> PoolRecord \<Rightarrow> ('b, 'h) swap_state" where
  "SetPool_Raw st r = st\<lparr>sk_pools := kv_set (sk_pools st) (pr_PoolID r) r\<rparr>"

definition SetPool :: "sdk_math \<Rightarrow> ('b, 'h) swap_state \<Rightarrow> PoolRecord \<Rightarrow> ('b, 'h) swap_state result" where
  "SetPool m st r = bnd (panic_on_err (PoolRecord_Validate m r)) (\<lambda>_. Inr (SetPool_Raw st r))"

definition DeletePool :: "('b, 'h) swap_state \<Rightarrow> string \<Rightarrow> ('b, 'h) swap_state" where
  "DeletePool st i = st\<lparr>sk_pools := kv_del (sk_pools st) i\<rparr>"

definition GetAllPools :: "('b, 'h) swap_state \<Rightarrow> PoolRecord list" where
  "GetAllPools st = map snd (sk_pools st)"

definition GetPoolShares :: "('b, 'h) swap_state \<Rightarrow> string \<Rightarrow> int option" where
  "GetPoolShares st i = map_option pr_TotalShares (GetPool st i)"

definition GetDepositorShares :: "('b, 'h) swap_state \<Rightarrow> address \<Rightarrow> string \<Rightarrow> ShareRecord option" where
  "GetDepositorShares st a i = kv_get (sk_shares st) (DepositorPoolSharesKey a i)"

definition SetDepositorShares_Raw :: "('b, 'h) swap_state \<Rightarrow> ShareRecord \<Rightarrow> ('b, 'h) swap_state" where
  "SetDepositorShares_Raw st r =
     st\<lparr>sk_shares := kv_set (sk_shares st) (DepositorPoolSharesKey (sr_Depositor r) (sr_PoolID r)) r\<rparr>"

definition SetDepositorShares :: "sdk_math \<Rightarrow> ('b, 'h) swap_state \<Rightarrow> ShareRecord \<Rightarrow> ('b, 'h) swap_state result" where
  "SetDepositorShares m st r =
     bnd (panic_on_err (ShareRecord_Validate m r)) (\<lambda>_. Inr (SetDepositorShares_Raw st r))"

definition DeleteDepositorShares :: "('b, 'h) swap_state \<Rightarrow> address \<Rightarrow> string \<Rightarrow> ('b, 'h) swap_state" where
  "DeleteDepositorShares st a i =
     st\<lparr>sk_shares := kv_del (sk_shares st) (DepositorPoolSharesKey a i)\<rparr>"

definition GetAllDepositorShares :: "('b, 'h) swap_state \<Rightarrow> ShareRecord list" where
  "GetAllDepositorShares st = map snd (sk_shares st)"

definition GetDepositorSharesAmount :: "('b, 'h) swap_state \<Rightarrow> address \<Rightarrow> string \<Rightarrow> int option" where
  "GetDepositorSharesAmount st a i = map_option sr_SharesOwned (GetDepositorShares st a i)"

definition GetAllDepositorSharesByOwner :: "('b, 'h) swap_state \<Rightarrow> address \<Rightarrow> ShareRecord list" where
  \<comment> \<open>a prefix iterator over the bytes of the owner\<close>
  "GetAllDepositorSharesByOwner st owner =
     map snd (filter (\<lambda>(k, r). take (length owner) k = owner) (sk_shares st))"

definition updatePool :: "'b sdk \<Rightarrow> ('b, 'h) swap_state \<Rightarrow> string \<Rightarrow> DenominatedPool \<Rightarrow> ('b, 'h) swap_state result" where
  "updatePool S st i pool =
     (if dp_TotalShares pool = 0 then Inr (DeletePool st i)
      else bnd (NewPoolRecordFromPool S pool) (SetPool (Math S) st))"

definition updateDepositorShares :: "sdk_math \<Rightarrow> ('b, 'h) swap_state \<Rightarrow> address \<Rightarrow> string \<Rightarrow> int \<Rightarrow> ('b, 'h) swap_state result" where
  "updateDepositorShares m st owner i shares =
     (if shares = 0 then Inr (DeleteDepositorShares st owner i)
      else SetDepositorShares m st (NewShareRecord owner i shares))"

definition loadDenominatedPool :: "'b sdk \<Rightarrow> ('b, 'h) swap_state \<Rightarrow> string \<Rightarrow> DenominatedPool result" where
  "loadDenominatedPool S st i =
     (case GetPool st i of
        None \<Rightarrow> Inl (Err ''ErrInvalidPool'')
      | Some rec \<Rightarrow>
          bnd (PoolRecord_Reserves S rec) (\<lambda>reserves.
          case NewDenominatedPoolWithExistingShares reserves (pr_TotalShares rec) of
            Inl (Err e) \<Rightarrow> Inl (Err ''ErrInvalidPool'')
          | r \<Rightarrow> r))"

definition AfterPoolDepositCreated :: "'h swap_hooks option \<Rightarrow> ('b, 'h) swap_state \<Rightarrow> string \<Rightarrow> address \<Rightarrow> int \<Rightarrow> ('b, 'h) swap_state" where
  "AfterPoolDepositCreated hk st i a s =
     (case hk of None \<Rightarrow> st
      | Some h \<Rightarrow> st\<lparr>sk_hookst := hk_AfterPoolDepositCreated h (sk_hookst st) i a s\<rparr>)"

definition BeforePoolDepositModified :: "'h swap_hooks option \<Rightarrow> ('b, 'h) swap_state \<Rightarrow> string \<Rightarrow> address \<Rightarrow> int \<Rightarrow> ('b, 'h) swap_state" where
  "BeforePoolDepositModified hk st i a s =
     (case hk of None \<Rightarrow> st
      | Some h \<Rightarrow> st\<lparr>sk_hookst := hk_BeforePoolDepositModified h (sk_hookst st) i a s\<rparr>)"

section \<open>Operations\<close>

definition swap_module :: string where "swap_module = ''swap''"

definition depositAllowed :: "('b, 'h) swap_state \<Rightarrow> string \<Rightarrow> bool" where
  "depositAllowed st i = list_ex (\<lambda>p. i = PoolID (TokenA p) (TokenB p)) (AllowedPools (sk_params st))"

definition initializePool :: "'b sdk \<Rightarrow> ('b, 'h) swap_state \<Rightarrow> string \<Rightarrow> coins \<Rightarrow> (DenominatedPool \<times> coins \<times> int) result" where
  "initializePool S st i reserves =
     (if \<not> depositAllowed st i then Inl (Err ''ErrNotAllowed'')
      else bnd (NewDenominatedPool (Math S) reserves) (\<lambda>pool.
           bnd (dp_Reserves S pool) (\<lambda>cs. Inr (pool, cs, dp_TotalShares pool))))"

definition addLiquidityToPool :: "'b sdk \<Rightarrow> PoolRecord \<Rightarrow> coins \<Rightarrow> (DenominatedPool \<times> coins \<times> int) result" where
  "addLiquidityToPool S rec desiredAmount =
     bnd (PoolRecord_Reserves S rec) (\<lambda>reserves.
     bnd (NewDenominatedPoolWithExistingShares reserves (pr_TotalShares rec)) (\<lambda>pool.
     dp_AddLiquidity S pool desiredAmount))"

definition Deposit :: "'b sdk \<Rightarrow> 'h swap_hooks option \<Rightarrow> ('b, 'h) swap_state \<Rightarrow> address \<Rightarrow> coin \<Rightarrow> coin \<Rightarrow> dec \<Rightarrow> ('b, 'h) swap_state result" where
  "Deposit S hk st depositor coinA coinB slippageLimit =
     bnd (NewCoins S [coinA, coinB]) (\<lambda>desiredAmount.
     bnd (PoolIDFromCoins desiredAmount) (\<lambda>poolID.
     bnd (case GetPool st poolID of
            Some rec \<Rightarrow> addLiquidityToPool S rec desiredAmount
          | None \<Rightarrow> initializePool S st poolID desiredAmount) (\<lambda>(pool, depositAmount, shares).
     if AmountOf depositAmount (Denom coinA) = 0 \<or> AmountOf depositAmount (Denom coinB) = 0
       then Inl (Err ''ErrInsufficientLiquidity'')
     else if shares = 0 then Inl (Err ''ErrInsufficientLiquidity'')
     else
       bnd (DecQuo (Math S) (NewDecFromInt (AmountOf desiredAmount (Denom coinA)))
              (NewDecFromInt (AmountOf depositAmount (Denom coinA)))) (\<lambda>changeA.
       bnd (DecQuo (Math S) (NewDecFromInt (AmountOf desiredAmount (Denom coinB)))
              (NewDecFromInt (AmountOf depositAmount (Denom coinB)))) (\<lambda>changeB.
       let slippage = max changeA changeB - OneDec in
       if slippage > slippageLimit then Inl (Err ''ErrSlippageExceeded'')
       else
         bnd (updatePool S st poolID pool) (\<lambda>st1.
         bnd (case GetDepositorShares st1 depositor poolID of
                Some sr \<Rightarrow>
                  bnd (toInt (Math S) (sr_SharesOwned sr + shares)) (\<lambda>total.
                  updateDepositorShares (Math S)
                    (BeforePoolDepositModified hk st1 poolID depositor (sr_SharesOwned sr))
                    depositor poolID total)
              | None \<Rightarrow>
                  bnd (updateDepositorShares (Math S) st1 depositor poolID shares) (\<lambda>st2.
                  Inr (AfterPoolDepositCreated hk st2 poolID depositor shares))) (\<lambda>st3.
         bnd (SendCoinsFromAccountToModule S (sk_bank st3) depositor swap_module depositAmount) (\<lambda>b.
         Inr (st3\<lparr>sk_bank := b\<rparr>)))))))))"

definition Withdraw :: "'b sdk \<Rightarrow> 'h swap_hooks option \<Rightarrow> ('b, 'h) swap_state \<Rightarrow> address \<Rightarrow> int \<Rightarrow> coin \<Rightarrow> coin \<Rightarrow> ('b, 'h) swap_state result" where
  "Withdraw S hk st owner shares minCoinA minCoinB =
     (let poolID = PoolID (Denom minCoinA) (Denom minCoinB) in
      case GetDepositorShares st owner poolID of
        None \<Rightarrow> Inl (Err ''ErrDepositNotFound'')
      | Some sr \<Rightarrow>
          if shares > sr_SharesOwned sr then Inl (Err ''ErrInvalidShares'')
          else case GetPool st poolID of
            None \<Rightarrow> Inl (Panic ''pool not found'')
          | Some rec \<Rightarrow>
              bnd (PoolRecord_Reserves S rec) (\<lambda>reserves.
              bnd (panic_on_err (NewDenominatedPoolWithExistingShares reserves (pr_TotalShares rec))) (\<lambda>pool.
              bnd (dp_RemoveLiquidity S pool shares) (\<lambda>(pool', withdrawnAmount).
              if AmountOf withdrawnAmount (Denom minCoinA) = 0 \<or> AmountOf withdrawnAmount (Denom minCoinB) = 0
                then Inl (Err ''ErrInsufficientLiquidity'')
              else if AmountOf withdrawnAmount (Denom minCoinA) < Amount minCoinA \<or>
                      AmountOf withdrawnAmount (Denom minCoinB) < Amount minCoinB
                then Inl (Err ''ErrSlippageExceeded'')
              else
                bnd (updatePool S st poolID pool') (\<lambda>st1.
                bnd (toInt (Math S) (sr_SharesOwned sr - shares)) (\<lambda>rest.
                bnd (updateDepositorShares (Math S)
                       (BeforePoolDepositModified hk st1 poolID owner (sr_SharesOwned sr)) owner poolID rest) (\<lambda>st2.
                bnd (panic_on_err (SendCoinsFromModuleToAccount S (sk_bank st2) swap_module owner withdrawnAmount)) (\<lambda>b.
                Inr (st2\<lparr>sk_bank := b\<rparr>)))))))))"

definition loadPool :: "'b sdk \<Rightarrow> ('b, 'h) swap_state \<Rightarrow> denom \<Rightarrow> denom \<Rightarrow> DenominatedPool result" where
  "loadPool S st denomA denomB =
     (case GetPool st (PoolID denomA denomB) of
        None \<Rightarrow> Inl (Err ''ErrInvalidPool'')
      | Some rec \<Rightarrow>
          bnd (PoolRecord_Reserves S rec) (\<lambda>reserves.
          panic_on_err (NewDenominatedPoolWithExistingShares reserves (pr_TotalShares rec))))"

definition assertSlippageWithinLimit :: "dec \<Rightarrow> dec \<Rightarrow> unit result" where
  "assertSlippageWithinLimit priceChange slippageLimit =
     (let slippage = OneDec - priceChange in
      if slippage > slippageLimit then Inl (Err ''ErrSlippageExceeded'') else Inr ())"

definition commitSwap :: "'b sdk \<Rightarrow> ('b, 'h) swap_state \<Rightarrow> DenominatedPool \<Rightarrow> address \<Rightarrow> coin \<Rightarrow> coin \<Rightarrow> ('b, 'h) swap_state result" where
  "commitSwap S st pool requester swapInput swapOutput =
     bnd (NewPoolRecordFromPool S pool) (\<lambda>rec.
     bnd (SetPool (Math S) st rec) (\<lambda>st1.
     bnd (NewCoins S [swapInput]) (\<lambda>ins.
     bnd (SendCoinsFromAccountToModule S (sk_bank st1) requester swap_module ins) (\<lambda>b1.
     bnd (NewCoins S [swapOutput]) (\<lambda>outs.
     bnd (panic_on_err (SendCoinsFromModuleToAccount S b1 swap_module requester outs)) (\<lambda>b2.
     Inr (st1\<lparr>sk_bank := b2\<rparr>)))))))"

definition SwapExactForTokens :: "'b sdk \<Rightarrow> ('b, 'h) swap_state \<Rightarrow> address \<Rightarrow> coin \<Rightarrow> coin \<Rightarrow> dec \<Rightarrow> ('b, 'h) swap_state result" where
  "SwapExactForTokens S st requester exactCoinA coinB slippageLimit =
     bnd (loadPool S st (Denom exactCoinA) (Denom coinB)) (\<lambda>pool.
     bnd (SwapWithExactInput (Math S) pool exactCoinA (SwapFee (sk_params st))) (\<lambda>(pool', swapOutput, feePaid).
     if Amount swapOutput = 0 then Inl (Err ''ErrInsufficientLiquidity'')
     else
       bnd (DecQuo (Math S) (NewDecFromInt (Amount swapOutput)) (NewDecFromInt (Amount coinB))) (\<lambda>priceChange.
       bnd (assertSlippageWithinLimit priceChange slippageLimit) (\<lambda>_.
       commitSwap S st pool' requester exactCoinA swapOutput))))"

definition SwapForExactTokens :: "'b sdk \<Rightarrow> ('b, 'h) swap_state \<Rightarrow> address \<Rightarrow> coin \<Rightarrow> coin \<Rightarrow> dec \<Rightarrow> ('b, 'h) swap_state result" where
  "SwapForExactTokens S st requester coinA exactCoinB slippageLimit =
     bnd (loadPool S st (Denom coinA) (Denom exactCoinB)) (\<lambda>pool.
     bnd (dp_Reserves S pool) (\<lambda>reserves.
     if Amount exactCoinB \<ge> AmountOf reserves (Denom exactCoinB) then Inl (Err ''ErrInsufficientLiquidity'')
     else
       bnd (SwapWithExactOutput (Math S) pool exactCoinB (SwapFee (sk_params st))) (\<lambda>(pool', swapInput, feePaid).
       bnd (coin_Sub (Math S) swapInput feePaid) (\<lambda>net.
       bnd (DecQuo (Math S) (NewDecFromInt (Amount coinA)) (NewDecFromInt (Amount net))) (\<lambda>priceChange.
       bnd (assertSlippageWithinLimit priceChange slippageLimit) (\<lambda>_.
       commitSwap S st pool' requester swapInput exactCoinB))))))"

section \<open>Messages\<close>

text \<open>Addresses arrive in bech32 and are decoded by the SDK (\<open>AccAddressFromBech32\<close>, a parameter).\<close>

datatype swap_msg =
    MsgDeposit string coin coin dec int
  | MsgWithdraw string int coin coin int
  | MsgSwapExactForTokens string coin coin dec int
  | MsgSwapForExactTokens string coin coin dec int

fun msg_Deadline :: "swap_msg \<Rightarrow> int" where
  "msg_Deadline (MsgDeposit _ _ _ _ t) = t"
| "msg_Deadline (MsgWithdraw _ _ _ _ t) = t"
| "msg_Deadline (MsgSwapExactForTokens _ _ _ _ t) = t"
| "msg_Deadline (MsgSwapForExactTokens _ _ _ _ t) = t"

definition DeadlineExceeded :: "swap_msg \<Rightarrow> time \<Rightarrow> bool" where
  "DeadlineExceeded msg blockTime \<longleftrightarrow> time_Unix blockTime \<ge> msg_Deadline msg"

definition checkDeadline :: "time \<Rightarrow> swap_msg \<Rightarrow> unit result" where
  "checkDeadline blockTime msg =
     (if DeadlineExceeded msg blockTime then Inl (Err ''ErrDeadlineExceeded'') else Inr ())"

definition msg_Deposit :: "'b sdk \<Rightarrow> (string \<Rightarrow> address result) \<Rightarrow> 'h swap_hooks option \<Rightarrow> time \<Rightarrow>
    ('b, 'h) swap_state \<Rightarrow> string \<Rightarrow> coin \<Rightarrow> coin \<Rightarrow> dec \<Rightarrow> int \<Rightarrow> ('b, 'h) swap_state result" where
  "msg_Deposit S bech32 hk now st who tokenA tokenB slippage deadline =
     bnd (checkDeadline now (MsgDeposit who tokenA tokenB slippage deadline)) (\<lambda>_.
     bnd (bech32 who) (\<lambda>depositor. Deposit S hk st depositor tokenA tokenB slippage))"

definition msg_Withdraw :: "'b sdk \<Rightarrow> (string \<Rightarrow> address result) \<Rightarrow> 'h swap_hooks option \<Rightarrow> time \<Rightarrow>
    ('b, 'h) swap_state \<Rightarrow> string \<Rightarrow> int \<Rightarrow> coin \<Rightarrow> coin \<Rightarrow> int \<Rightarrow> ('b, 'h) swap_state result" where
  "msg_Withdraw S bech32 hk now st who shares minTokenA minTokenB deadline =
     bnd (checkDeadline now (MsgWithdraw who shares minTokenA minTokenB deadline)) (\<lambda>_.
     bnd (bech32 who) (\<lambda>from'. Withdraw S hk st from' shares minTokenA minTokenB))"

definition msg_SwapExactForTokens :: "'b sdk \<Rightarrow> (string \<Rightarrow> address result) \<Rightarrow> time \<Rightarrow>
    ('b, 'h) swap_state \<Rightarrow> string \<Rightarrow> coin \<Rightarrow> coin \<Rightarrow> dec \<Rightarrow> int \<Rightarrow> ('b, 'h) swap_state result" where
  "msg_SwapExactForTokens S bech32 now st who exactTokenA tokenB slippage deadline =
     bnd (checkDeadline now (MsgSwapExactForTokens who exactTokenA tokenB slippage deadline)) (\<lambda>_.
     bnd (bech32 who) (\<lambda>requester. SwapExactForTokens S st requester exactTokenA tokenB slippage))"

definition msg_SwapForExactTokens :: "'b sdk \<Rightarrow> (string \<Rightarrow> address result) \<Rightarrow> time \<Rightarrow>
    ('b, 'h) swap_state \<Rightarrow> string \<Rightarrow> coin \<Rightarrow> coin \<Rightarrow> dec \<Rightarrow> int \<Rightarrow> ('b, 'h) swap_state result" where
  "msg_SwapForExactTokens S bech32 now st who tokenA exactTokenB slippage deadline =
     bnd (checkDeadline now (MsgSwapForExactTokens who tokenA exactTokenB slippage deadline)) (\<lambda>_.
     bnd (bech32 who) (\<lambda>requester. SwapForExactTokens S st requester tokenA exactTokenB slippage))"

text \<open>The service router: one handler per message type.\<close>

definition swap_handle :: "'b sdk \<Rightarrow> (string \<Rightarrow> address result) \<Rightarrow> 'h swap_hooks option \<Rightarrow> time \<Rightarrow>
    ('b, 'h) swap_state \<Rightarrow> swap_msg \<Rightarrow> ('b, 'h) swap_state result" where
  "swap_handle S bech32 hk now st msg =
     (case msg of
       MsgDeposit who a b slip t \<Rightarrow> msg_Deposit S bech32 hk now st who a b slip t
     | MsgWithdraw who s a b t \<Rightarrow> msg_Withdraw S bech32 hk now st who s a b t
     | MsgSwapExactForTokens who a b slip t \<Rightarrow> msg_SwapExactForTokens S bech32 now st who a b slip t
     | MsgSwapForExactTokens who a b slip t \<Rightarrow> msg_SwapForExactTokens S bech32 now st who a b slip t)"

lemmas swap_handlers = swap_handle_def msg_Deposit_def msg_Withdraw_def
  msg_SwapExactForTokens_def msg_SwapForExactTokens_def

text \<open>Stateless checks on messages. Amounts, shares and slippage are always set here.\<close>

definition signer_check :: "(string \<Rightarrow> address result) \<Rightarrow> string \<Rightarrow> unit result" where
  "signer_check bech32 who =
     (if who = [] then Inl (Err ''ErrInvalidAddress'')
      else case bech32 who of Inl (Panic e) \<Rightarrow> Inl (Panic e) | Inl (Err e) \<Rightarrow> Inl (Err ''ErrInvalidAddress'') | Inr a \<Rightarrow> Inr ())"

definition token_check :: "sdk_math \<Rightarrow> coin \<Rightarrow> coin \<Rightarrow> unit result" where
  "token_check m a b =
     (if \<not> coin_IsValid m a \<or> Amount a = 0 then Inl (Err ''ErrInvalidCoins'')
      else if \<not> coin_IsValid m b \<or> Amount b = 0 then Inl (Err ''ErrInvalidCoins'')
      else if Denom a = Denom b then Inl (Err ''ErrInvalidCoins'')
      else Inr ())"

definition MsgDeposit_ValidateBasic :: "sdk_math \<Rightarrow> (string \<Rightarrow> address result) \<Rightarrow> string \<Rightarrow> coin \<Rightarrow> coin \<Rightarrow> dec \<Rightarrow> int \<Rightarrow> unit result" where
  "MsgDeposit_ValidateBasic m bech32 who tokenA tokenB slippage deadline =
     bnd (signer_check bech32 who) (\<lambda>_.
     bnd (token_check m tokenA tokenB) (\<lambda>_.
     if slippage < 0 then Inl (Err ''ErrInvalidSlippage'')
     else if deadline \<le> 0 then Inl (Err ''ErrInvalidDeadline'') else Inr ()))"

definition MsgWithdraw_ValidateBasic :: "sdk_math \<Rightarrow> (string \<Rightarrow> address result) \<Rightarrow> string \<Rightarrow> int \<Rightarrow> coin \<Rightarrow> coin \<Rightarrow> int \<Rightarrow> unit result" where
  "MsgWithdraw_ValidateBasic m bech32 who shares minTokenA minTokenB deadline =
     bnd (signer_check bech32 who) (\<lambda>_.
     if shares = 0 \<or> shares < 0 then Inl (Err ''ErrInvalidShares'')
     else bnd (token_check m minTokenA minTokenB) (\<lambda>_.
     if deadline \<le> 0 then Inl (Err ''ErrInvalidDeadline'') else Inr ()))"

definition MsgSwapExactForTokens_ValidateBasic :: "sdk_math \<Rightarrow> (string \<Rightarrow> address result) \<Rightarrow> string \<Rightarrow> coin \<Rightarrow> coin \<Rightarrow> dec \<Rightarrow> int \<Rightarrow> unit result" where
  "MsgSwapExactForTokens_ValidateBasic m bech32 who exactTokenA tokenB slippage deadline =
     bnd (signer_check bech32 who) (\<lambda>_.
     bnd (token_check m exactTokenA tokenB) (\<lambda>_.
     if slippage < 0 then Inl (Err ''ErrInvalidSlippage'')
     else if deadline \<le> 0 then Inl (Err ''ErrInvalidDeadline'') else Inr ()))"

definition MsgSwapForExactTokens_ValidateBasic :: "sdk_math \<Rightarrow> (string \<Rightarrow> address result) \<Rightarrow> string \<Rightarrow> coin \<Rightarrow> coin \<Rightarrow> dec \<Rightarrow> int \<Rightarrow> unit result" where
  "MsgSwapForExactTokens_ValidateBasic m bech32 who tokenA exactTokenB slippage deadline =
     bnd (signer_check bech32 who) (\<lambda>_.
     bnd (token_check m tokenA exactTokenB) (\<lambda>_.
     if slippage < 0 then Inl (Err ''ErrInvalidSlippage'')
     else if deadline \<le> 0 then Inl (Err ''ErrInvalidDeadline'') else Inr ()))"

fun swap_msg_ValidateBasic :: "sdk_math \<Rightarrow> (string \<Rightarrow> address result) \<Rightarrow> swap_msg \<Rightarrow> unit result" where
  "swap_msg_ValidateBasic m bech32 (MsgDeposit who a b slip t) = MsgDeposit_ValidateBasic m bech32 who a b slip t"
| "swap_msg_ValidateBasic m bech32 (MsgWithdraw who s a b t) = MsgWithdraw_ValidateBasic m bech32 who s a b t"
| "swap_msg_ValidateBasic m bech32 (MsgSwapExactForTokens who a b slip t) = MsgSwapExactForTokens_ValidateBasic m bech32 who a b slip t"
| "swap_msg_ValidateBasic m bech32 (MsgSwapForExactTokens who a b slip t) = MsgSwapForExactTokens_ValidateBasic m bech32 who a b slip t"

section \<open>Registered invariants\<close>

text \<open>
  The closures keep their \<open>broken\<close> variable between calls; it is the first argument here, the
  value the previous call left.
\<close>

definition PoolRecordsInvariant :: "sdk_math \<Rightarrow> bool \<Rightarrow> ('b, 'h) swap_state \<Rightarrow> bool" where
  "PoolRecordsInvariant m broken st =
     (broken \<or> list_ex (\<lambda>r. PoolRecord_Validate m r \<noteq> Inr ()) (GetAllPools st))"

definition ShareRecordsInvariant :: "sdk_math \<Rightarrow> bool \<Rightarrow> ('b, 'h) swap_state \<Rightarrow> bool" where
  "ShareRecordsInvariant m broken st =
     (broken \<or> list_ex (\<lambda>r. ShareRecord_Validate m r \<noteq> Inr ()) (GetAllDepositorShares st))"

definition PoolReservesInvariant :: "'b sdk \<Rightarrow> ('b, 'h) swap_state \<Rightarrow> bool result" where
  "PoolReservesInvariant S st =
     bnd (foldR (\<lambda>r acc. bnd (PoolRecord_Reserves S r) (\<lambda>cs. foldR (\<lambda>c acc. CoinsAdd S acc [c]) cs acc))
            (GetAllPools st) []) (\<lambda>reserves.
     bnd (CoinsIsEqual S reserves (GetAllBalances S (sk_bank st) (ModuleAddress S swap_module))) (\<lambda>eq.
     Inr (\<not> eq)))"

text \<open>
  The map from pools to their total and owned shares; the genesis validation builds the same one.
\<close>

definition add_owned :: "sdk_math \<Rightarrow> ShareRecord \<Rightarrow> (string, int \<times> int) kv \<Rightarrow> (string, int \<times> int) kv result" where
  "add_owned m sr totals =
     (case kv_get totals (sr_PoolID sr) of
        Some (t, owned) \<Rightarrow>
          bnd (toInt m (owned + sr_SharesOwned sr)) (\<lambda>o'. Inr (kv_set totals (sr_PoolID sr) (t, o')))
      | None \<Rightarrow> Inr (kv_set totals (sr_PoolID sr) (0, sr_SharesOwned sr)))"

definition share_totals :: "sdk_math \<Rightarrow> PoolRecord list \<Rightarrow> ShareRecord list \<Rightarrow> (string, int \<times> int) kv result" where
  "share_totals m prs srs =
     foldR (add_owned m) srs (fold (\<lambda>pr totals. kv_set totals (pr_PoolID pr) (pr_TotalShares pr, 0)) prs [])"

definition PoolSharesInvariant :: "sdk_math \<Rightarrow> bool \<Rightarrow> ('b, 'h) swap_state \<Rightarrow> bool result" where
  "PoolSharesInvariant m broken st =
     bnd (share_totals m (GetAllPools st) (GetAllDepositorShares st)) (\<lambda>totals.
     Inr (broken \<or> list_ex (\<lambda>(i, t, owned). t \<noteq> owned) totals))"

definition swap_AllInvariants :: "'b sdk \<Rightarrow> ('b, 'h) swap_state \<Rightarrow> bool result" where
  "swap_AllInvariants S st =
     (if PoolRecordsInvariant (Math S) False st then Inr True
      else if ShareRecordsInvariant (Math S) False st then Inr True
      else bnd (PoolReservesInvariant S st) (\<lambda>stop.
        if stop then Inr True else PoolSharesInvariant (Math S) False st))"

section \<open>Genesis\<close>

record swap_genesis =
  sg_Params :: swap_params
  sg_PoolRecords :: "PoolRecord list"
  sg_ShareRecords :: "ShareRecord list"

definition swap_genesis_Validate :: "sdk_math \<Rightarrow> swap_genesis \<Rightarrow> unit result" where
  "swap_genesis_Validate m gs =
     bnd (swap_params_Validate m (sg_Params gs)) (\<lambda>_.
     bnd (PoolRecords_check m [] (sg_PoolRecords gs)) (\<lambda>_.
     bnd (ShareRecords_check m [] (sg_ShareRecords gs)) (\<lambda>_.
     bnd (share_totals m (sg_PoolRecords gs) (sg_ShareRecords gs)) (\<lambda>totals.
     if list_ex (\<lambda>(i, t, owned). t \<noteq> owned) totals
       then Inl (Err ''total depositor shares not equal to pool total shares'')
     else Inr ()))))"

definition swap_InitGenesis :: "sdk_math \<Rightarrow> ('b, 'h) swap_state \<Rightarrow> swap_genesis \<Rightarrow> ('b, 'h) swap_state result" where
  "swap_InitGenesis m st gs =
     bnd (panic_on_err (swap_genesis_Validate m gs)) (\<lambda>_.
     bnd (foldR (\<lambda>pr st. SetPool m st pr) (sg_PoolRecords gs) (st\<lparr>sk_params := sg_Params gs\<rparr>)) (\<lambda>st1.
     foldR (\<lambda>sh st. SetDepositorShares m st sh) (sg_ShareRecords gs) st1))"

definition swap_ExportGenesis :: "('b, 'h) swap_state \<Rightarrow> swap_genesis" where
  "swap_ExportGenesis st =
     \<lparr>sg_Params = sk_params st, sg_PoolRecords = GetAllPools st, sg_ShareRecords = GetAllDepositorShares st\<rparr>"

end
