(* ===== verification/Swap_Solvency.thy ===== *)
theory Swap_Solvency
  imports Swap_Keeper
begin

text \<open>
  What the swap keeper guarantees. The invariant \<open>swap_inv\<close> says that the records are valid and
  stored under their keys, that the shares of a pool are the shares its depositors own, and that
  the module account holds exactly the reserves of all pools. Every operation keeps it, so it holds
  in every reachable state and the registered invariants are never broken there; what each
  operation does to balances, pools and share records follows, as do the faults a withdrawal can
  meet and the genesis round trip.
\<close>

section \<open>Identifiers and keys\<close>

lemma poolID_tokens_Inr:
  "poolID_tokens m i = Inr (t0, t1) \<longleftrightarrow>
     i = t0 @ PoolIDSep # t1 \<and> PoolIDSep \<notin> set t0 \<and> PoolIDSep \<notin> set t1 \<and>
     t0 \<noteq> [] \<and> t1 \<noteq> [] \<and> t0 < t1 \<and> ValidDenom m t0 \<and> ValidDenom m t1"
  (is "_ \<longleftrightarrow> ?R")
proof
  assume "poolID_tokens m i = Inr (t0, t1)"
  then have s: "strings_Split PoolIDSep i = [t0, t1]"
    and c: "\<not> (t0 = [] \<or> t1 = [] \<or> t1 < t0 \<or> t0 = t1)" "ValidDenom m t0" "ValidDenom m t1"
    by (auto simp: poolID_tokens_def split: if_splits list.splits)
  show ?R using strings_Split_eq_pair [OF s] c by auto
next
  assume ?R
  then have "strings_Split PoolIDSep i = [t0, t1]"
    by (simp add: strings_Split_pair strings_Split_single)
  with \<open>?R\<close> show "poolID_tokens m i = Inr (t0, t1)"
    by (auto simp: poolID_tokens_def)
qed

lemma PoolID_ordered: "a < b \<Longrightarrow> PoolID a b = a @ PoolIDSep # b" "a < b \<Longrightarrow> PoolID b a = a @ PoolIDSep # b"
  by (auto simp: PoolID_def)

lemma PoolID_commute: "PoolID a b = PoolID b a"
  by (cases a b rule: linorder_cases) (auto simp: PoolID_def)

lemma tokens_no_separator:
  assumes "denom_law m" "poolID_tokens m i = Inr (t0, t1)"
  shows "CHR ''|'' \<notin> set i"
  using assms by (auto simp: poolID_tokens_Inr denom_law_def PoolIDSep_def)

lemma split_last_unique:
  assumes "a @ c # x = b @ c # y" "c \<notin> set x" "c \<notin> set y"
  shows "a = b \<and> x = y"
proof -
  have tail: "takeWhile (\<lambda>z. z \<noteq> c) (rev (u @ c # v)) = rev v" if "c \<notin> set v" for u v
    using that by (simp add: takeWhile_append)
  have "rev x = rev y" using tail [OF assms(2)] tail [OF assms(3)] assms(1) by metis
  then show ?thesis using assms(1) by simp
qed

lemma PoolID_append_unique:
  assumes "a @ PoolIDSep # b = c @ PoolIDSep # d" "PoolIDSep \<notin> set b" "PoolIDSep \<notin> set d"
  shows "a = c \<and> b = d"
  using split_last_unique [OF assms] .

lemma share_key_unique:
  assumes "DepositorPoolSharesKey a i = DepositorPoolSharesKey b j"
    and "CHR ''|'' \<notin> set i" "CHR ''|'' \<notin> set j"
  shows "a = b \<and> i = j"
  using assms unfolding DepositorPoolSharesKey_def by (rule split_last_unique)

section \<open>Valid records\<close>

lemma PoolRecord_Validate_Inr:
  "PoolRecord_Validate m r = Inr () \<longleftrightarrow>
     poolID_tokens m (pr_PoolID r) = Inr (Denom (pr_ReservesA r), Denom (pr_ReservesB r)) \<and>
     0 < Amount (pr_ReservesA r) \<and> 0 < Amount (pr_ReservesB r) \<and> 0 < pr_TotalShares r"
  unfolding PoolRecord_Validate_def by (auto split: if_splits prod.splits)

lemma ShareRecord_Validate_Inr:
  "ShareRecord_Validate m r = Inr () \<longleftrightarrow>
     (\<exists>t0 t1. poolID_tokens m (sr_PoolID r) = Inr (t0, t1)) \<and> sr_Depositor r \<noteq> [] \<and> 0 < sr_SharesOwned r"
  unfolding ShareRecord_Validate_def by (auto split: if_splits prod.splits)

text \<open>The pool a record stands for.\<close>

definition pool_of :: "PoolRecord \<Rightarrow> DenominatedPool" where
  "pool_of r = \<lparr>dp_pool = \<lparr>reservesA = Amount (pr_ReservesA r), reservesB = Amount (pr_ReservesB r),
                            totalShares = pr_TotalShares r\<rparr>,
                dp_denomA = Denom (pr_ReservesA r), dp_denomB = Denom (pr_ReservesB r)\<rparr>"

definition record_of :: "DenominatedPool \<Rightarrow> PoolRecord" where
  "record_of p = \<lparr>pr_PoolID = PoolID (dp_denomA p) (dp_denomB p),
     pr_ReservesA = Coin (dp_denomA p) (reservesA (dp_pool p)),
     pr_ReservesB = Coin (dp_denomB p) (reservesB (dp_pool p)),
     pr_TotalShares = totalShares (dp_pool p)\<rparr>"

definition dp_wf :: "sdk_math \<Rightarrow> DenominatedPool \<Rightarrow> bool" where
  "dp_wf m p \<longleftrightarrow> dp_denomA p < dp_denomB p \<and> ValidDenom m (dp_denomA p) \<and> ValidDenom m (dp_denomB p)"

lemma NewCoins_pair:
  assumes "sdk_laws S" "dA < dB" "ValidDenom (Math S) dA" "ValidDenom (Math S) dB"
  shows "NewCoins S [Coin dA a, Coin dB b] = Inr r \<longleftrightarrow>
    0 \<le> a \<and> 0 \<le> b \<and> r = filter (\<lambda>c. Amount c \<noteq> 0) [Coin dA a, Coin dB b]"
proof -
  have "NewCoins S [Coin dA a, Coin dB b] = Inr r \<longleftrightarrow>
      r = sort_key Denom (filter (\<lambda>c. Amount c \<noteq> 0) [Coin dA a, Coin dB b]) \<and> coins_Valid (Math S) r"
    using sdk_lawsD(3) [OF assms(1)] unfolding new_coins_law_def by (elim allE)
  moreover have "sort_key Denom (filter (\<lambda>c. Amount c \<noteq> 0) [Coin dA a, Coin dB b]) =
      filter (\<lambda>c. Amount c \<noteq> 0) [Coin dA a, Coin dB b]"
    using assms(2) less_imp_le [OF assms(2)] by simp
  moreover have "coins_Valid (Math S) (filter (\<lambda>c. Amount c \<noteq> 0) [Coin dA a, Coin dB b]) \<longleftrightarrow> 0 \<le> a \<and> 0 \<le> b"
    using assms(2-4) by (auto simp: coins_Valid_def)
  ultimately show ?thesis by metis
qed

lemma dp_coins_Inr:
  assumes "sdk_laws S" "dp_wf (Math S) p"
  shows "dp_coins S p a b = Inr r \<longleftrightarrow>
    0 \<le> a \<and> 0 \<le> b \<and> r = filter (\<lambda>c. Amount c \<noteq> 0) [Coin (dp_denomA p) a, Coin (dp_denomB p) b]"
  using assms NewCoins_pair [OF assms(1), of "dp_denomA p" "dp_denomB p" a b r]
  by (auto simp: dp_coins_def dp_coinA_def dp_coinB_def dp_wf_def)

lemma pair_amounts:
  assumes "r = filter (\<lambda>c. Amount c \<noteq> 0) [Coin dA a, Coin dB b]" "dA \<noteq> dB"
  shows "AmountOf r d = (if d = dA then a else 0) + (if d = dB then b else 0)"
  using assms by auto

lemma record_of_pool: "PoolRecord_Validate m r = Inr () \<Longrightarrow> record_of (pool_of r) = r"
  by (cases r) (auto simp: record_of_def pool_of_def PoolRecord_Validate_Inr poolID_tokens_Inr PoolID_ordered)

lemma valid_pool_of:
  assumes "PoolRecord_Validate m r = Inr ()"
  shows "dp_wf m (pool_of r)" "pool_wf (dp_pool (pool_of r))"
  using assms by (auto simp: PoolRecord_Validate_Inr poolID_tokens_Inr dp_wf_def pool_of_def pool_wf_def)

lemma load_record:
  assumes "sdk_laws S" "PoolRecord_Validate (Math S) r = Inr ()"
  shows "PoolRecord_Reserves S r = Inr [pr_ReservesA r, pr_ReservesB r]"
    and "NewDenominatedPoolWithExistingShares [pr_ReservesA r, pr_ReservesB r] (pr_TotalShares r) = Inr (pool_of r)"
proof -
  note v = assms(2) [unfolded PoolRecord_Validate_Inr poolID_tokens_Inr]
  show "PoolRecord_Reserves S r = Inr [pr_ReservesA r, pr_ReservesB r]"
    using NewCoins_pair [OF assms(1), of "Denom (pr_ReservesA r)" "Denom (pr_ReservesB r)"
        "Amount (pr_ReservesA r)" "Amount (pr_ReservesB r)"] v
    by (simp add: PoolRecord_Reserves_def)
  show "NewDenominatedPoolWithExistingShares [pr_ReservesA r, pr_ReservesB r] (pr_TotalShares r) = Inr (pool_of r)"
    using v by (simp add: NewDenominatedPoolWithExistingShares_def NewBasePoolWithExistingShares_def pool_of_def)
qed

lemma NewPoolRecordFromPool_wf:
  assumes "sdk_laws S" "dp_wf (Math S) p" "0 < reservesA (dp_pool p)" "0 < reservesB (dp_pool p)"
  shows "NewPoolRecordFromPool S p = Inr (record_of p)"
proof -
  have "dp_Reserves S p = Inr [Coin (dp_denomA p) (reservesA (dp_pool p)), Coin (dp_denomB p) (reservesB (dp_pool p))]"
    unfolding dp_Reserves_def by (subst dp_coins_Inr [OF assms(1,2)]) (use assms in auto)
  then show ?thesis
    by (simp add: NewPoolRecordFromPool_def PoolIDFromCoins_def record_of_def dp_TotalShares_def)
qed

lemma SetPool_Inr: "SetPool m st r = Inr st' \<longleftrightarrow> PoolRecord_Validate m r = Inr () \<and> st' = SetPool_Raw st r"
  by (auto simp: SetPool_def)

lemma SetDepositorShares_Inr:
  "SetDepositorShares m st r = Inr st' \<longleftrightarrow> ShareRecord_Validate m r = Inr () \<and> st' = SetDepositorShares_Raw st r"
  by (auto simp: SetDepositorShares_def)

section \<open>The invariant\<close>

definition share_total :: "('b, 'h) swap_state \<Rightarrow> string \<Rightarrow> int" where
  "share_total st i = (\<Sum>(k, sr)\<leftarrow>sk_shares st. if sr_PoolID sr = i then sr_SharesOwned sr else 0)"

definition pool_shares :: "PoolRecord option \<Rightarrow> int" where
  "pool_shares r = (case r of None \<Rightarrow> 0 | Some r \<Rightarrow> pr_TotalShares r)"

definition owned_shares :: "ShareRecord option \<Rightarrow> int" where
  "owned_shares r = (case r of None \<Rightarrow> 0 | Some r \<Rightarrow> sr_SharesOwned r)"

definition record_reserve :: "PoolRecord \<Rightarrow> denom \<Rightarrow> int" where
  "record_reserve r d =
     (if Denom (pr_ReservesA r) = d then Amount (pr_ReservesA r) else 0) +
     (if Denom (pr_ReservesB r) = d then Amount (pr_ReservesB r) else 0)"

definition pool_reserve :: "PoolRecord option \<Rightarrow> denom \<Rightarrow> int" where
  "pool_reserve r d = (case r of None \<Rightarrow> 0 | Some r \<Rightarrow> record_reserve r d)"

definition reserves_total :: "('b, 'h) swap_state \<Rightarrow> denom \<Rightarrow> int" where
  "reserves_total st d = (\<Sum>(i, r)\<leftarrow>sk_pools st. record_reserve r d)"

abbreviation swap_funds :: "'b sdk \<Rightarrow> 'b \<Rightarrow> denom \<Rightarrow> int" where
  "swap_funds S b \<equiv> GetBalance S b (ModuleAddress S swap_module)"

definition pools_ok :: "sdk_math \<Rightarrow> (string, PoolRecord) kv \<Rightarrow> bool" where
  "pools_ok m ps \<longleftrightarrow> kv_ok ps \<and>
     (\<forall>i r. kv_get ps i = Some r \<longrightarrow>
        pr_PoolID r = i \<and> PoolRecord_Validate m r = Inr () \<and> IntInRange m (pr_TotalShares r))"

definition shares_ok :: "sdk_math \<Rightarrow> (string, ShareRecord) kv \<Rightarrow> bool" where
  "shares_ok m ss \<longleftrightarrow> kv_ok ss \<and>
     (\<forall>k sr. kv_get ss k = Some sr \<longrightarrow>
        k = DepositorPoolSharesKey (sr_Depositor sr) (sr_PoolID sr) \<and> ShareRecord_Validate m sr = Inr ())"

definition swap_inv :: "'b sdk \<Rightarrow> ('b, 'h) swap_state \<Rightarrow> bool" where
  "swap_inv S st \<longleftrightarrow> pools_ok (Math S) (sk_pools st) \<and> shares_ok (Math S) (sk_shares st) \<and>
     (\<forall>i. share_total st i = pool_shares (GetPool st i)) \<and>
     (\<forall>d. swap_funds S (sk_bank st) d = reserves_total st d)"

lemma swap_invD:
  assumes "swap_inv S st"
  shows "kv_ok (sk_pools st)" "kv_ok (sk_shares st)"
    and "GetPool st i = Some r \<Longrightarrow> pr_PoolID r = i \<and> PoolRecord_Validate (Math S) r = Inr () \<and> IntInRange (Math S) (pr_TotalShares r)"
    and "GetDepositorShares st a i = Some sr \<Longrightarrow>
      DepositorPoolSharesKey a i = DepositorPoolSharesKey (sr_Depositor sr) (sr_PoolID sr) \<and>
      ShareRecord_Validate (Math S) sr = Inr ()"
    and "share_total st i = pool_shares (GetPool st i)"
    and "swap_funds S (sk_bank st) d = reserves_total st d"
  using assms by (auto simp: swap_inv_def pools_ok_def shares_ok_def GetPool_def GetDepositorShares_def)

lemma owner_record:
  assumes "sdk_laws S" "swap_inv S st" "GetDepositorShares st a i = Some sr" "poolID_tokens (Math S) i = Inr t"
  shows "sr_Depositor sr = a" "sr_PoolID sr = i" "0 < sr_SharesOwned sr"
proof -
  note v = swap_invD(4) [OF assms(2,3)]
  then obtain u where u: "poolID_tokens (Math S) (sr_PoolID sr) = Inr u" "0 < sr_SharesOwned sr"
    by (auto simp: ShareRecord_Validate_Inr)
  have "CHR ''|'' \<notin> set i" "CHR ''|'' \<notin> set (sr_PoolID sr)"
    using tokens_no_separator [OF sdk_lawsD(2) [OF assms(1)]] assms(4) u(1) by (metis surj_pair)+
  then show "sr_Depositor sr = a" "sr_PoolID sr = i" "0 < sr_SharesOwned sr"
    using share_key_unique [of a i "sr_Depositor sr" "sr_PoolID sr"] v u(2) by auto
qed

text \<open>
  What one operation may do: write one pool and one share record of that pool, with the same change
  of both share counts, and move the change of the reserves to or from the module account.
\<close>

lemma swap_inv_update:
  assumes inv: "swap_inv S st" and laws: "sdk_laws S" and t: "poolID_tokens (Math S) i = Inr t"
    and pools: "sk_pools st' = kv_upd (sk_pools st) i orec"
    and shares: "sk_shares st' = kv_upd (sk_shares st) (DepositorPoolSharesKey a i) osr"
    and rec_ok: "\<And>r. orec = Some r \<Longrightarrow> pr_PoolID r = i \<and> PoolRecord_Validate (Math S) r = Inr () \<and> IntInRange (Math S) (pr_TotalShares r)"
    and sr_ok: "\<And>sr. osr = Some sr \<Longrightarrow> sr_Depositor sr = a \<and> sr_PoolID sr = i \<and> ShareRecord_Validate (Math S) sr = Inr ()"
    and balance: "pool_shares orec - pool_shares (GetPool st i) = owned_shares osr - owned_shares (GetDepositorShares st a i)"
    and funds: "\<And>d. swap_funds S (sk_bank st') d =
      swap_funds S (sk_bank st) d + pool_reserve orec d - pool_reserve (GetPool st i) d"
  shows "swap_inv S st'"
  unfolding swap_inv_def
proof (intro conjI allI)
  note ok = swap_invD(1,2) [OF inv]
  show "pools_ok (Math S) (sk_pools st')"
    using inv rec_ok by (auto simp: pools swap_inv_def pools_ok_def)
  show "shares_ok (Math S) (sk_shares st')"
    using inv sr_ok by (auto simp: shares swap_inv_def shares_ok_def)
  fix j
  have old: "(case kv_get (sk_shares st) (DepositorPoolSharesKey a i) of None \<Rightarrow> 0
      | Some w \<Rightarrow> if sr_PoolID w = j then sr_SharesOwned w else 0) =
      (if i = j then owned_shares (GetDepositorShares st a i) else 0)"
    using owner_record(2) [OF laws inv _ t, of a]
    by (auto simp: owned_shares_def GetDepositorShares_def split: option.splits)
  have new: "(case osr of None \<Rightarrow> 0 | Some w \<Rightarrow> if sr_PoolID w = j then sr_SharesOwned w else 0) =
      (if i = j then owned_shares osr else 0)"
    using sr_ok by (auto simp: owned_shares_def split: option.splits)
  show "share_total st' j = pool_shares (GetPool st' j)"
    using swap_invD(5) [OF inv, of j] balance
    unfolding share_total_def shares kv_total_upd [OF ok(2)] old new
    by (auto simp: GetPool_def pools)
next
  fix d
  note ok = swap_invD(1,2) [OF inv]
  show "swap_funds S (sk_bank st') d = reserves_total st' d"
    using swap_invD(6) [OF inv, of d] funds [of d]
    unfolding reserves_total_def pools kv_total_upd [OF ok(1)]
    by (simp add: pool_reserve_def GetPool_def split: option.splits)
qed

lemma NewCoins_two:
  assumes "sdk_laws S" "NewCoins S [cA, cB] = Inr r" "PoolIDFromCoins r = Inr i"
  obtains c0 c1 where "r = [c0, c1]" "{c0, c1} = {cA, cB}" "Denom c0 < Denom c1" "i = PoolID (Denom c0) (Denom c1)"
    "0 < Amount c0" "0 < Amount c1" "ValidDenom (Math S) (Denom c0)" "ValidDenom (Math S) (Denom c1)"
proof -
  have r: "r = sort_key Denom (filter (\<lambda>c. Amount c \<noteq> 0) [cA, cB])" "coins_Valid (Math S) r"
    using sdk_lawsD(3) [OF assms(1)] assms(2) unfolding new_coins_law_def by blast+
  have len: "1 < length r" and i: "i = PoolID (Denom (r ! 0)) (Denom (r ! 1))"
    using assms(3) by (auto simp: PoolIDFromCoins_def)
  have "length r \<le> 2" using r(1) length_filter_le [of "\<lambda>c. Amount c \<noteq> 0" "[cA, cB]"] by simp
  with len obtain c0 c1 where c: "r = [c0, c1]"
    by (metis One_nat_def Suc_1 le_antisym length_0_conv length_Suc_conv Suc_leI)
  have "set r \<subseteq> {cA, cB}" unfolding r(1) by (simp only: set_sort set_filter list.set) blast
  then have "c0 \<in> {cA, cB}" "c1 \<in> {cA, cB}" by (simp_all add: c)
  moreover have "c0 \<noteq> c1" using r(2) c by (auto simp: coins_Valid_def)
  ultimately have "{c0, c1} = {cA, cB}" by blast
  moreover have "Denom c0 < Denom c1" "0 < Amount c0" "0 < Amount c1"
    "ValidDenom (Math S) (Denom c0)" "ValidDenom (Math S) (Denom c1)"
    using r(2) c by (simp_all add: coins_Valid_def)
  ultimately show ?thesis using i c by (intro that [OF c]) simp_all
qed

lemma AddLiquidity_range:
  "pool_wf p \<Longrightarrow> 0 < dA \<Longrightarrow> 0 < dB \<Longrightarrow> AddLiquidity m p dA dB = Inr (p', a, b, s) \<Longrightarrow>
   IntInRange m (totalShares p')"
  by (auto simp: AddLiquidity_eq Let_def split: if_splits)

text \<open>The pool a deposit ends with, whether it was created or extended.\<close>

definition deposit_pool :: "'b sdk \<Rightarrow> ('b, 'h) swap_state \<Rightarrow> string \<Rightarrow> coins \<Rightarrow> (DenominatedPool \<times> coins \<times> int) result" where
  "deposit_pool S st i desired = (case GetPool st i of
     Some rec \<Rightarrow> addLiquidityToPool S rec desired | None \<Rightarrow> initializePool S st i desired)"

lemma deposit_pool_ok:
  assumes laws: "sdk_laws S" and inv: "swap_inv S st"
    and c: "Denom c0 < Denom c1" "0 < Amount c0" "0 < Amount c1" "ValidDenom (Math S) (Denom c0)" "ValidDenom (Math S) (Denom c1)"
    and i: "i = PoolID (Denom c0) (Denom c1)"
    and ok: "deposit_pool S st i [c0, c1] = Inr (p, cs, s)"
  obtains a b where "dp_denomA p = Denom c0" "dp_denomB p = Denom c1"
    "cs = filter (\<lambda>c. Amount c \<noteq> 0) [Coin (Denom c0) a, Coin (Denom c1) b]"
    "0 \<le> a" "a \<le> Amount c0" "0 \<le> b" "b \<le> Amount c1" "0 \<le> s"
    "pool_wf (dp_pool p)" "IntInRange (Math S) (totalShares (dp_pool p))"
    "totalShares (dp_pool p) = pool_shares (GetPool st i) + s"
    "\<forall>d. record_reserve (record_of p) d = pool_reserve (GetPool st i) d + (if d = Denom c0 then a else 0) + (if d = Denom c1 then b else 0)"
proof (cases "GetPool st i")
  case None
  then have "NewDenominatedPool (Math S) [c0, c1] = Inr p" "dp_Reserves S p = Inr cs" "s = dp_TotalShares p"
    using ok by (auto simp: deposit_pool_def initializePool_def split: if_splits)
  moreover from this have p: "dp_denomA p = Denom c0" "dp_denomB p = Denom c1"
    "reservesA (dp_pool p) = Amount c0" "reservesB (dp_pool p) = Amount c1"
    "totalShares (dp_pool p) = big_Sqrt (Amount c0 * Amount c1)" "IntInRange (Math S) (totalShares (dp_pool p))"
    by (auto simp: NewDenominatedPool_def NewBasePool_def calculateInitialShares_def split: if_splits)
  moreover have "dp_wf (Math S) p" using p c by (simp add: dp_wf_def)
  moreover have "0 < big_Sqrt (Amount c0 * Amount c1)" using c by (intro big_Sqrt_pos) auto
  ultimately show ?thesis
    using None c dp_coins_Inr [OF laws, of p "Amount c0" "Amount c1" cs]
    by (intro that [of "Amount c0" "Amount c1"])
      (auto simp: dp_Reserves_def dp_TotalShares_def pool_wf_def pool_shares_def pool_reserve_def
        record_of_def record_reserve_def)
next
  case (Some r)
  have v: "pr_PoolID r = i" "PoolRecord_Validate (Math S) r = Inr ()" using swap_invD(3) [OF inv Some] by auto
  have "Denom (pr_ReservesA r) @ PoolIDSep # Denom (pr_ReservesB r) = Denom c0 @ PoolIDSep # Denom c1"
    "PoolIDSep \<notin> set (Denom (pr_ReservesB r))" "PoolIDSep \<notin> set (Denom (pr_ReservesA r))"
    using v i c(1) by (auto simp: PoolRecord_Validate_Inr poolID_tokens_Inr PoolID_ordered)
  then have d: "Denom (pr_ReservesA r) = Denom c0" "Denom (pr_ReservesB r) = Denom c1"
    using append_Cons_eq_iff [of PoolIDSep] by metis+
  note wf = valid_pool_of [OF v(2)]
  have pd: "dp_denomA (pool_of r) = Denom c0" "dp_denomB (pool_of r) = Denom c1"
    using d by (simp_all add: pool_of_def)
  have "dp_AddLiquidity S (pool_of r) [c0, c1] = Inr (p, cs, s)"
    using ok Some load_record [OF laws v(2)] by (simp add: deposit_pool_def addLiquidityToPool_def)
  then obtain bp a b where ab: "AddLiquidity (Math S) (dp_pool (pool_of r)) (Amount c0) (Amount c1) = Inr (bp, a, b, s)"
      and cs: "dp_coins S (pool_of r) a b = Inr cs" and p: "p = (pool_of r)\<lparr>dp_pool := bp\<rparr>"
    using less_imp_neq [OF c(1)] by (auto simp: dp_AddLiquidity_def pd)
  note add = AddLiquidity_ok [OF wf(2) c(2,3) ab]
  note taken = taken_bounds [OF wf(2) c(2,3)]
  show ?thesis
  proof (rule that [of a b])
    show "cs = filter (\<lambda>c. Amount c \<noteq> 0) [Coin (Denom c0) a, Coin (Denom c1) b]"
      using cs dp_coins_Inr [OF laws wf(1)] by (simp add: pd)
    show "IntInRange (Math S) (totalShares (dp_pool p))"
      using AddLiquidity_range [OF wf(2) c(2,3) ab] by (simp add: p)
    show "totalShares (dp_pool p) = pool_shares (GetPool st i) + s"
      using add(1) by (simp add: p Some pool_shares_def pool_of_def)
    show "\<forall>e. record_reserve (record_of p) e = pool_reserve (GetPool st i) e +
        (if e = Denom c0 then a else 0) + (if e = Denom c1 then b else 0)"
      using add(1) d by (auto simp: p Some pool_reserve_def record_reserve_def record_of_def pool_of_def)
  qed (use add taken pd p in simp_all)
qed

lemma dp_coins_pos:
  assumes "cs = filter (\<lambda>c. Amount c \<noteq> 0) [Coin dA a, Coin dB b]"
    "dA \<noteq> dB" "AmountOf cs dA \<noteq> 0" "AmountOf cs dB \<noteq> 0"
  shows "cs = [Coin dA a, Coin dB b]" "a \<noteq> 0" "b \<noteq> 0"
  using assms by (auto split: if_splits)

lemma updatePool_ok:
  assumes "sdk_laws S" "dp_wf (Math S) p" "i = PoolID (dp_denomA p) (dp_denomB p)"
    and "dp_TotalShares p \<noteq> 0 \<Longrightarrow> 0 < reservesA (dp_pool p) \<and> 0 < reservesB (dp_pool p)"
    and "updatePool S st i p = Inr st'"
  defines "orec \<equiv> if dp_TotalShares p = 0 then None else Some (record_of p)"
  shows "st' = st\<lparr>sk_pools := kv_upd (sk_pools st) i orec\<rparr>"
    and "\<And>r. orec = Some r \<Longrightarrow> pr_PoolID r = i \<and> PoolRecord_Validate (Math S) r = Inr ()"
  using assms NewPoolRecordFromPool_wf [OF assms(1,2)]
  by (auto simp: updatePool_def kv_upd_def DeletePool_def SetPool_Inr SetPool_Raw_def record_of_def split: if_splits)

lemma updateDepositorShares_ok:
  assumes "updateDepositorShares m st a i n = Inr st'"
  defines "osr \<equiv> if n = 0 then None else Some (NewShareRecord a i n)"
  shows "st' = st\<lparr>sk_shares := kv_upd (sk_shares st) (DepositorPoolSharesKey a i) osr\<rparr>"
    and "\<And>sr. osr = Some sr \<Longrightarrow> sr_Depositor sr = a \<and> sr_PoolID sr = i \<and> ShareRecord_Validate m sr = Inr ()"
    and "owned_shares osr = n"
  using assms
  by (auto simp: updateDepositorShares_def kv_upd_def DeleteDepositorShares_def SetDepositorShares_Inr
    SetDepositorShares_Raw_def NewShareRecord_def owned_shares_def split: if_splits)

lemma hooks_frame [simp]:
  "sk_pools (AfterPoolDepositCreated hk st i a n) = sk_pools st"
  "sk_shares (AfterPoolDepositCreated hk st i a n) = sk_shares st"
  "sk_bank (AfterPoolDepositCreated hk st i a n) = sk_bank st"
  "sk_params (AfterPoolDepositCreated hk st i a n) = sk_params st"
  "sk_pools (BeforePoolDepositModified hk st i a n) = sk_pools st"
  "sk_shares (BeforePoolDepositModified hk st i a n) = sk_shares st"
  "sk_bank (BeforePoolDepositModified hk st i a n) = sk_bank st"
  "sk_params (BeforePoolDepositModified hk st i a n) = sk_params st"
  by (simp_all add: AfterPoolDepositCreated_def BeforePoolDepositModified_def split: option.splits)


text \<open>A deposit: what it takes, what it mints, and the records it writes.\<close>

lemma Deposit_ok:
  assumes laws: "sdk_laws S" and inv: "swap_inv S st" and ok: "Deposit S hk st w cA cB slip = Inr st'"
  obtains i t cs s orec osr where
    "poolID_tokens (Math S) i = Inr t" "i = PoolID (Denom cA) (Denom cB)" "0 < s"
    "Denom ` set cs = {Denom cA, Denom cB}" "\<forall>d. 0 \<le> AmountOf cs d"
    "AmountOf cs (Denom cA) \<le> Amount cA" "AmountOf cs (Denom cB) \<le> Amount cB"
    "sk_pools st' = kv_upd (sk_pools st) i (Some orec)"
    "sk_shares st' = kv_upd (sk_shares st) (DepositorPoolSharesKey w i) (Some osr)"
    "pr_PoolID orec = i" "PoolRecord_Validate (Math S) orec = Inr ()" "IntInRange (Math S) (pr_TotalShares orec)"
    "pr_TotalShares orec = pool_shares (GetPool st i) + s"
    "\<forall>d. record_reserve orec d = pool_reserve (GetPool st i) d + AmountOf cs d"
    "sr_Depositor osr = w" "sr_PoolID osr = i" "ShareRecord_Validate (Math S) osr = Inr ()"
    "sr_SharesOwned osr = owned_shares (GetDepositorShares st w i) + s"
    "moved S (sk_bank st) (sk_bank st') w (ModuleAddress S swap_module) cs"
proof -
  obtain desired i p cs s st1 st3 b' where
      des: "NewCoins S [cA, cB] = Inr desired" "PoolIDFromCoins desired = Inr i"
      and dp: "deposit_pool S st i desired = Inr (p, cs, s)"
      and nz: "AmountOf cs (Denom cA) \<noteq> 0" "AmountOf cs (Denom cB) \<noteq> 0" "s \<noteq> 0"
      and st1: "updatePool S st i p = Inr st1"
      and st3: "(case GetDepositorShares st1 w i of
                Some sr \<Rightarrow>
                  bnd (toInt (Math S) (sr_SharesOwned sr + s)) (\<lambda>total.
                  updateDepositorShares (Math S)
                    (BeforePoolDepositModified hk st1 i w (sr_SharesOwned sr)) w i total)
              | None \<Rightarrow>
                  bnd (updateDepositorShares (Math S) st1 w i s) (\<lambda>st2.
                  Inr (AfterPoolDepositCreated hk st2 i w s))) = Inr st3"
      and b': "SendCoinsFromAccountToModule S (sk_bank st3) w swap_module cs = Inr b'" "st' = st3\<lparr>sk_bank := b'\<rparr>"
    using ok unfolding Deposit_def deposit_pool_def [symmetric] Let_def
    by (auto split: if_splits)
  obtain c0 c1 where c: "desired = [c0, c1]" "{c0, c1} = {cA, cB}" "Denom c0 < Denom c1"
      "i = PoolID (Denom c0) (Denom c1)" "0 < Amount c0" "0 < Amount c1"
      "ValidDenom (Math S) (Denom c0)" "ValidDenom (Math S) (Denom c1)"
    by (rule NewCoins_two [OF laws des])
  obtain a b where p: "dp_denomA p = Denom c0" "dp_denomB p = Denom c1"
      and cs: "cs = filter (\<lambda>c. Amount c \<noteq> 0) [Coin (Denom c0) a, Coin (Denom c1) b]"
      and ab: "0 \<le> a" "a \<le> Amount c0" "0 \<le> b" "b \<le> Amount c1" "0 \<le> s"
      and wf: "pool_wf (dp_pool p)" "IntInRange (Math S) (totalShares (dp_pool p))"
      and tot: "totalShares (dp_pool p) = pool_shares (GetPool st i) + s"
      and res: "\<forall>d. record_reserve (record_of p) d = pool_reserve (GetPool st i) d +
          (if d = Denom c0 then a else 0) + (if d = Denom c1 then b else 0)"
    by (rule deposit_pool_ok [OF laws inv c(3,5,6,7,8,4) dp [unfolded c(1)]])
  have dpwf: "dp_wf (Math S) p" using p c by (simp add: dp_wf_def)
  have ne: "Denom c0 \<noteq> Denom c1" using c(3) by auto
  have pair: "cA = c0 \<and> cB = c1 \<or> cA = c1 \<and> cB = c0" using c(2) by (metis doubleton_eq_iff)
  have i: "i = PoolID (Denom cA) (Denom cB)" using pair c(4) PoolID_commute by metis
  have cs2: "cs = [Coin (Denom c0) a, Coin (Denom c1) b]" "a \<noteq> 0" "b \<noteq> 0"
    using dp_coins_pos [OF cs ne] nz pair by auto
  have "totalShares (dp_pool p) \<noteq> 0" using wf(1) by (simp add: pool_wf_def)
  then have up: "st1 = st\<lparr>sk_pools := kv_upd (sk_pools st) i (Some (record_of p))\<rparr>"
      "pr_PoolID (record_of p) = i" "PoolRecord_Validate (Math S) (record_of p) = Inr ()"
    using updatePool_ok [OF laws dpwf _ _ st1] wf(1) p c(4) by (auto simp: dp_TotalShares_def pool_wf_def)
  have gd: "GetDepositorShares st1 w i = GetDepositorShares st w i" by (simp add: up(1) GetDepositorShares_def)
  define n where "n = owned_shares (GetDepositorShares st w i) + s"
  have "n \<noteq> 0"
  proof (cases "GetDepositorShares st w i")
    case (Some sr)
    then have "0 < sr_SharesOwned sr" using swap_invD(4) [OF inv Some] by (simp add: ShareRecord_Validate_Inr)
    then show ?thesis using ab(5) by (simp add: n_def owned_shares_def Some)
  qed (use nz in \<open>simp add: n_def owned_shares_def\<close>)
  obtain stx where x: "updateDepositorShares (Math S) stx w i n = Inr st3 \<or>
        (\<exists>st2. updateDepositorShares (Math S) stx w i n = Inr st2 \<and> st3 = AfterPoolDepositCreated hk st2 i w s)"
      "sk_pools stx = sk_pools st1" "sk_shares stx = sk_shares st1" "sk_bank stx = sk_bank st1"
  proof (cases "GetDepositorShares st w i")
    case None
    then show ?thesis using st3 by (intro that [of st1]) (auto simp: gd n_def owned_shares_def)
  next
    case (Some sr)
    then show ?thesis
      using st3 by (intro that [of "BeforePoolDepositModified hk st1 i w (sr_SharesOwned sr)"])
        (auto simp: gd n_def owned_shares_def)
  qed
  have st3': "sk_pools st3 = sk_pools st1" "sk_bank st3 = sk_bank st"
      "sk_shares st3 = kv_upd (sk_shares st) (DepositorPoolSharesKey w i) (Some (NewShareRecord w i n))"
      "ShareRecord_Validate (Math S) (NewShareRecord w i n) = Inr ()"
    using x updateDepositorShares_ok [of "Math S" stx w i n] \<open>n \<noteq> 0\<close> by (auto simp: up(1))
  show ?thesis
  proof (rule that [of i "(Denom c0, Denom c1)" s cs "record_of p" "NewShareRecord w i n"])
    show "poolID_tokens (Math S) i = Inr (Denom c0, Denom c1)"
      using up(2,3) p by (simp add: PoolRecord_Validate_Inr record_of_def)
    show "moved S (sk_bank st) (sk_bank st') w (ModuleAddress S swap_module) cs"
      using sdk_lawsD(5) [OF laws] b' st3'(2) unfolding send_law_def by simp
    show "AmountOf cs (Denom cA) \<le> Amount cA" "AmountOf cs (Denom cB) \<le> Amount cB"
      "Denom ` set cs = {Denom cA, Denom cB}"
      using pair ne ab by (auto simp: cs2)
    show "\<forall>d. 0 \<le> AmountOf cs d" using ab by (simp add: cs2)
    show "\<forall>d. record_reserve (record_of p) d = pool_reserve (GetPool st i) d + AmountOf cs d"
      using res ne by (auto simp: cs2)
  qed (use i nz ab up wf tot st3' b' in \<open>simp_all add: NewShareRecord_def n_def record_of_def\<close>)
qed

lemma Deposit_inv:
  assumes "sdk_laws S" "swap_inv S st" "w \<noteq> ModuleAddress S swap_module" "Deposit S hk st w cA cB slip = Inr st'"
  shows "swap_inv S st'"
proof (rule Deposit_ok [OF assms(1,2,4)])
  fix i t cs s orec osr
  assume *: "poolID_tokens (Math S) i = Inr t"
    "sk_pools st' = kv_upd (sk_pools st) i (Some orec)"
    "sk_shares st' = kv_upd (sk_shares st) (DepositorPoolSharesKey w i) (Some osr)"
    "pr_PoolID orec = i" "PoolRecord_Validate (Math S) orec = Inr ()" "IntInRange (Math S) (pr_TotalShares orec)"
    "pr_TotalShares orec = pool_shares (GetPool st i) + s"
    "\<forall>d. record_reserve orec d = pool_reserve (GetPool st i) d + AmountOf cs d"
    "sr_Depositor osr = w" "sr_PoolID osr = i" "ShareRecord_Validate (Math S) osr = Inr ()"
    "sr_SharesOwned osr = owned_shares (GetDepositorShares st w i) + s"
    "moved S (sk_bank st) (sk_bank st') w (ModuleAddress S swap_module) cs"
  have "swap_funds S (sk_bank st') d = swap_funds S (sk_bank st) d + pool_reserve (Some orec) d - pool_reserve (GetPool st i) d" for d
    using *(8,13) assms(3) by (simp add: moved_def pool_reserve_def)
  then show "swap_inv S st'"
    by (intro swap_inv_update [OF assms(2,1) *(1-3)])
      (use * in \<open>auto simp: pool_shares_def owned_shares_def\<close>)
qed


section \<open>Withdrawals\<close>

lemma RemoveLiquidity_ok:
  assumes wf: "pool_wf p" and ok: "RemoveLiquidity m p s = Inr (p', a, b)"
  shows "p' = \<lparr>reservesA = reservesA p - a, reservesB = reservesB p - b, totalShares = totalShares p - s\<rparr>"
    and "0 < s" "s \<le> totalShares p" "0 \<le> a" "0 \<le> b" "IntInRange m (totalShares p')"
    and "totalShares p' \<noteq> 0 \<Longrightarrow> 0 < reservesA p' \<and> 0 < reservesB p'"
    and "totalShares p' = 0 \<Longrightarrow> reservesA p' = 0 \<and> reservesB p' = 0"
proof -
  have s: "0 < s" "s \<le> totalShares p" using RemoveLiquidity_range [OF ok] by auto
  then show "0 < s" "s \<le> totalShares p" .
  have pos: "0 < reservesA p" "0 < reservesB p" "0 < totalShares p"
    using wf by (simp_all add: pool_wf_def)
  have eq: "a = reservesA p * s div totalShares p" "b = reservesB p * s div totalShares p"
      "p' = \<lparr>reservesA = reservesA p - a, reservesB = reservesB p - b, totalShares = totalShares p - s\<rparr>"
      "IntInRange m (totalShares p')"
    using ok by (auto simp: RemoveLiquidity_eq [OF wf s] Let_def split: if_splits)
  show "p' = \<lparr>reservesA = reservesA p - a, reservesB = reservesB p - b, totalShares = totalShares p - s\<rparr>"
    "IntInRange m (totalShares p')" by (fact eq)+
  show "0 \<le> a" "0 \<le> b" unfolding eq(1,2) using pos s by (simp_all add: pos_imp_zdiv_nonneg_iff)
  have part: "s < totalShares p \<Longrightarrow> a < reservesA p \<and> b < reservesB p"
    unfolding eq(1,2) using pos by (auto intro!: div_less_of_less_mult)
  then show "totalShares p' \<noteq> 0 \<Longrightarrow> 0 < reservesA p' \<and> 0 < reservesB p'" using s by (simp add: eq(3))
  show "totalShares p' = 0 \<Longrightarrow> reservesA p' = 0 \<and> reservesB p' = 0"
    using pos by (simp add: eq(3)) (simp add: eq(1,2))
qed

lemma Withdraw_ok:
  assumes laws: "sdk_laws S" and inv: "swap_inv S st" and ok: "Withdraw S hk st w s cA cB = Inr st'"
  obtains i t r sr cs orec osr where
    "poolID_tokens (Math S) i = Inr t" "i = PoolID (Denom cA) (Denom cB)"
    "GetPool st i = Some r" "GetDepositorShares st w i = Some sr" "0 < s" "s \<le> sr_SharesOwned sr"
    "\<forall>d. 0 \<le> AmountOf cs d" "Amount cA \<le> AmountOf cs (Denom cA)" "Amount cB \<le> AmountOf cs (Denom cB)"
    "\<forall>d. AmountOf cs d * pr_TotalShares r \<le> record_reserve r d * s"
    "sk_pools st' = kv_upd (sk_pools st) i orec"
    "sk_shares st' = kv_upd (sk_shares st) (DepositorPoolSharesKey w i) osr"
    "\<forall>r'. orec = Some r' \<longrightarrow> pr_PoolID r' = i \<and> PoolRecord_Validate (Math S) r' = Inr () \<and> IntInRange (Math S) (pr_TotalShares r')"
    "pool_shares orec = pr_TotalShares r - s"
    "\<forall>d. pool_reserve orec d = record_reserve r d - AmountOf cs d"
    "\<forall>x. osr = Some x \<longrightarrow> sr_Depositor x = w \<and> sr_PoolID x = i \<and> ShareRecord_Validate (Math S) x = Inr ()"
    "owned_shares osr = sr_SharesOwned sr - s"
    "moved S (sk_bank st) (sk_bank st') (ModuleAddress S swap_module) w cs"
proof -
  define i where "i = PoolID (Denom cA) (Denom cB)"
  obtain sr r where sr: "GetDepositorShares st w i = Some sr" "s \<le> sr_SharesOwned sr" and r: "GetPool st i = Some r"
    using ok unfolding Withdraw_def Let_def i_def by (auto split: option.splits if_splits)
  have v: "pr_PoolID r = i" "PoolRecord_Validate (Math S) r = Inr ()" using swap_invD(3) [OF inv r] by auto
  note wf = valid_pool_of [OF v(2)]
  obtain p' cs st1 st2 b' where rem: "dp_RemoveLiquidity S (pool_of r) s = Inr (p', cs)"
      and nz: "AmountOf cs (Denom cA) \<noteq> 0" "AmountOf cs (Denom cB) \<noteq> 0"
      and min: "Amount cA \<le> AmountOf cs (Denom cA)" "Amount cB \<le> AmountOf cs (Denom cB)"
      and st1: "updatePool S st i p' = Inr st1"
      and st2: "updateDepositorShares (Math S) (BeforePoolDepositModified hk st1 i w (sr_SharesOwned sr)) w i (sr_SharesOwned sr - s) = Inr st2"
      and b': "SendCoinsFromModuleToAccount S (sk_bank st2) swap_module w cs = Inr b'" "st' = st2\<lparr>sk_bank := b'\<rparr>"
    using ok sr r load_record [OF laws v(2)] unfolding Withdraw_def Let_def i_def [symmetric]
    by (auto split: if_splits prod.splits)
  obtain bp a b where ab: "RemoveLiquidity (Math S) (dp_pool (pool_of r)) s = Inr (bp, a, b)"
      and cs: "dp_coins S (pool_of r) a b = Inr cs" and p': "p' = (pool_of r)\<lparr>dp_pool := bp\<rparr>"
    using rem by (auto simp: dp_RemoveLiquidity_def)
  note rl = RemoveLiquidity_ok [OF wf(2) ab]
  let ?dA = "Denom (pr_ReservesA r)" and ?dB = "Denom (pr_ReservesB r)"
  have t: "poolID_tokens (Math S) i = Inr (?dA, ?dB)" using v by (simp add: PoolRecord_Validate_Inr)
  then have ne: "?dA \<noteq> ?dB" and i: "i = PoolID ?dA ?dB" by (auto simp: poolID_tokens_Inr PoolID_ordered)
  have amt: "AmountOf cs d = (if d = ?dA then a else 0) + (if d = ?dB then b else 0)" for d
    using cs dp_coins_Inr [OF laws wf(1)] pair_amounts [OF _ ne] by (simp add: pool_of_def)
  define orec where "orec = (if dp_TotalShares p' = 0 then None else Some (record_of p'))"
  define osr where "osr = (if sr_SharesOwned sr - s = 0 then None else Some (NewShareRecord w i (sr_SharesOwned sr - s)))"
  have dpwf: "dp_wf (Math S) p'" using wf(1) by (simp add: p' dp_wf_def)
  have up: "st1 = st\<lparr>sk_pools := kv_upd (sk_pools st) i orec\<rparr>"
      "\<And>r. orec = Some r \<Longrightarrow> pr_PoolID r = i \<and> PoolRecord_Validate (Math S) r = Inr ()"
    using updatePool_ok [OF laws dpwf _ _ st1] i rl(7) unfolding orec_def
    by (auto simp: p' pool_of_def dp_TotalShares_def)
  note us = updateDepositorShares_ok [OF st2, folded osr_def]
  show ?thesis
  proof (rule that [of i "(?dA, ?dB)" r sr cs orec osr])
    show "\<forall>d. 0 \<le> AmountOf cs d" using rl(4,5) by (simp add: amt)
    show "\<forall>d. AmountOf cs d * pr_TotalShares r \<le> record_reserve r d * s"
    proof
      fix d
      have "a * pr_TotalShares r \<le> Amount (pr_ReservesA r) * s" "b * pr_TotalShares r \<le> Amount (pr_ReservesB r) * s"
        using ab wf(2) unfolding RemoveLiquidity_eq [OF wf(2) rl(2,3)]
        by (auto simp: pool_of_def pool_wf_def Let_def div_times_bounds split: if_splits)
      then show "AmountOf cs d * pr_TotalShares r \<le> record_reserve r d * s"
        using ne by (auto simp: amt record_reserve_def)
    qed
    show "\<forall>r'. orec = Some r' \<longrightarrow> pr_PoolID r' = i \<and> PoolRecord_Validate (Math S) r' = Inr () \<and> IntInRange (Math S) (pr_TotalShares r')"
      using up(2) rl(6) by (auto simp: orec_def p' record_of_def)
    show "pool_shares orec = pr_TotalShares r - s"
      using rl(1) by (auto simp: orec_def pool_shares_def p' pool_of_def dp_TotalShares_def record_of_def)
    show "\<forall>d. pool_reserve orec d = record_reserve r d - AmountOf cs d"
      using rl(1,8) ne
      by (auto simp: orec_def pool_reserve_def p' pool_of_def dp_TotalShares_def record_of_def amt record_reserve_def)
    show "moved S (sk_bank st) (sk_bank st') (ModuleAddress S swap_module) w cs"
      using sdk_lawsD(5) [OF laws] b' us(1) up(1) unfolding send_law_def by simp
  qed (use t sr r rl(2) min us up b' i_def in simp_all)
qed

lemma Withdraw_inv:
  assumes "sdk_laws S" "swap_inv S st" "w \<noteq> ModuleAddress S swap_module" "Withdraw S hk st w s cA cB = Inr st'"
  shows "swap_inv S st'"
proof (rule Withdraw_ok [OF assms(1,2,4)])
  fix i t r sr cs orec osr
  assume *: "poolID_tokens (Math S) i = Inr t"
    "sk_pools st' = kv_upd (sk_pools st) i orec"
    "sk_shares st' = kv_upd (sk_shares st) (DepositorPoolSharesKey w i) osr"
    "GetPool st i = Some r" "GetDepositorShares st w i = Some sr"
    "\<forall>r'. orec = Some r' \<longrightarrow> pr_PoolID r' = i \<and> PoolRecord_Validate (Math S) r' = Inr () \<and> IntInRange (Math S) (pr_TotalShares r')"
    "pool_shares orec = pr_TotalShares r - s"
    "\<forall>d. pool_reserve orec d = record_reserve r d - AmountOf cs d"
    "\<forall>x. osr = Some x \<longrightarrow> sr_Depositor x = w \<and> sr_PoolID x = i \<and> ShareRecord_Validate (Math S) x = Inr ()"
    "owned_shares osr = sr_SharesOwned sr - s"
    "moved S (sk_bank st) (sk_bank st') (ModuleAddress S swap_module) w cs"
  have "swap_funds S (sk_bank st') d = swap_funds S (sk_bank st) d + pool_reserve orec d - pool_reserve (GetPool st i) d" for d
    using *(4,8,11) assms(3) by (simp add: moved_def pool_reserve_def)
  then show "swap_inv S st'"
    by (intro swap_inv_update [OF assms(2,1) *(1-3)])
      (use * in \<open>simp_all add: pool_shares_def owned_shares_def\<close>)
qed

section \<open>Swaps\<close>

lemma swap_inv_update_pool:
  assumes inv: "swap_inv S st" and r: "GetPool st i = Some r"
    and pools: "sk_pools st' = kv_set (sk_pools st) i r'" and shares: "sk_shares st' = sk_shares st"
    and ok: "pr_PoolID r' = i" "PoolRecord_Validate (Math S) r' = Inr ()" "pr_TotalShares r' = pr_TotalShares r"
    and funds: "\<And>d. swap_funds S (sk_bank st') d = swap_funds S (sk_bank st) d + record_reserve r' d - record_reserve r d"
  shows "swap_inv S st'"
  unfolding swap_inv_def
proof (intro conjI allI)
  show "pools_ok (Math S) (sk_pools st')"
    using inv ok swap_invD(3) [OF inv r] by (auto simp: pools swap_inv_def pools_ok_def)
  show "shares_ok (Math S) (sk_shares st')" using inv by (simp add: shares swap_inv_def)
  show "share_total st' j = pool_shares (GetPool st' j)" for j
    using swap_invD(5) [OF inv, of j] r ok(3) by (simp add: share_total_def shares GetPool_def pools pool_shares_def)
  show "swap_funds S (sk_bank st') d = reserves_total st' d" for d
    using swap_invD(6) [OF inv, of d] funds [of d] r swap_invD(1) [OF inv]
    by (simp add: reserves_total_def pools kv.total_put GetPool_def)
qed

lemma NewPoolRecordFromPool_Inr:
  assumes "sdk_laws S" "dp_wf (Math S) p" "NewPoolRecordFromPool S p = Inr r"
  shows "r = record_of p"
  using assms dp_coins_Inr [OF assms(1,2)] less_imp_neq
  by (auto simp: NewPoolRecordFromPool_def PoolIDFromCoins_def dp_Reserves_def dp_TotalShares_def record_of_def
      split: if_splits)

lemma NewCoins_single:
  assumes "sdk_laws S" "NewCoins S [c] = Inr r"
  shows "AmountOf r d = (if d = Denom c then Amount c else 0)"
proof -
  have "r = sort_key Denom (filter (\<lambda>c. Amount c \<noteq> 0) [c])"
    using sdk_lawsD(3) [OF assms(1)] assms(2) unfolding new_coins_law_def by blast
  then show ?thesis by simp
qed

text \<open>A swap between two coins of a pool: the input joins its reserve, the output leaves the other.\<close>

definition pool_traded :: "DenominatedPool \<Rightarrow> DenominatedPool \<Rightarrow> coin \<Rightarrow> coin \<Rightarrow> bool" where
  "pool_traded p p' inp out \<longleftrightarrow>
     dp_denomA p' = dp_denomA p \<and> dp_denomB p' = dp_denomB p \<and>
     totalShares (dp_pool p') = totalShares (dp_pool p) \<and>
     {Denom inp, Denom out} = {dp_denomA p, dp_denomB p} \<and>
     (\<forall>d. record_reserve (record_of p') d = record_reserve (record_of p) d +
        (if d = Denom inp then Amount inp else 0) - (if d = Denom out then Amount out else 0))"

lemma base_swaps_reserves:
  "SwapExactAForB m p x fee = Inr (p', b, f) \<Longrightarrow> p' = p\<lparr>reservesA := reservesA p + x, reservesB := reservesB p - b\<rparr>"
  "SwapExactBForA m p y fee = Inr (p', a, f) \<Longrightarrow> p' = p\<lparr>reservesA := reservesA p - a, reservesB := reservesB p + y\<rparr>"
  "SwapAForExactB m p y fee = Inr (p', a, f) \<Longrightarrow> p' = p\<lparr>reservesA := reservesA p + a, reservesB := reservesB p - y\<rparr>"
  "SwapBForExactA m p x fee = Inr (p', b, f) \<Longrightarrow> p' = p\<lparr>reservesA := reservesA p - x, reservesB := reservesB p + b\<rparr>"
  by (auto simp: SwapExactAForB_def SwapExactBForA_def SwapAForExactB_def SwapBForExactA_def
      assertInvariantAndUpdateReserves_def)

lemma pool_tradedI:
  assumes "dp_denomA p \<noteq> dp_denomB p" "p' = p\<lparr>dp_pool := bp\<rparr>"
    and "Denom inp = dp_denomA p \<and> Denom out = dp_denomB p \<and>
        bp = (dp_pool p)\<lparr>reservesA := reservesA (dp_pool p) + Amount inp, reservesB := reservesB (dp_pool p) - Amount out\<rparr> \<or>
      Denom inp = dp_denomB p \<and> Denom out = dp_denomA p \<and>
        bp = (dp_pool p)\<lparr>reservesA := reservesA (dp_pool p) - Amount out, reservesB := reservesB (dp_pool p) + Amount inp\<rparr>"
  shows "pool_traded p p' inp out"
  using assms(3)
proof
  assume a: "Denom inp = dp_denomA p \<and> Denom out = dp_denomB p \<and>
    bp = (dp_pool p)\<lparr>reservesA := reservesA (dp_pool p) + Amount inp, reservesB := reservesB (dp_pool p) - Amount out\<rparr>"
  show ?thesis using a assms(1,2) by (simp add: pool_traded_def record_of_def record_reserve_def)
next
  assume a: "Denom inp = dp_denomB p \<and> Denom out = dp_denomA p \<and>
    bp = (dp_pool p)\<lparr>reservesA := reservesA (dp_pool p) - Amount out, reservesB := reservesB (dp_pool p) + Amount inp\<rparr>"
  show ?thesis using a assms(1,2) by (simp add: pool_traded_def record_of_def record_reserve_def insert_commute)
qed

lemma SwapWithExactInput_traded:
  assumes "SwapWithExactInput m p inp fee = Inr (p', out, f)" "dp_denomA p \<noteq> dp_denomB p"
  shows "pool_traded p p' inp out"
proof -
  obtain bp where bp: "p' = p\<lparr>dp_pool := bp\<rparr>"
    "Denom inp = dp_denomA p \<and> Denom out = dp_denomB p \<and> (\<exists>f. SwapExactAForB m (dp_pool p) (Amount inp) fee = Inr (bp, Amount out, f)) \<or>
     Denom inp = dp_denomB p \<and> Denom out = dp_denomA p \<and> (\<exists>f. SwapExactBForA m (dp_pool p) (Amount inp) fee = Inr (bp, Amount out, f))"
    using assms(1) by (auto simp: SwapWithExactInput_def dp_coinA_def dp_coinB_def split: if_splits)
  show ?thesis
    by (rule pool_tradedI [OF assms(2) bp(1)]) (use bp(2) in \<open>blast dest: base_swaps_reserves(1,2)\<close>)
qed

lemma SwapWithExactOutput_traded:
  assumes "SwapWithExactOutput m p out fee = Inr (p', inp, f)" "dp_denomA p \<noteq> dp_denomB p"
  shows "pool_traded p p' inp out"
proof -
  obtain bp where bp: "p' = p\<lparr>dp_pool := bp\<rparr>"
    "Denom inp = dp_denomA p \<and> Denom out = dp_denomB p \<and> (\<exists>f. SwapAForExactB m (dp_pool p) (Amount out) fee = Inr (bp, Amount inp, f)) \<or>
     Denom inp = dp_denomB p \<and> Denom out = dp_denomA p \<and> (\<exists>f. SwapBForExactA m (dp_pool p) (Amount out) fee = Inr (bp, Amount inp, f))"
    using assms(1) by (auto simp: SwapWithExactOutput_def dp_coinA_def dp_coinB_def split: if_splits)
  show ?thesis
    by (rule pool_tradedI [OF assms(2) bp(1)]) (use bp(2) in \<open>blast dest: base_swaps_reserves(3,4)\<close>)
qed

lemma loadPool_ok:
  assumes "sdk_laws S" "swap_inv S st"
  shows "loadPool S st d e =
    (case GetPool st (PoolID d e) of None \<Rightarrow> Inl (Err ''ErrInvalidPool'') | Some r \<Rightarrow> Inr (pool_of r))"
  using swap_invD(3) [OF assms(2)] load_record [OF assms(1)]
  by (auto simp: loadPool_def panic_on_err_def split: option.splits)

lemma commitSwap_ok:
  assumes laws: "sdk_laws S" and inv: "swap_inv S st" and r: "GetPool st i = Some r"
    and tr: "pool_traded (pool_of r) p' inp out"
    and ok: "commitSwap S st p' w inp out = Inr st'"
  obtains r' b1 ins outs where "r' = record_of p'" "PoolRecord_Validate (Math S) r' = Inr ()" "pr_PoolID r' = i"
    "sk_pools st' = kv_set (sk_pools st) i r'" "sk_shares st' = sk_shares st" "sk_params st' = sk_params st"
    "moved S (sk_bank st) b1 w (ModuleAddress S swap_module) ins"
    "moved S b1 (sk_bank st') (ModuleAddress S swap_module) w outs"
    "\<forall>d. AmountOf ins d = (if d = Denom inp then Amount inp else 0)"
    "\<forall>d. AmountOf outs d = (if d = Denom out then Amount out else 0)"
proof -
  have v: "pr_PoolID r = i" "PoolRecord_Validate (Math S) r = Inr ()" using swap_invD(3) [OF inv r] by auto
  have wf: "dp_wf (Math S) p'" using valid_pool_of(1) [OF v(2)] tr by (simp add: dp_wf_def pool_traded_def)
  have i: "i = PoolID (dp_denomA p') (dp_denomB p')"
    using arg_cong [OF record_of_pool [OF v(2)], of pr_PoolID] v(1) tr
    by (simp add: pool_traded_def record_of_def)
  obtain rec ins outs b1 b2 where new: "NewPoolRecordFromPool S p' = Inr rec"
      and rec: "PoolRecord_Validate (Math S) rec = Inr ()"
      "NewCoins S [inp] = Inr ins" "NewCoins S [out] = Inr outs"
      "SendCoinsFromAccountToModule S (sk_bank (SetPool_Raw st rec)) w swap_module ins = Inr b1"
      "SendCoinsFromModuleToAccount S b1 swap_module w outs = Inr b2"
      "st' = (SetPool_Raw st rec)\<lparr>sk_bank := b2\<rparr>"
    using ok unfolding commitSwap_def SetPool_Inr bnd_eq_Inr panic_on_err_Inr by blast
  have *: "PoolRecord_Validate (Math S) (record_of p') = Inr ()"
      "NewCoins S [inp] = Inr ins" "NewCoins S [out] = Inr outs"
      "SendCoinsFromAccountToModule S (sk_bank st) w swap_module ins = Inr b1"
      "SendCoinsFromModuleToAccount S b1 swap_module w outs = Inr b2"
      "st' = (SetPool_Raw st (record_of p'))\<lparr>sk_bank := b2\<rparr>"
    using rec NewPoolRecordFromPool_Inr [OF laws wf new] by (simp_all add: SetPool_Raw_def)
  have moves: "moved S (sk_bank st) b1 w (ModuleAddress S swap_module) ins" "moved S b1 b2 (ModuleAddress S swap_module) w outs"
    using sdk_lawsD(5) [OF laws] *(4,5) unfolding send_law_def by auto
  have i': "pr_PoolID (record_of p') = i" by (simp add: record_of_def i)
  show ?thesis
  proof (rule that [of "record_of p'" b1 ins outs])
    show "\<forall>d. AmountOf ins d = (if d = Denom inp then Amount inp else 0)"
      "\<forall>d. AmountOf outs d = (if d = Denom out then Amount out else 0)"
      using NewCoins_single [OF laws *(2)] NewCoins_single [OF laws *(3)] by simp_all
  qed (use *(1) moves i' in \<open>simp_all add: SetPool_Raw_def *(6)\<close>)
qed

lemma commitSwap_inv:
  assumes laws: "sdk_laws S" and inv: "swap_inv S st" and r: "GetPool st i = Some r"
    and tr: "pool_traded (pool_of r) p' inp out" and w: "w \<noteq> ModuleAddress S swap_module"
    and ok: "commitSwap S st p' w inp out = Inr st'"
  shows "swap_inv S st'"
proof (rule commitSwap_ok [OF laws inv r tr ok])
  fix r' b1 ins outs
  assume *: "r' = record_of p'" "PoolRecord_Validate (Math S) r' = Inr ()" "pr_PoolID r' = i"
    "sk_pools st' = kv_set (sk_pools st) i r'" "sk_shares st' = sk_shares st"
    "moved S (sk_bank st) b1 w (ModuleAddress S swap_module) ins"
    "moved S b1 (sk_bank st') (ModuleAddress S swap_module) w outs"
    "\<forall>d. AmountOf ins d = (if d = Denom inp then Amount inp else 0)"
    "\<forall>d. AmountOf outs d = (if d = Denom out then Amount out else 0)"
  have rec: "record_of (pool_of r) = r" using record_of_pool swap_invD(3) [OF inv r] by blast
  have "swap_funds S (sk_bank st') d = swap_funds S (sk_bank st) d + record_reserve r' d - record_reserve r d" for d
    using *(6-9) w tr by (simp add: moved_def pool_traded_def rec *(1))
  moreover have "pr_TotalShares r' = pr_TotalShares r"
    using tr rec by (simp add: *(1) record_of_def pool_traded_def pool_of_def)
  ultimately show "swap_inv S st'" using * by (intro swap_inv_update_pool [OF inv r])
qed

lemma denoms_differ: "sdk_laws S \<Longrightarrow> swap_inv S st \<Longrightarrow> GetPool st i = Some r \<Longrightarrow> dp_denomA (pool_of r) \<noteq> dp_denomB (pool_of r)"
  using valid_pool_of(1) swap_invD(3) unfolding dp_wf_def by (metis less_irrefl)

lemma SwapExactForTokens_inv:
  assumes "sdk_laws S" "swap_inv S st" "w \<noteq> ModuleAddress S swap_module"
    and "SwapExactForTokens S st w cA cB slip = Inr st'"
  shows "swap_inv S st'"
proof -
  obtain r p' out f where "GetPool st (PoolID (Denom cA) (Denom cB)) = Some r"
      "SwapWithExactInput (Math S) (pool_of r) cA (SwapFee (sk_params st)) = Inr (p', out, f)"
      "commitSwap S st p' w cA out = Inr st'"
    using assms(4) unfolding SwapExactForTokens_def loadPool_ok [OF assms(1,2)]
    by (auto split: option.splits if_splits)
  then show ?thesis
    using commitSwap_inv [OF assms(1,2) _ SwapWithExactInput_traded assms(3)] denoms_differ [OF assms(1,2)] by blast
qed

lemma SwapForExactTokens_inv:
  assumes "sdk_laws S" "swap_inv S st" "w \<noteq> ModuleAddress S swap_module"
    and "SwapForExactTokens S st w cA cB slip = Inr st'"
  shows "swap_inv S st'"
proof -
  obtain r p' inp f where "GetPool st (PoolID (Denom cA) (Denom cB)) = Some r"
      "SwapWithExactOutput (Math S) (pool_of r) cB (SwapFee (sk_params st)) = Inr (p', inp, f)"
      "commitSwap S st p' w inp cB = Inr st'"
    using assms(4) unfolding SwapForExactTokens_def loadPool_ok [OF assms(1,2)]
    by (auto split: option.splits if_splits)
  then show ?thesis
    using commitSwap_inv [OF assms(1,2) _ SwapWithExactOutput_traded assms(3)] denoms_differ [OF assms(1,2)] by blast
qed

section \<open>Registered invariants and genesis\<close>

lemma coins_Valid_single: "0 < Amount c \<Longrightarrow> ValidDenom m (Denom c) \<Longrightarrow> coins_Valid m [c]"
  by (simp add: coins_Valid_def)

lemma CoinsAdd_single:
  assumes laws: "sdk_laws S" and v: "coins_Valid (Math S) acc" "0 < Amount c" "ValidDenom (Math S) (Denom c)"
    and rng: "IntInRange (Math S) (AmountOf acc (Denom c) + Amount c)" "\<And>d. IntInRange (Math S) (AmountOf acc d)"
  obtains r where "CoinsAdd S acc [c] = Inr r" "coins_Valid (Math S) r"
    "\<forall>d. AmountOf r d = AmountOf acc d + (if Denom c = d then Amount c else 0)"
proof -
  note law = sdk_lawsD(4) [OF laws, unfolded coins_add_law_def]
  have c: "coins_Valid (Math S) [c]" using v by (intro coins_Valid_single)
  have "\<forall>d. IntInRange (Math S) (AmountOf acc d + AmountOf [c] d)" using rng by simp
  then obtain r where r: "CoinsAdd S acc [c] = Inr r" using law v(1) c by blast
  moreover have "coins_Valid (Math S) r \<and> (\<forall>d. AmountOf r d = AmountOf acc d + AmountOf [c] d)"
    using law v(1) c r by blast
  ultimately show ?thesis by (intro that [of r]) (simp_all only: AmountOf_single simp_thms)
qed

lemma reserves_fold:
  assumes laws: "sdk_laws S" and valid: "\<forall>r\<in>set prs. PoolRecord_Validate (Math S) r = Inr ()"
    and acc: "coins_Valid (Math S) acc"
    and rng: "\<forall>d. IntInRange (Math S) (AmountOf acc d + (\<Sum>r\<leftarrow>prs. record_reserve r d))"
  shows "\<exists>cs. foldR (\<lambda>r acc. bnd (PoolRecord_Reserves S r) (\<lambda>cs. foldR (\<lambda>c acc. CoinsAdd S acc [c]) cs acc)) prs acc = Inr cs \<and>
    coins_Valid (Math S) cs \<and> (\<forall>d. AmountOf cs d = AmountOf acc d + (\<Sum>r\<leftarrow>prs. record_reserve r d))"
  using valid acc rng
proof (induction prs arbitrary: acc)
  case Nil
  then show ?case by simp
next
  case (Cons r prs)
  have v: "PoolRecord_Validate (Math S) r = Inr ()" using Cons.prems(1) by simp
  have vr: "0 < Amount (pr_ReservesA r)" "0 < Amount (pr_ReservesB r)"
      "ValidDenom (Math S) (Denom (pr_ReservesA r))" "ValidDenom (Math S) (Denom (pr_ReservesB r))"
      "Denom (pr_ReservesA r) < Denom (pr_ReservesB r)"
    using v by (simp_all add: PoolRecord_Validate_Inr poolID_tokens_Inr)
  let ?A = "pr_ReservesA r" and ?B = "pr_ReservesB r"
  have nn: "0 \<le> record_reserve x d" if "x \<in> set prs" for x d
    using Cons.prems(1) that by (auto simp: record_reserve_def PoolRecord_Validate_Inr)
  have rest: "0 \<le> (\<Sum>x\<leftarrow>prs. record_reserve x d)" for d using nn by (intro sum_list_nonneg) auto
  have small: "IntInRange (Math S) x" if "0 \<le> x" "x \<le> AmountOf acc d + record_reserve r d" for x d
    by (rule IntInRange_le [OF sdk_lawsD(1) [OF laws] Cons.prems(3) [rule_format, of d]])
      (use that rest [of d] in simp_all)
  have a0: "0 \<le> AmountOf acc d" for d using AmountOf_valid(1) [OF Cons.prems(2)] .
  have ne: "Denom ?A \<noteq> Denom ?B" by (rule less_imp_neq [OF vr(5)])
  have "IntInRange (Math S) (AmountOf acc d)" for d
    using vr a0 [of d] by (intro small [of _ d]) (auto simp: record_reserve_def)
  moreover have "IntInRange (Math S) (AmountOf acc (Denom ?A) + Amount ?A)"
    using vr a0 [of "Denom ?A"] by (intro small [of _ "Denom ?A"]) (auto simp: record_reserve_def)
  ultimately obtain c1 where c1: "CoinsAdd S acc [?A] = Inr c1" "coins_Valid (Math S) c1"
      "\<forall>d. AmountOf c1 d = AmountOf acc d + (if Denom ?A = d then Amount ?A else 0)"
    using CoinsAdd_single [OF laws Cons.prems(2), of ?A] vr by metis
  have "IntInRange (Math S) (AmountOf c1 d)" for d
    using vr a0 [of d] c1(3) by (intro small [of _ d]) (auto simp: record_reserve_def)
  moreover have "IntInRange (Math S) (AmountOf c1 (Denom ?B) + Amount ?B)"
    using vr a0 [of "Denom ?B"] ne c1(3) by (intro small [of _ "Denom ?B"]) (auto simp: record_reserve_def)
  ultimately obtain c2 where c2: "CoinsAdd S c1 [?B] = Inr c2" "coins_Valid (Math S) c2"
      "\<forall>d. AmountOf c2 d = AmountOf c1 d + (if Denom ?B = d then Amount ?B else 0)"
    using CoinsAdd_single [OF laws c1(2), of ?B] vr by metis
  have amt: "AmountOf c2 d = AmountOf acc d + record_reserve r d" for d
    using c1(3) c2(3) by (simp add: record_reserve_def)
  show ?case
    using Cons.IH [of c2] Cons.prems(1,3) c1(1) c2(1,2) load_record(1) [OF laws v]
    by (simp add: amt add.assoc)
qed

lemma PoolReservesInvariant_holds:
  assumes laws: "sdk_laws S" and inv: "swap_inv S st"
  shows "PoolReservesInvariant S st = Inr False"
proof -
  let ?bal = "GetAllBalances S (sk_bank st) (ModuleAddress S swap_module)"
  have acc: "AmountOf ?bal d = swap_funds S (sk_bank st) d" "coins_Valid (Math S) ?bal"
      "IntInRange (Math S) (swap_funds S (sk_bank st) d)" for d
    using sdk_lawsD(7) [OF laws] unfolding account_law_def by auto
  have tot: "(\<Sum>r\<leftarrow>GetAllPools st. record_reserve r d) = swap_funds S (sk_bank st) d" for d
    using swap_invD(6) [OF inv] by (simp add: reserves_total_def GetAllPools_def comp_def case_prod_unfold)
  have "\<forall>r\<in>set (GetAllPools st). PoolRecord_Validate (Math S) r = Inr ()"
    using swap_invD(3) [OF inv] kv.entry_iff [OF swap_invD(1) [OF inv]] by (auto simp: GetAllPools_def GetPool_def)
  then obtain cs where cs: "foldR (\<lambda>r acc. bnd (PoolRecord_Reserves S r) (\<lambda>cs. foldR (\<lambda>c acc. CoinsAdd S acc [c]) cs acc))
      (GetAllPools st) [] = Inr cs" "coins_Valid (Math S) cs" "\<forall>d. AmountOf cs d = swap_funds S (sk_bank st) d"
    using reserves_fold [OF laws, of "GetAllPools st" "[]"] acc(3) by (auto simp: tot coins_Valid_def)
  have "cs = ?bal" by (rule coins_Valid_eqI [OF cs(2) acc(2)]) (simp add: cs(3) acc(1))
  then show ?thesis
    using cs(1,2) CoinsIsEqual_iff [OF laws, of cs cs] by (simp add: PoolReservesInvariant_def)
qed

text \<open>The shares map the invariant and the genesis check build.\<close>

definition owned_in :: "ShareRecord list \<Rightarrow> string \<Rightarrow> int" where
  "owned_in srs i = (\<Sum>sr\<leftarrow>srs. if sr_PoolID sr = i then sr_SharesOwned sr else 0)"

lemma pool_totals_get:
  "kv_ok t \<Longrightarrow> distinct (map pr_PoolID prs) \<Longrightarrow>
   kv_ok (fold (\<lambda>pr totals. kv_set totals (pr_PoolID pr) (pr_TotalShares pr, 0)) prs t) \<and>
   kv_get (fold (\<lambda>pr totals. kv_set totals (pr_PoolID pr) (pr_TotalShares pr, 0::int)) prs t) i =
     (case map_of (map (\<lambda>r. (pr_PoolID r, r)) prs) i of Some r \<Rightarrow> Some (pr_TotalShares r, 0) | None \<Rightarrow> kv_get t i)"
proof (induction prs arbitrary: t)
  case (Cons r prs)
  have "map_of (map (\<lambda>r. (pr_PoolID r, r)) prs) (pr_PoolID r) = None"
    using Cons.prems(2) by (auto simp: map_of_eq_None_iff)
  then show ?case using Cons.IH [of "kv_set t (pr_PoolID r) (pr_TotalShares r, 0)"] Cons.prems
    by (auto split: option.splits)
qed simp

lemma owned_totals_get:
  "foldR (add_owned m) srs t = Inr t' \<Longrightarrow> kv_ok t \<Longrightarrow> kv_ok t' \<and>
   kv_get t' i = (case kv_get t i of
       Some (n, own) \<Rightarrow> Some (n, own + owned_in srs i)
     | None \<Rightarrow> if i \<in> sr_PoolID ` set srs then Some (0, owned_in srs i) else None)"
proof (induction srs arbitrary: t)
  case (Cons sr srs)
  then obtain t1 where t1: "add_owned m sr t = Inr t1" "foldR (add_owned m) srs t1 = Inr t'" by auto
  have "kv_ok t1" and g: "kv_get t1 = (kv_get t)(sr_PoolID sr \<mapsto> (case kv_get t (sr_PoolID sr) of
       Some (n, own) \<Rightarrow> (n, own + sr_SharesOwned sr) | None \<Rightarrow> (0, sr_SharesOwned sr)))"
    using t1(1) Cons.prems(2) by (auto simp: add_owned_def split: option.splits)
  have zero: "owned_in srs i = 0" if "i \<notin> sr_PoolID ` set srs"
    using that by (induction srs) (auto simp: owned_in_def)
  show ?case
    using Cons.IH [OF t1(2) \<open>kv_ok t1\<close>] zero unfolding g
    by (auto simp: owned_in_def split: option.splits)
qed (auto simp: owned_in_def split: option.splits)

lemma owned_totals_ok:
  assumes "math_laws m" "kv_ok t" "\<forall>sr\<in>set srs. 0 \<le> sr_SharesOwned sr"
    and "\<And>i n own. kv_get t i = Some (n, own) \<Longrightarrow> 0 \<le> own \<and> IntInRange m (own + owned_in srs i)"
    and "\<forall>sr\<in>set srs. kv_get t (sr_PoolID sr) \<noteq> None"
  shows "\<exists>t'. foldR (add_owned m) srs t = Inr t'"
  using assms(2-5)
proof (induction srs arbitrary: t)
  case (Cons sr srs)
  obtain n own where g: "kv_get t (sr_PoolID sr) = Some (n, own)" using Cons.prems(4) by force
  have nn: "0 \<le> owned_in srs i" for i
    using Cons.prems(2) unfolding owned_in_def by (intro sum_list_nonneg) auto
  have own: "0 \<le> own" "IntInRange m (own + (sr_SharesOwned sr + owned_in srs (sr_PoolID sr)))"
    using Cons.prems(3) [OF g] by (auto simp: owned_in_def)
  have r: "IntInRange m (own + sr_SharesOwned sr)"
    by (rule IntInRange_le [OF assms(1) own(2)]) (use nn own(1) Cons.prems(2) in auto)
  let ?t1 = "kv_set t (sr_PoolID sr) (n, own + sr_SharesOwned sr)"
  have "add_owned m sr t = Inr ?t1" using g r by (simp add: add_owned_def)
  moreover have "\<exists>t'. foldR (add_owned m) srs ?t1 = Inr t'"
  proof (rule Cons.IH)
    fix i k x
    assume "kv_get ?t1 i = Some (k, x)"
    then show "0 \<le> x \<and> IntInRange m (x + owned_in srs i)"
      using own Cons.prems(2) Cons.prems(3) [of i k x]
      by (auto simp: owned_in_def add.assoc split: if_splits)
  qed (use Cons.prems in auto)
  ultimately show ?case by simp
qed simp

lemma totals_equal:
  assumes "kv_ok t"
  shows "list_ex (\<lambda>(i, n, own). n \<noteq> own) t \<longleftrightarrow> \<not> (\<forall>i n own. kv_get t i = Some (n, own) \<longrightarrow> n = own)"
proof -
  have "list_ex (\<lambda>(i, n, own). n \<noteq> own) t \<longleftrightarrow> (\<exists>i n own. (i, n, own) \<in> set t \<and> n \<noteq> own)"
    by (simp add: list_ex_iff Bex_def split_paired_Ex)
  then show ?thesis unfolding kv.entry_iff [OF assms] by blast
qed

lemma owned_in_absent: "i \<notin> sr_PoolID ` set srs \<Longrightarrow> owned_in srs i = 0"
  by (induction srs) (auto simp: owned_in_def)

lemma share_totals_get:
  assumes "distinct (map pr_PoolID prs)" "share_totals m prs srs = Inr t"
  shows "kv_ok t"
    and "kv_get t i = (case map_of (map (\<lambda>r. (pr_PoolID r, r)) prs) i of
        Some r \<Rightarrow> Some (pr_TotalShares r, owned_in srs i)
      | None \<Rightarrow> if i \<in> sr_PoolID ` set srs then Some (0, owned_in srs i) else None)"
  using owned_totals_get [OF assms(2) [unfolded share_totals_def], of i] pool_totals_get [OF kv_ok_Nil assms(1), of i]
  by (auto split: option.splits)

lemma stored_keys:
  assumes inv: "swap_inv S st"
  shows "distinct (map pr_PoolID (GetAllPools st))"
    and "map_of (map (\<lambda>r. (pr_PoolID r, r)) (GetAllPools st)) i = GetPool st i"
    and "owned_in (GetAllDepositorShares st) i = share_total st i"
    and "sr \<in> set (GetAllDepositorShares st) \<Longrightarrow> ShareRecord_Validate (Math S) sr = Inr ()"
    and "r \<in> set (GetAllPools st) \<Longrightarrow> PoolRecord_Validate (Math S) r = Inr ()"
proof -
  note ok = swap_invD(1,2) [OF inv]
  have k: "\<forall>(k, r)\<in>set (sk_pools st). pr_PoolID r = k"
    using swap_invD(3) [OF inv] kv.entry_iff [OF ok(1)] by (auto simp: GetPool_def)
  then have m: "map (\<lambda>r. (pr_PoolID r, r)) (map snd (sk_pools st)) = sk_pools st"
      "map pr_PoolID (map snd (sk_pools st)) = map fst (sk_pools st)"
    by (auto intro!: map_idI map_cong)
  show "distinct (map pr_PoolID (GetAllPools st))"
    unfolding GetAllPools_def m(2) by (rule kv.keys_distinct [OF ok(1)])
  show "map_of (map (\<lambda>r. (pr_PoolID r, r)) (GetAllPools st)) i = GetPool st i"
    unfolding GetAllPools_def m(1) GetPool_def ..
  show "owned_in (GetAllDepositorShares st) i = share_total st i"
    by (simp add: owned_in_def share_total_def GetAllDepositorShares_def comp_def case_prod_unfold)
  show "sr \<in> set (GetAllDepositorShares st) \<Longrightarrow> ShareRecord_Validate (Math S) sr = Inr ()"
    using inv kv.entry_iff [OF ok(2)] by (auto simp: swap_inv_def shares_ok_def GetAllDepositorShares_def)
  show "r \<in> set (GetAllPools st) \<Longrightarrow> PoolRecord_Validate (Math S) r = Inr ()"
    using inv kv.entry_iff [OF ok(1)] by (auto simp: swap_inv_def pools_ok_def GetAllPools_def)
qed

lemma owned_in_member:
  assumes "sr \<in> set srs" "\<forall>sr\<in>set srs. 0 < sr_SharesOwned sr"
  shows "0 < owned_in srs (sr_PoolID sr)"
  using assms
proof (induction srs)
  case (Cons x srs)
  have "0 \<le> owned_in srs (sr_PoolID sr)"
    using Cons.prems(2) unfolding owned_in_def by (intro sum_list_nonneg) auto
  then show ?case using Cons by (auto simp: owned_in_def)
qed simp

lemma share_totals_stored:
  assumes laws: "sdk_laws S" and inv: "swap_inv S st"
  obtains t where "share_totals (Math S) (GetAllPools st) (GetAllDepositorShares st) = Inr t"
    "\<not> list_ex (\<lambda>(i, n, own). n \<noteq> own) t"
proof -
  let ?prs = "GetAllPools st" and ?srs = "GetAllDepositorShares st"
  note st = stored_keys [OF inv]
  let ?t0 = "fold (\<lambda>pr totals. kv_set totals (pr_PoolID pr) (pr_TotalShares pr, 0::int)) ?prs []"
  have t0: "kv_ok ?t0" "kv_get ?t0 i = map_option (\<lambda>r. (pr_TotalShares r, 0)) (GetPool st i)" for i
    using pool_totals_get [OF kv_ok_Nil st(1), of i] by (auto simp: st(2) split: option.splits)
  have pos: "\<forall>sr\<in>set ?srs. 0 < sr_SharesOwned sr" using st(4) by (auto simp: ShareRecord_Validate_Inr)
  have own: "owned_in ?srs i = pool_shares (GetPool st i)" for i using swap_invD(5) [OF inv] st(3) by simp
  have found: "GetPool st (sr_PoolID sr) \<noteq> None" if "sr \<in> set ?srs" for sr
    using owned_in_member [OF that pos] own [of "sr_PoolID sr"]
    by (auto simp: pool_shares_def split: option.splits)
  have "\<exists>t. foldR (add_owned (Math S)) ?srs ?t0 = Inr t"
  proof (rule owned_totals_ok [OF sdk_lawsD(1) [OF laws] t0(1)])
    fix i n x assume "kv_get ?t0 i = Some (n, x)"
    then show "0 \<le> x \<and> IntInRange (Math S) (x + owned_in ?srs i)"
      using swap_invD(3) [OF inv] by (auto simp: t0(2) own pool_shares_def)
  qed (use pos found t0(2) in \<open>auto simp: less_imp_le\<close>)
  then obtain t where t: "share_totals (Math S) ?prs ?srs = Inr t" by (auto simp: share_totals_def)
  have "\<not> list_ex (\<lambda>(i, n, own). n \<noteq> own) t"
    unfolding totals_equal [OF share_totals_get(1) [OF st(1) t]] share_totals_get(2) [OF st(1) t] st(2)
    using own found by (auto simp: pool_shares_def split: option.splits if_splits)
  then show ?thesis using that t by blast
qed

lemma AllInvariants_hold:
  assumes "sdk_laws S" "swap_inv S st"
  shows "swap_AllInvariants S st = Inr False"
proof -
  obtain t where "share_totals (Math S) (GetAllPools st) (GetAllDepositorShares st) = Inr t"
    "\<not> list_ex (\<lambda>(i, n, own). n \<noteq> own) t"
    by (rule share_totals_stored [OF assms])
  moreover have "\<not> PoolRecordsInvariant (Math S) False st" "\<not> ShareRecordsInvariant (Math S) False st"
    using stored_keys(4,5) [OF assms(2)] by (auto simp: PoolRecordsInvariant_def ShareRecordsInvariant_def list_ex_iff)
  ultimately show ?thesis
    using PoolReservesInvariant_holds [OF assms] by (simp add: swap_AllInvariants_def PoolSharesInvariant_def)
qed

subsection \<open>Genesis\<close>

lemma PoolRecords_check_Inr:
  "PoolRecords_check m seen prs = Inr () \<longleftrightarrow>
     (\<forall>r\<in>set prs. PoolRecord_Validate m r = Inr ()) \<and> distinct (map pr_PoolID prs) \<and>
     set seen \<inter> pr_PoolID ` set prs = {}"
  by (induction prs arbitrary: seen) auto

lemma ShareRecords_check_Inr:
  "ShareRecords_check m seen srs = Inr () \<longleftrightarrow>
     (\<forall>r\<in>set srs. ShareRecord_Validate m r = Inr ()) \<and> distinct (map (\<lambda>r. (sr_Depositor r, sr_PoolID r)) srs) \<and>
     set seen \<inter> (\<lambda>r. (sr_Depositor r, sr_PoolID r)) ` set srs = {}"
  by (induction srs arbitrary: seen) auto

definition sr_key :: "ShareRecord \<Rightarrow> string" where
  "sr_key r = DepositorPoolSharesKey (sr_Depositor r) (sr_PoolID r)"

lemma load_pools:
  "foldR (\<lambda>r st. SetPool m st r) prs st = Inr st' \<longleftrightarrow>
     (\<forall>r\<in>set prs. PoolRecord_Validate m r = Inr ()) \<and> st' = st\<lparr>sk_pools := kv_load pr_PoolID prs (sk_pools st)\<rparr>"
  by (induction prs arbitrary: st) (auto simp: SetPool_Inr SetPool_Raw_def)

lemma load_shares:
  "foldR (\<lambda>r st. SetDepositorShares m st r) srs st = Inr st' \<longleftrightarrow>
     (\<forall>r\<in>set srs. ShareRecord_Validate m r = Inr ()) \<and> st' = st\<lparr>sk_shares := kv_load sr_key srs (sk_shares st)\<rparr>"
  by (induction srs arbitrary: st) (auto simp: SetDepositorShares_Inr SetDepositorShares_Raw_def sr_key_def)

lemma InitGenesis_Inr:
  "swap_InitGenesis m st gs = Inr st' \<longleftrightarrow> swap_genesis_Validate m gs = Inr () \<and>
     st' = st\<lparr>sk_params := sg_Params gs, sk_pools := kv_load pr_PoolID (sg_PoolRecords gs) (sk_pools st),
       sk_shares := kv_load sr_key (sg_ShareRecords gs) (sk_shares st)\<rparr>"
proof -
  have "swap_genesis_Validate m gs = Inr () \<Longrightarrow>
    (\<forall>r\<in>set (sg_PoolRecords gs). PoolRecord_Validate m r = Inr ()) \<and>
    (\<forall>r\<in>set (sg_ShareRecords gs). ShareRecord_Validate m r = Inr ())"
    by (auto simp: swap_genesis_Validate_def PoolRecords_check_Inr ShareRecords_check_Inr)
  then show ?thesis by (auto simp: swap_InitGenesis_def load_pools load_shares)
qed

lemma distinct_share_keys:
  assumes "denom_law m" "\<forall>r\<in>set srs. ShareRecord_Validate m r = Inr ()"
  shows "distinct (map sr_key srs) \<longleftrightarrow> distinct (map (\<lambda>r. (sr_Depositor r, sr_PoolID r)) srs)"
proof -
  have "CHR ''|'' \<notin> set (sr_PoolID r)" if "r \<in> set srs" for r
    using assms that tokens_no_separator [OF assms(1)] by (fastforce simp: ShareRecord_Validate_Inr)
  then have "sr_key x = sr_key y \<longleftrightarrow> (sr_Depositor x, sr_PoolID x) = (sr_Depositor y, sr_PoolID y)"
    if "x \<in> set srs" "y \<in> set srs" for x y
    using that share_key_unique unfolding sr_key_def by (metis prod.inject)
  then show ?thesis by (auto simp: distinct_map inj_on_def)
qed

lemma InitGenesis_inv:
  assumes laws: "sdk_laws S" and init: "swap_InitGenesis (Math S) st gs = Inr st'"
    and empty: "sk_pools st = []" "sk_shares st = []"
    and rng: "\<forall>r\<in>set (sg_PoolRecords gs). IntInRange (Math S) (pr_TotalShares r)"
    and funds: "\<forall>d. swap_funds S (sk_bank st) d = (\<Sum>r\<leftarrow>sg_PoolRecords gs. record_reserve r d)"
  shows "swap_inv S st'"
proof -
  let ?prs = "sg_PoolRecords gs" and ?srs = "sg_ShareRecords gs"
  have v: "swap_genesis_Validate (Math S) gs = Inr ()"
    and st': "sk_pools st' = kv_load pr_PoolID ?prs []" "sk_shares st' = kv_load sr_key ?srs []" "sk_bank st' = sk_bank st"
    using init empty by (auto simp: InitGenesis_Inr)
  then obtain t where pv: "\<forall>r\<in>set ?prs. PoolRecord_Validate (Math S) r = Inr ()" and pd: "distinct (map pr_PoolID ?prs)"
      and sv: "\<forall>r\<in>set ?srs. ShareRecord_Validate (Math S) r = Inr ()"
      and "distinct (map (\<lambda>r. (sr_Depositor r, sr_PoolID r)) ?srs)"
      and t: "share_totals (Math S) ?prs ?srs = Inr t" "\<not> list_ex (\<lambda>(i, n, own). n \<noteq> own) t"
    by (auto simp: swap_genesis_Validate_def PoolRecords_check_Inr ShareRecords_check_Inr split: if_splits)
  then have sd: "distinct (map sr_key ?srs)" using distinct_share_keys [OF sdk_lawsD(2) [OF laws] sv] by simp
  note p = kv_load [OF pd] and s = kv_load [OF sd]
  have "owned_in ?srs i = pool_shares (map_of (map (\<lambda>r. (pr_PoolID r, r)) ?prs) i)" for i
  proof -
    have eq: "n = own" if "kv_get t i = Some (n, own)" for n own
      using t(2) that totals_equal [OF share_totals_get(1) [OF pd t(1)]] by blast
    note g = share_totals_get(2) [OF pd t(1), of i]
    show ?thesis
    proof (cases "map_of (map (\<lambda>r. (pr_PoolID r, r)) ?prs) i")
      case None
      then show ?thesis using g eq owned_in_absent [of i ?srs] by (auto simp: pool_shares_def split: if_splits)
    next
      case (Some r)
      then show ?thesis using g eq by (simp add: pool_shares_def)
    qed
  qed
  moreover have "share_total st' i = owned_in ?srs i" for i
    by (simp add: share_total_def st'(2) s(3) owned_in_def)
  moreover have "pools_ok (Math S) (sk_pools st')"
    using pv rng by (auto simp: pools_ok_def st'(1) p dest!: map_of_SomeD)
  moreover have "shares_ok (Math S) (sk_shares st')"
    using sv by (auto simp: shares_ok_def st'(2) s sr_key_def dest!: map_of_SomeD)
  ultimately show ?thesis
    using funds by (simp add: swap_inv_def GetPool_def st'(1,3) p reserves_total_def)
qed

lemma ExportGenesis_valid:
  assumes laws: "sdk_laws S" and inv: "swap_inv S st" and "swap_params_Validate (Math S) (sk_params st) = Inr ()"
  shows "swap_genesis_Validate (Math S) (swap_ExportGenesis st) = Inr ()"
proof -
  note st = stored_keys [OF inv]
  have "\<forall>(k, r)\<in>set (sk_shares st). sr_key r = k"
    using inv kv.entry_iff [OF swap_invD(2) [OF inv]] by (auto simp: swap_inv_def shares_ok_def sr_key_def)
  then have "map sr_key (GetAllDepositorShares st) = map fst (sk_shares st)"
    by (auto simp: GetAllDepositorShares_def)
  then have "distinct (map sr_key (GetAllDepositorShares st))" using kv.keys_distinct [OF swap_invD(2) [OF inv]] by simp
  then have "distinct (map (\<lambda>r. (sr_Depositor r, sr_PoolID r)) (GetAllDepositorShares st))"
    using distinct_share_keys [OF sdk_lawsD(2) [OF laws]] st(4) by blast
  moreover obtain t where "share_totals (Math S) (GetAllPools st) (GetAllDepositorShares st) = Inr t"
    "\<not> list_ex (\<lambda>(i, n, own). n \<noteq> own) t"
    by (rule share_totals_stored [OF laws inv])
  ultimately show ?thesis
    using st(1,4,5) assms(3)
    by (auto simp: swap_genesis_Validate_def swap_ExportGenesis_def PoolRecords_check_Inr ShareRecords_check_Inr)
qed

lemma genesis_round_trip:
  assumes "sdk_laws S" "swap_inv S st" "swap_params_Validate (Math S) (sk_params st) = Inr ()"
    and "sk_pools st0 = []" "sk_shares st0 = []"
  shows "swap_InitGenesis (Math S) st0 (swap_ExportGenesis st) =
    Inr (st\<lparr>sk_bank := sk_bank st0, sk_hookst := sk_hookst st0\<rparr>)"
proof -
  have "kv_load pr_PoolID (GetAllPools st) [] = sk_pools st"
    unfolding GetAllPools_def
    by (rule kv_load_values) (use assms(2) in \<open>auto simp: swap_inv_def pools_ok_def\<close>)
  moreover have "kv_load sr_key (GetAllDepositorShares st) [] = sk_shares st"
    unfolding GetAllDepositorShares_def
    by (rule kv_load_values) (use assms(2) in \<open>auto simp: swap_inv_def shares_ok_def sr_key_def\<close>)
  ultimately show ?thesis
    using ExportGenesis_valid [OF assms(1-3)] assms(4,5)
    by (simp add: InitGenesis_Inr) (simp add: swap_ExportGenesis_def)
qed

section \<open>Which faults can occur\<close>

lemma PoolID_valid:
  assumes "sdk_laws S" "swap_inv S st" "GetDepositorShares st w (PoolID d e) = Some sr"
    and "ValidDenom (Math S) d" "ValidDenom (Math S) e"
  shows "sr_Depositor sr = w" "sr_PoolID sr = PoolID d e" "w \<noteq> []" "0 < sr_SharesOwned sr"
    "\<exists>t. poolID_tokens (Math S) (PoolID d e) = Inr t"
proof -
  have v: "DepositorPoolSharesKey w (PoolID d e) = DepositorPoolSharesKey (sr_Depositor sr) (sr_PoolID sr)"
    "ShareRecord_Validate (Math S) sr = Inr ()"
    using swap_invD(4) [OF assms(2,3)] by auto
  have "CHR ''|'' \<notin> set d" "CHR ''|'' \<notin> set e"
    using sdk_lawsD(2) [OF assms(1)] assms(4,5) by (auto simp: denom_law_def)
  then have a: "CHR ''|'' \<notin> set (PoolID d e)" by (auto simp: PoolID_def PoolIDSep_def)
  obtain t where t: "poolID_tokens (Math S) (sr_PoolID sr) = Inr t"
    using v(2) by (auto simp: ShareRecord_Validate_Inr)
  then have b: "CHR ''|'' \<notin> set (sr_PoolID sr)"
    using tokens_no_separator [OF sdk_lawsD(2) [OF assms(1)]] by (metis surj_pair)
  have "w = sr_Depositor sr \<and> PoolID d e = sr_PoolID sr" by (rule share_key_unique [OF v(1) a b])
  then show "sr_Depositor sr = w" "sr_PoolID sr = PoolID d e" "w \<noteq> []" "0 < sr_SharesOwned sr"
    "\<exists>t. poolID_tokens (Math S) (PoolID d e) = Inr t"
    using v(2) t by (auto simp: ShareRecord_Validate_Inr)
qed

lemma owned_le_total:
  assumes "sdk_laws S" "swap_inv S st" "GetDepositorShares st w i = Some sr" "poolID_tokens (Math S) i = Inr t"
  obtains r where "GetPool st i = Some r" "sr_SharesOwned sr \<le> pr_TotalShares r"
proof -
  note o = owner_record [OF assms]
  have nn: "0 \<le> sr_SharesOwned x" if "kv_get (sk_shares st) k = Some x" for k x
    using assms(2) that unfolding swap_inv_def shares_ok_def ShareRecord_Validate_Inr by (meson less_imp_le)
  have "(if sr_PoolID sr = i then sr_SharesOwned sr else 0) \<le> share_total st i"
    unfolding share_total_def
    using assms(2,3) swap_invD(2) [OF assms(2)]
    by (intro kv.total_member_le [of "sk_shares st" "DepositorPoolSharesKey w i" sr "\<lambda>k x. if sr_PoolID x = i then sr_SharesOwned x else 0"])
      (auto simp: GetDepositorShares_def dest: nn)
  then have "sr_SharesOwned sr \<le> pool_shares (GetPool st i)" using o swap_invD(5) [OF assms(2)] by simp
  then show ?thesis using o(3) by (cases "GetPool st i") (auto simp: pool_shares_def intro: that)
qed

lemma RemoveLiquidity_fault:
  assumes "pool_wf p" "0 < s" "s \<le> totalShares p" "RemoveLiquidity m p s = Inl e"
  shows "e = overflow"
  using assms(4) by (auto simp: RemoveLiquidity_eq [OF assms(1-3)] Let_def split: if_splits)

lemma dp_RemoveLiquidity_cases:
  assumes "sdk_laws S" "dp_wf (Math S) p" "pool_wf (dp_pool p)" "0 < s" "s \<le> totalShares (dp_pool p)"
  obtains "dp_RemoveLiquidity S p s = Inl overflow"
  | bp cs where "dp_RemoveLiquidity S p s = Inr (p\<lparr>dp_pool := bp\<rparr>, cs)" "0 \<le> totalShares bp" "totalShares bp \<noteq> 0 \<Longrightarrow> pool_wf bp"
proof (cases "RemoveLiquidity (Math S) (dp_pool p) s")
  case (Inl e)
  then have "e = overflow" by (rule RemoveLiquidity_fault [OF assms(3-5)])
  then show ?thesis using that(1) Inl by (simp add: dp_RemoveLiquidity_def)
next
  case (Inr x)
  obtain bp a b where x: "x = (bp, a, b)" by (cases x)
  note ok = RemoveLiquidity_ok [OF assms(3) Inr [unfolded x]]
  have "dp_coins S p a b = Inr (filter (\<lambda>c. Amount c \<noteq> 0) [Coin (dp_denomA p) a, Coin (dp_denomB p) b])"
    using dp_coins_Inr [OF assms(1,2)] ok(4,5) by blast
  then have "dp_RemoveLiquidity S p s = Inr (p\<lparr>dp_pool := bp\<rparr>, filter (\<lambda>c. Amount c \<noteq> 0) [Coin (dp_denomA p) a, Coin (dp_denomB p) b])"
    using Inr x by (simp only: dp_RemoveLiquidity_def bnd_Inr case_prod_conv)
  moreover have "0 \<le> totalShares bp" using ok(1) assms(5) by simp
  moreover have "totalShares bp \<noteq> 0 \<Longrightarrow> pool_wf bp" using ok(7) calculation(2) by (simp add: pool_wf_def)
  ultimately show ?thesis by (rule that(2))
qed

lemma updatePool_total:
  assumes "sdk_laws S" "PoolRecord_Validate (Math S) r = Inr ()" "totalShares bp \<noteq> 0 \<Longrightarrow> pool_wf bp"
  obtains st' where "updatePool S st i ((pool_of r)\<lparr>dp_pool := bp\<rparr>) = Inr st'"
proof (cases "totalShares bp = 0")
  case True
  then show ?thesis using that by (simp add: updatePool_def dp_TotalShares_def)
next
  case False
  let ?p = "(pool_of r)\<lparr>dp_pool := bp\<rparr>"
  note wf = valid_pool_of(1) [OF assms(2)] assms(3) [OF False]
  have "NewPoolRecordFromPool S ?p = Inr (record_of ?p)"
    by (rule NewPoolRecordFromPool_wf [OF assms(1)]) (use wf in \<open>simp_all add: dp_wf_def pool_wf_def\<close>)
  moreover have "PoolRecord_Validate (Math S) (record_of ?p) = Inr ()"
    using assms(2) wf(2) arg_cong [OF record_of_pool [OF assms(2)], of pr_PoolID]
    by (simp add: PoolRecord_Validate_Inr record_of_def pool_of_def pool_wf_def)
  ultimately show ?thesis
    using that False by (simp add: updatePool_def dp_TotalShares_def SetPool_def panic_on_err_def)
qed

lemma updateDepositorShares_total:
  assumes "poolID_tokens m i = Inr t" "w \<noteq> []" "0 \<le> n"
  obtains st' where "updateDepositorShares m st w i n = Inr st'"
proof -
  have "n \<noteq> 0 \<Longrightarrow> ShareRecord_Validate m (NewShareRecord w i n) = Inr ()"
    using assms by (cases t) (simp add: ShareRecord_Validate_Inr NewShareRecord_def)
  then show ?thesis
    using that by (cases "n = 0") (simp_all add: updateDepositorShares_def SetDepositorShares_def panic_on_err_def)
qed

text \<open>
  A withdrawal of a positive number of shares fails with one of its errors, by overflow, or because
  the bank refuses the payout; none of the panics on a missing or invalid pool is reachable.
\<close>

definition bank_refuses :: "'b sdk \<Rightarrow> address \<Rightarrow> fault \<Rightarrow> bool" where
  "bank_refuses S w e \<longleftrightarrow>
     (\<exists>b cs. panic_on_err (SendCoinsFromModuleToAccount S b swap_module w cs) = Inl e)"

lemma Withdraw_faults:
  assumes laws: "sdk_laws S" and inv: "swap_inv S st" and s: "0 < s"
    and d: "ValidDenom (Math S) (Denom cA)" "ValidDenom (Math S) (Denom cB)"
    and bad: "Withdraw S hk st w s cA cB = Inl e"
  shows "e \<in> {Err ''ErrDepositNotFound'', Err ''ErrInvalidShares'', Err ''ErrInsufficientLiquidity'',
      Err ''ErrSlippageExceeded'', overflow} \<or> bank_refuses S w e"
proof -
  define i where "i = PoolID (Denom cA) (Denom cB)"
  consider (none) "GetDepositorShares st w i = None"
    | (many) sr where "GetDepositorShares st w i = Some sr" "sr_SharesOwned sr < s"
    | (ok) sr where "GetDepositorShares st w i = Some sr" "s \<le> sr_SharesOwned sr" by fastforce
  then show ?thesis
  proof cases
    case none
    then show ?thesis using bad by (simp add: Withdraw_def i_def Let_def)
  next
    case many
    then show ?thesis using bad by (simp add: Withdraw_def i_def Let_def)
  next
    case ok
    note sr = ok(1)
    note o = PoolID_valid [OF laws inv sr [unfolded i_def] d, folded i_def]
    obtain t where t: "poolID_tokens (Math S) i = Inr t" using o(5) by auto
    obtain r where r: "GetPool st i = Some r" "sr_SharesOwned sr \<le> pr_TotalShares r"
      by (rule owned_le_total [OF laws inv sr t])
    have v: "PoolRecord_Validate (Math S) r = Inr ()" using swap_invD(3) [OF inv r(1)] by auto
    note ld = load_record [OF laws v]
    have "s \<le> totalShares (dp_pool (pool_of r))" using r(2) ok(2) by (simp add: pool_of_def)
    with laws valid_pool_of [OF v] s show ?thesis
    proof (cases rule: dp_RemoveLiquidity_cases)
      case 1
      then show ?thesis using bad sr r(1) ok(2) ld by (simp add: Withdraw_def i_def [symmetric] Let_def panic_on_err_def)
    next
      case (2 bp cs)
      obtain st1 where st1: "updatePool S st i ((pool_of r)\<lparr>dp_pool := bp\<rparr>) = Inr st1"
        by (rule updatePool_total [OF laws v 2(3)])
      obtain st2 where st2: "updateDepositorShares (Math S) (BeforePoolDepositModified hk st1 i w (sr_SharesOwned sr)) w i (sr_SharesOwned sr - s) = Inr st2"
        using updateDepositorShares_total [OF t o(3), of "sr_SharesOwned sr - s"] ok(2) by auto
      show ?thesis
        using bad sr r(1) ok(2) ld 2(1) st1 st2
        by (auto simp: Withdraw_def i_def [symmetric] Let_def panic_on_err_def [of "Inr _"] bnd_eq_Inl bank_refuses_def
            split: if_splits)
    qed
  qed
qed

section \<open>Reachable states\<close>

fun msg_signer :: "swap_msg \<Rightarrow> string" where
  "msg_signer (MsgDeposit who _ _ _ _) = who"
| "msg_signer (MsgWithdraw who _ _ _ _) = who"
| "msg_signer (MsgSwapExactForTokens who _ _ _ _) = who"
| "msg_signer (MsgSwapForExactTokens who _ _ _ _) = who"

text \<open>
  The states of a chain: genesis, then messages signed by anyone but the module account (which has
  no key), parameter changes, and transactions of other modules, which leave the swap store and the
  module account alone.
\<close>

inductive swap_reach :: "'b sdk \<Rightarrow> (string \<Rightarrow> address result) \<Rightarrow> 'h swap_hooks option \<Rightarrow> ('b, 'h) swap_state \<Rightarrow> bool"
  for S bech hk where
  genesis: "swap_InitGenesis (Math S) st gs = Inr st' \<Longrightarrow> sk_pools st = [] \<Longrightarrow> sk_shares st = [] \<Longrightarrow>
    \<forall>r\<in>set (sg_PoolRecords gs). IntInRange (Math S) (pr_TotalShares r) \<Longrightarrow>
    \<forall>d. swap_funds S (sk_bank st) d = (\<Sum>r\<leftarrow>sg_PoolRecords gs. record_reserve r d) \<Longrightarrow>
    swap_reach S bech hk st'"
| message: "swap_reach S bech hk st \<Longrightarrow> swap_handle S bech hk now st msg = Inr st' \<Longrightarrow>
    bech (msg_signer msg) \<noteq> Inr (ModuleAddress S swap_module) \<Longrightarrow> swap_reach S bech hk st'"
| params: "swap_reach S bech hk st \<Longrightarrow> swap_reach S bech hk (st\<lparr>sk_params := ps\<rparr>)"
| others: "swap_reach S bech hk st \<Longrightarrow> \<forall>d. swap_funds S b d = swap_funds S (sk_bank st) d \<Longrightarrow>
    swap_reach S bech hk (st\<lparr>sk_bank := b, sk_hookst := h\<rparr>)"

lemma swap_handle_inv:
  assumes "sdk_laws S" "swap_inv S st" "swap_handle S bech hk now st msg = Inr st'"
    and "bech (msg_signer msg) \<noteq> Inr (ModuleAddress S swap_module)"
  shows "swap_inv S st'"
proof -
  obtain w where w: "bech (msg_signer msg) = Inr w" and ne: "w \<noteq> ModuleAddress S swap_module"
    using assms(3,4) by (cases msg) (auto simp: swap_handlers)
  show ?thesis
  proof (cases msg)
    case (MsgDeposit who a b slip t)
    then have "Deposit S hk st w a b slip = Inr st'" using assms(3) w by (simp add: swap_handlers)
    then show ?thesis by (rule Deposit_inv [OF assms(1,2) ne])
  next
    case (MsgWithdraw who s a b t)
    then have "Withdraw S hk st w s a b = Inr st'" using assms(3) w by (simp add: swap_handlers)
    then show ?thesis by (rule Withdraw_inv [OF assms(1,2) ne])
  next
    case (MsgSwapExactForTokens who a b slip t)
    then have "SwapExactForTokens S st w a b slip = Inr st'" using assms(3) w by (simp add: swap_handlers)
    then show ?thesis by (rule SwapExactForTokens_inv [OF assms(1,2) ne])
  next
    case (MsgSwapForExactTokens who a b slip t)
    then have "SwapForExactTokens S st w a b slip = Inr st'" using assms(3) w by (simp add: swap_handlers)
    then show ?thesis by (rule SwapForExactTokens_inv [OF assms(1,2) ne])
  qed
qed

lemma swap_reach_inv: "swap_reach S bech hk st \<Longrightarrow> sdk_laws S \<Longrightarrow> swap_inv S st"
proof (induction rule: swap_reach.induct)
  case (genesis st gs st')
  show ?case by (rule InitGenesis_inv [OF genesis(6,1-5)])
next
  case (message st now msg st')
  show ?case by (rule swap_handle_inv [OF message(5) message(4) [OF message(5)] message(2,3)])
qed (simp_all add: swap_inv_def share_total_def GetPool_def reserves_total_def)

section \<open>Properties\<close>

text \<open>
  C1: In every state a chain reaches by genesis, swap messages, parameter changes and other
  modules' transactions, the module account holds exactly the sum of all pool reserves, the shares
  of every pool are exactly the shares its depositors own, and none of the four registered
  invariants is broken.
\<close>

theorem swap_module_solvent:
  assumes "sdk_laws S" "swap_reach S bech hk st"
  shows "(\<forall>d. swap_funds S (sk_bank st) d = reserves_total st d) \<and>
    (\<forall>i. share_total st i = pool_shares (GetPool st i)) \<and> swap_AllInvariants S st = Inr False"
proof -
  have inv: "swap_inv S st" using swap_reach_inv [OF assms(2,1)] .
  then show ?thesis using AllInvariants_hold [OF assms(1) inv] by (simp add: swap_inv_def)
qed

definition ex_swap_params :: swap_params where
  "ex_swap_params = \<lparr>AllowedPools = [\<lparr>TokenA = ''ukava'', TokenB = ''usdx''\<rparr>], SwapFee = 3000000000000000\<rparr>"

definition ex_empty :: "(ledger, unit) swap_state" where
  "ex_empty = \<lparr>sk_pools = [], sk_shares = [], sk_params = ex_swap_params,
     sk_bank = \<lparr>lbal = [((''alice'', ''ukava''), 8), ((''alice'', ''usdx''), 18), ((''bob'', ''ukava''), 5)], lsupply = []\<rparr>,
     sk_hookst = ()\<rparr>"

definition ex_pooled :: "(ledger, unit) swap_state" where
  "ex_pooled = ex_empty\<lparr>
     sk_pools := [(''ukava:usdx'', \<lparr>pr_PoolID = ''ukava:usdx'', pr_ReservesA = Coin ''ukava'' 8,
        pr_ReservesB = Coin ''usdx'' 18, pr_TotalShares = 12\<rparr>)],
     sk_shares := [(''alice|ukava:usdx'', \<lparr>sr_Depositor = ''alice'', sr_PoolID = ''ukava:usdx'', sr_SharesOwned = 12\<rparr>)],
     sk_bank := \<lparr>lbal = [((''module/swap'', ''ukava''), 8), ((''module/swap'', ''usdx''), 18),
        ((''alice'', ''ukava''), 0), ((''alice'', ''usdx''), 0),
        ((''alice'', ''ukava''), 8), ((''alice'', ''usdx''), 18), ((''bob'', ''ukava''), 5)], lsupply = []\<rparr>\<rparr>"

lemma ex_deposit:
  "swap_handle ref_sdk Inr None 0 ex_empty (MsgDeposit ''alice'' (Coin ''ukava'' 8) (Coin ''usdx'' 18) 0 10) = Inr ex_pooled"
  by code_simp

lemma ex_init: "swap_InitGenesis ref_math ex_empty \<lparr>sg_Params = ex_swap_params, sg_PoolRecords = [], sg_ShareRecords = []\<rparr> = Inr ex_empty"
  by code_simp

lemma ref_swap_address: "ModuleAddress ref_sdk swap_module = ''module/swap''" "Math ref_sdk = ref_math"
  by (simp_all add: ref_sdk_def module_address_def swap_module_def)

lemma ex_reach: "swap_reach ref_sdk Inr None ex_pooled"
proof (rule swap_reach.message)
  have "\<forall>d. swap_funds ref_sdk (sk_bank ex_empty) d = 0"
    by (simp add: ref_sdk_def ex_empty_def lget_def module_address_def swap_module_def)
  then show "swap_reach ref_sdk Inr None ex_empty"
    using ex_init by (intro swap_reach.genesis) (auto simp: ref_swap_address ex_empty_def)
  show "swap_handle ref_sdk Inr None 0 ex_empty (MsgDeposit ''alice'' (Coin ''ukava'' 8) (Coin ''usdx'' 18) 0 10) = Inr ex_pooled"
    by (rule ex_deposit)
qed (simp add: ref_swap_address)

theorem swap_module_solvent_witness:
  "swap_AllInvariants ref_sdk ex_pooled = Inr False \<and> share_total ex_pooled ''ukava:usdx'' = 12"
  using swap_module_solvent [OF ref_sdk_laws ex_reach]
  by (simp add: ex_pooled_def GetPool_def pool_shares_def)

lemma PoolID_denoms:
  assumes "PoolRecord_Validate m r = Inr ()" "pr_PoolID r = PoolID d e"
  shows "{d, e} = {Denom (pr_ReservesA r), Denom (pr_ReservesB r)}"
proof -
  let ?A = "Denom (pr_ReservesA r)" and ?B = "Denom (pr_ReservesB r)"
  have "PoolID d e = ?A @ PoolIDSep # ?B" "PoolIDSep \<notin> set ?A" "PoolIDSep \<notin> set ?B"
    using assms by (simp_all add: PoolRecord_Validate_Inr poolID_tokens_Inr)
  moreover have "PoolID d e = d @ PoolIDSep # e \<or> PoolID d e = e @ PoolIDSep # d" by (simp add: PoolID_def)
  ultimately have "(?A = d \<and> ?B = e) \<or> (?A = e \<and> ?B = d)"
    using append_Cons_eq_iff [of PoolIDSep ?A ?B] by metis
  then show ?thesis by auto
qed

lemma exact_input_guard:
  "SwapExactAForB m p a fee = Inr x \<Longrightarrow> 0 < a \<and> 0 \<le> fee \<and> fee < OneDec"
  "SwapAForExactB m p b fee = Inr x \<Longrightarrow> 0 < b \<and> b < reservesB p \<and> 0 \<le> fee \<and> fee < OneDec"
  by (auto simp: SwapExactAForB_def calculateOutputForExactInput_def SwapAForExactB_def
      calculateInputForExactOutput_def pool_asserts split: if_splits)

lemma product_with_fee:
  fixes a b f x :: int
  assumes "x \<le> (a - f) * b" "0 \<le> f" "0 < b"
  shows "x \<le> a * b"
proof -
  have "(a - f) * b \<le> a * b" using assms(2,3) by (intro mult_right_mono) auto
  then show ?thesis using assms(1) by linarith
qed

lemma exact_swap_facts:
  assumes m: "math_laws m" and wf: "pool_wf p"
  shows "SwapExactAForB m p a fee = Inr (p', b, f) \<Longrightarrow>
      reservesA p * reservesB p \<le> reservesA p' * reservesB p' \<and> 0 \<le> f \<and> f \<le> a \<and> 0 < a"
    and "SwapAForExactB m p b fee = Inr (p', a, f) \<Longrightarrow>
      reservesA p * reservesB p \<le> reservesA p' * reservesB p' \<and> 0 \<le> f \<and> f < a \<and> 0 < b"
proof -
  assume s: "SwapExactAForB m p a fee = Inr (p', b, f)"
  then have g: "0 < a" "0 \<le> fee" "fee < OneDec" using exact_input_guard(1) by blast+
  show "reservesA p * reservesB p \<le> reservesA p' * reservesB p' \<and> 0 \<le> f \<and> f \<le> a \<and> 0 < a"
    using SwapExactAForB_spec [OF m wf g] s g(1) by (auto simp: pool_wf_def intro: product_with_fee)
next
  assume s: "SwapAForExactB m p b fee = Inr (p', a, f)"
  then have g: "0 < b" "b < reservesB p" "0 \<le> fee" "fee < OneDec" using exact_input_guard(2) by blast+
  show "reservesA p * reservesB p \<le> reservesA p' * reservesB p' \<and> 0 \<le> f \<and> f < a \<and> 0 < b"
    using SwapAForExactB_spec [OF m wf g] s g(1) by (auto simp: pool_wf_def intro: product_with_fee)
qed

lemma exact_swap_facts_flip:
  assumes m: "math_laws m" and wf: "pool_wf p"
  shows "SwapExactBForA m p b fee = Inr (p', a, f) \<Longrightarrow>
      reservesA p * reservesB p \<le> reservesA p' * reservesB p' \<and> 0 \<le> f \<and> f \<le> b \<and> 0 < b"
    and "SwapBForExactA m p a fee = Inr (p', b, f) \<Longrightarrow>
      reservesA p * reservesB p \<le> reservesA p' * reservesB p' \<and> 0 \<le> f \<and> f < b \<and> 0 < a"
  using exact_swap_facts [OF m, of "flip_pool p"] wf
  by (auto simp: SwapExactBForA_flip SwapBForExactA_flip map_sum_def mult.commute split: sum.splits)

definition pool_product :: "DenominatedPool \<Rightarrow> int" where
  "pool_product p = reservesA (dp_pool p) * reservesB (dp_pool p)"

lemma SwapWithExactInput_facts:
  assumes "math_laws m" "pool_wf (dp_pool p)" "SwapWithExactInput m p inp fee = Inr (p', out, f)"
  shows "pool_product p \<le> pool_product p'" "0 < Amount inp" "0 \<le> Amount out"
  using assms(3) exact_swap_facts(1) [OF assms(1,2)] exact_swap_facts_flip(1) [OF assms(1,2)]
  by (auto simp: SwapWithExactInput_def pool_product_def dp_coinA_def dp_coinB_def split: if_splits)

lemma SwapWithExactOutput_facts:
  assumes "math_laws m" "pool_wf (dp_pool p)" "SwapWithExactOutput m p out fee = Inr (p', inp, f)"
  shows "pool_product p \<le> pool_product p'" "0 < Amount out" "Amount f < Amount inp" "0 \<le> Amount f" "Denom f = Denom inp"
  using assms(3) exact_swap_facts(2) [OF assms(1,2)] exact_swap_facts_flip(2) [OF assms(1,2)]
  by (auto simp: SwapWithExactOutput_def pool_product_def dp_coinA_def dp_coinB_def split: if_splits)

lemma slippage_met:
  assumes "math_laws m" "DecQuo m (NewDecFromInt x) (NewDecFromInt y) = Inr q" "0 < y" "OneDec - q \<le> slip"
  shows "2 * (OneDec - slip) * y \<le> 2 * x * OneDec + y"
proof -
  have "2 * \<bar>q * (y * Precision) - x * Precision * Precision\<bar> \<le> y * Precision"
    using DecQuo_bound [OF assms(1,2)] assms(3) by (simp add: NewDecFromInt_def)
  then have "2 * q * y * Precision \<le> (2 * x * Precision + y) * Precision"
    by (simp add: abs_le_iff algebra_simps)
  then have "2 * q * y \<le> 2 * x * OneDec + y" by (simp add: OneDec_def)
  moreover have "2 * (OneDec - slip) * y \<le> 2 * q * y" using assms(3,4) by (intro mult_right_mono) auto
  ultimately show ?thesis by linarith
qed

text \<open>What a swap that went through did to the requester, to everyone else and to the pool.\<close>

definition swap_done :: "'b sdk \<Rightarrow> ('b, 'h) swap_state \<Rightarrow> ('b, 'h) swap_state \<Rightarrow> address \<Rightarrow> coin \<Rightarrow> coin \<Rightarrow> bool" where
  "swap_done S st st' w inp out \<longleftrightarrow>
     (\<forall>d. GetBalance S (sk_bank st') w d = GetBalance S (sk_bank st) w d
        - (if d = Denom inp then Amount inp else 0) + (if d = Denom out then Amount out else 0)) \<and>
     (\<forall>a d. a \<noteq> w \<longrightarrow> a \<noteq> ModuleAddress S swap_module \<longrightarrow>
        GetBalance S (sk_bank st') a d = GetBalance S (sk_bank st) a d) \<and>
     sk_shares st' = sk_shares st \<and>
     (\<forall>i. i \<noteq> PoolID (Denom inp) (Denom out) \<longrightarrow> GetPool st' i = GetPool st i) \<and>
     (\<exists>r r'. GetPool st (PoolID (Denom inp) (Denom out)) = Some r \<and>
        GetPool st' (PoolID (Denom inp) (Denom out)) = Some r' \<and>
        pr_TotalShares r' = pr_TotalShares r \<and> pool_product (pool_of r) \<le> pool_product (pool_of r'))"

lemma commitSwap_done:
  assumes laws: "sdk_laws S" and inv: "swap_inv S st" and i: "i = PoolID (Denom inp) (Denom out)"
    and r: "GetPool st i = Some r" and tr: "pool_traded (pool_of r) p' inp out"
    and w: "w \<noteq> ModuleAddress S swap_module" and prod: "pool_product (pool_of r) \<le> pool_product p'"
    and ok: "commitSwap S st p' w inp out = Inr st'"
  shows "swap_done S st st' w inp out"
proof (rule commitSwap_ok [OF laws inv r tr ok])
  fix r' b1 ins outs
  assume *: "r' = record_of p'" "PoolRecord_Validate (Math S) r' = Inr ()" "pr_PoolID r' = i"
    "sk_pools st' = kv_set (sk_pools st) i r'" "sk_shares st' = sk_shares st"
    "moved S (sk_bank st) b1 w (ModuleAddress S swap_module) ins"
    "moved S b1 (sk_bank st') (ModuleAddress S swap_module) w outs"
    "\<forall>d. AmountOf ins d = (if d = Denom inp then Amount inp else 0)"
    "\<forall>d. AmountOf outs d = (if d = Denom out then Amount out else 0)"
  have "pr_TotalShares r' = pr_TotalShares r"
    using tr by (simp add: *(1) record_of_def pool_traded_def pool_of_def)
  moreover have "pool_product (pool_of r') = pool_product p'"
    by (simp add: *(1) record_of_def pool_product_def pool_of_def)
  ultimately show "swap_done S st st' w inp out"
    using *(4-9) w r prod unfolding swap_done_def i [symmetric]
    by (simp add: moved_def GetPool_def)
qed

lemma out_denom:
  assumes "PoolRecord_Validate m r = Inr ()" "pr_PoolID r = PoolID d e"
    and "{d, x} = {dp_denomA (pool_of r), dp_denomB (pool_of r)}" "dp_denomA (pool_of r) \<noteq> dp_denomB (pool_of r)"
  shows "x = e"
  using PoolID_denoms [OF assms(1,2)] assms(3,4) by (auto simp: pool_of_def doubleton_eq_iff)

lemma SwapExactForTokens_ok:
  assumes laws: "sdk_laws S" and inv: "swap_inv S st" and w: "w \<noteq> ModuleAddress S swap_module" and B: "0 < Amount cB"
    and ok: "SwapExactForTokens S st w cA cB slip = Inr st'"
  obtains out where "swap_done S st st' w cA (Coin (Denom cB) out)" "0 < out"
    "2 * (OneDec - slip) * Amount cB \<le> 2 * out * OneDec + Amount cB"
proof -
  obtain r p' out f q where r: "GetPool st (PoolID (Denom cA) (Denom cB)) = Some r"
      and sw: "SwapWithExactInput (Math S) (pool_of r) cA (SwapFee (sk_params st)) = Inr (p', out, f)"
      and nz: "Amount out \<noteq> 0" and q: "DecQuo (Math S) (NewDecFromInt (Amount out)) (NewDecFromInt (Amount cB)) = Inr q"
      and slip: "assertSlippageWithinLimit q slip = Inr ()"
      and commit: "commitSwap S st p' w cA out = Inr st'"
    using ok unfolding SwapExactForTokens_def loadPool_ok [OF laws inv]
    by (auto split: option.splits if_splits)
  have v: "PoolRecord_Validate (Math S) r = Inr ()" "pr_PoolID r = PoolID (Denom cA) (Denom cB)"
    using swap_invD(3) [OF inv r] by auto
  note ne = denoms_differ [OF laws inv r]
  have tr: "pool_traded (pool_of r) p' cA out" by (rule SwapWithExactInput_traded [OF sw ne])
  have d: "Denom out = Denom cB" using out_denom [OF v _ ne] tr by (simp add: pool_traded_def)
  note f = SwapWithExactInput_facts [OF sdk_lawsD(1) [OF laws] valid_pool_of(2) [OF v(1)] sw]
  have out: "out = Coin (Denom cB) (Amount out)" using d by (cases out) simp
  have "swap_done S st st' w cA out"
    by (rule commitSwap_done [OF laws inv _ r tr w f(1) commit]) (simp add: d)
  moreover have "0 < Amount out" using f(3) nz by simp
  moreover have "2 * (OneDec - slip) * Amount cB \<le> 2 * Amount out * OneDec + Amount cB"
    using slip by (intro slippage_met [OF sdk_lawsD(1) [OF laws] q B])
      (simp add: assertSlippageWithinLimit_def Let_def split: if_splits)
  ultimately show ?thesis using that [of "Amount out"] out by metis
qed

lemma SwapForExactTokens_ok:
  assumes laws: "sdk_laws S" and inv: "swap_inv S st" and w: "w \<noteq> ModuleAddress S swap_module"
    and ok: "SwapForExactTokens S st w cA cB slip = Inr st'"
  obtains inp fee where "swap_done S st st' w (Coin (Denom cA) inp) cB" "0 \<le> fee" "fee < inp"
    "2 * (OneDec - slip) * (inp - fee) \<le> 2 * Amount cA * OneDec + (inp - fee)"
proof -
  obtain r p' inp f net q where r: "GetPool st (PoolID (Denom cA) (Denom cB)) = Some r"
      and sw: "SwapWithExactOutput (Math S) (pool_of r) cB (SwapFee (sk_params st)) = Inr (p', inp, f)"
      and net: "coin_Sub (Math S) inp f = Inr net"
      and q: "DecQuo (Math S) (NewDecFromInt (Amount cA)) (NewDecFromInt (Amount net)) = Inr q"
      and slip: "assertSlippageWithinLimit q slip = Inr ()"
      and commit: "commitSwap S st p' w inp cB = Inr st'"
    using ok unfolding SwapForExactTokens_def loadPool_ok [OF laws inv] bnd_eq_Inr
    by (auto simp del: coin_Sub_Inr split: option.splits if_splits)
  have v: "PoolRecord_Validate (Math S) r = Inr ()" "pr_PoolID r = PoolID (Denom cB) (Denom cA)"
    using swap_invD(3) [OF inv r] PoolID_commute by auto
  note ne = denoms_differ [OF laws inv r]
  have tr: "pool_traded (pool_of r) p' inp cB" by (rule SwapWithExactOutput_traded [OF sw ne])
  have d: "Denom inp = Denom cA" using out_denom [OF v _ ne] tr by (simp add: pool_traded_def insert_commute)
  note f = SwapWithExactOutput_facts [OF sdk_lawsD(1) [OF laws] valid_pool_of(2) [OF v(1)] sw]
  have inp: "inp = Coin (Denom cA) (Amount inp)" using d by (cases inp) simp
  have amt: "Amount net = Amount inp - Amount f" using net by auto
  have "swap_done S st st' w inp cB"
    by (rule commitSwap_done [OF laws inv _ r tr w f(1) commit]) (simp add: d)
  moreover have "2 * (OneDec - slip) * (Amount inp - Amount f) \<le> 2 * Amount cA * OneDec + (Amount inp - Amount f)"
    using slip f(3) unfolding amt [symmetric]
    by (intro slippage_met [OF sdk_lawsD(1) [OF laws] q])
      (auto simp: amt assertSlippageWithinLimit_def Let_def split: if_splits)
  ultimately show ?thesis using that [of "Amount inp" "Amount f"] inp f(3,4) by metis
qed

lemma ex_pooled_inv: "swap_inv ref_sdk ex_pooled"
  by (rule swap_reach_inv [OF ex_reach ref_sdk_laws])

definition ok_state :: "'a result \<Rightarrow> 'a \<Rightarrow> 'a" where
  "ok_state r d = (case r of Inl e \<Rightarrow> d | Inr x \<Rightarrow> x)"

text \<open>
  A deposit that succeeds takes at most the offered amount of each coin from the depositor and
  gives exactly that to the module account, touches no other account, mints a positive number of
  shares that it adds to the pool and to the depositor's record, and leaves every other pool and
  every other record as it was.
\<close>

theorem Deposit_effect:
  assumes "sdk_laws S" "swap_inv S st" "Deposit S hk st w cA cB slip = Inr st'"
  shows "\<exists>cs s r' sr'. 0 < s \<and>
    (\<forall>d. 0 \<le> AmountOf cs d) \<and> AmountOf cs (Denom cA) \<le> Amount cA \<and> AmountOf cs (Denom cB) \<le> Amount cB \<and>
    Denom ` set cs = {Denom cA, Denom cB} \<and>
    moved S (sk_bank st) (sk_bank st') w (ModuleAddress S swap_module) cs \<and>
    GetPool st' = (GetPool st)(PoolID (Denom cA) (Denom cB) \<mapsto> r') \<and>
    pr_TotalShares r' = pool_shares (GetPool st (PoolID (Denom cA) (Denom cB))) + s \<and>
    (\<forall>d. record_reserve r' d = pool_reserve (GetPool st (PoolID (Denom cA) (Denom cB))) d + AmountOf cs d) \<and>
    kv_get (sk_shares st') =
      (kv_get (sk_shares st))(DepositorPoolSharesKey w (PoolID (Denom cA) (Denom cB)) \<mapsto> sr') \<and>
    sr_SharesOwned sr' = owned_shares (GetDepositorShares st w (PoolID (Denom cA) (Denom cB))) + s"
proof (rule Deposit_ok [OF assms])
  fix i t cs s orec osr
  assume *: "i = PoolID (Denom cA) (Denom cB)" "0 < s"
    "Denom ` set cs = {Denom cA, Denom cB}" "\<forall>d. 0 \<le> AmountOf cs d"
    "AmountOf cs (Denom cA) \<le> Amount cA" "AmountOf cs (Denom cB) \<le> Amount cB"
    "sk_pools st' = kv_upd (sk_pools st) i (Some orec)"
    "sk_shares st' = kv_upd (sk_shares st) (DepositorPoolSharesKey w i) (Some osr)"
    "pr_TotalShares orec = pool_shares (GetPool st i) + s"
    "\<forall>d. record_reserve orec d = pool_reserve (GetPool st i) d + AmountOf cs d"
    "sr_SharesOwned osr = owned_shares (GetDepositorShares st w i) + s"
    "moved S (sk_bank st) (sk_bank st') w (ModuleAddress S swap_module) cs"
  show ?thesis
    unfolding *(1) [symmetric]
    by (intro exI [of _ cs] exI [of _ s] exI [of _ orec] exI [of _ osr])
      (use *(2-12) in \<open>simp add: GetPool_def fun_eq_iff\<close>)
qed

definition ex_rich :: "(ledger, unit) swap_state" where
  "ex_rich = ex_pooled\<lparr>sk_bank := (sk_bank ex_pooled)\<lparr>lbal := ((''carol'', ''ukava''), 5) # ((''carol'', ''usdx''), 9) # lbal (sk_bank ex_pooled)\<rparr>\<rparr>"

definition ex_second :: "(ledger, unit) swap_state" where
  "ex_second = ok_state (Deposit ref_sdk None ex_rich ''carol'' (Coin ''usdx'' 9) (Coin ''ukava'' 5) 1000000000000000000) ex_rich"

lemma ex_second: "Deposit ref_sdk None ex_rich ''carol'' (Coin ''usdx'' 9) (Coin ''ukava'' 5) 1000000000000000000 = Inr ex_second"
  by code_simp

lemma ex_rich_inv: "swap_inv ref_sdk ex_rich"
proof -
  have "swap_funds ref_sdk (sk_bank ex_rich) d = swap_funds ref_sdk (sk_bank ex_pooled) d" for d
    by (simp add: ref_sdk_def ex_rich_def lget_def module_address_def swap_module_def)
  then show ?thesis
    using ex_pooled_inv by (simp add: swap_inv_def share_total_def GetPool_def reserves_total_def ex_rich_def)
qed

theorem Deposit_effect_witness: "\<exists>s. 0 < s \<and>
    (\<exists>r'. GetPool ex_second (PoolID ''usdx'' ''ukava'') = Some r' \<and>
       pr_TotalShares r' = pool_shares (GetPool ex_rich (PoolID ''usdx'' ''ukava'')) + s)"
  using Deposit_effect [OF ref_sdk_laws ex_rich_inv ex_second] by auto

text \<open>
  A withdrawal of a positive number of shares either pays the owner, out of the module account,
  amounts that meet the minima and are at most the owner's part of each reserve, burning exactly
  those shares from the pool and from the owner's record; or it fails with one of the errors for a
  missing deposit, too many shares, too little liquidity or exceeded slippage, with an integer
  overflow, or because the bank refuses the payout. The panics on a missing or invalid pool record
  are unreachable.
\<close>

theorem Withdraw_effect:
  assumes "sdk_laws S" "swap_inv S st" "0 < s"
    and "ValidDenom (Math S) (Denom cA)" "ValidDenom (Math S) (Denom cB)"
  shows "case Withdraw S hk st w s cA cB of
      Inl e \<Rightarrow> e \<in> {Err ''ErrDepositNotFound'', Err ''ErrInvalidShares'', Err ''ErrInsufficientLiquidity'',
        Err ''ErrSlippageExceeded'', overflow} \<or> bank_refuses S w e
    | Inr st' \<Rightarrow> \<exists>r sr cs. GetPool st (PoolID (Denom cA) (Denom cB)) = Some r \<and>
        GetDepositorShares st w (PoolID (Denom cA) (Denom cB)) = Some sr \<and> s \<le> sr_SharesOwned sr \<and>
        (\<forall>d. 0 \<le> AmountOf cs d \<and> AmountOf cs d * pr_TotalShares r \<le> record_reserve r d * s) \<and>
        Amount cA \<le> AmountOf cs (Denom cA) \<and> Amount cB \<le> AmountOf cs (Denom cB) \<and>
        moved S (sk_bank st) (sk_bank st') (ModuleAddress S swap_module) w cs \<and>
        pool_shares (GetPool st' (PoolID (Denom cA) (Denom cB))) = pr_TotalShares r - s \<and>
        owned_shares (GetDepositorShares st' w (PoolID (Denom cA) (Denom cB))) = sr_SharesOwned sr - s"
proof (cases "Withdraw S hk st w s cA cB")
  case (Inl e)
  then show ?thesis using Withdraw_faults [OF assms Inl] by simp
next
  case (Inr st')
  show ?thesis
  proof (rule Withdraw_ok [OF assms(1,2) Inr])
    fix i t r sr cs orec osr
    assume *: "i = PoolID (Denom cA) (Denom cB)" "GetPool st i = Some r" "GetDepositorShares st w i = Some sr"
      "s \<le> sr_SharesOwned sr" "\<forall>d. 0 \<le> AmountOf cs d"
      "Amount cA \<le> AmountOf cs (Denom cA)" "Amount cB \<le> AmountOf cs (Denom cB)"
      "\<forall>d. AmountOf cs d * pr_TotalShares r \<le> record_reserve r d * s"
      "sk_pools st' = kv_upd (sk_pools st) i orec"
      "sk_shares st' = kv_upd (sk_shares st) (DepositorPoolSharesKey w i) osr"
      "pool_shares orec = pr_TotalShares r - s" "owned_shares osr = sr_SharesOwned sr - s"
      "moved S (sk_bank st) (sk_bank st') (ModuleAddress S swap_module) w cs"
    have "GetPool st' i = orec" "GetDepositorShares st' w i = osr"
      using *(9,10) by (simp_all add: GetPool_def GetDepositorShares_def)
    then show ?thesis
      unfolding Inr sum.case *(1) [symmetric] using *(2-8,11-13) by blast
  qed
qed

definition ex_left :: "(ledger, unit) swap_state" where
  "ex_left = ok_state (Withdraw ref_sdk None ex_pooled ''alice'' 5 (Coin ''ukava'' 3) (Coin ''usdx'' 7)) ex_pooled"

lemma ex_left: "Withdraw ref_sdk None ex_pooled ''alice'' 5 (Coin ''ukava'' 3) (Coin ''usdx'' 7) = Inr ex_left"
  by code_simp

theorem Withdraw_effect_witness:
  "\<exists>r sr. GetPool ex_pooled (PoolID ''ukava'' ''usdx'') = Some r \<and>
     GetDepositorShares ex_pooled ''alice'' (PoolID ''ukava'' ''usdx'') = Some sr \<and>
     pool_shares (GetPool ex_left (PoolID ''ukava'' ''usdx'')) = pr_TotalShares r - 5 \<and>
     owned_shares (GetDepositorShares ex_left ''alice'' (PoolID ''ukava'' ''usdx'')) = sr_SharesOwned sr - 5"
proof -
  have "ValidDenom (Math ref_sdk) (Denom (Coin ''ukava'' 3))" "ValidDenom (Math ref_sdk) (Denom (Coin ''usdx'' 7))"
    by code_simp+
  then show ?thesis
    using Withdraw_effect [OF ref_sdk_laws ex_pooled_inv,
      where s = 5 and cA = "Coin ''ukava'' 3" and cB = "Coin ''usdx'' 7" and hk = None and w = "''alice''"]
    unfolding ex_left by auto
qed

text \<open>
  A swap with an exact input that succeeds takes exactly the offered coin from the requester and
  pays a positive amount of the other coin that is at least the wanted amount less the slippage
  limit (up to the rounding of one decimal division). Nobody else's balance changes, no shares
  change, and the product of the pool's reserves does not fall.
\<close>

theorem SwapExactForTokens_effect:
  assumes "sdk_laws S" "swap_inv S st" "w \<noteq> ModuleAddress S swap_module" "0 < Amount cB"
    and "SwapExactForTokens S st w cA cB slip = Inr st'"
  shows "\<exists>out>0. swap_done S st st' w cA (Coin (Denom cB) out) \<and>
    2 * (OneDec - slip) * Amount cB \<le> 2 * out * OneDec + Amount cB"
proof (rule SwapExactForTokens_ok [OF assms])
  fix out
  assume "swap_done S st st' w cA (Coin (Denom cB) out)" "0 < out"
    "2 * (OneDec - slip) * Amount cB \<le> 2 * out * OneDec + Amount cB"
  then show ?thesis by blast
qed

definition ex_traded :: "(ledger, unit) swap_state" where
  "ex_traded = ok_state (SwapExactForTokens ref_sdk ex_pooled ''bob'' (Coin ''ukava'' 5) (Coin ''usdx'' 8) 500000000000000000) ex_pooled"

lemma ex_traded: "SwapExactForTokens ref_sdk ex_pooled ''bob'' (Coin ''ukava'' 5) (Coin ''usdx'' 8) 500000000000000000 = Inr ex_traded"
  by code_simp

theorem SwapExactForTokens_effect_witness:
  "\<exists>out>0. swap_done ref_sdk ex_pooled ex_traded ''bob'' (Coin ''ukava'' 5) (Coin ''usdx'' out)"
  using SwapExactForTokens_effect [OF ref_sdk_laws ex_pooled_inv _ _ ex_traded] by (auto simp: ref_swap_address)

text \<open>
  A swap for an exact output that succeeds pays the requester exactly the wanted coin and takes
  an input of which, after the fee, the offered amount is at least the part the slippage limit
  asks for. Nobody else's balance changes, no shares change, and the product of the pool's
  reserves does not fall.
\<close>

theorem SwapForExactTokens_effect:
  assumes "sdk_laws S" "swap_inv S st" "w \<noteq> ModuleAddress S swap_module"
    and "SwapForExactTokens S st w cA cB slip = Inr st'"
  shows "\<exists>inp fee. swap_done S st st' w (Coin (Denom cA) inp) cB \<and> 0 \<le> fee \<and> fee < inp \<and>
    2 * (OneDec - slip) * (inp - fee) \<le> 2 * Amount cA * OneDec + (inp - fee)"
proof (rule SwapForExactTokens_ok [OF assms])
  fix inp fee
  assume "swap_done S st st' w (Coin (Denom cA) inp) cB" "0 \<le> fee" "fee < inp"
    "2 * (OneDec - slip) * (inp - fee) \<le> 2 * Amount cA * OneDec + (inp - fee)"
  then show ?thesis by blast
qed

definition ex_traded2 :: "(ledger, unit) swap_state" where
  "ex_traded2 = ok_state (SwapForExactTokens ref_sdk ex_pooled ''bob'' (Coin ''ukava'' 4) (Coin ''usdx'' 6) 500000000000000000) ex_pooled"

lemma ex_traded2: "SwapForExactTokens ref_sdk ex_pooled ''bob'' (Coin ''ukava'' 4) (Coin ''usdx'' 6) 500000000000000000 = Inr ex_traded2"
  by code_simp

theorem SwapForExactTokens_effect_witness:
  "\<exists>inp fee. swap_done ref_sdk ex_pooled ex_traded2 ''bob'' (Coin ''ukava'' inp) (Coin ''usdx'' 6) \<and> 0 \<le> fee \<and> fee < inp"
  using SwapForExactTokens_effect [OF ref_sdk_laws ex_pooled_inv _ ex_traded2] by (auto simp: ref_swap_address)

text \<open>
  Exporting the module's state and importing it into an empty store succeeds and gives back the
  same pools, share records and parameters.
\<close>

theorem swap_genesis_round_trip:
  assumes "sdk_laws S" "swap_inv S st" "swap_params_Validate (Math S) (sk_params st) = Inr ()"
    and "sk_pools st0 = []" "sk_shares st0 = []"
  shows "swap_InitGenesis (Math S) st0 (swap_ExportGenesis st) =
    Inr (st\<lparr>sk_bank := sk_bank st0, sk_hookst := sk_hookst st0\<rparr>)"
  by (rule genesis_round_trip [OF assms])

theorem swap_genesis_round_trip_witness:
  "swap_InitGenesis (Math ref_sdk) ex_empty (swap_ExportGenesis ex_pooled) = Inr (ex_pooled\<lparr>sk_bank := sk_bank ex_empty\<rparr>)"
proof -
  have p: "swap_params_Validate (Math ref_sdk) (sk_params ex_pooled) = Inr ()" by code_simp
  show ?thesis
    using swap_genesis_round_trip [OF ref_sdk_laws ex_pooled_inv p, of ex_empty]
    by (simp add: ex_empty_def ex_pooled_def)
qed

end
