(* ===== verification/Time_Index.thy ===== *)
theory Time_Index
  imports Ordered_Store
begin

text \<open>
  Stores with an index by time or height, the shape the auction and atomic swap keepers share: an
  iterator over the index yields the keys of the values that are due. What a sweep over the due
  keys leaves behind is proved once from that contract (\<open>due_index\<close>); a store whose writes maintain
  the index by themselves extends it (\<open>time_index\<close>).
\<close>

locale due_index =
  fixes lookup :: "'s \<Rightarrow> 'k \<Rightarrow> 'v option"
    and ending :: "'v \<Rightarrow> 't::linorder"
    and due :: "'s \<Rightarrow> 't \<Rightarrow> 'k list"
    and invar :: "'s \<Rightarrow> bool"
  assumes due_iff: "invar s \<Longrightarrow> k \<in> set (due s t) \<longleftrightarrow> (\<exists>v. lookup s k = Some v \<and> ending v \<le> t)"
    and due_distinct: "invar s \<Longrightarrow> distinct (due s t)"
begin

text \<open>A step that deletes the key it is given, as closing and expiring do.\<close>

definition deletes :: "('k \<Rightarrow> 's \<Rightarrow> 's result) \<Rightarrow> bool" where
  "deletes f \<longleftrightarrow> (\<forall>k s s'. invar s \<longrightarrow> lookup s k \<noteq> None \<longrightarrow> f k s = Inr s' \<longrightarrow> invar s' \<and> lookup s' = (lookup s)(k := None))"

lemma fold_deletes:
  assumes "deletes f" "invar s" "foldR f ks s = Inr t" "distinct ks" "\<forall>k\<in>set ks. lookup s k \<noteq> None"
  shows "invar t" "lookup t k = (if k \<in> set ks then None else lookup s k)"
proof -
  have "invar t \<and> (\<forall>k. lookup t k = (if k \<in> set ks then None else lookup s k))"
    using assms(2-)
  proof (induction ks arbitrary: s)
    case (Cons x ks)
    then obtain s1 where s1: "f x s = Inr s1" "foldR f ks s1 = Inr t" by auto
    have "lookup s x \<noteq> None" using Cons.prems(4) by simp
    then have "invar s1" and l: "lookup s1 = (lookup s)(x := None)"
      using assms(1) Cons.prems(1) s1(1) unfolding deletes_def by blast+
    moreover have "\<forall>k\<in>set ks. lookup s1 k \<noteq> None" using Cons.prems(3,4) by (auto simp: l)
    ultimately show ?case using Cons.IH [OF _ s1(2)] Cons.prems(3) by auto
  qed simp
  then show "invar t" "lookup t k = (if k \<in> set ks then None else lookup s k)" by auto
qed

text \<open>After a sweep exactly the values that were not due remain, and nothing is due any more.\<close>

lemma sweep:
  assumes "deletes f" "invar s" "foldR f (due s t) s = Inr s'"
  shows "invar s'"
    and "lookup s' k = (case lookup s k of Some v \<Rightarrow> if ending v \<le> t then None else Some v | None \<Rightarrow> None)"
    and "due s' t = []"
proof -
  have "\<forall>k\<in>set (due s t). lookup s k \<noteq> None" using due_iff [OF assms(2)] by auto
  note f = fold_deletes [OF assms due_distinct [OF assms(2)] this]
  show "invar s'" by (rule f(1))
  show l: "lookup s' k = (case lookup s k of Some v \<Rightarrow> if ending v \<le> t then None else Some v | None \<Rightarrow> None)" for k
    using f(2) [of k] due_iff [OF assms(2), of k t] by (cases "lookup s k") auto
  have "k \<notin> set (due s' t)" for k
    using due_iff [OF f(1), of k t] l [of k] by (auto split: option.splits if_splits)
  then show "due s' t = []" by (metis list.set_intros(1) neq_Nil_conv)
qed

text \<open>The same for a step that cannot fail.\<close>

lemma pure_sweep:
  assumes "deletes (\<lambda>k s. Inr (g k s))" "invar s"
  shows "invar (fold g (due s t) s)"
    and "lookup (fold g (due s t) s) k = (case lookup s k of Some v \<Rightarrow> if ending v \<le> t then None else Some v | None \<Rightarrow> None)"
    and "due (fold g (due s t) s) t = []"
  using sweep [OF assms, of t "fold g (due s t) s"] by (simp_all add: foldR_fold)

end

locale time_index = due_index lookup ending due invar
  for lookup :: "'s \<Rightarrow> 'k \<Rightarrow> 'v option" and ending :: "'v \<Rightarrow> 't::linorder" and due and invar +
  fixes store :: "'s \<Rightarrow> 'v \<Rightarrow> 's"
    and remove :: "'s \<Rightarrow> 'k \<Rightarrow> 's"
    and key :: "'v \<Rightarrow> 'k"
  assumes lookup_store: "invar s \<Longrightarrow> lookup (store s v) = (lookup s)(key v \<mapsto> v)"
    and lookup_remove: "invar s \<Longrightarrow> lookup (remove s k) = (lookup s)(k := None)"
    and invar_store: "invar s \<Longrightarrow> invar (store s v)"
    and invar_remove: "invar s \<Longrightarrow> invar (remove s k)"
begin

text \<open>A value stored to end later is not due yet.\<close>

lemma store_not_due: "invar s \<Longrightarrow> t < ending v \<Longrightarrow> key v \<notin> set (due (store s v) t)"
  by (auto simp: due_iff invar_store lookup_store)

end

end
