(* ===== verification/Auction.thy ===== *)
theory Auction
  imports Sdk_Reference Time_Index "HOL-Library.Multiset"
begin

text \<open>
  The auction module, \<open>x/auction\<close>: surplus, debt and collateral auctions
  (\<open>types/auctions.go\<close>), the store with its index by end time (\<open>keeper/keeper.go\<close>), starting,
  bidding and closing (\<open>keeper/auctions.go\<close>), the division of a lot among weighted addresses
  (\<open>keeper/math.go\<close>), the invariants, the begin blocker and genesis. The directory
  \<open>x/keeper\<close>, \<open>x/types\<close> of the repository is a copy of this module.
\<close>

section \<open>Dividing an amount among weighted buckets\<close>

record quoRem =
  qr_index :: nat
  qr_quo :: int
  qr_rem :: int

text \<open>
  \<open>sort.Slice\<close> does not fix the order of equal elements; the sorting function is an argument
  \<open>srt\<close>, of which only the contract below is known.
\<close>

type_synonym qr_sort = "quoRem list \<Rightarrow> quoRem list"

definition sort_law :: "qr_sort \<Rightarrow> bool" where
  "sort_law srt \<longleftrightarrow> (\<forall>qs. mset (srt qs) = mset qs \<and> sorted_wrt (\<lambda>x y. qr_rem y \<le> qr_rem x) (srt qs))"

definition totalInts :: "sdk_math \<Rightarrow> int list \<Rightarrow> int result" where
  "totalInts m is = foldR (\<lambda>i tot. toInt m (tot + i)) is 0"

fun quotients_from :: "sdk_math \<Rightarrow> int \<Rightarrow> int \<Rightarrow> nat \<Rightarrow> int list \<Rightarrow> quoRem list result" where
  "quotients_from m amount tot i [] = Inr []"
| "quotients_from m amount tot i (b # bs) =
     bnd (toInt m (amount * b)) (\<lambda>p.
     bnd (quotients_from m amount tot (Suc i) bs) (\<lambda>qs.
     Inr (\<lparr>qr_index = i, qr_quo = Quo p tot, qr_rem = p mod tot\<rparr> # qs)))"

fun apportion :: "sdk_math \<Rightarrow> quoRem list \<Rightarrow> int \<Rightarrow> int list \<Rightarrow> int list result" where
  "apportion m [] left results = Inr results"
| "apportion m (q # qs) left results =
     (if left \<noteq> 0 then
        bnd (toInt m (qr_quo q + 1)) (\<lambda>v.
        bnd (toInt m (left - 1)) (\<lambda>left'. apportion m qs left' (results[qr_index q := v])))
      else apportion m qs left (results[qr_index q := qr_quo q]))"

definition splitIntIntoWeightedBuckets :: "sdk_math \<Rightarrow> qr_sort \<Rightarrow> int \<Rightarrow> int list \<Rightarrow> int list result" where
  "splitIntIntoWeightedBuckets m srt amount buckets =
     (if amount < 0 then Inl (Panic ''negative amount'')
      else if buckets = [] then Inl (Panic ''no buckets'')
      else if list_ex (\<lambda>b. b < 0) buckets then Inl (Panic ''negative bucket'')
      else
        bnd (totalInts m buckets) (\<lambda>totalWeights.
        if \<not> 0 < totalWeights then Inl (Panic ''total weights must sum to > 0'')
        else
          bnd (quotients_from m amount totalWeights 0 buckets) (\<lambda>qs.
          let quotients = srt qs in
          bnd (foldR (\<lambda>q allocated. toInt m (allocated + qr_quo q)) quotients 0) (\<lambda>allocated.
          bnd (toInt m (amount - allocated)) (\<lambda>leftToAllocate.
          apportion m quotients leftToAllocate (replicate (length quotients) 0))))))"

definition splitCoinIntoWeightedBuckets :: "sdk_math \<Rightarrow> qr_sort \<Rightarrow> coin \<Rightarrow> int list \<Rightarrow> coin list result" where
  "splitCoinIntoWeightedBuckets m srt c buckets =
     bnd (splitIntIntoWeightedBuckets m srt (Amount c) buckets) (\<lambda>amounts.
     foldR (\<lambda>a acc. bnd (NewCoin m (Denom c) a) (\<lambda>x. Inr (acc @ [x]))) amounts [])"

section \<open>Auctions\<close>

record BaseAuction =
  a_ID :: uint64
  a_Initiator :: string
  a_Lot :: coin
  a_Bidder :: address
  a_Bid :: coin
  a_HasReceivedBids :: bool
  a_EndTime :: time
  a_MaxEndTime :: time

record WeightedAddresses =
  wa_Addresses :: "address list"
  wa_Weights :: "int list"

text \<open>
  The three kinds; the further arguments are the corresponding debt, the maximum bid and the lot
  returns. A nil bidder is the empty address.
\<close>

datatype Auction =
    SurplusAuction (base: BaseAuction)
  | DebtAuction (base: BaseAuction) (debt: coin)
  | CollateralAuction (base: BaseAuction) (debt: coin) (maxBid: coin) (lotReturns: WeightedAddresses)

definition DistantFuture :: time where
  \<comment> \<open>the first of January of the year 9000\<close>
  "DistantFuture = 221845392000 * second"

fun GetID :: "Auction \<Rightarrow> uint64" where "GetID a = a_ID (base a)"
fun GetEndTime :: "Auction \<Rightarrow> time" where "GetEndTime a = a_EndTime (base a)"

fun WithID :: "Auction \<Rightarrow> uint64 \<Rightarrow> Auction" where
  "WithID (SurplusAuction b) i = SurplusAuction (b\<lparr>a_ID := i\<rparr>)"
| "WithID (DebtAuction b d) i = DebtAuction (b\<lparr>a_ID := i\<rparr>) d"
| "WithID (CollateralAuction b d mx lr) i = CollateralAuction (b\<lparr>a_ID := i\<rparr>) d mx lr"

definition IsReversePhase :: "BaseAuction \<Rightarrow> coin \<Rightarrow> bool" where
  "IsReversePhase b mx \<longleftrightarrow> a_Bid b = mx"

datatype phase = ForwardAuctionPhase | ReverseAuctionPhase

fun GetPhase :: "Auction \<Rightarrow> phase" where
  "GetPhase (SurplusAuction b) = ForwardAuctionPhase"
| "GetPhase (DebtAuction b d) = ReverseAuctionPhase"
| "GetPhase (CollateralAuction b d mx lr) =
     (if IsReversePhase b mx then ReverseAuctionPhase else ForwardAuctionPhase)"

definition ValidateAuction :: "sdk_math \<Rightarrow> BaseAuction \<Rightarrow> unit result" where
  "ValidateAuction m b =
     (if list_all isSpace (a_Initiator b) then Inl (Err ''auction initiator cannot be blank'')
      else if \<not> coin_IsValid m (a_Lot b) then Inl (Err ''invalid lot'')
      else if \<not> coin_IsValid m (a_Bid b) then Inl (Err ''invalid bid'')
      else if time_Unix (a_EndTime b) \<le> 0 \<or> time_Unix (a_MaxEndTime b) \<le> 0 then Inl (Err ''end time cannot be zero'')
      else if a_EndTime b > a_MaxEndTime b then Inl (Err ''MaxEndTime < EndTime'')
      else Inr ())"

definition NewSurplusAuction :: "sdk_math \<Rightarrow> string \<Rightarrow> coin \<Rightarrow> denom \<Rightarrow> time \<Rightarrow> Auction result" where
  "NewSurplusAuction m seller lot bidDenom endTime =
     bnd (NewCoin m bidDenom 0) (\<lambda>bid.
     Inr (SurplusAuction \<lparr>a_ID = 0, a_Initiator = seller, a_Lot = lot, a_Bidder = [], a_Bid = bid,
       a_HasReceivedBids = False, a_EndTime = endTime, a_MaxEndTime = endTime\<rparr>))"

definition NewDebtAuction :: "(string \<Rightarrow> address) \<Rightarrow> string \<Rightarrow> coin \<Rightarrow> coin \<Rightarrow> time \<Rightarrow> coin \<Rightarrow> Auction" where
  "NewDebtAuction moduleAddress buyer bid initialLot endTime dbt =
     DebtAuction \<lparr>a_ID = 0, a_Initiator = buyer, a_Lot = initialLot, a_Bidder = moduleAddress buyer, a_Bid = bid,
       a_HasReceivedBids = False, a_EndTime = endTime, a_MaxEndTime = endTime\<rparr> dbt"

definition NewCollateralAuction ::
    "sdk_math \<Rightarrow> string \<Rightarrow> coin \<Rightarrow> time \<Rightarrow> coin \<Rightarrow> WeightedAddresses \<Rightarrow> coin \<Rightarrow> Auction result" where
  "NewCollateralAuction m seller lot endTime mx lr dbt =
     bnd (NewCoin m (Denom mx) 0) (\<lambda>bid.
     Inr (CollateralAuction \<lparr>a_ID = 0, a_Initiator = seller, a_Lot = lot, a_Bidder = [], a_Bid = bid,
       a_HasReceivedBids = False, a_EndTime = endTime, a_MaxEndTime = endTime\<rparr> dbt mx lr))"

fun weights_check :: "sdk_math \<Rightarrow> (address \<times> int) list \<Rightarrow> int \<Rightarrow> int result" where
  "weights_check m [] tot = Inr tot"
| "weights_check m ((a, w) # aws) tot =
     (if a = [] then Inl (Err ''address cannot be empty'')
      else if w < 0 then Inl (Err ''weight contains a negative amount'')
      else bnd (toInt m (tot + w)) (weights_check m aws))"

definition WeightedAddresses_Validate :: "sdk_math \<Rightarrow> WeightedAddresses \<Rightarrow> unit result" where
  "WeightedAddresses_Validate m wa =
     (if length (wa_Weights wa) < 1 then Inl (Err ''must be at least 1 weighted address'')
      else if length (wa_Addresses wa) \<noteq> length (wa_Weights wa)
        then Inl (Err ''number of addresses doesn't match number of weights'')
      else bnd (weights_check m (zip (wa_Addresses wa) (wa_Weights wa)) 0) (\<lambda>tot.
        if \<not> 0 < tot then Inl (Err ''total weight must be positive'') else Inr ()))"

definition NewWeightedAddresses :: "sdk_math \<Rightarrow> address list \<Rightarrow> int list \<Rightarrow> WeightedAddresses result" where
  "NewWeightedAddresses m addrs weights =
     (let wa = \<lparr>wa_Addresses = addrs, wa_Weights = weights\<rparr> in
      bnd (WeightedAddresses_Validate m wa) (\<lambda>_. Inr wa))"

fun Auction_Validate :: "sdk_math \<Rightarrow> Auction \<Rightarrow> unit result" where
  "Auction_Validate m (SurplusAuction b) = ValidateAuction m b"
| "Auction_Validate m (DebtAuction b d) =
     (if \<not> coin_IsValid m d then Inl (Err ''invalid corresponding debt'') else ValidateAuction m b)"
| "Auction_Validate m (CollateralAuction b d mx lr) =
     (if \<not> coin_IsValid m d then Inl (Err ''invalid corresponding debt'')
      else if \<not> coin_IsValid m mx then Inl (Err ''invalid max bid'')
      else bnd (WeightedAddresses_Validate m lr) (\<lambda>_. ValidateAuction m b))"

fun GetModuleAccountCoins :: "'b sdk \<Rightarrow> Auction \<Rightarrow> coins result" where
  "GetModuleAccountCoins S (SurplusAuction b) = NewCoins S [a_Lot b]"
| "GetModuleAccountCoins S (DebtAuction b d) = NewCoins S [d]"
| "GetModuleAccountCoins S (CollateralAuction b d mx lr) =
     bnd (NewCoins S [a_Lot b]) (\<lambda>l. bnd (NewCoins S [d]) (\<lambda>dc. CoinsAdd S l dc))"

section \<open>Parameters\<close>

record auction_params =
  MaxAuctionDuration :: duration
  ForwardBidDuration :: duration
  ReverseBidDuration :: duration
  IncrementSurplus :: dec
  IncrementDebt :: dec
  IncrementCollateral :: dec

definition auction_params_Validate :: "auction_params \<Rightarrow> unit result" where
  "auction_params_Validate p =
     (if ForwardBidDuration p < 0 then Inl (Err ''bid duration cannot be negative'')
      else if ReverseBidDuration p < 0 then Inl (Err ''bid duration cannot be negative'')
      else if MaxAuctionDuration p < 0 then Inl (Err ''max auction duration cannot be negative'')
      else if ForwardBidDuration p > MaxAuctionDuration p then Inl (Err ''forward bid duration param cannot be larger than max auction duration'')
      else if ReverseBidDuration p > MaxAuctionDuration p then Inl (Err ''reverse bid duration param cannot be larger than max auction duration'')
      else if IncrementSurplus p < 0 then Inl (Err ''surplus auction increment cannot be less than zero'')
      else if IncrementDebt p < 0 then Inl (Err ''debt auction increment cannot be less than zero'')
      else if IncrementCollateral p < 0 then Inl (Err ''collateral auction increment cannot be less than zero'')
      else Inr ())"

section \<open>The keeper's store\<close>

text \<open>
  Identifiers are stored big endian and times in a sortable format, so the byte order of the keys
  is the order of the identifiers, and of end times before identifiers in the index.
\<close>

record 'b auction_state =
  ak_auctions :: "(uint64, Auction) kv"
  ak_byTime :: "(time \<times> uint64, uint64) kv"
  ak_nextID :: "uint64 option"
  ak_params :: auction_params
  ak_bank :: 'b

definition SetNextAuctionID :: "'b auction_state \<Rightarrow> uint64 \<Rightarrow> 'b auction_state" where
  "SetNextAuctionID st i = st\<lparr>ak_nextID := Some i\<rparr>"

definition GetNextAuctionID :: "'b auction_state \<Rightarrow> uint64 result" where
  "GetNextAuctionID st = (case ak_nextID st of None \<Rightarrow> Inl (Err ''ErrInvalidInitialAuctionID'') | Some i \<Rightarrow> Inr i)"

definition IncrementNextAuctionID :: "'b auction_state \<Rightarrow> 'b auction_state result" where
  "IncrementNextAuctionID st = bnd (GetNextAuctionID st) (\<lambda>i. Inr (SetNextAuctionID st (i + 1)))"

definition GetAuction :: "'b auction_state \<Rightarrow> uint64 \<Rightarrow> Auction option" where
  "GetAuction st i = kv_get (ak_auctions st) i"

definition InsertIntoByTimeIndex :: "'b auction_state \<Rightarrow> time \<Rightarrow> uint64 \<Rightarrow> 'b auction_state" where
  "InsertIntoByTimeIndex st t i = st\<lparr>ak_byTime := kv_set (ak_byTime st) (t, i) i\<rparr>"

definition removeFromByTimeIndex :: "'b auction_state \<Rightarrow> time \<Rightarrow> uint64 \<Rightarrow> 'b auction_state" where
  "removeFromByTimeIndex st t i = st\<lparr>ak_byTime := kv_del (ak_byTime st) (t, i)\<rparr>"

definition SetAuction :: "'b auction_state \<Rightarrow> Auction \<Rightarrow> 'b auction_state" where
  "SetAuction st a =
     (let st1 = (case GetAuction st (GetID a) of
                   Some old \<Rightarrow> removeFromByTimeIndex st (GetEndTime old) (GetID old)
                 | None \<Rightarrow> st);
          st2 = st1\<lparr>ak_auctions := kv_set (ak_auctions st1) (GetID a) a\<rparr>
      in InsertIntoByTimeIndex st2 (GetEndTime a) (GetID a))"

definition DeleteAuction :: "'b auction_state \<Rightarrow> uint64 \<Rightarrow> 'b auction_state" where
  "DeleteAuction st i =
     (let st1 = (case GetAuction st i of
                   Some a \<Rightarrow> removeFromByTimeIndex st (GetEndTime a) i
                 | None \<Rightarrow> st)
      in st1\<lparr>ak_auctions := kv_del (ak_auctions st1) i\<rparr>)"

definition StoreNewAuction :: "'b auction_state \<Rightarrow> Auction \<Rightarrow> ('b auction_state \<times> uint64) result" where
  "StoreNewAuction st a =
     bnd (GetNextAuctionID st) (\<lambda>i.
     bnd (IncrementNextAuctionID (SetAuction st (WithID a i))) (\<lambda>st'.
     Inr (st', i)))"

definition auctionIDsByTime :: "'b auction_state \<Rightarrow> time \<Rightarrow> uint64 list" where
  \<comment> \<open>the identifiers \<open>IterateAuctionsByTime\<close> visits, in its order\<close>
  "auctionIDsByTime st cutoff = map snd (filter (\<lambda>((t, i), v). t \<le> cutoff) (ak_byTime st))"

definition GetAllAuctions :: "'b auction_state \<Rightarrow> Auction list" where
  "GetAllAuctions st = map snd (ak_auctions st)"

section \<open>Starting auctions\<close>

definition auction_module :: string where "auction_module = ''auction''"

definition StartSurplusAuction :: "'b sdk \<Rightarrow> 'b auction_state \<Rightarrow> string \<Rightarrow> coin \<Rightarrow> denom \<Rightarrow> ('b auction_state \<times> uint64) result" where
  "StartSurplusAuction S st seller lot bidDenom =
     bnd (NewSurplusAuction (Math S) seller lot bidDenom DistantFuture) (\<lambda>a.
     bnd (NewCoins S [lot]) (\<lambda>cs.
     bnd (SendCoinsFromModuleToModule S (ak_bank st) seller auction_module cs) (\<lambda>b.
     StoreNewAuction (st\<lparr>ak_bank := b\<rparr>) a)))"

definition StartDebtAuction :: "'b sdk \<Rightarrow> 'b auction_state \<Rightarrow> string \<Rightarrow> coin \<Rightarrow> coin \<Rightarrow> coin \<Rightarrow> ('b auction_state \<times> uint64) result" where
  "StartDebtAuction S st buyer bid initialLot dbt =
     (let a = NewDebtAuction (ModuleAddress S) buyer bid initialLot DistantFuture dbt in
      if \<not> HasModuleAccount S (ak_bank st) buyer then Inl (Panic ''nil module account'')
      else if \<not> CanMint S (ak_bank st) buyer then Inl (Panic ''module does not have minter permission'')
      else
        bnd (NewCoins S [dbt]) (\<lambda>cs.
        bnd (SendCoinsFromModuleToModule S (ak_bank st) buyer auction_module cs) (\<lambda>b.
        StoreNewAuction (st\<lparr>ak_bank := b\<rparr>) a)))"

definition StartCollateralAuction ::
    "'b sdk \<Rightarrow> 'b auction_state \<Rightarrow> string \<Rightarrow> coin \<Rightarrow> coin \<Rightarrow> address list \<Rightarrow> int list \<Rightarrow> coin \<Rightarrow> ('b auction_state \<times> uint64) result" where
  "StartCollateralAuction S st seller lot mx lotReturnAddrs lotReturnWeights dbt =
     bnd (NewWeightedAddresses (Math S) lotReturnAddrs lotReturnWeights) (\<lambda>lr.
     bnd (NewCollateralAuction (Math S) seller lot DistantFuture mx lr dbt) (\<lambda>a.
     bnd (NewCoins S [lot]) (\<lambda>lotCoins.
     bnd (SendCoinsFromModuleToModule S (ak_bank st) seller auction_module lotCoins) (\<lambda>b1.
     bnd (NewCoins S [dbt]) (\<lambda>debtCoins.
     bnd (SendCoinsFromModuleToModule S b1 seller auction_module debtCoins) (\<lambda>b2.
     StoreNewAuction (st\<lparr>ak_bank := b2\<rparr>) a))))))"

section \<open>Bidding\<close>

definition earliestTime :: "time \<Rightarrow> time \<Rightarrow> time" where
  "earliestTime t1 t2 = (if t1 < t2 then t1 else t2)"

text \<open>The least change of an amount a new bid has to make: the increment, and at least one.\<close>

definition minIncrement :: "sdk_math \<Rightarrow> int \<Rightarrow> dec \<Rightarrow> int result" where
  "minIncrement m amount inc =
     bnd (DecMul m (NewDecFromInt amount) inc) (\<lambda>x.
     bnd (DecRoundInt m x) (\<lambda>r. Inr (max 1 r)))"

text \<open>The new bidder repays the old one through the module account.\<close>

definition repayOldBidder :: "'b sdk \<Rightarrow> 'b \<Rightarrow> address \<Rightarrow> BaseAuction \<Rightarrow> 'b result" where
  "repayOldBidder S b bidder a =
     bnd (NewCoins S [a_Bid a]) (\<lambda>cs.
     bnd (SendCoinsFromAccountToModule S b bidder auction_module cs) (\<lambda>b1.
     SendCoinsFromModuleToAccount S b1 auction_module (a_Bidder a) cs))"

text \<open>The first bid fixes the latest end; every bid moves the end up to it.\<close>

definition markBid :: "auction_params \<Rightarrow> time \<Rightarrow> BaseAuction \<Rightarrow> BaseAuction" where
  "markBid p now a =
     (if \<not> a_HasReceivedBids a
      then a\<lparr>a_MaxEndTime := now + MaxAuctionDuration p, a_HasReceivedBids := True\<rparr> else a)"

definition extendEnd :: "time \<Rightarrow> duration \<Rightarrow> BaseAuction \<Rightarrow> BaseAuction" where
  "extendEnd now d a = a\<lparr>a_EndTime := earliestTime (now + d) (a_MaxEndTime a)\<rparr>"

definition PlaceBidSurplus :: "'b sdk \<Rightarrow> auction_params \<Rightarrow> time \<Rightarrow> 'b \<Rightarrow> BaseAuction \<Rightarrow> address \<Rightarrow> coin \<Rightarrow> (BaseAuction \<times> 'b) result" where
  "PlaceBidSurplus S p now b a bidder bid =
     (if Denom bid \<noteq> Denom (a_Bid a) then Inl (Err ''ErrInvalidBidDenom'')
      else
        bnd (minIncrement (Math S) (Amount (a_Bid a)) (IncrementSurplus p)) (\<lambda>inc.
        bnd (toInt (Math S) (Amount (a_Bid a) + inc)) (\<lambda>minNewBidAmt.
        if Amount bid < minNewBidAmt then Inl (Err ''ErrBidTooSmall'')
        else
          bnd (if bidder \<noteq> a_Bidder a \<and> Amount (a_Bid a) \<noteq> 0 then repayOldBidder S b bidder a else Inr b) (\<lambda>b1.
          bnd (coin_Sub (Math S) bid (a_Bid a)) (\<lambda>diff.
          bnd (NewCoins S [diff]) (\<lambda>cs.
          bnd (SendCoinsFromAccountToModule S b1 bidder (a_Initiator a) cs) (\<lambda>b2.
          bnd (BurnCoins S b2 (a_Initiator a) cs) (\<lambda>b3.
          Inr (extendEnd now (ForwardBidDuration p) (markBid p now (a\<lparr>a_Bidder := bidder, a_Bid := bid\<rparr>)), b3)))))))))"

definition PlaceForwardBidCollateral ::
    "'b sdk \<Rightarrow> auction_params \<Rightarrow> time \<Rightarrow> 'b \<Rightarrow> BaseAuction \<Rightarrow> coin \<Rightarrow> coin \<Rightarrow> address \<Rightarrow> coin \<Rightarrow> (BaseAuction \<times> coin \<times> 'b) result" where
  "PlaceForwardBidCollateral S p now b a dbt mx bidder bid =
     (if Denom bid \<noteq> Denom (a_Bid a) then Inl (Err ''ErrInvalidBidDenom'')
      else if IsReversePhase a mx then Inl (Panic ''cannot place reverse bid on auction in forward phase'')
      else
        bnd (minIncrement (Math S) (Amount (a_Bid a)) (IncrementCollateral p)) (\<lambda>inc.
        bnd (toInt (Math S) (Amount (a_Bid a) + inc)) (\<lambda>minBid.
        let minNewBidAmt = min minBid (Amount mx) in
        if Amount bid < minNewBidAmt then Inl (Err ''ErrBidTooSmall'')
        else
          bnd (coin_IsLT mx bid) (\<lambda>large.
          if large then Inl (Err ''ErrBidTooLarge'')
          else
            bnd (if bidder \<noteq> a_Bidder a \<and> Amount (a_Bid a) \<noteq> 0 then repayOldBidder S b bidder a else Inr b) (\<lambda>b1.
            bnd (coin_Sub (Math S) bid (a_Bid a)) (\<lambda>bidIncrement.
            bnd (NewCoins S [bidIncrement]) (\<lambda>cs.
            bnd (SendCoinsFromAccountToModule S b1 bidder (a_Initiator a) cs) (\<lambda>b2.
            bnd (if 0 < Amount dbt then
                   bnd (NewCoin (Math S) (Denom dbt) (min (Amount bidIncrement) (Amount dbt))) (\<lambda>debtToReturn.
                   bnd (NewCoins S [debtToReturn]) (\<lambda>dcs.
                   bnd (SendCoinsFromModuleToModule S b2 auction_module (a_Initiator a) dcs) (\<lambda>b3.
                   bnd (coin_Sub (Math S) dbt debtToReturn) (\<lambda>dbt'. Inr (dbt', b3)))))
                 else Inr (dbt, b2)) (\<lambda>(dbt', b3).
            let a1 = markBid p now (a\<lparr>a_Bidder := bidder, a_Bid := bid\<rparr>);
                a2 = extendEnd now (if IsReversePhase a1 mx then ReverseBidDuration p else ForwardBidDuration p) a1
            in Inr (a2, dbt', b3))))))))))"

text \<open>The decrease of the lot goes to the lot returns; zero payouts are skipped.\<close>

fun payLotReturns :: "'b sdk \<Rightarrow> address list \<Rightarrow> nat \<Rightarrow> coin list \<Rightarrow> 'b \<Rightarrow> 'b result" where
  "payLotReturns S addrs i [] b = Inr b"
| "payLotReturns S addrs i (payout # ps) b =
     (if \<not> 0 < Amount payout then payLotReturns S addrs (Suc i) ps b
      else
        bnd (idx addrs i) (\<lambda>to.
        bnd (NewCoins S [payout]) (\<lambda>cs.
        bnd (SendCoinsFromModuleToAccount S b auction_module to cs) (\<lambda>b1.
        payLotReturns S addrs (Suc i) ps b1))))"

definition PlaceReverseBidCollateral ::
    "'b sdk \<Rightarrow> qr_sort \<Rightarrow> auction_params \<Rightarrow> time \<Rightarrow> 'b \<Rightarrow> BaseAuction \<Rightarrow> coin \<Rightarrow> WeightedAddresses \<Rightarrow> address \<Rightarrow> coin \<Rightarrow> (BaseAuction \<times> 'b) result" where
  "PlaceReverseBidCollateral S srt p now b a mx lr bidder lot =
     (if Denom lot \<noteq> Denom (a_Lot a) then Inl (Err ''ErrInvalidLotDenom'')
      else if \<not> IsReversePhase a mx then Inl (Panic ''cannot place forward bid on auction in reverse phase'')
      else
        bnd (minIncrement (Math S) (Amount (a_Lot a)) (IncrementCollateral p)) (\<lambda>dec.
        bnd (toInt (Math S) (Amount (a_Lot a) - dec)) (\<lambda>maxNewLotAmt.
        if Amount lot > maxNewLotAmt then Inl (Err ''ErrLotTooLarge'')
        else if Amount lot < 0 then Inl (Err ''ErrLotTooSmall'')
        else
          bnd (if bidder \<noteq> a_Bidder a then repayOldBidder S b bidder a else Inr b) (\<lambda>b1.
          bnd (coin_Sub (Math S) (a_Lot a) lot) (\<lambda>diff.
          bnd (splitCoinIntoWeightedBuckets (Math S) srt diff (wa_Weights lr)) (\<lambda>lotPayouts.
          bnd (payLotReturns S (wa_Addresses lr) 0 lotPayouts b1) (\<lambda>b2.
          Inr (extendEnd now (ReverseBidDuration p) (markBid p now (a\<lparr>a_Bidder := bidder, a_Lot := lot\<rparr>)), b2))))))))"

definition PlaceBidDebt ::
    "'b sdk \<Rightarrow> auction_params \<Rightarrow> time \<Rightarrow> 'b \<Rightarrow> BaseAuction \<Rightarrow> coin \<Rightarrow> address \<Rightarrow> coin \<Rightarrow> (BaseAuction \<times> coin \<times> 'b) result" where
  "PlaceBidDebt S p now b a dbt bidder lot =
     (if Denom lot \<noteq> Denom (a_Lot a) then Inl (Err ''ErrInvalidLotDenom'')
      else
        bnd (minIncrement (Math S) (Amount (a_Lot a)) (IncrementDebt p)) (\<lambda>dec.
        bnd (toInt (Math S) (Amount (a_Lot a) - dec)) (\<lambda>maxNewLotAmt.
        if Amount lot > maxNewLotAmt then Inl (Err ''ErrLotTooLarge'')
        else if Amount lot < 0 then Inl (Err ''ErrLotTooSmall'')
        else
          bnd (if bidder \<noteq> a_Bidder a then
                 bnd (NewCoins S [a_Bid a]) (\<lambda>cs.
                 bnd (SendCoinsFromAccountToModule S b bidder auction_module cs) (\<lambda>b0.
                 if a_Bidder a = ModuleAddress S (a_Initiator a)
                   then SendCoinsFromModuleToModule S b0 auction_module (a_Initiator a) cs
                   else SendCoinsFromModuleToAccount S b0 auction_module (a_Bidder a) cs))
               else Inr b) (\<lambda>b1.
          bnd (if a_Bidder a = ModuleAddress S (a_Initiator a) then
                 bnd (NewCoin (Math S) (Denom dbt) (min (Amount (a_Bid a)) (Amount dbt))) (\<lambda>debtToReturn.
                 bnd (NewCoins S [debtToReturn]) (\<lambda>dcs.
                 bnd (SendCoinsFromModuleToModule S b1 auction_module (a_Initiator a) dcs) (\<lambda>b2.
                 bnd (coin_Sub (Math S) dbt debtToReturn) (\<lambda>dbt'. Inr (dbt', b2)))))
               else Inr (dbt, b1)) (\<lambda>(dbt', b2).
          Inr (extendEnd now (ForwardBidDuration p) (markBid p now (a\<lparr>a_Bidder := bidder, a_Lot := lot\<rparr>)), dbt', b2))))))"

definition PlaceBid :: "'b sdk \<Rightarrow> qr_sort \<Rightarrow> time \<Rightarrow> 'b auction_state \<Rightarrow> uint64 \<Rightarrow> address \<Rightarrow> coin \<Rightarrow> 'b auction_state result" where
  "PlaceBid S srt now st i bidder newAmount =
     (case GetAuction st i of
        None \<Rightarrow> Inl (Err ''ErrAuctionNotFound'')
      | Some a \<Rightarrow>
          if now > GetEndTime a then Inl (Err ''ErrAuctionHasExpired'')
          else
            bnd (case a of
                   SurplusAuction b \<Rightarrow>
                     bnd (PlaceBidSurplus S (ak_params st) now (ak_bank st) b bidder newAmount) (\<lambda>(b', bank).
                     Inr (SurplusAuction b', bank))
                 | DebtAuction b d \<Rightarrow>
                     bnd (PlaceBidDebt S (ak_params st) now (ak_bank st) b d bidder newAmount) (\<lambda>(b', d', bank).
                     Inr (DebtAuction b' d', bank))
                 | CollateralAuction b d mx lr \<Rightarrow>
                     if \<not> IsReversePhase b mx then
                       bnd (PlaceForwardBidCollateral S (ak_params st) now (ak_bank st) b d mx bidder newAmount) (\<lambda>(b', d', bank).
                       Inr (CollateralAuction b' d' mx lr, bank))
                     else
                       bnd (PlaceReverseBidCollateral S srt (ak_params st) now (ak_bank st) b mx lr bidder newAmount) (\<lambda>(b', bank).
                       Inr (CollateralAuction b' d mx lr, bank))) (\<lambda>(updated, bank).
            Inr (SetAuction (st\<lparr>ak_bank := bank\<rparr>) updated)))"

section \<open>Closing\<close>

definition PayoutDebtAuction :: "'b sdk \<Rightarrow> 'b \<Rightarrow> BaseAuction \<Rightarrow> coin \<Rightarrow> 'b result" where
  "PayoutDebtAuction S b a dbt =
     bnd (NewCoins S [a_Lot a]) (\<lambda>lot.
     bnd (panic_on_err (MintCoins S b (a_Initiator a) lot)) (\<lambda>b1.
     bnd (SendCoinsFromModuleToAccount S b1 (a_Initiator a) (a_Bidder a) lot) (\<lambda>b2.
     if \<not> 0 < Amount dbt then Inr b2
     else bnd (NewCoins S [dbt]) (\<lambda>cs. SendCoinsFromModuleToModule S b2 auction_module (a_Initiator a) cs))))"

definition PayoutSurplusAuction :: "'b sdk \<Rightarrow> 'b \<Rightarrow> BaseAuction \<Rightarrow> 'b result" where
  "PayoutSurplusAuction S b a =
     bnd (NewCoins S [a_Lot a]) (\<lambda>lot. SendCoinsFromModuleToAccount S b auction_module (a_Bidder a) lot)"

definition PayoutCollateralAuction :: "'b sdk \<Rightarrow> 'b \<Rightarrow> BaseAuction \<Rightarrow> coin \<Rightarrow> 'b result" where
  "PayoutCollateralAuction S b a dbt =
     bnd (NewCoins S [a_Lot a]) (\<lambda>lot.
     bnd (SendCoinsFromModuleToAccount S b auction_module (a_Bidder a) lot) (\<lambda>b1.
     if \<not> 0 < Amount dbt then Inr b1
     else bnd (NewCoins S [dbt]) (\<lambda>cs. SendCoinsFromModuleToModule S b1 auction_module (a_Initiator a) cs)))"

definition CloseAuction :: "'b sdk \<Rightarrow> time \<Rightarrow> 'b auction_state \<Rightarrow> uint64 \<Rightarrow> 'b auction_state result" where
  "CloseAuction S now st i =
     (case GetAuction st i of
        None \<Rightarrow> Inl (Err ''ErrAuctionNotFound'')
      | Some a \<Rightarrow>
          if now < GetEndTime a then Inl (Err ''ErrAuctionHasNotExpired'')
          else
            bnd (case a of
                   SurplusAuction b \<Rightarrow> PayoutSurplusAuction S (ak_bank st) b
                 | DebtAuction b d \<Rightarrow> PayoutDebtAuction S (ak_bank st) b d
                 | CollateralAuction b d mx lr \<Rightarrow> PayoutCollateralAuction S (ak_bank st) b d) (\<lambda>bank.
            Inr (DeleteAuction (st\<lparr>ak_bank := bank\<rparr>) i)))"

text \<open>
  Closing an auction deletes only the index entry being visited, so the iterator sees the
  identifiers that were due when it started. An auction that is not found is skipped.
\<close>

definition CloseExpiredAuctions :: "'b sdk \<Rightarrow> time \<Rightarrow> 'b auction_state \<Rightarrow> 'b auction_state result" where
  "CloseExpiredAuctions S now st =
     foldR (\<lambda>i st. case CloseAuction S now st i of
              Inl (Err e) \<Rightarrow> if e = ''ErrAuctionNotFound'' then Inr st else Inl (Err e)
            | r \<Rightarrow> r) (auctionIDsByTime st now) st"

definition auction_BeginBlocker :: "'b sdk \<Rightarrow> time \<Rightarrow> 'b auction_state \<Rightarrow> 'b auction_state result" where
  "auction_BeginBlocker S now st =
     (case CloseExpiredAuctions S now st of
        Inl (Err e) \<Rightarrow> if e = ''ErrAuctionNotFound'' then Inr st else Inl (Panic e)
      | r \<Rightarrow> r)"

section \<open>Messages, invariants and genesis\<close>

definition MsgPlaceBid_ValidateBasic :: "sdk_math \<Rightarrow> (string \<Rightarrow> address result) \<Rightarrow> uint64 \<Rightarrow> string \<Rightarrow> coin \<Rightarrow> unit result" where
  "MsgPlaceBid_ValidateBasic m bech32 i bidder amount =
     (if i = 0 then Inl (Err ''auction id cannot be zero'')
      else case bech32 bidder of
        Inl (Panic e) \<Rightarrow> Inl (Panic e)
      | Inl (Err e) \<Rightarrow> Inl (Err ''ErrInvalidAddress'')
      | Inr a \<Rightarrow> if \<not> coin_IsValid m amount then Inl (Err ''ErrInvalidCoins'') else Inr ())"

definition msg_PlaceBid :: "'b sdk \<Rightarrow> qr_sort \<Rightarrow> (string \<Rightarrow> address result) \<Rightarrow> time \<Rightarrow> 'b auction_state \<Rightarrow> uint64 \<Rightarrow> string \<Rightarrow> coin \<Rightarrow> 'b auction_state result" where
  "msg_PlaceBid S srt bech32 now st i bidder amount =
     bnd (bech32 bidder) (\<lambda>addr. PlaceBid S srt now st i addr amount)"

definition ModuleAccountInvariants :: "'b sdk \<Rightarrow> 'b auction_state \<Rightarrow> bool result" where
  "ModuleAccountInvariants S st =
     bnd (foldR (\<lambda>a acc. bnd (GetModuleAccountCoins S a) (\<lambda>cs. CoinsAdd S acc cs)) (GetAllAuctions st) []) (\<lambda>tot.
     bnd (CoinsIsEqual S (GetAllBalances S (ak_bank st) (ModuleAddress S auction_module)) tot) (\<lambda>eq.
     Inr (\<not> eq)))"

definition ValidAuctionInvariant :: "sdk_math \<Rightarrow> 'b auction_state \<Rightarrow> bool" where
  "ValidAuctionInvariant m st = list_ex (\<lambda>a. Auction_Validate m a \<noteq> Inr ()) (GetAllAuctions st)"

definition ValidIndexInvariant :: "'b auction_state \<Rightarrow> bool" where
  "ValidIndexInvariant st =
     (list_ex (\<lambda>(k, i). kv_get (ak_auctions st) i = None) (ak_byTime st) \<or>
      length (ak_auctions st) \<noteq> length (ak_byTime st))"

record auction_genesis =
  ag_NextAuctionId :: uint64
  ag_Params :: auction_params
  ag_Auctions :: "Auction list"

fun genesis_auctions_check :: "sdk_math \<Rightarrow> uint64 \<Rightarrow> uint64 list \<Rightarrow> Auction list \<Rightarrow> unit result" where
  "genesis_auctions_check m nextID ids [] = Inr ()"
| "genesis_auctions_check m nextID ids (a # as) =
     bnd (Auction_Validate m a) (\<lambda>_.
     if GetID a \<in> set ids then Inl (Err ''found duplicate auction ID'')
     else if GetID a \<ge> nextID then Inl (Err ''found auction ID larger than or equal to the nextAuctionID'')
     else genesis_auctions_check m nextID (GetID a # ids) as)"

definition auction_genesis_Validate :: "sdk_math \<Rightarrow> auction_genesis \<Rightarrow> unit result" where
  "auction_genesis_Validate m gs =
     bnd (auction_params_Validate (ag_Params gs)) (\<lambda>_.
     genesis_auctions_check m (ag_NextAuctionId gs) [] (ag_Auctions gs))"

definition auction_InitGenesis :: "'b sdk \<Rightarrow> 'b auction_state \<Rightarrow> auction_genesis \<Rightarrow> 'b auction_state result" where
  "auction_InitGenesis S st gs =
     bnd (panic_on_err (auction_genesis_Validate (Math S) gs)) (\<lambda>_.
     let st0 = (SetNextAuctionID st (ag_NextAuctionId gs))\<lparr>ak_params := ag_Params gs\<rparr> in
     bnd (foldR (\<lambda>a (st, tot).
            bnd (GetModuleAccountCoins S a) (\<lambda>cs.
            bnd (CoinsAdd S tot cs) (\<lambda>tot'. Inr (SetAuction st a, tot')))) (ag_Auctions gs) (st0, [])) (\<lambda>(st1, tot).
     if \<not> HasModuleAccount S (ak_bank st1) auction_module then Inl (Panic ''module account has not been set'')
     else
       bnd (CoinsIsEqual S (GetAllBalances S (ak_bank st1) (ModuleAddress S auction_module)) tot) (\<lambda>eq.
       if \<not> eq then Inl (Panic ''total auction coins do not equal module account'') else Inr st1)))"

definition auction_ExportGenesis :: "'b auction_state \<Rightarrow> auction_genesis result" where
  "auction_ExportGenesis st =
     bnd (panic_on_err (GetNextAuctionID st)) (\<lambda>i.
     Inr \<lparr>ag_NextAuctionId = i, ag_Params = ak_params st, ag_Auctions = GetAllAuctions st\<rparr>)"

end
