(* ===== verification/Auction_Split.thy ===== *)
theory Auction_Split
  imports Auction
begin

text \<open>
  The division of an amount among weighted buckets by the largest remainder method
  (\<open>x/auction/keeper/math.go\<close>) pays out exactly the amount, each bucket its quota rounded down or
  up, and exact quotas exactly, whatever order the sort leaves equal remainders in.
\<close>

section \<open>Quotas\<close>

definition quota :: "int \<Rightarrow> int \<Rightarrow> nat \<Rightarrow> int \<Rightarrow> quoRem" where
  "quota amount W i b = \<lparr>qr_index = i, qr_quo = amount * b div W, qr_rem = amount * b mod W\<rparr>"

fun quotas :: "int \<Rightarrow> int \<Rightarrow> nat \<Rightarrow> int list \<Rightarrow> quoRem list" where
  "quotas amount W i [] = []"
| "quotas amount W i (b # bs) = quota amount W i b # quotas amount W (Suc i) bs"

lemma quotients_from_ok:
  "quotients_from m amount W i bs = Inr qs \<Longrightarrow> 0 \<le> amount \<Longrightarrow> \<forall>b\<in>set bs. 0 \<le> b \<Longrightarrow> 0 < W \<Longrightarrow> qs = quotas amount W i bs"
  by (induction bs arbitrary: i qs) (auto simp: quota_def)

lemma quotients_from_fault: "quotients_from m amount W i bs = Inl e \<Longrightarrow> e = overflow"
  by (induction bs arbitrary: i) (auto simp: bnd_eq_Inl)

lemma length_quotas [simp]: "length (quotas amount W i bs) = length bs"
  by (induction bs arbitrary: i) auto

lemma nth_quotas: "k < length bs \<Longrightarrow> quotas amount W i bs ! k = quota amount W (i + k) (bs ! k)"
proof (induction bs arbitrary: i k)
  case (Cons b bs)
  then show ?case by (cases k) auto
qed simp

lemma quotas_index: "map qr_index (quotas amount W i bs) = [i..<i + length bs]"
  by (rule nth_equalityI) (auto simp: nth_quotas quota_def)

lemma quotas_sum:
  "(\<Sum>q\<leftarrow>quotas amount W i bs. qr_quo q * W + qr_rem q) = amount * sum_list bs"
  by (induction bs arbitrary: i) (auto simp: quota_def algebra_simps)

lemma quotas_rem: "0 < W \<Longrightarrow> q \<in> set (quotas amount W i bs) \<Longrightarrow> 0 \<le> qr_rem q \<and> qr_rem q < W"
  by (induction bs arbitrary: i) (auto simp: quota_def)

lemma quotas_quo:
  "0 \<le> amount \<Longrightarrow> 0 < W \<Longrightarrow> \<forall>b\<in>set bs. 0 \<le> b \<Longrightarrow> q \<in> set (quotas amount W i bs) \<Longrightarrow> 0 \<le> qr_quo q"
  by (induction bs arbitrary: i) (auto simp: quota_def pos_imp_zdiv_nonneg_iff)

section \<open>Handing out the remainder\<close>

fun handed :: "quoRem list \<Rightarrow> int \<Rightarrow> int list" where
  "handed [] left = []"
| "handed (q # qs) left =
     (if left \<noteq> 0 then (qr_quo q + 1) # handed qs (left - 1) else qr_quo q # handed qs left)"

lemma length_handed [simp]: "length (handed qs left) = length qs"
  by (induction qs left rule: handed.induct) auto

lemma sum_handed:
  "0 \<le> left \<Longrightarrow> left \<le> int (length qs) \<Longrightarrow> sum_list (handed qs left) = (\<Sum>q\<leftarrow>qs. qr_quo q) + left"
  by (induction qs left rule: handed.induct) auto

lemma handed_nth:
  "0 \<le> left \<Longrightarrow> k < length qs \<Longrightarrow> handed qs left ! k = qr_quo (qs ! k) + (if int k < left then 1 else 0)"
proof (induction qs left arbitrary: k rule: handed.induct)
  case (2 q qs left)
  then show ?case by (cases k) auto
qed simp

lemma apportion_fault: "apportion m qs left rs = Inl e \<Longrightarrow> e = overflow"
  by (induction m qs left rs rule: apportion.induct) (auto simp: bnd_eq_Inl split: if_splits)

lemma apportion_ok:
  assumes "apportion m qs left rs = Inr out" "distinct (map qr_index qs)" "\<forall>q\<in>set qs. qr_index q < length rs"
  shows "length out = length rs" "map (\<lambda>q. out ! qr_index q) qs = handed qs left"
    "\<And>j. j \<notin> qr_index ` set qs \<Longrightarrow> out ! j = rs ! j"
proof -
  have "length out = length rs \<and> map (\<lambda>q. out ! qr_index q) qs = handed qs left \<and>
      (\<forall>j. j \<notin> qr_index ` set qs \<longrightarrow> out ! j = rs ! j)"
    using assms
  proof (induction qs arbitrary: left rs)
    case (Cons q qs)
    define v where "v = (if left \<noteq> 0 then qr_quo q + 1 else qr_quo q)"
    define left' where "left' = (if left \<noteq> 0 then left - 1 else left)"
    have "apportion m qs left' (rs[qr_index q := v]) = Inr out"
      using Cons.prems(1) by (auto simp: v_def left'_def split: if_splits)
    from Cons.IH [OF this] Cons.prems(2,3)
    have ih: "length out = length rs" "map (\<lambda>q. out ! qr_index q) qs = handed qs left'"
        "\<forall>j. j \<notin> qr_index ` set qs \<longrightarrow> out ! j = rs[qr_index q := v] ! j" by auto
    moreover have "out ! qr_index q = v" using ih(3) Cons.prems(2,3) by auto
    ultimately show ?case by (auto simp: v_def left'_def)
  qed simp
  then show "length out = length rs" "map (\<lambda>q. out ! qr_index q) qs = handed qs left"
    "\<And>j. j \<notin> qr_index ` set qs \<Longrightarrow> out ! j = rs ! j" by auto
qed

lemma sum_list_index:
  assumes "mset (map qr_index qs) = mset [0..<length out]"
  shows "sum_list (map (\<lambda>q. out ! qr_index q) qs) = sum_list (out :: int list)"
proof -
  have "sum_list (map (\<lambda>q. out ! qr_index q) qs) = \<Sum>\<^sub># (image_mset ((!) out) (mset (map qr_index qs)))"
    by (simp add: sum_mset_sum_list multiset.map_comp comp_def flip: mset_map)
  also have "\<dots> = sum_list (map ((!) out) [0..<length out])"
    unfolding assms by (metis mset_map sum_mset_sum_list)
  finally show ?thesis by (simp add: map_nth)
qed

section \<open>The largest remainders\<close>

lemma sum_list_bound:
  fixes f :: "'a \<Rightarrow> int"
  shows "(\<And>x. x \<in> set xs \<Longrightarrow> f x \<le> c) \<Longrightarrow> (\<Sum>x\<leftarrow>xs. f x) \<le> int (length xs) * c"
  by (induction xs) (force simp: algebra_simps)+

lemma remainder_positive:
  assumes sorted: "sorted_wrt (\<lambda>x y. qr_rem y \<le> qr_rem x) qs" and W: "0 < W"
    and rem: "\<forall>q\<in>set qs. 0 \<le> qr_rem q \<and> qr_rem q < W" and sum: "(\<Sum>q\<leftarrow>qs. qr_rem q) = left * W"
    and k: "k < length qs" "int k < left"
  shows "0 < qr_rem (qs ! k)"
proof (rule ccontr)
  assume "\<not> 0 < qr_rem (qs ! k)"
  then have z: "qr_rem (qs ! k) = 0" using rem k(1) by (meson nth_mem order_antisym not_le)
  have "qr_rem q \<le> 0" if q: "q \<in> set (drop k qs)" for q
  proof -
    obtain j where j: "j < length qs - k" "q = qs ! (k + j)"
      using q by (auto simp: in_set_conv_nth)
    then show ?thesis
      using sorted_wrt_nth_less [OF sorted, of k "k + j"] z by (cases j) auto
  qed
  then have "(\<Sum>q\<leftarrow>drop k qs. qr_rem q) \<le> int (length (drop k qs)) * 0" by (rule sum_list_bound)
  moreover have "qr_rem q \<le> W - 1" if "q \<in> set (take k qs)" for q
    using rem in_set_takeD [OF that] by force
  then have "(\<Sum>q\<leftarrow>take k qs. qr_rem q) \<le> int (length (take k qs)) * (W - 1)" by (rule sum_list_bound)
  moreover have "(\<Sum>q\<leftarrow>qs. qr_rem q) = (\<Sum>q\<leftarrow>take k qs. qr_rem q) + (\<Sum>q\<leftarrow>drop k qs. qr_rem q)"
    by (metis append_take_drop_id map_append sum_list_append)
  ultimately have "left * W \<le> int k * (W - 1)" using sum k(1) by (simp add: min_def)
  also have "\<dots> \<le> int k * W" by (intro mult_left_mono) auto
  also have "\<dots> < left * W" using k(2) W by simp
  finally show False by simp
qed

section \<open>The split\<close>

lemma sums_ok:
  "foldR (\<lambda>x tot. toInt m (tot + f x)) xs s = Inr t \<Longrightarrow> t = s + (\<Sum>x\<leftarrow>xs. f x)"
proof (induction xs arbitrary: s)
  case (Cons x xs)
  then have "foldR (\<lambda>x tot. toInt m (tot + f x)) xs (s + f x) = Inr t" by simp
  from Cons.IH [OF this] show ?case by simp
qed simp

lemma sums_fault: "foldR (\<lambda>x tot. toInt m (tot + f x)) xs s = Inl e \<Longrightarrow> e = overflow"
  by (induction xs arbitrary: s) (auto simp: bnd_eq_Inl)

lemma split_fault:
  assumes "0 \<le> amount" "bs \<noteq> []" "\<forall>b\<in>set bs. 0 \<le> b" "0 < sum_list bs"
    and "splitIntIntoWeightedBuckets m srt amount bs = Inl e"
  shows "e = overflow"
proof -
  have pos: "\<not> list_ex (\<lambda>b. b < 0) bs" using assms(3) by (auto simp: list_ex_iff)
  show ?thesis
  proof (cases "totalInts m bs")
    case (Inl f)
    then show ?thesis
      using assms(1,2,5) pos sums_fault [of m "\<lambda>b. b" bs 0 f]
      by (simp add: splitIntIntoWeightedBuckets_def totalInts_def)
  next
    case (Inr t)
    then have t: "t = sum_list bs" using sums_ok [of m "\<lambda>b. b" bs 0 t] by (simp add: totalInts_def)
    show ?thesis
    proof (cases "quotients_from m amount t 0 bs")
      case q: (Inl f)
      show ?thesis
        using assms(1,2,4,5) pos Inr t q quotients_from_fault [OF q] by (simp add: splitIntIntoWeightedBuckets_def)
    next
      case q: (Inr qs)
      show ?thesis
        using assms(1,2,4,5) pos Inr t q sums_fault [of m qr_quo "srt qs" 0]
        by (auto simp: splitIntIntoWeightedBuckets_def Let_def bnd_eq_Inl dest: apportion_fault)
    qed
  qed
qed

lemma split_ok:
  assumes srt: "sort_law srt" and ok: "splitIntIntoWeightedBuckets m srt amount bs = Inr rs"
  defines "W \<equiv> sum_list bs"
  shows "0 \<le> amount" "0 < W" "\<forall>b\<in>set bs. 0 \<le> b" "length rs = length bs" "sum_list rs = amount"
    "\<And>i. i < length bs \<Longrightarrow> rs ! i = amount * bs ! i div W \<or>
       (rs ! i = amount * bs ! i div W + 1 \<and> amount * bs ! i mod W \<noteq> 0)"
proof -
  obtain qs alloc where a: "0 \<le> amount" and nn: "\<forall>b\<in>set bs. 0 \<le> b" and W: "0 < W"
      and qs: "quotients_from m amount W 0 bs = Inr qs"
      and al: "foldR (\<lambda>q allocated. toInt m (allocated + qr_quo q)) (srt qs) 0 = Inr alloc"
      and ap: "apportion m (srt qs) (amount - alloc) (replicate (length (srt qs)) 0) = Inr rs"
    using ok sums_ok [of m "\<lambda>b. b" bs 0]
    by (auto simp: splitIntIntoWeightedBuckets_def totalInts_def Let_def W_def list_ex_iff not_less split: if_splits)
  show "0 \<le> amount" "0 < W" "\<forall>b\<in>set bs. 0 \<le> b" by fact+
  have q: "qs = quotas amount W 0 bs" by (rule quotients_from_ok [OF qs a nn W])
  let ?ss = "srt qs"
  have perm: "mset ?ss = mset qs" and sorted: "sorted_wrt (\<lambda>x y. qr_rem y \<le> qr_rem x) ?ss"
    using srt by (auto simp: sort_law_def)
  have len: "length ?ss = length bs" using mset_eq_length [OF perm] by (simp add: q)
  have idx: "mset (map qr_index ?ss) = mset [0..<length bs]"
    using perm quotas_index [of amount W 0 bs] by (metis add_0 mset_map q)
  have sumf: "(\<Sum>q\<leftarrow>?ss. f q) = (\<Sum>q\<leftarrow>qs. f q)" for f :: "quoRem \<Rightarrow> int"
    using perm by (metis mset_map sum_mset_sum_list)
  have alloc: "alloc = (\<Sum>q\<leftarrow>?ss. qr_quo q)" using sums_ok [OF al] by simp
  define left where "left = amount - alloc"
  have rem: "\<forall>q\<in>set ?ss. 0 \<le> qr_rem q \<and> qr_rem q < W"
    using quotas_rem [OF W] mset_eq_setD [OF perm] by (auto simp: q)
  have "(\<Sum>q\<leftarrow>?ss. qr_quo q * W + qr_rem q) = (\<Sum>q\<leftarrow>qs. qr_quo q * W + qr_rem q)" by (rule sumf)
  also have "\<dots> = amount * W" unfolding q using quotas_sum [of W amount 0 bs] by (simp add: W_def)
  finally have "(\<Sum>q\<leftarrow>?ss. qr_quo q * W + qr_rem q) = amount * W" .
  then have sum: "(\<Sum>q\<leftarrow>?ss. qr_rem q) = left * W"
    by (simp add: left_def alloc sum_list_addf sum_list_mult_const sum_list_const_mult algebra_simps)
  have "0 \<le> left * W" using rem unfolding sum [symmetric] by (intro sum_list_nonneg) auto
  then have l0: "0 \<le> left" using W by (simp add: zero_le_mult_iff)
  have "left * W \<le> int (length ?ss) * W"
    using sum_list_bound [of ?ss qr_rem W] rem sum by (auto simp: less_imp_le)
  then have l1: "left \<le> int (length ?ss)" using W by simp
  have dist: "distinct (map qr_index ?ss)" using idx by (metis distinct_upt mset_eq_imp_distinct_iff)
  have "set (map qr_index ?ss) = set [0..<length bs]" using mset_eq_setD [OF idx] .
  then have ran: "\<forall>q\<in>set ?ss. qr_index q < length (replicate (length ?ss) (0::int))"
    and sur: "i < length bs \<Longrightarrow> \<exists>q\<in>set ?ss. qr_index q = i" for i
    using len by (auto simp: set_eq_iff image_iff) metis
  note out = apportion_ok [OF ap dist ran]
  show rl: "length rs = length bs" using out(1) len by simp
  have "sum_list rs = sum_list (handed ?ss left)"
    using sum_list_index [of ?ss rs] idx rl out(2) by (simp add: left_def)
  then show "sum_list rs = amount" using sum_handed [OF l0 l1] by (simp add: left_def alloc)
  fix i assume i: "i < length bs"
  then obtain q where q0: "q \<in> set ?ss" "qr_index q = i" using sur by blast
  then obtain k where k: "k < length ?ss" "?ss ! k = q" by (auto simp: in_set_conv_nth)
  have val: "rs ! i = qr_quo q + (if int k < left then 1 else 0)"
    using arg_cong [OF out(2), of "\<lambda>l. l ! k"] k q0 handed_nth [OF l0 k(1)] by (simp add: left_def)
  have "q \<in> set qs" using q0(1) mset_eq_setD [OF perm] by simp
  then obtain j where "j < length bs" "q = quota amount W j (bs ! j)"
    using nth_quotas [of _ bs amount W 0] by (auto simp: q in_set_conv_nth)
  moreover from this q0(2) have "j = i" by (simp add: quota_def)
  ultimately have qq: "qr_quo q = amount * bs ! i div W" "qr_rem q = amount * bs ! i mod W"
    by (simp_all add: quota_def)
  have "int k < left \<Longrightarrow> amount * bs ! i mod W \<noteq> 0"
    using remainder_positive [OF sorted W rem sum k(1)] k(2) qq(2) by auto
  then show "rs ! i = amount * bs ! i div W \<or> (rs ! i = amount * bs ! i div W + 1 \<and> amount * bs ! i mod W \<noteq> 0)"
    using val qq(1) by (auto split: if_splits)
qed

section \<open>Property\<close>

text \<open>
  C33: Splitting a non-negative amount among non-negative weights that are not all zero fails only by
  overflow. Otherwise there is one part per weight, the parts add up to exactly the amount, and
  each part is its exact quota rounded down or, only if the quota is not whole, rounded up; so a
  zero weight gets nothing.
\<close>

theorem split_pays_exactly:
  assumes "sort_law srt" "0 \<le> amount" "bs \<noteq> []" "\<forall>b\<in>set bs. 0 \<le> b" "0 < sum_list bs"
  shows "case splitIntIntoWeightedBuckets m srt amount bs of
      Inl e \<Rightarrow> e = overflow
    | Inr rs \<Rightarrow> length rs = length bs \<and> sum_list rs = amount \<and>
        (\<forall>i<length bs. rs ! i = amount * bs ! i div sum_list bs \<or>
          (rs ! i = amount * bs ! i div sum_list bs + 1 \<and> amount * bs ! i mod sum_list bs \<noteq> 0))"
proof (cases "splitIntIntoWeightedBuckets m srt amount bs")
  case (Inl e)
  then show ?thesis using split_fault [OF assms(2-5) Inl] by simp
next
  case (Inr rs)
  then show ?thesis using split_ok(4-6) [OF assms(1) Inr] by simp
qed

definition ref_sort :: qr_sort where
  "ref_sort qs = rev (sort_key qr_rem qs)"

lemma ref_sort_law: "sort_law ref_sort"
proof -
  have "sorted_wrt (\<lambda>x y. qr_rem y \<le> qr_rem x) (rev (sort_key qr_rem qs))" for qs :: "quoRem list"
    using sorted_sort_key [of qr_rem qs] by (simp add: sorted_wrt_rev sorted_map)
  then show ?thesis by (simp add: sort_law_def ref_sort_def)
qed

lemma ex_split: "splitIntIntoWeightedBuckets ref_math ref_sort 10 [1, 0, 3, 2] = Inr [2, 0, 5, 3]"
  by code_simp

theorem split_pays_exactly_witness:
  "splitIntIntoWeightedBuckets ref_math ref_sort 10 [1, 0, 3, 2] = Inr [2, 0, 5, 3] \<and> sum_list [2, 0, 5, 3] = (10::int)"
  using split_pays_exactly [OF ref_sort_law, of 10 "[1, 0, 3, 2]" ref_math] unfolding ex_split by simp

end
