(* ===== verification/Auction_Safety.thy ===== *)
theory Auction_Safety
  imports Auction_Split
begin

text \<open>
  What the auction keeper guarantees: the index by end time mirrors the store, so a begin blocker
  closes exactly the auctions that are due; bids only improve an auction, refund the previous
  bidder in full and never push the end past the maximum; and the module account holds exactly
  the lots and debts of the open auctions.
\<close>

section \<open>The store and its index\<close>

definition index_ok :: "'b auction_state \<Rightarrow> bool" where
  "index_ok st \<longleftrightarrow> kv_ok (ak_auctions st) \<and> kv_ok (ak_byTime st) \<and>
     (\<forall>i a. GetAuction st i = Some a \<longrightarrow> GetID a = i) \<and>
     (\<forall>t i v. kv_get (ak_byTime st) (t, i) = Some v \<longleftrightarrow>
        v = i \<and> (\<exists>a. GetAuction st i = Some a \<and> GetEndTime a = t))"

lemma SetAuction_frame [simp]:
  "ak_bank (SetAuction st a) = ak_bank st" "ak_params (SetAuction st a) = ak_params st"
  "ak_nextID (SetAuction st a) = ak_nextID st"
  "ak_auctions (SetAuction st a) = kv_set (ak_auctions st) (GetID a) a"
  by (simp_all add: SetAuction_def Let_def InsertIntoByTimeIndex_def removeFromByTimeIndex_def split: option.splits)

lemma DeleteAuction_frame [simp]:
  "ak_bank (DeleteAuction st i) = ak_bank st" "ak_params (DeleteAuction st i) = ak_params st"
  "ak_nextID (DeleteAuction st i) = ak_nextID st"
  "ak_auctions (DeleteAuction st i) = kv_del (ak_auctions st) i"
  by (simp_all add: DeleteAuction_def Let_def removeFromByTimeIndex_def split: option.splits)

lemma GetAuction_frame [simp]:
  "GetAuction (st\<lparr>ak_bank := b\<rparr>) = GetAuction st" "GetAuction (SetNextAuctionID st n) = GetAuction st"
  "GetAuction (SetAuction st a) = (GetAuction st)(GetID a \<mapsto> a)"
  "GetAuction (DeleteAuction st i) = (GetAuction st)(i := None)"
  by (simp_all add: fun_eq_iff GetAuction_def SetNextAuctionID_def)

lemma index_ok_bank [simp]:
  "index_ok (st\<lparr>ak_bank := b\<rparr>) = index_ok st" "index_ok (SetNextAuctionID st n) = index_ok st"
  "index_ok (st\<lparr>ak_params := p\<rparr>) = index_ok st"
  by (simp_all add: index_ok_def GetAuction_def SetNextAuctionID_def)

lemma byTime_SetAuction:
  "kv_get (ak_byTime (SetAuction st a)) =
     (case GetAuction st (GetID a) of None \<Rightarrow> kv_get (ak_byTime st)
      | Some old \<Rightarrow> (kv_get (ak_byTime st))((GetEndTime old, GetID old) := None))((GetEndTime a, GetID a) \<mapsto> GetID a)"
  by (simp add: SetAuction_def Let_def InsertIntoByTimeIndex_def removeFromByTimeIndex_def split: option.splits)

lemma byTime_DeleteAuction:
  "kv_get (ak_byTime (DeleteAuction st i)) =
     (case GetAuction st i of None \<Rightarrow> kv_get (ak_byTime st)
      | Some old \<Rightarrow> (kv_get (ak_byTime st))((GetEndTime old, i) := None))"
  by (simp add: DeleteAuction_def Let_def removeFromByTimeIndex_def split: option.splits)

lemma index_ok_SetAuction:
  assumes "index_ok st"
  shows "index_ok (SetAuction st a)"
  unfolding index_ok_def
proof (intro conjI allI impI)
  show "kv_ok (ak_auctions (SetAuction st a))" "kv_ok (ak_byTime (SetAuction st a))"
    using assms by (simp_all add: index_ok_def SetAuction_def Let_def InsertIntoByTimeIndex_def
        removeFromByTimeIndex_def split: option.splits)
  show "GetID x = i" if "GetAuction (SetAuction st a) i = Some x" for i x
    using assms that by (auto simp: index_ok_def split: if_splits)
  fix t i v
  show "kv_get (ak_byTime (SetAuction st a)) (t, i) = Some v \<longleftrightarrow>
      v = i \<and> (\<exists>x. GetAuction (SetAuction st a) i = Some x \<and> GetEndTime x = t)"
    using assms unfolding byTime_SetAuction index_ok_def
    by (cases "i = GetID a"; cases "GetAuction st (GetID a)") (auto simp del: GetID.simps GetEndTime.simps)
qed

lemma index_ok_DeleteAuction:
  assumes "index_ok st"
  shows "index_ok (DeleteAuction st k)"
  unfolding index_ok_def
proof (intro conjI allI impI)
  show "kv_ok (ak_auctions (DeleteAuction st k))" "kv_ok (ak_byTime (DeleteAuction st k))"
    using assms by (simp_all add: index_ok_def DeleteAuction_def Let_def removeFromByTimeIndex_def split: option.splits)
  show "GetID x = i" if "GetAuction (DeleteAuction st k) i = Some x" for i x
    using assms that by (auto simp: index_ok_def split: if_splits)
  fix t i v
  show "kv_get (ak_byTime (DeleteAuction st k)) (t, i) = Some v \<longleftrightarrow>
      v = i \<and> (\<exists>x. GetAuction (DeleteAuction st k) i = Some x \<and> GetEndTime x = t)"
    using assms unfolding byTime_DeleteAuction index_ok_def
    by (cases "i = k"; cases "GetAuction st k") (auto simp del: GetID.simps GetEndTime.simps)
qed

lemma auctionIDs_due:
  assumes "index_ok st"
  shows "i \<in> set (auctionIDsByTime st t) \<longleftrightarrow> (\<exists>a. GetAuction st i = Some a \<and> GetEndTime a \<le> t)"
    and "distinct (auctionIDsByTime st t)"
proof -
  have ok: "kv_ok (ak_byTime st)" using assms by (simp add: index_ok_def)
  have entry: "((t', j), v) \<in> set (ak_byTime st) \<longleftrightarrow> v = j \<and> (\<exists>a. GetAuction st j = Some a \<and> GetEndTime a = t')" for t' j v
    using assms kv.entry_iff [OF ok] by (simp add: index_ok_def)
  show "i \<in> set (auctionIDsByTime st t) \<longleftrightarrow> (\<exists>a. GetAuction st i = Some a \<and> GetEndTime a \<le> t)"
    unfolding auctionIDsByTime_def using entry by (force simp: image_iff)
  have "distinct (ak_byTime st)" using kv.keys_distinct [OF ok] by (simp add: distinct_map)
  moreover have "inj_on snd (set (ak_byTime st))"
    using entry by (fastforce intro!: inj_onI)
  ultimately show "distinct (auctionIDsByTime st t)"
    unfolding auctionIDsByTime_def by (auto simp: distinct_map intro: inj_on_subset)
qed

interpretation au: time_index GetAuction GetEndTime auctionIDsByTime index_ok SetAuction DeleteAuction GetID
  by unfold_locales
    (simp_all add: index_ok_SetAuction index_ok_DeleteAuction auctionIDs_due del: GetID.simps GetEndTime.simps)

section \<open>What a bid moves\<close>

abbreviation auction_addr :: "'b sdk \<Rightarrow> address" where
  "auction_addr S \<equiv> ModuleAddress S auction_module"

lemma minIncrement_pos: "minIncrement m x inc = Inr r \<Longrightarrow> 1 \<le> r"
  by (auto simp: minIncrement_def)

text \<open>The increment is the rounded fraction of the old amount, and at least one.\<close>

lemma minIncrement_bound:
  assumes "math_laws m" "minIncrement m x inc = Inr r"
  shows "x * inc \<le> (r + 1) * OneDec"
proof -
  obtain y k where y: "DecMul m (NewDecFromInt x) inc = Inr y" "DecRoundInt m y = Inr k" "r = max 1 k"
    using assms(2) by (auto simp: minIncrement_def)
  have "2 * \<bar>y * Precision - x * Precision * inc\<bar> \<le> Precision"
    using DecMul_bound [OF assms(1) y(1)] by (simp add: NewDecFromInt_def)
  then have "y = x * inc"
    using nearest_multiple_unique [of Precision y "x * inc"] by (simp add: algebra_simps)
  moreover have "2 * \<bar>k * Precision - y\<bar> \<le> Precision" by (rule DecRoundInt_bound [OF assms(1) y(2)])
  moreover have "k * Precision \<le> r * Precision" using y(3) by simp
  ultimately show ?thesis by (simp add: OneDec_def algebra_simps abs_le_iff)
qed

lemma repayOldBidder_ok:
  assumes "sdk_laws S" "repayOldBidder S b w a = Inr b'"
  shows "GetBalance S b' x d = GetBalance S b x d - (if x = w then coin_amt (a_Bid a) d else 0)
    + (if x = a_Bidder a then coin_amt (a_Bid a) d else 0)"
    "GetSupply S b' d = GetSupply S b d"
proof -
  obtain cs b1 where *: "NewCoins S [a_Bid a] = Inr cs"
      "SendCoinsFromAccountToModule S b w auction_module cs = Inr b1"
      "SendCoinsFromModuleToAccount S b1 auction_module (a_Bidder a) cs = Inr b'"
    using assms(2) by (auto simp: repayOldBidder_def)
  note m1 = sends(2) [OF assms(1) *(2)] and m2 = sends(3) [OF assms(1) *(3)]
  show "GetBalance S b' x d = GetBalance S b x d - (if x = w then coin_amt (a_Bid a) d else 0)
    + (if x = a_Bidder a then coin_amt (a_Bid a) d else 0)"
    using moved_balance [OF m2, of x d] moved_balance [OF m1, of x d] NewCoins_one(1) [OF assms(1) *(1)] by simp
  show "GetSupply S b' d = GetSupply S b d" using moved_supply [OF m2] moved_supply [OF m1] by simp
qed

lemma coin_Sub_amt:
  "coin_Sub m x y = Inr z \<Longrightarrow> coin_amt z d = coin_amt x d - coin_amt y d"
  by (auto simp: coin_amt_def)

lemma coin_amt_zero: "Amount c = 0 \<Longrightarrow> coin_amt c d = 0"
  by (simp add: coin_amt_def)

lemma timing_simps [simp]:
  "a_ID (extendEnd now t a) = a_ID a" "a_Initiator (extendEnd now t a) = a_Initiator a"
  "a_Lot (extendEnd now t a) = a_Lot a" "a_Bidder (extendEnd now t a) = a_Bidder a"
  "a_Bid (extendEnd now t a) = a_Bid a" "a_HasReceivedBids (extendEnd now t a) = a_HasReceivedBids a"
  "a_MaxEndTime (extendEnd now t a) = a_MaxEndTime a"
  "a_EndTime (extendEnd now t a) = min (now + t) (a_MaxEndTime a)"
  "a_ID (markBid p now a) = a_ID a" "a_Initiator (markBid p now a) = a_Initiator a"
  "a_Lot (markBid p now a) = a_Lot a" "a_Bidder (markBid p now a) = a_Bidder a"
  "a_Bid (markBid p now a) = a_Bid a" "a_HasReceivedBids (markBid p now a)"
  "a_MaxEndTime (markBid p now a) =
     (if a_HasReceivedBids a then a_MaxEndTime a else now + MaxAuctionDuration p)"
  by (simp_all add: extendEnd_def markBid_def earliestTime_def min_def)

text \<open>
  The change of balances a bid makes: the bidder pays \<open>paid\<close>, the old bidder gets the old bid back,
  \<open>extra\<close> collects what initiator and lot returns receive.
\<close>

lemma PlaceBidSurplus_ok:
  assumes laws: "sdk_laws S" and ok: "PlaceBidSurplus S p now b a w bid = Inr (a', b')"
  obtains inc where "minIncrement (Math S) (Amount (a_Bid a)) (IncrementSurplus p) = Inr inc"
    "Denom bid = Denom (a_Bid a)" "Amount (a_Bid a) + inc \<le> Amount bid"
    "a' = extendEnd now (ForwardBidDuration p) (markBid p now (a\<lparr>a_Bidder := w, a_Bid := bid\<rparr>))"
    "\<forall>x d. GetBalance S b' x d = GetBalance S b x d - (if x = w then coin_amt bid d else 0)
      + (if x = a_Bidder a then coin_amt (a_Bid a) d else 0)"
    "\<forall>d. GetSupply S b' d = GetSupply S b d - (coin_amt bid d - coin_amt (a_Bid a) d)"
proof -
  obtain inc b1 diff cs b2 where *: "minIncrement (Math S) (Amount (a_Bid a)) (IncrementSurplus p) = Inr inc"
      "Denom bid = Denom (a_Bid a)" "Amount (a_Bid a) + inc \<le> Amount bid"
      and r: "(if w \<noteq> a_Bidder a \<and> Amount (a_Bid a) \<noteq> 0 then repayOldBidder S b w a else Inr b) = Inr b1"
      and diff: "coin_Sub (Math S) bid (a_Bid a) = Inr diff" "NewCoins S [diff] = Inr cs"
      "SendCoinsFromAccountToModule S b1 w (a_Initiator a) cs = Inr b2" "BurnCoins S b2 (a_Initiator a) cs = Inr b'"
      and a': "a' = extendEnd now (ForwardBidDuration p) (markBid p now (a\<lparr>a_Bidder := w, a_Bid := bid\<rparr>))"
    using ok unfolding PlaceBidSurplus_def
    by (auto simp del: coin_Sub_Inr simp: not_less split: if_splits)
  have pay: "GetBalance S b1 x d = GetBalance S b x d - (if x = w then coin_amt (a_Bid a) d else 0)
      + (if x = a_Bidder a then coin_amt (a_Bid a) d else 0)" "GetSupply S b1 d = GetSupply S b d" for x d
    using r repayOldBidder_ok [OF laws, of b w a b1] coin_amt_zero [of "a_Bid a" d] by (auto split: if_splits)
  note cs = NewCoins_one(1) [OF laws diff(2)] coin_Sub_amt [OF diff(1)]
  note m = moved_balance [OF sends(2) [OF laws diff(3)]] moved_supply [OF sends(2) [OF laws diff(3)]]
    mints(2,4) [OF laws diff(4)]
  have bal: "GetBalance S b' x d = GetBalance S b x d - (if x = w then coin_amt bid d else 0)
      + (if x = a_Bidder a then coin_amt (a_Bid a) d else 0)" for x d
    by (simp add: m(3) m(1) cs pay(1))
  have sup: "GetSupply S b' d = GetSupply S b d - (coin_amt bid d - coin_amt (a_Bid a) d)" for d
    by (simp add: m(4) m(2) cs pay(2))
  show ?thesis by (rule that [OF * a']) (use bal sup in simp_all)
qed

text \<open>Part of the debt goes back to the initiator.\<close>

lemma debt_return_ok:
  assumes laws: "sdk_laws S"
    and ok: "bnd (NewCoin (Math S) (Denom dbt) (min n (Amount dbt))) (\<lambda>ret.
       bnd (NewCoins S [ret]) (\<lambda>dcs.
       bnd (SendCoinsFromModuleToModule S b auction_module init dcs) (\<lambda>b3.
       bnd (coin_Sub (Math S) dbt ret) (\<lambda>dbt'. Inr (dbt', b3))))) = Inr (dbt', b')"
  shows "dbt' = Coin (Denom dbt) (Amount dbt - min n (Amount dbt))" "0 \<le> min n (Amount dbt)"
    "ValidDenom (Math S) (Denom dbt)"
    "GetBalance S b' x d = GetBalance S b x d
       - (if x = auction_addr S then coin_amt dbt d - coin_amt dbt' d else 0)
       + (if x = ModuleAddress S init then coin_amt dbt d - coin_amt dbt' d else 0)"
proof -
  obtain dcs where *: "ValidDenom (Math S) (Denom dbt)" "0 \<le> min n (Amount dbt)"
      "NewCoins S [Coin (Denom dbt) (min n (Amount dbt))] = Inr dcs"
      "SendCoinsFromModuleToModule S b auction_module init dcs = Inr b'"
      "dbt' = Coin (Denom dbt) (Amount dbt - min n (Amount dbt))"
    using ok by auto
  show "dbt' = Coin (Denom dbt) (Amount dbt - min n (Amount dbt))" "0 \<le> min n (Amount dbt)"
    "ValidDenom (Math S) (Denom dbt)" by fact+
  have "AmountOf dcs d = coin_amt dbt d - coin_amt dbt' d"
    using NewCoins_one(1) [OF laws *(3), of d] by (simp add: coin_amt_def *(5))
  then show "GetBalance S b' x d = GetBalance S b x d
       - (if x = auction_addr S then coin_amt dbt d - coin_amt dbt' d else 0)
       + (if x = ModuleAddress S init then coin_amt dbt d - coin_amt dbt' d else 0)"
    using moved_balance [OF sends(4) [OF laws *(4)], of x d] by simp
qed

lemma PlaceForwardBidCollateral_ok:
  assumes laws: "sdk_laws S" and ok: "PlaceForwardBidCollateral S p now b a dbt mx w bid = Inr (a', dbt', b')"
  obtains inc a1 where "minIncrement (Math S) (Amount (a_Bid a)) (IncrementCollateral p) = Inr inc"
    "Denom bid = Denom (a_Bid a)" "Denom mx = Denom bid" "min (Amount (a_Bid a) + inc) (Amount mx) \<le> Amount bid"
    "Amount (a_Bid a) \<le> Amount bid" "Amount bid \<le> Amount mx"
    "a1 = markBid p now (a\<lparr>a_Bidder := w, a_Bid := bid\<rparr>)"
    "a' = extendEnd now (if IsReversePhase a1 mx then ReverseBidDuration p else ForwardBidDuration p) a1"
    "Denom dbt' = Denom dbt"
    "Amount dbt' = (if 0 < Amount dbt then Amount dbt - min (Amount bid - Amount (a_Bid a)) (Amount dbt) else Amount dbt)"
    "\<forall>x d. GetBalance S b' x d = GetBalance S b x d - (if x = w then coin_amt bid d else 0)
      + (if x = a_Bidder a then coin_amt (a_Bid a) d else 0)
      + (if x = ModuleAddress S (a_Initiator a) then coin_amt bid d - coin_amt (a_Bid a) d + (coin_amt dbt d - coin_amt dbt' d) else 0)
      - (if x = auction_addr S then coin_amt dbt d - coin_amt dbt' d else 0)"
proof -
  define a1 where "a1 = markBid p now (a\<lparr>a_Bidder := w, a_Bid := bid\<rparr>)"
  obtain inc b1 diff cs b2 where *: "minIncrement (Math S) (Amount (a_Bid a)) (IncrementCollateral p) = Inr inc"
      "Denom bid = Denom (a_Bid a)" "Denom mx = Denom bid" "min (Amount (a_Bid a) + inc) (Amount mx) \<le> Amount bid"
      "Amount bid \<le> Amount mx"
      and r: "(if w \<noteq> a_Bidder a \<and> Amount (a_Bid a) \<noteq> 0 then repayOldBidder S b w a else Inr b) = Inr b1"
      and diff: "coin_Sub (Math S) bid (a_Bid a) = Inr diff" "NewCoins S [diff] = Inr cs"
      "SendCoinsFromAccountToModule S b1 w (a_Initiator a) cs = Inr b2"
      and ret: "(if 0 < Amount dbt then
                   bnd (NewCoin (Math S) (Denom dbt) (min (Amount diff) (Amount dbt))) (\<lambda>debtToReturn.
                   bnd (NewCoins S [debtToReturn]) (\<lambda>dcs.
                   bnd (SendCoinsFromModuleToModule S b2 auction_module (a_Initiator a) dcs) (\<lambda>b3.
                   bnd (coin_Sub (Math S) dbt debtToReturn) (\<lambda>dbt'. Inr (dbt', b3)))))
                 else Inr (dbt, b2)) = Inr (dbt', b')"
      and a': "a' = extendEnd now (if IsReversePhase a1 mx then ReverseBidDuration p else ForwardBidDuration p) a1"
    using ok unfolding PlaceForwardBidCollateral_def Let_def a1_def
    by (auto simp del: coin_Sub_Inr NewCoin_Inr simp: not_less split: if_splits)
  have pay: "GetBalance S b1 x d = GetBalance S b x d - (if x = w then coin_amt (a_Bid a) d else 0)
      + (if x = a_Bidder a then coin_amt (a_Bid a) d else 0)" for x d
    using r repayOldBidder_ok [OF laws, of b w a b1] coin_amt_zero [of "a_Bid a" d] by (auto split: if_splits)
  note cs = NewCoins_one(1) [OF laws diff(2)] coin_Sub_amt [OF diff(1)]
  have amt: "Amount diff = Amount bid - Amount (a_Bid a)" "Amount (a_Bid a) \<le> Amount bid" using diff(1) by auto
  have b2: "GetBalance S b2 x d = GetBalance S b x d - (if x = w then coin_amt bid d else 0)
      + (if x = a_Bidder a then coin_amt (a_Bid a) d else 0)
      + (if x = ModuleAddress S (a_Initiator a) then coin_amt bid d - coin_amt (a_Bid a) d else 0)" for x d
    by (simp add: moved_balance [OF sends(2) [OF laws diff(3)]] cs pay)
  have dbt': "Denom dbt' = Denom dbt" "Amount dbt' = (if 0 < Amount dbt then Amount dbt - min (Amount diff) (Amount dbt) else Amount dbt)"
      and b3: "GetBalance S b' x d = GetBalance S b2 x d
       - (if x = auction_addr S then coin_amt dbt d - coin_amt dbt' d else 0)
       + (if x = ModuleAddress S (a_Initiator a) then coin_amt dbt d - coin_amt dbt' d else 0)" for x d
    using ret debt_return_ok [OF laws, of dbt "Amount diff" b2 "a_Initiator a" dbt' b'] by (auto split: if_splits)
  show ?thesis
    by (rule that [OF *(1-4) amt(2) *(5) a1_def a' dbt'(1)]) (use dbt' b2 b3 amt in simp_all)
qed

lemma PlaceBidDebt_ok:
  assumes laws: "sdk_laws S" and ok: "PlaceBidDebt S p now b a dbt w lot = Inr (a', dbt', b')"
  obtains dec where "minIncrement (Math S) (Amount (a_Lot a)) (IncrementDebt p) = Inr dec"
    "Denom lot = Denom (a_Lot a)" "Amount lot \<le> Amount (a_Lot a) - dec" "0 \<le> Amount lot"
    "a' = extendEnd now (ForwardBidDuration p) (markBid p now (a\<lparr>a_Bidder := w, a_Lot := lot\<rparr>))"
    "Denom dbt' = Denom dbt"
    "Amount dbt' = (if a_Bidder a = ModuleAddress S (a_Initiator a) then Amount dbt - min (Amount (a_Bid a)) (Amount dbt) else Amount dbt)"
    "\<forall>x d. GetBalance S b' x d = GetBalance S b x d - (if x = w then coin_amt (a_Bid a) d else 0)
      + (if x = a_Bidder a then coin_amt (a_Bid a) d else 0)
      + (if x = ModuleAddress S (a_Initiator a) then coin_amt dbt d - coin_amt dbt' d else 0)
      - (if x = auction_addr S then coin_amt dbt d - coin_amt dbt' d else 0)"
    "ValidDenom (Math S) (Denom dbt) \<or> dbt' = dbt"
proof -
  obtain dec b1 where *: "minIncrement (Math S) (Amount (a_Lot a)) (IncrementDebt p) = Inr dec"
      "Denom lot = Denom (a_Lot a)" "Amount lot \<le> Amount (a_Lot a) - dec" "0 \<le> Amount lot"
      and r: "(if w \<noteq> a_Bidder a then
                 bnd (NewCoins S [a_Bid a]) (\<lambda>cs.
                 bnd (SendCoinsFromAccountToModule S b w auction_module cs) (\<lambda>b0.
                 if a_Bidder a = ModuleAddress S (a_Initiator a)
                   then SendCoinsFromModuleToModule S b0 auction_module (a_Initiator a) cs
                   else SendCoinsFromModuleToAccount S b0 auction_module (a_Bidder a) cs))
               else Inr b) = Inr b1"
      and ret: "(if a_Bidder a = ModuleAddress S (a_Initiator a) then
                 bnd (NewCoin (Math S) (Denom dbt) (min (Amount (a_Bid a)) (Amount dbt))) (\<lambda>debtToReturn.
                 bnd (NewCoins S [debtToReturn]) (\<lambda>dcs.
                 bnd (SendCoinsFromModuleToModule S b1 auction_module (a_Initiator a) dcs) (\<lambda>b2.
                 bnd (coin_Sub (Math S) dbt debtToReturn) (\<lambda>dbt'. Inr (dbt', b2)))))
               else Inr (dbt, b1)) = Inr (dbt', b')"
      and a': "a' = extendEnd now (ForwardBidDuration p) (markBid p now (a\<lparr>a_Bidder := w, a_Lot := lot\<rparr>))"
    using ok unfolding PlaceBidDebt_def
    by (auto simp del: coin_Sub_Inr NewCoin_Inr simp: not_less split: if_splits)
  have pay: "GetBalance S b1 x d = GetBalance S b x d - (if x = w then coin_amt (a_Bid a) d else 0)
      + (if x = a_Bidder a then coin_amt (a_Bid a) d else 0)" for x d
  proof (cases "w = a_Bidder a")
    case False
    then obtain cs b0 where c: "NewCoins S [a_Bid a] = Inr cs" "SendCoinsFromAccountToModule S b w auction_module cs = Inr b0"
        "moved S b0 b1 (auction_addr S) (a_Bidder a) cs"
      using r sends(3,4) [OF laws] by (auto split: if_splits)
    then show ?thesis
      using moved_balance [OF c(3), of x d] moved_balance [OF sends(2) [OF laws c(2)], of x d] NewCoins_one(1) [OF laws c(1), of d]
      by simp
  qed (use r in simp)
  have dbt': "Denom dbt' = Denom dbt"
      "Amount dbt' = (if a_Bidder a = ModuleAddress S (a_Initiator a) then Amount dbt - min (Amount (a_Bid a)) (Amount dbt) else Amount dbt)"
      "ValidDenom (Math S) (Denom dbt) \<or> dbt' = dbt"
      and b3: "GetBalance S b' x d = GetBalance S b1 x d
       - (if x = auction_addr S then coin_amt dbt d - coin_amt dbt' d else 0)
       + (if x = ModuleAddress S (a_Initiator a) then coin_amt dbt d - coin_amt dbt' d else 0)" for x d
    using ret debt_return_ok [OF laws, of dbt "Amount (a_Bid a)" b1 "a_Initiator a" dbt' b'] by (auto split: if_splits)
  show ?thesis
    by (rule that [OF * a' dbt'(1,2)]) (use dbt'(3) pay b3 in simp_all)
qed

text \<open>What the lot returns receive.\<close>

fun returned :: "address list \<Rightarrow> nat \<Rightarrow> coin list \<Rightarrow> address \<Rightarrow> denom \<Rightarrow> int" where
  "returned addrs i [] x d = 0"
| "returned addrs i (c # cs) x d = (if addrs ! i = x then coin_amt c d else 0) + returned addrs (Suc i) cs x d"

lemma payLotReturns_ok:
  assumes laws: "sdk_laws S"
  shows "payLotReturns S addrs i ps b = Inr b' \<Longrightarrow> \<forall>c\<in>set ps. 0 \<le> Amount c \<Longrightarrow>
    GetBalance S b' x d = GetBalance S b x d - (if x = auction_addr S then (\<Sum>c\<leftarrow>ps. coin_amt c d) else 0)
      + returned addrs i ps x d"
proof (induction ps arbitrary: i b)
  case (Cons c ps)
  show ?case
  proof (cases "0 < Amount c")
    case True
    then obtain cs b1 where c: "i < length addrs" "NewCoins S [c] = Inr cs"
        "SendCoinsFromModuleToAccount S b auction_module (addrs ! i) cs = Inr b1" "payLotReturns S addrs (Suc i) ps b1 = Inr b'"
      using Cons.prems(1) by auto
    then show ?thesis
      using Cons.IH [OF c(4)] Cons.prems(2) moved_balance [OF sends(3) [OF laws c(3)], of x d]
        NewCoins_one(1) [OF laws c(2), of d] by auto
  next
    case False
    then have "coin_amt c d = 0" using Cons.prems(2) by (auto simp: coin_amt_def)
    then show ?thesis using Cons False by simp
  qed
qed simp

lemma splitCoin_ok:
  assumes "sort_law srt" "splitCoinIntoWeightedBuckets m srt c ws = Inr ps"
  shows "\<forall>x\<in>set ps. 0 \<le> Amount x \<and> Denom x = Denom c" "length ps = length ws"
    "splitIntIntoWeightedBuckets m srt (Amount c) ws = Inr (map Amount ps)" "(\<Sum>x\<leftarrow>ps. Amount x) = Amount c"
    "(\<Sum>x\<leftarrow>ps. coin_amt x d) = coin_amt c d"
proof -
  obtain as where as: "splitIntIntoWeightedBuckets m srt (Amount c) ws = Inr as"
      and f: "foldR (\<lambda>a acc. bnd (NewCoin m (Denom c) a) (\<lambda>x. Inr (acc @ [x]))) as [] = Inr ps"
    using assms(2) by (auto simp: splitCoinIntoWeightedBuckets_def)
  have "foldR (\<lambda>a acc. bnd (NewCoin m (Denom c) a) (\<lambda>x. Inr (acc @ [x]))) as acc = Inr ps \<Longrightarrow>
      ps = acc @ map (Coin (Denom c)) as \<and> (\<forall>a\<in>set as. 0 \<le> a)" for acc
  proof (induction as arbitrary: acc)
    case (Cons a as)
    then have "foldR (\<lambda>a acc. bnd (NewCoin m (Denom c) a) (\<lambda>x. Inr (acc @ [x]))) as (acc @ [Coin (Denom c) a]) = Inr ps" "0 \<le> a"
      by auto
    then show ?case using Cons.IH by fastforce
  qed simp
  from this [OF f] have ps: "ps = map (Coin (Denom c)) as" "\<forall>a\<in>set as. 0 \<le> a" by auto
  then show "\<forall>x\<in>set ps. 0 \<le> Amount x \<and> Denom x = Denom c" by auto
  have m: "map Amount ps = as" by (simp add: ps comp_def)
  then show "splitIntIntoWeightedBuckets m srt (Amount c) ws = Inr (map Amount ps)" using as by simp
  note ok = split_ok [OF assms(1) as]
  show "length ps = length ws" using ok(4) by (simp add: ps)
  show s: "(\<Sum>x\<leftarrow>ps. Amount x) = Amount c" using ok(5) m by simp
  have "(\<Sum>x\<leftarrow>ps. coin_amt x d) = (if d = Denom c then (\<Sum>x\<leftarrow>ps. Amount x) else 0)"
    by (simp add: ps coin_amt_def comp_def)
  then show "(\<Sum>x\<leftarrow>ps. coin_amt x d) = coin_amt c d" using s by (simp add: coin_amt_def)
qed

lemma PlaceReverseBidCollateral_ok:
  assumes laws: "sdk_laws S" and srt: "sort_law srt"
    and ok: "PlaceReverseBidCollateral S srt p now b a mx lr w lot = Inr (a', b')"
  obtains dec ps where "minIncrement (Math S) (Amount (a_Lot a)) (IncrementCollateral p) = Inr dec"
    "Denom lot = Denom (a_Lot a)" "Amount lot \<le> Amount (a_Lot a) - dec" "0 \<le> Amount lot" "IsReversePhase a mx"
    "a' = extendEnd now (ReverseBidDuration p) (markBid p now (a\<lparr>a_Bidder := w, a_Lot := lot\<rparr>))"
    "splitCoinIntoWeightedBuckets (Math S) srt (Coin (Denom lot) (Amount (a_Lot a) - Amount lot)) (wa_Weights lr) = Inr ps"
    "\<forall>x d. GetBalance S b' x d = GetBalance S b x d - (if x = w then coin_amt (a_Bid a) d else 0)
      + (if x = a_Bidder a then coin_amt (a_Bid a) d else 0)
      - (if x = auction_addr S then coin_amt (a_Lot a) d - coin_amt lot d else 0)
      + returned (wa_Addresses lr) 0 ps x d"
proof -
  obtain dec b1 ps where *: "minIncrement (Math S) (Amount (a_Lot a)) (IncrementCollateral p) = Inr dec"
      "Denom lot = Denom (a_Lot a)" "Amount lot \<le> Amount (a_Lot a) - dec" "0 \<le> Amount lot" "IsReversePhase a mx"
      and r: "(if w \<noteq> a_Bidder a then repayOldBidder S b w a else Inr b) = Inr b1"
      and ps: "splitCoinIntoWeightedBuckets (Math S) srt (Coin (Denom lot) (Amount (a_Lot a) - Amount lot)) (wa_Weights lr) = Inr ps"
      and b': "payLotReturns S (wa_Addresses lr) 0 ps b1 = Inr b'"
      and a': "a' = extendEnd now (ReverseBidDuration p) (markBid p now (a\<lparr>a_Bidder := w, a_Lot := lot\<rparr>))"
    using ok unfolding PlaceReverseBidCollateral_def by (auto simp: not_less split: if_splits)
  have pay: "GetBalance S b1 x d = GetBalance S b x d - (if x = w then coin_amt (a_Bid a) d else 0)
      + (if x = a_Bidder a then coin_amt (a_Bid a) d else 0)" for x d
    using r repayOldBidder_ok [OF laws, of b w a b1] by (auto split: if_splits)
  note sp = splitCoin_ok [OF srt ps]
  have diff: "coin_amt (Coin (Denom lot) (Amount (a_Lot a) - Amount lot)) d = coin_amt (a_Lot a) d - coin_amt lot d" for d
    using *(2) by (simp add: coin_amt_def)
  have "GetBalance S b' x d = GetBalance S b1 x d - (if x = auction_addr S then coin_amt (a_Lot a) d - coin_amt lot d else 0)
      + returned (wa_Addresses lr) 0 ps x d" for x d
    using payLotReturns_ok [OF laws b', of x d] sp(1) sp(5) [of d] by (auto simp: diff)
  then show ?thesis using pay by (intro that [OF * a' ps]) simp
qed

section \<open>The invariant\<close>

fun held :: "Auction \<Rightarrow> denom \<Rightarrow> int" where
  "held (SurplusAuction b) d = coin_amt (a_Lot b) d"
| "held (DebtAuction b x) d = coin_amt x d"
| "held (CollateralAuction b x mx lr) d = coin_amt (a_Lot b) d + coin_amt x d"

definition held_total :: "'b auction_state \<Rightarrow> denom \<Rightarrow> int" where
  "held_total st d = (\<Sum>(i, a)\<leftarrow>ak_auctions st. held a d)"

abbreviation auction_funds :: "'b sdk \<Rightarrow> 'b \<Rightarrow> denom \<Rightarrow> int" where
  "auction_funds S b \<equiv> GetBalance S b (auction_addr S)"

fun returns_ok :: "'b sdk \<Rightarrow> Auction \<Rightarrow> bool" where
  "returns_ok S (CollateralAuction b x mx lr) \<longleftrightarrow>
     auction_addr S \<notin> set (wa_Addresses lr) \<and> Denom (a_Bid b) = Denom mx \<and> Amount (a_Bid b) \<le> Amount mx"
| "returns_ok S a \<longleftrightarrow> True"

text \<open>No party of an auction is the auction module itself, and a bid never exceeds its maximum.\<close>

definition auction_wf :: "'b sdk \<Rightarrow> Auction \<Rightarrow> bool" where
  "auction_wf S a \<longleftrightarrow> Auction_Validate (Math S) a = Inr () \<and> a_Initiator (base a) \<noteq> auction_module \<and>
     a_Bidder (base a) \<noteq> auction_addr S \<and> returns_ok S a"

definition durations_ok :: "auction_params \<Rightarrow> bool" where
  "durations_ok p \<longleftrightarrow> 0 \<le> MaxAuctionDuration p \<and> 0 \<le> ForwardBidDuration p \<and> 0 \<le> ReverseBidDuration p"

definition auction_inv :: "'b sdk \<Rightarrow> 'b auction_state \<Rightarrow> bool" where
  "auction_inv S st \<longleftrightarrow> index_ok st \<and> durations_ok (ak_params st) \<and>
     (\<forall>i a. GetAuction st i = Some a \<longrightarrow> auction_wf S a \<and> (\<exists>n. ak_nextID st = Some n \<and> i < n)) \<and>
     (\<forall>d. auction_funds S (ak_bank st) d = held_total st d)"

lemma auction_invD:
  assumes "auction_inv S st"
  shows "index_ok st" "durations_ok (ak_params st)" "GetAuction st i = Some a \<Longrightarrow> auction_wf S a"
    "GetAuction st i = Some a \<Longrightarrow> GetID a = i" "GetAuction st i = Some a \<Longrightarrow> \<exists>n. ak_nextID st = Some n \<and> i < n"
    "auction_funds S (ak_bank st) d = held_total st d" "kv_ok (ak_auctions st)"
  using assms by (auto simp: auction_inv_def index_ok_def)

lemma ValidateAuction_Inr:
  "ValidateAuction m b = Inr () \<longleftrightarrow> \<not> list_all isSpace (a_Initiator b) \<and> coin_IsValid m (a_Lot b) \<and>
     coin_IsValid m (a_Bid b) \<and> 0 < time_Unix (a_EndTime b) \<and> 0 < time_Unix (a_MaxEndTime b) \<and>
     a_EndTime b \<le> a_MaxEndTime b"
  by (auto simp: ValidateAuction_def not_le split: if_splits)

lemma time_Unix_mono: "a \<le> b \<Longrightarrow> 0 < time_Unix a \<Longrightarrow> 0 < time_Unix b"
  unfolding time_Unix_def by (meson less_le_trans zdiv_mono1 zero_less_numeral)

lemma timing_valid:
  assumes "durations_ok p" "0 < time_Unix now" "0 \<le> t" "ValidateAuction m a = Inr ()"
    and "coin_IsValid m lot" "coin_IsValid m bid"
  shows "ValidateAuction m (extendEnd now t (markBid p now (a\<lparr>a_Bidder := w, a_Lot := lot, a_Bid := bid\<rparr>))) = Inr ()"
proof -
  have "0 < time_Unix (now + t)" "0 < time_Unix (now + MaxAuctionDuration p)"
    using assms(1-3) by (auto simp: durations_ok_def intro: time_Unix_mono [of now])
  then show ?thesis using assms(4-6) by (simp add: ValidateAuction_Inr min_def)
qed

lemma timing_valid_bid:
  assumes "durations_ok p" "0 < time_Unix now" "0 \<le> t" "ValidateAuction m a = Inr ()" "coin_IsValid m bid"
  shows "ValidateAuction m (extendEnd now t (markBid p now (a\<lparr>a_Bidder := w, a_Bid := bid\<rparr>))) = Inr ()"
  using timing_valid [OF assms(1-4), of "a_Lot a" bid w] assms(4,5) by (simp add: ValidateAuction_Inr)

lemma timing_valid_lot:
  assumes "durations_ok p" "0 < time_Unix now" "0 \<le> t" "ValidateAuction m a = Inr ()" "coin_IsValid m lot"
  shows "ValidateAuction m (extendEnd now t (markBid p now (a\<lparr>a_Bidder := w, a_Lot := lot\<rparr>))) = Inr ()"
  using timing_valid [OF assms(1-4), of lot "a_Bid a" w] assms(4,5) by (simp add: ValidateAuction_Inr)

text \<open>
  What a successful bid did: which auction it changed and how, and who paid and received what.
  \<open>gain\<close> is what the initiator and the lot returns got.
\<close>

fun bid_improves :: "auction_params \<Rightarrow> Auction \<Rightarrow> Auction \<Rightarrow> bool" where
  "bid_improves p (SurplusAuction b) (SurplusAuction b') \<longleftrightarrow>
     a_Lot b' = a_Lot b \<and> Denom (a_Bid b') = Denom (a_Bid b) \<and> Amount (a_Bid b) < Amount (a_Bid b') \<and>
     Amount (a_Bid b) * IncrementSurplus p \<le> (Amount (a_Bid b') - Amount (a_Bid b) + 1) * OneDec"
| "bid_improves p (DebtAuction b x) (DebtAuction b' x') \<longleftrightarrow>
     a_Bid b' = a_Bid b \<and> Denom (a_Lot b') = Denom (a_Lot b) \<and> 0 \<le> Amount (a_Lot b') \<and> Amount (a_Lot b') < Amount (a_Lot b) \<and>
     Amount (a_Lot b) * IncrementDebt p \<le> (Amount (a_Lot b) - Amount (a_Lot b') + 1) * OneDec \<and>
     Denom x' = Denom x \<and> Amount x' \<le> Amount x"
| "bid_improves p (CollateralAuction b x mx lr) (CollateralAuction b' x' mx' lr') \<longleftrightarrow> mx' = mx \<and> lr' = lr \<and>
     (if a_Bid b \<noteq> mx then
        a_Lot b' = a_Lot b \<and> Denom (a_Bid b') = Denom (a_Bid b) \<and> Amount (a_Bid b) < Amount (a_Bid b') \<and>
        Amount (a_Bid b') \<le> Amount mx \<and>
        (a_Bid b' = mx \<or> Amount (a_Bid b) * IncrementCollateral p \<le> (Amount (a_Bid b') - Amount (a_Bid b) + 1) * OneDec) \<and>
        Denom x' = Denom x \<and> Amount x' = Amount x - max 0 (min (Amount (a_Bid b') - Amount (a_Bid b)) (Amount x))
      else
        a_Bid b' = a_Bid b \<and> Denom (a_Lot b') = Denom (a_Lot b) \<and> 0 \<le> Amount (a_Lot b') \<and> Amount (a_Lot b') < Amount (a_Lot b) \<and>
        Amount (a_Lot b) * IncrementCollateral p \<le> (Amount (a_Lot b) - Amount (a_Lot b') + 1) * OneDec \<and> x' = x)"
| "bid_improves p _ _ \<longleftrightarrow> False"

definition timing_ok :: "auction_params \<Rightarrow> time \<Rightarrow> BaseAuction \<Rightarrow> BaseAuction \<Rightarrow> bool" where
  "timing_ok p now b b' \<longleftrightarrow> a_HasReceivedBids b' \<and> a_EndTime b' \<le> a_MaxEndTime b' \<and>
     a_MaxEndTime b' = (if a_HasReceivedBids b then a_MaxEndTime b else now + MaxAuctionDuration p) \<and>
     a_EndTime b' \<le> now + max (ForwardBidDuration p) (ReverseBidDuration p)"

lemma timing_ok_extend:
  "t \<in> {ForwardBidDuration p, ReverseBidDuration p} \<Longrightarrow> a_HasReceivedBids c = a_HasReceivedBids b \<Longrightarrow>
   a_MaxEndTime c = a_MaxEndTime b \<Longrightarrow> timing_ok p now b (extendEnd now t (markBid p now c))"
  by (auto simp: timing_ok_def)

fun parties :: "'b sdk \<Rightarrow> Auction \<Rightarrow> address set" where
  "parties S (CollateralAuction b x mx lr) = {auction_addr S, ModuleAddress S (a_Initiator b)} \<union> set (wa_Addresses lr)"
| "parties S a = {auction_addr S, ModuleAddress S (a_Initiator (base a))}"

definition bid_done :: "'b sdk \<Rightarrow> auction_params \<Rightarrow> time \<Rightarrow> address \<Rightarrow> Auction \<Rightarrow> 'b \<Rightarrow> Auction \<Rightarrow> 'b \<Rightarrow> bool" where
  "bid_done S p now w a bank a' bank' \<longleftrightarrow>
     GetID a' = GetID a \<and> a_Bidder (base a') = w \<and> auction_wf S a' \<and>
     bid_improves p a a' \<and> timing_ok p now (base a) (base a') \<and>
     (\<forall>d. auction_funds S bank' d = auction_funds S bank d + held a' d - held a d) \<and>
     (\<forall>x d. x \<notin> parties S a \<longrightarrow> GetBalance S bank' x d = GetBalance S bank x d
        - (if x = w then coin_amt (a_Bid (base a')) d else 0)
        + (if x = a_Bidder (base a) then coin_amt (a_Bid (base a)) d else 0))"

lemma initiator_addr: "sdk_laws S \<Longrightarrow> n \<noteq> auction_module \<Longrightarrow> ModuleAddress S n \<noteq> auction_addr S"
  by (simp add: ModuleAddress_eq)

lemma surplus_bid:
  assumes laws: "sdk_laws S" and wf: "auction_wf S (SurplusAuction b)" and w: "w \<noteq> auction_addr S"
    and p: "durations_ok p" "0 < time_Unix now"
    and ok: "PlaceBidSurplus S p now bank b w bid = Inr (b', bank')"
  shows "bid_done S p now w (SurplusAuction b) bank (SurplusAuction b') bank'"
proof (rule PlaceBidSurplus_ok [OF laws ok])
  fix inc
  assume *: "minIncrement (Math S) (Amount (a_Bid b)) (IncrementSurplus p) = Inr inc"
    "Denom bid = Denom (a_Bid b)" "Amount (a_Bid b) + inc \<le> Amount bid"
    "b' = extendEnd now (ForwardBidDuration p) (markBid p now (b\<lparr>a_Bidder := w, a_Bid := bid\<rparr>))"
    "\<forall>x d. GetBalance S bank' x d = GetBalance S bank x d - (if x = w then coin_amt bid d else 0)
      + (if x = a_Bidder b then coin_amt (a_Bid b) d else 0)"
  have v: "ValidateAuction (Math S) b = Inr ()" "a_Bidder b \<noteq> auction_addr S" "a_Initiator b \<noteq> auction_module"
    using wf by (simp_all add: auction_wf_def)
  have inc: "1 \<le> inc" by (rule minIncrement_pos [OF *(1)])
  have "Amount (a_Bid b) * IncrementSurplus p \<le> (inc + 1) * OneDec"
    by (rule minIncrement_bound [OF sdk_lawsD(1) [OF laws] *(1)])
  also have "\<dots> \<le> (Amount bid - Amount (a_Bid b) + 1) * OneDec"
    using *(3) by (intro mult_right_mono) (auto simp: OneDec_def)
  finally have pct: "Amount (a_Bid b) * IncrementSurplus p \<le> (Amount bid - Amount (a_Bid b) + 1) * OneDec" .
  have "coin_IsValid (Math S) bid" using v(1) *(2,3) inc by (auto simp: ValidateAuction_Inr coin_IsValid_def)
  then have "ValidateAuction (Math S) b' = Inr ()"
    unfolding *(4) using v(1) p by (intro timing_valid_bid) (auto simp: durations_ok_def)
  then show ?thesis
    using v *(2,3,5) w inc pct
    by (simp add: bid_done_def auction_wf_def timing_ok_extend *(4))
qed

lemma debt_bid:
  assumes laws: "sdk_laws S" and wf: "auction_wf S (DebtAuction b x)" and w: "w \<noteq> auction_addr S"
    and p: "durations_ok p" "0 < time_Unix now"
    and ok: "PlaceBidDebt S p now bank b x w lot = Inr (b', x', bank')"
  shows "bid_done S p now w (DebtAuction b x) bank (DebtAuction b' x') bank'"
proof (rule PlaceBidDebt_ok [OF laws ok])
  fix dec
  assume *: "minIncrement (Math S) (Amount (a_Lot b)) (IncrementDebt p) = Inr dec"
    "Denom lot = Denom (a_Lot b)" "Amount lot \<le> Amount (a_Lot b) - dec" "0 \<le> Amount lot"
    "b' = extendEnd now (ForwardBidDuration p) (markBid p now (b\<lparr>a_Bidder := w, a_Lot := lot\<rparr>))"
    "Denom x' = Denom x"
    "Amount x' = (if a_Bidder b = ModuleAddress S (a_Initiator b) then Amount x - min (Amount (a_Bid b)) (Amount x) else Amount x)"
    "\<forall>y d. GetBalance S bank' y d = GetBalance S bank y d - (if y = w then coin_amt (a_Bid b) d else 0)
      + (if y = a_Bidder b then coin_amt (a_Bid b) d else 0)
      + (if y = ModuleAddress S (a_Initiator b) then coin_amt x d - coin_amt x' d else 0)
      - (if y = auction_addr S then coin_amt x d - coin_amt x' d else 0)"
  have v: "ValidateAuction (Math S) b = Inr ()" "coin_IsValid (Math S) x" "a_Bidder b \<noteq> auction_addr S" "a_Initiator b \<noteq> auction_module"
    using wf by (auto simp: auction_wf_def split: if_splits)
  have inc: "1 \<le> dec" by (rule minIncrement_pos [OF *(1)])
  have "Amount (a_Lot b) * IncrementDebt p \<le> (dec + 1) * OneDec"
    by (rule minIncrement_bound [OF sdk_lawsD(1) [OF laws] *(1)])
  also have "\<dots> \<le> (Amount (a_Lot b) - Amount lot + 1) * OneDec"
    using *(3) by (intro mult_right_mono) (auto simp: OneDec_def)
  finally have pct: "Amount (a_Lot b) * IncrementDebt p \<le> (Amount (a_Lot b) - Amount lot + 1) * OneDec" .
  have bid0: "0 \<le> Amount (a_Bid b)" using v(1) by (simp add: ValidateAuction_Inr coin_IsValid_def)
  have "coin_IsValid (Math S) lot" using v(1) *(2,4) by (auto simp: ValidateAuction_Inr coin_IsValid_def)
  then have "ValidateAuction (Math S) b' = Inr ()"
    unfolding *(5) using v(1) p by (intro timing_valid_lot) (auto simp: durations_ok_def)
  moreover have "coin_IsValid (Math S) x'" "Amount x' \<le> Amount x"
    using v(2) *(6,7) bid0 by (auto simp: coin_IsValid_def)
  ultimately show ?thesis
    using v *(2-4,6,8) w inc pct initiator_addr [OF laws v(4)]
    by (simp add: bid_done_def auction_wf_def timing_ok_extend *(5))
qed

lemma collateral_forward_bid:
  assumes laws: "sdk_laws S" and wf: "auction_wf S (CollateralAuction b x mx lr)" and w: "w \<noteq> auction_addr S"
    and p: "durations_ok p" "0 < time_Unix now" and fwd: "\<not> IsReversePhase b mx"
    and ok: "PlaceForwardBidCollateral S p now bank b x mx w bid = Inr (b', x', bank')"
  shows "bid_done S p now w (CollateralAuction b x mx lr) bank (CollateralAuction b' x' mx lr) bank'"
proof (rule PlaceForwardBidCollateral_ok [OF laws ok])
  fix inc b1
  assume *: "minIncrement (Math S) (Amount (a_Bid b)) (IncrementCollateral p) = Inr inc"
    "Denom bid = Denom (a_Bid b)" "min (Amount (a_Bid b) + inc) (Amount mx) \<le> Amount bid"
    "Amount (a_Bid b) \<le> Amount bid" "Amount bid \<le> Amount mx"
    "b1 = markBid p now (b\<lparr>a_Bidder := w, a_Bid := bid\<rparr>)"
    "b' = extendEnd now (if IsReversePhase b1 mx then ReverseBidDuration p else ForwardBidDuration p) b1"
    "Denom x' = Denom x"
    "Amount x' = (if 0 < Amount x then Amount x - min (Amount bid - Amount (a_Bid b)) (Amount x) else Amount x)"
    "\<forall>y d. GetBalance S bank' y d = GetBalance S bank y d - (if y = w then coin_amt bid d else 0)
      + (if y = a_Bidder b then coin_amt (a_Bid b) d else 0)
      + (if y = ModuleAddress S (a_Initiator b) then coin_amt bid d - coin_amt (a_Bid b) d + (coin_amt x d - coin_amt x' d) else 0)
      - (if y = auction_addr S then coin_amt x d - coin_amt x' d else 0)"
  have v: "ValidateAuction (Math S) b = Inr ()" "coin_IsValid (Math S) x" "coin_IsValid (Math S) mx"
      "WeightedAddresses_Validate (Math S) lr = Inr ()"
      "a_Bidder b \<noteq> auction_addr S" "a_Initiator b \<noteq> auction_module" "auction_addr S \<notin> set (wa_Addresses lr)"
      "Denom (a_Bid b) = Denom mx" "Amount (a_Bid b) \<le> Amount mx"
    using wf by (auto simp: auction_wf_def split: if_splits)
  have lt: "Amount (a_Bid b) < Amount mx"
    using v(8,9) fwd by (cases "a_Bid b"; cases mx) (auto simp: IsReversePhase_def)
  have inc: "1 \<le> inc" by (rule minIncrement_pos [OF *(1)])
  have more: "Amount (a_Bid b) < Amount bid" using *(3) inc lt by auto
  have pct: "bid = mx \<or> Amount (a_Bid b) * IncrementCollateral p \<le> (Amount bid - Amount (a_Bid b) + 1) * OneDec"
  proof (cases "Amount bid = Amount mx")
    case True
    then show ?thesis using *(2) v(8) by (cases bid; cases mx) auto
  next
    case False
    then have "inc \<le> Amount bid - Amount (a_Bid b)" using *(3,5) by auto
    then have "(inc + 1) * OneDec \<le> (Amount bid - Amount (a_Bid b) + 1) * OneDec"
      by (intro mult_right_mono) (auto simp: OneDec_def)
    then show ?thesis using minIncrement_bound [OF sdk_lawsD(1) [OF laws] *(1)] by linarith
  qed
  have bid0: "0 \<le> Amount (a_Bid b)" using v(1) by (simp add: ValidateAuction_Inr coin_IsValid_def)
  have "coin_IsValid (Math S) bid" using v(1) *(2,4) by (auto simp: ValidateAuction_Inr coin_IsValid_def)
  then have "ValidateAuction (Math S) b' = Inr ()"
    unfolding *(6,7) using v(1) p by (intro timing_valid_bid) (auto simp: durations_ok_def)
  moreover have "coin_IsValid (Math S) x'" using v(2) *(8,9) by (auto simp: coin_IsValid_def)
  moreover have "Amount x' = Amount x - max 0 (min (Amount bid - Amount (a_Bid b)) (Amount x))"
    using *(4,9) v(2) by (auto simp: coin_IsValid_def)
  ultimately show ?thesis
    using v *(2,5,8,10) w more pct fwd initiator_addr [OF laws v(6)]
    by (simp add: bid_done_def auction_wf_def timing_ok_extend IsReversePhase_def *(6,7))
qed

lemma returned_outside: "length ps \<le> length addrs - i \<Longrightarrow> y \<notin> set addrs \<Longrightarrow> returned addrs i ps y d = 0"
proof (induction ps arbitrary: i)
  case (Cons c ps)
  then have "addrs ! i \<in> set addrs" by (intro nth_mem) auto
  then show ?case using Cons by auto
qed simp

lemma WeightedAddresses_lengths: "WeightedAddresses_Validate m lr = Inr () \<Longrightarrow> length (wa_Addresses lr) = length (wa_Weights lr)"
  by (simp add: WeightedAddresses_Validate_def split: if_splits)

lemma collateral_reverse_bid:
  assumes laws: "sdk_laws S" and srt: "sort_law srt" and wf: "auction_wf S (CollateralAuction b x mx lr)" and w: "w \<noteq> auction_addr S"
    and p: "durations_ok p" "0 < time_Unix now"
    and ok: "PlaceReverseBidCollateral S srt p now bank b mx lr w lot = Inr (b', bank')"
  shows "bid_done S p now w (CollateralAuction b x mx lr) bank (CollateralAuction b' x mx lr) bank'"
proof (rule PlaceReverseBidCollateral_ok [OF laws srt ok])
  fix dec ps
  assume *: "minIncrement (Math S) (Amount (a_Lot b)) (IncrementCollateral p) = Inr dec"
    "Denom lot = Denom (a_Lot b)" "Amount lot \<le> Amount (a_Lot b) - dec" "0 \<le> Amount lot" "IsReversePhase b mx"
    "b' = extendEnd now (ReverseBidDuration p) (markBid p now (b\<lparr>a_Bidder := w, a_Lot := lot\<rparr>))"
    "splitCoinIntoWeightedBuckets (Math S) srt (Coin (Denom lot) (Amount (a_Lot b) - Amount lot)) (wa_Weights lr) = Inr ps"
    "\<forall>y d. GetBalance S bank' y d = GetBalance S bank y d - (if y = w then coin_amt (a_Bid b) d else 0)
      + (if y = a_Bidder b then coin_amt (a_Bid b) d else 0)
      - (if y = auction_addr S then coin_amt (a_Lot b) d - coin_amt lot d else 0)
      + returned (wa_Addresses lr) 0 ps y d"
  have v: "ValidateAuction (Math S) b = Inr ()" "coin_IsValid (Math S) x" "coin_IsValid (Math S) mx"
      "WeightedAddresses_Validate (Math S) lr = Inr ()"
      "a_Bidder b \<noteq> auction_addr S" "a_Initiator b \<noteq> auction_module" "auction_addr S \<notin> set (wa_Addresses lr)"
      "Denom (a_Bid b) = Denom mx" "Amount (a_Bid b) \<le> Amount mx"
    using wf by (auto simp: auction_wf_def split: if_splits)
  have inc: "1 \<le> dec" by (rule minIncrement_pos [OF *(1)])
  have "Amount (a_Lot b) * IncrementCollateral p \<le> (dec + 1) * OneDec"
    by (rule minIncrement_bound [OF sdk_lawsD(1) [OF laws] *(1)])
  also have "\<dots> \<le> (Amount (a_Lot b) - Amount lot + 1) * OneDec"
    using *(3) by (intro mult_right_mono) (auto simp: OneDec_def)
  finally have pct: "Amount (a_Lot b) * IncrementCollateral p \<le> (Amount (a_Lot b) - Amount lot + 1) * OneDec" .
  have "length ps = length (wa_Addresses lr)"
    using splitCoin_ok(2) [OF srt *(7)] WeightedAddresses_lengths [OF v(4)] by simp
  then have out: "returned (wa_Addresses lr) 0 ps y d = 0" if "y \<notin> set (wa_Addresses lr)" for y d
    using returned_outside [OF _ that] by simp
  have "coin_IsValid (Math S) lot" using v(1) *(2,4) by (auto simp: ValidateAuction_Inr coin_IsValid_def)
  then have "ValidateAuction (Math S) b' = Inr ()"
    unfolding *(6) using v(1) p by (intro timing_valid_lot) (auto simp: durations_ok_def)
  then show ?thesis
    using v *(2-5,8) w inc pct out
    by (simp add: bid_done_def auction_wf_def timing_ok_extend IsReversePhase_def *(6))
qed

lemma PlaceBid_ok:
  assumes laws: "sdk_laws S" and srt: "sort_law srt" and inv: "auction_inv S st" and w: "w \<noteq> auction_addr S"
    and now: "0 < time_Unix now" and ok: "PlaceBid S srt now st i w amt = Inr st'"
  obtains a a' bank where "GetAuction st i = Some a" "now \<le> GetEndTime a"
    "bid_done S (ak_params st) now w a (ak_bank st) a' bank" "st' = SetAuction (st\<lparr>ak_bank := bank\<rparr>) a'"
proof (cases "GetAuction st i")
  case None
  then show ?thesis using ok by (simp add: PlaceBid_def)
next
  case (Some a)
  note wf = auction_invD(3) [OF inv Some] and p = auction_invD(2) [OF inv]
  have e: "now \<le> GetEndTime a" using ok Some by (auto simp: PlaceBid_def not_less split: if_splits)
  show ?thesis
  proof (cases a)
    case a: (SurplusAuction b)
    obtain b' bank where r: "PlaceBidSurplus S (ak_params st) now (ak_bank st) b w amt = Inr (b', bank)"
        "st' = SetAuction (st\<lparr>ak_bank := bank\<rparr>) (SurplusAuction b')"
      using ok Some a by (auto simp: PlaceBid_def split: if_splits)
    show ?thesis using that [OF Some e _ r(2)] surplus_bid [OF laws wf [unfolded a] w p now r(1)] a by simp
  next
    case a: (DebtAuction b x)
    obtain b' x' bank where r: "PlaceBidDebt S (ak_params st) now (ak_bank st) b x w amt = Inr (b', x', bank)"
        "st' = SetAuction (st\<lparr>ak_bank := bank\<rparr>) (DebtAuction b' x')"
      using ok Some a by (auto simp: PlaceBid_def split: if_splits)
    show ?thesis using that [OF Some e _ r(2)] debt_bid [OF laws wf [unfolded a] w p now r(1)] a by simp
  next
    case a: (CollateralAuction b x mx lr)
    show ?thesis
    proof (cases "IsReversePhase b mx")
      case True
      then obtain b' bank where r: "PlaceReverseBidCollateral S srt (ak_params st) now (ak_bank st) b mx lr w amt = Inr (b', bank)"
          "st' = SetAuction (st\<lparr>ak_bank := bank\<rparr>) (CollateralAuction b' x mx lr)"
        using ok Some a by (auto simp: PlaceBid_def split: if_splits)
      show ?thesis using that [OF Some e _ r(2)] collateral_reverse_bid [OF laws srt wf [unfolded a] w p now r(1)] a by simp
    next
      case False
      then obtain b' x' bank where r: "PlaceForwardBidCollateral S (ak_params st) now (ak_bank st) b x mx w amt = Inr (b', x', bank)"
          "st' = SetAuction (st\<lparr>ak_bank := bank\<rparr>) (CollateralAuction b' x' mx lr)"
        using ok Some a by (auto simp: PlaceBid_def split: if_splits)
      show ?thesis using that [OF Some e _ r(2)] collateral_forward_bid [OF laws wf [unfolded a] w p now False r(1)] a by simp
    qed
  qed
qed

section \<open>Closing\<close>

text \<open>A payout: the bidder gets the lot, and what the module account held for the auction leaves it.\<close>

definition payout_done :: "'b sdk \<Rightarrow> Auction \<Rightarrow> 'b \<Rightarrow> 'b \<Rightarrow> bool" where
  "payout_done S a bank bank' \<longleftrightarrow>
     (\<forall>d. auction_funds S bank' d = auction_funds S bank d - held a d) \<and>
     (\<forall>x d. x \<noteq> auction_addr S \<longrightarrow> x \<noteq> ModuleAddress S (a_Initiator (base a)) \<longrightarrow>
        GetBalance S bank' x d = GetBalance S bank x d + (if x = a_Bidder (base a) then coin_amt (a_Lot (base a)) d else 0))"

lemma send_lot:
  assumes "sdk_laws S" "NewCoins S [c] = Inr cs" "SendCoinsFromModuleToAccount S b n y cs = Inr b'"
  shows "GetBalance S b' x d = GetBalance S b x d - (if x = ModuleAddress S n then coin_amt c d else 0) + (if x = y then coin_amt c d else 0)"
  using moved_balance [OF sends(3) [OF assms(1,3)]] NewCoins_one(1) [OF assms(1,2)] by simp

lemma debt_back:
  assumes laws: "sdk_laws S" and v: "coin_IsValid (Math S) x"
    and ok: "(if \<not> 0 < Amount x then Inr b else bnd (NewCoins S [x]) (\<lambda>cs. SendCoinsFromModuleToModule S b auction_module n cs)) = Inr b'"
  shows "GetBalance S b' y d = GetBalance S b y d - (if y = auction_addr S then coin_amt x d else 0) + (if y = ModuleAddress S n then coin_amt x d else 0)"
proof (cases "0 < Amount x")
  case True
  then obtain cs where "NewCoins S [x] = Inr cs" "SendCoinsFromModuleToModule S b auction_module n cs = Inr b'" using ok by auto
  then show ?thesis using moved_balance [OF sends(4) [OF laws]] NewCoins_one(1) [OF laws] by simp
next
  case False
  then show ?thesis using ok v by (simp add: coin_amt_def coin_IsValid_def)
qed

lemma payout_ok:
  assumes laws: "sdk_laws S" and wf: "auction_wf S a"
    and ok: "(case a of SurplusAuction b \<Rightarrow> PayoutSurplusAuction S bank b
                 | DebtAuction b d \<Rightarrow> PayoutDebtAuction S bank b d
                 | CollateralAuction b d mx lr \<Rightarrow> PayoutCollateralAuction S bank b d) = Inr bank'"
  shows "payout_done S a bank bank'"
proof (cases a)
  case a: (SurplusAuction b)
  then obtain cs where *: "NewCoins S [a_Lot b] = Inr cs" "SendCoinsFromModuleToAccount S bank auction_module (a_Bidder b) cs = Inr bank'"
    using ok by (auto simp: PayoutSurplusAuction_def)
  have "a_Bidder b \<noteq> auction_addr S" "auction_addr S \<noteq> a_Bidder b" using wf a by (auto simp: auction_wf_def)
  then show ?thesis by (simp add: payout_done_def a send_lot [OF laws *])
next
  case a: (DebtAuction b x)
  have x: "coin_IsValid (Math S) x" using wf a by (auto simp: auction_wf_def split: if_splits)
  obtain cs b1 b2 where *: "NewCoins S [a_Lot b] = Inr cs" "MintCoins S bank (a_Initiator b) cs = Inr b1"
      "SendCoinsFromModuleToAccount S b1 (a_Initiator b) (a_Bidder b) cs = Inr b2"
      and d: "(if \<not> 0 < Amount x then Inr b2 else bnd (NewCoins S [x]) (\<lambda>cs. SendCoinsFromModuleToModule S b2 auction_module (a_Initiator b) cs)) = Inr bank'"
    using ok a by (auto simp: PayoutDebtAuction_def)
  have "a_Bidder b \<noteq> auction_addr S" "auction_addr S \<noteq> a_Bidder b" "ModuleAddress S (a_Initiator b) \<noteq> auction_addr S"
    "auction_addr S \<noteq> ModuleAddress S (a_Initiator b)"
    using wf a initiator_addr [OF laws, of "a_Initiator b"] by (auto simp: auction_wf_def)
  then show ?thesis
    by (simp add: payout_done_def a debt_back [OF laws x d] send_lot [OF laws *(1,3)] mints(1) [OF laws *(2)])
next
  case a: (CollateralAuction b x mx lr)
  have x: "coin_IsValid (Math S) x" using wf a by (auto simp: auction_wf_def split: if_splits)
  obtain cs b1 where *: "NewCoins S [a_Lot b] = Inr cs" "SendCoinsFromModuleToAccount S bank auction_module (a_Bidder b) cs = Inr b1"
      and d: "(if \<not> 0 < Amount x then Inr b1 else bnd (NewCoins S [x]) (\<lambda>cs. SendCoinsFromModuleToModule S b1 auction_module (a_Initiator b) cs)) = Inr bank'"
    using ok a by (auto simp: PayoutCollateralAuction_def)
  have "a_Bidder b \<noteq> auction_addr S" "auction_addr S \<noteq> a_Bidder b" "ModuleAddress S (a_Initiator b) \<noteq> auction_addr S"
    "auction_addr S \<noteq> ModuleAddress S (a_Initiator b)"
    using wf a initiator_addr [OF laws, of "a_Initiator b"] by (auto simp: auction_wf_def)
  then show ?thesis
    by (simp add: payout_done_def a debt_back [OF laws x d] send_lot [OF laws *])
qed

lemma CloseAuction_ok:
  assumes laws: "sdk_laws S" and inv: "auction_inv S st" and ok: "CloseAuction S now st i = Inr st'"
  obtains a bank where "GetAuction st i = Some a" "GetEndTime a \<le> now" "payout_done S a (ak_bank st) bank"
    "st' = DeleteAuction (st\<lparr>ak_bank := bank\<rparr>) i"
proof (cases "GetAuction st i")
  case None
  then show ?thesis using ok by (simp add: CloseAuction_def)
next
  case (Some a)
  obtain bank where p: "(case a of SurplusAuction b \<Rightarrow> PayoutSurplusAuction S (ak_bank st) b
                 | DebtAuction b d \<Rightarrow> PayoutDebtAuction S (ak_bank st) b d
                 | CollateralAuction b d mx lr \<Rightarrow> PayoutCollateralAuction S (ak_bank st) b d) = Inr bank"
      "st' = DeleteAuction (st\<lparr>ak_bank := bank\<rparr>) i" and e: "GetEndTime a \<le> now"
    using ok Some by (auto simp: CloseAuction_def not_less simp del: GetEndTime.simps split: if_splits)
  show ?thesis by (rule that [OF Some e payout_ok [OF laws auction_invD(3) [OF inv Some] p(1)] p(2)])
qed

section \<open>Every step keeps the invariant\<close>

lemma held_total_set:
  "kv_ok (ak_auctions st) \<Longrightarrow> held_total (SetAuction st a) d =
     held_total st d - (case GetAuction st (GetID a) of None \<Rightarrow> 0 | Some old \<Rightarrow> held old d) + held a d"
  by (simp add: held_total_def kv.total_put GetAuction_def del: GetID.simps)

lemma held_total_delete:
  "kv_ok (ak_auctions st) \<Longrightarrow> held_total (DeleteAuction st i) d =
     held_total st d - (case GetAuction st i of None \<Rightarrow> 0 | Some old \<Rightarrow> held old d)"
  by (simp add: held_total_def kv.total_del GetAuction_def)

lemma held_total_bank [simp]: "held_total (st\<lparr>ak_bank := b\<rparr>) = held_total st" "held_total (SetNextAuctionID st n) = held_total st"
  by (simp_all add: fun_eq_iff held_total_def SetNextAuctionID_def)

lemma PlaceBid_inv:
  assumes "sdk_laws S" "sort_law srt" "auction_inv S st" "w \<noteq> auction_addr S" "0 < time_Unix now"
    and "PlaceBid S srt now st i w amt = Inr st'"
  shows "auction_inv S st'"
proof (rule PlaceBid_ok [OF assms])
  fix a a' bank
  assume *: "GetAuction st i = Some a" "bid_done S (ak_params st) now w a (ak_bank st) a' bank"
    "st' = SetAuction (st\<lparr>ak_bank := bank\<rparr>) a'"
  note inv = auction_invD [OF assms(3)]
  have id: "GetID a' = i" using *(2) inv(4) [OF *(1)] by (simp add: bid_done_def)
  have wf: "auction_wf S a'" and f: "\<forall>d. auction_funds S bank d = auction_funds S (ak_bank st) d + held a' d - held a d"
    using *(2) by (auto simp: bid_done_def)
  have "index_ok st'" unfolding *(3) by (rule index_ok_SetAuction) (simp add: inv(1))
  moreover have "held_total st' d = held_total st d - held a d + held a' d" for d
    using inv(7) *(1) id by (simp add: *(3) held_total_set del: GetID.simps)
  ultimately show "auction_inv S st'"
    using inv(2,6) wf f inv(3,5) *(1) id unfolding auction_inv_def
    by (auto simp: *(3) simp del: GetID.simps split: if_splits)
qed

lemma CloseAuction_inv:
  assumes "sdk_laws S" "auction_inv S st" "CloseAuction S now st i = Inr st'"
  shows "auction_inv S st'"
proof (rule CloseAuction_ok [OF assms])
  fix a bank
  assume *: "GetAuction st i = Some a" "payout_done S a (ak_bank st) bank" "st' = DeleteAuction (st\<lparr>ak_bank := bank\<rparr>) i"
  note inv = auction_invD [OF assms(2)]
  have "index_ok st'" unfolding *(3) by (rule index_ok_DeleteAuction) (simp add: inv(1))
  moreover have "held_total st' d = held_total st d - held a d" for d
    using inv(7) *(1) by (simp add: *(3) held_total_delete)
  ultimately show "auction_inv S st'"
    using inv(2,3,5,6) *(2) unfolding auction_inv_def payout_done_def
    by (auto simp: *(3) split: if_splits)
qed

definition close_step :: "'b sdk \<Rightarrow> time \<Rightarrow> uint64 \<Rightarrow> 'b auction_state \<Rightarrow> 'b auction_state result" where
  "close_step S now i st = (case CloseAuction S now st i of
      Inl (Err e) \<Rightarrow> if e = ''ErrAuctionNotFound'' then Inr st else Inl (Err e) | r \<Rightarrow> r)"

lemma CloseExpired_fold: "CloseExpiredAuctions S now st = foldR (close_step S now) (auctionIDsByTime st now) st"
  unfolding CloseExpiredAuctions_def close_step_def ..

lemma CloseAuction_notfound:
  assumes "CloseAuction S now st i = Inl (Err ''ErrAuctionNotFound'')"
  shows "GetAuction st i = None \<or> (\<exists>a. GetAuction st i = Some a \<and> GetEndTime a \<le> now)"
  using assms by (auto simp: CloseAuction_def split: option.splits if_splits simp del: GetEndTime.simps)

end
