(* ===== verification/Auction_Reach.thy ===== *)
theory Auction_Reach
  imports Auction_Safety
begin

text \<open>
  The auction module over time: what one begin blocker does, that every operation keeps the
  module's invariant, and so what holds in every state a chain can reach.
\<close>

section \<open>The begin blocker\<close>

text \<open>
  The begin blocker skips an auction when closing it answers \<open>ErrAuctionNotFound\<close>, an error of this
  module that no other module returns.
\<close>

definition foreign_errors :: "'b sdk \<Rightarrow> bool" where
  "foreign_errors S \<longleftrightarrow>
     (\<forall>cs. NewCoins S cs \<noteq> Inl (Err ''ErrAuctionNotFound'')) \<and>
     (\<forall>b n x cs. SendCoinsFromModuleToAccount S b n x cs \<noteq> Inl (Err ''ErrAuctionNotFound'')) \<and>
     (\<forall>b n k cs. SendCoinsFromModuleToModule S b n k cs \<noteq> Inl (Err ''ErrAuctionNotFound''))"

lemma panic_on_err_not_Err [simp]: "panic_on_err m \<noteq> Inl (Err e)"
  by (simp add: panic_on_err_def split: sum.splits fault.splits)

lemma CloseAuction_notfound_iff:
  assumes "foreign_errors S"
  shows "CloseAuction S now st i = Inl (Err ''ErrAuctionNotFound'') \<longleftrightarrow> GetAuction st i = None"
  using assms
  by (auto simp: CloseAuction_def PayoutSurplusAuction_def PayoutDebtAuction_def PayoutCollateralAuction_def
      foreign_errors_def bnd_eq_Inl split: option.splits if_splits Auction.Auction.splits)

lemma close_step_cases:
  assumes "foreign_errors S" "close_step S now i st = Inr st'"
  shows "(GetAuction st i = None \<and> st' = st) \<or> CloseAuction S now st i = Inr st'"
proof (cases "CloseAuction S now st i")
  case (Inl e)
  then show ?thesis
    using assms(2) CloseAuction_notfound_iff [OF assms(1), of now st i]
    by (cases e) (auto simp: close_step_def split: if_splits)
next
  case (Inr s)
  then show ?thesis using assms(2) by (simp add: close_step_def)
qed

lemma CloseAuction_store:
  "CloseAuction S now st i = Inr st' \<Longrightarrow> \<exists>b. st' = DeleteAuction (st\<lparr>ak_bank := b\<rparr>) i"
  by (auto simp: CloseAuction_def split: option.splits if_splits)

lemma close_step_store:
  assumes "foreign_errors S" "index_ok st" "close_step S now k st = Inr st'"
  shows "index_ok st'" "GetAuction st' = (GetAuction st)(k := None)"
proof -
  have "index_ok st' \<and> GetAuction st' = (GetAuction st)(k := None)"
    using close_step_cases [OF assms(1,3)]
  proof
    assume "GetAuction st k = None \<and> st' = st"
    then show ?thesis using assms(2) by (auto simp: fun_eq_iff)
  next
    assume "CloseAuction S now st k = Inr st'"
    then obtain b where "st' = DeleteAuction (st\<lparr>ak_bank := b\<rparr>) k" using CloseAuction_store by blast
    then show ?thesis using assms(2) index_ok_DeleteAuction [of "st\<lparr>ak_bank := b\<rparr>" k] by simp
  qed
  then show "index_ok st'" "GetAuction st' = (GetAuction st)(k := None)" by auto
qed

lemma close_step_deletes: "foreign_errors S \<Longrightarrow> au.deletes (close_step S now)"
  unfolding au.deletes_def using close_step_store by blast

lemma close_step_inv:
  assumes "sdk_laws S" "foreign_errors S" "auction_inv S st" "close_step S now i st = Inr st'"
  shows "auction_inv S st'"
  using close_step_cases [OF assms(2,4)] CloseAuction_inv [OF assms(1,3)] assms(3) by blast

text \<open>What the winners among the given auctions receive.\<close>

definition winnings :: "(uint64 \<Rightarrow> Auction option) \<Rightarrow> uint64 list \<Rightarrow> address \<Rightarrow> denom \<Rightarrow> int" where
  "winnings get is x d = (\<Sum>i\<leftarrow>is. case get i of None \<Rightarrow> 0
     | Some a \<Rightarrow> if a_Bidder (base a) = x then coin_amt (a_Lot (base a)) d else 0)"

lemma winnings_Cons: "winnings get (i # is) x d = winnings get [i] x d + winnings get is x d"
  by (simp add: winnings_def)

lemma winnings_cong: "(\<And>i. i \<in> set is \<Longrightarrow> get i = get' i) \<Longrightarrow> winnings get is x d = winnings get' is x d"
  unfolding winnings_def by (rule arg_cong [of _ _ sum_list], rule map_cong) auto

lemma close_fold_pays:
  assumes laws: "sdk_laws S" "foreign_errors S" and "auction_inv S st"
    and "foldR (close_step S now) is st = Inr st'" "distinct is"
    and "x \<noteq> auction_addr S" "\<forall>i a. GetAuction st i = Some a \<longrightarrow> x \<noteq> ModuleAddress S (a_Initiator (base a))"
  shows "GetBalance S (ak_bank st') x d = GetBalance S (ak_bank st) x d + winnings (GetAuction st) is x d"
  using assms(3-)
proof (induction "is" arbitrary: st)
  case Nil
  then show ?case by (simp add: winnings_def)
next
  case (Cons i "is")
  obtain s1 where s1: "close_step S now i st = Inr s1" "foldR (close_step S now) is s1 = Inr st'"
    using Cons.prems(2) by auto
  have get: "GetAuction s1 = (GetAuction st)(i := None)"
    by (rule close_step_store(2) [OF laws(2) auction_invD(1) [OF Cons.prems(1)] s1(1)])
  have one: "GetBalance S (ak_bank s1) x d = GetBalance S (ak_bank st) x d + winnings (GetAuction st) [i] x d"
    using close_step_cases [OF laws(2) s1(1)]
  proof
    assume "GetAuction st i = None \<and> s1 = st"
    then show ?thesis by (simp add: winnings_def)
  next
    assume "CloseAuction S now st i = Inr s1"
    from CloseAuction_ok [OF laws(1) Cons.prems(1) this] obtain a bank where
      *: "GetAuction st i = Some a" "payout_done S a (ak_bank st) bank" "s1 = DeleteAuction (st\<lparr>ak_bank := bank\<rparr>) i" by metis
    then show ?thesis using Cons.prems(4,5) by (auto simp: payout_done_def winnings_def)
  qed
  have "winnings (GetAuction s1) is x d = winnings (GetAuction st) is x d"
    using Cons.prems(3) by (intro winnings_cong) (auto simp: get)
  moreover have "GetBalance S (ak_bank st') x d = GetBalance S (ak_bank s1) x d + winnings (GetAuction s1) is x d"
  proof (rule Cons.IH [OF close_step_inv [OF laws Cons.prems(1) s1(1)] s1(2)])
    show "\<forall>i a. GetAuction s1 i = Some a \<longrightarrow> x \<noteq> ModuleAddress S (a_Initiator (base a))"
      using Cons.prems(5) by (auto simp: get split: if_splits)
  qed (use Cons.prems(3,4) in auto)
  ultimately show ?case using one winnings_Cons [of "GetAuction st" i "is" x d] by simp
qed

lemma CloseExpired_notfound:
  assumes "foreign_errors S"
  shows "CloseExpiredAuctions S now st \<noteq> Inl (Err ''ErrAuctionNotFound'')"
proof -
  have "foldR (close_step S now) is st \<noteq> Inl (Err ''ErrAuctionNotFound'')" for "is"
  proof (induction "is" arbitrary: st)
    case (Cons i "is")
    have "close_step S now i st \<noteq> Inl (Err ''ErrAuctionNotFound'')"
      by (auto simp: close_step_def split: sum.splits fault.splits)
    then show ?case using Cons.IH by (auto simp: bnd_eq_Inl)
  qed simp
  then show ?thesis by (simp add: CloseExpired_fold)
qed

lemma BeginBlocker_fold:
  assumes "foreign_errors S"
  shows "auction_BeginBlocker S now st = Inr st' \<longleftrightarrow> foldR (close_step S now) (auctionIDsByTime st now) st = Inr st'"
  using CloseExpired_notfound [OF assms, of now st]
  by (auto simp: auction_BeginBlocker_def CloseExpired_fold split: sum.splits fault.splits)

lemma BeginBlocker_inv:
  assumes "sdk_laws S" "foreign_errors S" "auction_inv S st" "auction_BeginBlocker S now st = Inr st'"
  shows "auction_inv S st'"
  using assms(4) unfolding BeginBlocker_fold [OF assms(2)]
  by (rule foldR_invariant [where P = "auction_inv S"]) (use assms(1-3) close_step_inv in blast)+

section \<open>Starting\<close>

lemma WithID_simps [simp]:
  "base (WithID a i) = (base a)\<lparr>a_ID := i\<rparr>" "held (WithID a i) d = held a d"
  "auction_wf S (WithID a i) = auction_wf S a"
  by (cases a; simp add: auction_wf_def ValidateAuction_def)+

lemma StoreNewAuction_inv:
  assumes inv: "auction_inv S st" and wf: "auction_wf S a"
    and bank: "\<forall>d. auction_funds S bank d = auction_funds S (ak_bank st) d + held a d"
    and ok: "StoreNewAuction (st\<lparr>ak_bank := bank\<rparr>) a = Inr (st', i)" and nowrap: "i + 1 \<noteq> 0"
  shows "auction_inv S st' \<and> ak_nextID st = Some i \<and> GetAuction st i = None \<and>
    GetAuction st' = (GetAuction st)(i \<mapsto> WithID a i) \<and> ak_bank st' = bank"
proof -
  have next_i: "ak_nextID st = Some i" and st': "st' = SetNextAuctionID (SetAuction (st\<lparr>ak_bank := bank\<rparr>) (WithID a i)) (i + 1)"
    using ok by (auto simp: StoreNewAuction_def IncrementNextAuctionID_def GetNextAuctionID_def split: option.splits)
  have none: "GetAuction st i = None"
    using auction_invD(5) [OF inv, of i] next_i by (cases "GetAuction st i") auto
  have less: "j \<le> i \<Longrightarrow> j < i + 1" for j
    using nowrap unatSuc [of i] by (simp add: word_less_nat_alt word_le_nat_alt add.commute)
  have get: "GetAuction st' = (GetAuction st)(i \<mapsto> WithID a i)" by (simp add: st')
  have "held_total st' d = held_total st d + held a d" for d
    using held_total_set [of "st\<lparr>ak_bank := bank\<rparr>" "WithID a i" d] none auction_invD(7) [OF inv] by (simp add: st')
  moreover have "index_ok st'" unfolding st' index_ok_bank(2)
    by (rule index_ok_SetAuction) (simp add: auction_invD(1) [OF inv])
  moreover have "ak_nextID st' = Some (i + 1)" "ak_bank st' = bank" "ak_params st' = ak_params st"
    by (simp_all add: st' SetNextAuctionID_def)
  moreover have "auction_wf S b \<and> j < i + 1" if "GetAuction st' j = Some b" for j b
  proof (cases "j = i")
    case True
    then show ?thesis using that wf less [of i] by (auto simp: get)
  next
    case False
    then have "GetAuction st j = Some b" using that by (simp add: get)
    then show ?thesis using auction_invD(3,5) [OF inv] next_i less [of j] by fastforce
  qed
  ultimately show ?thesis
    using bank auction_invD(2,6) [OF inv] none next_i get unfolding auction_inv_def by auto
qed

lemma DistantFuture_valid: "0 < time_Unix DistantFuture"
  by (simp add: time_Unix_def DistantFuture_def)

lemma to_auction_module:
  assumes "sdk_laws S" "NewCoins S [c] = Inr cs" "SendCoinsFromModuleToModule S b n auction_module cs = Inr b'" "n \<noteq> auction_module"
  shows "auction_funds S b' d = auction_funds S b d + coin_amt c d"
  using moved_balance [OF sends(4) [OF assms(1,3)]] NewCoins_one(1) [OF assms(1,2)] initiator_addr [OF assms(1,4)] by simp

text \<open>What the callers of the start functions guarantee: valid coins and parties other than this module.\<close>

definition seller_ok :: "string \<Rightarrow> bool" where
  "seller_ok n \<longleftrightarrow> n \<noteq> auction_module \<and> \<not> list_all isSpace n"

lemma StartSurplus_inv:
  assumes laws: "sdk_laws S" and inv: "auction_inv S st" and n: "seller_ok n" and lot: "coin_IsValid (Math S) lot"
    and ok: "StartSurplusAuction S st n lot bidDenom = Inr (st', i)" and "i + 1 \<noteq> 0"
  shows "auction_inv S st'"
proof -
  obtain a cs b where *: "NewSurplusAuction (Math S) n lot bidDenom DistantFuture = Inr a" "NewCoins S [lot] = Inr cs"
      "SendCoinsFromModuleToModule S (ak_bank st) n auction_module cs = Inr b" "StoreNewAuction (st\<lparr>ak_bank := b\<rparr>) a = Inr (st', i)"
    using ok by (auto simp: StartSurplusAuction_def)
  have wf: "auction_wf S a"
    using *(1) n lot ModuleAddress_nonempty [OF laws, of auction_module] DistantFuture_valid
    by (auto simp: NewSurplusAuction_def auction_wf_def ValidateAuction_Inr seller_ok_def coin_IsValid_def)
  have "held a d = coin_amt lot d" for d using *(1) by (auto simp: NewSurplusAuction_def)
  then show ?thesis
    using StoreNewAuction_inv [OF inv wf _ *(4) assms(6)] to_auction_module [OF laws *(2,3)] n by (simp add: seller_ok_def)
qed

lemma StartDebt_inv:
  assumes laws: "sdk_laws S" and inv: "auction_inv S st" and n: "seller_ok n"
    and v: "coin_IsValid (Math S) bid" "coin_IsValid (Math S) lot" "coin_IsValid (Math S) dbt"
    and ok: "StartDebtAuction S st n bid lot dbt = Inr (st', i)" and "i + 1 \<noteq> 0"
  shows "auction_inv S st'"
proof -
  let ?a = "NewDebtAuction (ModuleAddress S) n bid lot DistantFuture dbt"
  obtain cs b where *: "NewCoins S [dbt] = Inr cs" "SendCoinsFromModuleToModule S (ak_bank st) n auction_module cs = Inr b"
      "StoreNewAuction (st\<lparr>ak_bank := b\<rparr>) ?a = Inr (st', i)"
    using ok by (auto simp: StartDebtAuction_def Let_def split: if_splits)
  have wf: "auction_wf S ?a"
    using n v initiator_addr [OF laws] DistantFuture_valid
    by (auto simp: NewDebtAuction_def auction_wf_def ValidateAuction_Inr seller_ok_def)
  have "held ?a d = coin_amt dbt d" for d by (simp add: NewDebtAuction_def)
  then show ?thesis
    using StoreNewAuction_inv [OF inv wf _ *(3) assms(8)] to_auction_module [OF laws *(1,2)] n by (simp add: seller_ok_def)
qed

lemma StartCollateral_inv:
  assumes laws: "sdk_laws S" and inv: "auction_inv S st" and n: "seller_ok n"
    and v: "coin_IsValid (Math S) lot" "coin_IsValid (Math S) mx" "coin_IsValid (Math S) dbt"
    and addr: "auction_addr S \<notin> set addrs"
    and ok: "StartCollateralAuction S st n lot mx addrs ws dbt = Inr (st', i)" and "i + 1 \<noteq> 0"
  shows "auction_inv S st'"
proof -
  obtain lr a cs b ds b2 where *: "NewWeightedAddresses (Math S) addrs ws = Inr lr"
      "NewCollateralAuction (Math S) n lot DistantFuture mx lr dbt = Inr a" "NewCoins S [lot] = Inr cs"
      "SendCoinsFromModuleToModule S (ak_bank st) n auction_module cs = Inr b" "NewCoins S [dbt] = Inr ds"
      "SendCoinsFromModuleToModule S b n auction_module ds = Inr b2" "StoreNewAuction (st\<lparr>ak_bank := b2\<rparr>) a = Inr (st', i)"
    using ok by (auto simp: StartCollateralAuction_def)
  have lr: "WeightedAddresses_Validate (Math S) lr = Inr ()" "wa_Addresses lr = addrs"
    using *(1) by (auto simp: NewWeightedAddresses_def Let_def)
  have wf: "auction_wf S a"
    using *(2) n v addr lr ModuleAddress_nonempty [OF laws, of auction_module] DistantFuture_valid
    by (auto simp: NewCollateralAuction_def auction_wf_def ValidateAuction_Inr seller_ok_def coin_IsValid_def)
  have "held a d = coin_amt lot d + coin_amt dbt d" for d using *(2) by (auto simp: NewCollateralAuction_def)
  then show ?thesis
    using StoreNewAuction_inv [OF inv wf _ *(7) assms(9)] to_auction_module [OF laws *(3,4)] to_auction_module [OF laws *(5,6)] n
    by (simp add: seller_ok_def)
qed

section \<open>Genesis\<close>

lemma GetModuleAccountCoins_ok:
  assumes "sdk_laws S" "GetModuleAccountCoins S a = Inr cs"
  shows "coins_Valid (Math S) cs" "AmountOf cs d = held a d"
proof -
  have "coins_Valid (Math S) cs \<and> AmountOf cs d = held a d"
    using assms(2)
  proof (cases a)
    case (CollateralAuction b x mx lr)
    then obtain l dc where *: "NewCoins S [a_Lot b] = Inr l" "NewCoins S [x] = Inr dc" "CoinsAdd S l dc = Inr cs"
      using assms(2) by auto
    note v = NewCoins_valid [OF assms(1) *(1)] NewCoins_valid [OF assms(1) *(2)]
    show ?thesis
      using CoinsAdd_amount [OF assms(1) v *(3)] NewCoins_one(1) [OF assms(1) *(1)] NewCoins_one(1) [OF assms(1) *(2)]
        CollateralAuction by simp
  qed (use NewCoins_valid [OF assms(1)] NewCoins_one(1) [OF assms(1)] in auto)
  then show "coins_Valid (Math S) cs" "AmountOf cs d = held a d" by auto
qed

lemma GetModuleAccountCoins_total:
  assumes laws: "sdk_laws S" and wf: "Auction_Validate (Math S) a = Inr ()" and r: "\<And>d. IntInRange (Math S) (held a d)"
  obtains cs where "GetModuleAccountCoins S a = Inr cs"
proof (cases a)
  case (CollateralAuction b x mx lr)
  have v: "coin_IsValid (Math S) (a_Lot b)" "coin_IsValid (Math S) x"
    using wf CollateralAuction by (auto simp: ValidateAuction_Inr split: if_splits)
  obtain l dc where *: "NewCoins S [a_Lot b] = Inr l" "NewCoins S [x] = Inr dc"
    using NewCoins_one_total [OF laws v(1)] NewCoins_one_total [OF laws v(2)] by metis
  have "IntInRange (Math S) (AmountOf l d + AmountOf dc d)" for d
    using r [of d] NewCoins_one(1) [OF laws *(1)] NewCoins_one(1) [OF laws *(2)] CollateralAuction by simp
  then obtain cs where "CoinsAdd S l dc = Inr cs"
    using CoinsAdd_ok [OF laws NewCoins_valid [OF laws *(1)] NewCoins_valid [OF laws *(2)]] by metis
  then show ?thesis using that * CollateralAuction by simp
next
  case (SurplusAuction b)
  then show ?thesis using that wf NewCoins_one_total [OF laws, of "a_Lot b"] by (auto simp: ValidateAuction_Inr)
next
  case (DebtAuction b x)
  then show ?thesis using that wf NewCoins_one_total [OF laws, of x] by (auto split: if_splits)
qed

lemma held_nonneg: "Auction_Validate m a = Inr () \<Longrightarrow> 0 \<le> held a d"
  by (cases a) (auto simp: ValidateAuction_Inr coin_IsValid_def coin_amt_def split: if_splits)

text \<open>Summing the coins of auctions neither fails nor loses anything while the total is in range.\<close>

lemma module_coins_fold:
  assumes laws: "sdk_laws S" and "\<forall>a\<in>set as. Auction_Validate (Math S) a = Inr ()" "coins_Valid (Math S) acc"
    and "\<forall>d. IntInRange (Math S) (AmountOf acc d + (\<Sum>a\<leftarrow>as. held a d))"
  shows "\<exists>r. foldR (\<lambda>a acc. bnd (GetModuleAccountCoins S a) (CoinsAdd S acc)) as acc = Inr r \<and>
    coins_Valid (Math S) r \<and> (\<forall>d. AmountOf r d = AmountOf acc d + (\<Sum>a\<leftarrow>as. held a d))"
  using assms(2-)
proof (induction as arbitrary: acc)
  case (Cons a as)
  note m = sdk_lawsD(1) [OF laws]
  have h: "0 \<le> held a d" "0 \<le> (\<Sum>a\<leftarrow>as. held a d)" "0 \<le> AmountOf acc d" for d
    using Cons.prems(1) AmountOf_valid(1) [OF Cons.prems(2)]
    by (auto intro!: sum_list_nonneg held_nonneg [of "Math S"])
  have tot: "IntInRange (Math S) (AmountOf acc d + (held a d + (\<Sum>a\<leftarrow>as. held a d)))" for d
    using Cons.prems(3) by simp
  have range: "IntInRange (Math S) (held a d)" "IntInRange (Math S) (AmountOf acc d + held a d)" for d
    by (rule IntInRange_le [OF m tot [of d]]; use h [of d] in linarith)+
  obtain cs where cs: "GetModuleAccountCoins S a = Inr cs"
    using GetModuleAccountCoins_total [OF laws _ range(1)] Cons.prems(1) by auto
  note c = GetModuleAccountCoins_ok [OF laws cs]
  obtain r where r: "CoinsAdd S acc cs = Inr r" "coins_Valid (Math S) r" "\<forall>d. AmountOf r d = AmountOf acc d + AmountOf cs d"
    using CoinsAdd_ok [OF laws Cons.prems(2) c(1)] range(2) c(2) by metis
  have "\<forall>d. IntInRange (Math S) (AmountOf r d + (\<Sum>a\<leftarrow>as. held a d))"
    using Cons.prems(3) r(3) c(2) by (simp add: add.assoc)
  from Cons.IH [OF _ r(2) this] Cons.prems(1) show ?case using cs r c(2) by auto
qed simp

lemma held_total_values: "held_total st d = (\<Sum>a\<leftarrow>GetAllAuctions st. held a d)"
  by (simp add: held_total_def GetAllAuctions_def split_def comp_def)

lemma GetAllAuctions_iff:
  "index_ok st \<Longrightarrow> a \<in> set (GetAllAuctions st) \<longleftrightarrow> GetAuction st (GetID a) = Some a"
proof -
  assume ok: "index_ok st"
  then have "(i, a) \<in> set (ak_auctions st) \<longleftrightarrow> GetAuction st i = Some a" for i
    using kv.entry_iff [of "ak_auctions st" i a] by (simp add: index_ok_def GetAuction_def)
  then have "a \<in> set (GetAllAuctions st) \<longleftrightarrow> (\<exists>i. GetAuction st i = Some a)"
    unfolding GetAllAuctions_def set_map image_iff by (metis prod.collapse snd_conv)
  moreover have "GetAuction st i = Some a \<Longrightarrow> GetID a = i" for i using ok unfolding index_ok_def by blast
  ultimately show ?thesis by blast
qed

section \<open>The invariants of the module\<close>

lemma index_length:
  assumes "index_ok st"
  shows "length (ak_auctions st) = length (ak_byTime st)"
proof -
  let ?f = "\<lambda>(i :: uint64, a). ((GetEndTime a, i), i)"
  have ok: "kv_ok (ak_auctions st)" "kv_ok (ak_byTime st)" using assms by (simp_all add: index_ok_def)
  have d: "distinct (ak_auctions st)" "distinct (ak_byTime st)"
    using kv.keys_distinct [OF ok(1)] kv.keys_distinct [OF ok(2)] by (simp_all add: distinct_map)
  have "((t, j), v) \<in> set (ak_byTime st) \<longleftrightarrow> v = j \<and> (\<exists>a. (j, a) \<in> set (ak_auctions st) \<and> GetEndTime a = t)" for t j v
    using assms kv.entry_iff [OF ok(2)] kv.entry_iff [OF ok(1)] by (simp add: index_ok_def GetAuction_def)
  then have "set (ak_byTime st) = ?f ` set (ak_auctions st)" by force
  moreover have "inj_on ?f (set (ak_auctions st))"
  proof (rule inj_on_imageI2 [of snd])
    have "snd \<circ> ?f = fst" by auto
    then show "inj_on (snd \<circ> ?f) (set (ak_auctions st))" using kv.keys_distinct [OF ok(1)] unfolding distinct_map by argo
  qed
  ultimately have "card (set (ak_byTime st)) = card (set (ak_auctions st))" by (simp only: card_image)
  then show ?thesis by (simp add: distinct_card d)
qed

lemma auction_invariants_hold:
  assumes laws: "sdk_laws S" and inv: "auction_inv S st"
  shows "ModuleAccountInvariants S st = Inr False" "\<not> ValidAuctionInvariant (Math S) st" "\<not> ValidIndexInvariant st"
proof -
  note I = auction_invD [OF inv]
  have v: "\<forall>a\<in>set (GetAllAuctions st). Auction_Validate (Math S) a = Inr ()"
    using I(3) GetAllAuctions_iff [OF I(1)] by (auto simp: auction_wf_def)
  then show "\<not> ValidAuctionInvariant (Math S) st" by (auto simp: ValidAuctionInvariant_def list_ex_iff)
  have "\<forall>d. IntInRange (Math S) (AmountOf [] d + (\<Sum>a\<leftarrow>GetAllAuctions st. held a d))"
    using balances(3) [OF laws] I(6) by (simp flip: held_total_values add: I(6) [symmetric])
  from module_coins_fold [OF laws v _ this] obtain r where
    r: "foldR (\<lambda>a acc. bnd (GetModuleAccountCoins S a) (CoinsAdd S acc)) (GetAllAuctions st) [] = Inr r"
      "coins_Valid (Math S) r" "\<forall>d. AmountOf r d = (\<Sum>a\<leftarrow>GetAllAuctions st. held a d)"
    by (auto simp: coins_Valid_def)
  have "GetAllBalances S (ak_bank st) (auction_addr S) = r"
    using balances(1,2) [OF laws] r(2,3) I(6) by (intro coins_Valid_eqI) (auto simp: held_total_values)
  then show "ModuleAccountInvariants S st = Inr False"
    using r(1) CoinsIsEqual_iff [OF laws r(2) r(2)] by (simp add: ModuleAccountInvariants_def)
  have "kv_get (ak_auctions st) v \<noteq> None" if "((t, i), v) \<in> set (ak_byTime st)" for t i v
    using that I(1) kv.entry_iff [of "ak_byTime st" "(t, i)" v] by (auto simp: index_ok_def GetAuction_def)
  then show "\<not> ValidIndexInvariant st"
    using index_length [OF I(1)] by (auto simp: ValidIndexInvariant_def list_ex_iff)
qed

section \<open>Loading a genesis state\<close>

lemma genesis_check_iff:
  "genesis_auctions_check m n ids as = Inr () \<longleftrightarrow>
     distinct (map GetID as) \<and> set (map GetID as) \<inter> set ids = {} \<and>
     (\<forall>a\<in>set as. Auction_Validate m a = Inr () \<and> GetID a < n)"
proof (induction as arbitrary: ids)
  case (Cons a as)
  have "genesis_auctions_check m n ids (a # as) = Inr () \<longleftrightarrow>
      Auction_Validate m a = Inr () \<and> GetID a \<notin> set ids \<and> GetID a < n \<and> genesis_auctions_check m n (GetID a # ids) as = Inr ()"
    by (auto simp: not_le simp del: GetID.simps)
  then show ?case unfolding Cons.IH by (auto simp del: GetID.simps)
qed simp

definition load_auctions :: "Auction list \<Rightarrow> 'b auction_state \<Rightarrow> 'b auction_state" where
  "load_auctions as st = fold (\<lambda>a s. SetAuction s a) as st"

lemma load_auctions_simps [simp]:
  "load_auctions [] st = st" "load_auctions (a # as) st = load_auctions as (SetAuction st a)"
  by (simp_all add: load_auctions_def)

lemma load_auctions_frame [simp]:
  "ak_bank (load_auctions as st) = ak_bank st" "ak_params (load_auctions as st) = ak_params st"
  "ak_nextID (load_auctions as st) = ak_nextID st"
  by (induction as arbitrary: st) simp_all

lemma genesis_fold:
  "foldR (\<lambda>a (st, tot). bnd (GetModuleAccountCoins S a) (\<lambda>cs. bnd (CoinsAdd S tot cs) (\<lambda>tot'. Inr (SetAuction st a, tot')))) as (st, tot)
   = bnd (foldR (\<lambda>a acc. bnd (GetModuleAccountCoins S a) (CoinsAdd S acc)) as tot) (\<lambda>t. Inr (load_auctions as st, t))"
  by (induction as arbitrary: st tot) (simp_all add: bnd_assoc)

lemma module_coins_sum:
  assumes laws: "sdk_laws S"
    and "foldR (\<lambda>a acc. bnd (GetModuleAccountCoins S a) (CoinsAdd S acc)) as acc = Inr r" "coins_Valid (Math S) acc"
  shows "coins_Valid (Math S) r \<and> AmountOf r d = AmountOf acc d + (\<Sum>a\<leftarrow>as. held a d)"
  using assms(2-)
proof (induction as arbitrary: acc)
  case (Cons a as)
  then obtain cs t where t: "GetModuleAccountCoins S a = Inr cs" "CoinsAdd S acc cs = Inr t"
      "foldR (\<lambda>a acc. bnd (GetModuleAccountCoins S a) (CoinsAdd S acc)) as t = Inr r" by auto
  note c = GetModuleAccountCoins_ok [OF laws t(1)]
  note s = CoinsAdd_amount [OF laws Cons.prems(2) c(1) t(2)]
  show ?case using Cons.IH [OF t(3) s(1)] s(2) c(2) by simp
qed simp

lemma load_auctions_ok:
  assumes "index_ok st" "distinct (map GetID as)" "\<forall>a\<in>set as. GetAuction st (GetID a) = None"
  shows "index_ok (load_auctions as st)"
    and "held_total (load_auctions as st) d = held_total st d + (\<Sum>a\<leftarrow>as. held a d)"
    and "GetAuction (load_auctions as st) i =
      (case map_of (map (\<lambda>a. (GetID a, a)) as) i of None \<Rightarrow> GetAuction st i | Some a \<Rightarrow> Some a)"
proof -
  have "index_ok (load_auctions as st) \<and> held_total (load_auctions as st) d = held_total st d + (\<Sum>a\<leftarrow>as. held a d) \<and>
      GetAuction (load_auctions as st) i =
        (case map_of (map (\<lambda>a. (GetID a, a)) as) i of None \<Rightarrow> GetAuction st i | Some a \<Rightarrow> Some a)"
    using assms
  proof (induction as arbitrary: st)
    case (Cons a as)
    have ok: "index_ok (SetAuction st a)" by (rule index_ok_SetAuction) (rule Cons.prems(1))
    have dst: "distinct (map GetID as)" "GetID a \<notin> GetID ` set as" using Cons.prems(2) by (simp_all del: GetID.simps)
    have "\<forall>b\<in>set as. GetAuction (SetAuction st a) (GetID b) = None"
    proof
      fix b assume "b \<in> set as"
      then have "GetID b \<noteq> GetID a" using dst(2) by (metis imageI)
      then show "GetAuction (SetAuction st a) (GetID b) = None" using Cons.prems(3) \<open>b \<in> set as\<close> by (simp del: GetID.simps)
    qed
    note IH = Cons.IH [OF ok dst(1) this]
    have "held_total (SetAuction st a) d = held_total st d + held a d"
      using held_total_set [of st a d] Cons.prems(1,3) by (simp add: index_ok_def del: GetID.simps)
    moreover have "map_of (map (\<lambda>a. (GetID a, a)) as) (GetID a) = None"
      using dst(2) by (force simp: map_of_eq_None_iff simp del: GetID.simps)
    ultimately show ?case using IH by (auto simp del: GetID.simps split: option.splits)
  qed simp
  then show "index_ok (load_auctions as st)"
    "held_total (load_auctions as st) d = held_total st d + (\<Sum>a\<leftarrow>as. held a d)"
    "GetAuction (load_auctions as st) i =
      (case map_of (map (\<lambda>a. (GetID a, a)) as) i of None \<Rightarrow> GetAuction st i | Some a \<Rightarrow> Some a)" by auto
qed

lemma auction_store_ext:
  assumes "index_ok st" "index_ok st'" "GetAuction st = GetAuction st'"
  shows "ak_auctions st = ak_auctions st'" "ak_byTime st = ak_byTime st'"
proof -
  show "ak_auctions st = ak_auctions st'"
    using assms by (intro kv_ext) (auto simp: index_ok_def GetAuction_def fun_eq_iff)
  have "kv_get (ak_byTime st) (t, i) = Some v \<longleftrightarrow> kv_get (ak_byTime st') (t, i) = Some v" for t i v
    using assms unfolding index_ok_def by simp
  then have "kv_get (ak_byTime st) k = kv_get (ak_byTime st') k" for k
    by (cases k) (metis not_None_eq)
  then show "ak_byTime st = ak_byTime st'"
    using assms(1,2) by (intro kv_ext) (auto simp: index_ok_def)
qed

definition parties_ok :: "'b sdk \<Rightarrow> Auction \<Rightarrow> bool" where
  "parties_ok S a \<longleftrightarrow> a_Initiator (base a) \<noteq> auction_module \<and> a_Bidder (base a) \<noteq> auction_addr S \<and> returns_ok S a"

lemma params_durations: "auction_params_Validate p = Inr () \<Longrightarrow> durations_ok p"
  by (auto simp: auction_params_Validate_def durations_ok_def split: if_splits)

lemma InitGenesis_auction_inv:
  assumes laws: "sdk_laws S" and ok: "auction_InitGenesis S st gs = Inr st'"
    and e: "ak_auctions st = []" "ak_byTime st = []" and p: "\<forall>a\<in>set (ag_Auctions gs). parties_ok S a"
  shows "auction_inv S st'"
proof -
  let ?st0 = "(SetNextAuctionID st (ag_NextAuctionId gs))\<lparr>ak_params := ag_Params gs\<rparr>"
  obtain tot where *: "auction_params_Validate (ag_Params gs) = Inr ()"
      "genesis_auctions_check (Math S) (ag_NextAuctionId gs) [] (ag_Auctions gs) = Inr ()"
      "foldR (\<lambda>a acc. bnd (GetModuleAccountCoins S a) (CoinsAdd S acc)) (ag_Auctions gs) [] = Inr tot"
      "CoinsIsEqual S (GetAllBalances S (ak_bank st) (auction_addr S)) tot = Inr True"
      and st': "st' = load_auctions (ag_Auctions gs) ?st0"
    using ok unfolding auction_InitGenesis_def auction_genesis_Validate_def genesis_fold Let_def
    by (auto simp: SetNextAuctionID_def split: if_splits)
  have g: "GetAuction ?st0 i = None" for i using e by (simp add: GetAuction_def SetNextAuctionID_def)
  have "index_ok ?st0" using e by (simp add: index_ok_def GetAuction_def SetNextAuctionID_def)
  note ld = load_auctions_ok [OF this, of "ag_Auctions gs"]
  note c = *(2) [unfolded genesis_check_iff]
  have ix: "index_ok st'" using ld(1) c g by (simp add: st')
  have "AmountOf tot d = (\<Sum>a\<leftarrow>ag_Auctions gs. held a d)" "coins_Valid (Math S) tot" for d
    using module_coins_sum [OF laws *(3), of d] by (simp_all add: coins_Valid_def)
  moreover have "GetAllBalances S (ak_bank st) (auction_addr S) = tot"
    using *(4) CoinsIsEqual_iff [OF laws balances(2) [OF laws] calculation(2)] by simp
  moreover have "held_total ?st0 d = 0" for d using e by (simp add: held_total_def SetNextAuctionID_def)
  ultimately have funds: "auction_funds S (ak_bank st') d = held_total st' d" for d
    using ld(2) c g balances(1) [OF laws, of "ak_bank st" "auction_addr S" d] by (simp add: st' SetNextAuctionID_def)
  have "auction_wf S a \<and> i < ag_NextAuctionId gs" if "GetAuction st' i = Some a" for i a
  proof -
    have "map_of (map (\<lambda>a. (GetID a, a)) (ag_Auctions gs)) i = Some a"
      using that ld(3) [of i] c g by (auto simp: st' split: option.splits)
    then have "a \<in> set (ag_Auctions gs)" "GetID a = i" by (auto dest: map_of_SomeD)
    then show ?thesis using c p by (auto simp: auction_wf_def parties_ok_def)
  qed
  then show ?thesis
    using ix funds params_durations [OF *(1)] unfolding auction_inv_def by (simp add: st' SetNextAuctionID_def)
qed

section \<open>Reachable states\<close>

text \<open>
  A chain starts from genesis and then runs auctions started by other modules, bids, begin
  blockers, parameter changes and transactions of other modules, which leave the auction account alone.
\<close>

inductive auction_reach :: "'b sdk \<Rightarrow> qr_sort \<Rightarrow> (string \<Rightarrow> address result) \<Rightarrow> 'b auction_state \<Rightarrow> bool"
  for S srt bech where
  genesis: "auction_InitGenesis S st gs = Inr st' \<Longrightarrow> ak_auctions st = [] \<Longrightarrow> ak_byTime st = [] \<Longrightarrow>
    \<forall>a\<in>set (ag_Auctions gs). parties_ok S a \<Longrightarrow> auction_reach S srt bech st'"
| start_surplus: "auction_reach S srt bech st \<Longrightarrow> StartSurplusAuction S st n lot bidDenom = Inr (st', i) \<Longrightarrow>
    seller_ok n \<Longrightarrow> coin_IsValid (Math S) lot \<Longrightarrow> i + 1 \<noteq> 0 \<Longrightarrow> auction_reach S srt bech st'"
| start_debt: "auction_reach S srt bech st \<Longrightarrow> StartDebtAuction S st n bid lot dbt = Inr (st', i) \<Longrightarrow>
    seller_ok n \<Longrightarrow> coin_IsValid (Math S) bid \<Longrightarrow> coin_IsValid (Math S) lot \<Longrightarrow> coin_IsValid (Math S) dbt \<Longrightarrow>
    i + 1 \<noteq> 0 \<Longrightarrow> auction_reach S srt bech st'"
| start_collateral: "auction_reach S srt bech st \<Longrightarrow> StartCollateralAuction S st n lot mx addrs ws dbt = Inr (st', i) \<Longrightarrow>
    seller_ok n \<Longrightarrow> coin_IsValid (Math S) lot \<Longrightarrow> coin_IsValid (Math S) mx \<Longrightarrow> coin_IsValid (Math S) dbt \<Longrightarrow>
    auction_addr S \<notin> set addrs \<Longrightarrow> i + 1 \<noteq> 0 \<Longrightarrow> auction_reach S srt bech st'"
| bid: "auction_reach S srt bech st \<Longrightarrow> msg_PlaceBid S srt bech now st i w amt = Inr st' \<Longrightarrow>
    bech w \<noteq> Inr (auction_addr S) \<Longrightarrow> 0 < time_Unix now \<Longrightarrow> auction_reach S srt bech st'"
| block: "auction_reach S srt bech st \<Longrightarrow> auction_BeginBlocker S now st = Inr st' \<Longrightarrow> auction_reach S srt bech st'"
| params: "auction_reach S srt bech st \<Longrightarrow> auction_params_Validate p = Inr () \<Longrightarrow> auction_reach S srt bech (st\<lparr>ak_params := p\<rparr>)"
| others: "auction_reach S srt bech st \<Longrightarrow> \<forall>d. auction_funds S b d = auction_funds S (ak_bank st) d \<Longrightarrow>
    auction_reach S srt bech (st\<lparr>ak_bank := b\<rparr>)"

lemma auction_inv_frame:
  "auction_inv S st \<Longrightarrow> durations_ok p \<Longrightarrow> auction_inv S (st\<lparr>ak_params := p\<rparr>)"
  "auction_inv S st \<Longrightarrow> \<forall>d. auction_funds S b d = auction_funds S (ak_bank st) d \<Longrightarrow> auction_inv S (st\<lparr>ak_bank := b\<rparr>)"
  by (simp_all add: auction_inv_def GetAuction_def held_total_def)

lemma auction_reach_inv:
  assumes laws: "sdk_laws S" "sort_law srt" "foreign_errors S"
  shows "auction_reach S srt bech st \<Longrightarrow> auction_inv S st"
proof (induction rule: auction_reach.induct)
  case (bid st now i w amt st')
  then obtain x where "PlaceBid S srt now st i x amt = Inr st'" "x \<noteq> auction_addr S" by (auto simp: msg_PlaceBid_def)
  then show ?case using PlaceBid_inv [OF laws(1,2) bid.IH] bid.hyps by blast
qed (blast intro: InitGenesis_auction_inv [OF laws(1)] StartSurplus_inv [OF laws(1)] StartDebt_inv [OF laws(1)]
    StartCollateral_inv [OF laws(1)] BeginBlocker_inv [OF laws(1,3)] auction_inv_frame params_durations)+

section \<open>Properties\<close>

text \<open>
  C3: In every state a chain reaches by genesis, started auctions, bids, begin blockers, parameter
  changes and other modules' transactions, the auction module account holds exactly the lots and
  debts of the open auctions, and none of the three invariants of the module is broken.
\<close>

theorem auction_module_solvent:
  assumes "sdk_laws S" "sort_law srt" "foreign_errors S" "auction_reach S srt bech st"
  shows "(\<forall>d. auction_funds S (ak_bank st) d = held_total st d) \<and> ModuleAccountInvariants S st = Inr False \<and>
    \<not> ValidAuctionInvariant (Math S) st \<and> \<not> ValidIndexInvariant st"
proof -
  have inv: "auction_inv S st" by (rule auction_reach_inv [OF assms])
  show ?thesis using auction_invariants_hold [OF assms(1) inv] auction_invD(6) [OF inv] by blast
qed

definition ex_auction_params :: auction_params where
  "ex_auction_params = \<lparr>MaxAuctionDuration = 100 * second, ForwardBidDuration = 10 * second, ReverseBidDuration = 20 * second,
     IncrementSurplus = 50000000000000000, IncrementDebt = 50000000000000000, IncrementCollateral = 50000000000000000\<rparr>"

definition ex_auctions0 :: "ledger auction_state" where
  "ex_auctions0 = \<lparr>ak_auctions = [], ak_byTime = [], ak_nextID = Some 1, ak_params = ex_auction_params,
     ak_bank = \<lparr>lbal = [((''module/liquidator'', ''bnb''), 10), ((''module/liquidator'', ''debt''), 5),
       ((''alice'', ''usdx''), 20), ((''bob'', ''usdx''), 20)], lsupply = []\<rparr>\<rparr>"

definition ex_auctions1 :: "ledger auction_state" where
  "ex_auctions1 = fst (projr (StartCollateralAuction ref_sdk ex_auctions0 ''liquidator'' (Coin ''bnb'' 10) (Coin ''usdx'' 8)
     [''carol''] [1] (Coin ''debt'' 5)))"

definition ex_auctions2 :: "ledger auction_state" where
  "ex_auctions2 = projr (msg_PlaceBid ref_sdk ref_sort Inr (1000 * second) ex_auctions1 1 ''alice'' (Coin ''usdx'' 4))"

lemma ex_auctions:
  "auction_InitGenesis ref_sdk (ex_auctions0\<lparr>ak_nextID := None\<rparr>)
     \<lparr>ag_NextAuctionId = 1, ag_Params = ex_auction_params, ag_Auctions = []\<rparr> = Inr ex_auctions0"
  "StartCollateralAuction ref_sdk ex_auctions0 ''liquidator'' (Coin ''bnb'' 10) (Coin ''usdx'' 8) [''carol''] [1] (Coin ''debt'' 5)
     = Inr (ex_auctions1, 1)"
  "msg_PlaceBid ref_sdk ref_sort Inr (1000 * second) ex_auctions1 1 ''alice'' (Coin ''usdx'' 4) = Inr ex_auctions2"
  by code_simp+

lemma ref_auction_address: "auction_addr ref_sdk = ''module/auction''" "Math ref_sdk = ref_math"
  by (simp_all add: ref_sdk_def module_address_def auction_module_def)

lemma ref_foreign: "foreign_errors ref_sdk"
  by (auto simp: foreign_errors_def ref_sdk_def ref_NewCoins_def ledger_send_def credit_def bnd_eq_Inl Let_def split: if_splits)

lemma ex_auctions_reach: "auction_reach ref_sdk ref_sort Inr ex_auctions2"
proof (rule auction_reach.bid [OF _ ex_auctions(3)])
  have "auction_reach ref_sdk ref_sort Inr ex_auctions0"
    by (rule auction_reach.genesis [OF ex_auctions(1)]) (simp_all add: ex_auctions0_def)
  then show "auction_reach ref_sdk ref_sort Inr ex_auctions1"
    by (rule auction_reach.start_collateral [OF _ ex_auctions(2)])
      (simp_all add: ref_auction_address [unfolded auction_module_def] seller_ok_def auction_module_def isSpace_def coin_IsValid_def ref_math_def ref_denom_def)
qed (simp_all add: ref_auction_address time_Unix_def)

theorem auction_module_solvent_witness:
  "auction_funds ref_sdk (ak_bank ex_auctions2) ''bnb'' = held_total ex_auctions2 ''bnb'' \<and> held_total ex_auctions2 ''bnb'' = 10 \<and>
   held_total ex_auctions2 ''debt'' = 1 \<and> \<not> ValidIndexInvariant ex_auctions2"
proof -
  have "held_total ex_auctions2 ''bnb'' = 10" "held_total ex_auctions2 ''debt'' = 1" by code_simp+
  then show ?thesis using auction_module_solvent [OF ref_sdk_laws ref_sort_law ref_foreign ex_auctions_reach] by simp
qed

text \<open>
  C11: A successful bid replaces exactly the auction it names, before its end. The new bid beats the
  old one by the module's increment (at least one unit): higher in the forward direction and never
  over the maximum bid, a smaller lot in the reverse direction. The bidder becomes the winner and
  pays his bid, the previous winner gets his whole bid back, nobody else outside the auction's own
  parties gains or loses anything. The end moves at most to the maximum end time, which only the
  first bid fixes.
\<close>

theorem PlaceBid_effect:
  assumes "sdk_laws S" "sort_law srt" "foreign_errors S" "auction_reach S srt bech st"
    and "w \<noteq> auction_addr S" "0 < time_Unix now" "PlaceBid S srt now st i w amt = Inr st'"
  shows "\<exists>a a'. GetAuction st i = Some a \<and> now \<le> GetEndTime a \<and> GetAuction st' = (GetAuction st)(i \<mapsto> a') \<and>
    bid_improves (ak_params st) a a' \<and> a_Bidder (base a') = w \<and>
    a_EndTime (base a') \<le> a_MaxEndTime (base a') \<and>
    a_MaxEndTime (base a') = (if a_HasReceivedBids (base a) then a_MaxEndTime (base a) else now + MaxAuctionDuration (ak_params st)) \<and>
    (\<forall>x d. x \<notin> parties S a \<longrightarrow> GetBalance S (ak_bank st') x d = GetBalance S (ak_bank st) x d
        - (if x = w then coin_amt (a_Bid (base a')) d else 0)
        + (if x = a_Bidder (base a) then coin_amt (a_Bid (base a)) d else 0))"
proof -
  have inv: "auction_inv S st" by (rule auction_reach_inv [OF assms(1-4)])
  from PlaceBid_ok [OF assms(1,2) inv assms(5,6,7)] obtain a a' bank where
    *: "GetAuction st i = Some a" "now \<le> GetEndTime a" "bid_done S (ak_params st) now w a (ak_bank st) a' bank"
      "st' = SetAuction (st\<lparr>ak_bank := bank\<rparr>) a'" by metis
  have "GetID a' = i" using *(3) auction_invD(4) [OF inv *(1)] by (simp add: bid_done_def)
  then have "GetAuction st' = (GetAuction st)(i \<mapsto> a')" by (simp add: *(4) del: GetID.simps)
  then show ?thesis using *(1-3) unfolding bid_done_def timing_ok_def by (auto simp: *(4))
qed

theorem PlaceBid_effect_witness:
  "\<exists>a a'. GetAuction ex_auctions2 1 = Some a \<and> bid_improves ex_auction_params a a' \<and> a_Bidder (base a') = ''bob'' \<and>
     GetBalance ref_sdk (ak_bank (projr (PlaceBid ref_sdk ref_sort (1005 * second) ex_auctions2 1 ''bob'' (Coin ''usdx'' 8)))) ''alice'' ''usdx'' = 20"
proof -
  let ?r = "PlaceBid ref_sdk ref_sort (1005 * second) ex_auctions2 1 ''bob'' (Coin ''usdx'' 8)"
  have ok: "?r = Inr (projr ?r)" by code_simp
  have p: "ak_params ex_auctions2 = ex_auction_params" by code_simp
  have old: "map_option (\<lambda>a. (a_Bidder (base a), a_Bid (base a), a_Initiator (base a), lotReturns a)) (GetAuction ex_auctions2 1)
      = Some (''alice'', Coin ''usdx'' 4, ''liquidator'', \<lparr>wa_Addresses = [''carol''], wa_Weights = [1]\<rparr>)"
    "GetBalance ref_sdk (ak_bank ex_auctions2) ''alice'' ''usdx'' = 16" by code_simp+
  obtain a a' where *: "GetAuction ex_auctions2 1 = Some a" "bid_improves ex_auction_params a a'" "a_Bidder (base a') = ''bob''"
    "\<forall>x d. x \<notin> parties ref_sdk a \<longrightarrow> GetBalance ref_sdk (ak_bank (projr ?r)) x d = GetBalance ref_sdk (ak_bank ex_auctions2) x d
        - (if x = ''bob'' then coin_amt (a_Bid (base a')) d else 0) + (if x = a_Bidder (base a) then coin_amt (a_Bid (base a)) d else 0)"
    using PlaceBid_effect [OF ref_sdk_laws ref_sort_law ref_foreign ex_auctions_reach _ _ ok]
    by (auto simp: ref_auction_address time_Unix_def p)
  have "''alice'' \<notin> parties ref_sdk a"
    using old(1) *(1) by (cases a) (simp_all add: ref_auction_address ref_sdk_def module_address_def)
  then have "GetBalance ref_sdk (ak_bank (projr ?r)) ''alice'' ''usdx'' = 20"
    using *(4) old *(1) by (simp add: coin_amt_def)
  then show ?thesis using * by blast
qed

text \<open>
  C19: A begin blocker that succeeds closes exactly the auctions whose end time has come and leaves
  every other auction as it is; nothing is due afterwards. The winner of every closed auction gets
  its lot, and an account that is neither a winner nor the module of an initiator is untouched.
\<close>

theorem auction_BeginBlocker_effect:
  assumes "sdk_laws S" "sort_law srt" "foreign_errors S" "auction_reach S srt bech st"
    and "auction_BeginBlocker S now st = Inr st'"
  shows "(\<forall>i. GetAuction st' i = (case GetAuction st i of
             Some a \<Rightarrow> if GetEndTime a \<le> now then None else Some a | None \<Rightarrow> None)) \<and>
    auctionIDsByTime st' now = [] \<and>
    (\<forall>x d. x \<noteq> auction_addr S \<longrightarrow> (\<forall>i a. GetAuction st i = Some a \<longrightarrow> x \<noteq> ModuleAddress S (a_Initiator (base a))) \<longrightarrow>
       GetBalance S (ak_bank st') x d = GetBalance S (ak_bank st) x d + winnings (GetAuction st) (auctionIDsByTime st now) x d)"
proof -
  have inv: "auction_inv S st" by (rule auction_reach_inv [OF assms(1-4)])
  have f: "foldR (close_step S now) (auctionIDsByTime st now) st = Inr st'"
    using assms(5) BeginBlocker_fold [OF assms(3)] by blast
  note sw = au.sweep [OF close_step_deletes [OF assms(3)] auction_invD(1) [OF inv] f]
  have "distinct (auctionIDsByTime st now)" by (rule auctionIDs_due(2) [OF auction_invD(1) [OF inv]])
  then show ?thesis using sw(2,3) close_fold_pays [OF assms(1,3) inv f] by blast
qed

theorem auction_BeginBlocker_effect_witness:
  "GetAuction ex_auctions2 1 \<noteq> None \<and>
   GetAuction (projr (auction_BeginBlocker ref_sdk (1010 * second) ex_auctions2)) 1 = None \<and>
   GetBalance ref_sdk (ak_bank (projr (auction_BeginBlocker ref_sdk (1010 * second) ex_auctions2))) ''alice'' ''bnb'' = 10"
proof -
  let ?r = "auction_BeginBlocker ref_sdk (1010 * second) ex_auctions2"
  have ok: "?r = Inr (projr ?r)" by code_simp
  have e: "auctionIDsByTime ex_auctions2 (1010 * second) = [1]" "GetBalance ref_sdk (ak_bank ex_auctions2) ''alice'' ''bnb'' = 0"
    "map_option GetEndTime (GetAuction ex_auctions2 1) = Some (1010 * second)"
    "winnings (GetAuction ex_auctions2) [1] ''alice'' ''bnb'' = 10" by code_simp+
  note w = auction_BeginBlocker_effect [OF ref_sdk_laws ref_sort_law ref_foreign ex_auctions_reach ok]
  have "''alice'' \<noteq> auction_addr ref_sdk" "\<And>n. ''alice'' \<noteq> ModuleAddress ref_sdk n"
    by (simp_all add: ref_sdk_def module_address_def)
  then have "GetBalance ref_sdk (ak_bank (projr ?r)) ''alice'' ''bnb'' = 10" using w e by simp
  moreover have "GetAuction ex_auctions2 1 \<noteq> None" "GetAuction (projr ?r) 1 = None"
    using w e(3) by (auto split: option.splits)
  ultimately show ?thesis by simp
qed

text \<open>
  Exporting a reachable state and loading the export into an empty store, with the same bank
  balances, gives back the same state: auctions, index, next identifier and parameters.
\<close>

theorem auction_genesis_round_trip:
  assumes "sdk_laws S" "sort_law srt" "foreign_errors S" "auction_reach S srt bech st"
    and "auction_ExportGenesis st = Inr gs" "auction_params_Validate (ak_params st) = Inr ()"
    and "HasModuleAccount S (ak_bank st) auction_module"
  shows "auction_InitGenesis S (st\<lparr>ak_auctions := [], ak_byTime := [], ak_nextID := None, ak_params := p\<rparr>) gs = Inr st"
proof -
  have inv: "auction_inv S st" by (rule auction_reach_inv [OF assms(1-4)])
  note I = auction_invD [OF inv]
  obtain n where n: "ak_nextID st = Some n" and gs: "gs = \<lparr>ag_NextAuctionId = n, ag_Params = ak_params st, ag_Auctions = GetAllAuctions st\<rparr>"
    using assms(5) by (auto simp: auction_ExportGenesis_def GetNextAuctionID_def split: option.splits)
  let ?st0 = "(SetNextAuctionID (st\<lparr>ak_auctions := [], ak_byTime := [], ak_nextID := None, ak_params := p\<rparr>) n)\<lparr>ak_params := ak_params st\<rparr>"
  have m: "map (\<lambda>a. (GetID a, a)) (GetAllAuctions st) = ak_auctions st" "map GetID (GetAllAuctions st) = map fst (ak_auctions st)"
    using I(1) kv.entry_iff [OF I(7)] by (auto simp: GetAllAuctions_def index_ok_def GetAuction_def intro!: map_idI simp del: GetID.simps)
  have all: "\<forall>a\<in>set (GetAllAuctions st). Auction_Validate (Math S) a = Inr () \<and> GetID a < n"
    using GetAllAuctions_iff [OF I(1)] I(3,5) n by (fastforce simp: auction_wf_def)
  have chk: "genesis_auctions_check (Math S) n [] (GetAllAuctions st) = Inr ()"
    using all kv.keys_distinct [OF I(7)] unfolding genesis_check_iff m(2) by simp
  obtain tot where tot: "foldR (\<lambda>a acc. bnd (GetModuleAccountCoins S a) (CoinsAdd S acc)) (GetAllAuctions st) [] = Inr tot"
      "CoinsIsEqual S (GetAllBalances S (ak_bank st) (auction_addr S)) tot = Inr True"
    using auction_invariants_hold(1) [OF assms(1) inv] by (auto simp: ModuleAccountInvariants_def)
  have ix0: "index_ok ?st0" by (simp add: index_ok_def GetAuction_def SetNextAuctionID_def)
  have none: "GetAuction ?st0 i = None" for i by (simp add: GetAuction_def SetNextAuctionID_def)
  have d: "distinct (map GetID (GetAllAuctions st))" unfolding m(2) by (rule kv.keys_distinct [OF I(7)])
  have "GetAuction (load_auctions (GetAllAuctions st) ?st0) i = GetAuction st i" for i
    using load_auctions_ok(3) [OF ix0 d, of i] none unfolding m(1) by (simp add: GetAuction_def split: option.splits)
  then have "GetAuction (load_auctions (GetAllAuctions st) ?st0) = GetAuction st" by (rule ext)
  moreover have "index_ok (load_auctions (GetAllAuctions st) ?st0)" using load_auctions_ok(1) [OF ix0 d] none by simp
  ultimately have "load_auctions (GetAllAuctions st) ?st0 = st"
    using auction_store_ext [of _ st] I(1) n by (intro auction_state.equality) (simp_all add: SetNextAuctionID_def)
  then show ?thesis
    using chk tot assms(6,7) unfolding gs auction_InitGenesis_def auction_genesis_Validate_def genesis_fold Let_def
    by (simp add: SetNextAuctionID_def)
qed

theorem auction_genesis_round_trip_witness:
  "auction_InitGenesis ref_sdk (ex_auctions2\<lparr>ak_auctions := [], ak_byTime := [], ak_nextID := None, ak_params := ex_auction_params\<rparr>)
     (projr (auction_ExportGenesis ex_auctions2)) = Inr ex_auctions2"
proof (rule auction_genesis_round_trip [OF ref_sdk_laws ref_sort_law ref_foreign ex_auctions_reach])
  show "auction_ExportGenesis ex_auctions2 = Inr (projr (auction_ExportGenesis ex_auctions2))" by code_simp
  show "auction_params_Validate (ak_params ex_auctions2) = Inr ()" by code_simp
qed (simp add: ref_sdk_def)

end
