(* ===== verification/Bep3.thy ===== *)
theory Bep3
  imports Sdk_Reference Time_Index
begin

text \<open>
  The atomic swap module, \<open>x/bep3\<close>: swaps with their hash locks (\<open>types/swap.go\<close>,
  \<open>types/hash.go\<close>), asset parameters and supplies (\<open>types/params.go\<close>, \<open>types/supply.go\<close>,
  \<open>keeper/params.go\<close>, \<open>keeper/asset.go\<close>), the stores with the indexes by expiry and deletion height
  (\<open>keeper/keeper.go\<close>), creating, claiming, refunding and expiring swaps (\<open>keeper/swap.go\<close>), messages,
  the begin blocker and genesis. Bytes are characters. The hash \<open>tmhash.Sum\<close> and the set of module
  accounts the application passes to the keeper are arguments.
\<close>

section \<open>Hashes\<close>

type_synonym bytes = string
type_synonym hasher = "bytes \<Rightarrow> bytes"

definition RandomNumberLength :: nat where "RandomNumberLength = 32"
definition RandomNumberHashLength :: nat where "RandomNumberHashLength = 32"
definition SwapIDLength :: nat where "SwapIDLength = 32"
definition MaxOtherChainAddrLength :: nat where "MaxOtherChainAddrLength = 64"
definition DefaultLongtermStorageDuration :: uint64 where "DefaultLongtermStorageDuration = 86400"

definition be64 :: "uint64 \<Rightarrow> bytes" where
  \<comment> \<open>\<open>binary.BigEndian.PutUint64\<close>\<close>
  "be64 w = map (\<lambda>k. char_of (uint w div 256 ^ k)) [7, 6, 5, 4, 3, 2, 1, 0]"

definition CalculateRandomHash :: "hasher \<Rightarrow> bytes \<Rightarrow> int \<Rightarrow> bytes" where
  \<comment> \<open>the number is cut or padded with zeros to 32 bytes\<close>
  "CalculateRandomHash hash randomNumber timestamp =
     hash (take RandomNumberLength (randomNumber @ replicate RandomNumberLength (CHR 0x00)) @ be64 (word_of_int timestamp))"

definition ToLower :: "string \<Rightarrow> string" where
  \<comment> \<open>\<open>strings.ToLower\<close> on the ASCII text of an address\<close>
  "ToLower s = map (\<lambda>c. if CHR ''A'' \<le> c \<and> c \<le> CHR ''Z'' then char_of (of_char c + 32 :: nat) else c) s"

definition CalculateSwapID :: "hasher \<Rightarrow> bytes \<Rightarrow> address \<Rightarrow> string \<Rightarrow> bytes" where
  "CalculateSwapID hash randomNumberHash sender senderOtherChain =
     hash (randomNumberHash @ sender @ ToLower senderOtherChain)"

section \<open>Atomic swaps\<close>

text \<open>Enumerations decoded from protobuf may hold other numbers than the named ones.\<close>

datatype SwapStatus =
    SWAP_STATUS_UNSPECIFIED
  | SWAP_STATUS_OPEN
  | SWAP_STATUS_COMPLETED
  | SWAP_STATUS_EXPIRED
  | SWAP_STATUS_NUMBER int

datatype SwapDirection =
    SWAP_DIRECTION_UNSPECIFIED
  | SWAP_DIRECTION_INCOMING
  | SWAP_DIRECTION_OUTGOING
  | SWAP_DIRECTION_NUMBER int

record AtomicSwap =
  sw_Amount :: coins
  sw_RandomNumberHash :: bytes
  sw_ExpireHeight :: uint64
  sw_Timestamp :: int
  sw_Sender :: address
  sw_Recipient :: address
  sw_SenderOtherChain :: string
  sw_RecipientOtherChain :: string
  sw_ClosedBlock :: int
  sw_Status :: SwapStatus
  sw_CrossChain :: bool
  sw_Direction :: SwapDirection

definition NewAtomicSwap ::
    "coins \<Rightarrow> bytes \<Rightarrow> uint64 \<Rightarrow> int \<Rightarrow> address \<Rightarrow> address \<Rightarrow> string \<Rightarrow> string \<Rightarrow> int \<Rightarrow> SwapStatus \<Rightarrow> bool \<Rightarrow> SwapDirection \<Rightarrow> AtomicSwap" where
  "NewAtomicSwap amount rnh expireHeight timestamp sender recipient soc roc closedBlock status crossChain direction =
     \<lparr>sw_Amount = amount, sw_RandomNumberHash = rnh, sw_ExpireHeight = expireHeight, sw_Timestamp = timestamp,
      sw_Sender = sender, sw_Recipient = recipient, sw_SenderOtherChain = soc, sw_RecipientOtherChain = roc,
      sw_ClosedBlock = closedBlock, sw_Status = status, sw_CrossChain = crossChain, sw_Direction = direction\<rparr>"

definition GetSwapID :: "hasher \<Rightarrow> AtomicSwap \<Rightarrow> bytes" where
  "GetSwapID hash a = CalculateSwapID hash (sw_RandomNumberHash a) (sw_Sender a) (sw_SenderOtherChain a)"

definition bad_status :: "SwapStatus \<Rightarrow> bool" where
  "bad_status s = (case s of SWAP_STATUS_UNSPECIFIED \<Rightarrow> True | SWAP_STATUS_NUMBER n \<Rightarrow> n > 3 | _ \<Rightarrow> False)"

definition bad_direction :: "SwapDirection \<Rightarrow> bool" where
  "bad_direction s = (case s of SWAP_DIRECTION_UNSPECIFIED \<Rightarrow> True | SWAP_DIRECTION_NUMBER n \<Rightarrow> n > 2 | _ \<Rightarrow> False)"

definition AtomicSwap_Validate :: "sdk_math \<Rightarrow> AtomicSwap \<Rightarrow> unit result" where
  \<comment> \<open>\<open>IsAllPositive\<close> is false of the empty set of coins\<close>
  "AtomicSwap_Validate m a =
     (if \<not> coins_Valid m (sw_Amount a) then Inl (Err ''invalid amount'')
      else if sw_Amount a = [] \<or> list_ex (\<lambda>c. \<not> 0 < Amount c) (sw_Amount a) then Inl (Err ''the swapped out coin must be positive'')
      else if length (sw_RandomNumberHash a) \<noteq> RandomNumberHashLength then Inl (Err ''the length of random number hash should be 32'')
      else if sw_ExpireHeight a = 0 then Inl (Err ''expire height cannot be 0'')
      else if sw_Timestamp a = 0 then Inl (Err ''timestamp cannot be 0'')
      else if sw_Sender a = [] then Inl (Err ''ErrInvalidAddress'')
      else if sw_Recipient a = [] then Inl (Err ''ErrInvalidAddress'')
      else if list_all isSpace (sw_SenderOtherChain a) then Inl (Err ''ErrInvalidAddress'')
      else if list_all isSpace (sw_RecipientOtherChain a) then Inl (Err ''ErrInvalidAddress'')
      else if sw_Status a = SWAP_STATUS_COMPLETED \<and> sw_ClosedBlock a = 0 then Inl (Err ''closed block cannot be 0'')
      else if bad_status (sw_Status a) then Inl (Err ''invalid swap status'')
      else if bad_direction (sw_Direction a) then Inl (Err ''invalid swap direction'')
      else Inr ())"

section \<open>Asset parameters and supplies\<close>

record SupplyLimit =
  sl_Limit :: int
  sl_TimeLimited :: bool
  sl_TimePeriod :: duration
  sl_TimeBasedLimit :: int

record AssetParam =
  ap_Denom :: denom
  ap_CoinID :: int
  ap_SupplyLimit :: SupplyLimit
  ap_Active :: bool
  ap_DeputyAddress :: address
  ap_FixedFee :: int
  ap_MinSwapAmount :: int
  ap_MaxSwapAmount :: int
  ap_MinBlockLock :: uint64
  ap_MaxBlockLock :: uint64

fun validateAssetParams :: "sdk_math \<Rightarrow> denom list \<Rightarrow> AssetParam list \<Rightarrow> unit result" where
  "validateAssetParams m seen [] = Inr ()"
| "validateAssetParams m seen (a # as) =
     (if \<not> ValidDenom m (ap_Denom a) then Inl (Err ''asset denom invalid'')
      else if ap_CoinID a < 0 then Inl (Err ''coin id must be a non negative integer'')
      else if sl_Limit (ap_SupplyLimit a) < 0 then Inl (Err ''invalid (negative) supply limit'')
      else if sl_TimeBasedLimit (ap_SupplyLimit a) < 0 then Inl (Err ''invalid (negative) supply time limit'')
      else if sl_TimeBasedLimit (ap_SupplyLimit a) > sl_Limit (ap_SupplyLimit a) then Inl (Err ''cannot have supply time limit > supply limit'')
      else if ap_Denom a \<in> set seen then Inl (Err ''cannot have duplicate denom'')
      else if ap_DeputyAddress a = [] then Inl (Err ''deputy address cannot be empty'')
      else if ap_FixedFee a < 0 then Inl (Err ''cannot have a negative fixed fee'')
      else if ap_MinBlockLock a > ap_MaxBlockLock a then Inl (Err ''minimum block lock > maximum block lock'')
      else if \<not> 0 < ap_MinSwapAmount a then Inl (Err ''must have a positive minimum swap amount'')
      else if \<not> 0 < ap_MaxSwapAmount a then Inl (Err ''must have a positive maximum swap amount'')
      else if ap_MinSwapAmount a > ap_MaxSwapAmount a then Inl (Err ''minimum swap amount > maximum swap amount'')
      else validateAssetParams m (ap_Denom a # seen) as)"

record AssetSupply =
  as_IncomingSupply :: coin
  as_OutgoingSupply :: coin
  as_CurrentSupply :: coin
  as_TimeLimitedCurrentSupply :: coin
  as_TimeElapsed :: duration

definition GetDenom :: "AssetSupply \<Rightarrow> denom" where
  "GetDenom a = Denom (as_CurrentSupply a)"

definition AssetSupply_Validate :: "sdk_math \<Rightarrow> AssetSupply \<Rightarrow> unit result" where
  "AssetSupply_Validate m a =
     (if \<not> coin_IsValid m (as_IncomingSupply a) then Inl (Err ''ErrInvalidCoins'')
      else if \<not> coin_IsValid m (as_OutgoingSupply a) then Inl (Err ''ErrInvalidCoins'')
      else if \<not> coin_IsValid m (as_CurrentSupply a) then Inl (Err ''ErrInvalidCoins'')
      else if \<not> coin_IsValid m (as_TimeLimitedCurrentSupply a) then Inl (Err ''ErrInvalidCoins'')
      else let denom = Denom (as_CurrentSupply a) in
        if Denom (as_IncomingSupply a) \<noteq> denom \<or> Denom (as_OutgoingSupply a) \<noteq> denom \<or>
           Denom (as_TimeLimitedCurrentSupply a) \<noteq> denom
        then Inl (Err ''asset supply denoms do not match'') else Inr ())"

section \<open>The keeper's stores\<close>

text \<open>
  The keys of the two indexes are the height in big endian followed by the swap identifier, so their
  order is that of heights before identifiers.
\<close>

record 'b bep3_state =
  bk_swaps :: "(bytes, AtomicSwap) kv"
  bk_byBlock :: "(uint64 \<times> bytes, bytes) kv"
  bk_longterm :: "(uint64 \<times> bytes, bytes) kv"
  bk_supplies :: "(denom, AssetSupply) kv"
  bk_prevTime :: "time option"
  bk_params :: "AssetParam list"
  bk_bank :: 'b

definition bep3_module :: string where "bep3_module = ''bep3''"

definition SetAtomicSwap :: "hasher \<Rightarrow> 'b bep3_state \<Rightarrow> AtomicSwap \<Rightarrow> 'b bep3_state" where
  "SetAtomicSwap hash st a = st\<lparr>bk_swaps := kv_set (bk_swaps st) (GetSwapID hash a) a\<rparr>"

definition GetAtomicSwap :: "'b bep3_state \<Rightarrow> bytes \<Rightarrow> AtomicSwap option" where
  "GetAtomicSwap st swapID = kv_get (bk_swaps st) swapID"

definition RemoveAtomicSwap :: "'b bep3_state \<Rightarrow> bytes \<Rightarrow> 'b bep3_state" where
  "RemoveAtomicSwap st swapID = st\<lparr>bk_swaps := kv_del (bk_swaps st) swapID\<rparr>"

definition GetAllAtomicSwaps :: "'b bep3_state \<Rightarrow> AtomicSwap list" where
  "GetAllAtomicSwaps st = map snd (bk_swaps st)"

definition InsertIntoByBlockIndex :: "hasher \<Rightarrow> 'b bep3_state \<Rightarrow> AtomicSwap \<Rightarrow> 'b bep3_state" where
  "InsertIntoByBlockIndex hash st a =
     st\<lparr>bk_byBlock := kv_set (bk_byBlock st) (sw_ExpireHeight a, GetSwapID hash a) (GetSwapID hash a)\<rparr>"

definition RemoveFromByBlockIndex :: "hasher \<Rightarrow> 'b bep3_state \<Rightarrow> AtomicSwap \<Rightarrow> 'b bep3_state" where
  "RemoveFromByBlockIndex hash st a = st\<lparr>bk_byBlock := kv_del (bk_byBlock st) (sw_ExpireHeight a, GetSwapID hash a)\<rparr>"

definition swapsByBlock :: "'b bep3_state \<Rightarrow> uint64 \<Rightarrow> bytes list" where
  \<comment> \<open>the identifiers \<open>IterateAtomicSwapsByBlock\<close> visits, in its order\<close>
  "swapsByBlock st cutoff = map snd (filter (\<lambda>((h, i), v). h \<le> cutoff) (bk_byBlock st))"

definition deletionHeight :: "AtomicSwap \<Rightarrow> uint64" where
  "deletionHeight a = word_of_int (sw_ClosedBlock a) + DefaultLongtermStorageDuration"

definition InsertIntoLongtermStorage :: "hasher \<Rightarrow> 'b bep3_state \<Rightarrow> AtomicSwap \<Rightarrow> 'b bep3_state" where
  "InsertIntoLongtermStorage hash st a =
     st\<lparr>bk_longterm := kv_set (bk_longterm st) (deletionHeight a, GetSwapID hash a) (GetSwapID hash a)\<rparr>"

definition RemoveFromLongtermStorage :: "hasher \<Rightarrow> 'b bep3_state \<Rightarrow> AtomicSwap \<Rightarrow> 'b bep3_state" where
  "RemoveFromLongtermStorage hash st a = st\<lparr>bk_longterm := kv_del (bk_longterm st) (deletionHeight a, GetSwapID hash a)\<rparr>"

definition swapsLongterm :: "'b bep3_state \<Rightarrow> uint64 \<Rightarrow> bytes list" where
  \<comment> \<open>the identifiers \<open>IterateAtomicSwapsLongtermStorage\<close> visits, in its order\<close>
  "swapsLongterm st cutoff = map snd (filter (\<lambda>((h, i), v). h \<le> cutoff) (bk_longterm st))"

definition GetAssetSupply :: "'b bep3_state \<Rightarrow> denom \<Rightarrow> AssetSupply option" where
  "GetAssetSupply st d = kv_get (bk_supplies st) d"

definition SetAssetSupply :: "'b bep3_state \<Rightarrow> AssetSupply \<Rightarrow> denom \<Rightarrow> 'b bep3_state" where
  "SetAssetSupply st supply d = st\<lparr>bk_supplies := kv_set (bk_supplies st) d supply\<rparr>"

definition GetAllAssetSupplies :: "'b bep3_state \<Rightarrow> AssetSupply list" where
  "GetAllAssetSupplies st = map snd (bk_supplies st)"

section \<open>Parameters of an asset\<close>

definition GetAsset :: "'b bep3_state \<Rightarrow> denom \<Rightarrow> AssetParam result" where
  "GetAsset st d = (case find (\<lambda>a. d = ap_Denom a) (bk_params st) of
      Some a \<Rightarrow> Inr a | None \<Rightarrow> Inl (Err ''ErrAssetNotSupported''))"

definition SetAsset :: "sdk_math \<Rightarrow> 'b bep3_state \<Rightarrow> AssetParam \<Rightarrow> 'b bep3_state result" where
  \<comment> \<open>writing parameters panics when they fail their validation\<close>
  "SetAsset m st asset =
     (let params = map (\<lambda>a. if ap_Denom a = ap_Denom asset then asset else a) (bk_params st) in
      bnd (panic_on_err (validateAssetParams m [] params)) (\<lambda>_. Inr (st\<lparr>bk_params := params\<rparr>)))"

definition ValidateLiveAsset :: "'b bep3_state \<Rightarrow> coin \<Rightarrow> unit result" where
  "ValidateLiveAsset st c =
     bnd (GetAsset st (Denom c)) (\<lambda>asset.
     if \<not> ap_Active asset then Inl (Err ''ErrAssetNotActive'') else Inr ())"

definition GetSupplyLimit :: "'b bep3_state \<Rightarrow> denom \<Rightarrow> SupplyLimit result" where
  "GetSupplyLimit st d = bnd (GetAsset st d) (\<lambda>asset. Inr (ap_SupplyLimit asset))"

fun authorized :: "address list \<Rightarrow> AssetParam list \<Rightarrow> address list" where
  "authorized seen [] = []"
| "authorized seen (a # as) =
     (if ap_DeputyAddress a \<in> set seen then authorized seen as
      else ap_DeputyAddress a # authorized (ap_DeputyAddress a # seen) as)"

definition GetAuthorizedAddresses :: "'b bep3_state \<Rightarrow> address list" where
  "GetAuthorizedAddresses st = authorized [] (bk_params st)"

section \<open>Supply bookkeeping\<close>

definition get_supply :: "'b bep3_state \<Rightarrow> denom \<Rightarrow> AssetSupply result" where
  "get_supply st d = (case GetAssetSupply st d of
      Some s \<Rightarrow> Inr s | None \<Rightarrow> Inl (Err ''ErrAssetNotSupported''))"

definition IncrementCurrentAssetSupply :: "sdk_math \<Rightarrow> 'b bep3_state \<Rightarrow> coin \<Rightarrow> 'b bep3_state result" where
  "IncrementCurrentAssetSupply m st c =
     bnd (get_supply st (Denom c)) (\<lambda>supply.
     bnd (GetSupplyLimit st (Denom c)) (\<lambda>limit.
     bnd (NewCoin m (Denom c) (sl_Limit limit)) (\<lambda>supplyLimit.
     bnd (coin_Add m (as_CurrentSupply supply) c) (\<lambda>newSupply.
     bnd (coin_IsLT supplyLimit newSupply) (\<lambda>over.
     if over then Inl (Err ''ErrExceedsSupplyLimit'')
     else
       bnd (if sl_TimeLimited limit then
              bnd (NewCoin m (Denom c) (sl_TimeBasedLimit limit)) (\<lambda>timeBasedSupplyLimit.
              bnd (coin_Add m (as_TimeLimitedCurrentSupply supply) c) (\<lambda>newTimeLimited.
              bnd (coin_IsLT timeBasedSupplyLimit newTimeLimited) (\<lambda>over.
              if over then Inl (Err ''ErrExceedsTimeBasedSupplyLimit'')
              else Inr (supply\<lparr>as_TimeLimitedCurrentSupply := newTimeLimited\<rparr>))))
            else Inr supply) (\<lambda>supply1.
       Inr (SetAssetSupply st (supply1\<lparr>as_CurrentSupply := newSupply\<rparr>) (Denom c))))))))"

definition DecrementCurrentAssetSupply :: "sdk_math \<Rightarrow> 'b bep3_state \<Rightarrow> coin \<Rightarrow> 'b bep3_state result" where
  "DecrementCurrentAssetSupply m st c =
     bnd (get_supply st (Denom c)) (\<lambda>supply.
     bnd (toInt m (Amount (as_CurrentSupply supply) - Amount c)) (\<lambda>left.
     if left < 0 then Inl (Err ''ErrInvalidCurrentSupply'')
     else
       bnd (coin_Sub m (as_CurrentSupply supply) c) (\<lambda>newSupply.
       Inr (SetAssetSupply st (supply\<lparr>as_CurrentSupply := newSupply\<rparr>) (Denom c)))))"

definition IncrementIncomingAssetSupply :: "sdk_math \<Rightarrow> 'b bep3_state \<Rightarrow> coin \<Rightarrow> 'b bep3_state result" where
  "IncrementIncomingAssetSupply m st c =
     bnd (get_supply st (Denom c)) (\<lambda>supply.
     bnd (coin_Add m (as_CurrentSupply supply) (as_IncomingSupply supply)) (\<lambda>totalSupply.
     bnd (GetSupplyLimit st (Denom c)) (\<lambda>limit.
     bnd (NewCoin m (Denom c) (sl_Limit limit)) (\<lambda>supplyLimit.
     bnd (coin_Add m totalSupply c) (\<lambda>newTotal.
     bnd (coin_IsLT supplyLimit newTotal) (\<lambda>over.
     if over then Inl (Err ''ErrExceedsSupplyLimit'')
     else
       bnd (if sl_TimeLimited limit then
              bnd (coin_Add m (as_TimeLimitedCurrentSupply supply) (as_IncomingSupply supply)) (\<lambda>timeLimitedTotalSupply.
              bnd (NewCoin m (Denom c) (sl_TimeBasedLimit limit)) (\<lambda>timeBasedSupplyLimit.
              bnd (coin_Add m timeLimitedTotalSupply c) (\<lambda>newTimeLimited.
              bnd (coin_IsLT timeBasedSupplyLimit newTimeLimited) (\<lambda>over.
              if over then Inl (Err ''ErrExceedsTimeBasedSupplyLimit'') else Inr ()))))
            else Inr ()) (\<lambda>_.
       bnd (coin_Add m (as_IncomingSupply supply) c) (\<lambda>newIncoming.
       Inr (SetAssetSupply st (supply\<lparr>as_IncomingSupply := newIncoming\<rparr>) (Denom c))))))))))"

definition DecrementIncomingAssetSupply :: "sdk_math \<Rightarrow> 'b bep3_state \<Rightarrow> coin \<Rightarrow> 'b bep3_state result" where
  "DecrementIncomingAssetSupply m st c =
     bnd (get_supply st (Denom c)) (\<lambda>supply.
     bnd (toInt m (Amount (as_IncomingSupply supply) - Amount c)) (\<lambda>left.
     if left < 0 then Inl (Err ''ErrInvalidIncomingSupply'')
     else
       bnd (coin_Sub m (as_IncomingSupply supply) c) (\<lambda>newSupply.
       Inr (SetAssetSupply st (supply\<lparr>as_IncomingSupply := newSupply\<rparr>) (Denom c)))))"

definition IncrementOutgoingAssetSupply :: "sdk_math \<Rightarrow> 'b bep3_state \<Rightarrow> coin \<Rightarrow> 'b bep3_state result" where
  "IncrementOutgoingAssetSupply m st c =
     bnd (get_supply st (Denom c)) (\<lambda>supply.
     bnd (coin_Add m (as_OutgoingSupply supply) c) (\<lambda>newOutgoing.
     bnd (coin_IsLT (as_CurrentSupply supply) newOutgoing) (\<lambda>over.
     if over then
       \<comment> \<open>the message of the error shows the difference\<close>
       bnd (toInt m (Amount (as_CurrentSupply supply) - Amount (as_OutgoingSupply supply))) (\<lambda>_.
       Inl (Err ''ErrExceedsAvailableSupply''))
     else Inr (SetAssetSupply st (supply\<lparr>as_OutgoingSupply := newOutgoing\<rparr>) (Denom c)))))"

definition DecrementOutgoingAssetSupply :: "sdk_math \<Rightarrow> 'b bep3_state \<Rightarrow> coin \<Rightarrow> 'b bep3_state result" where
  "DecrementOutgoingAssetSupply m st c =
     bnd (get_supply st (Denom c)) (\<lambda>supply.
     bnd (toInt m (Amount (as_OutgoingSupply supply) - Amount c)) (\<lambda>left.
     if left < 0 then Inl (Err ''ErrInvalidOutgoingSupply'')
     else
       bnd (coin_Sub m (as_OutgoingSupply supply) c) (\<lambda>newSupply.
       Inr (SetAssetSupply st (supply\<lparr>as_OutgoingSupply := newSupply\<rparr>) (Denom c)))))"

definition CreateNewAssetSupply :: "sdk_math \<Rightarrow> 'b bep3_state \<Rightarrow> denom \<Rightarrow> ('b bep3_state \<times> AssetSupply) result" where
  "CreateNewAssetSupply m st d =
     bnd (NewCoin m d 0) (\<lambda>z.
     let supply = \<lparr>as_IncomingSupply = z, as_OutgoingSupply = z, as_CurrentSupply = z,
       as_TimeLimitedCurrentSupply = z, as_TimeElapsed = 0\<rparr>
     in Inr (SetAssetSupply st supply d, supply))"

definition update_time_limit :: "sdk_math \<Rightarrow> duration \<Rightarrow> AssetParam \<Rightarrow> 'b bep3_state \<Rightarrow> 'b bep3_state result" where
  "update_time_limit m timeElapsed asset st =
     bnd (case GetAssetSupply st (ap_Denom asset) of
            Some s \<Rightarrow> Inr (st, s) | None \<Rightarrow> CreateNewAssetSupply m st (ap_Denom asset)) (\<lambda>(st1, supply).
     let newTimeElapsed = int64_wrap (as_TimeElapsed supply + timeElapsed) in
     bnd (if sl_TimeLimited (ap_SupplyLimit asset) \<and> newTimeElapsed < sl_TimePeriod (ap_SupplyLimit asset)
          then Inr (supply\<lparr>as_TimeElapsed := newTimeElapsed\<rparr>)
          else bnd (NewCoin m (ap_Denom asset) 0) (\<lambda>z.
               Inr (supply\<lparr>as_TimeElapsed := 0, as_TimeLimitedCurrentSupply := z\<rparr>))) (\<lambda>supply1.
     Inr (SetAssetSupply st1 supply1 (ap_Denom asset))))"

definition UpdateTimeBasedSupplyLimits :: "sdk_math \<Rightarrow> time \<Rightarrow> 'b bep3_state \<Rightarrow> 'b bep3_state result" where
  "UpdateTimeBasedSupplyLimits m now st =
     (if bk_params st = [] then Inr st
      else
        let prev = (case bk_prevTime st of Some t \<Rightarrow> t | None \<Rightarrow> now) in
        bnd (foldR (update_time_limit m (time_Sub now prev)) (bk_params st) (st\<lparr>bk_prevTime := Some prev\<rparr>)) (\<lambda>st1.
        Inr (st1\<lparr>bk_prevTime := Some now\<rparr>)))"

section \<open>Swaps\<close>

definition bep3_deliver ::
    "'b sdk \<Rightarrow> AssetParam \<Rightarrow> 'b bep3_state \<Rightarrow> uint64 \<Rightarrow> address \<Rightarrow> address \<Rightarrow> coins \<Rightarrow> coin \<Rightarrow> SwapDirection \<Rightarrow> 'b bep3_state result" where
  \<comment> \<open>the part of \<open>CreateAtomicSwap\<close> that depends on the direction\<close>
  "bep3_deliver S asset st heightSpan sender recipient amount c direction =
     (case direction of
        SWAP_DIRECTION_INCOMING \<Rightarrow>
          let st1 = (if HasAccount S (bk_bank st) recipient then st
                     else st\<lparr>bk_bank := RegisterAccount S (bk_bank st) recipient\<rparr>)
          in IncrementIncomingAssetSupply (Math S) st1 c
      | SWAP_DIRECTION_OUTGOING \<Rightarrow>
          if heightSpan < ap_MinBlockLock asset \<or> heightSpan > ap_MaxBlockLock asset then Inl (Err ''ErrInvalidHeightSpan'')
          else
            bnd (toInt (Math S) (ap_FixedFee asset + ap_MinSwapAmount asset)) (\<lambda>least.
            if Amount c \<le> least then Inl (Err ''ErrInsufficientAmount'')
            else
              bnd (IncrementOutgoingAssetSupply (Math S) st c) (\<lambda>st1.
              bnd (SendCoinsFromAccountToModule S (bk_bank st1) sender bep3_module amount) (\<lambda>b.
              Inr (st1\<lparr>bk_bank := b\<rparr>))))
      | _ \<Rightarrow> Inl (Err ''invalid swap direction''))"

definition CreateAtomicSwap ::
    "'b sdk \<Rightarrow> hasher \<Rightarrow> (address \<Rightarrow> bool) \<Rightarrow> time \<Rightarrow> int \<Rightarrow> 'b bep3_state \<Rightarrow> bytes \<Rightarrow> int \<Rightarrow> uint64 \<Rightarrow> address \<Rightarrow> address
     \<Rightarrow> string \<Rightarrow> string \<Rightarrow> coins \<Rightarrow> bool \<Rightarrow> 'b bep3_state result" where
  "CreateAtomicSwap S hash maccs now height st randomNumberHash timestamp heightSpan sender recipient
      senderOtherChain recipientOtherChain amount crossChain =
     (if GetAtomicSwap st (CalculateSwapID hash randomNumberHash sender senderOtherChain) \<noteq> None
        then Inl (Err ''ErrAtomicSwapAlreadyExists'')
      else if maccs recipient then Inl (Err ''ErrUnauthorized'')
      else if length amount \<noteq> 1 then Inl (Err ''amount must contain exactly one coin'')
      else
        let c = amount ! 0 in
        bnd (GetAsset st (Denom c)) (\<lambda>asset.
        bnd (ValidateLiveAsset st c) (\<lambda>_.
        if Amount c < ap_MinSwapAmount asset \<or> Amount c > ap_MaxSwapAmount asset then Inl (Err ''ErrInvalidAmount'')
        else if timestamp < time_Unix (now - 15 * minute) \<or> timestamp \<ge> time_Unix (now + 30 * minute)
          then Inl (Err ''ErrInvalidTimestamp'')
        else
          bnd (if sender = ap_DeputyAddress asset then
                 if recipient = ap_DeputyAddress asset then Inl (Err ''ErrInvalidSwapAccount'')
                 else Inr SWAP_DIRECTION_INCOMING
               else if recipient \<noteq> ap_DeputyAddress asset then Inl (Err ''ErrInvalidSwapAccount'')
               else Inr SWAP_DIRECTION_OUTGOING) (\<lambda>direction.
          bnd (bep3_deliver S asset st heightSpan sender recipient amount c direction) (\<lambda>st1.
          let expireHeight = word_of_int height + heightSpan;
              a = NewAtomicSwap amount randomNumberHash expireHeight timestamp sender recipient
                    senderOtherChain recipientOtherChain 0 SWAP_STATUS_OPEN crossChain direction
          in Inr (InsertIntoByBlockIndex hash (SetAtomicSwap hash st1 a) a))))))"

definition ClaimAtomicSwap :: "'b sdk \<Rightarrow> hasher \<Rightarrow> int \<Rightarrow> 'b bep3_state \<Rightarrow> address \<Rightarrow> bytes \<Rightarrow> bytes \<Rightarrow> 'b bep3_state result" where
  "ClaimAtomicSwap S hash height st from swapID randomNumber =
     (case GetAtomicSwap st swapID of
        None \<Rightarrow> Inl (Err ''ErrAtomicSwapNotFound'')
      | Some a \<Rightarrow>
          if sw_Status a \<noteq> SWAP_STATUS_OPEN then Inl (Err ''ErrSwapNotClaimable'')
          else if CalculateSwapID hash (CalculateRandomHash hash randomNumber (sw_Timestamp a)) (sw_Sender a) (sw_SenderOtherChain a)
                    \<noteq> GetSwapID hash a
            then Inl (Err ''ErrInvalidClaimSecret'')
          else
            bnd (case sw_Direction a of
                   SWAP_DIRECTION_INCOMING \<Rightarrow>
                     bnd (idx (sw_Amount a) 0) (\<lambda>c.
                     bnd (DecrementIncomingAssetSupply (Math S) st c) (\<lambda>st1.
                     bnd (IncrementCurrentAssetSupply (Math S) st1 c) (\<lambda>st2.
                     bnd (MintCoins S (bk_bank st2) bep3_module (sw_Amount a)) (\<lambda>b1.
                     bnd (SendCoinsFromModuleToAccount S b1 bep3_module (sw_Recipient a) (sw_Amount a)) (\<lambda>b2.
                     Inr (st2\<lparr>bk_bank := b2\<rparr>))))))
                 | SWAP_DIRECTION_OUTGOING \<Rightarrow>
                     bnd (idx (sw_Amount a) 0) (\<lambda>c.
                     bnd (DecrementOutgoingAssetSupply (Math S) st c) (\<lambda>st1.
                     bnd (DecrementCurrentAssetSupply (Math S) st1 c) (\<lambda>st2.
                     bnd (BurnCoins S (bk_bank st2) bep3_module (sw_Amount a)) (\<lambda>b1.
                     Inr (st2\<lparr>bk_bank := b1\<rparr>)))))
                 | _ \<Rightarrow> Inl (Err ''invalid swap direction'')) (\<lambda>st3.
            let a' = a\<lparr>sw_Status := SWAP_STATUS_COMPLETED, sw_ClosedBlock := height\<rparr> in
            Inr (InsertIntoLongtermStorage hash (RemoveFromByBlockIndex hash (SetAtomicSwap hash st3 a') a') a')))"

definition RefundAtomicSwap :: "'b sdk \<Rightarrow> hasher \<Rightarrow> int \<Rightarrow> 'b bep3_state \<Rightarrow> address \<Rightarrow> bytes \<Rightarrow> 'b bep3_state result" where
  "RefundAtomicSwap S hash height st from swapID =
     (case GetAtomicSwap st swapID of
        None \<Rightarrow> Inl (Err ''ErrAtomicSwapNotFound'')
      | Some a \<Rightarrow>
          if sw_Status a \<noteq> SWAP_STATUS_EXPIRED then Inl (Err ''ErrSwapNotRefundable'')
          else
            bnd (case sw_Direction a of
                   SWAP_DIRECTION_INCOMING \<Rightarrow>
                     bnd (idx (sw_Amount a) 0) (DecrementIncomingAssetSupply (Math S) st)
                 | SWAP_DIRECTION_OUTGOING \<Rightarrow>
                     bnd (idx (sw_Amount a) 0) (\<lambda>c.
                     bnd (DecrementOutgoingAssetSupply (Math S) st c) (\<lambda>st1.
                     bnd (SendCoinsFromModuleToAccount S (bk_bank st1) bep3_module (sw_Sender a) (sw_Amount a)) (\<lambda>b.
                     Inr (st1\<lparr>bk_bank := b\<rparr>))))
                 | _ \<Rightarrow> Inl (Err ''invalid swap direction'')) (\<lambda>st1.
            let a' = a\<lparr>sw_Status := SWAP_STATUS_COMPLETED, sw_ClosedBlock := height\<rparr> in
            Inr (InsertIntoLongtermStorage hash (SetAtomicSwap hash st1 a') a')))"

text \<open>
  The sweeps over the indexes delete only entries of the swap being visited, so an iterator sees the
  identifiers that were due when it started.
\<close>

definition expire_swap :: "hasher \<Rightarrow> bytes \<Rightarrow> 'b bep3_state \<Rightarrow> 'b bep3_state" where
  "expire_swap hash i st =
     (case GetAtomicSwap st i of
        None \<Rightarrow> st
      | Some a \<Rightarrow>
          let a' = a\<lparr>sw_Status := SWAP_STATUS_EXPIRED\<rparr>
          in SetAtomicSwap hash (RemoveFromByBlockIndex hash st a') a')"

definition UpdateExpiredAtomicSwaps :: "hasher \<Rightarrow> int \<Rightarrow> 'b bep3_state \<Rightarrow> 'b bep3_state" where
  "UpdateExpiredAtomicSwaps hash height st = fold (expire_swap hash) (swapsByBlock st (word_of_int height)) st"

definition delete_closed :: "hasher \<Rightarrow> bytes \<Rightarrow> 'b bep3_state \<Rightarrow> 'b bep3_state" where
  "delete_closed hash i st =
     (case GetAtomicSwap st i of
        None \<Rightarrow> st
      | Some a \<Rightarrow> RemoveFromLongtermStorage hash (RemoveAtomicSwap st (GetSwapID hash a)) a)"

definition DeleteClosedAtomicSwapsFromLongtermStorage :: "hasher \<Rightarrow> int \<Rightarrow> 'b bep3_state \<Rightarrow> 'b bep3_state" where
  "DeleteClosedAtomicSwapsFromLongtermStorage hash height st =
     fold (delete_closed hash) (swapsLongterm st (word_of_int height)) st"

definition bep3_BeginBlocker :: "sdk_math \<Rightarrow> hasher \<Rightarrow> time \<Rightarrow> int \<Rightarrow> 'b bep3_state \<Rightarrow> 'b bep3_state result" where
  "bep3_BeginBlocker m hash now height st =
     bnd (UpdateTimeBasedSupplyLimits m now st) (\<lambda>st1.
     Inr (DeleteClosedAtomicSwapsFromLongtermStorage hash height (UpdateExpiredAtomicSwaps hash height st1)))"

section \<open>Messages\<close>

definition hex_digit :: "char \<Rightarrow> nat result" where
  "hex_digit c =
     (if CHR ''0'' \<le> c \<and> c \<le> CHR ''9'' then Inr (of_char c - 48)
      else if CHR ''a'' \<le> c \<and> c \<le> CHR ''f'' then Inr (of_char c - 87)
      else if CHR ''A'' \<le> c \<and> c \<le> CHR ''F'' then Inr (of_char c - 55)
      else Inl (Err ''encoding/hex: invalid byte''))"

fun hex_DecodeString :: "string \<Rightarrow> bytes result" where
  "hex_DecodeString [] = Inr []"
| "hex_DecodeString [c] = bnd (hex_digit c) (\<lambda>_. Inl (Err ''encoding/hex: odd length hex string''))"
| "hex_DecodeString (a # b # cs) =
     bnd (hex_digit a) (\<lambda>x. bnd (hex_digit b) (\<lambda>y. bnd (hex_DecodeString cs) (\<lambda>bs. Inr (char_of (16 * x + y) # bs))))"

record MsgCreateAtomicSwap =
  mc_From :: string
  mc_To :: string
  mc_RecipientOtherChain :: string
  mc_SenderOtherChain :: string
  mc_RandomNumberHash :: string
  mc_Timestamp :: int
  mc_Amount :: coins
  mc_HeightSpan :: uint64

definition wrap_address :: "address result \<Rightarrow> address result" where
  "wrap_address r = (case r of Inl (Err e) \<Rightarrow> Inl (Err ''ErrInvalidAddress'') | x \<Rightarrow> x)"

definition MsgCreateAtomicSwap_ValidateBasic :: "sdk_math \<Rightarrow> (string \<Rightarrow> address result) \<Rightarrow> MsgCreateAtomicSwap \<Rightarrow> unit result" where
  "MsgCreateAtomicSwap_ValidateBasic m bech32 msg =
     bnd (wrap_address (bech32 (mc_From msg))) (\<lambda>from.
     bnd (wrap_address (bech32 (mc_To msg))) (\<lambda>to.
     if from = [] then Inl (Err ''ErrInvalidAddress'')
     else if to = [] then Inl (Err ''ErrInvalidAddress'')
     else if list_all isSpace (mc_RecipientOtherChain msg) then Inl (Err ''missing recipient address on other chain'')
     else if length (mc_RecipientOtherChain msg) > MaxOtherChainAddrLength then Inl (Err ''recipient address on other chain too long'')
     else if length (mc_SenderOtherChain msg) > MaxOtherChainAddrLength then Inl (Err ''sender address on other chain too long'')
     else
       bnd (hex_DecodeString (mc_RandomNumberHash msg)) (\<lambda>h.
       if length h \<noteq> RandomNumberHashLength then Inl (Err ''the length of random number hash should be 32'')
       else if mc_Timestamp msg \<le> 0 then Inl (Err ''timestamp must be positive'')
       else if mc_Amount msg = [] then Inl (Err ''ErrInvalidCoins'')
       else if \<not> coins_Valid m (mc_Amount msg) then Inl (Err ''ErrInvalidCoins'')
       else if mc_HeightSpan msg \<le> 0 then Inl (Err ''height span must be positive'')
       else Inr ())))"

definition msg_CreateAtomicSwap ::
    "'b sdk \<Rightarrow> hasher \<Rightarrow> (address \<Rightarrow> bool) \<Rightarrow> (string \<Rightarrow> address result) \<Rightarrow> time \<Rightarrow> int \<Rightarrow> 'b bep3_state \<Rightarrow> MsgCreateAtomicSwap \<Rightarrow> 'b bep3_state result" where
  "msg_CreateAtomicSwap S hash maccs bech32 now height st msg =
     bnd (bech32 (mc_From msg)) (\<lambda>from.
     bnd (bech32 (mc_To msg)) (\<lambda>to.
     bnd (hex_DecodeString (mc_RandomNumberHash msg)) (\<lambda>h.
     CreateAtomicSwap S hash maccs now height st h (mc_Timestamp msg) (mc_HeightSpan msg) from to
       (mc_SenderOtherChain msg) (mc_RecipientOtherChain msg) (mc_Amount msg) True)))"

definition MsgClaimAtomicSwap_ValidateBasic :: "(string \<Rightarrow> address result) \<Rightarrow> string \<Rightarrow> string \<Rightarrow> string \<Rightarrow> unit result" where
  "MsgClaimAtomicSwap_ValidateBasic bech32 from swapID randomNumber =
     bnd (wrap_address (bech32 from)) (\<lambda>addr.
     if addr = [] then Inl (Err ''ErrInvalidAddress'')
     else
       bnd (hex_DecodeString swapID) (\<lambda>i.
       if length i \<noteq> SwapIDLength then Inl (Err ''the length of swapID should be 32'')
       else
         bnd (hex_DecodeString randomNumber) (\<lambda>r.
         if length r \<noteq> RandomNumberLength then Inl (Err ''the length of random number should be 32'') else Inr ())))"

definition msg_ClaimAtomicSwap ::
    "'b sdk \<Rightarrow> hasher \<Rightarrow> (string \<Rightarrow> address result) \<Rightarrow> int \<Rightarrow> 'b bep3_state \<Rightarrow> string \<Rightarrow> string \<Rightarrow> string \<Rightarrow> 'b bep3_state result" where
  "msg_ClaimAtomicSwap S hash bech32 height st from swapID randomNumber =
     bnd (bech32 from) (\<lambda>addr.
     bnd (hex_DecodeString swapID) (\<lambda>i.
     bnd (hex_DecodeString randomNumber) (\<lambda>r. ClaimAtomicSwap S hash height st addr i r)))"

definition MsgRefundAtomicSwap_ValidateBasic :: "(string \<Rightarrow> address result) \<Rightarrow> string \<Rightarrow> string \<Rightarrow> unit result" where
  "MsgRefundAtomicSwap_ValidateBasic bech32 from swapID =
     bnd (wrap_address (bech32 from)) (\<lambda>addr.
     if addr = [] then Inl (Err ''ErrInvalidAddress'')
     else
       bnd (hex_DecodeString swapID) (\<lambda>i.
       if length i \<noteq> SwapIDLength then Inl (Err ''the length of swapID should be 32'') else Inr ()))"

definition msg_RefundAtomicSwap ::
    "'b sdk \<Rightarrow> hasher \<Rightarrow> (string \<Rightarrow> address result) \<Rightarrow> int \<Rightarrow> 'b bep3_state \<Rightarrow> string \<Rightarrow> string \<Rightarrow> 'b bep3_state result" where
  "msg_RefundAtomicSwap S hash bech32 height st from swapID =
     bnd (bech32 from) (\<lambda>addr.
     bnd (hex_DecodeString swapID) (\<lambda>i. RefundAtomicSwap S hash height st addr i))"

section \<open>Genesis\<close>

record bep3_genesis =
  bg_Params :: "AssetParam list"
  bg_AtomicSwaps :: "AtomicSwap list"
  bg_Supplies :: "AssetSupply list"
  bg_PreviousBlockTime :: time

fun genesis_swaps_check :: "sdk_math \<Rightarrow> hasher \<Rightarrow> bytes list \<Rightarrow> AtomicSwap list \<Rightarrow> unit result" where
  "genesis_swaps_check m hash ids [] = Inr ()"
| "genesis_swaps_check m hash ids (a # as) =
     (if GetSwapID hash a \<in> set ids then Inl (Err ''found duplicate atomic swap ID'')
      else bnd (AtomicSwap_Validate m a) (\<lambda>_. genesis_swaps_check m hash (GetSwapID hash a # ids) as))"

fun genesis_supplies_check :: "sdk_math \<Rightarrow> denom list \<Rightarrow> AssetSupply list \<Rightarrow> unit result" where
  "genesis_supplies_check m ds [] = Inr ()"
| "genesis_supplies_check m ds (s # ss) =
     bnd (AssetSupply_Validate m s) (\<lambda>_.
     if GetDenom s \<in> set ds then Inl (Err ''found duplicate denom in asset supplies'')
     else genesis_supplies_check m (GetDenom s # ds) ss)"

definition bep3_genesis_Validate :: "sdk_math \<Rightarrow> hasher \<Rightarrow> bep3_genesis \<Rightarrow> unit result" where
  "bep3_genesis_Validate m hash gs =
     bnd (validateAssetParams m [] (bg_Params gs)) (\<lambda>_.
     bnd (genesis_swaps_check m hash [] (bg_AtomicSwaps gs)) (\<lambda>_.
     genesis_supplies_check m [] (bg_Supplies gs)))"

definition load_swap :: "'b sdk \<Rightarrow> hasher \<Rightarrow> AtomicSwap \<Rightarrow> 'b bep3_state \<times> coins \<times> coins \<Rightarrow> ('b bep3_state \<times> coins \<times> coins) result" where
  "load_swap S hash a = (\<lambda>(st, incoming, outgoing).
     if AtomicSwap_Validate (Math S) a \<noteq> Inr () then Inl (Panic ''invalid swap'')
     else
       bnd (idx (sw_Amount a) 0) (\<lambda>c.
       bnd (panic_on_err (ValidateLiveAsset st c)) (\<lambda>_.
       let st1 = SetAtomicSwap hash st a in
       case sw_Direction a of
         SWAP_DIRECTION_INCOMING \<Rightarrow>
           (case sw_Status a of
              SWAP_STATUS_OPEN \<Rightarrow>
                bnd (CoinsAdd S incoming (sw_Amount a)) (\<lambda>i. Inr (InsertIntoByBlockIndex hash st1 a, i, outgoing))
            | SWAP_STATUS_EXPIRED \<Rightarrow> bnd (CoinsAdd S incoming (sw_Amount a)) (\<lambda>i. Inr (st1, i, outgoing))
            | SWAP_STATUS_COMPLETED \<Rightarrow> Inr (InsertIntoLongtermStorage hash st1 a, incoming, outgoing)
            | _ \<Rightarrow> Inl (Panic ''swap has invalid status''))
       | SWAP_DIRECTION_OUTGOING \<Rightarrow>
           (case sw_Status a of
              SWAP_STATUS_OPEN \<Rightarrow>
                bnd (CoinsAdd S outgoing (sw_Amount a)) (\<lambda>out. Inr (InsertIntoByBlockIndex hash st1 a, incoming, out))
            | SWAP_STATUS_EXPIRED \<Rightarrow> bnd (CoinsAdd S outgoing (sw_Amount a)) (\<lambda>out. Inr (st1, incoming, out))
            | SWAP_STATUS_COMPLETED \<Rightarrow> Inr (InsertIntoLongtermStorage hash st1 a, incoming, outgoing)
            | _ \<Rightarrow> Inl (Panic ''swap has invalid status''))
       | _ \<Rightarrow> Inl (Panic ''swap has invalid direction''))))"

definition check_supply :: "sdk_math \<Rightarrow> 'b bep3_state \<Rightarrow> coins \<Rightarrow> coins \<Rightarrow> AssetSupply \<Rightarrow> unit result" where
  "check_supply m st incoming outgoing s =
     (if Amount (as_IncomingSupply s) \<noteq> AmountOf incoming (GetDenom s)
        then Inl (Panic ''incoming supply does not match amount in incoming atomic swaps'')
      else if Amount (as_OutgoingSupply s) \<noteq> AmountOf outgoing (GetDenom s)
        then Inl (Panic ''outgoing supply does not match amount in outgoing atomic swaps'')
      else
        bnd (panic_on_err (GetSupplyLimit st (GetDenom s))) (\<lambda>limit.
        if Amount (as_CurrentSupply s) > sl_Limit limit then Inl (Panic ''current supply is over the supply limit'')
        else if Amount (as_IncomingSupply s) > sl_Limit limit then Inl (Panic ''incoming supply is over the supply limit'')
        else
          bnd (toInt m (Amount (as_IncomingSupply s) + Amount (as_CurrentSupply s))) (\<lambda>both.
          if both > sl_Limit limit then Inl (Panic ''incoming supply + current supply is over the supply limit'')
          else if Amount (as_OutgoingSupply s) > sl_Limit limit then Inl (Panic ''outgoing supply is over the supply limit'')
          else Inr ())))"

definition bep3_InitGenesis :: "'b sdk \<Rightarrow> hasher \<Rightarrow> 'b bep3_state \<Rightarrow> bep3_genesis \<Rightarrow> 'b bep3_state result" where
  "bep3_InitGenesis S hash st gs =
     (if \<not> HasModuleAccount S (bk_bank st) bep3_module then Inl (Panic ''module account has not been set'')
      else if \<not> CanBurn S (bk_bank st) bep3_module then Inl (Panic ''module account does not have burn permissions'')
      else if \<not> CanMint S (bk_bank st) bep3_module then Inl (Panic ''module account does not have mint permissions'')
      else
        bnd (panic_on_err (bep3_genesis_Validate (Math S) hash gs)) (\<lambda>_.
        let st0 = fold (\<lambda>s st. SetAssetSupply st s (GetDenom s)) (bg_Supplies gs)
              (st\<lparr>bk_prevTime := Some (bg_PreviousBlockTime gs), bk_params := bg_Params gs\<rparr>) in
        bnd (foldR (load_swap S hash) (bg_AtomicSwaps gs) (st0, [], [])) (\<lambda>(st1, incoming, outgoing).
        bnd (foldR (\<lambda>s _. check_supply (Math S) st1 incoming outgoing s) (GetAllAssetSupplies st1) ()) (\<lambda>_.
        Inr st1))))"

definition DefaultPreviousBlockTime :: time where "DefaultPreviousBlockTime = second"

definition bep3_ExportGenesis :: "'b bep3_state \<Rightarrow> bep3_genesis" where
  "bep3_ExportGenesis st =
     \<lparr>bg_Params = bk_params st, bg_AtomicSwaps = GetAllAtomicSwaps st, bg_Supplies = GetAllAssetSupplies st,
      bg_PreviousBlockTime = (case bk_prevTime st of Some t \<Rightarrow> t | None \<Rightarrow> DefaultPreviousBlockTime)\<rparr>"

end
