(* ===== verification/Bep3_Safety.thy ===== *)
theory Bep3_Safety
  imports Bep3
begin

text \<open>
  What the atomic swap keeper guarantees: the two indexes mirror the swap store, the incoming and
  outgoing supplies are the sums of the swaps that are still pending, the module account holds
  exactly the outgoing ones, and a swap is paid out at most once.
\<close>

section \<open>The stores and their indexes\<close>

definition open_swap :: "'b bep3_state \<Rightarrow> bytes \<Rightarrow> AtomicSwap option" where
  "open_swap st i = (case GetAtomicSwap st i of
      Some a \<Rightarrow> if sw_Status a = SWAP_STATUS_OPEN then Some a else None | None \<Rightarrow> None)"

definition closed_swap :: "'b bep3_state \<Rightarrow> bytes \<Rightarrow> AtomicSwap option" where
  "closed_swap st i = (case GetAtomicSwap st i of
      Some a \<Rightarrow> if sw_Status a = SWAP_STATUS_COMPLETED then Some a else None | None \<Rightarrow> None)"

definition height_index :: "(uint64 \<times> bytes, bytes) kv \<Rightarrow> (AtomicSwap \<Rightarrow> uint64) \<Rightarrow> (bytes \<Rightarrow> AtomicSwap option) \<Rightarrow> bool" where
  "height_index s at get \<longleftrightarrow> kv_ok s \<and>
     (\<forall>h i v. kv_get s (h, i) = Some v \<longleftrightarrow> v = i \<and> (\<exists>a. get i = Some a \<and> at a = h))"

definition bep3_index :: "hasher \<Rightarrow> 'b bep3_state \<Rightarrow> bool" where
  "bep3_index hash st \<longleftrightarrow> kv_ok (bk_swaps st) \<and> (\<forall>i a. GetAtomicSwap st i = Some a \<longrightarrow> GetSwapID hash a = i) \<and>
     height_index (bk_byBlock st) sw_ExpireHeight (open_swap st) \<and>
     height_index (bk_longterm st) deletionHeight (closed_swap st)"

lemma height_index_due:
  assumes "height_index s at get"
  shows "i \<in> set (map snd (filter (\<lambda>((h, i), v). h \<le> t) s)) \<longleftrightarrow> (\<exists>a. get i = Some a \<and> at a \<le> t)"
    and "distinct (map snd (filter (\<lambda>((h, i), v). h \<le> t) s))"
proof -
  have ok: "kv_ok s" using assms by (simp add: height_index_def)
  have entry: "((h, j), v) \<in> set s \<longleftrightarrow> v = j \<and> (\<exists>a. get j = Some a \<and> at a = h)" for h j v
    using assms kv.entry_iff [OF ok] by (simp add: height_index_def)
  show "i \<in> set (map snd (filter (\<lambda>((h, i), v). h \<le> t) s)) \<longleftrightarrow> (\<exists>a. get i = Some a \<and> at a \<le> t)"
    using entry by (force simp: image_iff)
  have "distinct s" using kv.keys_distinct [OF ok] by (simp add: distinct_map)
  moreover have "inj_on snd (set s)" using entry by (fastforce intro!: inj_onI)
  ultimately show "distinct (map snd (filter (\<lambda>((h, i), v). h \<le> t) s))"
    by (auto simp: distinct_map intro: inj_on_subset)
qed

lemma height_index_insert:
  assumes "height_index s at get" "get i = None"
  shows "height_index (kv_set s (at a, i) i) at (get(i \<mapsto> a))"
  using assms by (auto simp: height_index_def)

lemma height_index_delete:
  assumes "height_index s at get" "get i = Some a" "at b = at a"
  shows "height_index (kv_del s (at b, i)) at (get(i := None))"
  using assms by (auto simp: height_index_def)

lemma bep3_indexD:
  assumes "bep3_index hash st"
  shows "kv_ok (bk_swaps st)" "GetAtomicSwap st i = Some a \<Longrightarrow> GetSwapID hash a = i"
    "height_index (bk_byBlock st) sw_ExpireHeight (open_swap st)"
    "height_index (bk_longterm st) deletionHeight (closed_swap st)"
  using assms by (simp_all add: bep3_index_def)

interpretation open_ix: due_index open_swap sw_ExpireHeight swapsByBlock "bep3_index hash" for hash
  by unfold_locales
    (simp add: swapsByBlock_def height_index_due(1) [OF bep3_indexD(3)] del: set_map,
     simp add: swapsByBlock_def height_index_due(2) [OF bep3_indexD(3)])

interpretation closed_ix: due_index closed_swap deletionHeight swapsLongterm "bep3_index hash" for hash
  by unfold_locales
    (simp add: swapsLongterm_def height_index_due(1) [OF bep3_indexD(4)] del: set_map,
     simp add: swapsLongterm_def height_index_due(2) [OF bep3_indexD(4)])

lemmas bep3_store_defs = SetAtomicSwap_def RemoveAtomicSwap_def InsertIntoByBlockIndex_def RemoveFromByBlockIndex_def
  InsertIntoLongtermStorage_def RemoveFromLongtermStorage_def SetAssetSupply_def

lemma bep3_fields [simp]:
  "bk_swaps (SetAtomicSwap hash st a) = kv_set (bk_swaps st) (GetSwapID hash a) a" "bk_byBlock (SetAtomicSwap hash st a) = bk_byBlock st" "bk_longterm (SetAtomicSwap hash st a) = bk_longterm st" "bk_supplies (SetAtomicSwap hash st a) = bk_supplies st" "bk_prevTime (SetAtomicSwap hash st a) = bk_prevTime st" "bk_params (SetAtomicSwap hash st a) = bk_params st" "bk_bank (SetAtomicSwap hash st a) = bk_bank st"
  "bk_swaps (RemoveAtomicSwap st i) = kv_del (bk_swaps st) i" "bk_byBlock (RemoveAtomicSwap st i) = bk_byBlock st" "bk_longterm (RemoveAtomicSwap st i) = bk_longterm st" "bk_supplies (RemoveAtomicSwap st i) = bk_supplies st" "bk_prevTime (RemoveAtomicSwap st i) = bk_prevTime st" "bk_params (RemoveAtomicSwap st i) = bk_params st" "bk_bank (RemoveAtomicSwap st i) = bk_bank st"
  "bk_swaps (InsertIntoByBlockIndex hash st a) = bk_swaps st" "bk_byBlock (InsertIntoByBlockIndex hash st a) = kv_set (bk_byBlock st) (sw_ExpireHeight a, GetSwapID hash a) (GetSwapID hash a)" "bk_longterm (InsertIntoByBlockIndex hash st a) = bk_longterm st" "bk_supplies (InsertIntoByBlockIndex hash st a) = bk_supplies st" "bk_prevTime (InsertIntoByBlockIndex hash st a) = bk_prevTime st" "bk_params (InsertIntoByBlockIndex hash st a) = bk_params st" "bk_bank (InsertIntoByBlockIndex hash st a) = bk_bank st"
  "bk_swaps (RemoveFromByBlockIndex hash st a) = bk_swaps st" "bk_byBlock (RemoveFromByBlockIndex hash st a) = kv_del (bk_byBlock st) (sw_ExpireHeight a, GetSwapID hash a)" "bk_longterm (RemoveFromByBlockIndex hash st a) = bk_longterm st" "bk_supplies (RemoveFromByBlockIndex hash st a) = bk_supplies st" "bk_prevTime (RemoveFromByBlockIndex hash st a) = bk_prevTime st" "bk_params (RemoveFromByBlockIndex hash st a) = bk_params st" "bk_bank (RemoveFromByBlockIndex hash st a) = bk_bank st"
  "bk_swaps (InsertIntoLongtermStorage hash st a) = bk_swaps st" "bk_byBlock (InsertIntoLongtermStorage hash st a) = bk_byBlock st" "bk_longterm (InsertIntoLongtermStorage hash st a) = kv_set (bk_longterm st) (deletionHeight a, GetSwapID hash a) (GetSwapID hash a)" "bk_supplies (InsertIntoLongtermStorage hash st a) = bk_supplies st" "bk_prevTime (InsertIntoLongtermStorage hash st a) = bk_prevTime st" "bk_params (InsertIntoLongtermStorage hash st a) = bk_params st" "bk_bank (InsertIntoLongtermStorage hash st a) = bk_bank st"
  "bk_swaps (RemoveFromLongtermStorage hash st a) = bk_swaps st" "bk_byBlock (RemoveFromLongtermStorage hash st a) = bk_byBlock st" "bk_longterm (RemoveFromLongtermStorage hash st a) = kv_del (bk_longterm st) (deletionHeight a, GetSwapID hash a)" "bk_supplies (RemoveFromLongtermStorage hash st a) = bk_supplies st" "bk_prevTime (RemoveFromLongtermStorage hash st a) = bk_prevTime st" "bk_params (RemoveFromLongtermStorage hash st a) = bk_params st" "bk_bank (RemoveFromLongtermStorage hash st a) = bk_bank st"
  "bk_swaps (SetAssetSupply st s d) = bk_swaps st" "bk_byBlock (SetAssetSupply st s d) = bk_byBlock st" "bk_longterm (SetAssetSupply st s d) = bk_longterm st" "bk_supplies (SetAssetSupply st s d) = kv_set (bk_supplies st) d s" "bk_prevTime (SetAssetSupply st s d) = bk_prevTime st" "bk_params (SetAssetSupply st s d) = bk_params st" "bk_bank (SetAssetSupply st s d) = bk_bank st"
  by (simp_all add: bep3_store_defs)

lemma GetSwapID_update [simp]:
  "GetSwapID hash (a\<lparr>sw_Status := s\<rparr>) = GetSwapID hash a" "GetSwapID hash (a\<lparr>sw_ClosedBlock := h\<rparr>) = GetSwapID hash a"
  by (simp_all add: GetSwapID_def)

lemma GetAtomicSwap_frame [simp]:
  "GetAtomicSwap (SetAtomicSwap hash st a) = (GetAtomicSwap st)(GetSwapID hash a \<mapsto> a)"
  "GetAtomicSwap (RemoveAtomicSwap st i) = (GetAtomicSwap st)(i := None)"
  "GetAtomicSwap (InsertIntoByBlockIndex hash st a) = GetAtomicSwap st"
  "GetAtomicSwap (RemoveFromByBlockIndex hash st a) = GetAtomicSwap st"
  "GetAtomicSwap (InsertIntoLongtermStorage hash st a) = GetAtomicSwap st"
  "GetAtomicSwap (RemoveFromLongtermStorage hash st a) = GetAtomicSwap st"
  "GetAtomicSwap (SetAssetSupply st s d) = GetAtomicSwap st"
  "GetAtomicSwap (st\<lparr>bk_bank := b\<rparr>) = GetAtomicSwap st"
  by (simp_all add: fun_eq_iff GetAtomicSwap_def)

lemma indexed_swap_cong:
  "GetAtomicSwap st' = GetAtomicSwap st \<Longrightarrow> open_swap st' = open_swap st"
  "GetAtomicSwap st' = GetAtomicSwap st \<Longrightarrow> closed_swap st' = closed_swap st"
  by (simp_all add: fun_eq_iff open_swap_def closed_swap_def)

lemma indexed_swap_set:
  "GetAtomicSwap st' = (GetAtomicSwap st)(i \<mapsto> a) \<Longrightarrow>
     open_swap st' = (open_swap st)(i := if sw_Status a = SWAP_STATUS_OPEN then Some a else None)"
  "GetAtomicSwap st' = (GetAtomicSwap st)(i \<mapsto> a) \<Longrightarrow>
     closed_swap st' = (closed_swap st)(i := if sw_Status a = SWAP_STATUS_COMPLETED then Some a else None)"
  by (simp_all add: fun_eq_iff open_swap_def closed_swap_def)

lemma indexed_swap_drop:
  "GetAtomicSwap st' = (GetAtomicSwap st)(i := None) \<Longrightarrow> open_swap st' = (open_swap st)(i := None)"
  "GetAtomicSwap st' = (GetAtomicSwap st)(i := None) \<Longrightarrow> closed_swap st' = (closed_swap st)(i := None)"
  by (simp_all add: fun_eq_iff open_swap_def closed_swap_def)

lemma bep3_index_frame:
  "bk_swaps st' = bk_swaps st \<Longrightarrow> bk_byBlock st' = bk_byBlock st \<Longrightarrow> bk_longterm st' = bk_longterm st \<Longrightarrow>
   bep3_index hash st \<Longrightarrow> bep3_index hash st'"
  using indexed_swap_cong [of st' st] by (simp add: bep3_index_def GetAtomicSwap_def [abs_def])

lemma fun_upd_same_None: "f i = None \<Longrightarrow> f(i := None) = f"
  by (simp add: fun_upd_idem)

lemma bep3_index_create:
  assumes "bep3_index hash st" "GetAtomicSwap st (GetSwapID hash a) = None" "sw_Status a = SWAP_STATUS_OPEN"
  shows "bep3_index hash (InsertIntoByBlockIndex hash (SetAtomicSwap hash st a) a)"
proof -
  let ?st = "InsertIntoByBlockIndex hash (SetAtomicSwap hash st a) a"
  have g: "GetAtomicSwap ?st = (GetAtomicSwap st)(GetSwapID hash a \<mapsto> a)" by simp
  have none: "open_swap st (GetSwapID hash a) = None" "closed_swap st (GetSwapID hash a) = None"
    using assms(2) by (simp_all add: open_swap_def closed_swap_def)
  have "height_index (bk_byBlock ?st) sw_ExpireHeight (open_swap ?st)"
    using height_index_insert [OF bep3_indexD(3) [OF assms(1)] none(1), of a] assms(3)
    unfolding indexed_swap_set(1) [OF g] by simp
  moreover have "height_index (bk_longterm ?st) deletionHeight (closed_swap ?st)"
    using bep3_indexD(4) [OF assms(1)] assms(3) none(2)
    unfolding indexed_swap_set(2) [OF g] by (simp add: fun_upd_same_None)
  ultimately show ?thesis
    using bep3_indexD(1,2) [OF assms(1)] unfolding bep3_index_def g by auto
qed

lemma bep3_index_close:
  assumes ix: "bep3_index hash st" and a: "GetAtomicSwap st i = Some a" and s: "sw_Status a = SWAP_STATUS_OPEN \<or> sw_Status a = SWAP_STATUS_EXPIRED"
    and a': "a' = a\<lparr>sw_Status := SWAP_STATUS_COMPLETED, sw_ClosedBlock := h\<rparr>"
    and st': "st' = (if sw_Status a = SWAP_STATUS_OPEN then RemoveFromByBlockIndex hash (SetAtomicSwap hash st a') a' else SetAtomicSwap hash st a')"
  shows "bep3_index hash (InsertIntoLongtermStorage hash st' a')"
proof -
  let ?st = "InsertIntoLongtermStorage hash st' a'"
  have id: "GetSwapID hash a = i" "GetSwapID hash a' = i" using bep3_indexD(2) [OF ix a] by (simp_all add: a')
  have g: "GetAtomicSwap ?st = (GetAtomicSwap st)(i \<mapsto> a')" using id by (simp add: st')
  have cl: "closed_swap st i = None" and op: "open_swap st i = (if sw_Status a = SWAP_STATUS_OPEN then Some a else None)"
    using a s by (auto simp: closed_swap_def open_swap_def)
  have "height_index (bk_longterm ?st) deletionHeight (closed_swap ?st)"
    using height_index_insert [OF bep3_indexD(4) [OF ix] cl, of a'] id
    unfolding indexed_swap_set(2) [OF g] by (simp add: st' a')
  moreover have "height_index (bk_byBlock ?st) sw_ExpireHeight (open_swap ?st)"
    using height_index_delete [OF bep3_indexD(3) [OF ix], of i a a'] bep3_indexD(3) [OF ix] op id
    unfolding indexed_swap_set(1) [OF g] by (simp add: st' fun_upd_same_None a')
  ultimately show ?thesis
    using bep3_indexD(1,2) [OF ix] id unfolding bep3_index_def g by (auto simp: st')
qed

lemma bep3_index_expire:
  assumes ix: "bep3_index hash st" and a: "GetAtomicSwap st i = Some a" "sw_Status a = SWAP_STATUS_OPEN"
    and a': "a' = a\<lparr>sw_Status := SWAP_STATUS_EXPIRED\<rparr>"
  shows "bep3_index hash (SetAtomicSwap hash (RemoveFromByBlockIndex hash st a') a')"
proof -
  let ?st = "SetAtomicSwap hash (RemoveFromByBlockIndex hash st a') a'"
  have id: "GetSwapID hash a = i" "GetSwapID hash a' = i" using bep3_indexD(2) [OF ix a(1)] by (simp_all add: a')
  have g: "GetAtomicSwap ?st = (GetAtomicSwap st)(i \<mapsto> a')" using id by simp
  have cl: "closed_swap st i = None" and op: "open_swap st i = Some a" using a by (auto simp: closed_swap_def open_swap_def)
  have "height_index (bk_longterm ?st) deletionHeight (closed_swap ?st)"
    using bep3_indexD(4) [OF ix] cl
    unfolding indexed_swap_set(2) [OF g] by (simp add: a' fun_upd_same_None)
  moreover have "height_index (bk_byBlock ?st) sw_ExpireHeight (open_swap ?st)"
    using height_index_delete [OF bep3_indexD(3) [OF ix], of i a a'] op id
    unfolding indexed_swap_set(1) [OF g] by (simp add: a')
  ultimately show ?thesis
    using bep3_indexD(1,2) [OF ix] id unfolding bep3_index_def g by auto
qed

lemma bep3_index_delete:
  assumes ix: "bep3_index hash st" and a: "GetAtomicSwap st i = Some a" "sw_Status a = SWAP_STATUS_COMPLETED"
  shows "bep3_index hash (RemoveFromLongtermStorage hash (RemoveAtomicSwap st (GetSwapID hash a)) a)"
proof -
  let ?st = "RemoveFromLongtermStorage hash (RemoveAtomicSwap st (GetSwapID hash a)) a"
  have id: "GetSwapID hash a = i" using bep3_indexD(2) [OF ix a(1)] by simp
  have g: "GetAtomicSwap ?st = (GetAtomicSwap st)(i := None)" using id by simp
  have cl: "closed_swap st i = Some a" and op: "open_swap st i = None" using a by (auto simp: closed_swap_def open_swap_def)
  have "height_index (bk_longterm ?st) deletionHeight (closed_swap ?st)"
    using height_index_delete [OF bep3_indexD(4) [OF ix] cl, of a] id
    unfolding indexed_swap_drop(2) [OF g] by simp
  moreover have "height_index (bk_byBlock ?st) sw_ExpireHeight (open_swap ?st)"
    using bep3_indexD(3) [OF ix] op unfolding indexed_swap_drop(1) [OF g] by (simp add: fun_upd_same_None)
  ultimately show ?thesis
    using bep3_indexD(1,2) [OF ix] unfolding bep3_index_def g by auto
qed

section \<open>The invariant\<close>

text \<open>What a swap still has to pay out, by direction.\<close>

definition pending :: "SwapDirection \<Rightarrow> denom \<Rightarrow> AtomicSwap \<Rightarrow> int" where
  "pending dir d a =
     (if sw_Direction a = dir \<and> sw_Status a \<in> {SWAP_STATUS_OPEN, SWAP_STATUS_EXPIRED} then AmountOf (sw_Amount a) d else 0)"

definition pending_total :: "'b bep3_state \<Rightarrow> SwapDirection \<Rightarrow> denom \<Rightarrow> int" where
  "pending_total st dir d = (\<Sum>(i, a)\<leftarrow>bk_swaps st. pending dir d a)"

definition swap_wf :: "'b sdk \<Rightarrow> AtomicSwap \<Rightarrow> bool" where
  "swap_wf S a \<longleftrightarrow> (\<exists>c. sw_Amount a = [c] \<and> 0 < Amount c) \<and>
     sw_Direction a \<in> {SWAP_DIRECTION_INCOMING, SWAP_DIRECTION_OUTGOING} \<and>
     sw_Status a \<in> {SWAP_STATUS_OPEN, SWAP_STATUS_EXPIRED, SWAP_STATUS_COMPLETED} \<and>
     sw_Sender a \<noteq> ModuleAddress S bep3_module \<and> sw_Recipient a \<noteq> ModuleAddress S bep3_module"

definition supply_wf :: "sdk_math \<Rightarrow> denom \<Rightarrow> AssetSupply \<Rightarrow> bool" where
  "supply_wf m d s \<longleftrightarrow>
     Denom (as_IncomingSupply s) = d \<and> Denom (as_OutgoingSupply s) = d \<and> Denom (as_CurrentSupply s) = d \<and>
     Denom (as_TimeLimitedCurrentSupply s) = d \<and>
     IntInRange m (Amount (as_CurrentSupply s)) \<and> IntInRange m (Amount (as_IncomingSupply s)) \<and>
     0 \<le> Amount (as_TimeLimitedCurrentSupply s) \<and> Amount (as_OutgoingSupply s) \<le> Amount (as_CurrentSupply s)"

abbreviation bep3_funds :: "'b sdk \<Rightarrow> 'b \<Rightarrow> denom \<Rightarrow> int" where
  "bep3_funds S b \<equiv> GetBalance S b (ModuleAddress S bep3_module)"

definition bep3_inv :: "'b sdk \<Rightarrow> hasher \<Rightarrow> 'b bep3_state \<Rightarrow> bool" where
  "bep3_inv S hash st \<longleftrightarrow> bep3_index hash st \<and> kv_ok (bk_supplies st) \<and>
     validateAssetParams (Math S) [] (bk_params st) = Inr () \<and>
     (\<forall>i a. GetAtomicSwap st i = Some a \<longrightarrow> swap_wf S a \<and> GetAssetSupply st (Denom (hd (sw_Amount a))) \<noteq> None) \<and>
     (\<forall>d s. GetAssetSupply st d = Some s \<longrightarrow> supply_wf (Math S) d s \<and>
        Amount (as_IncomingSupply s) = pending_total st SWAP_DIRECTION_INCOMING d \<and>
        Amount (as_OutgoingSupply s) = pending_total st SWAP_DIRECTION_OUTGOING d) \<and>
     (\<forall>d. bep3_funds S (bk_bank st) d = pending_total st SWAP_DIRECTION_OUTGOING d)"

lemma bep3_invD:
  assumes "bep3_inv S hash st"
  shows "bep3_index hash st" "kv_ok (bk_supplies st)" "kv_ok (bk_swaps st)"
    "GetAtomicSwap st i = Some a \<Longrightarrow> swap_wf S a"
    "GetAtomicSwap st i = Some a \<Longrightarrow> \<exists>s. GetAssetSupply st (Denom (hd (sw_Amount a))) = Some s"
    "GetAssetSupply st d = Some s \<Longrightarrow> supply_wf (Math S) d s"
    "GetAssetSupply st d = Some s \<Longrightarrow> Amount (as_IncomingSupply s) = pending_total st SWAP_DIRECTION_INCOMING d"
    "GetAssetSupply st d = Some s \<Longrightarrow> Amount (as_OutgoingSupply s) = pending_total st SWAP_DIRECTION_OUTGOING d"
    "bep3_funds S (bk_bank st) d = pending_total st SWAP_DIRECTION_OUTGOING d"
    "GetAtomicSwap st i = Some a \<Longrightarrow> GetSwapID hash a = i"
    "validateAssetParams (Math S) [] (bk_params st) = Inr ()"
  using assms bep3_indexD(1,2) [of hash st] by (auto simp: bep3_inv_def)

lemma GetAssetSupply_frame [simp]:
  "GetAssetSupply (SetAssetSupply st s d) = (GetAssetSupply st)(d \<mapsto> s)"
  "GetAssetSupply (SetAtomicSwap hash st a) = GetAssetSupply st"
  "GetAssetSupply (RemoveAtomicSwap st i) = GetAssetSupply st"
  "GetAssetSupply (InsertIntoByBlockIndex hash st a) = GetAssetSupply st"
  "GetAssetSupply (RemoveFromByBlockIndex hash st a) = GetAssetSupply st"
  "GetAssetSupply (InsertIntoLongtermStorage hash st a) = GetAssetSupply st"
  "GetAssetSupply (RemoveFromLongtermStorage hash st a) = GetAssetSupply st"
  "GetAssetSupply (st\<lparr>bk_bank := b\<rparr>) = GetAssetSupply st"
  by (simp_all add: fun_eq_iff GetAssetSupply_def)

lemma pending_cases:
  "swap_wf S a \<Longrightarrow> 0 \<le> pending dir d a"
  "swap_wf S a \<Longrightarrow> d \<noteq> Denom (hd (sw_Amount a)) \<Longrightarrow> pending dir d a = 0"
  by (auto simp: pending_def swap_wf_def)

text \<open>How the pending totals change with the swap stored under one identifier.\<close>

definition opt_pending :: "SwapDirection \<Rightarrow> denom \<Rightarrow> AtomicSwap option \<Rightarrow> int" where
  "opt_pending dir d oa = (case oa of None \<Rightarrow> 0 | Some a \<Rightarrow> pending dir d a)"

lemma opt_pending_simps [simp]: "opt_pending dir d None = 0" "opt_pending dir d (Some a) = pending dir d a"
  by (simp_all add: opt_pending_def)

lemma pending_total_upd:
  assumes "kv_ok (bk_swaps st)" "bk_swaps st' = kv_upd (bk_swaps st) i oa"
  shows "pending_total st' dir d = pending_total st dir d - opt_pending dir d (GetAtomicSwap st i) + opt_pending dir d oa"
  unfolding pending_total_def assms(2) opt_pending_def GetAtomicSwap_def using kv_total_upd [OF assms(1)] by auto

lemma pending_member:
  assumes "bep3_inv S hash st" "GetAtomicSwap st i = Some a"
  shows "pending dir d a \<le> pending_total st dir d"
  unfolding pending_total_def
proof (rule kv.total_member_le [of "bk_swaps st" i a "\<lambda>_. pending dir d"])
  show "0 \<le> pending dir d w" if "kv_get (bk_swaps st) j = Some w" for j w
    using pending_cases(1) [OF bep3_invD(4) [OF assms(1)]] that by (simp add: GetAtomicSwap_def)
qed (use assms(2) bep3_invD(3) [OF assms(1)] in \<open>simp_all add: GetAtomicSwap_def\<close>)

text \<open>
  The invariant survives a change of one swap, when the supply of its denomination and the
  module account change by the same amounts.
\<close>

lemma bep3_inv_upd:
  assumes inv: "bep3_inv S hash st" and ix: "bep3_index hash st'" and par: "bk_params st' = bk_params st"
    and sw: "bk_swaps st' = kv_upd (bk_swaps st) i oa" and wf: "\<And>a. oa = Some a \<Longrightarrow> swap_wf S a \<and> Denom (hd (sw_Amount a)) = d0"
    and old: "\<And>a. GetAtomicSwap st i = Some a \<Longrightarrow> Denom (hd (sw_Amount a)) = d0"
    and sup: "bk_supplies st' = kv_set (bk_supplies st) d0 s'" "GetAssetSupply st d0 = Some s" "supply_wf (Math S) d0 s'"
    and inc: "Amount (as_IncomingSupply s') = Amount (as_IncomingSupply s)
       - opt_pending SWAP_DIRECTION_INCOMING d0 (GetAtomicSwap st i) + opt_pending SWAP_DIRECTION_INCOMING d0 oa"
    and out: "Amount (as_OutgoingSupply s') = Amount (as_OutgoingSupply s)
       - opt_pending SWAP_DIRECTION_OUTGOING d0 (GetAtomicSwap st i) + opt_pending SWAP_DIRECTION_OUTGOING d0 oa"
    and funds: "\<And>d. bep3_funds S (bk_bank st') d = bep3_funds S (bk_bank st) d
       - opt_pending SWAP_DIRECTION_OUTGOING d (GetAtomicSwap st i) + opt_pending SWAP_DIRECTION_OUTGOING d oa"
  shows "bep3_inv S hash st'"
proof -
  note I = bep3_invD [OF inv]
  note tot = pending_total_upd [OF I(3) sw]
  have g: "GetAtomicSwap st' = (GetAtomicSwap st)(i := oa)" by (simp add: fun_eq_iff GetAtomicSwap_def sw)
  have gs: "GetAssetSupply st' = (GetAssetSupply st)(d0 \<mapsto> s')" by (simp add: fun_eq_iff GetAssetSupply_def sup(1))
  have other: "opt_pending dir d (GetAtomicSwap st i) = 0" "opt_pending dir d oa = 0" if "d \<noteq> d0" for d dir
    using that pending_cases(2) [of S] wf old I(4) by (cases "GetAtomicSwap st i"; cases oa; simp)+
  show ?thesis
    unfolding bep3_inv_def
  proof (intro conjI allI impI)
    show "bep3_index hash st'" by fact
    show "validateAssetParams (Math S) [] (bk_params st') = Inr ()" using I(11) by (simp add: par)
    show "kv_ok (bk_supplies st')" using I(2) by (simp add: sup(1))
    fix d
    show "bep3_funds S (bk_bank st') d = pending_total st' SWAP_DIRECTION_OUTGOING d" by (simp add: funds tot I(9))
  next
    fix j a assume "GetAtomicSwap st' j = Some a"
    then have "swap_wf S a \<and> (\<exists>s. GetAssetSupply st (Denom (hd (sw_Amount a))) = Some s)"
      using wf sup(2) I(4) I(5) by (auto simp: g split: if_splits)
    then show "swap_wf S a" "GetAssetSupply st' (Denom (hd (sw_Amount a))) \<noteq> None" by (auto simp: gs)
  next
    fix d t assume t: "GetAssetSupply st' d = Some t"
    have "supply_wf (Math S) d t \<and> Amount (as_IncomingSupply t) = pending_total st' SWAP_DIRECTION_INCOMING d \<and>
        Amount (as_OutgoingSupply t) = pending_total st' SWAP_DIRECTION_OUTGOING d"
    proof (cases "d = d0")
      case True
      then show ?thesis using t sup(3) inc out I(7) [OF sup(2)] I(8) [OF sup(2)] by (simp add: gs tot)
    next
      case False
      then have "GetAssetSupply st d = Some t" using t by (simp add: gs)
      then show ?thesis using I(6-8) by (simp add: tot other [OF False])
    qed
    then show "supply_wf (Math S) d t" "Amount (as_IncomingSupply t) = pending_total st' SWAP_DIRECTION_INCOMING d"
      "Amount (as_OutgoingSupply t) = pending_total st' SWAP_DIRECTION_OUTGOING d" by auto
  qed
qed

section \<open>Supply bookkeeping\<close>

lemma get_supply_Inr [simp]: "get_supply st d = Inr s \<longleftrightarrow> GetAssetSupply st d = Some s"
  by (simp add: get_supply_def split: option.splits)

lemma IncrementIncoming_ok:
  assumes wf: "\<And>s. GetAssetSupply st (Denom c) = Some s \<Longrightarrow> supply_wf m (Denom c) s"
    and ok: "IncrementIncomingAssetSupply m st c = Inr st'"
  obtains s limit s' where "GetAssetSupply st (Denom c) = Some s" "GetSupplyLimit st (Denom c) = Inr limit"
    "s' = s\<lparr>as_IncomingSupply := Coin (Denom (as_IncomingSupply s)) (Amount (as_IncomingSupply s) + Amount c)\<rparr>"
    "st' = SetAssetSupply st s' (Denom c)" "IntInRange m (Amount (as_IncomingSupply s) + Amount c)"
    "Amount (as_CurrentSupply s) + Amount (as_IncomingSupply s) + Amount c \<le> sl_Limit limit"
    "sl_TimeLimited limit \<Longrightarrow> Amount (as_TimeLimitedCurrentSupply s) + Amount (as_IncomingSupply s) + Amount c \<le> sl_TimeBasedLimit limit"
proof -
  obtain s limit where s: "GetAssetSupply st (Denom c) = Some s" "GetSupplyLimit st (Denom c) = Inr limit"
    using ok unfolding IncrementIncomingAssetSupply_def by auto
  have get: "get_supply st (Denom c) = Inr s" using s by simp
  have d: "Denom (as_IncomingSupply s) = Denom c" "Denom (as_CurrentSupply s) = Denom c" "Denom (as_TimeLimitedCurrentSupply s) = Denom c"
    using wf [OF s(1)] by (simp_all add: supply_wf_def)
  show ?thesis
    by (rule that [OF s refl])
      (use ok in \<open>simp_all add: IncrementIncomingAssetSupply_def get s(2) d not_less split: if_splits\<close>)
qed

lemma IncrementOutgoing_ok:
  assumes "IncrementOutgoingAssetSupply m st c = Inr st'"
  obtains s s' where "GetAssetSupply st (Denom c) = Some s"
    "s' = s\<lparr>as_OutgoingSupply := Coin (Denom (as_OutgoingSupply s)) (Amount (as_OutgoingSupply s) + Amount c)\<rparr>"
    "st' = SetAssetSupply st s' (Denom c)" "Amount (as_OutgoingSupply s) + Amount c \<le> Amount (as_CurrentSupply s)"
  using assms unfolding IncrementOutgoingAssetSupply_def by (auto simp: not_less split: if_splits)

lemma IncrementCurrent_ok:
  assumes wf: "\<And>s. GetAssetSupply st (Denom c) = Some s \<Longrightarrow> supply_wf m (Denom c) s"
    and ok: "IncrementCurrentAssetSupply m st c = Inr st'"
  obtains s limit s' where "GetAssetSupply st (Denom c) = Some s" "GetSupplyLimit st (Denom c) = Inr limit"
    "s' = s\<lparr>as_TimeLimitedCurrentSupply := (if sl_TimeLimited limit
         then Coin (Denom (as_TimeLimitedCurrentSupply s)) (Amount (as_TimeLimitedCurrentSupply s) + Amount c)
         else as_TimeLimitedCurrentSupply s),
       as_CurrentSupply := Coin (Denom (as_CurrentSupply s)) (Amount (as_CurrentSupply s) + Amount c)\<rparr>"
    "st' = SetAssetSupply st s' (Denom c)" "IntInRange m (Amount (as_CurrentSupply s) + Amount c)"
    "Amount (as_CurrentSupply s) + Amount c \<le> sl_Limit limit"
proof -
  obtain s limit where s: "GetAssetSupply st (Denom c) = Some s" "GetSupplyLimit st (Denom c) = Inr limit"
    using ok unfolding IncrementCurrentAssetSupply_def by auto
  have get: "get_supply st (Denom c) = Inr s" using s by simp
  have d: "Denom (as_IncomingSupply s) = Denom c" "Denom (as_CurrentSupply s) = Denom c" "Denom (as_TimeLimitedCurrentSupply s) = Denom c"
    using wf [OF s(1)] by (simp_all add: supply_wf_def)
  have same: "s\<lparr>as_TimeLimitedCurrentSupply := as_TimeLimitedCurrentSupply s, as_CurrentSupply := y\<rparr> = s\<lparr>as_CurrentSupply := y\<rparr>"
    for y by (intro AssetSupply.equality) simp_all
  show ?thesis
    by (rule that [OF s refl])
      (use ok in \<open>auto simp: IncrementCurrentAssetSupply_def get s(2) d not_less same split: if_splits\<close>)
qed

text \<open>The three decrements fail only when the amount is not there.\<close>

lemma DecrementIncoming_ok:
  assumes "math_laws m" "GetAssetSupply st (Denom c) = Some s" "Denom (as_IncomingSupply s) = Denom c"
    "IntInRange m (Amount (as_IncomingSupply s))" "0 \<le> Amount c" "Amount c \<le> Amount (as_IncomingSupply s)"
  shows "DecrementIncomingAssetSupply m st c =
    Inr (SetAssetSupply st (s\<lparr>as_IncomingSupply := Coin (Denom c) (Amount (as_IncomingSupply s) - Amount c)\<rparr>) (Denom c))"
  using assms IntInRange_le [OF assms(1,4), of "Amount (as_IncomingSupply s) - Amount c"]
  by (simp add: DecrementIncomingAssetSupply_def get_supply_def toInt_def coin_Sub_def)

lemma DecrementOutgoing_ok:
  assumes "math_laws m" "GetAssetSupply st (Denom c) = Some s" "Denom (as_OutgoingSupply s) = Denom c"
    "IntInRange m (Amount (as_OutgoingSupply s))" "0 \<le> Amount c" "Amount c \<le> Amount (as_OutgoingSupply s)"
  shows "DecrementOutgoingAssetSupply m st c =
    Inr (SetAssetSupply st (s\<lparr>as_OutgoingSupply := Coin (Denom c) (Amount (as_OutgoingSupply s) - Amount c)\<rparr>) (Denom c))"
  using assms IntInRange_le [OF assms(1,4), of "Amount (as_OutgoingSupply s) - Amount c"]
  by (simp add: DecrementOutgoingAssetSupply_def get_supply_def toInt_def coin_Sub_def)

lemma DecrementCurrent_ok:
  assumes "math_laws m" "GetAssetSupply st (Denom c) = Some s" "Denom (as_CurrentSupply s) = Denom c"
    "IntInRange m (Amount (as_CurrentSupply s))" "0 \<le> Amount c" "Amount c \<le> Amount (as_CurrentSupply s)"
  shows "DecrementCurrentAssetSupply m st c =
    Inr (SetAssetSupply st (s\<lparr>as_CurrentSupply := Coin (Denom c) (Amount (as_CurrentSupply s) - Amount c)\<rparr>) (Denom c))"
  using assms IntInRange_le [OF assms(1,4), of "Amount (as_CurrentSupply s) - Amount c"]
  by (simp add: DecrementCurrentAssetSupply_def get_supply_def toInt_def coin_Sub_def)

text \<open>The supply behind a pending swap covers it.\<close>

lemma pending_supply:
  assumes inv: "bep3_inv S hash st" and a: "GetAtomicSwap st i = Some a"
    and p: "sw_Status a = SWAP_STATUS_OPEN \<or> sw_Status a = SWAP_STATUS_EXPIRED"
  obtains c s where "sw_Amount a = [c]" "0 < Amount c" "GetAssetSupply st (Denom c) = Some s" "supply_wf (Math S) (Denom c) s"
    "sw_Direction a = SWAP_DIRECTION_INCOMING \<Longrightarrow> Amount c \<le> Amount (as_IncomingSupply s)"
    "sw_Direction a = SWAP_DIRECTION_OUTGOING \<Longrightarrow> Amount c \<le> Amount (as_OutgoingSupply s)"
    "0 \<le> Amount (as_OutgoingSupply s)" "0 \<le> Amount (as_IncomingSupply s)"
    "\<And>dir d. pending dir d a = (if dir = sw_Direction a then coin_amt c d else 0)"
proof -
  note I = bep3_invD [OF inv]
  obtain c where c: "sw_Amount a = [c]" "0 < Amount c" using I(4) [OF a] by (auto simp: swap_wf_def)
  obtain s where s: "GetAssetSupply st (Denom c) = Some s" using I(5) [OF a] c by auto
  have pend: "pending dir d a = (if dir = sw_Direction a then coin_amt c d else 0)" for dir d
    using p by (auto simp: pending_def c coin_amt_def)
  have le: "pending dir (Denom c) a \<le> pending_total st dir (Denom c)" for dir by (rule pending_member [OF inv a])
  have nn: "0 \<le> pending_total st dir (Denom c)" for dir
    using le [of dir] c(2) by (simp add: pend coin_amt_def split: if_splits)
  have "Amount c \<le> pending_total st (sw_Direction a) (Denom c)"
    using le [of "sw_Direction a"] by (simp add: pend coin_amt_def)
  then show ?thesis
    using nn by (intro that [OF c s I(6) [OF s] _ _ _ _ pend]) (simp_all add: I(7) [OF s] I(8) [OF s])
qed

section \<open>Creating, claiming and refunding\<close>

lemma validateAssetParams_find:
  assumes "validateAssetParams m seen ps = Inr ()" "a \<in> set ps"
  shows "0 < ap_MinSwapAmount a \<and> ValidDenom m (ap_Denom a) \<and> 0 \<le> sl_Limit (ap_SupplyLimit a) \<and>
    0 \<le> sl_TimeBasedLimit (ap_SupplyLimit a) \<and> 0 \<le> ap_FixedFee a"
  using assms by (induction m seen ps rule: validateAssetParams.induct) (auto split: if_splits)

lemma GetAsset_Inr:
  "GetAsset st d = Inr a \<Longrightarrow> a \<in> set (bk_params st) \<and> ap_Denom a = d"
  by (auto simp: GetAsset_def find_Some_iff split: option.splits)

lemma GetSupplyLimit_frame [simp]:
  "GetAsset (st\<lparr>bk_bank := b\<rparr>) = GetAsset st" "GetSupplyLimit (st\<lparr>bk_bank := b\<rparr>) = GetSupplyLimit st"
  "GetAsset (SetAssetSupply st s d) = GetAsset st" "GetSupplyLimit (SetAssetSupply st s d) = GetSupplyLimit st"
  by (simp_all add: fun_eq_iff GetAsset_def GetSupplyLimit_def)

definition create_direction :: "AssetParam \<Rightarrow> address \<Rightarrow> SwapDirection" where
  "create_direction asset sender = (if sender = ap_DeputyAddress asset then SWAP_DIRECTION_INCOMING else SWAP_DIRECTION_OUTGOING)"

text \<open>The supply and bank side of a creation.\<close>

definition delivered :: "'b sdk \<Rightarrow> AssetParam \<Rightarrow> address \<Rightarrow> coin \<Rightarrow> 'b bep3_state \<Rightarrow> AssetSupply \<Rightarrow> AssetSupply \<Rightarrow> 'b \<Rightarrow> bool" where
  "delivered S asset sender c st s s' bank \<longleftrightarrow>
     (if sender = ap_DeputyAddress asset then
        s' = s\<lparr>as_IncomingSupply := Coin (Denom c) (Amount (as_IncomingSupply s) + Amount c)\<rparr> \<and>
        IntInRange (Math S) (Amount (as_IncomingSupply s) + Amount c) \<and>
        Amount (as_CurrentSupply s) + Amount (as_IncomingSupply s) + Amount c \<le> sl_Limit (ap_SupplyLimit asset) \<and>
        (sl_TimeLimited (ap_SupplyLimit asset) \<longrightarrow>
           Amount (as_TimeLimitedCurrentSupply s) + Amount (as_IncomingSupply s) + Amount c \<le> sl_TimeBasedLimit (ap_SupplyLimit asset)) \<and>
        GetBalance S bank = GetBalance S (bk_bank st)
      else
        s' = s\<lparr>as_OutgoingSupply := Coin (Denom c) (Amount (as_OutgoingSupply s) + Amount c)\<rparr> \<and>
        Amount (as_OutgoingSupply s) + Amount c \<le> Amount (as_CurrentSupply s) \<and>
        moved S (bk_bank st) bank sender (ModuleAddress S bep3_module) [c])"

lemma deliver_ok:
  assumes laws: "sdk_laws S" and inv: "bep3_inv S hash st" and asset: "GetAsset st (Denom c) = Inr asset"
    and ok: "bep3_deliver S asset st span sender recipient [c] c (create_direction asset sender) = Inr st'"
  obtains s s' bank where "GetAssetSupply st (Denom c) = Some s" "st' = SetAssetSupply (st\<lparr>bk_bank := bank\<rparr>) s' (Denom c)"
    "delivered S asset sender c st s s' bank"
proof (cases "sender = ap_DeputyAddress asset")
  case True
  define bank where "bank = (if HasAccount S (bk_bank st) recipient then bk_bank st else RegisterAccount S (bk_bank st) recipient)"
  have bal: "GetBalance S bank = GetBalance S (bk_bank st)"
    using sdk_lawsD(7) [OF laws] by (simp add: bank_def account_law_def)
  have "(if HasAccount S (bk_bank st) recipient then st else st\<lparr>bk_bank := RegisterAccount S (bk_bank st) recipient\<rparr>) = st\<lparr>bk_bank := bank\<rparr>"
    by (simp add: bank_def)
  then have i: "IncrementIncomingAssetSupply (Math S) (st\<lparr>bk_bank := bank\<rparr>) c = Inr st'"
    using ok True by (simp add: bep3_deliver_def create_direction_def Let_def)
  have lim: "GetSupplyLimit st (Denom c) = Inr (ap_SupplyLimit asset)" using asset by (simp add: GetSupplyLimit_def)
  show ?thesis
  proof (rule IncrementIncoming_ok [OF _ i])
    show "supply_wf (Math S) (Denom c) s" if "GetAssetSupply (st\<lparr>bk_bank := bank\<rparr>) (Denom c) = Some s" for s
      using bep3_invD(6) [OF inv] that by simp
    fix s limit s'
    assume *: "GetAssetSupply (st\<lparr>bk_bank := bank\<rparr>) (Denom c) = Some s" "GetSupplyLimit (st\<lparr>bk_bank := bank\<rparr>) (Denom c) = Inr limit"
      "s' = s\<lparr>as_IncomingSupply := Coin (Denom (as_IncomingSupply s)) (Amount (as_IncomingSupply s) + Amount c)\<rparr>"
      "st' = SetAssetSupply (st\<lparr>bk_bank := bank\<rparr>) s' (Denom c)" "IntInRange (Math S) (Amount (as_IncomingSupply s) + Amount c)"
      "Amount (as_CurrentSupply s) + Amount (as_IncomingSupply s) + Amount c \<le> sl_Limit limit"
      "sl_TimeLimited limit \<Longrightarrow> Amount (as_TimeLimitedCurrentSupply s) + Amount (as_IncomingSupply s) + Amount c \<le> sl_TimeBasedLimit limit"
    have s: "GetAssetSupply st (Denom c) = Some s" using *(1) by simp
    have "Denom (as_IncomingSupply s) = Denom c" using bep3_invD(6) [OF inv s] by (simp add: supply_wf_def)
    moreover have "limit = ap_SupplyLimit asset" using *(2) lim by simp
    ultimately show thesis
      using *(3,5-7) bal True by (intro that [OF s *(4)]) (simp add: delivered_def)
  qed
next
  case False
  obtain st1 bank where i: "IncrementOutgoingAssetSupply (Math S) st c = Inr st1"
      "SendCoinsFromAccountToModule S (bk_bank st1) sender bep3_module [c] = Inr bank" "st' = st1\<lparr>bk_bank := bank\<rparr>"
    using ok False by (auto simp: bep3_deliver_def create_direction_def split: if_splits)
  show ?thesis
  proof (rule IncrementOutgoing_ok [OF i(1)])
    fix s s'
    assume *: "GetAssetSupply st (Denom c) = Some s"
      "s' = s\<lparr>as_OutgoingSupply := Coin (Denom (as_OutgoingSupply s)) (Amount (as_OutgoingSupply s) + Amount c)\<rparr>"
      "st1 = SetAssetSupply st s' (Denom c)" "Amount (as_OutgoingSupply s) + Amount c \<le> Amount (as_CurrentSupply s)"
    have "Denom (as_OutgoingSupply s) = Denom c" using bep3_invD(6) [OF inv *(1)] by (simp add: supply_wf_def)
    moreover have "st' = SetAssetSupply (st\<lparr>bk_bank := bank\<rparr>) s' (Denom c)" by (simp add: i(3) *(3) SetAssetSupply_def)
    ultimately show thesis
      using *(2,4) False sends(2) [OF laws i(2)]
      by (intro that [OF *(1)]) (simp_all add: delivered_def *(3))
  qed
qed

lemma Create_ok:
  assumes laws: "sdk_laws S" and inv: "bep3_inv S hash st"
    and ok: "CreateAtomicSwap S hash maccs now height st rnh ts span sender recipient soc roc amount cross = Inr st'"
  obtains c asset s s' bank a where "amount = [c]" "GetAsset st (Denom c) = Inr asset" "ap_Active asset"
    "ap_MinSwapAmount asset \<le> Amount c" "Amount c \<le> ap_MaxSwapAmount asset" "\<not> maccs recipient"
    "sender = ap_DeputyAddress asset \<or> recipient = ap_DeputyAddress asset" "sender \<noteq> recipient \<or> sender \<noteq> ap_DeputyAddress asset"
    "GetAssetSupply st (Denom c) = Some s" "delivered S asset sender c st s s' bank"
    "a = NewAtomicSwap [c] rnh (word_of_int height + span) ts sender recipient soc roc 0 SWAP_STATUS_OPEN cross (create_direction asset sender)"
    "GetAtomicSwap st (GetSwapID hash a) = None"
    "st' = InsertIntoByBlockIndex hash (SetAtomicSwap hash (SetAssetSupply (st\<lparr>bk_bank := bank\<rparr>) s' (Denom c)) a) a"
proof -
  have len: "length amount = 1" using ok by (auto simp: CreateAtomicSwap_def split: if_splits)
  then obtain c where c: "amount = [c]" by (cases amount) auto
  obtain asset st1 where *: "GetAsset st (Denom c) = Inr asset" "ap_Active asset"
      "ap_MinSwapAmount asset \<le> Amount c" "Amount c \<le> ap_MaxSwapAmount asset" "\<not> maccs recipient"
      "sender = ap_DeputyAddress asset \<or> recipient = ap_DeputyAddress asset" "sender \<noteq> recipient \<or> sender \<noteq> ap_DeputyAddress asset"
      and d: "bep3_deliver S asset st span sender recipient [c] c (create_direction asset sender) = Inr st1"
      and none: "GetAtomicSwap st (CalculateSwapID hash rnh sender soc) = None"
      and st': "st' = (let a = NewAtomicSwap [c] rnh (word_of_int height + span) ts sender recipient soc roc 0 SWAP_STATUS_OPEN cross (create_direction asset sender)
             in InsertIntoByBlockIndex hash (SetAtomicSwap hash st1 a) a)"
    using ok unfolding CreateAtomicSwap_def
    by (auto simp: c ValidateLiveAsset_def create_direction_def not_less Let_def split: if_splits)
  show ?thesis
    by (rule deliver_ok [OF laws inv *(1) d], rule that [OF c * _ _ refl])
      (use none in \<open>simp_all add: st' Let_def GetSwapID_def NewAtomicSwap_def\<close>)
qed

lemma kv_upd_Some [simp]: "kv_upd s k (Some v) = kv_set s k v" and kv_upd_None [simp]: "kv_upd s k None = kv_del s k"
  by (simp_all add: kv_upd_def)

lemma NewAtomicSwap_simps [simp]:
  "sw_Amount (NewAtomicSwap am rnh h ts se re so ro cb stt cr di) = am"
  "sw_Status (NewAtomicSwap am rnh h ts se re so ro cb stt cr di) = stt"
  "sw_Direction (NewAtomicSwap am rnh h ts se re so ro cb stt cr di) = di"
  "sw_Sender (NewAtomicSwap am rnh h ts se re so ro cb stt cr di) = se"
  "sw_Recipient (NewAtomicSwap am rnh h ts se re so ro cb stt cr di) = re"
  by (simp_all add: NewAtomicSwap_def)

lemma Create_inv:
  assumes laws: "sdk_laws S" and inv: "bep3_inv S hash st" and macc: "maccs (ModuleAddress S bep3_module)"
    and sender: "sender \<noteq> ModuleAddress S bep3_module"
    and ok: "CreateAtomicSwap S hash maccs now height st rnh ts span sender recipient soc roc amount cross = Inr st'"
  shows "bep3_inv S hash st'"
proof (rule Create_ok [OF laws inv ok])
  fix c asset s s' bank a
  assume *: "GetAsset st (Denom c) = Inr asset" "ap_MinSwapAmount asset \<le> Amount c" "\<not> maccs recipient"
    "GetAssetSupply st (Denom c) = Some s" "delivered S asset sender c st s s' bank"
    and a: "a = NewAtomicSwap [c] rnh (word_of_int height + span) ts sender recipient soc roc 0 SWAP_STATUS_OPEN cross (create_direction asset sender)"
    and none: "GetAtomicSwap st (GetSwapID hash a) = None"
    and st': "st' = InsertIntoByBlockIndex hash (SetAtomicSwap hash (SetAssetSupply (st\<lparr>bk_bank := bank\<rparr>) s' (Denom c)) a) a"
  note I = bep3_invD [OF inv]
  have pos: "0 < Amount c"
    using *(2) GetAsset_Inr [OF *(1)] validateAssetParams_find [OF I(11), of asset] by auto
  have fields: "sw_Amount a = [c]" "sw_Status a = SWAP_STATUS_OPEN" "sw_Direction a = create_direction asset sender"
    by (simp_all add: a)
  have wf: "swap_wf S a"
    using pos sender macc *(3) by (auto simp: swap_wf_def a create_direction_def)
  have swf: "supply_wf (Math S) (Denom c) s" by (rule I(6) [OF *(4)])
  have swf': "supply_wf (Math S) (Denom c) s'"
    using swf *(5) by (auto simp: supply_wf_def delivered_def split: if_splits)
  have pend: "pending dir d a = (if dir = create_direction asset sender then coin_amt c d else 0)" for dir d
    by (auto simp: pending_def fields coin_amt_def)
  show ?thesis
  proof (rule bep3_inv_upd [OF inv, where i = "GetSwapID hash a" and oa = "Some a" and ?d0.0 = "Denom c" and s = s and s' = s'])
    have "bep3_index hash (SetAssetSupply (st\<lparr>bk_bank := bank\<rparr>) s' (Denom c))"
      by (rule bep3_index_frame [OF _ _ _ I(1)]) simp_all
    then show "bep3_index hash st'"
      unfolding st' using none fields(2) by (intro bep3_index_create) simp_all
    show "bk_swaps st' = kv_upd (bk_swaps st) (GetSwapID hash a) (Some a)" "bk_params st' = bk_params st"
      "bk_supplies st' = kv_set (bk_supplies st) (Denom c) s'" by (simp_all add: st')
    show "Amount (as_IncomingSupply s') = Amount (as_IncomingSupply s)
       - opt_pending SWAP_DIRECTION_INCOMING (Denom c) (GetAtomicSwap st (GetSwapID hash a)) + opt_pending SWAP_DIRECTION_INCOMING (Denom c) (Some a)"
      "Amount (as_OutgoingSupply s') = Amount (as_OutgoingSupply s)
       - opt_pending SWAP_DIRECTION_OUTGOING (Denom c) (GetAtomicSwap st (GetSwapID hash a)) + opt_pending SWAP_DIRECTION_OUTGOING (Denom c) (Some a)"
      using *(5) by (auto simp: none pend delivered_def create_direction_def coin_amt_def split: if_splits)
    show "bep3_funds S (bk_bank st') d = bep3_funds S (bk_bank st) d
       - opt_pending SWAP_DIRECTION_OUTGOING d (GetAtomicSwap st (GetSwapID hash a)) + opt_pending SWAP_DIRECTION_OUTGOING d (Some a)" for d
      using *(5) sender by (auto simp: st' none pend delivered_def create_direction_def coin_amt_def moved_balance split: if_splits)
  qed (use wf fields swf' none *(4) in auto)
qed

text \<open>
  The bookkeeping of a claim or refund never stands in the way: it can be computed for every pending
  swap, so the outcome is decided by the bank alone (and by the supply limits for incoming claims).
\<close>

lemma Refund_run:
  assumes laws: "sdk_laws S" and inv: "bep3_inv S hash st" and a: "GetAtomicSwap st i = Some a" "sw_Status a = SWAP_STATUS_EXPIRED"
    and a': "a' = a\<lparr>sw_Status := SWAP_STATUS_COMPLETED, sw_ClosedBlock := height\<rparr>"
  obtains c s where "sw_Amount a = [c]" "GetAssetSupply st (Denom c) = Some s" "0 < Amount c"
    "sw_Direction a = SWAP_DIRECTION_INCOMING \<Longrightarrow> RefundAtomicSwap S hash height st from i =
       Inr (InsertIntoLongtermStorage hash (SetAtomicSwap hash (SetAssetSupply st
         (s\<lparr>as_IncomingSupply := Coin (Denom c) (Amount (as_IncomingSupply s) - Amount c)\<rparr>) (Denom c)) a') a')"
    "sw_Direction a = SWAP_DIRECTION_OUTGOING \<Longrightarrow> RefundAtomicSwap S hash height st from i =
       bnd (SendCoinsFromModuleToAccount S (bk_bank st) bep3_module (sw_Sender a) [c]) (\<lambda>b.
       Inr (InsertIntoLongtermStorage hash (SetAtomicSwap hash ((SetAssetSupply st
         (s\<lparr>as_OutgoingSupply := Coin (Denom c) (Amount (as_OutgoingSupply s) - Amount c)\<rparr>) (Denom c))\<lparr>bk_bank := b\<rparr>) a') a'))"
    "sw_Direction a = SWAP_DIRECTION_OUTGOING \<Longrightarrow> Amount c \<le> bep3_funds S (bk_bank st) (Denom c)"
proof (rule pending_supply [OF inv a(1)])
  show "sw_Status a = SWAP_STATUS_OPEN \<or> sw_Status a = SWAP_STATUS_EXPIRED" using a(2) by simp
  fix c s
  assume *: "sw_Amount a = [c]" "0 < Amount c" "GetAssetSupply st (Denom c) = Some s" "supply_wf (Math S) (Denom c) s"
    "sw_Direction a = SWAP_DIRECTION_INCOMING \<Longrightarrow> Amount c \<le> Amount (as_IncomingSupply s)"
    "sw_Direction a = SWAP_DIRECTION_OUTGOING \<Longrightarrow> Amount c \<le> Amount (as_OutgoingSupply s)"
    "0 \<le> Amount (as_OutgoingSupply s)"
  note m = sdk_lawsD(1) [OF laws]
  have out: "IntInRange (Math S) (Amount (as_OutgoingSupply s))"
    using *(4,7) by (auto simp: supply_wf_def intro: IntInRange_le [OF m, of "Amount (as_CurrentSupply s)"])
  show ?thesis
  proof (rule that [OF *(1,3,2)])
    assume "sw_Direction a = SWAP_DIRECTION_INCOMING"
    then show "RefundAtomicSwap S hash height st from i =
       Inr (InsertIntoLongtermStorage hash (SetAtomicSwap hash (SetAssetSupply st
         (s\<lparr>as_IncomingSupply := Coin (Denom c) (Amount (as_IncomingSupply s) - Amount c)\<rparr>) (Denom c)) a') a')"
      using a *(2,4,5) DecrementIncoming_ok [OF m *(3)]
      by (simp add: RefundAtomicSwap_def *(1) idx_def supply_wf_def a' Let_def)
  next
    assume o: "sw_Direction a = SWAP_DIRECTION_OUTGOING"
    then show "RefundAtomicSwap S hash height st from i =
       bnd (SendCoinsFromModuleToAccount S (bk_bank st) bep3_module (sw_Sender a) [c]) (\<lambda>b.
       Inr (InsertIntoLongtermStorage hash (SetAtomicSwap hash ((SetAssetSupply st
         (s\<lparr>as_OutgoingSupply := Coin (Denom c) (Amount (as_OutgoingSupply s) - Amount c)\<rparr>) (Denom c))\<lparr>bk_bank := b\<rparr>) a') a'))"
      using a *(2,4,6) DecrementOutgoing_ok [OF m *(3)] out
      by (simp add: RefundAtomicSwap_def *(1) idx_def supply_wf_def a' Let_def bnd_assoc)
    show "Amount c \<le> bep3_funds S (bk_bank st) (Denom c)"
      using *(6) [OF o] bep3_invD(8) [OF inv *(3)] bep3_invD(9) [OF inv] by simp
  qed
qed

text \<open>Completing a pending swap keeps the invariant when supply and funds drop by its amount.\<close>

lemma complete_inv:
  assumes inv: "bep3_inv S hash st" and a: "GetAtomicSwap st i = Some a" "sw_Status a = SWAP_STATUS_OPEN \<or> sw_Status a = SWAP_STATUS_EXPIRED"
    and c: "sw_Amount a = [c]" and s: "GetAssetSupply st (Denom c) = Some s" "supply_wf (Math S) (Denom c) s'"
    and a': "a' = a\<lparr>sw_Status := SWAP_STATUS_COMPLETED, sw_ClosedBlock := h\<rparr>"
    and st1: "st1 = (SetAssetSupply st s' (Denom c))\<lparr>bk_bank := bank\<rparr>"
    and st': "st' = (if sw_Status a = SWAP_STATUS_OPEN then RemoveFromByBlockIndex hash (SetAtomicSwap hash st1 a') a' else SetAtomicSwap hash st1 a')"
    and inc: "Amount (as_IncomingSupply s') = Amount (as_IncomingSupply s) - (if sw_Direction a = SWAP_DIRECTION_INCOMING then Amount c else 0)"
    and out: "Amount (as_OutgoingSupply s') = Amount (as_OutgoingSupply s) - (if sw_Direction a = SWAP_DIRECTION_OUTGOING then Amount c else 0)"
    and funds: "\<And>d. bep3_funds S bank d = bep3_funds S (bk_bank st) d - (if sw_Direction a = SWAP_DIRECTION_OUTGOING then coin_amt c d else 0)"
  shows "bep3_inv S hash (InsertIntoLongtermStorage hash st' a')"
proof -
  let ?st = "InsertIntoLongtermStorage hash st' a'"
  note I = bep3_invD [OF inv]
  have ix: "bep3_index hash st1" by (rule bep3_index_frame [OF _ _ _ I(1)]) (simp_all add: st1)
  have pend: "pending dir d a = (if dir = sw_Direction a then coin_amt c d else 0)" "pending dir d a' = 0" for dir d
    using a(2) by (auto simp: pending_def c coin_amt_def a')
  have id: "GetSwapID hash a' = i" using I(10) [OF a(1)] by (simp add: a')
  have wf: "swap_wf S a'" "sw_Amount a' = [c]" using I(4) [OF a(1)] c by (auto simp: a' swap_wf_def)
  show ?thesis
  proof (rule bep3_inv_upd [OF inv, where i = i and oa = "Some a'" and ?d0.0 = "Denom c" and s = s and s' = s'])
    show "bep3_index hash ?st" by (rule bep3_index_close [OF ix, of i, OF _ a(2) a' st']) (simp add: st1 a)
    show "bk_swaps ?st = kv_upd (bk_swaps st) i (Some a')" "bk_supplies ?st = kv_set (bk_supplies st) (Denom c) s'" "bk_params ?st = bk_params st"
      by (simp_all add: st' st1 id)
    show "bep3_funds S (bk_bank ?st) d = bep3_funds S (bk_bank st) d
       - opt_pending SWAP_DIRECTION_OUTGOING d (GetAtomicSwap st i) + opt_pending SWAP_DIRECTION_OUTGOING d (Some a')" for d
      using funds [of d] by (auto simp: st' st1 a pend)
  qed (use s inc out wf in \<open>auto simp: a(1) c pend coin_amt_def\<close>)
qed

lemma supply_wf_less:
  assumes "math_laws m" "supply_wf m d s" "0 \<le> x" "x \<le> Amount (as_IncomingSupply s)" "0 \<le> y" "y \<le> Amount (as_OutgoingSupply s)"
  shows "supply_wf m d (s\<lparr>as_IncomingSupply := Coin d x\<rparr>)" "supply_wf m d (s\<lparr>as_OutgoingSupply := Coin d y\<rparr>)"
  using assms IntInRange_le [OF assms(1) _ assms(3,4)] by (auto simp: supply_wf_def)

lemma Refund_inv:
  assumes laws: "sdk_laws S" and inv: "bep3_inv S hash st" and ok: "RefundAtomicSwap S hash height st from i = Inr st'"
  shows "bep3_inv S hash st'"
proof -
  obtain a where a: "GetAtomicSwap st i = Some a" "sw_Status a = SWAP_STATUS_EXPIRED"
    using ok by (auto simp: RefundAtomicSwap_def split: option.splits if_splits)
  then have p: "sw_Status a = SWAP_STATUS_OPEN \<or> sw_Status a = SWAP_STATUS_EXPIRED" and no: "sw_Status a \<noteq> SWAP_STATUS_OPEN" by simp_all
  define a' where "a' = a\<lparr>sw_Status := SWAP_STATUS_COMPLETED, sw_ClosedBlock := height\<rparr>"
  have wf: "swap_wf S a" by (rule bep3_invD(4) [OF inv a(1)])
  from Refund_run [OF laws inv a a'_def, of "from"] obtain c s where *: "sw_Amount a = [c]" "GetAssetSupply st (Denom c) = Some s"
    "sw_Direction a = SWAP_DIRECTION_INCOMING \<Longrightarrow> RefundAtomicSwap S hash height st from i =
       Inr (InsertIntoLongtermStorage hash (SetAtomicSwap hash (SetAssetSupply st
         (s\<lparr>as_IncomingSupply := Coin (Denom c) (Amount (as_IncomingSupply s) - Amount c)\<rparr>) (Denom c)) a') a')"
    "sw_Direction a = SWAP_DIRECTION_OUTGOING \<Longrightarrow> RefundAtomicSwap S hash height st from i =
       bnd (SendCoinsFromModuleToAccount S (bk_bank st) bep3_module (sw_Sender a) [c]) (\<lambda>b.
       Inr (InsertIntoLongtermStorage hash (SetAtomicSwap hash ((SetAssetSupply st
         (s\<lparr>as_OutgoingSupply := Coin (Denom c) (Amount (as_OutgoingSupply s) - Amount c)\<rparr>) (Denom c))\<lparr>bk_bank := b\<rparr>) a') a'))"
    by metis
  from pending_supply [OF inv a(1) p] obtain c1 s1 where f: "sw_Amount a = [c1]" "GetAssetSupply st (Denom c1) = Some s1" "0 < Amount c1"
    "sw_Direction a = SWAP_DIRECTION_INCOMING \<Longrightarrow> Amount c1 \<le> Amount (as_IncomingSupply s1)"
    "sw_Direction a = SWAP_DIRECTION_OUTGOING \<Longrightarrow> Amount c1 \<le> Amount (as_OutgoingSupply s1)"
    "0 \<le> Amount (as_OutgoingSupply s1)" "0 \<le> Amount (as_IncomingSupply s1)" by metis
  have [simp]: "c1 = c" "s1 = s" using f(1,2) *(1,2) by auto
  note less = supply_wf_less [OF sdk_lawsD(1) [OF laws] bep3_invD(6) [OF inv *(2)]]
  note complete = complete_inv [OF inv a(1) p *(1,2) _ a'_def refl refl, unfolded if_not_P [OF no]]
  show ?thesis
  proof (cases "sw_Direction a = SWAP_DIRECTION_INCOMING")
    case True
    have "st' = InsertIntoLongtermStorage hash (SetAtomicSwap hash ((SetAssetSupply st
         (s\<lparr>as_IncomingSupply := Coin (Denom c) (Amount (as_IncomingSupply s) - Amount c)\<rparr>) (Denom c))\<lparr>bk_bank := bk_bank st\<rparr>) a') a'"
      using *(3) [OF True] ok by (simp add: SetAssetSupply_def)
    then show ?thesis
      using less(1) [of "Amount (as_IncomingSupply s) - Amount c" 0] f(3,4,6,7) True by (simp, intro complete) simp_all
  next
    case False
    then have o: "sw_Direction a = SWAP_DIRECTION_OUTGOING" using wf by (auto simp: swap_wf_def)
    obtain b where b: "SendCoinsFromModuleToAccount S (bk_bank st) bep3_module (sw_Sender a) [c] = Inr b"
        "st' = InsertIntoLongtermStorage hash (SetAtomicSwap hash ((SetAssetSupply st
         (s\<lparr>as_OutgoingSupply := Coin (Denom c) (Amount (as_OutgoingSupply s) - Amount c)\<rparr>) (Denom c))\<lparr>bk_bank := b\<rparr>) a') a'"
      using ok unfolding *(4) [OF o] by auto
    have "bep3_funds S b d = bep3_funds S (bk_bank st) d - coin_amt c d" for d
      using moved_balance [OF sends(3) [OF laws b(1)], of "ModuleAddress S bep3_module" d] wf by (auto simp: swap_wf_def coin_amt_def)
    then show ?thesis
      using less(2) [of 0 "Amount (as_OutgoingSupply s) - Amount c"] f(3,5-7) o b(2) by (simp, intro complete) simp_all
  qed
qed

lemma SetAssetSupply_twice [simp]: "SetAssetSupply (SetAssetSupply st s d) t d = SetAssetSupply st t d"
  by (simp add: SetAssetSupply_def)

text \<open>The supply and bank side of a claim.\<close>

definition claimed :: "'b sdk \<Rightarrow> AtomicSwap \<Rightarrow> coin \<Rightarrow> AssetSupply \<Rightarrow> AssetSupply \<Rightarrow> 'b \<Rightarrow> 'b \<Rightarrow> bool" where
  "claimed S a c s s' bank bank' \<longleftrightarrow>
     (if sw_Direction a = SWAP_DIRECTION_INCOMING then
        Amount (as_IncomingSupply s') = Amount (as_IncomingSupply s) - Amount c \<and>
        Amount (as_CurrentSupply s') = Amount (as_CurrentSupply s) + Amount c \<and>
        as_OutgoingSupply s' = as_OutgoingSupply s \<and>
        (\<forall>x d. GetBalance S bank' x d = GetBalance S bank x d + (if x = sw_Recipient a then coin_amt c d else 0)) \<and>
        (\<forall>d. GetSupply S bank' d = GetSupply S bank d + coin_amt c d)
      else
        as_IncomingSupply s' = as_IncomingSupply s \<and>
        Amount (as_CurrentSupply s') = Amount (as_CurrentSupply s) - Amount c \<and>
        Amount (as_OutgoingSupply s') = Amount (as_OutgoingSupply s) - Amount c \<and>
        (\<forall>x d. GetBalance S bank' x d = GetBalance S bank x d - (if x = ModuleAddress S bep3_module then coin_amt c d else 0)) \<and>
        (\<forall>d. GetSupply S bank' d = GetSupply S bank d - coin_amt c d))"

lemma AmountOf_one: "AmountOf [c] d = coin_amt c d"
  by (simp add: coin_amt_def eq_commute)

definition claim_time :: "SupplyLimit \<Rightarrow> coin \<Rightarrow> AssetSupply \<Rightarrow> AssetSupply \<Rightarrow> bool" where
  "claim_time limit c s s' \<longleftrightarrow> as_TimeElapsed s' = as_TimeElapsed s \<and>
     Amount (as_TimeLimitedCurrentSupply s') = Amount (as_TimeLimitedCurrentSupply s) + (if sl_TimeLimited limit then Amount c else 0)"

lemma Claim_ok:
  assumes laws: "sdk_laws S" and inv: "bep3_inv S hash st" and ok: "ClaimAtomicSwap S hash height st from i rnd = Inr st'"
  obtains a c s s' bank a' where "GetAtomicSwap st i = Some a" "sw_Status a = SWAP_STATUS_OPEN"
    "CalculateSwapID hash (CalculateRandomHash hash rnd (sw_Timestamp a)) (sw_Sender a) (sw_SenderOtherChain a) = i"
    "sw_Amount a = [c]" "GetAssetSupply st (Denom c) = Some s" "supply_wf (Math S) (Denom c) s'" "claimed S a c s s' (bk_bank st) bank"
    "sw_Direction a = SWAP_DIRECTION_INCOMING \<Longrightarrow> \<exists>limit. GetSupplyLimit st (Denom c) = Inr limit \<and> claim_time limit c s s'"
    "sw_Direction a = SWAP_DIRECTION_OUTGOING \<Longrightarrow> as_TimeLimitedCurrentSupply s' = as_TimeLimitedCurrentSupply s"
    "a' = a\<lparr>sw_Status := SWAP_STATUS_COMPLETED, sw_ClosedBlock := height\<rparr>"
    "st' = InsertIntoLongtermStorage hash (RemoveFromByBlockIndex hash (SetAtomicSwap hash
       ((SetAssetSupply st s' (Denom c))\<lparr>bk_bank := bank\<rparr>) a') a') a'"
proof -
  obtain a where a: "GetAtomicSwap st i = Some a" "sw_Status a = SWAP_STATUS_OPEN"
      "CalculateSwapID hash (CalculateRandomHash hash rnd (sw_Timestamp a)) (sw_Sender a) (sw_SenderOtherChain a) = i"
    using ok bep3_invD(10) [OF inv] by (auto simp: ClaimAtomicSwap_def split: option.splits if_splits)
  note m = sdk_lawsD(1) [OF laws] and wf = bep3_invD(4) [OF inv a(1)]
  define a' where "a' = a\<lparr>sw_Status := SWAP_STATUS_COMPLETED, sw_ClosedBlock := height\<rparr>"
  from pending_supply [OF inv a(1) disjI1 [OF a(2)]] obtain c s where
    *: "sw_Amount a = [c]" "0 < Amount c" "GetAssetSupply st (Denom c) = Some s" "supply_wf (Math S) (Denom c) s"
      "sw_Direction a = SWAP_DIRECTION_INCOMING \<Longrightarrow> Amount c \<le> Amount (as_IncomingSupply s)"
      "sw_Direction a = SWAP_DIRECTION_OUTGOING \<Longrightarrow> Amount c \<le> Amount (as_OutgoingSupply s)"
      "0 \<le> Amount (as_OutgoingSupply s)" "0 \<le> Amount (as_IncomingSupply s)" by metis
  have secret: "CalculateSwapID hash (CalculateRandomHash hash rnd (sw_Timestamp a)) (sw_Sender a) (sw_SenderOtherChain a) = GetSwapID hash a"
    using a(3) bep3_invD(10) [OF inv a(1)] by simp
  note run = ok [unfolded ClaimAtomicSwap_def a(1) option.case, simplified a(2) secret *(1) idx_def Let_def, simplified]
  show ?thesis
  proof (cases "sw_Direction a = SWAP_DIRECTION_INCOMING")
    case True
    define s1 where "s1 = s\<lparr>as_IncomingSupply := Coin (Denom c) (Amount (as_IncomingSupply s) - Amount c)\<rparr>"
    have d: "DecrementIncomingAssetSupply (Math S) st c = Inr (SetAssetSupply st s1 (Denom c))"
      using DecrementIncoming_ok [OF m *(3)] *(2,4) *(5) [OF True] by (simp add: supply_wf_def s1_def)
    obtain st2 b1 b2 where r: "IncrementCurrentAssetSupply (Math S) (SetAssetSupply st s1 (Denom c)) c = Inr st2"
        "MintCoins S (bk_bank st2) bep3_module [c] = Inr b1"
        "SendCoinsFromModuleToAccount S b1 bep3_module (sw_Recipient a) [c] = Inr b2"
        and st': "st' = InsertIntoLongtermStorage hash (RemoveFromByBlockIndex hash (SetAtomicSwap hash (st2\<lparr>bk_bank := b2\<rparr>) a') a') a'"
      using run True d by (auto simp: a'_def)
    have wf1: "supply_wf (Math S) (Denom c) s1"
      using supply_wf_less(1) [OF m *(4), of "Amount (as_IncomingSupply s) - Amount c" 0] *(2,7) *(5) [OF True] by (simp add: s1_def)
    show ?thesis
    proof (rule IncrementCurrent_ok [OF _ r(1)])
      show "supply_wf (Math S) (Denom c) t" if "GetAssetSupply (SetAssetSupply st s1 (Denom c)) (Denom c) = Some t" for t
        using that wf1 by simp
      fix t limit s'
      assume q: "GetAssetSupply (SetAssetSupply st s1 (Denom c)) (Denom c) = Some t" "GetSupplyLimit (SetAssetSupply st s1 (Denom c)) (Denom c) = Inr limit"
        "s' = t\<lparr>as_TimeLimitedCurrentSupply := (if sl_TimeLimited limit
         then Coin (Denom (as_TimeLimitedCurrentSupply t)) (Amount (as_TimeLimitedCurrentSupply t) + Amount c)
         else as_TimeLimitedCurrentSupply t),
       as_CurrentSupply := Coin (Denom (as_CurrentSupply t)) (Amount (as_CurrentSupply t) + Amount c)\<rparr>"
        "st2 = SetAssetSupply (SetAssetSupply st s1 (Denom c)) s' (Denom c)" "IntInRange (Math S) (Amount (as_CurrentSupply t) + Amount c)"
      have t: "t = s1" using q(1) by simp
      have st2: "st2 = SetAssetSupply st s' (Denom c)" unfolding q(4) by simp
      have bank: "bk_bank st2 = bk_bank st" by (simp add: q(4))
      have cl: "claimed S a c s s' (bk_bank st) b2"
        using True wf mints(1,3) [OF laws r(2)] moved_balance [OF sends(3) [OF laws r(3)]] moved_supply [OF sends(3) [OF laws r(3)]]
        by (auto simp: claimed_def q(3) t s1_def bank swap_wf_def AmountOf_one simp del: AmountOf.simps)
      show thesis
      proof (rule that [OF a *(1,3) _ cl _ _ a'_def])
        show "supply_wf (Math S) (Denom c) s'" using wf1 q(5) *(2) by (simp add: q(3) t supply_wf_def)
        show "\<exists>limit. GetSupplyLimit st (Denom c) = Inr limit \<and> claim_time limit c s s'"
          using q(2) by (auto simp: claim_time_def q(3) t s1_def)
      qed (simp_all add: True st' st2)
    qed
  next
    case False
    then have o: "sw_Direction a = SWAP_DIRECTION_OUTGOING" using wf by (auto simp: swap_wf_def)
    have range: "IntInRange (Math S) (Amount (as_OutgoingSupply s))"
      using *(4,7) by (auto simp: supply_wf_def intro: IntInRange_le [OF m, of "Amount (as_CurrentSupply s)"])
    define s1 where "s1 = s\<lparr>as_OutgoingSupply := Coin (Denom c) (Amount (as_OutgoingSupply s) - Amount c)\<rparr>"
    define s' where "s' = s1\<lparr>as_CurrentSupply := Coin (Denom c) (Amount (as_CurrentSupply s) - Amount c)\<rparr>"
    have d: "DecrementOutgoingAssetSupply (Math S) st c = Inr (SetAssetSupply st s1 (Denom c))"
      using DecrementOutgoing_ok [OF m *(3)] *(2,4) *(6) [OF o] range by (simp add: supply_wf_def s1_def)
    have le: "Amount c \<le> Amount (as_CurrentSupply s)" using *(4) *(6) [OF o] by (simp add: supply_wf_def)
    have d2: "DecrementCurrentAssetSupply (Math S) (SetAssetSupply st s1 (Denom c)) c = Inr (SetAssetSupply st s' (Denom c))"
      using DecrementCurrent_ok [OF m, of "SetAssetSupply st s1 (Denom c)" c s1] *(2,4) le
      by (simp add: supply_wf_def s1_def s'_def)
    obtain b1 where r: "BurnCoins S (bk_bank st) bep3_module [c] = Inr b1"
        and st': "st' = InsertIntoLongtermStorage hash (RemoveFromByBlockIndex hash (SetAtomicSwap hash ((SetAssetSupply st s' (Denom c))\<lparr>bk_bank := b1\<rparr>) a') a') a'"
      using run by (auto simp add: o d d2 a'_def)
    have cl: "claimed S a c s s' (bk_bank st) b1"
      using o mints(2,4) [OF laws r] by (simp add: claimed_def s'_def s1_def AmountOf_one del: AmountOf.simps)
    show ?thesis
    proof (rule that [OF a *(1,3) _ cl _ _ a'_def st'])
      have "IntInRange (Math S) (Amount (as_CurrentSupply s) - Amount c)"
        by (rule IntInRange_le [OF m, of "Amount (as_CurrentSupply s)"]) (use *(2,4) le in \<open>simp_all add: supply_wf_def\<close>)
      then show "supply_wf (Math S) (Denom c) s'" using *(4) *(6) [OF o] by (simp add: s'_def s1_def supply_wf_def)
    qed (simp_all add: o s'_def s1_def)
  qed
qed

lemma Claim_inv:
  assumes laws: "sdk_laws S" and inv: "bep3_inv S hash st" and ok: "ClaimAtomicSwap S hash height st from i rnd = Inr st'"
  shows "bep3_inv S hash st'"
proof (rule Claim_ok [OF assms])
  fix a c s s' bank a'
  assume *: "GetAtomicSwap st i = Some a" "sw_Status a = SWAP_STATUS_OPEN" "sw_Amount a = [c]"
    "GetAssetSupply st (Denom c) = Some s" "supply_wf (Math S) (Denom c) s'" "claimed S a c s s' (bk_bank st) bank"
    "a' = a\<lparr>sw_Status := SWAP_STATUS_COMPLETED, sw_ClosedBlock := height\<rparr>"
    "st' = InsertIntoLongtermStorage hash (RemoveFromByBlockIndex hash (SetAtomicSwap hash
       ((SetAssetSupply st s' (Denom c))\<lparr>bk_bank := bank\<rparr>) a') a') a'"
  have wf: "swap_wf S a" by (rule bep3_invD(4) [OF inv *(1)])
  have ne: "ModuleAddress S bep3_module \<noteq> sw_Recipient a" "sw_Direction a = SWAP_DIRECTION_INCOMING \<or> sw_Direction a = SWAP_DIRECTION_OUTGOING"
    using wf by (auto simp: swap_wf_def)
  show ?thesis
    unfolding *(8)
    by (rule complete_inv [OF inv *(1) disjI1 [OF *(2)] *(3-5,7) refl refl, unfolded if_P [OF *(2)]])
      (use *(6) ne in \<open>auto simp: claimed_def\<close>)
qed

section \<open>The begin blocker\<close>

lemma bep3_inv_prevTime [simp]: "bep3_inv S hash (st\<lparr>bk_prevTime := t\<rparr>) = bep3_inv S hash st"
proof -
  have "bep3_index hash (st\<lparr>bk_prevTime := t\<rparr>) = bep3_index hash st"
    using bep3_index_frame [of "st\<lparr>bk_prevTime := t\<rparr>" st hash] bep3_index_frame [of st "st\<lparr>bk_prevTime := t\<rparr>" hash] by auto
  then show ?thesis by (simp add: bep3_inv_def GetAtomicSwap_def GetAssetSupply_def pending_total_def)
qed

lemma bep3_inv_supply:
  assumes inv: "bep3_inv S hash st" and s: "supply_wf (Math S) d s"
    "Amount (as_IncomingSupply s) = pending_total st SWAP_DIRECTION_INCOMING d"
    "Amount (as_OutgoingSupply s) = pending_total st SWAP_DIRECTION_OUTGOING d"
  shows "bep3_inv S hash (SetAssetSupply st s d)"
proof -
  have "bep3_index hash (SetAssetSupply st s d)"
    by (rule bep3_index_frame [OF _ _ _ bep3_invD(1) [OF inv]]) simp_all
  moreover have "pending_total (SetAssetSupply st s d) = pending_total st" by (simp add: fun_eq_iff pending_total_def)
  ultimately show ?thesis using inv s unfolding bep3_inv_def by auto
qed

lemma pending_total_absent:
  assumes inv: "bep3_inv S hash st" and none: "GetAssetSupply st d = None"
  shows "pending_total st dir d = 0"
proof -
  have "pending dir d a = 0" if "(i, a) \<in> set (bk_swaps st)" for i a
  proof -
    have g: "GetAtomicSwap st i = Some a" using that kv.entry_iff [OF bep3_invD(3) [OF inv]] by (simp add: GetAtomicSwap_def)
    then have "Denom (hd (sw_Amount a)) \<noteq> d" using bep3_invD(5) [OF inv g] none by auto
    then show ?thesis using pending_cases(2) [OF bep3_invD(4) [OF inv g]] by auto
  qed
  then have m: "map (\<lambda>(i, a). pending dir d a) (bk_swaps st) = map (\<lambda>_. 0) (bk_swaps st)" by (intro map_cong) auto
  show ?thesis unfolding pending_total_def m by simp
qed

lemma update_time_limit_inv:
  assumes laws: "sdk_laws S" and inv: "bep3_inv S hash st" and ok: "update_time_limit (Math S) t asset st = Inr st'"
  shows "bep3_inv S hash st'"
proof (cases "GetAssetSupply st (ap_Denom asset)")
  case None
  then obtain s' where s': "st' = SetAssetSupply st s' (ap_Denom asset)"
      "as_IncomingSupply s' = Coin (ap_Denom asset) 0" "as_OutgoingSupply s' = Coin (ap_Denom asset) 0" "as_CurrentSupply s' = Coin (ap_Denom asset) 0"
      "as_TimeLimitedCurrentSupply s' = Coin (ap_Denom asset) 0"
    using ok by (auto simp: update_time_limit_def CreateNewAssetSupply_def Let_def split: if_splits)
  have "IntInRange (Math S) 0" using sdk_lawsD(1) [OF laws] by (simp add: math_laws_def range_law_def)
  then show ?thesis
    unfolding s'(1) by (intro bep3_inv_supply [OF inv]) (simp_all add: supply_wf_def s' pending_total_absent [OF inv None])
next
  case (Some s)
  obtain s' where s': "st' = SetAssetSupply st s' (ap_Denom asset)"
      "as_IncomingSupply s' = as_IncomingSupply s" "as_OutgoingSupply s' = as_OutgoingSupply s" "as_CurrentSupply s' = as_CurrentSupply s"
      "as_TimeLimitedCurrentSupply s' \<in> {as_TimeLimitedCurrentSupply s, Coin (ap_Denom asset) 0}"
    using ok Some by (auto simp: update_time_limit_def Let_def split: if_splits)
  show ?thesis
    unfolding s'(1) using bep3_invD(6-8) [OF inv Some] s'(2-)
    by (intro bep3_inv_supply [OF inv]) (auto simp: supply_wf_def)
qed

lemma UpdateTimeBased_inv:
  assumes laws: "sdk_laws S" and inv: "bep3_inv S hash st" and ok: "UpdateTimeBasedSupplyLimits (Math S) now st = Inr st'"
  shows "bep3_inv S hash st'"
proof (cases "bk_params st = []")
  case True
  then show ?thesis using ok inv by (simp add: UpdateTimeBasedSupplyLimits_def)
next
  case False
  define prev where "prev = (case bk_prevTime st of Some t \<Rightarrow> t | None \<Rightarrow> now)"
  obtain st1 where f: "foldR (update_time_limit (Math S) (time_Sub now prev)) (bk_params st) (st\<lparr>bk_prevTime := Some prev\<rparr>) = Inr st1"
      "st' = st1\<lparr>bk_prevTime := Some now\<rparr>"
    using ok False by (auto simp: UpdateTimeBasedSupplyLimits_def Let_def prev_def)
  have "bep3_inv S hash st1"
    by (rule foldR_invariant [OF f(1)]) (use inv update_time_limit_inv [OF laws] in auto)
  then show ?thesis by (simp add: f(2))
qed

lemma expire_swap_upd:
  assumes ix: "bep3_index hash st" and a: "open_swap st i = Some a"
  shows "bep3_index hash (expire_swap hash i st)"
    "bk_swaps (expire_swap hash i st) = kv_set (bk_swaps st) i (a\<lparr>sw_Status := SWAP_STATUS_EXPIRED\<rparr>)"
    "bk_supplies (expire_swap hash i st) = bk_supplies st" "bk_bank (expire_swap hash i st) = bk_bank st"
    "bk_params (expire_swap hash i st) = bk_params st" "bk_prevTime (expire_swap hash i st) = bk_prevTime st"
proof -
  have g: "GetAtomicSwap st i = Some a" "sw_Status a = SWAP_STATUS_OPEN" using a by (auto simp: open_swap_def split: option.splits if_splits)
  have id: "GetSwapID hash a = i" by (rule bep3_indexD(2) [OF ix g(1)])
  show "bep3_index hash (expire_swap hash i st)"
    unfolding expire_swap_def g(1) option.case Let_def by (rule bep3_index_expire [OF ix g refl])
  show "bk_swaps (expire_swap hash i st) = kv_set (bk_swaps st) i (a\<lparr>sw_Status := SWAP_STATUS_EXPIRED\<rparr>)"
    "bk_supplies (expire_swap hash i st) = bk_supplies st" "bk_bank (expire_swap hash i st) = bk_bank st"
    "bk_params (expire_swap hash i st) = bk_params st" "bk_prevTime (expire_swap hash i st) = bk_prevTime st"
    by (simp_all add: expire_swap_def g(1) Let_def id)
qed

lemma delete_closed_upd:
  assumes ix: "bep3_index hash st" and a: "closed_swap st i = Some a"
  shows "bep3_index hash (delete_closed hash i st)" "bk_swaps (delete_closed hash i st) = kv_del (bk_swaps st) i"
    "bk_supplies (delete_closed hash i st) = bk_supplies st" "bk_bank (delete_closed hash i st) = bk_bank st"
    "bk_params (delete_closed hash i st) = bk_params st" "bk_prevTime (delete_closed hash i st) = bk_prevTime st"
proof -
  have g: "GetAtomicSwap st i = Some a" "sw_Status a = SWAP_STATUS_COMPLETED" using a by (auto simp: closed_swap_def split: option.splits if_splits)
  have id: "GetSwapID hash a = i" by (rule bep3_indexD(2) [OF ix g(1)])
  show "bep3_index hash (delete_closed hash i st)"
    unfolding delete_closed_def g(1) option.case by (rule bep3_index_delete [OF ix g])
  show "bk_swaps (delete_closed hash i st) = kv_del (bk_swaps st) i"
    "bk_supplies (delete_closed hash i st) = bk_supplies st" "bk_bank (delete_closed hash i st) = bk_bank st"
    "bk_params (delete_closed hash i st) = bk_params st" "bk_prevTime (delete_closed hash i st) = bk_prevTime st"
    by (simp_all add: delete_closed_def g(1) id)
qed

lemma expire_deletes: "open_ix.deletes hash (\<lambda>i st. Inr (expire_swap hash i st))"
  unfolding open_ix.deletes_def
proof (intro allI impI)
  fix i and st st' :: "'b bep3_state"
  assume ix: "bep3_index hash st" and "open_swap st i \<noteq> None" and st': "Inr (expire_swap hash i st) = (Inr st' :: 'b bep3_state result)"
  then obtain a where a: "open_swap st i = Some a" by auto
  have "GetAtomicSwap (expire_swap hash i st) = (GetAtomicSwap st)(i \<mapsto> a\<lparr>sw_Status := SWAP_STATUS_EXPIRED\<rparr>)"
    by (simp add: fun_eq_iff GetAtomicSwap_def expire_swap_upd(2) [OF ix a])
  from indexed_swap_set(1) [OF this] show "bep3_index hash st' \<and> open_swap st' = (open_swap st)(i := None)"
    using expire_swap_upd(1) [OF ix a] st' by simp
qed

lemma delete_deletes: "closed_ix.deletes hash (\<lambda>i st. Inr (delete_closed hash i st))"
  unfolding closed_ix.deletes_def
proof (intro allI impI)
  fix i and st st' :: "'b bep3_state"
  assume ix: "bep3_index hash st" and "closed_swap st i \<noteq> None" and st': "Inr (delete_closed hash i st) = (Inr st' :: 'b bep3_state result)"
  then obtain a where a: "closed_swap st i = Some a" by auto
  have "GetAtomicSwap (delete_closed hash i st) = (GetAtomicSwap st)(i := None)"
    by (simp add: fun_eq_iff GetAtomicSwap_def delete_closed_upd(2) [OF ix a])
  from indexed_swap_drop(2) [OF this] show "bep3_index hash st' \<and> closed_swap st' = (closed_swap st)(i := None)"
    using delete_closed_upd(1) [OF ix a] st' by simp
qed

lemma expire_inv:
  assumes inv: "bep3_inv S hash st" and a: "open_swap st i = Some a"
  shows "bep3_inv S hash (expire_swap hash i st)"
proof -
  note I = bep3_invD [OF inv] and u = expire_swap_upd [OF bep3_invD(1) [OF inv] a]
  let ?a = "a\<lparr>sw_Status := SWAP_STATUS_EXPIRED\<rparr>"
  have g: "GetAtomicSwap st i = Some a" "sw_Status a = SWAP_STATUS_OPEN" using a by (auto simp: open_swap_def split: option.splits if_splits)
  obtain s where s: "GetAssetSupply st (Denom (hd (sw_Amount a))) = Some s" using I(5) [OF g(1)] by blast
  have same: "pending dir d ?a = pending dir d a" for dir d by (simp add: pending_def g(2))
  show ?thesis
  proof (rule bep3_inv_upd [OF inv u(1), where i = i and oa = "Some ?a" and ?d0.0 = "Denom (hd (sw_Amount a))" and s = s and s' = s])
    show "bk_supplies (expire_swap hash i st) = kv_set (bk_supplies st) (Denom (hd (sw_Amount a))) s"
      using kv_set_same [OF I(2)] s by (simp add: u(3) GetAssetSupply_def)
  qed (use I(4) [OF g(1)] I(6) [OF s] s in \<open>auto simp: u g(1) same swap_wf_def\<close>)
qed

lemma delete_inv:
  assumes inv: "bep3_inv S hash st" and a: "closed_swap st i = Some a"
  shows "bep3_inv S hash (delete_closed hash i st)"
proof -
  note I = bep3_invD [OF inv] and u = delete_closed_upd [OF bep3_invD(1) [OF inv] a]
  have g: "GetAtomicSwap st i = Some a" "sw_Status a = SWAP_STATUS_COMPLETED" using a by (auto simp: closed_swap_def split: option.splits if_splits)
  obtain s where s: "GetAssetSupply st (Denom (hd (sw_Amount a))) = Some s" using I(5) [OF g(1)] by blast
  have zero: "pending dir d a = 0" for dir d by (simp add: pending_def g(2))
  show ?thesis
  proof (rule bep3_inv_upd [OF inv u(1), where i = i and oa = None and ?d0.0 = "Denom (hd (sw_Amount a))" and s = s and s' = s])
    show "bk_supplies (delete_closed hash i st) = kv_set (bk_supplies st) (Denom (hd (sw_Amount a))) s"
      using kv_set_same [OF I(2)] s by (simp add: u(3) GetAssetSupply_def)
  qed (use I(6) [OF s] s in \<open>auto simp: u g(1) zero\<close>)
qed

lemma expire_fold:
  assumes "bep3_inv S hash st" "distinct is" "\<forall>i\<in>set is. open_swap st i \<noteq> None"
  shows "bep3_inv S hash (fold (expire_swap hash) is st) \<and>
    GetAtomicSwap (fold (expire_swap hash) is st) =
      (\<lambda>i. if i \<in> set is then map_option (sw_Status_update (\<lambda>_. SWAP_STATUS_EXPIRED)) (GetAtomicSwap st i) else GetAtomicSwap st i) \<and>
    bk_bank (fold (expire_swap hash) is st) = bk_bank st \<and> bk_supplies (fold (expire_swap hash) is st) = bk_supplies st \<and>
    bk_params (fold (expire_swap hash) is st) = bk_params st"
  using assms
proof (induction "is" arbitrary: st)
  case (Cons i "is")
  obtain a where a: "open_swap st i = Some a" using Cons.prems(3) by auto
  then have g: "GetAtomicSwap st i = Some a" by (auto simp: open_swap_def split: option.splits if_splits)
  note u = expire_swap_upd [OF bep3_invD(1) [OF Cons.prems(1)] a]
  have get: "GetAtomicSwap (expire_swap hash i st) = (GetAtomicSwap st)(i \<mapsto> a\<lparr>sw_Status := SWAP_STATUS_EXPIRED\<rparr>)"
    by (simp add: fun_eq_iff GetAtomicSwap_def u(2))
  have "\<forall>j\<in>set is. open_swap (expire_swap hash i st) j \<noteq> None"
    using Cons.prems(2,3) by (auto simp: indexed_swap_set(1) [OF get])
  from Cons.IH [OF expire_inv [OF Cons.prems(1) a] _ this] Cons.prems(2) show ?case
    by (auto simp: get u g fun_eq_iff)
qed simp

lemma delete_fold:
  assumes "bep3_inv S hash st" "distinct is" "\<forall>i\<in>set is. closed_swap st i \<noteq> None"
  shows "bep3_inv S hash (fold (delete_closed hash) is st) \<and>
    GetAtomicSwap (fold (delete_closed hash) is st) = (\<lambda>i. if i \<in> set is then None else GetAtomicSwap st i) \<and>
    bk_bank (fold (delete_closed hash) is st) = bk_bank st \<and> bk_supplies (fold (delete_closed hash) is st) = bk_supplies st \<and>
    bk_params (fold (delete_closed hash) is st) = bk_params st"
  using assms
proof (induction "is" arbitrary: st)
  case (Cons i "is")
  obtain a where a: "closed_swap st i = Some a" using Cons.prems(3) by auto
  note u = delete_closed_upd [OF bep3_invD(1) [OF Cons.prems(1)] a]
  have get: "GetAtomicSwap (delete_closed hash i st) = (GetAtomicSwap st)(i := None)"
    by (simp add: fun_eq_iff GetAtomicSwap_def u(2))
  have "\<forall>j\<in>set is. closed_swap (delete_closed hash i st) j \<noteq> None"
    using Cons.prems(2,3) by (auto simp: indexed_swap_drop(2) [OF get])
  from Cons.IH [OF delete_inv [OF Cons.prems(1) a] _ this] Cons.prems(2) show ?case
    by (auto simp: get u fun_eq_iff)
qed simp

lemma update_time_limit_frame:
  assumes "update_time_limit m t asset st = Inr st'"
  shows "bk_swaps st' = bk_swaps st \<and> bk_byBlock st' = bk_byBlock st \<and> bk_longterm st' = bk_longterm st \<and>
    bk_params st' = bk_params st \<and> bk_bank st' = bk_bank st"
  using assms by (auto simp: update_time_limit_def CreateNewAssetSupply_def Let_def split: option.splits if_splits)

lemma UpdateTimeBased_frame:
  assumes "UpdateTimeBasedSupplyLimits m now st = Inr st'"
  shows "bk_swaps st' = bk_swaps st \<and> bk_byBlock st' = bk_byBlock st \<and> bk_longterm st' = bk_longterm st \<and>
    bk_params st' = bk_params st \<and> bk_bank st' = bk_bank st"
proof (cases "bk_params st = []")
  case False
  define prev where "prev = (case bk_prevTime st of Some t \<Rightarrow> t | None \<Rightarrow> now)"
  obtain st1 where f: "foldR (update_time_limit m (time_Sub now prev)) (bk_params st) (st\<lparr>bk_prevTime := Some prev\<rparr>) = Inr st1"
      "st' = st1\<lparr>bk_prevTime := Some now\<rparr>"
    using assms False by (auto simp: UpdateTimeBasedSupplyLimits_def Let_def prev_def)
  have "bk_swaps st1 = bk_swaps st \<and> bk_byBlock st1 = bk_byBlock st \<and> bk_longterm st1 = bk_longterm st \<and>
      bk_params st1 = bk_params st \<and> bk_bank st1 = bk_bank st"
    by (rule foldR_invariant [OF f(1)]) (auto dest: update_time_limit_frame)
  then show ?thesis by (simp add: f(2))
qed (use assms in \<open>simp add: UpdateTimeBasedSupplyLimits_def\<close>)

text \<open>What becomes of a swap in a begin blocker at some height.\<close>

definition after_block :: "uint64 \<Rightarrow> AtomicSwap \<Rightarrow> AtomicSwap option" where
  "after_block h a =
     (if sw_Status a = SWAP_STATUS_OPEN \<and> sw_ExpireHeight a \<le> h then Some (a\<lparr>sw_Status := SWAP_STATUS_EXPIRED\<rparr>)
      else if sw_Status a = SWAP_STATUS_COMPLETED \<and> deletionHeight a \<le> h then None
      else Some a)"

lemma BeginBlocker_ok:
  assumes laws: "sdk_laws S" and inv: "bep3_inv S hash st" and ok: "bep3_BeginBlocker (Math S) hash now height st = Inr st'"
  shows "bep3_inv S hash st'" "bk_bank st' = bk_bank st"
    "GetAtomicSwap st' i = Option.bind (GetAtomicSwap st i) (after_block (word_of_int height))"
    "\<exists>st1. UpdateTimeBasedSupplyLimits (Math S) now st = Inr st1 \<and> bk_supplies st' = bk_supplies st1"
    "bk_params st' = bk_params st"
proof -
  let ?h = "word_of_int height :: uint64"
  obtain st1 where st1: "UpdateTimeBasedSupplyLimits (Math S) now st = Inr st1"
      and st': "st' = DeleteClosedAtomicSwapsFromLongtermStorage hash height (UpdateExpiredAtomicSwaps hash height st1)"
    using ok by (auto simp: bep3_BeginBlocker_def)
  define st2 where "st2 = UpdateExpiredAtomicSwaps hash height st1"
  note fr = UpdateTimeBased_frame [OF st1] and i1 = UpdateTimeBased_inv [OF laws inv st1]
  have g1: "GetAtomicSwap st1 = GetAtomicSwap st" using fr by (simp add: GetAtomicSwap_def fun_eq_iff)
  have due1: "i \<in> set (swapsByBlock st1 ?h) \<longleftrightarrow> (\<exists>a. open_swap st1 i = Some a \<and> sw_ExpireHeight a \<le> ?h)" for i
    by (rule open_ix.due_iff [OF bep3_invD(1) [OF i1]])
  then have "\<forall>i\<in>set (swapsByBlock st1 ?h). open_swap st1 i \<noteq> None" by auto
  note e = expire_fold [OF i1 open_ix.due_distinct [OF bep3_invD(1) [OF i1]] this, folded UpdateExpiredAtomicSwaps_def, folded st2_def]
  have i2: "bep3_inv S hash st2" and g2: "GetAtomicSwap st2 = (\<lambda>i. if i \<in> set (swapsByBlock st1 ?h)
       then map_option (sw_Status_update (\<lambda>_. SWAP_STATUS_EXPIRED)) (GetAtomicSwap st i) else GetAtomicSwap st i)"
    using e g1 by auto
  have due2: "i \<in> set (swapsLongterm st2 ?h) \<longleftrightarrow> (\<exists>a. closed_swap st2 i = Some a \<and> deletionHeight a \<le> ?h)" for i
    by (rule closed_ix.due_iff [OF bep3_invD(1) [OF i2]])
  then have "\<forall>i\<in>set (swapsLongterm st2 ?h). closed_swap st2 i \<noteq> None" by auto
  note d = delete_fold [OF i2 closed_ix.due_distinct [OF bep3_invD(1) [OF i2]] this, folded DeleteClosedAtomicSwapsFromLongtermStorage_def]
  show "bep3_inv S hash st'" "bk_bank st' = bk_bank st" "bk_params st' = bk_params st"
    using d e fr by (simp_all add: st' flip: st2_def)
  show "\<exists>st1. UpdateTimeBasedSupplyLimits (Math S) now st = Inr st1 \<and> bk_supplies st' = bk_supplies st1"
    using d e st1 by (simp add: st' flip: st2_def)
  have g3: "GetAtomicSwap st' i = (if i \<in> set (swapsLongterm st2 ?h) then None else GetAtomicSwap st2 i)"
    using d by (simp add: st' flip: st2_def)
  show "GetAtomicSwap st' i = Option.bind (GetAtomicSwap st i) (after_block ?h)"
    unfolding g3 due2 closed_swap_def g2 due1 open_swap_def g1
    by (cases "GetAtomicSwap st i") (auto simp: after_block_def)
qed

end
