(* ===== verification/Bep3_Reach.thy ===== *)
theory Bep3_Reach
  imports Bep3_Safety
begin

text \<open>
  The atomic swap module over time: loading genesis establishes the invariant, every operation keeps
  it, and so what holds of swaps, supplies and the module account in every state a chain can reach.
\<close>

section \<open>Genesis\<close>

lemma SetAssetSupply_load:
  "fold (\<lambda>s st. SetAssetSupply st s (GetDenom s)) ss st = st\<lparr>bk_supplies := kv_load GetDenom ss (bk_supplies st)\<rparr>"
  by (induction ss arbitrary: st) (simp_all add: SetAssetSupply_def)

lemma genesis_swaps_check_ok:
  "genesis_swaps_check m hash ids as = Inr () \<Longrightarrow>
     distinct (map (GetSwapID hash) as) \<and> set (map (GetSwapID hash) as) \<inter> set ids = {} \<and> (\<forall>a\<in>set as. AtomicSwap_Validate m a = Inr ())"
  by (induction m hash ids as rule: genesis_swaps_check.induct) (auto split: if_splits)

lemma genesis_supplies_check_ok:
  "genesis_supplies_check m ds ss = Inr () \<Longrightarrow>
     distinct (map GetDenom ss) \<and> set (map GetDenom ss) \<inter> set ds = {} \<and> (\<forall>s\<in>set ss. AssetSupply_Validate m s = Inr ())"
  by (induction m ds ss rule: genesis_supplies_check.induct) (auto split: if_splits)

lemma bep3_index_load:
  assumes ix: "bep3_index hash st" and none: "GetAtomicSwap st (GetSwapID hash a) = None"
  shows "sw_Status a = SWAP_STATUS_EXPIRED \<Longrightarrow> bep3_index hash (SetAtomicSwap hash st a)"
    and "sw_Status a = SWAP_STATUS_COMPLETED \<Longrightarrow> bep3_index hash (InsertIntoLongtermStorage hash (SetAtomicSwap hash st a) a)"
proof -
  let ?i = "GetSwapID hash a"
  have no: "open_swap st ?i = None" "closed_swap st ?i = None" using none by (simp_all add: open_swap_def closed_swap_def)
  have base: "kv_ok (kv_set (bk_swaps st) ?i a)" "\<forall>i b. ((GetAtomicSwap st)(?i \<mapsto> a)) i = Some b \<longrightarrow> GetSwapID hash b = i"
    using bep3_indexD(1,2) [OF ix] by auto
  show "bep3_index hash (SetAtomicSwap hash st a)" if s: "sw_Status a = SWAP_STATUS_EXPIRED"
  proof -
    have g: "GetAtomicSwap (SetAtomicSwap hash st a) = (GetAtomicSwap st)(?i \<mapsto> a)" by simp
    show ?thesis
      unfolding bep3_index_def indexed_swap_set [OF g] g
      using bep3_indexD(3,4) [OF ix] by (intro conjI base(2)) (simp_all add: s fun_upd_same_None no base(1))
  qed
  show "bep3_index hash (InsertIntoLongtermStorage hash (SetAtomicSwap hash st a) a)" if s: "sw_Status a = SWAP_STATUS_COMPLETED"
  proof -
    have g: "GetAtomicSwap (InsertIntoLongtermStorage hash (SetAtomicSwap hash st a) a) = (GetAtomicSwap st)(?i \<mapsto> a)" by simp
    show ?thesis
      unfolding bep3_index_def indexed_swap_set [OF g] g
      using bep3_indexD(3) [OF ix] height_index_insert [OF bep3_indexD(4) [OF ix] no(2), of a]
      by (intro conjI base(2)) (simp_all add: s fun_upd_same_None no base(1))
  qed
qed

definition loaded :: "'b sdk \<Rightarrow> hasher \<Rightarrow> 'b bep3_state \<Rightarrow> coins \<Rightarrow> coins \<Rightarrow> bool" where
  "loaded S hash st i out \<longleftrightarrow> bep3_index hash st \<and> coins_Valid (Math S) i \<and> coins_Valid (Math S) out \<and>
     (\<forall>d. AmountOf i d = pending_total st SWAP_DIRECTION_INCOMING d) \<and> (\<forall>d. AmountOf out d = pending_total st SWAP_DIRECTION_OUTGOING d)"

lemma load_swap_ok:
  assumes laws: "sdk_laws S" and ld: "loaded S hash st i out" and none: "GetAtomicSwap st (GetSwapID hash a) = None"
    and ok: "load_swap S hash a (st, i, out) = Inr (st', i', out')"
  shows "loaded S hash st' i' out'" "GetAtomicSwap st' = (GetAtomicSwap st)(GetSwapID hash a \<mapsto> a)"
    "bk_supplies st' = bk_supplies st" "bk_params st' = bk_params st" "bk_bank st' = bk_bank st"
    "sw_Direction a \<in> {SWAP_DIRECTION_INCOMING, SWAP_DIRECTION_OUTGOING}" "sw_Status a \<in> {SWAP_STATUS_OPEN, SWAP_STATUS_EXPIRED, SWAP_STATUS_COMPLETED}"
proof -
  have va: "coins_Valid (Math S) (sw_Amount a)"
    using ok by (auto simp: load_swap_def AtomicSwap_Validate_def split: if_splits)
  have kv: "kv_ok (bk_swaps st)" using ld bep3_indexD(1) by (auto simp: loaded_def)
  obtain st1 where st1: "st' = st1" "bk_swaps st1 = kv_set (bk_swaps st) (GetSwapID hash a) a"
      "bk_supplies st1 = bk_supplies st" "bk_params st1 = bk_params st" "bk_bank st1 = bk_bank st" "bep3_index hash st1"
    using ok ld bep3_index_create [OF _ none] bep3_index_load [OF _ none]
    by (auto simp: load_swap_def Let_def loaded_def split: if_splits SwapDirection.splits SwapStatus.splits)
  show st: "GetAtomicSwap st' = (GetAtomicSwap st)(GetSwapID hash a \<mapsto> a)"
    "bk_supplies st' = bk_supplies st" "bk_params st' = bk_params st" "bk_bank st' = bk_bank st"
    using st1 by (simp_all add: GetAtomicSwap_def fun_eq_iff)
  show dir: "sw_Direction a \<in> {SWAP_DIRECTION_INCOMING, SWAP_DIRECTION_OUTGOING}"
    and stat: "sw_Status a \<in> {SWAP_STATUS_OPEN, SWAP_STATUS_EXPIRED, SWAP_STATUS_COMPLETED}"
    using ok by (auto simp: load_swap_def Let_def split: if_splits SwapDirection.splits SwapStatus.splits)
  have tot: "pending_total st' dir d = pending_total st dir d + pending dir d a" for dir d
    using pending_total_upd [OF kv, of st1 "GetSwapID hash a" "Some a"] st1(1,2) none by simp
  have v: "coins_Valid (Math S) i" "coins_Valid (Math S) out" using ld by (simp_all add: loaded_def)
  have i': "i' = i \<and> (\<forall>d. pending SWAP_DIRECTION_INCOMING d a = 0) \<or>
      CoinsAdd S i (sw_Amount a) = Inr i' \<and> (\<forall>d. pending SWAP_DIRECTION_INCOMING d a = AmountOf (sw_Amount a) d)"
    and out': "out' = out \<and> (\<forall>d. pending SWAP_DIRECTION_OUTGOING d a = 0) \<or>
      CoinsAdd S out (sw_Amount a) = Inr out' \<and> (\<forall>d. pending SWAP_DIRECTION_OUTGOING d a = AmountOf (sw_Amount a) d)"
    using ok by (auto simp: load_swap_def Let_def pending_def split: if_splits SwapDirection.splits SwapStatus.splits)
  have "coins_Valid (Math S) i' \<and> (\<forall>d. AmountOf i' d = AmountOf i d + pending SWAP_DIRECTION_INCOMING d a)"
    using i' v(1) CoinsAdd_amount [OF laws v(1) va] by auto
  moreover have "coins_Valid (Math S) out' \<and> (\<forall>d. AmountOf out' d = AmountOf out d + pending SWAP_DIRECTION_OUTGOING d a)"
    using out' v(2) CoinsAdd_amount [OF laws v(2) va] by auto
  ultimately show "loaded S hash st' i' out'" using ld st1(6) [folded st1(1)] by (simp add: loaded_def tot)
qed

lemma load_swaps_ok:
  assumes laws: "sdk_laws S" and "loaded S hash st i out" "distinct (map (GetSwapID hash) as)" "\<forall>a\<in>set as. GetAtomicSwap st (GetSwapID hash a) = None"
    and "foldR (load_swap S hash) as (st, i, out) = Inr (st', i', out')"
  shows "loaded S hash st' i' out' \<and> bk_supplies st' = bk_supplies st \<and> bk_params st' = bk_params st \<and> bk_bank st' = bk_bank st \<and>
    (\<forall>a\<in>set as. sw_Direction a \<in> {SWAP_DIRECTION_INCOMING, SWAP_DIRECTION_OUTGOING} \<and>
        sw_Status a \<in> {SWAP_STATUS_OPEN, SWAP_STATUS_EXPIRED, SWAP_STATUS_COMPLETED}) \<and>
    (\<forall>j a. GetAtomicSwap st' j = Some a \<longrightarrow> a \<in> set as \<or> GetAtomicSwap st j = Some a)"
  using assms(2-)
proof (induction as arbitrary: st i out)
  case (Cons a as)
  obtain st1 i1 out1 where s1: "load_swap S hash a (st, i, out) = Inr (st1, i1, out1)" "foldR (load_swap S hash) as (st1, i1, out1) = Inr (st', i', out')"
    using Cons.prems(4) by (auto simp: split_paired_all)
  note l = load_swap_ok [OF laws Cons.prems(1) _ s1(1)]
  have none: "GetAtomicSwap st (GetSwapID hash a) = None" using Cons.prems(3) by simp
  have "\<forall>b\<in>set as. GetAtomicSwap st1 (GetSwapID hash b) = None"
  proof
    fix b assume b: "b \<in> set as"
    then have "GetSwapID hash b \<noteq> GetSwapID hash a" using Cons.prems(2) by (auto simp: image_iff)
    then show "GetAtomicSwap st1 (GetSwapID hash b) = None" using Cons.prems(3) b by (simp add: l(2) [OF none])
  qed
  from Cons.IH [OF l(1) [OF none] _ this s1(2)] Cons.prems(2) show ?case
    using l(2-7) [OF none] by (auto split: if_splits)
qed simp

text \<open>
  What a genesis file has to provide beyond the checks of \<open>InitGenesis\<close>: one coin per swap, parties
  other than this module, a supply for every denomination that is swapped, outgoing supplies within the
  current ones, and the escrowed coins in the module account.
\<close>

definition genesis_ok :: "'b sdk \<Rightarrow> 'b bep3_state \<Rightarrow> bep3_genesis \<Rightarrow> bool" where
  "genesis_ok S st gs \<longleftrightarrow> bk_swaps st = [] \<and> bk_byBlock st = [] \<and> bk_longterm st = [] \<and> bk_supplies st = [] \<and>
     (\<forall>a\<in>set (bg_AtomicSwaps gs). length (sw_Amount a) = 1 \<and> Denom (hd (sw_Amount a)) \<in> set (map GetDenom (bg_Supplies gs)) \<and>
        sw_Sender a \<noteq> ModuleAddress S bep3_module \<and> sw_Recipient a \<noteq> ModuleAddress S bep3_module) \<and>
     (\<forall>s\<in>set (bg_Supplies gs). IntInRange (Math S) (Amount (as_CurrentSupply s)) \<and> IntInRange (Math S) (Amount (as_IncomingSupply s)) \<and>
        Amount (as_OutgoingSupply s) \<le> Amount (as_CurrentSupply s)) \<and>
     (\<forall>d. bep3_funds S (bk_bank st) d = (\<Sum>a\<leftarrow>bg_AtomicSwaps gs. pending SWAP_DIRECTION_OUTGOING d a))"

lemma foldR_unit: "foldR (\<lambda>x _. f x) xs () = Inr () \<Longrightarrow> \<forall>x\<in>set xs. f x = Inr ()"
  by (induction xs) auto

lemma load_swaps_get:
  assumes "foldR (load_swap S hash) as (st, i, out) = Inr (st', i', out')"
  shows "bk_swaps st' = kv_load (GetSwapID hash) as (bk_swaps st)"
  using assms
proof (induction as arbitrary: st i out)
  case (Cons a as)
  obtain st1 i1 out1 where s1: "load_swap S hash a (st, i, out) = Inr (st1, i1, out1)" "foldR (load_swap S hash) as (st1, i1, out1) = Inr (st', i', out')"
    using Cons.prems by (auto simp: split_paired_all)
  have "bk_swaps st1 = kv_set (bk_swaps st) (GetSwapID hash a) a"
    using s1(1) by (auto simp: load_swap_def Let_def split: if_splits SwapDirection.splits SwapStatus.splits)
  then show ?case using Cons.IH [OF s1(2)] by simp
qed simp

lemma InitGenesis_bep3_inv:
  assumes laws: "sdk_laws S" and ok: "bep3_InitGenesis S hash st gs = Inr st'" and g: "genesis_ok S st gs"
  shows "bep3_inv S hash st'"
proof -
  let ?st = "st\<lparr>bk_prevTime := Some (bg_PreviousBlockTime gs), bk_params := bg_Params gs, bk_supplies := kv_load GetDenom (bg_Supplies gs) []\<rparr>"
  have e: "bk_swaps st = []" "bk_byBlock st = []" "bk_longterm st = []" "bk_supplies st = []" using g by (simp_all add: genesis_ok_def)
  obtain i out where v: "validateAssetParams (Math S) [] (bg_Params gs) = Inr ()" "genesis_swaps_check (Math S) hash [] (bg_AtomicSwaps gs) = Inr ()"
      "genesis_supplies_check (Math S) [] (bg_Supplies gs) = Inr ()"
      and f: "foldR (load_swap S hash) (bg_AtomicSwaps gs) (?st, [], []) = Inr (st', i, out)"
      and c: "foldR (\<lambda>s _. check_supply (Math S) st' i out s) (GetAllAssetSupplies st') () = Inr ()"
    using ok e by (auto simp: bep3_InitGenesis_def bep3_genesis_Validate_def SetAssetSupply_load split: if_splits)
  note gv = genesis_swaps_check_ok [OF v(2)] and sv = genesis_supplies_check_ok [OF v(3)]
  have none: "GetAtomicSwap ?st j = None" for j by (simp add: GetAtomicSwap_def e)
  have ld: "loaded S hash ?st [] []"
    by (simp add: loaded_def bep3_index_def height_index_def open_swap_def closed_swap_def GetAtomicSwap_def e coins_Valid_def pending_total_def)
  note L = load_swaps_ok [OF laws ld _ _ f]
  have L': "loaded S hash st' i out" "bk_supplies st' = kv_load GetDenom (bg_Supplies gs) []" "bk_params st' = bg_Params gs" "bk_bank st' = bk_bank st"
    and dir: "\<forall>a\<in>set (bg_AtomicSwaps gs). sw_Direction a \<in> {SWAP_DIRECTION_INCOMING, SWAP_DIRECTION_OUTGOING} \<and>
        sw_Status a \<in> {SWAP_STATUS_OPEN, SWAP_STATUS_EXPIRED, SWAP_STATUS_COMPLETED}"
    and mem: "\<forall>j a. GetAtomicSwap st' j = Some a \<longrightarrow> a \<in> set (bg_AtomicSwaps gs)"
    using L gv none by auto
  have sw: "bk_swaps st' = kv_load (GetSwapID hash) (bg_AtomicSwaps gs) []" using load_swaps_get [OF f] by (simp add: e)
  note ks = kv_load [of GetDenom "bg_Supplies gs"]
  have sup: "s \<in> set (bg_Supplies gs) \<and> GetDenom s = d" if "GetAssetSupply st' d = Some s" for d s
    using that ks(2) sv by (auto simp: GetAssetSupply_def L'(2) dest!: map_of_SomeD)
  have chk: "check_supply (Math S) st' i out s = Inr ()" if "GetAssetSupply st' d = Some s" for d s
    using foldR_unit [OF c] that map_of_SomeD by (force simp: GetAllAssetSupplies_def GetAssetSupply_def)
  have tot: "pending_total st' dir d = (\<Sum>a\<leftarrow>bg_AtomicSwaps gs. pending dir d a)" for dir d
    using kv_load(3) [of "GetSwapID hash" "bg_AtomicSwaps gs" "\<lambda>_. pending dir d"] gv by (simp add: pending_total_def sw)
  show ?thesis
    unfolding bep3_inv_def
  proof (intro conjI allI impI)
    show "bep3_index hash st'" using L'(1) by (simp add: loaded_def)
    show "kv_ok (bk_supplies st')" using ks(1) sv by (simp add: L'(2))
    show "validateAssetParams (Math S) [] (bk_params st') = Inr ()" using v(1) by (simp add: L'(3))
    show "bep3_funds S (bk_bank st') d = pending_total st' SWAP_DIRECTION_OUTGOING d" for d
      using g by (simp add: L'(4) tot genesis_ok_def)
  next
    fix j a assume "GetAtomicSwap st' j = Some a"
    then have a: "a \<in> set (bg_AtomicSwaps gs)" using mem by blast
    then have one: "length (sw_Amount a) = 1" "Denom (hd (sw_Amount a)) \<in> set (map GetDenom (bg_Supplies gs))"
        "sw_Sender a \<noteq> ModuleAddress S bep3_module" "sw_Recipient a \<noteq> ModuleAddress S bep3_module"
      using g by (auto simp: genesis_ok_def)
    obtain c where c: "sw_Amount a = [c]" using one(1) by (cases "sw_Amount a") auto
    have "AtomicSwap_Validate (Math S) a = Inr ()" using gv a by blast
    then have "0 < Amount c" using c by (simp add: AtomicSwap_Validate_def split: if_splits)
    then show "swap_wf S a" using dir a one(3,4) c by (auto simp: swap_wf_def)
    have "map_of (map (\<lambda>s. (GetDenom s, s)) (bg_Supplies gs)) (Denom (hd (sw_Amount a))) \<noteq> None"
      using one(2) by (auto simp: map_of_eq_None_iff image_iff)
    then show "GetAssetSupply st' (Denom (hd (sw_Amount a))) \<noteq> None" using ks(2) sv by (simp add: GetAssetSupply_def L'(2))
  next
    fix d s assume s: "GetAssetSupply st' d = Some s"
    note su = sup [OF s]
    have k: "Amount (as_IncomingSupply s) = AmountOf i d" "Amount (as_OutgoingSupply s) = AmountOf out d"
      using chk [OF s] su by (auto simp: check_supply_def split: if_splits)
    show "Amount (as_IncomingSupply s) = pending_total st' SWAP_DIRECTION_INCOMING d"
      "Amount (as_OutgoingSupply s) = pending_total st' SWAP_DIRECTION_OUTGOING d"
      using k L'(1) by (simp_all add: loaded_def)
    have "AssetSupply_Validate (Math S) s = Inr ()" using sv su by blast
    then show "supply_wf (Math S) d s"
      using g su by (auto simp: supply_wf_def AssetSupply_Validate_def genesis_ok_def GetDenom_def coin_IsValid_def Let_def split: if_splits)
  qed
qed

section \<open>Reachable states\<close>

inductive bep3_step :: "'b sdk \<Rightarrow> hasher \<Rightarrow> (address \<Rightarrow> bool) \<Rightarrow> (string \<Rightarrow> address result) \<Rightarrow> int \<Rightarrow> 'b bep3_state \<Rightarrow> 'b bep3_state \<Rightarrow> bool"
  for S hash maccs bech height where
  create: "msg_CreateAtomicSwap S hash maccs bech now height st msg = Inr st' \<Longrightarrow>
    bech (mc_From msg) \<noteq> Inr (ModuleAddress S bep3_module) \<Longrightarrow> bep3_step S hash maccs bech height st st'"
| claim: "msg_ClaimAtomicSwap S hash bech height st from i r = Inr st' \<Longrightarrow> bep3_step S hash maccs bech height st st'"
| refund: "msg_RefundAtomicSwap S hash bech height st from i = Inr st' \<Longrightarrow> bep3_step S hash maccs bech height st st'"
| block: "bep3_BeginBlocker (Math S) hash now height st = Inr st' \<Longrightarrow> bep3_step S hash maccs bech height st st'"

inductive_cases bep3_stepE: "bep3_step S hash maccs bech height st st'"

text \<open>Other modules leave the escrow account alone; governance sets valid parameters.\<close>

inductive bep3_reach :: "'b sdk \<Rightarrow> hasher \<Rightarrow> (address \<Rightarrow> bool) \<Rightarrow> (string \<Rightarrow> address result) \<Rightarrow> 'b bep3_state \<Rightarrow> bool"
  for S hash maccs bech where
  genesis: "bep3_InitGenesis S hash st gs = Inr st' \<Longrightarrow> genesis_ok S st gs \<Longrightarrow> bep3_reach S hash maccs bech st'"
| step: "bep3_reach S hash maccs bech st \<Longrightarrow> bep3_step S hash maccs bech height st st' \<Longrightarrow> bep3_reach S hash maccs bech st'"
| params: "bep3_reach S hash maccs bech st \<Longrightarrow> validateAssetParams (Math S) [] ps = Inr () \<Longrightarrow> bep3_reach S hash maccs bech (st\<lparr>bk_params := ps\<rparr>)"
| others: "bep3_reach S hash maccs bech st \<Longrightarrow> \<forall>d. bep3_funds S b d = bep3_funds S (bk_bank st) d \<Longrightarrow> bep3_reach S hash maccs bech (st\<lparr>bk_bank := b\<rparr>)"

lemma bep3_step_inv:
  assumes laws: "sdk_laws S" and macc: "maccs (ModuleAddress S bep3_module)" and inv: "bep3_inv S hash st"
    and step: "bep3_step S hash maccs bech height st st'"
  shows "bep3_inv S hash st'"
  using step
proof (cases rule: bep3_step.cases)
  case (create now msg)
  then obtain w t h where "bech (mc_From msg) = Inr w" "w \<noteq> ModuleAddress S bep3_module"
      "CreateAtomicSwap S hash maccs now height st h (mc_Timestamp msg) (mc_HeightSpan msg) w t
         (mc_SenderOtherChain msg) (mc_RecipientOtherChain msg) (mc_Amount msg) True = Inr st'"
    by (auto simp: msg_CreateAtomicSwap_def)
  then show ?thesis using Create_inv [OF laws inv, of maccs] macc by blast
next
  case (claim "from" i r)
  then show ?thesis using Claim_inv [OF laws inv] by (auto simp: msg_ClaimAtomicSwap_def)
next
  case (refund "from" i)
  then show ?thesis using Refund_inv [OF laws inv] by (auto simp: msg_RefundAtomicSwap_def)
next
  case (block now)
  then show ?thesis by (rule BeginBlocker_ok(1) [OF laws inv])
qed

lemma bep3_inv_frame:
  "bep3_inv S hash st \<Longrightarrow> validateAssetParams (Math S) [] ps = Inr () \<Longrightarrow> bep3_inv S hash (st\<lparr>bk_params := ps\<rparr>)"
  "bep3_inv S hash st \<Longrightarrow> \<forall>d. bep3_funds S b d = bep3_funds S (bk_bank st) d \<Longrightarrow> bep3_inv S hash (st\<lparr>bk_bank := b\<rparr>)"
proof -
  have ix: "bep3_index hash st \<Longrightarrow> bep3_index hash (st\<lparr>bk_params := ps\<rparr>)" "bep3_index hash st \<Longrightarrow> bep3_index hash (st\<lparr>bk_bank := b\<rparr>)"
    by (rule bep3_index_frame [of _ st]; simp)+
  show "bep3_inv S hash st \<Longrightarrow> validateAssetParams (Math S) [] ps = Inr () \<Longrightarrow> bep3_inv S hash (st\<lparr>bk_params := ps\<rparr>)"
    "bep3_inv S hash st \<Longrightarrow> \<forall>d. bep3_funds S b d = bep3_funds S (bk_bank st) d \<Longrightarrow> bep3_inv S hash (st\<lparr>bk_bank := b\<rparr>)"
    unfolding bep3_inv_def using ix by (simp_all add: GetAtomicSwap_def GetAssetSupply_def pending_total_def)
qed

lemma bep3_reach_inv:
  assumes laws: "sdk_laws S" and macc: "maccs (ModuleAddress S bep3_module)"
  shows "bep3_reach S hash maccs bech st \<Longrightarrow> bep3_inv S hash st"
  by (induction rule: bep3_reach.induct)
    (blast intro: InitGenesis_bep3_inv [OF laws] bep3_step_inv [where maccs = maccs, OF laws macc] bep3_inv_frame)+

section \<open>The life of a swap\<close>






text \<open>
  C8: In every state a chain reaches by genesis, swap messages, begin blockers, parameter changes and
  other modules' transactions, the module account holds exactly the coins of the outgoing swaps that
  are neither claimed nor refunded, and the incoming and outgoing supplies of every asset are the sums
  of its pending swaps, the outgoing one never above the current supply.
\<close>

theorem bep3_escrow:
  assumes "sdk_laws S" "maccs (ModuleAddress S bep3_module)" "bep3_reach S hash maccs bech st"
  shows "(\<forall>d. bep3_funds S (bk_bank st) d = pending_total st SWAP_DIRECTION_OUTGOING d) \<and>
    (\<forall>d s. GetAssetSupply st d = Some s \<longrightarrow>
       Amount (as_IncomingSupply s) = pending_total st SWAP_DIRECTION_INCOMING d \<and>
       Amount (as_OutgoingSupply s) = pending_total st SWAP_DIRECTION_OUTGOING d \<and>
       0 \<le> Amount (as_OutgoingSupply s) \<and> Amount (as_OutgoingSupply s) \<le> Amount (as_CurrentSupply s))"
proof -
  have inv: "bep3_inv S hash st" by (rule bep3_reach_inv [where maccs = maccs, OF assms])
  note I = bep3_invD [OF inv]
  have "0 \<le> pending_total st SWAP_DIRECTION_OUTGOING d" for d
    using I(9) [of d] sdk_lawsD(7) [OF assms(1)] by (simp add: account_law_def flip: I(9))
  then show ?thesis using I(6-9) by (auto simp: supply_wf_def)
qed

text \<open>
  C15: Claiming succeeds only for an open swap and a number whose hash opens it. An incoming swap then
  mints exactly its amount to its recipient, an outgoing one burns exactly its amount from the module
  account, no other balance changes, and the swap is completed: neither a second claim nor a refund of
  it succeeds.
\<close>

theorem ClaimAtomicSwap_effect:
  assumes "sdk_laws S" "maccs (ModuleAddress S bep3_module)" "bep3_reach S hash maccs bech st"
    and "ClaimAtomicSwap S hash height st from i rnd = Inr st'"
  shows "\<exists>a c s s'. GetAtomicSwap st i = Some a \<and> sw_Status a = SWAP_STATUS_OPEN \<and> sw_Amount a = [c] \<and>
     CalculateSwapID hash (CalculateRandomHash hash rnd (sw_Timestamp a)) (sw_Sender a) (sw_SenderOtherChain a) = i \<and>
     GetAssetSupply st (Denom c) = Some s \<and> GetAssetSupply st' = (GetAssetSupply st)(Denom c \<mapsto> s') \<and>
     claimed S a c s s' (bk_bank st) (bk_bank st') \<and>
     ClaimAtomicSwap S hash height' st' from' i rnd' = Inl (Err ''ErrSwapNotClaimable'') \<and>
     RefundAtomicSwap S hash height' st' from' i = Inl (Err ''ErrSwapNotRefundable'')"
proof -
  have inv: "bep3_inv S hash st" by (rule bep3_reach_inv [where maccs = maccs, OF assms(1-3)])
  show ?thesis
  proof (rule Claim_ok [OF assms(1) inv assms(4)])
    fix a c s s' bank a'
    assume *: "GetAtomicSwap st i = Some a" "sw_Status a = SWAP_STATUS_OPEN"
      "CalculateSwapID hash (CalculateRandomHash hash rnd (sw_Timestamp a)) (sw_Sender a) (sw_SenderOtherChain a) = i"
      "sw_Amount a = [c]" "GetAssetSupply st (Denom c) = Some s" "claimed S a c s s' (bk_bank st) bank"
      "a' = a\<lparr>sw_Status := SWAP_STATUS_COMPLETED, sw_ClosedBlock := height\<rparr>"
      "st' = InsertIntoLongtermStorage hash (RemoveFromByBlockIndex hash (SetAtomicSwap hash
         ((SetAssetSupply st s' (Denom c))\<lparr>bk_bank := bank\<rparr>) a') a') a'"
    have "GetAtomicSwap st' i = Some a'" using bep3_invD(10) [OF inv *(1)] by (simp add: *(7,8))
    then show ?thesis using *(1-6)
      by (intro exI [of _ a] exI [of _ c] exI [of _ s] exI [of _ s'])
        (simp add: *(7,8) ClaimAtomicSwap_def RefundAtomicSwap_def)
  qed
qed

text \<open>
  C17: In a reachable state a refund succeeds exactly if the swap has expired and, where the swap is outgoing, the bank
  returns its coins, which the module account holds. Anyone may ask for it. The sender gets back exactly the amount of an
  outgoing swap, nobody else's balance changes but the module account's, and the swap is completed.
\<close>

theorem RefundAtomicSwap_succeeds:
  assumes "sdk_laws S" "maccs (ModuleAddress S bep3_module)" "bep3_reach S hash maccs bech st"
  shows "((\<exists>st'. RefundAtomicSwap S hash height st from i = Inr st') \<longleftrightarrow>
      (\<exists>a. GetAtomicSwap st i = Some a \<and> sw_Status a = SWAP_STATUS_EXPIRED \<and> (sw_Direction a = SWAP_DIRECTION_OUTGOING \<longrightarrow>
         (\<exists>b. SendCoinsFromModuleToAccount S (bk_bank st) bep3_module (sw_Sender a) (sw_Amount a) = Inr b)))) \<and>
    (\<forall>a. GetAtomicSwap st i = Some a \<and> sw_Status a = SWAP_STATUS_EXPIRED \<longrightarrow>
      (sw_Direction a = SWAP_DIRECTION_OUTGOING \<longrightarrow> (\<forall>d. AmountOf (sw_Amount a) d \<le> bep3_funds S (bk_bank st) d)) \<and>
      (\<forall>st'. RefundAtomicSwap S hash height st from i = Inr st' \<longrightarrow>
         GetAtomicSwap st' = (GetAtomicSwap st)(i \<mapsto> a\<lparr>sw_Status := SWAP_STATUS_COMPLETED, sw_ClosedBlock := height\<rparr>) \<and>
         (if sw_Direction a = SWAP_DIRECTION_OUTGOING
          then moved S (bk_bank st) (bk_bank st') (ModuleAddress S bep3_module) (sw_Sender a) (sw_Amount a) else bk_bank st' = bk_bank st)))"
proof -
  have inv: "bep3_inv S hash st" by (rule bep3_reach_inv [where maccs = maccs, OF assms])
  have nonneg: "0 \<le> bep3_funds S (bk_bank st) d" for d using sdk_lawsD(7) [OF assms(1)] by (simp add: account_law_def)
  let ?sends = "\<lambda>a b. SendCoinsFromModuleToAccount S (bk_bank st) bep3_module (sw_Sender a) (sw_Amount a) = Inr b"
  have run: "((\<exists>st'. RefundAtomicSwap S hash height st from i = Inr st') \<longleftrightarrow> (sw_Direction a = SWAP_DIRECTION_OUTGOING \<longrightarrow> (\<exists>b. ?sends a b))) \<and>
      (sw_Direction a = SWAP_DIRECTION_OUTGOING \<longrightarrow> (\<forall>d. AmountOf (sw_Amount a) d \<le> bep3_funds S (bk_bank st) d)) \<and>
      (\<forall>st'. RefundAtomicSwap S hash height st from i = Inr st' \<longrightarrow>
         GetAtomicSwap st' = (GetAtomicSwap st)(i \<mapsto> a\<lparr>sw_Status := SWAP_STATUS_COMPLETED, sw_ClosedBlock := height\<rparr>) \<and>
         (if sw_Direction a = SWAP_DIRECTION_OUTGOING
          then moved S (bk_bank st) (bk_bank st') (ModuleAddress S bep3_module) (sw_Sender a) (sw_Amount a) else bk_bank st' = bk_bank st))"
    if a: "GetAtomicSwap st i = Some a" "sw_Status a = SWAP_STATUS_EXPIRED" for a
  proof (rule Refund_run [OF assms(1) inv a refl, of height "from"])
    note wf = bep3_invD(4) [OF inv a(1)] and id = bep3_invD(10) [OF inv a(1)]
    fix c s
    assume *: "sw_Amount a = [c]"
      "sw_Direction a = SWAP_DIRECTION_INCOMING \<Longrightarrow> RefundAtomicSwap S hash height st from i =
       Inr (InsertIntoLongtermStorage hash (SetAtomicSwap hash (SetAssetSupply st
         (s\<lparr>as_IncomingSupply := Coin (Denom c) (Amount (as_IncomingSupply s) - Amount c)\<rparr>) (Denom c))
         (a\<lparr>sw_Status := SWAP_STATUS_COMPLETED, sw_ClosedBlock := height\<rparr>)) (a\<lparr>sw_Status := SWAP_STATUS_COMPLETED, sw_ClosedBlock := height\<rparr>))"
      "sw_Direction a = SWAP_DIRECTION_OUTGOING \<Longrightarrow> RefundAtomicSwap S hash height st from i =
       bnd (SendCoinsFromModuleToAccount S (bk_bank st) bep3_module (sw_Sender a) [c]) (\<lambda>b.
       Inr (InsertIntoLongtermStorage hash (SetAtomicSwap hash ((SetAssetSupply st
         (s\<lparr>as_OutgoingSupply := Coin (Denom c) (Amount (as_OutgoingSupply s) - Amount c)\<rparr>) (Denom c))\<lparr>bk_bank := b\<rparr>)
         (a\<lparr>sw_Status := SWAP_STATUS_COMPLETED, sw_ClosedBlock := height\<rparr>)) (a\<lparr>sw_Status := SWAP_STATUS_COMPLETED, sw_ClosedBlock := height\<rparr>)))"
      "sw_Direction a = SWAP_DIRECTION_OUTGOING \<Longrightarrow> Amount c \<le> bep3_funds S (bk_bank st) (Denom c)"
    show ?thesis
    proof (cases "sw_Direction a = SWAP_DIRECTION_OUTGOING")
      case True
      have "AmountOf [c] d \<le> bep3_funds S (bk_bank st) d" for d using *(4) [OF True] nonneg by auto
      then show ?thesis using *(3) [OF True] True sends(3) [OF assms(1)] by (auto simp: id *(1) simp del: AmountOf.simps)
    next
      case False
      then have "sw_Direction a = SWAP_DIRECTION_INCOMING" using wf by (auto simp: swap_wf_def)
      then show ?thesis using *(2) False by (simp add: id)
    qed
  qed
  have "\<exists>a. GetAtomicSwap st i = Some a \<and> sw_Status a = SWAP_STATUS_EXPIRED" if "RefundAtomicSwap S hash height st from i = Inr st'" for st'
    using that by (auto simp: RefundAtomicSwap_def split: option.splits if_splits)
  then show ?thesis using run by meson
qed

section \<open>Supply limits\<close>

definition within_limit :: "SupplyLimit \<Rightarrow> AssetSupply \<Rightarrow> bool" where
  "within_limit limit s \<longleftrightarrow> Amount (as_CurrentSupply s) + Amount (as_IncomingSupply s) \<le> sl_Limit limit \<and>
     (sl_TimeLimited limit \<longrightarrow> Amount (as_TimeLimitedCurrentSupply s) + Amount (as_IncomingSupply s) \<le> sl_TimeBasedLimit limit)"

definition bep3_within :: "'b bep3_state \<Rightarrow> bool" where
  "bep3_within st \<longleftrightarrow> (\<forall>d s limit. GetAssetSupply st d = Some s \<longrightarrow> GetSupplyLimit st d = Inr limit \<longrightarrow> within_limit limit s)"

lemma bep3_within_upd:
  assumes "bep3_within st" "bk_params st' = bk_params st" "GetAssetSupply st' = (GetAssetSupply st)(d \<mapsto> s')"
    and "\<And>limit. GetSupplyLimit st d = Inr limit \<Longrightarrow> within_limit limit s'"
  shows "bep3_within st'"
proof -
  have "GetSupplyLimit st' = GetSupplyLimit st" using assms(2) by (simp add: fun_eq_iff GetSupplyLimit_def GetAsset_def)
  then show ?thesis using assms(1,3,4) by (auto simp: bep3_within_def)
qed

lemma within_less:
  assumes "within_limit limit s" "Amount (as_CurrentSupply s') \<le> Amount (as_CurrentSupply s)"
    "Amount (as_IncomingSupply s') \<le> Amount (as_IncomingSupply s)"
    "Amount (as_TimeLimitedCurrentSupply s') \<le> Amount (as_TimeLimitedCurrentSupply s)"
  shows "within_limit limit s'"
  using assms by (auto simp: within_limit_def)

lemma Create_within:
  assumes laws: "sdk_laws S" and inv: "bep3_inv S hash st" and w: "bep3_within st"
    and ok: "CreateAtomicSwap S hash maccs now height st rnh ts span sender recipient soc roc amount cross = Inr st'"
  shows "bep3_within st'"
proof (rule Create_ok [OF laws inv ok])
  fix c asset s s' bank a
  assume *: "GetAsset st (Denom c) = Inr asset" "GetAssetSupply st (Denom c) = Some s" "delivered S asset sender c st s s' bank"
    "st' = InsertIntoByBlockIndex hash (SetAtomicSwap hash (SetAssetSupply (st\<lparr>bk_bank := bank\<rparr>) s' (Denom c)) a) a"
  show ?thesis
  proof (rule bep3_within_upd [OF w])
    fix limit assume l: "GetSupplyLimit st (Denom c) = Inr limit"
    then have "limit = ap_SupplyLimit asset" using *(1) by (simp add: GetSupplyLimit_def)
    then show "within_limit limit s'"
      using *(2,3) w l by (auto simp: delivered_def within_limit_def bep3_within_def split: if_splits)
  qed (simp_all add: *(4))
qed

lemma Claim_within:
  assumes laws: "sdk_laws S" and inv: "bep3_inv S hash st" and w: "bep3_within st"
    and ok: "ClaimAtomicSwap S hash height st from i rnd = Inr st'"
  shows "bep3_within st'"
proof (rule Claim_ok [OF laws inv ok])
  fix a c s s' bank a'
  assume *: "GetAtomicSwap st i = Some a" "sw_Amount a = [c]"
    "GetAssetSupply st (Denom c) = Some s" "claimed S a c s s' (bk_bank st) bank"
    "sw_Direction a = SWAP_DIRECTION_INCOMING \<Longrightarrow> \<exists>limit. GetSupplyLimit st (Denom c) = Inr limit \<and> claim_time limit c s s'"
    "sw_Direction a = SWAP_DIRECTION_OUTGOING \<Longrightarrow> as_TimeLimitedCurrentSupply s' = as_TimeLimitedCurrentSupply s"
    "st' = InsertIntoLongtermStorage hash (RemoveFromByBlockIndex hash (SetAtomicSwap hash
       ((SetAssetSupply st s' (Denom c))\<lparr>bk_bank := bank\<rparr>) a') a') a'"
  have wf: "0 < Amount c" "sw_Direction a = SWAP_DIRECTION_INCOMING \<or> sw_Direction a = SWAP_DIRECTION_OUTGOING"
    using bep3_invD(4) [OF inv *(1)] *(2) by (auto simp: swap_wf_def)
  show ?thesis
  proof (rule bep3_within_upd [OF w])
    fix limit assume l: "GetSupplyLimit st (Denom c) = Inr limit"
    then have "within_limit limit s" using w *(3) by (auto simp: bep3_within_def)
    then show "within_limit limit s'"
      using *(4-6) wf l by (auto simp: claimed_def claim_time_def within_limit_def)
  qed (simp_all add: *(7))
qed

lemma Refund_within:
  assumes laws: "sdk_laws S" and inv: "bep3_inv S hash st" and w: "bep3_within st"
    and ok: "RefundAtomicSwap S hash height st from i = Inr st'"
  shows "bep3_within st'"
proof -
  obtain a where a: "GetAtomicSwap st i = Some a" "sw_Status a = SWAP_STATUS_EXPIRED"
    using ok by (auto simp: RefundAtomicSwap_def split: option.splits if_splits)
  have dir: "sw_Direction a = SWAP_DIRECTION_INCOMING \<or> sw_Direction a = SWAP_DIRECTION_OUTGOING"
    using bep3_invD(4) [OF inv a(1)] by (auto simp: swap_wf_def)
  obtain c s s' where s: "GetAssetSupply st (Denom c) = Some s" "GetAssetSupply st' = (GetAssetSupply st)(Denom c \<mapsto> s')" "bk_params st' = bk_params st"
      "as_CurrentSupply s' = as_CurrentSupply s" "as_TimeLimitedCurrentSupply s' = as_TimeLimitedCurrentSupply s"
      "Amount (as_IncomingSupply s') \<le> Amount (as_IncomingSupply s)"
    by (rule Refund_run [OF laws inv a refl, of height "from"])
      (use dir ok in \<open>auto simp: eq_commute [of "Inr _" "bnd _ _"]\<close>)
  show ?thesis
    by (rule bep3_within_upd [OF w s(3,2)], rule within_less [of _ s]) (use w s in \<open>auto simp: bep3_within_def\<close>)
qed

lemma update_time_limit_within:
  assumes laws: "sdk_laws S" and inv: "bep3_inv S hash st" and w: "bep3_within st"
    and ok: "update_time_limit (Math S) t asset st = Inr st'"
  shows "bep3_within st'"
proof (cases "GetAssetSupply st (ap_Denom asset)")
  case None
  then obtain s' where s': "st' = SetAssetSupply st s' (ap_Denom asset)"
      "Amount (as_IncomingSupply s') = 0" "Amount (as_CurrentSupply s') = 0" "Amount (as_TimeLimitedCurrentSupply s') = 0"
    using ok by (auto simp: update_time_limit_def CreateNewAssetSupply_def Let_def split: if_splits)
  show ?thesis
  proof (rule bep3_within_upd [OF w])
    fix limit assume "GetSupplyLimit st (ap_Denom asset) = Inr limit"
    then obtain x where "x \<in> set (bk_params st)" "limit = ap_SupplyLimit x" by (auto simp: GetSupplyLimit_def dest: GetAsset_Inr)
    then show "within_limit limit s'"
      using validateAssetParams_find [OF bep3_invD(11) [OF inv]] by (auto simp: within_limit_def s')
  qed (simp_all add: s'(1))
next
  case (Some s)
  obtain s' where s': "st' = SetAssetSupply st s' (ap_Denom asset)"
      "as_IncomingSupply s' = as_IncomingSupply s" "as_CurrentSupply s' = as_CurrentSupply s"
      "as_TimeLimitedCurrentSupply s' \<in> {as_TimeLimitedCurrentSupply s, Coin (ap_Denom asset) 0}"
    using ok Some by (auto simp: update_time_limit_def Let_def split: if_splits)
  have "Amount (as_TimeLimitedCurrentSupply s') \<le> Amount (as_TimeLimitedCurrentSupply s)"
    using s'(4) bep3_invD(6) [OF inv Some] by (auto simp: supply_wf_def)
  then have "within_limit limit s'" if "GetSupplyLimit st (ap_Denom asset) = Inr limit" for limit
    using within_less [of limit s s'] w Some that s' by (auto simp: bep3_within_def)
  then show ?thesis by (intro bep3_within_upd [OF w]) (simp_all add: s'(1))
qed

lemma UpdateTimeBased_within:
  assumes laws: "sdk_laws S" and inv: "bep3_inv S hash st" and w: "bep3_within st" and ok: "UpdateTimeBasedSupplyLimits (Math S) now st = Inr st'"
  shows "bep3_within st'"
proof (cases "bk_params st = []")
  case True
  then show ?thesis using ok w by (simp add: UpdateTimeBasedSupplyLimits_def)
next
  case False
  define prev where "prev = (case bk_prevTime st of Some t \<Rightarrow> t | None \<Rightarrow> now)"
  have fr: "bep3_within (st\<lparr>bk_prevTime := t\<rparr>) = bep3_within st" for t and st :: "'a bep3_state"
    by (simp add: bep3_within_def GetAssetSupply_def GetSupplyLimit_def GetAsset_def)
  obtain st1 where f: "foldR (update_time_limit (Math S) (time_Sub now prev)) (bk_params st) (st\<lparr>bk_prevTime := Some prev\<rparr>) = Inr st1"
      "st' = st1\<lparr>bk_prevTime := Some now\<rparr>"
    using ok False by (auto simp: UpdateTimeBasedSupplyLimits_def Let_def prev_def)
  have "bep3_inv S hash st1 \<and> bep3_within st1"
    by (rule foldR_invariant [OF f(1)]) (use inv w in \<open>simp add: fr\<close>, blast intro: update_time_limit_inv [OF laws] update_time_limit_within [OF laws])
  then show ?thesis by (simp add: f(2) fr)
qed

text \<open>
  C18: The supply limits of an asset bound its current supply together with all pending incoming swaps,
  and for a time limited asset also what was issued in the running period together with them. Every
  transaction and begin blocker of the module keeps both bounds.
\<close>

theorem bep3_step_within_limits:
  assumes "sdk_laws S" "maccs (ModuleAddress S bep3_module)" "bep3_reach S hash maccs bech st" "bep3_step S hash maccs bech height st st'"
    and "bep3_within st"
  shows "bep3_within st'"
proof -
  have inv: "bep3_inv S hash st" by (rule bep3_reach_inv [where maccs = maccs, OF assms(1-3)])
  show ?thesis using assms(4)
  proof (cases rule: bep3_step.cases)
    case (create now msg)
    then show ?thesis using Create_within [OF assms(1) inv assms(5)] by (auto simp: msg_CreateAtomicSwap_def)
  next
    case (claim "from" j r)
    then show ?thesis using Claim_within [OF assms(1) inv assms(5)] by (auto simp: msg_ClaimAtomicSwap_def)
  next
    case (refund "from" j)
    then show ?thesis using Refund_within [OF assms(1) inv assms(5)] by (auto simp: msg_RefundAtomicSwap_def)
  next
    case (block now)
    note b = BeginBlocker_ok [OF assms(1) inv block]
    obtain st1 where st1: "UpdateTimeBasedSupplyLimits (Math S) now st = Inr st1" "bk_supplies st' = bk_supplies st1" using b(4) by blast
    have "bk_params st' = bk_params st1" using b(5) UpdateTimeBased_frame [OF st1(1)] by simp
    then show ?thesis
      using UpdateTimeBased_within [OF assms(1) inv assms(5) st1(1)] st1(2)
      by (simp add: bep3_within_def GetAssetSupply_def GetSupplyLimit_def GetAsset_def)
  qed
qed

text \<open>What the limits leave for an incoming swap when it is claimed.\<close>

definition fits_limit :: "SupplyLimit \<Rightarrow> AssetSupply \<Rightarrow> int \<Rightarrow> bool" where
  "fits_limit limit s n \<longleftrightarrow> Amount (as_CurrentSupply s) + n \<le> sl_Limit limit \<and>
     (sl_TimeLimited limit \<longrightarrow> Amount (as_TimeLimitedCurrentSupply s) + n \<le> sl_TimeBasedLimit limit)"

lemma IncrementCurrent_run:
  assumes m: "math_laws m" and s: "GetAssetSupply st (Denom c) = Some s" "supply_wf m (Denom c) s"
    and l: "GetSupplyLimit st (Denom c) = Inr limit" "IntInRange m (sl_Limit limit)" "ValidDenom m (Denom c)"
      "0 \<le> sl_TimeBasedLimit limit" "sl_TimeBasedLimit limit \<le> sl_Limit limit"
    and c: "0 \<le> Amount c" "0 \<le> Amount (as_CurrentSupply s)"
  shows "(\<exists>st'. IncrementCurrentAssetSupply m (SetAssetSupply st (s\<lparr>as_IncomingSupply := x\<rparr>) (Denom c)) c = Inr st') \<longleftrightarrow>
    fits_limit limit s (Amount c)"
proof -
  let ?s = "s\<lparr>as_IncomingSupply := x\<rparr>"
  have t: "0 \<le> Amount (as_TimeLimitedCurrentSupply s)" using s(2) by (simp add: supply_wf_def)
  have r: "IntInRange m (Amount (as_CurrentSupply s) + Amount c)" if "fits_limit limit s (Amount c)"
    by (rule IntInRange_le [OF m l(2)]) (use c that in \<open>simp_all add: fits_limit_def\<close>)
  have rt: "IntInRange m (Amount (as_TimeLimitedCurrentSupply s) + Amount c)" if "fits_limit limit s (Amount c)" "sl_TimeLimited limit"
    by (rule IntInRange_le [OF m l(2)]) (use c t that l(5) in \<open>auto simp: fits_limit_def\<close>)
  have d: "Denom (as_CurrentSupply s) = Denom c" "Denom (as_TimeLimitedCurrentSupply s) = Denom c"
    using s(2) by (simp_all add: supply_wf_def)
  have get: "get_supply (SetAssetSupply st ?s (Denom c)) (Denom c) = Inr ?s" by simp
  have lim: "NewCoin m (Denom c) (sl_Limit limit) = Inr (Coin (Denom c) (sl_Limit limit))"
    "NewCoin m (Denom c) (sl_TimeBasedLimit limit) = Inr (Coin (Denom c) (sl_TimeBasedLimit limit))"
    using l by simp_all
  show ?thesis
    using r rt
    by (cases "sl_TimeLimited limit") (auto simp: IncrementCurrentAssetSupply_def get l(1) lim d coin_Add_def coin_IsLT_def fits_limit_def toInt_def not_less)
qed

lemma limit_bounds:
  assumes "validateAssetParams m [] (bk_params st) = Inr ()" "GetSupplyLimit st d = Inr limit"
  shows "ValidDenom m d \<and> 0 \<le> sl_TimeBasedLimit limit \<and> sl_TimeBasedLimit limit \<le> sl_Limit limit"
proof -
  obtain x where x: "x \<in> set (bk_params st)" "ap_Denom x = d" "limit = ap_SupplyLimit x"
    using assms(2) by (auto simp: GetSupplyLimit_def dest: GetAsset_Inr)
  have "sl_TimeBasedLimit (ap_SupplyLimit x) \<le> sl_Limit (ap_SupplyLimit x)"
    if "validateAssetParams m seen ps = Inr ()" "x \<in> set ps" for seen ps
    using that by (induction m seen ps rule: validateAssetParams.induct) (auto split: if_splits)
  then show ?thesis using x assms(1) validateAssetParams_find [OF assms(1) x(1)] by auto
qed

lemma IncrementCurrent_frame: "IncrementCurrentAssetSupply m st c = Inr st' \<Longrightarrow> bk_bank st' = bk_bank st"
  unfolding IncrementCurrentAssetSupply_def bnd_eq_Inr
  by (elim exE conjE, split if_split_asm, simp, unfold bnd_eq_Inr, elim exE conjE, unfold sum.inject, elim subst, simp)

text \<open>When the coins of an open swap can be paid out.\<close>

definition claim_payable :: "'b sdk \<Rightarrow> 'b bep3_state \<Rightarrow> AtomicSwap \<Rightarrow> bool" where
  "claim_payable S st a \<longleftrightarrow>
     (if sw_Direction a = SWAP_DIRECTION_INCOMING then
        (\<exists>c s limit b b'. sw_Amount a = [c] \<and> GetAssetSupply st (Denom c) = Some s \<and> GetSupplyLimit st (Denom c) = Inr limit \<and>
           fits_limit limit s (Amount c) \<and> MintCoins S (bk_bank st) bep3_module [c] = Inr b \<and>
           SendCoinsFromModuleToAccount S b bep3_module (sw_Recipient a) [c] = Inr b')
      else (\<exists>b. BurnCoins S (bk_bank st) bep3_module (sw_Amount a) = Inr b))"

lemma claim_incoming_iff:
  assumes S: "sdk_laws S" and inv: "bep3_inv S hash st" and a: "GetAtomicSwap st i = Some a" "sw_Status a = SWAP_STATUS_OPEN"
      "CalculateSwapID hash (CalculateRandomHash hash rnd (sw_Timestamp a)) (sw_Sender a) (sw_SenderOtherChain a) = i"
    and dir: "sw_Direction a = SWAP_DIRECTION_INCOMING"
    and lim: "\<And>d limit. GetSupplyLimit st d = Inr limit \<Longrightarrow> IntInRange (Math S) (sl_Limit limit)"
  shows "(\<exists>st'. ClaimAtomicSwap S hash height st from i rnd = Inr st') \<longleftrightarrow> claim_payable S st a"
proof -
  note m = sdk_lawsD(1) [OF S]
  have id: "GetSwapID hash a = i" by (rule bep3_invD(10) [OF inv a(1)])
  from pending_supply [OF inv a(1) disjI1 [OF a(2)]] obtain c s where
    *: "sw_Amount a = [c]" "0 < Amount c" "GetAssetSupply st (Denom c) = Some s" "supply_wf (Math S) (Denom c) s"
      "Amount c \<le> Amount (as_IncomingSupply s)" "0 \<le> Amount (as_OutgoingSupply s)" using dir by metis
  have wfs: "Denom (as_IncomingSupply s) = Denom c" "IntInRange (Math S) (Amount (as_IncomingSupply s))"
    "Amount (as_OutgoingSupply s) \<le> Amount (as_CurrentSupply s)" using *(4) by (simp_all add: supply_wf_def)
  let ?st = "SetAssetSupply st (s\<lparr>as_IncomingSupply := Coin (Denom c) (Amount (as_IncomingSupply s) - Amount c)\<rparr>) (Denom c)"
  have d: "DecrementIncomingAssetSupply (Math S) st c = Inr ?st"
    using DecrementIncoming_ok [OF m *(3) wfs(1,2)] *(2,5) by simp
  have run: "(\<exists>st'. ClaimAtomicSwap S hash height st from i rnd = Inr st') \<longleftrightarrow>
      (\<exists>st2 b b'. IncrementCurrentAssetSupply (Math S) ?st c = Inr st2 \<and> MintCoins S (bk_bank st2) bep3_module [c] = Inr b \<and>
         SendCoinsFromModuleToAccount S b bep3_module (sw_Recipient a) [c] = Inr b')"
    by (auto simp: ClaimAtomicSwap_def a id *(1) idx_def d Let_def dir)
  have bank: "bk_bank st2 = bk_bank st" if "IncrementCurrentAssetSupply (Math S) ?st c = Inr st2" for st2
    using IncrementCurrent_frame [OF that] by (simp add: SetAssetSupply_def)
  show ?thesis
  proof (cases "GetSupplyLimit st (Denom c)")
    case (Inl e)
    then have "GetSupplyLimit ?st (Denom c) = Inl e" by (simp add: GetSupplyLimit_def GetAsset_def SetAssetSupply_def)
    then have "\<nexists>st2. IncrementCurrentAssetSupply (Math S) ?st c = Inr st2" by (simp add: IncrementCurrentAssetSupply_def)
    then show ?thesis unfolding run using Inl dir by (simp add: claim_payable_def *(1))
  next
    case (Inr limit)
    note lb = limit_bounds [OF bep3_invD(11) [OF inv] Inr]
    have fits: "(\<exists>st2. IncrementCurrentAssetSupply (Math S) ?st c = Inr st2) \<longleftrightarrow> fits_limit limit s (Amount c)"
      using IncrementCurrent_run [OF m *(3,4) Inr lim [OF Inr]] lb *(2,6) wfs(3) by simp
    show ?thesis
      unfolding run using fits bank dir Inr *(3) by (fastforce simp: claim_payable_def *(1))
  qed
qed

lemma open_swap_funds:
  assumes "sdk_laws S" "bep3_inv S hash st" "GetAtomicSwap st i = Some a" "sw_Status a = SWAP_STATUS_OPEN" "sw_Direction a = SWAP_DIRECTION_OUTGOING"
  shows "AmountOf (sw_Amount a) d \<le> bep3_funds S (bk_bank st) d"
proof -
  from pending_supply [OF assms(2,3) disjI1 [OF assms(4)]] obtain c s where
    *: "sw_Amount a = [c]" "GetAssetSupply st (Denom c) = Some s" "Amount c \<le> Amount (as_OutgoingSupply s)" using assms(5) by metis
  have "Amount c \<le> bep3_funds S (bk_bank st) (Denom c)" using *(3) bep3_invD(8) [OF assms(2) *(2)] bep3_invD(9) [OF assms(2)] by simp
  moreover have "0 \<le> bep3_funds S (bk_bank st) d" using sdk_lawsD(7) [OF assms(1)] by (simp add: account_law_def)
  ultimately show ?thesis by (auto simp: *(1))
qed

lemma open_swap_reserved:
  assumes "bep3_inv S hash st" "GetAtomicSwap st i = Some a" "sw_Status a = SWAP_STATUS_OPEN" "sw_Direction a = SWAP_DIRECTION_INCOMING"
  shows "\<exists>c s. sw_Amount a = [c] \<and> GetAssetSupply st (Denom c) = Some s \<and>
    (\<forall>limit. GetSupplyLimit st (Denom c) = Inr limit \<and> within_limit limit s \<longrightarrow> fits_limit limit s (Amount c))"
proof -
  from pending_supply [OF assms(1,2) disjI1 [OF assms(3)]] obtain c s where
    "sw_Amount a = [c]" "GetAssetSupply st (Denom c) = Some s" "Amount c \<le> Amount (as_IncomingSupply s)" using assms(4) by metis
  then show ?thesis by (auto simp: within_limit_def fits_limit_def)
qed

lemma claim_outgoing_iff:
  assumes S: "sdk_laws S" and inv: "bep3_inv S hash st" and a: "GetAtomicSwap st i = Some a" "sw_Status a = SWAP_STATUS_OPEN"
      "CalculateSwapID hash (CalculateRandomHash hash rnd (sw_Timestamp a)) (sw_Sender a) (sw_SenderOtherChain a) = i"
    and dir: "sw_Direction a = SWAP_DIRECTION_OUTGOING"
  shows "(\<exists>st'. ClaimAtomicSwap S hash height st from i rnd = Inr st') \<longleftrightarrow> claim_payable S st a"
proof -
  note m = sdk_lawsD(1) [OF S]
  have id: "GetSwapID hash a = i" by (rule bep3_invD(10) [OF inv a(1)])
  from pending_supply [OF inv a(1) disjI1 [OF a(2)]] obtain c s where
    *: "sw_Amount a = [c]" "0 < Amount c" "GetAssetSupply st (Denom c) = Some s" "supply_wf (Math S) (Denom c) s"
      "Amount c \<le> Amount (as_OutgoingSupply s)" "0 \<le> Amount (as_OutgoingSupply s)" using dir by metis
  have wfs: "Denom (as_OutgoingSupply s) = Denom c" "Denom (as_CurrentSupply s) = Denom c"
    "IntInRange (Math S) (Amount (as_CurrentSupply s))" "Amount (as_OutgoingSupply s) \<le> Amount (as_CurrentSupply s)"
    using *(4) by (simp_all add: supply_wf_def)
  let ?s = "s\<lparr>as_OutgoingSupply := Coin (Denom c) (Amount (as_OutgoingSupply s) - Amount c)\<rparr>"
  have d: "DecrementOutgoingAssetSupply (Math S) st c = Inr (SetAssetSupply st ?s (Denom c))"
    using DecrementOutgoing_ok [OF m *(3) wfs(1)] *(2,5,6) wfs(3,4) IntInRange_le [OF m wfs(3)] by simp
  have "DecrementCurrentAssetSupply (Math S) (SetAssetSupply st ?s (Denom c)) c =
      Inr (SetAssetSupply st (?s\<lparr>as_CurrentSupply := Coin (Denom c) (Amount (as_CurrentSupply s) - Amount c)\<rparr>) (Denom c))"
    using DecrementCurrent_ok [OF m, of "SetAssetSupply st ?s (Denom c)" c ?s] *(2,5) wfs by simp
  then show "(\<exists>st'. ClaimAtomicSwap S hash height st from i rnd = Inr st') \<longleftrightarrow> claim_payable S st a"
    by (auto simp: ClaimAtomicSwap_def a id *(1) idx_def d Let_def dir claim_payable_def SetAssetSupply_def)
qed

text \<open>
  C16: In a reachable state a claim succeeds exactly if the swap is open, the number opens it, and its coins can be paid out:
  for an outgoing swap, if the bank burns the coins, all of which the module account holds; for an incoming swap, if its
  asset is still among the parameters, its amount fits under the limits of the supply as they are now, and the bank mints
  and delivers the coins. So the bookkeeping of pending swaps and the escrow never prevent a claim. The limits prevent it
  only where the supply with the pending swaps exceeds them, as after governance has lowered them.
\<close>

theorem ClaimAtomicSwap_succeeds:
  assumes "sdk_laws S" "maccs (ModuleAddress S bep3_module)" "bep3_reach S hash maccs bech st"
    and lim: "\<forall>d limit. GetSupplyLimit st d = Inr limit \<longrightarrow> IntInRange (Math S) (sl_Limit limit)"
  shows "((\<exists>st'. ClaimAtomicSwap S hash height st from i rnd = Inr st') \<longleftrightarrow>
      (\<exists>a. GetAtomicSwap st i = Some a \<and> sw_Status a = SWAP_STATUS_OPEN \<and>
         CalculateSwapID hash (CalculateRandomHash hash rnd (sw_Timestamp a)) (sw_Sender a) (sw_SenderOtherChain a) = i \<and> claim_payable S st a)) \<and>
    (\<forall>a. GetAtomicSwap st i = Some a \<and> sw_Status a = SWAP_STATUS_OPEN \<longrightarrow>
      (sw_Direction a = SWAP_DIRECTION_OUTGOING \<longrightarrow> (\<forall>d. AmountOf (sw_Amount a) d \<le> bep3_funds S (bk_bank st) d)) \<and>
      (sw_Direction a = SWAP_DIRECTION_INCOMING \<longrightarrow> (\<exists>c s. sw_Amount a = [c] \<and> GetAssetSupply st (Denom c) = Some s \<and>
         (\<forall>limit. GetSupplyLimit st (Denom c) = Inr limit \<and> within_limit limit s \<longrightarrow> fits_limit limit s (Amount c)))))"
proof
  have inv: "bep3_inv S hash st" by (rule bep3_reach_inv [where maccs = maccs, OF assms(1-3)])
  have dir: "sw_Direction a = SWAP_DIRECTION_INCOMING \<or> sw_Direction a = SWAP_DIRECTION_OUTGOING" if "GetAtomicSwap st i = Some a" for a
    using bep3_invD(4) [OF inv that] by (auto simp: swap_wf_def)
  have iff: "(\<exists>st'. ClaimAtomicSwap S hash height st from i rnd = Inr st') \<longleftrightarrow> claim_payable S st a"
    if "GetAtomicSwap st i = Some a" "sw_Status a = SWAP_STATUS_OPEN"
      "CalculateSwapID hash (CalculateRandomHash hash rnd (sw_Timestamp a)) (sw_Sender a) (sw_SenderOtherChain a) = i" for a
    using dir [OF that(1)] claim_incoming_iff [OF assms(1) inv that] claim_outgoing_iff(1) [OF assms(1) inv that] lim by blast
  have "\<exists>a. GetAtomicSwap st i = Some a \<and> sw_Status a = SWAP_STATUS_OPEN \<and>
      CalculateSwapID hash (CalculateRandomHash hash rnd (sw_Timestamp a)) (sw_Sender a) (sw_SenderOtherChain a) = i"
    if "ClaimAtomicSwap S hash height st from i rnd = Inr st'" for st'
    by (rule Claim_ok [OF assms(1) inv that]) blast
  then show "(\<exists>st'. ClaimAtomicSwap S hash height st from i rnd = Inr st') \<longleftrightarrow>
      (\<exists>a. GetAtomicSwap st i = Some a \<and> sw_Status a = SWAP_STATUS_OPEN \<and>
         CalculateSwapID hash (CalculateRandomHash hash rnd (sw_Timestamp a)) (sw_Sender a) (sw_SenderOtherChain a) = i \<and> claim_payable S st a)"
    using iff by metis
  show "\<forall>a. GetAtomicSwap st i = Some a \<and> sw_Status a = SWAP_STATUS_OPEN \<longrightarrow>
      (sw_Direction a = SWAP_DIRECTION_OUTGOING \<longrightarrow> (\<forall>d. AmountOf (sw_Amount a) d \<le> bep3_funds S (bk_bank st) d)) \<and>
      (sw_Direction a = SWAP_DIRECTION_INCOMING \<longrightarrow> (\<exists>c s. sw_Amount a = [c] \<and> GetAssetSupply st (Denom c) = Some s \<and>
         (\<forall>limit. GetSupplyLimit st (Denom c) = Inr limit \<and> within_limit limit s \<longrightarrow> fits_limit limit s (Amount c))))"
    using open_swap_funds [OF assms(1) inv] open_swap_reserved [OF inv] by blast
qed

text \<open>
  A begin blocker expires exactly the open swaps whose expiry height has come and forgets exactly
  the completed ones whose storage time is over; it moves no coins, and no swap is due afterwards.
\<close>

theorem bep3_BeginBlocker_effect:
  assumes "sdk_laws S" "maccs (ModuleAddress S bep3_module)" "bep3_reach S hash maccs bech st"
    and "bep3_BeginBlocker (Math S) hash now height st = Inr st'"
  shows "(\<forall>i. GetAtomicSwap st' i = Option.bind (GetAtomicSwap st i) (after_block (word_of_int height))) \<and>
    bk_bank st' = bk_bank st \<and> swapsByBlock st' (word_of_int height) = [] \<and> swapsLongterm st' (word_of_int height) = []"
proof -
  have inv: "bep3_inv S hash st" by (rule bep3_reach_inv [where maccs = maccs, OF assms(1-3)])
  note b = BeginBlocker_ok [OF assms(1) inv assms(4)]
  have "\<not> (\<exists>a. open_swap st' i = Some a \<and> sw_ExpireHeight a \<le> word_of_int height)"
      "\<not> (\<exists>a. closed_swap st' i = Some a \<and> deletionHeight a \<le> word_of_int height)" for i
    using b(3) [of i] by (cases "GetAtomicSwap st i"; simp add: open_swap_def closed_swap_def after_block_def split: if_splits)+
  then have "i \<notin> set (swapsByBlock st' (word_of_int height))" "i \<notin> set (swapsLongterm st' (word_of_int height))" for i
    using open_ix.due_iff [OF bep3_invD(1) [OF b(1)]] closed_ix.due_iff [OF bep3_invD(1) [OF b(1)]] by simp_all
  then have "swapsByBlock st' (word_of_int height) = []" "swapsLongterm st' (word_of_int height) = []"
    by (metis list.set_intros(1) neq_Nil_conv, metis list.set_intros(1) neq_Nil_conv)
  then show ?thesis using b(2,3) by blast
qed

text \<open>
  A swap is created under an unused identifier, open, for one coin of an active asset between the
  asset's minimum and maximum, and between the asset's deputy and another account. An incoming swap,
  sent by the deputy, moves no coins and reserves its amount under the supply limits; an outgoing one
  moves exactly its amount from the sender to the module account, within the current supply.
\<close>

theorem CreateAtomicSwap_effect:
  assumes "sdk_laws S" "maccs (ModuleAddress S bep3_module)" "bep3_reach S hash maccs bech st"
    and "CreateAtomicSwap S hash maccs now height st rnh ts span sender recipient soc roc amount cross = Inr st'"
  shows "\<exists>c asset s s' a. amount = [c] \<and> GetAsset st (Denom c) = Inr asset \<and> ap_Active asset \<and>
    ap_MinSwapAmount asset \<le> Amount c \<and> Amount c \<le> ap_MaxSwapAmount asset \<and> \<not> maccs recipient \<and>
    (sender = ap_DeputyAddress asset) \<noteq> (recipient = ap_DeputyAddress asset) \<and>
    a = NewAtomicSwap [c] rnh (word_of_int height + span) ts sender recipient soc roc 0 SWAP_STATUS_OPEN cross (create_direction asset sender) \<and>
    GetAtomicSwap st (GetSwapID hash a) = None \<and> GetAtomicSwap st' = (GetAtomicSwap st)(GetSwapID hash a \<mapsto> a) \<and>
    GetAssetSupply st (Denom c) = Some s \<and> GetAssetSupply st' = (GetAssetSupply st)(Denom c \<mapsto> s') \<and>
    delivered S asset sender c st s s' (bk_bank st')"
proof -
  have inv: "bep3_inv S hash st" by (rule bep3_reach_inv [where maccs = maccs, OF assms(1-3)])
  show ?thesis
  proof (rule Create_ok [OF assms(1) inv assms(4)])
    fix c asset s s' bank a
    assume *: "amount = [c]" "GetAsset st (Denom c) = Inr asset" "ap_Active asset"
      "ap_MinSwapAmount asset \<le> Amount c" "Amount c \<le> ap_MaxSwapAmount asset" "\<not> maccs recipient"
      "sender = ap_DeputyAddress asset \<or> recipient = ap_DeputyAddress asset" "sender \<noteq> recipient \<or> sender \<noteq> ap_DeputyAddress asset"
      "GetAssetSupply st (Denom c) = Some s" "delivered S asset sender c st s s' bank"
      "a = NewAtomicSwap [c] rnh (word_of_int height + span) ts sender recipient soc roc 0 SWAP_STATUS_OPEN cross (create_direction asset sender)"
      "GetAtomicSwap st (GetSwapID hash a) = None"
      "st' = InsertIntoByBlockIndex hash (SetAtomicSwap hash (SetAssetSupply (st\<lparr>bk_bank := bank\<rparr>) s' (Denom c)) a) a"
    have "(sender = ap_DeputyAddress asset) \<noteq> (recipient = ap_DeputyAddress asset)" using *(7,8) by auto
    then show ?thesis using *(1-6,9-12)
      by (intro exI [of _ c] exI [of _ asset] exI [of _ s] exI [of _ s'] exI [of _ a]) (simp add: *(13))
  qed
qed

section \<open>A small chain\<close>

definition ref_hash :: hasher where
  "ref_hash bs = take 32 (bs @ replicate 32 (CHR 0x00))"

definition ex_asset :: AssetParam where
  "ex_asset = \<lparr>ap_Denom = ''bnb'', ap_CoinID = 714,
     ap_SupplyLimit = \<lparr>sl_Limit = 1000, sl_TimeLimited = True, sl_TimePeriod = 3600 * second, sl_TimeBasedLimit = 500\<rparr>,
     ap_Active = True, ap_DeputyAddress = ''deputy'', ap_FixedFee = 1, ap_MinSwapAmount = 2, ap_MaxSwapAmount = 100,
     ap_MinBlockLock = 10, ap_MaxBlockLock = 100\<rparr>"

text \<open>The asset after governance has lowered its limits below what is pending.\<close>

definition ex_lowered :: AssetParam where
  "ex_lowered = ex_asset\<lparr>ap_SupplyLimit := \<lparr>sl_Limit = 150, sl_TimeLimited = True, sl_TimePeriod = 3600 * second, sl_TimeBasedLimit = 100\<rparr>\<rparr>"

definition ex_supply :: AssetSupply where
  "ex_supply = \<lparr>as_IncomingSupply = Coin ''bnb'' 0, as_OutgoingSupply = Coin ''bnb'' 0, as_CurrentSupply = Coin ''bnb'' 100,
     as_TimeLimitedCurrentSupply = Coin ''bnb'' 0, as_TimeElapsed = 0\<rparr>"

definition ex_bep3_genesis :: bep3_genesis where
  "ex_bep3_genesis = \<lparr>bg_Params = [ex_asset], bg_AtomicSwaps = [], bg_Supplies = [ex_supply], bg_PreviousBlockTime = 900 * second\<rparr>"

definition ex_bep3_empty :: "ledger bep3_state" where
  "ex_bep3_empty = \<lparr>bk_swaps = [], bk_byBlock = [], bk_longterm = [], bk_supplies = [], bk_prevTime = None, bk_params = [],
     bk_bank = \<lparr>lbal = [((''alice'', ''bnb''), 100)], lsupply = [(''bnb'', 100)]\<rparr>\<rparr>"

definition ex_maccs :: "address \<Rightarrow> bool" where "ex_maccs a = (take 7 a = ''module/'')"

definition ex_secret :: bytes where "ex_secret = replicate 32 (CHR ''A'')"
definition ex_secret' :: bytes where "ex_secret' = replicate 32 (CHR ''B'')"

definition ex_outgoing :: MsgCreateAtomicSwap where
  "ex_outgoing = \<lparr>mc_From = ''alice'', mc_To = ''deputy'', mc_RecipientOtherChain = ''bnb1alice'', mc_SenderOtherChain = ''bnb1deputy'',
     mc_RandomNumberHash = concat (replicate 32 ''41''), mc_Timestamp = 1000, mc_Amount = [Coin ''bnb'' 50], mc_HeightSpan = 20\<rparr>"

definition ex_incoming :: MsgCreateAtomicSwap where
  "ex_incoming = \<lparr>mc_From = ''deputy'', mc_To = ''bob'', mc_RecipientOtherChain = ''bnb1deputy'', mc_SenderOtherChain = ''bnb1bob'',
     mc_RandomNumberHash = concat (replicate 32 ''42''), mc_Timestamp = 1000, mc_Amount = [Coin ''bnb'' 60], mc_HeightSpan = 20\<rparr>"

definition ex_swap_out :: AtomicSwap where
  "ex_swap_out = NewAtomicSwap [Coin ''bnb'' 50] ex_secret 30 1000 ''alice'' ''deputy'' ''bnb1deputy'' ''bnb1alice'' 0
     SWAP_STATUS_OPEN True SWAP_DIRECTION_OUTGOING"

definition ex_swap_in :: AtomicSwap where
  "ex_swap_in = NewAtomicSwap [Coin ''bnb'' 60] ex_secret' 30 1000 ''deputy'' ''bob'' ''bnb1bob'' ''bnb1deputy'' 0
     SWAP_STATUS_OPEN True SWAP_DIRECTION_INCOMING"

definition ex_bep3_0 :: "ledger bep3_state" where
  "ex_bep3_0 = ex_bep3_empty\<lparr>bk_supplies := [(''bnb'', ex_supply)], bk_prevTime := Some (900 * second), bk_params := [ex_asset]\<rparr>"

definition ex_bep3_1 :: "ledger bep3_state" where
  "ex_bep3_1 = ex_bep3_0\<lparr>bk_swaps := [(ex_secret, ex_swap_out)], bk_byBlock := [((30, ex_secret), ex_secret)],
     bk_supplies := [(''bnb'', ex_supply\<lparr>as_OutgoingSupply := Coin ''bnb'' 50\<rparr>)],
     bk_bank := \<lparr>lbal = [((''module/bep3'', ''bnb''), 50), ((''alice'', ''bnb''), 50), ((''alice'', ''bnb''), 100)], lsupply = [(''bnb'', 100)]\<rparr>\<rparr>"

definition ex_bep3_2 :: "ledger bep3_state" where
  "ex_bep3_2 = ex_bep3_1\<lparr>bk_swaps := [(ex_secret, ex_swap_out), (ex_secret', ex_swap_in)],
     bk_byBlock := [((30, ex_secret), ex_secret), ((30, ex_secret'), ex_secret')],
     bk_supplies := [(''bnb'', ex_supply\<lparr>as_IncomingSupply := Coin ''bnb'' 60, as_OutgoingSupply := Coin ''bnb'' 50\<rparr>)]\<rparr>"

definition ex_bep3_3 :: "ledger bep3_state" where
  "ex_bep3_3 = ex_bep3_2\<lparr>bk_swaps := [(ex_secret, ex_swap_out\<lparr>sw_Status := SWAP_STATUS_EXPIRED\<rparr>), (ex_secret', ex_swap_in\<lparr>sw_Status := SWAP_STATUS_EXPIRED\<rparr>)],
     bk_byBlock := [], bk_prevTime := Some (1006 * second),
     bk_supplies := [(''bnb'', ex_supply\<lparr>as_IncomingSupply := Coin ''bnb'' 60, as_OutgoingSupply := Coin ''bnb'' 50, as_TimeElapsed := 106 * second\<rparr>)]\<rparr>"

lemma ex_bep3_runs:
  "bep3_InitGenesis ref_sdk ref_hash ex_bep3_empty ex_bep3_genesis = Inr ex_bep3_0"
  "msg_CreateAtomicSwap ref_sdk ref_hash ex_maccs Inr (1000 * second) 10 ex_bep3_0 ex_outgoing = Inr ex_bep3_1"
  "msg_CreateAtomicSwap ref_sdk ref_hash ex_maccs Inr (1000 * second) 10 ex_bep3_1 ex_incoming = Inr ex_bep3_2"
  "bep3_BeginBlocker (Math ref_sdk) ref_hash (1006 * second) 30 ex_bep3_2 = Inr ex_bep3_3"
  by code_simp+

lemma ref_bep3_address: "ModuleAddress ref_sdk bep3_module = ''module/bep3''" "Math ref_sdk = ref_math" "ex_maccs ''module/bep3''"
  by (simp_all add: ref_sdk_def module_address_def bep3_module_def ex_maccs_def)

lemma ex_genesis_ok: "genesis_ok ref_sdk ex_bep3_empty ex_bep3_genesis"
proof -
  have "lget (bk_bank ex_bep3_empty) ''module/bep3'' d = 0" for d
    by (simp add: ex_bep3_empty_def lget_def)
  moreover have "GetBalance ref_sdk = lget" by (simp add: ref_sdk_def)
  ultimately show ?thesis
    unfolding genesis_ok_def ref_bep3_address
    by (simp add: ex_bep3_empty_def ex_bep3_genesis_def ex_supply_def ref_math_def)
qed

lemma ex_bep3_reach:
  "bep3_reach ref_sdk ref_hash ex_maccs Inr ex_bep3_0" "bep3_reach ref_sdk ref_hash ex_maccs Inr ex_bep3_1"
  "bep3_reach ref_sdk ref_hash ex_maccs Inr ex_bep3_2" "bep3_reach ref_sdk ref_hash ex_maccs Inr ex_bep3_3"
proof -
  show r0: "bep3_reach ref_sdk ref_hash ex_maccs Inr ex_bep3_0" by (rule bep3_reach.genesis [OF ex_bep3_runs(1) ex_genesis_ok])
  show r1: "bep3_reach ref_sdk ref_hash ex_maccs Inr ex_bep3_1"
    by (rule bep3_reach.step [OF r0 bep3_step.create [OF ex_bep3_runs(2)]]) (simp add: ref_bep3_address ex_outgoing_def)
  show r2: "bep3_reach ref_sdk ref_hash ex_maccs Inr ex_bep3_2"
    by (rule bep3_reach.step [OF r1 bep3_step.create [OF ex_bep3_runs(3)]]) (simp add: ref_bep3_address ex_incoming_def)
  show "bep3_reach ref_sdk ref_hash ex_maccs Inr ex_bep3_3"
    by (rule bep3_reach.step [OF r2 bep3_step.block [OF ex_bep3_runs(4)]])
qed

lemma ref_macc: "ex_maccs (ModuleAddress ref_sdk bep3_module)" by (simp add: ref_bep3_address)

lemma ex_bep3_swaps:
  "GetAtomicSwap ex_bep3_2 ex_secret = Some ex_swap_out" "GetAtomicSwap ex_bep3_2 ex_secret' = Some ex_swap_in"
  "GetAtomicSwap ex_bep3_3 ex_secret = Some (ex_swap_out\<lparr>sw_Status := SWAP_STATUS_EXPIRED\<rparr>)"
  by (simp_all add: GetAtomicSwap_def ex_bep3_2_def ex_bep3_3_def ex_secret_def ex_secret'_def numeral_eq_Suc)

lemma ex_opens:
  "CalculateSwapID ref_hash (CalculateRandomHash ref_hash ex_secret' (sw_Timestamp ex_swap_in)) (sw_Sender ex_swap_in) (sw_SenderOtherChain ex_swap_in) = ex_secret'"
  by code_simp


theorem bep3_escrow_witness:
  "bep3_funds ref_sdk (bk_bank ex_bep3_2) ''bnb'' = pending_total ex_bep3_2 SWAP_DIRECTION_OUTGOING ''bnb'' \<and>
   pending_total ex_bep3_2 SWAP_DIRECTION_OUTGOING ''bnb'' = 50 \<and> pending_total ex_bep3_2 SWAP_DIRECTION_INCOMING ''bnb'' = 60"
proof -
  have "pending_total ex_bep3_2 SWAP_DIRECTION_OUTGOING ''bnb'' = 50" "pending_total ex_bep3_2 SWAP_DIRECTION_INCOMING ''bnb'' = 60" by code_simp+
  then show ?thesis using bep3_escrow [OF ref_sdk_laws, of ex_maccs, OF ref_macc ex_bep3_reach(3)] by simp
qed

theorem ClaimAtomicSwap_effect_witness:
  "\<exists>st'. ClaimAtomicSwap ref_sdk ref_hash 20 ex_bep3_2 ''carol'' ex_secret' ex_secret' = Inr st' \<and>
     GetBalance ref_sdk (bk_bank st') ''bob'' ''bnb'' = 60 \<and>
     ClaimAtomicSwap ref_sdk ref_hash 21 st' ''carol'' ex_secret' ex_secret' = Inl (Err ''ErrSwapNotClaimable'')"
proof -
  let ?r = "ClaimAtomicSwap ref_sdk ref_hash 20 ex_bep3_2 ''carol'' ex_secret' ex_secret'"
  have ok: "?r = Inr (projr ?r)" by code_simp
  have "sw_Direction ex_swap_in = SWAP_DIRECTION_INCOMING" "sw_Recipient ex_swap_in = ''bob''" "sw_Amount ex_swap_in = [Coin ''bnb'' 60]"
    by (simp_all add: ex_swap_in_def)
  moreover have "GetBalance ref_sdk (bk_bank ex_bep3_2) ''bob'' ''bnb'' = 0" by code_simp
  ultimately have "GetBalance ref_sdk (bk_bank (projr ?r)) ''bob'' ''bnb'' = 60"
    "ClaimAtomicSwap ref_sdk ref_hash 21 (projr ?r) ''carol'' ex_secret' ex_secret' = Inl (Err ''ErrSwapNotClaimable'')"
    using ClaimAtomicSwap_effect [OF ref_sdk_laws, of ex_maccs, OF ref_macc ex_bep3_reach(3) ok, of 21 "''carol''" ex_secret']
    by (auto simp: ex_bep3_swaps claimed_def coin_amt_def)
  then show ?thesis using ok by blast
qed

theorem RefundAtomicSwap_succeeds_witness:
  "\<exists>st'. RefundAtomicSwap ref_sdk ref_hash 31 ex_bep3_3 ''carol'' ex_secret = Inr st' \<and> GetBalance ref_sdk (bk_bank st') ''alice'' ''bnb'' = 100"
proof -
  let ?a = "ex_swap_out\<lparr>sw_Status := SWAP_STATUS_EXPIRED\<rparr>"
  have p: "SendCoinsFromModuleToAccount ref_sdk (bk_bank ex_bep3_3) bep3_module (sw_Sender ?a) (sw_Amount ?a) =
      Inr (projr (SendCoinsFromModuleToAccount ref_sdk (bk_bank ex_bep3_3) bep3_module (sw_Sender ?a) (sw_Amount ?a)))" by code_simp
  have e: "GetBalance ref_sdk (bk_bank ex_bep3_3) ''alice'' ''bnb'' = 50" "ModuleAddress ref_sdk bep3_module \<noteq> ''alice''" by code_simp+
  have f: "sw_Sender ?a = ''alice''" "sw_Direction ?a = SWAP_DIRECTION_OUTGOING" "AmountOf (sw_Amount ?a) ''bnb'' = 50" "sw_Status ?a = SWAP_STATUS_EXPIRED"
    by (simp_all add: ex_swap_out_def)
  note r = RefundAtomicSwap_succeeds [OF ref_sdk_laws, of ex_maccs, OF ref_macc ex_bep3_reach(4), of 31 "''carol''" ex_secret]
  obtain st' where st': "RefundAtomicSwap ref_sdk ref_hash 31 ex_bep3_3 ''carol'' ex_secret = Inr st'"
    using conjunct1 [OF r] ex_bep3_swaps(3) f(4) p by blast
  have "moved ref_sdk (bk_bank ex_bep3_3) (bk_bank st') (ModuleAddress ref_sdk bep3_module) (sw_Sender ?a) (sw_Amount ?a)"
    using conjunct2 [OF r] ex_bep3_swaps(3) f(2,4) st' by metis
  from moved_balance [OF this, of "''alice''" "''bnb''"] have "GetBalance ref_sdk (bk_bank st') ''alice'' ''bnb'' = 100"
    using e by (simp only: f) simp
  then show ?thesis using st' by blast
qed

theorem bep3_step_within_limits_witness: "bep3_within ex_bep3_2 \<and> bep3_within ex_bep3_3"
proof -
  have w: "bep3_within ex_bep3_2"
    by (auto simp: bep3_within_def within_limit_def ex_bep3_2_def ex_bep3_1_def ex_bep3_0_def ex_supply_def ex_asset_def
        GetAssetSupply_def GetSupplyLimit_def GetAsset_def split: if_splits)
  then show ?thesis
    using bep3_step_within_limits [OF ref_sdk_laws, of ex_maccs, OF ref_macc ex_bep3_reach(3) bep3_step.block [OF ex_bep3_runs(4)] w] by simp
qed

theorem ClaimAtomicSwap_succeeds_witness:
  "(\<exists>st'. ClaimAtomicSwap ref_sdk ref_hash 20 ex_bep3_2 ''carol'' ex_secret' ex_secret' = Inr st') \<and>
   \<not> (\<exists>st'. ClaimAtomicSwap ref_sdk ref_hash 20 (ex_bep3_2\<lparr>bk_params := [ex_lowered]\<rparr>) ''carol'' ex_secret' ex_secret' = Inr st')"
proof
  let ?m = "MintCoins ref_sdk (bk_bank ex_bep3_2) bep3_module [Coin ''bnb'' 60]"
  let ?low = "ex_bep3_2\<lparr>bk_params := [ex_lowered]\<rparr>"
  have m: "?m = Inr (projr ?m)" by code_simp
  have s: "SendCoinsFromModuleToAccount ref_sdk (projr ?m) bep3_module ''bob'' [Coin ''bnb'' 60] =
      Inr (projr (SendCoinsFromModuleToAccount ref_sdk (projr ?m) bep3_module ''bob'' [Coin ''bnb'' 60]))" by code_simp
  have a: "sw_Direction ex_swap_in = SWAP_DIRECTION_INCOMING" "sw_Amount ex_swap_in = [Coin ''bnb'' 60]" "sw_Recipient ex_swap_in = ''bob''"
    "sw_Status ex_swap_in = SWAP_STATUS_OPEN" by (simp_all add: ex_swap_in_def)
  have g: "GetAssetSupply ex_bep3_2 ''bnb'' = Some (ex_supply\<lparr>as_IncomingSupply := Coin ''bnb'' 60, as_OutgoingSupply := Coin ''bnb'' 50\<rparr>)"
    "GetSupplyLimit ex_bep3_2 ''bnb'' = Inr (ap_SupplyLimit ex_asset)" "GetSupplyLimit ?low ''bnb'' = Inr (ap_SupplyLimit ex_lowered)"
    "GetAssetSupply ?low = GetAssetSupply ex_bep3_2" "GetAtomicSwap ?low = GetAtomicSwap ex_bep3_2" "bk_bank ?low = bk_bank ex_bep3_2"
    by (simp_all add: fun_eq_iff ex_bep3_2_def ex_bep3_1_def ex_bep3_0_def ex_asset_def ex_lowered_def GetAssetSupply_def GetSupplyLimit_def GetAsset_def GetAtomicSwap_def)
  have lim: "\<forall>d limit. GetSupplyLimit st d = Inr limit \<longrightarrow> IntInRange (Math ref_sdk) (sl_Limit limit)"
    if "bk_params st = [x]" "x \<in> {ex_asset, ex_lowered}" for x and st :: "ledger bep3_state"
    using that by (auto simp: GetSupplyLimit_def GetAsset_def ex_asset_def ex_lowered_def ref_sdk_def ref_math_def split: if_splits)
  have "claim_payable ref_sdk ex_bep3_2 ex_swap_in"
    using m s unfolding claim_payable_def a g by (fastforce simp: fits_limit_def ex_supply_def ex_asset_def g)
  then show "\<exists>st'. ClaimAtomicSwap ref_sdk ref_hash 20 ex_bep3_2 ''carol'' ex_secret' ex_secret' = Inr st'"
    using ClaimAtomicSwap_succeeds [OF ref_sdk_laws, of ex_maccs, OF ref_macc ex_bep3_reach(3) lim [of _ ex_asset], of 20 "''carol''" ex_secret' ex_secret']
      ex_bep3_swaps(2) ex_opens a(4) by (auto simp: ex_bep3_2_def ex_bep3_1_def ex_bep3_0_def)
  have low: "bep3_reach ref_sdk ref_hash ex_maccs Inr ?low" by (rule bep3_reach.params [OF ex_bep3_reach(3)]) code_simp
  have "\<not> fits_limit (ap_SupplyLimit ex_lowered) (ex_supply\<lparr>as_IncomingSupply := Coin ''bnb'' 60, as_OutgoingSupply := Coin ''bnb'' 50\<rparr>) 60"
    by (simp add: fits_limit_def ex_supply_def ex_lowered_def)
  then have "\<not> claim_payable ref_sdk ?low ex_swap_in" by (simp add: claim_payable_def a g)
  then show "\<not> (\<exists>st'. ClaimAtomicSwap ref_sdk ref_hash 20 ?low ''carol'' ex_secret' ex_secret' = Inr st')"
    using ClaimAtomicSwap_succeeds [OF ref_sdk_laws, of ex_maccs, OF ref_macc low lim [of ?low ex_lowered], of 20 "''carol''" ex_secret' ex_secret']
      ex_bep3_swaps(2) g(5) by auto
qed

theorem bep3_BeginBlocker_effect_witness:
  "GetAtomicSwap ex_bep3_3 ex_secret = after_block 30 ex_swap_out \<and> swapsByBlock ex_bep3_2 30 = [ex_secret, ex_secret'] \<and> swapsByBlock ex_bep3_3 30 = []"
proof -
  have "swapsByBlock ex_bep3_2 30 = [ex_secret, ex_secret']" by code_simp
  then show ?thesis
    using bep3_BeginBlocker_effect [OF ref_sdk_laws, of ex_maccs, OF ref_macc ex_bep3_reach(3) ex_bep3_runs(4)] ex_bep3_swaps(1) by simp
qed

theorem CreateAtomicSwap_effect_witness:
  "\<exists>asset s s' a. GetAsset ex_bep3_0 ''bnb'' = Inr asset \<and> GetAtomicSwap ex_bep3_1 (GetSwapID ref_hash a) = Some a \<and>
     delivered ref_sdk asset ''alice'' (Coin ''bnb'' 50) ex_bep3_0 s s' (bk_bank ex_bep3_1)"
proof -
  have "CreateAtomicSwap ref_sdk ref_hash ex_maccs (1000 * second) 10 ex_bep3_0 ex_secret 1000 20 ''alice'' ''deputy'' ''bnb1deputy'' ''bnb1alice'' [Coin ''bnb'' 50] True
      = Inr ex_bep3_1" by code_simp
  from CreateAtomicSwap_effect [OF ref_sdk_laws, of ex_maccs, OF ref_macc ex_bep3_reach(1) this]
  obtain c asset s s' a where "c = Coin ''bnb'' 50" "GetAsset ex_bep3_0 (Denom c) = Inr asset"
      "GetAtomicSwap ex_bep3_1 = (GetAtomicSwap ex_bep3_0)(GetSwapID ref_hash a \<mapsto> a)"
      "delivered ref_sdk asset ''alice'' c ex_bep3_0 s s' (bk_bank ex_bep3_1)" by blast
  then show ?thesis by (metis coin.sel(1) fun_upd_same)
qed

end
