(* ===== verification/Issuance.thy ===== *)
theory Issuance
  imports Sdk_Reference Ordered_Store
begin

text \<open>
  The issuance module, \<open>x/issuance\<close>: assets whose owner issues and redeems them, may pause them and
  may block accounts from holding them (\<open>keeper/issuance.go\<close>, \<open>keeper/params.go\<close>,
  \<open>types/params.go\<close>), the supply that is rate limited per period (\<open>keeper/supply.go\<close>,
  \<open>types/supply.go\<close>), messages, begin blocker and genesis. Owners and blocked accounts are kept as
  bech32 text: \<open>str\<close> stands for \<open>AccAddress.String\<close> and \<open>bech\<close> for \<open>AccAddressFromBech32\<close>.
\<close>

section \<open>Assets and supplies\<close>

record RateLimit =
  rl_Active :: bool
  rl_Limit :: int
  rl_TimePeriod :: duration

record Asset =
  ia_Owner :: string
  ia_Denom :: denom
  ia_BlockedAddresses :: "string list"
  ia_Paused :: bool
  ia_Blockable :: bool
  ia_RateLimit :: RateLimit

fun check_blocked_list :: "string \<Rightarrow> string list \<Rightarrow> unit result" where
  "check_blocked_list owner [] = Inr ()"
| "check_blocked_list owner (a # as) =
     (if length a = 0 then Inl (Err ''blocked address must not be empty'')
      else if owner = a then Inl (Err ''asset owner cannot be blocked'')
      else check_blocked_list owner as)"

definition ValidateDenom :: "sdk_math \<Rightarrow> denom \<Rightarrow> unit result" where
  "ValidateDenom m d = (if ValidDenom m d then Inr () else Inl (Err ''invalid denom''))"

definition Asset_Validate :: "sdk_math \<Rightarrow> Asset \<Rightarrow> unit result" where
  "Asset_Validate m a =
     (if length (ia_Owner a) = 0 then Inl (Err ''owner must not be empty'')
      else if \<not> ia_Blockable a \<and> length (ia_BlockedAddresses a) > 0
        then Inl (Err ''asset does not support blocking, blocked-list should be empty'')
      else bnd (check_blocked_list (ia_Owner a) (ia_BlockedAddresses a)) (\<lambda>_. ValidateDenom m (ia_Denom a)))"

fun check_assets :: "sdk_math \<Rightarrow> denom list \<Rightarrow> Asset list \<Rightarrow> unit result" where
  "check_assets m seen [] = Inr ()"
| "check_assets m seen (a # as) =
     (if ia_Denom a \<in> set seen then Inl (Err ''cannot have duplicate asset denoms'')
      else bnd (Asset_Validate m a) (\<lambda>_. check_assets m (ia_Denom a # seen) as))"

definition ValidateAssets :: "sdk_math \<Rightarrow> Asset list \<Rightarrow> unit result" where
  "ValidateAssets m as = check_assets m [] as"

record issuance_supply =
  is_CurrentSupply :: coin
  is_TimeElapsed :: duration

definition issuance_supply_Validate :: "sdk_math \<Rightarrow> issuance_supply \<Rightarrow> unit result" where
  "issuance_supply_Validate m s =
     (if \<not> coin_IsValid m (is_CurrentSupply s) then Inl (Err ''ErrInvalidCoins'') else Inr ())"

definition issuance_GetDenom :: "issuance_supply \<Rightarrow> denom" where
  "issuance_GetDenom s = Denom (is_CurrentSupply s)"

section \<open>The keeper's state\<close>

record 'b issuance_state =
  ik_assets :: "Asset list"
  ik_supplies :: "(denom, issuance_supply) kv"
  ik_prevTime :: "time option"
  ik_bank :: 'b

definition issuance_module :: string where "issuance_module = ''issuance''"

definition issuance_GetAssetSupply :: "'b issuance_state \<Rightarrow> denom \<Rightarrow> issuance_supply option" where
  "issuance_GetAssetSupply st d = kv_get (ik_supplies st) d"

definition issuance_SetAssetSupply :: "'b issuance_state \<Rightarrow> issuance_supply \<Rightarrow> denom \<Rightarrow> 'b issuance_state" where
  "issuance_SetAssetSupply st supply d = st\<lparr>ik_supplies := kv_set (ik_supplies st) d supply\<rparr>"

definition issuance_GetAllAssetSupplies :: "'b issuance_state \<Rightarrow> issuance_supply list" where
  "issuance_GetAllAssetSupplies st = map snd (ik_supplies st)"

text \<open>The parameter store validates what is written to it and panics when that fails.\<close>

definition issuance_SetParams :: "sdk_math \<Rightarrow> 'b issuance_state \<Rightarrow> Asset list \<Rightarrow> 'b issuance_state result" where
  "issuance_SetParams m st assets =
     bnd (panic_on_err (ValidateAssets m assets)) (\<lambda>_. Inr (st\<lparr>ik_assets := assets\<rparr>))"

definition issuance_GetAsset :: "'b issuance_state \<Rightarrow> denom \<Rightarrow> Asset option" where
  "issuance_GetAsset st d = find (\<lambda>a. ia_Denom a = d) (ik_assets st)"

definition issuance_SetAsset :: "sdk_math \<Rightarrow> 'b issuance_state \<Rightarrow> Asset \<Rightarrow> 'b issuance_state result" where
  "issuance_SetAsset m st asset =
     issuance_SetParams m st (map (\<lambda>a. if ia_Denom a = ia_Denom asset then asset else a) (ik_assets st))"

definition GetRateLimit :: "'b issuance_state \<Rightarrow> denom \<Rightarrow> RateLimit result" where
  \<comment> \<open>the error for an unknown asset is built and dropped: the limit of the empty asset is returned\<close>
  "GetRateLimit st d = (case issuance_GetAsset st d of
      Some asset \<Rightarrow> Inr (ia_RateLimit asset)
    | None \<Rightarrow> Inr \<lparr>rl_Active = False, rl_Limit = 0, rl_TimePeriod = 0\<rparr>)"

definition sync_block_list :: "sdk_math \<Rightarrow> Asset \<Rightarrow> 'b issuance_state \<Rightarrow> 'b issuance_state result" where
  "sync_block_list m asset st =
     (if \<not> ia_Blockable asset \<and> length (ia_BlockedAddresses asset) > 0
      then issuance_SetAsset m st (asset\<lparr>ia_BlockedAddresses := []\<rparr>) else Inr st)"

definition SynchronizeBlockList :: "sdk_math \<Rightarrow> 'b issuance_state \<Rightarrow> 'b issuance_state result" where
  "SynchronizeBlockList m st = foldR (sync_block_list m) (ik_assets st) st"

section \<open>Rate limited supply\<close>

definition issuance_CreateNewAssetSupply :: "sdk_math \<Rightarrow> 'b issuance_state \<Rightarrow> denom \<Rightarrow> ('b issuance_state \<times> issuance_supply) result" where
  "issuance_CreateNewAssetSupply m st d =
     bnd (NewCoin m d 0) (\<lambda>z.
     let supply = \<lparr>is_CurrentSupply = z, is_TimeElapsed = 0\<rparr>
     in Inr (issuance_SetAssetSupply st supply d, supply))"

definition issuance_IncrementCurrentAssetSupply :: "sdk_math \<Rightarrow> 'b issuance_state \<Rightarrow> coin \<Rightarrow> 'b issuance_state result" where
  "issuance_IncrementCurrentAssetSupply m st c =
     (case issuance_GetAssetSupply st (Denom c) of
        None \<Rightarrow> Inl (Err ''ErrAssetNotFound'')
      | Some supply \<Rightarrow>
          bnd (GetRateLimit st (Denom c)) (\<lambda>limit.
          if rl_Active limit then
            bnd (NewCoin m (Denom c) (rl_Limit limit)) (\<lambda>supplyLimit.
            bnd (coin_Add m (is_CurrentSupply supply) c) (\<lambda>newSupply.
            bnd (coin_IsLT supplyLimit newSupply) (\<lambda>over.
            if over then Inl (Err ''ErrExceedsSupplyLimit'')
            else Inr (issuance_SetAssetSupply st (supply\<lparr>is_CurrentSupply := newSupply\<rparr>) (Denom c)))))
          else Inr st))"

definition issuance_update_supply :: "sdk_math \<Rightarrow> duration \<Rightarrow> Asset \<Rightarrow> 'b issuance_state \<Rightarrow> 'b issuance_state result" where
  "issuance_update_supply m timeElapsed asset st =
     bnd (case issuance_GetAssetSupply st (ia_Denom asset) of
            Some s \<Rightarrow> Inr (st, s) | None \<Rightarrow> issuance_CreateNewAssetSupply m st (ia_Denom asset)) (\<lambda>(st1, supply).
     if rl_Active (ia_RateLimit asset) \<and> rl_TimePeriod (ia_RateLimit asset) > int64_wrap (is_TimeElapsed supply + timeElapsed)
     then Inr (issuance_SetAssetSupply st1 (supply\<lparr>is_TimeElapsed := int64_wrap (is_TimeElapsed supply + timeElapsed)\<rparr>) (ia_Denom asset))
     else bnd (NewCoin m (ia_Denom asset) 0) (\<lambda>z.
       Inr (issuance_SetAssetSupply st1 (supply\<lparr>is_CurrentSupply := z, is_TimeElapsed := 0\<rparr>) (ia_Denom asset))))"

definition issuance_UpdateTimeBasedSupplyLimits :: "sdk_math \<Rightarrow> time \<Rightarrow> 'b issuance_state \<Rightarrow> 'b issuance_state result" where
  "issuance_UpdateTimeBasedSupplyLimits m now st =
     (let prev = (case ik_prevTime st of Some t \<Rightarrow> t | None \<Rightarrow> now) in
      bnd (foldR (issuance_update_supply m (time_Sub now prev)) (ik_assets st) (st\<lparr>ik_prevTime := Some prev\<rparr>)) (\<lambda>st1.
      Inr (st1\<lparr>ik_prevTime := Some now\<rparr>)))"

section \<open>Operations\<close>

fun blocked_at :: "nat \<Rightarrow> string list \<Rightarrow> string \<Rightarrow> bool \<times> nat" where
  "blocked_at i [] x = (False, 0)"
| "blocked_at i (a # as) x = (if a = x then (True, i) else blocked_at (Suc i) as x)"

definition checkBlockedAddress :: "Asset \<Rightarrow> string \<Rightarrow> bool \<times> nat" where
  "checkBlockedAddress asset checkAddress = blocked_at 0 (ia_BlockedAddresses asset) checkAddress"

definition removeBlockedAddress :: "string list \<Rightarrow> nat \<Rightarrow> string list" where
  \<comment> \<open>swaps the entry with the last one and drops it\<close>
  "removeBlockedAddress as i =
     (let n = length as - 1 in take n (as[n := as ! i, i := as ! n]))"

definition IssueTokens :: "'b sdk \<Rightarrow> (address \<Rightarrow> string) \<Rightarrow> 'b issuance_state \<Rightarrow> coin \<Rightarrow> address \<Rightarrow> address \<Rightarrow> 'b issuance_state result" where
  "IssueTokens S str st tokens owner receiver =
     (case issuance_GetAsset st (Denom tokens) of
        None \<Rightarrow> Inl (Err ''ErrAssetNotFound'')
      | Some asset \<Rightarrow>
          if str owner \<noteq> ia_Owner asset then Inl (Err ''ErrNotAuthorized'')
          else if ia_Paused asset then Inl (Err ''ErrAssetPaused'')
          else if ia_Blockable asset \<and> fst (checkBlockedAddress asset (str receiver)) then Inl (Err ''ErrAccountBlocked'')
          else if IsModuleAccount S (ik_bank st) receiver then Inl (Err ''ErrIssueToModuleAccount'')
          else
            bnd (if rl_Active (ia_RateLimit asset) then issuance_IncrementCurrentAssetSupply (Math S) st tokens else Inr st) (\<lambda>st1.
            bnd (NewCoins S [tokens]) (\<lambda>cs.
            bnd (MintCoins S (ik_bank st1) issuance_module cs) (\<lambda>b1.
            bnd (SendCoinsFromModuleToAccount S b1 issuance_module receiver cs) (\<lambda>b2.
            Inr (st1\<lparr>ik_bank := b2\<rparr>))))))"

definition RedeemTokens :: "'b sdk \<Rightarrow> (address \<Rightarrow> string) \<Rightarrow> 'b issuance_state \<Rightarrow> coin \<Rightarrow> address \<Rightarrow> 'b issuance_state result" where
  "RedeemTokens S str st tokens owner =
     (case issuance_GetAsset st (Denom tokens) of
        None \<Rightarrow> Inl (Err ''ErrAssetNotFound'')
      | Some asset \<Rightarrow>
          if str owner \<noteq> ia_Owner asset then Inl (Err ''ErrNotAuthorized'')
          else if ia_Paused asset then Inl (Err ''ErrAssetPaused'')
          else
            bnd (NewCoins S [tokens]) (\<lambda>cs.
            bnd (SendCoinsFromAccountToModule S (ik_bank st) owner issuance_module cs) (\<lambda>b1.
            bnd (BurnCoins S b1 issuance_module cs) (\<lambda>b2.
            Inr (st\<lparr>ik_bank := b2\<rparr>)))))"

definition BlockAddress :: "'b sdk \<Rightarrow> (address \<Rightarrow> string) \<Rightarrow> 'b issuance_state \<Rightarrow> denom \<Rightarrow> address \<Rightarrow> address \<Rightarrow> 'b issuance_state result" where
  "BlockAddress S str st d owner blockedAddress =
     (case issuance_GetAsset st d of
        None \<Rightarrow> Inl (Err ''ErrAssetNotFound'')
      | Some asset \<Rightarrow>
          if \<not> ia_Blockable asset then Inl (Err ''ErrAssetUnblockable'')
          else if str owner \<noteq> ia_Owner asset then Inl (Err ''ErrNotAuthorized'')
          else if fst (checkBlockedAddress asset (str blockedAddress)) then Inl (Err ''ErrAccountAlreadyBlocked'')
          else if \<not> HasAccount S (ik_bank st) blockedAddress then Inl (Err ''ErrAccountNotFound'')
          else issuance_SetAsset (Math S) st (asset\<lparr>ia_BlockedAddresses := ia_BlockedAddresses asset @ [str blockedAddress]\<rparr>))"

definition UnblockAddress :: "'b sdk \<Rightarrow> (address \<Rightarrow> string) \<Rightarrow> 'b issuance_state \<Rightarrow> denom \<Rightarrow> address \<Rightarrow> address \<Rightarrow> 'b issuance_state result" where
  "UnblockAddress S str st d owner addr =
     (case issuance_GetAsset st d of
        None \<Rightarrow> Inl (Err ''ErrAssetNotFound'')
      | Some asset \<Rightarrow>
          if \<not> ia_Blockable asset then Inl (Err ''ErrAssetUnblockable'')
          else if str owner \<noteq> ia_Owner asset then Inl (Err ''ErrNotAuthorized'')
          else case checkBlockedAddress asset (str addr) of (blocked, i) \<Rightarrow>
            if \<not> blocked then Inl (Err ''ErrAccountAlreadyUnblocked'')
            else issuance_SetAsset (Math S) st
              (asset\<lparr>ia_BlockedAddresses := removeBlockedAddress (ia_BlockedAddresses asset) i\<rparr>))"

definition SetPauseStatus :: "'b sdk \<Rightarrow> (address \<Rightarrow> string) \<Rightarrow> 'b issuance_state \<Rightarrow> address \<Rightarrow> denom \<Rightarrow> bool \<Rightarrow> 'b issuance_state result" where
  "SetPauseStatus S str st owner d status =
     (case issuance_GetAsset st d of
        None \<Rightarrow> Inl (Err ''ErrAssetNotFound'')
      | Some asset \<Rightarrow>
          if str owner \<noteq> ia_Owner asset then Inl (Err ''ErrNotAuthorized'')
          else if ia_Paused asset = status then Inr st
          else issuance_SetAsset (Math S) st (asset\<lparr>ia_Paused := \<not> ia_Paused asset\<rparr>))"

text \<open>\<open>Coins.AmountOf\<close> panics on a malformed denomination.\<close>

definition seize_from :: "'b sdk \<Rightarrow> (string \<Rightarrow> address result) \<Rightarrow> Asset \<Rightarrow> denom \<Rightarrow> string \<Rightarrow> 'b issuance_state \<Rightarrow> 'b issuance_state result" where
  "seize_from S bech asset d a st =
     bnd (bech a) (\<lambda>addr.
     if \<not> HasAccount S (ik_bank st) addr then Inr st
     else if \<not> ValidDenom (Math S) d then Inl (Panic ''invalid denom'')
     else
       let coinsAmount = AmountOf (GetAllBalances S (ik_bank st) addr) d in
       if \<not> 0 < coinsAmount then Inr st
       else
         bnd (NewCoin (Math S) d coinsAmount) (\<lambda>c.
         bnd (NewCoins S [c]) (\<lambda>cs.
         bnd (SendCoinsFromAccountToModule S (ik_bank st) addr issuance_module cs) (\<lambda>b1.
         bnd (bech (ia_Owner asset)) (\<lambda>owner.
         bnd (SendCoinsFromModuleToAccount S b1 issuance_module owner cs) (\<lambda>b2.
         Inr (st\<lparr>ik_bank := b2\<rparr>)))))))"

definition SeizeCoinsFromBlockedAddresses :: "'b sdk \<Rightarrow> (string \<Rightarrow> address result) \<Rightarrow> denom \<Rightarrow> 'b issuance_state \<Rightarrow> 'b issuance_state result" where
  "SeizeCoinsFromBlockedAddresses S bech d st =
     (case issuance_GetAsset st d of
        None \<Rightarrow> Inl (Err ''ErrAssetNotFound'')
      | Some asset \<Rightarrow> foldR (seize_from S bech asset d) (ia_BlockedAddresses asset) st)"

definition SeizeCoinsForBlockableAssets :: "'b sdk \<Rightarrow> (string \<Rightarrow> address result) \<Rightarrow> 'b issuance_state \<Rightarrow> 'b issuance_state result" where
  "SeizeCoinsForBlockableAssets S bech st =
     foldR (\<lambda>asset st. if ia_Blockable asset then SeizeCoinsFromBlockedAddresses S bech (ia_Denom asset) st else Inr st) (ik_assets st) st"

definition issuance_BeginBlocker :: "'b sdk \<Rightarrow> (string \<Rightarrow> address result) \<Rightarrow> time \<Rightarrow> 'b issuance_state \<Rightarrow> 'b issuance_state result" where
  "issuance_BeginBlocker S bech now st =
     bnd (panic_on_err (SeizeCoinsForBlockableAssets S bech st)) (\<lambda>st1.
     bnd (SynchronizeBlockList (Math S) st1) (\<lambda>st2.
     issuance_UpdateTimeBasedSupplyLimits (Math S) now st2))"

section \<open>Messages\<close>

definition check_sender :: "(string \<Rightarrow> address result) \<Rightarrow> string \<Rightarrow> unit result" where
  "check_sender bech sender =
     (if length sender = 0 then Inl (Err ''ErrInvalidAddress'')
      else case bech sender of Inl (Err e) \<Rightarrow> Inl (Err ''ErrInvalidAddress'') | Inl (Panic e) \<Rightarrow> Inl (Panic e) | Inr x \<Rightarrow> Inr ())"

definition MsgIssueTokens_ValidateBasic :: "sdk_math \<Rightarrow> (string \<Rightarrow> address result) \<Rightarrow> string \<Rightarrow> coin \<Rightarrow> string \<Rightarrow> unit result" where
  "MsgIssueTokens_ValidateBasic m bech sender tokens receiver =
     bnd (check_sender bech sender) (\<lambda>_.
     if Amount tokens = 0 \<or> \<not> coin_IsValid m tokens then Inl (Err ''ErrInvalidCoins'')
     else check_sender bech receiver)"

definition msg_IssueTokens ::
    "'b sdk \<Rightarrow> (address \<Rightarrow> string) \<Rightarrow> (string \<Rightarrow> address result) \<Rightarrow> 'b issuance_state \<Rightarrow> string \<Rightarrow> coin \<Rightarrow> string \<Rightarrow> 'b issuance_state result" where
  "msg_IssueTokens S str bech st sender tokens receiver =
     bnd (bech sender) (\<lambda>s. bnd (bech receiver) (\<lambda>r. IssueTokens S str st tokens s r))"

definition MsgRedeemTokens_ValidateBasic :: "sdk_math \<Rightarrow> (string \<Rightarrow> address result) \<Rightarrow> string \<Rightarrow> coin \<Rightarrow> unit result" where
  "MsgRedeemTokens_ValidateBasic m bech sender tokens =
     bnd (check_sender bech sender) (\<lambda>_.
     if Amount tokens = 0 \<or> \<not> coin_IsValid m tokens then Inl (Err ''ErrInvalidCoins'') else Inr ())"

definition msg_RedeemTokens ::
    "'b sdk \<Rightarrow> (address \<Rightarrow> string) \<Rightarrow> (string \<Rightarrow> address result) \<Rightarrow> 'b issuance_state \<Rightarrow> string \<Rightarrow> coin \<Rightarrow> 'b issuance_state result" where
  "msg_RedeemTokens S str bech st sender tokens = bnd (bech sender) (\<lambda>s. RedeemTokens S str st tokens s)"

definition MsgBlockAddress_ValidateBasic :: "sdk_math \<Rightarrow> (string \<Rightarrow> address result) \<Rightarrow> string \<Rightarrow> denom \<Rightarrow> string \<Rightarrow> unit result" where
  "MsgBlockAddress_ValidateBasic m bech sender d blocked =
     bnd (check_sender bech sender) (\<lambda>_.
     if length blocked = 0 then Inl (Err ''ErrInvalidAddress'') else ValidateDenom m d)"

definition msg_BlockAddress ::
    "'b sdk \<Rightarrow> (address \<Rightarrow> string) \<Rightarrow> (string \<Rightarrow> address result) \<Rightarrow> 'b issuance_state \<Rightarrow> string \<Rightarrow> denom \<Rightarrow> string \<Rightarrow> 'b issuance_state result" where
  "msg_BlockAddress S str bech st sender d blocked =
     bnd (bech sender) (\<lambda>s. bnd (bech blocked) (\<lambda>a. BlockAddress S str st d s a))"

definition MsgUnblockAddress_ValidateBasic :: "sdk_math \<Rightarrow> (string \<Rightarrow> address result) \<Rightarrow> string \<Rightarrow> denom \<Rightarrow> string \<Rightarrow> unit result" where
  "MsgUnblockAddress_ValidateBasic m bech sender d blocked =
     bnd (check_sender bech sender) (\<lambda>_.
     if length blocked = 0 then Inl (Err ''ErrInvalidAddress'') else ValidateDenom m d)"

definition msg_UnblockAddress ::
    "'b sdk \<Rightarrow> (address \<Rightarrow> string) \<Rightarrow> (string \<Rightarrow> address result) \<Rightarrow> 'b issuance_state \<Rightarrow> string \<Rightarrow> denom \<Rightarrow> string \<Rightarrow> 'b issuance_state result" where
  "msg_UnblockAddress S str bech st sender d blocked =
     bnd (bech sender) (\<lambda>s. bnd (bech blocked) (\<lambda>a. UnblockAddress S str st d s a))"

definition MsgSetPauseStatus_ValidateBasic :: "sdk_math \<Rightarrow> (string \<Rightarrow> address result) \<Rightarrow> string \<Rightarrow> denom \<Rightarrow> unit result" where
  "MsgSetPauseStatus_ValidateBasic m bech sender d = bnd (check_sender bech sender) (\<lambda>_. ValidateDenom m d)"

definition msg_SetPauseStatus ::
    "'b sdk \<Rightarrow> (address \<Rightarrow> string) \<Rightarrow> (string \<Rightarrow> address result) \<Rightarrow> 'b issuance_state \<Rightarrow> string \<Rightarrow> denom \<Rightarrow> bool \<Rightarrow> 'b issuance_state result" where
  "msg_SetPauseStatus S str bech st sender d status = bnd (bech sender) (\<lambda>s. SetPauseStatus S str st s d status)"

section \<open>Genesis\<close>

record issuance_genesis =
  ig_Assets :: "Asset list"
  ig_Supplies :: "issuance_supply list"

definition issuance_genesis_Validate :: "sdk_math \<Rightarrow> issuance_genesis \<Rightarrow> unit result" where
  "issuance_genesis_Validate m gs =
     bnd (foldR (\<lambda>s _. issuance_supply_Validate m s) (ig_Supplies gs) ()) (\<lambda>_. ValidateAssets m (ig_Assets gs))"

definition ensure_supply :: "sdk_math \<Rightarrow> Asset \<Rightarrow> 'b issuance_state \<Rightarrow> 'b issuance_state result" where
  "ensure_supply m asset st =
     (if rl_Active (ia_RateLimit asset) \<and> issuance_GetAssetSupply st (ia_Denom asset) = None
      then bnd (issuance_CreateNewAssetSupply m st (ia_Denom asset)) (\<lambda>(st1, s). Inr st1) else Inr st)"

definition issuance_InitGenesis :: "'b sdk \<Rightarrow> 'b issuance_state \<Rightarrow> issuance_genesis \<Rightarrow> 'b issuance_state result" where
  "issuance_InitGenesis S st gs =
     bnd (panic_on_err (issuance_genesis_Validate (Math S) gs)) (\<lambda>_.
     if \<not> HasModuleAccount S (ik_bank st) issuance_module then Inl (Panic ''module account has not been set'')
     else
       bnd (issuance_SetParams (Math S) st (ig_Assets gs)) (\<lambda>st1.
       foldR (ensure_supply (Math S)) (ig_Assets gs)
         (fold (\<lambda>s st. issuance_SetAssetSupply st s (issuance_GetDenom s)) (ig_Supplies gs) st1)))"

definition issuance_ExportGenesis :: "'b issuance_state \<Rightarrow> issuance_genesis" where
  "issuance_ExportGenesis st = \<lparr>ig_Assets = ik_assets st, ig_Supplies = issuance_GetAllAssetSupplies st\<rparr>"

end
