(* ===== verification/Issuance_Safety.thy ===== *)
theory Issuance_Safety
  imports Issuance
begin

text \<open>
  What the issuance module guarantees: its parameters and supplies stay well formed, only the owner of
  an asset changes it, issuing respects the rate limit, blocking is undone by unblocking, and the begin
  blocker takes the coins of blocked accounts, all of them and nothing else.
\<close>

section \<open>Well-formed parameters\<close>

lemma check_blocked_list_iff: "check_blocked_list w as = Inr () \<longleftrightarrow> (\<forall>a\<in>set as. a \<noteq> [] \<and> a \<noteq> w)"
  by (induction w as rule: check_blocked_list.induct) auto

lemma Asset_Validate_iff:
  "Asset_Validate m a = Inr () \<longleftrightarrow> ia_Owner a \<noteq> [] \<and> (ia_Blockable a \<or> ia_BlockedAddresses a = []) \<and>
     (\<forall>x\<in>set (ia_BlockedAddresses a). x \<noteq> [] \<and> x \<noteq> ia_Owner a) \<and> ValidDenom m (ia_Denom a)"
  by (auto simp: Asset_Validate_def check_blocked_list_iff ValidateDenom_def)

lemma check_assets_iff:
  "check_assets m seen as = Inr () \<longleftrightarrow> distinct (map ia_Denom as) \<and> set (map ia_Denom as) \<inter> set seen = {} \<and> (\<forall>a\<in>set as. Asset_Validate m a = Inr ())"
  by (induction m seen as rule: check_assets.induct) auto

lemma ValidateAssets_iff:
  "ValidateAssets m as = Inr () \<longleftrightarrow> distinct (map ia_Denom as) \<and> (\<forall>a\<in>set as. Asset_Validate m a = Inr ())"
  by (simp add: ValidateAssets_def check_assets_iff)

lemma GetAsset_iff:
  assumes "distinct (map ia_Denom (ik_assets st))"
  shows "issuance_GetAsset st d = Some a \<longleftrightarrow> a \<in> set (ik_assets st) \<and> ia_Denom a = d"
proof
  show "issuance_GetAsset st d = Some a \<Longrightarrow> a \<in> set (ik_assets st) \<and> ia_Denom a = d"
    by (auto simp: issuance_GetAsset_def find_Some_iff)
  assume a: "a \<in> set (ik_assets st) \<and> ia_Denom a = d"
  then have "issuance_GetAsset st d \<noteq> None" by (auto simp: issuance_GetAsset_def find_None_iff)
  then obtain b where b: "issuance_GetAsset st d = Some b" by blast
  then have "b \<in> set (ik_assets st)" "ia_Denom b = d" by (auto simp: issuance_GetAsset_def find_Some_iff)
  then have "b = a" using assms a by (auto simp: distinct_map inj_on_def)
  then show "issuance_GetAsset st d = Some a" using b by simp
qed

definition issuance_wf :: "sdk_math \<Rightarrow> 'b issuance_state \<Rightarrow> bool" where
  "issuance_wf m st \<longleftrightarrow> ValidateAssets m (ik_assets st) = Inr () \<and> kv_ok (ik_supplies st) \<and>
     (\<forall>d s. issuance_GetAssetSupply st d = Some s \<longrightarrow> Denom (is_CurrentSupply s) = d \<and> coin_IsValid m (is_CurrentSupply s))"

lemma issuance_wfD:
  assumes "issuance_wf m st"
  shows "ValidateAssets m (ik_assets st) = Inr ()" "kv_ok (ik_supplies st)" "distinct (map ia_Denom (ik_assets st))"
    "issuance_GetAssetSupply st d = Some s \<Longrightarrow> Denom (is_CurrentSupply s) = d \<and> coin_IsValid m (is_CurrentSupply s)"
    "a \<in> set (ik_assets st) \<Longrightarrow> Asset_Validate m a = Inr ()"
  using assms by (auto simp: issuance_wf_def ValidateAssets_iff)

lemma issuance_fields [simp]:
  "ik_assets (issuance_SetAssetSupply st s d) = ik_assets st" "ik_bank (issuance_SetAssetSupply st s d) = ik_bank st"
  "ik_supplies (issuance_SetAssetSupply st s d) = kv_set (ik_supplies st) d s" "ik_prevTime (issuance_SetAssetSupply st s d) = ik_prevTime st"
  "issuance_GetAssetSupply (issuance_SetAssetSupply st s d) = (issuance_GetAssetSupply st)(d \<mapsto> s)"
  "issuance_GetAssetSupply (st\<lparr>ik_bank := b\<rparr>) = issuance_GetAssetSupply st" "issuance_GetAssetSupply (st\<lparr>ik_prevTime := t\<rparr>) = issuance_GetAssetSupply st"
  "issuance_GetAssetSupply (st\<lparr>ik_assets := as\<rparr>) = issuance_GetAssetSupply st"
  "issuance_GetAsset (issuance_SetAssetSupply st s d) = issuance_GetAsset st" "issuance_GetAsset (st\<lparr>ik_bank := b\<rparr>) = issuance_GetAsset st"
  by (simp_all add: fun_eq_iff issuance_SetAssetSupply_def issuance_GetAssetSupply_def issuance_GetAsset_def)

lemma issuance_wf_frame [simp]:
  "issuance_wf m (st\<lparr>ik_bank := b\<rparr>) = issuance_wf m st" "issuance_wf m (st\<lparr>ik_prevTime := t\<rparr>) = issuance_wf m st"
  by (simp_all add: issuance_wf_def)

lemma issuance_wf_supply:
  "issuance_wf m st \<Longrightarrow> Denom (is_CurrentSupply s) = d \<Longrightarrow> coin_IsValid m (is_CurrentSupply s) \<Longrightarrow> issuance_wf m (issuance_SetAssetSupply st s d)"
  by (auto simp: issuance_wf_def)

text \<open>Writing an asset replaces it under its denomination, and is refused when it is invalid.\<close>

definition put_asset :: "Asset list \<Rightarrow> Asset \<Rightarrow> Asset list" where
  "put_asset as asset = map (\<lambda>a. if ia_Denom a = ia_Denom asset then asset else a) as"

lemma put_asset_denoms [simp]: "map ia_Denom (put_asset as asset) = map ia_Denom as"
  by (simp add: put_asset_def)

lemma put_asset_twice: "ia_Denom a = ia_Denom b \<Longrightarrow> put_asset (put_asset as a) b = put_asset as b"
  by (simp add: put_asset_def)

lemma put_asset_same:
  assumes "distinct (map ia_Denom as)" "a \<in> set as"
  shows "put_asset as a = as"
proof -
  have "ia_Denom b = ia_Denom a \<Longrightarrow> a = b" if "b \<in> set as" for b
    using assms that by (auto simp: distinct_map inj_on_def)
  then show ?thesis by (auto simp: put_asset_def intro!: map_idI)
qed

lemma issuance_SetAsset_Inr:
  assumes "issuance_wf m st" "issuance_GetAsset st (ia_Denom asset) = Some old"
  shows "issuance_SetAsset m st asset = Inr st' \<longleftrightarrow> Asset_Validate m asset = Inr () \<and> st' = st\<lparr>ik_assets := put_asset (ik_assets st) asset\<rparr>"
proof -
  have old: "old \<in> set (ik_assets st)" "ia_Denom old = ia_Denom asset"
    using assms(2) by (auto simp: issuance_GetAsset_def find_Some_iff)
  have "ValidateAssets m (put_asset (ik_assets st) asset) = Inr () \<longleftrightarrow> Asset_Validate m asset = Inr ()"
  proof
    assume "ValidateAssets m (put_asset (ik_assets st) asset) = Inr ()"
    moreover have "asset \<in> set (put_asset (ik_assets st) asset)" using old by (force simp: put_asset_def)
    ultimately show "Asset_Validate m asset = Inr ()" by (simp add: ValidateAssets_iff)
  next
    assume "Asset_Validate m asset = Inr ()"
    then show "ValidateAssets m (put_asset (ik_assets st) asset) = Inr ()"
      using issuance_wfD(3,5) [OF assms(1)] unfolding ValidateAssets_iff put_asset_denoms by (auto simp: put_asset_def)
  qed
  then show ?thesis
    unfolding issuance_SetAsset_def issuance_SetParams_def put_asset_def [symmetric] by auto
qed

lemma issuance_SetAsset_wf:
  assumes "issuance_wf m st" "issuance_SetAsset m st asset = Inr st'"
  shows "issuance_wf m st'"
  using assms by (auto simp: issuance_SetAsset_def issuance_SetParams_def issuance_wf_def)

section \<open>The invariant\<close>

lemma IncrementCurrent_wf:
  assumes "issuance_wf m st" "issuance_IncrementCurrentAssetSupply m st c = Inr st'" "0 \<le> Amount c"
  shows "issuance_wf m st'" "ik_assets st' = ik_assets st" "ik_bank st' = ik_bank st" "ik_prevTime st' = ik_prevTime st"
    "d \<noteq> Denom c \<Longrightarrow> issuance_GetAssetSupply st' d = issuance_GetAssetSupply st d"
proof -
  obtain s limit where s: "issuance_GetAssetSupply st (Denom c) = Some s" "GetRateLimit st (Denom c) = Inr limit"
    using assms(2) by (auto simp: issuance_IncrementCurrentAssetSupply_def split: option.splits)
  note w = issuance_wfD(4) [OF assms(1) s(1)]
  have c: "st' = st \<or> (\<exists>s'. st' = issuance_SetAssetSupply st s' (Denom c) \<and> Denom (is_CurrentSupply s') = Denom c \<and> coin_IsValid m (is_CurrentSupply s'))"
    using assms(2,3) s w by (auto simp: issuance_IncrementCurrentAssetSupply_def coin_IsValid_def split: if_splits)
  then show "issuance_wf m st'" using issuance_wf_supply [OF assms(1)] assms(1) by metis
  show "ik_assets st' = ik_assets st" "ik_bank st' = ik_bank st" "ik_prevTime st' = ik_prevTime st"
    "d \<noteq> Denom c \<Longrightarrow> issuance_GetAssetSupply st' d = issuance_GetAssetSupply st d"
    using c by auto
qed

lemma Issue_ok:
  assumes "sdk_laws S" "IssueTokens S str st c owner r = Inr st'"
  obtains asset st1 cs b1 b2 where "issuance_GetAsset st (Denom c) = Some asset" "str owner = ia_Owner asset" "\<not> ia_Paused asset"
    "ia_Blockable asset \<Longrightarrow> \<not> fst (checkBlockedAddress asset (str r))" "\<not> IsModuleAccount S (ik_bank st) r" "0 \<le> Amount c"
    "(if rl_Active (ia_RateLimit asset) then issuance_IncrementCurrentAssetSupply (Math S) st c else Inr st) = Inr st1"
    "NewCoins S [c] = Inr cs" "MintCoins S (ik_bank st1) issuance_module cs = Inr b1"
    "SendCoinsFromModuleToAccount S b1 issuance_module r cs = Inr b2" "st' = st1\<lparr>ik_bank := b2\<rparr>"
proof -
  obtain asset where a: "issuance_GetAsset st (Denom c) = Some asset" "str owner = ia_Owner asset" "\<not> ia_Paused asset"
    "ia_Blockable asset \<Longrightarrow> \<not> fst (checkBlockedAddress asset (str r))" "\<not> IsModuleAccount S (ik_bank st) r"
    using assms(2) by (auto simp: IssueTokens_def split: option.splits if_splits)
  from assms(2) a obtain st1 cs b1 b2 where
    "(if rl_Active (ia_RateLimit asset) then issuance_IncrementCurrentAssetSupply (Math S) st c else Inr st) = Inr st1"
    "NewCoins S [c] = Inr cs" "MintCoins S (ik_bank st1) issuance_module cs = Inr b1"
    "SendCoinsFromModuleToAccount S b1 issuance_module r cs = Inr b2" "st' = st1\<lparr>ik_bank := b2\<rparr>"
    unfolding IssueTokens_def by (auto split: if_splits)
  then show ?thesis using that a NewCoins_one(2) [OF assms(1)] by blast
qed

lemma Issue_wf:
  assumes "sdk_laws S" "issuance_wf (Math S) st" "IssueTokens S str st c owner r = Inr st'"
  shows "issuance_wf (Math S) st'" "ik_assets st' = ik_assets st"
    "d \<noteq> Denom c \<Longrightarrow> issuance_GetAssetSupply st' d = issuance_GetAssetSupply st d"
proof -
  obtain st1 b where *: "st1 = st \<or> issuance_IncrementCurrentAssetSupply (Math S) st c = Inr st1" "0 \<le> Amount c" "st' = st1\<lparr>ik_bank := b\<rparr>"
    by (rule Issue_ok [OF assms(1,3)]) (auto split: if_splits)
  show "issuance_wf (Math S) st'" "ik_assets st' = ik_assets st"
    "d \<noteq> Denom c \<Longrightarrow> issuance_GetAssetSupply st' d = issuance_GetAssetSupply st d"
    using *(1) assms(2) IncrementCurrent_wf [OF assms(2) _ *(2), of st1] by (auto simp: *(3))
qed

lemma issuance_supply_twice [simp]:
  "issuance_SetAssetSupply (issuance_SetAssetSupply st s d) s' d = issuance_SetAssetSupply st s' d"
  by (simp add: issuance_SetAssetSupply_def)

lemma issuance_update_supply_wf:
  assumes wf: "issuance_wf m st" and d: "ValidDenom m (ia_Denom asset)" and ok: "issuance_update_supply m t asset st = Inr st'"
  shows "issuance_wf m st' \<and> ik_assets st' = ik_assets st \<and> ik_bank st' = ik_bank st"
proof -
  obtain s' where s': "st' = issuance_SetAssetSupply st s' (ia_Denom asset)" "Denom (is_CurrentSupply s') = ia_Denom asset" "coin_IsValid m (is_CurrentSupply s')"
  proof (cases "issuance_GetAssetSupply st (ia_Denom asset)")
    case None
    show ?thesis
      using ok None d that
      by (auto simp: issuance_update_supply_def issuance_CreateNewAssetSupply_def coin_IsValid_def Let_def split: if_splits)
  next
    case (Some s)
    show ?thesis using ok Some d issuance_wfD(4) [OF wf Some] that
      by (auto simp: issuance_update_supply_def coin_IsValid_def split: if_splits)
  qed
  show ?thesis unfolding s'(1) using issuance_wf_supply [OF wf s'(2,3)] by simp
qed

lemma UpdateTimeBased_wf:
  assumes wf: "issuance_wf m st" and ok: "issuance_UpdateTimeBasedSupplyLimits m now st = Inr st'"
  shows "issuance_wf m st' \<and> ik_assets st' = ik_assets st \<and> ik_bank st' = ik_bank st"
proof -
  define prev where "prev = (case ik_prevTime st of Some t \<Rightarrow> t | None \<Rightarrow> now)"
  obtain st1 where f: "foldR (issuance_update_supply m (time_Sub now prev)) (ik_assets st) (st\<lparr>ik_prevTime := Some prev\<rparr>) = Inr st1"
      "st' = st1\<lparr>ik_prevTime := Some now\<rparr>"
    using ok by (auto simp: issuance_UpdateTimeBasedSupplyLimits_def Let_def prev_def)
  have "issuance_wf m st1 \<and> ik_assets st1 = ik_assets st \<and> ik_bank st1 = ik_bank st"
  proof (rule foldR_invariant [OF f(1)])
    fix a s s' assume *: "a \<in> set (ik_assets st)" "issuance_wf m s \<and> ik_assets s = ik_assets st \<and> ik_bank s = ik_bank st"
      "issuance_update_supply m (time_Sub now prev) a s = Inr s'"
    then show "issuance_wf m s' \<and> ik_assets s' = ik_assets st \<and> ik_bank s' = ik_bank st"
      using issuance_update_supply_wf [of m s a "time_Sub now prev" s'] issuance_wfD(5) [OF wf *(1)] by (simp add: Asset_Validate_iff)
  qed (use wf in simp)
  then show ?thesis by (simp add: f(2))
qed

lemma Synchronize_noop:
  assumes "issuance_wf m st"
  shows "SynchronizeBlockList m st = Inr st"
proof -
  have "foldR (sync_block_list m) as st = Inr st" if "\<forall>a\<in>set as. Asset_Validate m a = Inr ()" for as
    using that by (induction as) (auto simp: sync_block_list_def Asset_Validate_iff)
  then show ?thesis using issuance_wfD(5) [OF assms] by (simp add: SynchronizeBlockList_def)
qed

lemma seize_from_frame:
  assumes "seize_from S bech asset d a st = Inr st'"
  shows "\<exists>b. st' = st\<lparr>ik_bank := b\<rparr>"
proof -
  have "st' = st \<or> (\<exists>b. st' = st\<lparr>ik_bank := b\<rparr>)" using assms by (auto simp: seize_from_def Let_def split: if_splits)
  moreover have "st = st\<lparr>ik_bank := ik_bank st\<rparr>" by simp
  ultimately show ?thesis by metis
qed

lemma Seize_one_frame:
  assumes "SeizeCoinsFromBlockedAddresses S bech d st = Inr st'"
  shows "\<exists>b. st' = st\<lparr>ik_bank := b\<rparr>"
proof -
  obtain asset where f: "foldR (seize_from S bech asset d) (ia_BlockedAddresses asset) st = Inr st'"
    using assms by (cases "issuance_GetAsset st d") (auto simp: SeizeCoinsFromBlockedAddresses_def)
  have self: "\<exists>b. st = st\<lparr>ik_bank := b\<rparr>" by (rule exI [of _ "ik_bank st"]) simp
  show ?thesis
    by (rule foldR_invariant [where P = "\<lambda>s. \<exists>b. s = st\<lparr>ik_bank := b\<rparr>", OF f self]) (auto dest!: seize_from_frame)
qed

lemma Seize_frame:
  assumes "SeizeCoinsForBlockableAssets S bech st = Inr st'"
  shows "\<exists>b. st' = st\<lparr>ik_bank := b\<rparr>"
proof -
  have self: "\<exists>b. st = st\<lparr>ik_bank := b\<rparr>" by (rule exI [of _ "ik_bank st"]) simp
  show ?thesis
    using assms unfolding SeizeCoinsForBlockableAssets_def
    by (rule foldR_invariant [where P = "\<lambda>s. \<exists>b. s = st\<lparr>ik_bank := b\<rparr>", OF _ self])
      (auto split: if_splits dest!: Seize_one_frame)
qed

lemma issuance_BeginBlocker_wf:
  assumes "issuance_wf (Math S) st" "issuance_BeginBlocker S bech now st = Inr st'"
  obtains st1 where "SeizeCoinsForBlockableAssets S bech st = Inr st1" "issuance_wf (Math S) st1"
    "issuance_UpdateTimeBasedSupplyLimits (Math S) now st1 = Inr st'" "issuance_wf (Math S) st'" "ik_assets st' = ik_assets st"
    "ik_bank st' = ik_bank st1"
proof -
  obtain st1 st2 where s: "SeizeCoinsForBlockableAssets S bech st = Inr st1" "SynchronizeBlockList (Math S) st1 = Inr st2"
      "issuance_UpdateTimeBasedSupplyLimits (Math S) now st2 = Inr st'"
    using assms(2) by (auto simp: issuance_BeginBlocker_def)
  obtain b where b: "st1 = st\<lparr>ik_bank := b\<rparr>" using Seize_frame [OF s(1)] by blast
  have w: "issuance_wf (Math S) st1" using assms(1) by (simp add: b)
  then have "st2 = st1" using s(2) Synchronize_noop by fastforce
  then show ?thesis using that [OF s(1) w] s(3) UpdateTimeBased_wf [OF w, of now st'] by (simp add: b)
qed

section \<open>Seizing\<close>

text \<open>
  The bank creates the account of a recipient when it is missing and never removes an account.
\<close>

definition accounts_kept :: "'b sdk \<Rightarrow> bool" where
  "accounts_kept S \<longleftrightarrow>
     (\<forall>b b' x n cs z. SendCoinsFromAccountToModule S b x n cs = Inr b' \<longrightarrow>
        (HasAccount S b z \<longrightarrow> HasAccount S b' z) \<and> (z \<noteq> ModuleAddress S n \<longrightarrow> HasAccount S b' z = HasAccount S b z)) \<and>
     (\<forall>b b' n y cs z. SendCoinsFromModuleToAccount S b n y cs = Inr b' \<longrightarrow>
        (HasAccount S b z \<longrightarrow> HasAccount S b' z) \<and> (z \<noteq> y \<longrightarrow> HasAccount S b' z = HasAccount S b z))"

lemma accounts_keptD:
  assumes "accounts_kept S"
  shows "SendCoinsFromAccountToModule S b x n cs = Inr b' \<Longrightarrow> HasAccount S b (ModuleAddress S n) \<Longrightarrow> HasAccount S b' z = HasAccount S b z"
    and "SendCoinsFromModuleToAccount S b n y cs = Inr b' \<Longrightarrow> z \<noteq> y \<Longrightarrow> HasAccount S b' z = HasAccount S b z"
    and "SendCoinsFromModuleToAccount S b n y cs = Inr b' \<Longrightarrow> HasAccount S b z \<Longrightarrow> HasAccount S b' z"
  using assms unfolding accounts_kept_def by metis+

abbreviation issuance_addr :: "'b sdk \<Rightarrow> address" where
  "issuance_addr S \<equiv> ModuleAddress S issuance_module"

text \<open>The accounts a list of blocked addresses stands for, the owner excepted.\<close>

definition seized :: "'b sdk \<Rightarrow> (string \<Rightarrow> address result) \<Rightarrow> 'b \<Rightarrow> address \<Rightarrow> string list \<Rightarrow> address set" where
  "seized S bech b owner as = {x. x \<noteq> owner \<and> HasAccount S b x \<and> (\<exists>a\<in>set as. bech a = Inr x)}"

lemma seized_Nil [simp]: "seized S bech b owner [] = {}"
  by (simp add: seized_def)

lemma seized_Cons:
  "seized S bech b owner (a # as) =
     (case bech a of Inr x \<Rightarrow> if x \<noteq> owner \<and> HasAccount S b x then insert x (seized S bech b owner as) else seized S bech b owner as
      | Inl _ \<Rightarrow> seized S bech b owner as)"
  by (auto simp: seized_def split: sum.splits)

lemma finite_seized [simp]: "finite (seized S bech b owner as)"
proof -
  have "seized S bech b owner as \<subseteq> projr ` bech ` set as" by (force simp: seized_def image_iff)
  then show ?thesis by (rule finite_subset) simp
qed

text \<open>The effect of a seizure on the balances.\<close>

definition taken :: "'b sdk \<Rightarrow> 'b \<Rightarrow> 'b \<Rightarrow> denom \<Rightarrow> address \<Rightarrow> address set \<Rightarrow> bool" where
  "taken S b b' d owner X \<longleftrightarrow>
     (\<forall>y e. GetBalance S b' y e =
        (if e = d \<and> y \<in> X then 0
         else if e = d \<and> y = owner then GetBalance S b owner d + (\<Sum>x\<in>X. GetBalance S b x d)
         else GetBalance S b y e)) \<and>
     (\<forall>e. GetSupply S b' e = GetSupply S b e)"

lemma taken_none [simp]: "taken S b b d owner {}"
  by (simp add: taken_def)

lemma taken_insert:
  assumes one: "taken S b b1 d owner {x}" and rest: "taken S b1 b2 d owner X" and x: "x \<noteq> owner" "owner \<notin> X" and fin: "finite X"
  shows "taken S b b2 d owner (insert x X)"
proof -
  have b1: "GetBalance S b1 y d = (if y = x then 0 else GetBalance S b y d)" if "y \<in> X" for y
    using one that x by (auto simp: taken_def)
  have "(\<Sum>y\<in>X. GetBalance S b1 y d) = (\<Sum>y\<in>X. if y = x then 0 else GetBalance S b y d)"
    by (rule sum.cong) (simp_all add: b1)
  also have "\<dots> = (\<Sum>y\<in>X - {x}. GetBalance S b y d)"
    using fin by (intro sum.mono_neutral_cong_right) auto
  finally have s: "(\<Sum>y\<in>X. GetBalance S b1 y d) = (\<Sum>y\<in>X - {x}. GetBalance S b y d)" .
  have "(\<Sum>y\<in>insert x X. GetBalance S b y d) = GetBalance S b x d + (\<Sum>y\<in>X. GetBalance S b1 y d)"
    unfolding s using fin by (simp add: sum.insert_remove)
  then show ?thesis using one rest x by (auto simp: taken_def)
qed

lemma seize_from_ok:
  assumes laws: "sdk_laws S" "accounts_kept S" and own: "bech (ia_Owner asset) = Inr owner" "HasAccount S (ik_bank st) (issuance_addr S)"
    and ok: "seize_from S bech asset d a st = Inr st'"
  shows "\<exists>x. bech a = Inr x \<and> (if x \<noteq> owner \<and> HasAccount S (ik_bank st) x then taken S (ik_bank st) (ik_bank st') d owner {x}
       else taken S (ik_bank st) (ik_bank st') d owner {})"
    "z \<noteq> owner \<Longrightarrow> HasAccount S (ik_bank st') z = HasAccount S (ik_bank st) z" "HasAccount S (ik_bank st') (issuance_addr S)"
proof -
  obtain x where x: "bech a = Inr x" using ok by (auto simp: seize_from_def)
  have bal: "AmountOf (GetAllBalances S (ik_bank st) x) d = GetBalance S (ik_bank st) x d" "0 \<le> GetBalance S (ik_bank st) x d"
    using balances [OF laws(1)] by auto
  consider (skip) "st' = st" "HasAccount S (ik_bank st) x \<Longrightarrow> GetBalance S (ik_bank st) x d = 0"
    | (take) cs b1 b2 where "HasAccount S (ik_bank st) x" "NewCoins S [Coin d (GetBalance S (ik_bank st) x d)] = Inr cs"
      "SendCoinsFromAccountToModule S (ik_bank st) x issuance_module cs = Inr b1"
      "SendCoinsFromModuleToAccount S b1 issuance_module owner cs = Inr b2" "st' = st\<lparr>ik_bank := b2\<rparr>"
  proof (cases "HasAccount S (ik_bank st) x \<and> 0 < GetBalance S (ik_bank st) x d")
    case True
    then show ?thesis using ok take by (auto simp: seize_from_def x own(1) bal(1) split: if_splits)
  next
    case False
    then have "st' = st" using ok by (auto simp: seize_from_def x bal(1) split: if_splits)
    then show ?thesis using False bal(2) by (intro skip) auto
  qed
  note cases = this
  have "(z \<noteq> owner \<longrightarrow> HasAccount S (ik_bank st') z = HasAccount S (ik_bank st) z) \<and> HasAccount S (ik_bank st') (issuance_addr S)"
  proof (cases rule: cases)
    case skip
    then show ?thesis using own(2) by simp
  next
    case take
    have b1: "HasAccount S b1 z = HasAccount S (ik_bank st) z" for z by (rule accounts_keptD(1) [OF laws(2) take(3) own(2)])
    have "HasAccount S b2 (issuance_addr S)" by (rule accounts_keptD(3) [OF laws(2) take(4)]) (simp add: b1 own(2))
    moreover have "z \<noteq> owner \<Longrightarrow> HasAccount S b2 z = HasAccount S b1 z" by (rule accounts_keptD(2) [OF laws(2) take(4)])
    ultimately show ?thesis by (simp add: take(5) b1)
  qed
  then show "z \<noteq> owner \<Longrightarrow> HasAccount S (ik_bank st') z = HasAccount S (ik_bank st) z" "HasAccount S (ik_bank st') (issuance_addr S)"
    by simp_all
  show "\<exists>x. bech a = Inr x \<and> (if x \<noteq> owner \<and> HasAccount S (ik_bank st) x then taken S (ik_bank st) (ik_bank st') d owner {x}
       else taken S (ik_bank st) (ik_bank st') d owner {})"
  proof (intro exI [of _ x] conjI x)
    show "if x \<noteq> owner \<and> HasAccount S (ik_bank st) x then taken S (ik_bank st) (ik_bank st') d owner {x}
       else taken S (ik_bank st) (ik_bank st') d owner {}"
    proof (cases rule: cases)
      case skip
      then show ?thesis by (auto simp: taken_def)
    next
      case take
      have amt: "AmountOf cs e = (if e = d then GetBalance S (ik_bank st) x d else 0)" for e
        using NewCoins_one(1) [OF laws(1) take(2), of e] by (simp add: coin_amt_def)
      note m = moved_balance [OF sends(2) [OF laws(1) take(3)]] moved_balance [OF sends(3) [OF laws(1) take(4)]]
        moved_supply [OF sends(2) [OF laws(1) take(3)]] moved_supply [OF sends(3) [OF laws(1) take(4)]]
      have bal2: "GetBalance S b2 y e = GetBalance S (ik_bank st) y e - (if y = x then AmountOf cs e else 0) + (if y = owner then AmountOf cs e else 0)" for y e
        using m(1) [of y e] m(2) [of y e] by simp
      show ?thesis using take(1) m(3,4) by (auto simp: taken_def take(5) bal2 amt)
    qed
  qed
qed

lemma seize_list_ok:
  assumes laws: "sdk_laws S" "accounts_kept S" and own: "bech (ia_Owner asset) = Inr owner" "HasAccount S (ik_bank st) (issuance_addr S)"
    and ok: "foldR (seize_from S bech asset d) as st = Inr st'"
  shows "taken S (ik_bank st) (ik_bank st') d owner (seized S bech (ik_bank st) owner as) \<and>
    (\<forall>z. z \<noteq> owner \<longrightarrow> HasAccount S (ik_bank st') z = HasAccount S (ik_bank st) z) \<and> HasAccount S (ik_bank st') (issuance_addr S)"
  using own(2) ok
proof (induction as arbitrary: st)
  case (Cons a as)
  obtain st1 where s: "seize_from S bech asset d a st = Inr st1" "foldR (seize_from S bech asset d) as st1 = Inr st'"
    using Cons.prems(2) by auto
  note f = seize_from_ok [where bech = bech, OF laws own(1) Cons.prems(1) s(1)]
  note ih = Cons.IH [OF f(3) s(2)]
  have same: "seized S bech (ik_bank st1) owner as = seized S bech (ik_bank st) owner as" using f(2) by (auto simp: seized_def)
  obtain x where x: "bech a = Inr x" "if x \<noteq> owner \<and> HasAccount S (ik_bank st) x then taken S (ik_bank st) (ik_bank st1) d owner {x}
       else taken S (ik_bank st) (ik_bank st1) d owner {}" using f(1) by blast
  have rest: "taken S (ik_bank st1) (ik_bank st') d owner (seized S bech (ik_bank st) owner as)" using ih same by simp
  have no: "owner \<notin> seized S bech (ik_bank st) owner as" by (simp add: seized_def)
  have "taken S (ik_bank st) (ik_bank st') d owner (seized S bech (ik_bank st) owner (a # as))"
  proof (cases "x \<noteq> owner \<and> HasAccount S (ik_bank st) x")
    case True
    then show ?thesis using taken_insert [OF _ rest _ no] x by (simp add: seized_Cons)
  next
    case False
    have "taken S (ik_bank st) (ik_bank st1) d owner {}" using x(2) False by simp
    then have "GetBalance S (ik_bank st1) = GetBalance S (ik_bank st)" "GetSupply S (ik_bank st1) = GetSupply S (ik_bank st)"
      by (auto simp: taken_def fun_eq_iff)
    moreover have "seized S bech (ik_bank st) owner (a # as) = seized S bech (ik_bank st) owner as"
      using x(1) False by (auto simp: seized_Cons)
    ultimately show ?thesis using rest by (simp add: taken_def)
  qed
  then show ?case using ih f(2) by simp
qed simp

text \<open>A seizure for another asset changes neither the balances of this one nor the accounts.\<close>

definition accounts_ready :: "'b sdk \<Rightarrow> (string \<Rightarrow> address result) \<Rightarrow> 'b issuance_state \<Rightarrow> bool" where
  "accounts_ready S bech st \<longleftrightarrow> HasAccount S (ik_bank st) (issuance_addr S) \<and>
     (\<forall>a\<in>set (ik_assets st). \<forall>w. bech (ia_Owner a) = Inr w \<longrightarrow> HasAccount S (ik_bank st) w)"

definition same_denom :: "'b sdk \<Rightarrow> denom \<Rightarrow> 'b \<Rightarrow> 'b \<Rightarrow> bool" where
  "same_denom S d b b' \<longleftrightarrow> (\<forall>y. GetBalance S b' y d = GetBalance S b y d) \<and> (\<forall>e. GetSupply S b' e = GetSupply S b e) \<and>
     (\<forall>z. HasAccount S b' z = HasAccount S b z)"

lemma same_denom_trans: "same_denom S d b1 b2 \<Longrightarrow> same_denom S d b2 b3 \<Longrightarrow> same_denom S d b1 b3"
  by (simp add: same_denom_def)

lemma seize_from_keeps:
  assumes laws: "accounts_kept S" and macc: "HasAccount S (ik_bank st) (issuance_addr S)"
    and own: "\<forall>w. bech (ia_Owner asset) = Inr w \<longrightarrow> HasAccount S (ik_bank st) w"
    and ok: "seize_from S bech asset d a st = Inr st'"
  shows "HasAccount S (ik_bank st') z = HasAccount S (ik_bank st) z"
proof (cases "st' = st")
  case False
  then obtain x cs b1 w b2 where s: "SendCoinsFromAccountToModule S (ik_bank st) x issuance_module cs = Inr b1" "bech (ia_Owner asset) = Inr w"
      "SendCoinsFromModuleToAccount S b1 issuance_module w cs = Inr b2" "st' = st\<lparr>ik_bank := b2\<rparr>"
    using ok by (auto simp: seize_from_def Let_def split: if_splits)
  have b1: "HasAccount S b1 z = HasAccount S (ik_bank st) z" for z by (rule accounts_keptD(1) [OF laws s(1) macc])
  have "HasAccount S b2 z = HasAccount S b1 z"
    using accounts_keptD(2,3) [OF laws s(3), of z] own s(2) b1 by (cases "z = w") auto
  then show ?thesis by (simp add: s(4) b1)
qed simp

lemma Seize_one_ok:
  assumes laws: "sdk_laws S" "accounts_kept S" and wf: "issuance_wf (Math S) st" and acc: "accounts_ready S bech st"
    and a: "asset \<in> set (ik_assets st)" and ok: "SeizeCoinsFromBlockedAddresses S bech (ia_Denom asset) st = Inr st'"
  shows "bech (ia_Owner asset) = Inr owner \<Longrightarrow>
      taken S (ik_bank st) (ik_bank st') (ia_Denom asset) owner (seized S bech (ik_bank st) owner (ia_BlockedAddresses asset))"
    "d \<noteq> ia_Denom asset \<Longrightarrow> same_denom S d (ik_bank st) (ik_bank st')"
    "HasAccount S (ik_bank st') z = HasAccount S (ik_bank st) z"
proof -
  have get: "issuance_GetAsset st (ia_Denom asset) = Some asset" using GetAsset_iff [OF issuance_wfD(3) [OF wf]] a by blast
  then have f: "foldR (seize_from S bech asset (ia_Denom asset)) (ia_BlockedAddresses asset) st = Inr st'"
    using ok by (simp add: SeizeCoinsFromBlockedAddresses_def)
  have macc: "HasAccount S (ik_bank st) (issuance_addr S)" using acc by (simp add: accounts_ready_def)
  show taken: "taken S (ik_bank st) (ik_bank st') (ia_Denom asset) owner (seized S bech (ik_bank st) owner (ia_BlockedAddresses asset))"
    if "bech (ia_Owner asset) = Inr owner" for owner
    using seize_list_ok [where bech = bech, OF laws that macc f] by blast
  have "(\<forall>d. d \<noteq> ia_Denom asset \<longrightarrow> same_denom S d (ik_bank st) (ik_bank st')) \<and> (\<forall>z. HasAccount S (ik_bank st') z = HasAccount S (ik_bank st) z)"
  proof (cases "bech (ia_Owner asset)")
    case (Inr owner)
    have h: "HasAccount S (ik_bank st) owner" using acc a Inr by (simp add: accounts_ready_def)
    have *: "\<exists>b. s = st\<lparr>ik_bank := b\<rparr> \<and> (\<forall>z. HasAccount S b z = HasAccount S (ik_bank st) z)"
      if "foldR (seize_from S bech asset (ia_Denom asset)) as st = Inr s" for as s
    proof (rule foldR_invariant [where P = "\<lambda>s. \<exists>b. s = st\<lparr>ik_bank := b\<rparr> \<and> (\<forall>z. HasAccount S b z = HasAccount S (ik_bank st) z)", OF that])
      show "\<exists>b. st = st\<lparr>ik_bank := b\<rparr> \<and> (\<forall>z. HasAccount S b z = HasAccount S (ik_bank st) z)" by (rule exI [of _ "ik_bank st"]) simp
      fix x s s' assume s: "\<exists>b. s = st\<lparr>ik_bank := b\<rparr> \<and> (\<forall>z. HasAccount S b z = HasAccount S (ik_bank st) z)"
        "seize_from S bech asset (ia_Denom asset) x s = Inr s'"
      obtain b where b: "s' = s\<lparr>ik_bank := b\<rparr>" using seize_from_frame [OF s(2)] by blast
      have hs: "HasAccount S (ik_bank s) z = HasAccount S (ik_bank st) z" for z using s(1) by auto
      have "HasAccount S (ik_bank s') z = HasAccount S (ik_bank s) z" for z
        by (rule seize_from_keeps [OF laws(2) _ _ s(2)]) (use Inr macc h hs in auto)
      then show "\<exists>b. s' = st\<lparr>ik_bank := b\<rparr> \<and> (\<forall>z. HasAccount S b z = HasAccount S (ik_bank st) z)"
        using s(1) hs b by auto
    qed
    have "\<forall>z. HasAccount S (ik_bank st') z = HasAccount S (ik_bank st) z" using * [OF f] by auto
    then show ?thesis using taken [OF Inr] by (auto simp: same_denom_def taken_def)
  next
    case (Inl e)
    have "s' = s" if "seize_from S bech asset (ia_Denom asset) x s = Inr s'" for x s s'
      using that by (auto simp: seize_from_def Inl Let_def split: if_splits)
    then have "st' = st" by (rule foldR_invariant [where P = "\<lambda>s. s = st", OF f refl]) auto
    then show ?thesis by (simp add: same_denom_def)
  qed
  then show "d \<noteq> ia_Denom asset \<Longrightarrow> same_denom S d (ik_bank st) (ik_bank st')"
    "HasAccount S (ik_bank st') z = HasAccount S (ik_bank st) z" by auto
qed

abbreviation seize_asset :: "'b sdk \<Rightarrow> (string \<Rightarrow> address result) \<Rightarrow> Asset \<Rightarrow> 'b issuance_state \<Rightarrow> 'b issuance_state result" where
  "seize_asset S bech asset st \<equiv> (if ia_Blockable asset then SeizeCoinsFromBlockedAddresses S bech (ia_Denom asset) st else Inr st)"

lemma Seize_others:
  assumes laws: "sdk_laws S" "accounts_kept S" and wf: "issuance_wf (Math S) st" and acc: "accounts_ready S bech st"
    and sub: "set as \<subseteq> set (ik_assets st)" "d \<notin> ia_Denom ` set as" and ok: "foldR (seize_asset S bech) as st = Inr st'"
  shows "same_denom S d (ik_bank st) (ik_bank st') \<and> issuance_wf (Math S) st' \<and> accounts_ready S bech st' \<and> ik_assets st' = ik_assets st"
proof (rule foldR_invariant [where P = "\<lambda>s. same_denom S d (ik_bank st) (ik_bank s) \<and> issuance_wf (Math S) s \<and> accounts_ready S bech s \<and> ik_assets s = ik_assets st", OF ok])
  show "same_denom S d (ik_bank st) (ik_bank st) \<and> issuance_wf (Math S) st \<and> accounts_ready S bech st \<and> ik_assets st = ik_assets st"
    using wf acc by (simp add: same_denom_def)
  fix a s s'
  assume *: "a \<in> set as" "same_denom S d (ik_bank st) (ik_bank s) \<and> issuance_wf (Math S) s \<and> accounts_ready S bech s \<and> ik_assets s = ik_assets st"
    "seize_asset S bech a s = Inr s'"
  show "same_denom S d (ik_bank st) (ik_bank s') \<and> issuance_wf (Math S) s' \<and> accounts_ready S bech s' \<and> ik_assets s' = ik_assets st"
  proof (cases "ia_Blockable a")
    case True
    then have z: "SeizeCoinsFromBlockedAddresses S bech (ia_Denom a) s = Inr s'" using *(3) by simp
    have mem: "a \<in> set (ik_assets s)" using *(1,2) sub(1) by auto
    have wf_s: "issuance_wf (Math S) s" and acc_s: "accounts_ready S bech s" using *(2) by simp_all
    note one = Seize_one_ok [OF laws wf_s acc_s mem z]
    have "\<exists>b. s' = s\<lparr>ik_bank := b\<rparr>" by (rule Seize_one_frame [OF z])
    then obtain b where b: "s' = s\<lparr>ik_bank := b\<rparr>" by blast
    have "d \<noteq> ia_Denom a" using *(1) sub(2) by auto
    then have "same_denom S d (ik_bank s) (ik_bank s')" by (rule one(2))
    with conjunct1 [OF *(2)] have "same_denom S d (ik_bank st) (ik_bank s')" by (rule same_denom_trans)
    moreover have "accounts_ready S bech s'" using acc_s one(3) by (simp add: b accounts_ready_def)
    ultimately show ?thesis using *(2) by (simp add: b)
  qed (use * in simp)
qed

text \<open>
  When a begin blocker of the issuance module succeeds, every account that is blocked for an asset
  has lost all its coins of that asset, the owner of the asset has received exactly the sum of them,
  no other account's balance of the asset has changed, and no supply of any coin has.
\<close>

theorem issuance_BeginBlocker_seizes:
  assumes "sdk_laws S" "accounts_kept S" "issuance_wf (Math S) st" "accounts_ready S bech st"
    and "issuance_BeginBlocker S bech now st = Inr st'"
    and "asset \<in> set (ik_assets st)" "ia_Blockable asset" "bech (ia_Owner asset) = Inr owner"
  shows "(\<forall>y. GetBalance S (ik_bank st') y (ia_Denom asset) =
      (if y \<noteq> owner \<and> HasAccount S (ik_bank st) y \<and> (\<exists>a\<in>set (ia_BlockedAddresses asset). bech a = Inr y) then 0
       else if y = owner then GetBalance S (ik_bank st) owner (ia_Denom asset) +
         (\<Sum>x\<in>seized S bech (ik_bank st) owner (ia_BlockedAddresses asset). GetBalance S (ik_bank st) x (ia_Denom asset))
       else GetBalance S (ik_bank st) y (ia_Denom asset))) \<and>
    (\<forall>e. GetSupply S (ik_bank st') e = GetSupply S (ik_bank st) e)"
proof (rule issuance_BeginBlocker_wf [OF assms(3,5)])
  fix st1 assume z: "SeizeCoinsForBlockableAssets S bech st = Inr st1" "ik_bank st' = ik_bank st1"
  let ?d = "ia_Denom asset"
  obtain pre post where split: "ik_assets st = pre @ asset # post" using assms(6) by (meson split_list)
  have dist: "?d \<notin> ia_Denom ` set pre" "?d \<notin> ia_Denom ` set post" using issuance_wfD(3) [OF assms(3)] by (auto simp: split)
  have "foldR (seize_asset S bech) (pre @ asset # post) st = Inr st1" using z(1) by (simp add: SeizeCoinsForBlockableAssets_def split)
  then obtain s1 s2 where s: "foldR (seize_asset S bech) pre st = Inr s1" "SeizeCoinsFromBlockedAddresses S bech ?d s1 = Inr s2"
      "foldR (seize_asset S bech) post s2 = Inr st1"
    using assms(7) by (auto simp: foldR_append)
  have "set pre \<subseteq> set (ik_assets st)" by (auto simp: split)
  note p1 = Seize_others [OF assms(1-4) this dist(1) s(1)]
  then have wf1: "issuance_wf (Math S) s1" and acc1: "accounts_ready S bech s1" and mem: "asset \<in> set (ik_assets s1)" using assms(6) by auto
  note p2 = Seize_one_ok [OF assms(1,2) wf1 acc1 mem s(2)]
  obtain b where b: "s2 = s1\<lparr>ik_bank := b\<rparr>" using Seize_one_frame [OF s(2)] by blast
  have wf2: "issuance_wf (Math S) s2" using wf1 by (simp add: b)
  have acc2: "accounts_ready S bech s2" using acc1 p2(3) by (simp add: b accounts_ready_def)
  have "set post \<subseteq> set (ik_assets s2)" using p1 by (auto simp: b split)
  note p3 = Seize_others [OF assms(1,2) wf2 acc2 this dist(2) s(3)]
  have X: "seized S bech (ik_bank s1) owner (ia_BlockedAddresses asset) = seized S bech (ik_bank st) owner (ia_BlockedAddresses asset)"
    using p1 by (simp add: seized_def same_denom_def)
  have t: "taken S (ik_bank s1) (ik_bank s2) ?d owner (seized S bech (ik_bank st) owner (ia_BlockedAddresses asset))"
    using p2(1) [OF assms(8)] by (simp add: X)
  have e: "\<And>y. GetBalance S (ik_bank s1) y ?d = GetBalance S (ik_bank st) y ?d" "\<And>e. GetSupply S (ik_bank s1) e = GetSupply S (ik_bank st) e"
    "\<And>y. GetBalance S (ik_bank st') y ?d = GetBalance S (ik_bank s2) y ?d" "\<And>e. GetSupply S (ik_bank st') e = GetSupply S (ik_bank s2) e"
    using p1 p3 by (simp_all add: same_denom_def z(2))
  have mem_iff: "y \<in> seized S bech (ik_bank st) owner (ia_BlockedAddresses asset) \<longleftrightarrow>
      y \<noteq> owner \<and> HasAccount S (ik_bank st) y \<and> (\<exists>a\<in>set (ia_BlockedAddresses asset). bech a = Inr y)" for y
    by (simp add: seized_def)
  have "GetBalance S (ik_bank s2) y ?d =
      (if y \<in> seized S bech (ik_bank st) owner (ia_BlockedAddresses asset) then 0
       else if y = owner then GetBalance S (ik_bank st) owner ?d +
         (\<Sum>x\<in>seized S bech (ik_bank st) owner (ia_BlockedAddresses asset). GetBalance S (ik_bank st) x ?d)
       else GetBalance S (ik_bank st) y ?d)" for y
    using t by (simp add: taken_def e(1))
  moreover have "GetSupply S (ik_bank s2) e = GetSupply S (ik_bank st) e" for e using t e(2) by (simp add: taken_def)
  ultimately show ?thesis by (simp add: e(3,4) mem_iff)
qed

section \<open>Reachable states\<close>

text \<open>A message signed by the account \<open>w\<close>.\<close>

inductive issuance_msg :: "'b sdk \<Rightarrow> (address \<Rightarrow> string) \<Rightarrow> (string \<Rightarrow> address result) \<Rightarrow> address \<Rightarrow> 'b issuance_state \<Rightarrow> 'b issuance_state \<Rightarrow> bool"
  for S str bech w where
  issue: "bech sender = Inr w \<Longrightarrow> msg_IssueTokens S str bech st sender c r = Inr st' \<Longrightarrow> issuance_msg S str bech w st st'"
| redeem: "bech sender = Inr w \<Longrightarrow> msg_RedeemTokens S str bech st sender c = Inr st' \<Longrightarrow> issuance_msg S str bech w st st'"
| block: "bech sender = Inr w \<Longrightarrow> msg_BlockAddress S str bech st sender d x = Inr st' \<Longrightarrow> issuance_msg S str bech w st st'"
| unblock: "bech sender = Inr w \<Longrightarrow> msg_UnblockAddress S str bech st sender d x = Inr st' \<Longrightarrow> issuance_msg S str bech w st st'"
| pause: "bech sender = Inr w \<Longrightarrow> msg_SetPauseStatus S str bech st sender d status = Inr st' \<Longrightarrow> issuance_msg S str bech w st st'"

inductive issuance_reach :: "'b sdk \<Rightarrow> (address \<Rightarrow> string) \<Rightarrow> (string \<Rightarrow> address result) \<Rightarrow> 'b issuance_state \<Rightarrow> bool"
  for S str bech where
  genesis: "issuance_InitGenesis S st gs = Inr st' \<Longrightarrow> ik_supplies st = [] \<Longrightarrow> issuance_reach S str bech st'"
| msg: "issuance_reach S str bech st \<Longrightarrow> issuance_msg S str bech w st st' \<Longrightarrow> issuance_reach S str bech st'"
| block: "issuance_reach S str bech st \<Longrightarrow> issuance_BeginBlocker S bech now st = Inr st' \<Longrightarrow> issuance_reach S str bech st'"
| params: "issuance_reach S str bech st \<Longrightarrow> ValidateAssets (Math S) as = Inr () \<Longrightarrow> issuance_reach S str bech (st\<lparr>ik_assets := as\<rparr>)"
| others: "issuance_reach S str bech st \<Longrightarrow> issuance_reach S str bech (st\<lparr>ik_bank := b\<rparr>)"

lemma msg_effect:
  assumes "sdk_laws S" "issuance_wf (Math S) st" "issuance_msg S str bech w st st'"
  obtains (issue) c r where "IssueTokens S str st c w r = Inr st'"
    | (redeem) c where "RedeemTokens S str st c w = Inr st'"
    | (asset) old new where "old \<in> set (ik_assets st)" "ia_Owner old = str w" "ia_Denom new = ia_Denom old" "Asset_Validate (Math S) new = Inr ()"
      "st' = st\<lparr>ik_assets := put_asset (ik_assets st) new\<rparr>"
    | (same) "st' = st"
  using assms(3)
proof (cases rule: issuance_msg.cases)
  case (issue sender c r)
  then show ?thesis using that(1) by (auto simp: msg_IssueTokens_def)
next
  case (redeem sender c)
  then show ?thesis using that(2) by (auto simp: msg_RedeemTokens_def)
next
  case (block sender d x)
  then obtain y where "BlockAddress S str st d w y = Inr st'" by (auto simp: msg_BlockAddress_def)
  then obtain old where *: "issuance_GetAsset st d = Some old" "str w = ia_Owner old"
      "issuance_SetAsset (Math S) st (old\<lparr>ia_BlockedAddresses := ia_BlockedAddresses old @ [str y]\<rparr>) = Inr st'"
    by (cases "issuance_GetAsset st d") (auto simp: BlockAddress_def split: if_splits)
  moreover have "old \<in> set (ik_assets st)" "ia_Denom old = d" using *(1) GetAsset_iff [OF issuance_wfD(3) [OF assms(2)]] by auto
  ultimately show ?thesis
    using that(3) [of old "old\<lparr>ia_BlockedAddresses := ia_BlockedAddresses old @ [str y]\<rparr>"]
      issuance_SetAsset_Inr [OF assms(2), of "old\<lparr>ia_BlockedAddresses := ia_BlockedAddresses old @ [str y]\<rparr>" old st'] by simp
next
  case (unblock sender d x)
  then obtain y where "UnblockAddress S str st d w y = Inr st'" by (auto simp: msg_UnblockAddress_def)
  then obtain old bs where *: "issuance_GetAsset st d = Some old" "str w = ia_Owner old"
      "issuance_SetAsset (Math S) st (old\<lparr>ia_BlockedAddresses := bs\<rparr>) = Inr st'"
    by (cases "issuance_GetAsset st d") (auto simp: UnblockAddress_def split: if_splits prod.splits)
  moreover have "old \<in> set (ik_assets st)" "ia_Denom old = d" using *(1) GetAsset_iff [OF issuance_wfD(3) [OF assms(2)]] by auto
  ultimately show ?thesis
    using that(3) [of old "old\<lparr>ia_BlockedAddresses := bs\<rparr>"] issuance_SetAsset_Inr [OF assms(2), of "old\<lparr>ia_BlockedAddresses := bs\<rparr>" old st'] by simp
next
  case (pause sender d status)
  then have "SetPauseStatus S str st w d status = Inr st'" by (auto simp: msg_SetPauseStatus_def)
  then obtain old where *: "issuance_GetAsset st d = Some old" "str w = ia_Owner old"
      "st' = st \<or> issuance_SetAsset (Math S) st (old\<lparr>ia_Paused := \<not> ia_Paused old\<rparr>) = Inr st'"
    by (cases "issuance_GetAsset st d") (auto simp: SetPauseStatus_def split: if_splits)
  moreover have "old \<in> set (ik_assets st)" "ia_Denom old = d" using *(1) GetAsset_iff [OF issuance_wfD(3) [OF assms(2)]] by auto
  ultimately show ?thesis
    using that(3) [of old "old\<lparr>ia_Paused := \<not> ia_Paused old\<rparr>"] that(4)
      issuance_SetAsset_Inr [OF assms(2), of "old\<lparr>ia_Paused := \<not> ia_Paused old\<rparr>" old st'] by auto
qed

lemma Redeem_ok:
  assumes "RedeemTokens S str st c w = Inr st'"
  obtains asset cs b1 b2 where "issuance_GetAsset st (Denom c) = Some asset" "str w = ia_Owner asset" "NewCoins S [c] = Inr cs"
    "SendCoinsFromAccountToModule S (ik_bank st) w issuance_module cs = Inr b1" "BurnCoins S b1 issuance_module cs = Inr b2" "st' = st\<lparr>ik_bank := b2\<rparr>"
  using assms by (cases "issuance_GetAsset st (Denom c)") (auto simp: RedeemTokens_def split: if_splits)

lemma put_asset_valid:
  assumes "issuance_wf m st" "Asset_Validate m new = Inr ()"
  shows "issuance_wf m (st\<lparr>ik_assets := put_asset (ik_assets st) new\<rparr>)"
proof -
  have "ValidateAssets m (put_asset (ik_assets st) new) = Inr ()"
    using assms(2) issuance_wfD(3,5) [OF assms(1)] unfolding ValidateAssets_iff put_asset_denoms by (auto simp: put_asset_def)
  then show ?thesis using assms(1) by (simp add: issuance_wf_def)
qed

lemma issuance_msg_wf:
  assumes "sdk_laws S" "issuance_wf (Math S) st" "issuance_msg S str bech w st st'"
  shows "issuance_wf (Math S) st'"
  using assms
proof (cases rule: msg_effect)
  case (issue c r)
  then show ?thesis by (rule Issue_wf(1) [OF assms(1,2)])
next
  case (redeem c)
  then show ?thesis using assms(2) by (auto elim!: Redeem_ok)
next
  case (asset old new)
  then show ?thesis using put_asset_valid [OF assms(2)] by simp
qed (use assms(2) in simp)

lemma InitGenesis_wf:
  assumes "issuance_InitGenesis S st gs = Inr st'" "ik_supplies st = []"
  shows "issuance_wf (Math S) st'"
proof -
  let ?st1 = "st\<lparr>ik_assets := ig_Assets gs\<rparr>"
  have v: "foldR (\<lambda>s _. issuance_supply_Validate (Math S) s) (ig_Supplies gs) () = Inr ()" "ValidateAssets (Math S) (ig_Assets gs) = Inr ()"
      and f: "foldR (ensure_supply (Math S)) (ig_Assets gs)
         (fold (\<lambda>s st. issuance_SetAssetSupply st s (issuance_GetDenom s)) (ig_Supplies gs) ?st1) = Inr st'"
    using assms(1) by (auto simp: issuance_InitGenesis_def issuance_genesis_Validate_def issuance_SetParams_def split: if_splits)
  have ok: "foldR (\<lambda>s _. issuance_supply_Validate (Math S) s) ss () = Inr () \<Longrightarrow> \<forall>s\<in>set ss. issuance_supply_Validate (Math S) s = Inr ()" for ss
    by (induction ss) auto
  have "issuance_wf (Math S) (fold (\<lambda>s st. issuance_SetAssetSupply st s (issuance_GetDenom s)) ss s0)"
    if "issuance_wf (Math S) s0" "\<forall>s\<in>set ss. issuance_supply_Validate (Math S) s = Inr ()" for ss s0
    using that
  proof (induction ss arbitrary: s0)
    case (Cons s ss)
    have "issuance_wf (Math S) (issuance_SetAssetSupply s0 s (issuance_GetDenom s))"
      using Cons.prems by (intro issuance_wf_supply) (auto simp: issuance_GetDenom_def issuance_supply_Validate_def split: if_splits)
    then show ?case using Cons.IH Cons.prems(2) by simp
  qed simp
  moreover have "issuance_wf (Math S) ?st1" using v(2) assms(2) by (simp add: issuance_wf_def issuance_GetAssetSupply_def)
  ultimately have w: "issuance_wf (Math S) (fold (\<lambda>s st. issuance_SetAssetSupply st s (issuance_GetDenom s)) (ig_Supplies gs) ?st1)"
    using ok [OF v(1)] by blast
  show ?thesis
  proof (rule foldR_invariant [where P = "issuance_wf (Math S)", OF f w])
    fix a s s' assume "issuance_wf (Math S) s" "ensure_supply (Math S) a s = Inr s'"
    then show "issuance_wf (Math S) s'"
      by (auto simp: ensure_supply_def issuance_CreateNewAssetSupply_def coin_IsValid_def Let_def split: if_splits intro: issuance_wf_supply)
  qed
qed

lemma issuance_reach_wf:
  assumes "sdk_laws S"
  shows "issuance_reach S str bech st \<Longrightarrow> issuance_wf (Math S) st"
proof (induction rule: issuance_reach.induct)
  case (block st now st')
  then show ?case by (auto elim: issuance_BeginBlocker_wf)
next
  case (params st as)
  then show ?case by (simp add: issuance_wf_def)
qed (auto intro: InitGenesis_wf issuance_msg_wf [OF assms])


text \<open>
  C27: A message leaves every asset its sender does not own as it is: its parameters, its rate limited
  supply, the supply of its coins and all balances of them.
\<close>

theorem issuance_owner_only:
  assumes "sdk_laws S" "issuance_reach S str bech st" "issuance_msg S str bech w st st'"
    and "asset \<in> set (ik_assets st)" "ia_Owner asset \<noteq> str w"
  shows "asset \<in> set (ik_assets st') \<and> issuance_GetAssetSupply st' (ia_Denom asset) = issuance_GetAssetSupply st (ia_Denom asset) \<and>
    GetSupply S (ik_bank st') (ia_Denom asset) = GetSupply S (ik_bank st) (ia_Denom asset) \<and>
    (\<forall>x. GetBalance S (ik_bank st') x (ia_Denom asset) = GetBalance S (ik_bank st) x (ia_Denom asset))"
proof -
  have wf: "issuance_wf (Math S) st" by (rule issuance_reach_wf [OF assms(1,2)])
  have other: "ia_Denom asset \<noteq> d" if "issuance_GetAsset st d = Some a" "str w = ia_Owner a" for d a
  proof
    assume "ia_Denom asset = d"
    then have "issuance_GetAsset st d = Some asset" using GetAsset_iff [OF issuance_wfD(3) [OF wf]] assms(4) by blast
    then show False using that assms(5) by simp
  qed
  show ?thesis
    using assms(1) wf assms(3)
  proof (cases rule: msg_effect)
    case (issue c r)
    note w = Issue_wf(2,3) [OF assms(1) wf issue]
    show ?thesis
    proof (rule Issue_ok [OF assms(1) issue])
      fix a st1 cs b1 b2
      assume *: "issuance_GetAsset st (Denom c) = Some a" "str w = ia_Owner a" "0 \<le> Amount c"
        "(if rl_Active (ia_RateLimit a) then issuance_IncrementCurrentAssetSupply (Math S) st c else Inr st) = Inr st1"
        "NewCoins S [c] = Inr cs" "MintCoins S (ik_bank st1) issuance_module cs = Inr b1"
        "SendCoinsFromModuleToAccount S b1 issuance_module r cs = Inr b2" "st' = st1\<lparr>ik_bank := b2\<rparr>"
      have bank: "ik_bank st1 = ik_bank st" using *(4) IncrementCurrent_wf(3) [OF wf _ *(3)] by (auto split: if_splits)
      have ne: "ia_Denom asset \<noteq> Denom c" by (rule other [OF *(1,2)])
      have "AmountOf cs (ia_Denom asset) = 0" using NewCoins_one(1) [OF assms(1) *(5)] ne by (simp add: coin_amt_def)
      then show ?thesis
        using w ne assms(4) mints(1,3) [OF assms(1) *(6)] moved_balance [OF sends(3) [OF assms(1) *(7)]] moved_supply [OF sends(3) [OF assms(1) *(7)]]
        by (simp add: *(8) bank)
    qed
  next
    case (redeem c)
    show ?thesis
    proof (rule Redeem_ok [OF redeem])
      fix a cs b1 b2
      assume *: "issuance_GetAsset st (Denom c) = Some a" "str w = ia_Owner a" "NewCoins S [c] = Inr cs"
        "SendCoinsFromAccountToModule S (ik_bank st) w issuance_module cs = Inr b1" "BurnCoins S b1 issuance_module cs = Inr b2" "st' = st\<lparr>ik_bank := b2\<rparr>"
      have "AmountOf cs (ia_Denom asset) = 0"
        using NewCoins_one(1) [OF assms(1) *(3)] other [OF *(1,2)] by (simp add: coin_amt_def)
      then show ?thesis
        using assms(4) mints(2,4) [OF assms(1) *(5)] moved_balance [OF sends(2) [OF assms(1) *(4)]] moved_supply [OF sends(2) [OF assms(1) *(4)]]
        by (simp add: *(6))
    qed
  next
    case (asset old new)
    have "ia_Denom asset \<noteq> ia_Denom new"
      using asset(1-3) assms(4,5) issuance_wfD(3) [OF wf] by (auto simp: distinct_map inj_on_def)
    then have "asset \<in> set (put_asset (ik_assets st) new)" using assms(4) by (force simp: put_asset_def)
    then show ?thesis by (simp add: asset(5))
  qed (use assms(4) in simp)
qed

section \<open>Issuing under a rate limit\<close>

lemma Issue_step:
  assumes laws: "sdk_laws S" and wf: "issuance_wf (Math S) st" and ok: "IssueTokens S str st c w r = Inr st'"
    and a: "asset \<in> set (ik_assets st)" "rl_Active (ia_RateLimit asset)" and s: "issuance_GetAssetSupply st (ia_Denom asset) = Some s"
  shows "\<exists>s'. issuance_GetAssetSupply st' (ia_Denom asset) = Some s' \<and>
    Amount (is_CurrentSupply s') = Amount (is_CurrentSupply s) + coin_amt c (ia_Denom asset) \<and>
    GetSupply S (ik_bank st') (ia_Denom asset) = GetSupply S (ik_bank st) (ia_Denom asset) + coin_amt c (ia_Denom asset) \<and>
    (Amount (is_CurrentSupply s) \<le> rl_Limit (ia_RateLimit asset) \<longrightarrow> Amount (is_CurrentSupply s') \<le> rl_Limit (ia_RateLimit asset))"
proof (rule Issue_ok [OF laws ok])
  fix b st1 cs b1 b2
  assume *: "issuance_GetAsset st (Denom c) = Some b" "0 \<le> Amount c"
    "(if rl_Active (ia_RateLimit b) then issuance_IncrementCurrentAssetSupply (Math S) st c else Inr st) = Inr st1"
    "NewCoins S [c] = Inr cs" "MintCoins S (ik_bank st1) issuance_module cs = Inr b1"
    "SendCoinsFromModuleToAccount S b1 issuance_module r cs = Inr b2" "st' = st1\<lparr>ik_bank := b2\<rparr>"
  have bank: "ik_bank st1 = ik_bank st" using *(3) IncrementCurrent_wf(3) [OF wf _ *(2)] by (auto split: if_splits)
  have sup: "GetSupply S (ik_bank st') e = GetSupply S (ik_bank st) e + coin_amt c e" for e
    using mints(3) [OF laws *(5), of e] moved_supply [OF sends(3) [OF laws *(6)], of e] NewCoins_one(1) [OF laws *(4), of e] by (simp add: *(7) bank)
  show ?thesis
  proof (cases "ia_Denom asset = Denom c")
    case True
    then have b: "b = asset" using *(1) a(1) GetAsset_iff [OF issuance_wfD(3) [OF wf]] by (metis option.inject)
    then have inc: "issuance_IncrementCurrentAssetSupply (Math S) st c = Inr st1" using *(3) a(2) by simp
    have lim: "GetRateLimit st (Denom c) = Inr (ia_RateLimit asset)" using *(1) b by (simp add: GetRateLimit_def)
    have den: "Denom (is_CurrentSupply s) = Denom c" using issuance_wfD(4) [OF wf s] True by simp
    have "\<exists>s'. issuance_GetAssetSupply st1 (Denom c) = Some s' \<and> Amount (is_CurrentSupply s') = Amount (is_CurrentSupply s) + Amount c \<and>
        Amount (is_CurrentSupply s') \<le> rl_Limit (ia_RateLimit asset)"
      using inc s a(2) den unfolding True
      by (auto simp: issuance_IncrementCurrentAssetSupply_def lim not_less split: if_splits)
    then show ?thesis using sup True by (auto simp: *(7) coin_amt_def)
  next
    case False
    then have "issuance_GetAssetSupply st' (ia_Denom asset) = Some s" using Issue_wf(3) [OF laws wf ok] s by simp
    then show ?thesis using sup False by (simp add: coin_amt_def)
  qed
qed

text \<open>
  C26: However many times the owners issue tokens within a period, for a rate limited asset the sum of
  what they issued is what its recorded supply and the supply of its coins have grown by, and the
  recorded supply never exceeds the limit.
\<close>

theorem IssueTokens_rate_limit:
  assumes "sdk_laws S" "issuance_reach S str bech st"
    and "asset \<in> set (ik_assets st)" "rl_Active (ia_RateLimit asset)" "issuance_GetAssetSupply st (ia_Denom asset) = Some s"
    and "foldR (\<lambda>(c, w, r) st. IssueTokens S str st c w r) xs st = Inr st'"
  shows "\<exists>s'. issuance_GetAssetSupply st' (ia_Denom asset) = Some s' \<and>
    Amount (is_CurrentSupply s') = Amount (is_CurrentSupply s) + (\<Sum>(c, w, r)\<leftarrow>xs. coin_amt c (ia_Denom asset)) \<and>
    GetSupply S (ik_bank st') (ia_Denom asset) = GetSupply S (ik_bank st) (ia_Denom asset) + (\<Sum>(c, w, r)\<leftarrow>xs. coin_amt c (ia_Denom asset)) \<and>
    (Amount (is_CurrentSupply s) \<le> rl_Limit (ia_RateLimit asset) \<longrightarrow> Amount (is_CurrentSupply s') \<le> rl_Limit (ia_RateLimit asset))"
proof -
  have "issuance_wf (Math S) st" by (rule issuance_reach_wf [OF assms(1,2)])
  then show ?thesis using assms(3,5,6)
  proof (induction xs arbitrary: st s)
    case (Cons x xs)
    obtain c w r where x: "x = (c, w, r)" by (cases x)
    obtain st1 where s1: "IssueTokens S str st c w r = Inr st1" "foldR (\<lambda>(c, w, r) st. IssueTokens S str st c w r) xs st1 = Inr st'"
      using Cons.prems(4) by (auto simp: x)
    note w = Issue_wf [OF assms(1) Cons.prems(1) s1(1)]
    from Issue_step [OF assms(1) Cons.prems(1) s1(1) Cons.prems(2) assms(4) Cons.prems(3)] obtain s2 where
      s2: "issuance_GetAssetSupply st1 (ia_Denom asset) = Some s2" "Amount (is_CurrentSupply s2) = Amount (is_CurrentSupply s) + coin_amt c (ia_Denom asset)"
        "GetSupply S (ik_bank st1) (ia_Denom asset) = GetSupply S (ik_bank st) (ia_Denom asset) + coin_amt c (ia_Denom asset)"
        "Amount (is_CurrentSupply s) \<le> rl_Limit (ia_RateLimit asset) \<longrightarrow> Amount (is_CurrentSupply s2) \<le> rl_Limit (ia_RateLimit asset)" by blast
    have mem: "asset \<in> set (ik_assets st1)" using Cons.prems(2) w(2) by simp
    from Cons.IH [OF w(1) mem s2(1) s1(2)] show ?case using s2(2-4) by (auto simp: x)
  qed simp
qed

section \<open>Blocking\<close>

lemma blocked_at_iff: "fst (blocked_at i as x) \<longleftrightarrow> x \<in> set as"
  by (induction i as x rule: blocked_at.induct) auto

lemma blocked_at_append: "x \<notin> set as \<Longrightarrow> blocked_at i (as @ [x]) x = (True, i + length as)"
  by (induction i as x rule: blocked_at.induct) auto

lemma removeBlockedAddress_last: "removeBlockedAddress (as @ [x]) (length as) = as"
  by (simp add: removeBlockedAddress_def)

text \<open>Unblocking an account undoes blocking it: the state is the one before.\<close>

theorem block_unblock_round_trip:
  assumes "sdk_laws S" "issuance_reach S str bech st" "BlockAddress S str st d w x = Inr st1"
  shows "UnblockAddress S str st1 d w x = Inr st"
proof -
  have wf: "issuance_wf (Math S) st" by (rule issuance_reach_wf [OF assms(1,2)])
  note dist = issuance_wfD(3) [OF wf]
  obtain old where od: "issuance_GetAsset st d = Some old" "ia_Blockable old" "str w = ia_Owner old" "str x \<notin> set (ia_BlockedAddresses old)"
      and sa: "issuance_SetAsset (Math S) st (old\<lparr>ia_BlockedAddresses := ia_BlockedAddresses old @ [str x]\<rparr>) = Inr st1"
    using assms(3) by (cases "issuance_GetAsset st d") (auto simp: BlockAddress_def checkBlockedAddress_def blocked_at_iff split: if_splits)
  define new where "new = old\<lparr>ia_BlockedAddresses := ia_BlockedAddresses old @ [str x]\<rparr>"
  have mem: "old \<in> set (ik_assets st)" "ia_Denom old = d" using od(1) GetAsset_iff [OF dist] by auto
  have st1: "Asset_Validate (Math S) new = Inr ()" "st1 = st\<lparr>ik_assets := put_asset (ik_assets st) new\<rparr>"
    using sa issuance_SetAsset_Inr [OF wf, of new old st1] od(1) mem(2) by (simp_all add: new_def)
  have wf1: "issuance_wf (Math S) st1" unfolding st1(2) by (rule put_asset_valid [OF wf st1(1)])
  have "new \<in> set (ik_assets st1)" using mem by (force simp: st1(2) put_asset_def new_def)
  then have get: "issuance_GetAsset st1 d = Some new" using GetAsset_iff [OF issuance_wfD(3) [OF wf1]] mem(2) by (auto simp: new_def)
  have pos: "checkBlockedAddress new (str x) = (True, length (ia_BlockedAddresses old))"
    using blocked_at_append [OF od(4), of 0] by (simp add: checkBlockedAddress_def new_def)
  have restored: "new\<lparr>ia_BlockedAddresses := removeBlockedAddress (ia_BlockedAddresses new) (length (ia_BlockedAddresses old))\<rparr> = old"
    by (simp add: new_def removeBlockedAddress_last)
  have "put_asset (put_asset (ik_assets st) new) old = ik_assets st"
    using put_asset_twice [of new old "ik_assets st"] put_asset_same [OF dist mem(1)] by (simp add: new_def)
  then have "issuance_SetAsset (Math S) st1 old = Inr st"
    using issuance_SetAsset_Inr [OF wf1, of old new st] get mem(2) issuance_wfD(5) [OF wf mem(1)] by (simp add: st1(2))
  then show ?thesis using od(2,3) pos restored by (simp add: UnblockAddress_def get new_def)
qed

section \<open>A small chain\<close>

definition ex_token :: Asset where
  "ex_token = \<lparr>ia_Owner = ''olga'', ia_Denom = ''usdx'', ia_BlockedAddresses = [''mallory''], ia_Paused = False, ia_Blockable = True,
     ia_RateLimit = \<lparr>rl_Active = True, rl_Limit = 100, rl_TimePeriod = 3600 * second\<rparr>\<rparr>"

definition ex_issuance0 :: "ledger issuance_state" where
  "ex_issuance0 = \<lparr>ik_assets = [], ik_supplies = [], ik_prevTime = None,
     ik_bank = \<lparr>lbal = [((''mallory'', ''usdx''), 30), ((''alice'', ''usdx''), 5), ((''olga'', ''usdx''), 1)], lsupply = [(''usdx'', 36)]\<rparr>\<rparr>"

definition ex_issuance :: "ledger issuance_state" where
  "ex_issuance = ex_issuance0\<lparr>ik_assets := [ex_token], ik_supplies := [(''usdx'', \<lparr>is_CurrentSupply = Coin ''usdx'' 0, is_TimeElapsed = 0\<rparr>)]\<rparr>"

definition ex_str :: "address \<Rightarrow> string" where "ex_str a = a"
definition ex_bech :: "string \<Rightarrow> address result" where "ex_bech a = (if a = [] then Inl (Err ''empty address'') else Inr a)"

lemma ex_issuance_reach: "issuance_reach ref_sdk ex_str ex_bech ex_issuance"
proof (rule issuance_reach.genesis)
  show "issuance_InitGenesis ref_sdk ex_issuance0 \<lparr>ig_Assets = [ex_token], ig_Supplies = []\<rparr> = Inr ex_issuance" by code_simp
qed (simp add: ex_issuance0_def)

lemma ex_issuance_parts:
  "ik_assets ex_issuance = [ex_token]" "issuance_GetAsset ex_issuance ''usdx'' = Some ex_token"
  "issuance_GetAssetSupply ex_issuance ''usdx'' = Some \<lparr>is_CurrentSupply = Coin ''usdx'' 0, is_TimeElapsed = 0\<rparr>"
  by (simp_all add: ex_issuance_def ex_token_def issuance_GetAsset_def issuance_GetAssetSupply_def)


theorem issuance_BeginBlocker_seizes_witness:
  "GetBalance ref_sdk (ik_bank (projr (issuance_BeginBlocker ref_sdk ex_bech (10 * second) ex_issuance))) ''mallory'' ''usdx'' = 0 \<and>
   GetBalance ref_sdk (ik_bank (projr (issuance_BeginBlocker ref_sdk ex_bech (10 * second) ex_issuance))) ''olga'' ''usdx'' = 31"
proof -
  let ?r = "issuance_BeginBlocker ref_sdk ex_bech (10 * second) ex_issuance"
  have ok: "?r = Inr (projr ?r)" by code_simp
  have kept: "accounts_kept ref_sdk" by (simp add: accounts_kept_def ref_sdk_def)
  have acc: "accounts_ready ref_sdk ex_bech ex_issuance" by (simp add: accounts_ready_def ref_sdk_def)
  have wf: "issuance_wf (Math ref_sdk) ex_issuance" by (rule issuance_reach_wf [OF ref_sdk_laws ex_issuance_reach])
  have e: "GetBalance ref_sdk (ik_bank ex_issuance) ''olga'' ''usdx'' = 1" "GetBalance ref_sdk (ik_bank ex_issuance) ''mallory'' ''usdx'' = 30" by code_simp+
  have has: "HasAccount ref_sdk b x" for b x by (simp add: ref_sdk_def)
  have m: "ex_token \<in> set (ik_assets ex_issuance)" "ia_Blockable ex_token" "ex_bech (ia_Owner ex_token) = Inr ''olga''"
    by (simp_all add: ex_issuance_parts ex_token_def ex_bech_def)
  have X: "seized ref_sdk ex_bech (ik_bank ex_issuance) ''olga'' (ia_BlockedAddresses ex_token) = {''mallory''}"
    by (auto simp: seized_def has ex_token_def ex_bech_def)
  have d: "ia_Denom ex_token = ''usdx''" "ia_BlockedAddresses ex_token = [''mallory'']" by (simp_all add: ex_token_def)
  note s = issuance_BeginBlocker_seizes [OF ref_sdk_laws kept wf acc ok m, unfolded d X [unfolded d]]
  show ?thesis using s e by (simp add: has ex_bech_def)
qed

theorem issuance_owner_only_witness:
  "\<exists>st'. issuance_msg ref_sdk ex_str ex_bech ''wendy'' (ex_issuance\<lparr>ik_assets := [ex_token, ex_token\<lparr>ia_Owner := ''wendy'', ia_Denom := ''tok'', ia_BlockedAddresses := []\<rparr>]\<rparr>) st' \<and>
     ex_token \<in> set (ik_assets st')"
proof -
  let ?b = "ex_token\<lparr>ia_Owner := ''wendy'', ia_Denom := ''tok'', ia_BlockedAddresses := []\<rparr>"
  let ?st = "ex_issuance\<lparr>ik_assets := [ex_token, ?b]\<rparr>"
  have v: "ValidateAssets (Math ref_sdk) [ex_token, ?b] = Inr ()" by code_simp
  have r: "issuance_reach ref_sdk ex_str ex_bech ?st" by (rule issuance_reach.params [OF ex_issuance_reach v])
  have "msg_SetPauseStatus ref_sdk ex_str ex_bech ?st ''wendy'' ''tok'' True = Inr (projr (msg_SetPauseStatus ref_sdk ex_str ex_bech ?st ''wendy'' ''tok'' True))"
    by code_simp
  then have m: "issuance_msg ref_sdk ex_str ex_bech ''wendy'' ?st (projr (msg_SetPauseStatus ref_sdk ex_str ex_bech ?st ''wendy'' ''tok'' True))"
    by (rule issuance_msg.pause [rotated]) (simp add: ex_bech_def)
  have "ex_token \<in> set (ik_assets ?st)" "ia_Owner ex_token \<noteq> ex_str ''wendy''" by (simp_all add: ex_token_def ex_str_def)
  from issuance_owner_only [OF ref_sdk_laws r m this] m show ?thesis by blast
qed

theorem IssueTokens_rate_limit_witness:
  "\<exists>s'. issuance_GetAssetSupply (projr (foldR (\<lambda>(c, w, r) st. IssueTokens ref_sdk ex_str st c w r)
       [(Coin ''usdx'' 60, ''olga'', ''alice''), (Coin ''usdx'' 40, ''olga'', ''bob'')] ex_issuance)) ''usdx'' = Some s' \<and>
     Amount (is_CurrentSupply s') = 100"
proof -
  let ?xs = "[(Coin ''usdx'' 60, ''olga'', ''alice''), (Coin ''usdx'' 40, ''olga'', ''bob'')]"
  let ?r = "foldR (\<lambda>(c, w, r) st. IssueTokens ref_sdk ex_str st c w r) ?xs ex_issuance"
  have ok: "?r = Inr (projr ?r)" by code_simp
  have a: "ex_token \<in> set (ik_assets ex_issuance)" "rl_Active (ia_RateLimit ex_token)" by (simp_all add: ex_issuance_parts ex_token_def)
  have d: "ia_Denom ex_token = ''usdx''" by (simp add: ex_token_def)
  show ?thesis
    using IssueTokens_rate_limit [OF ref_sdk_laws ex_issuance_reach a ex_issuance_parts(3) [folded d] ok, unfolded d] by (auto simp: coin_amt_def)
qed

theorem block_unblock_round_trip_witness:
  "UnblockAddress ref_sdk ex_str (projr (BlockAddress ref_sdk ex_str ex_issuance ''usdx'' ''olga'' ''alice'')) ''usdx'' ''olga'' ''alice'' = Inr ex_issuance"
proof (rule block_unblock_round_trip [OF ref_sdk_laws ex_issuance_reach])
  show "BlockAddress ref_sdk ex_str ex_issuance ''usdx'' ''olga'' ''alice'' = Inr (projr (BlockAddress ref_sdk ex_str ex_issuance ''usdx'' ''olga'' ''alice''))"
    by code_simp
qed

end
