(* ===== verification/Evmutil_Bank.thy ===== *)
theory Evmutil_Bank
  imports Sdk_Reference Ordered_Store
begin

text \<open>
  The bank the EVM sees, \<open>x/evmutil\<close>: coins of 18 decimals (\<open>akava\<close>) on top of the coins of 6
  decimals the chain has (\<open>ukava\<close>). \<open>keeper/keeper.go\<close> stores the minor balances,
  \<open>keeper/bank_keeper.go\<close> splits amounts and moves both parts, \<open>keeper/invariants.go\<close> and
  \<open>genesis.go\<close> check and load the minor balances.
\<close>

section \<open>Minor balances\<close>

definition EvmDenom :: denom where "EvmDenom = ''akava''"
definition CosmosDenom :: denom where "CosmosDenom = ''ukava''"
definition evmutil_module :: string where "evmutil_module = ''evmutil''"

abbreviation (input) ConversionMultiplier :: int where "ConversionMultiplier \<equiv> 1000000000000"

record Account =
  ac_Address :: address
  ac_Balance :: int

definition Account_Validate :: "Account \<Rightarrow> unit result" where
  "Account_Validate a =
     (if ac_Address a = [] then Inl (Err ''address cannot be empty'')
      else if ac_Balance a < 0 then Inl (Err ''balance amount cannot be negative'')
      else Inr ())"

text \<open>
  The key of an account is its address after a byte with the length of it, so that iterators visit
  shorter addresses first.
\<close>

record 'b evm_bank_state =
  ea_accounts :: "(nat \<times> address, Account) kv"
  ea_bank :: 'b

definition AccountStoreKey :: "address \<Rightarrow> nat \<times> address" where
  "AccountStoreKey addr = (length addr, addr)"

definition GetAllAccounts :: "'b evm_bank_state \<Rightarrow> Account list" where
  "GetAllAccounts st = map snd (ea_accounts st)"

definition GetAccount :: "'b evm_bank_state \<Rightarrow> address \<Rightarrow> Account option" where
  "GetAccount st addr = kv_get (ea_accounts st) (AccountStoreKey addr)"

definition SetAccount :: "'b evm_bank_state \<Rightarrow> Account \<Rightarrow> 'b evm_bank_state result" where
  "SetAccount st account =
     bnd (Account_Validate account) (\<lambda>_.
     if \<not> 0 < ac_Balance account then
       Inr (st\<lparr>ea_accounts := kv_del (ea_accounts st) (AccountStoreKey (ac_Address account))\<rparr>)
     else Inr (st\<lparr>ea_accounts := kv_set (ea_accounts st) (AccountStoreKey (ac_Address account)) account\<rparr>))"

definition minor_balance :: "'b evm_bank_state \<Rightarrow> address \<Rightarrow> int" where
  \<comment> \<open>\<open>Keeper.GetBalance\<close>\<close>
  "minor_balance st addr = (case GetAccount st addr of None \<Rightarrow> 0 | Some a \<Rightarrow> ac_Balance a)"

definition SetBalance :: "'b evm_bank_state \<Rightarrow> address \<Rightarrow> int \<Rightarrow> 'b evm_bank_state result" where
  "SetBalance st addr bal =
     (let account = (case GetAccount st addr of
          None \<Rightarrow> \<lparr>ac_Address = addr, ac_Balance = bal\<rparr> | Some a \<Rightarrow> a\<lparr>ac_Balance := bal\<rparr>) in
      bnd (Account_Validate account) (\<lambda>_. SetAccount st account))"

definition SendBalance :: "sdk_math \<Rightarrow> 'b evm_bank_state \<Rightarrow> address \<Rightarrow> address \<Rightarrow> int \<Rightarrow> 'b evm_bank_state result" where
  "SendBalance m st sender recipient amt =
     (if amt < 0 then Inl (Err ''cannot send a negative amount of akava'')
      else if amt = 0 then Inr st
      else
        let senderBal = minor_balance st sender in
        if senderBal < amt then Inl (Err ''ErrInsufficientFunds'')
        else
          bnd (toInt m (senderBal - amt)) (\<lambda>left.
          bnd (SetBalance st sender left) (\<lambda>st1.
          bnd (toInt m (minor_balance st1 recipient + amt)) (\<lambda>receiverBal.
          SetBalance st1 recipient receiverBal))))"

definition AddBalance :: "sdk_math \<Rightarrow> 'b evm_bank_state \<Rightarrow> address \<Rightarrow> int \<Rightarrow> 'b evm_bank_state result" where
  "AddBalance m st addr amt =
     bnd (toInt m (amt + minor_balance st addr)) (\<lambda>bal. SetBalance st addr bal)"

definition RemoveBalance :: "sdk_math \<Rightarrow> 'b evm_bank_state \<Rightarrow> address \<Rightarrow> int \<Rightarrow> 'b evm_bank_state result" where
  "RemoveBalance m st addr amt =
     (if amt < 0 then Inl (Err ''cannot remove a negative amount from balance'')
      else if amt = 0 then Inr st
      else
        bnd (toInt m (minor_balance st addr - amt)) (\<lambda>finalBal.
        if finalBal < 0 then Inl (Err ''ErrInsufficientFunds'')
        else SetBalance st addr finalBal))"

section \<open>Splitting amounts\<close>

definition ValidateEvmCoins :: "sdk_math \<Rightarrow> coins \<Rightarrow> unit result" where
  "ValidateEvmCoins m cs =
     (if length cs = 0 then Inr ()
      else if \<not> coins_Valid m cs then Inl (Err ''ErrInvalidCoins'')
      else if length cs \<noteq> 1 \<or> Denom (cs ! 0) \<noteq> EvmDenom then Inl (Err ''ErrInvalidCoins'')
      else Inr ())"

definition SplitAkavaCoins :: "sdk_math \<Rightarrow> coins \<Rightarrow> (coin \<times> int) result" where
  "SplitAkavaCoins m cs =
     bnd (NewCoin m CosmosDenom 0) (\<lambda>zero.
     if length cs = 0 then Inr (zero, 0)
     else
       bnd (ValidateEvmCoins m cs) (\<lambda>_.
       let amount = Amount (cs ! 0);
           remaining = amount mod ConversionMultiplier;
           ukavaAmount = Quo amount ConversionMultiplier in
       bnd (if 0 < ukavaAmount then NewCoin m CosmosDenom ukavaAmount else Inr zero) (\<lambda>ukava.
       Inr (ukava, if 0 < remaining then remaining else 0))))"

section \<open>The bank of the EVM\<close>

definition GetModuleAddress :: "'b sdk \<Rightarrow> 'b evm_bank_state \<Rightarrow> string \<Rightarrow> address result" where
  "GetModuleAddress S st n =
     (if HasModuleAccount S (ea_bank st) n then Inr (ModuleAddress S n) else Inl (Panic ''module account does not exist''))"

definition EvmBank_GetBalance :: "'b sdk \<Rightarrow> 'b evm_bank_state \<Rightarrow> address \<Rightarrow> denom \<Rightarrow> coin result" where
  "EvmBank_GetBalance S st addr d =
     (if d \<noteq> EvmDenom then Inl (Panic ''only evm denom is supported by EvmBankKeeper'')
      else
        bnd (toInt (Math S) (AmountOf (SpendableCoins S (ea_bank st) addr) CosmosDenom * ConversionMultiplier)) (\<lambda>x.
        bnd (toInt (Math S) (x + minor_balance st addr)) (\<lambda>total.
        NewCoin (Math S) EvmDenom total)))"

definition EvmBank_SendCoins :: "'b evm_bank_state \<Rightarrow> address \<Rightarrow> address \<Rightarrow> coins \<Rightarrow> 'b evm_bank_state result" where
  "EvmBank_SendCoins st sender recipient amt = Inl (Panic ''not implemented'')"

definition EvmBank_IsSendEnabledCoins :: "'b evm_bank_state \<Rightarrow> coins \<Rightarrow> unit result" where
  "EvmBank_IsSendEnabledCoins st cs = Inl (Panic ''not implemented'')"

definition ConvertOneUkavaToAkavaIfNeeded :: "'b sdk \<Rightarrow> 'b evm_bank_state \<Rightarrow> address \<Rightarrow> int \<Rightarrow> 'b evm_bank_state result" where
  "ConvertOneUkavaToAkavaIfNeeded S st addr akavaNeeded =
     (if minor_balance st addr \<ge> akavaNeeded then Inr st
      else
        bnd (NewCoin (Math S) CosmosDenom 1) (\<lambda>one.
        bnd (NewCoins S [one]) (\<lambda>ukavaToStore.
        bnd (SendCoinsFromAccountToModule S (ea_bank st) addr evmutil_module ukavaToStore) (\<lambda>b.
        AddBalance (Math S) (st\<lparr>ea_bank := b\<rparr>) addr ConversionMultiplier))))"

definition ConvertAkavaToUkava :: "'b sdk \<Rightarrow> 'b evm_bank_state \<Rightarrow> address \<Rightarrow> 'b evm_bank_state result" where
  "ConvertAkavaToUkava S st addr =
     (let totalAkava = minor_balance st addr in
      bnd (NewCoin (Math S) EvmDenom totalAkava) (\<lambda>c.
      bnd (NewCoins S [c]) (\<lambda>cs.
      bnd (SplitAkavaCoins (Math S) cs) (\<lambda>(ukava, _).
      if \<not> 0 < Amount ukava then Inr st
      else
        bnd (toInt (Math S) (Amount ukava * ConversionMultiplier)) (\<lambda>akavaToBurn.
        bnd (toInt (Math S) (totalAkava - akavaToBurn)) (\<lambda>finalBal.
        bnd (SetBalance st addr finalBal) (\<lambda>st1.
        bnd (GetModuleAddress S st1 evmutil_module) (\<lambda>fromAddr.
        bnd (NewCoins S [ukava]) (\<lambda>us.
        bnd (SendCoins S (ea_bank st1) fromAddr addr us) (\<lambda>b.
        Inr (st1\<lparr>ea_bank := b\<rparr>)))))))))))"

definition EvmBank_SendCoinsFromModuleToAccount :: "'b sdk \<Rightarrow> 'b evm_bank_state \<Rightarrow> string \<Rightarrow> address \<Rightarrow> coins \<Rightarrow> 'b evm_bank_state result" where
  "EvmBank_SendCoinsFromModuleToAccount S st senderModule recipient amt =
     bnd (SplitAkavaCoins (Math S) amt) (\<lambda>(ukava, akava).
     bnd (if 0 < Amount ukava then
            bnd (NewCoins S [ukava]) (\<lambda>cs.
            bnd (SendCoinsFromModuleToAccount S (ea_bank st) senderModule recipient cs) (\<lambda>b. Inr (st\<lparr>ea_bank := b\<rparr>)))
          else Inr st) (\<lambda>st1.
     bnd (GetModuleAddress S st1 senderModule) (\<lambda>senderAddr.
     bnd (ConvertOneUkavaToAkavaIfNeeded S st1 senderAddr akava) (\<lambda>st2.
     bnd (SendBalance (Math S) st2 senderAddr recipient akava) (\<lambda>st3.
     ConvertAkavaToUkava S st3 recipient)))))"

definition EvmBank_SendCoinsFromAccountToModule :: "'b sdk \<Rightarrow> 'b evm_bank_state \<Rightarrow> address \<Rightarrow> string \<Rightarrow> coins \<Rightarrow> 'b evm_bank_state result" where
  "EvmBank_SendCoinsFromAccountToModule S st sender recipientModule amt =
     bnd (SplitAkavaCoins (Math S) amt) (\<lambda>(ukava, akavaNeeded).
     bnd (if 0 < Amount ukava then
            bnd (NewCoins S [ukava]) (\<lambda>cs.
            bnd (SendCoinsFromAccountToModule S (ea_bank st) sender recipientModule cs) (\<lambda>b. Inr (st\<lparr>ea_bank := b\<rparr>)))
          else Inr st) (\<lambda>st1.
     bnd (ConvertOneUkavaToAkavaIfNeeded S st1 sender akavaNeeded) (\<lambda>st2.
     bnd (GetModuleAddress S st2 recipientModule) (\<lambda>recipientAddr.
     bnd (SendBalance (Math S) st2 sender recipientAddr akavaNeeded) (\<lambda>st3.
     ConvertAkavaToUkava S st3 recipientAddr)))))"

definition EvmBank_MintCoins :: "'b sdk \<Rightarrow> 'b evm_bank_state \<Rightarrow> string \<Rightarrow> coins \<Rightarrow> 'b evm_bank_state result" where
  "EvmBank_MintCoins S st moduleName amt =
     bnd (SplitAkavaCoins (Math S) amt) (\<lambda>(ukava, akava).
     bnd (if 0 < Amount ukava then
            bnd (NewCoins S [ukava]) (\<lambda>cs.
            bnd (MintCoins S (ea_bank st) moduleName cs) (\<lambda>b. Inr (st\<lparr>ea_bank := b\<rparr>)))
          else Inr st) (\<lambda>st1.
     bnd (GetModuleAddress S st1 moduleName) (\<lambda>recipientAddr.
     bnd (AddBalance (Math S) st1 recipientAddr akava) (\<lambda>st2.
     ConvertAkavaToUkava S st2 recipientAddr))))"

definition EvmBank_BurnCoins :: "'b sdk \<Rightarrow> 'b evm_bank_state \<Rightarrow> string \<Rightarrow> coins \<Rightarrow> 'b evm_bank_state result" where
  "EvmBank_BurnCoins S st moduleName amt =
     bnd (SplitAkavaCoins (Math S) amt) (\<lambda>(ukava, akava).
     bnd (if 0 < Amount ukava then
            bnd (NewCoins S [ukava]) (\<lambda>cs.
            bnd (BurnCoins S (ea_bank st) moduleName cs) (\<lambda>b. Inr (st\<lparr>ea_bank := b\<rparr>)))
          else Inr st) (\<lambda>st1.
     bnd (GetModuleAddress S st1 moduleName) (\<lambda>moduleAddr.
     bnd (ConvertOneUkavaToAkavaIfNeeded S st1 moduleAddr akava) (\<lambda>st2.
     RemoveBalance (Math S) st2 moduleAddr akava))))"

section \<open>Invariants\<close>

definition FullyBackedInvariant :: "'b sdk \<Rightarrow> 'b evm_bank_state \<Rightarrow> bool result" where
  \<comment> \<open>true: broken\<close>
  "FullyBackedInvariant S st =
     bnd (foldR (\<lambda>acc total. toInt (Math S) (total + ac_Balance acc)) (GetAllAccounts st) 0) (\<lambda>totalMinorBalances.
     bnd (toInt (Math S) (GetBalance S (ea_bank st) (ModuleAddress S evmutil_module) CosmosDenom * ConversionMultiplier)) (\<lambda>bankBalance.
     Inr (totalMinorBalances > bankBalance)))"

definition SmallBalancesInvariant :: "bool \<Rightarrow> 'b evm_bank_state \<Rightarrow> bool" where
  \<comment> \<open>the flag lives outside the closure: a run that found a violation decides all later runs\<close>
  "SmallBalancesInvariant broken st = (broken \<or> list_ex (\<lambda>a. ac_Balance a \<ge> ConversionMultiplier) (GetAllAccounts st))"

section \<open>Genesis\<close>

fun check_accounts :: "address list \<Rightarrow> Account list \<Rightarrow> unit result" where
  "check_accounts seen [] = Inr ()"
| "check_accounts seen (a # as) =
     (if ac_Address a \<in> set seen then Inl (Err ''duplicate account for address'')
      else bnd (Account_Validate a) (\<lambda>_. check_accounts (ac_Address a # seen) as))"

definition load_account :: "Account \<Rightarrow> 'b evm_bank_state \<Rightarrow> 'b evm_bank_state" where
  \<comment> \<open>the error of \<open>SetAccount\<close> is dropped\<close>
  "load_account a st = (case SetAccount st a of Inr st' \<Rightarrow> st' | Inl _ \<Rightarrow> st)"

definition evm_accounts_InitGenesis :: "'b sdk \<Rightarrow> 'b evm_bank_state \<Rightarrow> Account list \<Rightarrow> 'b evm_bank_state result" where
  "evm_accounts_InitGenesis S st accounts =
     bnd (panic_on_err (check_accounts [] accounts)) (\<lambda>_.
     if \<not> HasModuleAccount S (ea_bank st) evmutil_module then Inl (Panic ''module account has not been set'')
     else Inr (fold load_account accounts st))"

end
