(* ===== verification/Evmutil_Safety.thy ===== *)
theory Evmutil_Safety
  imports Evmutil_Bank
begin

text \<open>
  The two-part balances behave like one ledger of 18 decimals: the abstraction adds up both parts of
  every account, and each operation of the EVM's bank is the corresponding booking on it. Minor
  balances stay below one major unit, and what backs them changes only by minted and burned remainders.
\<close>

section \<open>The store of minor balances\<close>

definition accounts_ok :: "'b evm_bank_state \<Rightarrow> bool" where
  "accounts_ok st \<longleftrightarrow> kv_ok (ea_accounts st) \<and>
     (\<forall>k a. kv_get (ea_accounts st) k = Some a \<longrightarrow> AccountStoreKey (ac_Address a) = k \<and> ac_Address a \<noteq> [] \<and> 0 < ac_Balance a)"

definition minor_total :: "'b evm_bank_state \<Rightarrow> int" where
  "minor_total st = (\<Sum>(k, a)\<leftarrow>ea_accounts st. ac_Balance a)"

lemma AccountStoreKey_eq [simp]: "AccountStoreKey x = AccountStoreKey y \<longleftrightarrow> x = y"
  by (auto simp: AccountStoreKey_def)

lemma accounts_ok_bank [simp]:
  "accounts_ok (st\<lparr>ea_bank := b\<rparr>) = accounts_ok st" "minor_total (st\<lparr>ea_bank := b\<rparr>) = minor_total st"
  "minor_balance (st\<lparr>ea_bank := b\<rparr>) = minor_balance st"
  by (simp_all add: accounts_ok_def minor_total_def minor_balance_def GetAccount_def fun_eq_iff)

lemma accounts_okD:
  assumes "accounts_ok st" "GetAccount st x = Some a"
  shows "ac_Address a = x" "0 < ac_Balance a"
proof -
  have "AccountStoreKey (ac_Address a) = AccountStoreKey x \<and> 0 < ac_Balance a"
    using assms unfolding accounts_ok_def GetAccount_def by blast
  then show "ac_Address a = x" "0 < ac_Balance a" by simp_all
qed

lemma minor_nonneg: "accounts_ok st \<Longrightarrow> 0 \<le> minor_balance st x"
  using accounts_okD(2) [of st x] by (auto simp: minor_balance_def less_imp_le split: option.splits)

lemma SetBalance_ok:
  assumes ok: "accounts_ok st" and set: "SetBalance st x v = Inr st'"
  shows "accounts_ok st'" "minor_balance st' = (minor_balance st)(x := v)" "ea_bank st' = ea_bank st"
    "minor_total st' = minor_total st - minor_balance st x + v" "0 \<le> v"
proof -
  define a where "a = (case GetAccount st x of None \<Rightarrow> \<lparr>ac_Address = x, ac_Balance = v\<rparr> | Some a \<Rightarrow> a\<lparr>ac_Balance := v\<rparr>)"
  have a: "ac_Address a = x" "ac_Balance a = v"
    using accounts_okD(1) [OF ok, of x] by (auto simp: a_def split: option.splits)
  have v: "x \<noteq> []" "0 \<le> v" using set a by (auto simp: SetBalance_def Let_def a_def [symmetric] Account_Validate_def split: if_splits)
  then show "0 \<le> v" by simp
  have st': "st' = st\<lparr>ea_accounts := kv_upd (ea_accounts st) (AccountStoreKey x) (if v = 0 then None else Some a)\<rparr>"
    using set v a by (auto simp: SetBalance_def Let_def a_def [symmetric] SetAccount_def Account_Validate_def kv_upd_def split: if_splits)
  have kv: "kv_ok (ea_accounts st)" using ok by (simp add: accounts_ok_def)
  show "accounts_ok st'" using ok a v by (auto simp: st' accounts_ok_def)
  show "minor_balance st' = (minor_balance st)(x := v)"
    using a by (auto simp: fun_eq_iff st' minor_balance_def GetAccount_def)
  show "ea_bank st' = ea_bank st" by (simp add: st')
  show "minor_total st' = minor_total st - minor_balance st x + v"
    using kv_total_upd [OF kv, of "\<lambda>_ a. ac_Balance a" "AccountStoreKey x" "if v = 0 then None else Some a"] a
    by (auto simp: st' minor_total_def minor_balance_def GetAccount_def split: option.splits)
qed

lemma AddBalance_ok:
  assumes "accounts_ok st" "AddBalance m st x a = Inr st'"
  shows "accounts_ok st'" "minor_balance st' = (minor_balance st)(x := minor_balance st x + a)" "ea_bank st' = ea_bank st"
    "minor_total st' = minor_total st + a"
  using assms SetBalance_ok [OF assms(1), of x "a + minor_balance st x" st'] by (auto simp: AddBalance_def add.commute)

lemma RemoveBalance_ok:
  assumes "accounts_ok st" "RemoveBalance m st x a = Inr st'"
  shows "accounts_ok st'" "minor_balance st' = (minor_balance st)(x := minor_balance st x - a)" "ea_bank st' = ea_bank st"
    "minor_total st' = minor_total st - a"
  using assms SetBalance_ok [OF assms(1), of x "minor_balance st x - a" st'] by (auto simp: RemoveBalance_def split: if_splits)

lemma SendBalance_ok:
  assumes ok: "accounts_ok st" and send: "SendBalance m st x y a = Inr st'"
  shows "accounts_ok st'" "ea_bank st' = ea_bank st" "minor_total st' = minor_total st" "0 \<le> a"
    "minor_balance st' z = minor_balance st z - (if z = x then a else 0) + (if z = y then a else 0)"
proof -
  have "accounts_ok st' \<and> ea_bank st' = ea_bank st \<and> minor_total st' = minor_total st \<and> 0 \<le> a \<and>
    minor_balance st' z = minor_balance st z - (if z = x then a else 0) + (if z = y then a else 0)"
  proof (cases "a = 0")
    case False
    then obtain st1 where s: "0 < a" "SetBalance st x (minor_balance st x - a) = Inr st1" "SetBalance st1 y (minor_balance st1 y + a) = Inr st'"
      using send by (auto simp: SendBalance_def Let_def split: if_splits)
    note p = SetBalance_ok [OF ok s(2)]
    note q = SetBalance_ok [OF p(1) s(3)]
    show ?thesis using s(1) p(2-4) q(1-4) by auto
  qed (use ok send in \<open>auto simp: SendBalance_def\<close>)
  then show "accounts_ok st'" "ea_bank st' = ea_bank st" "minor_total st' = minor_total st" "0 \<le> a"
    "minor_balance st' z = minor_balance st z - (if z = x then a else 0) + (if z = y then a else 0)" by blast+
qed

section \<open>Splitting\<close>

lemma Split_ok:
  assumes "SplitAkavaCoins m cs = Inr (u, a)"
  shows "Denom u = CosmosDenom" "0 \<le> a" "a < ConversionMultiplier" "0 \<le> Amount u"
    "Amount u * ConversionMultiplier + a = AmountOf cs EvmDenom" "cs = [] \<or> (\<exists>n. cs = [Coin EvmDenom n] \<and> 0 < n)"
proof -
  have "Denom u = CosmosDenom \<and> 0 \<le> a \<and> a < ConversionMultiplier \<and> 0 \<le> Amount u \<and>
    Amount u * ConversionMultiplier + a = AmountOf cs EvmDenom \<and> (cs = [] \<or> (\<exists>n. cs = [Coin EvmDenom n] \<and> 0 < n))"
  proof (cases "cs = []")
    case False
    then obtain c where c: "cs = [c]" "Denom c = EvmDenom" "0 < Amount c"
      using assms by (cases cs) (auto simp: SplitAkavaCoins_def ValidateEvmCoins_def coins_Valid_def split: if_splits)
    have nn: "0 \<le> Amount c mod ConversionMultiplier" "0 \<le> Amount c div ConversionMultiplier" using c(3) by simp_all
    have "u = Coin CosmosDenom (Amount c div ConversionMultiplier)" "a = Amount c mod ConversionMultiplier"
      using assms c nn by (auto simp: SplitAkavaCoins_def ValidateEvmCoins_def Let_def split: if_splits)
    moreover have "c = Coin EvmDenom (Amount c)" using c(2) by (cases c) simp
    ultimately show ?thesis using c nn by (auto intro: exI [of _ "Amount c"])
  qed (use assms in \<open>auto simp: SplitAkavaCoins_def\<close>)
  then show "Denom u = CosmosDenom" "0 \<le> a" "a < ConversionMultiplier" "0 \<le> Amount u"
    "Amount u * ConversionMultiplier + a = AmountOf cs EvmDenom" "cs = [] \<or> (\<exists>n. cs = [Coin EvmDenom n] \<and> 0 < n)" by blast+
qed

text \<open>
  An amount of the EVM's coin splits into whole major units and a remainder below one unit that
  add up to it; it is rejected exactly when it is neither empty nor one positive coin of that kind.
\<close>

theorem SplitAkavaCoins_exact:
  assumes "ValidDenom m CosmosDenom" "ValidDenom m EvmDenom"
  shows "(cs = [] \<or> (\<exists>n. cs = [Coin EvmDenom n] \<and> 0 < n) \<longleftrightarrow> (\<exists>r. SplitAkavaCoins m cs = Inr r)) \<and>
    (\<forall>u a. SplitAkavaCoins m cs = Inr (u, a) \<longrightarrow>
       Denom u = CosmosDenom \<and> 0 \<le> a \<and> a < ConversionMultiplier \<and> Amount u * ConversionMultiplier + a = AmountOf cs EvmDenom)"
proof -
  have "SplitAkavaCoins m [Coin EvmDenom n] \<noteq> Inl e" if "0 < n" for n e
    using that assms by (simp add: SplitAkavaCoins_def ValidateEvmCoins_def coins_Valid_def NewCoin_def Let_def)
  moreover have "SplitAkavaCoins m [] \<noteq> Inl e" for e using assms by (simp add: SplitAkavaCoins_def NewCoin_def)
  ultimately have "\<exists>r. SplitAkavaCoins m cs = Inr r" if "cs = [] \<or> (\<exists>n. cs = [Coin EvmDenom n] \<and> 0 < n)"
    using that by (metis old.sum.exhaust)
  then show ?thesis using Split_ok [of m cs] by fastforce
qed

section \<open>One ledger of 18 decimals\<close>

abbreviation evmutil_addr :: "'b sdk \<Rightarrow> address" where
  "evmutil_addr S \<equiv> ModuleAddress S evmutil_module"

definition akava_of :: "'b sdk \<Rightarrow> 'b evm_bank_state \<Rightarrow> address \<Rightarrow> int" where
  "akava_of S st x = GetBalance S (ea_bank st) x CosmosDenom * ConversionMultiplier + minor_balance st x"

definition slack :: "'b sdk \<Rightarrow> 'b evm_bank_state \<Rightarrow> int" where
  \<comment> \<open>what the module account holds above the sum of the minor balances\<close>
  "slack S st = GetBalance S (ea_bank st) (evmutil_addr S) CosmosDenom * ConversionMultiplier - minor_total st"

text \<open>How an operation changes the ledger, the slack and all other coins.\<close>

definition evm_delta :: "'b sdk \<Rightarrow> 'b evm_bank_state \<Rightarrow> 'b evm_bank_state \<Rightarrow> (address \<Rightarrow> int) \<Rightarrow> int \<Rightarrow> bool" where
  "evm_delta S st st' f s \<longleftrightarrow> accounts_ok st' \<and>
     (\<forall>z. z \<noteq> evmutil_addr S \<longrightarrow> akava_of S st' z = akava_of S st z + f z) \<and> slack S st' = slack S st + s \<and>
     (\<forall>z d. d \<noteq> CosmosDenom \<longrightarrow> GetBalance S (ea_bank st') z d = GetBalance S (ea_bank st) z d)"

lemma evm_delta_ok: "evm_delta S st st' f s \<Longrightarrow> accounts_ok st'"
  by (simp add: evm_delta_def)

lemma evm_delta_refl: "accounts_ok st \<Longrightarrow> evm_delta S st st (\<lambda>_. 0) 0"
  by (simp add: evm_delta_def)

lemma evm_delta_trans:
  "evm_delta S st1 st2 f s \<Longrightarrow> evm_delta S st2 st3 g t \<Longrightarrow> evm_delta S st1 st3 (\<lambda>z. f z + g z) (s + t)"
  by (simp add: evm_delta_def)

lemma evm_delta_cong: "evm_delta S st st' f s \<Longrightarrow> (\<And>z. z \<noteq> evmutil_addr S \<Longrightarrow> f z = g z) \<Longrightarrow> s = t \<Longrightarrow> evm_delta S st st' g t"
  by (simp add: evm_delta_def)

text \<open>Moving, minting and burning major units in the bank.\<close>

lemma ukava_amount:
  assumes "sdk_laws S" "NewCoins S [u] = Inr cs" "Denom u = CosmosDenom"
  shows "AmountOf cs d = (if d = CosmosDenom then Amount u else 0)"
  using NewCoins_one(1) [OF assms(1,2), of d] assms(3) by (simp add: coin_amt_def)

lemma bank_move:
  assumes ok: "accounts_ok st" and cs: "\<And>d. AmountOf cs d = (if d = CosmosDenom then u else 0)"
    and m: "moved S (ea_bank st) b x y cs" and ne: "x \<noteq> evmutil_addr S" "y \<noteq> evmutil_addr S"
  shows "evm_delta S st (st\<lparr>ea_bank := b\<rparr>) (\<lambda>z. (if z = y then u * ConversionMultiplier else 0) - (if z = x then u * ConversionMultiplier else 0)) 0"
  using ok ne by (auto simp: evm_delta_def akava_of_def slack_def moved_balance [OF m] cs left_diff_distrib distrib_right)

lemma ConvertOne_ok:
  assumes laws: "sdk_laws S" and ok: "accounts_ok st" and ne: "x \<noteq> evmutil_addr S"
    and c: "ConvertOneUkavaToAkavaIfNeeded S st x a = Inr st'"
  shows "evm_delta S st st' (\<lambda>_. 0) 0" "z \<noteq> x \<Longrightarrow> minor_balance st' z = minor_balance st z" "a \<le> ConversionMultiplier \<Longrightarrow> a \<le> minor_balance st' x"
    "minor_balance st' x = (if a \<le> minor_balance st x then minor_balance st x else minor_balance st x + ConversionMultiplier)"
proof -
  have "evm_delta S st st' (\<lambda>_. 0) 0 \<and> minor_balance st' =
      (minor_balance st)(x := if a \<le> minor_balance st x then minor_balance st x else minor_balance st x + ConversionMultiplier)"
  proof (cases "a \<le> minor_balance st x")
    case False
    then obtain cs b where s: "NewCoins S [Coin CosmosDenom 1] = Inr cs" "SendCoinsFromAccountToModule S (ea_bank st) x evmutil_module cs = Inr b"
        "AddBalance (Math S) (st\<lparr>ea_bank := b\<rparr>) x ConversionMultiplier = Inr st'"
      using c by (auto simp: ConvertOneUkavaToAkavaIfNeeded_def)
    have amt: "AmountOf cs d = (if d = CosmosDenom then 1 else 0)" for d using ukava_amount [OF laws s(1)] by simp
    note m = moved_balance [OF sends(2) [OF laws s(2)]]
    note q = AddBalance_ok [OF _ s(3)]
    have ok': "accounts_ok (st\<lparr>ea_bank := b\<rparr>)" using ok by simp
    have bank: "ea_bank st' = b" using q(3) [OF ok'] by simp
    have "evm_delta S st st' (\<lambda>_. 0) 0"
      using ne by (auto simp: evm_delta_def akava_of_def slack_def q(1,2,4) [OF ok'] bank m amt left_diff_distrib distrib_right)
    then show ?thesis using q(2) [OF ok'] False by simp
  qed (use ok c in \<open>auto simp: ConvertOneUkavaToAkavaIfNeeded_def evm_delta_refl\<close>)
  then show "evm_delta S st st' (\<lambda>_. 0) 0" "z \<noteq> x \<Longrightarrow> minor_balance st' z = minor_balance st z" "a \<le> ConversionMultiplier \<Longrightarrow> a \<le> minor_balance st' x"
    "minor_balance st' x = (if a \<le> minor_balance st x then minor_balance st x else minor_balance st x + ConversionMultiplier)"
    using minor_nonneg [OF ok, of x] by auto
qed

lemma ConvertAkava_ok:
  assumes laws: "sdk_laws S" and ok: "accounts_ok st" and ne: "x \<noteq> evmutil_addr S"
    and c: "ConvertAkavaToUkava S st x = Inr st'"
  shows "evm_delta S st st' (\<lambda>_. 0) 0" "z \<noteq> x \<Longrightarrow> minor_balance st' z = minor_balance st z"
    "minor_balance st' x = minor_balance st x mod ConversionMultiplier"
proof -
  let ?t = "minor_balance st x"
  have nn: "0 \<le> ?t" by (rule minor_nonneg [OF ok])
  obtain cs u a where s: "NewCoins S [Coin EvmDenom ?t] = Inr cs" "SplitAkavaCoins (Math S) cs = Inr (u, a)"
    using c by (auto simp: ConvertAkavaToUkava_def Let_def split_paired_all)
  have amt: "AmountOf cs EvmDenom = ?t" using NewCoins_one(1) [OF laws s(1), of EvmDenom] by (simp add: coin_amt_def)
  note sp = Split_ok [OF s(2)]
  have t: "?t = a + Amount u * ConversionMultiplier" using sp(5) amt by simp
  have u: "?t mod ConversionMultiplier = a" "?t - Amount u * ConversionMultiplier = a" unfolding t using sp(2,3) by simp_all
  have "evm_delta S st st' (\<lambda>_. 0) 0 \<and> minor_balance st' = (minor_balance st)(x := ?t mod ConversionMultiplier)"
  proof (cases "0 < Amount u")
    case True
    then obtain st1 us b where r: "SetBalance st x (?t - Amount u * ConversionMultiplier) = Inr st1"
        "NewCoins S [u] = Inr us" "SendCoins S (ea_bank st1) (evmutil_addr S) x us = Inr b" "st' = st1\<lparr>ea_bank := b\<rparr>"
      using c s by (auto simp: ConvertAkavaToUkava_def GetModuleAddress_def Let_def split: if_splits)
    note q = SetBalance_ok [OF ok r(1)]
    note m = moved_balance [OF sends(1) [OF laws r(3)]]
    note am = ukava_amount [OF laws r(2) sp(1)]
    have "evm_delta S st st' (\<lambda>_. 0) 0"
      using ne by (auto simp: evm_delta_def akava_of_def slack_def r(4) q(1-4) m am left_diff_distrib distrib_right)
    then show ?thesis using q(2) by (simp add: r(4) u)
  next
    case False
    then have "st' = st" using c s by (simp add: ConvertAkavaToUkava_def Let_def)
    moreover have "?t mod ConversionMultiplier = ?t" using u t False sp(4) by simp
    ultimately show ?thesis using evm_delta_refl [OF ok] by simp
  qed
  then show "evm_delta S st st' (\<lambda>_. 0) 0" "z \<noteq> x \<Longrightarrow> minor_balance st' z = minor_balance st z"
    "minor_balance st' x = minor_balance st x mod ConversionMultiplier" by auto
qed

section \<open>The operations as bookings\<close>

definition small :: "'b evm_bank_state \<Rightarrow> bool" where
  "small st \<longleftrightarrow> (\<forall>z. minor_balance st z < ConversionMultiplier)"

definition book :: "address \<Rightarrow> int \<Rightarrow> address \<Rightarrow> int" where
  "book x a z = (if z = x then a else 0)"

lemma small_leave:
  \<comment> \<open>after at most one unit was converted and \<open>a\<close> was taken off\<close>
  assumes "accounts_ok st" "small st" "0 \<le> a" "a < ConversionMultiplier"
    "r = (if a \<le> minor_balance st x then minor_balance st x else minor_balance st x + ConversionMultiplier)"
  shows "r - a < ConversionMultiplier"
proof -
  have "minor_balance st x < ConversionMultiplier" using assms(2) by (simp add: small_def)
  then show ?thesis using assms(3-5) by simp
qed

lemma minor_move:
  assumes laws: "sdk_laws S" and ok: "accounts_ok st" and ne: "x \<noteq> evmutil_addr S" "y \<noteq> evmutil_addr S"
    and a: "0 \<le> a" "a < ConversionMultiplier"
    and r: "ConvertOneUkavaToAkavaIfNeeded S st x a = Inr st1" "SendBalance (Math S) st1 x y a = Inr st2"
      "ConvertAkavaToUkava S st2 y = Inr st'"
  shows "evm_delta S st st' (\<lambda>z. book y a z - book x a z) 0" "small st \<Longrightarrow> small st'"
proof -
  note p = ConvertOne_ok [OF laws ok ne(1) r(1)]
  note ok1 = evm_delta_ok [OF p(1)]
  note q = SendBalance_ok [OF ok1 r(2)]
  have d2: "evm_delta S st1 st2 (\<lambda>z. book y a z - book x a z) 0"
    using q(1-3) by (auto simp: evm_delta_def akava_of_def slack_def book_def q(5))
  note s = ConvertAkava_ok [OF laws q(1) ne(2) r(3)]
  show "evm_delta S st st' (\<lambda>z. book y a z - book x a z) 0"
    using evm_delta_trans [OF p(1) evm_delta_trans [OF d2 s(1)]] by simp
  show "small st'" if sm: "small st"
    unfolding small_def
  proof
    fix z
    have lt: "minor_balance st z < ConversionMultiplier" using sm by (simp add: small_def)
    show "minor_balance st' z < ConversionMultiplier"
    proof (cases "z = y")
      case True then show ?thesis using s(3) by simp
    next
      case False
      then show ?thesis
        using s(2) [OF False] q(5) [of z] p(2) [of z] lt small_leave [OF ok sm a p(4)] by (cases "z = x") auto
    qed
  qed
qed

text \<open>The part in major units, shared by the four operations.\<close>

definition major_part :: "'b sdk \<Rightarrow> ('b \<Rightarrow> coins \<Rightarrow> 'b result) \<Rightarrow> 'b evm_bank_state \<Rightarrow> coin \<Rightarrow> 'b evm_bank_state result" where
  "major_part S f st u = (if 0 < Amount u then bnd (NewCoins S [u]) (\<lambda>cs. bnd (f (ea_bank st) cs) (\<lambda>b. Inr (st\<lparr>ea_bank := b\<rparr>))) else Inr st)"

lemma major_part_ok:
  assumes laws: "sdk_laws S" and ok: "accounts_ok st" and u: "Denom u = CosmosDenom" "0 \<le> Amount u"
    and r: "major_part S f st u = Inr st1" and g: "\<And>z. z \<noteq> evmutil_addr S \<Longrightarrow> g z 0 = 0"
    and f: "\<And>cs b. f (ea_bank st) cs = Inr b \<Longrightarrow> (\<And>d. AmountOf cs d = (if d = CosmosDenom then Amount u else 0)) \<Longrightarrow>
      evm_delta S st (st\<lparr>ea_bank := b\<rparr>) (\<lambda>z. g z (Amount u * ConversionMultiplier)) 0"
  shows "evm_delta S st st1 (\<lambda>z. g z (Amount u * ConversionMultiplier)) 0" "minor_balance st1 = minor_balance st"
proof -
  have "evm_delta S st st1 (\<lambda>z. g z (Amount u * ConversionMultiplier)) 0 \<and> minor_balance st1 = minor_balance st"
  proof (cases "0 < Amount u")
    case True
    then obtain cs b where s: "NewCoins S [u] = Inr cs" "f (ea_bank st) cs = Inr b" "st1 = st\<lparr>ea_bank := b\<rparr>"
      using r by (auto simp: major_part_def)
    show ?thesis using f [OF s(2) ukava_amount [OF laws s(1) u(1)]] by (simp add: s(3))
  next
    case False
    then have "Amount u = 0" "st1 = st" using r u(2) by (auto simp: major_part_def)
    then show ?thesis using evm_delta_cong [OF evm_delta_refl [OF ok]] g by simp
  qed
  then show "evm_delta S st st1 (\<lambda>z. g z (Amount u * ConversionMultiplier)) 0" "minor_balance st1 = minor_balance st" by simp_all
qed

lemma move_ok:
  assumes laws: "sdk_laws S" and ok: "accounts_ok st" and ne: "x \<noteq> evmutil_addr S" "y \<noteq> evmutil_addr S"
    and sp: "SplitAkavaCoins (Math S) amt = Inr (u, a)"
    and f: "\<And>cs b. f (ea_bank st) cs = Inr b \<Longrightarrow> moved S (ea_bank st) b x y cs"
    and r: "major_part S f st u = Inr st1" "ConvertOneUkavaToAkavaIfNeeded S st1 x a = Inr st2" "SendBalance (Math S) st2 x y a = Inr st3"
      "ConvertAkavaToUkava S st3 y = Inr st'"
  shows "evm_delta S st st' (\<lambda>z. book y (AmountOf amt EvmDenom) z - book x (AmountOf amt EvmDenom) z) 0" "small st \<Longrightarrow> small st'"
proof -
  note s = Split_ok [OF sp]
  let ?g = "\<lambda>z v. book y v z - book x v z"
  have b: "evm_delta S st (st\<lparr>ea_bank := b\<rparr>) (\<lambda>z. ?g z (Amount u * ConversionMultiplier)) 0"
    if "f (ea_bank st) cs = Inr b" "\<And>d. AmountOf cs d = (if d = CosmosDenom then Amount u else 0)" for cs b
    using bank_move [OF ok that(2) f [OF that(1)] ne] by (simp add: book_def)
  have p: "evm_delta S st st1 (\<lambda>z. ?g z (Amount u * ConversionMultiplier)) 0" "minor_balance st1 = minor_balance st"
    by (rule major_part_ok [OF laws ok s(1,4) r(1), where g = ?g]; use b in \<open>simp add: book_def\<close>)+
  note q = minor_move [OF laws evm_delta_ok [OF p(1)] ne s(2,3) r(2-4)]
  show "evm_delta S st st' (\<lambda>z. book y (AmountOf amt EvmDenom) z - book x (AmountOf amt EvmDenom) z) 0"
    by (rule evm_delta_cong [OF evm_delta_trans [OF p(1) q(1)]]) (auto simp: book_def s(5) [symmetric])
  show "small st \<Longrightarrow> small st'" using q(2) p(2) by (simp add: small_def)
qed

lemma EvmBank_SendCoinsFromModuleToAccount_ok:
  assumes laws: "sdk_laws S" and ok: "accounts_ok st" and ne: "ModuleAddress S n \<noteq> evmutil_addr S" "y \<noteq> evmutil_addr S"
    and r: "EvmBank_SendCoinsFromModuleToAccount S st n y amt = Inr st'"
  shows "evm_delta S st st' (\<lambda>z. book y (AmountOf amt EvmDenom) z - book (ModuleAddress S n) (AmountOf amt EvmDenom) z) 0"
    "small st \<Longrightarrow> small st'"
proof -
  obtain u a st1 st2 st3 where s: "SplitAkavaCoins (Math S) amt = Inr (u, a)"
      "major_part S (\<lambda>b. SendCoinsFromModuleToAccount S b n y) st u = Inr st1" "ConvertOneUkavaToAkavaIfNeeded S st1 (ModuleAddress S n) a = Inr st2"
      "SendBalance (Math S) st2 (ModuleAddress S n) y a = Inr st3" "ConvertAkavaToUkava S st3 y = Inr st'"
    using r by (auto simp: EvmBank_SendCoinsFromModuleToAccount_def GetModuleAddress_def major_part_def [of S "\<lambda>b. SendCoinsFromModuleToAccount S b n y", symmetric] split_paired_all split: if_splits)
  show "evm_delta S st st' (\<lambda>z. book y (AmountOf amt EvmDenom) z - book (ModuleAddress S n) (AmountOf amt EvmDenom) z) 0"
    "small st \<Longrightarrow> small st'"
    using move_ok [OF laws ok ne s(1) sends(3) [OF laws] s(2-5)] by blast+
qed

lemma EvmBank_SendCoinsFromAccountToModule_ok:
  assumes laws: "sdk_laws S" and ok: "accounts_ok st" and ne: "x \<noteq> evmutil_addr S" "ModuleAddress S n \<noteq> evmutil_addr S"
    and r: "EvmBank_SendCoinsFromAccountToModule S st x n amt = Inr st'"
  shows "evm_delta S st st' (\<lambda>z. book (ModuleAddress S n) (AmountOf amt EvmDenom) z - book x (AmountOf amt EvmDenom) z) 0"
    "small st \<Longrightarrow> small st'"
proof -
  obtain u a st1 st2 st3 where s: "SplitAkavaCoins (Math S) amt = Inr (u, a)"
      "major_part S (\<lambda>b. SendCoinsFromAccountToModule S b x n) st u = Inr st1" "ConvertOneUkavaToAkavaIfNeeded S st1 x a = Inr st2"
      "SendBalance (Math S) st2 x (ModuleAddress S n) a = Inr st3" "ConvertAkavaToUkava S st3 (ModuleAddress S n) = Inr st'"
    using r by (auto simp: EvmBank_SendCoinsFromAccountToModule_def GetModuleAddress_def major_part_def [of S "\<lambda>b. SendCoinsFromAccountToModule S b x n", symmetric] split_paired_all split: if_splits)
  show "evm_delta S st st' (\<lambda>z. book (ModuleAddress S n) (AmountOf amt EvmDenom) z - book x (AmountOf amt EvmDenom) z) 0"
    "small st \<Longrightarrow> small st'"
    using move_ok [OF laws ok ne s(1) sends(2) [OF laws] s(2-5)] by blast+
qed

lemma EvmBank_MintCoins_ok:
  assumes laws: "sdk_laws S" and ok: "accounts_ok st" and ne: "ModuleAddress S n \<noteq> evmutil_addr S"
    and r: "EvmBank_MintCoins S st n amt = Inr st'"
  shows "evm_delta S st st' (book (ModuleAddress S n) (AmountOf amt EvmDenom)) (- (AmountOf amt EvmDenom mod ConversionMultiplier))"
    "small st \<Longrightarrow> small st'"
proof -
  let ?x = "ModuleAddress S n"
  obtain u a st1 st2 where s: "SplitAkavaCoins (Math S) amt = Inr (u, a)"
      "major_part S (\<lambda>b. MintCoins S b n) st u = Inr st1" "AddBalance (Math S) st1 ?x a = Inr st2" "ConvertAkavaToUkava S st2 ?x = Inr st'"
    using r by (auto simp: EvmBank_MintCoins_def GetModuleAddress_def major_part_def [of S "\<lambda>b. MintCoins S b n", symmetric] split_paired_all split: if_splits)
  note sp = Split_ok [OF s(1)]
  let ?g = "\<lambda>z v. book ?x v z"
  have b: "evm_delta S st (st\<lparr>ea_bank := b\<rparr>) (\<lambda>z. ?g z (Amount u * ConversionMultiplier)) 0"
    if "MintCoins S (ea_bank st) n cs = Inr b" "\<And>d. AmountOf cs d = (if d = CosmosDenom then Amount u else 0)" for cs b
    using ok ne by (auto simp: evm_delta_def akava_of_def slack_def book_def mints(1) [OF laws that(1)] that(2) distrib_right)
  have p: "evm_delta S st st1 (\<lambda>z. ?g z (Amount u * ConversionMultiplier)) 0" "minor_balance st1 = minor_balance st"
    by (rule major_part_ok [OF laws ok sp(1,4) s(2), where g = ?g]; use b in \<open>simp add: book_def\<close>)+
  note q = AddBalance_ok [OF evm_delta_ok [OF p(1)] s(3)]
  have d: "evm_delta S st1 st2 (book ?x a) (- a)" using q by (auto simp: evm_delta_def akava_of_def slack_def book_def)
  note c = ConvertAkava_ok [OF laws q(1) ne s(4)]
  have "AmountOf amt EvmDenom mod ConversionMultiplier = a" using sp(2,3) by (simp add: sp(5) [symmetric])
  then show "evm_delta S st st' (book ?x (AmountOf amt EvmDenom)) (- (AmountOf amt EvmDenom mod ConversionMultiplier))"
    by (intro evm_delta_cong [OF evm_delta_trans [OF p(1) evm_delta_trans [OF d c(1)]]]) (auto simp: book_def sp(5) [symmetric])
  show "small st'" if sm: "small st"
    unfolding small_def
  proof
    fix z
    have "minor_balance st z < ConversionMultiplier" using sm by (simp add: small_def)
    then show "minor_balance st' z < ConversionMultiplier" using c(2) [of z] c(3) q(2) p(2) by (cases "z = ?x") simp_all
  qed
qed

lemma EvmBank_BurnCoins_ok:
  assumes laws: "sdk_laws S" and ok: "accounts_ok st" and ne: "ModuleAddress S n \<noteq> evmutil_addr S"
    and r: "EvmBank_BurnCoins S st n amt = Inr st'"
  shows "evm_delta S st st' (\<lambda>z. - book (ModuleAddress S n) (AmountOf amt EvmDenom) z) (AmountOf amt EvmDenom mod ConversionMultiplier)"
    "small st \<Longrightarrow> small st'"
proof -
  let ?x = "ModuleAddress S n"
  obtain u a st1 st2 where s: "SplitAkavaCoins (Math S) amt = Inr (u, a)"
      "major_part S (\<lambda>b. BurnCoins S b n) st u = Inr st1" "ConvertOneUkavaToAkavaIfNeeded S st1 ?x a = Inr st2" "RemoveBalance (Math S) st2 ?x a = Inr st'"
    using r by (auto simp: EvmBank_BurnCoins_def GetModuleAddress_def major_part_def [of S "\<lambda>b. BurnCoins S b n", symmetric] split_paired_all split: if_splits)
  note sp = Split_ok [OF s(1)]
  let ?g = "\<lambda>z v. - book ?x v z"
  have b: "evm_delta S st (st\<lparr>ea_bank := b\<rparr>) (\<lambda>z. ?g z (Amount u * ConversionMultiplier)) 0"
    if "BurnCoins S (ea_bank st) n cs = Inr b" "\<And>d. AmountOf cs d = (if d = CosmosDenom then Amount u else 0)" for cs b
    using ok ne by (auto simp: evm_delta_def akava_of_def slack_def book_def mints(2) [OF laws that(1)] that(2) left_diff_distrib)
  have p: "evm_delta S st st1 (\<lambda>z. ?g z (Amount u * ConversionMultiplier)) 0" "minor_balance st1 = minor_balance st"
    by (rule major_part_ok [OF laws ok sp(1,4) s(2), where g = ?g]; use b in \<open>simp add: book_def\<close>)+
  note ok1 = evm_delta_ok [OF p(1)]
  note c = ConvertOne_ok [OF laws ok1 ne s(3)]
  note q = RemoveBalance_ok [OF evm_delta_ok [OF c(1)] s(4)]
  have d: "evm_delta S st2 st' (\<lambda>z. - book ?x a z) a" using q by (auto simp: evm_delta_def akava_of_def slack_def book_def)
  have "AmountOf amt EvmDenom mod ConversionMultiplier = a" using sp(2,3) by (simp add: sp(5) [symmetric])
  then show "evm_delta S st st' (\<lambda>z. - book ?x (AmountOf amt EvmDenom) z) (AmountOf amt EvmDenom mod ConversionMultiplier)"
    by (intro evm_delta_cong [OF evm_delta_trans [OF p(1) evm_delta_trans [OF c(1) d]]]) (auto simp: book_def sp(5) [symmetric])
  show "small st'" if "small st"
    unfolding small_def
  proof
    fix z
    have sm: "small st1" using that p(2) by (simp add: small_def)
    then have lt: "minor_balance st1 z < ConversionMultiplier" by (simp add: small_def)
    show "minor_balance st' z < ConversionMultiplier"
      using q(2) c(2) [of z] lt small_leave [OF ok1 sm sp(2,3) c(4)] by (cases "z = ?x") auto
  qed
qed

section \<open>Reachable states\<close>

text \<open>
  The abstract ledger has one balance per account and books transfers, mints and burns on it. The
  module account \<open>evmutil\<close> holds the backing and is not an account of the ledger: no operation may
  name it (the EVM's own accounts and the modules \<open>evm\<close>, \<open>fee_collector\<close> are the callers).
\<close>

datatype evm_op = Transfer address address | Mint address | Burn address

fun booking :: "evm_op \<Rightarrow> int \<Rightarrow> (address \<Rightarrow> int) \<Rightarrow> address \<Rightarrow> int" where
  "booking (Transfer x y) a l = (let l' = l(x := l x - a) in l'(y := l' y + a))"
| "booking (Mint x) a l = l(x := l x + a)"
| "booking (Burn x) a l = l(x := l x - a)"

inductive evm_step :: "'b sdk \<Rightarrow> evm_op \<Rightarrow> coins \<Rightarrow> 'b evm_bank_state \<Rightarrow> 'b evm_bank_state \<Rightarrow> bool" for S where
  to_account: "EvmBank_SendCoinsFromModuleToAccount S st n y cs = Inr st' \<Longrightarrow> n \<noteq> evmutil_module \<Longrightarrow> y \<noteq> evmutil_addr S \<Longrightarrow>
    evm_step S (Transfer (ModuleAddress S n) y) cs st st'"
| to_module: "EvmBank_SendCoinsFromAccountToModule S st x n cs = Inr st' \<Longrightarrow> x \<noteq> evmutil_addr S \<Longrightarrow> n \<noteq> evmutil_module \<Longrightarrow>
    evm_step S (Transfer x (ModuleAddress S n)) cs st st'"
| mint: "EvmBank_MintCoins S st n cs = Inr st' \<Longrightarrow> n \<noteq> evmutil_module \<Longrightarrow> evm_step S (Mint (ModuleAddress S n)) cs st st'"
| burn: "EvmBank_BurnCoins S st n cs = Inr st' \<Longrightarrow> n \<noteq> evmutil_module \<Longrightarrow> evm_step S (Burn (ModuleAddress S n)) cs st st'"

fun backing_change :: "evm_op \<Rightarrow> int \<Rightarrow> int" where
  "backing_change (Transfer x y) a = 0"
| "backing_change (Mint x) a = - (a mod ConversionMultiplier)"
| "backing_change (Burn x) a = a mod ConversionMultiplier"

inductive evm_reach :: "'b sdk \<Rightarrow> 'b evm_bank_state \<Rightarrow> bool" for S where
  genesis: "evm_accounts_InitGenesis S \<lparr>ea_accounts = [], ea_bank = b\<rparr> accounts = Inr st \<Longrightarrow>
    list_all (\<lambda>a. ac_Balance a < ConversionMultiplier) accounts \<Longrightarrow> evm_reach S st"
| step: "evm_reach S st \<Longrightarrow> evm_step S op cs st st' \<Longrightarrow> evm_reach S st'"
| bank: "evm_reach S st \<Longrightarrow> evm_reach S (st\<lparr>ea_bank := b\<rparr>)"

lemma booking_eq: "booking (Transfer x y) a l z = l z + (book y a z - book x a z)"
  "booking (Mint x) a l z = l z + book x a z" "booking (Burn x) a l z = l z - book x a z"
  by (auto simp: book_def)

lemma evm_step_delta:
  assumes laws: "sdk_laws S" and ok: "accounts_ok st" and step: "evm_step S op cs st st'"
  shows "evm_delta S st st' (\<lambda>z. booking op (AmountOf cs EvmDenom) (akava_of S st) z - akava_of S st z) (backing_change op (AmountOf cs EvmDenom)) \<and>
    (small st \<longrightarrow> small st')"
  using step
proof cases
  case (to_account n y)
  have "ModuleAddress S n \<noteq> evmutil_addr S" using to_account(3) by (simp add: ModuleAddress_eq [OF laws])
  note d = EvmBank_SendCoinsFromModuleToAccount_ok [OF laws ok this to_account(4,2)]
  show ?thesis using d(2) evm_delta_cong [OF d(1)] by (simp add: to_account(1) booking_eq del: booking.simps)
next
  case (to_module x n)
  have "ModuleAddress S n \<noteq> evmutil_addr S" using to_module(4) by (simp add: ModuleAddress_eq [OF laws])
  note d = EvmBank_SendCoinsFromAccountToModule_ok [OF laws ok to_module(3) this to_module(2)]
  show ?thesis using d(2) evm_delta_cong [OF d(1)] by (simp add: to_module(1) booking_eq del: booking.simps)
next
  case (mint n)
  have "ModuleAddress S n \<noteq> evmutil_addr S" using mint(3) by (simp add: ModuleAddress_eq [OF laws])
  note d = EvmBank_MintCoins_ok [OF laws ok this mint(2)]
  show ?thesis using d(2) evm_delta_cong [OF d(1)] by (simp add: mint(1) booking_eq del: booking.simps)
next
  case (burn n)
  have "ModuleAddress S n \<noteq> evmutil_addr S" using burn(3) by (simp add: ModuleAddress_eq [OF laws])
  note d = EvmBank_BurnCoins_ok [OF laws ok this burn(2)]
  show ?thesis using d(2) evm_delta_cong [OF d(1)] by (simp add: burn(1) booking_eq del: booking.simps)
qed

lemma load_account_ok:
  assumes ok: "accounts_ok st"
  shows "accounts_ok (load_account a st)" "ac_Balance a < ConversionMultiplier \<Longrightarrow> small st \<Longrightarrow> small (load_account a st)"
proof -
  show "accounts_ok (load_account a st)"
    using ok by (auto simp: load_account_def SetAccount_def Account_Validate_def accounts_ok_def)
  show "small (load_account a st)" if "ac_Balance a < ConversionMultiplier" "small st"
    using ok that
    by (auto simp: load_account_def SetAccount_def Account_Validate_def small_def minor_balance_def GetAccount_def accounts_ok_def)
qed

lemma load_accounts_ok:
  "accounts_ok st \<Longrightarrow> small st \<Longrightarrow> list_all (\<lambda>a. ac_Balance a < ConversionMultiplier) as \<Longrightarrow>
     accounts_ok (fold load_account as st) \<and> small (fold load_account as st)"
  by (induction as arbitrary: st) (simp_all add: load_account_ok)

lemma evm_reach_ok:
  assumes laws: "sdk_laws S"
  shows "evm_reach S st \<Longrightarrow> accounts_ok st \<and> small st"
proof (induction rule: evm_reach.induct)
  case (genesis b accounts st)
  have "accounts_ok \<lparr>ea_accounts = [], ea_bank = b\<rparr>" "small \<lparr>ea_accounts = [], ea_bank = b\<rparr>"
    by (simp_all add: accounts_ok_def small_def minor_balance_def GetAccount_def)
  from load_accounts_ok [OF this genesis(2)] genesis(1) show ?case
    by (simp add: evm_accounts_InitGenesis_def split: if_splits)
next
  case (step st op cs st')
  then show ?case using evm_step_delta [OF laws _ step(2)] evm_delta_ok by blast
next
  case (bank st b)
  then show ?case by (simp add: small_def)
qed

lemma accounts_of_minor:
  assumes "accounts_ok st"
  shows "list_ex (\<lambda>a. P (ac_Balance a)) (GetAllAccounts st) \<longleftrightarrow> (\<exists>z. GetAccount st z \<noteq> None \<and> P (minor_balance st z))"
proof
  assume "list_ex (\<lambda>a. P (ac_Balance a)) (GetAllAccounts st)"
  then obtain k a where m: "(k, a) \<in> set (ea_accounts st)" "P (ac_Balance a)" by (auto simp: list_ex_iff GetAllAccounts_def)
  have "kv_get (ea_accounts st) k = Some a" using assms m(1) by (simp add: accounts_ok_def kv_ok_def strict_sorted_iff)
  moreover from this have "AccountStoreKey (ac_Address a) = k" using assms unfolding accounts_ok_def by blast
  ultimately show "\<exists>z. GetAccount st z \<noteq> None \<and> P (minor_balance st z)"
    using m(2) by (intro exI [of _ "ac_Address a"]) (simp add: GetAccount_def minor_balance_def)
next
  assume "\<exists>z. GetAccount st z \<noteq> None \<and> P (minor_balance st z)"
  then obtain z a where "kv_get (ea_accounts st) (AccountStoreKey z) = Some a" "P (ac_Balance a)"
    by (auto simp: GetAccount_def minor_balance_def)
  then show "list_ex (\<lambda>a. P (ac_Balance a)) (GetAllAccounts st)"
    by (force simp: list_ex_iff GetAllAccounts_def dest: map_of_SomeD)
qed

lemma foldR_sum:
  assumes "foldR (\<lambda>x total. toInt m (total + f x)) xs t = Inr r"
  shows "r = t + (\<Sum>x\<leftarrow>xs. f x)"
  using assms
proof (induction xs arbitrary: t)
  case (Cons x xs)
  then have "foldR (\<lambda>x total. toInt m (total + f x)) xs (t + f x) = Inr r" by auto
  from Cons.IH [OF this] show ?case by simp
qed simp

lemma FullyBacked_iff: "FullyBackedInvariant S st = Inr broken \<Longrightarrow> broken \<longleftrightarrow> slack S st < 0"
  by (auto simp: FullyBackedInvariant_def slack_def minor_total_def GetAllAccounts_def comp_def case_prod_unfold dest!: foldR_sum)

section \<open>The claims\<close>

text \<open>
  C12: The bank of the EVM refines a plain ledger of 18 decimals. Take both parts of every account
  together: a transfer moves exactly the amount, a mint adds it and a burn takes it off, however the
  operation borrows a major unit or carries the remainder over; no other coin moves, and an account
  without locked coins is shown exactly that balance.
\<close>

theorem evm_bank_refines_ledger:
  assumes "sdk_laws S" "evm_reach S st" "evm_step S op cs st st'"
  shows "(\<forall>z. z \<noteq> evmutil_addr S \<longrightarrow> akava_of S st' z = booking op (AmountOf cs EvmDenom) (akava_of S st) z) \<and>
    (\<forall>z d. d \<noteq> CosmosDenom \<longrightarrow> GetBalance S (ea_bank st') z d = GetBalance S (ea_bank st) z d) \<and>
    (\<forall>z c. SpendableCoins S (ea_bank st') z = GetAllBalances S (ea_bank st') z \<and> EvmBank_GetBalance S st' z EvmDenom = Inr c \<longrightarrow>
       c = Coin EvmDenom (akava_of S st' z))"
proof -
  have ok: "accounts_ok st" using evm_reach_ok [OF assms(1,2)] by simp
  have "evm_delta S st st' (\<lambda>z. booking op (AmountOf cs EvmDenom) (akava_of S st) z - akava_of S st z) (backing_change op (AmountOf cs EvmDenom))"
    using evm_step_delta [OF assms(1) ok assms(3)] by simp
  then have "(\<forall>z. z \<noteq> evmutil_addr S \<longrightarrow> akava_of S st' z = booking op (AmountOf cs EvmDenom) (akava_of S st) z) \<and>
    (\<forall>z d. d \<noteq> CosmosDenom \<longrightarrow> GetBalance S (ea_bank st') z d = GetBalance S (ea_bank st) z d)"
    unfolding evm_delta_def by simp
  moreover have "c = Coin EvmDenom (akava_of S st' z)"
    if "SpendableCoins S (ea_bank st') z = GetAllBalances S (ea_bank st') z" "EvmBank_GetBalance S st' z EvmDenom = Inr c" for z c
    using that by (auto simp: EvmBank_GetBalance_def akava_of_def balances(1) [OF assms(1)])
  ultimately show ?thesis by blast
qed

text \<open>
  In every reachable state the invariant \<open>small-balances\<close> holds: no minor balance reaches one
  major unit, and none is negative.
\<close>

theorem evm_small_balances:
  assumes "sdk_laws S" "evm_reach S st"
  shows "\<not> SmallBalancesInvariant False st \<and> (\<forall>z. 0 \<le> minor_balance st z \<and> minor_balance st z < ConversionMultiplier)"
proof -
  note ok = evm_reach_ok [OF assms]
  have lt: "minor_balance st z < ConversionMultiplier" for z using ok by (simp add: small_def)
  have "\<not> list_ex (\<lambda>a. ac_Balance a \<ge> ConversionMultiplier) (GetAllAccounts st)"
    using accounts_of_minor [of st "\<lambda>v. v \<ge> ConversionMultiplier"] ok lt by (auto simp: not_le)
  then show ?thesis using minor_nonneg [of st] ok lt by (auto simp: SmallBalancesInvariant_def)
qed

text \<open>
  What the module account holds above the sum of the minor balances is untouched by transfers,
  falls by the remainder of a minted amount and grows by the remainder of a burned one; the invariant
  \<open>fully-backed\<close> is broken exactly when it is negative. So transfers and burns never break it, and a
  mint does when the remainder exceeds what is left.
\<close>

theorem evm_backing:
  assumes "sdk_laws S" "evm_reach S st" "evm_step S op cs st st'"
  shows "slack S st' = slack S st + backing_change op (AmountOf cs EvmDenom) \<and>
    (\<forall>s broken. FullyBackedInvariant S s = Inr broken \<longrightarrow> broken = (slack S s < 0)) \<and>
    (FullyBackedInvariant S st = Inr False \<and> FullyBackedInvariant S st' = Inr True \<longrightarrow>
       (\<exists>x. op = Mint x) \<and> slack S st < AmountOf cs EvmDenom mod ConversionMultiplier)"
proof -
  have ok: "accounts_ok st" using evm_reach_ok [OF assms(1,2)] by simp
  have d: "slack S st' = slack S st + backing_change op (AmountOf cs EvmDenom)"
    using evm_step_delta [OF assms(1) ok assms(3)] by (simp add: evm_delta_def)
  moreover have "(\<exists>x. op = Mint x) \<and> slack S st < AmountOf cs EvmDenom mod ConversionMultiplier"
    if "FullyBackedInvariant S st = Inr False" "FullyBackedInvariant S st' = Inr True"
    using FullyBacked_iff [OF that(1)] FullyBacked_iff [OF that(2)] d
    by (cases op) (auto simp: not_less dest: order_trans [OF _ pos_mod_sign])
  ultimately show ?thesis using FullyBacked_iff by blast
qed

section \<open>A small chain\<close>

definition ex_evm :: "ledger evm_bank_state" where
  "ex_evm = \<lparr>ea_accounts = [((5, ''alice''), \<lparr>ac_Address = ''alice'', ac_Balance = 400000000000\<rparr>)],
     ea_bank = \<lparr>lbal = [((''alice'', ''ukava''), 3), ((''module/evmutil'', ''ukava''), 1)], lsupply = [(''ukava'', 4)]\<rparr>\<rparr>"

lemma ex_evm_reach: "evm_reach ref_sdk ex_evm"
proof (rule evm_reach.genesis)
  show "evm_accounts_InitGenesis ref_sdk \<lparr>ea_accounts = [], ea_bank = ea_bank ex_evm\<rparr> [\<lparr>ac_Address = ''alice'', ac_Balance = 400000000000\<rparr>] = Inr ex_evm"
    by code_simp
qed simp

definition ex_moved :: "ledger evm_bank_state" where
  "ex_moved = projr (EvmBank_SendCoinsFromAccountToModule ref_sdk ex_evm ''alice'' ''evm'' [Coin EvmDenom 1500000000000])"

lemma ex_moved_step: "evm_step ref_sdk (Transfer ''alice'' ''module/evm'') [Coin EvmDenom 1500000000000] ex_evm ex_moved"
proof -
  have r: "EvmBank_SendCoinsFromAccountToModule ref_sdk ex_evm ''alice'' ''evm'' [Coin EvmDenom 1500000000000] = Inr ex_moved" by code_simp
  have m: "ModuleAddress ref_sdk ''evm'' = ''module/evm''" "''alice'' \<noteq> evmutil_addr ref_sdk" "''evm'' \<noteq> evmutil_module" by code_simp+
  show ?thesis using evm_step.to_module [OF r m(2,3)] m(1) by simp
qed

theorem SplitAkavaCoins_exact_witness:
  "Denom (fst (projr (SplitAkavaCoins ref_math [Coin EvmDenom 1500000000000]))) = CosmosDenom \<and>
   (\<exists>r. SplitAkavaCoins ref_math [Coin EvmDenom 1500000000000] = Inr r) \<and> \<not> (\<exists>r. SplitAkavaCoins ref_math [Coin EvmDenom 0] = Inr r)"
proof -
  have d: "ValidDenom ref_math CosmosDenom" "ValidDenom ref_math EvmDenom" by code_simp+
  have "SplitAkavaCoins ref_math [Coin EvmDenom 1500000000000] = Inr (Coin CosmosDenom 1, 500000000000)" by code_simp
  then show ?thesis
    using SplitAkavaCoins_exact [OF d, of "[Coin EvmDenom 1500000000000]"] SplitAkavaCoins_exact [OF d, of "[Coin EvmDenom 0]"] by auto
qed

theorem evm_bank_refines_ledger_witness:
  "akava_of ref_sdk ex_moved ''alice'' = 1900000000000 \<and> akava_of ref_sdk ex_moved ''module/evm'' = 1500000000000"
proof -
  have a: "akava_of ref_sdk ex_evm ''alice'' = 3400000000000" "akava_of ref_sdk ex_evm ''module/evm'' = 0"
    "''alice'' \<noteq> evmutil_addr ref_sdk" "''module/evm'' \<noteq> evmutil_addr ref_sdk" by code_simp+
  show ?thesis using evm_bank_refines_ledger [OF ref_sdk_laws ex_evm_reach ex_moved_step] a by (simp add: Let_def)
qed

theorem evm_small_balances_witness: "\<not> SmallBalancesInvariant False ex_moved \<and> minor_balance ex_moved ''alice'' = 900000000000"
proof -
  have "minor_balance ex_moved ''alice'' = 900000000000" by code_simp
  then show ?thesis using evm_small_balances [OF ref_sdk_laws evm_reach.step [OF ex_evm_reach ex_moved_step]] by simp
qed

theorem evm_backing_witness:
  "slack ref_sdk ex_moved = slack ref_sdk ex_evm \<and> FullyBackedInvariant ref_sdk ex_moved = Inr False \<and> \<not> slack ref_sdk ex_moved < 0"
proof -
  have f: "FullyBackedInvariant ref_sdk ex_moved = Inr False" by code_simp
  have b: "slack ref_sdk ex_moved = slack ref_sdk ex_evm + backing_change (Transfer ''alice'' ''module/evm'') (AmountOf [Coin EvmDenom 1500000000000] EvmDenom)"
    "\<forall>s broken. FullyBackedInvariant ref_sdk s = Inr broken \<longrightarrow> broken = (slack ref_sdk s < 0)"
    using evm_backing [OF ref_sdk_laws ex_evm_reach ex_moved_step] by blast+
  have "False = (slack ref_sdk ex_moved < 0)" using b(2) f by blast
  then show ?thesis using b(1) f by simp
qed

end
