(* ===== verification/Evmutil_Convert.thy ===== *)
theory Evmutil_Convert
  imports Evmutil_Bank
begin

text \<open>
  Conversions between coins and ERC20 tokens, \<open>x/evmutil\<close>: the calls into the EVM of
  \<open>keeper/evm.go\<close> and \<open>keeper/erc20.go\<close>, the parameters of \<open>types/conversion_pair.go\<close> and
  \<open>keeper/params.go\<close>, the conversions of \<open>keeper/conversion_evm_native.go\<close>,
  \<open>keeper/conversion_evm_native_bep3.go\<close> and \<open>keeper/conversion_cosmos_native.go\<close> with their
  messages, and the backing invariants of \<open>keeper/invariants.go\<close>.
\<close>

section \<open>The EVM\<close>

text \<open>
  The EVM (\<open>ethermint\<close> and \<open>go-ethereum\<close>) is a parameter: its state \<open>'e\<close> and the call data \<open>'d\<close> are
  abstract. A message may also move coins of the chain, so it is applied to the bank as well.
  \<open>Pack\<close> encodes a call of an ERC20 contract, \<open>PackDeploy\<close> the code and the constructor arguments of
  the wrapper contract.
\<close>

type_synonym evm_address = string

datatype erc20_call =
  balanceOf evm_address
| totalSupply
| transfer evm_address int
| erc20_mint evm_address int
| erc20_burn evm_address int

datatype abi_value = AbiInt int | AbiOther string

record 'd evm_response =
  rs_VmError :: string
  rs_Ret :: 'd
  rs_Logs :: "string list list"

record ('b, 'e, 'd) evm =
  GetSequence :: "'e \<Rightarrow> evm_address \<Rightarrow> nat result"
  EstimateGas :: "'e \<Rightarrow> 'b evm_bank_state \<Rightarrow> evm_address \<Rightarrow> evm_address option \<Rightarrow> 'd \<Rightarrow> nat result"
  ApplyMessage :: "'e \<Rightarrow> 'b evm_bank_state \<Rightarrow> evm_address \<Rightarrow> evm_address option \<Rightarrow> nat \<Rightarrow> nat \<Rightarrow> 'd \<Rightarrow>
    ('d evm_response \<times> 'e \<times> 'b evm_bank_state) result"
  CreateAddress :: "evm_address \<Rightarrow> nat \<Rightarrow> evm_address"
  Pack :: "erc20_call \<Rightarrow> 'd result"
  PackDeploy :: "string \<Rightarrow> string \<Rightarrow> 8 word \<Rightarrow> 'd result"
  Unpack :: "string \<Rightarrow> 'd \<Rightarrow> abi_value list result"
  DataLen :: "'d \<Rightarrow> nat"
  ApprovalHash :: string
  IsHexAddress :: "string \<Rightarrow> bool"
  HexToAddress :: "string \<Rightarrow> evm_address"

section \<open>Parameters and state\<close>

definition BytesToAddress :: "string \<Rightarrow> evm_address" where
  "BytesToAddress b =
     (if length b > 20 then drop (length b - 20) b else replicate (20 - length b) (CHR 0x00) @ b)"

definition zero_address :: evm_address where
  "zero_address = replicate 20 (CHR 0x00)"

record ConversionPair =
  cp_KavaERC20Address :: string
  cp_Denom :: denom

definition GetAddress :: "ConversionPair \<Rightarrow> evm_address" where
  "GetAddress pair = BytesToAddress (cp_KavaERC20Address pair)"

definition ConversionPair_Validate :: "sdk_math \<Rightarrow> ConversionPair \<Rightarrow> unit result" where
  "ConversionPair_Validate m pair =
     (if \<not> ValidDenom m (cp_Denom pair) then Inl (Err ''conversion pair denom invalid'')
      else if length (cp_KavaERC20Address pair) \<noteq> 20 then Inl (Err ''address length'')
      else if cp_KavaERC20Address pair = zero_address then Inl (Err ''address cannot be zero value'')
      else Inr ())"

fun ConversionPairs_Validate :: "sdk_math \<Rightarrow> string list \<Rightarrow> denom list \<Rightarrow> ConversionPair list \<Rightarrow> unit result" where
  "ConversionPairs_Validate m addrs denoms [] = Inr ()"
| "ConversionPairs_Validate m addrs denoms (p # ps) =
     (if cp_KavaERC20Address p \<in> set addrs then Inl (Err ''found duplicate enabled conversion pair internal ERC20 address'')
      else if cp_Denom p \<in> set denoms then Inl (Err ''found duplicate enabled conversion pair denom'')
      else bnd (ConversionPair_Validate m p) (\<lambda>_.
        ConversionPairs_Validate m (cp_KavaERC20Address p # addrs) (cp_Denom p # denoms) ps))"

record AllowedToken =
  at_CosmosDenom :: denom
  at_Name :: string
  at_Symbol :: string
  at_Decimals :: "32 word"

definition AllowedToken_Validate :: "sdk_math \<Rightarrow> AllowedToken \<Rightarrow> unit result" where
  "AllowedToken_Validate m t =
     (if \<not> ValidDenom m (at_CosmosDenom t) then Inl (Err ''allowed cosmos coin erc20 token's sdk denom is invalid'')
      else if at_Name t = [] then Inl (Err ''allowed cosmos coin erc20 token's name cannot be empty'')
      else if at_Symbol t = [] then Inl (Err ''allowed cosmos coin erc20 token's symbol cannot be empty'')
      else if at_Decimals t > 255 then Inl (Err ''allowed cosmos coin erc20 token's decimals must be less than 256'')
      else Inr ())"

fun AllowedTokens_Validate :: "sdk_math \<Rightarrow> denom list \<Rightarrow> string list \<Rightarrow> AllowedToken list \<Rightarrow> unit result" where
  "AllowedTokens_Validate m denoms symbols [] = Inr ()"
| "AllowedTokens_Validate m denoms symbols (t # ts) =
     bnd (AllowedToken_Validate m t) (\<lambda>_.
     if at_CosmosDenom t \<in> set denoms then Inl (Err ''found duplicate token with sdk denom'')
     else if at_Symbol t \<in> set symbols then Inl (Err ''found duplicate token with symbol'')
     else AllowedTokens_Validate m (at_CosmosDenom t # denoms) (at_Symbol t # symbols) ts)"

record evmutil_Params =
  ep_EnabledConversionPairs :: "ConversionPair list"
  ep_AllowedCosmosDenoms :: "AllowedToken list"

definition evmutil_Params_Validate :: "sdk_math \<Rightarrow> evmutil_Params \<Rightarrow> unit result" where
  "evmutil_Params_Validate m p =
     bnd (ConversionPairs_Validate m [] [] (ep_EnabledConversionPairs p)) (\<lambda>_.
     AllowedTokens_Validate m [] [] (ep_AllowedCosmosDenoms p))"

record ('b, 'e) evmutil_state =
  us_Params :: evmutil_Params
  us_deployed :: "(denom, string) kv"
  us_bank :: "'b evm_bank_state"
  us_evm :: 'e

definition evmutil_SetParams :: "sdk_math \<Rightarrow> ('b, 'e) evmutil_state \<Rightarrow> evmutil_Params \<Rightarrow> ('b, 'e) evmutil_state result" where
  \<comment> \<open>the parameter store checks each field and panics\<close>
  "evmutil_SetParams m st p = bnd (panic_on_err (evmutil_Params_Validate m p)) (\<lambda>_. Inr (st\<lparr>us_Params := p\<rparr>))"

definition GetAllowedTokenMetadata :: "('b, 'e) evmutil_state \<Rightarrow> denom \<Rightarrow> AllowedToken option" where
  "GetAllowedTokenMetadata st d = find (\<lambda>t. at_CosmosDenom t = d) (ep_AllowedCosmosDenoms (us_Params st))"

definition GetEnabledConversionPairFromERC20Address :: "('b, 'e) evmutil_state \<Rightarrow> evm_address \<Rightarrow> ConversionPair result" where
  "GetEnabledConversionPairFromERC20Address st a =
     (case find (\<lambda>p. cp_KavaERC20Address p = a) (ep_EnabledConversionPairs (us_Params st)) of
        Some p \<Rightarrow> Inr p | None \<Rightarrow> Inl (Err ''ErrEVMConversionNotEnabled''))"

definition GetEnabledConversionPairFromDenom :: "('b, 'e) evmutil_state \<Rightarrow> denom \<Rightarrow> ConversionPair result" where
  "GetEnabledConversionPairFromDenom st d =
     (case find (\<lambda>p. cp_Denom p = d) (ep_EnabledConversionPairs (us_Params st)) of
        Some p \<Rightarrow> Inr p | None \<Rightarrow> Inl (Err ''ErrEVMConversionNotEnabled''))"

definition SetDeployedCosmosCoinContract :: "sdk_math \<Rightarrow> ('b, 'e) evmutil_state \<Rightarrow> denom \<Rightarrow> evm_address \<Rightarrow> ('b, 'e) evmutil_state result" where
  "SetDeployedCosmosCoinContract m st d c =
     (if \<not> ValidDenom m d then Inl (Err ''ErrInvalidCosmosDenom'')
      else if c = zero_address then Inl (Err ''ErrInvalidAddress'')
      else Inr (st\<lparr>us_deployed := kv_set (us_deployed st) d c\<rparr>))"

definition GetDeployedCosmosCoinContract :: "('b, 'e) evmutil_state \<Rightarrow> denom \<Rightarrow> evm_address \<times> bool" where
  "GetDeployedCosmosCoinContract st d =
     (let bz = (case kv_get (us_deployed st) d of None \<Rightarrow> [] | Some bz \<Rightarrow> bz) in (BytesToAddress bz, length bz \<noteq> 0))"

section \<open>Calling contracts\<close>

definition ModuleEVMAddress :: "'b sdk \<Rightarrow> evm_address" where
  "ModuleEVMAddress S = BytesToAddress (ModuleAddress S evmutil_module)"

definition wrap_err :: "string \<Rightarrow> 'a result \<Rightarrow> 'a result" where
  \<comment> \<open>\<open>errorsmod.Wrap\<close>: the registered error wins; a panic passes\<close>
  "wrap_err n r = (case r of Inl (Err _) \<Rightarrow> Inl (Err n) | _ \<Rightarrow> r)"

definition CallEVMWithData ::
    "('b, 'e, 'd) evm \<Rightarrow> ('b, 'e) evmutil_state \<Rightarrow> evm_address \<Rightarrow> evm_address option \<Rightarrow> 'd \<Rightarrow> ('d evm_response \<times> ('b, 'e) evmutil_state) result" where
  "CallEVMWithData E st from to data =
     bnd (GetSequence E (us_evm st) from) (\<lambda>nonce.
     bnd (wrap_err ''ErrVMExecution'' (EstimateGas E (us_evm st) (us_bank st) from to data)) (\<lambda>gas.
     bnd (ApplyMessage E (us_evm st) (us_bank st) from to nonce gas data) (\<lambda>(res, e, b).
     if rs_VmError res \<noteq> [] then Inl (Err ''ErrVMExecution'')
     else Inr (res, st\<lparr>us_evm := e, us_bank := b\<rparr>))))"

definition CallEVM ::
    "('b, 'e, 'd) evm \<Rightarrow> ('b, 'e) evmutil_state \<Rightarrow> evm_address \<Rightarrow> evm_address \<Rightarrow> erc20_call \<Rightarrow> ('d evm_response \<times> ('b, 'e) evmutil_state) result" where
  "CallEVM E st from contract call =
     bnd (wrap_err ''ErrABIPack'' (Pack E call)) (\<lambda>data. CallEVMWithData E st from (Some contract) data)"

fun monitorApprovalEvent :: "('b, 'e, 'd) evm \<Rightarrow> string list list \<Rightarrow> unit result" where
  "monitorApprovalEvent E [] = Inr ()"
| "monitorApprovalEvent E (topics # logs) =
     bnd (idx topics 0) (\<lambda>t.
     if t = ApprovalHash E then Inl (Err ''ErrUnexpectedContractEvent'') else monitorApprovalEvent E logs)"

definition unpackERC20ResToBigInt :: "('b, 'e, 'd) evm \<Rightarrow> 'd evm_response \<Rightarrow> string \<Rightarrow> int result" where
  "unpackERC20ResToBigInt E res methodName =
     (if rs_VmError res \<noteq> [] then Inl (Err (rs_VmError res))
      else if DataLen E (rs_Ret res) = 0 then Inl (Err ''expected response to be big.Int but found nil'')
      else
        bnd (wrap_err ''failed to unpack method'' (Unpack E methodName (rs_Ret res))) (\<lambda>anyOutput.
        if length anyOutput \<noteq> 1 then Inl (Err ''invalid ERC20 call return outputs'')
        else case anyOutput ! 0 of AbiInt bal \<Rightarrow> Inr bal | AbiOther _ \<Rightarrow> Inl (Err ''invalid ERC20 return type'')))"

definition QueryERC20BalanceOf ::
    "'b sdk \<Rightarrow> ('b, 'e, 'd) evm \<Rightarrow> ('b, 'e) evmutil_state \<Rightarrow> evm_address \<Rightarrow> evm_address \<Rightarrow> (int \<times> ('b, 'e) evmutil_state) result" where
  "QueryERC20BalanceOf S E st contract account =
     bnd (CallEVM E st (ModuleEVMAddress S) contract (balanceOf account)) (\<lambda>(res, st1).
     bnd (unpackERC20ResToBigInt E res ''balanceOf'') (\<lambda>bal. Inr (bal, st1)))"

definition QueryERC20TotalSupply ::
    "'b sdk \<Rightarrow> ('b, 'e, 'd) evm \<Rightarrow> ('b, 'e) evmutil_state \<Rightarrow> evm_address \<Rightarrow> (int \<times> ('b, 'e) evmutil_state) result" where
  "QueryERC20TotalSupply S E st contract =
     bnd (CallEVM E st (ModuleEVMAddress S) contract totalSupply) (\<lambda>(res, st1).
     bnd (unpackERC20ResToBigInt E res ''totalSupply'') (\<lambda>n. Inr (n, st1)))"

definition MintERC20 ::
    "'b sdk \<Rightarrow> ('b, 'e, 'd) evm \<Rightarrow> ('b, 'e) evmutil_state \<Rightarrow> evm_address \<Rightarrow> evm_address \<Rightarrow> int \<Rightarrow> ('b, 'e) evmutil_state result" where
  "MintERC20 S E st contract receiver amount =
     bnd (CallEVM E st (ModuleEVMAddress S) contract (erc20_mint receiver amount)) (\<lambda>(_, st1). Inr st1)"

definition BurnERC20 ::
    "'b sdk \<Rightarrow> ('b, 'e, 'd) evm \<Rightarrow> ('b, 'e) evmutil_state \<Rightarrow> evm_address \<Rightarrow> evm_address \<Rightarrow> int \<Rightarrow> ('b, 'e) evmutil_state result" where
  "BurnERC20 S E st contract initiator amount =
     bnd (CallEVM E st (ModuleEVMAddress S) contract (erc20_burn initiator amount)) (\<lambda>(_, st1). Inr st1)"

definition DeployKavaWrappedCosmosCoinERC20Contract ::
    "'b sdk \<Rightarrow> ('b, 'e, 'd) evm \<Rightarrow> ('b, 'e) evmutil_state \<Rightarrow> AllowedToken \<Rightarrow> (evm_address \<times> ('b, 'e) evmutil_state) result" where
  "DeployKavaWrappedCosmosCoinERC20Contract S E st token =
     bnd (AllowedToken_Validate (Math S) token) (\<lambda>_.
     bnd (PackDeploy E (at_Name token) (at_Symbol token) (ucast (at_Decimals token))) (\<lambda>data.
     bnd (GetSequence E (us_evm st) (ModuleEVMAddress S)) (\<lambda>nonce.
     bnd (CallEVMWithData E st (ModuleEVMAddress S) None data) (\<lambda>(_, st1).
     Inr (CreateAddress E (ModuleEVMAddress S) nonce, st1)))))"

definition GetOrDeployCosmosCoinERC20Contract ::
    "'b sdk \<Rightarrow> ('b, 'e, 'd) evm \<Rightarrow> ('b, 'e) evmutil_state \<Rightarrow> AllowedToken \<Rightarrow> (evm_address \<times> ('b, 'e) evmutil_state) result" where
  "GetOrDeployCosmosCoinERC20Contract S E st token =
     (case GetDeployedCosmosCoinContract st (at_CosmosDenom token) of (contract, found) \<Rightarrow>
      if found then Inr (contract, st)
      else
        bnd (DeployKavaWrappedCosmosCoinERC20Contract S E st token) (\<lambda>(contract, st1).
        bnd (SetDeployedCosmosCoinContract (Math S) st1 (at_CosmosDenom token) contract) (\<lambda>st2. Inr (contract, st2))))"

section \<open>Tokens of the EVM as coins\<close>

definition isBep3Asset :: "denom \<Rightarrow> bool" where
  "isBep3Asset d \<longleftrightarrow> d \<in> set [''bnb'', ''busd'', ''btcb'', ''xrpb'']"

abbreviation (input) bep3ConversionFactor :: int where "bep3ConversionFactor \<equiv> 10000000000"

definition convertBep3CoinAmountToERC20Amount :: "int \<Rightarrow> int" where
  "convertBep3CoinAmountToERC20Amount amount = amount * bep3ConversionFactor"

definition convertBep3ERC20AmountToCoinAmount :: "int \<Rightarrow> int" where
  \<comment> \<open>\<open>big.Int.Div\<close> is Euclidean; for a positive divisor it rounds down\<close>
  "convertBep3ERC20AmountToCoinAmount amount = amount div bep3ConversionFactor"

definition bep3ERC20AmountToCoinMintAndERC20LockAmount :: "int \<Rightarrow> (int \<times> int) result" where
  "bep3ERC20AmountToCoinMintAndERC20LockAmount amount =
     (let amountToMint = convertBep3ERC20AmountToCoinAmount amount in
      if amountToMint = 0 then Inl (Err ''ErrInsufficientConversionAmount'')
      else Inr (amountToMint, convertBep3CoinAmountToERC20Amount amountToMint))"

definition on_bank :: "('b, 'e) evmutil_state \<Rightarrow> ('b \<Rightarrow> 'b result) \<Rightarrow> ('b, 'e) evmutil_state result" where
  "on_bank st f = bnd (f (ea_bank (us_bank st))) (\<lambda>b. Inr (st\<lparr>us_bank := (us_bank st)\<lparr>ea_bank := b\<rparr>\<rparr>))"

definition MintConversionPairCoin ::
    "'b sdk \<Rightarrow> ('b, 'e) evmutil_state \<Rightarrow> ConversionPair \<Rightarrow> int \<Rightarrow> address \<Rightarrow> (coin \<times> ('b, 'e) evmutil_state) result" where
  "MintConversionPairCoin S st pair amount recipient =
     bnd (toInt (Math S) amount) (\<lambda>n.
     bnd (NewCoin (Math S) (cp_Denom pair) n) (\<lambda>c.
     bnd (NewCoins S [c]) (\<lambda>cs.
     bnd (on_bank st (\<lambda>b. MintCoins S b evmutil_module cs)) (\<lambda>st1.
     bnd (on_bank st1 (\<lambda>b. SendCoinsFromModuleToAccount S b evmutil_module recipient cs)) (\<lambda>st2.
     Inr (c, st2))))))"

definition BurnConversionPairCoin ::
    "'b sdk \<Rightarrow> ('b, 'e) evmutil_state \<Rightarrow> ConversionPair \<Rightarrow> coin \<Rightarrow> address \<Rightarrow> ('b, 'e) evmutil_state result" where
  "BurnConversionPairCoin S st pair c account =
     bnd (NewCoins S [c]) (\<lambda>cs.
     bnd (on_bank st (\<lambda>b. SendCoinsFromAccountToModule S b account evmutil_module cs)) (\<lambda>st1.
     on_bank st1 (\<lambda>b. BurnCoins S b evmutil_module cs)))"

definition UnlockERC20Tokens ::
    "'b sdk \<Rightarrow> ('b, 'e, 'd) evm \<Rightarrow> ('b, 'e) evmutil_state \<Rightarrow> ConversionPair \<Rightarrow> int \<Rightarrow> evm_address \<Rightarrow> ('b, 'e) evmutil_state result" where
  "UnlockERC20Tokens S E st pair amount receiver =
     bnd (wrap_err ''ErrEVMCall'' (QueryERC20BalanceOf S E st (GetAddress pair) receiver)) (\<lambda>(startBal, st1).
     bnd (CallEVM E st1 (ModuleEVMAddress S) (GetAddress pair) (transfer receiver amount)) (\<lambda>(res, st2).
     bnd (wrap_err ''ErrEVMCall'' (QueryERC20BalanceOf S E st2 (GetAddress pair) receiver)) (\<lambda>(endBal, st3).
     if startBal + amount \<noteq> endBal then Inl (Err ''ErrBalanceInvariance'')
     else bnd (monitorApprovalEvent E (rs_Logs res)) (\<lambda>_. Inr st3))))"

definition LockERC20Tokens ::
    "'b sdk \<Rightarrow> ('b, 'e, 'd) evm \<Rightarrow> ('b, 'e) evmutil_state \<Rightarrow> ConversionPair \<Rightarrow> int \<Rightarrow> evm_address \<Rightarrow> ('b, 'e) evmutil_state result" where
  "LockERC20Tokens S E st pair amount initiator =
     bnd (wrap_err ''ErrEVMCall'' (QueryERC20BalanceOf S E st (GetAddress pair) initiator)) (\<lambda>(initiatorStartBal, st1).
     bnd (CallEVM E st1 initiator (GetAddress pair) (transfer (ModuleEVMAddress S) amount)) (\<lambda>(res, st2).
     bnd (wrap_err ''ErrEVMCall'' (QueryERC20BalanceOf S E st2 (GetAddress pair) initiator)) (\<lambda>(initiatorEndBal, st3).
     if initiatorStartBal - amount \<noteq> initiatorEndBal then Inl (Err ''ErrBalanceInvariance'')
     else bnd (monitorApprovalEvent E (rs_Logs res)) (\<lambda>_. Inr st3))))"

definition ConvertCoinToERC20 ::
    "'b sdk \<Rightarrow> ('b, 'e, 'd) evm \<Rightarrow> ('b, 'e) evmutil_state \<Rightarrow> address \<Rightarrow> evm_address \<Rightarrow> coin \<Rightarrow> ('b, 'e) evmutil_state result" where
  "ConvertCoinToERC20 S E st initiator receiver c =
     bnd (GetEnabledConversionPairFromDenom st (Denom c)) (\<lambda>pair.
     bnd (BurnConversionPairCoin S st pair c initiator) (\<lambda>st1.
     let amountToUnlock = (if isBep3Asset (cp_Denom pair) then convertBep3CoinAmountToERC20Amount (Amount c) else Amount c) in
     UnlockERC20Tokens S E st1 pair amountToUnlock receiver))"

definition ConvertERC20ToCoin ::
    "'b sdk \<Rightarrow> ('b, 'e, 'd) evm \<Rightarrow> ('b, 'e) evmutil_state \<Rightarrow> evm_address \<Rightarrow> address \<Rightarrow> evm_address \<Rightarrow> int \<Rightarrow> ('b, 'e) evmutil_state result" where
  "ConvertERC20ToCoin S E st initiator receiver contract amount =
     bnd (GetEnabledConversionPairFromERC20Address st contract) (\<lambda>pair.
     bnd (if isBep3Asset (cp_Denom pair) then bep3ERC20AmountToCoinMintAndERC20LockAmount amount else Inr (amount, amount)) (\<lambda>(amountToMint, amountToLock).
     bnd (LockERC20Tokens S E st pair amountToLock initiator) (\<lambda>st1.
     bnd (MintConversionPairCoin S st1 pair amountToMint receiver) (\<lambda>(_, st2).
     Inr st2))))"

section \<open>Coins of the chain as tokens\<close>

definition ConvertCosmosCoinToERC20 ::
    "'b sdk \<Rightarrow> ('b, 'e, 'd) evm \<Rightarrow> ('b, 'e) evmutil_state \<Rightarrow> address \<Rightarrow> evm_address \<Rightarrow> coin \<Rightarrow> ('b, 'e) evmutil_state result" where
  "ConvertCosmosCoinToERC20 S E st initiator receiver amount =
     (case GetAllowedTokenMetadata st (Denom amount) of
        None \<Rightarrow> Inl (Err ''ErrSDKConversionNotEnabled'')
      | Some tokenInfo \<Rightarrow>
          bnd (NewCoins S [amount]) (\<lambda>cs.
          bnd (on_bank st (\<lambda>b. SendCoinsFromAccountToModule S b initiator evmutil_module cs)) (\<lambda>st1.
          bnd (GetOrDeployCosmosCoinERC20Contract S E st1 tokenInfo) (\<lambda>(contract, st2).
          MintERC20 S E st2 contract receiver (Amount amount)))))"

definition ConvertCosmosCoinFromERC20 ::
    "'b sdk \<Rightarrow> ('b, 'e, 'd) evm \<Rightarrow> ('b, 'e) evmutil_state \<Rightarrow> evm_address \<Rightarrow> address \<Rightarrow> coin \<Rightarrow> ('b, 'e) evmutil_state result" where
  "ConvertCosmosCoinFromERC20 S E st initiator receiver c =
     (case GetDeployedCosmosCoinContract st (Denom c) of (contract, found) \<Rightarrow>
      if \<not> found then Inl (Err ''ErrInvalidCosmosDenom'')
      else
        bnd (wrap_err ''ErrEVMCall'' (QueryERC20BalanceOf S E st contract initiator)) (\<lambda>(balance, st1).
        if balance < Amount c then Inl (Err ''ErrInsufficientFunds'')
        else
          bnd (BurnERC20 S E st1 contract initiator (Amount c)) (\<lambda>st2.
          bnd (NewCoins S [c]) (\<lambda>cs.
          on_bank st2 (\<lambda>b. SendCoinsFromModuleToAccount S b evmutil_module receiver cs)))))"

section \<open>Messages\<close>

definition NewInternalEVMAddressFromString :: "('b, 'e, 'd) evm \<Rightarrow> string \<Rightarrow> evm_address result" where
  "NewInternalEVMAddressFromString E s =
     (if \<not> IsHexAddress E s then Inl (Err ''string is not a hex address'') else Inr (HexToAddress E s))"

definition msg_ConvertCoinToERC20 ::
    "'b sdk \<Rightarrow> ('b, 'e, 'd) evm \<Rightarrow> (string \<Rightarrow> address result) \<Rightarrow> ('b, 'e) evmutil_state \<Rightarrow> string \<Rightarrow> string \<Rightarrow> coin \<Rightarrow> ('b, 'e) evmutil_state result" where
  "msg_ConvertCoinToERC20 S E bech st initiator receiver amount =
     bnd (bech initiator) (\<lambda>i. bnd (NewInternalEVMAddressFromString E receiver) (\<lambda>r. ConvertCoinToERC20 S E st i r amount))"

definition msg_ConvertERC20ToCoin ::
    "'b sdk \<Rightarrow> ('b, 'e, 'd) evm \<Rightarrow> (string \<Rightarrow> address result) \<Rightarrow> ('b, 'e) evmutil_state \<Rightarrow> string \<Rightarrow> string \<Rightarrow> string \<Rightarrow> int \<Rightarrow> ('b, 'e) evmutil_state result" where
  "msg_ConvertERC20ToCoin S E bech st initiator receiver contract amount =
     bnd (NewInternalEVMAddressFromString E initiator) (\<lambda>i.
     bnd (bech receiver) (\<lambda>r.
     bnd (NewInternalEVMAddressFromString E contract) (\<lambda>c. ConvertERC20ToCoin S E st i r c amount)))"

definition msg_ConvertCosmosCoinToERC20 ::
    "'b sdk \<Rightarrow> ('b, 'e, 'd) evm \<Rightarrow> (string \<Rightarrow> address result) \<Rightarrow> ('b, 'e) evmutil_state \<Rightarrow> string \<Rightarrow> string \<Rightarrow> coin \<Rightarrow> ('b, 'e) evmutil_state result" where
  "msg_ConvertCosmosCoinToERC20 S E bech st initiator receiver amount =
     bnd (bech initiator) (\<lambda>i. bnd (NewInternalEVMAddressFromString E receiver) (\<lambda>r. ConvertCosmosCoinToERC20 S E st i r amount))"

definition msg_ConvertCosmosCoinFromERC20 ::
    "'b sdk \<Rightarrow> ('b, 'e, 'd) evm \<Rightarrow> (string \<Rightarrow> address result) \<Rightarrow> ('b, 'e) evmutil_state \<Rightarrow> string \<Rightarrow> string \<Rightarrow> coin \<Rightarrow> ('b, 'e) evmutil_state result" where
  "msg_ConvertCosmosCoinFromERC20 S E bech st initiator receiver amount =
     bnd (NewInternalEVMAddressFromString E initiator) (\<lambda>i. bnd (bech receiver) (\<lambda>r. ConvertCosmosCoinFromERC20 S E st i r amount))"

definition MsgConvertCoinToERC20_ValidateBasic ::
    "sdk_math \<Rightarrow> ('b, 'e, 'd) evm \<Rightarrow> (string \<Rightarrow> address result) \<Rightarrow> string \<Rightarrow> string \<Rightarrow> coin \<Rightarrow> unit result" where
  "MsgConvertCoinToERC20_ValidateBasic m E bech initiator receiver amount =
     bnd (wrap_err ''ErrInvalidAddress'' (bech initiator)) (\<lambda>_.
     if \<not> IsHexAddress E receiver then Inl (Err ''ErrInvalidAddress'')
     else if Amount amount = 0 then Inl (Err ''ErrInvalidRequest'')
     else if \<not> coin_IsValid m amount then Inl (Err ''invalid coin'')
     else Inr ())"

definition MsgConvertERC20ToCoin_ValidateBasic ::
    "('b, 'e, 'd) evm \<Rightarrow> (string \<Rightarrow> address result) \<Rightarrow> string \<Rightarrow> string \<Rightarrow> string \<Rightarrow> int \<Rightarrow> unit result" where
  "MsgConvertERC20ToCoin_ValidateBasic E bech initiator receiver contract amount =
     (if \<not> IsHexAddress E initiator then Inl (Err ''ErrInvalidAddress'')
      else if \<not> IsHexAddress E contract then Inl (Err ''ErrInvalidAddress'')
      else bnd (wrap_err ''ErrInvalidAddress'' (bech receiver)) (\<lambda>_.
        if amount \<le> 0 then Inl (Err ''ErrInvalidRequest'') else Inr ()))"

definition MsgConvertCosmosCoinToERC20_ValidateBasic ::
    "sdk_math \<Rightarrow> ('b, 'e, 'd) evm \<Rightarrow> (string \<Rightarrow> address result) \<Rightarrow> string \<Rightarrow> string \<Rightarrow> coin \<Rightarrow> unit result" where
  "MsgConvertCosmosCoinToERC20_ValidateBasic m E bech initiator receiver amount =
     bnd (wrap_err ''ErrInvalidAddress'' (bech initiator)) (\<lambda>_.
     if \<not> IsHexAddress E receiver then Inl (Err ''ErrInvalidAddress'')
     else if \<not> coin_IsValid m amount \<or> Amount amount = 0 then Inl (Err ''ErrInvalidCoins'')
     else Inr ())"

definition MsgConvertCosmosCoinFromERC20_ValidateBasic ::
    "sdk_math \<Rightarrow> ('b, 'e, 'd) evm \<Rightarrow> (string \<Rightarrow> address result) \<Rightarrow> string \<Rightarrow> string \<Rightarrow> coin \<Rightarrow> unit result" where
  "MsgConvertCosmosCoinFromERC20_ValidateBasic m E bech initiator receiver amount =
     (if \<not> IsHexAddress E initiator then Inl (Err ''ErrInvalidAddress'')
      else bnd (wrap_err ''ErrInvalidAddress'' (bech receiver)) (\<lambda>_.
        if \<not> coin_IsValid m amount \<or> Amount amount = 0 then Inl (Err ''ErrInvalidCoins'') else Inr ()))"

section \<open>Invariants and genesis\<close>

text \<open>
  Invariants call the EVM too; what the calls write is dropped after the check, but a run threads it
  from one query to the next. The first argument is the flag left by earlier runs.
\<close>

fun check_pairs :: "'b sdk \<Rightarrow> ('b, 'e, 'd) evm \<Rightarrow> bool \<Rightarrow> ConversionPair list \<Rightarrow> ('b, 'e) evmutil_state \<Rightarrow> bool result" where
  "check_pairs S E broken [] st = Inr broken"
| "check_pairs S E broken (p # ps) st =
     bnd (panic_on_err (QueryERC20BalanceOf S E st (GetAddress p) (ModuleEVMAddress S))) (\<lambda>(erc20Balance, st1).
     if GetSupply S (ea_bank (us_bank st1)) (cp_Denom p) > erc20Balance then Inr True
     else check_pairs S E broken ps st1)"

definition BackedCoinsInvariant :: "'b sdk \<Rightarrow> ('b, 'e, 'd) evm \<Rightarrow> bool \<Rightarrow> ('b, 'e) evmutil_state \<Rightarrow> bool result" where
  "BackedCoinsInvariant S E broken st = check_pairs S E broken (ep_EnabledConversionPairs (us_Params st)) st"

fun check_deployed :: "'b sdk \<Rightarrow> ('b, 'e, 'd) evm \<Rightarrow> bool \<Rightarrow> (denom \<times> string) list \<Rightarrow> ('b, 'e) evmutil_state \<Rightarrow> bool result" where
  "check_deployed S E broken [] st = Inr broken"
| "check_deployed S E broken ((d, bz) # cs) st =
     (let moduleBalance = GetBalance S (ea_bank (us_bank st)) (ModuleAddress S evmutil_module) d in
      bnd (panic_on_err (QueryERC20TotalSupply S E st (BytesToAddress bz))) (\<lambda>(total, st1).
      let broken' = (broken \<or> total \<noteq> moduleBalance) in
      if broken' then Inr True else check_deployed S E broken' cs st1))"

definition CosmosCoinsFullyBackedInvariant :: "'b sdk \<Rightarrow> ('b, 'e, 'd) evm \<Rightarrow> bool \<Rightarrow> ('b, 'e) evmutil_state \<Rightarrow> bool result" where
  "CosmosCoinsFullyBackedInvariant S E broken st = check_deployed S E broken (us_deployed st) st"

definition evmutil_InitGenesis :: "'b sdk \<Rightarrow> ('b, 'e) evmutil_state \<Rightarrow> Account list \<Rightarrow> evmutil_Params \<Rightarrow> ('b, 'e) evmutil_state result" where
  \<comment> \<open>the parameters are checked after the accounts, before anything is written\<close>
  "evmutil_InitGenesis S st accounts p =
     bnd (panic_on_err (check_accounts [] accounts)) (\<lambda>_.
     bnd (panic_on_err (evmutil_Params_Validate (Math S) p)) (\<lambda>_.
     bnd (evmutil_SetParams (Math S) st p) (\<lambda>st1.
     bnd (evm_accounts_InitGenesis S (us_bank st1) accounts) (\<lambda>b.
     Inr (st1\<lparr>us_bank := b\<rparr>)))))"

definition evmutil_ExportGenesis :: "('b, 'e) evmutil_state \<Rightarrow> Account list \<times> evmutil_Params" where
  "evmutil_ExportGenesis st = (GetAllAccounts (us_bank st), us_Params st)"

end
