(* ===== verification/Evmutil_Convert_Safety.thy ===== *)
theory Evmutil_Convert_Safety
  imports Evmutil_Convert
begin

text \<open>
  Conversions are backed: tokens held by the module cover the coins minted for them, and coins held
  by the module equal the supply of the tokens minted for them. The EVM satisfies named laws for the
  contracts that follow the ERC20 standard; the balance checks of the code make up for amounts the
  256-bit encoding would wrap.
\<close>

section \<open>What is assumed of the EVM\<close>

text \<open>
  A view of the EVM's state: which contracts follow the standard, and the balances and the supply
  they keep. A call of such a contract has the effect the standard documents, with the amount as the
  ABI encodes it; it leaves other such contracts and the coins of the chain alone. A deployment makes
  the wrapper contract at the address derived from the sender and its sequence number, which no
  contract had before.
\<close>

record 'e erc20_view =
  Honest :: "'e \<Rightarrow> evm_address \<Rightarrow> bool"
  BalOf :: "'e \<Rightarrow> evm_address \<Rightarrow> evm_address \<Rightarrow> int"
  Supply :: "'e \<Rightarrow> evm_address \<Rightarrow> int"

definition u256 :: "int \<Rightarrow> int" where "u256 a = a mod 2 ^ 256"

definition shift :: "(evm_address \<Rightarrow> int) \<Rightarrow> evm_address \<Rightarrow> int \<Rightarrow> evm_address \<Rightarrow> int" where
  "shift f x a = f(x := f x + a)"

fun erc20_effect :: "evm_address \<Rightarrow> erc20_call \<Rightarrow> (evm_address \<Rightarrow> int) \<times> int \<Rightarrow> (evm_address \<Rightarrow> int) \<times> int" where
  "erc20_effect from (balanceOf x) (f, n) = (f, n)"
| "erc20_effect from totalSupply (f, n) = (f, n)"
| "erc20_effect from (transfer y a) (f, n) = (shift (shift f from (- u256 a)) y (u256 a), n)"
| "erc20_effect from (erc20_mint y a) (f, n) = (shift f y (u256 a), n + u256 a)"
| "erc20_effect from (erc20_burn x a) (f, n) = (shift f x (- u256 a), n - u256 a)"

fun erc20_read :: "erc20_call \<Rightarrow> (evm_address \<Rightarrow> int) \<times> int \<Rightarrow> (string \<times> int) option" where
  "erc20_read (balanceOf x) (f, n) = Some (''balanceOf'', f x)"
| "erc20_read totalSupply (f, n) = Some (''totalSupply'', n)"
| "erc20_read call s = None"

definition token :: "'e erc20_view \<Rightarrow> 'e \<Rightarrow> evm_address \<Rightarrow> (evm_address \<Rightarrow> int) \<times> int" where
  "token V e c = (BalOf V e c, Supply V e c)"

definition call_law :: "('b, 'e, 'd) evm \<Rightarrow> 'e erc20_view \<Rightarrow> bool" where
  "call_law E V \<longleftrightarrow> (\<forall>e b from c n g call d res e' b'.
     Honest V e c \<longrightarrow> Pack E call = Inr d \<longrightarrow> ApplyMessage E e b from (Some c) n g d = Inr (res, e', b') \<longrightarrow> rs_VmError res = [] \<longrightarrow>
     b' = b \<and> Honest V e' = Honest V e \<and> token V e' c = erc20_effect from call (token V e c) \<and>
     (\<forall>c'. Honest V e c' \<longrightarrow> c' \<noteq> c \<longrightarrow> token V e' c' = token V e c') \<and>
     (\<forall>k v. erc20_read call (token V e c) = Some (k, v) \<longrightarrow> Unpack E k (rs_Ret res) = Inr [AbiInt v]))"

definition deploy_law :: "('b, 'e, 'd) evm \<Rightarrow> 'e erc20_view \<Rightarrow> bool" where
  "deploy_law E V \<longleftrightarrow> (\<forall>e b from n g nm sy dc d res e' b'.
     PackDeploy E nm sy dc = Inr d \<longrightarrow> ApplyMessage E e b from None n g d = Inr (res, e', b') \<longrightarrow> rs_VmError res = [] \<longrightarrow>
     GetSequence E e from = Inr n \<longrightarrow>
     b' = b \<and> \<not> Honest V e (CreateAddress E from n) \<and> length (CreateAddress E from n) = 20 \<and>
     Honest V e' = (Honest V e)(CreateAddress E from n := True) \<and> token V e' (CreateAddress E from n) = (\<lambda>_. 0, 0) \<and>
     (\<forall>c'. Honest V e c' \<longrightarrow> token V e' c' = token V e c'))"

definition balance_law :: "'b sdk \<Rightarrow> 'e erc20_view \<Rightarrow> bool" where
  \<comment> \<open>balances are \<open>uint256\<close>, and so are the chain's integers in magnitude\<close>
  "balance_law S V \<longleftrightarrow> (\<forall>e c x. Honest V e c \<longrightarrow> 0 \<le> BalOf V e c x \<and> BalOf V e c x < 2 ^ 256) \<and>
     (\<forall>x. IntInRange (Math S) x \<longrightarrow> \<bar>x\<bar> < 2 ^ 256)"

definition evm_laws :: "'b sdk \<Rightarrow> ('b, 'e, 'd) evm \<Rightarrow> 'e erc20_view \<Rightarrow> bool" where
  "evm_laws S E V \<longleftrightarrow> sdk_laws S \<and> call_law E V \<and> deploy_law E V \<and> balance_law S V"

lemma evm_lawsD:
  assumes "evm_laws S E V"
  shows "sdk_laws S" "call_law E V" "deploy_law E V"
    "Honest V e c \<Longrightarrow> 0 \<le> BalOf V e c x" "Honest V e c \<Longrightarrow> BalOf V e c x < 2 ^ 256" "IntInRange (Math S) n \<Longrightarrow> \<bar>n\<bar> < 2 ^ 256"
  using assms by (auto simp: evm_laws_def balance_law_def)

lemma u256_small: "0 \<le> a \<Longrightarrow> a < 2 ^ 256 \<Longrightarrow> u256 a = a"
  by (simp add: u256_def)

section \<open>Calls\<close>

lemma wrap_err_Inr [simp]: "wrap_err n x = Inr y \<longleftrightarrow> x = Inr y"
  by (auto simp: wrap_err_def split: sum.splits fault.splits)

abbreviation tok :: "'e erc20_view \<Rightarrow> ('b, 'e) evmutil_state \<Rightarrow> evm_address \<Rightarrow> (evm_address \<Rightarrow> int) \<times> int" where
  "tok V st \<equiv> token V (us_evm st)"

abbreviation bal :: "'e erc20_view \<Rightarrow> ('b, 'e) evmutil_state \<Rightarrow> evm_address \<Rightarrow> evm_address \<Rightarrow> int" where
  "bal V st \<equiv> BalOf V (us_evm st)"

abbreviation hon :: "'e erc20_view \<Rightarrow> ('b, 'e) evmutil_state \<Rightarrow> evm_address \<Rightarrow> bool" where
  "hon V st \<equiv> Honest V (us_evm st)"

text \<open>One contract changed, and nothing else the module can see.\<close>

definition only_token :: "'e erc20_view \<Rightarrow> ('b, 'e) evmutil_state \<Rightarrow> ('b, 'e) evmutil_state \<Rightarrow> evm_address \<Rightarrow> (evm_address \<Rightarrow> int) \<times> int \<Rightarrow> bool" where
  "only_token V st st' c t \<longleftrightarrow>
     us_Params st' = us_Params st \<and> us_deployed st' = us_deployed st \<and> us_bank st' = us_bank st \<and> hon V st' = hon V st \<and>
     tok V st' c = t \<and> (\<forall>c'. hon V st c' \<longrightarrow> c' \<noteq> c \<longrightarrow> tok V st' c' = tok V st c')"

lemma only_token_trans:
  "only_token V st1 st2 c t \<Longrightarrow> only_token V st2 st3 c u \<Longrightarrow> only_token V st1 st3 c u"
  by (simp add: only_token_def)

lemma CallEVM_ok:
  assumes laws: "evm_laws S E V" and h: "hon V st c" and r: "CallEVM E st from c call = Inr (res, st')"
  shows "only_token V st st' c (erc20_effect from call (tok V st c))" "rs_VmError res = []"
    "erc20_read call (tok V st c) = Some (k, v) \<Longrightarrow> Unpack E k (rs_Ret res) = Inr [AbiInt v]"
proof -
  obtain d n g e b where s: "Pack E call = Inr d" "ApplyMessage E (us_evm st) (us_bank st) from (Some c) n g d = Inr (res, e, b)"
      "rs_VmError res = []" "st' = st\<lparr>us_evm := e, us_bank := b\<rparr>"
    using r by (auto simp: CallEVM_def CallEVMWithData_def split_paired_all split: if_splits)
  note l = evm_lawsD(2) [OF laws, unfolded call_law_def, rule_format, OF h s(1-3)]
  show "only_token V st st' c (erc20_effect from call (tok V st c))" "rs_VmError res = []"
    "erc20_read call (tok V st c) = Some (k, v) \<Longrightarrow> Unpack E k (rs_Ret res) = Inr [AbiInt v]"
    using l s(3) by (auto simp: only_token_def s(4))
qed

lemma Query_ok:
  assumes laws: "evm_laws S E V" and h: "hon V st c"
  shows "QueryERC20BalanceOf S E st c x = Inr (v, st') \<Longrightarrow> v = bal V st c x \<and> only_token V st st' c (tok V st c)"
    and "QueryERC20TotalSupply S E st c = Inr (v, st') \<Longrightarrow> v = Supply V (us_evm st) c \<and> only_token V st st' c (tok V st c)"
proof -
  show "v = bal V st c x \<and> only_token V st st' c (tok V st c)" if q: "QueryERC20BalanceOf S E st c x = Inr (v, st')"
  proof -
    obtain res where r: "CallEVM E st (ModuleEVMAddress S) c (balanceOf x) = Inr (res, st')" "unpackERC20ResToBigInt E res ''balanceOf'' = Inr v"
      using q by (auto simp: QueryERC20BalanceOf_def split_paired_all)
    note k = CallEVM_ok [OF laws h r(1)]
    have "Unpack E ''balanceOf'' (rs_Ret res) = Inr [AbiInt (bal V st c x)]" by (rule k(3)) (simp add: token_def)
    then have "v = bal V st c x" using r(2) k(2) by (auto simp: unpackERC20ResToBigInt_def split: if_splits)
    moreover have "only_token V st st' c (tok V st c)" using k(1) by (simp add: token_def)
    ultimately show ?thesis by simp
  qed
  show "v = Supply V (us_evm st) c \<and> only_token V st st' c (tok V st c)" if q: "QueryERC20TotalSupply S E st c = Inr (v, st')"
  proof -
    obtain res where r: "CallEVM E st (ModuleEVMAddress S) c totalSupply = Inr (res, st')" "unpackERC20ResToBigInt E res ''totalSupply'' = Inr v"
      using q by (auto simp: QueryERC20TotalSupply_def split_paired_all)
    note k = CallEVM_ok [OF laws h r(1)]
    have "Unpack E ''totalSupply'' (rs_Ret res) = Inr [AbiInt (Supply V (us_evm st) c)]" by (rule k(3)) (simp add: token_def)
    then have "v = Supply V (us_evm st) c" using r(2) k(2) by (auto simp: unpackERC20ResToBigInt_def split: if_splits)
    moreover have "only_token V st st' c (tok V st c)" using k(1) by (simp add: token_def)
    ultimately show ?thesis by simp
  qed
qed

lemma only_token_hon: "only_token V st st' c t \<Longrightarrow> hon V st' = hon V st"
  and only_token_tok: "only_token V st st' c t \<Longrightarrow> tok V st' c = t"
  by (simp_all add: only_token_def)

section \<open>Locking and unlocking tokens\<close>

text \<open>The check of the balance makes the transferred amount exact, and refuses transfers to oneself.\<close>

lemma Unlock_ok:
  assumes laws: "evm_laws S E V" and h: "hon V st (GetAddress p)" and a: "0 < a"
    and r: "UnlockERC20Tokens S E st p a y = Inr st'"
  shows "only_token V st st' (GetAddress p)
      (shift (shift (bal V st (GetAddress p)) (ModuleEVMAddress S) (- a)) y a, Supply V (us_evm st) (GetAddress p))" "y \<noteq> ModuleEVMAddress S"
proof -
  let ?c = "GetAddress p" and ?m = "ModuleEVMAddress S"
  obtain v1 st1 res st2 v2 where s: "QueryERC20BalanceOf S E st ?c y = Inr (v1, st1)"
      "CallEVM E st1 ?m ?c (transfer y a) = Inr (res, st2)" "QueryERC20BalanceOf S E st2 ?c y = Inr (v2, st')" "v2 = v1 + a"
    using r by (auto simp: UnlockERC20Tokens_def split_paired_all split: if_splits)
  have q1: "v1 = bal V st ?c y" "only_token V st st1 ?c (tok V st ?c)" using Query_ok(1) [OF laws h s(1)] by auto
  have h1: "hon V st1 ?c" using only_token_hon [OF q1(2)] h by simp
  note k = CallEVM_ok(1) [OF laws h1 s(2)]
  have h2: "hon V st2 ?c" using only_token_hon [OF k] h1 by simp
  have q2: "v2 = bal V st2 ?c y" "only_token V st2 st' ?c (tok V st2 ?c)" using Query_ok(1) [OF laws h2 s(3)] by auto
  have t2: "tok V st2 ?c = (shift (shift (bal V st ?c) ?m (- u256 a)) y (u256 a), Supply V (us_evm st) ?c)"
    using only_token_tok [OF k] only_token_tok [OF q1(2)] by (simp add: token_def)
  have "v1 + a = shift (shift (bal V st ?c) ?m (- u256 a)) y (u256 a) y" using t2 q2(1) s(4) by (simp add: token_def)
  then have "y \<noteq> ?m" "u256 a = a" using q1(1) a by (auto simp: shift_def split: if_splits)
  then show "only_token V st st' ?c (shift (shift (bal V st ?c) ?m (- a)) y a, Supply V (us_evm st) ?c)" "y \<noteq> ?m"
    using only_token_trans [OF only_token_trans [OF q1(2) k] q2(2)] t2 by simp_all
qed

lemma Lock_ok:
  assumes laws: "evm_laws S E V" and h: "hon V st (GetAddress p)" and a: "0 < a"
    and r: "LockERC20Tokens S E st p a x = Inr st'"
  shows "only_token V st st' (GetAddress p)
      (shift (shift (bal V st (GetAddress p)) x (- a)) (ModuleEVMAddress S) a, Supply V (us_evm st) (GetAddress p))" "x \<noteq> ModuleEVMAddress S"
proof -
  let ?c = "GetAddress p" and ?m = "ModuleEVMAddress S"
  obtain v1 st1 res st2 v2 where s: "QueryERC20BalanceOf S E st ?c x = Inr (v1, st1)"
      "CallEVM E st1 x ?c (transfer ?m a) = Inr (res, st2)" "QueryERC20BalanceOf S E st2 ?c x = Inr (v2, st')" "v2 = v1 - a"
    using r by (auto simp: LockERC20Tokens_def split_paired_all split: if_splits)
  have q1: "v1 = bal V st ?c x" "only_token V st st1 ?c (tok V st ?c)" using Query_ok(1) [OF laws h s(1)] by auto
  have h1: "hon V st1 ?c" using only_token_hon [OF q1(2)] h by simp
  note k = CallEVM_ok(1) [OF laws h1 s(2)]
  have h2: "hon V st2 ?c" using only_token_hon [OF k] h1 by simp
  have q2: "v2 = bal V st2 ?c x" "only_token V st2 st' ?c (tok V st2 ?c)" using Query_ok(1) [OF laws h2 s(3)] by auto
  have t2: "tok V st2 ?c = (shift (shift (bal V st ?c) x (- u256 a)) ?m (u256 a), Supply V (us_evm st) ?c)"
    using only_token_tok [OF k] only_token_tok [OF q1(2)] by (simp add: token_def)
  have "v1 - a = shift (shift (bal V st ?c) x (- u256 a)) ?m (u256 a) x" using t2 q2(1) s(4) by (simp add: token_def)
  then have "x \<noteq> ?m" "u256 a = a" using q1(1) a by (auto simp: shift_def split: if_splits)
  then show "only_token V st st' ?c (shift (shift (bal V st ?c) x (- a)) ?m a, Supply V (us_evm st) ?c)" "x \<noteq> ?m"
    using only_token_trans [OF only_token_trans [OF q1(2) k] q2(2)] t2 by simp_all
qed

section \<open>Minting and burning coins of a pair\<close>

abbreviation bk :: "('b, 'e) evmutil_state \<Rightarrow> 'b" where
  "bk st \<equiv> ea_bank (us_bank st)"

definition only_bank :: "'b sdk \<Rightarrow> ('b, 'e) evmutil_state \<Rightarrow> ('b, 'e) evmutil_state \<Rightarrow> (address \<Rightarrow> denom \<Rightarrow> int) \<Rightarrow> (denom \<Rightarrow> int) \<Rightarrow> bool" where
  "only_bank S st st' f g \<longleftrightarrow>
     us_Params st' = us_Params st \<and> us_deployed st' = us_deployed st \<and> us_evm st' = us_evm st \<and>
     ea_accounts (us_bank st') = ea_accounts (us_bank st) \<and>
     (\<forall>a d. GetBalance S (bk st') a d = GetBalance S (bk st) a d + f a d) \<and> (\<forall>d. GetSupply S (bk st') d = GetSupply S (bk st) d + g d)"

definition amt_at :: "address \<Rightarrow> coin \<Rightarrow> address \<Rightarrow> denom \<Rightarrow> int" where
  "amt_at x c a d = (if a = x then coin_amt c d else 0)"

lemma only_bank_trans:
  "only_bank S st1 st2 f g \<Longrightarrow> only_bank S st2 st3 f' g' \<Longrightarrow> only_bank S st1 st3 (\<lambda>a d. f a d + f' a d) (\<lambda>d. g d + g' d)"
  by (simp add: only_bank_def)

lemma on_bank_sends:
  assumes laws: "sdk_laws S" and cs: "NewCoins S [c] = Inr cs"
  shows "on_bank st (\<lambda>b. SendCoinsFromAccountToModule S b x n cs) = Inr st' \<Longrightarrow>
      only_bank S st st' (\<lambda>a d. amt_at (ModuleAddress S n) c a d - amt_at x c a d) (\<lambda>_. 0)"
    and "on_bank st (\<lambda>b. SendCoinsFromModuleToAccount S b n y cs) = Inr st' \<Longrightarrow>
      only_bank S st st' (\<lambda>a d. amt_at y c a d - amt_at (ModuleAddress S n) c a d) (\<lambda>_. 0)"
    and "on_bank st (\<lambda>b. MintCoins S b n cs) = Inr st' \<Longrightarrow> only_bank S st st' (amt_at (ModuleAddress S n) c) (coin_amt c)"
    and "on_bank st (\<lambda>b. BurnCoins S b n cs) = Inr st' \<Longrightarrow>
      only_bank S st st' (\<lambda>a d. - amt_at (ModuleAddress S n) c a d) (\<lambda>d. - coin_amt c d)"
proof -
  note am = NewCoins_one(1) [OF laws cs]
  show "only_bank S st st' (\<lambda>a d. amt_at (ModuleAddress S n) c a d - amt_at x c a d) (\<lambda>_. 0)"
    if "on_bank st (\<lambda>b. SendCoinsFromAccountToModule S b x n cs) = Inr st'"
    using that moved_balance [OF sends(2) [OF laws]] moved_supply [OF sends(2) [OF laws]] by (auto simp: on_bank_def only_bank_def amt_at_def am)
  show "only_bank S st st' (\<lambda>a d. amt_at y c a d - amt_at (ModuleAddress S n) c a d) (\<lambda>_. 0)"
    if "on_bank st (\<lambda>b. SendCoinsFromModuleToAccount S b n y cs) = Inr st'"
    using that moved_balance [OF sends(3) [OF laws]] moved_supply [OF sends(3) [OF laws]] by (auto simp: on_bank_def only_bank_def amt_at_def am)
  show "only_bank S st st' (amt_at (ModuleAddress S n) c) (coin_amt c)" if "on_bank st (\<lambda>b. MintCoins S b n cs) = Inr st'"
    using that mints(1,3) [OF laws] by (auto simp: on_bank_def only_bank_def amt_at_def am)
  show "only_bank S st st' (\<lambda>a d. - amt_at (ModuleAddress S n) c a d) (\<lambda>d. - coin_amt c d)" if "on_bank st (\<lambda>b. BurnCoins S b n cs) = Inr st'"
    using that mints(2,4) [OF laws] by (auto simp: on_bank_def only_bank_def amt_at_def am)
qed

lemma MintPair_ok:
  assumes laws: "sdk_laws S" and r: "MintConversionPairCoin S st p n y = Inr (c, st')"
  shows "only_bank S st st' (amt_at y c) (coin_amt c)" "c = Coin (cp_Denom p) n" "0 \<le> n"
proof -
  obtain cs st1 where s: "c = Coin (cp_Denom p) n" "NewCoins S [c] = Inr cs" "on_bank st (\<lambda>b. MintCoins S b evmutil_module cs) = Inr st1"
      "on_bank st1 (\<lambda>b. SendCoinsFromModuleToAccount S b evmutil_module y cs) = Inr st'" "0 \<le> n"
    using r by (auto simp: MintConversionPairCoin_def)
  show "only_bank S st st' (amt_at y c) (coin_amt c)"
    using only_bank_trans [OF on_bank_sends(3) [OF laws s(2,3)] on_bank_sends(2) [OF laws s(2,4)]] by simp
  show "c = Coin (cp_Denom p) n" "0 \<le> n" by (rule s)+
qed

lemma BurnPair_ok:
  assumes laws: "sdk_laws S" and r: "BurnConversionPairCoin S st p c x = Inr st'"
  shows "only_bank S st st' (\<lambda>a d. - amt_at x c a d) (\<lambda>d. - coin_amt c d)" "0 \<le> Amount c"
proof -
  obtain cs st1 where s: "NewCoins S [c] = Inr cs" "on_bank st (\<lambda>b. SendCoinsFromAccountToModule S b x evmutil_module cs) = Inr st1"
      "on_bank st1 (\<lambda>b. BurnCoins S b evmutil_module cs) = Inr st'"
    using r by (auto simp: BurnConversionPairCoin_def)
  show "only_bank S st st' (\<lambda>a d. - amt_at x c a d) (\<lambda>d. - coin_amt c d)"
    using only_bank_trans [OF on_bank_sends(1) [OF laws s(1,2)] on_bank_sends(4) [OF laws s(1,3)]] by simp
  show "0 \<le> Amount c" by (rule NewCoins_one(2) [OF laws s(1)])
qed

section \<open>Conversion of pairs\<close>

definition factor :: "denom \<Rightarrow> int" where
  "factor d = (if isBep3Asset d then bep3ConversionFactor else 1)"

lemma factor_pos: "0 < factor d" by (simp add: factor_def)

lemma mint_and_lock:
  assumes "0 < amount"
    "(if isBep3Asset d then bep3ERC20AmountToCoinMintAndERC20LockAmount amount else Inr (amount, amount)) = Inr (mint, lock)"
  shows "mint = amount div factor d" "lock = mint * factor d" "0 < mint" "0 < lock"
proof -
  have m: "mint = amount div factor d" "lock = mint * factor d" "mint \<noteq> 0"
    using assms by (auto simp: factor_def bep3ERC20AmountToCoinMintAndERC20LockAmount_def convertBep3ERC20AmountToCoinAmount_def
        convertBep3CoinAmountToERC20Amount_def Let_def split: if_splits)
  have "0 \<le> mint" using m(1) assms(1) factor_pos [of d] by (simp add: pos_imp_zdiv_nonneg_iff)
  then show "0 < mint" using m(3) by simp
  then show "0 < lock" using m(2) factor_pos [of d] by simp
  show "mint = amount div factor d" "lock = mint * factor d" by (rule m)+
qed

text \<open>What a conversion does to the tokens of the contract and to the coins.\<close>

definition converted ::
    "'b sdk \<Rightarrow> 'e erc20_view \<Rightarrow> ('b, 'e) evmutil_state \<Rightarrow> ('b, 'e) evmutil_state \<Rightarrow> ConversionPair \<Rightarrow> evm_address \<Rightarrow> evm_address \<Rightarrow> int \<Rightarrow> address \<Rightarrow> int \<Rightarrow> bool" where
  "converted S V st st' p x y a z n \<longleftrightarrow>
     us_Params st' = us_Params st \<and> us_deployed st' = us_deployed st \<and> ea_accounts (us_bank st') = ea_accounts (us_bank st) \<and> hon V st' = hon V st \<and>
     tok V st' (GetAddress p) = (shift (shift (bal V st (GetAddress p)) x (- a)) y a, Supply V (us_evm st) (GetAddress p)) \<and>
     (\<forall>c. hon V st c \<longrightarrow> c \<noteq> GetAddress p \<longrightarrow> tok V st' c = tok V st c) \<and>
     (\<forall>w d. GetBalance S (bk st') w d = GetBalance S (bk st) w d + amt_at z (Coin (cp_Denom p) n) w d) \<and>
     (\<forall>d. GetSupply S (bk st') d = GetSupply S (bk st) d + coin_amt (Coin (cp_Denom p) n) d)"

definition pairs_honest :: "'e erc20_view \<Rightarrow> ('b, 'e) evmutil_state \<Rightarrow> bool" where
  "pairs_honest V st \<longleftrightarrow> (\<forall>p\<in>set (ep_EnabledConversionPairs (us_Params st)). hon V st (GetAddress p))"

lemma amt_at_neg: "- amt_at x c a d = amt_at x (Coin (Denom c) (- Amount c)) a d" "- coin_amt c d = coin_amt (Coin (Denom c) (- Amount c)) d"
  by (simp_all add: amt_at_def coin_amt_def)

lemma ConvertCoinToERC20_ok:
  assumes laws: "evm_laws S E V" and h: "pairs_honest V st" and a: "0 < Amount c"
    and r: "ConvertCoinToERC20 S E st x y c = Inr st'"
  obtains p where "p \<in> set (ep_EnabledConversionPairs (us_Params st))" "cp_Denom p = Denom c"
    "converted S V st st' p (ModuleEVMAddress S) y (Amount c * factor (Denom c)) x (- Amount c)" "y \<noteq> ModuleEVMAddress S"
proof -
  obtain p st1 where s: "find (\<lambda>p. cp_Denom p = Denom c) (ep_EnabledConversionPairs (us_Params st)) = Some p"
      "BurnConversionPairCoin S st p c x = Inr st1" "UnlockERC20Tokens S E st1 p (Amount c * factor (Denom c)) y = Inr st'"
    using r by (auto simp: ConvertCoinToERC20_def GetEnabledConversionPairFromDenom_def convertBep3CoinAmountToERC20Amount_def factor_def Let_def
        split: option.splits if_splits dest: find_Some_iff [THEN iffD1])
  have p: "p \<in> set (ep_EnabledConversionPairs (us_Params st))" "cp_Denom p = Denom c" using s(1) by (auto simp: find_Some_iff)
  note b = BurnPair_ok(1) [OF evm_lawsD(1) [OF laws] s(2), unfolded amt_at_neg only_bank_def p(2) [symmetric]]
  have h1: "hon V st1 (GetAddress p)" using h p(1) b by (simp add: pairs_honest_def)
  have a1: "0 < Amount c * factor (Denom c)" using a factor_pos by simp
  note u = Unlock_ok [OF laws h1 a1 s(3), unfolded only_token_def]
  have "converted S V st st' p (ModuleEVMAddress S) y (Amount c * factor (Denom c)) x (- Amount c)"
    using b u(1) by (simp add: converted_def)
  with p u(2) that show ?thesis by blast
qed

lemma ConvertERC20ToCoin_ok:
  assumes laws: "evm_laws S E V" and h: "pairs_honest V st" and a: "0 < amount"
    and r: "ConvertERC20ToCoin S E st x y c amount = Inr st'"
  obtains p n where "p \<in> set (ep_EnabledConversionPairs (us_Params st))" "cp_KavaERC20Address p = c" "n = amount div factor (cp_Denom p)" "0 < n"
    "converted S V st st' p x (ModuleEVMAddress S) (n * factor (cp_Denom p)) y n" "x \<noteq> ModuleEVMAddress S"
proof -
  obtain p mint lock st1 k where s: "find (\<lambda>p. cp_KavaERC20Address p = c) (ep_EnabledConversionPairs (us_Params st)) = Some p"
      "(if isBep3Asset (cp_Denom p) then bep3ERC20AmountToCoinMintAndERC20LockAmount amount else Inr (amount, amount)) = Inr (mint, lock)"
      "LockERC20Tokens S E st p lock x = Inr st1" "MintConversionPairCoin S st1 p mint y = Inr (k, st')"
    using r by (auto simp: ConvertERC20ToCoin_def GetEnabledConversionPairFromERC20Address_def split_paired_all split: option.splits if_splits)
  have p: "p \<in> set (ep_EnabledConversionPairs (us_Params st))" "cp_KavaERC20Address p = c" using s(1) by (auto simp: find_Some_iff)
  note m = mint_and_lock [OF a s(2)]
  have h1: "hon V st (GetAddress p)" using h p(1) by (simp add: pairs_honest_def)
  note l = Lock_ok [OF laws h1 m(4) s(3), unfolded only_token_def]
  note b = MintPair_ok [OF evm_lawsD(1) [OF laws] s(4)]
  have "converted S V st st' p x (ModuleEVMAddress S) (mint * factor (cp_Denom p)) y mint"
    using b(1) [unfolded only_bank_def b(2)] l(1) m(2) by (simp add: converted_def)
  with p m l(2) that show ?thesis by blast
qed

section \<open>Contracts of wrapped coins\<close>

definition deployed_ok :: "'e erc20_view \<Rightarrow> ('b, 'e) evmutil_state \<Rightarrow> bool" where
  "deployed_ok V st \<longleftrightarrow> kv_ok (us_deployed st) \<and>
     (\<forall>d c. kv_get (us_deployed st) d = Some c \<longrightarrow> length c = 20 \<and> hon V st c) \<and>
     (\<forall>d d' c. kv_get (us_deployed st) d = Some c \<longrightarrow> kv_get (us_deployed st) d' = Some c \<longrightarrow> d = d')"

lemma deployed_okD:
  assumes "deployed_ok V st" "kv_get (us_deployed st) d = Some c"
  shows "length c = 20" "hon V st c" "kv_get (us_deployed st) d' = Some c \<Longrightarrow> d' = d"
  using assms unfolding deployed_ok_def by blast+

lemma BytesToAddress_20: "length c = 20 \<Longrightarrow> BytesToAddress c = c"
  by (simp add: BytesToAddress_def)

lemma GetDeployed_Some: "deployed_ok V st \<Longrightarrow> kv_get (us_deployed st) d = Some c \<Longrightarrow> GetDeployedCosmosCoinContract st d = (c, True)"
  using deployed_okD(1) [of V st d c] by (auto simp: GetDeployedCosmosCoinContract_def BytesToAddress_20)

lemma GetDeployed_None: "kv_get (us_deployed st) d = None \<Longrightarrow> \<not> snd (GetDeployedCosmosCoinContract st d)"
  by (simp add: GetDeployedCosmosCoinContract_def)

text \<open>A token before its contract is deployed: no balances and no supply.\<close>

definition tok_or_new :: "'e erc20_view \<Rightarrow> ('b, 'e) evmutil_state \<Rightarrow> denom \<Rightarrow> evm_address \<Rightarrow> (evm_address \<Rightarrow> int) \<times> int" where
  "tok_or_new V st d c = (if kv_get (us_deployed st) d = None then (\<lambda>_. 0, 0) else tok V st c)"

definition deployed_for :: "'e erc20_view \<Rightarrow> ('b, 'e) evmutil_state \<Rightarrow> ('b, 'e) evmutil_state \<Rightarrow> denom \<Rightarrow> evm_address \<Rightarrow> bool" where
  "deployed_for V st st' d c \<longleftrightarrow> us_Params st' = us_Params st \<and> us_bank st' = us_bank st \<and> us_deployed st' = kv_set (us_deployed st) d c \<and>
     length c = 20 \<and> hon V st' = (hon V st)(c := True) \<and> tok V st' c = tok_or_new V st d c \<and>
     (\<forall>c'. hon V st c' \<longrightarrow> c' \<noteq> c \<longrightarrow> tok V st' c' = tok V st c') \<and>
     (kv_get (us_deployed st) d = Some c \<or> kv_get (us_deployed st) d = None \<and> \<not> hon V st c)"

lemma GetOrDeploy_ok:
  assumes laws: "evm_laws S E V" and ok: "deployed_ok V st"
    and r: "GetOrDeployCosmosCoinERC20Contract S E st t = Inr (c, st')"
  shows "deployed_for V st st' (at_CosmosDenom t) c"
proof (cases "kv_get (us_deployed st) (at_CosmosDenom t)")
  case (Some c1)
  have "c1 = c" "st' = st" using r by (simp_all add: GetOrDeployCosmosCoinERC20Contract_def GetDeployed_Some [OF ok Some])
  moreover have "kv_set (us_deployed st) (at_CosmosDenom t) c1 = us_deployed st"
    using ok Some by (simp add: deployed_ok_def kv_set_same)
  moreover have "(hon V st)(c1 := True) = hon V st" using deployed_okD(2) [OF ok Some] by (simp add: fun_eq_iff)
  ultimately show ?thesis using Some deployed_okD(1) [OF ok Some] by (simp add: deployed_for_def tok_or_new_def)
next
  case None
  obtain st1 where s: "DeployKavaWrappedCosmosCoinERC20Contract S E st t = Inr (c, st1)"
      "SetDeployedCosmosCoinContract (Math S) st1 (at_CosmosDenom t) c = Inr st'"
    using r GetDeployed_None [OF None]
    by (cases "GetDeployedCosmosCoinContract st (at_CosmosDenom t)") (auto simp: GetOrDeployCosmosCoinERC20Contract_def split_paired_all)
  obtain d n g res e b where k: "PackDeploy E (at_Name t) (at_Symbol t) (ucast (at_Decimals t)) = Inr d"
      "GetSequence E (us_evm st) (ModuleEVMAddress S) = Inr n" "ApplyMessage E (us_evm st) (us_bank st) (ModuleEVMAddress S) None n g d = Inr (res, e, b)"
      "rs_VmError res = []" "st1 = st\<lparr>us_evm := e, us_bank := b\<rparr>" "c = CreateAddress E (ModuleEVMAddress S) n"
    using s(1) by (auto simp: DeployKavaWrappedCosmosCoinERC20Contract_def CallEVMWithData_def split_paired_all split: if_splits)
  note l = evm_lawsD(3) [OF laws, unfolded deploy_law_def, rule_format, OF k(1,3,4,2), folded k(6)]
  have "st' = st1\<lparr>us_deployed := kv_set (us_deployed st) (at_CosmosDenom t) c\<rparr>"
    using s(2) k(5) by (auto simp: SetDeployedCosmosCoinContract_def split: if_splits)
  then show ?thesis using l None k(5) by (simp add: deployed_for_def tok_or_new_def)
qed

text \<open>Coins in and tokens out, and back.\<close>

lemma effect_mint_burn:
  "erc20_effect from (erc20_mint y a) t = (shift (fst t) y (u256 a), snd t + u256 a)"
  "erc20_effect from (erc20_burn y a) t = (shift (fst t) y (- u256 a), snd t - u256 a)"
  by (cases t; simp)+

definition wrapped ::
    "'b sdk \<Rightarrow> 'e erc20_view \<Rightarrow> ('b, 'e) evmutil_state \<Rightarrow> ('b, 'e) evmutil_state \<Rightarrow> coin \<Rightarrow> evm_address \<Rightarrow> address \<Rightarrow> evm_address \<Rightarrow> bool" where
  "wrapped S V st st' k c x y \<longleftrightarrow> us_Params st' = us_Params st \<and> us_deployed st' = kv_set (us_deployed st) (Denom k) c \<and>
     ea_accounts (us_bank st') = ea_accounts (us_bank st) \<and> length c = 20 \<and> hon V st' = (hon V st)(c := True) \<and>
     tok V st' c = (shift (fst (tok_or_new V st (Denom k) c)) y (Amount k), snd (tok_or_new V st (Denom k) c) + Amount k) \<and>
     (\<forall>c'. hon V st c' \<longrightarrow> c' \<noteq> c \<longrightarrow> tok V st' c' = tok V st c') \<and>
     (kv_get (us_deployed st) (Denom k) = Some c \<or> kv_get (us_deployed st) (Denom k) = None \<and> \<not> hon V st c) \<and>
     (\<forall>w d. GetBalance S (bk st') w d = GetBalance S (bk st) w d + amt_at (ModuleAddress S evmutil_module) k w d - amt_at x k w d) \<and>
     (\<forall>d. GetSupply S (bk st') d = GetSupply S (bk st) d)"

lemma ConvertCosmosCoinToERC20_ok:
  assumes laws: "evm_laws S E V" and ok: "deployed_ok V st" and ne: "x \<noteq> ModuleAddress S evmutil_module"
    and r: "ConvertCosmosCoinToERC20 S E st x y k = Inr st'"
  obtains t c where "t \<in> set (ep_AllowedCosmosDenoms (us_Params st))" "at_CosmosDenom t = Denom k" "wrapped S V st st' k c x y" "0 \<le> Amount k"
proof -
  note sl = evm_lawsD(1) [OF laws]
  obtain t cs st1 c st2 res where s: "find (\<lambda>t. at_CosmosDenom t = Denom k) (ep_AllowedCosmosDenoms (us_Params st)) = Some t"
      "NewCoins S [k] = Inr cs" "on_bank st (\<lambda>b. SendCoinsFromAccountToModule S b x evmutil_module cs) = Inr st1"
      "GetOrDeployCosmosCoinERC20Contract S E st1 t = Inr (c, st2)" "CallEVM E st2 (ModuleEVMAddress S) c (erc20_mint y (Amount k)) = Inr (res, st')"
    using r by (auto simp: ConvertCosmosCoinToERC20_def GetAllowedTokenMetadata_def MintERC20_def split_paired_all split: option.splits)
  have t: "t \<in> set (ep_AllowedCosmosDenoms (us_Params st))" "at_CosmosDenom t = Denom k" using s(1) by (auto simp: find_Some_iff)
  note nn = NewCoins_one(2) [OF sl s(2)]
  note b = on_bank_sends(1) [OF sl s(2,3), unfolded only_bank_def]
  have "GetBalance S (bk st1) x (Denom k) = GetBalance S (bk st) x (Denom k) - Amount k" using b ne by (simp add: amt_at_def coin_amt_def)
  then have "Amount k \<le> GetBalance S (bk st) x (Denom k)" using balances(4) [OF sl, of "bk st1" x "Denom k"] by simp
  then have "Amount k < 2 ^ 256" using evm_lawsD(6) [OF laws balances(3) [OF sl, of "bk st" x "Denom k"]] by linarith
  then have u: "u256 (Amount k) = Amount k" using nn by (simp add: u256_small)
  have ok1: "deployed_ok V st1" using ok b by (simp add: deployed_ok_def)
  note g = GetOrDeploy_ok [OF laws ok1 s(4), unfolded deployed_for_def t(2)]
  have "hon V st2 c" using g by simp
  note m = CallEVM_ok(1) [OF laws this s(5), unfolded only_token_def]
  have "tok_or_new V st1 (Denom k) c = tok_or_new V st (Denom k) c" using b by (simp add: tok_or_new_def)
  then have "wrapped S V st st' k c x y"
    using b g m u by (simp add: wrapped_def effect_mint_burn)
  with t nn that show ?thesis by blast
qed

definition unwrapped ::
    "'b sdk \<Rightarrow> 'e erc20_view \<Rightarrow> ('b, 'e) evmutil_state \<Rightarrow> ('b, 'e) evmutil_state \<Rightarrow> coin \<Rightarrow> evm_address \<Rightarrow> evm_address \<Rightarrow> address \<Rightarrow> bool" where
  "unwrapped S V st st' k c x y \<longleftrightarrow> kv_get (us_deployed st) (Denom k) = Some c \<and>
     us_Params st' = us_Params st \<and> us_deployed st' = us_deployed st \<and> ea_accounts (us_bank st') = ea_accounts (us_bank st) \<and> hon V st' = hon V st \<and>
     tok V st' c = (shift (bal V st c) x (- Amount k), Supply V (us_evm st) c - Amount k) \<and>
     (\<forall>c'. hon V st c' \<longrightarrow> c' \<noteq> c \<longrightarrow> tok V st' c' = tok V st c') \<and>
     (\<forall>w d. GetBalance S (bk st') w d = GetBalance S (bk st) w d + amt_at y k w d - amt_at (ModuleAddress S evmutil_module) k w d) \<and>
     (\<forall>d. GetSupply S (bk st') d = GetSupply S (bk st) d) \<and> 0 \<le> Amount k \<and> Amount k \<le> bal V st c x"

lemma ConvertCosmosCoinFromERC20_ok:
  assumes laws: "evm_laws S E V" and ok: "deployed_ok V st"
    and r: "ConvertCosmosCoinFromERC20 S E st x y k = Inr st'"
  obtains c where "unwrapped S V st st' k c x y"
proof -
  note sl = evm_lawsD(1) [OF laws]
  have "kv_get (us_deployed st) (Denom k) \<noteq> None"
    using r GetDeployed_None [of st "Denom k"] by (cases "GetDeployedCosmosCoinContract st (Denom k)") (auto simp: ConvertCosmosCoinFromERC20_def split: if_splits)
  then obtain c where c: "kv_get (us_deployed st) (Denom k) = Some c" by blast
  obtain v st1 res st2 cs where s: "QueryERC20BalanceOf S E st c x = Inr (v, st1)" "Amount k \<le> v"
      "CallEVM E st1 (ModuleEVMAddress S) c (erc20_burn x (Amount k)) = Inr (res, st2)" "NewCoins S [k] = Inr cs"
      "on_bank st2 (\<lambda>b. SendCoinsFromModuleToAccount S b evmutil_module y cs) = Inr st'"
    using r by (auto simp: ConvertCosmosCoinFromERC20_def GetDeployed_Some [OF ok c] BurnERC20_def split_paired_all split: if_splits)
  note h = deployed_okD(2) [OF ok c]
  have q: "v = bal V st c x" "only_token V st st1 c (tok V st c)" using Query_ok(1) [OF laws h s(1)] by auto
  have h1: "hon V st1 c" using only_token_hon [OF q(2)] h by simp
  note m = only_token_trans [OF q(2) CallEVM_ok(1) [OF laws h1 s(3)], unfolded only_token_tok [OF q(2)] effect_mint_burn only_token_def]
  note nn = NewCoins_one(2) [OF sl s(4)]
  have "Amount k < 2 ^ 256" using s(2) q(1) evm_lawsD(5) [OF laws h, of x] by linarith
  then have u: "u256 (Amount k) = Amount k" using nn by (simp add: u256_small)
  note b = on_bank_sends(2) [OF sl s(4,5), unfolded only_bank_def]
  have "unwrapped S V st st' k c x y" unfolding unwrapped_def using c b m u nn s(2) q(1) by (simp add: token_def)
  then show ?thesis by (rule that)
qed

section \<open>Reachable states\<close>

text \<open>
  The chain starts with no wrapper contracts. Messages pass their stateless check; the module signs
  none, and the bank refuses transfers to it. The rest of the chain may change the bank and the EVM:
  nobody else mints the coins of an enabled pair, spends the module's tokens, mints wrapped tokens or
  pays the module in coins other than \<open>ukava\<close>, which backs the minor balances. Parameters are set by
  governance, which enables pairs whose contract follows the standard and whose coins are backed, and
  does not wrap \<open>ukava\<close>.
\<close>

definition params_sound :: "'b sdk \<Rightarrow> 'e erc20_view \<Rightarrow> ('b, 'e) evmutil_state \<Rightarrow> evmutil_Params \<Rightarrow> bool" where
  "params_sound S V st p \<longleftrightarrow>
     (\<forall>q\<in>set (ep_EnabledConversionPairs p). hon V st (GetAddress q) \<and>
        GetSupply S (bk st) (cp_Denom q) * factor (cp_Denom q) \<le> bal V st (GetAddress q) (ModuleEVMAddress S)) \<and>
     (\<forall>t\<in>set (ep_AllowedCosmosDenoms p). at_CosmosDenom t \<noteq> CosmosDenom)"

definition bank_respects :: "'b sdk \<Rightarrow> ('b, 'e) evmutil_state \<Rightarrow> 'b \<Rightarrow> bool" where
  "bank_respects S st b \<longleftrightarrow>
     (\<forall>q\<in>set (ep_EnabledConversionPairs (us_Params st)). GetSupply S b (cp_Denom q) \<le> GetSupply S (bk st) (cp_Denom q)) \<and>
     (\<forall>d. d \<noteq> CosmosDenom \<longrightarrow> GetBalance S b (ModuleAddress S evmutil_module) d = GetBalance S (bk st) (ModuleAddress S evmutil_module) d)"

definition evm_respects :: "'b sdk \<Rightarrow> 'e erc20_view \<Rightarrow> ('b, 'e) evmutil_state \<Rightarrow> 'e \<Rightarrow> bool" where
  "evm_respects S V st e \<longleftrightarrow> (\<forall>c. hon V st c \<longrightarrow> Honest V e c) \<and>
     (\<forall>q\<in>set (ep_EnabledConversionPairs (us_Params st)).
        bal V st (GetAddress q) (ModuleEVMAddress S) \<le> BalOf V e (GetAddress q) (ModuleEVMAddress S)) \<and>
     (\<forall>d c. kv_get (us_deployed st) d = Some c \<longrightarrow> Supply V e c = Supply V (us_evm st) c)"

inductive evmutil_msg :: "'b sdk \<Rightarrow> ('b, 'e, 'd) evm \<Rightarrow> (string \<Rightarrow> address result) \<Rightarrow> ('b, 'e) evmutil_state \<Rightarrow> ('b, 'e) evmutil_state \<Rightarrow> bool"
  for S E bech where
  coin_to_erc20: "MsgConvertCoinToERC20_ValidateBasic (Math S) E bech i r a = Inr () \<Longrightarrow> bech i \<noteq> Inr (ModuleAddress S evmutil_module) \<Longrightarrow>
    msg_ConvertCoinToERC20 S E bech st i r a = Inr st' \<Longrightarrow> evmutil_msg S E bech st st'"
| erc20_to_coin: "MsgConvertERC20ToCoin_ValidateBasic E bech i r c n = Inr () \<Longrightarrow> bech r \<noteq> Inr (ModuleAddress S evmutil_module) \<Longrightarrow>
    msg_ConvertERC20ToCoin S E bech st i r c n = Inr st' \<Longrightarrow> evmutil_msg S E bech st st'"
| cosmos_to_erc20: "MsgConvertCosmosCoinToERC20_ValidateBasic (Math S) E bech i r a = Inr () \<Longrightarrow> bech i \<noteq> Inr (ModuleAddress S evmutil_module) \<Longrightarrow>
    msg_ConvertCosmosCoinToERC20 S E bech st i r a = Inr st' \<Longrightarrow> evmutil_msg S E bech st st'"
| cosmos_from_erc20: "MsgConvertCosmosCoinFromERC20_ValidateBasic (Math S) E bech i r a = Inr () \<Longrightarrow> HexToAddress E i \<noteq> ModuleEVMAddress S \<Longrightarrow>
    bech r \<noteq> Inr (ModuleAddress S evmutil_module) \<Longrightarrow> msg_ConvertCosmosCoinFromERC20 S E bech st i r a = Inr st' \<Longrightarrow> evmutil_msg S E bech st st'"

inductive evmutil_reach :: "'b sdk \<Rightarrow> ('b, 'e, 'd) evm \<Rightarrow> 'e erc20_view \<Rightarrow> (string \<Rightarrow> address result) \<Rightarrow> ('b, 'e) evmutil_state \<Rightarrow> bool"
  for S E V bech where
  genesis: "evmutil_InitGenesis S st0 accounts p = Inr st \<Longrightarrow> us_deployed st0 = [] \<Longrightarrow> params_sound S V st p \<Longrightarrow>
    (\<And>d. d \<noteq> CosmosDenom \<Longrightarrow> GetBalance S (bk st) (ModuleAddress S evmutil_module) d = 0) \<Longrightarrow> evmutil_reach S E V bech st"
| msg: "evmutil_reach S E V bech st \<Longrightarrow> evmutil_msg S E bech st st' \<Longrightarrow> evmutil_reach S E V bech st'"
| params: "evmutil_reach S E V bech st \<Longrightarrow> evmutil_SetParams (Math S) st p = Inr st' \<Longrightarrow> params_sound S V st p \<Longrightarrow> evmutil_reach S E V bech st'"
| bank: "evmutil_reach S E V bech st \<Longrightarrow> bank_respects S st (ea_bank b) \<Longrightarrow> evmutil_reach S E V bech (st\<lparr>us_bank := b\<rparr>)"
| evm: "evmutil_reach S E V bech st \<Longrightarrow> evm_respects S V st e \<Longrightarrow> evmutil_reach S E V bech (st\<lparr>us_evm := e\<rparr>)"

section \<open>The invariant\<close>

definition pairs_valid :: "ConversionPair list \<Rightarrow> bool" where
  "pairs_valid ps \<longleftrightarrow> distinct (map cp_Denom ps) \<and> distinct (map GetAddress ps)"

definition wrapped_supply :: "'e erc20_view \<Rightarrow> ('b, 'e) evmutil_state \<Rightarrow> denom \<Rightarrow> int" where
  "wrapped_supply V st d = (case kv_get (us_deployed st) d of None \<Rightarrow> 0 | Some c \<Rightarrow> Supply V (us_evm st) c)"

definition evmutil_inv :: "'b sdk \<Rightarrow> 'e erc20_view \<Rightarrow> ('b, 'e) evmutil_state \<Rightarrow> bool" where
  "evmutil_inv S V st \<longleftrightarrow> pairs_valid (ep_EnabledConversionPairs (us_Params st)) \<and> params_sound S V st (us_Params st) \<and>
     deployed_ok V st \<and> kv_get (us_deployed st) CosmosDenom = None \<and>
     (\<forall>d. d \<noteq> CosmosDenom \<longrightarrow> GetBalance S (bk st) (ModuleAddress S evmutil_module) d = wrapped_supply V st d)"

lemma ConversionPairs_distinct:
  assumes "ConversionPairs_Validate m addrs denoms ps = Inr ()"
  shows "distinct (map cp_Denom ps) \<and> distinct (map GetAddress ps) \<and> set (map cp_Denom ps) \<inter> set denoms = {} \<and>
    set (map GetAddress ps) \<inter> set addrs = {} \<and> (\<forall>p\<in>set ps. GetAddress p = cp_KavaERC20Address p)"
  using assms
proof (induction m addrs denoms ps rule: ConversionPairs_Validate.induct)
  case (2 m addrs denoms p ps)
  then have p: "cp_KavaERC20Address p \<notin> set addrs" "cp_Denom p \<notin> set denoms" "ConversionPair_Validate m p = Inr ()"
      "ConversionPairs_Validate m (cp_KavaERC20Address p # addrs) (cp_Denom p # denoms) ps = Inr ()"
    by (auto split: if_splits)
  have "length (cp_KavaERC20Address p) = 20" using p(3) by (simp add: ConversionPair_Validate_def split: if_splits)
  then have g: "GetAddress p = cp_KavaERC20Address p" by (simp add: GetAddress_def BytesToAddress_20)
  show ?case using "2.IH" [OF p(1,2,3,4)] p(1,2) g by auto
qed simp

lemma params_valid:
  assumes "evmutil_Params_Validate m p = Inr ()"
  shows "pairs_valid (ep_EnabledConversionPairs p)"
  using assms ConversionPairs_distinct [of m "[]" "[]" "ep_EnabledConversionPairs p"]
  by (auto simp: evmutil_Params_Validate_def pairs_valid_def)

lemma pairs_validD:
  assumes "pairs_valid ps" "p \<in> set ps" "q \<in> set ps" "p \<noteq> q"
  shows "cp_Denom p \<noteq> cp_Denom q" "GetAddress p \<noteq> GetAddress q"
  using assms by (auto simp: pairs_valid_def distinct_map inj_on_def)

lemma inv_parts:
  assumes "evmutil_inv S V st"
  shows "pairs_honest V st" "deployed_ok V st"
  using assms by (auto simp: evmutil_inv_def pairs_honest_def params_sound_def)

lemma tokD: "tok V st' c = tok V st c \<Longrightarrow> bal V st' c = bal V st c \<and> Supply V (us_evm st') c = Supply V (us_evm st) c"
  by (simp add: token_def)

lemma params_soundI:
  assumes "params_sound S V st (us_Params st)" "us_Params st' = us_Params st" "\<And>c. hon V st c \<Longrightarrow> hon V st' c"
    "\<And>q. q \<in> set (ep_EnabledConversionPairs (us_Params st)) \<Longrightarrow>
       (GetSupply S (bk st') (cp_Denom q) - GetSupply S (bk st) (cp_Denom q)) * factor (cp_Denom q) \<le>
       bal V st' (GetAddress q) (ModuleEVMAddress S) - bal V st (GetAddress q) (ModuleEVMAddress S)"
  shows "params_sound S V st' (us_Params st')"
  unfolding params_sound_def
proof (intro conjI ballI)
  fix q assume "q \<in> set (ep_EnabledConversionPairs (us_Params st'))"
  then have q: "q \<in> set (ep_EnabledConversionPairs (us_Params st))" using assms(2) by simp
  then show "hon V st' (GetAddress q)" using assms(1,3) by (simp add: params_sound_def)
  have "GetSupply S (bk st) (cp_Denom q) * factor (cp_Denom q) \<le> bal V st (GetAddress q) (ModuleEVMAddress S)"
    using assms(1) q by (simp add: params_sound_def)
  then show "GetSupply S (bk st') (cp_Denom q) * factor (cp_Denom q) \<le> bal V st' (GetAddress q) (ModuleEVMAddress S)"
    using assms(4) [OF q] by (simp add: left_diff_distrib)
qed (use assms(1,2) in \<open>simp add: params_sound_def\<close>)

lemma converted_inv:
  assumes inv: "evmutil_inv S V st" and p: "p \<in> set (ep_EnabledConversionPairs (us_Params st))"
    and conv: "converted S V st st' p x y a z n" and z: "z \<noteq> ModuleAddress S evmutil_module"
    and m: "shift (shift (bal V st (GetAddress p)) x (- a)) y a (ModuleEVMAddress S) = bal V st (GetAddress p) (ModuleEVMAddress S) + n * factor (cp_Denom p)"
  shows "evmutil_inv S V st'"
proof -
  note c = conv [unfolded converted_def]
  have params: "params_sound S V st (us_Params st)" "pairs_valid (ep_EnabledConversionPairs (us_Params st))" "deployed_ok V st"
    using inv by (simp_all add: evmutil_inv_def)
  have sup: "Supply V (us_evm st') k = Supply V (us_evm st) k" if "hon V st k" for k
    using c that tokD [of V st' k st] by (cases "k = GetAddress p") (auto simp: token_def)
  have sound: "params_sound S V st' (us_Params st')"
  proof (rule params_soundI [OF params(1)])
    fix q assume q: "q \<in> set (ep_EnabledConversionPairs (us_Params st))"
    have h: "hon V st (GetAddress q)" using params(1) q by (simp add: params_sound_def)
    show "(GetSupply S (bk st') (cp_Denom q) - GetSupply S (bk st) (cp_Denom q)) * factor (cp_Denom q) \<le>
       bal V st' (GetAddress q) (ModuleEVMAddress S) - bal V st (GetAddress q) (ModuleEVMAddress S)"
    proof (cases "q = p")
      case True
      then show ?thesis using c m by (simp add: token_def coin_amt_def)
    next
      case False
      then have "cp_Denom q \<noteq> cp_Denom p" "GetAddress q \<noteq> GetAddress p" using pairs_validD [OF params(2) q p] by auto
      then show ?thesis using c h tokD [of V st' "GetAddress q" st] by (simp add: coin_amt_def)
    qed
  qed (use c in simp_all)
  have dep: "deployed_ok V st'" using params(3) c by (simp add: deployed_ok_def)
  have "wrapped_supply V st' d = wrapped_supply V st d" for d
    using c sup deployed_okD(2) [OF params(3), of d] by (auto simp: wrapped_supply_def split: option.splits)
  then show ?thesis using inv sound dep c z by (simp add: evmutil_inv_def amt_at_def)
qed

lemma wrapped_inv:
  assumes laws: "evm_laws S E V" and inv: "evmutil_inv S V st" and w: "wrapped S V st st' k c x y"
    and x: "x \<noteq> ModuleAddress S evmutil_module" and k: "Denom k \<noteq> CosmosDenom" "0 \<le> Amount k"
  shows "evmutil_inv S V st'"
proof -
  note c = w [unfolded wrapped_def]
  have params: "params_sound S V st (us_Params st)" "pairs_valid (ep_EnabledConversionPairs (us_Params st))" "deployed_ok V st"
    using inv by (simp_all add: evmutil_inv_def)
  have sound: "params_sound S V st' (us_Params st')"
  proof (rule params_soundI [OF params(1)])
    fix q assume q: "q \<in> set (ep_EnabledConversionPairs (us_Params st))"
    have h: "hon V st (GetAddress q)" using params(1) q by (simp add: params_sound_def)
    have "bal V st (GetAddress q) (ModuleEVMAddress S) \<le> bal V st' (GetAddress q) (ModuleEVMAddress S)"
    proof (cases "GetAddress q = c")
      case True
      then have "kv_get (us_deployed st) (Denom k) = Some c" using c h by auto
      then have "bal V st' c = shift (bal V st c) y (Amount k)" using c by (simp add: token_def tok_or_new_def)
      then show ?thesis using True k(2) by (simp add: shift_def)
    qed (use c h tokD [of V st' "GetAddress q" st] in simp)
    then show "(GetSupply S (bk st') (cp_Denom q) - GetSupply S (bk st) (cp_Denom q)) * factor (cp_Denom q) \<le>
       bal V st' (GetAddress q) (ModuleEVMAddress S) - bal V st (GetAddress q) (ModuleEVMAddress S)" using c by simp
  qed (use c in simp_all)
  have new: "kv_get (us_deployed st) d \<noteq> Some c" if "d \<noteq> Denom k" for d
    using c that deployed_okD(2,3) [OF params(3), of d c] by blast
  have dep: "deployed_ok V st'"
    using params(3) c new unfolding deployed_ok_def by (auto split: if_splits) 
  have "GetBalance S (bk st') (ModuleAddress S evmutil_module) d = wrapped_supply V st' d" if d: "d \<noteq> CosmosDenom" for d
  proof (cases "d = Denom k")
    case True
    have "wrapped_supply V st' d = wrapped_supply V st d + Amount k" using c True by (auto simp: wrapped_supply_def token_def tok_or_new_def)
    then show ?thesis using inv d c x True by (simp add: evmutil_inv_def amt_at_def coin_amt_def)
  next
    case False
    have "wrapped_supply V st' d = wrapped_supply V st d"
      using c False new [OF False] deployed_okD(2) [OF params(3), of d] by (auto simp: wrapped_supply_def split: option.splits dest: tokD)
    then show ?thesis using inv d c False by (simp add: evmutil_inv_def amt_at_def coin_amt_def)
  qed
  then show ?thesis using inv sound dep c k(1) by (simp add: evmutil_inv_def)
qed

lemma unwrapped_inv:
  assumes laws: "evm_laws S E V" and inv: "evmutil_inv S V st" and r: "ConvertCosmosCoinFromERC20 S E st x y k = Inr st'"
    and ne: "x \<noteq> ModuleEVMAddress S" "y \<noteq> ModuleAddress S evmutil_module"
  shows "evmutil_inv S V st'"
proof -
  have params: "params_sound S V st (us_Params st)" "deployed_ok V st" using inv by (simp_all add: evmutil_inv_def)
  obtain c where "unwrapped S V st st' k c x y" using ConvertCosmosCoinFromERC20_ok [OF laws params(2) r] by blast
  note c = this [unfolded unwrapped_def]
  have sound: "params_sound S V st' (us_Params st')"
  proof (rule params_soundI [OF params(1)])
    fix q assume q: "q \<in> set (ep_EnabledConversionPairs (us_Params st))"
    have h: "hon V st (GetAddress q)" using params(1) q by (simp add: params_sound_def)
    have "bal V st' (GetAddress q) (ModuleEVMAddress S) = bal V st (GetAddress q) (ModuleEVMAddress S)"
      using c h ne(1) tokD [of V st' "GetAddress q" st] by (cases "GetAddress q = c") (auto simp: token_def shift_def)
    then show "(GetSupply S (bk st') (cp_Denom q) - GetSupply S (bk st) (cp_Denom q)) * factor (cp_Denom q) \<le>
       bal V st' (GetAddress q) (ModuleEVMAddress S) - bal V st (GetAddress q) (ModuleEVMAddress S)" using c by simp
  qed (use c in simp_all)
  have dep: "deployed_ok V st'" using params(2) c by (simp add: deployed_ok_def)
  have "wrapped_supply V st' d = wrapped_supply V st d - coin_amt k d" for d
  proof (cases "d = Denom k")
    case False
    have "tok V st' c' = tok V st c'" if "kv_get (us_deployed st) d = Some c'" for c'
      using c deployed_okD(2) [OF params(2) that] deployed_okD(3) [OF params(2) that, of "Denom k"] False by auto
    then show ?thesis using False c by (auto simp: wrapped_supply_def coin_amt_def split: option.splits dest: tokD)
  qed (use c in \<open>simp add: wrapped_supply_def token_def coin_amt_def\<close>)
  then show ?thesis using inv sound dep c ne(2) by (simp add: evmutil_inv_def amt_at_def)
qed

lemma evmutil_msg_inv:
  assumes laws: "evm_laws S E V" and inv: "evmutil_inv S V st" and step: "evmutil_msg S E bech st st'"
  shows "evmutil_inv S V st'"
  using step
proof cases
  case (coin_to_erc20 i r a)
  then obtain x y where xy: "bech i = Inr x" "x \<noteq> ModuleAddress S evmutil_module" "ConvertCoinToERC20 S E st x y a = Inr st'"
    by (auto simp: msg_ConvertCoinToERC20_def)
  have a: "0 < Amount a" using coin_to_erc20(1) by (auto simp: MsgConvertCoinToERC20_ValidateBasic_def coin_IsValid_def split: if_splits)
  obtain p where p: "p \<in> set (ep_EnabledConversionPairs (us_Params st))" "cp_Denom p = Denom a"
      "converted S V st st' p (ModuleEVMAddress S) y (Amount a * factor (Denom a)) x (- Amount a)" "y \<noteq> ModuleEVMAddress S"
    using ConvertCoinToERC20_ok [OF laws inv_parts(1) [OF inv] a xy(3)] by metis
  show ?thesis by (rule converted_inv [OF inv p(1,3) xy(2)]) (use p(2,4) in \<open>simp add: shift_def\<close>)
next
  case (erc20_to_coin i r c n)
  then obtain x y c' where xy: "bech r = Inr y" "y \<noteq> ModuleAddress S evmutil_module" "ConvertERC20ToCoin S E st x y c' n = Inr st'"
    by (auto simp: msg_ConvertERC20ToCoin_def)
  have n: "0 < n" using erc20_to_coin(1) by (auto simp: MsgConvertERC20ToCoin_ValidateBasic_def split: if_splits)
  obtain p k where p: "p \<in> set (ep_EnabledConversionPairs (us_Params st))"
      "converted S V st st' p x (ModuleEVMAddress S) (k * factor (cp_Denom p)) y k" "x \<noteq> ModuleEVMAddress S"
    using ConvertERC20ToCoin_ok [OF laws inv_parts(1) [OF inv] n xy(3)] by metis
  show ?thesis by (rule converted_inv [OF inv p(1,2) xy(2)]) (use p(3) in \<open>simp add: shift_def\<close>)
next
  case (cosmos_to_erc20 i r a)
  then obtain x y where xy: "x \<noteq> ModuleAddress S evmutil_module" "ConvertCosmosCoinToERC20 S E st x y a = Inr st'"
    by (auto simp: msg_ConvertCosmosCoinToERC20_def)
  obtain t c where t: "t \<in> set (ep_AllowedCosmosDenoms (us_Params st))" "at_CosmosDenom t = Denom a" "wrapped S V st st' a c x y" "0 \<le> Amount a"
    using ConvertCosmosCoinToERC20_ok [OF laws inv_parts(2) [OF inv] xy] by metis
  have "Denom a \<noteq> CosmosDenom" using inv t(1,2) by (auto simp: evmutil_inv_def params_sound_def)
  then show ?thesis using wrapped_inv [OF laws inv t(3) xy(1)] t(4) by simp
next
  case (cosmos_from_erc20 i r a)
  then obtain x y where xy: "x \<noteq> ModuleEVMAddress S" "y \<noteq> ModuleAddress S evmutil_module" "ConvertCosmosCoinFromERC20 S E st x y a = Inr st'"
    by (auto simp: msg_ConvertCosmosCoinFromERC20_def NewInternalEVMAddressFromString_def split: if_splits)
  show ?thesis by (rule unwrapped_inv [OF laws inv xy(3,1,2)])
qed

lemma wrapped_supply_upd:
  "wrapped_supply V (st\<lparr>us_Params := p\<rparr>) = wrapped_supply V st" "wrapped_supply V (st\<lparr>us_bank := b\<rparr>) = wrapped_supply V st"
  by (simp_all add: wrapped_supply_def fun_eq_iff split: option.split)

lemma evmutil_reach_inv:
  assumes laws: "evm_laws S E V"
  shows "evmutil_reach S E V bech st \<Longrightarrow> evmutil_inv S V st"
proof (induction rule: evmutil_reach.induct)
  case (genesis st0 accounts p st)
  have v: "evmutil_Params_Validate (Math S) p = Inr ()" "us_Params st = p" "us_deployed st = []"
    using genesis(1,2) by (auto simp: evmutil_InitGenesis_def evmutil_SetParams_def panic_on_err_def split: sum.splits fault.splits)
  show ?case using params_valid [OF v(1)] genesis(3,4) v(2,3) by (simp add: evmutil_inv_def deployed_ok_def wrapped_supply_def)
next
  case (msg st st')
  then show ?case using evmutil_msg_inv [OF laws] by blast
next
  case (params st p st')
  have v: "evmutil_Params_Validate (Math S) p = Inr ()" "st' = st\<lparr>us_Params := p\<rparr>"
    using params(2) by (auto simp: evmutil_SetParams_def panic_on_err_def split: sum.splits fault.splits)
  have "params_sound S V st' p" using params(3) by (simp add: v(2) params_sound_def)
  then show ?case using params(4) params_valid [OF v(1)] by (simp add: v(2) evmutil_inv_def deployed_ok_def wrapped_supply_upd)
next
  case (bank st b)
  let ?st' = "st\<lparr>us_bank := b\<rparr>"
  have s: "params_sound S V ?st' (us_Params ?st')"
    by (rule params_soundI [of S V st]) (use bank in \<open>auto simp: evmutil_inv_def bank_respects_def mult_nonpos_nonneg factor_pos less_imp_le\<close>)
  then show ?case using bank by (simp add: evmutil_inv_def deployed_ok_def wrapped_supply_upd bank_respects_def)
next
  case (evm st e)
  let ?st' = "st\<lparr>us_evm := e\<rparr>"
  have s: "params_sound S V ?st' (us_Params ?st')"
    by (rule params_soundI [of S V st]) (use evm in \<open>auto simp: evmutil_inv_def evm_respects_def\<close>)
  have d: "deployed_ok V ?st'" using evm unfolding evmutil_inv_def evm_respects_def deployed_ok_def by simp
  have "wrapped_supply V ?st' k = wrapped_supply V st k" for k
    using evm by (auto simp: wrapped_supply_def evm_respects_def split: option.splits)
  then show ?case using evm.IH s d by (simp add: evmutil_inv_def)
qed

section \<open>The registered invariants\<close>

definition same_view :: "'e erc20_view \<Rightarrow> ('b, 'e) evmutil_state \<Rightarrow> ('b, 'e) evmutil_state \<Rightarrow> bool" where
  "same_view V st st' \<longleftrightarrow> us_bank st' = us_bank st \<and> hon V st' = hon V st \<and> (\<forall>c. hon V st c \<longrightarrow> tok V st' c = tok V st c)"

lemma same_view_trans: "same_view V st1 st2 \<Longrightarrow> same_view V st2 st3 \<Longrightarrow> same_view V st1 st3"
  by (auto simp: same_view_def)

lemma only_token_same: "only_token V st st' c (tok V st c) \<Longrightarrow> same_view V st st'"
  unfolding only_token_def same_view_def by metis

lemma check_pairs_ok:
  assumes laws: "evm_laws S E V"
  shows "same_view V st0 st \<Longrightarrow> check_pairs S E False ps st = Inr broken \<Longrightarrow>
    (\<And>q. q \<in> set ps \<Longrightarrow> hon V st0 (GetAddress q) \<and>
       GetSupply S (bk st0) (cp_Denom q) * factor (cp_Denom q) \<le> bal V st0 (GetAddress q) (ModuleEVMAddress S)) \<Longrightarrow> \<not> broken"
proof (induction ps arbitrary: st)
  case (Cons p ps)
  have p: "hon V st0 (GetAddress p)"
    "GetSupply S (bk st0) (cp_Denom p) * factor (cp_Denom p) \<le> bal V st0 (GetAddress p) (ModuleEVMAddress S)" using Cons.prems(3) [of p] by auto
  have h: "hon V st (GetAddress p)" using p(1) Cons.prems(1) by (simp add: same_view_def)
  obtain v st1 where s: "QueryERC20BalanceOf S E st (GetAddress p) (ModuleEVMAddress S) = Inr (v, st1)"
      "(if GetSupply S (bk st1) (cp_Denom p) > v then Inr True else check_pairs S E False ps st1) = Inr broken"
    using Cons.prems(2) by (auto simp: panic_on_err_def split_paired_all split: sum.splits fault.splits)
  have q: "v = bal V st (GetAddress p) (ModuleEVMAddress S)" "same_view V st st1"
    using Query_ok(1) [OF laws h s(1)] only_token_same by blast+
  have sv: "same_view V st0 st1" by (rule same_view_trans [OF Cons.prems(1) q(2)])
  have v: "v = bal V st0 (GetAddress p) (ModuleEVMAddress S)" using q(1) Cons.prems(1) p(1) by (simp add: same_view_def token_def)
  have "0 \<le> v" unfolding v by (rule evm_lawsD(4) [OF laws p(1)])
  have "GetSupply S (bk st0) (cp_Denom p) \<le> v"
  proof (rule ccontr)
    assume n: "\<not> ?thesis"
    then have "GetSupply S (bk st0) (cp_Denom p) * 1 \<le> GetSupply S (bk st0) (cp_Denom p) * factor (cp_Denom p)"
      using \<open>0 \<le> v\<close> factor_pos [of "cp_Denom p"] by (intro mult_left_mono) auto
    then show False using n p(2) v by simp
  qed
  then have "check_pairs S E False ps st1 = Inr broken" using s(2) sv by (simp add: same_view_def split: if_splits)
  from Cons.IH [OF sv this] Cons.prems(3) show ?case by simp
qed simp

lemma check_deployed_ok:
  assumes laws: "evm_laws S E V"
  shows "same_view V st0 st \<Longrightarrow> check_deployed S E False ds st = Inr broken \<Longrightarrow>
    (\<And>d c. (d, c) \<in> set ds \<Longrightarrow> length c = 20 \<and> hon V st0 c \<and>
       Supply V (us_evm st0) c = GetBalance S (bk st0) (ModuleAddress S evmutil_module) d) \<Longrightarrow> \<not> broken"
proof (induction ds arbitrary: st)
  case (Cons x ds)
  obtain d c where x: "x = (d, c)" by fastforce
  have p: "length c = 20" "hon V st0 c" "Supply V (us_evm st0) c = GetBalance S (bk st0) (ModuleAddress S evmutil_module) d"
    using Cons.prems(3) [of d c] x by auto
  have h: "hon V st c" using p(2) Cons.prems(1) by (simp add: same_view_def)
  obtain v st1 where s: "QueryERC20TotalSupply S E st c = Inr (v, st1)"
      "(if v \<noteq> GetBalance S (bk st) (ModuleAddress S evmutil_module) d then Inr True else check_deployed S E False ds st1) = Inr broken"
    using Cons.prems(2) p(1) by (auto simp: x panic_on_err_def Let_def BytesToAddress_20 split_paired_all split: sum.splits fault.splits if_splits)
  have q: "v = Supply V (us_evm st) c" "same_view V st st1" using Query_ok(2) [OF laws h s(1)] only_token_same by blast+
  have sv: "same_view V st0 st1" by (rule same_view_trans [OF Cons.prems(1) q(2)])
  have "v = GetBalance S (bk st) (ModuleAddress S evmutil_module) d" using q(1) p(2,3) Cons.prems(1) by (simp add: same_view_def token_def)
  then have "check_deployed S E False ds st1 = Inr broken" using s(2) by simp
  from Cons.IH [OF sv this] Cons.prems(3) show ?case by (meson list.set_intros(2))
qed simp

lemma same_view_refl: "same_view V st st" by (simp add: same_view_def)

section \<open>The claims\<close>

text \<open>
  C14: In every reachable state the coins of an enabled pair are backed: the module's balance in the
  pair's contract covers the supply of the coin, scaled to the token's decimals. The invariant
  \<open>backed-conversion-coins\<close> therefore never reports a violation.
\<close>

theorem conversion_pairs_backed:
  assumes "evm_laws S E V" "evmutil_reach S E V bech st"
  shows "(\<forall>p\<in>set (ep_EnabledConversionPairs (us_Params st)).
      GetSupply S (ea_bank (us_bank st)) (cp_Denom p) * factor (cp_Denom p) \<le> BalOf V (us_evm st) (GetAddress p) (ModuleEVMAddress S)) \<and>
    BackedCoinsInvariant S E False st \<noteq> Inr True"
proof -
  have "params_sound S V st (us_Params st)" using evmutil_reach_inv [OF assms] by (simp add: evmutil_inv_def)
  then show ?thesis
    using check_pairs_ok [OF assms(1) same_view_refl] by (auto simp: params_sound_def BackedCoinsInvariant_def)
qed

text \<open>
  C13: In every reachable state the supply of each wrapper contract equals the module's balance of the
  coin it wraps, whether the contract was deployed by the running conversion or before; the module
  holds no coin (but \<open>ukava\<close>) that has no contract, and the invariant \<open>cosmos-coins-fully-backed\<close>
  never reports a violation.
\<close>

theorem wrapped_coins_backed:
  assumes "evm_laws S E V" "evmutil_reach S E V bech st"
  shows "(\<forall>d. d \<noteq> CosmosDenom \<longrightarrow> GetBalance S (ea_bank (us_bank st)) (ModuleAddress S evmutil_module) d =
      (case kv_get (us_deployed st) d of None \<Rightarrow> 0 | Some c \<Rightarrow> Supply V (us_evm st) c)) \<and>
    CosmosCoinsFullyBackedInvariant S E False st \<noteq> Inr True"
proof -
  note inv = evmutil_reach_inv [OF assms, unfolded evmutil_inv_def]
  have "length c = 20 \<and> hon V st c \<and> Supply V (us_evm st) c = GetBalance S (bk st) (ModuleAddress S evmutil_module) d"
    if "(d, c) \<in> set (us_deployed st)" for d c
  proof -
    have g: "kv_get (us_deployed st) d = Some c" using inv that by (simp add: deployed_ok_def kv_ok_def strict_sorted_iff)
    moreover have "d \<noteq> CosmosDenom" using g inv by auto
    ultimately show ?thesis using inv by (simp add: deployed_ok_def wrapped_supply_def)
  qed
  then have "CosmosCoinsFullyBackedInvariant S E False st \<noteq> Inr True"
    using check_deployed_ok [OF assms(1) same_view_refl] unfolding CosmosCoinsFullyBackedInvariant_def by blast
  then show ?thesis using inv by (simp add: wrapped_supply_def)
qed

text \<open>
  C35: Converting tokens to coins and the coins back is a round trip. The first step takes the whole
  coins the tokens are worth, never more than asked and leaving less than one coin's worth; after the
  second every token balance, every coin balance and every supply is what it was.
\<close>

theorem conversion_round_trip:
  assumes laws: "evm_laws S E V" and reach: "evmutil_reach S E V bech st" and a: "0 < amount"
    and pair: "GetEnabledConversionPairFromERC20Address st c = Inr p"
    and there: "ConvertERC20ToCoin S E st x y c amount = Inr st1"
    and again: "ConvertCoinToERC20 S E st1 y x (Coin (cp_Denom p) (amount div factor (cp_Denom p))) = Inr st2"
  shows "amount - factor (cp_Denom p) < amount div factor (cp_Denom p) * factor (cp_Denom p) \<and>
    amount div factor (cp_Denom p) * factor (cp_Denom p) \<le> amount \<and>
    BalOf V (us_evm st1) (GetAddress p) x = BalOf V (us_evm st) (GetAddress p) x - amount div factor (cp_Denom p) * factor (cp_Denom p) \<and>
    GetBalance S (ea_bank (us_bank st1)) y (cp_Denom p) = GetBalance S (ea_bank (us_bank st)) y (cp_Denom p) + amount div factor (cp_Denom p) \<and>
    (\<forall>k. Honest V (us_evm st) k \<longrightarrow> token V (us_evm st2) k = token V (us_evm st) k) \<and>
    (\<forall>w d. GetBalance S (ea_bank (us_bank st2)) w d = GetBalance S (ea_bank (us_bank st)) w d) \<and>
    (\<forall>d. GetSupply S (ea_bank (us_bank st2)) d = GetSupply S (ea_bank (us_bank st)) d)"
proof -
  have inv: "evmutil_inv S V st" by (rule evmutil_reach_inv [OF laws reach])
  let ?n = "amount div factor (cp_Denom p)"
  obtain q n where q: "q \<in> set (ep_EnabledConversionPairs (us_Params st))" "cp_KavaERC20Address q = c" "n = amount div factor (cp_Denom q)" "0 < n"
      "converted S V st st1 q x (ModuleEVMAddress S) (n * factor (cp_Denom q)) y n" "x \<noteq> ModuleEVMAddress S"
    by (rule ConvertERC20ToCoin_ok [OF laws inv_parts(1) [OF inv] a there])
  have p: "p \<in> set (ep_EnabledConversionPairs (us_Params st))" "cp_KavaERC20Address p = c"
    using pair by (auto simp: GetEnabledConversionPairFromERC20Address_def find_Some_iff split: option.splits)
  have qp: "q = p" using pairs_validD(2) [of "ep_EnabledConversionPairs (us_Params st)" q p] inv q(1,2) p by (auto simp: evmutil_inv_def GetAddress_def)
  have nn: "n = ?n" using q(3) by (simp add: qp)
  note c1 = q(5) [unfolded qp nn converted_def]
  have h1: "pairs_honest V st1" using inv_parts(1) [OF inv] c1 by (simp add: pairs_honest_def)
  have n: "0 < Amount (Coin (cp_Denom p) ?n)" using q(4) nn by simp
  obtain r where r: "r \<in> set (ep_EnabledConversionPairs (us_Params st1))" "cp_Denom r = cp_Denom p"
      "converted S V st1 st2 r (ModuleEVMAddress S) x (?n * factor (cp_Denom p)) y (- ?n)"
    by (rule ConvertCoinToERC20_ok [OF laws h1 n again]) simp
  have rp: "r = p" using pairs_validD(1) [of "ep_EnabledConversionPairs (us_Params st)" r p] inv r(1,2) p(1) c1 by (auto simp: evmutil_inv_def)
  note c2 = r(3) [unfolded rp converted_def]
  have "tok V st2 k = tok V st k" if "hon V st k" for k
    using c1 c2 that q(6) by (cases "k = GetAddress p") (auto simp: token_def shift_def)
  moreover have "amount - factor (cp_Denom p) < ?n * factor (cp_Denom p)" "?n * factor (cp_Denom p) \<le> amount"
    using factor_pos [of "cp_Denom p"] pos_mod_bound [of "factor (cp_Denom p)" amount] pos_mod_sign [of "factor (cp_Denom p)" amount]
      div_mult_mod_eq [of amount "factor (cp_Denom p)"] by linarith+
  ultimately show ?thesis using c1 c2 q(6) by (simp add: token_def shift_def amt_at_def coin_amt_def)
qed

section \<open>A reference EVM\<close>

text \<open>An EVM that knows only ERC20 contracts, with call data that is not encoded; it satisfies the laws.\<close>

type_synonym ref_token = "(evm_address \<times> int) list \<times> int"

record ref_evm_state =
  re_tokens :: "(evm_address \<times> ref_token) list"
  re_seq :: nat

datatype ref_data = RCall erc20_call | RDeploy string string "8 word" | RRet int

definition fits :: "int \<Rightarrow> bool" where "fits v \<longleftrightarrow> 0 \<le> v \<and> v < 2 ^ 256"

definition rget :: "(evm_address \<times> int) list \<Rightarrow> evm_address \<Rightarrow> int" where
  "rget bs x = (case map_of bs x of None \<Rightarrow> 0 | Some v \<Rightarrow> if fits v then v else 0)"

definition rput :: "(evm_address \<times> int) list \<Rightarrow> evm_address \<Rightarrow> int \<Rightarrow> (evm_address \<times> int) list" where
  "rput bs x v = (x, v) # kv_del bs x"

definition rset :: "(evm_address \<times> ref_token) list \<Rightarrow> evm_address \<Rightarrow> ref_token \<Rightarrow> (evm_address \<times> ref_token) list" where
  "rset ts c t = map (\<lambda>(k, u). (k, if k = c then t else u)) ts"

lemma map_of_rput: "map_of (rput bs x v) = (map_of bs)(x \<mapsto> v)"
  by (simp add: rput_def)

lemma map_of_rset: "map_of (rset ts c t) k = (if k = c \<and> map_of ts c \<noteq> None then Some t else map_of ts k)"
  by (induction ts) (auto simp: rset_def)

definition radd :: "ref_token \<Rightarrow> evm_address \<Rightarrow> int \<Rightarrow> ref_token option" where
  "radd t x v = (if fits (rget (fst t) x + v) then Some (rput (fst t) x (rget (fst t) x + v), snd t) else None)"

fun ref_call :: "evm_address \<Rightarrow> erc20_call \<Rightarrow> ref_token \<Rightarrow> (int \<times> ref_token) option" where
  "ref_call from (balanceOf x) t = Some (rget (fst t) x, t)"
| "ref_call from totalSupply t = Some (snd t, t)"
| "ref_call from (transfer y a) t =
     (case radd t from (- u256 a) of None \<Rightarrow> None | Some t1 \<Rightarrow> map_option (\<lambda>t2. (1, t2)) (radd t1 y (u256 a)))"
| "ref_call from (erc20_mint y a) t = map_option (\<lambda>t1. (1, (fst t1, snd t1 + u256 a))) (radd t y (u256 a))"
| "ref_call from (erc20_burn x a) t = map_option (\<lambda>t1. (1, (fst t1, snd t1 - u256 a))) (radd t x (- u256 a))"

definition ref_fail :: "ref_data evm_response" where
  "ref_fail = \<lparr>rs_VmError = ''execution reverted'', rs_Ret = RRet 0, rs_Logs = []\<rparr>"

definition ref_create :: "evm_address \<Rightarrow> nat \<Rightarrow> evm_address" where
  "ref_create from n = ''wrapper-contract-00'' @ [char_of (48 + n)]"

fun ref_apply :: "ref_evm_state \<Rightarrow> 'b evm_bank_state \<Rightarrow> evm_address \<Rightarrow> evm_address option \<Rightarrow> nat \<Rightarrow> nat \<Rightarrow> ref_data \<Rightarrow>
    (ref_data evm_response \<times> ref_evm_state \<times> 'b evm_bank_state) result" where
  "ref_apply e b from (Some c) n g (RCall call) =
     (case map_of (re_tokens e) c of None \<Rightarrow> Inr (ref_fail, e, b)
      | Some t \<Rightarrow> (case ref_call from call t of None \<Rightarrow> Inr (ref_fail, e, b)
          | Some (v, t') \<Rightarrow> Inr (\<lparr>rs_VmError = [], rs_Ret = RRet v, rs_Logs = []\<rparr>, e\<lparr>re_tokens := rset (re_tokens e) c t'\<rparr>, b)))"
| "ref_apply e b from None n g (RDeploy nm sy dc) =
     (if map_of (re_tokens e) (ref_create from n) \<noteq> None then Inr (ref_fail, e, b)
      else Inr (\<lparr>rs_VmError = [], rs_Ret = RRet 0, rs_Logs = []\<rparr>,
        e\<lparr>re_tokens := (ref_create from n, ([], 0)) # re_tokens e, re_seq := re_seq e + 1\<rparr>, b))"
| "ref_apply e b from to n g d = Inr (ref_fail, e, b)"

definition ref_evm :: "(ledger, ref_evm_state, ref_data) evm" where
  "ref_evm = \<lparr>
     GetSequence = (\<lambda>e a. Inr (re_seq e)), EstimateGas = (\<lambda>e b from to d. Inr 21000), ApplyMessage = ref_apply,
     CreateAddress = ref_create, Pack = (\<lambda>call. Inr (RCall call)), PackDeploy = (\<lambda>nm sy dc. Inr (RDeploy nm sy dc)),
     Unpack = (\<lambda>k d. case d of RRet v \<Rightarrow> Inr [AbiInt v] | _ \<Rightarrow> Inl (Err ''abi'')), DataLen = (\<lambda>d. 32), ApprovalHash = ''approval'',
     IsHexAddress = (\<lambda>s. length s = 20), HexToAddress = (\<lambda>s. s)\<rparr>"

definition ref_view :: "ref_evm_state erc20_view" where
  "ref_view = \<lparr>
     Honest = (\<lambda>e c. map_of (re_tokens e) c \<noteq> None),
     BalOf = (\<lambda>e c. case map_of (re_tokens e) c of None \<Rightarrow> \<lambda>_. 0 | Some t \<Rightarrow> rget (fst t)),
     Supply = (\<lambda>e c. case map_of (re_tokens e) c of None \<Rightarrow> 0 | Some t \<Rightarrow> snd t)\<rparr>"

lemma radd_get: "radd t x v = Some t' \<Longrightarrow> rget (fst t') = shift (rget (fst t)) x v \<and> snd t' = snd t"
  by (auto simp: radd_def rget_def map_of_rput shift_def fun_eq_iff split: if_splits option.splits)

lemma ref_call_ok:
  assumes "ref_call from call t = Some (v, t')"
  shows "(rget (fst t'), snd t') = erc20_effect from call (rget (fst t), snd t)" "erc20_read call (rget (fst t), snd t) = Some (k, w) \<Longrightarrow> w = v"
proof -
  show "(rget (fst t'), snd t') = erc20_effect from call (rget (fst t), snd t)"
    using assms by (cases call) (auto split: option.splits dest!: radd_get)
  show "erc20_read call (rget (fst t), snd t) = Some (k, w) \<Longrightarrow> w = v" using assms by (cases call) auto
qed

lemma ref_evm_laws: "evm_laws ref_sdk ref_evm ref_view"
proof -
  have "call_law ref_evm ref_view"
    unfolding call_law_def
  proof (intro allI impI)
    fix e b "from" c n g call d res e' b'
    assume a: "Honest ref_view e c" "Pack ref_evm call = Inr d" "ApplyMessage ref_evm e b from (Some c) n g d = Inr (res, e', b')" "rs_VmError res = []"
    obtain t where t: "map_of (re_tokens e) c = Some t" using a(1) by (auto simp: ref_view_def)
    obtain v t' where r: "ref_call from call t = Some (v, t')" "e' = e\<lparr>re_tokens := rset (re_tokens e) c t'\<rparr>" "b' = b" "rs_Ret res = RRet v"
      using a(2-4) t by (auto simp: ref_evm_def ref_fail_def split: option.splits)
    show "b' = b \<and> Honest ref_view e' = Honest ref_view e \<and> token ref_view e' c = erc20_effect from call (token ref_view e c) \<and>
       (\<forall>c'. Honest ref_view e c' \<longrightarrow> c' \<noteq> c \<longrightarrow> token ref_view e' c' = token ref_view e c') \<and>
       (\<forall>k v. erc20_read call (token ref_view e c) = Some (k, v) \<longrightarrow> Unpack ref_evm k (rs_Ret res) = Inr [AbiInt v])"
      using r t ref_call_ok [OF r(1)] by (auto simp: token_def ref_view_def ref_evm_def map_of_rset fun_eq_iff)
  qed
  moreover have "deploy_law ref_evm ref_view"
    unfolding deploy_law_def
    by (auto simp: ref_evm_def ref_view_def token_def ref_fail_def ref_create_def rget_def fun_eq_iff split: if_splits)
  moreover have "balance_law ref_sdk ref_view"
    by (auto simp: balance_law_def ref_view_def rget_def fits_def ref_sdk_def ref_math_def split: option.splits)
  ultimately show ?thesis by (simp add: evm_laws_def ref_sdk_laws)
qed

section \<open>A small chain\<close>

definition ex_pair :: ConversionPair where
  "ex_pair = \<lparr>cp_KavaERC20Address = ''bnb-contract-address'', cp_Denom = ''bnb''\<rparr>"

definition ex_params :: evmutil_Params where
  "ex_params = \<lparr>ep_EnabledConversionPairs = [ex_pair],
     ep_AllowedCosmosDenoms = [\<lparr>at_CosmosDenom = ''hard'', at_Name = ''Hard'', at_Symbol = ''HARD'', at_Decimals = 6\<rparr>]\<rparr>"

definition ex_conv0 :: "(ledger, ref_evm_state) evmutil_state" where
  "ex_conv0 = \<lparr>us_Params = \<lparr>ep_EnabledConversionPairs = [], ep_AllowedCosmosDenoms = []\<rparr>, us_deployed = [],
     us_bank = \<lparr>ea_accounts = [], ea_bank = \<lparr>lbal = [((''alice'', ''hard''), 50)], lsupply = [(''hard'', 50)]\<rparr>\<rparr>,
     us_evm = \<lparr>re_tokens = [(''bnb-contract-address'', ([(''alice-on-the-evm-20b'', 250000000007)], 250000000007))], re_seq = 1\<rparr>\<rparr>"

definition ex_conv :: "(ledger, ref_evm_state) evmutil_state" where
  "ex_conv = ex_conv0\<lparr>us_Params := ex_params\<rparr>"

definition ex_conv_bech :: "string \<Rightarrow> address result" where
  "ex_conv_bech s = (if s = [] then Inl (Err ''empty address'') else Inr s)"

lemma ex_conv_reach: "evmutil_reach ref_sdk ref_evm ref_view ex_conv_bech ex_conv"
proof (rule evmutil_reach.genesis)
  show "evmutil_InitGenesis ref_sdk ex_conv0 [] ex_params = Inr ex_conv" by code_simp
  show "us_deployed ex_conv0 = []" by (simp add: ex_conv0_def)
  show "params_sound ref_sdk ref_view ex_conv ex_params" by code_simp
  show "GetBalance ref_sdk (bk ex_conv) (ModuleAddress ref_sdk evmutil_module) d = 0" for d
    by (simp add: ref_sdk_def ex_conv_def ex_conv0_def lget_def module_address_def)
qed

text \<open>Alice locks tokens worth 25 coins, and then wraps 20 coins of another kind.\<close>

definition ex_lock1 :: "(ledger, ref_evm_state) evmutil_state" where
  "ex_lock1 = ex_conv\<lparr>us_evm := \<lparr>re_tokens = [(''bnb-contract-address'',
     ([(replicate 6 (CHR 0x00) @ ''module/evmutil'', 250000000000), (''alice-on-the-evm-20b'', 7)], 250000000007))], re_seq = 1\<rparr>\<rparr>"

definition ex_locked :: "(ledger, ref_evm_state) evmutil_state" where
  "ex_locked = ex_lock1\<lparr>us_bank := \<lparr>ea_accounts = [], ea_bank = \<lparr>lbal =
     [((''alice'', ''bnb''), 25), ((''module/evmutil'', ''bnb''), 0), ((''module/evmutil'', ''bnb''), 25), ((''alice'', ''hard''), 50)],
     lsupply = [(''bnb'', 25), (''hard'', 50)]\<rparr>\<rparr>\<rparr>"

lemma ex_locked_step: "ConvertERC20ToCoin ref_sdk ref_evm ex_conv ''alice-on-the-evm-20b'' ''alice'' ''bnb-contract-address'' 250000000007 = Inr ex_locked"
proof -
  have "GetEnabledConversionPairFromERC20Address ex_conv ''bnb-contract-address'' = Inr ex_pair" "isBep3Asset (cp_Denom ex_pair)"
    "bep3ERC20AmountToCoinMintAndERC20LockAmount 250000000007 = Inr (25, 250000000000)" by code_simp+
  moreover have "LockERC20Tokens ref_sdk ref_evm ex_conv ex_pair 250000000000 ''alice-on-the-evm-20b'' = Inr ex_lock1" by code_simp
  moreover have "MintConversionPairCoin ref_sdk ex_lock1 ex_pair 25 ''alice'' = Inr (Coin ''bnb'' 25, ex_locked)" by code_simp
  ultimately show ?thesis by (simp add: ConvertERC20ToCoin_def)
qed

lemma ex_locked_reach: "evmutil_reach ref_sdk ref_evm ref_view ex_conv_bech ex_locked"
proof (rule evmutil_reach.msg [OF ex_conv_reach evmutil_msg.erc20_to_coin])
  show "MsgConvertERC20ToCoin_ValidateBasic ref_evm ex_conv_bech ''alice-on-the-evm-20b'' ''alice'' ''bnb-contract-address'' 250000000007 = Inr ()"
    "ex_conv_bech ''alice'' \<noteq> Inr (ModuleAddress ref_sdk evmutil_module)" by code_simp+
  show "msg_ConvertERC20ToCoin ref_sdk ref_evm ex_conv_bech ex_conv ''alice-on-the-evm-20b'' ''alice'' ''bnb-contract-address'' 250000000007 = Inr ex_locked"
    using ex_locked_step by (simp add: msg_ConvertERC20ToCoin_def ex_conv_bech_def NewInternalEVMAddressFromString_def ref_evm_def)
qed

definition ex_wrap1 :: "(ledger, ref_evm_state) evmutil_state" where
  "ex_wrap1 = ex_conv\<lparr>us_bank := \<lparr>ea_accounts = [], ea_bank = \<lparr>lbal =
     [((''module/evmutil'', ''hard''), 20), ((''alice'', ''hard''), 30), ((''alice'', ''hard''), 50)], lsupply = [(''hard'', 50)]\<rparr>\<rparr>\<rparr>"

definition ex_wrap2 :: "(ledger, ref_evm_state) evmutil_state" where
  "ex_wrap2 = ex_wrap1\<lparr>us_deployed := [(''hard'', ''wrapper-contract-001'')], us_evm := \<lparr>re_tokens = [(''wrapper-contract-001'', ([], 0)),
     (''bnb-contract-address'', ([(''alice-on-the-evm-20b'', 250000000007)], 250000000007))], re_seq = 2\<rparr>\<rparr>"

definition ex_wrapped :: "(ledger, ref_evm_state) evmutil_state" where
  "ex_wrapped = ex_wrap2\<lparr>us_evm := \<lparr>re_tokens = [(''wrapper-contract-001'', ([(''alice-on-the-evm-20b'', 20)], 20)),
     (''bnb-contract-address'', ([(''alice-on-the-evm-20b'', 250000000007)], 250000000007))], re_seq = 2\<rparr>\<rparr>"

lemma ex_wrapped_reach: "evmutil_reach ref_sdk ref_evm ref_view ex_conv_bech ex_wrapped"
proof (rule evmutil_reach.msg [OF ex_conv_reach evmutil_msg.cosmos_to_erc20])
  show "MsgConvertCosmosCoinToERC20_ValidateBasic (Math ref_sdk) ref_evm ex_conv_bech ''alice'' ''alice-on-the-evm-20b'' (Coin ''hard'' 20) = Inr ()"
    "ex_conv_bech ''alice'' \<noteq> Inr (ModuleAddress ref_sdk evmutil_module)" by code_simp+
  have "GetAllowedTokenMetadata ex_conv ''hard'' = Some (ep_AllowedCosmosDenoms ex_params ! 0)" "NewCoins ref_sdk [Coin ''hard'' 20] = Inr [Coin ''hard'' 20]" by code_simp+
  moreover have "on_bank ex_conv (\<lambda>b. SendCoinsFromAccountToModule ref_sdk b ''alice'' evmutil_module [Coin ''hard'' 20]) = Inr ex_wrap1" by code_simp
  moreover have "GetOrDeployCosmosCoinERC20Contract ref_sdk ref_evm ex_wrap1 (ep_AllowedCosmosDenoms ex_params ! 0) = Inr (''wrapper-contract-001'', ex_wrap2)" by code_simp
  moreover have "MintERC20 ref_sdk ref_evm ex_wrap2 ''wrapper-contract-001'' ''alice-on-the-evm-20b'' 20 = Inr ex_wrapped" by code_simp
  ultimately have "ConvertCosmosCoinToERC20 ref_sdk ref_evm ex_conv ''alice'' ''alice-on-the-evm-20b'' (Coin ''hard'' 20) = Inr ex_wrapped"
    by (simp add: ConvertCosmosCoinToERC20_def)
  then show "msg_ConvertCosmosCoinToERC20 ref_sdk ref_evm ex_conv_bech ex_conv ''alice'' ''alice-on-the-evm-20b'' (Coin ''hard'' 20) = Inr ex_wrapped"
    by (simp add: msg_ConvertCosmosCoinToERC20_def ex_conv_bech_def NewInternalEVMAddressFromString_def ref_evm_def)
qed

theorem conversion_pairs_backed_witness:
  "GetSupply ref_sdk (ea_bank (us_bank ex_locked)) ''bnb'' = 25 \<and> BackedCoinsInvariant ref_sdk ref_evm False ex_locked = Inr False \<and>
   GetSupply ref_sdk (ea_bank (us_bank ex_locked)) ''bnb'' * factor ''bnb'' \<le> BalOf ref_view (us_evm ex_locked) (GetAddress ex_pair) (ModuleEVMAddress ref_sdk)"
proof -
  have f: "GetSupply ref_sdk (ea_bank (us_bank ex_locked)) ''bnb'' = 25" "BackedCoinsInvariant ref_sdk ref_evm False ex_locked = Inr False"
    "ep_EnabledConversionPairs (us_Params ex_locked) = [ex_pair]" "cp_Denom ex_pair = ''bnb''" by code_simp+
  show ?thesis using conversion_pairs_backed [OF ref_evm_laws ex_locked_reach] f by simp
qed

theorem wrapped_coins_backed_witness:
  "GetBalance ref_sdk (ea_bank (us_bank ex_wrapped)) (ModuleAddress ref_sdk evmutil_module) ''hard'' = 20 \<and>
   (\<exists>c. kv_get (us_deployed ex_wrapped) ''hard'' = Some c \<and> Supply ref_view (us_evm ex_wrapped) c = 20)"
proof -
  have f: "GetBalance ref_sdk (ea_bank (us_bank ex_wrapped)) (ModuleAddress ref_sdk evmutil_module) ''hard'' = 20" "''hard'' \<noteq> CosmosDenom" by code_simp+
  show ?thesis using wrapped_coins_backed [OF ref_evm_laws ex_wrapped_reach] f by (auto split: option.splits)
qed

definition ex_back1 :: "(ledger, ref_evm_state) evmutil_state" where
  "ex_back1 = ex_locked\<lparr>us_bank := us_bank (projr (BurnConversionPairCoin ref_sdk ex_locked ex_pair (Coin ''bnb'' 25) ''alice''))\<rparr>"

definition ex_back :: "(ledger, ref_evm_state) evmutil_state" where
  "ex_back = ex_back1\<lparr>us_evm := \<lparr>re_tokens = [(''bnb-contract-address'',
     ([(''alice-on-the-evm-20b'', 250000000007), (replicate 6 (CHR 0x00) @ ''module/evmutil'', 0)], 250000000007))], re_seq = 1\<rparr>\<rparr>"

theorem conversion_round_trip_witness:
  "ConvertCoinToERC20 ref_sdk ref_evm ex_locked ''alice'' ''alice-on-the-evm-20b'' (Coin ''bnb'' 25) = Inr ex_back \<and>
   BalOf ref_view (us_evm ex_locked) (GetAddress ex_pair) ''alice-on-the-evm-20b'' = 7 \<and>
   GetBalance ref_sdk (ea_bank (us_bank ex_locked)) ''alice'' ''bnb'' = 25 \<and> GetBalance ref_sdk (ea_bank (us_bank ex_back)) ''alice'' ''bnb'' = 0"
proof -
  have p: "GetEnabledConversionPairFromERC20Address ex_conv ''bnb-contract-address'' = Inr ex_pair" by code_simp
  have e: "BalOf ref_view (us_evm ex_conv) (GetAddress ex_pair) ''alice-on-the-evm-20b'' = 250000000007" "GetBalance ref_sdk (ea_bank (us_bank ex_conv)) ''alice'' ''bnb'' = 0"
    "factor (cp_Denom ex_pair) = 10000000000" "cp_Denom ex_pair = ''bnb''" by code_simp+
  have "GetEnabledConversionPairFromDenom ex_locked ''bnb'' = Inr ex_pair" "isBep3Asset (cp_Denom ex_pair)" "convertBep3CoinAmountToERC20Amount 25 = 250000000000" by code_simp+
  moreover have "BurnConversionPairCoin ref_sdk ex_locked ex_pair (Coin ''bnb'' 25) ''alice'' = Inr ex_back1" by code_simp
  moreover have "UnlockERC20Tokens ref_sdk ref_evm ex_back1 ex_pair 250000000000 ''alice-on-the-evm-20b'' = Inr ex_back" by code_simp
  ultimately have b: "ConvertCoinToERC20 ref_sdk ref_evm ex_locked ''alice'' ''alice-on-the-evm-20b'' (Coin ''bnb'' 25) = Inr ex_back"
    by (simp add: ConvertCoinToERC20_def)
  have n: "(0::int) < 250000000007" "Coin ''bnb'' 25 = Coin (cp_Denom ex_pair) (250000000007 div factor (cp_Denom ex_pair))" by (simp_all add: e(4) e(3) [unfolded e(4)])
  note rt = conversion_round_trip [OF ref_evm_laws ex_conv_reach n(1) p ex_locked_step b [unfolded n(2)]]
  show ?thesis using rt b unfolding e(3) unfolding e by (simp add: e(2))
qed

end
