(* ===== verification/Pricefeed.thy ===== *)
theory Pricefeed
  imports Sdk_Reference Ordered_Store
begin

text \<open>
  The oracle prices, \<open>x/pricefeed\<close>: markets and their oracles (\<open>types/market.go\<close>,
  \<open>keeper/params.go\<close>), posted prices and the median that becomes the current price
  (\<open>keeper/keeper.go\<close>), the message, the end blocker and genesis.
\<close>

section \<open>Markets and prices\<close>

record Market =
  mk_MarketID :: string
  mk_BaseAsset :: denom
  mk_QuoteAsset :: denom
  mk_Oracles :: "address list"
  mk_Active :: bool

record PostedPrice =
  pp_MarketID :: string
  pp_OracleAddress :: address
  pp_Price :: dec
  pp_Expiry :: time

record CurrentPrice =
  cur_MarketID :: string
  cur_Price :: dec

fun check_oracles :: "address list \<Rightarrow> address list \<Rightarrow> unit result" where
  "check_oracles seen [] = Inr ()"
| "check_oracles seen (a # as) =
     (if a = [] then Inl (Err ''oracle is empty'')
      else if a \<in> set seen then Inl (Err ''duplicated oracle'')
      else check_oracles (a # seen) as)"

definition Market_Validate :: "sdk_math \<Rightarrow> Market \<Rightarrow> unit result" where
  "Market_Validate m mk =
     (if list_all isSpace (mk_MarketID mk) then Inl (Err ''market id cannot be blank'')
      else if \<not> ValidDenom m (mk_BaseAsset mk) then Inl (Err ''invalid base asset'')
      else if \<not> ValidDenom m (mk_QuoteAsset mk) then Inl (Err ''invalid quote asset'')
      else check_oracles [] (mk_Oracles mk))"

fun Markets_Validate :: "sdk_math \<Rightarrow> string list \<Rightarrow> Market list \<Rightarrow> unit result" where
  "Markets_Validate m seen [] = Inr ()"
| "Markets_Validate m seen (mk # mks) =
     (if mk_MarketID mk \<in> set seen then Inl (Err ''duplicated market'')
      else bnd (Market_Validate m mk) (\<lambda>_. Markets_Validate m (mk_MarketID mk # seen) mks))"

definition PostedPrice_Validate :: "PostedPrice \<Rightarrow> unit result" where
  "PostedPrice_Validate pp =
     (if list_all isSpace (pp_MarketID pp) then Inl (Err ''market id cannot be blank'')
      else if pp_OracleAddress pp = [] then Inl (Err ''oracle address cannot be empty'')
      else if pp_Price pp < 0 then Inl (Err ''posted price cannot be negative'')
      else if time_Unix (pp_Expiry pp) \<le> 0 then Inl (Err ''expiry time cannot be zero'')
      else Inr ())"

fun PostedPrices_Validate :: "(address \<Rightarrow> string) \<Rightarrow> string list \<Rightarrow> PostedPrice list \<Rightarrow> unit result" where
  \<comment> \<open>the keys of the map are the market followed by the text of the address\<close>
  "PostedPrices_Validate str seen [] = Inr ()"
| "PostedPrices_Validate str seen (pp # pps) =
     (if pp_OracleAddress pp \<noteq> [] \<and> pp_MarketID pp @ str (pp_OracleAddress pp) \<in> set seen then Inl (Err ''duplicated posted price'')
      else bnd (PostedPrice_Validate pp) (\<lambda>_. PostedPrices_Validate str ((pp_MarketID pp @ str (pp_OracleAddress pp)) # seen) pps))"

section \<open>The keeper\<close>

text \<open>
  A raw price is stored under its market and its oracle, both after a byte with their length; the
  current price under its market.
\<close>

record pricefeed_state =
  pf_Markets :: "Market list"
  pf_raw :: "((nat \<times> string) \<times> (nat \<times> address), PostedPrice) kv"
  pf_current :: "(string, CurrentPrice) kv"

definition pricefeed_SetParams :: "sdk_math \<Rightarrow> pricefeed_state \<Rightarrow> Market list \<Rightarrow> pricefeed_state result" where
  "pricefeed_SetParams m st mks = bnd (panic_on_err (Markets_Validate m [] mks)) (\<lambda>_. Inr (st\<lparr>pf_Markets := mks\<rparr>))"

definition GetMarket :: "pricefeed_state \<Rightarrow> string \<Rightarrow> Market option" where
  "GetMarket st i = find (\<lambda>mk. mk_MarketID mk = i) (pf_Markets st)"

definition GetOracles :: "pricefeed_state \<Rightarrow> string \<Rightarrow> address list result" where
  "GetOracles st i =
     (case find (\<lambda>mk. i = mk_MarketID mk) (pf_Markets st) of
        Some mk \<Rightarrow> Inr (mk_Oracles mk) | None \<Rightarrow> Inl (Err ''ErrInvalidMarket''))"

definition GetOracle :: "pricefeed_state \<Rightarrow> string \<Rightarrow> address \<Rightarrow> address result" where
  "GetOracle st i a =
     bnd (GetOracles st i) (\<lambda>oracles.
     case find (\<lambda>x. x = a) oracles of Some x \<Rightarrow> Inr x | None \<Rightarrow> Inl (Err ''ErrInvalidOracle''))"

fun dedup_oracles :: "address list \<Rightarrow> address list \<Rightarrow> address list" where
  "dedup_oracles oracles [] = oracles"
| "dedup_oracles oracles (a # as) = dedup_oracles (if a \<in> set oracles then oracles else oracles @ [a]) as"

definition pricefeed_GetAuthorizedAddresses :: "pricefeed_state \<Rightarrow> address list" where
  "pricefeed_GetAuthorizedAddresses st = fold (\<lambda>mk oracles. dedup_oracles oracles (mk_Oracles mk)) (pf_Markets st) []"

definition lengthPrefixWithByte :: "string \<Rightarrow> (nat \<times> string) result" where
  "lengthPrefixWithByte bz =
     (if length bz > 255 then Inl (Panic ''cannot length prefix more than 255 bytes with single byte'') else Inr (length bz, bz))"

definition RawPriceKey :: "string \<Rightarrow> address \<Rightarrow> ((nat \<times> string) \<times> (nat \<times> address)) result" where
  "RawPriceKey i oracle = bnd (lengthPrefixWithByte i) (\<lambda>k. bnd (lengthPrefixWithByte oracle) (\<lambda>l. Inr (k, l)))"

definition SetPrice :: "time \<Rightarrow> pricefeed_state \<Rightarrow> address \<Rightarrow> string \<Rightarrow> dec \<Rightarrow> time \<Rightarrow> pricefeed_state result" where
  "SetPrice now st oracle i price expiry =
     (if \<not> expiry > now then Inl (Err ''ErrExpired'')
      else
        bnd (RawPriceKey i oracle) (\<lambda>k.
        Inr (st\<lparr>pf_raw := kv_set (pf_raw st) k
          \<lparr>pp_MarketID = i, pp_OracleAddress = oracle, pp_Price = price, pp_Expiry = expiry\<rparr>\<rparr>)))"

definition GetRawPrices :: "pricefeed_state \<Rightarrow> string \<Rightarrow> PostedPrice list result" where
  "GetRawPrices st i =
     bnd (lengthPrefixWithByte i) (\<lambda>k. Inr (map snd (filter (\<lambda>((k', l), pp). k' = k) (pf_raw st))))"

definition calculateMeanPrice :: "sdk_math \<Rightarrow> CurrentPrice \<Rightarrow> CurrentPrice \<Rightarrow> dec result" where
  "calculateMeanPrice m a b =
     bnd (toDec m (cur_Price a + cur_Price b)) (\<lambda>s. DecQuo m s (NewDecFromInt 2))"

definition CalculateMedianPrice :: "sdk_math \<Rightarrow> CurrentPrice list \<Rightarrow> dec result" where
  \<comment> \<open>the order \<open>sort.Slice\<close> leaves equal prices in does not show in the result\<close>
  "CalculateMedianPrice m prices =
     (let l = length prices in
      if l = 1 then Inr (cur_Price (prices ! 0))
      else
        let sorted = sort_key cur_Price prices in
        if l mod 2 = 0 then
          bnd (idx sorted (l div 2 - 1)) (\<lambda>a. bnd (idx sorted (l div 2)) (\<lambda>b. calculateMeanPrice m a b))
        else bnd (idx sorted (l div 2)) (\<lambda>a. Inr (cur_Price a)))"

definition setCurrentPrice :: "pricefeed_state \<Rightarrow> string \<Rightarrow> CurrentPrice \<Rightarrow> pricefeed_state" where
  "setCurrentPrice st i cp = st\<lparr>pf_current := kv_set (pf_current st) i cp\<rparr>"

definition no_price :: CurrentPrice where
  \<comment> \<open>\<open>types.CurrentPrice{}\<close>; its nil decimal is stored as zero\<close>
  "no_price = \<lparr>cur_MarketID = [], cur_Price = 0\<rparr>"

definition GetCurrentPrice :: "pricefeed_state \<Rightarrow> string \<Rightarrow> CurrentPrice result" where
  "GetCurrentPrice st i =
     (case kv_get (pf_current st) i of
        None \<Rightarrow> Inl (Err ''ErrNoValidPrice'')
      | Some cp \<Rightarrow> if cur_Price cp = 0 then Inl (Err ''ErrNoValidPrice'') else Inr cp)"

definition unexpired :: "time \<Rightarrow> PostedPrice list \<Rightarrow> CurrentPrice list" where
  "unexpired now pps =
     map (\<lambda>pp. \<lparr>cur_MarketID = pp_MarketID pp, cur_Price = pp_Price pp\<rparr>) (filter (\<lambda>pp. pp_Expiry pp > now) pps)"

text \<open>
  \<open>SetCurrentPrices\<close> writes the zero price before it returns an error; its callers panic on the error.
  The price is stored with the state, and the error is the second component.
\<close>

definition SetCurrentPrices :: "sdk_math \<Rightarrow> time \<Rightarrow> pricefeed_state \<Rightarrow> string \<Rightarrow> (pricefeed_state \<times> string option) result" where
  "SetCurrentPrices m now st i =
     (case GetMarket st i of
        None \<Rightarrow> Inl (Err ''ErrInvalidMarket'')
      | Some _ \<Rightarrow>
          bnd (GetRawPrices st i) (\<lambda>prices.
          let notExpired = unexpired now prices in
          if length notExpired = 0 then Inr (setCurrentPrice st i no_price, Some ''ErrNoValidPrice'')
          else
            bnd (CalculateMedianPrice m notExpired) (\<lambda>median.
            Inr (setCurrentPrice st i \<lparr>cur_MarketID = i, cur_Price = median\<rparr>, None))))"

text \<open>
  All markets at once: one pass over the raw prices collects, per active market, the prices that
  have not expired, in the order of the store; a second pass over the markets sets the medians.
\<close>

definition collect_price :: "time \<Rightarrow> PostedPrice \<Rightarrow> (string \<rightharpoonup> CurrentPrice list) \<Rightarrow> (string \<rightharpoonup> CurrentPrice list)" where
  "collect_price now pp byID =
     (case byID (pp_MarketID pp) of
        None \<Rightarrow> byID
      | Some prices \<Rightarrow>
          if pp_Expiry pp > now then byID(pp_MarketID pp \<mapsto> prices @ [\<lparr>cur_MarketID = pp_MarketID pp, cur_Price = pp_Price pp\<rparr>])
          else byID)"

definition set_market_price :: "sdk_math \<Rightarrow> (string \<rightharpoonup> CurrentPrice list) \<Rightarrow> string \<Rightarrow> pricefeed_state \<Rightarrow> pricefeed_state result" where
  "set_market_price m byID i st =
     (let notExpired = (case byID i of None \<Rightarrow> [] | Some ps \<Rightarrow> ps) in
      if length notExpired = 0 then Inr (setCurrentPrice st i no_price)
      else bnd (CalculateMedianPrice m notExpired) (\<lambda>median. Inr (setCurrentPrice st i \<lparr>cur_MarketID = i, cur_Price = median\<rparr>)))"

definition SetCurrentPricesForAllMarkets :: "sdk_math \<Rightarrow> time \<Rightarrow> pricefeed_state \<Rightarrow> pricefeed_state result" where
  "SetCurrentPricesForAllMarkets m now st =
     (let orderedMarkets = map mk_MarketID (filter mk_Active (pf_Markets st));
          byID = fold (collect_price now) (map snd (pf_raw st)) (\<lambda>i. if i \<in> set orderedMarkets then Some [] else None)
      in foldR (set_market_price m byID) orderedMarkets st)"

definition pricefeed_EndBlocker :: "sdk_math \<Rightarrow> time \<Rightarrow> pricefeed_state \<Rightarrow> pricefeed_state result" where
  "pricefeed_EndBlocker m now st = SetCurrentPricesForAllMarkets m now st"

section \<open>The message\<close>

definition MsgPostPrice_ValidateBasic :: "string \<Rightarrow> string \<Rightarrow> dec \<Rightarrow> time \<Rightarrow> unit result" where
  "MsgPostPrice_ValidateBasic from i price expiry =
     (if length from = 0 then Inl (Err ''ErrInvalidAddress'')
      else if list_all isSpace i then Inl (Err ''market id cannot be blank'')
      else if price < 0 then Inl (Err ''price cannot be negative'')
      else if time_Unix expiry \<le> 0 then Inl (Err ''must set an expiration time'')
      else Inr ())"

definition msg_PostPrice :: "(string \<Rightarrow> address result) \<Rightarrow> time \<Rightarrow> pricefeed_state \<Rightarrow> string \<Rightarrow> string \<Rightarrow> dec \<Rightarrow> time \<Rightarrow> pricefeed_state result" where
  "msg_PostPrice bech now st from i price expiry =
     bnd (bech from) (\<lambda>a. bnd (GetOracle st i a) (\<lambda>_. SetPrice now st a i price expiry))"

section \<open>Genesis\<close>

record pricefeed_genesis =
  pg_Markets :: "Market list"
  pg_PostedPrices :: "PostedPrice list"

definition pricefeed_genesis_Validate :: "sdk_math \<Rightarrow> (address \<Rightarrow> string) \<Rightarrow> pricefeed_genesis \<Rightarrow> unit result" where
  "pricefeed_genesis_Validate m str gs =
     bnd (Markets_Validate m [] (pg_Markets gs)) (\<lambda>_. PostedPrices_Validate str [] (pg_PostedPrices gs))"

definition load_price :: "time \<Rightarrow> PostedPrice \<Rightarrow> pricefeed_state \<Rightarrow> pricefeed_state result" where
  "load_price now pp st =
     (if pp_Expiry pp > now then panic_on_err (SetPrice now st (pp_OracleAddress pp) (pp_MarketID pp) (pp_Price pp) (pp_Expiry pp))
      else Inr st)"

definition init_market :: "sdk_math \<Rightarrow> time \<Rightarrow> Market \<Rightarrow> pricefeed_state \<Rightarrow> pricefeed_state result" where
  "init_market m now mk st =
     (if \<not> mk_Active mk then Inr st
      else
        bnd (GetRawPrices st (mk_MarketID mk)) (\<lambda>rps.
        if length rps = 0 then Inr st
        else
          bnd (panic_on_err (SetCurrentPrices m now st (mk_MarketID mk))) (\<lambda>(st', e).
          case e of None \<Rightarrow> Inr st' | Some msg \<Rightarrow> Inl (Panic msg))))"

definition pricefeed_InitGenesis :: "sdk_math \<Rightarrow> time \<Rightarrow> pricefeed_state \<Rightarrow> pricefeed_genesis \<Rightarrow> pricefeed_state result" where
  "pricefeed_InitGenesis m now st gs =
     bnd (pricefeed_SetParams m st (pg_Markets gs)) (\<lambda>st1.
     bnd (foldR (load_price now) (pg_PostedPrices gs) st1) (\<lambda>st2.
     foldR (init_market m now) (pf_Markets st2) st2))"

definition pricefeed_ExportGenesis :: "pricefeed_state \<Rightarrow> pricefeed_genesis result" where
  "pricefeed_ExportGenesis st =
     bnd (foldR (\<lambda>mk acc. bnd (GetRawPrices st (mk_MarketID mk)) (\<lambda>pps. Inr (acc @ pps))) (pf_Markets st) []) (\<lambda>pps.
     Inr \<lparr>pg_Markets = pf_Markets st, pg_PostedPrices = pps\<rparr>)"

end
