(* ===== verification/Pricefeed_Safety.thy ===== *)
theory Pricefeed_Safety
  imports Pricefeed
begin

text \<open>
  What the oracle prices promise: the median lies where the majority of the posted prices lies, raw
  prices are stored under the market and the oracle they name in every reachable state, and the end
  blocker sets the price of every active market from its unexpired posted prices.
\<close>

section \<open>The median resists a minority\<close>

lemma sorted_below:
  fixes xs :: "int list"
  assumes "sorted xs" "k < length xs" "xs ! k < lo"
  shows "k + 1 \<le> length (filter (\<lambda>p. p < lo) xs)"
proof -
  have "p < lo" if "p \<in> set (take (k + 1) xs)" for p
  proof -
    obtain i where i: "i < k + 1" "i < length xs" "p = xs ! i" using \<open>p \<in> _\<close> by (auto simp: in_set_conv_nth)
    have "xs ! i \<le> xs ! k" by (rule sorted_nth_mono [OF assms(1)]) (use i assms(2) in simp_all)
    then show ?thesis using i(3) assms(3) by simp
  qed
  then have f: "filter (\<lambda>p. p < lo) (take (k + 1) xs) = take (k + 1) xs" by (simp add: filter_id_conv)
  have "filter (\<lambda>p. p < lo) xs = filter (\<lambda>p. p < lo) (take (k + 1) xs) @ filter (\<lambda>p. p < lo) (drop (k + 1) xs)"
    by (simp flip: filter_append)
  then show ?thesis using f assms(2) by simp
qed

lemma sorted_above:
  fixes xs :: "int list"
  assumes "sorted xs" "k < length xs" "hi < xs ! k"
  shows "length xs - k \<le> length (filter (\<lambda>p. hi < p) xs)"
proof -
  have "hi < p" if "p \<in> set (drop k xs)" for p
  proof -
    obtain i where i: "i < length xs - k" "p = xs ! (k + i)" using \<open>p \<in> _\<close> by (auto simp: in_set_conv_nth)
    have "xs ! k \<le> xs ! (k + i)" by (rule sorted_nth_mono [OF assms(1)]) (use i in simp_all)
    then show ?thesis using i(2) assms(3) by simp
  qed
  then have f: "filter (\<lambda>p. hi < p) (drop k xs) = drop k xs" by (simp add: filter_id_conv)
  have "filter (\<lambda>p. hi < p) xs = filter (\<lambda>p. hi < p) (take k xs) @ filter (\<lambda>p. hi < p) (drop k xs)"
    by (simp flip: filter_append)
  then show ?thesis using f by simp
qed

lemma filter_weaken: "(\<And>x. P x \<Longrightarrow> Q x) \<Longrightarrow> length (filter P xs) \<le> length (filter Q xs)"
  by (induction xs) auto

text \<open>A value between the two middle elements lies where more than half of the elements lie.\<close>

lemma middle_robust:
  fixes xs :: "int list"
  assumes s: "sorted xs" and n: "0 < length xs" and a: "xs ! ((length xs - 1) div 2) \<le> v" and b: "v \<le> xs ! (length xs div 2)"
    and few: "2 * length (filter (\<lambda>p. p < lo \<or> hi < p) xs) < length xs"
  shows "lo \<le> v \<and> v \<le> hi"
proof (rule ccontr)
  assume "\<not> (lo \<le> v \<and> v \<le> hi)"
  then consider "v < lo" | "hi < v" by linarith
  then show False
  proof cases
    case 1
    have "(length xs - 1) div 2 + 1 \<le> length (filter (\<lambda>p. p < lo) xs)"
      by (rule sorted_below [OF s]) (use n 1 a in linarith)+
    moreover have "length (filter (\<lambda>p. p < lo) xs) \<le> length (filter (\<lambda>p. p < lo \<or> hi < p) xs)" by (rule filter_weaken) simp
    ultimately show False using few n by linarith
  next
    case 2
    have "length xs - length xs div 2 \<le> length (filter (\<lambda>p. hi < p) xs)"
      by (rule sorted_above [OF s]) (use n 2 b in linarith)+
    moreover have "length (filter (\<lambda>p. hi < p) xs) \<le> length (filter (\<lambda>p. p < lo \<or> hi < p) xs)" by (rule filter_weaken) simp
    ultimately show False using few n by linarith
  qed
qed

lemma mean_between:
  assumes m: "math_laws m" and ab: "cur_Price a \<le> cur_Price b" and r: "calculateMeanPrice m a b = Inr v"
  shows "cur_Price a \<le> v" "v \<le> cur_Price b"
proof -
  have "DecQuo m (cur_Price a + cur_Price b) (NewDecFromInt 2) = Inr v" using r by (auto simp: calculateMeanPrice_def)
  moreover have "\<forall>a b c. DecQuo m a b = Inr c \<longrightarrow> 2 * \<bar>c * b - a * Precision\<bar> \<le> \<bar>b\<bar>"
    using m unfolding math_laws_def quo_law_def by blast
  ultimately have "2 * \<bar>v * NewDecFromInt 2 - (cur_Price a + cur_Price b) * Precision\<bar> \<le> \<bar>NewDecFromInt 2\<bar>" by blast
  then have "2 * \<bar>v * (2 * Precision) - (cur_Price a + cur_Price b) * Precision\<bar> \<le> 2 * Precision"
    by (simp add: NewDecFromInt_def)
  then show "cur_Price a \<le> v" "v \<le> cur_Price b" using ab by (simp_all add: abs_le_iff)
qed

lemma Median_robust:
  assumes m: "math_laws m" and r: "CalculateMedianPrice m ps = Inr v" and n: "0 < length ps"
    and few: "2 * length (filter (\<lambda>p. cur_Price p < lo \<or> hi < cur_Price p) ps) < length ps"
  shows "lo \<le> v \<and> v \<le> hi"
proof -
  define xs where "xs = map cur_Price (sort_key cur_Price ps)"
  have len: "length xs = length ps" and srt: "sorted xs" by (simp_all add: xs_def)
  have e: "filter P (map cur_Price (sort_key cur_Price ps)) = map cur_Price (sort_key cur_Price (filter (\<lambda>p. P (cur_Price p)) ps))" for P
    by (simp add: filter_map comp_def filter_sort)
  have few': "2 * length (filter (\<lambda>p. p < lo \<or> hi < p) xs) < length xs" unfolding xs_def e using few by simp
  have "xs ! ((length xs - 1) div 2) \<le> v \<and> v \<le> xs ! (length xs div 2)"
  proof (cases "length ps mod 2 = 0")
    case True
    then have ls: "length ps \<noteq> 1" "(length xs - 1) div 2 = length ps div 2 - 1" "length ps div 2 < length ps" "length ps div 2 - 1 < length ps"
      using n unfolding len by presburger+
    define a b where ab: "a = sort_key cur_Price ps ! (length ps div 2 - 1)" "b = sort_key cur_Price ps ! (length ps div 2)"
    have mean: "calculateMeanPrice m a b = Inr v"
      using r True ls unfolding CalculateMedianPrice_def Let_def ab by simp
    have x: "cur_Price a = xs ! (length ps div 2 - 1)" "cur_Price b = xs ! (length ps div 2)"
      using ls(3,4) by (simp_all add: xs_def ab)
    have "xs ! (length ps div 2 - 1) \<le> xs ! (length ps div 2)" by (rule sorted_nth_mono [OF srt]) (use n in \<open>simp_all add: len\<close>)
    from mean_between [OF m _ mean] this show ?thesis unfolding ls(2) by (simp add: x len)
  next
    case False
    then have k: "(length xs - 1) div 2 = length xs div 2" using n len by presburger
    have "v = xs ! (length xs div 2)"
    proof (cases "length ps = 1")
      case True
      then obtain p where "ps = [p]" by (cases ps) auto
      then show ?thesis using r by (simp add: CalculateMedianPrice_def xs_def)
    next
      case False
      then show ?thesis using r \<open>length ps mod 2 \<noteq> 0\<close> by (auto simp: CalculateMedianPrice_def Let_def xs_def)
    qed
    then show ?thesis unfolding k by simp
  qed
  then show ?thesis using middle_robust [OF srt _ _ _ few'] n len by auto
qed

section \<open>The end of a block\<close>

definition posted :: "time \<Rightarrow> pricefeed_state \<Rightarrow> string \<Rightarrow> PostedPrice list" where
  "posted now st i = filter (\<lambda>pp. pp_MarketID pp = i \<and> pp_Expiry pp > now) (map snd (pf_raw st))"

lemma collect_prices:
  "byID i = Some ps \<Longrightarrow> fold (collect_price now) pps byID i =
     Some (ps @ map (\<lambda>pp. \<lparr>cur_MarketID = pp_MarketID pp, cur_Price = pp_Price pp\<rparr>) (filter (\<lambda>pp. pp_MarketID pp = i \<and> pp_Expiry pp > now) pps))"
  by (induction pps arbitrary: byID ps) (auto simp: collect_price_def split: option.splits)

lemma set_market_prices:
  assumes "foldR (set_market_price m byID) is st = Inr st'" "distinct is"
  shows "(\<forall>i. i \<notin> set is \<longrightarrow> kv_get (pf_current st') i = kv_get (pf_current st) i) \<and>
    (\<forall>i\<in>set is. \<forall>ps. byID i = Some ps \<longrightarrow>
       (if ps = [] then kv_get (pf_current st') i = Some no_price
        else \<exists>v. CalculateMedianPrice m ps = Inr v \<and> kv_get (pf_current st') i = Some \<lparr>cur_MarketID = i, cur_Price = v\<rparr>)) \<and>
    pf_raw st' = pf_raw st \<and> pf_Markets st' = pf_Markets st"
  using assms
proof (induction "is" arbitrary: st)
  case (Cons j js)
  then obtain st1 where s: "set_market_price m byID j st = Inr st1" "foldR (set_market_price m byID) js st1 = Inr st'" by auto
  have j: "j \<notin> set js" "distinct js" using Cons.prems(2) by auto
  note IH = Cons.IH [OF s(2) j(2)]
  have one: "(\<forall>i. i \<noteq> j \<longrightarrow> kv_get (pf_current st1) i = kv_get (pf_current st) i) \<and>
    (\<forall>ps. byID j = Some ps \<longrightarrow> (if ps = [] then kv_get (pf_current st1) j = Some no_price
        else \<exists>v. CalculateMedianPrice m ps = Inr v \<and> kv_get (pf_current st1) j = Some \<lparr>cur_MarketID = j, cur_Price = v\<rparr>)) \<and>
    pf_raw st1 = pf_raw st \<and> pf_Markets st1 = pf_Markets st"
    using s(1) by (auto simp: set_market_price_def setCurrentPrice_def Let_def split: if_splits)
  have keep: "kv_get (pf_current st') j = kv_get (pf_current st1) j" using IH j(1) by blast
  show ?case using IH one keep j(1) by auto
qed simp

text \<open>Raw prices are stored under the market and the oracle they name.\<close>

definition raw_ok :: "pricefeed_state \<Rightarrow> bool" where
  "raw_ok st \<longleftrightarrow> kv_ok (pf_raw st) \<and> (\<forall>k pp. (k, pp) \<in> set (pf_raw st) \<longrightarrow> RawPriceKey (pp_MarketID pp) (pp_OracleAddress pp) = Inr k)"

inductive pricefeed_reach :: "sdk_math \<Rightarrow> (string \<Rightarrow> address result) \<Rightarrow> pricefeed_state \<Rightarrow> bool" for m bech where
  genesis: "pricefeed_genesis_Validate m str gs = Inr () \<Longrightarrow>
    pricefeed_InitGenesis m now \<lparr>pf_Markets = [], pf_raw = [], pf_current = []\<rparr> gs = Inr st \<Longrightarrow> pricefeed_reach m bech st"
| post: "pricefeed_reach m bech st \<Longrightarrow> MsgPostPrice_ValidateBasic from i price expiry = Inr () \<Longrightarrow>
    msg_PostPrice bech now st from i price expiry = Inr st' \<Longrightarrow> pricefeed_reach m bech st'"
| end_block: "pricefeed_reach m bech st \<Longrightarrow> pricefeed_EndBlocker m now st = Inr st' \<Longrightarrow> pricefeed_reach m bech st'"
| params: "pricefeed_reach m bech st \<Longrightarrow> pricefeed_SetParams m st mks = Inr st' \<Longrightarrow> pricefeed_reach m bech st'"

lemma kv_set_mem: "kv_ok s \<Longrightarrow> (k', v') \<in> set (kv_set s k v) \<longleftrightarrow> (if k' = k then v' = v else (k', v') \<in> set s)"
proof -
  assume s: "kv_ok s"
  have d: "distinct (map fst s)" "distinct (map fst (kv_set s k v))" using s kv_ok_set [OF s, of k v] by (simp_all add: kv_ok_def strict_sorted_iff)
  show ?thesis unfolding map_of_eq_Some_iff [OF d(2), symmetric] map_of_eq_Some_iff [OF d(1), symmetric] by auto
qed

lemma SetPrice_raw_ok: "raw_ok st \<Longrightarrow> SetPrice now st a i v t = Inr st' \<Longrightarrow> raw_ok st'"
  by (auto simp: raw_ok_def SetPrice_def kv_set_mem split: if_splits)

lemma SetPrice_Markets: "SetPrice now st a i v t = Inr st' \<Longrightarrow> pf_Markets st' = pf_Markets st"
  by (auto simp: SetPrice_def split: if_splits)

lemma markets_distinct: "Markets_Validate m seen mks = Inr () \<Longrightarrow> distinct (map mk_MarketID mks) \<and> set (map mk_MarketID mks) \<inter> set seen = {}"
  by (induction m seen mks rule: Markets_Validate.induct) (auto split: if_splits)

lemma SetCurrentPrices_raw: "SetCurrentPrices m now st i = Inr (st', e) \<Longrightarrow> pf_raw st' = pf_raw st \<and> pf_Markets st' = pf_Markets st"
  by (auto simp: SetCurrentPrices_def setCurrentPrice_def Let_def split: option.splits if_splits)

lemma pricefeed_reach_ok:
  "pricefeed_reach m bech st \<Longrightarrow> raw_ok st \<and> distinct (map mk_MarketID (pf_Markets st))"
proof (induction rule: pricefeed_reach.induct)
  case (genesis str gs now st)
  then obtain st1 st2 where s: "Markets_Validate m [] (pg_Markets gs) = Inr ()"
      "st1 = \<lparr>pf_Markets = pg_Markets gs, pf_raw = [], pf_current = []\<rparr>"
      "foldR (load_price now) (pg_PostedPrices gs) st1 = Inr st2" "foldR (init_market m now) (pf_Markets st2) st2 = Inr st"
    by (auto simp: pricefeed_InitGenesis_def pricefeed_SetParams_def pricefeed_genesis_Validate_def)
  have "raw_ok st2 \<and> pf_Markets st2 = pg_Markets gs"
  proof (rule foldR_invariant [OF s(3), where P = "\<lambda>s. raw_ok s \<and> pf_Markets s = pg_Markets gs"])
    fix x s s' assume "raw_ok s \<and> pf_Markets s = pg_Markets gs" "load_price now x s = Inr s'"
    then show "raw_ok s' \<and> pf_Markets s' = pg_Markets gs"
      by (auto simp: load_price_def SetPrice_Markets split: if_splits intro: SetPrice_raw_ok)
  qed (simp add: s(2) raw_ok_def)
  moreover have "pf_raw st = pf_raw st2 \<and> pf_Markets st = pf_Markets st2"
  proof (rule foldR_invariant [OF s(4), where P = "\<lambda>s. pf_raw s = pf_raw st2 \<and> pf_Markets s = pf_Markets st2"])
    fix x s s' assume "pf_raw s = pf_raw st2 \<and> pf_Markets s = pf_Markets st2" "init_market m now x s = Inr s'"
    then show "pf_raw s' = pf_raw st2 \<and> pf_Markets s' = pf_Markets st2"
      by (auto simp: init_market_def split: if_splits option.splits dest!: SetCurrentPrices_raw)
  qed simp
  ultimately show ?case using markets_distinct [OF s(1)] by (simp add: raw_ok_def)
next
  case (post st "from" i price expiry now st')
  then show ?case by (auto simp: msg_PostPrice_def SetPrice_Markets split: if_splits intro: SetPrice_raw_ok)
next
  case (end_block st now st')
  have "distinct (map mk_MarketID (filter mk_Active (pf_Markets st)))" using end_block(3) by (simp add: distinct_map_filter)
  with set_market_prices end_block(2) have "pf_raw st' = pf_raw st \<and> pf_Markets st' = pf_Markets st"
    unfolding pricefeed_EndBlocker_def SetCurrentPricesForAllMarkets_def Let_def by blast
  then show ?case using end_block(3) by (simp add: raw_ok_def)
next
  case (params st mks st')
  then show ?case using markets_distinct [of m "[]" mks] by (auto simp: pricefeed_SetParams_def raw_ok_def)
qed

lemma raw_ok_distinct:
  assumes "raw_ok st"
  shows "distinct (map pp_OracleAddress (filter (\<lambda>pp. pp_MarketID pp = i \<and> Q pp) (map snd (pf_raw st))))"
proof -
  have d: "distinct (map fst (pf_raw st))" using assms by (simp add: raw_ok_def kv_ok_def strict_sorted_iff)
  let ?L = "filter (\<lambda>(k, pp). pp_MarketID pp = i \<and> Q pp) (pf_raw st)"
  have key: "k = ((length i, i), (length (pp_OracleAddress pp), pp_OracleAddress pp))" if "(k, pp) \<in> set ?L" for k pp
  proof -
    have "RawPriceKey (pp_MarketID pp) (pp_OracleAddress pp) = Inr k" proof -
      have "(k, pp) \<in> set (pf_raw st)" using that by simp
      then show ?thesis using assms unfolding raw_ok_def by blast
    qed
    moreover have "pp_MarketID pp = i" using that by simp
    ultimately show ?thesis by (auto simp: RawPriceKey_def lengthPrefixWithByte_def split: if_splits)
  qed
  have "distinct (map fst ?L)" using d by (simp add: distinct_map_filter)
  moreover have "map fst ?L = map (\<lambda>a. ((length i, i), (length a, a))) (map (pp_OracleAddress \<circ> snd) ?L)"
    using key by (auto simp: comp_def)
  ultimately have "distinct (map (\<lambda>a. ((length i, i), (length a, a))) (map (pp_OracleAddress \<circ> snd) ?L))" by (simp only:)
  then have "distinct (map (pp_OracleAddress \<circ> snd) ?L)" by (rule distinct_map [THEN iffD1, THEN conjunct1])
  moreover have "map (pp_OracleAddress \<circ> snd) ?L = map pp_OracleAddress (filter (\<lambda>pp. pp_MarketID pp = i \<and> Q pp) (map snd (pf_raw st)))"
    by (simp add: filter_map comp_def case_prod_unfold)
  ultimately show ?thesis by simp
qed


definition near_majority :: "PostedPrice list \<Rightarrow> dec \<Rightarrow> bool" where
  "near_majority pps v \<longleftrightarrow>
     (\<forall>lo hi. 2 * length (filter (\<lambda>pp. pp_Price pp < lo \<or> hi < pp_Price pp) pps) < length pps \<longrightarrow> lo \<le> v \<and> v \<le> hi)"

lemma EndBlocker_market:
  fixes st :: pricefeed_state
  defines "act \<equiv> map mk_MarketID (filter mk_Active (pf_Markets st))"
  assumes m: "math_laws m" and d: "distinct act" and r: "pricefeed_EndBlocker m now st = Inr st'"
  shows "i \<notin> set act \<Longrightarrow> kv_get (pf_current st') i = kv_get (pf_current st) i"
    "i \<in> set act \<Longrightarrow> posted now st i = [] \<Longrightarrow> kv_get (pf_current st') i = Some no_price"
    "i \<in> set act \<Longrightarrow> posted now st i \<noteq> [] \<Longrightarrow>
       \<exists>v. kv_get (pf_current st') i = Some \<lparr>cur_MarketID = i, cur_Price = v\<rparr> \<and> near_majority (posted now st i) v"
    "pf_raw st' = pf_raw st" "pf_Markets st' = pf_Markets st"
proof -
  define byID where "byID = fold (collect_price now) (map snd (pf_raw st)) (\<lambda>i. if i \<in> set act then Some [] else None)"
  have run: "foldR (set_market_price m byID) act st = Inr st'"
    using r by (simp only: pricefeed_EndBlocker_def SetCurrentPricesForAllMarkets_def Let_def byID_def act_def)
  note set = set_market_prices [OF run d]
  show "i \<notin> set act \<Longrightarrow> kv_get (pf_current st') i = kv_get (pf_current st) i" "pf_raw st' = pf_raw st" "pf_Markets st' = pf_Markets st"
    using set by blast+
  let ?ps = "map (\<lambda>pp. \<lparr>cur_MarketID = pp_MarketID pp, cur_Price = pp_Price pp\<rparr>) (posted now st i)"
  have c: "if ?ps = [] then kv_get (pf_current st') i = Some no_price
      else \<exists>v. CalculateMedianPrice m ?ps = Inr v \<and> kv_get (pf_current st') i = Some \<lparr>cur_MarketID = i, cur_Price = v\<rparr>"
    if "i \<in> set act"
  proof -
    have "byID i = Some ([] @ ?ps)" unfolding posted_def byID_def by (rule collect_prices) (use that in simp)
    then show ?thesis using set that by auto
  qed
  then show "i \<in> set act \<Longrightarrow> posted now st i = [] \<Longrightarrow> kv_get (pf_current st') i = Some no_price" by simp
  have few: "length (filter (\<lambda>p. cur_Price p < lo \<or> hi < cur_Price p) ?ps) =
      length (filter (\<lambda>pp. pp_Price pp < lo \<or> hi < pp_Price pp) (posted now st i))" for lo hi
    by (simp add: filter_map comp_def)
  have rob: "near_majority (posted now st i) v" if "CalculateMedianPrice m ?ps = Inr v" "posted now st i \<noteq> []" for v
    unfolding near_majority_def
  proof (intro allI impI)
    fix lo hi assume h: "2 * length (filter (\<lambda>pp. pp_Price pp < lo \<or> hi < pp_Price pp) (posted now st i)) < length (posted now st i)"
    show "lo \<le> v \<and> v \<le> hi" by (rule Median_robust [OF m that(1)]) (use that h in \<open>simp_all add: comp_def\<close>)
  qed
  show "i \<in> set act \<Longrightarrow> posted now st i \<noteq> [] \<Longrightarrow>
       \<exists>v. kv_get (pf_current st') i = Some \<lparr>cur_MarketID = i, cur_Price = v\<rparr> \<and> near_majority (posted now st i) v"
    using c rob by auto
qed

section \<open>Claims\<close>

text \<open>
  C29: In a reachable state of \<open>x/pricefeed\<close>, a market has at most one unexpired posted price per oracle
  address. After \<open>EndBlocker\<close> has set the prices, an active market without such prices has no
  current price (\<open>GetCurrentPrice\<close> fails), every other active market has a current price, and that
  price lies in every interval that holds more than half of the unexpired posted prices, so that a
  minority of oracles cannot move it out of the range of the others. Markets that are not active
  keep their price.
\<close>

theorem pricefeed_EndBlocker_median:
  assumes "math_laws m" "pricefeed_reach m bech st" "pricefeed_EndBlocker m now st = Inr st'"
  shows "(\<forall>i. i \<in> set (map mk_MarketID (filter mk_Active (pf_Markets st))) \<longrightarrow>
      distinct (map pp_OracleAddress (posted now st i)) \<and>
      (posted now st i = [] \<longrightarrow> GetCurrentPrice st' i = Inl (Err ''ErrNoValidPrice'')) \<and>
      (posted now st i \<noteq> [] \<longrightarrow>
        (\<exists>v. kv_get (pf_current st') i = Some \<lparr>cur_MarketID = i, cur_Price = v\<rparr> \<and>
          (\<forall>lo hi. 2 * length (filter (\<lambda>pp. pp_Price pp < lo \<or> hi < pp_Price pp) (posted now st i)) < length (posted now st i) \<longrightarrow>
            lo \<le> v \<and> v \<le> hi)))) \<and>
    (\<forall>i. i \<notin> set (map mk_MarketID (filter mk_Active (pf_Markets st))) \<longrightarrow> kv_get (pf_current st') i = kv_get (pf_current st) i)"
proof (intro conjI)
  note ok = pricefeed_reach_ok [OF assms(2)]
  have d: "distinct (map mk_MarketID (filter mk_Active (pf_Markets st)))" using ok by (simp add: distinct_map_filter)
  note mk = EndBlocker_market [OF assms(1) d assms(3)]
  have o: "distinct (map pp_OracleAddress (posted now st i))" for i using raw_ok_distinct ok by (simp add: posted_def)
  show "\<forall>i. i \<in> set (map mk_MarketID (filter mk_Active (pf_Markets st))) \<longrightarrow>
      distinct (map pp_OracleAddress (posted now st i)) \<and>
      (posted now st i = [] \<longrightarrow> GetCurrentPrice st' i = Inl (Err ''ErrNoValidPrice'')) \<and>
      (posted now st i \<noteq> [] \<longrightarrow>
        (\<exists>v. kv_get (pf_current st') i = Some \<lparr>cur_MarketID = i, cur_Price = v\<rparr> \<and>
          (\<forall>lo hi. 2 * length (filter (\<lambda>pp. pp_Price pp < lo \<or> hi < pp_Price pp) (posted now st i)) < length (posted now st i) \<longrightarrow>
            lo \<le> v \<and> v \<le> hi)))"
    using o mk(3) [unfolded near_majority_def] mk(2) by (simp add: GetCurrentPrice_def no_price_def)
  show "\<forall>i. i \<notin> set (map mk_MarketID (filter mk_Active (pf_Markets st))) \<longrightarrow> kv_get (pf_current st') i = kv_get (pf_current st) i"
    using mk(1) by blast
qed


section \<open>A concrete market\<close>

definition ex_now :: time where "ex_now = 1600000000 * 10 ^ 9"

definition ex_genesis :: pricefeed_genesis where
  "ex_genesis = \<lparr>pg_Markets = [\<lparr>mk_MarketID = ''bnb:usd'', mk_BaseAsset = ''bnb'', mk_QuoteAsset = ''usd'',
       mk_Oracles = [''a'', ''b'', ''c''], mk_Active = True\<rparr>],
     pg_PostedPrices = [\<lparr>pp_MarketID = ''bnb:usd'', pp_OracleAddress = ''a'', pp_Price = 20, pp_Expiry = ex_now + 100\<rparr>,
       \<lparr>pp_MarketID = ''bnb:usd'', pp_OracleAddress = ''b'', pp_Price = 22, pp_Expiry = ex_now + 100\<rparr>,
       \<lparr>pp_MarketID = ''bnb:usd'', pp_OracleAddress = ''c'', pp_Price = 900, pp_Expiry = ex_now + 100\<rparr>]\<rparr>"

definition ex_no_prices :: pricefeed_state where "ex_no_prices = \<lparr>pf_Markets = [], pf_raw = [], pf_current = []\<rparr>"

definition ex_market :: pricefeed_state where
  "ex_market = projr (pricefeed_InitGenesis ref_math ex_now ex_no_prices ex_genesis)"

lemma ex_market_reach: "pricefeed_reach ref_math Inr ex_market"
proof (rule pricefeed_reach.genesis)
  show "pricefeed_genesis_Validate ref_math id ex_genesis = Inr ()" by code_simp
  have "\<not> isl (pricefeed_InitGenesis ref_math ex_now ex_no_prices ex_genesis)" by code_simp
  then show "pricefeed_InitGenesis ref_math ex_now \<lparr>pf_Markets = [], pf_raw = [], pf_current = []\<rparr> ex_genesis = Inr ex_market"
    unfolding ex_market_def ex_no_prices_def by simp
qed

theorem pricefeed_EndBlocker_median_witness:
  "20 \<le> cur_Price (projr (GetCurrentPrice (projr (pricefeed_EndBlocker ref_math (ex_now + 50) ex_market)) ''bnb:usd'')) \<and>
   cur_Price (projr (GetCurrentPrice (projr (pricefeed_EndBlocker ref_math (ex_now + 50) ex_market)) ''bnb:usd'')) \<le> 22"
proof -
  let ?st = "projr (pricefeed_EndBlocker ref_math (ex_now + 50) ex_market)"
  have "\<not> isl (pricefeed_EndBlocker ref_math (ex_now + 50) ex_market)" by code_simp
  then have r: "pricefeed_EndBlocker ref_math (ex_now + 50) ex_market = Inr ?st" by simp
  have p: "''bnb:usd'' \<in> set (map mk_MarketID (filter mk_Active (pf_Markets ex_market)))"
    "length (posted (ex_now + 50) ex_market ''bnb:usd'') = 3"
    "length (filter (\<lambda>pp. pp_Price pp < 20 \<or> 22 < pp_Price pp) (posted (ex_now + 50) ex_market ''bnb:usd'')) = 1"
    by code_simp+
  then have "posted (ex_now + 50) ex_market ''bnb:usd'' \<noteq> []" by auto
  with conjunct1 [OF pricefeed_EndBlocker_median [OF ref_math_laws ex_market_reach r]] p(1)
  obtain v where v: "kv_get (pf_current ?st) ''bnb:usd'' = Some \<lparr>cur_MarketID = ''bnb:usd'', cur_Price = v\<rparr>"
    "2 * length (filter (\<lambda>pp. pp_Price pp < 20 \<or> 22 < pp_Price pp) (posted (ex_now + 50) ex_market ''bnb:usd''))
       < length (posted (ex_now + 50) ex_market ''bnb:usd'') \<longrightarrow> 20 \<le> v \<and> v \<le> 22"
    by blast
  then have "20 \<le> v \<and> v \<le> 22" using p(2,3) by simp
  then show ?thesis using v(1) by (simp add: GetCurrentPrice_def)
qed

text \<open>
  A posted price has no upper bound, and \<open>calculateMeanPrice\<close> adds the two middle prices: one oracle
  of two that posts the largest decimal makes the end blocker panic.
\<close>

lemma EndBlocker_overflow:
  "pricefeed_EndBlocker ref_math ex_now (ex_market\<lparr>pf_raw :=
     [((((7, ''bnb:usd''), (1, ''a'')), \<lparr>pp_MarketID = ''bnb:usd'', pp_OracleAddress = ''a'', pp_Price = 20, pp_Expiry = ex_now + 100\<rparr>)),
      ((((7, ''bnb:usd''), (1, ''b'')), \<lparr>pp_MarketID = ''bnb:usd'', pp_OracleAddress = ''b'', pp_Price = 2 ^ 315 - 1, pp_Expiry = ex_now + 100\<rparr>))]\<rparr>)
   = Inl overflow"
  by code_simp

end
