(* ===== verification/Cdp_Types.thy ===== *)
theory Cdp_Types
  imports Sdk_Reference Ordered_Store
begin

text \<open>
  The data of the collateralised debt positions, \<open>x/cdp/types\<close>: positions, deposits, parameters and
  their validation, the keys of the stores, the scaled power, and the messages' own checks.
\<close>

section \<open>Positions and deposits\<close>

record CDP =
  c_ID :: uint64
  c_Owner :: address
  c_Type :: string
  c_Collateral :: coin
  c_Principal :: coin
  c_AccumulatedFees :: coin
  c_FeesUpdated :: time
  c_InterestFactor :: dec

record CdpDeposit =
  d_CdpID :: uint64
  d_Depositor :: address
  d_Amount :: coin

definition NewCDP :: "sdk_math \<Rightarrow> uint64 \<Rightarrow> address \<Rightarrow> coin \<Rightarrow> string \<Rightarrow> coin \<Rightarrow> time \<Rightarrow> dec \<Rightarrow> CDP result" where
  "NewCDP m i owner collateral collateralType prin t factor =
     bnd (NewCoin m (Denom prin) 0) (\<lambda>fees.
     Inr \<lparr>c_ID = i, c_Owner = owner, c_Type = collateralType, c_Collateral = collateral, c_Principal = prin,
       c_AccumulatedFees = fees, c_FeesUpdated = t, c_InterestFactor = factor\<rparr>)"

definition CDP_Validate :: "sdk_math \<Rightarrow> CDP \<Rightarrow> unit result" where
  "CDP_Validate m c =
     (if c_ID c = 0 then Inl (Err ''cdp id cannot be 0'')
      else if c_Owner c = [] then Inl (Err ''cdp owner cannot be empty'')
      else if \<not> coin_IsValid m (c_Collateral c) then Inl (Err ''ErrInvalidCoins'')
      else if \<not> coin_IsValid m (c_Principal c) then Inl (Err ''ErrInvalidCoins'')
      else if \<not> coin_IsValid m (c_AccumulatedFees c) then Inl (Err ''ErrInvalidCoins'')
      else if time_Unix (c_FeesUpdated c) \<le> 0 then Inl (Err ''cdp updated fee time cannot be zero'')
      else if list_all isSpace (c_Type c) then Inl (Err ''cdp type cannot be empty'')
      else Inr ())"

definition CDP_GetTotalPrincipal :: "sdk_math \<Rightarrow> CDP \<Rightarrow> coin result" where
  "CDP_GetTotalPrincipal m c = coin_Add m (c_Principal c) (c_AccumulatedFees c)"

definition GetNormalizedPrincipal :: "sdk_math \<Rightarrow> CDP \<Rightarrow> dec result" where
  "GetNormalizedPrincipal m c =
     bnd (CDP_GetTotalPrincipal m c) (\<lambda>unsyncedDebt.
     if c_InterestFactor c < OneDec then Inl (Err ''interest factor must be >= 1'')
     else DecQuo m (NewDecFromInt (Amount unsyncedDebt)) (c_InterestFactor c))"

definition CDPs_Validate :: "sdk_math \<Rightarrow> CDP list \<Rightarrow> unit result" where
  "CDPs_Validate m cs = foldR (\<lambda>c _. CDP_Validate m c) cs ()"

definition NewDeposit :: "uint64 \<Rightarrow> address \<Rightarrow> coin \<Rightarrow> CdpDeposit" where
  "NewDeposit i depositor amount = \<lparr>d_CdpID = i, d_Depositor = depositor, d_Amount = amount\<rparr>"

definition Deposit_Validate :: "sdk_math \<Rightarrow> CdpDeposit \<Rightarrow> unit result" where
  "Deposit_Validate m d =
     (if d_CdpID d = 0 then Inl (Err ''deposit's cdp id cannot be 0'')
      else if d_Depositor d = [] then Inl (Err ''depositor cannot be empty'')
      else if \<not> coin_IsValid m (d_Amount d) then Inl (Err ''ErrInvalidCoins'')
      else Inr ())"

definition Deposits_Validate :: "sdk_math \<Rightarrow> CdpDeposit list \<Rightarrow> unit result" where
  "Deposits_Validate m ds = foldR (\<lambda>d _. Deposit_Validate m d) ds ()"

definition SumCollateral :: "sdk_math \<Rightarrow> CdpDeposit list \<Rightarrow> int result" where
  "SumCollateral m ds =
     foldR (\<lambda>d s. if Amount (d_Amount d) \<noteq> 0 then toInt m (s + Amount (d_Amount d)) else Inr s) ds 0"

section \<open>Parameters\<close>

record CollateralParam =
  co_Denom :: denom
  co_Type :: string
  co_LiquidationRatio :: dec
  co_DebtLimit :: coin
  co_StabilityFee :: dec
  co_AuctionSize :: int
  co_LiquidationPenalty :: dec
  co_SpotMarketID :: string
  co_LiquidationMarketID :: string
  co_KeeperRewardPercentage :: dec
  co_CheckCollateralizationIndexCount :: int
  co_ConversionFactor :: int

record DebtParam =
  dp_Denom :: denom
  dp_ReferenceAsset :: string
  dp_ConversionFactor :: int
  dp_DebtFloor :: int

record cdp_Params =
  CollateralParams :: "CollateralParam list"
  DebtParamOf :: DebtParam
  GlobalDebtLimit :: coin
  SurplusAuctionThreshold :: int
  SurplusAuctionLot :: int
  DebtAuctionThreshold :: int
  DebtAuctionLot :: int
  CircuitBreaker :: bool
  LiquidationBlockInterval :: int

definition stabilityFeeMax :: dec where "stabilityFeeMax = 1000000051034942716"

definition validateCollateralParam :: "sdk_math \<Rightarrow> string list \<Rightarrow> CollateralParam \<Rightarrow> unit result" where
  "validateCollateralParam m seen cp =
     (if \<not> ValidDenom m (co_Denom cp) then Inl (Err ''collateral denom invalid'')
      else if list_all isSpace (co_SpotMarketID cp) then Inl (Err ''spot market id cannot be blank'')
      else if list_all isSpace (co_Type cp) then Inl (Err ''collateral type cannot be blank'')
      else if list_all isSpace (co_LiquidationMarketID cp) then Inl (Err ''liquidation market id cannot be blank'')
      else if co_Type cp \<in> set seen then Inl (Err ''duplicate cdp collateral type'')
      else if \<not> coin_IsValid m (co_DebtLimit cp) then Inl (Err ''debt limit for all collaterals should be positive'')
      else if \<not> 0 < co_LiquidationRatio cp then Inl (Err ''liquidation ratio must be > 0'')
      else if co_LiquidationPenalty cp < 0 \<or> co_LiquidationPenalty cp > OneDec then Inl (Err ''liquidation penalty should be between 0 and 1'')
      else if \<not> 0 < co_AuctionSize cp then Inl (Err ''auction size should be positive'')
      else if co_StabilityFee cp < OneDec \<or> co_StabilityFee cp > stabilityFeeMax then Inl (Err ''stability fee out of range'')
      else if co_KeeperRewardPercentage cp < 0 \<or> co_KeeperRewardPercentage cp > OneDec
        then Inl (Err ''keeper reward percentage should be between 0 and 1'')
      else if co_CheckCollateralizationIndexCount cp < 0 then Inl (Err ''keeper reward percentage should be positive'')
      else Inr ())"

fun validateCollateralParams :: "sdk_math \<Rightarrow> string list \<Rightarrow> CollateralParam list \<Rightarrow> unit result" where
  "validateCollateralParams m seen [] = Inr ()"
| "validateCollateralParams m seen (cp # cps) =
     bnd (validateCollateralParam m seen cp) (\<lambda>_. validateCollateralParams m (co_Type cp # seen) cps)"

definition validateDebtParam :: "sdk_math \<Rightarrow> DebtParam \<Rightarrow> unit result" where
  "validateDebtParam m dp = (if \<not> ValidDenom m (dp_Denom dp) then Inl (Err ''debt denom invalid'') else Inr ())"

text \<open>The loop over the collaterals: types are unique, limits in the global denomination and below the global limit.\<close>

fun check_debt_limits :: "sdk_math \<Rightarrow> coin \<Rightarrow> string list \<Rightarrow> int \<Rightarrow> CollateralParam list \<Rightarrow> int result" where
  "check_debt_limits m glob seen tot [] = Inr tot"
| "check_debt_limits m glob seen tot (cp # cps) =
     (if co_Type cp \<in> set seen then Inl (Err ''duplicate collateral type'')
      else if Denom (co_DebtLimit cp) \<noteq> Denom glob then Inl (Err ''collateral debt limit denom does not match global debt limit denom'')
      else
        bnd (toInt m (tot + Amount (co_DebtLimit cp))) (\<lambda>tot'.
        if Amount (co_DebtLimit cp) > Amount glob then Inl (Err ''collateral debt limit exceeds global debt limit'')
        else check_debt_limits m glob (co_Type cp # seen) tot' cps))"

definition cdp_Params_Validate :: "sdk_math \<Rightarrow> cdp_Params \<Rightarrow> unit result" where
  "cdp_Params_Validate m p =
     (if \<not> coin_IsValid m (GlobalDebtLimit p) then Inl (Err ''ErrInvalidCoins'')
      else
        bnd (validateCollateralParams m [] (CollateralParams p)) (\<lambda>_.
        bnd (validateDebtParam m (DebtParamOf p)) (\<lambda>_.
        if LiquidationBlockInterval p \<le> 0 then Inl (Err ''begin blocker execution block interval param should be positive'')
        else if \<not> 0 < SurplusAuctionThreshold p then Inl (Err ''surplus auction threshold should be positive'')
        else if \<not> 0 < SurplusAuctionLot p then Inl (Err ''surplus auction lot should be positive'')
        else if \<not> 0 < DebtAuctionThreshold p then Inl (Err ''debt auction threshold should be positive'')
        else if \<not> 0 < DebtAuctionLot p then Inl (Err ''debt auction lot should be positive'')
        else if CollateralParams p = [] then Inr ()
        else if dp_Denom (DebtParamOf p) \<noteq> Denom (GlobalDebtLimit p) then Inl (Err ''debt denom does not match global debt denom'')
        else
          bnd (check_debt_limits m (GlobalDebtLimit p) [] 0 (CollateralParams p)) (\<lambda>tot.
          if tot > Amount (GlobalDebtLimit p) then Inl (Err ''sum of collateral debt limits exceeds global debt limit'')
          else Inr ()))))"

section \<open>Keys\<close>

text \<open>
  A key of the position store is the collateral type, a colon and the eight bytes of the
  identifier; a key of the ratio index has the sortable bytes of the ratio in between. The pairs
  and triples below are ordered as those bytes are (a type that contains no colon is assumed, as
  the code that splits the keys does).
\<close>

definition MaxSortableDec :: dec where "MaxSortableDec = Precision * Precision"

definition ValidSortableDec :: "dec \<Rightarrow> bool" where "ValidSortableDec x \<longleftrightarrow> \<bar>x\<bar> \<le> MaxSortableDec"

definition CollateralRatioBytes :: "dec \<Rightarrow> dec" where
  "CollateralRatioBytes ratio = (if ValidSortableDec ratio then ratio else MaxSortableDec)"

definition DenomIterKey :: "string \<Rightarrow> string" where "DenomIterKey t = t @ '':''"

definition CdpKey :: "string \<Rightarrow> uint64 \<Rightarrow> string \<times> uint64" where "CdpKey t i = (DenomIterKey t, i)"

definition CollateralRatioKey :: "string \<Rightarrow> uint64 \<Rightarrow> dec \<Rightarrow> string \<times> dec \<times> uint64" where
  "CollateralRatioKey t i ratio = (DenomIterKey t, CollateralRatioBytes ratio, i)"

definition DepositKey :: "uint64 \<Rightarrow> address \<Rightarrow> uint64 \<times> address" where "DepositKey i a = (i, a)"

section \<open>The scaled power\<close>

text \<open>
  \<open>RelativePow\<close> squares \<open>x\<close> while it halves \<open>n\<close>; every product is divided by the scale, rounded
  to the nearest. The loop ends because \<open>n\<close> falls; for \<open>n < 0\<close> it is not entered.
\<close>

definition checked_Quo :: "int \<Rightarrow> int \<Rightarrow> int result" where
  "checked_Quo a b = (if b = 0 then Inl (Panic ''division by zero'') else Inr (Quo a b))"

function RelativePow_loop :: "sdk_math \<Rightarrow> int \<Rightarrow> int \<Rightarrow> int \<Rightarrow> int \<Rightarrow> int \<Rightarrow> int result" where
  "RelativePow_loop m halfOfB b n x z =
     (if \<not> n > 0 then Inr z
      else
        bnd (toInt m (x * x)) (\<lambda>xSquared.
        bnd (toInt m (xSquared + halfOfB)) (\<lambda>xSquaredRounded.
        bnd (checked_Quo xSquaredRounded b) (\<lambda>x'.
        bnd (if n mod 2 = 1 then
               bnd (toInt m (z * x')) (\<lambda>zx.
               bnd (toInt m (zx + halfOfB)) (\<lambda>zxRounded.
               checked_Quo zxRounded b))
             else Inr z) (\<lambda>z'.
        RelativePow_loop m halfOfB b (Quo n 2) x' z')))))"
  by pat_completeness auto
termination
  by (relation "measure (\<lambda>(m, h, b, n, x, z). nat n)") auto

definition RelativePow :: "sdk_math \<Rightarrow> int \<Rightarrow> int \<Rightarrow> int \<Rightarrow> int result" where
  "RelativePow m x n b =
     (if x = 0 then (if n = 0 then Inr b else Inr 0)
      else RelativePow_loop m (Quo b 2) b (Quo n 2) x (if n mod 2 = 0 then b else x))"

section \<open>Messages\<close>

definition bech_check :: "(string \<Rightarrow> address result) \<Rightarrow> string \<Rightarrow> unit result" where
  "bech_check bech s = (case bech s of Inr _ \<Rightarrow> Inr () | Inl (Err _) \<Rightarrow> Inl (Err ''ErrInvalidAddress'') | Inl (Panic e) \<Rightarrow> Inl (Panic e))"

definition positive_coin_check :: "sdk_math \<Rightarrow> coin \<Rightarrow> unit result" where
  "positive_coin_check m c = (if Amount c = 0 \<or> \<not> coin_IsValid m c then Inl (Err ''ErrInvalidCoins'') else Inr ())"

definition type_check :: "string \<Rightarrow> unit result" where
  "type_check t = (if list_all isSpace t then Inl (Err ''collateral type cannot be empty'') else Inr ())"

definition MsgCreateCDP_ValidateBasic :: "sdk_math \<Rightarrow> (string \<Rightarrow> address result) \<Rightarrow> string \<Rightarrow> coin \<Rightarrow> coin \<Rightarrow> string \<Rightarrow> unit result" where
  "MsgCreateCDP_ValidateBasic m bech sender collateral prin t =
     bnd (bech_check bech sender) (\<lambda>_. bnd (positive_coin_check m collateral) (\<lambda>_. bnd (positive_coin_check m prin) (\<lambda>_. type_check t)))"

definition MsgDepositCDP_ValidateBasic :: "sdk_math \<Rightarrow> (string \<Rightarrow> address result) \<Rightarrow> string \<Rightarrow> string \<Rightarrow> coin \<Rightarrow> string \<Rightarrow> unit result" where
  "MsgDepositCDP_ValidateBasic m bech owner depositor collateral t =
     bnd (bech_check bech owner) (\<lambda>_. bnd (bech_check bech depositor) (\<lambda>_. bnd (positive_coin_check m collateral) (\<lambda>_. type_check t)))"

definition MsgWithdrawCDP_ValidateBasic :: "sdk_math \<Rightarrow> (string \<Rightarrow> address result) \<Rightarrow> string \<Rightarrow> string \<Rightarrow> coin \<Rightarrow> string \<Rightarrow> unit result" where
  "MsgWithdrawCDP_ValidateBasic m bech owner depositor collateral t =
     bnd (bech_check bech owner) (\<lambda>_. bnd (bech_check bech depositor) (\<lambda>_. bnd (positive_coin_check m collateral) (\<lambda>_. type_check t)))"

definition MsgDrawDebt_ValidateBasic :: "sdk_math \<Rightarrow> (string \<Rightarrow> address result) \<Rightarrow> string \<Rightarrow> string \<Rightarrow> coin \<Rightarrow> unit result" where
  "MsgDrawDebt_ValidateBasic m bech sender t prin =
     bnd (bech_check bech sender) (\<lambda>_. bnd (type_check t) (\<lambda>_. positive_coin_check m prin))"

definition MsgRepayDebt_ValidateBasic :: "sdk_math \<Rightarrow> (string \<Rightarrow> address result) \<Rightarrow> string \<Rightarrow> string \<Rightarrow> coin \<Rightarrow> unit result" where
  "MsgRepayDebt_ValidateBasic m bech sender t payment =
     bnd (bech_check bech sender) (\<lambda>_. bnd (type_check t) (\<lambda>_. positive_coin_check m payment))"

definition MsgLiquidate_ValidateBasic :: "(string \<Rightarrow> address result) \<Rightarrow> string \<Rightarrow> string \<Rightarrow> string \<Rightarrow> unit result" where
  "MsgLiquidate_ValidateBasic bech keeper borrower t =
     bnd (bech_check bech keeper) (\<lambda>_. bnd (bech_check bech borrower) (\<lambda>_. type_check t))"

end
