(* ===== verification/Elapsed_Time.thy ===== *)
theory Elapsed_Time
  imports Sdk_Prelude
begin

text \<open>
  Elapsed seconds as the interest of \<open>x/cdp\<close> and \<open>x/hard\<close> sees them, and unsigned integers of the SDK.
\<close>

text \<open>
  \<open>int64(math.RoundToEven(d.Seconds()))\<close>: \<open>Seconds\<close> adds the whole seconds and the rest divided by
  \<open>10\<^sup>9\<close> in 64-bit floating point, so both the quotient and the sum are rounded to 53 bits, ties to
  even, before the result is rounded to a whole number.
\<close>

definition half_even :: "int \<Rightarrow> int \<Rightarrow> int" where
  "half_even a b =
     (let q = a div b; r = a mod b in
      if 2 * r < b then q else if 2 * r > b then q + 1 else if even q then q else q + 1)"

function bit_length :: "int \<Rightarrow> nat" where
  "bit_length n = (if n \<le> 0 then 0 else Suc (bit_length (n div 2)))"
  by pat_completeness auto
termination
  by (relation "measure nat") auto

definition float_round :: "int \<Rightarrow> int" where
  \<comment> \<open>to 53 significant bits\<close>
  "float_round n = (let s = bit_length n - 53 in half_even n (2 ^ s) * 2 ^ s)"

definition round_seconds_nonneg :: "duration \<Rightarrow> int" where
  \<comment> \<open>fractions are multiples of \<open>2\<^sup>-\<^sup>8\<^sup>3\<close>: a quotient below one and not zero has at most 30 leading zero bits\<close>
  "round_seconds_nonneg d =
     (let sec = d div second; nsec = d mod second;
          shift = (if nsec = 0 then 0 else 53 - (int (bit_length (nsec * 2 ^ 83 div second)) - 83));
          frac = (if nsec = 0 then 0 else half_even (nsec * 2 ^ nat shift) second * 2 ^ (83 - nat shift));
          x = float_round (sec * 2 ^ 83 + frac)
      in half_even x (2 ^ 83))"

definition round_seconds :: "duration \<Rightarrow> int" where
  "round_seconds d = (if d < 0 then - round_seconds_nonneg (- d) else round_seconds_nonneg d)"

definition scalingFactor :: int where "scalingFactor = 1000000000000000000"

definition NewUint :: "int \<Rightarrow> int result" where
  "NewUint x = (if 0 \<le> x \<and> x < 2 ^ 256 then Inr x else Inl overflow)"

end
