(* ===== verification/Cdp.thy ===== *)
theory Cdp
  imports Cdp_Types Auction Pricefeed Elapsed_Time
begin

text \<open>
  The keeper of the collateralised debt positions, \<open>x/cdp/keeper\<close>, with its calls into the bank, the
  oracle prices (\<open>Pricefeed\<close>) and the auctions (\<open>Auction\<close>), the begin blocker (\<open>abci.go\<close>) and genesis.
\<close>

section \<open>State\<close>

text \<open>
  The keeper works on its own stores, the state of the auction keeper (with the bank in it), the
  prices, and the state \<open>'h\<close> of whoever registered the hooks. The environment holds what is called
  but lives elsewhere: the SDK, the two hooks, and \<open>sdkmath.RelativePow\<close>.
\<close>

record ('b, 'h) cdp_env =
  Sdk :: "'b sdk"
  AfterCDPCreated :: "'h \<Rightarrow> CDP \<Rightarrow> 'h result"
  BeforeCDPModified :: "'h \<Rightarrow> CDP \<Rightarrow> 'h result"
  UintRelativePow :: "int \<Rightarrow> int \<Rightarrow> int \<Rightarrow> int result"

record ('b, 'h) cdp_state =
  cs_params :: cdp_Params
  cs_cdps :: "(string \<times> uint64, CDP) kv"
  cs_byOwner :: "(address, uint64 list) kv"
  cs_byRatio :: "(string \<times> dec \<times> uint64, uint64) kv"
  cs_nextID :: "uint64 option"
  cs_debtDenom :: denom
  cs_govDenom :: denom
  cs_deposits :: "(uint64 \<times> address, CdpDeposit) kv"
  cs_principal :: "(string, int) kv"
  cs_status :: "(string, unit) kv"
  cs_accrual :: "(string, time) kv"
  cs_factor :: "(string, dec) kv"
  cs_auction :: "'b auction_state"
  cs_prices :: pricefeed_state
  cs_hooks :: 'h

abbreviation (input) env_math :: "('b, 'h) cdp_env \<Rightarrow> sdk_math" where "env_math E \<equiv> Math (Sdk E)"

definition cs_bank :: "('b, 'h) cdp_state \<Rightarrow> 'b" where "cs_bank st = ak_bank (cs_auction st)"

definition set_bank :: "'b \<Rightarrow> ('b, 'h) cdp_state \<Rightarrow> ('b, 'h) cdp_state" where
  "set_bank b st = st\<lparr>cs_auction := (cs_auction st)\<lparr>ak_bank := b\<rparr>\<rparr>"

definition with_bank :: "('b \<Rightarrow> 'b result) \<Rightarrow> ('b, 'h) cdp_state \<Rightarrow> ('b, 'h) cdp_state result" where
  "with_bank f st = bnd (f (cs_bank st)) (\<lambda>b. Inr (set_bank b st))"

definition cdp_module :: string where "cdp_module = ''cdp''"
definition LiquidatorMacc :: string where "LiquidatorMacc = ''liquidator''"
definition DefaultStableDenom :: denom where "DefaultStableDenom = ''usdx''"

definition hook_modified :: "('b, 'h) cdp_env \<Rightarrow> ('b, 'h) cdp_state \<Rightarrow> CDP \<Rightarrow> ('b, 'h) cdp_state result" where
  "hook_modified E st c = bnd (BeforeCDPModified E (cs_hooks st) c) (\<lambda>h. Inr (st\<lparr>cs_hooks := h\<rparr>))"

definition hook_created :: "('b, 'h) cdp_env \<Rightarrow> ('b, 'h) cdp_state \<Rightarrow> CDP \<Rightarrow> ('b, 'h) cdp_state result" where
  "hook_created E st c = bnd (AfterCDPCreated E (cs_hooks st) c) (\<lambda>h. Inr (st\<lparr>cs_hooks := h\<rparr>))"

section \<open>Parameters\<close>

definition cdp_SetParams :: "sdk_math \<Rightarrow> ('b, 'h) cdp_state \<Rightarrow> cdp_Params \<Rightarrow> ('b, 'h) cdp_state result" where
  \<comment> \<open>\<open>SetParamSet\<close> panics when the check of a field fails\<close>
  "cdp_SetParams m st p =
     (if \<not> coin_IsValid m (GlobalDebtLimit p) then Inl (Panic ''ErrInvalidCoins'')
      else
        bnd (panic_on_err (validateCollateralParams m [] (CollateralParams p))) (\<lambda>_.
        bnd (panic_on_err (validateDebtParam m (DebtParamOf p))) (\<lambda>_.
        if \<not> 0 < SurplusAuctionThreshold p \<or> \<not> 0 < SurplusAuctionLot p \<or> \<not> 0 < DebtAuctionThreshold p \<or> \<not> 0 < DebtAuctionLot p
           \<or> LiquidationBlockInterval p \<le> 0 then Inl (Panic ''parameter should be positive'')
        else Inr (st\<lparr>cs_params := p\<rparr>))))"

definition GetCollateral :: "('b, 'h) cdp_state \<Rightarrow> string \<Rightarrow> CollateralParam option" where
  "GetCollateral st t = find (\<lambda>cp. co_Type cp = t) (CollateralParams (cs_params st))"

definition GetDebtParam :: "('b, 'h) cdp_state \<Rightarrow> denom \<Rightarrow> DebtParam option" where
  "GetDebtParam st d = (let dp = DebtParamOf (cs_params st) in if dp_Denom dp = d then Some dp else None)"

definition collateral_or_panic :: "('b, 'h) cdp_state \<Rightarrow> string \<Rightarrow> CollateralParam result" where
  "collateral_or_panic st t = (case GetCollateral st t of None \<Rightarrow> Inl (Panic ''collateral not found'') | Some cp \<Rightarrow> Inr cp)"

definition getSpotMarketID :: "('b, 'h) cdp_state \<Rightarrow> string \<Rightarrow> string result" where
  "getSpotMarketID st t = bnd (collateral_or_panic st t) (\<lambda>cp. Inr (co_SpotMarketID cp))"

definition getliquidationMarketID :: "('b, 'h) cdp_state \<Rightarrow> string \<Rightarrow> string result" where
  "getliquidationMarketID st t = bnd (collateral_or_panic st t) (\<lambda>cp. Inr (co_LiquidationMarketID cp))"

definition getLiquidationRatio :: "('b, 'h) cdp_state \<Rightarrow> string \<Rightarrow> dec result" where
  "getLiquidationRatio st t = bnd (collateral_or_panic st t) (\<lambda>cp. Inr (co_LiquidationRatio cp))"

definition getLiquidationPenalty :: "('b, 'h) cdp_state \<Rightarrow> string \<Rightarrow> dec result" where
  "getLiquidationPenalty st t = bnd (collateral_or_panic st t) (\<lambda>cp. Inr (co_LiquidationPenalty cp))"

definition getAuctionSize :: "('b, 'h) cdp_state \<Rightarrow> string \<Rightarrow> int result" where
  "getAuctionSize st t = bnd (collateral_or_panic st t) (\<lambda>cp. Inr (co_AuctionSize cp))"

definition getFeeRate :: "('b, 'h) cdp_state \<Rightarrow> string \<Rightarrow> dec result" where
  "getFeeRate st t = bnd (collateral_or_panic st t) (\<lambda>cp. Inr (co_StabilityFee cp))"

section \<open>Positions, indices and deposits\<close>

definition GetCDP :: "('b, 'h) cdp_state \<Rightarrow> string \<Rightarrow> uint64 \<Rightarrow> CDP option" where
  "GetCDP st t i = (case GetCollateral st t of None \<Rightarrow> None | Some _ \<Rightarrow> kv_get (cs_cdps st) (CdpKey t i))"

definition SetCDP :: "('b, 'h) cdp_state \<Rightarrow> CDP \<Rightarrow> ('b, 'h) cdp_state result" where
  "SetCDP st c =
     (case GetCollateral st (c_Type c) of
        None \<Rightarrow> Inl (Err ''ErrDenomPrefixNotFound'')
      | Some _ \<Rightarrow> Inr (st\<lparr>cs_cdps := kv_set (cs_cdps st) (CdpKey (c_Type c) (c_ID c)) c\<rparr>))"

definition DeleteCDP :: "('b, 'h) cdp_state \<Rightarrow> CDP \<Rightarrow> ('b, 'h) cdp_state result" where
  "DeleteCDP st c =
     (case GetCollateral st (c_Type c) of
        None \<Rightarrow> Inl (Err ''ErrDenomPrefixNotFound'')
      | Some _ \<Rightarrow> Inr (st\<lparr>cs_cdps := kv_del (cs_cdps st) (CdpKey (c_Type c) (c_ID c))\<rparr>))"

definition GetAllCdps :: "('b, 'h) cdp_state \<Rightarrow> CDP list" where
  "GetAllCdps st = map snd (cs_cdps st)"

definition GetAllCdpsByCollateralType :: "('b, 'h) cdp_state \<Rightarrow> string \<Rightarrow> CDP list" where
  "GetAllCdpsByCollateralType st t = map snd (filter (\<lambda>((k, i), c). k = DenomIterKey t) (cs_cdps st))"

definition SetNextCdpID :: "('b, 'h) cdp_state \<Rightarrow> uint64 \<Rightarrow> ('b, 'h) cdp_state" where
  "SetNextCdpID st i = st\<lparr>cs_nextID := Some i\<rparr>"

definition GetNextCdpID :: "('b, 'h) cdp_state \<Rightarrow> uint64 result" where
  "GetNextCdpID st = (case cs_nextID st of None \<Rightarrow> Inl (Panic ''starting cdp id not set in genesis'') | Some i \<Rightarrow> Inr i)"

definition GetCdpIdsByOwner :: "('b, 'h) cdp_state \<Rightarrow> address \<Rightarrow> uint64 list option" where
  "GetCdpIdsByOwner st owner = kv_get (cs_byOwner st) owner"

fun first_cdp :: "('b, 'h) cdp_state \<Rightarrow> string \<Rightarrow> uint64 list \<Rightarrow> CDP option" where
  "first_cdp st t [] = None"
| "first_cdp st t (i # is) = (case GetCDP st t i of Some c \<Rightarrow> Some c | None \<Rightarrow> first_cdp st t is)"

definition GetCdpByOwnerAndCollateralType :: "('b, 'h) cdp_state \<Rightarrow> address \<Rightarrow> string \<Rightarrow> CDP option" where
  "GetCdpByOwnerAndCollateralType st owner t =
     (case GetCdpIdsByOwner st owner of None \<Rightarrow> None | Some is \<Rightarrow> first_cdp st t is)"

definition GetCdpID :: "('b, 'h) cdp_state \<Rightarrow> address \<Rightarrow> string \<Rightarrow> uint64 option" where
  "GetCdpID st owner t =
     (case GetCdpIdsByOwner st owner of None \<Rightarrow> None | Some is \<Rightarrow> find (\<lambda>i. GetCDP st t i \<noteq> None) is)"

definition IndexCdpByOwner :: "('b, 'h) cdp_state \<Rightarrow> CDP \<Rightarrow> ('b, 'h) cdp_state" where
  "IndexCdpByOwner st c =
     (let ids = (case GetCdpIdsByOwner st (c_Owner c) of Some is \<Rightarrow> sort (is @ [c_ID c]) | None \<Rightarrow> [c_ID c])
      in st\<lparr>cs_byOwner := kv_set (cs_byOwner st) (c_Owner c) ids\<rparr>)"

definition RemoveCdpOwnerIndex :: "('b, 'h) cdp_state \<Rightarrow> CDP \<Rightarrow> ('b, 'h) cdp_state" where
  "RemoveCdpOwnerIndex st c =
     (case GetCdpIdsByOwner st (c_Owner c) of
        None \<Rightarrow> st
      | Some is \<Rightarrow>
          let ids = filter (\<lambda>i. i \<noteq> c_ID c) is in
          if length ids = 0 then st\<lparr>cs_byOwner := kv_del (cs_byOwner st) (c_Owner c)\<rparr>
          else st\<lparr>cs_byOwner := kv_set (cs_byOwner st) (c_Owner c) ids\<rparr>)"

definition IndexCdpByCollateralRatio :: "('b, 'h) cdp_state \<Rightarrow> string \<Rightarrow> uint64 \<Rightarrow> dec \<Rightarrow> ('b, 'h) cdp_state result" where
  "IndexCdpByCollateralRatio st t i ratio =
     bnd (collateral_or_panic st t) (\<lambda>_.
     Inr (st\<lparr>cs_byRatio := kv_set (cs_byRatio st) (CollateralRatioKey t i ratio) i\<rparr>))"

definition RemoveCdpCollateralRatioIndex :: "('b, 'h) cdp_state \<Rightarrow> string \<Rightarrow> uint64 \<Rightarrow> dec \<Rightarrow> ('b, 'h) cdp_state result" where
  "RemoveCdpCollateralRatioIndex st t i ratio =
     bnd (collateral_or_panic st t) (\<lambda>_.
     Inr (st\<lparr>cs_byRatio := kv_del (cs_byRatio st) (CollateralRatioKey t i ratio)\<rparr>))"

definition SetDebtDenom :: "('b, 'h) cdp_state \<Rightarrow> denom \<Rightarrow> ('b, 'h) cdp_state result" where
  "SetDebtDenom st d = (if d = [] then Inl (Panic ''debt denom not set in genesis'') else Inr (st\<lparr>cs_debtDenom := d\<rparr>))"

definition SetGovDenom :: "('b, 'h) cdp_state \<Rightarrow> denom \<Rightarrow> ('b, 'h) cdp_state result" where
  "SetGovDenom st d = (if d = [] then Inl (Panic ''gov denom not set in genesis'') else Inr (st\<lparr>cs_govDenom := d\<rparr>))"

definition GetDeposit :: "('b, 'h) cdp_state \<Rightarrow> uint64 \<Rightarrow> address \<Rightarrow> CdpDeposit option" where
  "GetDeposit st i a = kv_get (cs_deposits st) (DepositKey i a)"

definition SetDeposit :: "('b, 'h) cdp_state \<Rightarrow> CdpDeposit \<Rightarrow> ('b, 'h) cdp_state" where
  "SetDeposit st d = st\<lparr>cs_deposits := kv_set (cs_deposits st) (DepositKey (d_CdpID d) (d_Depositor d)) d\<rparr>"

definition DeleteDeposit :: "('b, 'h) cdp_state \<Rightarrow> uint64 \<Rightarrow> address \<Rightarrow> ('b, 'h) cdp_state" where
  "DeleteDeposit st i a = st\<lparr>cs_deposits := kv_del (cs_deposits st) (DepositKey i a)\<rparr>"

definition GetDeposits :: "('b, 'h) cdp_state \<Rightarrow> uint64 \<Rightarrow> CdpDeposit list" where
  "GetDeposits st i = map snd (filter (\<lambda>((j, a), d). j = i) (cs_deposits st))"

section \<open>Totals, times and factors\<close>

definition SetTotalPrincipal :: "('b, 'h) cdp_state \<Rightarrow> string \<Rightarrow> denom \<Rightarrow> int \<Rightarrow> ('b, 'h) cdp_state result" where
  "SetTotalPrincipal st t d tot =
     bnd (collateral_or_panic st t) (\<lambda>_. Inr (st\<lparr>cs_principal := kv_set (cs_principal st) (t @ d) tot\<rparr>))"

definition GetTotalPrincipal :: "('b, 'h) cdp_state \<Rightarrow> string \<Rightarrow> denom \<Rightarrow> (('b, 'h) cdp_state \<times> int) result" where
  \<comment> \<open>an absent total is written as zero\<close>
  "GetTotalPrincipal st t d =
     (case kv_get (cs_principal st) (t @ d) of
        Some tot \<Rightarrow> Inr (st, tot)
      | None \<Rightarrow> bnd (SetTotalPrincipal st t d 0) (\<lambda>st'. Inr (st', 0)))"

definition IncrementTotalPrincipal :: "sdk_math \<Rightarrow> ('b, 'h) cdp_state \<Rightarrow> string \<Rightarrow> coin \<Rightarrow> ('b, 'h) cdp_state result" where
  "IncrementTotalPrincipal m st t prin =
     bnd (GetTotalPrincipal st t (Denom prin)) (\<lambda>(st', tot).
     bnd (toInt m (tot + Amount prin)) (\<lambda>tot'. SetTotalPrincipal st' t (Denom prin) tot'))"

definition DecrementTotalPrincipal :: "sdk_math \<Rightarrow> ('b, 'h) cdp_state \<Rightarrow> string \<Rightarrow> coin \<Rightarrow> ('b, 'h) cdp_state result" where
  "DecrementTotalPrincipal m st t prin =
     bnd (GetTotalPrincipal st t (Denom prin)) (\<lambda>(st', tot).
     bnd (toInt m (tot - Amount prin)) (\<lambda>tot'. SetTotalPrincipal st' t (Denom prin) (max tot' 0)))"

definition GetPreviousAccrualTime :: "('b, 'h) cdp_state \<Rightarrow> string \<Rightarrow> time option" where
  "GetPreviousAccrualTime st t = kv_get (cs_accrual st) t"

definition SetPreviousAccrualTime :: "('b, 'h) cdp_state \<Rightarrow> string \<Rightarrow> time \<Rightarrow> ('b, 'h) cdp_state" where
  "SetPreviousAccrualTime st t v = st\<lparr>cs_accrual := kv_set (cs_accrual st) t v\<rparr>"

definition GetInterestFactor :: "('b, 'h) cdp_state \<Rightarrow> string \<Rightarrow> dec option" where
  "GetInterestFactor st t = kv_get (cs_factor st) t"

definition SetInterestFactor :: "('b, 'h) cdp_state \<Rightarrow> string \<Rightarrow> dec \<Rightarrow> ('b, 'h) cdp_state" where
  "SetInterestFactor st t f = st\<lparr>cs_factor := kv_set (cs_factor st) t f\<rparr>"

definition SetMarketStatus :: "('b, 'h) cdp_state \<Rightarrow> string \<Rightarrow> bool \<Rightarrow> ('b, 'h) cdp_state" where
  "SetMarketStatus st i up =
     st\<lparr>cs_status := (if up then kv_set (cs_status st) i () else kv_del (cs_status st) i)\<rparr>"

definition GetMarketStatus :: "('b, 'h) cdp_state \<Rightarrow> string \<Rightarrow> bool" where
  "GetMarketStatus st i \<longleftrightarrow> kv_get (cs_status st) i \<noteq> None"

definition UpdatePricefeedStatus :: "('b, 'h) cdp_state \<Rightarrow> string \<Rightarrow> ('b, 'h) cdp_state \<times> bool" where
  "UpdatePricefeedStatus st i =
     (case GetCurrentPrice (cs_prices st) i of
        Inl _ \<Rightarrow> (SetMarketStatus st i False, False)
      | Inr _ \<Rightarrow> (SetMarketStatus st i True, True))"

section \<open>Ratios\<close>

definition unit_dec :: "int \<Rightarrow> dec result" where
  \<comment> \<open>\<open>sdk.NewDecFromIntWithPrec(sdk.OneInt(), n)\<close>\<close>
  "unit_dec n = (if 0 \<le> n \<and> n \<le> 18 then Inr (10 ^ nat (18 - n)) else Inl (Panic ''too much precision''))"

definition convertCollateralToBaseUnits :: "sdk_math \<Rightarrow> ('b, 'h) cdp_state \<Rightarrow> coin \<Rightarrow> string \<Rightarrow> dec result" where
  "convertCollateralToBaseUnits m st collateral t =
     (case GetCollateral st t of
        None \<Rightarrow> Inl (Panic ''nil conversion factor'')
      | Some cp \<Rightarrow> bnd (unit_dec (co_ConversionFactor cp)) (\<lambda>u. DecMul m (NewDecFromInt (Amount collateral)) u))"

definition convertDebtToBaseUnits :: "sdk_math \<Rightarrow> ('b, 'h) cdp_state \<Rightarrow> coin \<Rightarrow> dec result" where
  "convertDebtToBaseUnits m st dbt =
     (case GetDebtParam st (Denom dbt) of
        None \<Rightarrow> Inl (Panic ''nil conversion factor'')
      | Some dp \<Rightarrow> bnd (unit_dec (dp_ConversionFactor dp)) (\<lambda>u. DecMul m (NewDecFromInt (Amount dbt)) u))"

definition CalculateCollateralToDebtRatio :: "sdk_math \<Rightarrow> ('b, 'h) cdp_state \<Rightarrow> coin \<Rightarrow> string \<Rightarrow> coin \<Rightarrow> dec result" where
  "CalculateCollateralToDebtRatio m st collateral t dbt =
     bnd (convertDebtToBaseUnits m st dbt) (\<lambda>debtTotal.
     if debtTotal = 0 \<or> debtTotal \<ge> MaxSortableDec then Inr (MaxSortableDec - 1)
     else bnd (convertCollateralToBaseUnits m st collateral t) (\<lambda>units. DecQuo m units debtTotal))"

datatype pricefeedType = spot | liquidation

definition market_of :: "('b, 'h) cdp_state \<Rightarrow> string \<Rightarrow> pricefeedType \<Rightarrow> string result" where
  "market_of st t pf = (case pf of spot \<Rightarrow> getSpotMarketID st t | liquidation \<Rightarrow> getliquidationMarketID st t)"

definition CalculateCollateralizationRatio ::
    "sdk_math \<Rightarrow> ('b, 'h) cdp_state \<Rightarrow> coin \<Rightarrow> string \<Rightarrow> coin \<Rightarrow> coin \<Rightarrow> pricefeedType \<Rightarrow> dec result" where
  "CalculateCollateralizationRatio m st collateral t prin fees pf =
     (if Amount collateral = 0 then Inr 0
      else
        bnd (market_of st t pf) (\<lambda>marketID.
        bnd (GetCurrentPrice (cs_prices st) marketID) (\<lambda>price.
        bnd (convertCollateralToBaseUnits m st collateral t) (\<lambda>units.
        bnd (DecMul m units (cur_Price price)) (\<lambda>collateralValue.
        bnd (convertDebtToBaseUnits m st prin) (\<lambda>principalUnits.
        bnd (convertDebtToBaseUnits m st fees) (\<lambda>feeUnits.
        bnd (toDec m (principalUnits + feeUnits)) (\<lambda>tot.
        DecQuo m collateralValue tot))))))))"

definition CalculateCollateralizationRatioFromAbsoluteRatio ::
    "sdk_math \<Rightarrow> ('b, 'h) cdp_state \<Rightarrow> string \<Rightarrow> dec \<Rightarrow> pricefeedType \<Rightarrow> dec result" where
  "CalculateCollateralizationRatioFromAbsoluteRatio m st t absoluteRatio pf =
     bnd (market_of st t pf) (\<lambda>marketID.
     bnd (GetCurrentPrice (cs_prices st) marketID) (\<lambda>price. DecQuo m absoluteRatio (cur_Price price)))"

section \<open>Checks\<close>

definition ValidateCollateral :: "('b, 'h) cdp_state \<Rightarrow> coin \<Rightarrow> string \<Rightarrow> unit result" where
  "ValidateCollateral st collateral t =
     (case GetCollateral st t of
        None \<Rightarrow> Inl (Err ''ErrCollateralNotSupported'')
      | Some cp \<Rightarrow>
          if co_Denom cp \<noteq> Denom collateral then Inl (Err ''ErrInvalidCollateral'')
          else if \<not> GetMarketStatus st (co_SpotMarketID cp) then Inl (Err ''ErrPricefeedDown'')
          else if \<not> GetMarketStatus st (co_LiquidationMarketID cp) then Inl (Err ''ErrPricefeedDown'')
          else Inr ())"

definition ValidatePrincipalAdd :: "('b, 'h) cdp_state \<Rightarrow> coin \<Rightarrow> unit result" where
  "ValidatePrincipalAdd st prin =
     (case GetDebtParam st (Denom prin) of
        None \<Rightarrow> Inl (Err ''ErrDebtNotSupported'')
      | Some dp \<Rightarrow> if Amount prin < dp_DebtFloor dp then Inl (Err ''ErrBelowDebtFloor'') else Inr ())"

definition ValidatePrincipalDraw :: "('b, 'h) cdp_state \<Rightarrow> coin \<Rightarrow> denom \<Rightarrow> unit result" where
  "ValidatePrincipalDraw st prin expectedDenom =
     (if Denom prin \<noteq> expectedDenom then Inl (Err ''ErrInvalidDebtRequest'')
      else case GetDebtParam st (Denom prin) of None \<Rightarrow> Inl (Err ''ErrDebtNotSupported'') | Some _ \<Rightarrow> Inr ())"

definition ValidateDebtLimit :: "sdk_math \<Rightarrow> ('b, 'h) cdp_state \<Rightarrow> string \<Rightarrow> coin \<Rightarrow> ('b, 'h) cdp_state result" where
  "ValidateDebtLimit m st t prin =
     (case GetCollateral st t of
        None \<Rightarrow> Inl (Err ''ErrCollateralNotSupported'')
      | Some cp \<Rightarrow>
          bnd (GetTotalPrincipal st t (Denom prin)) (\<lambda>(st', tot).
          bnd (toInt m (tot + Amount prin)) (\<lambda>totalPrincipal.
          if totalPrincipal > Amount (co_DebtLimit cp) then Inl (Err ''ErrExceedsDebtLimit'')
          else if totalPrincipal > Amount (GlobalDebtLimit (cs_params st)) then Inl (Err ''ErrExceedsDebtLimit'')
          else Inr st')))"

definition ValidateCollateralizationRatio :: "sdk_math \<Rightarrow> ('b, 'h) cdp_state \<Rightarrow> coin \<Rightarrow> string \<Rightarrow> coin \<Rightarrow> coin \<Rightarrow> unit result" where
  "ValidateCollateralizationRatio m st collateral t prin fees =
     bnd (CalculateCollateralizationRatio m st collateral t prin fees spot) (\<lambda>ratio.
     bnd (getLiquidationRatio st t) (\<lambda>liquidationRatio.
     if ratio < liquidationRatio then Inl (Err ''ErrInvalidCollateralRatio'') else Inr ()))"

definition ValidateBalance :: "'b sdk \<Rightarrow> ('b, 'h) cdp_state \<Rightarrow> coin \<Rightarrow> address \<Rightarrow> unit result" where
  "ValidateBalance S st amount sender =
     (if \<not> HasAccount S (cs_bank st) sender then Inl (Err ''ErrAccountNotFound'')
      else if AmountOf (SpendableCoins S (cs_bank st) sender) (Denom amount) < Amount amount then Inl (Err ''ErrInsufficientBalance'')
      else Inr ())"

section \<open>Debt coins and index maintenance\<close>

definition moduleAccount :: "'b sdk \<Rightarrow> 'b \<Rightarrow> string \<Rightarrow> address result" where
  \<comment> \<open>\<open>GetModuleAccount(..).GetAddress()\<close>, a nil dereference when there is none\<close>
  "moduleAccount S b n = (if HasModuleAccount S b n then Inr (ModuleAddress S n) else Inl (Panic ''nil module account''))"

definition MintDebtCoins :: "'b sdk \<Rightarrow> ('b, 'h) cdp_state \<Rightarrow> string \<Rightarrow> denom \<Rightarrow> coin \<Rightarrow> ('b, 'h) cdp_state result" where
  "MintDebtCoins S st acct d prin =
     bnd (NewCoin (Math S) d (Amount prin)) (\<lambda>c.
     bnd (NewCoins S [c]) (\<lambda>cs. with_bank (\<lambda>b. MintCoins S b acct cs) st))"

definition BurnDebtCoins :: "'b sdk \<Rightarrow> ('b, 'h) cdp_state \<Rightarrow> string \<Rightarrow> denom \<Rightarrow> coin \<Rightarrow> ('b, 'h) cdp_state result" where
  "BurnDebtCoins S st acct d payment =
     bnd (moduleAccount S (cs_bank st) acct) (\<lambda>a.
     bnd (NewCoin (Math S) d (min (Amount payment) (GetBalance S (cs_bank st) a d))) (\<lambda>c.
     bnd (NewCoins S [c]) (\<lambda>cs. with_bank (\<lambda>b. BurnCoins S b acct cs) st)))"

definition getModAccountDebt :: "'b sdk \<Rightarrow> ('b, 'h) cdp_state \<Rightarrow> string \<Rightarrow> int result" where
  "getModAccountDebt S st n =
     bnd (moduleAccount S (cs_bank st) n) (\<lambda>a. Inr (GetBalance S (cs_bank st) a (cs_debtDenom st)))"

definition ratio_of :: "sdk_math \<Rightarrow> ('b, 'h) cdp_state \<Rightarrow> CDP \<Rightarrow> dec result" where
  \<comment> \<open>\<open>CalculateCollateralToDebtRatio(ctx, cdp.Collateral, cdp.Type, cdp.GetTotalPrincipal())\<close>\<close>
  "ratio_of m st c =
     bnd (CDP_GetTotalPrincipal m c) (\<lambda>tp. CalculateCollateralToDebtRatio m st (c_Collateral c) (c_Type c) tp)"

definition removeOldCollateralRatioIndex :: "sdk_math \<Rightarrow> ('b, 'h) cdp_state \<Rightarrow> string \<Rightarrow> uint64 \<Rightarrow> ('b, 'h) cdp_state result" where
  "removeOldCollateralRatioIndex m st t i =
     (case GetCDP st t i of
        None \<Rightarrow> Inl (Err ''ErrCdpNotFound'')
      | Some c \<Rightarrow> bnd (ratio_of m st c) (\<lambda>old. RemoveCdpCollateralRatioIndex st (c_Type c) (c_ID c) old))"

definition SetCdpAndCollateralRatioIndex :: "('b, 'h) cdp_state \<Rightarrow> CDP \<Rightarrow> dec \<Rightarrow> ('b, 'h) cdp_state result" where
  "SetCdpAndCollateralRatioIndex st c ratio =
     bnd (SetCDP st c) (\<lambda>st'. IndexCdpByCollateralRatio st' (c_Type c) (c_ID c) ratio)"

definition UpdateCdpAndCollateralRatioIndex :: "sdk_math \<Rightarrow> ('b, 'h) cdp_state \<Rightarrow> CDP \<Rightarrow> dec \<Rightarrow> ('b, 'h) cdp_state result" where
  "UpdateCdpAndCollateralRatioIndex m st c ratio =
     bnd (removeOldCollateralRatioIndex m st (c_Type c) (c_ID c)) (\<lambda>st1.
     bnd (SetCDP st1 c) (\<lambda>st2. IndexCdpByCollateralRatio st2 (c_Type c) (c_ID c) ratio))"

definition DeleteCdpAndCollateralRatioIndex :: "sdk_math \<Rightarrow> ('b, 'h) cdp_state \<Rightarrow> CDP \<Rightarrow> ('b, 'h) cdp_state result" where
  "DeleteCdpAndCollateralRatioIndex m st c =
     bnd (removeOldCollateralRatioIndex m st (c_Type c) (c_ID c)) (\<lambda>st1. DeleteCDP st1 c)"

section \<open>Interest\<close>

definition CalculateInterestFactor :: "('b, 'h) cdp_env \<Rightarrow> dec \<Rightarrow> int \<Rightarrow> dec result" where
  "CalculateInterestFactor E perSecondInterestRate secondsElapsed =
     bnd (toDec (env_math E) (perSecondInterestRate * scalingFactor)) (\<lambda>scaled.
     bnd (DecRoundInt (env_math E) scaled) (\<lambda>rounded.
     bnd (NewUint rounded) (\<lambda>interestMantissa.
     bnd (NewUint secondsElapsed) (\<lambda>secondsUint.
     bnd (UintRelativePow E interestMantissa secondsUint scalingFactor) (\<lambda>mantissa.
     Inr (Quo (NewDecFromInt mantissa) scalingFactor))))))"

definition mint_interest :: "('b, 'h) cdp_env \<Rightarrow> ('b, 'h) cdp_state \<Rightarrow> int \<Rightarrow> ('b, 'h) cdp_state result" where
  \<comment> \<open>debt coins for the module and the surplus for the liquidator\<close>
  "mint_interest E st interestAccumulated =
     bnd (NewCoin (env_math E) DefaultStableDenom interestAccumulated) (\<lambda>ic.
     bnd (MintDebtCoins (Sdk E) st cdp_module (cs_debtDenom st) ic) (\<lambda>st1.
     case GetDebtParam st1 DefaultStableDenom of
       None \<Rightarrow> Inl (Panic ''Debt parameters not found'')
     | Some dp \<Rightarrow>
         if 0 < interestAccumulated then
           bnd (NewCoin (env_math E) (dp_Denom dp) interestAccumulated) (\<lambda>sc.
           bnd (NewCoins (Sdk E) [sc]) (\<lambda>cs. with_bank (\<lambda>b. MintCoins (Sdk E) b LiquidatorMacc cs) st1))
         else Inr st1))"

definition AccumulateInterest :: "('b, 'h) cdp_env \<Rightarrow> time \<Rightarrow> ('b, 'h) cdp_state \<Rightarrow> string \<Rightarrow> ('b, 'h) cdp_state result" where
  "AccumulateInterest E now st t =
     (case GetPreviousAccrualTime st t of
        None \<Rightarrow> Inr (SetPreviousAccrualTime st t now)
      | Some prev \<Rightarrow>
          let timeElapsed = round_seconds (time_Sub now prev) in
          if timeElapsed = 0 then Inr st
          else
            bnd (GetTotalPrincipal st t DefaultStableDenom) (\<lambda>(st1, totalPrincipalPrior).
            if totalPrincipalPrior \<le> 0 then Inr (SetPreviousAccrualTime st1 t now)
            else
              case GetInterestFactor st1 t of
                None \<Rightarrow> Inr (SetPreviousAccrualTime (SetInterestFactor st1 t OneDec) t now)
              | Some interestFactorPrior \<Rightarrow>
                  bnd (getFeeRate st1 t) (\<lambda>borrowRateSpy.
                  if borrowRateSpy = OneDec then Inr (SetPreviousAccrualTime st1 t now)
                  else
                    bnd (CalculateInterestFactor E borrowRateSpy timeElapsed) (\<lambda>interestFactor.
                    bnd (DecMul (env_math E) interestFactor (NewDecFromInt totalPrincipalPrior)) (\<lambda>x.
                    bnd (DecRoundInt (env_math E) x) (\<lambda>r.
                    bnd (toInt (env_math E) (r - totalPrincipalPrior)) (\<lambda>interestAccumulated.
                    if interestAccumulated = 0 then Inr st1
                    else
                      bnd (mint_interest E st1 interestAccumulated) (\<lambda>st2.
                      bnd (DecMul (env_math E) interestFactorPrior interestFactor) (\<lambda>interestFactorNew.
                      bnd (toInt (env_math E) (totalPrincipalPrior + interestAccumulated)) (\<lambda>totalPrincipalNew.
                      bnd (SetTotalPrincipal st2 t DefaultStableDenom totalPrincipalNew) (\<lambda>st3.
                      Inr (SetPreviousAccrualTime (SetInterestFactor st3 t interestFactorNew) t now))))))))))))"

definition interest_on :: "sdk_math \<Rightarrow> dec \<Rightarrow> CDP \<Rightarrow> int result" where
  \<comment> \<open>the growth of the debt by the factor since the position was last synchronised\<close>
  "interest_on m globalInterestFactor c =
     bnd (DecQuo m globalInterestFactor (c_InterestFactor c)) (\<lambda>cdpInterestFactor.
     if cdpInterestFactor = OneDec then Inr 0
     else
       bnd (CDP_GetTotalPrincipal m c) (\<lambda>tp.
       bnd (DecMul m (NewDecFromInt (Amount tp)) cdpInterestFactor) (\<lambda>x.
       bnd (DecRoundInt m x) (\<lambda>r. toInt m (r - Amount tp)))))"

definition CalculateNewInterest :: "sdk_math \<Rightarrow> ('b, 'h) cdp_state \<Rightarrow> CDP \<Rightarrow> coin result" where
  "CalculateNewInterest m st c =
     (case GetInterestFactor st (c_Type c) of
        None \<Rightarrow> NewCoin m (Denom (c_AccumulatedFees c)) 0
      | Some globalInterestFactor \<Rightarrow>
          bnd (interest_on m globalInterestFactor c) (\<lambda>i. NewCoin m (Denom (c_AccumulatedFees c)) i))"

definition SynchronizeInterest :: "sdk_math \<Rightarrow> time \<Rightarrow> ('b, 'h) cdp_state \<Rightarrow> CDP \<Rightarrow> (('b, 'h) cdp_state \<times> CDP) result" where
  "SynchronizeInterest m now st c =
     (case GetInterestFactor st (c_Type c) of
        None \<Rightarrow>
          let c' = c\<lparr>c_InterestFactor := OneDec, c_FeesUpdated := now\<rparr> in
          bnd (panic_on_err (SetCDP (SetInterestFactor st (c_Type c) OneDec) c')) (\<lambda>st'. Inr (st', c'))
      | Some globalInterestFactor \<Rightarrow>
          bnd (CalculateNewInterest m st c) (\<lambda>accumulatedInterest.
          case GetPreviousAccrualTime st (c_Type c) of
            None \<Rightarrow> Inr (st, c)
          | Some prevAccrualTime \<Rightarrow>
              if Amount accumulatedInterest = 0 \<and> c_FeesUpdated c = prevAccrualTime then Inr (st, c)
              else
                bnd (if Amount accumulatedInterest = 0 then panic_on_err (SetCDP st (c\<lparr>c_FeesUpdated := prevAccrualTime\<rparr>)) else Inr st) (\<lambda>st1.
                bnd (coin_Add m (c_AccumulatedFees c) accumulatedInterest) (\<lambda>fees.
                let c' = c\<lparr>c_AccumulatedFees := fees, c_FeesUpdated := prevAccrualTime, c_InterestFactor := globalInterestFactor\<rparr> in
                bnd (ratio_of m st1 c') (\<lambda>ratio.
                bnd (panic_on_err (UpdateCdpAndCollateralRatioIndex m st1 c' ratio)) (\<lambda>st2. Inr (st2, c')))))))"

text \<open>
  The entries of the ratio index the iterators visit: of the type, not negative and strictly below
  the target.
\<close>

definition ratio_ids :: "('b, 'h) cdp_state \<Rightarrow> string \<Rightarrow> dec \<Rightarrow> uint64 list" where
  "ratio_ids st t targetRatio =
     map (\<lambda>((k, r, i), v). i) (filter (\<lambda>((k, r, i), v). k = DenomIterKey t \<and> 0 \<le> r \<and> r < CollateralRatioBytes targetRatio) (cs_byRatio st))"

definition calculateCollateralRatio :: "sdk_math \<Rightarrow> DebtParam \<Rightarrow> CollateralParam \<Rightarrow> CDP \<Rightarrow> dec result" where
  "calculateCollateralRatio m dp cp c =
     bnd (CDP_GetTotalPrincipal m c) (\<lambda>tp.
     bnd (unit_dec (dp_ConversionFactor dp)) (\<lambda>u.
     bnd (DecMul m (NewDecFromInt (Amount tp)) u) (\<lambda>debtTotal.
     if debtTotal = 0 \<or> debtTotal \<ge> MaxSortableDec then Inr (MaxSortableDec - 1)
     else
       bnd (unit_dec (co_ConversionFactor cp)) (\<lambda>v.
       bnd (DecMul m (NewDecFromInt (Amount (c_Collateral c))) v) (\<lambda>units. DecQuo m units debtTotal)))))"

definition sync_risky_cdp ::
    "('b, 'h) cdp_env \<Rightarrow> DebtParam \<Rightarrow> CollateralParam \<Rightarrow> dec \<Rightarrow> time \<Rightarrow> uint64 \<Rightarrow> ('b, 'h) cdp_state \<Rightarrow> ('b, 'h) cdp_state result" where
  "sync_risky_cdp E dp cp globalInterestFactor prevAccrualTime i st =
     (case kv_get (cs_cdps st) (CdpKey (co_Type cp) i) of
        None \<Rightarrow> Inl (Panic ''cdp does not exist'')
      | Some c \<Rightarrow>
          bnd (CDP_GetTotalPrincipal (env_math E) c) (\<lambda>tp.
          if dp_Denom dp \<noteq> Denom tp then Inl (Panic ''unknown debt param'')
          else
            bnd (hook_modified E st c) (\<lambda>st1.
            bnd (interest_on (env_math E) globalInterestFactor c) (\<lambda>accumulatedInterest.
            if accumulatedInterest = 0 \<and> c_FeesUpdated c = prevAccrualTime then Inr st1
            else
              let c1 = (if accumulatedInterest = 0 then c\<lparr>c_FeesUpdated := prevAccrualTime\<rparr> else c);
                  st2 = (if accumulatedInterest = 0 then st1\<lparr>cs_cdps := kv_set (cs_cdps st1) (CdpKey (c_Type c1) (c_ID c1)) c1\<rparr> else st1)
              in
                bnd (calculateCollateralRatio (env_math E) dp cp c1) (\<lambda>previousRatio.
                bnd (NewCoin (env_math E) (Denom (c_AccumulatedFees c1)) accumulatedInterest) (\<lambda>ic.
                bnd (coin_Add (env_math E) (c_AccumulatedFees c1) ic) (\<lambda>fees.
                let c2 = c1\<lparr>c_AccumulatedFees := fees, c_FeesUpdated := prevAccrualTime, c_InterestFactor := globalInterestFactor\<rparr> in
                bnd (calculateCollateralRatio (env_math E) dp cp c2) (\<lambda>updatedRatio.
                Inr (st2\<lparr>
                  cs_byRatio := kv_set (kv_del (cs_byRatio st2) (CollateralRatioKey (c_Type c2) (c_ID c2) previousRatio))
                    (CollateralRatioKey (c_Type c2) (c_ID c2) updatedRatio) (c_ID c2),
                  cs_cdps := kv_set (cs_cdps st2) (CdpKey (c_Type c2) (c_ID c2)) c2\<rparr>)))))))))"

definition SynchronizeInterestForRiskyCDPs ::
    "('b, 'h) cdp_env \<Rightarrow> ('b, 'h) cdp_state \<Rightarrow> dec \<Rightarrow> CollateralParam \<Rightarrow> ('b, 'h) cdp_state result" where
  "SynchronizeInterestForRiskyCDPs E st targetRatio cp =
     (let count = co_CheckCollateralizationIndexCount cp in
      if count < 0 \<or> 2 ^ 63 \<le> count then Inl (Panic ''cap out of range'')
      else
        let cdpIDs = take (max 1 (nat count)) (ratio_ids st (co_Type cp) targetRatio) in
        if GetInterestFactor st (co_Type cp) = None \<and> cdpIDs \<noteq> [] then Inl (Panic ''global interest factor not found'')
        else
          case GetPreviousAccrualTime st (co_Type cp) of
            None \<Rightarrow> Inl (Panic ''previous accrual time not found'')
          | Some prevAccrualTime \<Rightarrow>
              let globalInterestFactor = (case GetInterestFactor st (co_Type cp) of None \<Rightarrow> 0 | Some f \<Rightarrow> f) in
              foldR (sync_risky_cdp E (DebtParamOf (cs_params st)) cp globalInterestFactor prevAccrualTime) cdpIDs st)"

section \<open>Opening a position, deposits and withdrawals\<close>

definition factor_or_init :: "('b, 'h) cdp_state \<Rightarrow> string \<Rightarrow> ('b, 'h) cdp_state \<times> dec" where
  "factor_or_init st t =
     (case GetInterestFactor st t of Some f \<Rightarrow> (st, f) | None \<Rightarrow> (SetInterestFactor st t OneDec, OneDec))"

definition AddCdp :: "('b, 'h) cdp_env \<Rightarrow> time \<Rightarrow> ('b, 'h) cdp_state \<Rightarrow> address \<Rightarrow> coin \<Rightarrow> coin \<Rightarrow> string \<Rightarrow> ('b, 'h) cdp_state result" where
  "AddCdp E now st owner collateral prin t =
     bnd (ValidateCollateral st collateral t) (\<lambda>_.
     bnd (ValidateBalance (Sdk E) st collateral owner) (\<lambda>_.
     if GetCdpByOwnerAndCollateralType st owner t \<noteq> None then Inl (Err ''ErrCdpAlreadyExists'')
     else
       bnd (ValidatePrincipalAdd st prin) (\<lambda>_.
       bnd (ValidateDebtLimit (env_math E) st t prin) (\<lambda>st1.
       bnd (NewCoin (env_math E) (Denom prin) 0) (\<lambda>noFees.
       bnd (ValidateCollateralizationRatio (env_math E) st1 collateral t prin noFees) (\<lambda>_.
       bnd (GetNextCdpID st1) (\<lambda>i.
       let (st2, interestFactor) = factor_or_init st1 t in
       bnd (NewCDP (env_math E) i owner collateral t prin now interestFactor) (\<lambda>c.
       bnd (NewCoins (Sdk E) [collateral]) (\<lambda>collateralCoins.
       bnd (with_bank (\<lambda>b. SendCoinsFromAccountToModule (Sdk E) b owner cdp_module collateralCoins) st2) (\<lambda>st3.
       bnd (NewCoins (Sdk E) [prin]) (\<lambda>principalCoins.
       bnd (panic_on_err (with_bank (\<lambda>b. MintCoins (Sdk E) b cdp_module principalCoins) st3)) (\<lambda>st4.
       bnd (panic_on_err (with_bank (\<lambda>b. SendCoinsFromModuleToAccount (Sdk E) b cdp_module owner principalCoins) st4)) (\<lambda>st5.
       bnd (panic_on_err (MintDebtCoins (Sdk E) st5 cdp_module (cs_debtDenom st5) prin)) (\<lambda>st6.
       bnd (IncrementTotalPrincipal (env_math E) st6 t prin) (\<lambda>st7.
       bnd (CalculateCollateralToDebtRatio (env_math E) st7 collateral (c_Type c) prin) (\<lambda>ratio.
       bnd (SetCdpAndCollateralRatioIndex st7 c ratio) (\<lambda>st8.
       hook_created E (SetNextCdpID (SetDeposit (IndexCdpByOwner st8 c) (NewDeposit i owner collateral)) (i + 1)) c)))))))))))))))))"

definition deposit_plus :: "sdk_math \<Rightarrow> ('b, 'h) cdp_state \<Rightarrow> uint64 \<Rightarrow> address \<Rightarrow> coin \<Rightarrow> CdpDeposit result" where
  \<comment> \<open>the deposit with the collateral added, or a new one\<close>
  "deposit_plus m st i depositor collateral =
     (case GetDeposit st i depositor of
        Some d \<Rightarrow> bnd (coin_Add m (d_Amount d) collateral) (\<lambda>a. Inr (d\<lparr>d_Amount := a\<rparr>))
      | None \<Rightarrow> Inr (NewDeposit i depositor collateral))"

definition DepositCollateral ::
    "('b, 'h) cdp_env \<Rightarrow> time \<Rightarrow> ('b, 'h) cdp_state \<Rightarrow> address \<Rightarrow> address \<Rightarrow> coin \<Rightarrow> string \<Rightarrow> ('b, 'h) cdp_state result" where
  "DepositCollateral E now st owner depositor collateral t =
     bnd (ValidateCollateral st collateral t) (\<lambda>_.
     case GetCdpByOwnerAndCollateralType st owner t of
       None \<Rightarrow> Inl (Err ''ErrCdpNotFound'')
     | Some c0 \<Rightarrow>
         bnd (ValidateBalance (Sdk E) st collateral depositor) (\<lambda>_.
         bnd (hook_modified E st c0) (\<lambda>st1.
         bnd (SynchronizeInterest (env_math E) now st1 c0) (\<lambda>(st2, c).
         bnd (deposit_plus (env_math E) st2 (c_ID c) depositor collateral) (\<lambda>d.
         bnd (NewCoins (Sdk E) [collateral]) (\<lambda>cs.
         bnd (with_bank (\<lambda>b. SendCoinsFromAccountToModule (Sdk E) b depositor cdp_module cs) st2) (\<lambda>st3.
         let st4 = SetDeposit st3 d in
         bnd (coin_Add (env_math E) (c_Collateral c) collateral) (\<lambda>col.
         let c' = c\<lparr>c_Collateral := col\<rparr> in
         bnd (ratio_of (env_math E) st4 c') (\<lambda>ratio.
         UpdateCdpAndCollateralRatioIndex (env_math E) st4 c' ratio)))))))))"

definition WithdrawCollateral ::
    "('b, 'h) cdp_env \<Rightarrow> time \<Rightarrow> ('b, 'h) cdp_state \<Rightarrow> address \<Rightarrow> address \<Rightarrow> coin \<Rightarrow> string \<Rightarrow> ('b, 'h) cdp_state result" where
  "WithdrawCollateral E now st owner depositor collateral t =
     bnd (ValidateCollateral st collateral t) (\<lambda>_.
     case GetCdpByOwnerAndCollateralType st owner t of
       None \<Rightarrow> Inl (Err ''ErrCdpNotFound'')
     | Some c0 \<Rightarrow>
       (case GetDeposit st (c_ID c0) depositor of
          None \<Rightarrow> Inl (Err ''ErrDepositNotFound'')
        | Some d \<Rightarrow>
            if Amount collateral > Amount (d_Amount d) then Inl (Err ''ErrInvalidWithdrawAmount'')
            else
              bnd (hook_modified E st c0) (\<lambda>st1.
              bnd (SynchronizeInterest (env_math E) now st1 c0) (\<lambda>(st2, c).
              bnd (coin_Sub (env_math E) (c_Collateral c) collateral) (\<lambda>col.
              bnd (CalculateCollateralizationRatio (env_math E) st2 col (c_Type c) (c_Principal c) (c_AccumulatedFees c) spot) (\<lambda>ratio.
              bnd (getLiquidationRatio st2 (c_Type c)) (\<lambda>liquidationRatio.
              if ratio < liquidationRatio then Inl (Err ''ErrInvalidCollateralRatio'')
              else
                bnd (NewCoins (Sdk E) [collateral]) (\<lambda>cs.
                bnd (panic_on_err (with_bank (\<lambda>b. SendCoinsFromModuleToAccount (Sdk E) b cdp_module depositor cs) st2)) (\<lambda>st3.
                let c' = c\<lparr>c_Collateral := col\<rparr> in
                bnd (ratio_of (env_math E) st3 c') (\<lambda>newRatio.
                bnd (UpdateCdpAndCollateralRatioIndex (env_math E) st3 c' newRatio) (\<lambda>st4.
                bnd (coin_Sub (env_math E) (d_Amount d) collateral) (\<lambda>a.
                if Amount a = 0 then Inr (DeleteDeposit st4 (d_CdpID d) (d_Depositor d))
                else Inr (SetDeposit st4 (d\<lparr>d_Amount := a\<rparr>))))))))))))))"

section \<open>Drawing and repaying debt\<close>

definition AddPrincipal :: "('b, 'h) cdp_env \<Rightarrow> time \<Rightarrow> ('b, 'h) cdp_state \<Rightarrow> address \<Rightarrow> string \<Rightarrow> coin \<Rightarrow> ('b, 'h) cdp_state result" where
  "AddPrincipal E now st owner t prin =
     (case GetCdpByOwnerAndCollateralType st owner t of
        None \<Rightarrow> Inl (Err ''ErrCdpNotFound'')
      | Some c0 \<Rightarrow>
          bnd (ValidatePrincipalDraw st prin (Denom (c_Principal c0))) (\<lambda>_.
          bnd (ValidateDebtLimit (env_math E) st (c_Type c0) prin) (\<lambda>st1.
          bnd (hook_modified E st1 c0) (\<lambda>st2.
          bnd (SynchronizeInterest (env_math E) now st2 c0) (\<lambda>(st3, c).
          bnd (coin_Add (env_math E) (c_Principal c) prin) (\<lambda>newPrincipal.
          bnd (ValidateCollateralizationRatio (env_math E) st3 (c_Collateral c) (c_Type c) newPrincipal (c_AccumulatedFees c)) (\<lambda>_.
          bnd (NewCoins (Sdk E) [prin]) (\<lambda>cs.
          bnd (panic_on_err (with_bank (\<lambda>b. MintCoins (Sdk E) b cdp_module cs) st3)) (\<lambda>st4.
          bnd (panic_on_err (with_bank (\<lambda>b. SendCoinsFromModuleToAccount (Sdk E) b cdp_module owner cs) st4)) (\<lambda>st5.
          bnd (panic_on_err (MintDebtCoins (Sdk E) st5 cdp_module (cs_debtDenom st5) prin)) (\<lambda>st6.
          let c' = c\<lparr>c_Principal := newPrincipal\<rparr> in
          bnd (IncrementTotalPrincipal (env_math E) st6 (c_Type c') prin) (\<lambda>st7.
          bnd (ratio_of (env_math E) st7 c') (\<lambda>ratio.
          UpdateCdpAndCollateralRatioIndex (env_math E) st7 c' ratio)))))))))))))"

definition ValidatePaymentCoins :: "sdk_math \<Rightarrow> ('b, 'h) cdp_state \<Rightarrow> CDP \<Rightarrow> coin \<Rightarrow> unit result" where
  "ValidatePaymentCoins m st c payment =
     bnd (CDP_GetTotalPrincipal m c) (\<lambda>dbt.
     if Denom payment \<noteq> Denom dbt then Inl (Err ''ErrInvalidPayment'')
     else case GetDebtParam st (Denom payment) of None \<Rightarrow> Inl (Err ''ErrInvalidPayment'') | Some _ \<Rightarrow> Inr ())"

definition calculatePayment :: "sdk_math \<Rightarrow> coin \<Rightarrow> coin \<Rightarrow> coin \<Rightarrow> (coin \<times> coin) result" where
  \<comment> \<open>the payments of fees and of principal\<close>
  "calculatePayment m owed fees payment0 =
     bnd (NewCoin m (Denom payment0) 0) (\<lambda>none.
     if \<not> 0 < Amount payment0 then Inr (none, none)
     else
       bnd (if Amount payment0 > Amount owed then
              bnd (coin_Sub m payment0 owed) (\<lambda>overpayment. coin_Sub m payment0 overpayment)
            else Inr payment0) (\<lambda>payment.
       if Amount fees = 0 then Inr (none, payment)
       else if Amount payment > Amount fees then bnd (coin_Sub m payment fees) (\<lambda>rest. Inr (fees, rest))
       else Inr (payment, none)))"

definition validatePrincipalPayment :: "sdk_math \<Rightarrow> ('b, 'h) cdp_state \<Rightarrow> CDP \<Rightarrow> coin \<Rightarrow> unit result" where
  "validatePrincipalPayment m st c payment =
     bnd (toInt m (Amount (c_Principal c) - Amount payment)) (\<lambda>proposedBalance.
     if proposedBalance > 0 then
       (case GetDebtParam st (Denom payment) of
          None \<Rightarrow> Inl (Panic ''nil debt floor'')
        | Some dp \<Rightarrow> if proposedBalance < dp_DebtFloor dp then Inl (Err ''ErrBelowDebtFloor'') else Inr ())
     else Inr ())"

definition return_deposit :: "('b, 'h) cdp_env \<Rightarrow> CDP \<Rightarrow> CdpDeposit \<Rightarrow> ('b, 'h) cdp_state \<Rightarrow> ('b, 'h) cdp_state result" where
  "return_deposit E c d st =
     bnd (NewCoins (Sdk E) [d_Amount d]) (\<lambda>cs.
     bnd (panic_on_err (with_bank (\<lambda>b. SendCoinsFromModuleToAccount (Sdk E) b cdp_module (d_Depositor d) cs) st)) (\<lambda>st'.
     Inr (DeleteDeposit st' (c_ID c) (d_Depositor d))))"

definition ReturnCollateral :: "('b, 'h) cdp_env \<Rightarrow> ('b, 'h) cdp_state \<Rightarrow> CDP \<Rightarrow> ('b, 'h) cdp_state result" where
  "ReturnCollateral E st c = foldR (return_deposit E c) (GetDeposits st (c_ID c)) st"

definition settle_cdp :: "('b, 'h) cdp_env \<Rightarrow> ('b, 'h) cdp_state \<Rightarrow> CDP \<Rightarrow> ('b, 'h) cdp_state result" where
  \<comment> \<open>a position without debt is closed and its collateral returned, any other is stored\<close>
  "settle_cdp E st c =
     (if Amount (c_Principal c) = 0 \<and> Amount (c_AccumulatedFees c) = 0 then
        bnd (ReturnCollateral E st c) (\<lambda>st'.
        DeleteCdpAndCollateralRatioIndex (env_math E) (RemoveCdpOwnerIndex st' c) c)
      else
        bnd (ratio_of (env_math E) st c) (\<lambda>ratio.
        UpdateCdpAndCollateralRatioIndex (env_math E) st c ratio))"

definition RepayPrincipal :: "('b, 'h) cdp_env \<Rightarrow> time \<Rightarrow> ('b, 'h) cdp_state \<Rightarrow> address \<Rightarrow> string \<Rightarrow> coin \<Rightarrow> ('b, 'h) cdp_state result" where
  "RepayPrincipal E now st owner t payment =
     (case GetCdpByOwnerAndCollateralType st owner t of
        None \<Rightarrow> Inl (Err ''ErrCdpNotFound'')
      | Some c0 \<Rightarrow>
          bnd (ValidatePaymentCoins (env_math E) st c0 payment) (\<lambda>_.
          bnd (ValidateBalance (Sdk E) st payment owner) (\<lambda>_.
          bnd (hook_modified E st c0) (\<lambda>st1.
          bnd (SynchronizeInterest (env_math E) now st1 c0) (\<lambda>(st2, c).
          bnd (CDP_GetTotalPrincipal (env_math E) c) (\<lambda>totalPrincipal.
          bnd (calculatePayment (env_math E) totalPrincipal (c_AccumulatedFees c) payment) (\<lambda>(feePayment, principalPayment).
          bnd (validatePrincipalPayment (env_math E) st2 c principalPayment) (\<lambda>_.
          bnd (coin_Add (env_math E) feePayment principalPayment) (\<lambda>paid.
          bnd (NewCoins (Sdk E) [paid]) (\<lambda>cs.
          bnd (with_bank (\<lambda>b. SendCoinsFromAccountToModule (Sdk E) b owner cdp_module cs) st2) (\<lambda>st3.
          bnd (panic_on_err (with_bank (\<lambda>b. BurnCoins (Sdk E) b cdp_module cs) st3)) (\<lambda>st4.
          bnd (getModAccountDebt (Sdk E) st4 cdp_module) (\<lambda>cdpDebt.
          bnd (NewCoin (env_math E) (cs_debtDenom st4) (if Amount paid > cdpDebt then cdpDebt else Amount paid)) (\<lambda>coinsToBurn.
          bnd (panic_on_err (BurnDebtCoins (Sdk E) st4 cdp_module (cs_debtDenom st4) coinsToBurn)) (\<lambda>st5.
          bnd (if Amount principalPayment = 0 then Inr (c_Principal c) else coin_Sub (env_math E) (c_Principal c) principalPayment) (\<lambda>newPrincipal.
          bnd (coin_Sub (env_math E) (c_AccumulatedFees c) feePayment) (\<lambda>newFees.
          let c' = c\<lparr>c_Principal := newPrincipal, c_AccumulatedFees := newFees\<rparr> in
          bnd (DecrementTotalPrincipal (env_math E) st5 (c_Type c') paid) (\<lambda>st6.
          settle_cdp E st6 c'))))))))))))))))))"

section \<open>Auctions\<close>

definition ApplyLiquidationPenalty :: "sdk_math \<Rightarrow> ('b, 'h) cdp_state \<Rightarrow> string \<Rightarrow> int \<Rightarrow> int result" where
  "ApplyLiquidationPenalty m st t dbt =
     bnd (getLiquidationPenalty st t) (\<lambda>penalty.
     bnd (DecMul m (NewDecFromInt dbt) penalty) (\<lambda>x. DecRoundInt m x))"

definition checked_Mod :: "int \<Rightarrow> int \<Rightarrow> int result" where
  "checked_Mod a b = (if b = 0 then Inl (Panic ''division by zero'') else Inr (a mod \<bar>b\<bar>))"

definition start_lot ::
    "('b, 'h) cdp_env \<Rightarrow> string \<Rightarrow> address \<Rightarrow> denom \<Rightarrow> denom \<Rightarrow> int \<Rightarrow> int \<Rightarrow> ('b, 'h) cdp_state \<Rightarrow> ('b, 'h) cdp_state result" where
  \<comment> \<open>one auction of a lot for a part of the debt and its penalty\<close>
  "start_lot E t returnAddr collateralDenom principalDenom lot dbt st =
     bnd (ApplyLiquidationPenalty (env_math E) st t dbt) (\<lambda>penalty.
     bnd (NewCoin (env_math E) collateralDenom lot) (\<lambda>lotCoin.
     bnd (toInt (env_math E) (dbt + penalty)) (\<lambda>raise.
     bnd (NewCoin (env_math E) principalDenom raise) (\<lambda>mx.
     bnd (NewCoin (env_math E) (cs_debtDenom st) dbt) (\<lambda>debtCoin.
     bnd (StartCollateralAuction (Sdk E) (cs_auction st) LiquidatorMacc lotCoin mx [returnAddr] [lot] debtCoin) (\<lambda>(au, i).
     Inr (st\<lparr>cs_auction := au\<rparr>)))))))"

fun create_whole_auctions ::
    "('b, 'h) cdp_env \<Rightarrow> string \<Rightarrow> address \<Rightarrow> denom \<Rightarrow> denom \<Rightarrow> int \<Rightarrow> int \<Rightarrow> nat \<Rightarrow> int \<Rightarrow> ('b, 'h) cdp_state \<Rightarrow> (('b, 'h) cdp_state \<times> int) result" where
  "create_whole_auctions E t ret cd pd auctionSize debtPerAuction 0 unallocatedDebt st = Inr (st, unallocatedDebt)"
| "create_whole_auctions E t ret cd pd auctionSize debtPerAuction (Suc n) unallocatedDebt st =
     bnd (if 0 < unallocatedDebt then
            bnd (toInt (env_math E) (debtPerAuction + 1)) (\<lambda>a. bnd (toInt (env_math E) (unallocatedDebt - 1)) (\<lambda>u. Inr (a, u)))
          else Inr (debtPerAuction, unallocatedDebt)) (\<lambda>(debtAmount, unallocatedDebt').
     bnd (start_lot E t ret cd pd auctionSize debtAmount st) (\<lambda>st'.
     create_whole_auctions E t ret cd pd auctionSize debtPerAuction n unallocatedDebt' st'))"

definition CreateAuctionsFromDeposit ::
    "('b, 'h) cdp_env \<Rightarrow> ('b, 'h) cdp_state \<Rightarrow> coin \<Rightarrow> string \<Rightarrow> address \<Rightarrow> int \<Rightarrow> int \<Rightarrow> denom \<Rightarrow> ('b, 'h) cdp_state result" where
  "CreateAuctionsFromDeposit E st collateral t returnAddr dbt auctionSize principalDenom =
     bnd (checked_Quo (Amount collateral) auctionSize) (\<lambda>numberOfAuctions.
     bnd (toInt (env_math E) (dbt * auctionSize)) (\<lambda>ds.
     bnd (checked_Quo ds (Amount collateral)) (\<lambda>debtPerAuction.
     bnd (checked_Mod (Amount collateral) auctionSize) (\<lambda>lastAuctionCollateral.
     bnd (toInt (env_math E) (dbt * lastAuctionCollateral)) (\<lambda>dl.
     bnd (checked_Quo dl (Amount collateral)) (\<lambda>lastAuctionDebt.
     bnd (toInt (env_math E) (numberOfAuctions * debtPerAuction)) (\<lambda>whole.
     bnd (toInt (env_math E) (whole + lastAuctionDebt)) (\<lambda>allocated.
     bnd (toInt (env_math E) (dbt - allocated)) (\<lambda>unallocatedDebt.
     bnd (checked_Mod ds (Amount collateral)) (\<lambda>wholeAuctionError.
     bnd (checked_Mod dl (Amount collateral)) (\<lambda>lastAuctionError.
     bnd (if lastAuctionError > wholeAuctionError then
            bnd (toInt (env_math E) (lastAuctionDebt + 1)) (\<lambda>l. bnd (toInt (env_math E) (unallocatedDebt - 1)) (\<lambda>u. Inr (l, u)))
          else Inr (lastAuctionDebt, unallocatedDebt)) (\<lambda>(lastAuctionDebt1, unallocatedDebt1).
     if \<not> (- (2 ^ 63) \<le> numberOfAuctions \<and> numberOfAuctions < 2 ^ 63) then Inl (Panic ''Int64() out of bound'')
     else
       bnd (create_whole_auctions E t returnAddr (Denom collateral) principalDenom auctionSize debtPerAuction
              (nat numberOfAuctions) unallocatedDebt1 st) (\<lambda>(st1, unallocatedDebt2).
       if \<not> 0 < lastAuctionCollateral then Inr st1
       else
         bnd (if 0 < unallocatedDebt2 then toInt (env_math E) (lastAuctionDebt1 + 1) else Inr lastAuctionDebt1) (\<lambda>lastAuctionDebt2.
         start_lot E t returnAddr (Denom collateral) principalDenom lastAuctionCollateral lastAuctionDebt2 st1))))))))))))))"

definition auction_deposit ::
    "('b, 'h) cdp_env \<Rightarrow> string \<Rightarrow> int \<Rightarrow> denom \<Rightarrow> int \<Rightarrow> int \<Rightarrow> CdpDeposit \<Rightarrow> ('b, 'h) cdp_state \<Rightarrow> ('b, 'h) cdp_state result" where
  "auction_deposit E t dbt bidDenom auctionSize totalCollateral d st =
     bnd (DecQuo (env_math E) (NewDecFromInt (Amount (d_Amount d))) (NewDecFromInt totalCollateral)) (\<lambda>share.
     bnd (DecMul (env_math E) share (NewDecFromInt dbt)) (\<lambda>x.
     bnd (DecRoundInt (env_math E) x) (\<lambda>debtCoveredByDeposit.
     CreateAuctionsFromDeposit E st (d_Amount d) t (d_Depositor d) debtCoveredByDeposit auctionSize bidDenom)))"

definition AuctionCollateral ::
    "('b, 'h) cdp_env \<Rightarrow> ('b, 'h) cdp_state \<Rightarrow> CdpDeposit list \<Rightarrow> string \<Rightarrow> int \<Rightarrow> denom \<Rightarrow> ('b, 'h) cdp_state result" where
  "AuctionCollateral E st deposits t dbt bidDenom =
     bnd (getAuctionSize st t) (\<lambda>auctionSize.
     bnd (SumCollateral (env_math E) deposits) (\<lambda>totalCollateral.
     foldR (auction_deposit E t dbt bidDenom auctionSize totalCollateral) deposits st))"

definition GetTotalSurplus :: "'b sdk \<Rightarrow> ('b, 'h) cdp_state \<Rightarrow> string \<Rightarrow> int result" where
  "GetTotalSurplus S st n =
     bnd (moduleAccount S (cs_bank st) n) (\<lambda>a. Inr (GetBalance S (cs_bank st) a (dp_Denom (DebtParamOf (cs_params st)))))"

definition GetTotalDebt :: "'b sdk \<Rightarrow> ('b, 'h) cdp_state \<Rightarrow> string \<Rightarrow> int result" where
  "GetTotalDebt S st n =
     bnd (moduleAccount S (cs_bank st) n) (\<lambda>a. Inr (GetBalance S (cs_bank st) a (cs_debtDenom st)))"

definition NetSurplusAndDebt :: "'b sdk \<Rightarrow> ('b, 'h) cdp_state \<Rightarrow> ('b, 'h) cdp_state result" where
  "NetSurplusAndDebt S st =
     bnd (GetTotalSurplus S st LiquidatorMacc) (\<lambda>totalSurplus.
     bnd (GetTotalDebt S st LiquidatorMacc) (\<lambda>dbt.
     let netAmount = min totalSurplus dbt in
     if netAmount = 0 then Inr st
     else
       bnd (NewCoin (Math S) (cs_debtDenom st) netAmount) (\<lambda>dc.
       bnd (NewCoins S [dc]) (\<lambda>dcs.
       bnd (with_bank (\<lambda>b. BurnCoins S b LiquidatorMacc dcs) st) (\<lambda>st1.
       let d = dp_Denom (DebtParamOf (cs_params st1)) in
       bnd (moduleAccount S (cs_bank st1) LiquidatorMacc) (\<lambda>a.
       bnd (NewCoin (Math S) d (min (GetBalance S (cs_bank st1) a d) netAmount)) (\<lambda>sc.
       bnd (NewCoins S [sc]) (\<lambda>scs. with_bank (\<lambda>b. BurnCoins S b LiquidatorMacc scs) st1))))))))"

definition dump :: int where "dump = 100"

definition RunSurplusAndDebtAuctions :: "'b sdk \<Rightarrow> ('b, 'h) cdp_state \<Rightarrow> ('b, 'h) cdp_state result" where
  "RunSurplusAndDebtAuctions S st =
     bnd (NetSurplusAndDebt S st) (\<lambda>st1.
     bnd (GetTotalDebt S st1 LiquidatorMacc) (\<lambda>remainingDebt.
     let p = cs_params st1; stable = dp_Denom (DebtParamOf p) in
     bnd (if remainingDebt \<ge> DebtAuctionThreshold p then
            bnd (NewCoin (Math S) (cs_debtDenom st1) (DebtAuctionLot p)) (\<lambda>debtLot.
            bnd (NewCoin (Math S) stable (Amount debtLot)) (\<lambda>bidCoin.
            bnd (toInt (Math S) (Amount debtLot * dump)) (\<lambda>l.
            bnd (NewCoin (Math S) (cs_govDenom st1) l) (\<lambda>initialLot.
            bnd (StartDebtAuction S (cs_auction st1) LiquidatorMacc bidCoin initialLot debtLot) (\<lambda>(au, i).
            Inr (st1\<lparr>cs_auction := au\<rparr>))))))
          else Inr st1) (\<lambda>st2.
     bnd (moduleAccount S (cs_bank st2) LiquidatorMacc) (\<lambda>a.
     let surplus = GetBalance S (cs_bank st2) a stable in
     if \<not> surplus \<ge> SurplusAuctionThreshold p then Inr st2
     else
       bnd (NewCoin (Math S) stable (min (SurplusAuctionLot p) surplus)) (\<lambda>surplusLot.
       bnd (StartSurplusAuction S (cs_auction st2) LiquidatorMacc surplusLot (cs_govDenom st2)) (\<lambda>(au, i).
       Inr (st2\<lparr>cs_auction := au\<rparr>)))))))"

section \<open>Liquidation\<close>

definition seize_deposit :: "('b, 'h) cdp_env \<Rightarrow> CdpDeposit \<Rightarrow> ('b, 'h) cdp_state \<Rightarrow> ('b, 'h) cdp_state result" where
  "seize_deposit E d st =
     bnd (NewCoins (Sdk E) [d_Amount d]) (\<lambda>cs.
     bnd (with_bank (\<lambda>b. SendCoinsFromModuleToModule (Sdk E) b cdp_module LiquidatorMacc cs) st) (\<lambda>st'.
     Inr (DeleteDeposit st' (d_CdpID d) (d_Depositor d))))"

definition SeizeCollateral :: "('b, 'h) cdp_env \<Rightarrow> ('b, 'h) cdp_state \<Rightarrow> CDP \<Rightarrow> ('b, 'h) cdp_state result" where
  "SeizeCollateral E st c =
     bnd (ratio_of (env_math E) st c) (\<lambda>oldRatio.
     let deposits = GetDeposits st (c_ID c) in
     bnd (CDP_GetTotalPrincipal (env_math E) c) (\<lambda>tp.
     bnd (getModAccountDebt (Sdk E) st cdp_module) (\<lambda>modAccountDebt.
     let dbt = min (Amount tp) modAccountDebt in
     bnd (NewCoin (env_math E) (cs_debtDenom st) dbt) (\<lambda>debtCoin.
     bnd (NewCoins (Sdk E) [debtCoin]) (\<lambda>dcs.
     bnd (with_bank (\<lambda>b. SendCoinsFromModuleToModule (Sdk E) b cdp_module LiquidatorMacc dcs) st) (\<lambda>st1.
     bnd (foldR (seize_deposit E) deposits st1) (\<lambda>st2.
     bnd (AuctionCollateral E st2 deposits (c_Type c) dbt (Denom (c_Principal c))) (\<lambda>st3.
     bnd (DecrementTotalPrincipal (env_math E) st3 (c_Type c) tp) (\<lambda>st4.
     bnd (RemoveCdpCollateralRatioIndex (RemoveCdpOwnerIndex st4 c) (c_Type c) (c_ID c) oldRatio) (\<lambda>st5.
     DeleteCDP st5 c))))))))))"

definition ValidateLiquidation :: "sdk_math \<Rightarrow> ('b, 'h) cdp_state \<Rightarrow> coin \<Rightarrow> string \<Rightarrow> coin \<Rightarrow> coin \<Rightarrow> unit result" where
  "ValidateLiquidation m st collateral t prin fees =
     bnd (CalculateCollateralizationRatio m st collateral t prin fees liquidation) (\<lambda>ratio.
     bnd (getLiquidationRatio st t) (\<lambda>liquidationRatio.
     if ratio \<ge> liquidationRatio then Inl (Err ''ErrNotLiquidatable'') else Inr ()))"

fun pay_from_first :: "sdk_math \<Rightarrow> coin \<Rightarrow> CdpDeposit list \<Rightarrow> CdpDeposit option result" where
  \<comment> \<open>the first deposit that covers the reward, less the reward\<close>
  "pay_from_first m rewardCoin [] = Inr None"
| "pay_from_first m rewardCoin (d # ds) =
     bnd (coin_IsLT (d_Amount d) rewardCoin) (\<lambda>lt.
     if \<not> lt then bnd (coin_Sub m (d_Amount d) rewardCoin) (\<lambda>a. Inr (Some (d\<lparr>d_Amount := a\<rparr>)))
     else pay_from_first m rewardCoin ds)"

definition payoutKeeperLiquidationReward ::
    "('b, 'h) cdp_env \<Rightarrow> ('b, 'h) cdp_state \<Rightarrow> address \<Rightarrow> CDP \<Rightarrow> (('b, 'h) cdp_state \<times> CDP) result" where
  "payoutKeeperLiquidationReward E st keeper c =
     (case GetCollateral st (c_Type c) of
        None \<Rightarrow> Inl (Err ''ErrInvalidCollateral'')
      | Some cp \<Rightarrow>
          bnd (DecMul (env_math E) (NewDecFromInt (Amount (c_Collateral c))) (co_KeeperRewardPercentage cp)) (\<lambda>x.
          bnd (DecRoundInt (env_math E) x) (\<lambda>reward.
          bnd (NewCoin (env_math E) (Denom (c_Collateral c)) reward) (\<lambda>rewardCoin.
          bnd (pay_from_first (env_math E) rewardCoin (GetDeposits st (c_ID c))) (\<lambda>paid.
          case paid of
            None \<Rightarrow> Inr (st, c)
          | Some d \<Rightarrow>
              let st1 = SetDeposit st d in
              bnd (NewCoins (Sdk E) [rewardCoin]) (\<lambda>cs.
              bnd (with_bank (\<lambda>b. SendCoinsFromModuleToAccount (Sdk E) b cdp_module keeper cs) st1) (\<lambda>st2.
              bnd (coin_Sub (env_math E) (c_Collateral c) rewardCoin) (\<lambda>col.
              let c' = c\<lparr>c_Collateral := col\<rparr> in
              bnd (ratio_of (env_math E) st2 c') (\<lambda>ratio.
              bnd (UpdateCdpAndCollateralRatioIndex (env_math E) st2 c' ratio) (\<lambda>st3. Inr (st3, c')))))))))))"

definition AttemptKeeperLiquidation ::
    "('b, 'h) cdp_env \<Rightarrow> time \<Rightarrow> ('b, 'h) cdp_state \<Rightarrow> address \<Rightarrow> address \<Rightarrow> string \<Rightarrow> ('b, 'h) cdp_state result" where
  "AttemptKeeperLiquidation E now st keeper owner t =
     (case GetCdpByOwnerAndCollateralType st owner t of
        None \<Rightarrow> Inl (Err ''ErrCdpNotFound'')
      | Some c0 \<Rightarrow>
          bnd (hook_modified E st c0) (\<lambda>st1.
          bnd (SynchronizeInterest (env_math E) now st1 c0) (\<lambda>(st2, c).
          bnd (ValidateLiquidation (env_math E) st2 (c_Collateral c) (c_Type c) (c_Principal c) (c_AccumulatedFees c)) (\<lambda>_.
          bnd (payoutKeeperLiquidationReward E st2 keeper c) (\<lambda>(st3, c').
          SeizeCollateral E st3 c')))))"

definition cdp_by_id :: "('b, 'h) cdp_state \<Rightarrow> string \<Rightarrow> uint64 \<Rightarrow> CDP list \<Rightarrow> CDP list result" where
  "cdp_by_id st t i acc = (case GetCDP st t i of None \<Rightarrow> Inl (Panic ''cdp does not exist'') | Some c \<Rightarrow> Inr (acc @ [c]))"

definition GetAllCdpsByCollateralTypeAndRatio :: "('b, 'h) cdp_state \<Rightarrow> string \<Rightarrow> dec \<Rightarrow> CDP list result" where
  "GetAllCdpsByCollateralTypeAndRatio st t targetRatio = foldR (cdp_by_id st t) (ratio_ids st t targetRatio) []"

definition GetSliceOfCDPsByRatioAndType :: "('b, 'h) cdp_state \<Rightarrow> int \<Rightarrow> dec \<Rightarrow> string \<Rightarrow> CDP list result" where
  \<comment> \<open>the iteration stops after a position once the count is reached, so it visits at least one\<close>
  "GetSliceOfCDPsByRatioAndType st cutoffCount targetRatio t =
     foldR (cdp_by_id st t) (take (max 1 (nat cutoffCount)) (ratio_ids st t targetRatio)) []"

definition liquidate_one :: "('b, 'h) cdp_env \<Rightarrow> CDP \<Rightarrow> ('b, 'h) cdp_state \<Rightarrow> ('b, 'h) cdp_state result" where
  "liquidate_one E c st = bnd (hook_modified E st c) (\<lambda>st'. SeizeCollateral E st' c)"

definition LiquidateCdps ::
    "('b, 'h) cdp_env \<Rightarrow> ('b, 'h) cdp_state \<Rightarrow> string \<Rightarrow> string \<Rightarrow> dec \<Rightarrow> int \<Rightarrow> ('b, 'h) cdp_state result" where
  "LiquidateCdps E st marketID t liquidationRatio cutoff =
     bnd (GetCurrentPrice (cs_prices st) marketID) (\<lambda>price.
     bnd (DecQuo (env_math E) (cur_Price price) liquidationRatio) (\<lambda>priceDivLiqRatio0.
     let priceDivLiqRatio = (if priceDivLiqRatio0 = 0 then 1 else priceDivLiqRatio0) in
     bnd (DecQuo (env_math E) OneDec priceDivLiqRatio) (\<lambda>normalizedRatio.
     bnd (GetSliceOfCDPsByRatioAndType st cutoff normalizedRatio t) (\<lambda>cdpsToLiquidate.
     foldR (liquidate_one E) cdpsToLiquidate st))))"

section \<open>The begin blocker\<close>

definition ignore_no_price :: "'a \<Rightarrow> 'a result \<Rightarrow> 'a result" where
  \<comment> \<open>\<open>LiquidateCdps\<close> reads the price before it writes anything\<close>
  "ignore_no_price st r =
     (case r of Inr st' \<Rightarrow> Inr st' | Inl e \<Rightarrow> if e = Err ''ErrNoValidPrice'' then Inr st else panic_on_err (Inl e))"

definition begin_collateral :: "('b, 'h) cdp_env \<Rightarrow> time \<Rightarrow> bool \<Rightarrow> CollateralParam \<Rightarrow> ('b, 'h) cdp_state \<Rightarrow> ('b, 'h) cdp_state result" where
  "begin_collateral E now skip cp st =
     (let (st1, ok1) = UpdatePricefeedStatus st (co_SpotMarketID cp) in
      if \<not> ok1 then Inr st1
      else
        let (st2, ok2) = UpdatePricefeedStatus st1 (co_LiquidationMarketID cp) in
        if \<not> ok2 then Inr st2
        else
          bnd (panic_on_err (AccumulateInterest E now st2 (co_Type cp))) (\<lambda>st3.
          if skip then Inr st3
          else
            bnd (panic_on_err (SynchronizeInterestForRiskyCDPs E st3 MaxSortableDec cp)) (\<lambda>st4.
            ignore_no_price st4 (LiquidateCdps E st4 (co_LiquidationMarketID cp) (co_Type cp) (co_LiquidationRatio cp)
              (co_CheckCollateralizationIndexCount cp)))))"

definition cdp_BeginBlocker :: "('b, 'h) cdp_env \<Rightarrow> time \<Rightarrow> int \<Rightarrow> ('b, 'h) cdp_state \<Rightarrow> ('b, 'h) cdp_state result" where
  "cdp_BeginBlocker E now height st =
     (let p = cs_params st in
      if LiquidationBlockInterval p = 0 then Inl (Panic ''integer divide by zero'')
      else
        let skip = (height mod \<bar>LiquidationBlockInterval p\<bar> \<noteq> 0) in
        bnd (foldR (begin_collateral E now skip) (CollateralParams p) st) (\<lambda>st'.
        panic_on_err (RunSurplusAndDebtAuctions (Sdk E) st')))"

section \<open>Messages\<close>

definition msg_CreateCDP ::
    "('b, 'h) cdp_env \<Rightarrow> (string \<Rightarrow> address result) \<Rightarrow> time \<Rightarrow> ('b, 'h) cdp_state \<Rightarrow> string \<Rightarrow> coin \<Rightarrow> coin \<Rightarrow> string \<Rightarrow> (('b, 'h) cdp_state \<times> uint64) result" where
  "msg_CreateCDP E bech now st sender collateral prin t =
     bnd (bech sender) (\<lambda>a.
     bnd (AddCdp E now st a collateral prin t) (\<lambda>st'.
     Inr (st', case GetCdpID st' a t of Some i \<Rightarrow> i | None \<Rightarrow> 0)))"

definition msg_DepositCDP ::
    "('b, 'h) cdp_env \<Rightarrow> (string \<Rightarrow> address result) \<Rightarrow> time \<Rightarrow> ('b, 'h) cdp_state \<Rightarrow> string \<Rightarrow> string \<Rightarrow> coin \<Rightarrow> string \<Rightarrow> ('b, 'h) cdp_state result" where
  "msg_DepositCDP E bech now st owner depositor collateral t =
     bnd (bech owner) (\<lambda>o'. bnd (bech depositor) (\<lambda>a. DepositCollateral E now st o' a collateral t))"

definition msg_WithdrawCDP ::
    "('b, 'h) cdp_env \<Rightarrow> (string \<Rightarrow> address result) \<Rightarrow> time \<Rightarrow> ('b, 'h) cdp_state \<Rightarrow> string \<Rightarrow> string \<Rightarrow> coin \<Rightarrow> string \<Rightarrow> ('b, 'h) cdp_state result" where
  "msg_WithdrawCDP E bech now st owner depositor collateral t =
     bnd (bech owner) (\<lambda>o'. bnd (bech depositor) (\<lambda>a. WithdrawCollateral E now st o' a collateral t))"

definition msg_DrawDebt ::
    "('b, 'h) cdp_env \<Rightarrow> (string \<Rightarrow> address result) \<Rightarrow> time \<Rightarrow> ('b, 'h) cdp_state \<Rightarrow> string \<Rightarrow> string \<Rightarrow> coin \<Rightarrow> ('b, 'h) cdp_state result" where
  "msg_DrawDebt E bech now st sender t prin = bnd (bech sender) (\<lambda>a. AddPrincipal E now st a t prin)"

definition msg_RepayDebt ::
    "('b, 'h) cdp_env \<Rightarrow> (string \<Rightarrow> address result) \<Rightarrow> time \<Rightarrow> ('b, 'h) cdp_state \<Rightarrow> string \<Rightarrow> string \<Rightarrow> coin \<Rightarrow> ('b, 'h) cdp_state result" where
  "msg_RepayDebt E bech now st sender t payment = bnd (bech sender) (\<lambda>a. RepayPrincipal E now st a t payment)"

definition msg_Liquidate ::
    "('b, 'h) cdp_env \<Rightarrow> (string \<Rightarrow> address result) \<Rightarrow> time \<Rightarrow> ('b, 'h) cdp_state \<Rightarrow> string \<Rightarrow> string \<Rightarrow> string \<Rightarrow> ('b, 'h) cdp_state result" where
  "msg_Liquidate E bech now st keeper borrower t =
     bnd (bech keeper) (\<lambda>k. bnd (bech borrower) (\<lambda>o'. AttemptKeeperLiquidation E now st k o' t))"

section \<open>Genesis\<close>

record GenesisAccumulationTime =
  ga_CollateralType :: string
  ga_PreviousAccumulationTime :: time
  ga_InterestFactor :: dec

record GenesisTotalPrincipal =
  gp_CollateralType :: string
  gp_TotalPrincipal :: int

record cdp_genesis =
  cg_Params :: cdp_Params
  cg_CDPs :: "CDP list"
  cg_Deposits :: "CdpDeposit list"
  cg_StartingCdpID :: uint64
  cg_DebtDenom :: denom
  cg_GovDenom :: denom
  cg_PreviousAccumulationTimes :: "GenesisAccumulationTime list"
  cg_TotalPrincipals :: "GenesisTotalPrincipal list"

definition GenesisAccumulationTimes_Validate :: "GenesisAccumulationTime list \<Rightarrow> unit result" where
  "GenesisAccumulationTimes_Validate gats =
     foldR (\<lambda>g _. if ga_InterestFactor g < OneDec then Inl (Err ''interest factor should be >= 1.0'') else Inr ()) gats ()"

definition GenesisTotalPrincipals_Validate :: "GenesisTotalPrincipal list \<Rightarrow> unit result" where
  "GenesisTotalPrincipals_Validate gtps =
     foldR (\<lambda>g _.
       if list_all isSpace (gp_CollateralType g) then Inl (Err ''collateral type cannot be empty'')
       else if gp_TotalPrincipal g < 0 then Inl (Err ''total principal should be positive'')
       else Inr ()) gtps ()"

definition cdp_genesis_Validate :: "sdk_math \<Rightarrow> cdp_genesis \<Rightarrow> unit result" where
  "cdp_genesis_Validate m gs =
     bnd (cdp_Params_Validate m (cg_Params gs)) (\<lambda>_.
     bnd (CDPs_Validate m (cg_CDPs gs)) (\<lambda>_.
     bnd (Deposits_Validate m (cg_Deposits gs)) (\<lambda>_.
     bnd (GenesisAccumulationTimes_Validate (cg_PreviousAccumulationTimes gs)) (\<lambda>_.
     bnd (GenesisTotalPrincipals_Validate (cg_TotalPrincipals gs)) (\<lambda>_.
     if \<not> ValidDenom m (cg_DebtDenom gs) then Inl (Err ''debt denom invalid'')
     else if \<not> ValidDenom m (cg_GovDenom gs) then Inl (Err ''gov denom invalid'')
     else Inr ())))))"

definition init_status :: "CollateralParam \<Rightarrow> ('b, 'h) cdp_state \<Rightarrow> ('b, 'h) cdp_state result" where
  "init_status cp st =
     (let markets = map mk_MarketID (pf_Markets (cs_prices st)) in
      if co_SpotMarketID cp \<notin> set markets then Inl (Panic ''collateral market not found in pricefeed'')
      else
        let st1 = fst (UpdatePricefeedStatus st (co_SpotMarketID cp)) in
        if co_LiquidationMarketID cp \<notin> set markets then Inl (Panic ''collateral market not found in pricefeed'')
        else Inr (fst (UpdatePricefeedStatus st1 (co_LiquidationMarketID cp))))"

definition init_time :: "GenesisAccumulationTime \<Rightarrow> ('b, 'h) cdp_state \<Rightarrow> ('b, 'h) cdp_state" where
  "init_time g st =
     (let st1 = SetInterestFactor st (ga_CollateralType g) (ga_InterestFactor g) in
      if time_Unix (ga_PreviousAccumulationTime g) > 0
      then SetPreviousAccrualTime st1 (ga_CollateralType g) (ga_PreviousAccumulationTime g) else st1)"

definition init_cdp :: "sdk_math \<Rightarrow> uint64 \<Rightarrow> CDP \<Rightarrow> ('b, 'h) cdp_state \<Rightarrow> ('b, 'h) cdp_state result" where
  "init_cdp m startingID c st =
     (if c_ID c = startingID then Inl (Panic ''starting cdp id is assigned to an existing cdp'')
      else
        bnd (panic_on_err (SetCDP st c)) (\<lambda>st1.
        let st2 = IndexCdpByOwner st1 c in
        bnd (ratio_of m st2 c) (\<lambda>ratio. IndexCdpByCollateralRatio st2 (c_Type c) (c_ID c) ratio)))"

definition cdp_InitGenesis :: "'b sdk \<Rightarrow> ('b, 'h) cdp_state \<Rightarrow> cdp_genesis \<Rightarrow> ('b, 'h) cdp_state result" where
  "cdp_InitGenesis S st gs =
     bnd (panic_on_err (cdp_genesis_Validate (Math S) gs)) (\<lambda>_.
     if \<not> HasModuleAccount S (cs_bank st) cdp_module then Inl (Panic ''cdp module account has not been set'')
     else if \<not> HasModuleAccount S (cs_bank st) LiquidatorMacc then Inl (Panic ''liquidator module account has not been set'')
     else
       bnd (foldR init_status (CollateralParams (cg_Params gs)) st) (\<lambda>st1.
       bnd (cdp_SetParams (Math S) st1 (cg_Params gs)) (\<lambda>st2.
       bnd (foldR (\<lambda>g s. SetTotalPrincipal s (gp_CollateralType g) DefaultStableDenom (gp_TotalPrincipal g))
              (cg_TotalPrincipals gs) (fold init_time (cg_PreviousAccumulationTimes gs) st2)) (\<lambda>st3.
       bnd (foldR (init_cdp (Math S) (cg_StartingCdpID gs)) (cg_CDPs gs) st3) (\<lambda>st4.
       bnd (SetDebtDenom (SetNextCdpID st4 (cg_StartingCdpID gs)) (cg_DebtDenom gs)) (\<lambda>st5.
       bnd (SetGovDenom st5 (cg_GovDenom gs)) (\<lambda>st6.
       Inr (fold (\<lambda>d s. SetDeposit s d) (cg_Deposits gs) st6))))))))"

definition export_cdp ::
    "sdk_math \<Rightarrow> time \<Rightarrow> CDP \<Rightarrow> ('b, 'h) cdp_state \<times> CDP list \<times> CdpDeposit list \<Rightarrow> (('b, 'h) cdp_state \<times> CDP list \<times> CdpDeposit list) result" where
  "export_cdp m now c acc =
     (case acc of (st, cdps, deposits) \<Rightarrow>
        bnd (SynchronizeInterest m now st c) (\<lambda>(st', c').
        Inr (st', cdps @ [c'], deposits @ GetDeposits st' (c_ID c))))"

definition export_totals ::
    "CollateralParam \<Rightarrow> ('b, 'h) cdp_state \<times> GenesisAccumulationTime list \<times> GenesisTotalPrincipal list
      \<Rightarrow> (('b, 'h) cdp_state \<times> GenesisAccumulationTime list \<times> GenesisTotalPrincipal list) result" where
  "export_totals cp acc =
     (case acc of (st, accums, tots) \<Rightarrow>
        let interestFactor = (case GetInterestFactor st (co_Type cp) of Some f \<Rightarrow> f | None \<Rightarrow> OneDec) in
        case GetPreviousAccrualTime st (co_Type cp) of
          None \<Rightarrow> Inl (Panic ''expected previous accrual time to be set in state'')
        | Some t \<Rightarrow>
            bnd (GetTotalPrincipal st (co_Type cp) DefaultStableDenom) (\<lambda>(st', tp).
            Inr (st', accums @ [\<lparr>ga_CollateralType = co_Type cp, ga_PreviousAccumulationTime = t, ga_InterestFactor = interestFactor\<rparr>],
                 tots @ [\<lparr>gp_CollateralType = co_Type cp, gp_TotalPrincipal = tp\<rparr>])))"

definition cdp_ExportGenesis :: "sdk_math \<Rightarrow> time \<Rightarrow> ('b, 'h) cdp_state \<Rightarrow> cdp_genesis result" where
  "cdp_ExportGenesis m now st =
     bnd (foldR (export_cdp m now) (GetAllCdps st) (st, [], [])) (\<lambda>(st1, cdps, deposits).
     bnd (GetNextCdpID st1) (\<lambda>cdpID.
     bnd (foldR export_totals (CollateralParams (cs_params st)) (st1, [], [])) (\<lambda>(st2, accums, tots).
     Inr \<lparr>cg_Params = cs_params st, cg_CDPs = cdps, cg_Deposits = deposits, cg_StartingCdpID = cdpID,
       cg_DebtDenom = cs_debtDenom st1, cg_GovDenom = cs_govDenom st1,
       cg_PreviousAccumulationTimes = accums, cg_TotalPrincipals = tots\<rparr>)))"

end
