(* ===== verification/Cdp_Auctions.thy ===== *)
theory Cdp_Auctions
  imports Cdp
begin

text \<open>
  Arithmetic of the debt positions: the scaled power, and the division of a deposit and its debt among
  collateral auctions (\<open>keeper/auctions.go\<close>).
\<close>

section \<open>The scaled power\<close>



lemma checked_Quo_Inr [simp]: "checked_Quo a b = Inr q \<longleftrightarrow> b \<noteq> 0 \<and> q = Quo a b"
  by (auto simp: checked_Quo_def)

lemma Quo_one [simp]: "Quo a 1 = a"
  by (auto simp: Quo_def sgn_if)








section \<open>Auctions of a deposit\<close>

text \<open>
  The plan a deposit is auctioned by: whole lots, then the rest; each gets its share of the debt
  rounded down, and what is left goes one by one to the lots with the largest remainder.
\<close>

definition lot_debts :: "int \<Rightarrow> nat \<Rightarrow> int \<Rightarrow> int list" where
  "lot_debts debtPerAuction n left = map (\<lambda>k. if int k < left then debtPerAuction + 1 else debtPerAuction) [0..<n]"

lemma lot_debts_0 [simp]: "lot_debts dpa 0 u = []"
  by (simp add: lot_debts_def)

lemma lot_debts_Suc: "lot_debts dpa (Suc n) u = (if 0 < u then dpa + 1 else dpa) # lot_debts dpa n (if 0 < u then u - 1 else u)"
proof -
  have "[0..<Suc n] = 0 # map Suc [0..<n]" by (simp only: upt_conv_Cons zero_less_Suc map_Suc_upt)
  then show ?thesis by (auto simp: lot_debts_def)
qed

lemma lot_debts_sum: "0 \<le> u \<Longrightarrow> u \<le> int n \<Longrightarrow> sum_list (lot_debts dpa n u) = int n * dpa + u"
proof (induction n arbitrary: u)
  case (Suc n)
  show ?case using Suc.prems Suc.IH [of "if 0 < u then u - 1 else u"] by (auto simp: lot_debts_Suc algebra_simps)
qed simp

lemma lot_debts_elem: "x \<in> set (lot_debts dpa n u) \<Longrightarrow> x = dpa \<or> x = dpa + 1 \<and> 0 < u"
  by (auto simp: lot_debts_def split: if_splits)

definition run_lots ::
    "('b, 'h) cdp_env \<Rightarrow> string \<Rightarrow> address \<Rightarrow> denom \<Rightarrow> denom \<Rightarrow> (int \<times> int) list \<Rightarrow> ('b, 'h) cdp_state \<Rightarrow> ('b, 'h) cdp_state result" where
  "run_lots E t ret cd pd plan st = foldR (\<lambda>(lot, dbt) s. start_lot E t ret cd pd lot dbt s) plan st"

lemma create_whole_auctions_plan:
  assumes "create_whole_auctions E t ret cd pd sz dpa n u st = Inr (st', u')" "0 \<le> u" "u \<le> int n"
  shows "run_lots E t ret cd pd (map (Pair sz) (lot_debts dpa n u)) st = Inr st' \<and> u' = 0"
  using assms
proof (induction n arbitrary: u st)
  case (Suc n)
  let ?a = "if 0 < u then dpa + 1 else dpa" and ?u = "if 0 < u then u - 1 else u"
  obtain st1 where s: "start_lot E t ret cd pd sz ?a st = Inr st1"
      "create_whole_auctions E t ret cd pd sz dpa n ?u st1 = Inr (st', u')"
    using Suc.prems(1) by (auto split: if_splits)
  have "run_lots E t ret cd pd (map (Pair sz) (lot_debts dpa n ?u)) st1 = Inr st' \<and> u' = 0"
    by (rule Suc.IH [OF s(2)]) (use Suc.prems in auto)
  then show ?case using s(1) by (auto simp: lot_debts_Suc run_lots_def)
qed (simp add: run_lots_def)

lemma largest_remainder:
  fixes c s d :: int
  defines "n \<equiv> c div s" and "l \<equiv> c mod s" and "q \<equiv> d * s div c" and "e \<equiv> d * s mod c"
  defines "ql \<equiv> d * l div c" and "el \<equiv> d * l mod c"
  assumes c: "0 < c" and s: "0 < s" and d: "0 \<le> d"
  shows "c * (d - (n * q + ql)) = n * e + el" "0 \<le> d - (n * q + ql)" "d - (n * q + ql) \<le> n"
    "el > e \<Longrightarrow> 1 \<le> d - (n * q + ql)" "l = 0 \<Longrightarrow> ql = 0 \<and> el = 0"
proof -
  have cs: "c = n * s + l" unfolding n_def l_def by simp
  have ds: "d * s = c * q + e" "d * l = c * ql + el" unfolding q_def e_def ql_def el_def by simp_all
  have "d * c = n * (d * s) + d * l" using arg_cong [OF cs, of "\<lambda>x. d * x"] by (simp add: algebra_simps)
  then show eq: "c * (d - (n * q + ql)) = n * e + el" unfolding ds by (simp add: algebra_simps)
  have n: "0 \<le> n" using c s by (simp add: n_def pos_imp_zdiv_nonneg_iff)
  have e: "0 \<le> e" "e < c" "0 \<le> el" "el < c" using c by (simp_all add: e_def el_def)
  have "0 \<le> c * (d - (n * q + ql))" unfolding eq using n e by simp
  then show "0 \<le> d - (n * q + ql)" using c by (simp add: zero_le_mult_iff)
  have "n * e \<le> n * c" using n e by (intro mult_left_mono) auto
  then have "c * (d - (n * q + ql)) < c * (n + 1)" unfolding eq using e by (simp add: algebra_simps)
  then show "d - (n * q + ql) \<le> n" using c by simp
  show "1 \<le> d - (n * q + ql)" if "el > e"
  proof -
    have "0 < c * (d - (n * q + ql))" unfolding eq using n e that by (simp add: add_nonneg_pos)
    then show ?thesis using c by (simp add: zero_less_mult_iff)
  qed
  show "ql = 0 \<and> el = 0" if "l = 0" using that by (simp add: ql_def el_def)
qed

text \<open>What a plan promises.\<close>

definition fair_plan :: "int \<Rightarrow> int \<Rightarrow> int \<Rightarrow> (int \<times> int) list \<Rightarrow> bool" where
  "fair_plan c s d plan \<longleftrightarrow>
     map fst plan = replicate (nat (c div s)) s @ (if c mod s = 0 then [] else [c mod s]) \<and>
     sum_list (map fst plan) = c \<and> sum_list (map snd plan) = d \<and>
     (\<forall>(lot, dbt)\<in>set plan. d * lot div c \<le> dbt \<and> dbt \<le> d * lot div c + 1)"

lemma CreateAuctionsFromDeposit_plan:
  assumes r: "CreateAuctionsFromDeposit E st col t ret d s pd = Inr st'" and c: "0 < Amount col" and s: "0 < s" and d: "0 \<le> d"
  shows "\<exists>plan. fair_plan (Amount col) s d plan \<and> run_lots E t ret (Denom col) pd plan st = Inr st'"
proof -
  define c where "c = Amount col"
  define n l q ql where nlq: "n = c div s" "l = c mod s" "q = d * s div c" "ql = d * l div c"
  define w where "w = (d * l mod c > d * s mod c)"
  define u where "u = d - (n * q + ql) - (if w then 1 else 0)"
  note lr = largest_remainder [OF c s d, folded c_def, folded nlq]
  have pos: "0 < c" "0 \<le> n" "0 \<le> l" "l < s" using c s by (simp_all add: c_def nlq pos_imp_zdiv_nonneg_iff)
  have u: "0 \<le> u" "u \<le> n" using lr(2-4) by (auto simp: u_def w_def nlq(4))
  have dn: "0 \<le> d * s" "0 \<le> d * l" using d s pos by simp_all
  obtain st1 u2 where wh: "create_whole_auctions E t ret (Denom col) pd s q (nat n) u st = Inr (st1, u2)"
      and last: "(if \<not> 0 < l then Inr st1
        else bnd (if 0 < u2 then toInt (env_math E) (ql + (if w then 1 else 0) + 1) else Inr (ql + (if w then 1 else 0)))
          (\<lambda>x. start_lot E t ret (Denom col) pd l x st1)) = Inr st'"
    using r c s dn pos unfolding CreateAuctionsFromDeposit_def c_def [symmetric]
    by (auto simp: checked_Quo_def checked_Mod_def nlq [symmetric] w_def u_def split: if_splits)
  have run: "run_lots E t ret (Denom col) pd (map (Pair s) (lot_debts q (nat n) u)) st = Inr st1" "u2 = 0"
    using create_whole_auctions_plan [OF wh] u pos by auto
  have sum: "sum_list (lot_debts q (nat n) u) = n * q + u" using lot_debts_sum [of u "nat n" q] u pos by simp
  let ?whole = "map (Pair s) (lot_debts q (nat n) u)"
  let ?plan = "?whole @ (if l = 0 then [] else [(l, ql + (if w then 1 else 0))])"
  have lots: "map fst ?whole = replicate (nat n) s" by (simp add: comp_def map_replicate_const lot_debts_def)
  have cs: "n * s + l = c" by (simp add: nlq)
  have zero: "\<not> w \<and> ql = 0" if "l = 0" using that pos nlq(4) pos_mod_sign [of c "d * s"] by (simp add: w_def not_less)
  have "fair_plan c s d ?plan"
    unfolding fair_plan_def nlq(1,2) [symmetric]
  proof (intro conjI)
    show "map fst ?plan = replicate (nat n) s @ (if l = 0 then [] else [l])" using lots by simp
    show "sum_list (map fst ?plan) = c" using lots cs pos by (auto simp: sum_list_replicate)
    show "sum_list (map snd ?plan) = d" using sum zero by (auto simp: comp_def u_def)
    show "\<forall>(lot, dbt)\<in>set ?plan. d * lot div c \<le> dbt \<and> dbt \<le> d * lot div c + 1"
      by (auto simp: nlq(3,4) dest!: lot_debts_elem)
  qed
  moreover have "run_lots E t ret (Denom col) pd ?plan st = Inr st'"
    using run last pos by (auto simp: run_lots_def foldR_append split: if_splits)
  ultimately show ?thesis unfolding c_def by blast
qed


section \<open>Transfers\<close>

text \<open>A transfer of the amounts \<open>f\<close> between two accounts, possibly in several calls.\<close>

definition shifted :: "'b sdk \<Rightarrow> 'b \<Rightarrow> 'b \<Rightarrow> address \<Rightarrow> address \<Rightarrow> (denom \<Rightarrow> int) \<Rightarrow> bool" where
  "shifted S b b' x y f \<longleftrightarrow>
     (\<forall>a d. GetBalance S b' a d = GetBalance S b a d - (if a = x then f d else 0) + (if a = y then f d else 0)) \<and>
     (\<forall>d. GetSupply S b' d = GetSupply S b d)"

lemma shifted_refl: "shifted S b b x y (\<lambda>d. 0)"
  by (simp add: shifted_def)

lemma shifted_trans: "shifted S b b1 x y f \<Longrightarrow> shifted S b1 b2 x y g \<Longrightarrow> shifted S b b2 x y (\<lambda>d. f d + g d)"
  by (simp add: shifted_def)

lemma shifted_cong: "shifted S b b' x y f \<Longrightarrow> (\<And>d. f d = g d) \<Longrightarrow> shifted S b b' x y g"
  by (simp add: shifted_def)

lemma shifted_send:
  assumes "sdk_laws S" "NewCoins S [c] = Inr cs" "SendCoinsFromModuleToModule S b n k cs = Inr b'"
  shows "shifted S b b' (ModuleAddress S n) (ModuleAddress S k) (coin_amt c)"
  using sends(4) [OF assms(1,3)] NewCoins_one(1) [OF assms(1,2)] by (simp add: moved_def shifted_def)

lemma StoreNewAuction_bank: "StoreNewAuction st a = Inr (st', i) \<Longrightarrow> ak_bank st' = ak_bank st"
  by (auto simp: StoreNewAuction_def IncrementNextAuctionID_def SetNextAuctionID_def GetNextAuctionID_def SetAuction_def
      InsertIntoByTimeIndex_def removeFromByTimeIndex_def Let_def split: option.splits)

lemma StartCollateralAuction_bank:
  assumes "sdk_laws S" "StartCollateralAuction S st n lot mx addrs ws dbt = Inr (st', i)"
  shows "shifted S (ak_bank st) (ak_bank st') (ModuleAddress S n) (ModuleAddress S auction_module) (\<lambda>d. coin_amt lot d + coin_amt dbt d)"
proof -
  obtain cs b1 ds b2 au where s: "NewCoins S [lot] = Inr cs" "SendCoinsFromModuleToModule S (ak_bank st) n auction_module cs = Inr b1"
      "NewCoins S [dbt] = Inr ds" "SendCoinsFromModuleToModule S b1 n auction_module ds = Inr b2"
      "StoreNewAuction (st\<lparr>ak_bank := b2\<rparr>) au = Inr (st', i)"
    using assms(2) by (auto simp: StartCollateralAuction_def)
  show ?thesis
    using shifted_trans [OF shifted_send [OF assms(1) s(1,2)] shifted_send [OF assms(1) s(3,4)]] StoreNewAuction_bank [OF s(5)] by simp
qed

lemma start_lot_bank:
  assumes "sdk_laws (Sdk E)" "start_lot E t ret cd pd lot dbt st = Inr st'"
  shows "shifted (Sdk E) (cs_bank st) (cs_bank st') (ModuleAddress (Sdk E) LiquidatorMacc) (ModuleAddress (Sdk E) auction_module)
      (\<lambda>d. coin_amt (Coin cd lot) d + coin_amt (Coin (cs_debtDenom st) dbt) d)"
    "st' = st\<lparr>cs_auction := cs_auction st'\<rparr>" "0 \<le> lot" "0 \<le> dbt"
proof -
  obtain mx au i where s: "StartCollateralAuction (Sdk E) (cs_auction st) LiquidatorMacc (Coin cd lot) mx [ret] [lot] (Coin (cs_debtDenom st) dbt) = Inr (au, i)"
      "st' = st\<lparr>cs_auction := au\<rparr>" "0 \<le> lot" "0 \<le> dbt"
    using assms(2) by (auto simp: start_lot_def)
  show "shifted (Sdk E) (cs_bank st) (cs_bank st') (ModuleAddress (Sdk E) LiquidatorMacc) (ModuleAddress (Sdk E) auction_module)
      (\<lambda>d. coin_amt (Coin cd lot) d + coin_amt (Coin (cs_debtDenom st) dbt) d)"
    using StartCollateralAuction_bank [OF assms(1) s(1)] by (simp add: cs_bank_def s(2))
  show "st' = st\<lparr>cs_auction := cs_auction st'\<rparr>" "0 \<le> lot" "0 \<le> dbt" using s by simp_all
qed

lemma run_lots_bank:
  assumes "sdk_laws (Sdk E)" "run_lots E t ret cd pd plan st = Inr st'"
  shows "shifted (Sdk E) (cs_bank st) (cs_bank st') (ModuleAddress (Sdk E) LiquidatorMacc) (ModuleAddress (Sdk E) auction_module)
      (\<lambda>d. coin_amt (Coin cd (sum_list (map fst plan))) d + coin_amt (Coin (cs_debtDenom st) (sum_list (map snd plan))) d) \<and>
    st' = st\<lparr>cs_auction := cs_auction st'\<rparr>"
  using assms(2)
proof (induction plan arbitrary: st)
  case Nil
  then show ?case by (auto simp: run_lots_def coin_amt_def intro: shifted_cong [OF shifted_refl])
next
  case (Cons p plan)
  obtain lot dbt st1 where s: "p = (lot, dbt)" "start_lot E t ret cd pd lot dbt st = Inr st1" "run_lots E t ret cd pd plan st1 = Inr st'"
    using Cons.prems by (cases p) (auto simp: run_lots_def)
  note one = start_lot_bank [OF assms(1) s(2)] and IH = Cons.IH [OF s(3)]
  have d: "cs_debtDenom st1 = cs_debtDenom st" by (subst one(2)) simp
  have "shifted (Sdk E) (cs_bank st) (cs_bank st') (ModuleAddress (Sdk E) LiquidatorMacc) (ModuleAddress (Sdk E) auction_module)
      (\<lambda>d. coin_amt (Coin cd (sum_list (map fst (p # plan)))) d + coin_amt (Coin (cs_debtDenom st) (sum_list (map snd (p # plan)))) d)"
    by (rule shifted_cong [OF shifted_trans [OF one(1) conjunct1 [OF IH]]]) (simp add: s(1) d coin_amt_def)
  moreover have "st' = st\<lparr>cs_auction := cs_auction st'\<rparr>" by (subst conjunct2 [OF IH], subst one(2)) simp
  ultimately show ?case by blast
qed

text \<open>
  \<open>CreateAuctionsFromDeposit\<close> divides a deposit and the debt it covers exactly: whole auctions of the
  auction size and one of the rest, whose lots sum to the collateral and whose debts sum to the
  debt, each debt being the lot's share of the debt rounded down or one more. The liquidator hands the
  auction module precisely the collateral and the debt coins, and nothing else of the state changes.
  In particular no debt is left for the last branch that would add one to the last auction.
\<close>

theorem CreateAuctionsFromDeposit_exact:
  assumes "sdk_laws (Sdk E)" "CreateAuctionsFromDeposit E st col t ret d s pd = Inr st'" "0 < Amount col" "0 < s" "0 \<le> d"
  shows "(\<exists>plan. run_lots E t ret (Denom col) pd plan st = Inr st' \<and>
      map fst plan = replicate (nat (Amount col div s)) s @ (if Amount col mod s = 0 then [] else [Amount col mod s]) \<and>
      sum_list (map fst plan) = Amount col \<and> sum_list (map snd plan) = d \<and>
      (\<forall>(lot, dbt)\<in>set plan. d * lot div Amount col \<le> dbt \<and> dbt \<le> d * lot div Amount col + 1)) \<and>
    (\<forall>a x. GetBalance (Sdk E) (cs_bank st') a x = GetBalance (Sdk E) (cs_bank st) a x
      - (if a = ModuleAddress (Sdk E) LiquidatorMacc then coin_amt col x + coin_amt (Coin (cs_debtDenom st) d) x else 0)
      + (if a = ModuleAddress (Sdk E) auction_module then coin_amt col x + coin_amt (Coin (cs_debtDenom st) d) x else 0)) \<and>
    st' = st\<lparr>cs_auction := cs_auction st'\<rparr>"
proof (intro conjI)
  obtain plan where p: "fair_plan (Amount col) s d plan" "run_lots E t ret (Denom col) pd plan st = Inr st'"
    using CreateAuctionsFromDeposit_plan [OF assms(2-5)] by blast
  then show "\<exists>plan. run_lots E t ret (Denom col) pd plan st = Inr st' \<and>
      map fst plan = replicate (nat (Amount col div s)) s @ (if Amount col mod s = 0 then [] else [Amount col mod s]) \<and>
      sum_list (map fst plan) = Amount col \<and> sum_list (map snd plan) = d \<and>
      (\<forall>(lot, dbt)\<in>set plan. d * lot div Amount col \<le> dbt \<and> dbt \<le> d * lot div Amount col + 1)"
    unfolding fair_plan_def by blast
  have "sum_list (map fst plan) = Amount col" "sum_list (map snd plan) = d" using p(1) unfolding fair_plan_def by blast+
  with run_lots_bank [OF assms(1) p(2)]
  show "\<forall>a x. GetBalance (Sdk E) (cs_bank st') a x = GetBalance (Sdk E) (cs_bank st) a x
      - (if a = ModuleAddress (Sdk E) LiquidatorMacc then coin_amt col x + coin_amt (Coin (cs_debtDenom st) d) x else 0)
      + (if a = ModuleAddress (Sdk E) auction_module then coin_amt col x + coin_amt (Coin (cs_debtDenom st) d) x else 0)"
    "st' = st\<lparr>cs_auction := cs_auction st'\<rparr>"
    by (simp_all add: shifted_def)
qed

section \<open>A concrete system\<close>

definition ex_env :: "(ledger, unit) cdp_env" where
  "ex_env = \<lparr>Sdk = ref_sdk, AfterCDPCreated = (\<lambda>h c. Inr h), BeforeCDPModified = (\<lambda>h c. Inr h), UintRelativePow = RelativePow ref_math\<rparr>"

definition ex_collateral :: CollateralParam where
  "ex_collateral = \<lparr>co_Denom = ''bnb'', co_Type = ''bnb-a'', co_LiquidationRatio = 2 * OneDec, co_DebtLimit = Coin ''usdx'' 1000,
     co_StabilityFee = 1000000001547125958, co_AuctionSize = 40, co_LiquidationPenalty = 50000000000000000,
     co_SpotMarketID = ''bnb:usd'', co_LiquidationMarketID = ''bnb:usd:30'', co_KeeperRewardPercentage = 10000000000000000,
     co_CheckCollateralizationIndexCount = 10, co_ConversionFactor = 6\<rparr>"

definition ex_cdp_params :: cdp_Params where
  "ex_cdp_params = \<lparr>CollateralParams = [ex_collateral],
     DebtParamOf = \<lparr>dp_Denom = ''usdx'', dp_ReferenceAsset = ''usd'', dp_ConversionFactor = 6, dp_DebtFloor = 10\<rparr>,
     GlobalDebtLimit = Coin ''usdx'' 2000, SurplusAuctionThreshold = 500, SurplusAuctionLot = 10, DebtAuctionThreshold = 500,
     DebtAuctionLot = 10, CircuitBreaker = False, LiquidationBlockInterval = 1\<rparr>"

definition ex_cdp_prices :: "dec \<Rightarrow> pricefeed_state" where
  "ex_cdp_prices p = \<lparr>pf_Markets =
       [\<lparr>mk_MarketID = ''bnb:usd'', mk_BaseAsset = ''bnb'', mk_QuoteAsset = ''usd'', mk_Oracles = [''a''], mk_Active = True\<rparr>,
        \<lparr>mk_MarketID = ''bnb:usd:30'', mk_BaseAsset = ''bnb'', mk_QuoteAsset = ''usd'', mk_Oracles = [''a''], mk_Active = True\<rparr>],
     pf_raw = [], pf_current = [(''bnb:usd'', \<lparr>cur_MarketID = ''bnb:usd'', cur_Price = p\<rparr>),
       (''bnb:usd:30'', \<lparr>cur_MarketID = ''bnb:usd:30'', cur_Price = p\<rparr>)]\<rparr>"

definition ex_cdp_auctions :: "ledger \<Rightarrow> ledger auction_state" where
  "ex_cdp_auctions l = \<lparr>ak_auctions = [], ak_byTime = [], ak_nextID = Some 1,
     ak_params = \<lparr>MaxAuctionDuration = 100 * second, ForwardBidDuration = 10 * second, ReverseBidDuration = 20 * second,
       IncrementSurplus = 50000000000000000, IncrementDebt = 50000000000000000, IncrementCollateral = 50000000000000000\<rparr>,
     ak_bank = l\<rparr>"

definition ex_cdp_state :: "ledger \<Rightarrow> (ledger, unit) cdp_state" where
  "ex_cdp_state l = \<lparr>cs_params = ex_cdp_params, cs_cdps = [], cs_byOwner = [], cs_byRatio = [], cs_nextID = Some 1,
     cs_debtDenom = ''debt'', cs_govDenom = ''uist'', cs_deposits = [], cs_principal = [],
     cs_status = [(''bnb:usd'', ()), (''bnb:usd:30'', ())], cs_accrual = [], cs_factor = [],
     cs_auction = ex_cdp_auctions l, cs_prices = ex_cdp_prices (20 * OneDec), cs_hooks = ()\<rparr>"

definition ex_liquidator :: "(ledger, unit) cdp_state" where
  "ex_liquidator = ex_cdp_state \<lparr>lbal = [((''module/liquidator'', ''bnb''), 100), ((''module/liquidator'', ''debt''), 51)],
     lsupply = [(''bnb'', 100), (''debt'', 51)]\<rparr>"

lemma ex_env_sdk [simp]: "Sdk ex_env = ref_sdk" "Math ref_sdk = ref_math"
  by (simp_all add: ex_env_def ref_sdk_def)

lemma ex_env_laws: "sdk_laws (Sdk ex_env)"
  using ref_sdk_laws by simp

theorem CreateAuctionsFromDeposit_exact_witness:
  "GetBalance ref_sdk (cs_bank (projr (CreateAuctionsFromDeposit ex_env ex_liquidator (Coin ''bnb'' 100) ''bnb-a'' ''alice'' 51 40 ''usdx'')))
     ''module/auction'' ''debt'' = 51"
proof -
  let ?r = "CreateAuctionsFromDeposit ex_env ex_liquidator (Coin ''bnb'' 100) ''bnb-a'' ''alice'' 51 40 ''usdx''"
  have "\<not> isl ?r" by code_simp
  then have r: "?r = Inr (projr ?r)" by simp
  have "GetBalance ref_sdk (cs_bank ex_liquidator) ''module/auction'' ''debt'' = 0" "cs_debtDenom ex_liquidator = ''debt''"
    "ModuleAddress ref_sdk LiquidatorMacc = ''module/liquidator''" "ModuleAddress ref_sdk auction_module = ''module/auction''"
    by code_simp+
  with conjunct1 [OF conjunct2 [OF CreateAuctionsFromDeposit_exact [OF ex_env_laws r]]] show ?thesis
    by (simp add: coin_amt_def)
qed

end
