(* ===== verification/Cdp_Safety.thy ===== *)
theory Cdp_Safety
  imports Cdp_Auctions
begin

text \<open>
  The money of the debt positions: what every operation of the keeper does to the coins the module
  holds, to the deposits it owes, and to the supplies of the debt and the stable coin.
\<close>

section \<open>Operations that touch no coins\<close>

definition quiet :: "('b, 'h) cdp_state \<Rightarrow> ('b, 'h) cdp_state \<Rightarrow> bool" where
  "quiet st st' \<longleftrightarrow> cs_auction st' = cs_auction st \<and> cs_deposits st' = cs_deposits st \<and> cs_params st' = cs_params st \<and>
     cs_debtDenom st' = cs_debtDenom st \<and> cs_govDenom st' = cs_govDenom st \<and> cs_prices st' = cs_prices st"

named_theorems quiet_intros \<open>operations that touch no coins\<close>

lemma quiet_refl [quiet_intros]: "quiet st st"
  by (simp add: quiet_def)

lemma quiet_trans: "quiet st st1 \<Longrightarrow> quiet st1 st2 \<Longrightarrow> quiet st st2"
  by (simp add: quiet_def)

lemma quiet_stores [quiet_intros]:
  "quiet st (SetNextCdpID st i)" "quiet st (IndexCdpByOwner st c)" "quiet st (RemoveCdpOwnerIndex st c)"
  "quiet st (SetInterestFactor st t f)" "quiet st (SetPreviousAccrualTime st t v)" "quiet st (SetMarketStatus st mk up)"
  by (auto simp: quiet_def SetNextCdpID_def IndexCdpByOwner_def RemoveCdpOwnerIndex_def SetInterestFactor_def
      SetPreviousAccrualTime_def SetMarketStatus_def Let_def split: option.splits)

lemma quiet_results [quiet_intros]:
  "SetCDP st c = Inr st' \<Longrightarrow> quiet st st'"
  "DeleteCDP st c = Inr st' \<Longrightarrow> quiet st st'"
  "IndexCdpByCollateralRatio st t i r = Inr st' \<Longrightarrow> quiet st st'"
  "RemoveCdpCollateralRatioIndex st t i r = Inr st' \<Longrightarrow> quiet st st'"
  "SetTotalPrincipal st t d v = Inr st' \<Longrightarrow> quiet st st'"
  "hook_modified E st c = Inr st' \<Longrightarrow> quiet st st'"
  "hook_created E st c = Inr st' \<Longrightarrow> quiet st st'"
  by (auto simp: quiet_def SetCDP_def DeleteCDP_def IndexCdpByCollateralRatio_def RemoveCdpCollateralRatioIndex_def
      SetTotalPrincipal_def hook_modified_def hook_created_def split: option.splits)

lemma quiet_GetTotalPrincipal [quiet_intros]: "GetTotalPrincipal st t d = Inr (st', v) \<Longrightarrow> quiet st st'"
  by (auto simp: GetTotalPrincipal_def split: option.splits intro: quiet_intros)

lemma quiet_totals [quiet_intros]:
  "IncrementTotalPrincipal m st t c = Inr st' \<Longrightarrow> quiet st st'"
  "DecrementTotalPrincipal m st t c = Inr st' \<Longrightarrow> quiet st st'"
  "ValidateDebtLimit m st t c = Inr st' \<Longrightarrow> quiet st st'"
  unfolding IncrementTotalPrincipal_def DecrementTotalPrincipal_def ValidateDebtLimit_def
  by (auto split: option.splits if_splits intro: quiet_trans [OF quiet_GetTotalPrincipal] quiet_intros)

lemma quiet_indices [quiet_intros]:
  "SetCdpAndCollateralRatioIndex st c r = Inr st' \<Longrightarrow> quiet st st'"
  "removeOldCollateralRatioIndex m st t i = Inr st' \<Longrightarrow> quiet st st'"
  unfolding SetCdpAndCollateralRatioIndex_def removeOldCollateralRatioIndex_def
  by (auto split: option.splits intro: quiet_trans [OF quiet_results(1)] quiet_intros)

lemma quiet_updates [quiet_intros]:
  "UpdateCdpAndCollateralRatioIndex m st c r = Inr st' \<Longrightarrow> quiet st st'"
  "DeleteCdpAndCollateralRatioIndex m st c = Inr st' \<Longrightarrow> quiet st st'"
  unfolding UpdateCdpAndCollateralRatioIndex_def DeleteCdpAndCollateralRatioIndex_def
  by (auto dest!: quiet_indices(2) quiet_results(1-3) intro: quiet_trans)

text \<open>What synchronising does: the first time it only sets the factor, later it adds the interest and moves the index.\<close>

lemma SynchronizeInterest_cases:
  assumes "SynchronizeInterest m now st c = Inr (st', c')"
  obtains (first) "GetInterestFactor st (c_Type c) = None" "c' = c\<lparr>c_InterestFactor := OneDec, c_FeesUpdated := now\<rparr>"
      "SetCDP (SetInterestFactor st (c_Type c) OneDec) c' = Inr st'"
  | (same) "st' = st" "c' = c"
  | (sync) f prev i fees ratio st1 where "GetInterestFactor st (c_Type c) = Some f" "CalculateNewInterest m st c = Inr i"
      "st1 = st \<or> SetCDP st (c\<lparr>c_FeesUpdated := prev\<rparr>) = Inr st1" "coin_Add m (c_AccumulatedFees c) i = Inr fees"
      "c' = c\<lparr>c_AccumulatedFees := fees, c_FeesUpdated := prev, c_InterestFactor := f\<rparr>" "ratio_of m st1 c' = Inr ratio"
      "UpdateCdpAndCollateralRatioIndex m st1 c' ratio = Inr st'"
proof (cases "GetInterestFactor st (c_Type c)")
  case None
  then show ?thesis using assms first by (auto simp: SynchronizeInterest_def Let_def)
next
  case (Some f)
  then obtain i where i: "CalculateNewInterest m st c = Inr i" using assms by (auto simp: SynchronizeInterest_def)
  show ?thesis
  proof (cases "GetPreviousAccrualTime st (c_Type c)")
    case None
    then show ?thesis using assms same Some i by (simp add: SynchronizeInterest_def)
  next
    case (Some prev)
    show ?thesis
    proof (cases "Amount i = 0 \<and> c_FeesUpdated c = prev")
      case True
      then show ?thesis using assms same Some \<open>GetInterestFactor _ _ = _\<close> i by (simp add: SynchronizeInterest_def)
    next
      case False
      let ?c = "\<lambda>fees. c\<lparr>c_AccumulatedFees := fees, c_FeesUpdated := prev, c_InterestFactor := f\<rparr>"
      obtain st1 fees ratio where "(if Amount i = 0 then panic_on_err (SetCDP st (c\<lparr>c_FeesUpdated := prev\<rparr>)) else Inr st) = Inr st1"
          "coin_Add m (c_AccumulatedFees c) i = Inr fees" "ratio_of m st1 (?c fees) = Inr ratio" "c' = ?c fees"
          "UpdateCdpAndCollateralRatioIndex m st1 (?c fees) ratio = Inr st'"
        using assms Some \<open>GetInterestFactor _ _ = _\<close> i False
        by (simp add: SynchronizeInterest_def Let_def del: coin_Add_Inr) blast
      then show ?thesis using sync [of f i st1 prev fees ratio] \<open>GetInterestFactor _ _ = _\<close> i by (auto split: if_splits simp del: coin_Add_Inr)
    qed
  qed
qed

lemma quiet_SynchronizeInterest [quiet_intros]:
  "SynchronizeInterest m now st c = Inr (st', c') \<Longrightarrow> quiet st st'"
proof (elim SynchronizeInterest_cases)
  assume "SetCDP (SetInterestFactor st (c_Type c) OneDec) c' = Inr st'"
  then show ?thesis using quiet_trans [OF quiet_stores(4) quiet_results(1)] by blast
next
  fix prev ratio st1 assume "st1 = st \<or> SetCDP st (c\<lparr>c_FeesUpdated := prev\<rparr>) = Inr st1"
    "UpdateCdpAndCollateralRatioIndex m st1 c' ratio = Inr st'"
  then show ?thesis by (auto dest!: quiet_results(1) quiet_updates(1) intro: quiet_trans)
qed (simp add: quiet_refl)

lemma quiet_sync_risky_cdp: "sync_risky_cdp E dp cp f t i st = Inr st' \<Longrightarrow> quiet st st'"
  unfolding sync_risky_cdp_def Let_def
  by (auto split: option.splits if_splits dest!: quiet_results(6) simp: quiet_def)

lemma quiet_SynchronizeInterestForRiskyCDPs [quiet_intros]:
  assumes "SynchronizeInterestForRiskyCDPs E st r cp = Inr st'"
  shows "quiet st st'"
proof -
  obtain f t ids where "foldR (sync_risky_cdp E (DebtParamOf (cs_params st)) cp f t) ids st = Inr st'"
    using assms by (auto simp: SynchronizeInterestForRiskyCDPs_def Let_def split: if_splits option.splits)
  then show ?thesis
    by (rule foldR_invariant [where P = "quiet st"]) (auto intro: quiet_refl quiet_trans quiet_sync_risky_cdp)
qed

lemma quiet_UpdatePricefeedStatus: "quiet st (fst (UpdatePricefeedStatus st i))"
  by (auto simp: UpdatePricefeedStatus_def split: sum.splits intro: quiet_intros)

section \<open>The books\<close>

abbreviation cdp_addr :: "('b, 'h) cdp_env \<Rightarrow> address" where
  "cdp_addr E \<equiv> ModuleAddress (Sdk E) cdp_module"

definition cdp_held :: "('b, 'h) cdp_env \<Rightarrow> ('b, 'h) cdp_state \<Rightarrow> denom \<Rightarrow> int" where
  "cdp_held E st d = GetBalance (Sdk E) (cs_bank st) (cdp_addr E) d"

definition owed :: "('b, 'h) cdp_state \<Rightarrow> denom \<Rightarrow> int" where
  "owed st d = (\<Sum>(k, x)\<leftarrow>cs_deposits st. coin_amt (d_Amount x) d)"

definition supply_of :: "('b, 'h) cdp_env \<Rightarrow> ('b, 'h) cdp_state \<Rightarrow> denom \<Rightarrow> int" where
  "supply_of E st d = GetSupply (Sdk E) (cs_bank st) d"

definition stable_denom :: "('b, 'h) cdp_state \<Rightarrow> denom" where
  "stable_denom st = dp_Denom (DebtParamOf (cs_params st))"

text \<open>Deposits are stored under the position and the depositor they name and are not negative.\<close>

definition deposits_ok :: "('b, 'h) cdp_state \<Rightarrow> bool" where
  "deposits_ok st \<longleftrightarrow> kv_ok (cs_deposits st) \<and>
     (\<forall>k x. kv_get (cs_deposits st) k = Some x \<longrightarrow> DepositKey (d_CdpID x) (d_Depositor x) = k \<and> 0 \<le> Amount (d_Amount x))"

text \<open>
  A transition keeps the books if the coins beyond the deposits do not fall, in any denomination
  but the debt coin, the debt coin covers the stable coin no less than before, and no other supply changes.
\<close>

definition books_kept :: "('b, 'h) cdp_env \<Rightarrow> ('b, 'h) cdp_state \<Rightarrow> ('b, 'h) cdp_state \<Rightarrow> bool" where
  "books_kept E st st' \<longleftrightarrow>
     cs_params st' = cs_params st \<and> cs_debtDenom st' = cs_debtDenom st \<and> deposits_ok st' \<and>
     (\<forall>d. d \<noteq> cs_debtDenom st \<longrightarrow> cdp_held E st d - owed st d \<le> cdp_held E st' d - owed st' d) \<and>
     (stable_denom st \<noteq> cs_debtDenom st \<longrightarrow>
        supply_of E st (cs_debtDenom st) - supply_of E st (stable_denom st) \<le> supply_of E st' (cs_debtDenom st) - supply_of E st' (stable_denom st)) \<and>
     (\<forall>d. d \<noteq> cs_debtDenom st \<longrightarrow> d \<noteq> stable_denom st \<longrightarrow> supply_of E st' d = supply_of E st d)"

lemma books_kept_refl: "deposits_ok st \<Longrightarrow> books_kept E st st"
  by (simp add: books_kept_def)

lemma books_kept_trans:
  assumes a: "books_kept E st st1" and b: "books_kept E st1 st2"
  shows "books_kept E st st2"
proof -
  have eq: "cs_params st1 = cs_params st" "cs_debtDenom st1 = cs_debtDenom st" "stable_denom st1 = stable_denom st"
    using a by (simp_all add: books_kept_def stable_denom_def)
  have h: "cdp_held E st d - owed st d \<le> cdp_held E st1 d - owed st1 d" "cdp_held E st1 d - owed st1 d \<le> cdp_held E st2 d - owed st2 d"
    if "d \<noteq> cs_debtDenom st" for d using a b that eq unfolding books_kept_def by simp_all
  show ?thesis
    using a b order_trans [OF h] unfolding books_kept_def eq by auto
qed

lemma quiet_money:
  assumes "quiet st st'"
  shows "cdp_held E st' = cdp_held E st" "owed st' = owed st" "supply_of E st' = supply_of E st" "stable_denom st' = stable_denom st"
    "deposits_ok st' = deposits_ok st" "cs_debtDenom st' = cs_debtDenom st" "cs_params st' = cs_params st" "cs_bank st' = cs_bank st"
    "cs_deposits st' = cs_deposits st" "cs_prices st' = cs_prices st"
  using assms by (auto simp: quiet_def cdp_held_def owed_def supply_of_def stable_denom_def deposits_ok_def cs_bank_def)

lemma quiet_books: "quiet st st' \<Longrightarrow> deposits_ok st \<Longrightarrow> books_kept E st st'"
  by (simp add: books_kept_def quiet_money)

subsection \<open>Bank calls\<close>

lemma set_bank_simps [simp]:
  "cs_bank (set_bank b st) = b" "cs_params (set_bank b st) = cs_params st" "cs_deposits (set_bank b st) = cs_deposits st"
  "cs_debtDenom (set_bank b st) = cs_debtDenom st" "cs_govDenom (set_bank b st) = cs_govDenom st" "owed (set_bank b st) = owed st"
  "stable_denom (set_bank b st) = stable_denom st" "deposits_ok (set_bank b st) = deposits_ok st" "cs_prices (set_bank b st) = cs_prices st"
  by (simp_all add: set_bank_def cs_bank_def owed_def stable_denom_def deposits_ok_def fun_eq_iff)

lemma with_bank_Inr [simp]: "with_bank f st = Inr st' \<longleftrightarrow> (\<exists>b. f (cs_bank st) = Inr b \<and> st' = set_bank b st)"
  by (auto simp: with_bank_def)

lemma SetDeposit_simps [simp]:
  "cs_bank (SetDeposit st x) = cs_bank st" "cs_params (SetDeposit st x) = cs_params st" "cs_debtDenom (SetDeposit st x) = cs_debtDenom st"
  "cdp_held E (SetDeposit st x) = cdp_held E st" "supply_of E (SetDeposit st x) = supply_of E st" "stable_denom (SetDeposit st x) = stable_denom st"
  "cs_deposits (SetDeposit st x) = kv_set (cs_deposits st) (DepositKey (d_CdpID x) (d_Depositor x)) x"
  by (simp_all add: SetDeposit_def cs_bank_def cdp_held_def supply_of_def stable_denom_def fun_eq_iff)

lemma DeleteDeposit_simps [simp]:
  "cs_bank (DeleteDeposit st i a) = cs_bank st" "cs_params (DeleteDeposit st i a) = cs_params st"
  "cs_debtDenom (DeleteDeposit st i a) = cs_debtDenom st" "cdp_held E (DeleteDeposit st i a) = cdp_held E st"
  "supply_of E (DeleteDeposit st i a) = supply_of E st" "stable_denom (DeleteDeposit st i a) = stable_denom st"
  "cs_deposits (DeleteDeposit st i a) = kv_del (cs_deposits st) (DepositKey i a)"
  by (simp_all add: DeleteDeposit_def cs_bank_def cdp_held_def supply_of_def stable_denom_def fun_eq_iff)

definition deposit_at :: "('b, 'h) cdp_state \<Rightarrow> uint64 \<Rightarrow> address \<Rightarrow> denom \<Rightarrow> int" where
  "deposit_at st i a d = (case GetDeposit st i a of None \<Rightarrow> 0 | Some x \<Rightarrow> coin_amt (d_Amount x) d)"

lemma owed_SetDeposit:
  "deposits_ok st \<Longrightarrow> owed (SetDeposit st x) d = owed st d - deposit_at st (d_CdpID x) (d_Depositor x) d + coin_amt (d_Amount x) d"
  by (simp add: owed_def deposits_ok_def kv.total_put deposit_at_def GetDeposit_def)

lemma owed_DeleteDeposit: "deposits_ok st \<Longrightarrow> owed (DeleteDeposit st i a) d = owed st d - deposit_at st i a d"
  by (simp add: owed_def deposits_ok_def kv.total_del deposit_at_def GetDeposit_def)

lemma deposits_ok_Set: "deposits_ok st \<Longrightarrow> 0 \<le> Amount (d_Amount x) \<Longrightarrow> deposits_ok (SetDeposit st x)"
  by (auto simp: deposits_ok_def)

lemma deposits_ok_Delete: "deposits_ok st \<Longrightarrow> deposits_ok (DeleteDeposit st i a)"
  by (auto simp: deposits_ok_def)

lemma deposit_at_nonneg: "deposits_ok st \<Longrightarrow> 0 \<le> deposit_at st i a d"
  by (auto simp: deposit_at_def GetDeposit_def deposits_ok_def DepositKey_def coin_amt_def split: option.splits)

lemma GetDeposit_ok:
  "deposits_ok st \<Longrightarrow> GetDeposit st i a = Some x \<Longrightarrow> d_CdpID x = i \<and> d_Depositor x = a \<and> 0 \<le> Amount (d_Amount x)"
  by (auto simp: GetDeposit_def deposits_ok_def DepositKey_def)

lemma GetDeposits_iff:
  assumes "deposits_ok st"
  shows "x \<in> set (GetDeposits st i) \<longleftrightarrow> (\<exists>a. GetDeposit st i a = Some x)"
proof -
  have "x \<in> set (GetDeposits st i) \<longleftrightarrow> (\<exists>a. ((i, a), x) \<in> set (cs_deposits st))" by (force simp: GetDeposits_def)
  moreover have "(k, x) \<in> set (cs_deposits st) \<longleftrightarrow> kv_get (cs_deposits st) k = Some x" for k
    by (rule kv.entry_iff) (use assms in \<open>simp add: deposits_ok_def\<close>)
  ultimately show ?thesis by (simp add: GetDeposit_def DepositKey_def)
qed

lemma GetDeposits_distinct:
  assumes "deposits_ok st"
  shows "distinct (map d_Depositor (GetDeposits st i))"
proof -
  let ?L = "filter (\<lambda>((j, a), x). j = i) (cs_deposits st)"
  have ok: "kv_ok (cs_deposits st)" using assms by (simp add: deposits_ok_def)
  have key: "snd k = d_Depositor x" if "(k, x) \<in> set ?L" for k x
  proof -
    have "kv_get (cs_deposits st) k = Some x" using that kv.entry_iff [OF ok, of k x] by auto
    then have "DepositKey (d_CdpID x) (d_Depositor x) = k" using assms unfolding deposits_ok_def by blast
    then show ?thesis by (auto simp: DepositKey_def)
  qed
  have "map (snd \<circ> fst) ?L = map (d_Depositor \<circ> snd) ?L" by (rule map_cong [OF refl]) (use key in auto)
  then have m: "map (snd \<circ> fst) ?L = map d_Depositor (GetDeposits st i)" by (simp add: GetDeposits_def)
  have "distinct (map fst ?L)" using kv.keys_distinct [OF ok] by (simp add: distinct_map_filter)
  moreover have "inj_on snd (set (map fst ?L))" by (auto intro!: inj_onI)
  ultimately have "distinct (map snd (map fst ?L))" by (simp only: distinct_map)
  then show ?thesis using m by simp
qed

subsection \<open>Transfers in and out of the module\<close>

lemma cdp_held_set_bank: "cdp_held E (set_bank b st) d = GetBalance (Sdk E) b (cdp_addr E) d"
  and supply_set_bank: "supply_of E (set_bank b st) d = GetSupply (Sdk E) b d"
  by (simp_all add: cdp_held_def supply_of_def)

lemma module_names [simp]: "cdp_module \<noteq> LiquidatorMacc" "LiquidatorMacc \<noteq> cdp_module" "cdp_module \<noteq> auction_module"
  "auction_module \<noteq> cdp_module" "LiquidatorMacc \<noteq> auction_module" "auction_module \<noteq> LiquidatorMacc"
  by (simp_all add: cdp_module_def LiquidatorMacc_def auction_module_def)

lemma module_effects:
  assumes S: "sdk_laws (Sdk E)" and c: "NewCoins (Sdk E) [c] = Inr cs"
  shows "SendCoinsFromAccountToModule (Sdk E) (cs_bank st) a cdp_module cs = Inr b \<Longrightarrow> a \<noteq> cdp_addr E \<Longrightarrow>
      cdp_held E (set_bank b st) d = cdp_held E st d + coin_amt c d \<and> supply_of E (set_bank b st) d = supply_of E st d"
    and "SendCoinsFromModuleToAccount (Sdk E) (cs_bank st) cdp_module a cs = Inr b \<Longrightarrow>
      cdp_held E (set_bank b st) d = cdp_held E st d - (if a = cdp_addr E then 0 else coin_amt c d) \<and> supply_of E (set_bank b st) d = supply_of E st d"
    and "SendCoinsFromModuleToModule (Sdk E) (cs_bank st) cdp_module LiquidatorMacc cs = Inr b \<Longrightarrow>
      cdp_held E (set_bank b st) d = cdp_held E st d - coin_amt c d \<and> supply_of E (set_bank b st) d = supply_of E st d"
    and "MintCoins (Sdk E) (cs_bank st) n cs = Inr b \<Longrightarrow>
      cdp_held E (set_bank b st) d = cdp_held E st d + (if n = cdp_module then coin_amt c d else 0) \<and>
      supply_of E (set_bank b st) d = supply_of E st d + coin_amt c d"
    and "BurnCoins (Sdk E) (cs_bank st) n cs = Inr b \<Longrightarrow>
      cdp_held E (set_bank b st) d = cdp_held E st d - (if n = cdp_module then coin_amt c d else 0) \<and>
      supply_of E (set_bank b st) d = supply_of E st d - coin_amt c d"
  unfolding cdp_held_set_bank supply_set_bank
  using NewCoins_one(1) [OF S c] ModuleAddress_eq [OF S]
  by (auto simp: cdp_held_def supply_of_def mints [OF S] moved_balance moved_supply dest!: sends(2-4) [OF S])

lemma MintDebtCoins_Inr:
  assumes "sdk_laws (Sdk E)" "MintDebtCoins (Sdk E) st n dd c = Inr st'"
  obtains b where "st' = set_bank b st" "0 \<le> Amount c"
    "\<And>d. cdp_held E st' d = cdp_held E st d + (if n = cdp_module \<and> d = dd then Amount c else 0)"
    "\<And>d. supply_of E st' d = supply_of E st d + (if d = dd then Amount c else 0)"
proof -
  obtain cs b where s: "0 \<le> Amount c" "NewCoins (Sdk E) [Coin dd (Amount c)] = Inr cs" "MintCoins (Sdk E) (cs_bank st) n cs = Inr b" "st' = set_bank b st"
    using assms(2) by (auto simp: MintDebtCoins_def)
  show ?thesis by (rule that [of b]) (use module_effects(4) [OF assms(1) s(2,3)] s in \<open>auto simp: coin_amt_def\<close>)
qed

lemma BurnDebtCoins_Inr:
  assumes "sdk_laws (Sdk E)" "BurnDebtCoins (Sdk E) st cdp_module dd c = Inr st'"
  obtains b v where "st' = set_bank b st" "v \<le> Amount c" "0 \<le> v"
    "\<And>d. cdp_held E st' d = cdp_held E st d - (if d = dd then v else 0)"
    "\<And>d. supply_of E st' d = supply_of E st d - (if d = dd then v else 0)"
proof -
  define v where "v = min (Amount c) (GetBalance (Sdk E) (cs_bank st) (cdp_addr E) dd)"
  obtain cs b where s: "0 \<le> v" "NewCoins (Sdk E) [Coin dd v] = Inr cs" "BurnCoins (Sdk E) (cs_bank st) cdp_module cs = Inr b" "st' = set_bank b st"
    using assms(2) by (auto simp: BurnDebtCoins_def moduleAccount_def v_def split: if_splits)
  show ?thesis by (rule that [of b v]) (use module_effects(5) [OF assms(1) s(2,3)] s in \<open>auto simp: coin_amt_def v_def\<close>)
qed

section \<open>Every operation keeps the books\<close>

text \<open>The deltas of an operation decide: what is held, what is owed, and the two supplies.\<close>

lemma books_keptI:
  assumes "cs_params st' = cs_params st" "cs_debtDenom st' = cs_debtDenom st" "deposits_ok st'"
    and "\<And>d. owed st' d \<le> owed st d + y d" and "\<And>d. d \<noteq> cs_debtDenom st \<Longrightarrow> cdp_held E st d + y d \<le> cdp_held E st' d"
    and "stable_denom st \<noteq> cs_debtDenom st \<Longrightarrow>
      supply_of E st' (stable_denom st) - supply_of E st (stable_denom st) \<le> supply_of E st' (cs_debtDenom st) - supply_of E st (cs_debtDenom st)"
    and "\<And>d. d \<noteq> cs_debtDenom st \<Longrightarrow> d \<noteq> stable_denom st \<Longrightarrow> supply_of E st' d = supply_of E st d"
  shows "books_kept E st st'"
  unfolding books_kept_def using assms by (smt (verit))

lemma ValidatePrincipalAdd_found: "ValidatePrincipalAdd st c = Inr u \<Longrightarrow> Denom c = stable_denom st"
  by (auto simp: ValidatePrincipalAdd_def GetDebtParam_def stable_denom_def Let_def split: if_splits)

lemma quiet_factor_or_init: "quiet st (fst (factor_or_init st t))"
  by (auto simp: factor_or_init_def split: option.splits intro: quiet_intros)

lemma AddCdp_books:
  assumes S: "sdk_laws (Sdk E)" and ok: "deposits_ok st" and o: "owner \<noteq> cdp_addr E"
    and r: "AddCdp E now st owner col prin t = Inr st'"
  shows "books_kept E st st'"
proof -
  obtain st1 i c cs b1 ps b2 b3 st6 st7 ratio st8 where
      p: "Denom prin = stable_denom st" and s1: "ValidateDebtLimit (env_math E) st t prin = Inr st1"
      and cs: "NewCoins (Sdk E) [col] = Inr cs" "SendCoinsFromAccountToModule (Sdk E) (cs_bank (fst (factor_or_init st1 t))) owner cdp_module cs = Inr b1"
      and ps: "NewCoins (Sdk E) [prin] = Inr ps" "MintCoins (Sdk E) b1 cdp_module ps = Inr b2"
      "SendCoinsFromModuleToAccount (Sdk E) b2 cdp_module owner ps = Inr b3"
      and s6: "MintDebtCoins (Sdk E) (set_bank b3 (set_bank b2 (set_bank b1 (fst (factor_or_init st1 t))))) cdp_module
        (cs_debtDenom (fst (factor_or_init st1 t))) prin = Inr st6"
      and s7: "IncrementTotalPrincipal (env_math E) st6 t prin = Inr st7" and s8: "SetCdpAndCollateralRatioIndex st7 c ratio = Inr st8"
      and s9: "hook_created E (SetNextCdpID (SetDeposit (IndexCdpByOwner st8 c) (NewDeposit i owner col)) (i + 1)) c = Inr st'"
    using r unfolding AddCdp_def Let_def
    by (auto simp: case_prod_beta split: if_splits dest!: ValidatePrincipalAdd_found)
  define st2 where "st2 = fst (factor_or_init st1 t)"
  note st2_def [symmetric, simp]
  have q2: "quiet st st2" unfolding st2_def by (rule quiet_trans [OF quiet_totals(3) [OF s1] quiet_factor_or_init])
  note m2 = quiet_money [OF q2]
  let ?st3 = "set_bank b1 st2" and ?st5 = "set_bank b3 (set_bank b2 (set_bank b1 st2))"
  have e3: "cdp_held E ?st3 d = cdp_held E st d + coin_amt col d" "supply_of E ?st3 d = supply_of E st d" for d
    using module_effects(1) [OF S cs(1), of st2 owner b1] cs(2) o m2 by simp_all
  have e4: "cdp_held E (set_bank b2 ?st3) d = cdp_held E st d + coin_amt col d + coin_amt prin d"
      "supply_of E (set_bank b2 ?st3) d = supply_of E st d + coin_amt prin d" for d
    using module_effects(4) [OF S ps(1), of ?st3 cdp_module b2] ps(2) e3 by simp_all
  have e5: "cdp_held E ?st5 d = cdp_held E st d + coin_amt col d" "supply_of E ?st5 d = supply_of E st d + coin_amt prin d" for d
    using module_effects(2) [OF S ps(1), of "set_bank b2 ?st3" owner b3] ps(3) e4 o by simp_all
  obtain b4 where b4: "st6 = set_bank b4 ?st5" "0 \<le> Amount prin"
      "\<And>d. cdp_held E st6 d = cdp_held E st d + coin_amt col d + (if d = cs_debtDenom st then Amount prin else 0)"
      "\<And>d. supply_of E st6 d = supply_of E st d + coin_amt prin d + (if d = cs_debtDenom st then Amount prin else 0)"
    using MintDebtCoins_Inr [OF S s6 [unfolded st2_def [symmetric]]] e5 m2(6) by (smt (verit))
  have q8: "quiet st6 (IndexCdpByOwner st8 c)"
    using quiet_totals(1) [OF s7] quiet_indices(1) [OF s8] quiet_stores(2) quiet_trans by blast
  note m8 = quiet_money [OF q8]
  have ok8: "deposits_ok (IndexCdpByOwner st8 c)" using ok m8(5) b4(1) m2(5) by simp
  let ?st9 = "SetDeposit (IndexCdpByOwner st8 c) (NewDeposit i owner col)"
  have q9: "quiet ?st9 st'" using quiet_trans [OF quiet_stores(1) quiet_results(7) [OF s9]] .
  note m9 = quiet_money [OF q9]
  have ok9: "deposits_ok ?st9" by (rule deposits_ok_Set [OF ok8]) (use NewCoins_one(2) [OF S cs(1)] in \<open>simp add: NewDeposit_def\<close>)
  have "owed ?st9 d \<le> owed st d + coin_amt col d" for d
    using owed_SetDeposit [OF ok8, of "NewDeposit i owner col" d] deposit_at_nonneg [OF ok8, of i owner d] m8(2) b4(1) m2(2)
    by (simp add: NewDeposit_def)
  then have O: "owed st' d \<le> owed st d + coin_amt col d" for d using m9(2) by simp
  have H: "cdp_held E st' d = cdp_held E st d + coin_amt col d + (if d = cs_debtDenom st then Amount prin else 0)"
    "supply_of E st' d = supply_of E st d + coin_amt prin d + (if d = cs_debtDenom st then Amount prin else 0)" for d
    using m9(1,3) m8(1,3) b4(3,4) by simp_all
  show ?thesis
    by (rule books_keptI [OF _ _ _ O]) (use H p m9(5-7) ok9 m8(6,7) b4(1) m2(6,7) in \<open>auto simp: coin_amt_def\<close>)
qed

lemma deposit_at_Some: "GetDeposit st i a = Some x \<Longrightarrow> deposit_at st i a d = coin_amt (d_Amount x) d"
  and deposit_at_None: "GetDeposit st i a = None \<Longrightarrow> deposit_at st i a d = 0"
  by (simp_all add: deposit_at_def)

lemma GetDeposit_cong: "cs_deposits st' = cs_deposits st \<Longrightarrow> GetDeposit st' i a = GetDeposit st i a"
  by (simp add: GetDeposit_def)

lemma DepositCollateral_books:
  assumes S: "sdk_laws (Sdk E)" and ok: "deposits_ok st" and o: "depositor \<noteq> cdp_addr E"
    and r: "DepositCollateral E now st owner depositor col t = Inr st'"
  shows "books_kept E st st'"
proof -
  obtain c0 st1 st2 c x cs b c' ratio where
      s1: "hook_modified E st c0 = Inr st1" and s2: "SynchronizeInterest (env_math E) now st1 c0 = Inr (st2, c)"
      and x: "deposit_plus (env_math E) st2 (c_ID c) depositor col = Inr x"
      and cs: "NewCoins (Sdk E) [col] = Inr cs" "SendCoinsFromAccountToModule (Sdk E) (cs_bank st2) depositor cdp_module cs = Inr b"
      and s4: "UpdateCdpAndCollateralRatioIndex (env_math E) (SetDeposit (set_bank b st2) x) c' ratio = Inr st'"
    using r unfolding DepositCollateral_def Let_def by (auto simp: case_prod_beta split: option.split_asm)
  note m2 = quiet_money [OF quiet_trans [OF quiet_results(6) [OF s1] quiet_SynchronizeInterest [OF s2]]]
  note m4 = quiet_money [OF quiet_updates(1) [OF s4]]
  have e: "cdp_held E (set_bank b st2) d = cdp_held E st d + coin_amt col d" "supply_of E (set_bank b st2) d = supply_of E st d" for d
    using module_effects(1) [OF S cs(1), of st2 depositor b] cs(2) o m2 by simp_all
  have col: "0 \<le> Amount col" by (rule NewCoins_one(2) [OF S cs(1)])
  have ok2: "deposits_ok st2" using ok m2(5) by simp
  have xo: "0 \<le> Amount (d_Amount x) \<and> coin_amt (d_Amount x) d = deposit_at st2 (d_CdpID x) (d_Depositor x) d + coin_amt col d" for d
  proof (cases "GetDeposit st2 (c_ID c) depositor")
    case None
    then show ?thesis using x col by (auto simp: deposit_plus_def NewDeposit_def deposit_at_def)
  next
    case (Some d0)
    then show ?thesis using x col GetDeposit_ok [OF ok2 Some] by (auto simp: deposit_plus_def deposit_at_Some coin_amt_def)
  qed
  have ok3: "deposits_ok (SetDeposit (set_bank b st2) x)" by (rule deposits_ok_Set) (use ok2 xo in simp_all)
  have "deposit_at (set_bank b st2) i a d = deposit_at st2 i a d" for i a d by (simp add: deposit_at_def GetDeposit_def)
  then have O: "owed (SetDeposit (set_bank b st2) x) d = owed st d + coin_amt col d" for d
    using owed_SetDeposit [of "set_bank b st2" x d] ok2 xo [of d] m2(2) by simp
  show ?thesis
    by (rule books_keptI [where y = "coin_amt col"]) (use m4 m2 e O ok3 in simp_all)
qed

lemma WithdrawCollateral_books:
  assumes S: "sdk_laws (Sdk E)" and ok: "deposits_ok st"
    and r: "WithdrawCollateral E now st owner depositor col t = Inr st'"
  shows "books_kept E st st'"
proof -
  obtain c0 x st1 st2 c cs b c' ratio st4 a where x: "GetDeposit st (c_ID c0) depositor = Some x"
      and s1: "hook_modified E st c0 = Inr st1" and s2: "SynchronizeInterest (env_math E) now st1 c0 = Inr (st2, c)"
      and cs: "NewCoins (Sdk E) [col] = Inr cs" "SendCoinsFromModuleToAccount (Sdk E) (cs_bank st2) cdp_module depositor cs = Inr b"
      and s4: "UpdateCdpAndCollateralRatioIndex (env_math E) (set_bank b st2) c' ratio = Inr st4"
      and a: "coin_Sub (env_math E) (d_Amount x) col = Inr a"
      and fin: "st' = (if Amount a = 0 then DeleteDeposit st4 (d_CdpID x) (d_Depositor x) else SetDeposit st4 (x\<lparr>d_Amount := a\<rparr>))"
    using r unfolding WithdrawCollateral_def Let_def
    by (auto simp: case_prod_beta simp del: coin_Sub_Inr split: option.split_asm if_split_asm)
  note m2 = quiet_money [OF quiet_trans [OF quiet_results(6) [OF s1] quiet_SynchronizeInterest [OF s2]]]
  note m4 = quiet_money [OF quiet_updates(1) [OF s4]]
  have col: "0 \<le> Amount col" by (rule NewCoins_one(2) [OF S cs(1)])
  have e: "cdp_held E (set_bank b st2) d = cdp_held E st d - (if depositor = cdp_addr E then 0 else coin_amt col d)" "supply_of E (set_bank b st2) d = supply_of E st d" for d
    using module_effects(2) [OF S cs(1), of st2 depositor b] cs(2) m2 by simp_all
  note xk = GetDeposit_ok [OF ok x]
  have at4: "deposit_at st4 (d_CdpID x) (d_Depositor x) d = coin_amt (d_Amount x) d" for d
    using x xk m4(9) m2(9) by (simp add: deposit_at_def GetDeposit_def)
  have ok4: "deposits_ok st4" using ok m4(5) m2(5) by simp
  have am: "coin_amt (d_Amount x) d = coin_amt col d + coin_amt a d" "0 \<le> Amount a" for d using a by (auto simp: coin_amt_def)
  have O: "owed st' d = owed st d - coin_amt col d" for d
    using owed_DeleteDeposit [OF ok4, of "d_CdpID x" "d_Depositor x" d] owed_SetDeposit [OF ok4, of "x\<lparr>d_Amount := a\<rparr>" d] at4 [of d] am(1) [of d] m4(2) m2(2)
    by (auto simp: fin coin_amt_def)
  have "deposits_ok st'" using deposits_ok_Delete [OF ok4] deposits_ok_Set [OF ok4, of "x\<lparr>d_Amount := a\<rparr>"] am(2) by (simp add: fin)
  moreover have "cs_params st' = cs_params st" "cs_debtDenom st' = cs_debtDenom st" "cdp_held E st' = cdp_held E (set_bank b st2)" "supply_of E st' = supply_of E (set_bank b st2)"
    using m4 m2 by (simp_all add: fin)
  ultimately show ?thesis
    by (intro books_keptI [where y = "\<lambda>d. - coin_amt col d"]) (use e O col in \<open>auto simp: coin_amt_def\<close>)
qed

lemma ValidatePrincipalDraw_found: "ValidatePrincipalDraw st c d = Inr u \<Longrightarrow> Denom c = stable_denom st"
  by (auto simp: ValidatePrincipalDraw_def GetDebtParam_def stable_denom_def Let_def split: if_splits)

lemma AddPrincipal_books:
  assumes S: "sdk_laws (Sdk E)" and ok: "deposits_ok st" and o: "owner \<noteq> cdp_addr E"
    and r: "AddPrincipal E now st owner t prin = Inr st'"
  shows "books_kept E st st'"
proof -
  obtain c0 st1 st2 st3 c ps b2 b3 st6 st7 c' ratio where p: "Denom prin = stable_denom st"
      and s1: "ValidateDebtLimit (env_math E) st (c_Type c0) prin = Inr st1" and s2: "hook_modified E st1 c0 = Inr st2"
      and s3: "SynchronizeInterest (env_math E) now st2 c0 = Inr (st3, c)"
      and ps: "NewCoins (Sdk E) [prin] = Inr ps" "MintCoins (Sdk E) (cs_bank st3) cdp_module ps = Inr b2"
      "SendCoinsFromModuleToAccount (Sdk E) b2 cdp_module owner ps = Inr b3"
      and s6: "MintDebtCoins (Sdk E) (set_bank b3 (set_bank b2 st3)) cdp_module (cs_debtDenom st3) prin = Inr st6"
      and s7: "IncrementTotalPrincipal (env_math E) st6 (c_Type c) prin = Inr st7"
      and s8: "UpdateCdpAndCollateralRatioIndex (env_math E) st7 c' ratio = Inr st'"
    using r unfolding AddPrincipal_def Let_def
    by (auto simp: case_prod_beta split: option.split_asm dest!: ValidatePrincipalDraw_found)
  note m3 = quiet_money [OF quiet_trans [OF quiet_totals(3) [OF s1] quiet_trans [OF quiet_results(6) [OF s2] quiet_SynchronizeInterest [OF s3]]]]
  note m8 = quiet_money [OF quiet_trans [OF quiet_totals(1) [OF s7] quiet_updates(1) [OF s8]]]
  have e4: "cdp_held E (set_bank b2 st3) d = cdp_held E st d + coin_amt prin d" "supply_of E (set_bank b2 st3) d = supply_of E st d + coin_amt prin d" for d
    using module_effects(4) [OF S ps(1), of st3 cdp_module b2] ps(2) m3 by simp_all
  have e5: "cdp_held E (set_bank b3 (set_bank b2 st3)) d = cdp_held E st d" "supply_of E (set_bank b3 (set_bank b2 st3)) d = supply_of E st d + coin_amt prin d" for d
    using module_effects(2) [OF S ps(1), of "set_bank b2 st3" owner b3] ps(3) e4 o by simp_all
  obtain b4 where b4: "st6 = set_bank b4 (set_bank b3 (set_bank b2 st3))"
      "\<And>d. cdp_held E st6 d = cdp_held E st d + (if d = cs_debtDenom st then Amount prin else 0)"
      "\<And>d. supply_of E st6 d = supply_of E st d + coin_amt prin d + (if d = cs_debtDenom st then Amount prin else 0)"
    using MintDebtCoins_Inr [OF S s6] e5 m3(6) by (smt (verit))
  show ?thesis
    by (rule books_keptI [where y = "\<lambda>d. 0"]) (use m8 m3 b4 p ok in \<open>auto simp: coin_amt_def\<close>)
qed

lemma ValidatePaymentCoins_found: "ValidatePaymentCoins m st c p = Inr u \<Longrightarrow> Denom p = stable_denom st"
  by (auto simp: ValidatePaymentCoins_def GetDebtParam_def stable_denom_def Let_def split: if_splits)

lemma calculatePayment_denoms:
  assumes "calculatePayment m owes fees p = Inr (f, q)"
  shows "Denom f = Denom p" "Denom q = Denom p"
  using assms by (auto simp: calculatePayment_def split: if_splits)

text \<open>Returning or seizing a list of distinct deposits of one position clears them.\<close>

lemma clear_deposits:
  assumes ok: "deposits_ok st" and r: "foldR f xs st = Inr st'"
    and d: "distinct (map d_Depositor xs)" and xs: "\<forall>x\<in>set xs. GetDeposit st i (d_Depositor x) = Some x"
    and one: "\<And>x s s'. f x s = Inr s' \<Longrightarrow> deposits_ok s \<Longrightarrow> GetDeposit s i (d_Depositor x) = Some x \<Longrightarrow>
      \<exists>b. s' = DeleteDeposit (set_bank b s) i (d_Depositor x) \<and>
        (\<forall>d. cdp_held E s d - coin_amt (d_Amount x) d \<le> cdp_held E (set_bank b s) d) \<and> (\<forall>d. supply_of E (set_bank b s) d = supply_of E s d)"
  shows "books_kept E st st' \<and> (\<forall>d. supply_of E st' d = supply_of E st d) \<and>
      cs_deposits st' = fold (\<lambda>x s. kv_del s (DepositKey i (d_Depositor x))) xs (cs_deposits st) \<and>
      (\<exists>au. st' = st\<lparr>cs_deposits := cs_deposits st', cs_auction := au\<rparr>)"
  using ok r d xs
proof (induction xs arbitrary: st)
  case Nil
  then have e: "st' = st" by simp
  have "st = st\<lparr>cs_deposits := cs_deposits st, cs_auction := cs_auction st\<rparr>" by simp
  then show ?case unfolding e using books_kept_refl [OF Nil(1)] by (metis fold_simps(1))
next
  case (Cons x xs)
  obtain s1 where s1: "f x st = Inr s1" "foldR f xs s1 = Inr st'" using Cons.prems(2) by auto
  have x: "GetDeposit st i (d_Depositor x) = Some x" using Cons.prems(4) by simp
  obtain b where b: "s1 = DeleteDeposit (set_bank b st) i (d_Depositor x)"
      "\<And>d. cdp_held E st d - coin_amt (d_Amount x) d \<le> cdp_held E (set_bank b st) d" "\<And>d. supply_of E (set_bank b st) d = supply_of E st d"
    using one [OF s1(1) Cons.prems(1) x] by blast
  have ok1: "deposits_ok s1" unfolding b(1) by (rule deposits_ok_Delete) (simp add: Cons.prems(1))
  have "deposit_at (set_bank b st) i (d_Depositor x) d = coin_amt (d_Amount x) d" for d
    using x by (simp add: deposit_at_def GetDeposit_def)
  then have O: "owed s1 d = owed st d - coin_amt (d_Amount x) d" for d
    unfolding b(1) using owed_DeleteDeposit [of "set_bank b st" i "d_Depositor x" d] Cons.prems(1) by simp
  have k1: "books_kept E st s1"
    by (rule books_keptI [where y = "\<lambda>d. - coin_amt (d_Amount x) d"]) (use b O ok1 in simp_all)
  have xs1: "\<forall>y\<in>set xs. GetDeposit s1 i (d_Depositor y) = Some y"
  proof
    fix y assume y: "y \<in> set xs"
    have "d_Depositor y \<noteq> d_Depositor x" using y Cons.prems(3) by (metis distinct.simps(2) image_eqI list.simps(9) set_map)
    moreover have "GetDeposit st i (d_Depositor y) = Some y" using y Cons.prems(4) unfolding list.set by blast
    ultimately show "GetDeposit s1 i (d_Depositor y) = Some y" by (simp add: b(1) GetDeposit_def DepositKey_def)
  qed
  have dx: "distinct (map d_Depositor xs)" using Cons.prems(3) by simp
  note ih = Cons.IH [OF ok1 s1(2) dx xs1]
  note IH = conjunct1 [OF ih] conjunct1 [OF conjunct2 [OF ih]] conjunct1 [OF conjunct2 [OF conjunct2 [OF ih]]] conjunct2 [OF conjunct2 [OF conjunct2 [OF ih]]]
  obtain au where au: "st' = s1\<lparr>cs_deposits := cs_deposits st', cs_auction := au\<rparr>" using IH(4) by blast
  have "s1\<lparr>cs_deposits := x, cs_auction := y\<rparr> = st\<lparr>cs_deposits := x, cs_auction := y\<rparr>" for x y by (simp add: b(1) DeleteDeposit_def set_bank_def)
  then have "st' = st\<lparr>cs_deposits := cs_deposits st', cs_auction := au\<rparr>" using au by metis
  moreover have "supply_of E st' d = supply_of E st d" for d using IH(2) b(1,3) by simp
  moreover have "cs_deposits st' = fold (\<lambda>x s. kv_del s (DepositKey i (d_Depositor x))) (x # xs) (cs_deposits st)" using IH(3) b(1) by simp
  ultimately show ?case using books_kept_trans [OF k1 IH(1)] by blast
qed

lemma GetDeposits_entries:
  assumes "deposits_ok st"
  shows "\<forall>x\<in>set (GetDeposits st i). GetDeposit st i (d_Depositor x) = Some x \<and> d_CdpID x = i"
  using GetDeposits_iff [OF assms] GetDeposit_ok [OF assms] by blast

lemma ReturnCollateral_books:
  assumes S: "sdk_laws (Sdk E)" and ok: "deposits_ok st" and r: "ReturnCollateral E st c = Inr st'"
  shows "books_kept E st st' \<and> (\<forall>d. supply_of E st' d = supply_of E st d) \<and>
      cs_deposits st' = fold (\<lambda>x s. kv_del s (DepositKey (c_ID c) (d_Depositor x))) (GetDeposits st (c_ID c)) (cs_deposits st) \<and>
      (\<exists>au. st' = st\<lparr>cs_deposits := cs_deposits st', cs_auction := au\<rparr>)"
proof (rule clear_deposits [OF ok r [unfolded ReturnCollateral_def] GetDeposits_distinct [OF ok]])
  show "\<forall>x\<in>set (GetDeposits st (c_ID c)). GetDeposit st (c_ID c) (d_Depositor x) = Some x" using GetDeposits_entries [OF ok] by blast
  fix x s s' assume f: "return_deposit E c x s = Inr s'" and k: "deposits_ok s" "GetDeposit s (c_ID c) (d_Depositor x) = Some x"
  obtain cs b where b: "NewCoins (Sdk E) [d_Amount x] = Inr cs" "SendCoinsFromModuleToAccount (Sdk E) (cs_bank s) cdp_module (d_Depositor x) cs = Inr b"
      "s' = DeleteDeposit (set_bank b s) (c_ID c) (d_Depositor x)"
    using f by (auto simp: return_deposit_def)
  show "\<exists>b. s' = DeleteDeposit (set_bank b s) (c_ID c) (d_Depositor x) \<and>
        (\<forall>d. cdp_held E s d - coin_amt (d_Amount x) d \<le> cdp_held E (set_bank b s) d) \<and> (\<forall>d. supply_of E (set_bank b s) d = supply_of E s d)"
    using module_effects(2) [OF S b(1,2)] b(3) GetDeposit_ok [OF k] by (auto simp: coin_amt_def intro!: exI [of _ b])
qed

lemma seize_deposits_books:
  assumes S: "sdk_laws (Sdk E)" and ok: "deposits_ok st" and g: "GetDeposits st i = xs" and r: "foldR (seize_deposit E) xs st = Inr st'"
  shows "books_kept E st st' \<and> (\<forall>d. supply_of E st' d = supply_of E st d) \<and>
      cs_deposits st' = fold (\<lambda>x s. kv_del s (DepositKey i (d_Depositor x))) xs (cs_deposits st) \<and>
      (\<exists>au. st' = st\<lparr>cs_deposits := cs_deposits st', cs_auction := au\<rparr>)"
proof (rule clear_deposits [OF ok r])
  show "distinct (map d_Depositor xs)" using GetDeposits_distinct [OF ok, of i] g by simp
  show "\<forall>x\<in>set xs. GetDeposit st i (d_Depositor x) = Some x" using GetDeposits_entries [OF ok, of i] g by blast
  fix x s s' assume f: "seize_deposit E x s = Inr s'" and k: "deposits_ok s" "GetDeposit s i (d_Depositor x) = Some x"
  obtain cs b where b: "NewCoins (Sdk E) [d_Amount x] = Inr cs" "SendCoinsFromModuleToModule (Sdk E) (cs_bank s) cdp_module LiquidatorMacc cs = Inr b"
      "s' = DeleteDeposit (set_bank b s) (d_CdpID x) (d_Depositor x)"
    using f by (auto simp: seize_deposit_def)
  show "\<exists>b. s' = DeleteDeposit (set_bank b s) i (d_Depositor x) \<and>
        (\<forall>d. cdp_held E s d - coin_amt (d_Amount x) d \<le> cdp_held E (set_bank b s) d) \<and> (\<forall>d. supply_of E (set_bank b s) d = supply_of E s d)"
    using module_effects(3) [OF S b(1,2)] b(3) GetDeposit_ok [OF k] by (auto intro!: exI [of _ b])
qed

lemma RepayPrincipal_books:
  assumes S: "sdk_laws (Sdk E)" and ok: "deposits_ok st" and o: "owner \<noteq> cdp_addr E"
    and r: "RepayPrincipal E now st owner t pay = Inr st'"
  shows "books_kept E st st'"
proof -
  obtain c0 st1 st2 c tp f q paid cs b3 b4 v0 st5 st6 np nf where p: "Denom pay = stable_denom st"
      and s1: "hook_modified E st c0 = Inr st1" and s2: "SynchronizeInterest (env_math E) now st1 c0 = Inr (st2, c)"
      and q: "calculatePayment (env_math E) tp (c_AccumulatedFees c) pay = Inr (f, q)" "coin_Add (env_math E) f q = Inr paid"
      and cs: "NewCoins (Sdk E) [paid] = Inr cs" "SendCoinsFromAccountToModule (Sdk E) (cs_bank st2) owner cdp_module cs = Inr b3"
        "BurnCoins (Sdk E) b3 cdp_module cs = Inr b4"
      and x: "BurnDebtCoins (Sdk E) (set_bank b4 (set_bank b3 st2)) cdp_module (cs_debtDenom st2)
        (Coin (cs_debtDenom st2) (if v0 < Amount paid then v0 else Amount paid)) = Inr st5"
      and s6: "DecrementTotalPrincipal (env_math E) st5 (c_Type c) paid = Inr st6"
      and fin: "settle_cdp E st6 (c\<lparr>c_Principal := np, c_AccumulatedFees := nf\<rparr>) = Inr st'"
    using r unfolding RepayPrincipal_def Let_def
    by (auto simp: case_prod_beta simp del: coin_Add_Inr coin_Sub_Inr split: option.split_asm dest!: ValidatePaymentCoins_found)
  define c' where "c' = c\<lparr>c_Principal := np, c_AccumulatedFees := nf\<rparr>"
  have fin': "(\<exists>st7. ReturnCollateral E st6 c' = Inr st7 \<and> DeleteCdpAndCollateralRatioIndex (env_math E) (RemoveCdpOwnerIndex st7 c') c' = Inr st') \<or>
        (\<exists>ratio. UpdateCdpAndCollateralRatioIndex (env_math E) st6 c' ratio = Inr st')"
    using fin unfolding c'_def [symmetric] settle_cdp_def by (auto split: if_splits)
  note m2 = quiet_money [OF quiet_trans [OF quiet_results(6) [OF s1] quiet_SynchronizeInterest [OF s2]]]
  have pd: "Denom paid = stable_denom st" using calculatePayment_denoms [OF q(1)] q(2) p by auto
  have e3: "cdp_held E (set_bank b3 st2) d = cdp_held E st d + coin_amt paid d" "supply_of E (set_bank b3 st2) d = supply_of E st d" for d
    using module_effects(1) [OF S cs(1), of st2 owner b3] cs(2) o m2 by simp_all
  have e4: "cdp_held E (set_bank b4 (set_bank b3 st2)) d = cdp_held E st d" "supply_of E (set_bank b4 (set_bank b3 st2)) d = supply_of E st d - coin_amt paid d" for d
    using module_effects(5) [OF S cs(1), of "set_bank b3 st2" cdp_module b4] cs(3) e3 by simp_all
  obtain b5 v where b5: "st5 = set_bank b5 (set_bank b4 (set_bank b3 st2))" "v \<le> Amount paid" "0 \<le> v"
      "\<And>d. cdp_held E st5 d = cdp_held E st d - (if d = cs_debtDenom st then v else 0)"
      "\<And>d. supply_of E st5 d = supply_of E st d - coin_amt paid d - (if d = cs_debtDenom st then v else 0)"
    using BurnDebtCoins_Inr [OF S x] e4 m2(6) by (smt (verit) coin.sel(2))
  note m6 = quiet_money [OF quiet_totals(2) [OF s6]]
  have ok6: "deposits_ok st6" using m6 b5(1) m2 ok by simp
  have k6: "books_kept E st st6"
    by (rule books_keptI [where y = "\<lambda>d. 0"]) (use m6 b5 m2 ok6 pd in \<open>auto simp: coin_amt_def\<close>)
  from fin' have "books_kept E st6 st'"
  proof (elim disjE exE conjE)
    fix st7 assume s7: "ReturnCollateral E st6 c' = Inr st7" "DeleteCdpAndCollateralRatioIndex (env_math E) (RemoveCdpOwnerIndex st7 c') c' = Inr st'"
    have k7: "books_kept E st6 st7" using ReturnCollateral_books [OF S ok6 s7(1)] by blast
    then have "deposits_ok st7" by (simp add: books_kept_def)
    with quiet_trans [OF quiet_stores(3) quiet_updates(2) [OF s7(2)]] show ?thesis using books_kept_trans [OF k7] quiet_books by blast
  next
    fix ratio assume "UpdateCdpAndCollateralRatioIndex (env_math E) st6 c' ratio = Inr st'"
    then show ?thesis using quiet_books [OF quiet_updates(1)] ok6 by blast
  qed
  then show ?thesis using books_kept_trans [OF k6] by blast
qed

subsection \<open>Auctions leave the module's coins alone\<close>

definition calm :: "('b, 'h) cdp_env \<Rightarrow> ('b, 'h) cdp_state \<Rightarrow> ('b, 'h) cdp_state \<Rightarrow> bool" where
  "calm E st st' \<longleftrightarrow> st' = st\<lparr>cs_auction := cs_auction st'\<rparr> \<and> cdp_held E st' = cdp_held E st \<and> supply_of E st' = supply_of E st"

lemma calm_refl: "calm E st st"
  by (simp add: calm_def)

lemma calm_fields:
  assumes "calm E st st'"
  shows "cs_params st' = cs_params st" "cs_deposits st' = cs_deposits st" "cs_debtDenom st' = cs_debtDenom st" "cs_govDenom st' = cs_govDenom st"
    "cs_cdps st' = cs_cdps st" "cs_byOwner st' = cs_byOwner st" "cs_byRatio st' = cs_byRatio st" "cs_nextID st' = cs_nextID st"
    "owed st' = owed st" "stable_denom st' = stable_denom st" "deposits_ok st' = deposits_ok st" "cdp_held E st' = cdp_held E st" "supply_of E st' = supply_of E st"
proof -
  obtain au where au: "st' = st\<lparr>cs_auction := au\<rparr>" and h: "cdp_held E st' = cdp_held E st" "supply_of E st' = supply_of E st" using assms unfolding calm_def by blast
  show "cs_params st' = cs_params st" "cs_deposits st' = cs_deposits st" "cs_debtDenom st' = cs_debtDenom st" "cs_govDenom st' = cs_govDenom st"
    "cs_cdps st' = cs_cdps st" "cs_byOwner st' = cs_byOwner st" "cs_byRatio st' = cs_byRatio st" "cs_nextID st' = cs_nextID st"
    "owed st' = owed st" "stable_denom st' = stable_denom st" "deposits_ok st' = deposits_ok st" "cdp_held E st' = cdp_held E st" "supply_of E st' = supply_of E st"
    by (simp_all only: h) (simp_all add: au owed_def stable_denom_def deposits_ok_def fun_eq_iff)
qed

lemma calm_trans:
  assumes "calm E st st1" "calm E st1 st2"
  shows "calm E st st2"
proof -
  obtain a1 a2 where "st1 = st\<lparr>cs_auction := a1\<rparr>" "st2 = st1\<lparr>cs_auction := a2\<rparr>" using assms unfolding calm_def by blast
  then show ?thesis using assms by (simp add: calm_def)
qed

lemma calm_books: "calm E st st' \<Longrightarrow> deposits_ok st \<Longrightarrow> books_kept E st st'"
  by (rule books_keptI [where y = "\<lambda>d. 0"]) (simp_all add: calm_fields)

lemma start_lot_calm:
  assumes S: "sdk_laws (Sdk E)" and r: "start_lot E t ret cd pd lot dbt st = Inr st'"
  shows "calm E st st'"
  unfolding calm_def
proof (intro conjI)
  show "st' = st\<lparr>cs_auction := cs_auction st'\<rparr>" by (rule start_lot_bank(2) [OF S r])
  show "cdp_held E st' = cdp_held E st" "supply_of E st' = supply_of E st"
    using start_lot_bank(1) [OF S r] ModuleAddress_eq [OF S] by (simp_all add: shifted_def cdp_held_def supply_of_def fun_eq_iff)
qed

lemma create_whole_auctions_calm:
  "sdk_laws (Sdk E) \<Longrightarrow> create_whole_auctions E t ret cd pd sz dpa n u st = Inr (st', u') \<Longrightarrow> calm E st st'"
proof (induction n arbitrary: u st)
  case (Suc n)
  then obtain a u1 st1 where "start_lot E t ret cd pd sz a st = Inr st1" "create_whole_auctions E t ret cd pd sz dpa n u1 st1 = Inr (st', u')"
    by (auto split: if_splits)
  then show ?case using Suc.IH Suc.prems(1) start_lot_calm calm_trans by blast
qed (simp add: calm_refl)

lemma bnd_elim: "bnd r f = Inr y \<Longrightarrow> (\<And>x. f x = Inr y \<Longrightarrow> thesis) \<Longrightarrow> thesis"
  by auto

lemma run_auctions_calm:
  assumes S: "sdk_laws (Sdk E)"
    and r: "(case p of (l, u) \<Rightarrow> if bad then Inl e else
        bnd (create_whole_auctions E t ret cd pd sz dpa n u st) (\<lambda>(st1, u2).
        if stop then Inr st1 else bnd (g l u2) (\<lambda>x. start_lot E t ret cd pd lot x st1))) = Inr st'"
  shows "calm E st st'"
proof -
  obtain u st1 u2 where c: "create_whole_auctions E t ret cd pd sz dpa n u st = Inr (st1, u2)"
      and l: "st' = st1 \<or> (\<exists>x. start_lot E t ret cd pd lot x st1 = Inr st')"
    using r by (auto simp: case_prod_beta split: if_splits)
  have "calm E st st1" by (rule create_whole_auctions_calm [OF S c])
  moreover have "calm E st1 st'" using l start_lot_calm [OF S] calm_refl by metis
  ultimately show ?thesis by (rule calm_trans)
qed

lemma CreateAuctionsFromDeposit_calm:
  assumes S: "sdk_laws (Sdk E)" and r: "CreateAuctionsFromDeposit E st col t ret d s pd = Inr st'"
  shows "calm E st st'"
  using r unfolding CreateAuctionsFromDeposit_def
  by (elim bnd_elim) (rule run_auctions_calm [OF S])

lemma AuctionCollateral_calm:
  assumes S: "sdk_laws (Sdk E)" and r: "AuctionCollateral E st ds t dbt bd = Inr st'"
  shows "calm E st st'"
proof -
  obtain sz tc where "foldR (auction_deposit E t dbt bd sz tc) ds st = Inr st'" using r by (auto simp: AuctionCollateral_def)
  then show ?thesis
  proof (rule foldR_invariant [where P = "calm E st"])
    fix x s s' assume "calm E st s" "auction_deposit E t dbt bd sz tc x s = Inr s'"
    then show "calm E st s'" unfolding auction_deposit_def
      by (elim bnd_elim) (blast intro: calm_trans CreateAuctionsFromDeposit_calm [OF S])
  qed (rule calm_refl)
qed

lemma NetSurplusAndDebt_books:
  assumes S: "sdk_laws (Sdk E)" and ok: "deposits_ok st" and r: "NetSurplusAndDebt (Sdk E) st = Inr st'"
  shows "books_kept E st st'"
proof -
  define v where "v = min (GetBalance (Sdk E) (cs_bank st) (ModuleAddress (Sdk E) LiquidatorMacc) (stable_denom st))
      (GetBalance (Sdk E) (cs_bank st) (ModuleAddress (Sdk E) LiquidatorMacc) (cs_debtDenom st))"
  show ?thesis
  proof (cases "v = 0")
    case True
    then show ?thesis using r books_kept_refl [OF ok]
      by (auto simp: NetSurplusAndDebt_def GetTotalSurplus_def GetTotalDebt_def moduleAccount_def v_def stable_denom_def split: if_splits)
  next
    case False
    then obtain cs b1 ds b2 w where b: "NewCoins (Sdk E) [Coin (cs_debtDenom st) v] = Inr cs" "BurnCoins (Sdk E) (cs_bank st) LiquidatorMacc cs = Inr b1"
        "w = min (GetBalance (Sdk E) b1 (ModuleAddress (Sdk E) LiquidatorMacc) (stable_denom st)) v"
        "NewCoins (Sdk E) [Coin (stable_denom st) w] = Inr ds" "BurnCoins (Sdk E) b1 LiquidatorMacc ds = Inr b2" "st' = set_bank b2 (set_bank b1 st)"
      using r by (auto simp: NetSurplusAndDebt_def GetTotalSurplus_def GetTotalDebt_def moduleAccount_def v_def stable_denom_def Let_def split: if_splits)
    have e1: "cdp_held E (set_bank b1 st) d = cdp_held E st d" "supply_of E (set_bank b1 st) d = supply_of E st d - coin_amt (Coin (cs_debtDenom st) v) d" for d
      using module_effects(5) [OF S b(1,2)] by simp_all
    have e2: "cdp_held E st' d = cdp_held E st d" "supply_of E st' d = supply_of E st d - coin_amt (Coin (cs_debtDenom st) v) d - coin_amt (Coin (stable_denom st) w) d" for d
      using module_effects(5) [OF S b(4), of "set_bank b1 st" LiquidatorMacc b2] b(5,6) e1 by simp_all
    have "w = v" if "stable_denom st \<noteq> cs_debtDenom st"
      using mints(2) [OF S b(2)] NewCoins_one(1) [OF S b(1)] that by (simp add: b(3) v_def coin_amt_def)
    then show ?thesis
      by (intro books_keptI [where y = "\<lambda>d. 0"]) (use e2 b(6) ok in \<open>auto simp: coin_amt_def\<close>)
  qed
qed

lemma shifted_calm:
  assumes S: "sdk_laws (Sdk E)"
    and "shifted (Sdk E) (ak_bank (cs_auction st)) (ak_bank au) (ModuleAddress (Sdk E) LiquidatorMacc) (ModuleAddress (Sdk E) auction_module) f"
  shows "calm E st (st\<lparr>cs_auction := au\<rparr>)"
  using assms(2) ModuleAddress_eq [OF S] by (simp add: calm_def shifted_def cdp_held_def supply_of_def cs_bank_def fun_eq_iff)

lemma StartDebtAuction_calm:
  assumes S: "sdk_laws (Sdk E)" and r: "StartDebtAuction (Sdk E) (cs_auction st) LiquidatorMacc bid lot dbt = Inr (au, i)"
  shows "calm E st (st\<lparr>cs_auction := au\<rparr>)"
proof -
  obtain cs b a where s: "NewCoins (Sdk E) [dbt] = Inr cs" "SendCoinsFromModuleToModule (Sdk E) (ak_bank (cs_auction st)) LiquidatorMacc auction_module cs = Inr b"
      "StoreNewAuction ((cs_auction st)\<lparr>ak_bank := b\<rparr>) a = Inr (au, i)"
    using r by (auto simp: StartDebtAuction_def Let_def split: if_splits)
  show ?thesis by (rule shifted_calm [OF S]) (use shifted_send [OF S s(1,2)] StoreNewAuction_bank [OF s(3)] in simp)
qed

lemma StartSurplusAuction_calm:
  assumes S: "sdk_laws (Sdk E)" and r: "StartSurplusAuction (Sdk E) (cs_auction st) LiquidatorMacc lot bd = Inr (au, i)"
  shows "calm E st (st\<lparr>cs_auction := au\<rparr>)"
proof -
  obtain cs b a where s: "NewCoins (Sdk E) [lot] = Inr cs" "SendCoinsFromModuleToModule (Sdk E) (ak_bank (cs_auction st)) LiquidatorMacc auction_module cs = Inr b"
      "StoreNewAuction ((cs_auction st)\<lparr>ak_bank := b\<rparr>) a = Inr (au, i)"
    using r by (auto simp: StartSurplusAuction_def)
  show ?thesis by (rule shifted_calm [OF S]) (use shifted_send [OF S s(1,2)] StoreNewAuction_bank [OF s(3)] in simp)
qed

lemma bndE: "bnd r f = Inr y \<Longrightarrow> (\<And>x. r = Inr x \<Longrightarrow> f x = Inr y \<Longrightarrow> thesis) \<Longrightarrow> thesis"
  by auto

lemma RunSurplusAndDebtAuctions_books:
  assumes S: "sdk_laws (Sdk E)" and ok: "deposits_ok st" and r: "RunSurplusAndDebtAuctions (Sdk E) st = Inr st'"
  shows "books_kept E st st'"
  using r unfolding RunSurplusAndDebtAuctions_def Let_def
proof (elim bndE, goal_cases)
  case (1 st1 rd st2 a)
  have k1: "books_kept E st st1" by (rule NetSurplusAndDebt_books [OF S ok 1(1)])
  have "calm E st1 st2" using 1(3) StartDebtAuction_calm [OF S, of st1] calm_refl [of E st1] by (auto split: if_splits)
  moreover have "calm E st2 st'" using 1(5) StartSurplusAuction_calm [OF S, of st2] calm_refl [of E st2] by (auto split: if_splits)
  ultimately have "calm E st1 st'" by (rule calm_trans)
  then show ?case using books_kept_trans [OF k1 calm_books] k1 by (simp add: books_kept_def)
qed

text \<open>Interest is minted twice: as debt coins for the module, as stable coins for the liquidator.\<close>

lemma mint_interest_books:
  assumes S: "sdk_laws (Sdk E)" and ok: "deposits_ok st" and r: "mint_interest E st v = Inr st3"
  shows "books_kept E st st3"
proof -
  obtain st2 dp where d: "MintDebtCoins (Sdk E) st cdp_module (cs_debtDenom st) (Coin DefaultStableDenom v) = Inr st2"
      and dp: "GetDebtParam st2 DefaultStableDenom = Some dp"
    using r by (auto simp: mint_interest_def split: option.splits)
  obtain b where b: "st2 = set_bank b st" "0 \<le> v"
      "\<And>d. cdp_held E st2 d = cdp_held E st d + (if d = cs_debtDenom st then v else 0)" "\<And>d. supply_of E st2 d = supply_of E st d + (if d = cs_debtDenom st then v else 0)"
    by (rule MintDebtCoins_Inr [OF S d]) (rule that, simp_all)
  have s: "dp_Denom dp = stable_denom st" using dp b(1) by (auto simp: GetDebtParam_def stable_denom_def Let_def split: if_splits)
  show ?thesis
  proof (cases "0 < v")
    case True
    then obtain cs b3 where m3: "NewCoins (Sdk E) [Coin (stable_denom st) v] = Inr cs" "MintCoins (Sdk E) (cs_bank st2) LiquidatorMacc cs = Inr b3" "st3 = set_bank b3 st2"
      using r s d dp by (auto simp: mint_interest_def)
    have e: "cdp_held E st3 d = cdp_held E st2 d" "supply_of E st3 d = supply_of E st2 d + coin_amt (Coin (stable_denom st) v) d" for d
      using module_effects(4) [OF S m3(1,2)] m3(3) by simp_all
    show ?thesis by (rule books_keptI [where y = "\<lambda>d. 0"]) (use b m3(3) e ok in \<open>auto simp: coin_amt_def\<close>)
  next
    case False
    then have "st3 = st2" using r d dp by (auto simp: mint_interest_def)
    then show ?thesis using b by (intro books_keptI [where y = "\<lambda>d. 0"]) (auto simp: ok)
  qed
qed

lemma AccumulateInterest_books:
  assumes S: "sdk_laws (Sdk E)" and ok: "deposits_ok st" and r: "AccumulateInterest E now st t = Inr st'"
  shows "books_kept E st st'"
proof (cases "GetPreviousAccrualTime st t")
  case None
  then have "SetPreviousAccrualTime st t now = st'" using r by (simp add: AccumulateInterest_def)
  then show ?thesis using quiet_books [OF quiet_stores(5) ok] by blast
next
  case (Some prev)
  show ?thesis
  proof (cases "round_seconds (time_Sub now prev) = 0")
    case True
    then show ?thesis using r Some books_kept_refl [OF ok] by (simp add: AccumulateInterest_def)
  next
    case False
    then obtain st1 tp where g: "GetTotalPrincipal st t DefaultStableDenom = Inr (st1, tp)" using r Some by (auto simp: AccumulateInterest_def Let_def)
    note q1 = quiet_GetTotalPrincipal [OF g]
    have ok1: "deposits_ok st1" using ok quiet_money(5) [OF q1] by simp
    note k1 = quiet_books [OF q1 ok, of E]
    have set: "books_kept E s (SetPreviousAccrualTime (SetInterestFactor s t f) t now)" "books_kept E s (SetPreviousAccrualTime s t now)" if "deposits_ok s" for s f
      by (rule quiet_books [OF quiet_trans [OF quiet_stores(4,5)] that], rule quiet_books [OF quiet_stores(5) that])
    have "books_kept E st1 st'"
    proof (cases "tp \<le> 0 \<or> GetInterestFactor st1 t = None")
      case True
      then have "st' = SetPreviousAccrualTime st1 t now \<or> st' = SetPreviousAccrualTime (SetInterestFactor st1 t OneDec) t now"
        using r Some False g by (auto simp: AccumulateInterest_def Let_def split: if_splits)
      then show ?thesis using set [OF ok1] by metis
    next
      case nt: False
      then obtain f where f: "GetInterestFactor st1 t = Some f" by auto
      consider (set) "st' = SetPreviousAccrualTime st1 t now" | (none) "st' = st1"
        | (mint) v fn tpn st2 st3 where "mint_interest E st1 v = Inr st2" "SetTotalPrincipal st2 t DefaultStableDenom tpn = Inr st3"
          "st' = SetPreviousAccrualTime (SetInterestFactor st3 t fn) t now"
        using r Some False g nt f by (auto simp: AccumulateInterest_def Let_def split: if_splits)
      then show ?thesis
      proof cases
        case m: (mint v fn tpn st2 st3)
        have k2: "books_kept E st1 st2" by (rule mint_interest_books [OF S ok1 m(1)])
        then have ok2: "deposits_ok st2" by (simp add: books_kept_def)
        have k3: "books_kept E st2 st3" by (rule quiet_books [OF quiet_results(5) [OF m(2)] ok2])
        then have "deposits_ok st3" by (simp add: books_kept_def)
        then show ?thesis using books_kept_trans [OF k2 books_kept_trans [OF k3 set(1)]] m(3) by blast
      qed (use set(2) [OF ok1] books_kept_refl [OF ok1] in blast)+
    qed
    then show ?thesis by (rule books_kept_trans [OF k1])
  qed
qed

lemma pay_from_first_some:
  assumes "pay_from_first m rw ds = Inr (Some d)"
  obtains d0 where "d0 \<in> set ds" "d = d0\<lparr>d_Amount := d_Amount d\<rparr>" "Denom (d_Amount d0) = Denom rw"
    "d_Amount d = Coin (Denom rw) (Amount (d_Amount d0) - Amount rw)" "Amount rw \<le> Amount (d_Amount d0)"
  using assms
proof (induction ds)
  case (Cons x ds)
  show ?case
  proof (cases "Amount (d_Amount x) < Amount rw")
    case True
    then have "pay_from_first m rw ds = Inr (Some d)" using Cons.prems(2) by auto
    then show ?thesis using Cons.IH Cons.prems(1) by (meson list.set_intros(2))
  next
    case False
    then show ?thesis using Cons.prems(1) [of x] Cons.prems(2) by auto
  qed
qed simp

lemma payout_cases:
  assumes "payoutKeeperLiquidationReward E st keeper c = Inr (st', c')"
  obtains (none) "st' = st" "c' = c"
  | (paid) rw d cs b ratio where "Denom rw = Denom (c_Collateral c)" "pay_from_first (env_math E) rw (GetDeposits st (c_ID c)) = Inr (Some d)"
      "NewCoins (Sdk E) [rw] = Inr cs" "SendCoinsFromModuleToAccount (Sdk E) (cs_bank st) cdp_module keeper cs = Inr b"
      "c' = c\<lparr>c_Collateral := Coin (Denom rw) (Amount (c_Collateral c) - Amount rw)\<rparr>" "Amount rw \<le> Amount (c_Collateral c)"
      "ratio_of (env_math E) (set_bank b (SetDeposit st d)) c' = Inr ratio"
      "UpdateCdpAndCollateralRatioIndex (env_math E) (set_bank b (SetDeposit st d)) c' ratio = Inr st'"
proof -
  obtain rw p where rw: "Denom rw = Denom (c_Collateral c)" "pay_from_first (env_math E) rw (GetDeposits st (c_ID c)) = Inr p"
      and p: "(case p of None \<Rightarrow> Inr (st, c) | Some d \<Rightarrow>
        bnd (NewCoins (Sdk E) [rw]) (\<lambda>cs. bnd (with_bank (\<lambda>b. SendCoinsFromModuleToAccount (Sdk E) b cdp_module keeper cs) (SetDeposit st d)) (\<lambda>st2.
        bnd (coin_Sub (env_math E) (c_Collateral c) rw) (\<lambda>col. bnd (ratio_of (env_math E) st2 (c\<lparr>c_Collateral := col\<rparr>)) (\<lambda>ratio.
        bnd (UpdateCdpAndCollateralRatioIndex (env_math E) st2 (c\<lparr>c_Collateral := col\<rparr>) ratio) (\<lambda>st3. Inr (st3, c\<lparr>c_Collateral := col\<rparr>))))))) = Inr (st', c')"
    using assms unfolding payoutKeeperLiquidationReward_def Let_def
  proof (cases "GetCollateral st (c_Type c)", goal_cases)
    case (2 cp)
    from 2(2) show ?case unfolding 2(3) option.case by (elim bndE) (rule 2(1), auto)
  qed simp
  show ?thesis
  proof (cases p)
    case None
    then show ?thesis using p none by simp
  next
    case (Some d)
    obtain cs b ratio where b: "NewCoins (Sdk E) [rw] = Inr cs" "SendCoinsFromModuleToAccount (Sdk E) (cs_bank st) cdp_module keeper cs = Inr b"
        "Amount rw \<le> Amount (c_Collateral c)" "c' = c\<lparr>c_Collateral := Coin (Denom rw) (Amount (c_Collateral c) - Amount rw)\<rparr>"
        "ratio_of (env_math E) (set_bank b (SetDeposit st d)) c' = Inr ratio" "UpdateCdpAndCollateralRatioIndex (env_math E) (set_bank b (SetDeposit st d)) c' ratio = Inr st'"
      using p rw(1) unfolding Some option.case by (elim bndE) auto
    show ?thesis by (rule paid [OF rw(1) rw(2) [unfolded Some] b(1,2,4,3,5,6)])
  qed
qed

lemma payout_books:
  assumes S: "sdk_laws (Sdk E)" and ok: "deposits_ok st" and r: "payoutKeeperLiquidationReward E st keeper c = Inr (st', c')"
  shows "books_kept E st st'"
proof -
  from r show ?thesis
  proof (cases rule: payout_cases)
    case none
    then show ?thesis using books_kept_refl [OF ok] by simp
  next
    case (paid rw d cs b ratio)
    note b = paid(3,4,8)
    obtain d0 where d0: "d0 \<in> set (GetDeposits st (c_ID c))" "d = d0\<lparr>d_Amount := d_Amount d\<rparr>" "Denom (d_Amount d0) = Denom rw"
        "d_Amount d = Coin (Denom rw) (Amount (d_Amount d0) - Amount rw)" "Amount rw \<le> Amount (d_Amount d0)"
      using pay_from_first_some [OF paid(2)] by blast
    have key: "d_CdpID d = d_CdpID d0" "d_Depositor d = d_Depositor d0" by (subst d0(2), simp)+
    have g: "GetDeposit st (d_CdpID d) (d_Depositor d) = Some d0"
      using GetDeposits_entries [OF ok, of "c_ID c"] d0(1) unfolding key by auto
    note ok1 = deposits_ok_Set [OF ok, of d]
    have O: "owed (SetDeposit st d) x = owed st x - coin_amt rw x" for x
      using owed_SetDeposit [OF ok, of d x] deposit_at_Some [OF g, of x] d0(3,4) by (auto simp: coin_amt_def)
    have e: "cdp_held E (set_bank b (SetDeposit st d)) x = cdp_held E st x - (if keeper = cdp_addr E then 0 else coin_amt rw x)"
        "supply_of E (set_bank b (SetDeposit st d)) x = supply_of E st x" for x
      using module_effects(2) [OF S b(1), of "SetDeposit st d" keeper b] b(2) by simp_all
    note m = quiet_money [OF quiet_updates(1) [OF b(3)]]
    have "0 \<le> Amount rw" by (rule NewCoins_one(2) [OF S b(1)])
    then show ?thesis
      by (intro books_keptI [where y = "\<lambda>x. - coin_amt rw x"]) (use m O e ok1 d0(4,5) in \<open>auto simp: coin_amt_def\<close>)
  qed
qed

lemma SeizeCollateral_books:
  assumes S: "sdk_laws (Sdk E)" and ok: "deposits_ok st" and r: "SeizeCollateral E st c = Inr st'"
  shows "books_kept E st st'"
  using r unfolding SeizeCollateral_def Let_def
proof (elim bndE, goal_cases)
  case (1 oldRatio tp md dc dcs st1 st2 st3 st4 st5)
  obtain b1 where b1: "SendCoinsFromModuleToModule (Sdk E) (cs_bank st) cdp_module LiquidatorMacc dcs = Inr b1" "st1 = set_bank b1 st" using 1(6) by auto
  have dc: "dc = Coin (cs_debtDenom st) (min (Amount tp) md)" using 1(4) by simp
  have e1: "cdp_held E st1 d = cdp_held E st d - coin_amt dc d" "supply_of E st1 d = supply_of E st d" for d
    using module_effects(3) [OF S 1(5) b1(1)] b1(2) by simp_all
  have k1: "books_kept E st st1"
    by (rule books_keptI [where y = "\<lambda>d. 0"]) (use e1 b1(2) ok dc in \<open>auto simp: coin_amt_def\<close>)
  have ok1: "deposits_ok st1" using ok b1(2) by simp
  have g: "GetDeposits st1 (c_ID c) = GetDeposits st (c_ID c)" by (simp add: GetDeposits_def b1(2))
  have k2: "books_kept E st1 st2" using seize_deposits_books [OF S ok1 g 1(7)] by blast
  have ok2: "deposits_ok st2" using k2 by (simp add: books_kept_def)
  have k3: "books_kept E st2 st3" by (rule calm_books [OF AuctionCollateral_calm [OF S 1(8)] ok2])
  have ok3: "deposits_ok st3" using k3 by (simp add: books_kept_def)
  have "quiet st3 st'"
    using quiet_totals(2) [OF 1(9)] quiet_stores(3) [of st4 c] quiet_results(4) [OF 1(10)] quiet_results(2) [OF 1(11)] quiet_trans by blast
  then have "books_kept E st3 st'" using quiet_books ok3 by blast
  then show ?case using k1 k2 k3 books_kept_trans by blast
qed

lemma AttemptKeeperLiquidation_books:
  assumes S: "sdk_laws (Sdk E)" and ok: "deposits_ok st" and r: "AttemptKeeperLiquidation E now st keeper owner t = Inr st'"
  shows "books_kept E st st'"
proof -
  obtain c0 st1 st2 c st3 c' where s: "hook_modified E st c0 = Inr st1" "SynchronizeInterest (env_math E) now st1 c0 = Inr (st2, c)"
      "payoutKeeperLiquidationReward E st2 keeper c = Inr (st3, c')" "SeizeCollateral E st3 c' = Inr st'"
    using r by (auto simp: AttemptKeeperLiquidation_def split: option.splits)
  have k2: "books_kept E st st2" by (rule quiet_books [OF quiet_trans [OF quiet_results(6) [OF s(1)] quiet_SynchronizeInterest [OF s(2)]] ok])
  then have ok2: "deposits_ok st2" by (simp add: books_kept_def)
  have k3: "books_kept E st2 st3" by (rule payout_books [OF S ok2 s(3)])
  then have "deposits_ok st3" by (simp add: books_kept_def)
  then show ?thesis using books_kept_trans [OF k2 books_kept_trans [OF k3 SeizeCollateral_books [OF S _ s(4)]]] by blast
qed

lemma books_kept_ok: "books_kept E st st' \<Longrightarrow> deposits_ok st'"
  by (simp add: books_kept_def)

lemma LiquidateCdps_books:
  assumes S: "sdk_laws (Sdk E)" and ok: "deposits_ok st" and r: "LiquidateCdps E st mk t lr n = Inr st'"
  shows "books_kept E st st'"
proof -
  obtain cs where "foldR (liquidate_one E) cs st = Inr st'" using r unfolding LiquidateCdps_def Let_def by (elim bndE)
  then show ?thesis
  proof (rule foldR_invariant [where P = "books_kept E st"])
    fix x s s' assume k: "books_kept E st s" "liquidate_one E x s = Inr s'"
    then obtain s1 where s1: "hook_modified E s x = Inr s1" "SeizeCollateral E s1 x = Inr s'" by (auto simp: liquidate_one_def)
    have k1: "books_kept E s s1" by (rule quiet_books [OF quiet_results(6) [OF s1(1)] books_kept_ok [OF k(1)]])
    show "books_kept E st s'"
      using books_kept_trans [OF k(1) books_kept_trans [OF k1 SeizeCollateral_books [OF S books_kept_ok [OF k1] s1(2)]]] .
  qed (rule books_kept_refl [OF ok])
qed

lemma ignore_no_price_Inr: "ignore_no_price st r = Inr st' \<longleftrightarrow> r = Inr st' \<or> r = Inl (Err ''ErrNoValidPrice'') \<and> st' = st"
  by (auto simp: ignore_no_price_def split: sum.splits)

lemma begin_collateral_books:
  assumes S: "sdk_laws (Sdk E)" and ok: "deposits_ok st" and r: "begin_collateral E now skip cp st = Inr st'"
  shows "books_kept E st st'"
proof -
  define st1 where "st1 = fst (UpdatePricefeedStatus st (co_SpotMarketID cp))"
  define st2 where "st2 = fst (UpdatePricefeedStatus st1 (co_LiquidationMarketID cp))"
  have k1: "books_kept E st st1" unfolding st1_def by (rule quiet_books [OF quiet_UpdatePricefeedStatus ok])
  have k2: "books_kept E st st2" unfolding st2_def
    by (rule books_kept_trans [OF k1 quiet_books [OF quiet_UpdatePricefeedStatus books_kept_ok [OF k1]]])
  have acc: "books_kept E st st3" if "AccumulateInterest E now st2 (co_Type cp) = Inr st3" for st3
    by (rule books_kept_trans [OF k2 AccumulateInterest_books [OF S books_kept_ok [OF k2] that]])
  have syn: "books_kept E st st4" if "AccumulateInterest E now st2 (co_Type cp) = Inr st3" "SynchronizeInterestForRiskyCDPs E st3 MaxSortableDec cp = Inr st4" for st3 st4
    by (rule books_kept_trans [OF acc [OF that(1)] quiet_books [OF quiet_SynchronizeInterestForRiskyCDPs [OF that(2)] books_kept_ok [OF acc [OF that(1)]]]])
  consider "st' = st1" | "st' = st2" | st3 where "AccumulateInterest E now st2 (co_Type cp) = Inr st3" "st' = st3"
    | st3 st4 where "AccumulateInterest E now st2 (co_Type cp) = Inr st3" "SynchronizeInterestForRiskyCDPs E st3 MaxSortableDec cp = Inr st4"
      "st' = st4 \<or> LiquidateCdps E st4 (co_LiquidationMarketID cp) (co_Type cp) (co_LiquidationRatio cp) (co_CheckCollateralizationIndexCount cp) = Inr st'"
    using r unfolding begin_collateral_def Let_def case_prod_beta st1_def [symmetric] st2_def [symmetric]
    by (auto simp: ignore_no_price_Inr split: if_splits)
  then show ?thesis
  proof cases
    case (4 st3 st4)
    note k4 = syn [OF 4(1,2)]
    show ?thesis using 4(3) k4 books_kept_trans [OF k4 LiquidateCdps_books [OF S books_kept_ok [OF k4]]] by blast
  qed (use k1 k2 acc in blast)+
qed

lemma BeginBlocker_books:
  assumes S: "sdk_laws (Sdk E)" and ok: "deposits_ok st" and r: "cdp_BeginBlocker E now h st = Inr st'"
  shows "books_kept E st st'"
proof -
  obtain st1 where s: "foldR (begin_collateral E now (h mod \<bar>LiquidationBlockInterval (cs_params st)\<bar> \<noteq> 0)) (CollateralParams (cs_params st)) st = Inr st1"
      "RunSurplusAndDebtAuctions (Sdk E) st1 = Inr st'"
    using r by (auto simp: cdp_BeginBlocker_def Let_def split: if_splits)
  have "books_kept E st st1"
    by (rule foldR_invariant [OF s(1), where P = "books_kept E st"])
      (auto intro: books_kept_refl [OF ok] books_kept_trans begin_collateral_books [OF S] dest: books_kept_ok)
  then show ?thesis using books_kept_trans RunSurplusAndDebtAuctions_books [OF S _ s(2)] books_kept_ok by blast
qed

end
