(* ===== verification/Cdp_Reach.thy ===== *)
theory Cdp_Reach
  imports Cdp_Safety
begin

text \<open>
  The reachable states of the debt positions, the claims about their money, and what drawing,
  withdrawing, repaying and liquidating promise.
\<close>

section \<open>Steps and reachable states\<close>

text \<open>
  A step is a message whose signer is no module account's address, or the begin blocker. Between the
  steps other modules move their own coins, set prices and run the auctions; they never take coins
  from this module's account. At genesis the account must hold the deposits it is given.
\<close>

inductive cdp_step :: "('b, 'h) cdp_env \<Rightarrow> (string \<Rightarrow> address result) \<Rightarrow> ('b, 'h) cdp_state \<Rightarrow> ('b, 'h) cdp_state \<Rightarrow> bool"
  for E bech where
  create: "MsgCreateCDP_ValidateBasic (env_math E) bech w col prin t = Inr () \<Longrightarrow> msg_CreateCDP E bech now st w col prin t = Inr (st', i) \<Longrightarrow>
    bech w \<noteq> Inr (cdp_addr E) \<Longrightarrow> cdp_step E bech st st'"
| deposit: "MsgDepositCDP_ValidateBasic (env_math E) bech w v col t = Inr () \<Longrightarrow> msg_DepositCDP E bech now st w v col t = Inr st' \<Longrightarrow>
    bech v \<noteq> Inr (cdp_addr E) \<Longrightarrow> cdp_step E bech st st'"
| withdraw: "MsgWithdrawCDP_ValidateBasic (env_math E) bech w v col t = Inr () \<Longrightarrow> msg_WithdrawCDP E bech now st w v col t = Inr st' \<Longrightarrow>
    bech v \<noteq> Inr (cdp_addr E) \<Longrightarrow> cdp_step E bech st st'"
| draw: "MsgDrawDebt_ValidateBasic (env_math E) bech w t prin = Inr () \<Longrightarrow> msg_DrawDebt E bech now st w t prin = Inr st' \<Longrightarrow>
    bech w \<noteq> Inr (cdp_addr E) \<Longrightarrow> cdp_step E bech st st'"
| repay: "MsgRepayDebt_ValidateBasic (env_math E) bech w t pay = Inr () \<Longrightarrow> msg_RepayDebt E bech now st w t pay = Inr st' \<Longrightarrow>
    bech w \<noteq> Inr (cdp_addr E) \<Longrightarrow> cdp_step E bech st st'"
| liquidate: "MsgLiquidate_ValidateBasic bech w v t = Inr () \<Longrightarrow> msg_Liquidate E bech now st w v t = Inr st' \<Longrightarrow>
    bech w \<noteq> Inr (cdp_addr E) \<Longrightarrow> cdp_step E bech st st'"
| block: "cdp_BeginBlocker E now h st = Inr st' \<Longrightarrow> cdp_step E bech st st'"

inductive cdp_reach :: "('b, 'h) cdp_env \<Rightarrow> (string \<Rightarrow> address result) \<Rightarrow> ('b, 'h) cdp_state \<Rightarrow> bool" for E bech where
  genesis: "cdp_InitGenesis (Sdk E) st gs = Inr st' \<Longrightarrow> cs_deposits st = [] \<Longrightarrow> cs_cdps st = [] \<Longrightarrow>
    \<forall>d. d \<noteq> cg_DebtDenom gs \<longrightarrow> owed st' d \<le> cdp_held E st' d \<Longrightarrow> cdp_reach E bech st'"
| step: "cdp_reach E bech st \<Longrightarrow> cdp_step E bech st st' \<Longrightarrow> cdp_reach E bech st'"
| params: "cdp_reach E bech st \<Longrightarrow> cdp_SetParams (env_math E) st p = Inr st' \<Longrightarrow> cdp_reach E bech st'"
| others: "cdp_reach E bech st \<Longrightarrow> \<forall>d. cdp_held E st d \<le> GetBalance (Sdk E) (ak_bank au) (cdp_addr E) d \<Longrightarrow>
    cdp_reach E bech (st\<lparr>cs_auction := au, cs_prices := pf, cs_hooks := h\<rparr>)"

lemma cdp_step_books:
  assumes S: "sdk_laws (Sdk E)" and ok: "deposits_ok st" and r: "cdp_step E bech st st'"
  shows "books_kept E st st'"
  using r
proof cases
  case (create w col prin t now i)
  then obtain a where "a \<noteq> cdp_addr E" "AddCdp E now st a col prin t = Inr st'" by (auto simp: msg_CreateCDP_def)
  then show ?thesis by (rule AddCdp_books [OF S ok])
next
  case (deposit w v col t now)
  then obtain a b where "b \<noteq> cdp_addr E" "DepositCollateral E now st a b col t = Inr st'" by (auto simp: msg_DepositCDP_def)
  then show ?thesis by (rule DepositCollateral_books [OF S ok])
next
  case (withdraw w v col t now)
  then obtain a b where "WithdrawCollateral E now st a b col t = Inr st'" by (auto simp: msg_WithdrawCDP_def)
  then show ?thesis by (rule WithdrawCollateral_books [OF S ok])
next
  case (draw w t prin now)
  then obtain a where "a \<noteq> cdp_addr E" "AddPrincipal E now st a t prin = Inr st'" by (auto simp: msg_DrawDebt_def)
  then show ?thesis by (rule AddPrincipal_books [OF S ok])
next
  case (repay w t pay now)
  then obtain a where "a \<noteq> cdp_addr E" "RepayPrincipal E now st a t pay = Inr st'" by (auto simp: msg_RepayDebt_def)
  then show ?thesis by (rule RepayPrincipal_books [OF S ok])
next
  case (liquidate w v t now)
  then obtain a b where "AttemptKeeperLiquidation E now st a b t = Inr st'" by (auto simp: msg_Liquidate_def)
  then show ?thesis by (rule AttemptKeeperLiquidation_books [OF S ok])
next
  case (block now h)
  then show ?thesis by (rule BeginBlocker_books [OF S ok])
qed

text \<open>Genesis loads the deposits into an empty store.\<close>

definition no_deposits :: "('b, 'h) cdp_state \<Rightarrow> bool" where
  "no_deposits st \<longleftrightarrow> cs_deposits st = []"

lemma quiet_no_deposits: "quiet st st' \<Longrightarrow> no_deposits st \<Longrightarrow> no_deposits st'"
  by (simp add: no_deposits_def quiet_def)

lemma init_folds:
  "foldR init_status cps st = Inr st' \<Longrightarrow> quiet st st'"
  "quiet st (fold init_time gats st)"
  "foldR (\<lambda>g s. SetTotalPrincipal s (gp_CollateralType g) DefaultStableDenom (gp_TotalPrincipal g)) gtps st = Inr st' \<Longrightarrow> quiet st st'"
  "foldR (init_cdp m i) cs st = Inr st' \<Longrightarrow> quiet st st'"
proof -
  show "foldR init_status cps st = Inr st' \<Longrightarrow> quiet st st'"
    by (erule foldR_invariant [where P = "quiet st"])
      (auto simp: init_status_def Let_def quiet_refl split: if_splits
        intro: quiet_trans [OF quiet_trans [OF _ quiet_UpdatePricefeedStatus] quiet_UpdatePricefeedStatus])
  show "quiet st (fold init_time gats st)"
    by (induction gats arbitrary: st) (auto simp: quiet_refl init_time_def Let_def intro: quiet_trans [OF quiet_stores(4)] quiet_trans [OF quiet_stores(5)])
  show "foldR (\<lambda>g s. SetTotalPrincipal s (gp_CollateralType g) DefaultStableDenom (gp_TotalPrincipal g)) gtps st = Inr st' \<Longrightarrow> quiet st st'"
    by (erule foldR_invariant [where P = "quiet st"]) (auto intro: quiet_refl quiet_trans quiet_results(5))
  show "foldR (init_cdp m i) cs st = Inr st' \<Longrightarrow> quiet st st'"
    by (erule foldR_invariant [where P = "quiet st"])
      (auto simp: init_cdp_def Let_def split: if_splits dest!: quiet_results(1,3) intro: quiet_refl
        intro: quiet_trans [OF quiet_trans [OF _ quiet_trans [OF _ quiet_stores(2)]]])
qed

lemma load_deposits:
  assumes "deposits_ok st" "\<forall>d\<in>set ds. 0 \<le> Amount (d_Amount d)"
  shows "deposits_ok (fold (\<lambda>d s. SetDeposit s d) ds st) \<and> cs_debtDenom (fold (\<lambda>d s. SetDeposit s d) ds st) = cs_debtDenom st"
  using assms
proof (induction ds arbitrary: st)
  case (Cons d ds)
  then show ?case using Cons.IH [OF deposits_ok_Set [OF Cons.prems(1)], of d] by simp
qed simp

lemma Deposits_Validate_nonneg:
  "Deposits_Validate m ds = Inr () \<Longrightarrow> \<forall>d\<in>set ds. 0 \<le> Amount (d_Amount d)"
  unfolding Deposits_Validate_def
  by (induction ds) (auto simp: Deposit_Validate_def coin_IsValid_def split: if_splits)

lemma InitGenesis_deposits:
  assumes r: "cdp_InitGenesis S st gs = Inr st'" and e: "cs_deposits st = []"
  shows "deposits_ok st' \<and> cs_debtDenom st' = cg_DebtDenom gs"
proof -
  obtain st1 st2 st3 st4 st5 st6 where v: "cdp_genesis_Validate (Math S) gs = Inr ()"
      and s1: "foldR init_status (CollateralParams (cg_Params gs)) st = Inr st1" and s2: "cdp_SetParams (Math S) st1 (cg_Params gs) = Inr st2"
      and s3: "foldR (\<lambda>g s. SetTotalPrincipal s (gp_CollateralType g) DefaultStableDenom (gp_TotalPrincipal g))
              (cg_TotalPrincipals gs) (fold init_time (cg_PreviousAccumulationTimes gs) st2) = Inr st3"
      and s4: "foldR (init_cdp (Math S) (cg_StartingCdpID gs)) (cg_CDPs gs) st3 = Inr st4"
      and s5: "SetDebtDenom (SetNextCdpID st4 (cg_StartingCdpID gs)) (cg_DebtDenom gs) = Inr st5" and s6: "SetGovDenom st5 (cg_GovDenom gs) = Inr st6"
      and fin: "st' = fold (\<lambda>d s. SetDeposit s d) (cg_Deposits gs) st6"
    using r unfolding cdp_InitGenesis_def by (auto split: if_splits)
  have "cs_deposits st1 = []" using init_folds(1) [OF s1] e by (simp add: quiet_def)
  then have "cs_deposits st2 = []" using s2 by (auto simp: cdp_SetParams_def split: if_splits)
  then have "cs_deposits st4 = []"
    using quiet_trans [OF init_folds(2) quiet_trans [OF init_folds(3) [OF s3] init_folds(4) [OF s4]]] by (simp add: quiet_def)
  then have d6: "cs_deposits st6 = []" "cs_debtDenom st6 = cg_DebtDenom gs"
    using s5 s6 by (auto simp: SetDebtDenom_def SetGovDenom_def SetNextCdpID_def split: if_splits)
  then have "deposits_ok st6" by (simp add: deposits_ok_def)
  moreover have "\<forall>d\<in>set (cg_Deposits gs). 0 \<le> Amount (d_Amount d)" by (rule Deposits_Validate_nonneg [of "Math S"]) (use v in \<open>simp add: cdp_genesis_Validate_def\<close>)
  ultimately have "deposits_ok st' \<and> cs_debtDenom st' = cs_debtDenom st6" unfolding fin by (rule load_deposits)
  then show ?thesis using d6(2) by simp
qed

lemma cdp_reach_books:
  assumes S: "sdk_laws (Sdk E)"
  shows "cdp_reach E bech st \<Longrightarrow> deposits_ok st \<and> (\<forall>d. d \<noteq> cs_debtDenom st \<longrightarrow> owed st d \<le> cdp_held E st d)"
proof (induction rule: cdp_reach.induct)
  case (genesis st gs st')
  then show ?case using InitGenesis_deposits [OF genesis(1,2)] by simp
next
  case (step st st')
  have k: "books_kept E st st'" using cdp_step_books [OF S _ step(2)] step(3) by blast
  then show ?case using step(3) unfolding books_kept_def by (smt (verit))
next
  case (params st p st')
  then have "st' = st\<lparr>cs_params := p\<rparr>" by (auto simp: cdp_SetParams_def split: if_splits)
  then show ?case using params(3) by (simp add: deposits_ok_def owed_def cdp_held_def cs_bank_def)
next
  case (others st au pf h)
  then show ?case by (auto simp: deposits_ok_def owed_def cdp_held_def cs_bank_def intro: order_trans)
qed

section \<open>Claims about the coins\<close>

text \<open>
  C4: In every reachable state the account of the \<open>cdp\<close> module holds at least what all deposits sum to,
  in every denomination other than the debt coin: no message, no liquidation, no interest and no
  begin blocker spends a depositor's collateral on anything else.
\<close>

theorem cdp_collateral_escrowed:
  assumes "sdk_laws (Sdk E)" "cdp_reach E bech st" "d \<noteq> cs_debtDenom st"
  shows "(\<Sum>(k, x)\<leftarrow>cs_deposits st. coin_amt (d_Amount x) d) \<le> GetBalance (Sdk E) (cs_bank st) (cdp_addr E) d"
  using cdp_reach_books [OF assms(1,2)] assms(3) by (simp add: owed_def cdp_held_def)

text \<open>
  C5: Stable coins are covered by debt coins: whatever messages and blocks the \<open>cdp\<close> module executes, the
  supply of the debt coin less the supply of the stable coin never falls, because every draw and every
  interest payment mints both and every repayment and netting burns at least as much of the
  stable coin. The supplies of all other coins stay what they were.
\<close>

theorem cdp_debt_backs_stable:
  assumes "sdk_laws (Sdk E)" "cdp_reach E bech st" "(cdp_step E bech)\<^sup>*\<^sup>* st st'" "dp_Denom (DebtParamOf (cs_params st)) \<noteq> cs_debtDenom st"
  shows "GetSupply (Sdk E) (cs_bank st) (cs_debtDenom st) - GetSupply (Sdk E) (cs_bank st) (dp_Denom (DebtParamOf (cs_params st)))
      \<le> GetSupply (Sdk E) (cs_bank st') (cs_debtDenom st) - GetSupply (Sdk E) (cs_bank st') (dp_Denom (DebtParamOf (cs_params st))) \<and>
    (\<forall>d. d \<noteq> cs_debtDenom st \<longrightarrow> d \<noteq> dp_Denom (DebtParamOf (cs_params st)) \<longrightarrow> GetSupply (Sdk E) (cs_bank st') d = GetSupply (Sdk E) (cs_bank st) d)"
proof -
  have ok: "deposits_ok st" using cdp_reach_books [OF assms(1,2)] by blast
  have "books_kept E st st'"
    using assms(3)
  proof (induction rule: rtranclp_induct)
    case base
    then show ?case by (rule books_kept_refl [OF ok])
  next
    case (step y z)
    then show ?case using books_kept_trans cdp_step_books [OF assms(1) books_kept_ok [OF step.IH]] by blast
  qed
  then show ?thesis using assms(4) unfolding books_kept_def stable_denom_def supply_of_def by blast
qed

section \<open>A concrete run\<close>

definition ex_cdp_ledger :: ledger where
  "ex_cdp_ledger = \<lparr>lbal = [((''alice'', ''bnb''), 200), ((''bob'', ''bnb''), 200)], lsupply = [(''bnb'', 400)]\<rparr>"

definition ex_cdp_genesis :: cdp_genesis where
  "ex_cdp_genesis = \<lparr>cg_Params = ex_cdp_params, cg_CDPs = [], cg_Deposits = [], cg_StartingCdpID = 1, cg_DebtDenom = ''debt'',
     cg_GovDenom = ''uist'', cg_PreviousAccumulationTimes = [], cg_TotalPrincipals = []\<rparr>"

definition ex_blank :: "(ledger, unit) cdp_state" where
  "ex_blank = (ex_cdp_state ex_cdp_ledger)\<lparr>cs_status := [], cs_nextID := None, cs_debtDenom := [], cs_govDenom := []\<rparr>"

definition ex_time :: time where "ex_time = 1600000000 * second"

definition ex_opened :: "(ledger, unit) cdp_state" where
  "ex_opened = fst (projr (msg_CreateCDP ex_env Inr ex_time (ex_cdp_state ex_cdp_ledger) ''alice'' (Coin ''bnb'' 100) (Coin ''usdx'' 50) ''bnb-a''))"

lemma ex_genesis_runs: "cdp_InitGenesis ref_sdk ex_blank ex_cdp_genesis = Inr (ex_cdp_state ex_cdp_ledger)"
  by code_simp

lemma ex_open_runs:
  "msg_CreateCDP ex_env Inr ex_time (ex_cdp_state ex_cdp_ledger) ''alice'' (Coin ''bnb'' 100) (Coin ''usdx'' 50) ''bnb-a'' = Inr (ex_opened, 1)"
  "MsgCreateCDP_ValidateBasic ref_math Inr ''alice'' (Coin ''bnb'' 100) (Coin ''usdx'' 50) ''bnb-a'' = Inr ()"
  "ModuleAddress ref_sdk cdp_module = ''module/cdp''"
  by code_simp+

lemma ex_cdp_reach0: "cdp_reach ex_env Inr (ex_cdp_state ex_cdp_ledger)"
proof (rule cdp_reach.genesis)
  show "cdp_InitGenesis (Sdk ex_env) ex_blank ex_cdp_genesis = Inr (ex_cdp_state ex_cdp_ledger)" using ex_genesis_runs by simp
  show "\<forall>d. d \<noteq> cg_DebtDenom ex_cdp_genesis \<longrightarrow> owed (ex_cdp_state ex_cdp_ledger) d \<le> cdp_held ex_env (ex_cdp_state ex_cdp_ledger) d"
    using balances(4) [OF ref_sdk_laws] by (simp add: owed_def cdp_held_def ex_cdp_state_def)
qed (simp_all add: ex_blank_def ex_cdp_state_def)

lemma ex_cdp_step: "cdp_step ex_env Inr (ex_cdp_state ex_cdp_ledger) ex_opened"
  by (rule cdp_step.create [of _ _ "''alice''" "Coin ''bnb'' 100" "Coin ''usdx'' 50" "''bnb-a''" ex_time _ _ 1])
    (use ex_open_runs in simp_all)

theorem cdp_collateral_escrowed_witness: "100 \<le> GetBalance ref_sdk (cs_bank ex_opened) (cdp_addr ex_env) ''bnb''"
proof -
  have "cs_debtDenom ex_opened = ''debt''" "(\<Sum>(k, x)\<leftarrow>cs_deposits ex_opened. coin_amt (d_Amount x) ''bnb'') = 100" by code_simp+
  with cdp_collateral_escrowed [OF ex_env_laws cdp_reach.step [OF ex_cdp_reach0 ex_cdp_step], of "''bnb''"] show ?thesis by simp
qed

theorem cdp_debt_backs_stable_witness:
  "GetSupply ref_sdk (cs_bank ex_opened) ''usdx'' \<le> GetSupply ref_sdk (cs_bank ex_opened) ''debt'' \<and> GetSupply ref_sdk (cs_bank ex_opened) ''bnb'' = 400"
proof -
  have "dp_Denom (DebtParamOf (cs_params (ex_cdp_state ex_cdp_ledger))) = ''usdx''" "cs_debtDenom (ex_cdp_state ex_cdp_ledger) = ''debt''"
    "GetSupply ref_sdk (cs_bank (ex_cdp_state ex_cdp_ledger)) ''usdx'' = 0" "GetSupply ref_sdk (cs_bank (ex_cdp_state ex_cdp_ledger)) ''debt'' = 0"
    "GetSupply ref_sdk (cs_bank (ex_cdp_state ex_cdp_ledger)) ''bnb'' = 400"
    by code_simp+
  with cdp_debt_backs_stable [OF ex_env_laws ex_cdp_reach0 r_into_rtranclp [of "cdp_step ex_env Inr", OF ex_cdp_step]] show ?thesis by simp
qed

end
