(* ===== verification/Cdp_Positions.thy ===== *)
theory Cdp_Positions
  imports Cdp_Reach
begin

text \<open>
  What the operations on debt positions promise their users: draws and withdrawals leave safe positions
  within the debt limits, repayments book exactly what was paid, and only unsafe positions are liquidated.
\<close>

section \<open>Drawing and withdrawing keep positions safe\<close>

lemma params_cong:
  assumes "cs_params st' = cs_params st"
  shows "GetCollateral st' t = GetCollateral st t" "GetDebtParam st' d = GetDebtParam st d" "collateral_or_panic st' t = collateral_or_panic st t"
    "getLiquidationRatio st' t = getLiquidationRatio st t" "market_of st' t pf = market_of st t pf"
    "convertCollateralToBaseUnits m st' col t = convertCollateralToBaseUnits m st col t" "convertDebtToBaseUnits m st' dbt = convertDebtToBaseUnits m st dbt"
proof -
  show g: "GetCollateral st' t = GetCollateral st t" for t by (simp only: GetCollateral_def assms)
  show d: "GetDebtParam st' d = GetDebtParam st d" for d by (simp only: GetDebtParam_def assms)
  show c: "collateral_or_panic st' t = collateral_or_panic st t" for t by (simp only: collateral_or_panic_def g)
  show "getLiquidationRatio st' t = getLiquidationRatio st t" by (simp only: getLiquidationRatio_def c)
  show "market_of st' t pf = market_of st t pf" by (simp only: market_of_def getSpotMarketID_def getliquidationMarketID_def c)
  show "convertCollateralToBaseUnits m st' col t = convertCollateralToBaseUnits m st col t" by (simp only: convertCollateralToBaseUnits_def g)
  show "convertDebtToBaseUnits m st' dbt = convertDebtToBaseUnits m st dbt" by (simp only: convertDebtToBaseUnits_def d)
qed

lemma ratio_cong:
  assumes "cs_params st' = cs_params st" "cs_prices st' = cs_prices st"
  shows "CalculateCollateralizationRatio m st' col t prin fees pf = CalculateCollateralizationRatio m st col t prin fees pf"
  by (simp only: CalculateCollateralizationRatio_def assms(2) params_cong [OF assms(1)])

definition safe_at :: "sdk_math \<Rightarrow> ('b, 'h) cdp_state \<Rightarrow> CDP \<Rightarrow> pricefeedType \<Rightarrow> bool" where
  "safe_at m st c pf \<longleftrightarrow> (\<exists>r lr. CalculateCollateralizationRatio m st (c_Collateral c) (c_Type c) (c_Principal c) (c_AccumulatedFees c) pf = Inr r \<and>
     getLiquidationRatio st (c_Type c) = Inr lr \<and> lr \<le> r)"

lemma safe_at_cong: "cs_params st' = cs_params st \<Longrightarrow> cs_prices st' = cs_prices st \<Longrightarrow> safe_at m st' c pf = safe_at m st c pf"
  by (simp only: safe_at_def ratio_cong [of st' st] params_cong [of st' st])

lemma ValidateCollateralizationRatio_safe:
  assumes "ValidateCollateralizationRatio m st (c_Collateral c) (c_Type c) (c_Principal c) (c_AccumulatedFees c) = Inr ()"
  shows "safe_at m st c spot"
  using assms by (auto simp: ValidateCollateralizationRatio_def safe_at_def not_less split: if_splits)

lemma stored_simps:
  "SetCDP st c = Inr st' \<Longrightarrow> cs_cdps st' = kv_set (cs_cdps st) (CdpKey (c_Type c) (c_ID c)) c"
  "IndexCdpByCollateralRatio st t i r = Inr st' \<Longrightarrow> cs_cdps st' = cs_cdps st"
  "RemoveCdpCollateralRatioIndex st t i r = Inr st' \<Longrightarrow> cs_cdps st' = cs_cdps st"
  by (auto simp: SetCDP_def IndexCdpByCollateralRatio_def RemoveCdpCollateralRatioIndex_def split: option.splits)

lemma removeOld_cdps: "removeOldCollateralRatioIndex m st t i = Inr st' \<Longrightarrow> cs_cdps st' = cs_cdps st"
  by (auto simp: removeOldCollateralRatioIndex_def split: option.splits dest: stored_simps(3))

lemma UpdateCdp_cdps: "UpdateCdpAndCollateralRatioIndex m st c r = Inr st' \<Longrightarrow> cs_cdps st' = kv_set (cs_cdps st) (CdpKey (c_Type c) (c_ID c)) c"
  by (auto simp: UpdateCdpAndCollateralRatioIndex_def dest!: stored_simps(1,2) removeOld_cdps)

lemma SynchronizeInterest_position:
  "SynchronizeInterest m now st c = Inr (st', c') \<Longrightarrow> c_ID c' = c_ID c \<and> c_Type c' = c_Type c \<and> c_Owner c' = c_Owner c \<and> c_Collateral c' = c_Collateral c \<and> c_Principal c' = c_Principal c"
  by (elim SynchronizeInterest_cases) simp_all

subsection \<open>Totals of principal\<close>

definition same_totals :: "('b, 'h) cdp_state \<Rightarrow> ('b, 'h) cdp_state \<Rightarrow> bool" where
  "same_totals st st' \<longleftrightarrow> cs_principal st' = cs_principal st"

lemma same_totals_trans: "same_totals st st1 \<Longrightarrow> same_totals st1 st2 \<Longrightarrow> same_totals st st2"
  by (simp add: same_totals_def)

lemma same_totals_stores:
  "same_totals st (SetNextCdpID st i)" "same_totals st (IndexCdpByOwner st c)" "same_totals st (SetInterestFactor st t f)"
  "same_totals st (SetDeposit st x)" "same_totals st (set_bank b st)" "same_totals st (fst (factor_or_init st t))"
  by (auto simp: same_totals_def SetNextCdpID_def IndexCdpByOwner_def SetInterestFactor_def SetDeposit_def set_bank_def factor_or_init_def Let_def split: option.splits)

lemma same_totals_results:
  "SetCDP st c = Inr st' \<Longrightarrow> same_totals st st'"
  "IndexCdpByCollateralRatio st t i r = Inr st' \<Longrightarrow> same_totals st st'"
  "RemoveCdpCollateralRatioIndex st t i r = Inr st' \<Longrightarrow> same_totals st st'"
  "hook_modified E st c = Inr st' \<Longrightarrow> same_totals st st'"
  "hook_created E st c = Inr st' \<Longrightarrow> same_totals st st'"
  "MintDebtCoins S st n d co = Inr st' \<Longrightarrow> same_totals st st'"
  by (auto simp: same_totals_def SetCDP_def IndexCdpByCollateralRatio_def RemoveCdpCollateralRatioIndex_def hook_modified_def hook_created_def MintDebtCoins_def
      set_bank_def split: option.splits)

lemma same_totals_updates:
  "SetCdpAndCollateralRatioIndex st c r = Inr st' \<Longrightarrow> same_totals st st'"
  "UpdateCdpAndCollateralRatioIndex m st c r = Inr st' \<Longrightarrow> same_totals st st'"
  unfolding SetCdpAndCollateralRatioIndex_def UpdateCdpAndCollateralRatioIndex_def removeOldCollateralRatioIndex_def
  by (auto split: option.splits dest!: same_totals_results(1-3) intro: same_totals_trans)

lemma same_totals_sync: "SynchronizeInterest m now st c = Inr (st', c') \<Longrightarrow> same_totals st st'"
proof (elim SynchronizeInterest_cases)
  assume "SetCDP (SetInterestFactor st (c_Type c) OneDec) c' = Inr st'"
  then show ?thesis using same_totals_trans [OF same_totals_stores(3) same_totals_results(1)] by blast
next
  fix prev ratio st1 assume "st1 = st \<or> SetCDP st (c\<lparr>c_FeesUpdated := prev\<rparr>) = Inr st1"
    "UpdateCdpAndCollateralRatioIndex m st1 c' ratio = Inr st'"
  then show ?thesis by (auto dest!: same_totals_results(1) same_totals_updates(2) intro: same_totals_trans)
qed (simp add: same_totals_def)

lemma ValidateDebtLimit_total:
  assumes "ValidateDebtLimit m st t prin = Inr st1" "GetCollateral st t = Some cp" "same_totals st1 st2" "IncrementTotalPrincipal m st2 t prin = Inr st3"
  shows "\<exists>tot. kv_get (cs_principal st3) (t @ Denom prin) = Some tot \<and> tot \<le> Amount (co_DebtLimit cp) \<and> tot \<le> Amount (GlobalDebtLimit (cs_params st))"
proof -
  obtain tot where g: "GetTotalPrincipal st t (Denom prin) = Inr (st1, tot)" "tot + Amount prin \<le> Amount (co_DebtLimit cp)"
      "tot + Amount prin \<le> Amount (GlobalDebtLimit (cs_params st))"
    using assms(1,2) by (auto simp: ValidateDebtLimit_def not_less split: if_splits)
  have "kv_get (cs_principal st1) (t @ Denom prin) = Some tot"
    using g(1) by (auto simp: GetTotalPrincipal_def SetTotalPrincipal_def split: option.splits)
  then have "kv_get (cs_principal st3) (t @ Denom prin) = Some (tot + Amount prin)"
    using assms(3,4) by (auto simp: same_totals_def IncrementTotalPrincipal_def GetTotalPrincipal_def SetTotalPrincipal_def)
  then show ?thesis using g(2,3) by blast
qed

subsection \<open>What the three operations leave behind\<close>

definition stored :: "('b, 'h) cdp_state \<Rightarrow> CDP \<Rightarrow> bool" where
  "stored st c \<longleftrightarrow> kv_get (cs_cdps st) (CdpKey (c_Type c) (c_ID c)) = Some c"

definition within_debt_limits :: "('b, 'h) cdp_state \<Rightarrow> string \<Rightarrow> denom \<Rightarrow> bool" where
  "within_debt_limits st t d \<longleftrightarrow> (\<exists>tot cp. kv_get (cs_principal st) (t @ d) = Some tot \<and> GetCollateral st t = Some cp \<and>
     tot \<le> Amount (co_DebtLimit cp) \<and> tot \<le> Amount (GlobalDebtLimit (cs_params st)))"

lemma ValidateDebtLimit_collateral: "ValidateDebtLimit m st t prin = Inr st1 \<Longrightarrow> \<exists>cp. GetCollateral st t = Some cp"
  by (auto simp: ValidateDebtLimit_def split: option.splits)

lemma within_debt_limitsI:
  assumes "ValidateDebtLimit m st t prin = Inr st1" "same_totals st1 st2" "IncrementTotalPrincipal m st2 t prin = Inr st3"
    "same_totals st3 st'" "cs_params st' = cs_params st"
  shows "within_debt_limits st' t (Denom prin)"
proof -
  obtain cp where cp: "GetCollateral st t = Some cp" using ValidateDebtLimit_collateral [OF assms(1)] by blast
  show ?thesis
    using ValidateDebtLimit_total [OF assms(1) cp assms(2,3)] cp assms(4,5)
    unfolding within_debt_limits_def same_totals_def params_cong(1) [OF assms(5)] by simp
qed

lemma AddCdp_safe:
  assumes r: "AddCdp E now st owner col prin t = Inr st'"
  shows "\<exists>c. stored st' c \<and> c_Owner c = owner \<and> c_Type c = t \<and> c_Collateral c = col \<and> c_Principal c = prin \<and>
    safe_at (env_math E) st' c spot \<and> within_debt_limits st' t (Denom prin)"
proof -
  obtain st1 fees i c b1 b2 b3 st6 st7 ratio st8 where
      s1: "ValidateDebtLimit (env_math E) st t prin = Inr st1"
      and fees: "NewCoin (env_math E) (Denom prin) 0 = Inr fees" and v: "ValidateCollateralizationRatio (env_math E) st1 col t prin fees = Inr ()"
      and c: "NewCDP (env_math E) i owner col t prin now (snd (factor_or_init st1 t)) = Inr c"
      and s6: "MintDebtCoins (Sdk E) (set_bank b3 (set_bank b2 (set_bank b1 (fst (factor_or_init st1 t))))) cdp_module
        (cs_debtDenom (fst (factor_or_init st1 t))) prin = Inr st6"
      and s7: "IncrementTotalPrincipal (env_math E) st6 t prin = Inr st7" and s8: "SetCdpAndCollateralRatioIndex st7 c ratio = Inr st8"
      and s9: "hook_created E (SetNextCdpID (SetDeposit (IndexCdpByOwner st8 c) (NewDeposit i owner col)) (i + 1)) c = Inr st'"
    using r unfolding AddCdp_def Let_def
    by (auto simp: case_prod_beta split: if_splits)
  have c': "c_Owner c = owner" "c_Type c = t" "c_Collateral c = col" "c_Principal c = prin" "c_AccumulatedFees c = fees"
    using c fees by (auto simp: NewCDP_def)
  have f: "cs_params st' = cs_params st8 \<and> cs_prices st' = cs_prices st8 \<and> cs_cdps st' = cs_cdps st8 \<and> cs_principal st' = cs_principal st8"
    using s9 by (auto simp: hook_created_def SetNextCdpID_def SetDeposit_def IndexCdpByOwner_def Let_def)
  have q7: "cs_params st8 = cs_params st6" "cs_prices st8 = cs_prices st6"
    using quiet_trans [OF quiet_totals(1) [OF s7] quiet_indices(1) [OF s8]] by (simp_all add: quiet_def)
  have q1: "cs_params st1 = cs_params st" "cs_prices st1 = cs_prices st" using quiet_totals(3) [OF s1] by (simp_all add: quiet_def)
  have q6: "cs_params st6 = cs_params st1 \<and> cs_prices st6 = cs_prices st1 \<and> cs_principal st6 = cs_principal st1"
    using s6 by (auto simp: MintDebtCoins_def set_bank_def factor_or_init_def SetInterestFactor_def split: option.splits)
  have "safe_at (env_math E) st1 c spot" by (rule ValidateCollateralizationRatio_safe) (use v c' in simp)
  then have s: "safe_at (env_math E) st' c spot" using safe_at_cong [of st' st1] f q7 q6 by simp
  have "cs_cdps st8 = kv_set (cs_cdps st7) (CdpKey (c_Type c) (c_ID c)) c"
    using s8 by (auto simp: SetCdpAndCollateralRatioIndex_def dest!: stored_simps(1,2))
  then have st: "stored st' c" using f by (simp add: stored_def)
  have "same_totals st1 st6" "same_totals st7 st'"
    using q6 f same_totals_updates(1) [OF s8] by (simp_all add: same_totals_def)
  then have "within_debt_limits st' t (Denom prin)"
    by (rule within_debt_limitsI [OF s1 _ s7]) (use f q7 q6 q1 in simp)
  then show ?thesis using s st c' by blast
qed

lemma AddPrincipal_safe:
  assumes r: "AddPrincipal E now st owner t prin = Inr st'"
  shows "\<exists>c0 c. GetCdpByOwnerAndCollateralType st owner t = Some c0 \<and> stored st' c \<and> c_ID c = c_ID c0 \<and> c_Type c = c_Type c0 \<and>
    c_Collateral c = c_Collateral c0 \<and> Amount (c_Principal c) = Amount (c_Principal c0) + Amount prin \<and>
    safe_at (env_math E) st' c spot \<and> within_debt_limits st' (c_Type c) (Denom prin)"
proof -
  obtain c0 st1 st2 st3 c np b2 b3 st6 st7 ratio where c0: "GetCdpByOwnerAndCollateralType st owner t = Some c0"
      and s1: "ValidateDebtLimit (env_math E) st (c_Type c0) prin = Inr st1" and s2: "hook_modified E st1 c0 = Inr st2"
      and s3: "SynchronizeInterest (env_math E) now st2 c0 = Inr (st3, c)"
      and np: "coin_Add (env_math E) (c_Principal c) prin = Inr np"
      and v: "ValidateCollateralizationRatio (env_math E) st3 (c_Collateral c) (c_Type c) np (c_AccumulatedFees c) = Inr ()"
      and s6: "MintDebtCoins (Sdk E) (set_bank b3 (set_bank b2 st3)) cdp_module (cs_debtDenom st3) prin = Inr st6"
      and s7: "IncrementTotalPrincipal (env_math E) st6 (c_Type c) prin = Inr st7"
      and s8: "UpdateCdpAndCollateralRatioIndex (env_math E) st7 (c\<lparr>c_Principal := np\<rparr>) ratio = Inr st'"
    using r unfolding AddPrincipal_def Let_def
    by (auto simp: case_prod_beta simp del: coin_Add_Inr split: option.split_asm)
  let ?c = "c\<lparr>c_Principal := np\<rparr>"
  note id = SynchronizeInterest_position [OF s3]
  have q3: "cs_params st3 = cs_params st" "cs_prices st3 = cs_prices st"
    using quiet_trans [OF quiet_totals(3) [OF s1] quiet_trans [OF quiet_results(6) [OF s2] quiet_SynchronizeInterest [OF s3]]]
    by (simp_all add: quiet_def)
  have q6: "cs_params st6 = cs_params st3 \<and> cs_prices st6 = cs_prices st3 \<and> cs_principal st6 = cs_principal st3"
    using s6 by (auto simp: MintDebtCoins_def set_bank_def)
  have q8: "cs_params st' = cs_params st6" "cs_prices st' = cs_prices st6"
    using quiet_trans [OF quiet_totals(1) [OF s7] quiet_updates(1) [OF s8]] by (simp_all add: quiet_def)
  have "safe_at (env_math E) st3 ?c spot" by (rule ValidateCollateralizationRatio_safe) (use v in simp)
  then have s: "safe_at (env_math E) st' ?c spot" using safe_at_cong [of st' st3] q6 q8 by simp
  have st: "stored st' ?c" using UpdateCdp_cdps [OF s8] by (simp add: stored_def)
  have "same_totals st1 st6"
    using same_totals_trans [OF same_totals_results(4) [OF s2] same_totals_sync [OF s3]] q6 by (simp add: same_totals_def)
  then have "within_debt_limits st' (c_Type c0) (Denom prin)"
    by (rule within_debt_limitsI [OF s1 _ s7 [unfolded id [THEN conjunct2, THEN conjunct1]] same_totals_updates(2) [OF s8]]) (use q8 q6 q3 in simp)
  then have "within_debt_limits st' (c_Type ?c) (Denom prin)" using id by simp
  moreover have "Amount (c_Principal ?c) = Amount (c_Principal c0) + Amount prin" using np id by auto
  ultimately show ?thesis using c0 s st id by (intro exI [of _ c0] exI [of _ ?c]) simp
qed

lemma WithdrawCollateral_safe:
  assumes r: "WithdrawCollateral E now st owner depositor col t = Inr st'"
  shows "\<exists>c0 c. GetCdpByOwnerAndCollateralType st owner t = Some c0 \<and> stored st' c \<and> c_ID c = c_ID c0 \<and> c_Type c = c_Type c0 \<and>
    c_Principal c = c_Principal c0 \<and> Amount (c_Collateral c) = Amount (c_Collateral c0) - Amount col \<and> safe_at (env_math E) st' c spot"
proof -
  obtain c0 x st1 st2 c nc ratio0 lr b ratio st4 a where c0: "GetCdpByOwnerAndCollateralType st owner t = Some c0"
      and x: "GetDeposit st (c_ID c0) depositor = Some x" "coin_Sub (env_math E) (d_Amount x) col = Inr a"
      and s1: "hook_modified E st c0 = Inr st1" and s2: "SynchronizeInterest (env_math E) now st1 c0 = Inr (st2, c)"
      and nc: "coin_Sub (env_math E) (c_Collateral c) col = Inr nc"
      and v: "CalculateCollateralizationRatio (env_math E) st2 nc (c_Type c) (c_Principal c) (c_AccumulatedFees c) spot = Inr ratio0"
        "getLiquidationRatio st2 (c_Type c) = Inr lr" "\<not> ratio0 < lr"
      and s4: "UpdateCdpAndCollateralRatioIndex (env_math E) (set_bank b st2) (c\<lparr>c_Collateral := nc\<rparr>) ratio = Inr st4"
      and fin: "st' = (if Amount a = 0 then DeleteDeposit st4 (d_CdpID x) (d_Depositor x) else SetDeposit st4 (x\<lparr>d_Amount := a\<rparr>))"
    using r unfolding WithdrawCollateral_def Let_def
    by (auto simp: case_prod_beta simp del: coin_Sub_Inr split: option.split_asm if_split_asm)
  let ?c = "c\<lparr>c_Collateral := nc\<rparr>"
  note id = SynchronizeInterest_position [OF s2]
  have f: "cs_params st' = cs_params st4 \<and> cs_prices st' = cs_prices st4 \<and> cs_cdps st' = cs_cdps st4"
    by (simp add: fin DeleteDeposit_def SetDeposit_def)
  have q4: "cs_params st4 = cs_params st2" "cs_prices st4 = cs_prices st2" using quiet_updates(1) [OF s4] by (simp_all add: quiet_def set_bank_def)
  have "safe_at (env_math E) st2 ?c spot" using v by (simp add: safe_at_def not_less)
  then have s: "safe_at (env_math E) st' ?c spot" using safe_at_cong [of st' st2] f q4 by simp
  have "stored st' ?c" using UpdateCdp_cdps [OF s4] f by (simp add: stored_def)
  moreover have "Amount (c_Collateral ?c) = Amount (c_Collateral c0) - Amount col" using nc id by auto
  ultimately show ?thesis using c0 s id by (intro exI [of _ c0] exI [of _ ?c]) simp
qed

section \<open>Liquidation\<close>

definition unsafe_at :: "sdk_math \<Rightarrow> ('b, 'h) cdp_state \<Rightarrow> CDP \<Rightarrow> pricefeedType \<Rightarrow> bool" where
  "unsafe_at m st c pf \<longleftrightarrow> (\<exists>r lr. CalculateCollateralizationRatio m st (c_Collateral c) (c_Type c) (c_Principal c) (c_AccumulatedFees c) pf = Inr r \<and>
     getLiquidationRatio st (c_Type c) = Inr lr \<and> r < lr)"

definition gone :: "('b, 'h) cdp_state \<Rightarrow> CDP \<Rightarrow> bool" where
  "gone st c \<longleftrightarrow> kv_get (cs_cdps st) (CdpKey (c_Type c) (c_ID c)) = None \<and> GetDeposits st (c_ID c) = [] \<and>
     (\<forall>ids. GetCdpIdsByOwner st (c_Owner c) = Some ids \<longrightarrow> c_ID c \<notin> set ids)"

lemma kv_get_dels: "kv_get (fold (\<lambda>x s. kv_del s (key x)) xs s) k = (if k \<in> key ` set xs then None else kv_get s k)"
  by (induction xs arbitrary: s) auto

lemma deposits_cleared:
  assumes ok: "deposits_ok st" and ok': "deposits_ok st'"
    and d: "cs_deposits st' = fold (\<lambda>x s. kv_del s (DepositKey i (d_Depositor x))) (GetDeposits st i) (cs_deposits st)"
  shows "GetDeposits st' i = []"
proof (rule ccontr)
  assume "GetDeposits st' i \<noteq> []"
  then obtain x where "x \<in> set (GetDeposits st' i)" by (meson list.set_sel(1))
  then have x: "GetDeposit st' i (d_Depositor x) = Some x" using GetDeposits_entries [OF ok'] by blast
  then have "GetDeposit st i (d_Depositor x) = Some x" "DepositKey i (d_Depositor x) \<notin> (\<lambda>x. DepositKey i (d_Depositor x)) ` set (GetDeposits st i)"
    by (auto simp: GetDeposit_def d kv_get_dels split: if_splits)
  then show False using GetDeposits_iff [OF ok, of x i] by blast
qed

lemma RemoveCdpOwnerIndex_gone:
  "GetCdpIdsByOwner (RemoveCdpOwnerIndex st c) (c_Owner c) = Some ids \<Longrightarrow> c_ID c \<notin> set ids"
  by (auto simp: RemoveCdpOwnerIndex_def GetCdpIdsByOwner_def Let_def split: option.splits if_splits)

lemma SeizeCollateral_gone:
  assumes S: "sdk_laws (Sdk E)" and ok: "deposits_ok st" and r: "SeizeCollateral E st c = Inr st'"
  shows "gone st' c"
  using r unfolding SeizeCollateral_def Let_def
proof (elim bndE, goal_cases)
  case (1 oldRatio tp md dc dcs st1 st2 st3 st4 st5)
  obtain b1 where b1: "st1 = set_bank b1 st" using 1(6) by auto
  have ok1: "deposits_ok st1" using ok b1 by simp
  have g: "GetDeposits st1 (c_ID c) = GetDeposits st (c_ID c)" by (simp add: GetDeposits_def b1)
  note k2 = seize_deposits_books [OF S ok1 g 1(7)]
  have q: "quiet st3 st'"
    using quiet_totals(2) [OF 1(9)] quiet_stores(3) [of st4 c] quiet_results(4) [OF 1(10)] quiet_results(2) [OF 1(11)] quiet_trans by blast
  have e: "cs_deposits st' = cs_deposits st2"
    using q calm_fields(2) [OF AuctionCollateral_calm [OF S 1(8)]] by (simp add: quiet_def)
  have ok2: "deposits_ok st2" using k2 books_kept_ok by blast
  have "GetDeposits st2 (c_ID c) = []"
    by (rule deposits_cleared [OF ok1 ok2]) (use k2 in \<open>simp add: g\<close>)
  then have d: "GetDeposits st' (c_ID c) = []" by (simp add: GetDeposits_def e)
  have "cs_byOwner st' = cs_byOwner (RemoveCdpOwnerIndex st4 c)"
    using 1(10,11) by (auto simp: RemoveCdpCollateralRatioIndex_def DeleteCDP_def split: option.splits)
  then have o: "GetCdpIdsByOwner st' (c_Owner c) = Some ids \<Longrightarrow> c_ID c \<notin> set ids" for ids
    using RemoveCdpOwnerIndex_gone [of st4 c ids] by (simp add: GetCdpIdsByOwner_def)
  have "kv_get (cs_cdps st') (CdpKey (c_Type c) (c_ID c)) = None" using 1(11) by (auto simp: DeleteCDP_def split: option.splits)
  then show ?case unfolding gone_def using d o by blast
qed

lemma payout_position:
  "payoutKeeperLiquidationReward E st keeper c = Inr (st', c') \<Longrightarrow> c_ID c' = c_ID c \<and> c_Type c' = c_Type c \<and> c_Owner c' = c_Owner c"
  by (elim payout_cases) simp_all

lemma AttemptKeeperLiquidation_gone:
  assumes S: "sdk_laws (Sdk E)" and ok: "deposits_ok st" and r: "AttemptKeeperLiquidation E now st keeper owner t = Inr st'"
  shows "\<exists>c0 h st1 c. GetCdpByOwnerAndCollateralType st owner t = Some c0 \<and>
    SynchronizeInterest (env_math E) now (st\<lparr>cs_hooks := h\<rparr>) c0 = Inr (st1, c) \<and> unsafe_at (env_math E) st1 c liquidation \<and> gone st' c0"
proof -
  obtain c0 st1 st2 c st3 c' where c0: "GetCdpByOwnerAndCollateralType st owner t = Some c0"
      and s: "hook_modified E st c0 = Inr st1" "SynchronizeInterest (env_math E) now st1 c0 = Inr (st2, c)"
      "payoutKeeperLiquidationReward E st2 keeper c = Inr (st3, c')" "SeizeCollateral E st3 c' = Inr st'"
      and v: "ValidateLiquidation (env_math E) st2 (c_Collateral c) (c_Type c) (c_Principal c) (c_AccumulatedFees c) = Inr ()"
    using r by (auto simp: AttemptKeeperLiquidation_def split: option.splits)
  have "unsafe_at (env_math E) st2 c liquidation" using v by (auto simp: ValidateLiquidation_def unsafe_at_def not_le split: if_splits)
  moreover obtain h where "st1 = st\<lparr>cs_hooks := h\<rparr>" using s(1) by (auto simp: hook_modified_def)
  moreover have "books_kept E st st2" by (rule quiet_books [OF quiet_trans [OF quiet_results(6) [OF s(1)] quiet_SynchronizeInterest [OF s(2)]] ok])
  then have "deposits_ok st3" using payout_books [OF S _ s(3)] books_kept_ok by blast
  then have "gone st' c'" by (rule SeizeCollateral_gone [OF S _ s(4)])
  then have "gone st' c0" using payout_position [OF s(3)] SynchronizeInterest_position [OF s(2)] by (simp add: gone_def)
  ultimately show ?thesis using c0 s(2) by blast
qed

section \<open>Claims about positions\<close>

text \<open>
  C6: Whoever draws debt or withdraws collateral leaves a safe position behind: after a successful
  opening, draw or withdrawal the position in the store has the collateral and the principal that the
  operation asked for, and its collateralization at the spot price is not below the liquidation ratio. After
  an opening or a draw the total principal of the collateral type is within its own and the
  global debt limit.
\<close>

theorem cdp_draws_safe:
  "(AddCdp E now st owner col prin t = Inr st1 \<longrightarrow>
     (\<exists>c. stored st1 c \<and> c_Owner c = owner \<and> c_Type c = t \<and> c_Collateral c = col \<and> c_Principal c = prin \<and>
       safe_at (env_math E) st1 c spot \<and> within_debt_limits st1 t (Denom prin))) \<and>
   (AddPrincipal E now st owner t prin = Inr st2 \<longrightarrow>
     (\<exists>c0 c. GetCdpByOwnerAndCollateralType st owner t = Some c0 \<and> stored st2 c \<and> c_ID c = c_ID c0 \<and> c_Type c = c_Type c0 \<and>
       c_Collateral c = c_Collateral c0 \<and> Amount (c_Principal c) = Amount (c_Principal c0) + Amount prin \<and>
       safe_at (env_math E) st2 c spot \<and> within_debt_limits st2 (c_Type c) (Denom prin))) \<and>
   (WithdrawCollateral E now st owner depositor col t = Inr st3 \<longrightarrow>
     (\<exists>c0 c. GetCdpByOwnerAndCollateralType st owner t = Some c0 \<and> stored st3 c \<and> c_ID c = c_ID c0 \<and> c_Type c = c_Type c0 \<and>
       c_Principal c = c_Principal c0 \<and> Amount (c_Collateral c) = Amount (c_Collateral c0) - Amount col \<and> safe_at (env_math E) st3 c spot))"
  by (intro conjI impI) (erule AddCdp_safe AddPrincipal_safe WithdrawCollateral_safe)+

text \<open>
  C7: A keeper can liquidate only a position that is unsafe: after interest is charged its
  collateralization at the liquidation price is below the liquidation ratio. The liquidation removes the
  position, all its deposits and its entry in the owner's index.
\<close>

theorem cdp_liquidates_unsafe:
  assumes "sdk_laws (Sdk E)" "cdp_reach E bech st" "AttemptKeeperLiquidation E now st keeper owner t = Inr st'"
  shows "\<exists>c0 h st1 c. GetCdpByOwnerAndCollateralType st owner t = Some c0 \<and>
    SynchronizeInterest (env_math E) now (st\<lparr>cs_hooks := h\<rparr>) c0 = Inr (st1, c) \<and> unsafe_at (env_math E) st1 c liquidation \<and> gone st' c0"
  using AttemptKeeperLiquidation_gone [OF assms(1) _ assms(3)] cdp_reach_books [OF assms(1,2)] by blast

subsection \<open>Repaying\<close>








section \<open>Witnesses\<close>

definition ex_drawn :: "(ledger, unit) cdp_state" where
  "ex_drawn = projr (AddPrincipal ex_env ex_time ex_opened ''alice'' ''bnb-a'' (Coin ''usdx'' 10))"

definition ex_cheap :: "(ledger, unit) cdp_state" where
  "ex_cheap = ex_opened\<lparr>cs_auction := cs_auction ex_opened, cs_prices := ex_cdp_prices (OneDec div 2), cs_hooks := ()\<rparr>"

definition ex_seized :: "(ledger, unit) cdp_state" where
  "ex_seized = projr (AttemptKeeperLiquidation ex_env ex_time ex_cheap ''bob'' ''alice'' ''bnb-a'')"


lemma ex_position: "GetCdpByOwnerAndCollateralType ex_opened ''alice'' ''bnb-a'' = Some
    \<lparr>c_ID = 1, c_Owner = ''alice'', c_Type = ''bnb-a'', c_Collateral = Coin ''bnb'' 100, c_Principal = Coin ''usdx'' 50,
      c_AccumulatedFees = Coin ''usdx'' 0, c_FeesUpdated = ex_time, c_InterestFactor = OneDec\<rparr>"
  by code_simp

theorem cdp_draws_safe_witness:
  "(\<exists>c. stored ex_opened c \<and> c_Collateral c = Coin ''bnb'' 100 \<and> safe_at ref_math ex_opened c spot \<and> within_debt_limits ex_opened ''bnb-a'' ''usdx'') \<and>
   (\<exists>c. stored ex_drawn c \<and> Amount (c_Principal c) = 60 \<and> safe_at ref_math ex_drawn c spot)"
proof
  have "AddCdp ex_env ex_time (ex_cdp_state ex_cdp_ledger) ''alice'' (Coin ''bnb'' 100) (Coin ''usdx'' 50) ''bnb-a'' = Inr ex_opened"
    using ex_open_runs(1) by (auto simp: msg_CreateCDP_def)
  then show "\<exists>c. stored ex_opened c \<and> c_Collateral c = Coin ''bnb'' 100 \<and> safe_at ref_math ex_opened c spot \<and> within_debt_limits ex_opened ''bnb-a'' ''usdx''"
    using cdp_draws_safe [THEN conjunct1, THEN mp] by fastforce
  have "AddPrincipal ex_env ex_time ex_opened ''alice'' ''bnb-a'' (Coin ''usdx'' 10) = Inr ex_drawn" by code_simp
  then show "\<exists>c. stored ex_drawn c \<and> Amount (c_Principal c) = 60 \<and> safe_at ref_math ex_drawn c spot"
    using cdp_draws_safe [THEN conjunct2, THEN conjunct1, THEN mp] ex_position by fastforce
qed

lemma ex_reach1: "cdp_reach ex_env Inr ex_opened"
  by (rule cdp_reach.step [OF ex_cdp_reach0 ex_cdp_step])

lemma ex_cheap_reach: "cdp_reach ex_env Inr ex_cheap"
  unfolding ex_cheap_def by (rule cdp_reach.others [OF ex_reach1]) (simp add: cdp_held_def cs_bank_def)

theorem cdp_liquidates_unsafe_witness:
  "\<exists>c0. GetCdpByOwnerAndCollateralType ex_cheap ''alice'' ''bnb-a'' = Some c0 \<and> c_Collateral c0 = Coin ''bnb'' 100 \<and> gone ex_seized c0"
proof -
  have "AttemptKeeperLiquidation ex_env ex_time ex_cheap ''bob'' ''alice'' ''bnb-a'' = Inr ex_seized" by code_simp
  note cdp_liquidates_unsafe [OF ex_env_laws ex_cheap_reach this]
  moreover have "map_option c_Collateral (GetCdpByOwnerAndCollateralType ex_cheap ''alice'' ''bnb-a'') = Some (Coin ''bnb'' 100)"
    by code_simp
  ultimately show ?thesis by auto
qed


end
