(* ===== verification/Sdk_Coins.thy ===== *)
theory Sdk_Coins
  imports Sdk_Reference
begin

text \<open>
  Operations on coin sets that only some modules call: \<open>Coins.Sub\<close>, \<open>Coins.SafeSub\<close>, \<open>Coins.DenomsSubsetOf\<close>,
  \<open>Coins.IsAnyGT\<close> and \<open>Coins.IsZero\<close>. As the other operations on coin sets they belong to the SDK, so they are
  parameters with their documented behaviour on valid coin sets as laws. \<open>SafeSub\<close> returns the difference and whether an
  amount of it is negative. \<open>IsAnyGT\<close> looks only at denominations both sets have: its documentation gives
  \<open>{2A, 3B}.IsAnyGT{5C} = false\<close>.
\<close>

text \<open>
  The second argument of these operations is often a list the caller put together: increasing denominations with
  amounts that may be zero. Zero amounts never appear in a result, \<open>{2A} + {0B} = {2A}\<close> in the documentation of \<open>Add\<close>.
\<close>

definition coins_Loose :: "sdk_math \<Rightarrow> coins \<Rightarrow> bool" where
  "coins_Loose m cs \<longleftrightarrow>
     sorted_wrt (<) (map Denom cs) \<and> (\<forall>c\<in>set cs. 0 \<le> Amount c \<and> ValidDenom m (Denom c))"

lemma coins_Valid_Loose: "coins_Valid m cs \<Longrightarrow> coins_Loose m cs"
  by (auto simp: coins_Valid_def coins_Loose_def)

lemma coins_Loose_single [simp]: "coins_Loose m [c] \<longleftrightarrow> 0 \<le> Amount c \<and> ValidDenom m (Denom c)"
  by (simp add: coins_Loose_def)

definition coins_add_loose_law :: "'b sdk \<Rightarrow> bool" where
  "coins_add_loose_law S \<longleftrightarrow>
     (\<forall>a b r. CoinsAdd S a b = Inr r \<longrightarrow> coins_Valid (Math S) a \<longrightarrow> coins_Loose (Math S) b \<longrightarrow>
        coins_Valid (Math S) r \<and> (\<forall>d. AmountOf r d = AmountOf a d + AmountOf b d))"

lemma CoinsAdd_loose:
  assumes "coins_add_loose_law S" "coins_Valid (Math S) a" "coins_Loose (Math S) b" "CoinsAdd S a b = Inr r"
  shows "coins_Valid (Math S) r" "AmountOf r d = AmountOf a d + AmountOf b d"
  using assms unfolding coins_add_loose_law_def by blast+

record coin_ops =
  CoinsSub :: "coins \<Rightarrow> coins \<Rightarrow> coins result"
  DenomsSubsetOf :: "coins \<Rightarrow> coins \<Rightarrow> bool result"
  CoinsSafeSub :: "coins \<Rightarrow> coins \<Rightarrow> (coins \<times> bool) result"
  CoinsIsAnyGT :: "coins \<Rightarrow> coins \<Rightarrow> bool result"

definition coins_sub_law :: "sdk_math \<Rightarrow> coin_ops \<Rightarrow> bool" where
  "coins_sub_law m C \<longleftrightarrow>
     (\<forall>a b r. CoinsSub C a b = Inr r \<longrightarrow> coins_Valid m a \<longrightarrow> coins_Loose m b \<longrightarrow>
        coins_Valid m r \<and> (\<forall>d. AmountOf r d = AmountOf a d - AmountOf b d)) \<and>
     (\<forall>a b. coins_Valid m a \<longrightarrow> coins_Valid m b \<longrightarrow> (\<forall>d. AmountOf b d \<le> AmountOf a d) \<longrightarrow>
        (\<exists>r. CoinsSub C a b = Inr r))"

definition denoms_subset_law :: "sdk_math \<Rightarrow> coin_ops \<Rightarrow> bool" where
  "denoms_subset_law m C \<longleftrightarrow>
     (\<forall>a b. coins_Valid m a \<longrightarrow> coins_Valid m b \<longrightarrow>
        DenomsSubsetOf C a b = Inr (Denom ` set a \<subseteq> Denom ` set b))"

definition safe_sub_law :: "sdk_math \<Rightarrow> coin_ops \<Rightarrow> bool" where
  "safe_sub_law m C \<longleftrightarrow>
     (\<forall>a b. coins_Valid m a \<longrightarrow> coins_Loose m b \<longrightarrow>
        (\<exists>r. CoinsSafeSub C a b = Inr (r, \<exists>d. AmountOf a d < AmountOf b d) \<and>
           ((\<forall>d. AmountOf b d \<le> AmountOf a d) \<longrightarrow> CoinsSub C a b = Inr r)))"

definition any_gt_law :: "sdk_math \<Rightarrow> coin_ops \<Rightarrow> bool" where
  "any_gt_law m C \<longleftrightarrow>
     (\<forall>a b. coins_Valid m a \<longrightarrow> coins_Valid m b \<longrightarrow>
        CoinsIsAnyGT C a b = Inr (\<exists>d. AmountOf b d < AmountOf a d \<and> AmountOf b d \<noteq> 0))"

definition coin_ops_laws :: "sdk_math \<Rightarrow> coin_ops \<Rightarrow> bool" where
  "coin_ops_laws m C \<longleftrightarrow> coins_sub_law m C \<and> denoms_subset_law m C \<and> safe_sub_law m C \<and> any_gt_law m C"

lemma CoinsSub_loose:
  assumes "coin_ops_laws m C" "coins_Valid m a" "coins_Loose m b" "CoinsSub C a b = Inr r"
  shows "coins_Valid m r" "AmountOf r d = AmountOf a d - AmountOf b d"
  using assms unfolding coin_ops_laws_def coins_sub_law_def by blast+

lemma CoinsSub_amount:
  assumes "coin_ops_laws m C" "coins_Valid m a" "coins_Valid m b" "CoinsSub C a b = Inr r"
  shows "coins_Valid m r" "AmountOf r d = AmountOf a d - AmountOf b d"
  using CoinsSub_loose [OF assms(1,2) coins_Valid_Loose [OF assms(3)] assms(4)] by blast+

lemma CoinsSub_ok:
  assumes "coin_ops_laws m C" "coins_Valid m a" "coins_Valid m b" "\<And>d. AmountOf b d \<le> AmountOf a d"
  obtains r where "CoinsSub C a b = Inr r"
  using assms unfolding coin_ops_laws_def coins_sub_law_def by blast

lemma DenomsSubsetOf_eq:
  assumes "coin_ops_laws m C" "coins_Valid m a" "coins_Valid m b"
  shows "DenomsSubsetOf C a b = Inr (Denom ` set a \<subseteq> Denom ` set b)"
  using assms unfolding coin_ops_laws_def denoms_subset_law_def by blast

lemma CoinsSafeSub_cases:
  assumes "coin_ops_laws m C" "coins_Valid m a" "coins_Loose m b" "CoinsSafeSub C a b = Inr (r, neg)"
  shows "neg \<longleftrightarrow> (\<exists>d. AmountOf a d < AmountOf b d)"
    "\<not> neg \<Longrightarrow> coins_Valid m r \<and> (\<forall>d. AmountOf r d = AmountOf a d - AmountOf b d)"
proof -
  obtain r' where r': "CoinsSafeSub C a b = Inr (r', \<exists>d. AmountOf a d < AmountOf b d)"
      "(\<forall>d. AmountOf b d \<le> AmountOf a d) \<longrightarrow> CoinsSub C a b = Inr r'"
    using assms(1-3) unfolding coin_ops_laws_def safe_sub_law_def by blast
  then show neg: "neg \<longleftrightarrow> (\<exists>d. AmountOf a d < AmountOf b d)" using assms(4) by simp
  assume "\<not> neg"
  then have "CoinsSub C a b = Inr r" using neg r' assms(4) by (auto simp: not_less)
  then show "coins_Valid m r \<and> (\<forall>d. AmountOf r d = AmountOf a d - AmountOf b d)"
    using CoinsSub_loose [OF assms(1-3)] by blast
qed

lemma CoinsIsAnyGT_eq:
  assumes "coin_ops_laws m C" "coins_Valid m a" "coins_Valid m b"
  shows "CoinsIsAnyGT C a b = Inr (\<exists>d. AmountOf b d < AmountOf a d \<and> AmountOf b d \<noteq> 0)"
  using assms unfolding coin_ops_laws_def any_gt_law_def by blast

text \<open>\<open>Coins.IsZero\<close> holds of coins without a non-zero amount, \<open>Coins.Empty\<close> of the empty list.\<close>

definition coins_IsZero :: "coins \<Rightarrow> bool" where
  "coins_IsZero cs = list_all (\<lambda>c. Amount c = 0) cs"

lemma coins_Valid_IsZero: "coins_Valid m cs \<Longrightarrow> coins_IsZero cs \<longleftrightarrow> cs = []"
  by (cases cs) (auto simp: coins_Valid_def coins_IsZero_def)

text \<open>A request capped by what is available, in every denomination.\<close>

lemma capped_coins:
  assumes "coins_Valid m available" "coins_Valid m request" "Denom ` set request \<subseteq> Denom ` set available"
    "amount = map (\<lambda>c. Coin (Denom c) (min (Amount c) (AmountOf available (Denom c)))) request"
  shows "coins_Valid m amount" "AmountOf amount d = min (AmountOf request d) (AmountOf available d)"
proof -
  have "0 < AmountOf available (Denom c)" if "c \<in> set request" for c
    using that assms(3) AmountOf_valid(2) [OF assms(1), of "Denom c"] by auto
  then show "coins_Valid m amount"
    using assms(2) unfolding assms(4) coins_Valid_def by (auto simp: comp_def)
  have "AmountOf (map (\<lambda>c. Coin (Denom c) (min (Amount c) (AmountOf available (Denom c)))) request) d =
      (if d \<in> Denom ` set request then min (AmountOf request d) (AmountOf available d) else 0)"
    by (induction request) auto
  moreover have "min (AmountOf request d) (AmountOf available d) = 0" if "d \<notin> Denom ` set request"
    using AmountOf_notin [OF that] AmountOf_valid(1) [OF assms(1), of d] by simp
  ultimately show "AmountOf amount d = min (AmountOf request d) (AmountOf available d)"
    unfolding assms(4) by simp
qed

section \<open>A concrete instance\<close>

definition ref_CoinsSub :: "coins \<Rightarrow> coins \<Rightarrow> coins" where
  "ref_CoinsSub xs ys =
     filter (\<lambda>c. Amount c \<noteq> 0)
       (map (\<lambda>d. Coin d (AmountOf xs d - AmountOf ys d)) (sort (remdups (map Denom (xs @ ys)))))"

definition ref_coin_ops :: coin_ops where
  "ref_coin_ops = \<lparr>
     CoinsSub = (\<lambda>a b. let r = ref_CoinsSub a b in
       if list_all (\<lambda>c. 0 \<le> Amount c) r then Inr r else Inl (Panic ''negative coin amount'')),
     DenomsSubsetOf = (\<lambda>a b. Inr (list_all (\<lambda>d. d \<in> set (map Denom b)) (map Denom a))),
     CoinsSafeSub = (\<lambda>a b. let r = ref_CoinsSub a b in Inr (r, list_ex (\<lambda>c. Amount c < 0) r)),
     CoinsIsAnyGT = (\<lambda>a b. Inr (list_ex (\<lambda>c. AmountOf b (Denom c) < AmountOf a (Denom c) \<and> AmountOf b (Denom c) \<noteq> 0) (a @ b)))\<rparr>"

lemma ref_CoinsSub_amount: "AmountOf (ref_CoinsSub xs ys) d = AmountOf xs d - AmountOf ys d"
  using AmountOf_notin [of d xs] AmountOf_notin [of d ys] by (auto simp: ref_CoinsSub_def AmountOf_filter_map)

lemma ref_CoinsSub_valid:
  assumes "coins_Valid m xs" "coins_Loose m ys" "list_all (\<lambda>c. 0 \<le> Amount c) (ref_CoinsSub xs ys)"
  shows "coins_Valid m (ref_CoinsSub xs ys)"
proof -
  have "0 \<le> AmountOf xs e - AmountOf ys e \<and> ValidDenom m e" if e: "e \<in> set (map Denom (xs @ ys))" for e
  proof
    show "0 \<le> AmountOf xs e - AmountOf ys e"
    proof (cases "AmountOf xs e = AmountOf ys e")
      case False
      then have "Coin e (AmountOf xs e - AmountOf ys e) \<in> set (ref_CoinsSub xs ys)" using e by (simp add: ref_CoinsSub_def)
      then show ?thesis using assms(3) by (force simp: list_all_iff)
    qed simp
    show "ValidDenom m e" using e assms(1,2) by (auto simp: coins_Valid_def coins_Loose_def)
  qed
  then show ?thesis unfolding ref_CoinsSub_def by (rule filter_map_valid)
qed

lemma ref_CoinsSub_negative: "list_ex (\<lambda>c. Amount c < 0) (ref_CoinsSub a b) \<longleftrightarrow> (\<exists>d. AmountOf a d < AmountOf b d)"
proof
  assume "list_ex (\<lambda>c. Amount c < 0) (ref_CoinsSub a b)"
  then show "\<exists>d. AmountOf a d < AmountOf b d" by (auto simp: list_ex_iff ref_CoinsSub_def)
next
  assume "\<exists>d. AmountOf a d < AmountOf b d"
  then obtain d where d: "AmountOf a d < AmountOf b d" by blast
  then have "d \<in> set (map Denom (a @ b))" using AmountOf_notin [of d a] AmountOf_notin [of d b] by force
  then have "Coin d (AmountOf a d - AmountOf b d) \<in> set (ref_CoinsSub a b)" using d by (simp add: ref_CoinsSub_def)
  then show "list_ex (\<lambda>c. Amount c < 0) (ref_CoinsSub a b)" using d by (auto simp: list_ex_iff intro!: bexI)
qed

theorem ref_coin_ops_laws: "coin_ops_laws m ref_coin_ops"
proof -
  have "0 \<le> Amount c" if "c \<in> set (ref_CoinsSub a b)" "\<forall>d. AmountOf b d \<le> AmountOf a d" for a b c
    using that by (auto simp: ref_CoinsSub_def)
  then have "coins_sub_law m ref_coin_ops"
    using ref_CoinsSub_valid [of m] unfolding coins_sub_law_def
    by (auto simp: ref_coin_ops_def Let_def ref_CoinsSub_amount list_all_iff)
  moreover have "denoms_subset_law m ref_coin_ops"
    unfolding denoms_subset_law_def by (auto simp: ref_coin_ops_def list_all_iff)
  moreover have "safe_sub_law m ref_coin_ops"
  proof -
    have "list_ex (\<lambda>c. Amount c < 0) (ref_CoinsSub a b) \<longleftrightarrow> (\<exists>d. AmountOf a d < AmountOf b d)" for a b
      using ref_CoinsSub_negative by blast
    then show ?thesis
      unfolding safe_sub_law_def by (auto simp: ref_coin_ops_def Let_def list_all_iff ref_CoinsSub_def)
  qed
  moreover have "any_gt_law m ref_coin_ops"
    unfolding any_gt_law_def
  proof (intro allI impI)
    fix a b
    have "d \<in> Denom ` set (a @ b)" if "AmountOf b d < AmountOf a d" "AmountOf b d \<noteq> 0" for d
      using that AmountOf_notin [of d b] by auto
    then show "CoinsIsAnyGT ref_coin_ops a b = Inr (\<exists>d. AmountOf b d < AmountOf a d \<and> AmountOf b d \<noteq> 0)"
      by (auto simp: ref_coin_ops_def list_ex_iff)
  qed
  ultimately show ?thesis by (simp add: coin_ops_laws_def)
qed

theorem ref_add_loose_law: "coins_add_loose_law ref_sdk"
proof -
  have "CoinsAdd ref_sdk a b = Inr (ref_CoinsAdd a b)" for a b by (simp add: ref_sdk_def)
  then show ?thesis
    unfolding coins_add_loose_law_def coins_Loose_def using ref_CoinsAdd_loose [of "Math ref_sdk"] by auto
qed

end
