(* ===== verification/Savings.thy ===== *)
theory Savings
  imports Sdk_Coins Ordered_Store
begin

text \<open>
  The savings module, \<open>x/savings\<close>: deposits of supported coins (\<open>keeper/deposit.go\<close>,
  \<open>keeper/withdraw.go\<close>, \<open>keeper/keeper.go\<close>, \<open>keeper/params.go\<close>, \<open>keeper/hooks.go\<close>), the invariants it
  registers (\<open>keeper/invariants.go\<close>), messages and genesis. A supported denomination may stand for all
  derivatives of staked coins; which denominations those are is decided by \<open>x/liquid\<close>
  (\<open>types/key.go\<close>, \<open>IsDerivativeDenom\<close> of \<open>keeper/derivative.go\<close>), modelled first, over the validators of the staking
  module of the SDK. The state \<open>'h\<close> is that of the staking module and of whoever registered the hooks.
\<close>

section \<open>Denominations of derivatives\<close>

definition DefaultDerivativeDenom :: denom where "DefaultDerivativeDenom = ''bkava''"

text \<open>\<open>valbech\<close> is \<open>sdk.ValAddressFromBech32\<close>, \<open>valstr\<close> is \<open>ValAddress.String\<close>.\<close>

definition GetLiquidStakingTokenDenom :: "(address \<Rightarrow> string) \<Rightarrow> denom \<Rightarrow> address \<Rightarrow> denom" where
  "GetLiquidStakingTokenDenom valstr bondDenom valAddr = bondDenom @ CHR ''-'' # valstr valAddr"

definition ParseLiquidStakingTokenDenom :: "(string \<Rightarrow> address result) \<Rightarrow> denom \<Rightarrow> address result" where
  "ParseLiquidStakingTokenDenom valbech d =
     (case strings_Split (CHR ''-'') d of
        [e0, e1] \<Rightarrow>
          if e0 \<noteq> DefaultDerivativeDenom then Inl (Err ''invalid denom prefix'')
          else (case valbech e1 of
              Inl (Err e) \<Rightarrow> Inl (Err ''invalid denom validator address'')
            | Inl (Panic e) \<Rightarrow> Inl (Panic e)
            | Inr addr \<Rightarrow> Inr addr)
      | _ \<Rightarrow> Inl (Err ''cannot parse denom''))"

definition IsDerivativeDenom :: "(string \<Rightarrow> address result) \<Rightarrow> (address \<Rightarrow> bool) \<Rightarrow> denom \<Rightarrow> bool result" where
  \<comment> \<open>\<open>found\<close> is the second result of \<open>stakingKeeper.GetValidator\<close>\<close>
  "IsDerivativeDenom valbech found d =
     (case ParseLiquidStakingTokenDenom valbech d of
        Inl (Err e) \<Rightarrow> Inr False
      | Inl (Panic e) \<Rightarrow> Inl (Panic e)
      | Inr valAddr \<Rightarrow> Inr (found valAddr))"

section \<open>Deposits and parameters\<close>

record savings_deposit =
  sd_Depositor :: address
  sd_Amount :: coins

definition savings_deposit_Validate :: "sdk_math \<Rightarrow> savings_deposit \<Rightarrow> unit result" where
  "savings_deposit_Validate m d =
     (if sd_Depositor d = [] then Inl (Err ''depositor cannot be empty'')
      else if \<not> coins_Valid m (sd_Amount d) then Inl (Err ''invalid deposit coins'')
      else Inr ())"

fun check_savings_deposits :: "sdk_math \<Rightarrow> address list \<Rightarrow> savings_deposit list \<Rightarrow> unit result" where
  \<comment> \<open>the map of the source is keyed by the text of an address, which determines the address\<close>
  "check_savings_deposits m seen [] = Inr ()"
| "check_savings_deposits m seen (d # ds) =
     bnd (savings_deposit_Validate m d) (\<lambda>_.
     if sd_Depositor d \<in> set seen then Inl (Err ''duplicate depositor'')
     else check_savings_deposits m (sd_Depositor d # seen) ds)"

definition savings_deposits_Validate :: "sdk_math \<Rightarrow> savings_deposit list \<Rightarrow> unit result" where
  "savings_deposits_Validate m ds = check_savings_deposits m [] ds"

fun check_supported_denoms :: "denom list \<Rightarrow> denom list \<Rightarrow> unit result" where
  "check_supported_denoms seen [] = Inr ()"
| "check_supported_denoms seen (d # ds) =
     (if d \<in> set seen then Inl (Err ''duplicated denom'') else check_supported_denoms (d # seen) ds)"

definition validateSupportedDenoms :: "denom list \<Rightarrow> unit result" where
  "validateSupportedDenoms ds = check_supported_denoms [] ds"

section \<open>The keeper\<close>

record 'h savings_hooks =
  AfterSavingsDepositCreated :: "'h \<Rightarrow> savings_deposit \<Rightarrow> 'h result"
  BeforeSavingsDepositModified :: "'h \<Rightarrow> savings_deposit \<Rightarrow> denom list \<Rightarrow> 'h result"

record ('b, 'h) savings_env =
  se_sdk :: "'b sdk"
  se_coins :: coin_ops
  se_valbech :: "string \<Rightarrow> address result"
  se_validator :: "'h \<Rightarrow> address \<Rightarrow> bool"
  se_hooks :: "'h savings_hooks option"

record ('b, 'h) savings_state =
  sv_denoms :: "denom list"
  sv_deposits :: "(address, savings_deposit) kv"
  sv_bank :: 'b
  sv_others :: 'h

abbreviation se_math :: "('b, 'h) savings_env \<Rightarrow> sdk_math" where "se_math E \<equiv> Math (se_sdk E)"

definition savings_module :: string where "savings_module = ''savings''"

definition savings_GetDeposit :: "('b, 'h) savings_state \<Rightarrow> address \<Rightarrow> savings_deposit option" where
  "savings_GetDeposit st depositor = kv_get (sv_deposits st) depositor"

definition savings_SetDeposit :: "('b, 'h) savings_state \<Rightarrow> savings_deposit \<Rightarrow> ('b, 'h) savings_state" where
  "savings_SetDeposit st d = st\<lparr>sv_deposits := kv_set (sv_deposits st) (sd_Depositor d) d\<rparr>"

definition savings_DeleteDeposit :: "('b, 'h) savings_state \<Rightarrow> savings_deposit \<Rightarrow> ('b, 'h) savings_state" where
  "savings_DeleteDeposit st d = st\<lparr>sv_deposits := kv_del (sv_deposits st) (sd_Depositor d)\<rparr>"

definition savings_GetAllDeposits :: "('b, 'h) savings_state \<Rightarrow> savings_deposit list" where
  "savings_GetAllDeposits st = map snd (sv_deposits st)"

definition savings_SetParams :: "('b, 'h) savings_state \<Rightarrow> denom list \<Rightarrow> ('b, 'h) savings_state result" where
  "savings_SetParams st ds = bnd (panic_on_err (validateSupportedDenoms ds)) (\<lambda>_. Inr (st\<lparr>sv_denoms := ds\<rparr>))"

definition GetSavingsModuleAccountBalances :: "('b, 'h) savings_env \<Rightarrow> ('b, 'h) savings_state \<Rightarrow> coins" where
  "GetSavingsModuleAccountBalances E st =
     GetAllBalances (se_sdk E) (sv_bank st) (ModuleAddress (se_sdk E) savings_module)"

definition savings_GetTotalDeposited :: "('b, 'h) savings_env \<Rightarrow> ('b, 'h) savings_state \<Rightarrow> denom \<Rightarrow> int" where
  "savings_GetTotalDeposited E st d = GetBalance (se_sdk E) (sv_bank st) (ModuleAddress (se_sdk E) savings_module) d"

fun denom_supported :: "('b, 'h) savings_env \<Rightarrow> 'h \<Rightarrow> denom \<Rightarrow> denom list \<Rightarrow> bool result" where
  "denom_supported E h d [] = Inr False"
| "denom_supported E h d (s # ss) =
     (if s = d then Inr True
      else if s = DefaultDerivativeDenom then
        bnd (IsDerivativeDenom (se_valbech E) (se_validator E h) d) (\<lambda>derivative.
        if derivative then Inr True else denom_supported E h d ss)
      else denom_supported E h d ss)"

definition savings_IsDenomSupported :: "('b, 'h) savings_env \<Rightarrow> ('b, 'h) savings_state \<Rightarrow> denom \<Rightarrow> bool result" where
  "savings_IsDenomSupported E st d = denom_supported E (sv_others st) d (sv_denoms st)"

definition savings_deposit_created :: "('b, 'h) savings_env \<Rightarrow> ('b, 'h) savings_state \<Rightarrow> savings_deposit \<Rightarrow> ('b, 'h) savings_state result" where
  "savings_deposit_created E st d = (case se_hooks E of
      None \<Rightarrow> Inr st
    | Some H \<Rightarrow> bnd (AfterSavingsDepositCreated H (sv_others st) d) (\<lambda>h. Inr (st\<lparr>sv_others := h\<rparr>)))"

definition savings_deposit_modified ::
    "('b, 'h) savings_env \<Rightarrow> ('b, 'h) savings_state \<Rightarrow> savings_deposit \<Rightarrow> denom list \<Rightarrow> ('b, 'h) savings_state result" where
  "savings_deposit_modified E st d incomingDenoms = (case se_hooks E of
      None \<Rightarrow> Inr st
    | Some H \<Rightarrow> bnd (BeforeSavingsDepositModified H (sv_others st) d incomingDenoms) (\<lambda>h. Inr (st\<lparr>sv_others := h\<rparr>)))"

section \<open>Deposit and withdraw\<close>

definition setDifference :: "string list \<Rightarrow> string list \<Rightarrow> string list" where
  "setDifference a b = filter (\<lambda>x. x \<notin> set b) a"

definition getDenoms :: "coins \<Rightarrow> denom list" where
  "getDenoms cs = map Denom cs"

definition savings_ValidateDeposit :: "('b, 'h) savings_env \<Rightarrow> ('b, 'h) savings_state \<Rightarrow> coins \<Rightarrow> unit result" where
  "savings_ValidateDeposit E st cs =
     foldR (\<lambda>c _. bnd (savings_IsDenomSupported E st (Denom c)) (\<lambda>supported.
       if supported then Inr () else Inl (Err ''ErrInvalidDepositDenom''))) cs ()"

definition savings_Deposit ::
    "('b, 'h) savings_env \<Rightarrow> ('b, 'h) savings_state \<Rightarrow> address \<Rightarrow> coins \<Rightarrow> ('b, 'h) savings_state result" where
  "savings_Deposit E st depositor cs =
     bnd (savings_ValidateDeposit E st cs) (\<lambda>_.
     bnd (SendCoinsFromAccountToModule (se_sdk E) (sv_bank st) depositor savings_module cs) (\<lambda>b.
     let st1 = st\<lparr>sv_bank := b\<rparr>; deposit = \<lparr>sd_Depositor = depositor, sd_Amount = cs\<rparr> in
     case savings_GetDeposit st1 depositor of
       Some currDeposit \<Rightarrow>
         bnd (CoinsAdd (se_sdk E) (sd_Amount deposit) (sd_Amount currDeposit)) (\<lambda>amount.
         let deposit = deposit\<lparr>sd_Amount := amount\<rparr> in
         bnd (savings_deposit_modified E st1 deposit (setDifference (getDenoms cs) (getDenoms (sd_Amount deposit)))) (\<lambda>st2.
         Inr (savings_SetDeposit st2 deposit)))
     | None \<Rightarrow> savings_deposit_created E (savings_SetDeposit st1 deposit) deposit))"

definition savings_CalculateWithdrawAmount :: "sdk_math \<Rightarrow> coin_ops \<Rightarrow> coins \<Rightarrow> coins \<Rightarrow> coins result" where
  "savings_CalculateWithdrawAmount m C available request =
     bnd (DenomsSubsetOf C request available) (\<lambda>sub.
     if \<not> sub then Inl (Err ''ErrInvalidWithdrawDenom'')
     else foldR (\<lambda>c result.
       if \<not> ValidDenom m (Denom c) then Inl (Panic ''invalid denom'')
       else if Amount c > AmountOf available (Denom c)
       then bnd (NewCoin m (Denom c) (AmountOf available (Denom c))) (\<lambda>c'. Inr (result @ [c']))
       else Inr (result @ [c])) request [])"

definition savings_Withdraw ::
    "('b, 'h) savings_env \<Rightarrow> ('b, 'h) savings_state \<Rightarrow> address \<Rightarrow> coins \<Rightarrow> ('b, 'h) savings_state result" where
  "savings_Withdraw E st depositor cs =
     (case savings_GetDeposit st depositor of
        None \<Rightarrow> Inl (Err ''ErrNoDepositFound'')
      | Some deposit \<Rightarrow>
          bnd (savings_CalculateWithdrawAmount (se_math E) (se_coins E) (sd_Amount deposit) cs) (\<lambda>amount.
          bnd (SendCoinsFromModuleToAccount (se_sdk E) (sv_bank st) savings_module depositor amount) (\<lambda>b.
          bnd (CoinsSub (se_coins E) (sd_Amount deposit) amount) (\<lambda>rest.
          let st1 = st\<lparr>sv_bank := b\<rparr>; deposit = deposit\<lparr>sd_Amount := rest\<rparr> in
          if sd_Amount deposit = [] then Inr (savings_DeleteDeposit st1 deposit)
          else Inr (savings_SetDeposit st1 deposit)))))"

section \<open>Invariants the module registers\<close>

text \<open>
  The flag of \<open>DepositsInvariant\<close> is a variable outside the returned function: it is never reset
  between calls. \<open>broken\<close> is its value before the call. \<open>IsAllPositive\<close> is false on an empty list.
\<close>

definition savings_deposit_broken :: "sdk_math \<Rightarrow> savings_deposit \<Rightarrow> bool" where
  "savings_deposit_broken m d \<longleftrightarrow>
     savings_deposit_Validate m d \<noteq> Inr () \<or> sd_Amount d = [] \<or> \<not> list_all (\<lambda>c. 0 < Amount c) (sd_Amount d)"

definition savings_DepositsInvariant :: "sdk_math \<Rightarrow> bool \<Rightarrow> ('b, 'h) savings_state \<Rightarrow> bool" where
  "savings_DepositsInvariant m broken st \<longleftrightarrow> broken \<or> list_ex (savings_deposit_broken m) (savings_GetAllDeposits st)"

definition savings_SolvencyInvariant :: "('b, 'h) savings_env \<Rightarrow> ('b, 'h) savings_state \<Rightarrow> bool result" where
  "savings_SolvencyInvariant E st =
     bnd (foldR (\<lambda>d total. foldR (\<lambda>c total. CoinsAdd (se_sdk E) total [c]) (sd_Amount d) total)
            (savings_GetAllDeposits st) []) (\<lambda>deposited.
     bnd (CoinsIsEqual (se_sdk E) deposited (GetSavingsModuleAccountBalances E st)) (\<lambda>eq.
     Inr (\<not> eq)))"

definition savings_AllInvariants :: "('b, 'h) savings_env \<Rightarrow> ('b, 'h) savings_state \<Rightarrow> bool result" where
  "savings_AllInvariants E st =
     (if savings_DepositsInvariant (se_math E) False st then Inr True else savings_SolvencyInvariant E st)"

section \<open>Messages\<close>

datatype savings_msg =
    SavingsMsgDeposit string coins
  | SavingsMsgWithdraw string coins

definition check_savings_amount :: "sdk_math \<Rightarrow> (string \<Rightarrow> address result) \<Rightarrow> string \<Rightarrow> coins \<Rightarrow> unit result" where
  "check_savings_amount m bech depositor amount =
     (case bech depositor of
        Inl (Err e) \<Rightarrow> Inl (Err ''ErrInvalidAddress'')
      | Inl (Panic e) \<Rightarrow> Inl (Panic e)
      | Inr a \<Rightarrow>
          if \<not> coins_Valid m amount \<or> coins_IsZero amount then Inl (Err ''ErrInvalidCoins'') else Inr ())"

fun savings_ValidateBasic :: "sdk_math \<Rightarrow> (string \<Rightarrow> address result) \<Rightarrow> savings_msg \<Rightarrow> unit result" where
  "savings_ValidateBasic m bech (SavingsMsgDeposit depositor amount) = check_savings_amount m bech depositor amount"
| "savings_ValidateBasic m bech (SavingsMsgWithdraw depositor amount) = check_savings_amount m bech depositor amount"

definition savings_msg_Deposit ::
    "('b, 'h) savings_env \<Rightarrow> (string \<Rightarrow> address result) \<Rightarrow> ('b, 'h) savings_state \<Rightarrow> string \<Rightarrow> coins \<Rightarrow> ('b, 'h) savings_state result" where
  "savings_msg_Deposit E bech st depositor amount = bnd (bech depositor) (\<lambda>a. savings_Deposit E st a amount)"

definition savings_msg_Withdraw ::
    "('b, 'h) savings_env \<Rightarrow> (string \<Rightarrow> address result) \<Rightarrow> ('b, 'h) savings_state \<Rightarrow> string \<Rightarrow> coins \<Rightarrow> ('b, 'h) savings_state result" where
  "savings_msg_Withdraw E bech st depositor amount = bnd (bech depositor) (\<lambda>a. savings_Withdraw E st a amount)"

text \<open>A message is checked by \<open>ValidateBasic\<close> before it reaches the message server.\<close>

fun savings_serve ::
    "('b, 'h) savings_env \<Rightarrow> (string \<Rightarrow> address result) \<Rightarrow> ('b, 'h) savings_state \<Rightarrow> savings_msg \<Rightarrow> ('b, 'h) savings_state result" where
  "savings_serve E bech st (SavingsMsgDeposit depositor amount) = savings_msg_Deposit E bech st depositor amount"
| "savings_serve E bech st (SavingsMsgWithdraw depositor amount) = savings_msg_Withdraw E bech st depositor amount"

definition savings_handle ::
    "('b, 'h) savings_env \<Rightarrow> (string \<Rightarrow> address result) \<Rightarrow> ('b, 'h) savings_state \<Rightarrow> savings_msg \<Rightarrow> ('b, 'h) savings_state result" where
  "savings_handle E bech st msg = bnd (savings_ValidateBasic (se_math E) bech msg) (\<lambda>_. savings_serve E bech st msg)"

section \<open>Genesis\<close>

record savings_genesis =
  svg_Denoms :: "denom list"
  svg_Deposits :: "savings_deposit list"

definition savings_genesis_Validate :: "sdk_math \<Rightarrow> savings_genesis \<Rightarrow> unit result" where
  "savings_genesis_Validate m gs =
     bnd (validateSupportedDenoms (svg_Denoms gs)) (\<lambda>_. savings_deposits_Validate m (svg_Deposits gs))"

definition savings_InitGenesis :: "('b, 'h) savings_env \<Rightarrow> ('b, 'h) savings_state \<Rightarrow> savings_genesis \<Rightarrow> ('b, 'h) savings_state result" where
  "savings_InitGenesis E st gs =
     bnd (panic_on_err (savings_genesis_Validate (se_math E) gs)) (\<lambda>_.
     bnd (savings_SetParams st (svg_Denoms gs)) (\<lambda>st1.
     let st2 = fold (\<lambda>d st. savings_SetDeposit st d) (svg_Deposits gs) st1 in
     if \<not> HasModuleAccount (se_sdk E) (sv_bank st2) savings_module
     then Inl (Panic ''module account has not been set'') else Inr st2))"

definition savings_ExportGenesis :: "('b, 'h) savings_state \<Rightarrow> savings_genesis" where
  "savings_ExportGenesis st = \<lparr>svg_Denoms = sv_denoms st, svg_Deposits = savings_GetAllDeposits st\<rparr>"

end
