(* ===== verification/Savings_Safety.thy ===== *)
theory Savings_Safety
  imports Savings
begin

text \<open>
  Properties of the savings module: the module account holds exactly the deposits in every state
  reachable from a solvent genesis, so that the registered invariants never fire; what deposits and
  withdrawals do to every balance and every record; and that the export of a state restores it.
\<close>

section \<open>The invariant\<close>

definition savings_record_ok :: "sdk_math \<Rightarrow> address \<Rightarrow> savings_deposit \<Rightarrow> bool" where
  "savings_record_ok m a d \<longleftrightarrow> sd_Depositor d = a \<and> a \<noteq> [] \<and> coins_Valid m (sd_Amount d) \<and> sd_Amount d \<noteq> []"

definition savings_wf :: "sdk_math \<Rightarrow> ('b, 'h) savings_state \<Rightarrow> bool" where
  "savings_wf m st \<longleftrightarrow> kv_ok (sv_deposits st) \<and>
     (\<forall>a d. kv_get (sv_deposits st) a = Some d \<longrightarrow> savings_record_ok m a d)"

definition savings_total :: "('b, 'h) savings_state \<Rightarrow> denom \<Rightarrow> int" where
  "savings_total st d = (\<Sum>(a, dep)\<leftarrow>sv_deposits st. AmountOf (sd_Amount dep) d)"

definition savings_inv :: "('b, 'h) savings_env \<Rightarrow> ('b, 'h) savings_state \<Rightarrow> bool" where
  "savings_inv E st \<longleftrightarrow> savings_wf (se_math E) st \<and> (\<forall>d. savings_GetTotalDeposited E st d = savings_total st d)"

definition deposit_of :: "('b, 'h) savings_state \<Rightarrow> address \<Rightarrow> denom \<Rightarrow> int" where
  "deposit_of st a d = (case savings_GetDeposit st a of None \<Rightarrow> 0 | Some dep \<Rightarrow> AmountOf (sd_Amount dep) d)"

definition env_laws :: "('b, 'h) savings_env \<Rightarrow> bool" where
  "env_laws E \<longleftrightarrow> sdk_laws (se_sdk E) \<and> coin_ops_laws (se_math E) (se_coins E)"

lemma savings_wfD:
  assumes "savings_wf m st"
  shows "kv_ok (sv_deposits st)" "kv_get (sv_deposits st) a = Some d \<Longrightarrow> savings_record_ok m a d"
  using assms by (auto simp: savings_wf_def)

lemma savings_wf_set:
  "savings_wf m st \<Longrightarrow> savings_record_ok m (sd_Depositor d) d \<Longrightarrow> savings_wf m (savings_SetDeposit st d)"
  by (auto simp: savings_wf_def savings_SetDeposit_def)

lemma savings_wf_delete: "savings_wf m st \<Longrightarrow> savings_wf m (savings_DeleteDeposit st d)"
  by (auto simp: savings_wf_def savings_DeleteDeposit_def)

lemma savings_total_set:
  "kv_ok (sv_deposits st) \<Longrightarrow> savings_total (savings_SetDeposit st dep) d =
     savings_total st d - deposit_of st (sd_Depositor dep) d + AmountOf (sd_Amount dep) d"
  unfolding savings_total_def savings_SetDeposit_def deposit_of_def savings_GetDeposit_def
  by (simp add: kv.total_put split: option.split)

lemma savings_total_delete:
  "kv_ok (sv_deposits st) \<Longrightarrow> savings_total (savings_DeleteDeposit st dep) d =
     savings_total st d - deposit_of st (sd_Depositor dep) d"
  unfolding savings_total_def savings_DeleteDeposit_def deposit_of_def savings_GetDeposit_def
  by (simp add: kv.total_del split: option.split)

lemma deposit_of_set:
  "deposit_of (savings_SetDeposit st dep) a d =
     (if a = sd_Depositor dep then AmountOf (sd_Amount dep) d else deposit_of st a d)"
  and deposit_of_delete:
  "deposit_of (savings_DeleteDeposit st dep) a d = (if a = sd_Depositor dep then 0 else deposit_of st a d)"
  by (simp_all add: deposit_of_def savings_SetDeposit_def savings_DeleteDeposit_def savings_GetDeposit_def)

lemma deposit_of_nonneg:
  assumes "savings_wf m st"
  shows "0 \<le> deposit_of st a d"
proof (cases "savings_GetDeposit st a")
  case (Some dep)
  then have "coins_Valid m (sd_Amount dep)"
    using savings_wfD(2) [OF assms] by (simp add: savings_GetDeposit_def savings_record_ok_def)
  then show ?thesis using AmountOf_valid(1) Some by (simp add: deposit_of_def)
qed (simp add: deposit_of_def)

text \<open>Parts of a state the records do not depend on.\<close>

lemma savings_frame [simp]:
  "savings_wf m (st\<lparr>sv_bank := b\<rparr>) = savings_wf m st"
  "savings_wf m (st\<lparr>sv_others := h\<rparr>) = savings_wf m st"
  "savings_wf m (st\<lparr>sv_denoms := ds\<rparr>) = savings_wf m st"
  "savings_total (st\<lparr>sv_bank := b\<rparr>) = savings_total st"
  "savings_total (st\<lparr>sv_others := h\<rparr>) = savings_total st"
  "savings_total (st\<lparr>sv_denoms := ds\<rparr>) = savings_total st"
  "deposit_of (st\<lparr>sv_bank := b\<rparr>) = deposit_of st"
  "deposit_of (st\<lparr>sv_others := h\<rparr>) = deposit_of st"
  "deposit_of (st\<lparr>sv_denoms := ds\<rparr>) = deposit_of st"
  "savings_GetTotalDeposited E (st\<lparr>sv_others := h\<rparr>) = savings_GetTotalDeposited E st"
  "savings_GetTotalDeposited E (st\<lparr>sv_denoms := ds\<rparr>) = savings_GetTotalDeposited E st"
  "savings_GetTotalDeposited E (savings_SetDeposit st dep) = savings_GetTotalDeposited E st"
  "savings_GetTotalDeposited E (savings_DeleteDeposit st dep) = savings_GetTotalDeposited E st"
  "sv_bank (savings_SetDeposit st dep) = sv_bank st"
  "sv_bank (savings_DeleteDeposit st dep) = sv_bank st"
  "savings_GetDeposit (st\<lparr>sv_bank := b\<rparr>) = savings_GetDeposit st"
  "kv_ok (sv_deposits (st\<lparr>sv_bank := b\<rparr>)) = kv_ok (sv_deposits st)"
  by (simp_all add: savings_wf_def savings_total_def deposit_of_def savings_GetDeposit_def fun_eq_iff
      savings_GetTotalDeposited_def savings_SetDeposit_def savings_DeleteDeposit_def)

lemma savings_hook_frame:
  assumes "savings_deposit_created E st d = Inr st' \<or> savings_deposit_modified E st d ds = Inr st'"
  obtains h where "st' = st\<lparr>sv_others := h\<rparr>"
proof -
  have "\<exists>h. st' = st\<lparr>sv_others := h\<rparr>"
  proof (cases "se_hooks E")
    case None
    then have "st' = st\<lparr>sv_others := sv_others st\<rparr>"
      using assms by (auto simp: savings_deposit_created_def savings_deposit_modified_def)
    then show ?thesis by blast
  qed (use assms in \<open>auto simp: savings_deposit_created_def savings_deposit_modified_def\<close>)
  then show ?thesis using that by blast
qed

section \<open>Deposit\<close>

text \<open>
  The record grows by the coins and the coins arrive in the module account. The amount of the stored record is
  the sum, so the denominations told to the hook, those of the coins without those of the sum, are none.
\<close>

lemma savings_hook_denoms_empty:
  assumes "sdk_laws S" "coins_Valid (Math S) cs" "coins_Valid (Math S) old" "CoinsAdd S cs old = Inr amount"
  shows "setDifference (getDenoms cs) (getDenoms amount) = []"
proof -
  have "d \<in> Denom ` set amount" if "d \<in> Denom ` set cs" for d
    using that AmountOf_valid(2) [OF assms(2) that] AmountOf_valid(1) [OF assms(3), of d]
      CoinsAdd_amount(2) [OF assms, of d] coins_Valid_denoms [OF CoinsAdd_amount(1) [OF assms]] by auto
  then show ?thesis by (auto simp: setDifference_def getDenoms_def filter_empty_conv)
qed

lemma savings_Deposit_cases:
  assumes "savings_Deposit E st a cs = Inr st'" "env_laws E" "savings_wf (se_math E) st"
    "coins_Valid (se_math E) cs"
  obtains b amount h where
    "SendCoinsFromAccountToModule (se_sdk E) (sv_bank st) a savings_module cs = Inr b"
    "coins_Valid (se_math E) amount" "\<forall>d. AmountOf amount d = AmountOf cs d + deposit_of st a d"
    "st' = savings_SetDeposit (st\<lparr>sv_bank := b, sv_others := h\<rparr>) \<lparr>sd_Depositor = a, sd_Amount = amount\<rparr>"
proof -
  let ?S = "se_sdk E"
  have S: "sdk_laws ?S" using assms(2) by (simp add: env_laws_def)
  obtain b where b: "SendCoinsFromAccountToModule ?S (sv_bank st) a savings_module cs = Inr b"
    using assms(1) unfolding savings_Deposit_def by auto
  show ?thesis
  proof (cases "savings_GetDeposit st a")
    case None
    have "savings_deposit_created E (savings_SetDeposit (st\<lparr>sv_bank := b\<rparr>) \<lparr>sd_Depositor = a, sd_Amount = cs\<rparr>)
        \<lparr>sd_Depositor = a, sd_Amount = cs\<rparr> = Inr st'"
      using assms(1) b None unfolding savings_Deposit_def Let_def by auto
    from savings_hook_frame [OF disjI1 [OF this]] obtain h where
      "st' = (savings_SetDeposit (st\<lparr>sv_bank := b\<rparr>) \<lparr>sd_Depositor = a, sd_Amount = cs\<rparr>)\<lparr>sv_others := h\<rparr>" .
    then have "st' = savings_SetDeposit (st\<lparr>sv_bank := b, sv_others := h\<rparr>) \<lparr>sd_Depositor = a, sd_Amount = cs\<rparr>"
      by (simp add: savings_SetDeposit_def)
    moreover have "\<forall>d. AmountOf cs d = AmountOf cs d + deposit_of st a d" using None by (simp add: deposit_of_def)
    ultimately show ?thesis using that b assms(4) by blast
  next
    case (Some old)
    then have old: "coins_Valid (se_math E) (sd_Amount old)"
      using savings_wfD(2) [OF assms(3)] by (simp add: savings_GetDeposit_def savings_record_ok_def)
    obtain amount st2 where add: "CoinsAdd ?S cs (sd_Amount old) = Inr amount"
      and st2: "savings_deposit_modified E (st\<lparr>sv_bank := b\<rparr>) \<lparr>sd_Depositor = a, sd_Amount = amount\<rparr>
          (setDifference (getDenoms cs) (getDenoms amount)) = Inr st2"
        "st' = savings_SetDeposit st2 \<lparr>sd_Depositor = a, sd_Amount = amount\<rparr>"
      using assms(1) b Some unfolding savings_Deposit_def Let_def by auto
    obtain h where "st2 = st\<lparr>sv_bank := b, sv_others := h\<rparr>" using savings_hook_frame [OF disjI2 [OF st2(1)]] by metis
    moreover have "\<forall>d. AmountOf amount d = AmountOf cs d + deposit_of st a d"
      using CoinsAdd_amount(2) [OF S assms(4) old add] Some by (simp add: deposit_of_def)
    ultimately show ?thesis using that b st2(2) CoinsAdd_amount(1) [OF S assms(4) old add] by blast
  qed
qed

lemma savings_Deposit_inv:
  assumes "savings_Deposit E st a cs = Inr st'" "env_laws E" "savings_inv E st"
    "coins_Valid (se_math E) cs" "cs \<noteq> []" "a \<noteq> []" "a \<noteq> ModuleAddress (se_sdk E) savings_module"
  shows "savings_inv E st'"
proof -
  have wf: "savings_wf (se_math E) st" and bal: "\<And>d. savings_GetTotalDeposited E st d = savings_total st d"
    using assms(3) by (auto simp: savings_inv_def)
  obtain b amount h where b: "SendCoinsFromAccountToModule (se_sdk E) (sv_bank st) a savings_module cs = Inr b"
    and amount: "coins_Valid (se_math E) amount" "\<forall>d. AmountOf amount d = AmountOf cs d + deposit_of st a d"
    and st': "st' = savings_SetDeposit (st\<lparr>sv_bank := b, sv_others := h\<rparr>) \<lparr>sd_Depositor = a, sd_Amount = amount\<rparr>"
    by (rule savings_Deposit_cases [OF assms(1,2) wf assms(4)])
  obtain c where c: "c \<in> set cs" using assms(5) by (cases cs) auto
  have "0 \<le> deposit_of st a (Denom c)" by (rule deposit_of_nonneg [OF wf])
  then have "0 < AmountOf amount (Denom c)"
    using AmountOf_valid(2) [OF assms(4), of "Denom c"] c amount(2) by simp
  then have "amount \<noteq> []" by auto
  then have "savings_wf (se_math E) st'"
    using wf amount(1) assms(6) unfolding st' by (intro savings_wf_set) (simp_all add: savings_record_ok_def)
  moreover have "savings_GetTotalDeposited E st' d = savings_total st' d" for d
  proof -
    have "moved (se_sdk E) (sv_bank st) b a (ModuleAddress (se_sdk E) savings_module) cs"
      using sends(2) assms(2) b by (auto simp: env_laws_def)
    from moved_balance [OF this, of "ModuleAddress (se_sdk E) savings_module" d]
    have "savings_GetTotalDeposited E st' d = savings_GetTotalDeposited E st d + AmountOf cs d"
      using assms(7) unfolding st' by (simp add: savings_GetTotalDeposited_def)
    then show ?thesis
      using amount(2) bal savings_wfD(1) [OF wf] unfolding st' by (simp add: savings_total_set)
  qed
  ultimately show ?thesis by (simp add: savings_inv_def)
qed

section \<open>Withdraw\<close>

text \<open>What is paid is the request capped by the deposit, in every denomination.\<close>

lemma capped_fold:
  assumes "\<forall>c\<in>set request. ValidDenom m (Denom c) \<and> 0 \<le> AmountOf available (Denom c)"
  shows "foldR (\<lambda>c result.
       if \<not> ValidDenom m (Denom c) then Inl (Panic ''invalid denom'')
       else if Amount c > AmountOf available (Denom c)
       then bnd (NewCoin m (Denom c) (AmountOf available (Denom c))) (\<lambda>c'. Inr (result @ [c']))
       else Inr (result @ [c])) request acc =
     Inr (acc @ map (\<lambda>c. Coin (Denom c) (min (Amount c) (AmountOf available (Denom c)))) request)"
  using assms
proof (induction request arbitrary: acc)
  case (Cons c request)
  then have "NewCoin m (Denom c) (AmountOf available (Denom c)) = Inr (Coin (Denom c) (AmountOf available (Denom c)))"
    by simp
  with Cons show ?case by (cases c) (simp add: min_def)
qed simp

lemma savings_CalculateWithdrawAmount_eq:
  assumes "coin_ops_laws m C" "coins_Valid m available" "coins_Valid m request"
  shows "savings_CalculateWithdrawAmount m C available request =
    (if Denom ` set request \<subseteq> Denom ` set available
     then Inr (map (\<lambda>c. Coin (Denom c) (min (Amount c) (AmountOf available (Denom c)))) request)
     else Inl (Err ''ErrInvalidWithdrawDenom''))"
proof -
  have ok: "\<forall>c\<in>set request. ValidDenom m (Denom c) \<and> 0 \<le> AmountOf available (Denom c)"
    using assms(3) AmountOf_valid(1) [OF assms(2)] by (simp add: coins_Valid_def)
  show ?thesis
    unfolding savings_CalculateWithdrawAmount_def DenomsSubsetOf_eq [OF assms(1,3,2)] capped_fold [OF ok] by simp
qed

lemma savings_Withdraw_cases:
  assumes "savings_Withdraw E st a cs = Inr st'" "env_laws E" "savings_wf (se_math E) st"
    "coins_Valid (se_math E) cs"
  obtains b amount rest where
    "SendCoinsFromModuleToAccount (se_sdk E) (sv_bank st) savings_module a amount = Inr b"
    "\<forall>d. AmountOf amount d = min (AmountOf cs d) (deposit_of st a d)"
    "coins_Valid (se_math E) rest" "\<forall>d. AmountOf rest d = deposit_of st a d - AmountOf amount d" "a \<noteq> []"
    "st' = (if rest = [] then savings_DeleteDeposit (st\<lparr>sv_bank := b\<rparr>) \<lparr>sd_Depositor = a, sd_Amount = rest\<rparr>
            else savings_SetDeposit (st\<lparr>sv_bank := b\<rparr>) \<lparr>sd_Depositor = a, sd_Amount = rest\<rparr>)"
proof -
  let ?m = "se_math E"
  have C: "coin_ops_laws ?m (se_coins E)" using assms(2) by (simp add: env_laws_def)
  obtain old where old: "savings_GetDeposit st a = Some old"
    using assms(1) by (auto simp: savings_Withdraw_def split: option.split_asm)
  then have rec: "sd_Depositor old = a" "a \<noteq> []" "coins_Valid ?m (sd_Amount old)"
    using savings_wfD(2) [OF assms(3)] by (simp_all add: savings_GetDeposit_def savings_record_ok_def)
  obtain amount b rest where amount: "savings_CalculateWithdrawAmount ?m (se_coins E) (sd_Amount old) cs = Inr amount"
    and b: "SendCoinsFromModuleToAccount (se_sdk E) (sv_bank st) savings_module a amount = Inr b"
    and rest: "CoinsSub (se_coins E) (sd_Amount old) amount = Inr rest"
    and st': "st' = (if rest = [] then savings_DeleteDeposit (st\<lparr>sv_bank := b\<rparr>) (old\<lparr>sd_Amount := rest\<rparr>)
            else savings_SetDeposit (st\<lparr>sv_bank := b\<rparr>) (old\<lparr>sd_Amount := rest\<rparr>))"
    using assms(1) old unfolding savings_Withdraw_def Let_def by (auto split: if_splits)
  have sub: "Denom ` set cs \<subseteq> Denom ` set (sd_Amount old)"
    and am: "amount = map (\<lambda>c. Coin (Denom c) (min (Amount c) (AmountOf (sd_Amount old) (Denom c)))) cs"
    using amount unfolding savings_CalculateWithdrawAmount_eq [OF C rec(3) assms(4)] by (auto split: if_splits)
  note capped = capped_coins [OF rec(3) assms(4) sub am]
  have old_eq: "old\<lparr>sd_Amount := rest\<rparr> = \<lparr>sd_Depositor = a, sd_Amount = rest\<rparr>" using rec(1) by simp
  have dep: "deposit_of st a = AmountOf (sd_Amount old)" by (simp add: deposit_of_def old fun_eq_iff)
  show ?thesis
    using that [OF b _ CoinsSub_amount(1) [OF C rec(3) capped(1) rest] _ rec(2)] st'
      CoinsSub_amount(2) [OF C rec(3) capped(1) rest] capped(2) unfolding old_eq dep by simp
qed

lemma savings_Withdraw_inv:
  assumes "savings_Withdraw E st a cs = Inr st'" "env_laws E" "savings_inv E st"
    "coins_Valid (se_math E) cs" "a \<noteq> ModuleAddress (se_sdk E) savings_module"
  shows "savings_inv E st'"
proof -
  have wf: "savings_wf (se_math E) st" and bal: "\<And>d. savings_GetTotalDeposited E st d = savings_total st d"
    using assms(3) by (auto simp: savings_inv_def)
  obtain b amount rest where b: "SendCoinsFromModuleToAccount (se_sdk E) (sv_bank st) savings_module a amount = Inr b"
    and rest: "coins_Valid (se_math E) rest" "\<forall>d. AmountOf rest d = deposit_of st a d - AmountOf amount d" "a \<noteq> []"
    and st': "st' = (if rest = [] then savings_DeleteDeposit (st\<lparr>sv_bank := b\<rparr>) \<lparr>sd_Depositor = a, sd_Amount = rest\<rparr>
            else savings_SetDeposit (st\<lparr>sv_bank := b\<rparr>) \<lparr>sd_Depositor = a, sd_Amount = rest\<rparr>)"
    by (rule savings_Withdraw_cases [OF assms(1,2) wf assms(4)])
  have "savings_wf (se_math E) st'"
    using wf rest(1,3) unfolding st'
    by (auto intro!: savings_wf_set savings_wf_delete simp: savings_record_ok_def)
  moreover have "savings_GetTotalDeposited E st' d = savings_total st' d" for d
  proof -
    have "moved (se_sdk E) (sv_bank st) b (ModuleAddress (se_sdk E) savings_module) a amount"
      using sends(3) assms(2) b by (auto simp: env_laws_def)
    from moved_balance [OF this, of "ModuleAddress (se_sdk E) savings_module" d]
    have "savings_GetTotalDeposited E st' d = savings_GetTotalDeposited E st d - AmountOf amount d"
      using assms(5) unfolding st' by (simp add: savings_GetTotalDeposited_def)
    moreover have "rest = [] \<Longrightarrow> deposit_of st a d = AmountOf amount d" using rest(2) by (metis AmountOf.simps(1) eq_iff_diff_eq_0)
    ultimately show ?thesis
      using rest(2) bal savings_wfD(1) [OF wf] unfolding st' by (simp add: savings_total_set savings_total_delete)
  qed
  ultimately show ?thesis by (simp add: savings_inv_def)
qed

section \<open>The registered invariants\<close>

text \<open>Adding up the deposits coin by coin never overflows as long as the totals stay in range.\<close>

lemma add_coins_fold:
  assumes "sdk_laws S" "coins_Valid (Math S) cs" "coins_Valid (Math S) acc"
    "\<And>d. IntInRange (Math S) (AmountOf acc d + AmountOf cs d)"
  shows "\<exists>r. foldR (\<lambda>c total. CoinsAdd S total [c]) cs acc = Inr r \<and> coins_Valid (Math S) r \<and>
    (\<forall>d. AmountOf r d = AmountOf acc d + AmountOf cs d)"
  using assms(2-)
proof (induction cs arbitrary: acc)
  case (Cons c cs)
  have c: "coins_Valid (Math S) [c]" and cs: "coins_Valid (Math S) cs"
    using Cons.prems(1) by (auto simp: coins_Valid_def)
  have "Denom c \<notin> Denom ` set cs" using Cons.prems(1) by (auto simp: coins_Valid_Cons)
  then have amt: "\<And>d. AmountOf (c # cs) d = AmountOf [c] d + AmountOf cs d" by (auto simp: AmountOf_notin)
  have "IntInRange (Math S) (AmountOf acc d + AmountOf [c] d)" for d
    using AmountOf_valid(1) [OF Cons.prems(2), of d] AmountOf_valid(1) [OF c, of d] AmountOf_valid(1) [OF cs, of d]
    by (intro IntInRange_le [OF sdk_lawsD(1) [OF assms(1)] Cons.prems(3) [of d]]) (auto simp only: amt)
  then obtain r1 where r1: "CoinsAdd S acc [c] = Inr r1" "coins_Valid (Math S) r1"
      "\<forall>d. AmountOf r1 d = AmountOf acc d + AmountOf [c] d"
    using CoinsAdd_ok [OF assms(1) Cons.prems(2) c] by blast
  have "IntInRange (Math S) (AmountOf r1 d + AmountOf cs d)" for d
    using Cons.prems(3) [of d] r1(3) unfolding amt by (simp only: add.assoc)
  from Cons.IH [OF cs r1(2) this] obtain r where
    "foldR (\<lambda>c total. CoinsAdd S total [c]) cs r1 = Inr r" "coins_Valid (Math S) r"
    "\<forall>d. AmountOf r d = AmountOf r1 d + AmountOf cs d" by blast
  then show ?case using r1 unfolding amt by (simp only: foldR.simps bnd_Inr add.assoc) simp
qed simp

lemma add_deposits_fold:
  assumes "sdk_laws S" "\<forall>d\<in>set ds. coins_Valid (Math S) (sd_Amount d)" "coins_Valid (Math S) acc"
    "\<And>d. IntInRange (Math S) (AmountOf acc d + (\<Sum>dep\<leftarrow>ds. AmountOf (sd_Amount dep) d))"
  shows "\<exists>r. foldR (\<lambda>d total. foldR (\<lambda>c total. CoinsAdd S total [c]) (sd_Amount d) total) ds acc = Inr r \<and>
    coins_Valid (Math S) r \<and> (\<forall>d. AmountOf r d = AmountOf acc d + (\<Sum>dep\<leftarrow>ds. AmountOf (sd_Amount dep) d))"
  using assms(2-)
proof (induction ds arbitrary: acc)
  case (Cons x ds)
  let ?T = "\<lambda>d. \<Sum>dep\<leftarrow>ds. AmountOf (sd_Amount dep) d"
  have x: "coins_Valid (Math S) (sd_Amount x)" and ds: "\<forall>d\<in>set ds. coins_Valid (Math S) (sd_Amount d)"
    using Cons.prems(1) by auto
  have pos: "0 \<le> ?T d" for d using ds AmountOf_valid(1) by (intro sum_list_nonneg) auto
  have "IntInRange (Math S) (AmountOf acc d + AmountOf (sd_Amount x) d)" for d
    using IntInRange_le [OF sdk_lawsD(1) [OF assms(1)] Cons.prems(3) [of d], of "AmountOf acc d + AmountOf (sd_Amount x) d"]
      AmountOf_valid(1) [OF Cons.prems(2), of d] AmountOf_valid(1) [OF x, of d] pos [of d] by simp
  from add_coins_fold [OF assms(1) x Cons.prems(2) this] obtain r1 where
    r1: "foldR (\<lambda>c total. CoinsAdd S total [c]) (sd_Amount x) acc = Inr r1" "coins_Valid (Math S) r1"
      "\<forall>d. AmountOf r1 d = AmountOf acc d + AmountOf (sd_Amount x) d" by blast
  have "IntInRange (Math S) (AmountOf r1 d + ?T d)" for d
    using Cons.prems(3) [of d] r1(3) by (simp add: add.assoc)
  from Cons.IH [OF ds r1(2) this] show ?case using r1 by (simp add: add.assoc)
qed simp

lemma savings_total_all: "savings_total st d = (\<Sum>dep\<leftarrow>savings_GetAllDeposits st. AmountOf (sd_Amount dep) d)"
  by (simp add: savings_total_def savings_GetAllDeposits_def comp_def case_prod_unfold)

lemma savings_records:
  assumes "savings_wf m st" "dep \<in> set (savings_GetAllDeposits st)"
  shows "savings_record_ok m (sd_Depositor dep) dep"
proof -
  obtain a where "(a, dep) \<in> set (sv_deposits st)" using assms(2) by (auto simp: savings_GetAllDeposits_def)
  then have "kv_get (sv_deposits st) a = Some dep" by (rule kv.entry_iff [OF savings_wfD(1) [OF assms(1)], THEN iffD1])
  from savings_wfD(2) [OF assms(1) this] have ok: "savings_record_ok m a dep" .
  then have "sd_Depositor dep = a" by (simp only: savings_record_ok_def)
  with ok show ?thesis by (simp only:)
qed

lemma savings_inv_unbroken:
  assumes "env_laws E" "savings_inv E st"
  shows "savings_AllInvariants E st = Inr False"
proof -
  let ?S = "se_sdk E" and ?b = "GetSavingsModuleAccountBalances E st"
  have S: "sdk_laws ?S" using assms(1) by (simp add: env_laws_def)
  have wf: "savings_wf (se_math E) st" and bal: "\<And>d. AmountOf ?b d = savings_total st d"
    using assms(2) by (auto simp: savings_inv_def savings_GetTotalDeposited_def GetSavingsModuleAccountBalances_def balances [OF S])
  have recs: "\<forall>dep\<in>set (savings_GetAllDeposits st). savings_record_ok (se_math E) (sd_Depositor dep) dep"
    using savings_records [OF wf] by blast
  then have val: "\<forall>dep\<in>set (savings_GetAllDeposits st). coins_Valid (se_math E) (sd_Amount dep)"
    by (simp add: savings_record_ok_def)
  have "coins_Valid (se_math E) []" by (simp add: coins_Valid_def)
  moreover have "IntInRange (se_math E) (AmountOf [] d + (\<Sum>dep\<leftarrow>savings_GetAllDeposits st. AmountOf (sd_Amount dep) d))" for d
    using balances(3) [OF S, of "sv_bank st" "ModuleAddress ?S savings_module" d] bal [of d]
    unfolding savings_total_all GetSavingsModuleAccountBalances_def balances(1) [OF S] by simp
  ultimately obtain r where r: "foldR (\<lambda>d total. foldR (\<lambda>c total. CoinsAdd ?S total [c]) (sd_Amount d) total)
      (savings_GetAllDeposits st) [] = Inr r" "coins_Valid (se_math E) r" "\<forall>d. AmountOf r d = savings_total st d"
    using add_deposits_fold [OF S val, of "[]"] by (auto simp: savings_total_all)
  have bv: "coins_Valid (se_math E) ?b" by (simp add: GetSavingsModuleAccountBalances_def balances [OF S])
  have "r = ?b" by (rule coins_Valid_eqI [OF r(2) bv]) (simp add: r(3) bal)
  then have "savings_SolvencyInvariant E st = Inr False"
    using r(1) CoinsIsEqual_iff [OF S r(2) bv] by (simp add: savings_SolvencyInvariant_def)
  moreover have "\<not> savings_DepositsInvariant (se_math E) False st"
    using recs by (auto simp: savings_DepositsInvariant_def list_ex_iff savings_deposit_broken_def savings_deposit_Validate_def
        savings_record_ok_def coins_Valid_def list_all_iff)
  ultimately show ?thesis by (simp add: savings_AllInvariants_def)
qed

section \<open>Genesis\<close>

lemma check_savings_deposits_iff:
  "check_savings_deposits m seen ds = Inr () \<longleftrightarrow>
     (\<forall>d\<in>set ds. savings_deposit_Validate m d = Inr ()) \<and> distinct (map sd_Depositor ds) \<and>
     set seen \<inter> sd_Depositor ` set ds = {}"
  by (induction m seen ds rule: check_savings_deposits.induct) auto

lemma savings_load:
  "fold (\<lambda>d st. savings_SetDeposit st d) ds st = st\<lparr>sv_deposits := kv_load sd_Depositor ds (sv_deposits st)\<rparr>"
  by (induction ds arbitrary: st) (simp_all add: savings_SetDeposit_def)

lemma savings_InitGenesis_eq:
  "savings_InitGenesis E st gs = Inr st' \<longleftrightarrow>
     savings_genesis_Validate (se_math E) gs = Inr () \<and> HasModuleAccount (se_sdk E) (sv_bank st) savings_module \<and>
     st' = st\<lparr>sv_denoms := svg_Denoms gs, sv_deposits := kv_load sd_Depositor (svg_Deposits gs) (sv_deposits st)\<rparr>"
  by (auto simp: savings_InitGenesis_def savings_SetParams_def savings_genesis_Validate_def savings_load Let_def)

lemma savings_genesis_inv:
  assumes "savings_InitGenesis E st gs = Inr st'" "sv_deposits st = []" "\<forall>dep\<in>set (svg_Deposits gs). sd_Amount dep \<noteq> []"
    "\<forall>d. savings_GetTotalDeposited E st d = (\<Sum>dep\<leftarrow>svg_Deposits gs. AmountOf (sd_Amount dep) d)"
  shows "savings_inv E st'"
proof -
  let ?ds = "svg_Deposits gs"
  have st': "st' = st\<lparr>sv_denoms := svg_Denoms gs, sv_deposits := kv_load sd_Depositor ?ds []\<rparr>"
    and "savings_deposits_Validate (se_math E) ?ds = Inr ()"
    using assms(1,2) unfolding savings_InitGenesis_eq by (simp_all add: savings_genesis_Validate_def)
  then have val: "\<forall>d\<in>set ?ds. savings_deposit_Validate (se_math E) d = Inr ()" and dist: "distinct (map sd_Depositor ?ds)"
    unfolding savings_deposits_Validate_def check_savings_deposits_iff by auto
  have "savings_record_ok (se_math E) a d" if "kv_get (kv_load sd_Depositor ?ds []) a = Some d" for a d
  proof -
    have "d \<in> set ?ds" "sd_Depositor d = a"
      using map_of_SomeD [OF that [unfolded kv_load(2) [OF dist]]] by auto
    then show ?thesis using val assms(3) unfolding savings_record_ok_def savings_deposit_Validate_def by (auto split: if_splits)
  qed
  then have "savings_wf (se_math E) st'" unfolding st' by (simp add: savings_wf_def kv_load(1) [OF dist])
  moreover have "savings_total st' d = (\<Sum>dep\<leftarrow>?ds. AmountOf (sd_Amount dep) d)" for d
    unfolding st' savings_total_def by (simp add: kv_load(3) [OF dist])
  ultimately show ?thesis using assms(4) unfolding st' by (simp add: savings_inv_def savings_GetTotalDeposited_def)
qed

lemma savings_genesis_restores:
  assumes "savings_wf (se_math E) st" "validateSupportedDenoms (sv_denoms st) = Inr ()"
    "HasModuleAccount (se_sdk E) (sv_bank st) savings_module"
  shows "savings_InitGenesis E (st\<lparr>sv_denoms := [], sv_deposits := []\<rparr>) (savings_ExportGenesis st) = Inr st"
proof -
  have recs: "savings_record_ok (se_math E) (sd_Depositor dep) dep" if "dep \<in> set (savings_GetAllDeposits st)" for dep
    by (rule savings_records [OF assms(1) that])
  have key: "sd_Depositor d = a" if "kv_get (sv_deposits st) a = Some d" for a d
    using savings_wfD(2) [OF assms(1) that] by (simp only: savings_record_ok_def)
  have "map sd_Depositor (savings_GetAllDeposits st) = map fst (sv_deposits st)"
    using key kv.entry_iff [OF savings_wfD(1) [OF assms(1)]] by (auto simp: savings_GetAllDeposits_def)
  then have "distinct (map sd_Depositor (savings_GetAllDeposits st))"
    using kv.keys_distinct [OF savings_wfD(1) [OF assms(1)]] by (simp only:)
  moreover have "savings_deposit_Validate (se_math E) dep = Inr ()" if "dep \<in> set (savings_GetAllDeposits st)" for dep
    using recs [OF that] unfolding savings_record_ok_def savings_deposit_Validate_def by simp
  ultimately have "savings_deposits_Validate (se_math E) (savings_GetAllDeposits st) = Inr ()"
    unfolding savings_deposits_Validate_def check_savings_deposits_iff by simp
  moreover have "kv_load sd_Depositor (savings_GetAllDeposits st) [] = sv_deposits st"
    unfolding savings_GetAllDeposits_def using key by (intro kv_load_values savings_wfD(1) [OF assms(1)])
  ultimately show ?thesis
    using assms(2,3) unfolding savings_InitGenesis_eq by (simp add: savings_ExportGenesis_def savings_genesis_Validate_def)
qed

section \<open>Reachable states\<close>

text \<open>
  Other modules call the keeper as well (\<open>x/earn\<close>), with the coin sets they hold. The last rule is what the rest of the
  chain does: it may change its own state and every balance but that of the savings account, which is on the list of
  accounts that cannot receive transfers.
\<close>

fun savings_signer :: "savings_msg \<Rightarrow> string" where
  "savings_signer (SavingsMsgDeposit a cs) = a"
| "savings_signer (SavingsMsgWithdraw a cs) = a"

definition savings_user :: "('b, 'h) savings_env \<Rightarrow> address \<Rightarrow> bool" where
  "savings_user E a \<longleftrightarrow> a \<noteq> [] \<and> a \<noteq> ModuleAddress (se_sdk E) savings_module"

inductive savings_reach :: "('b, 'h) savings_env \<Rightarrow> (string \<Rightarrow> address result) \<Rightarrow> ('b, 'h) savings_state \<Rightarrow> bool"
  for E bech where
  genesis: "savings_InitGenesis E st gs = Inr st' \<Longrightarrow> sv_deposits st = [] \<Longrightarrow>
    \<forall>dep\<in>set (svg_Deposits gs). sd_Amount dep \<noteq> [] \<Longrightarrow>
    \<forall>d. savings_GetTotalDeposited E st d = (\<Sum>dep\<leftarrow>svg_Deposits gs. AmountOf (sd_Amount dep) d) \<Longrightarrow>
    savings_reach E bech st'"
| message: "savings_reach E bech st \<Longrightarrow> savings_handle E bech st msg = Inr st' \<Longrightarrow>
    bech (savings_signer msg) = Inr a \<Longrightarrow> savings_user E a \<Longrightarrow> savings_reach E bech st'"
| deposits: "savings_reach E bech st \<Longrightarrow> savings_Deposit E st a cs = Inr st' \<Longrightarrow>
    savings_user E a \<Longrightarrow> coins_Valid (se_math E) cs \<Longrightarrow> cs \<noteq> [] \<Longrightarrow> savings_reach E bech st'"
| withdraws: "savings_reach E bech st \<Longrightarrow> savings_Withdraw E st a cs = Inr st' \<Longrightarrow>
    savings_user E a \<Longrightarrow> coins_Valid (se_math E) cs \<Longrightarrow> savings_reach E bech st'"
| params: "savings_reach E bech st \<Longrightarrow> savings_SetParams st ds = Inr st' \<Longrightarrow> savings_reach E bech st'"
| others: "savings_reach E bech st \<Longrightarrow>
    \<forall>d. GetBalance (se_sdk E) b (ModuleAddress (se_sdk E) savings_module) d = savings_GetTotalDeposited E st d \<Longrightarrow>
    savings_reach E bech (st\<lparr>sv_bank := b, sv_others := h\<rparr>)"

lemma savings_handle_inv:
  assumes "savings_handle E bech st msg = Inr st'" "env_laws E" "savings_inv E st"
    "bech (savings_signer msg) = Inr a" "savings_user E a"
  shows "savings_inv E st'"
proof (cases msg)
  case (SavingsMsgDeposit s cs)
  then have "coins_Valid (se_math E) cs" "cs \<noteq> []" "savings_Deposit E st a cs = Inr st'"
    using assms(1,4) by (auto simp: savings_handle_def check_savings_amount_def savings_msg_Deposit_def coins_IsZero_def split: if_splits)
  then show ?thesis using savings_Deposit_inv assms by (auto simp: savings_user_def)
next
  case (SavingsMsgWithdraw s cs)
  then have "coins_Valid (se_math E) cs" "savings_Withdraw E st a cs = Inr st'"
    using assms(1,4) by (auto simp: savings_handle_def check_savings_amount_def savings_msg_Withdraw_def split: if_splits)
  then show ?thesis using savings_Withdraw_inv assms by (auto simp: savings_user_def)
qed

lemma savings_reach_inv:
  assumes "savings_reach E bech st" "env_laws E"
  shows "savings_inv E st"
  using assms(1)
proof (induction rule: savings_reach.induct)
  case (genesis st gs st')
  then show ?case by (rule savings_genesis_inv)
next
  case (message st msg st' a)
  then show ?case using savings_handle_inv assms(2) by blast
next
  case (deposits st a cs st')
  then show ?case using savings_Deposit_inv assms(2) unfolding savings_user_def by blast
next
  case (withdraws st a cs st')
  then show ?case using savings_Withdraw_inv assms(2) unfolding savings_user_def by blast
next
  case (params st ds st')
  then have "st' = st\<lparr>sv_denoms := ds\<rparr>" by (auto simp: savings_SetParams_def)
  with params.IH show ?case by (simp add: savings_inv_def)
next
  case (others st b h)
  then show ?case by (simp add: savings_inv_def savings_GetTotalDeposited_def)
qed

section \<open>Properties\<close>

definition ex_savings_env :: "(ledger, unit) savings_env" where
  "ex_savings_env = \<lparr>se_sdk = ref_sdk, se_coins = ref_coin_ops, se_valbech = (\<lambda>s. Inr s),
     se_validator = (\<lambda>_ _. True), se_hooks = None\<rparr>"

definition ex_savings :: "(ledger, unit) savings_state" where
  "ex_savings = \<lparr>sv_denoms = [''ukava'', ''bkava''], sv_deposits = [],
     sv_bank = \<lparr>lbal = [((''alice'', ''ukava''), 100), ((''alice'', ''bkava-val''), 40)], lsupply = []\<rparr>, sv_others = ()\<rparr>"

definition ex_saved :: "(ledger, unit) savings_state" where
  "ex_saved = projr (savings_handle ex_savings_env Inr ex_savings
     (SavingsMsgDeposit ''alice'' [Coin ''bkava-val'' 40, Coin ''ukava'' 60]))"

lemma ex_savings_laws: "env_laws ex_savings_env"
  using ref_sdk_laws ref_coin_ops_laws by (simp add: env_laws_def ex_savings_env_def)

lemma ex_savings_zero: "savings_GetTotalDeposited ex_savings_env ex_savings d = 0"
  by (simp add: savings_GetTotalDeposited_def ex_savings_env_def ex_savings_def ref_sdk_def lget_def module_address_def savings_module_def)

lemma ex_savings_start: "savings_reach ex_savings_env Inr ex_savings"
proof (rule savings_reach.genesis)
  show "savings_InitGenesis ex_savings_env ex_savings \<lparr>svg_Denoms = [''ukava'', ''bkava''], svg_Deposits = []\<rparr> = Inr ex_savings"
    by code_simp
qed (simp_all add: ex_savings_zero, simp add: ex_savings_def)

lemma ex_saved_reach: "savings_reach ex_savings_env Inr ex_saved"
proof (rule savings_reach.message [OF ex_savings_start])
  show "savings_handle ex_savings_env Inr ex_savings (SavingsMsgDeposit ''alice'' [Coin ''bkava-val'' 40, Coin ''ukava'' 60]) = Inr ex_saved"
    by code_simp
  show "savings_user ex_savings_env ''alice''" by code_simp
qed simp

text \<open>
  C28: in every state reachable from a genesis whose deposits are in the account, the savings account holds exactly
  the sum of all deposits in every denomination, and the invariants the module registers are not broken. Deposits
  and withdrawals by users and by other modules, changes of the parameters and whatever the other modules do with
  their own money are steps.
\<close>

theorem savings_solvency:
  assumes "env_laws E" "savings_reach E bech st"
  shows "(\<forall>d. savings_GetTotalDeposited E st d = savings_total st d) \<and> savings_AllInvariants E st = Inr False"
  using savings_reach_inv [OF assms(2,1)] savings_inv_unbroken [OF assms(1)] by (simp add: savings_inv_def)

theorem savings_solvency_witness:
  "env_laws ex_savings_env \<and> savings_reach ex_savings_env Inr ex_saved \<and> savings_total ex_saved ''ukava'' = 60 \<and>
   (\<forall>d. savings_GetTotalDeposited ex_savings_env ex_saved d = savings_total ex_saved d) \<and>
   savings_AllInvariants ex_savings_env ex_saved = Inr False"
proof -
  have "savings_total ex_saved ''ukava'' = 60" by code_simp
  then show ?thesis
    using savings_solvency [OF ex_savings_laws ex_saved_reach] ex_savings_laws ex_saved_reach by blast
qed

text \<open>
  A withdrawal that succeeds pays the depositor, in every denomination, the requested amount or the whole deposit
  if that is less, out of the module account and out of nobody else's balance; the deposit falls by exactly what is
  paid, no other deposit changes, and the record is deleted exactly when nothing is left.
\<close>

theorem savings_withdraw_pays:
  assumes "env_laws E" "savings_reach E bech st" "coins_Valid (se_math E) cs" "savings_user E a"
    "savings_Withdraw E st a cs = Inr st'"
  shows "(\<forall>d. let paid = min (AmountOf cs d) (deposit_of st a d) in
      GetBalance (se_sdk E) (sv_bank st') a d = GetBalance (se_sdk E) (sv_bank st) a d + paid \<and>
      savings_GetTotalDeposited E st' d = savings_GetTotalDeposited E st d - paid \<and>
      deposit_of st' a d = deposit_of st a d - paid) \<and>
    (\<forall>x d. x \<noteq> a \<longrightarrow> x \<noteq> ModuleAddress (se_sdk E) savings_module \<longrightarrow>
      GetBalance (se_sdk E) (sv_bank st') x d = GetBalance (se_sdk E) (sv_bank st) x d) \<and>
    (\<forall>x. x \<noteq> a \<longrightarrow> savings_GetDeposit st' x = savings_GetDeposit st x) \<and>
    (savings_GetDeposit st' a = None \<longleftrightarrow> (\<forall>d. deposit_of st' a d = 0))"
proof -
  have wf: "savings_wf (se_math E) st" using savings_reach_inv [OF assms(2,1)] by (simp add: savings_inv_def)
  obtain b amount rest where b: "SendCoinsFromModuleToAccount (se_sdk E) (sv_bank st) savings_module a amount = Inr b"
    and amount: "\<forall>d. AmountOf amount d = min (AmountOf cs d) (deposit_of st a d)"
    and rest: "coins_Valid (se_math E) rest" "\<forall>d. AmountOf rest d = deposit_of st a d - AmountOf amount d"
    and st': "st' = (if rest = [] then savings_DeleteDeposit (st\<lparr>sv_bank := b\<rparr>) \<lparr>sd_Depositor = a, sd_Amount = rest\<rparr>
            else savings_SetDeposit (st\<lparr>sv_bank := b\<rparr>) \<lparr>sd_Depositor = a, sd_Amount = rest\<rparr>)"
    by (rule savings_Withdraw_cases [OF assms(5,1) wf assms(3)])
  have mv: "moved (se_sdk E) (sv_bank st) b (ModuleAddress (se_sdk E) savings_module) a amount"
    using sends(3) assms(1) b by (auto simp: env_laws_def)
  have a: "a \<noteq> ModuleAddress (se_sdk E) savings_module" using assms(4) by (simp add: savings_user_def)
  have sb: "sv_bank st' = b" unfolding st' by simp
  have dep: "deposit_of st' a d = AmountOf rest d" for d
    unfolding st' by (simp add: deposit_of_set deposit_of_delete)
  have "(savings_GetDeposit st' a = None) = (rest = [])"
    unfolding st' by (simp add: savings_GetDeposit_def savings_SetDeposit_def savings_DeleteDeposit_def)
  moreover have "rest = [] \<longleftrightarrow> (\<forall>d. AmountOf rest d = 0)"
    using coins_Valid_denoms [OF rest(1)] by auto
  moreover have "savings_GetDeposit st' x = savings_GetDeposit st x" if "x \<noteq> a" for x
    using that unfolding st' by (simp add: savings_GetDeposit_def savings_SetDeposit_def savings_DeleteDeposit_def)
  ultimately show ?thesis
    using a rest(2) amount by (simp add: sb dep savings_GetTotalDeposited_def moved_balance [OF mv] Let_def)
qed

theorem savings_withdraw_pays_witness:
  "\<exists>st'. savings_Withdraw ex_savings_env ex_saved ''alice'' [Coin ''ukava'' 75] = Inr st' \<and>
     GetBalance ref_sdk (sv_bank st') ''alice'' ''ukava'' = GetBalance ref_sdk (sv_bank ex_saved) ''alice'' ''ukava'' + 60 \<and>
     deposit_of st' ''alice'' ''ukava'' = 0"
proof -
  have w: "savings_Withdraw ex_savings_env ex_saved ''alice'' [Coin ''ukava'' 75] =
      Inr (projr (savings_Withdraw ex_savings_env ex_saved ''alice'' [Coin ''ukava'' 75]))" by code_simp
  have "coins_Valid (se_math ex_savings_env) [Coin ''ukava'' 75]" "savings_user ex_savings_env ''alice''" by code_simp+
  note pays = savings_withdraw_pays [OF ex_savings_laws ex_saved_reach this w, THEN conjunct1, rule_format, of "''ukava''", unfolded Let_def]
  have "min (AmountOf [Coin ''ukava'' 75] ''ukava'') (deposit_of ex_saved ''alice'' ''ukava'') = 60"
    "deposit_of ex_saved ''alice'' ''ukava'' = 60" "se_sdk ex_savings_env = ref_sdk" by (code_simp, code_simp, simp add: ex_savings_env_def)
  with pays w show ?thesis by (intro exI [of _ "projr (savings_Withdraw ex_savings_env ex_saved ''alice'' [Coin ''ukava'' 75])"]) simp
qed

end
