(* ===== verification/Committee_Types.thy ===== *)
theory Committee_Types
  imports Sdk_Reference Ordered_Store
begin

text \<open>
  Committees, the proposals put to them and the permissions that limit what a committee may enact
  (\<open>x/committee/types/committee.go\<close>, \<open>permissions.go\<close>, \<open>proposal.go\<close>). The contents of proposals of other modules
  are opaque (\<open>'c\<close>); only the changes of a parameter proposal are looked at. Values of parameters are JSON text:
  which records a text denotes is \<open>json.Unmarshal\<close>, a parameter, with objects as lists sorted by key so
  that equality is \<open>reflect.DeepEqual\<close>. \<open>'w\<close> is the state of all other modules.
\<close>

section \<open>Parameter values\<close>

datatype json =
    JNull
  | JBool bool
  | JNumber string
  | JString string
  | JArray "json list"
  | JObject "(string \<times> json) list"

type_synonym SubparamChanges = "(string \<times> json) list"

record ParamChange =
  ch_Subspace :: string
  ch_Key :: string
  ch_Value :: string

text \<open>
  \<open>pk_GetSubspace\<close> returns the raw values of a subspace (\<open>Subspace.GetRaw\<close>, empty for a key without a
  value) if the subspace exists; the two decoders fail on text that is no record and no list of records.
\<close>

record 'w param_keeper =
  pk_GetSubspace :: "'w \<Rightarrow> string \<Rightarrow> (string \<Rightarrow> string) option"
  pk_Record :: "string \<Rightarrow> SubparamChanges option"
  pk_Records :: "string \<Rightarrow> SubparamChanges list option"

section \<open>Permissions\<close>

record SubparamRequirement =
  sr_Key :: string
  sr_Val :: string
  sr_AllowedSubparamAttrChanges :: "string list"

record AllowedParamsChange =
  ac_Subspace :: string
  ac_Key :: string
  ac_SingleSubparamAllowedAttrs :: "string list"
  ac_MultiSubparamsRequirements :: "SubparamRequirement list"

type_synonym AllowedParamsChanges = "AllowedParamsChange list"

definition apc_matches :: "string \<Rightarrow> string \<Rightarrow> AllowedParamsChange \<Rightarrow> bool" where
  "apc_matches subspace key apc \<longleftrightarrow> ac_Subspace apc = subspace \<and> ac_Key apc = key"

definition apcs_Get :: "AllowedParamsChanges \<Rightarrow> string \<Rightarrow> string \<Rightarrow> AllowedParamsChange option" where
  "apcs_Get changes subspace key = find (apc_matches subspace key) changes"

fun apcs_Set :: "AllowedParamsChanges \<Rightarrow> AllowedParamsChange \<Rightarrow> AllowedParamsChanges" where
  "apcs_Set [] newChange = [newChange]"
| "apcs_Set (apc # apcs) newChange =
     (if ac_Subspace apc = ac_Subspace newChange \<and> ac_Key apc = ac_Key newChange then newChange # apcs
      else apc # apcs_Set apcs newChange)"

fun apcs_Delete :: "AllowedParamsChanges \<Rightarrow> string \<Rightarrow> string \<Rightarrow> AllowedParamsChanges" where
  "apcs_Delete [] subspace key = []"
| "apcs_Delete (apc # apcs) subspace key =
     (if apc_matches subspace key apc then apcs else apc # apcs_Delete apcs subspace key)"

definition filterByParamChange :: "AllowedParamsChanges \<Rightarrow> ParamChange \<Rightarrow> AllowedParamsChanges" where
  "filterByParamChange changes ch = filter (apc_matches (ch_Subspace ch) (ch_Key ch)) changes"

text \<open>Reading a missing key of a Go map gives \<open>nil\<close>, which is also what JSON \<open>null\<close> decodes to.\<close>

definition attr :: "SubparamChanges \<Rightarrow> string \<Rightarrow> json" where
  "attr r k = (case map_of r k of None \<Rightarrow> JNull | Some v \<Rightarrow> v)"

definition validateParamChangesAreAllowed :: "SubparamChanges \<Rightarrow> SubparamChanges \<Rightarrow> string list \<Rightarrow> bool" where
  "validateParamChangesAreAllowed current incoming allowList \<longleftrightarrow>
     length current = length incoming \<and>
     list_all (\<lambda>(k, v). k \<in> set allowList \<or> v = attr incoming k) current"

fun allowsMultiParamsChange_loop ::
    "SubparamRequirement list \<Rightarrow> SubparamChanges list \<Rightarrow> SubparamChanges list \<Rightarrow> bool" where
  "allowsMultiParamsChange_loop reqs incoming [] = True"
| "allowsMultiParamsChange_loop reqs incoming (current # cs) =
     (case find (\<lambda>v. attr current (sr_Key v) = JString (sr_Val v)) reqs of
        None \<Rightarrow> False
      | Some req \<Rightarrow>
          (case find (\<lambda>v. attr v (sr_Key req) = JString (sr_Val req)) incoming of
             None \<Rightarrow> False
           | Some inc \<Rightarrow>
               if \<not> validateParamChangesAreAllowed current inc (sr_AllowedSubparamAttrChanges req) then False
               else allowsMultiParamsChange_loop reqs incoming cs))"

definition allowsMultiParamsChange :: "AllowedParamsChange \<Rightarrow> SubparamChanges list \<Rightarrow> SubparamChanges list \<Rightarrow> bool" where
  "allowsMultiParamsChange allowed currentRecords incomingRecords \<longleftrightarrow>
     length currentRecords = length incomingRecords \<and>
     allowsMultiParamsChange_loop (ac_MultiSubparamsRequirements allowed) incomingRecords currentRecords"

definition allowsSingleParamsChange :: "AllowedParamsChange \<Rightarrow> SubparamChanges \<Rightarrow> SubparamChanges \<Rightarrow> bool" where
  "allowsSingleParamsChange allowed current incoming =
     validateParamChangesAreAllowed current incoming (ac_SingleSubparamAllowedAttrs allowed)"

text \<open>\<open>strings.TrimLeft(raw, "\t\r\n")\<close>, and whether the first character is a bracket.\<close>

definition is_array_text :: "string \<Rightarrow> bool" where
  "is_array_text raw = (case dropWhile (\<lambda>c. c \<in> {CHR 0x09, CHR 0x0D, CHR 0x0A}) raw of
      [] \<Rightarrow> False | c # cs \<Rightarrow> c = CHR ''['')"

definition allowsParamChange :: "'w param_keeper \<Rightarrow> 'w \<Rightarrow> AllowedParamsChange \<Rightarrow> ParamChange \<Rightarrow> bool result" where
  "allowsParamChange pk w allowed ch =
     (if ac_Subspace allowed \<noteq> ch_Subspace ch \<and> ac_Key allowed \<noteq> ch_Key ch then Inr False
      else if ac_SingleSubparamAllowedAttrs allowed = [] \<and> ac_MultiSubparamsRequirements allowed = [] then Inr True
      else case pk_GetSubspace pk w (ch_Subspace ch) of
        None \<Rightarrow> Inr False
      | Some subspace \<Rightarrow>
          let currentRaw = subspace (ch_Key ch) in
          if is_array_text currentRaw then
            (case pk_Records pk (ch_Value ch) of
               None \<Rightarrow> Inr False
             | Some changeValue \<Rightarrow>
                 (case pk_Records pk currentRaw of
                    None \<Rightarrow> Inl (Panic ''json: cannot unmarshal'')
                  | Some currentValue \<Rightarrow> Inr (allowsMultiParamsChange allowed currentValue changeValue)))
          else
            (case pk_Record pk (ch_Value ch) of
               None \<Rightarrow> Inr False
             | Some changeValue \<Rightarrow>
                 (case pk_Record pk currentRaw of
                    None \<Rightarrow> Inl (Panic ''json: cannot unmarshal'')
                  | Some currentValue \<Rightarrow> Inr (allowsSingleParamsChange allowed currentValue changeValue))))"

datatype Permission =
    GodPermission
  | TextPermission
  | SoftwareUpgradePermission
  | ParamsChangePermission AllowedParamsChanges
  | CommunityCDPRepayDebtPermission
  | CommunityPoolLendWithdrawPermission
  | CommunityCDPWithdrawCollateralPermission

section \<open>Committees\<close>

text \<open>
  A decimal that was never set is \<open>nil\<close>: \<open>None\<close>. The tally options are 1 (first past the post) and 2 (deadline).
\<close>

record BaseCommittee =
  bc_ID :: uint64
  bc_Description :: string
  bc_Members :: "address list"
  bc_Permissions :: "Permission list"
  bc_VoteThreshold :: "dec option"
  bc_ProposalDuration :: duration
  bc_TallyOption :: int

datatype committee =
    OnlyBase (base: BaseCommittee)
  | MemberCommittee (base: BaseCommittee)
  | TokenCommittee (base: BaseCommittee) (com_Quorum: "dec option") (com_TallyDenom: denom)

abbreviation (input) TALLY_OPTION_FIRST_PAST_THE_POST :: int where "TALLY_OPTION_FIRST_PAST_THE_POST \<equiv> 1"
abbreviation (input) VOTE_TYPE_YES :: int where "VOTE_TYPE_YES \<equiv> 1"
abbreviation (input) VOTE_TYPE_NO :: int where "VOTE_TYPE_NO \<equiv> 2"

definition com_GetID :: "committee \<Rightarrow> uint64" where "com_GetID c = bc_ID (base c)"

definition com_GetMembers :: "committee \<Rightarrow> address list" where "com_GetMembers c = bc_Members (base c)"

definition com_HasMember :: "committee \<Rightarrow> address \<Rightarrow> bool" where
  "com_HasMember c a = list_ex (\<lambda>m. m = a) (com_GetMembers c)"

definition nonnil :: "dec option \<Rightarrow> dec result" where
  "nonnil d = (case d of None \<Rightarrow> Inl (Panic ''nil pointer dereference'') | Some x \<Rightarrow> Inr x)"

definition com_GetVoteThreshold :: "committee \<Rightarrow> dec option" where
  "com_GetVoteThreshold c = bc_VoteThreshold (base c)"

definition com_GetProposalDuration :: "committee \<Rightarrow> duration" where
  "com_GetProposalDuration c = bc_ProposalDuration (base c)"

definition com_GetTallyOption :: "committee \<Rightarrow> int" where
  "com_GetTallyOption c = bc_TallyOption (base c)"

fun check_members :: "address list \<Rightarrow> address list \<Rightarrow> unit result" where
  "check_members seen [] = Inr ()"
| "check_members seen (m # ms) =
     (if m \<in> set seen then Inl (Err ''committee cannot have duplicate members'')
      else if m = [] then Inl (Err ''committee cannot have empty member address'')
      else check_members (m # seen) ms)"

definition BaseCommittee_Validate :: "BaseCommittee \<Rightarrow> unit result" where
  "BaseCommittee_Validate c =
     (if length (bc_Description c) > 512 then Inl (Err ''description longer than max allowed'')
      else if length (bc_Members c) \<le> 0 then Inl (Err ''committee must have members'')
      else
        bnd (check_members [] (bc_Members c)) (\<lambda>_.
        if bc_ProposalDuration c < 0 then Inl (Err ''invalid proposal duration'')
        else if (case bc_VoteThreshold c of None \<Rightarrow> True | Some t \<Rightarrow> t \<le> 0 \<or> t > OneDec)
          then Inl (Err ''invalid threshold'')
        else if bc_TallyOption c \<le> 0 \<or> bc_TallyOption c > 2 then Inl (Err ''invalid tally option'')
        else Inr ()))"

definition committee_bond_denom :: denom where "committee_bond_denom = ''ukava''"

definition TokenCommittee_Validate :: "sdk_math \<Rightarrow> BaseCommittee \<Rightarrow> dec option \<Rightarrow> denom \<Rightarrow> unit result" where
  "TokenCommittee_Validate m b quorum tallyDenom =
     (if tallyDenom = committee_bond_denom then Inl (Err ''invalid tally denom'')
      else if \<not> ValidDenom m tallyDenom then Inl (Err ''invalid denom'')
      else if (case quorum of None \<Rightarrow> True | Some q \<Rightarrow> q < 0 \<or> q > OneDec) then Inl (Err ''invalid quorum'')
      else BaseCommittee_Validate b)"

fun com_Validate :: "sdk_math \<Rightarrow> committee \<Rightarrow> unit result" where
  "com_Validate m (OnlyBase b) = BaseCommittee_Validate b"
| "com_Validate m (MemberCommittee b) = BaseCommittee_Validate b"
| "com_Validate m (TokenCommittee b quorum tallyDenom) = TokenCommittee_Validate m b quorum tallyDenom"

section \<open>Contents of proposals\<close>

datatype 'c content =
    TextProposal 'c
  | SoftwareUpgradeProposal 'c
  | ParameterChangeProposal 'c "ParamChange list"
  | CommunityCDPRepayDebtProposal 'c
  | CommunityCDPWithdrawCollateralProposal 'c
  | CommunityPoolLendWithdrawProposal 'c
  | CommitteeChangeProposal string string committee
  | CommitteeDeleteProposal string string uint64
  | OtherProposal 'c

text \<open>
  The methods of the contents of other modules are the environment's, and so is \<open>ValidateAbstract\<close> of the
  governance module, which checks title and description.
\<close>

record 'c content_methods =
  cm_ValidateBasic :: "'c content \<Rightarrow> unit result"
  cm_ProposalRoute :: "'c content \<Rightarrow> string"
  cm_ValidateAbstract :: "string \<Rightarrow> string \<Rightarrow> unit result"

definition committee_route :: string where "committee_route = ''committee''"

definition CommitteeChangeProposal_ValidateBasic :: "sdk_math \<Rightarrow> 'c content_methods \<Rightarrow> string \<Rightarrow> string \<Rightarrow> committee \<Rightarrow> unit result" where
  "CommitteeChangeProposal_ValidateBasic m M title description newCommittee =
     bnd (cm_ValidateAbstract M title description) (\<lambda>_.
     case com_Validate m newCommittee of
       Inl (Err e) \<Rightarrow> Inl (Err ''ErrInvalidCommittee'') | Inl (Panic e) \<Rightarrow> Inl (Panic e) | Inr u \<Rightarrow> Inr ())"

definition CommitteeDeleteProposal_ValidateBasic :: "'c content_methods \<Rightarrow> string \<Rightarrow> string \<Rightarrow> unit result" where
  "CommitteeDeleteProposal_ValidateBasic M title description = cm_ValidateAbstract M title description"

fun content_ValidateBasic :: "sdk_math \<Rightarrow> 'c content_methods \<Rightarrow> 'c content \<Rightarrow> unit result" where
  "content_ValidateBasic m M (CommitteeChangeProposal t d c) = CommitteeChangeProposal_ValidateBasic m M t d c"
| "content_ValidateBasic m M (CommitteeDeleteProposal t d i) = CommitteeDeleteProposal_ValidateBasic M t d"
| "content_ValidateBasic m M p = cm_ValidateBasic M p"

fun content_ProposalRoute :: "'c content_methods \<Rightarrow> 'c content \<Rightarrow> string" where
  "content_ProposalRoute M (CommitteeChangeProposal t d c) = committee_route"
| "content_ProposalRoute M (CommitteeDeleteProposal t d i) = committee_route"
| "content_ProposalRoute M p = cm_ProposalRoute M p"

text \<open>The inner loop of \<open>ParamsChangePermission.Allows\<close> stops at the first rule that allows the change.\<close>

fun any_allows :: "('a \<Rightarrow> bool result) \<Rightarrow> 'a list \<Rightarrow> bool result" where
  "any_allows f [] = Inr False"
| "any_allows f (x # xs) = bnd (f x) (\<lambda>ok. if ok then Inr True else any_allows f xs)"

fun all_allowed :: "('a \<Rightarrow> bool result) \<Rightarrow> 'a list \<Rightarrow> bool result" where
  "all_allowed f [] = Inr True"
| "all_allowed f (x # xs) = bnd (f x) (\<lambda>ok. if ok then all_allowed f xs else Inr False)"

definition ParamsChangePermission_Allows ::
    "'w param_keeper \<Rightarrow> 'w \<Rightarrow> AllowedParamsChanges \<Rightarrow> ParamChange list \<Rightarrow> bool result" where
  "ParamsChangePermission_Allows pk w allowed changes =
     all_allowed (\<lambda>ch. any_allows (\<lambda>pc. allowsParamChange pk w pc ch) (filterByParamChange allowed ch)) changes"

fun Allows :: "'w param_keeper \<Rightarrow> 'w \<Rightarrow> Permission \<Rightarrow> 'c content \<Rightarrow> bool result" where
  "Allows pk w GodPermission p = Inr True"
| "Allows pk w TextPermission p = Inr (case p of TextProposal c \<Rightarrow> True | _ \<Rightarrow> False)"
| "Allows pk w SoftwareUpgradePermission p = Inr (case p of SoftwareUpgradeProposal c \<Rightarrow> True | _ \<Rightarrow> False)"
| "Allows pk w (ParamsChangePermission allowed) p =
     (case p of ParameterChangeProposal c changes \<Rightarrow> ParamsChangePermission_Allows pk w allowed changes | _ \<Rightarrow> Inr False)"
| "Allows pk w CommunityCDPRepayDebtPermission p = Inr (case p of CommunityCDPRepayDebtProposal c \<Rightarrow> True | _ \<Rightarrow> False)"
| "Allows pk w CommunityPoolLendWithdrawPermission p = Inr (case p of CommunityPoolLendWithdrawProposal c \<Rightarrow> True | _ \<Rightarrow> False)"
| "Allows pk w CommunityCDPWithdrawCollateralPermission p =
     Inr (case p of CommunityCDPWithdrawCollateralProposal c \<Rightarrow> True | _ \<Rightarrow> False)"

text \<open>
  A proposal without content is \<open>nil\<close>: \<open>GodPermission\<close> allows it, and the type assertions of the other permissions fail on it.
\<close>

definition Allows_opt :: "'w param_keeper \<Rightarrow> 'w \<Rightarrow> 'c content option \<Rightarrow> Permission \<Rightarrow> bool result" where
  "Allows_opt pk w p perm = (case p of None \<Rightarrow> Inr (perm = GodPermission) | Some c \<Rightarrow> Allows pk w perm c)"

definition HasPermissionsFor :: "'w param_keeper \<Rightarrow> 'w \<Rightarrow> committee \<Rightarrow> 'c content option \<Rightarrow> bool result" where
  "HasPermissionsFor pk w c p = any_allows (Allows_opt pk w p) (bc_Permissions (base c))"

section \<open>Proposals and votes\<close>

record 'c proposal =
  pr_Content :: "'c content option"
  pr_ID :: uint64
  pr_CommitteeID :: uint64
  pr_Deadline :: time

definition HasExpiredBy :: "'c proposal \<Rightarrow> time \<Rightarrow> bool" where
  "HasExpiredBy p t \<longleftrightarrow> \<not> t < pr_Deadline p"

definition proposal_ValidateBasic :: "sdk_math \<Rightarrow> 'c content_methods \<Rightarrow> 'c proposal \<Rightarrow> unit result" where
  "proposal_ValidateBasic m M p = (case pr_Content p of None \<Rightarrow> Inr () | Some c \<Rightarrow> content_ValidateBasic m M c)"

record vote =
  vo_ProposalID :: uint64
  vo_Voter :: address
  vo_VoteType :: int

definition VoteType_Validate :: "int \<Rightarrow> unit result" where
  "VoteType_Validate vt = (if vt \<le> 0 \<or> vt > 3 then Inl (Err ''invalid vote type'') else Inr ())"

definition vote_Validate :: "vote \<Rightarrow> unit result" where
  "vote_Validate v =
     (if vo_Voter v = [] then Inl (Err ''voter address cannot be empty'') else VoteType_Validate (vo_VoteType v))"

datatype ProposalOutcome = Passed | Failed | Invalid

end
