(* ===== verification/Committee.thy ===== *)
theory Committee
  imports Committee_Types
begin

text \<open>
  The committee keeper: its stores (\<open>x/committee/keeper/keeper.go\<close>), submitting, voting, tallying, enacting and
  closing of proposals (\<open>keeper/proposal.go\<close>), the begin blocker (\<open>abci.go\<close>), the handler through which the
  governance module changes and deletes committees (\<open>proposal_handler.go\<close>), messages (\<open>keeper/msg_server.go\<close>,
  \<open>types/msg.go\<close>) and genesis (\<open>genesis.go\<close>, \<open>types/genesis.go\<close>). The routes of the committee's router lead to other
  modules only, so their handlers act on the state \<open>'w\<close> of the rest of the chain, which includes the bank.
\<close>

section \<open>State and environment\<close>

record ('w, 'c) committee_env =
  ce_sdk :: "'w sdk"
  ce_params :: "'w param_keeper"
  ce_methods :: "'c content_methods"
  ce_router :: "string \<Rightarrow> ('w \<Rightarrow> 'c content \<Rightarrow> 'w result) option"

record ('w, 'c) committee_state =
  ck_committees :: "(uint64, committee) kv"
  ck_proposals :: "(uint64, 'c proposal) kv"
  ck_votes :: "(uint64 \<times> address, vote) kv"
  ck_nextID :: "uint64 option"
  ck_world :: 'w

abbreviation ce_math :: "('w, 'c) committee_env \<Rightarrow> sdk_math" where "ce_math E \<equiv> Math (ce_sdk E)"

definition GetCommittee :: "('w, 'c) committee_state \<Rightarrow> uint64 \<Rightarrow> committee option" where
  "GetCommittee st i = kv_get (ck_committees st) i"

definition SetCommittee :: "('w, 'c) committee_state \<Rightarrow> committee \<Rightarrow> ('w, 'c) committee_state" where
  "SetCommittee st c = st\<lparr>ck_committees := kv_set (ck_committees st) (com_GetID c) c\<rparr>"

definition DeleteCommittee :: "('w, 'c) committee_state \<Rightarrow> uint64 \<Rightarrow> ('w, 'c) committee_state" where
  "DeleteCommittee st i = st\<lparr>ck_committees := kv_del (ck_committees st) i\<rparr>"

definition GetCommittees :: "('w, 'c) committee_state \<Rightarrow> committee list" where
  "GetCommittees st = map snd (ck_committees st)"

definition SetNextProposalID :: "('w, 'c) committee_state \<Rightarrow> uint64 \<Rightarrow> ('w, 'c) committee_state" where
  "SetNextProposalID st i = st\<lparr>ck_nextID := Some i\<rparr>"

definition GetNextProposalID :: "('w, 'c) committee_state \<Rightarrow> uint64 result" where
  "GetNextProposalID st = (case ck_nextID st of None \<Rightarrow> Inl (Err ''ErrInvalidGenesis'') | Some i \<Rightarrow> Inr i)"

definition IncrementNextProposalID :: "('w, 'c) committee_state \<Rightarrow> ('w, 'c) committee_state result" where
  "IncrementNextProposalID st = bnd (GetNextProposalID st) (\<lambda>i. Inr (SetNextProposalID st (i + 1)))"

definition GetProposal :: "('w, 'c) committee_state \<Rightarrow> uint64 \<Rightarrow> 'c proposal option" where
  "GetProposal st i = kv_get (ck_proposals st) i"

definition SetProposal :: "('w, 'c) committee_state \<Rightarrow> 'c proposal \<Rightarrow> ('w, 'c) committee_state" where
  "SetProposal st p = st\<lparr>ck_proposals := kv_set (ck_proposals st) (pr_ID p) p\<rparr>"

definition DeleteProposal :: "('w, 'c) committee_state \<Rightarrow> uint64 \<Rightarrow> ('w, 'c) committee_state" where
  "DeleteProposal st i = st\<lparr>ck_proposals := kv_del (ck_proposals st) i\<rparr>"

definition GetProposals :: "('w, 'c) committee_state \<Rightarrow> 'c proposal list" where
  "GetProposals st = map snd (ck_proposals st)"

definition GetProposalsByCommittee :: "('w, 'c) committee_state \<Rightarrow> uint64 \<Rightarrow> 'c proposal list" where
  "GetProposalsByCommittee st i = filter (\<lambda>p. pr_CommitteeID p = i) (GetProposals st)"

definition StoreNewProposal ::
    "('w, 'c) committee_state \<Rightarrow> 'c content option \<Rightarrow> uint64 \<Rightarrow> time \<Rightarrow> (('w, 'c) committee_state \<times> uint64) result" where
  "StoreNewProposal st pubProposal committeeID deadline =
     bnd (GetNextProposalID st) (\<lambda>newProposalID.
     if pubProposal = None then Inl (Err ''does not implement proto.Message'')
     else
       bnd (IncrementNextProposalID (SetProposal st
         \<lparr>pr_Content = pubProposal, pr_ID = newProposalID, pr_CommitteeID = committeeID, pr_Deadline = deadline\<rparr>)) (\<lambda>st1.
       Inr (st1, newProposalID)))"

definition GetVote :: "('w, 'c) committee_state \<Rightarrow> uint64 \<Rightarrow> address \<Rightarrow> vote option" where
  "GetVote st i voter = kv_get (ck_votes st) (i, voter)"

definition SetVote :: "('w, 'c) committee_state \<Rightarrow> vote \<Rightarrow> ('w, 'c) committee_state" where
  "SetVote st v = st\<lparr>ck_votes := kv_set (ck_votes st) (vo_ProposalID v, vo_Voter v) v\<rparr>"

definition DeleteVote :: "('w, 'c) committee_state \<Rightarrow> uint64 \<Rightarrow> address \<Rightarrow> ('w, 'c) committee_state" where
  "DeleteVote st i voter = st\<lparr>ck_votes := kv_del (ck_votes st) (i, voter)\<rparr>"

definition GetVotes :: "('w, 'c) committee_state \<Rightarrow> vote list" where
  "GetVotes st = map snd (ck_votes st)"

definition GetVotesByProposal :: "('w, 'c) committee_state \<Rightarrow> uint64 \<Rightarrow> vote list" where
  \<comment> \<open>the keys of the votes of a proposal are those that start with its eight bytes\<close>
  "GetVotesByProposal st i = map snd (filter (\<lambda>(k, v). fst k = i) (ck_votes st))"

definition DeleteProposalAndVotes :: "('w, 'c) committee_state \<Rightarrow> uint64 \<Rightarrow> ('w, 'c) committee_state" where
  "DeleteProposalAndVotes st i =
     fold (\<lambda>v st. DeleteVote st (vo_ProposalID v) (vo_Voter v)) (GetVotesByProposal st i) (DeleteProposal st i)"

section \<open>Tallies\<close>

definition TallyMemberCommitteeVotes :: "('w, 'c) committee_state \<Rightarrow> uint64 \<Rightarrow> dec" where
  "TallyMemberCommitteeVotes st i = NewDecFromInt (int (length (GetVotesByProposal st i)))"

definition GetMemberCommitteeProposalResult ::
    "('w, 'c) committee_env \<Rightarrow> ('w, 'c) committee_state \<Rightarrow> uint64 \<Rightarrow> committee \<Rightarrow> bool result" where
  "GetMemberCommitteeProposalResult E st i com =
     (let currVotes = TallyMemberCommitteeVotes st i;
          possibleVotes = NewDecFromInt (int (length (com_GetMembers com))) in
      bnd (nonnil (com_GetVoteThreshold com)) (\<lambda>threshold.
      bnd (DecMul (ce_math E) threshold possibleVotes) (\<lambda>needed. Inr (currVotes \<ge> needed))))"

definition tally_vote ::
    "('w, 'c) committee_env \<Rightarrow> 'w \<Rightarrow> denom \<Rightarrow> vote \<Rightarrow> dec \<times> dec \<times> dec \<Rightarrow> (dec \<times> dec \<times> dec) result" where
  "tally_vote E w tallyDenom v = (\<lambda>(yes, no, total).
     if \<not> HasAccount (ce_sdk E) w (vo_Voter v) then Inl (Panic ''nil pointer dereference'')
     else
       let coins = NewDecFromInt (GetBalance (ce_sdk E) w (vo_Voter v) tallyDenom) in
       bnd (toDec (ce_math E) (total + coins)) (\<lambda>total'.
       if vo_VoteType v = VOTE_TYPE_YES then bnd (toDec (ce_math E) (yes + coins)) (\<lambda>yes'. Inr (yes', no, total'))
       else if vo_VoteType v = VOTE_TYPE_NO then bnd (toDec (ce_math E) (no + coins)) (\<lambda>no'. Inr (yes, no', total'))
       else Inr (yes, no, total')))"

definition TallyTokenCommitteeVotes ::
    "('w, 'c) committee_env \<Rightarrow> ('w, 'c) committee_state \<Rightarrow> uint64 \<Rightarrow> denom \<Rightarrow> (dec \<times> dec \<times> dec \<times> dec) result" where
  "TallyTokenCommitteeVotes E st i tallyDenom =
     bnd (foldR (tally_vote E (ck_world st) tallyDenom) (GetVotesByProposal st i) (0, 0, 0)) (\<lambda>(yes, no, total).
     Inr (yes, no, total, NewDecFromInt (GetSupply (ce_sdk E) (ck_world st) tallyDenom)))"

definition GetTokenCommitteeProposalResult ::
    "('w, 'c) committee_env \<Rightarrow> ('w, 'c) committee_state \<Rightarrow> uint64 \<Rightarrow> BaseCommittee \<Rightarrow> dec option \<Rightarrow> denom \<Rightarrow> bool result" where
  "GetTokenCommitteeProposalResult E st i b quorum tallyDenom =
     bnd (TallyTokenCommitteeVotes E st i tallyDenom) (\<lambda>(yes, no, total, possible).
     bnd (nonnil quorum) (\<lambda>q.
     bnd (DecMul (ce_math E) q possible) (\<lambda>needed.
     if total \<ge> needed then
       bnd (toDec (ce_math E) (yes + no)) (\<lambda>nonAbstainVotes.
       bnd (nonnil (bc_VoteThreshold b)) (\<lambda>threshold.
       bnd (DecMul (ce_math E) nonAbstainVotes threshold) (\<lambda>bar. Inr (yes \<ge> bar))))
     else Inr False)))"

fun GetProposalResult :: "('w, 'c) committee_env \<Rightarrow> ('w, 'c) committee_state \<Rightarrow> uint64 \<Rightarrow> committee \<Rightarrow> bool result" where
  "GetProposalResult E st i (MemberCommittee b) = GetMemberCommitteeProposalResult E st i (MemberCommittee b)"
| "GetProposalResult E st i (TokenCommittee b q d) = GetTokenCommitteeProposalResult E st i b q d"
| "GetProposalResult E st i (OnlyBase b) = Inr False"

record tally_response =
  ta_ProposalID :: uint64
  ta_YesVotes :: dec
  ta_NoVotes :: dec
  ta_CurrentVotes :: dec
  ta_PossibleVotes :: dec
  ta_VoteThreshold :: "dec option"
  ta_Quorum :: "dec option"

definition empty_tally :: tally_response where
  "empty_tally = \<lparr>ta_ProposalID = 0, ta_YesVotes = 0, ta_NoVotes = 0, ta_CurrentVotes = 0, ta_PossibleVotes = 0,
     ta_VoteThreshold = None, ta_Quorum = None\<rparr>"

definition GetProposalTallyResponse ::
    "('w, 'c) committee_env \<Rightarrow> ('w, 'c) committee_state \<Rightarrow> uint64 \<Rightarrow> tally_response option result" where
  "GetProposalTallyResponse E st i =
     (case GetProposal st i of None \<Rightarrow> Inr None | Some p \<Rightarrow>
     (case GetCommittee st (pr_CommitteeID p) of None \<Rightarrow> Inr None | Some com \<Rightarrow>
     (case com of
        MemberCommittee b \<Rightarrow>
          let currVotes = TallyMemberCommitteeVotes st (pr_ID p) in
          Inr (Some \<lparr>ta_ProposalID = pr_ID p, ta_YesVotes = currVotes, ta_NoVotes = 0, ta_CurrentVotes = currVotes,
            ta_PossibleVotes = NewDecFromInt (int (length (bc_Members b))), ta_VoteThreshold = bc_VoteThreshold b,
            ta_Quorum = Some 0\<rparr>)
      | TokenCommittee b q d \<Rightarrow>
          bnd (TallyTokenCommitteeVotes E st (pr_ID p) d) (\<lambda>(yes, no, total, possible).
          Inr (Some \<lparr>ta_ProposalID = pr_ID p, ta_YesVotes = yes, ta_NoVotes = no, ta_CurrentVotes = total,
            ta_PossibleVotes = possible, ta_VoteThreshold = bc_VoteThreshold b, ta_Quorum = q\<rparr>))
      | OnlyBase b \<Rightarrow> Inr (Some empty_tally))))"

section \<open>Submitting and voting\<close>

definition ValidatePubProposal :: "('w, 'c) committee_env \<Rightarrow> 'w \<Rightarrow> 'c content option \<Rightarrow> unit result" where
  \<comment> \<open>the handler runs on a cached state that is dropped, and its panics become errors\<close>
  "ValidatePubProposal E w pubProposal =
     (case pubProposal of None \<Rightarrow> Inl (Err ''ErrInvalidPubProposal'') | Some c \<Rightarrow>
      bnd (content_ValidateBasic (ce_math E) (ce_methods E) c) (\<lambda>_.
      case ce_router E (content_ProposalRoute (ce_methods E) c) of
        None \<Rightarrow> Inl (Err ''ErrNoProposalHandlerExists'')
      | Some handler \<Rightarrow>
          (case handler w c of
             Inl (Err e) \<Rightarrow> Inl (Err e)
           | Inl (Panic e) \<Rightarrow> Inl (Err ''ErrInvalidPubProposal'')
           | Inr w' \<Rightarrow> Inr ())))"

definition SubmitProposal ::
    "('w, 'c) committee_env \<Rightarrow> time \<Rightarrow> ('w, 'c) committee_state \<Rightarrow> address \<Rightarrow> uint64 \<Rightarrow> 'c content option \<Rightarrow>
      (('w, 'c) committee_state \<times> uint64) result" where
  "SubmitProposal E now st proposer committeeID pubProposal =
     (case GetCommittee st committeeID of None \<Rightarrow> Inl (Err ''ErrUnknownCommittee'') | Some com \<Rightarrow>
      if \<not> com_HasMember com proposer then Inl (Err ''ErrUnauthorized'')
      else
        bnd (HasPermissionsFor (ce_params E) (ck_world st) com pubProposal) (\<lambda>ok.
        if \<not> ok then Inl (Err ''ErrUnauthorized'')
        else
          bnd (ValidatePubProposal E (ck_world st) pubProposal) (\<lambda>_.
          StoreNewProposal st pubProposal committeeID (now + com_GetProposalDuration com))))"

definition AddVote ::
    "time \<Rightarrow> ('w, 'c) committee_state \<Rightarrow> uint64 \<Rightarrow> address \<Rightarrow> int \<Rightarrow> ('w, 'c) committee_state result" where
  "AddVote now st proposalID voter voteType =
     (case GetProposal st proposalID of None \<Rightarrow> Inl (Err ''ErrUnknownProposal'') | Some pr \<Rightarrow>
      if HasExpiredBy pr now then Inl (Err ''ErrProposalExpired'')
      else case GetCommittee st (pr_CommitteeID pr) of None \<Rightarrow> Inl (Err ''ErrUnknownCommittee'') | Some com \<Rightarrow>
        if (case com of MemberCommittee b \<Rightarrow> True | _ \<Rightarrow> False) \<and> \<not> com_HasMember com voter then Inl (Err ''ErrUnauthorized'')
        else if (case com of MemberCommittee b \<Rightarrow> True | _ \<Rightarrow> False) \<and> voteType \<noteq> VOTE_TYPE_YES then Inl (Err ''ErrInvalidVoteType'')
        else Inr (SetVote st \<lparr>vo_ProposalID = proposalID, vo_Voter = voter, vo_VoteType = voteType\<rparr>))"

section \<open>Enacting and closing\<close>

definition enactProposal :: "('w, 'c) committee_env \<Rightarrow> ('w, 'c) committee_state \<Rightarrow> 'c proposal \<Rightarrow> ('w, 'c) committee_state result" where
  "enactProposal E st p =
     (case GetCommittee st (pr_CommitteeID p) of None \<Rightarrow> Inl (Err ''ErrUnknownCommittee'') | Some com \<Rightarrow>
      bnd (HasPermissionsFor (ce_params E) (ck_world st) com (pr_Content p)) (\<lambda>ok.
      if \<not> ok then Inl (Err ''ErrUnauthorized'')
      else
        bnd (ValidatePubProposal E (ck_world st) (pr_Content p)) (\<lambda>_.
        case pr_Content p of None \<Rightarrow> Inl (Panic ''nil pointer dereference'') | Some c \<Rightarrow>
        (case ce_router E (content_ProposalRoute (ce_methods E) c) of
           None \<Rightarrow> Inl (Panic ''route does not exist'')
         | Some handler \<Rightarrow>
             bnd (panic_on_err (handler (ck_world st) c)) (\<lambda>w'. Inr (st\<lparr>ck_world := w'\<rparr>))))))"

definition attemptEnactProposal ::
    "('w, 'c) committee_env \<Rightarrow> ('w, 'c) committee_state \<Rightarrow> 'c proposal \<Rightarrow> (('w, 'c) committee_state \<times> ProposalOutcome) result" where
  "attemptEnactProposal E st p =
     (case enactProposal E st p of
        Inl (Err e) \<Rightarrow> Inr (st, Invalid)
      | Inl (Panic e) \<Rightarrow> Inl (Panic e)
      | Inr st' \<Rightarrow> Inr (st', Passed))"

definition CloseProposal ::
    "('w, 'c) committee_env \<Rightarrow> ('w, 'c) committee_state \<Rightarrow> 'c proposal \<Rightarrow> ProposalOutcome \<Rightarrow> ('w, 'c) committee_state result" where
  \<comment> \<open>the tally and the outcome go into the event only, but tallying may panic\<close>
  "CloseProposal E st p outcome =
     bnd (GetProposalTallyResponse E st (pr_ID p)) (\<lambda>_. Inr (DeleteProposalAndVotes st (pr_ID p)))"

definition process_proposal :: "('w, 'c) committee_env \<Rightarrow> time \<Rightarrow> 'c proposal \<Rightarrow> ('w, 'c) committee_state \<Rightarrow> ('w, 'c) committee_state result" where
  "process_proposal E now p st =
     (case GetCommittee st (pr_CommitteeID p) of
        None \<Rightarrow> CloseProposal E st p Failed
      | Some com \<Rightarrow>
          if \<not> HasExpiredBy p now then
            if com_GetTallyOption com = TALLY_OPTION_FIRST_PAST_THE_POST then
              bnd (GetProposalResult E st (pr_ID p) com) (\<lambda>passed.
              if passed then bnd (attemptEnactProposal E st p) (\<lambda>(st1, outcome). CloseProposal E st1 p outcome)
              else Inr st)
            else Inr st
          else
            bnd (GetProposalResult E st (pr_ID p) com) (\<lambda>passed.
            bnd (if passed then attemptEnactProposal E st p else Inr (st, Failed)) (\<lambda>(st1, outcome).
            CloseProposal E st1 p outcome)))"

definition ProcessProposals :: "('w, 'c) committee_env \<Rightarrow> time \<Rightarrow> ('w, 'c) committee_state \<Rightarrow> ('w, 'c) committee_state result" where
  "ProcessProposals E now st = foldR (process_proposal E now) (GetProposals st) st"

definition committee_BeginBlocker :: "('w, 'c) committee_env \<Rightarrow> time \<Rightarrow> ('w, 'c) committee_state \<Rightarrow> ('w, 'c) committee_state result" where
  "committee_BeginBlocker E now st = ProcessProposals E now st"

section \<open>Changing and deleting committees\<close>

definition close_all ::
    "('w, 'c) committee_env \<Rightarrow> 'c proposal list \<Rightarrow> ('w, 'c) committee_state \<Rightarrow> ('w, 'c) committee_state result" where
  "close_all E ps st = foldR (\<lambda>p st. CloseProposal E st p Failed) ps st"

definition as_invalid_proposal :: "unit result \<Rightarrow> unit result" where
  "as_invalid_proposal r = (case r of
      Inl (Err e) \<Rightarrow> Inl (Err ''ErrInvalidPubProposal'') | Inl (Panic e) \<Rightarrow> Inl (Panic e) | Inr u \<Rightarrow> Inr ())"

definition handleCommitteeChangeProposal ::
    "('w, 'c) committee_env \<Rightarrow> ('w, 'c) committee_state \<Rightarrow> string \<Rightarrow> string \<Rightarrow> committee \<Rightarrow> ('w, 'c) committee_state result" where
  "handleCommitteeChangeProposal E st title description newCommittee =
     bnd (as_invalid_proposal (CommitteeChangeProposal_ValidateBasic (ce_math E) (ce_methods E) title description newCommittee)) (\<lambda>_.
     bnd (close_all E (GetProposalsByCommittee st (com_GetID newCommittee)) st) (\<lambda>st1.
     Inr (SetCommittee st1 newCommittee)))"

definition handleCommitteeDeleteProposal ::
    "('w, 'c) committee_env \<Rightarrow> ('w, 'c) committee_state \<Rightarrow> string \<Rightarrow> string \<Rightarrow> uint64 \<Rightarrow> ('w, 'c) committee_state result" where
  "handleCommitteeDeleteProposal E st title description committeeID =
     bnd (as_invalid_proposal (CommitteeDeleteProposal_ValidateBasic (ce_methods E) title description)) (\<lambda>_.
     bnd (close_all E (GetProposalsByCommittee st committeeID) st) (\<lambda>st1.
     Inr (DeleteCommittee st1 committeeID)))"

fun committee_ProposalHandler :: "('w, 'c) committee_env \<Rightarrow> ('w, 'c) committee_state \<Rightarrow> 'c content \<Rightarrow> ('w, 'c) committee_state result" where
  "committee_ProposalHandler E st (CommitteeChangeProposal t d c) = handleCommitteeChangeProposal E st t d c"
| "committee_ProposalHandler E st (CommitteeDeleteProposal t d i) = handleCommitteeDeleteProposal E st t d i"
| "committee_ProposalHandler E st _ = Inl (Err ''ErrUnknownRequest'')"

section \<open>Messages\<close>

datatype 'c committee_msg =
    MsgSubmitProposal "'c content option" string uint64
  | MsgVote uint64 string int

fun committee_ValidateBasic :: "('w, 'c) committee_env \<Rightarrow> (string \<Rightarrow> address result) \<Rightarrow> 'c committee_msg \<Rightarrow> unit result" where
  "committee_ValidateBasic E bech (MsgSubmitProposal pubProposal proposer committeeID) =
     (case pubProposal of None \<Rightarrow> Inl (Err ''ErrInvalidPubProposal'') | Some c \<Rightarrow>
      bnd (bech proposer) (\<lambda>_. content_ValidateBasic (ce_math E) (ce_methods E) c))"
| "committee_ValidateBasic E bech (MsgVote proposalID voter voteType) =
     bnd (bech voter) (\<lambda>_. VoteType_Validate voteType)"

definition msg_SubmitProposal ::
    "('w, 'c) committee_env \<Rightarrow> (string \<Rightarrow> address result) \<Rightarrow> time \<Rightarrow> ('w, 'c) committee_state \<Rightarrow> 'c content option \<Rightarrow> string \<Rightarrow> uint64 \<Rightarrow>
      (('w, 'c) committee_state \<times> uint64) result" where
  "msg_SubmitProposal E bech now st pubProposal proposer committeeID =
     bnd (bech proposer) (\<lambda>a. SubmitProposal E now st a committeeID pubProposal)"

definition msg_Vote ::
    "(string \<Rightarrow> address result) \<Rightarrow> time \<Rightarrow> ('w, 'c) committee_state \<Rightarrow> uint64 \<Rightarrow> string \<Rightarrow> int \<Rightarrow> ('w, 'c) committee_state result" where
  "msg_Vote bech now st proposalID voter voteType = bnd (bech voter) (\<lambda>a. AddVote now st proposalID a voteType)"

fun committee_serve ::
    "('w, 'c) committee_env \<Rightarrow> (string \<Rightarrow> address result) \<Rightarrow> time \<Rightarrow> ('w, 'c) committee_state \<Rightarrow> 'c committee_msg \<Rightarrow>
      ('w, 'c) committee_state result" where
  "committee_serve E bech now st (MsgSubmitProposal p proposer i) = bnd (msg_SubmitProposal E bech now st p proposer i) (\<lambda>(st', k). Inr st')"
| "committee_serve E bech now st (MsgVote i voter vt) = msg_Vote bech now st i voter vt"

definition committee_handle ::
    "('w, 'c) committee_env \<Rightarrow> (string \<Rightarrow> address result) \<Rightarrow> time \<Rightarrow> ('w, 'c) committee_state \<Rightarrow> 'c committee_msg \<Rightarrow>
      ('w, 'c) committee_state result" where
  "committee_handle E bech now st msg = bnd (committee_ValidateBasic E bech msg) (\<lambda>_. committee_serve E bech now st msg)"

section \<open>Genesis\<close>

record 'c committee_genesis =
  cg_NextProposalID :: uint64
  cg_Committees :: "committee list"
  cg_Proposals :: "'c proposal list"
  cg_Votes :: "vote list"

fun check_committees :: "sdk_math \<Rightarrow> uint64 list \<Rightarrow> committee list \<Rightarrow> unit result" where
  "check_committees m seen [] = Inr ()"
| "check_committees m seen (c # cs) =
     (if com_GetID c \<in> set seen then Inl (Err ''duplicate committee ID found in genesis state'')
      else bnd (com_Validate m c) (\<lambda>_. check_committees m (com_GetID c # seen) cs))"

fun check_proposals ::
    "sdk_math \<Rightarrow> 'c content_methods \<Rightarrow> uint64 \<Rightarrow> uint64 list \<Rightarrow> uint64 list \<Rightarrow> 'c proposal list \<Rightarrow> unit result" where
  "check_proposals m M nxt coms seen [] = Inr ()"
| "check_proposals m M nxt coms seen (p # ps) =
     (if pr_ID p \<in> set seen then Inl (Err ''duplicate proposal ID found in genesis state'')
      else if pr_ID p \<ge> nxt then Inl (Err ''NextProposalID is not greater than all proposal IDs'')
      else if pr_CommitteeID p \<notin> set coms then Inl (Err ''proposal refers to non existent committee'')
      else bnd (proposal_ValidateBasic m M p) (\<lambda>_. check_proposals m M nxt coms (pr_ID p # seen) ps))"

fun check_votes :: "uint64 list \<Rightarrow> vote list \<Rightarrow> unit result" where
  "check_votes props [] = Inr ()"
| "check_votes props (v # vs) =
     bnd (vote_Validate v) (\<lambda>_.
     if vo_ProposalID v \<notin> set props then Inl (Err ''vote refers to non existent proposal'') else check_votes props vs)"

definition committee_genesis_Validate :: "('w, 'c) committee_env \<Rightarrow> 'c committee_genesis \<Rightarrow> unit result" where
  "committee_genesis_Validate E gs =
     bnd (check_committees (ce_math E) [] (cg_Committees gs)) (\<lambda>_.
     bnd (check_proposals (ce_math E) (ce_methods E) (cg_NextProposalID gs) (map com_GetID (cg_Committees gs)) [] (cg_Proposals gs)) (\<lambda>_.
     check_votes (map pr_ID (cg_Proposals gs)) (cg_Votes gs)))"

definition committee_InitGenesis ::
    "('w, 'c) committee_env \<Rightarrow> ('w, 'c) committee_state \<Rightarrow> 'c committee_genesis \<Rightarrow> ('w, 'c) committee_state result" where
  "committee_InitGenesis E st gs =
     bnd (panic_on_err (committee_genesis_Validate E gs)) (\<lambda>_.
     let st1 = SetNextProposalID st (cg_NextProposalID gs);
         st2 = fold (\<lambda>c st. SetCommittee st c) (cg_Committees gs) st1;
         st3 = fold (\<lambda>p st. SetProposal st p) (cg_Proposals gs) st2
     in Inr (fold (\<lambda>v st. SetVote st v) (cg_Votes gs) st3))"

definition committee_ExportGenesis :: "('w, 'c) committee_state \<Rightarrow> 'c committee_genesis result" where
  "committee_ExportGenesis st =
     bnd (panic_on_err (GetNextProposalID st)) (\<lambda>nextID.
     Inr \<lparr>cg_NextProposalID = nextID, cg_Committees = GetCommittees st, cg_Proposals = GetProposals st, cg_Votes = GetVotes st\<rparr>)"

end
