(* ===== verification/Committee_Permissions.thy ===== *)
theory Committee_Permissions
  imports Committee
begin

text \<open>
  What the permissions of a committee allow, and when a vote of token holders passes.
\<close>

section \<open>Loops that stop early\<close>

lemma any_allows_True: "any_allows f xs = Inr True \<Longrightarrow> \<exists>x\<in>set xs. f x = Inr True"
  by (induction xs) (auto split: if_split_asm)

lemma all_allowed_True: "all_allowed f xs = Inr True \<longleftrightarrow> (\<forall>x\<in>set xs. f x = Inr True)"
  by (induction xs) auto

lemma HasPermissionsFor_True:
  "HasPermissionsFor pk w com (Some c) = Inr True \<Longrightarrow> \<exists>perm\<in>set (bc_Permissions (base com)). Allows pk w perm c = Inr True"
  unfolding HasPermissionsFor_def by (drule any_allows_True) (simp add: Allows_opt_def)

section \<open>Changing parameters\<close>

definition keeps_others :: "string list \<Rightarrow> SubparamChanges \<Rightarrow> SubparamChanges \<Rightarrow> bool" where
  "keeps_others allowList current incoming \<longleftrightarrow>
     length incoming = length current \<and> (\<forall>(k, v)\<in>set current. k \<notin> set allowList \<longrightarrow> attr incoming k = v)"

lemma validateParamChanges_iff: "validateParamChangesAreAllowed cur inc al \<longleftrightarrow> keeps_others al cur inc"
  by (auto simp: validateParamChangesAreAllowed_def keeps_others_def list_all_iff)

lemma allowsMulti_loop:
  assumes "allowsMultiParamsChange_loop reqs inc cs" "current \<in> set cs"
  shows "\<exists>req\<in>set reqs. \<exists>r\<in>set inc. attr current (sr_Key req) = JString (sr_Val req) \<and>
    attr r (sr_Key req) = JString (sr_Val req) \<and> keeps_others (sr_AllowedSubparamAttrChanges req) current r"
  using assms
proof (induction cs)
  case (Cons c cs)
  then obtain req r where found: "find (\<lambda>v. attr c (sr_Key v) = JString (sr_Val v)) reqs = Some req"
      "find (\<lambda>v. attr v (sr_Key req) = JString (sr_Val req)) inc = Some r"
      "validateParamChangesAreAllowed c r (sr_AllowedSubparamAttrChanges req)" "allowsMultiParamsChange_loop reqs inc cs"
    by (auto split: option.split_asm if_split_asm)
  have "req \<in> set reqs" "attr c (sr_Key req) = JString (sr_Val req)" "r \<in> set inc" "attr r (sr_Key req) = JString (sr_Val req)"
    using found(1,2) by (auto simp: find_Some_iff)
  then show ?case using Cons found(3,4) by (auto simp: validateParamChanges_iff)
qed simp

text \<open>
  A proposed record that a requirement lets take the place of a current one: both match the requirement, and the
  attributes that are not on its list stay.
\<close>

definition replaces :: "SubparamRequirement list \<Rightarrow> SubparamChanges \<Rightarrow> SubparamChanges \<Rightarrow> bool" where
  "replaces reqs c i \<longleftrightarrow> (\<exists>req\<in>set reqs. attr c (sr_Key req) = JString (sr_Val req) \<and> attr i (sr_Key req) = JString (sr_Val req) \<and>
     keeps_others (sr_AllowedSubparamAttrChanges req) c i)"

text \<open>Requirements are meant to name the records by one attribute in which the current records differ.\<close>

definition identifies :: "string \<Rightarrow> SubparamRequirement list \<Rightarrow> SubparamChanges list \<Rightarrow> bool" where
  "identifies k reqs cur \<longleftrightarrow> (\<forall>req\<in>set reqs. sr_Key req = k) \<and> distinct (map (\<lambda>c. attr c k) cur)"

definition records_respected :: "SubparamRequirement list \<Rightarrow> SubparamChanges list \<Rightarrow> SubparamChanges list \<Rightarrow> bool" where
  "records_respected reqs cur inc \<longleftrightarrow> length inc = length cur \<and> (\<forall>c\<in>set cur. \<exists>i\<in>set inc. replaces reqs c i) \<and>
     (\<forall>k. identifies k reqs cur \<longrightarrow> (\<forall>i\<in>set inc. \<exists>c\<in>set cur. attr c k = attr i k \<and> replaces reqs c i))"

lemma records_paired:
  assumes "length inc = length cur" "\<forall>c\<in>set cur. \<exists>i\<in>set inc. replaces reqs c i" "identifies k reqs cur" "i \<in> set inc"
  shows "\<exists>c\<in>set cur. attr c k = attr i k \<and> replaces reqs c i"
proof -
  let ?f = "\<lambda>c. attr c k"
  have same: "?f x = ?f c" if "replaces reqs c x" for c x
    using that assms(3) by (auto simp: replaces_def identifies_def)
  have sub: "?f ` set cur \<subseteq> ?f ` set inc" using assms(2) same by (metis image_subsetI image_eqI)
  have "card (?f ` set cur) = length inc"
    using distinct_card [of "map ?f cur"] assms(1,3) by (simp add: identifies_def)
  moreover have "card (?f ` set inc) \<le> length inc" by (metis card_length length_map list.set_map)
  ultimately have eq: "?f ` set cur = ?f ` set inc" "card (?f ` set inc) = length inc"
    using sub card_subset_eq [of "?f ` set inc" "?f ` set cur"] card_mono [of "?f ` set inc" "?f ` set cur"] by auto
  have dist: "distinct (map ?f inc)" using card_distinct [of "map ?f inc"] eq(2) by simp
  obtain c where c: "c \<in> set cur" "?f c = ?f i" using eq(1) assms(4) by (metis image_iff)
  obtain x where x: "x \<in> set inc" "replaces reqs c x" using assms(2) c(1) by blast
  have "x = i" using same [OF x(2)] c(2) dist x(1) assms(4) by (metis distinct_map inj_onD)
  then show ?thesis using c x(2) by blast
qed

text \<open>What a rule with a list lets a change do to the current value of a parameter. A rule without lists allows everything.\<close>

definition unrestricted :: "AllowedParamsChange \<Rightarrow> bool" where
  "unrestricted r \<longleftrightarrow> ac_SingleSubparamAllowedAttrs r = [] \<and> ac_MultiSubparamsRequirements r = []"

definition rule_respected :: "'w param_keeper \<Rightarrow> 'w \<Rightarrow> AllowedParamsChange \<Rightarrow> ParamChange \<Rightarrow> bool" where
  "rule_respected pk w r ch \<longleftrightarrow>
     (\<exists>subspace. pk_GetSubspace pk w (ch_Subspace ch) = Some subspace \<and>
        (if is_array_text (subspace (ch_Key ch)) then
           \<exists>cur inc. pk_Records pk (subspace (ch_Key ch)) = Some cur \<and> pk_Records pk (ch_Value ch) = Some inc \<and>
             records_respected (ac_MultiSubparamsRequirements r) cur inc
         else
           \<exists>cur inc. pk_Record pk (subspace (ch_Key ch)) = Some cur \<and> pk_Record pk (ch_Value ch) = Some inc \<and>
             keeps_others (ac_SingleSubparamAllowedAttrs r) cur inc))"

lemma allowsMulti_respects:
  assumes "allowsMultiParamsChange r cur inc"
  shows "records_respected (ac_MultiSubparamsRequirements r) cur inc"
proof -
  have len: "length inc = length cur" using assms by (simp add: allowsMultiParamsChange_def)
  have each: "\<forall>c\<in>set cur. \<exists>i\<in>set inc. replaces (ac_MultiSubparamsRequirements r) c i"
    using assms allowsMulti_loop unfolding allowsMultiParamsChange_def replaces_def by blast
  show ?thesis using len each records_paired [OF len each] by (simp add: records_respected_def)
qed

lemma allowsParamChange_respects:
  assumes "allowsParamChange pk w r ch = Inr True" "\<not> unrestricted r"
  shows "rule_respected pk w r ch"
proof -
  note rules = assms(2) [unfolded unrestricted_def]
  obtain subspace where sub: "pk_GetSubspace pk w (ch_Subspace ch) = Some subspace"
    using assms(1) rules by (auto simp: allowsParamChange_def split: if_split_asm option.split_asm)
  show ?thesis
  proof (cases "is_array_text (subspace (ch_Key ch))")
    case True
    then obtain cur inc where "pk_Records pk (ch_Value ch) = Some inc" "pk_Records pk (subspace (ch_Key ch)) = Some cur"
        "allowsMultiParamsChange r cur inc"
      using assms(1) rules sub by (auto simp: allowsParamChange_def Let_def split: if_split_asm option.split_asm)
    then show ?thesis using True sub allowsMulti_respects by (auto simp: rule_respected_def)
  next
    case False
    then obtain cur inc where "pk_Record pk (ch_Value ch) = Some inc" "pk_Record pk (subspace (ch_Key ch)) = Some cur"
        "allowsSingleParamsChange r cur inc"
      using assms(1) rules sub by (auto simp: allowsParamChange_def Let_def split: if_split_asm option.split_asm)
    then show ?thesis
      using False sub unfolding rule_respected_def allowsSingleParamsChange_def validateParamChanges_iff by auto
  qed
qed

text \<open>
  The check compares the number of attributes and the attributes the current value has. A proposal may therefore
  drop an attribute of the allow list and put one in its place that is neither on the list nor in the current value.
\<close>

lemma new_attribute_allowed:
  "validateParamChangesAreAllowed [(''limit'', JNumber ''5'')] [(''owner'', JString ''eve'')] [''limit'']"
  by code_simp

text \<open>
  In a list, a proposed record is compared only with the current records that lead to it. Two current records that match
  the same requirement lead to the same proposed one, and the other is free.
\<close>

lemma spare_record_allowed:
  "allowsMultiParamsChange
     \<lparr>ac_Subspace = ''cdp'', ac_Key = ''Params'', ac_SingleSubparamAllowedAttrs = [],
       ac_MultiSubparamsRequirements = [\<lparr>sr_Key = ''kind'', sr_Val = ''a'', sr_AllowedSubparamAttrChanges = []\<rparr>]\<rparr>
     [[(''kind'', JString ''a'')], [(''kind'', JString ''a'')]] [[(''kind'', JString ''a'')], [(''owner'', JString ''eve'')]]"
  by code_simp

definition ex_rule :: AllowedParamsChange where
  "ex_rule = \<lparr>ac_Subspace = ''cdp'', ac_Key = ''Params'', ac_SingleSubparamAllowedAttrs = [''fee''], ac_MultiSubparamsRequirements = []\<rparr>"

definition ex_list_rule :: AllowedParamsChange where
  "ex_list_rule = \<lparr>ac_Subspace = ''cdp'', ac_Key = ''List'', ac_SingleSubparamAllowedAttrs = [], ac_MultiSubparamsRequirements =
     [\<lparr>sr_Key = ''id'', sr_Val = ''x'', sr_AllowedSubparamAttrChanges = [''fee'']\<rparr>,
      \<lparr>sr_Key = ''id'', sr_Val = ''y'', sr_AllowedSubparamAttrChanges = []\<rparr>]\<rparr>"

definition ex_record :: "string \<Rightarrow> SubparamChanges option" where
  "ex_record s = (if s = ''a'' then Some [(''fee'', JNumber ''1''), (''limit'', JNumber ''9'')]
     else if s = ''b'' then Some [(''fee'', JNumber ''2''), (''limit'', JNumber ''9'')]
     else if s = ''c'' then Some [(''fee'', JNumber ''2''), (''limit'', JNumber ''8'')] else None)"

definition ex_item :: "string \<Rightarrow> string \<Rightarrow> SubparamChanges" where
  "ex_item i fee = [(''id'', JString i), (''fee'', JNumber fee)]"

definition ex_records :: "string \<Rightarrow> SubparamChanges list option" where
  "ex_records s = (if s = ''[a'' then Some [ex_item ''x'' ''1'', ex_item ''y'' ''1'']
     else if s = ''[b'' then Some [ex_item ''y'' ''1'', ex_item ''x'' ''2''] else None)"

definition ex_param_keeper :: "unit param_keeper" where
  "ex_param_keeper = \<lparr>pk_GetSubspace = (\<lambda>w s. if s = ''cdp'' then Some (\<lambda>k. if k = ''List'' then ''[a'' else ''a'') else None),
     pk_Record = ex_record, pk_Records = ex_records\<rparr>"

text \<open>
  C31: if a permission to change parameters allows a proposal, then for each of its changes the permission has a rule for
  exactly that subspace and key. The rule may have no lists, which permits any change of that key. Otherwise it is
  respected. A record keeps its number of attributes, and every attribute of the current record that is not on the list
  of the rule keeps its value. A list of records keeps its length, and each current record has a proposed record that
  replaces it: both match the same requirement of the rule, and the attributes outside the list of the requirement are
  kept. If the requirements identify the current records by an attribute, every proposed record replaces the current
  record with the same identity, so that none is added, dropped or renamed.
\<close>

theorem params_permission_limits:
  assumes "Allows pk w (ParamsChangePermission allowed) (ParameterChangeProposal c changes) = Inr True"
  shows "\<forall>ch\<in>set changes. \<exists>r\<in>set allowed. ac_Subspace r = ch_Subspace ch \<and> ac_Key r = ch_Key ch \<and>
    (unrestricted r \<or> rule_respected pk w r ch)"
proof
  fix ch assume "ch \<in> set changes"
  then have "any_allows (\<lambda>pc. allowsParamChange pk w pc ch) (filterByParamChange allowed ch) = Inr True"
    using assms by (simp add: ParamsChangePermission_Allows_def all_allowed_True)
  from any_allows_True [OF this] obtain r where
    r: "r \<in> set (filterByParamChange allowed ch)" "allowsParamChange pk w r ch = Inr True" by blast
  then show "\<exists>r\<in>set allowed. ac_Subspace r = ch_Subspace ch \<and> ac_Key r = ch_Key ch \<and> (unrestricted r \<or> rule_respected pk w r ch)"
    using allowsParamChange_respects [OF r(2)] by (auto simp: filterByParamChange_def apc_matches_def)
qed

theorem params_permission_limits_witness:
  "Allows ex_param_keeper () (ParamsChangePermission [ex_rule, ex_list_rule])
     (ParameterChangeProposal () [\<lparr>ch_Subspace = ''cdp'', ch_Key = ''Params'', ch_Value = ''b''\<rparr>, \<lparr>ch_Subspace = ''cdp'', ch_Key = ''List'', ch_Value = ''[b''\<rparr>]) = Inr True \<and>
   rule_respected ex_param_keeper () ex_rule \<lparr>ch_Subspace = ''cdp'', ch_Key = ''Params'', ch_Value = ''b''\<rparr> \<and>
   rule_respected ex_param_keeper () ex_list_rule \<lparr>ch_Subspace = ''cdp'', ch_Key = ''List'', ch_Value = ''[b''\<rparr> \<and>
   Allows ex_param_keeper () (ParamsChangePermission [ex_rule])
     (ParameterChangeProposal () [\<lparr>ch_Subspace = ''cdp'', ch_Key = ''Params'', ch_Value = ''c''\<rparr>]) = Inr False"
proof -
  have a: "Allows ex_param_keeper () (ParamsChangePermission [ex_rule, ex_list_rule])
     (ParameterChangeProposal () [\<lparr>ch_Subspace = ''cdp'', ch_Key = ''Params'', ch_Value = ''b''\<rparr>, \<lparr>ch_Subspace = ''cdp'', ch_Key = ''List'', ch_Value = ''[b''\<rparr>]) = Inr True"
    by code_simp
  have b: "Allows ex_param_keeper () (ParamsChangePermission [ex_rule])
     (ParameterChangeProposal () [\<lparr>ch_Subspace = ''cdp'', ch_Key = ''Params'', ch_Value = ''c''\<rparr>]) = Inr False" by code_simp
  have "\<not> unrestricted ex_rule" "\<not> unrestricted ex_list_rule" "ac_Key ex_rule = ''Params''" "ac_Key ex_list_rule = ''List''"
    by (simp_all add: unrestricted_def ex_rule_def ex_list_rule_def)
  then show ?thesis using params_permission_limits [OF a] a b by auto
qed

section \<open>Votes of token holders\<close>

lemma tally_abstain:
  assumes "foldR (tally_vote E w d) vs (yes, no, cast) = Inr (yes', no', cast')"
    "\<forall>v\<in>set vs. vo_VoteType v \<noteq> VOTE_TYPE_YES \<and> vo_VoteType v \<noteq> VOTE_TYPE_NO"
  shows "yes' = yes \<and> no' = no"
  using assms
proof (induction vs arbitrary: cast)
  case (Cons v vs)
  then show ?case by (auto simp: tally_vote_def Let_def split: if_split_asm)
qed simp

text \<open>
  The threshold is a share of the votes that do not abstain. When all abstain that share is of nothing, and the proposal
  passes without a single yes vote as soon as the abstentions make the quorum.
\<close>

lemma token_passes_without_yes:
  assumes "math_laws (ce_math E)" "TallyTokenCommitteeVotes E st i d = Inr (yes, no, cast, possible)"
    "\<forall>v\<in>set (GetVotesByProposal st i). vo_VoteType v \<noteq> VOTE_TYPE_YES \<and> vo_VoteType v \<noteq> VOTE_TYPE_NO"
    "GetTokenCommitteeProposalResult E st i b (Some q) d = Inr passed" "DecMul (ce_math E) q possible = Inr needed" "needed \<le> cast"
  shows "yes = 0 \<and> passed"
proof -
  have z: "yes = 0" "no = 0"
    using assms(2) tally_abstain [OF _ assms(3)] by (fastforce simp: TallyTokenCommitteeVotes_def)+
  obtain t bar where "DecMul (ce_math E) 0 t = Inr bar" "passed = (0 \<ge> bar)"
    using assms(2,4-6) z by (auto simp: GetTokenCommitteeProposalResult_def nonnil_def split: option.split_asm)
  moreover from DecMul_exact [OF assms(1) this(1), of 0] have "bar = 0" by simp
  ultimately show ?thesis using z by simp
qed

end
