(* ===== verification/Committee_Safety.thy ===== *)
theory Committee_Safety
  imports Committee
begin

text \<open>
  Properties of the committees: the stores stay consistent in every reachable state, a block closes exactly the
  proposals that are due, only proposals that passed and that the committee is permitted to enact change
  anything, in a member committee only with the votes of enough current members, and what a permission to change
  parameters allows.
\<close>

section \<open>Deleting a proposal with its votes\<close>

lemma fold_kv_del: "fold (\<lambda>k s. kv_del s k) ks s = filter (\<lambda>(i, w). i \<notin> set ks) s"
  by (induction ks arbitrary: s) (auto simp: kv_del_def intro: filter_cong)

definition votes_keyed :: "('w, 'c) committee_state \<Rightarrow> bool" where
  "votes_keyed st \<longleftrightarrow> (\<forall>(k, v)\<in>set (ck_votes st). k = (vo_ProposalID v, vo_Voter v))"

definition drop_proposal :: "uint64 \<Rightarrow> ('w, 'c) committee_state \<Rightarrow> ('w, 'c) committee_state" where
  "drop_proposal i st = st\<lparr>ck_proposals := kv_del (ck_proposals st) i, ck_votes := filter (\<lambda>(k, v). fst k \<noteq> i) (ck_votes st)\<rparr>"

lemma delete_votes_fold:
  "fold (\<lambda>v st. DeleteVote st (vo_ProposalID v) (vo_Voter v)) vs st =
     st\<lparr>ck_votes := fold (\<lambda>k s. kv_del s k) (map (\<lambda>v. (vo_ProposalID v, vo_Voter v)) vs) (ck_votes st)\<rparr>"
  by (induction vs arbitrary: st) (simp_all add: DeleteVote_def)

lemma DeleteProposalAndVotes_eq:
  assumes "votes_keyed st"
  shows "DeleteProposalAndVotes st i = drop_proposal i st"
proof -
  have "map (\<lambda>v. (vo_ProposalID v, vo_Voter v)) (GetVotesByProposal st i) = map fst (filter (\<lambda>(k, v). fst k = i) (ck_votes st))"
    using assms unfolding votes_keyed_def GetVotesByProposal_def by (auto intro!: map_cong)
  then have keys: "set (map (\<lambda>v. (vo_ProposalID v, vo_Voter v)) (GetVotesByProposal st i)) = {k \<in> fst ` set (ck_votes st). fst k = i}"
    by (auto simp: image_iff)
  have "filter (\<lambda>(k, v). k \<notin> {k \<in> fst ` set (ck_votes st). fst k = i}) (ck_votes st) = filter (\<lambda>(k, v). fst k \<noteq> i) (ck_votes st)"
    by (rule filter_cong) (auto simp: image_iff)
  then show ?thesis
    unfolding DeleteProposalAndVotes_def delete_votes_fold fold_kv_del keys by (simp add: DeleteProposal_def drop_proposal_def)
qed

lemma kv_get_filter: "kv_get (filter (\<lambda>(k, v). P k) s) k = (if P k then kv_get s k else None)"
  by (induction s) auto

lemma kv_ok_filter: "kv_ok s \<Longrightarrow> kv_ok (filter P s)"
  unfolding kv_ok_def sorted_wrt_map by (rule sorted_wrt_filter)

lemma drop_proposal_get:
  "GetProposal (drop_proposal i st) j = (if j = i then None else GetProposal st j)"
  "GetVote (drop_proposal i st) j a = (if j = i then None else GetVote st j a)"
  "GetCommittee (drop_proposal i st) = GetCommittee st" "ck_world (drop_proposal i st) = ck_world st"
  "ck_nextID (drop_proposal i st) = ck_nextID st" "ck_committees (drop_proposal i st) = ck_committees st"
  by (auto simp: drop_proposal_def GetProposal_def GetVote_def GetCommittee_def fun_eq_iff kv_get_filter [of "\<lambda>k. fst k \<noteq> i"])

lemma votes_keyed_drop: "votes_keyed st \<Longrightarrow> votes_keyed (drop_proposal i st)"
  by (auto simp: votes_keyed_def drop_proposal_def)

lemma CloseProposal_Inr:
  "votes_keyed st \<Longrightarrow> CloseProposal E st p out = Inr st' \<Longrightarrow> st' = drop_proposal (pr_ID p) st"
  by (auto simp: CloseProposal_def DeleteProposalAndVotes_eq)

section \<open>Consistent stores\<close>

fun member_vote :: "committee \<Rightarrow> vote \<Rightarrow> bool" where
  "member_vote (MemberCommittee b) v \<longleftrightarrow> vo_Voter v \<in> set (bc_Members b) \<and> vo_VoteType v = VOTE_TYPE_YES"
| "member_vote _ v \<longleftrightarrow> True"

definition committees_ok :: "sdk_math \<Rightarrow> ('w, 'c) committee_state \<Rightarrow> bool" where
  "committees_ok m st \<longleftrightarrow> (\<forall>i c. GetCommittee st i = Some c \<longrightarrow> com_GetID c = i \<and> com_Validate m c = Inr ())"

definition proposals_ok :: "('w, 'c) committee_state \<Rightarrow> bool" where
  "proposals_ok st \<longleftrightarrow> (\<exists>n. ck_nextID st = Some n \<and>
     (\<forall>i p. GetProposal st i = Some p \<longrightarrow> pr_ID p = i \<and> i < n \<and> GetCommittee st (pr_CommitteeID p) \<noteq> None))"

definition votes_ok :: "('w, 'c) committee_state \<Rightarrow> bool" where
  "votes_ok st \<longleftrightarrow> (\<forall>i a v. GetVote st i a = Some v \<longrightarrow> vo_ProposalID v = i \<and> vo_Voter v = a \<and>
     (\<exists>p com. GetProposal st i = Some p \<and> GetCommittee st (pr_CommitteeID p) = Some com \<and> member_vote com v))"

definition stores_ok :: "('w, 'c) committee_state \<Rightarrow> bool" where
  "stores_ok st \<longleftrightarrow> kv_ok (ck_committees st) \<and> kv_ok (ck_proposals st) \<and> kv_ok (ck_votes st)"

definition committee_wf :: "sdk_math \<Rightarrow> ('w, 'c) committee_state \<Rightarrow> bool" where
  "committee_wf m st \<longleftrightarrow> stores_ok st \<and> committees_ok m st \<and> proposals_ok st \<and> votes_ok st"

lemma committee_wfD:
  assumes "committee_wf m st"
  shows "stores_ok st" "committees_ok m st" "proposals_ok st" "votes_ok st" "votes_keyed st"
proof -
  show wf: "stores_ok st" "committees_ok m st" "proposals_ok st" "votes_ok st"
    using assms by (simp_all add: committee_wf_def)
  have "k = (vo_ProposalID v, vo_Voter v)" if "(k, v) \<in> set (ck_votes st)" for k v
  proof -
    have "kv_ok (ck_votes st)" using wf(1) by (simp add: stores_ok_def)
    from kv.entry_iff [OF this, THEN iffD1, OF that] have "GetVote st (fst k) (snd k) = Some v" by (simp add: GetVote_def)
    from wf(4) [unfolded votes_ok_def, rule_format, OF this] show ?thesis by (simp add: prod_eq_iff)
  qed
  then show "votes_keyed st" by (auto simp: votes_keyed_def)
qed

lemma committee_wf_world [simp]: "committee_wf m (st\<lparr>ck_world := w\<rparr>) = committee_wf m st"
  by (simp add: committee_wf_def stores_ok_def committees_ok_def proposals_ok_def votes_ok_def GetCommittee_def GetProposal_def GetVote_def)

lemma committee_wf_drop:
  assumes "committee_wf m st"
  shows "committee_wf m (drop_proposal i st)"
proof -
  note wf = committee_wfD [OF assms]
  have "stores_ok (drop_proposal i st)" using wf(1) by (simp add: stores_ok_def drop_proposal_def kv_ok_filter)
  moreover have "committees_ok m (drop_proposal i st)" using wf(2) by (simp add: committees_ok_def drop_proposal_get)
  moreover have "proposals_ok (drop_proposal i st)" using wf(3) by (auto simp: proposals_ok_def drop_proposal_get)
  moreover have "votes_ok (drop_proposal i st)" using wf(4) unfolding votes_ok_def drop_proposal_get by auto
  ultimately show ?thesis by (simp add: committee_wf_def)
qed

lemma CloseProposal_wf:
  assumes "committee_wf m st" "CloseProposal E st p out = Inr st'"
  shows "committee_wf m st'" "st' = drop_proposal (pr_ID p) st"
  using CloseProposal_Inr [OF committee_wfD(5) [OF assms(1)] assms(2)] committee_wf_drop [OF assms(1)] by auto

section \<open>Enacting\<close>

definition permitted :: "('w, 'c) committee_env \<Rightarrow> ('w, 'c) committee_state \<Rightarrow> 'c proposal \<Rightarrow> 'w \<Rightarrow> bool" where
  "permitted E st p w' \<longleftrightarrow> (\<exists>com c handler. GetCommittee st (pr_CommitteeID p) = Some com \<and> pr_Content p = Some c \<and>
     HasPermissionsFor (ce_params E) (ck_world st) com (Some c) = Inr True \<and>
     ce_router E (content_ProposalRoute (ce_methods E) c) = Some handler \<and> handler (ck_world st) c = Inr w')"

lemma enactProposal_permitted:
  assumes "enactProposal E st p = Inr st'"
  shows "st' = st\<lparr>ck_world := ck_world st'\<rparr>" "permitted E st p (ck_world st')"
proof -
  obtain com where com: "GetCommittee st (pr_CommitteeID p) = Some com"
    using assms by (auto simp: enactProposal_def split: option.split_asm)
  then have perm: "HasPermissionsFor (ce_params E) (ck_world st) com (pr_Content p) = Inr True"
    using assms by (auto simp: enactProposal_def split: if_split_asm)
  obtain c handler w' where c: "pr_Content p = Some c" "ce_router E (content_ProposalRoute (ce_methods E) c) = Some handler"
      "handler (ck_world st) c = Inr w'" "st' = st\<lparr>ck_world := w'\<rparr>"
    using assms com perm by (auto simp: enactProposal_def split: option.split_asm)
  then show "st' = st\<lparr>ck_world := ck_world st'\<rparr>" by simp
  show "permitted E st p (ck_world st')" using com perm c unfolding permitted_def by auto
qed

lemma attemptEnactProposal_cases:
  assumes "attemptEnactProposal E st p = Inr (st', out)"
  obtains w where "st' = st\<lparr>ck_world := w\<rparr>" "w = ck_world st \<or> permitted E st p w"
proof (cases "enactProposal E st p")
  case (Inl f)
  then have "st' = st\<lparr>ck_world := ck_world st\<rparr>" using assms by (auto simp: attemptEnactProposal_def split: fault.split_asm)
  then show ?thesis using that by blast
next
  case (Inr s)
  then have "st' = s" using assms by (simp add: attemptEnactProposal_def)
  with enactProposal_permitted [OF Inr] show ?thesis using that by blast
qed

text \<open>The decision a block takes on one proposal.\<close>

definition due :: "('w, 'c) committee_state \<Rightarrow> time \<Rightarrow> 'c proposal \<Rightarrow> committee \<Rightarrow> bool" where
  "due st now p com \<longleftrightarrow> HasExpiredBy p now \<or> com_GetTallyOption com = TALLY_OPTION_FIRST_PAST_THE_POST"

definition enacted ::
    "('w, 'c) committee_env \<Rightarrow> time \<Rightarrow> 'c proposal \<Rightarrow> ('w, 'c) committee_state \<Rightarrow> 'w \<Rightarrow> bool" where
  "enacted E now p st w' \<longleftrightarrow> (\<exists>com. GetCommittee st (pr_CommitteeID p) = Some com \<and> due st now p com \<and>
     GetProposalResult E st (pr_ID p) com = Inr True) \<and> permitted E st p w'"

lemma process_proposal_cases:
  assumes "process_proposal E now p st = Inr st'" "committee_wf m st"
  obtains (stays) com where "st' = st" "GetCommittee st (pr_CommitteeID p) = Some com" "\<not> HasExpiredBy p now"
      "com_GetTallyOption com \<noteq> TALLY_OPTION_FIRST_PAST_THE_POST \<or> GetProposalResult E st (pr_ID p) com = Inr False"
  | (closes) w where "st' = drop_proposal (pr_ID p) (st\<lparr>ck_world := w\<rparr>)" "w = ck_world st \<or> enacted E now p st w"
      "HasExpiredBy p now \<or> GetCommittee st (pr_CommitteeID p) = None \<or>
       (\<exists>com. GetCommittee st (pr_CommitteeID p) = Some com \<and> com_GetTallyOption com = TALLY_OPTION_FIRST_PAST_THE_POST \<and>
          GetProposalResult E st (pr_ID p) com = Inr True)"
proof (cases "GetCommittee st (pr_CommitteeID p)")
  case None
  then have "CloseProposal E st p Failed = Inr st'" using assms(1) by (simp add: process_proposal_def)
  from CloseProposal_wf(2) [OF assms(2) this] have "st' = drop_proposal (pr_ID p) (st\<lparr>ck_world := ck_world st\<rparr>)" by simp
  then show ?thesis using closes None by blast
next
  case (Some com)
  have close: ?thesis
    if r: "GetProposalResult E st (pr_ID p) com = Inr passed"
      and a: "(if passed then attemptEnactProposal E st p else Inr (st, Failed)) = Inr (st1, out)"
      and c: "CloseProposal E st1 p out = Inr st'"
      and d: "HasExpiredBy p now \<or> com_GetTallyOption com = TALLY_OPTION_FIRST_PAST_THE_POST \<and> passed" for passed st1 out
  proof -
    obtain w where w: "st1 = st\<lparr>ck_world := w\<rparr>" "w = ck_world st \<or> (passed \<and> permitted E st p w)"
    proof (cases passed)
      case True
      then show ?thesis using a attemptEnactProposal_cases that by (metis (full_types))
    next
      case False
      then have "st1 = st\<lparr>ck_world := ck_world st\<rparr>" using a by simp
      then show ?thesis using that by blast
    qed
    have "st' = drop_proposal (pr_ID p) (st\<lparr>ck_world := w\<rparr>)"
      using CloseProposal_wf(2) [OF _ c, of m] assms(2) w(1) by simp
    moreover have "w = ck_world st \<or> enacted E now p st w"
      using w(2) r d Some unfolding enacted_def due_def by auto
    moreover have "HasExpiredBy p now \<or> (\<exists>com. GetCommittee st (pr_CommitteeID p) = Some com \<and>
        com_GetTallyOption com = TALLY_OPTION_FIRST_PAST_THE_POST \<and> GetProposalResult E st (pr_ID p) com = Inr True)"
      using d r Some by auto
    ultimately show ?thesis using closes by blast
  qed
  show ?thesis
  proof (cases "HasExpiredBy p now")
    case True
    then show ?thesis using assms(1) Some by (auto simp: process_proposal_def intro!: close)
  next
    case False
    show ?thesis
    proof (cases "com_GetTallyOption com = TALLY_OPTION_FIRST_PAST_THE_POST")
      case True
      then obtain passed where passed: "GetProposalResult E st (pr_ID p) com = Inr passed"
        using assms(1) Some False by (auto simp: process_proposal_def)
      show ?thesis
      proof (cases passed)
        case True
        then show ?thesis using assms(1) Some False \<open>com_GetTallyOption com = _\<close> passed
          by (auto simp: process_proposal_def intro!: close)
      next
        case unpassed: False
        then show ?thesis using assms(1) Some False True passed by (auto simp: process_proposal_def intro: stays)
      qed
    next
      case deadline: False
      then show ?thesis using assms(1) Some False by (auto simp: process_proposal_def intro: stays)
    qed
  qed
qed

section \<open>A block\<close>

lemma foldR_trace:
  assumes "foldR f xs s = Inr t" "P s" "\<And>x s s'. P s \<Longrightarrow> f x s = Inr s' \<Longrightarrow> P s'"
  shows "\<exists>ss. length ss = Suc (length xs) \<and> ss ! 0 = s \<and> ss ! length xs = t \<and>
    (\<forall>i\<le>length xs. P (ss ! i)) \<and> (\<forall>i<length xs. f (xs ! i) (ss ! i) = Inr (ss ! Suc i))"
  using assms(1,2)
proof (induction xs arbitrary: s)
  case Nil
  then show ?case by (intro exI [of _ "[s]"]) simp
next
  case (Cons x xs)
  then obtain s1 where s1: "f x s = Inr s1" "foldR f xs s1 = Inr t" by auto
  from Cons.IH [OF s1(2) assms(3) [OF Cons.prems(2) s1(1)]] obtain ss where
    ss: "length ss = Suc (length xs)" "ss ! 0 = s1" "ss ! length xs = t" "\<forall>i\<le>length xs. P (ss ! i)"
      "\<forall>i<length xs. f (xs ! i) (ss ! i) = Inr (ss ! Suc i)" by blast
  have "\<forall>i\<le>length (x # xs). P ((s # ss) ! i)"
  proof (intro allI impI)
    fix i assume "i \<le> length (x # xs)"
    then show "P ((s # ss) ! i)" using ss(4) Cons.prems(2) by (cases i) auto
  qed
  moreover have "\<forall>i<length (x # xs). f ((x # xs) ! i) ((s # ss) ! i) = Inr ((s # ss) ! Suc i)"
  proof (intro allI impI)
    fix i assume "i < length (x # xs)"
    then show "f ((x # xs) ! i) ((s # ss) ! i) = Inr ((s # ss) ! Suc i)" using ss(2,5) s1(1) by (cases i) auto
  qed
  ultimately show ?case using ss(1,3) by (intro exI [of _ "s # ss"]) simp
qed

definition same_at :: "uint64 \<Rightarrow> ('w, 'c) committee_state \<Rightarrow> ('w, 'c) committee_state \<Rightarrow> bool" where
  "same_at i st st' \<longleftrightarrow> GetProposal st' i = GetProposal st i \<and> GetVote st' i = GetVote st i"

definition gone_at :: "uint64 \<Rightarrow> ('w, 'c) committee_state \<Rightarrow> bool" where
  "gone_at i st \<longleftrightarrow> GetProposal st i = None \<and> GetVote st i = (\<lambda>a. None)"

definition shrinks :: "uint64 set \<Rightarrow> ('w, 'c) committee_state \<Rightarrow> ('w, 'c) committee_state \<Rightarrow> bool" where
  "shrinks I st st' \<longleftrightarrow> GetCommittee st' = GetCommittee st \<and> ck_nextID st' = ck_nextID st \<and>
     (\<forall>i. same_at i st st' \<or> i \<in> I \<and> gone_at i st')"

lemma shrinks_refl: "shrinks I st st"
  by (simp add: shrinks_def same_at_def)

lemma shrinks_trans:
  assumes "shrinks I st st1" "shrinks J st1 st'"
  shows "shrinks (I \<union> J) st st'"
  using assms unfolding shrinks_def same_at_def gone_at_def by (metis UnI1 UnI2)

lemma gone_stays: "shrinks I st st' \<Longrightarrow> gone_at i st \<Longrightarrow> gone_at i st'"
  unfolding shrinks_def same_at_def gone_at_def by metis

lemma same_outside: "shrinks I st st' \<Longrightarrow> i \<notin> I \<Longrightarrow> same_at i st st'"
  by (auto simp: shrinks_def)

lemma drop_shrinks: "shrinks {i} st (drop_proposal i (st\<lparr>ck_world := w\<rparr>))" "gone_at i (drop_proposal i st)"
  by (auto simp: shrinks_def same_at_def gone_at_def drop_proposal_get fun_eq_iff)
    (simp_all add: GetCommittee_def GetProposal_def GetVote_def)

lemma process_proposal_step:
  assumes "process_proposal E now p st = Inr st'" "committee_wf m st"
  shows "committee_wf m st'" "shrinks {pr_ID p} st st'" "HasExpiredBy p now \<Longrightarrow> gone_at (pr_ID p) st'"
    "GetCommittee st (pr_CommitteeID p) = Some com \<Longrightarrow> \<not> HasExpiredBy p now \<Longrightarrow>
     com_GetTallyOption com \<noteq> TALLY_OPTION_FIRST_PAST_THE_POST \<Longrightarrow> st' = st"
    "ck_world st' = ck_world st \<or> enacted E now p st (ck_world st')"
proof -
  have "committee_wf m st' \<and> shrinks {pr_ID p} st st' \<and> (HasExpiredBy p now \<longrightarrow> gone_at (pr_ID p) st') \<and>
    (GetCommittee st (pr_CommitteeID p) = Some com \<longrightarrow> \<not> HasExpiredBy p now \<longrightarrow>
     com_GetTallyOption com \<noteq> TALLY_OPTION_FIRST_PAST_THE_POST \<longrightarrow> st' = st) \<and>
    (ck_world st' = ck_world st \<or> enacted E now p st (ck_world st'))"
  proof (rule process_proposal_cases [OF assms], goal_cases)
    case (1 com')
    then show ?thesis using assms(2) by (simp add: shrinks_refl)
  next
    case (2 w)
    have "committee_wf m st'" unfolding 2(1) using assms(2) by (intro committee_wf_drop) simp
    moreover have "shrinks {pr_ID p} st st'" "gone_at (pr_ID p) st'" unfolding 2(1) by (rule drop_shrinks)+
    moreover have "ck_world st' = w" unfolding 2(1) by (simp add: drop_proposal_get)
    ultimately show ?thesis using 2(2,3) by auto
  qed
  then show "committee_wf m st'" "shrinks {pr_ID p} st st'" "HasExpiredBy p now \<Longrightarrow> gone_at (pr_ID p) st'"
    "GetCommittee st (pr_CommitteeID p) = Some com \<Longrightarrow> \<not> HasExpiredBy p now \<Longrightarrow>
     com_GetTallyOption com \<noteq> TALLY_OPTION_FIRST_PAST_THE_POST \<Longrightarrow> st' = st"
    "ck_world st' = ck_world st \<or> enacted E now p st (ck_world st')" by blast+
qed

lemma process_all:
  assumes "foldR (process_proposal E now) ps st = Inr st'" "committee_wf m st" "distinct (map pr_ID ps)"
  shows "committee_wf m st' \<and> shrinks (pr_ID ` set ps) st st' \<and>
    (\<forall>p\<in>set ps. (HasExpiredBy p now \<longrightarrow> gone_at (pr_ID p) st') \<and>
       (\<forall>com. GetCommittee st (pr_CommitteeID p) = Some com \<longrightarrow> \<not> HasExpiredBy p now \<longrightarrow>
          com_GetTallyOption com \<noteq> TALLY_OPTION_FIRST_PAST_THE_POST \<longrightarrow> same_at (pr_ID p) st st'))"
  using assms
proof (induction ps arbitrary: st)
  case Nil
  then show ?case by (simp add: shrinks_refl)
next
  case (Cons p ps)
  then obtain st1 where st1: "process_proposal E now p st = Inr st1" "foldR (process_proposal E now) ps st1 = Inr st'" by auto
  note step = process_proposal_step [OF st1(1) Cons.prems(2)]
  have IH: "committee_wf m st'" "shrinks (pr_ID ` set ps) st1 st'"
      "\<forall>q\<in>set ps. (HasExpiredBy q now \<longrightarrow> gone_at (pr_ID q) st') \<and>
       (\<forall>com. GetCommittee st1 (pr_CommitteeID q) = Some com \<longrightarrow> \<not> HasExpiredBy q now \<longrightarrow>
          com_GetTallyOption com \<noteq> TALLY_OPTION_FIRST_PAST_THE_POST \<longrightarrow> same_at (pr_ID q) st1 st')"
    using Cons.IH [OF st1(2) step(1)] Cons.prems(3) by auto
  have coms: "GetCommittee st1 = GetCommittee st" using step(2) by (simp add: shrinks_def)
  have "shrinks (pr_ID ` set (p # ps)) st st'" using shrinks_trans [OF step(2) IH(2)] by simp
  moreover have "HasExpiredBy p now \<longrightarrow> gone_at (pr_ID p) st'" using step(3) gone_stays [OF IH(2)] by blast
  moreover have "same_at (pr_ID p) st st'" if "GetCommittee st (pr_CommitteeID p) = Some com" "\<not> HasExpiredBy p now"
      "com_GetTallyOption com \<noteq> TALLY_OPTION_FIRST_PAST_THE_POST" for com
    using step(4) [OF that] same_outside [OF IH(2), of "pr_ID p"] Cons.prems(3) by auto
  moreover have "same_at (pr_ID q) st st'" if "q \<in> set ps" "same_at (pr_ID q) st1 st'" for q
  proof -
    have "pr_ID q \<noteq> pr_ID p" using that(1) Cons.prems(3) by (auto simp: rev_image_eqI)
    then have "same_at (pr_ID q) st st1" using same_outside [OF step(2)] by blast
    then show ?thesis using that(2) by (simp add: same_at_def)
  qed
  ultimately show ?case using IH(1,3) coms by auto
qed

lemma GetProposals_ids:
  assumes "committee_wf m st"
  shows "distinct (map pr_ID (GetProposals st))" "p \<in> set (GetProposals st) \<longleftrightarrow> GetProposal st (pr_ID p) = Some p"
    "pr_ID ` set (GetProposals st) = {i. GetProposal st i \<noteq> None}"
proof -
  have ok: "kv_ok (ck_proposals st)" using committee_wfD(1) [OF assms] by (simp add: stores_ok_def)
  have id: "pr_ID q = k" if "(k, q) \<in> set (ck_proposals st)" for k q
    using kv.entry_iff [OF ok, THEN iffD1, OF that] committee_wfD(3) [OF assms] by (auto simp: proposals_ok_def GetProposal_def)
  then have ids: "map pr_ID (GetProposals st) = map fst (ck_proposals st)" by (auto simp: GetProposals_def)
  then show "distinct (map pr_ID (GetProposals st))" using kv.keys_distinct [OF ok] by (simp only:)
  show "p \<in> set (GetProposals st) \<longleftrightarrow> GetProposal st (pr_ID p) = Some p"
    unfolding GetProposals_def GetProposal_def kv.entry_iff [OF ok, symmetric] using id by force
  have "pr_ID ` set (GetProposals st) = set (map fst (ck_proposals st))" unfolding ids [symmetric] by simp
  also have "\<dots> = dom (kv_get (ck_proposals st))" using kv.keys_dom [OF ok] by simp
  finally show "pr_ID ` set (GetProposals st) = {i. GetProposal st i \<noteq> None}" by (auto simp: GetProposal_def)
qed

section \<open>Votes of member committees\<close>

text \<open>Distinct keys: the votes on a proposal come from distinct voters.\<close>

lemma GetVotesByProposal_voters:
  assumes "committee_wf m st"
  shows "distinct (map vo_Voter (GetVotesByProposal st i))" "v \<in> set (GetVotesByProposal st i) \<longleftrightarrow> GetVote st i (vo_Voter v) = Some v"
proof -
  let ?vs = "filter (\<lambda>(k, v). fst k = i) (ck_votes st)"
  have ok: "kv_ok (ck_votes st)" using committee_wfD(1) [OF assms] by (simp add: stores_ok_def)
  have keyed: "k = (vo_ProposalID v, vo_Voter v)" if "(k, v) \<in> set (ck_votes st)" for k v
    using committee_wfD(5) [OF assms] that by (auto simp: votes_keyed_def)
  have "map vo_Voter (GetVotesByProposal st i) = map snd (map fst ?vs)"
    using keyed unfolding GetVotesByProposal_def by (auto simp: prod_eq_iff)
  moreover have "distinct (map fst ?vs)" using kv.keys_distinct [OF kv_ok_filter [OF ok]] by simp
  moreover have "inj_on snd (set (map fst ?vs))" by (rule inj_onI) (auto simp: prod_eq_iff)
  ultimately show "distinct (map vo_Voter (GetVotesByProposal st i))" by (simp only: distinct_map [of snd] simp_thms)
  have "v \<in> set (GetVotesByProposal st i) \<longleftrightarrow> (\<exists>k. (k, v) \<in> set (ck_votes st) \<and> fst k = i)"
    by (force simp: GetVotesByProposal_def)
  also have "\<dots> \<longleftrightarrow> ((i, vo_Voter v), v) \<in> set (ck_votes st)" using keyed by force
  finally show "v \<in> set (GetVotesByProposal st i) \<longleftrightarrow> GetVote st i (vo_Voter v) = Some v"
    by (simp only: GetVote_def kv.entry_iff [OF ok])
qed

definition yes_members :: "('w, 'c) committee_state \<Rightarrow> uint64 \<Rightarrow> BaseCommittee \<Rightarrow> address set" where
  "yes_members st i b = {a \<in> set (bc_Members b). \<exists>v. GetVote st i a = Some v \<and> vo_VoteType v = VOTE_TYPE_YES}"

lemma member_majority:
  assumes "math_laws (ce_math E)" "committee_wf (ce_math E) st" "GetProposal st i = Some p"
    "GetCommittee st (pr_CommitteeID p) = Some (MemberCommittee b)"
    "GetProposalResult E st i (MemberCommittee b) = Inr True"
  shows "\<exists>t. bc_VoteThreshold b = Some t \<and> t * int (length (bc_Members b)) \<le> int (card (yes_members st i b)) * OneDec"
proof -
  obtain t needed where t: "bc_VoteThreshold b = Some t"
      "DecMul (ce_math E) t (NewDecFromInt (int (length (bc_Members b)))) = Inr needed"
      "needed \<le> NewDecFromInt (int (length (GetVotesByProposal st i)))"
    using assms(5) by (auto simp: GetMemberCommitteeProposalResult_def com_GetVoteThreshold_def nonnil_def com_GetMembers_def
        TallyMemberCommitteeVotes_def split: option.split_asm)
  have "needed = t * int (length (bc_Members b))"
    by (rule DecMul_exact [OF assms(1) t(2)]) (simp add: NewDecFromInt_def)
  moreover have "vo_Voter ` set (GetVotesByProposal st i) \<subseteq> yes_members st i b"
  proof
    fix a assume "a \<in> vo_Voter ` set (GetVotesByProposal st i)"
    then obtain v where v: "GetVote st i a = Some v" "vo_Voter v = a"
      using GetVotesByProposal_voters(2) [OF assms(2)] by auto
    from committee_wfD(4) [OF assms(2), unfolded votes_ok_def, rule_format, OF v(1)] obtain q com where
      "GetProposal st i = Some q" "GetCommittee st (pr_CommitteeID q) = Some com" "member_vote com v" by blast
    then have "member_vote (MemberCommittee b) v" using assms(3,4) by simp
    then show "a \<in> yes_members st i b" using v by (simp add: yes_members_def)
  qed
  then have "card (vo_Voter ` set (GetVotesByProposal st i)) \<le> card (yes_members st i b)"
    by (intro card_mono) (simp_all add: yes_members_def)
  moreover have "length (GetVotesByProposal st i) = card (vo_Voter ` set (GetVotesByProposal st i))"
    using distinct_card [OF GetVotesByProposal_voters(1) [OF assms(2), of i]] by simp
  ultimately show ?thesis using t(1,3) by (simp add: NewDecFromInt_def OneDec_def)
qed

section \<open>Messages keep the stores consistent\<close>

lemma word_less_succ: "(n :: 64 word) \<noteq> - 1 \<Longrightarrow> n < n + 1"
  using unatSuc [of n] max_word_wrap [of n] by (cases "1 + n = 0") (auto simp: word_less_nat_alt add.commute)

lemma committee_frame [simp]:
  "GetCommittee (SetNextProposalID st n) = GetCommittee st" "GetCommittee (SetProposal st p) = GetCommittee st"
  "GetCommittee (SetVote st v) = GetCommittee st" "GetProposal (SetNextProposalID st n) = GetProposal st"
  "GetProposal (SetVote st v) = GetProposal st" "GetVote (SetNextProposalID st n) = GetVote st"
  "GetVote (SetProposal st p) = GetVote st" "ck_nextID (SetVote st v) = ck_nextID st"
  "ck_nextID (SetProposal st p) = ck_nextID st" "ck_nextID (SetNextProposalID st n) = Some n"
  "GetProposal (SetProposal st p) i = (if i = pr_ID p then Some p else GetProposal st i)"
  "GetVote (SetVote st v) i a = (if i = vo_ProposalID v \<and> a = vo_Voter v then Some v else GetVote st i a)"
  "GetProposal (SetCommittee st c) = GetProposal st" "GetProposal (DeleteCommittee st k) = GetProposal st"
  "GetVote (SetCommittee st c) = GetVote st" "GetVote (DeleteCommittee st k) = GetVote st"
  "ck_nextID (SetCommittee st c) = ck_nextID st" "ck_nextID (DeleteCommittee st k) = ck_nextID st"
  "GetCommittee (SetCommittee st c) i = (if i = com_GetID c then Some c else GetCommittee st i)"
  "GetCommittee (DeleteCommittee st k) i = (if i = k then None else GetCommittee st i)"
  "stores_ok st \<Longrightarrow> stores_ok (SetNextProposalID st n)" "stores_ok st \<Longrightarrow> stores_ok (SetProposal st p)"
  "stores_ok st \<Longrightarrow> stores_ok (SetVote st v)" "stores_ok st \<Longrightarrow> stores_ok (SetCommittee st c)"
  "stores_ok st \<Longrightarrow> stores_ok (DeleteCommittee st k)"
  by (simp_all add: GetCommittee_def GetProposal_def GetVote_def SetNextProposalID_def SetProposal_def SetVote_def
      SetCommittee_def DeleteCommittee_def stores_ok_def fun_eq_iff)

lemma SubmitProposal_wf:
  assumes "SubmitProposal E now st a k c = Inr (st', i)" "committee_wf m st" "ck_nextID st \<noteq> Some (- 1)"
  shows "committee_wf m st'"
proof -
  note wf = committee_wfD [OF assms(2)]
  obtain com where com: "GetCommittee st k = Some com" using assms(1) by (auto simp: SubmitProposal_def split: option.split_asm)
  obtain p where st': "st' = SetNextProposalID (SetProposal st p) (i + 1)" and p: "pr_ID p = i" "pr_CommitteeID p = k"
    and i: "ck_nextID st = Some i"
    using assms(1) com by (auto simp: SubmitProposal_def StoreNewProposal_def GetNextProposalID_def IncrementNextProposalID_def
        split: if_split_asm option.split_asm)
  have below: "j < i + 1" if "j < i \<or> j = i" for j using word_less_succ [of i] that i assms(3) by auto
  have fresh: "GetProposal st i = None"
  proof (rule ccontr)
    assume "GetProposal st i \<noteq> None"
    then have "i < i" using wf(3) i unfolding proposals_ok_def by force
    then show False by simp
  qed
  then have novotes: "GetVote st i a = None" for a
    using wf(4) unfolding votes_ok_def by (metis not_None_eq)
  have "stores_ok st'" "committees_ok m st'" using wf(1,2) by (simp_all add: st' committees_ok_def)
  moreover have "proposals_ok st'"
    using wf(3) i com p below unfolding proposals_ok_def st' by auto
  moreover have "votes_ok st'"
    unfolding votes_ok_def
  proof (intro allI impI)
    fix j a v assume v: "GetVote st' j a = Some v"
    then have old: "GetVote st j a = Some v" by (simp add: st')
    then have "j \<noteq> i" using novotes by auto
    then show "vo_ProposalID v = j \<and> vo_Voter v = a \<and>
        (\<exists>p com. GetProposal st' j = Some p \<and> GetCommittee st' (pr_CommitteeID p) = Some com \<and> member_vote com v)"
      using wf(4) [unfolded votes_ok_def, rule_format, OF old] by (simp add: st' p)
  qed
  ultimately show ?thesis by (simp add: committee_wf_def)
qed

lemma AddVote_cases:
  assumes "AddVote now st i a vt = Inr st'"
  obtains p com where "GetProposal st i = Some p" "now < pr_Deadline p" "GetCommittee st (pr_CommitteeID p) = Some com"
    "member_vote com \<lparr>vo_ProposalID = i, vo_Voter = a, vo_VoteType = vt\<rparr>"
    "st' = SetVote st \<lparr>vo_ProposalID = i, vo_Voter = a, vo_VoteType = vt\<rparr>"
proof -
  obtain p where p: "GetProposal st i = Some p" using assms by (auto simp: AddVote_def split: option.split_asm)
  then have t: "now < pr_Deadline p" using assms by (auto simp: AddVote_def HasExpiredBy_def split: if_split_asm)
  obtain com where com: "GetCommittee st (pr_CommitteeID p) = Some com"
    using assms p by (auto simp: AddVote_def split: option.split_asm if_split_asm)
  have "member_vote com \<lparr>vo_ProposalID = i, vo_Voter = a, vo_VoteType = vt\<rparr> \<and>
      st' = SetVote st \<lparr>vo_ProposalID = i, vo_Voter = a, vo_VoteType = vt\<rparr>"
    using assms p com
    by (cases com) (auto simp: AddVote_def com_HasMember_def list_ex_iff com_GetMembers_def split: if_split_asm)
  then show ?thesis using that p t com by blast
qed

lemma AddVote_wf:
  assumes "AddVote now st i a vt = Inr st'" "committee_wf m st"
  shows "committee_wf m st'"
proof -
  note wf = committee_wfD [OF assms(2)]
  obtain p com where v: "GetProposal st i = Some p" "GetCommittee st (pr_CommitteeID p) = Some com"
    "member_vote com \<lparr>vo_ProposalID = i, vo_Voter = a, vo_VoteType = vt\<rparr>"
    and st': "st' = SetVote st \<lparr>vo_ProposalID = i, vo_Voter = a, vo_VoteType = vt\<rparr>"
    by (rule AddVote_cases [OF assms(1)])
  have "stores_ok st'" "committees_ok m st'" "proposals_ok st'"
    using wf(1-3) by (simp_all add: st' committees_ok_def proposals_ok_def)
  moreover have "votes_ok st'" using wf(4) v unfolding votes_ok_def st' by auto
  ultimately show ?thesis by (simp add: committee_wf_def)
qed

section \<open>Changing and deleting a committee\<close>

lemma close_all_wf:
  assumes "close_all E ps st = Inr st'" "committee_wf m st"
  shows "committee_wf m st'" "shrinks (pr_ID ` set ps) st st'" "p \<in> set ps \<Longrightarrow> gone_at (pr_ID p) st'"
proof -
  have "committee_wf m st' \<and> shrinks (pr_ID ` set ps) st st' \<and> (\<forall>p\<in>set ps. gone_at (pr_ID p) st')"
    using assms unfolding close_all_def
  proof (induction ps arbitrary: st)
    case Nil
    then show ?case by (simp add: shrinks_refl)
  next
    case (Cons p ps)
    then obtain st1 where st1: "CloseProposal E st p Failed = Inr st1"
        "foldR (\<lambda>p st. CloseProposal E st p Failed) ps st1 = Inr st'" by auto
    note c = CloseProposal_wf [OF Cons.prems(2) st1(1)]
    have sh: "shrinks {pr_ID p} st st1" "gone_at (pr_ID p) st1"
      using drop_shrinks(1) [of "pr_ID p" st "ck_world st"] drop_shrinks(2) unfolding c(2) by simp_all
    have IH: "committee_wf m st'" "shrinks (pr_ID ` set ps) st1 st'" "\<forall>p\<in>set ps. gone_at (pr_ID p) st'"
      using Cons.IH [OF st1(2) c(1)] by simp_all
    show ?case using shrinks_trans [OF sh(1) IH(2)] gone_stays [OF IH(2) sh(2)] IH(1,3) by simp
  qed
  then show "committee_wf m st'" "shrinks (pr_ID ` set ps) st st'" "p \<in> set ps \<Longrightarrow> gone_at (pr_ID p) st'" by auto
qed

text \<open>After the proposals of a committee are closed nothing refers to it any more.\<close>

lemma close_committee:
  assumes "close_all E (GetProposalsByCommittee st k) st = Inr st1" "committee_wf m st"
  shows "committee_wf m st1" "GetProposal st1 i = Some p \<Longrightarrow> pr_CommitteeID p \<noteq> k" "GetCommittee st1 = GetCommittee st"
proof -
  note c = close_all_wf [OF assms]
  show "committee_wf m st1" by (rule c(1))
  show "GetCommittee st1 = GetCommittee st" using c(2) by (simp add: shrinks_def)
  assume p: "GetProposal st1 i = Some p"
  then have "\<not> gone_at i st1" by (simp add: gone_at_def)
  then have "same_at i st st1" using c(2) by (auto simp: shrinks_def)
  then have old: "GetProposal st i = Some p" using p by (simp add: same_at_def)
  have "pr_ID p = i" using committee_wfD(3) [OF assms(2)] old by (auto simp: proposals_ok_def)
  then have "p \<in> set (GetProposals st)" using GetProposals_ids(2) [OF assms(2)] old by simp
  then show "pr_CommitteeID p \<noteq> k"
    using c(3) [of p] p \<open>pr_ID p = i\<close> by (auto simp: GetProposalsByCommittee_def gone_at_def)
qed

lemma committee_wf_replace:
  assumes wf1: "committee_wf m st" and free: "\<And>i p. GetProposal st i = Some p \<Longrightarrow> pr_CommitteeID p \<noteq> k"
    and new: "GetCommittee st' = (GetCommittee st)(k := oc)" "\<And>c. oc = Some c \<Longrightarrow> com_GetID c = k \<and> com_Validate m c = Inr ()"
    and rest: "GetProposal st' = GetProposal st" "GetVote st' = GetVote st" "ck_nextID st' = ck_nextID st" "stores_ok st'"
  shows "committee_wf m st'"
proof -
  note wf = committee_wfD [OF wf1]
  have same: "GetCommittee st' (pr_CommitteeID p) = GetCommittee st (pr_CommitteeID p)" if "GetProposal st i = Some p" for i p
    using free [OF that] by (simp add: new(1))
  have "committees_ok m st'" using wf(2) new unfolding committees_ok_def by auto
  moreover have "proposals_ok st'"
  proof -
    obtain n where n: "ck_nextID st = Some n"
      "\<And>i p. GetProposal st i = Some p \<Longrightarrow> pr_ID p = i \<and> i < n \<and> GetCommittee st (pr_CommitteeID p) \<noteq> None"
      using wf(3) unfolding proposals_ok_def by blast
    have "pr_ID p = i \<and> i < n \<and> GetCommittee st' (pr_CommitteeID p) \<noteq> None" if "GetProposal st i = Some p" for i p
      using n(2) [OF that] same [OF that] by simp
    then show ?thesis unfolding proposals_ok_def rest using n(1) by blast
  qed
  moreover have "votes_ok st'"
    unfolding votes_ok_def rest
  proof (intro allI impI)
    fix i a v assume "GetVote st i a = Some v"
    from wf(4) [unfolded votes_ok_def, rule_format, OF this] obtain p com where
      "vo_ProposalID v = i" "vo_Voter v = a" "GetProposal st i = Some p" "GetCommittee st (pr_CommitteeID p) = Some com"
      "member_vote com v" by blast
    then show "vo_ProposalID v = i \<and> vo_Voter v = a \<and>
        (\<exists>p com. GetProposal st i = Some p \<and> GetCommittee st' (pr_CommitteeID p) = Some com \<and> member_vote com v)"
      using same by auto
  qed
  ultimately show ?thesis using rest(4) by (simp add: committee_wf_def)
qed

lemma committee_ProposalHandler_wf:
  assumes "committee_ProposalHandler E st c = Inr st'" "committee_wf (ce_math E) st"
  shows "committee_wf (ce_math E) st'"
proof (cases c)
  case (CommitteeChangeProposal t d com)
  obtain st1 where v: "com_Validate (ce_math E) com = Inr ()"
    and c1: "close_all E (GetProposalsByCommittee st (com_GetID com)) st = Inr st1" and st': "st' = SetCommittee st1 com"
    using assms(1) CommitteeChangeProposal
    by (auto simp: handleCommitteeChangeProposal_def as_invalid_proposal_def CommitteeChangeProposal_ValidateBasic_def
        split: sum.split_asm fault.split_asm)
  note cl = close_committee [OF c1 assms(2)]
  show ?thesis unfolding st'
    by (rule committee_wf_replace [OF cl(1), where k = "com_GetID com" and oc = "Some com"])
      (use v cl(2) committee_wfD(1) [OF cl(1)] in \<open>auto simp: fun_eq_iff\<close>)
next
  case (CommitteeDeleteProposal t d k)
  obtain st1 where c1: "close_all E (GetProposalsByCommittee st k) st = Inr st1" and st': "st' = DeleteCommittee st1 k"
    using assms(1) CommitteeDeleteProposal by (auto simp: handleCommitteeDeleteProposal_def)
  note cl = close_committee [OF c1 assms(2)]
  show ?thesis unfolding st'
    by (rule committee_wf_replace [OF cl(1), where k = k and oc = None])
      (use cl(2) committee_wfD(1) [OF cl(1)] in \<open>auto simp: fun_eq_iff\<close>)
qed (use assms in auto)

section \<open>Genesis\<close>

lemma check_committees_iff:
  "check_committees m seen cs = Inr () \<longleftrightarrow>
     (\<forall>c\<in>set cs. com_Validate m c = Inr ()) \<and> distinct (map com_GetID cs) \<and> set seen \<inter> com_GetID ` set cs = {}"
  by (induction m seen cs rule: check_committees.induct) auto

lemma check_proposals_iff:
  "check_proposals m M nxt coms seen ps = Inr () \<longleftrightarrow>
     (\<forall>p\<in>set ps. pr_ID p < nxt \<and> pr_CommitteeID p \<in> set coms \<and> proposal_ValidateBasic m M p = Inr ()) \<and>
     distinct (map pr_ID ps) \<and> set seen \<inter> pr_ID ` set ps = {}"
  by (induction m M nxt coms seen ps rule: check_proposals.induct) (auto simp: not_le)

lemma check_votes_iff:
  "check_votes props vs = Inr () \<longleftrightarrow> (\<forall>v\<in>set vs. vote_Validate v = Inr () \<and> vo_ProposalID v \<in> set props)"
  by (induction props vs rule: check_votes.induct) auto

lemma kv_load_get:
  assumes "kv_get (kv_load key vs s) k = Some v"
  shows "v \<in> set vs \<and> key v = k \<or> kv_get s k = Some v"
  using assms
proof (induction vs arbitrary: s)
  case (Cons x vs)
  from Cons.IH [OF Cons.prems [unfolded kv_load_Cons]] show ?case by (auto split: if_split_asm)
qed simp

lemma kv_load_ok: "kv_ok s \<Longrightarrow> kv_ok (kv_load key vs s)"
  by (induction vs arbitrary: s) simp_all

lemma genesis_folds:
  "fold (\<lambda>c st. SetCommittee st c) cs st = st\<lparr>ck_committees := kv_load com_GetID cs (ck_committees st)\<rparr>"
  "fold (\<lambda>p st. SetProposal st p) ps st = st\<lparr>ck_proposals := kv_load pr_ID ps (ck_proposals st)\<rparr>"
  "fold (\<lambda>v st. SetVote st v) vs st = st\<lparr>ck_votes := kv_load (\<lambda>v. (vo_ProposalID v, vo_Voter v)) vs (ck_votes st)\<rparr>"
  by (induction cs arbitrary: st, simp_all add: SetCommittee_def)
    (induction ps arbitrary: st, simp_all add: SetProposal_def, induction vs arbitrary: st, simp_all add: SetVote_def)

definition genesis_votes_by_members :: "'c committee_genesis \<Rightarrow> bool" where
  "genesis_votes_by_members gs \<longleftrightarrow>
     (\<forall>v\<in>set (cg_Votes gs). \<forall>p\<in>set (cg_Proposals gs). \<forall>com\<in>set (cg_Committees gs).
        pr_ID p = vo_ProposalID v \<longrightarrow> com_GetID com = pr_CommitteeID p \<longrightarrow> member_vote com v)"

lemma committee_InitGenesis_eq:
  "committee_InitGenesis E st gs = Inr st' \<longleftrightarrow> committee_genesis_Validate E gs = Inr () \<and>
     st' = st\<lparr>ck_nextID := Some (cg_NextProposalID gs), ck_committees := kv_load com_GetID (cg_Committees gs) (ck_committees st),
       ck_proposals := kv_load pr_ID (cg_Proposals gs) (ck_proposals st),
       ck_votes := kv_load (\<lambda>v. (vo_ProposalID v, vo_Voter v)) (cg_Votes gs) (ck_votes st)\<rparr>"
  by (auto simp: committee_InitGenesis_def genesis_folds SetNextProposalID_def)

lemma committee_genesis_wf:
  assumes "committee_InitGenesis E st gs = Inr st'" "ck_committees st = []" "ck_proposals st = []" "ck_votes st = []"
    "genesis_votes_by_members gs"
  shows "committee_wf (ce_math E) st'"
proof -
  let ?cs = "cg_Committees gs" and ?ps = "cg_Proposals gs" and ?vs = "cg_Votes gs"
  have "committee_genesis_Validate E gs = Inr ()" using assms(1) by (simp add: committee_InitGenesis_eq)
  then have cs: "\<forall>c\<in>set ?cs. com_Validate (ce_math E) c = Inr ()" "distinct (map com_GetID ?cs)"
    and ps: "\<forall>p\<in>set ?ps. pr_ID p < cg_NextProposalID gs \<and> pr_CommitteeID p \<in> com_GetID ` set ?cs" "distinct (map pr_ID ?ps)"
    and vs: "\<forall>v\<in>set ?vs. vo_ProposalID v \<in> pr_ID ` set ?ps"
    by (auto simp: committee_genesis_Validate_def check_committees_iff check_proposals_iff check_votes_iff)
  have st': "st' = st\<lparr>ck_nextID := Some (cg_NextProposalID gs), ck_committees := kv_load com_GetID ?cs [],
       ck_proposals := kv_load pr_ID ?ps [], ck_votes := kv_load (\<lambda>v. (vo_ProposalID v, vo_Voter v)) ?vs []\<rparr>"
    using assms(1-4) by (simp add: committee_InitGenesis_eq)
  have getc: "GetCommittee st' k = Some c \<longleftrightarrow> c \<in> set ?cs \<and> com_GetID c = k" for k c
    using kv_load(2) [OF cs(2), of k] cs(2) unfolding st' GetCommittee_def by (auto simp: map_of_eq_Some_iff distinct_map comp_def)
  have getp: "GetProposal st' k = Some p \<longleftrightarrow> p \<in> set ?ps \<and> pr_ID p = k" for k p
    using kv_load(2) [OF ps(2), of k] ps(2) unfolding st' GetProposal_def by (auto simp: map_of_eq_Some_iff distinct_map comp_def)
  have getv: "v \<in> set ?vs \<and> vo_ProposalID v = i \<and> vo_Voter v = a" if "GetVote st' i a = Some v" for i a v
    using kv_load_get [of "\<lambda>v. (vo_ProposalID v, vo_Voter v)" ?vs "[]" "(i, a)" v] that unfolding st' GetVote_def by simp
  have "stores_ok st'" unfolding st' by (simp add: stores_ok_def kv_load_ok)
  moreover have "committees_ok (ce_math E) st'" using cs(1) unfolding committees_ok_def getc by simp
  moreover have "proposals_ok st'"
  proof -
    have "GetCommittee st' (pr_CommitteeID p) \<noteq> None" if "p \<in> set ?ps" for p using ps(1) that getc by force
    moreover have "ck_nextID st' = Some (cg_NextProposalID gs)" by (simp add: st')
    ultimately show ?thesis using ps(1) unfolding proposals_ok_def getp by auto
  qed
  moreover have "votes_ok st'"
    unfolding votes_ok_def
  proof (intro allI impI)
    fix i a v assume "GetVote st' i a = Some v"
    from getv [OF this] have v: "v \<in> set ?vs" "vo_ProposalID v = i" "vo_Voter v = a" by auto
    obtain p where p: "p \<in> set ?ps" "pr_ID p = i" using vs v(1,2) by force
    obtain com where com: "com \<in> set ?cs" "com_GetID com = pr_CommitteeID p" using ps(1) p(1) by force
    have "member_vote com v" using assms(5) v p com unfolding genesis_votes_by_members_def by simp
    then show "vo_ProposalID v = i \<and> vo_Voter v = a \<and>
        (\<exists>p com. GetProposal st' i = Some p \<and> GetCommittee st' (pr_CommitteeID p) = Some com \<and> member_vote com v)"
      using v p com getc getp by blast
  qed
  ultimately show ?thesis by (simp add: committee_wf_def)
qed

lemma committee_genesis_restores:
  assumes "committee_wf (ce_math E) st" "committee_ExportGenesis st = Inr gs"
    "\<forall>p\<in>set (GetProposals st). proposal_ValidateBasic (ce_math E) (ce_methods E) p = Inr ()"
    "\<forall>v\<in>set (GetVotes st). vote_Validate v = Inr ()"
  shows "committee_InitGenesis E (st\<lparr>ck_committees := [], ck_proposals := [], ck_votes := [], ck_nextID := None\<rparr>) gs = Inr st"
proof -
  note wf = committee_wfD [OF assms(1)]
  have ok: "kv_ok (ck_committees st)" "kv_ok (ck_proposals st)" "kv_ok (ck_votes st)" using wf(1) by (simp_all add: stores_ok_def)
  obtain n where n: "ck_nextID st = Some n"
      "\<And>i p. GetProposal st i = Some p \<Longrightarrow> pr_ID p = i \<and> i < n \<and> GetCommittee st (pr_CommitteeID p) \<noteq> None"
    using wf(3) unfolding proposals_ok_def by blast
  have gs: "gs = \<lparr>cg_NextProposalID = n, cg_Committees = GetCommittees st, cg_Proposals = GetProposals st, cg_Votes = GetVotes st\<rparr>"
    using assms(2) n(1) by (auto simp: committee_ExportGenesis_def GetNextProposalID_def)
  have keyc: "com_GetID c = k" if "kv_get (ck_committees st) k = Some c" for k c
    using wf(2) that by (simp add: committees_ok_def GetCommittee_def)
  have keyp: "pr_ID p = k" if "kv_get (ck_proposals st) k = Some p" for k p
    using n(2) that by (simp add: GetProposal_def)
  have keyv: "(vo_ProposalID v, vo_Voter v) = k" if "kv_get (ck_votes st) k = Some v" for k v
    using wf(4) [unfolded votes_ok_def, rule_format, of "fst k" "snd k" v] that by (simp add: GetVote_def prod_eq_iff)
  have loads: "kv_load com_GetID (GetCommittees st) [] = ck_committees st" "kv_load pr_ID (GetProposals st) [] = ck_proposals st"
      "kv_load (\<lambda>v. (vo_ProposalID v, vo_Voter v)) (GetVotes st) [] = ck_votes st"
    unfolding GetCommittees_def GetProposals_def GetVotes_def
    by (rule kv_load_values [OF ok(1) keyc], assumption, rule kv_load_values [OF ok(2) keyp], assumption,
        rule kv_load_values [OF ok(3) keyv])
  have memc: "c \<in> set (GetCommittees st) \<longleftrightarrow> (\<exists>k. GetCommittee st k = Some c)" for c
    unfolding GetCommittees_def GetCommittee_def kv.entry_iff [OF ok(1), symmetric] by force
  have idc: "map com_GetID (GetCommittees st) = map fst (ck_committees st)"
    using keyc kv.entry_iff [OF ok(1)] by (auto simp: GetCommittees_def)
  have "check_committees (ce_math E) [] (GetCommittees st) = Inr ()"
    unfolding check_committees_iff using wf(2) kv.keys_distinct [OF ok(1)] by (auto simp: committees_ok_def memc idc)
  moreover have "check_proposals (ce_math E) (ce_methods E) n (map com_GetID (GetCommittees st)) [] (GetProposals st) = Inr ()"
  proof -
    have "pr_ID p < n \<and> pr_CommitteeID p \<in> set (map com_GetID (GetCommittees st))" if "p \<in> set (GetProposals st)" for p
      using n(2) [OF GetProposals_ids(2) [OF assms(1), THEN iffD1, OF that]] kv.keys_dom [OF ok(1)]
      unfolding idc GetCommittee_def by auto
    then show ?thesis unfolding check_proposals_iff using GetProposals_ids(1) [OF assms(1)] assms(3) by simp
  qed
  moreover have "check_votes (map pr_ID (GetProposals st)) (GetVotes st) = Inr ()"
  proof -
    have "vo_ProposalID v \<in> set (map pr_ID (GetProposals st))" if mem: "v \<in> set (GetVotes st)" for v
    proof -
      obtain k where "(k, v) \<in> set (ck_votes st)" using mem by (auto simp: GetVotes_def)
      from kv.entry_iff [OF ok(3), THEN iffD1, OF this] have "kv_get (ck_votes st) k = Some v" .
      with keyv [OF this] have "GetVote st (vo_ProposalID v) (vo_Voter v) = Some v" by (simp add: GetVote_def)
      from wf(4) [unfolded votes_ok_def, rule_format, OF this] show ?thesis using GetProposals_ids(3) [OF assms(1)] by auto
    qed
    then show ?thesis unfolding check_votes_iff using assms(4) by simp
  qed
  ultimately show ?thesis
    unfolding committee_InitGenesis_eq gs committee_genesis_Validate_def using loads n(1) by simp
qed

end
