(* ===== verification/Committee_Reach.thy ===== *)
theory Committee_Reach
  imports Committee_Safety
begin

text \<open>
  Reachable states of the committee module and the properties that hold in all of them.
\<close>

section \<open>Reachable states\<close>

text \<open>
  The votes of a genesis are not checked against the members, so a genesis has to satisfy
  \<open>genesis_votes_by_members\<close>. The counter of proposals must not be at its last value when a message runs. The last rule
  lets the rest of the chain do what it likes with its own state.
\<close>

inductive committee_reach :: "('w, 'c) committee_env \<Rightarrow> (string \<Rightarrow> address result) \<Rightarrow> ('w, 'c) committee_state \<Rightarrow> bool"
  for E bech where
  genesis: "committee_InitGenesis E st gs = Inr st' \<Longrightarrow> ck_committees st = [] \<Longrightarrow> ck_proposals st = [] \<Longrightarrow> ck_votes st = [] \<Longrightarrow>
    genesis_votes_by_members gs \<Longrightarrow> committee_reach E bech st'"
| message: "committee_reach E bech st \<Longrightarrow> committee_handle E bech now st msg = Inr st' \<Longrightarrow> ck_nextID st \<noteq> Some (- 1) \<Longrightarrow>
    committee_reach E bech st'"
| governance: "committee_reach E bech st \<Longrightarrow> committee_ProposalHandler E st c = Inr st' \<Longrightarrow> committee_reach E bech st'"
| block: "committee_reach E bech st \<Longrightarrow> committee_BeginBlocker E now st = Inr st' \<Longrightarrow> committee_reach E bech st'"
| others: "committee_reach E bech st \<Longrightarrow> committee_reach E bech (st\<lparr>ck_world := w\<rparr>)"

lemma committee_handle_wf:
  assumes "committee_handle E bech now st msg = Inr st'" "committee_wf m st" "ck_nextID st \<noteq> Some (- 1)"
  shows "committee_wf m st'"
proof (cases msg)
  case (MsgSubmitProposal c a k)
  then obtain x i where "SubmitProposal E now st x k c = Inr (st', i)"
    using assms(1) by (auto simp: committee_handle_def msg_SubmitProposal_def)
  then show ?thesis using SubmitProposal_wf assms(2,3) by blast
next
  case (MsgVote i a vt)
  then obtain x where "AddVote now st i x vt = Inr st'" using assms(1) by (auto simp: committee_handle_def msg_Vote_def)
  then show ?thesis using AddVote_wf assms(2) by blast
qed

lemma committee_block_wf:
  assumes "committee_BeginBlocker E now st = Inr st'" "committee_wf m st"
  shows "committee_wf m st' \<and> shrinks {i. GetProposal st i \<noteq> None} st st' \<and>
    (\<forall>p\<in>set (GetProposals st). (HasExpiredBy p now \<longrightarrow> gone_at (pr_ID p) st') \<and>
       (\<forall>com. GetCommittee st (pr_CommitteeID p) = Some com \<longrightarrow> \<not> HasExpiredBy p now \<longrightarrow>
          com_GetTallyOption com \<noteq> TALLY_OPTION_FIRST_PAST_THE_POST \<longrightarrow> same_at (pr_ID p) st st'))"
  using process_all [OF assms(1) [unfolded committee_BeginBlocker_def ProcessProposals_def] assms(2) GetProposals_ids(1) [OF assms(2)]]
  unfolding GetProposals_ids(3) [OF assms(2)] .

lemma committee_reach_wf: "committee_reach E bech st \<Longrightarrow> committee_wf (ce_math E) st"
proof (induction rule: committee_reach.induct)
  case (genesis st gs st')
  then show ?case by (rule committee_genesis_wf)
next
  case (message st now msg st')
  then show ?case using committee_handle_wf by blast
next
  case (governance st c st')
  then show ?case using committee_ProposalHandler_wf by blast
next
  case (block st now st')
  then show ?case using committee_block_wf [OF block(2) block.IH] by blast
next
  case (others st w)
  then show ?case by simp
qed

section \<open>An example\<close>

definition ex_committee :: committee where
  "ex_committee = MemberCommittee \<lparr>bc_ID = 1, bc_Description = ''stability'', bc_Members = [''ann'', ''bob'', ''cyd''],
     bc_Permissions = [ParamsChangePermission [], TextPermission], bc_VoteThreshold = Some (OneDec div 2),
     bc_ProposalDuration = 1000, bc_TallyOption = 1\<rparr>"

definition ex_handler :: "ledger \<Rightarrow> string content \<Rightarrow> ledger result" where
  "ex_handler l c = Inr (l\<lparr>lsupply := [(''ukava'', 7)]\<rparr>)"

definition ex_committee_env :: "(ledger, string) committee_env" where
  "ex_committee_env = \<lparr>ce_sdk = ref_sdk,
     ce_params = \<lparr>pk_GetSubspace = (\<lambda>w s. None), pk_Record = (\<lambda>s. None), pk_Records = (\<lambda>s. None)\<rparr>,
     ce_methods = \<lparr>cm_ValidateBasic = (\<lambda>c. Inr ()), cm_ProposalRoute = (\<lambda>c. ''gov''), cm_ValidateAbstract = (\<lambda>t d. Inr ())\<rparr>,
     ce_router = (\<lambda>r. if r = ''gov'' then Some ex_handler else None)\<rparr>"

definition ex_empty_committees :: "(ledger, string) committee_state" where
  "ex_empty_committees = \<lparr>ck_committees = [], ck_proposals = [], ck_votes = [], ck_nextID = None,
     ck_world = \<lparr>lbal = [], lsupply = []\<rparr>\<rparr>"

definition ex_committee_genesis :: "string committee_genesis" where
  "ex_committee_genesis = \<lparr>cg_NextProposalID = 1, cg_Committees = [ex_committee], cg_Proposals = [], cg_Votes = []\<rparr>"

definition ex_c0 :: "(ledger, string) committee_state" where
  "ex_c0 = projr (committee_InitGenesis ex_committee_env ex_empty_committees ex_committee_genesis)"

definition ex_c1 :: "(ledger, string) committee_state" where
  "ex_c1 = projr (committee_handle ex_committee_env Inr 100 ex_c0 (MsgSubmitProposal (Some (TextProposal ''hello'')) ''ann'' 1))"

definition ex_c2 :: "(ledger, string) committee_state" where
  "ex_c2 = projr (committee_handle ex_committee_env Inr 200 ex_c1 (MsgVote 1 ''ann'' 1))"

definition ex_c3 :: "(ledger, string) committee_state" where
  "ex_c3 = projr (committee_handle ex_committee_env Inr 300 ex_c2 (MsgVote 1 ''cyd'' 1))"

lemma ex_c0_reach: "committee_reach ex_committee_env Inr ex_c0"
proof (rule committee_reach.genesis)
  show "committee_InitGenesis ex_committee_env ex_empty_committees ex_committee_genesis = Inr ex_c0" by code_simp
qed (simp_all add: ex_empty_committees_def genesis_votes_by_members_def ex_committee_genesis_def)

lemma ex_c1_reach: "committee_reach ex_committee_env Inr ex_c1"
proof (rule committee_reach.message [OF ex_c0_reach])
  show "committee_handle ex_committee_env Inr 100 ex_c0 (MsgSubmitProposal (Some (TextProposal ''hello'')) ''ann'' 1) = Inr ex_c1" by code_simp
  show "ck_nextID ex_c0 \<noteq> Some (- 1)" by code_simp
qed

lemma ex_c2_reach: "committee_reach ex_committee_env Inr ex_c2"
proof (rule committee_reach.message [OF ex_c1_reach])
  show "committee_handle ex_committee_env Inr 200 ex_c1 (MsgVote 1 ''ann'' 1) = Inr ex_c2" by code_simp
  show "ck_nextID ex_c1 \<noteq> Some (- 1)" by code_simp
qed

lemma ex_c3_reach: "committee_reach ex_committee_env Inr ex_c3"
proof (rule committee_reach.message [OF ex_c2_reach])
  show "committee_handle ex_committee_env Inr 300 ex_c2 (MsgVote 1 ''cyd'' 1) = Inr ex_c3" by code_simp
  show "ck_nextID ex_c2 \<noteq> Some (- 1)" by code_simp
qed

section \<open>Properties\<close>

text \<open>
  C25: in every reachable state the stores are consistent. Every committee is valid and stored under its own number; every
  proposal is stored under its own number, which is below the next number to be given out, and belongs to an existing
  committee; every vote belongs to a stored proposal and is stored under its voter; and votes on a proposal of a member
  committee are yes votes of current members. This holds through submissions, votes, blocks, and changes and deletions of
  committees by governance.
\<close>

theorem committee_stores_consistent:
  assumes "committee_reach E bech st"
  shows "(\<forall>i com. GetCommittee st i = Some com \<longrightarrow> com_GetID com = i \<and> com_Validate (ce_math E) com = Inr ()) \<and>
    (\<exists>n. ck_nextID st = Some n \<and> (\<forall>i p. GetProposal st i = Some p \<longrightarrow>
       pr_ID p = i \<and> i < n \<and> GetCommittee st (pr_CommitteeID p) \<noteq> None)) \<and>
    (\<forall>i a v. GetVote st i a = Some v \<longrightarrow> vo_ProposalID v = i \<and> vo_Voter v = a \<and>
       (\<exists>p com. GetProposal st i = Some p \<and> GetCommittee st (pr_CommitteeID p) = Some com \<and>
          (\<forall>b. com = MemberCommittee b \<longrightarrow> a \<in> set (bc_Members b) \<and> vo_VoteType v = VOTE_TYPE_YES)))"
proof -
  note wf = committee_wfD [OF committee_reach_wf [OF assms]]
  have "vo_ProposalID v = i \<and> vo_Voter v = a \<and>
      (\<exists>p com. GetProposal st i = Some p \<and> GetCommittee st (pr_CommitteeID p) = Some com \<and>
        (\<forall>b. com = MemberCommittee b \<longrightarrow> a \<in> set (bc_Members b) \<and> vo_VoteType v = VOTE_TYPE_YES))"
    if "GetVote st i a = Some v" for i a v
    using wf(4) [unfolded votes_ok_def, rule_format, OF that] by (metis member_vote.simps(1))
  then show ?thesis
    using wf(2) [unfolded committees_ok_def] wf(3) [unfolded proposals_ok_def] by (intro conjI) blast+
qed

theorem committee_stores_consistent_witness:
  "committee_reach ex_committee_env Inr ex_c3 \<and> GetVote ex_c3 1 ''cyd'' \<noteq> None \<and>
   (\<exists>p com. GetProposal ex_c3 1 = Some p \<and> GetCommittee ex_c3 (pr_CommitteeID p) = Some com \<and>
     (\<forall>b. com = MemberCommittee b \<longrightarrow> ''cyd'' \<in> set (bc_Members b)))"
proof -
  have "GetVote ex_c3 1 ''cyd'' = Some \<lparr>vo_ProposalID = 1, vo_Voter = ''cyd'', vo_VoteType = 1\<rparr>" by code_simp
  moreover from committee_stores_consistent [OF ex_c3_reach, THEN conjunct2, THEN conjunct2, rule_format, OF this]
  have "\<exists>p com. GetProposal ex_c3 1 = Some p \<and> GetCommittee ex_c3 (pr_CommitteeID p) = Some com \<and>
     (\<forall>b. com = MemberCommittee b \<longrightarrow> ''cyd'' \<in> set (bc_Members b))" by blast
  ultimately show ?thesis using ex_c3_reach by simp
qed

text \<open>A proposal processed in a block is still stored when its turn comes.\<close>

lemma trace_shrinks:
  assumes "\<forall>i<length ps. process_proposal E now (ps ! i) (ss ! i) = Inr (ss ! Suc i)" "\<forall>i\<le>length ps. committee_wf m (ss ! i)"
    "i \<le> length ps"
  shows "shrinks (pr_ID ` set (take i ps)) (ss ! 0) (ss ! i)"
  using assms(3)
proof (induction i)
  case 0
  then show ?case by (simp add: shrinks_refl)
next
  case (Suc i)
  then have "process_proposal E now (ps ! i) (ss ! i) = Inr (ss ! Suc i)" "committee_wf m (ss ! i)" using assms(1,2) by auto
  from process_proposal_step(2) [OF this] have "shrinks {pr_ID (ps ! i)} (ss ! i) (ss ! Suc i)" .
  with Suc have "shrinks (pr_ID ` set (take i ps) \<union> {pr_ID (ps ! i)}) (ss ! 0) (ss ! Suc i)" by (intro shrinks_trans) auto
  then show ?case using Suc.prems by (simp add: take_Suc_conv_app_nth)
qed

definition majority :: "('w, 'c) committee_state \<Rightarrow> uint64 \<Rightarrow> BaseCommittee \<Rightarrow> bool" where
  "majority st i b \<longleftrightarrow>
     (\<exists>t. bc_VoteThreshold b = Some t \<and> t * int (length (bc_Members b)) \<le> int (card (yes_members st i b)) * OneDec)"

text \<open>
  C24: a block handles the stored proposals one after the other, and a proposal changes the state of the rest of the chain
  only if its committee exists and is permitted to enact it at that moment, the votes at that moment pass it, it is
  past its deadline or the committee decides as soon as there are enough votes, and what changes is exactly
  what the handler of its content does. If the committee is a member committee, the share of its current members
  who voted yes reaches the threshold.
\<close>

theorem committee_enacts_passed:
  assumes "math_laws (ce_math E)" "committee_reach E bech st" "committee_BeginBlocker E now st = Inr st'"
  shows "\<exists>ss. length ss = Suc (length (GetProposals st)) \<and> ss ! 0 = st \<and> ss ! length (GetProposals st) = st' \<and>
    (\<forall>i<length (GetProposals st).
       process_proposal E now (GetProposals st ! i) (ss ! i) = Inr (ss ! Suc i) \<and>
       (ck_world (ss ! Suc i) = ck_world (ss ! i) \<or>
        enacted E now (GetProposals st ! i) (ss ! i) (ck_world (ss ! Suc i)) \<and>
        (\<forall>b. GetCommittee (ss ! i) (pr_CommitteeID (GetProposals st ! i)) = Some (MemberCommittee b) \<longrightarrow>
          majority (ss ! i) (pr_ID (GetProposals st ! i)) b)))"
proof -
  let ?ps = "GetProposals st"
  have wf: "committee_wf (ce_math E) st" by (rule committee_reach_wf [OF assms(2)])
  obtain ss where ss: "length ss = Suc (length ?ps)" "ss ! 0 = st" "ss ! length ?ps = st'"
      "\<forall>i\<le>length ?ps. committee_wf (ce_math E) (ss ! i)" "\<forall>i<length ?ps. process_proposal E now (?ps ! i) (ss ! i) = Inr (ss ! Suc i)"
    using foldR_trace [OF assms(3) [unfolded committee_BeginBlocker_def ProcessProposals_def], of "committee_wf (ce_math E)"]
      wf process_proposal_step(1) by blast
  have maj: "majority (ss ! i) (pr_ID (?ps ! i)) b"
    if i: "i < length ?ps" and en: "enacted E now (?ps ! i) (ss ! i) w"
      and b: "GetCommittee (ss ! i) (pr_CommitteeID (?ps ! i)) = Some (MemberCommittee b)" for i w b
  proof -
    have "pr_ID (?ps ! i) \<notin> pr_ID ` set (take i ?ps)"
    proof -
      have "distinct (map pr_ID (take (Suc i) ?ps))"
        using GetProposals_ids(1) [OF wf] unfolding take_map [symmetric] by simp
      then show ?thesis using i by (simp add: take_Suc_conv_app_nth)
    qed
    then have "same_at (pr_ID (?ps ! i)) st (ss ! i)"
      using same_outside [OF trace_shrinks [OF ss(5,4)]] i ss(2) by simp
    then have "GetProposal (ss ! i) (pr_ID (?ps ! i)) = Some (?ps ! i)"
      using GetProposals_ids(2) [OF wf, of "?ps ! i"] i by (simp add: same_at_def)
    moreover have "GetProposalResult E (ss ! i) (pr_ID (?ps ! i)) (MemberCommittee b) = Inr True"
      using en b unfolding enacted_def by auto
    ultimately show ?thesis using member_majority [OF assms(1)] ss(4) i b unfolding majority_def by simp
  qed
  have "ck_world (ss ! Suc i) = ck_world (ss ! i) \<or> enacted E now (?ps ! i) (ss ! i) (ck_world (ss ! Suc i))"
    if "i < length ?ps" for i
    using process_proposal_step(5) ss(4,5) that by (meson less_imp_le)
  then show ?thesis using ss(1-3,5) maj by (intro exI [of _ ss]) blast
qed

theorem committee_enacts_passed_witness:
  "\<exists>st' ss. committee_BeginBlocker ex_committee_env 400 ex_c3 = Inr st' \<and> ck_world st' \<noteq> ck_world ex_c3 \<and>
     ss ! 0 = ex_c3 \<and> ss ! 1 = st' \<and> enacted ex_committee_env 400 (hd (GetProposals ex_c3)) ex_c3 (ck_world st') \<and>
     (\<forall>b. GetCommittee ex_c3 1 = Some (MemberCommittee b) \<longrightarrow> majority ex_c3 1 b)"
proof -
  let ?st' = "projr (committee_BeginBlocker ex_committee_env 400 ex_c3)"
  have run: "committee_BeginBlocker ex_committee_env 400 ex_c3 = Inr ?st'" by code_simp
  have laws: "math_laws (ce_math ex_committee_env)" by (simp add: ex_committee_env_def ref_sdk_def ref_math_laws)
  have ex: "length (GetProposals ex_c3) = 1" "pr_ID (GetProposals ex_c3 ! 0) = 1" "pr_CommitteeID (GetProposals ex_c3 ! 0) = 1"
    "hd (GetProposals ex_c3) = GetProposals ex_c3 ! 0" by code_simp+
  have "lsupply (ck_world ?st') \<noteq> lsupply (ck_world ex_c3)" by code_simp
  then have ne: "ck_world ?st' \<noteq> ck_world ex_c3" by auto
  obtain ss where ss: "ss ! 0 = ex_c3" "ss ! 1 = ?st'"
      "enacted ex_committee_env 400 (hd (GetProposals ex_c3)) ex_c3 (ck_world ?st') \<and>
       (\<forall>b. GetCommittee ex_c3 1 = Some (MemberCommittee b) \<longrightarrow> majority ex_c3 1 b)"
    using committee_enacts_passed [OF laws ex_c3_reach run] ne unfolding ex by (auto simp: ex(2,3))
  show ?thesis using run ne ss by blast
qed

text \<open>
  After a block every proposal is either as it was, votes included, or gone together with all its votes. A proposal
  past its deadline is gone, a proposal before its deadline of a committee that decides at the deadline is as it was,
  and committees and the counter of proposals do not change.
\<close>

theorem committee_block_closes:
  assumes "committee_reach E bech st" "committee_BeginBlocker E now st = Inr st'"
  shows "(\<forall>i. (GetProposal st' i = GetProposal st i \<and> GetVote st' i = GetVote st i) \<or>
      GetProposal st i \<noteq> None \<and> GetProposal st' i = None \<and> GetVote st' i = (\<lambda>a. None)) \<and>
    (\<forall>i p. GetProposal st i = Some p \<longrightarrow> HasExpiredBy p now \<longrightarrow> GetProposal st' i = None) \<and>
    (\<forall>i p com. GetProposal st i = Some p \<longrightarrow> \<not> HasExpiredBy p now \<longrightarrow> GetCommittee st (pr_CommitteeID p) = Some com \<longrightarrow>
      com_GetTallyOption com \<noteq> TALLY_OPTION_FIRST_PAST_THE_POST \<longrightarrow> GetProposal st' i = Some p \<and> GetVote st' i = GetVote st i) \<and>
    GetCommittee st' = GetCommittee st \<and> ck_nextID st' = ck_nextID st"
proof -
  have wf: "committee_wf (ce_math E) st" by (rule committee_reach_wf [OF assms(1)])
  note b = committee_block_wf [OF assms(2) wf]
  have stored: "p \<in> set (GetProposals st) \<and> pr_ID p = i" if "GetProposal st i = Some p" for i p
  proof -
    have "pr_ID p = i" using committee_wfD(3) [OF wf] that by (auto simp: proposals_ok_def)
    then show ?thesis using GetProposals_ids(2) [OF wf, of p] that by simp
  qed
  have sh: "shrinks {i. GetProposal st i \<noteq> None} st st'" using b by blast
  have exp: "GetProposal st' i = None" if "GetProposal st i = Some p" "HasExpiredBy p now" for i p
    using b stored [OF that(1)] that(2) by (auto simp: gone_at_def)
  have keep: "GetProposal st' i = Some p \<and> GetVote st' i = GetVote st i"
    if "GetProposal st i = Some p" "\<not> HasExpiredBy p now" "GetCommittee st (pr_CommitteeID p) = Some com"
      "com_GetTallyOption com \<noteq> TALLY_OPTION_FIRST_PAST_THE_POST" for i p com
    using b stored [OF that(1)] that by (auto simp: same_at_def)
  show ?thesis
    using sh exp keep unfolding shrinks_def same_at_def gone_at_def by blast
qed

theorem committee_block_closes_witness:
  "\<exists>st'. committee_BeginBlocker ex_committee_env 1100 ex_c2 = Inr st' \<and> GetProposal ex_c2 1 \<noteq> None \<and>
     GetProposal st' 1 = None \<and> GetVote st' 1 = (\<lambda>a. None) \<and> ck_world st' = ck_world ex_c2"
proof -
  let ?st' = "projr (committee_BeginBlocker ex_committee_env 1100 ex_c2)"
  have run: "committee_BeginBlocker ex_committee_env 1100 ex_c2 = Inr ?st'" by code_simp
  have "GetProposal ex_c2 1 \<noteq> None" by code_simp
  moreover have gone: "GetProposal ?st' 1 = None" by code_simp
  moreover have "ck_world ?st' = ck_world ex_c2" by code_simp
  moreover have "GetVote ?st' 1 = (\<lambda>a. None)"
    using committee_block_closes [OF ex_c2_reach run, THEN conjunct1, rule_format, of 1] gone \<open>GetProposal ex_c2 1 \<noteq> None\<close> by auto
  ultimately show ?thesis using run by blast
qed

end
