(* ===== verification/Hard_Types.thy ===== *)
theory Hard_Types
  imports Sdk_Coins Ordered_Store
begin

text \<open>
  The data of the lending module, \<open>x/hard/types\<close>: money markets and their interest models (\<open>params.go\<close>), deposits and
  borrows with the interest factors they were last synchronised at (\<open>deposit.go\<close>, \<open>borrow.go\<close>), and the valuation maps
  of liquidations (\<open>liquidation.go\<close>). Decimals that are not set are not represented.
\<close>

section \<open>Money markets\<close>

record BorrowLimit =
  bl_HasMaxLimit :: bool
  bl_MaximumLimit :: dec
  bl_LoanToValue :: dec

definition BorrowLimit_Validate :: "BorrowLimit \<Rightarrow> unit result" where
  "BorrowLimit_Validate bl =
     (if bl_MaximumLimit bl < 0 then Inl (Err ''maximum limit USD cannot be negative'')
      else if bl_LoanToValue bl < 0 then Inl (Err ''loan-to-value must be a non-negative decimal'')
      else if bl_LoanToValue bl > OneDec then Inl (Err ''loan-to-value cannot be greater than 1.0'')
      else Inr ())"

definition BorrowLimit_Equal :: "BorrowLimit \<Rightarrow> BorrowLimit \<Rightarrow> bool" where
  "BorrowLimit_Equal a b =
     (if bl_HasMaxLimit a \<noteq> bl_HasMaxLimit b then False
      else if bl_MaximumLimit a \<noteq> bl_MaximumLimit b then False
      else if bl_LoanToValue a \<noteq> bl_LoanToValue b then False
      else True)"

record InterestRateModel =
  irm_BaseRateAPY :: dec
  irm_BaseMultiplier :: dec
  irm_Kink :: dec
  irm_JumpMultiplier :: dec

definition InterestRateModel_Validate :: "InterestRateModel \<Rightarrow> unit result" where
  "InterestRateModel_Validate irm =
     (if irm_BaseRateAPY irm < 0 \<or> irm_BaseRateAPY irm > OneDec then Inl (Err ''base rate APY must be in the inclusive range 0.0-1.0'')
      else if irm_BaseMultiplier irm < 0 then Inl (Err ''base multiplier must not be negative'')
      else if irm_Kink irm < 0 \<or> irm_Kink irm > OneDec then Inl (Err ''kink must be in the inclusive range 0.0-1.0'')
      else if irm_JumpMultiplier irm < 0 then Inl (Err ''jump multiplier must not be negative'')
      else Inr ())"

definition InterestRateModel_Equal :: "InterestRateModel \<Rightarrow> InterestRateModel \<Rightarrow> bool" where
  "InterestRateModel_Equal a b =
     (if irm_BaseRateAPY a \<noteq> irm_BaseRateAPY b then False
      else if irm_BaseMultiplier a \<noteq> irm_BaseMultiplier b then False
      else if irm_Kink a \<noteq> irm_Kink b then False
      else if irm_JumpMultiplier a \<noteq> irm_JumpMultiplier b then False
      else True)"

record MoneyMarket =
  mm_Denom :: denom
  mm_BorrowLimit :: BorrowLimit
  mm_SpotMarketID :: string
  mm_ConversionFactor :: int
  mm_InterestRateModel :: InterestRateModel
  mm_ReserveFactor :: dec
  mm_KeeperRewardPercentage :: dec

definition MoneyMarket_Validate :: "sdk_math \<Rightarrow> MoneyMarket \<Rightarrow> unit result" where
  "MoneyMarket_Validate m mm =
     (if \<not> ValidDenom m (mm_Denom mm) then Inl (Err ''invalid denom'')
      else
        bnd (BorrowLimit_Validate (mm_BorrowLimit mm)) (\<lambda>_.
        if mm_ConversionFactor mm < 1 then Inl (Err ''conversion factor must be at least one'')
        else
          bnd (InterestRateModel_Validate (mm_InterestRateModel mm)) (\<lambda>_.
          if mm_ReserveFactor mm < 0 \<or> mm_ReserveFactor mm > OneDec then Inl (Err ''reserve factor must be between 0.0-1.0'')
          else if mm_KeeperRewardPercentage mm < 0 \<or> mm_KeeperRewardPercentage mm > OneDec
            then Inl (Err ''keeper reward percentage must be between 0.0-1.0'')
          else Inr ())))"

definition MoneyMarket_Equal :: "MoneyMarket \<Rightarrow> MoneyMarket \<Rightarrow> bool" where
  "MoneyMarket_Equal a b =
     (if mm_Denom a \<noteq> mm_Denom b then False
      else if \<not> BorrowLimit_Equal (mm_BorrowLimit a) (mm_BorrowLimit b) then False
      else if mm_SpotMarketID a \<noteq> mm_SpotMarketID b then False
      else if mm_ConversionFactor a \<noteq> mm_ConversionFactor b then False
      else if \<not> InterestRateModel_Equal (mm_InterestRateModel a) (mm_InterestRateModel b) then False
      else if mm_ReserveFactor a \<noteq> mm_ReserveFactor b then False
      else if mm_KeeperRewardPercentage a \<noteq> mm_KeeperRewardPercentage b then False
      else True)"

lemma MoneyMarket_Equal_iff: "MoneyMarket_Equal a b \<longleftrightarrow> a = b"
  by (cases a, cases b) (auto simp: MoneyMarket_Equal_def BorrowLimit_Equal_def InterestRateModel_Equal_def)

record hard_Params =
  hp_MoneyMarkets :: "MoneyMarket list"
  hp_MinimumBorrowUSDValue :: dec

definition MoneyMarkets_Validate :: "sdk_math \<Rightarrow> MoneyMarket list \<Rightarrow> unit result" where
  "MoneyMarkets_Validate m mms = foldR (\<lambda>mm _. MoneyMarket_Validate m mm) mms ()"

definition validateMinimumBorrowUSDValue :: "dec \<Rightarrow> unit result" where
  "validateMinimumBorrowUSDValue v = (if v < 0 then Inl (Err ''minimum borrow USD value cannot be negative'') else Inr ())"

definition hard_Params_Validate :: "sdk_math \<Rightarrow> hard_Params \<Rightarrow> unit result" where
  "hard_Params_Validate m p =
     bnd (validateMinimumBorrowUSDValue (hp_MinimumBorrowUSDValue p)) (\<lambda>_. MoneyMarkets_Validate m (hp_MoneyMarkets p))"

section \<open>Interest factors\<close>

text \<open>
  \<open>SupplyInterestFactors\<close> and \<open>BorrowInterestFactors\<close> are two copies of the same list type with the same methods.
\<close>

record interest_factor =
  if_Denom :: denom
  if_Value :: dec

fun GetInterestFactor_of :: "interest_factor list \<Rightarrow> denom \<Rightarrow> dec option" where
  "GetInterestFactor_of [] d = None"
| "GetInterestFactor_of (f # fs) d = (if if_Denom f = d then Some (if_Value f) else GetInterestFactor_of fs d)"

fun SetInterestFactor_of :: "interest_factor list \<Rightarrow> denom \<Rightarrow> dec \<Rightarrow> interest_factor list" where
  "SetInterestFactor_of [] d v = [\<lparr>if_Denom = d, if_Value = v\<rparr>]"
| "SetInterestFactor_of (f # fs) d v =
     (if if_Denom f = d then f\<lparr>if_Value := v\<rparr> # fs else f # SetInterestFactor_of fs d v)"

fun RemoveInterestFactor_of :: "interest_factor list \<Rightarrow> denom \<Rightarrow> interest_factor list \<times> bool" where
  "RemoveInterestFactor_of [] d = ([], False)"
| "RemoveInterestFactor_of (f # fs) d =
     (if if_Denom f = d then (fs, True)
      else case RemoveInterestFactor_of fs d of (fs', removed) \<Rightarrow> (f # fs', removed))"

definition BorrowInterestFactor_Validate :: "interest_factor \<Rightarrow> unit result" where
  "BorrowInterestFactor_Validate f =
     (if list_all isSpace (if_Denom f) then Inl (Err ''borrow interest factor denom cannot be empty'')
      else if if_Value f < 0 then Inl (Err ''borrow interest factor value cannot be negative'')
      else Inr ())"

definition BorrowInterestFactors_Validate :: "interest_factor list \<Rightarrow> unit result" where
  "BorrowInterestFactors_Validate fs = foldR (\<lambda>f _. BorrowInterestFactor_Validate f) fs ()"

definition SupplyInterestFactor_Validate :: "interest_factor \<Rightarrow> unit result" where
  "SupplyInterestFactor_Validate f =
     (if list_all isSpace (if_Denom f) then Inl (Err ''supply interest factor denom cannot be empty'')
      else if if_Value f < 0 then Inl (Err ''supply interest factor value cannot be negative'')
      else Inr ())"

definition SupplyInterestFactors_Validate :: "interest_factor list \<Rightarrow> unit result" where
  "SupplyInterestFactors_Validate fs = foldR (\<lambda>f _. SupplyInterestFactor_Validate f) fs ()"

lemma factor_get_set: "GetInterestFactor_of (SetInterestFactor_of fs d v) e = (if e = d then Some v else GetInterestFactor_of fs e)"
  by (induction fs) auto

section \<open>Deposits and borrows\<close>

record hard_deposit =
  hd_Depositor :: address
  hd_Amount :: coins
  hd_Index :: "interest_factor list"

record hard_borrow =
  hb_Borrower :: address
  hb_Amount :: coins
  hb_Index :: "interest_factor list"

definition hard_deposit_Validate :: "sdk_math \<Rightarrow> hard_deposit \<Rightarrow> unit result" where
  "hard_deposit_Validate m d =
     (if hd_Depositor d = [] then Inl (Err ''depositor cannot be empty'')
      else if \<not> coins_Valid m (hd_Amount d) then Inl (Err ''invalid deposit coins'')
      else SupplyInterestFactors_Validate (hd_Index d))"

definition hard_borrow_Validate :: "sdk_math \<Rightarrow> hard_borrow \<Rightarrow> unit result" where
  "hard_borrow_Validate m b =
     (if hb_Borrower b = [] then Inl (Err ''borrower cannot be empty'')
      else if \<not> coins_Valid m (hb_Amount b) then Inl (Err ''invalid borrow coins'')
      else BorrowInterestFactors_Validate (hb_Index b))"

fun check_hard_deposits :: "sdk_math \<Rightarrow> address list \<Rightarrow> hard_deposit list \<Rightarrow> unit result" where
  "check_hard_deposits m seen [] = Inr ()"
| "check_hard_deposits m seen (d # ds) =
     bnd (hard_deposit_Validate m d) (\<lambda>_.
     if hd_Depositor d \<in> set seen then Inl (Err ''duplicate depositor'') else check_hard_deposits m (hd_Depositor d # seen) ds)"

fun check_hard_borrows :: "sdk_math \<Rightarrow> address list \<Rightarrow> hard_borrow list \<Rightarrow> unit result" where
  "check_hard_borrows m seen [] = Inr ()"
| "check_hard_borrows m seen (b # bs) =
     bnd (hard_borrow_Validate m b) (\<lambda>_.
     if hb_Borrower b \<in> set seen then Inl (Err ''duplicate borrower'') else check_hard_borrows m (hb_Borrower b # seen) bs)"

text \<open>
  The amounts divided by the factors, \<open>NormalizedDeposit\<close> and \<open>NormalizedBorrow\<close>. The decimal coins are a list of
  denominations with their decimals; the coins of a record are sorted by
  denomination without duplicates, so each is added at the end. Adding drops zeros.
\<close>

definition normalized :: "sdk_math \<Rightarrow> string \<Rightarrow> coins \<Rightarrow> interest_factor list \<Rightarrow> (denom \<times> dec) list result" where
  "normalized m kind cs index =
     foldR (\<lambda>c acc. case GetInterestFactor_of index (Denom c) of
         None \<Rightarrow> Inl (Err (kind @ '' amount missing interest factor''))
       | Some factor \<Rightarrow>
           if factor < OneDec then Inl (Err ''interest factor < 1'')
           else
             bnd (DecQuo m (NewDecFromInt (Amount c)) factor) (\<lambda>q.
             if \<not> ValidDenom m (Denom c) then Inl (Panic ''invalid denom'')
             else if q < 0 then Inl (Panic ''negative decimal coin amount'')
             else Inr (if q = 0 then acc else acc @ [(Denom c, q)]))) cs []"

definition NormalizedDeposit :: "sdk_math \<Rightarrow> hard_deposit \<Rightarrow> (denom \<times> dec) list result" where
  "NormalizedDeposit m d = normalized m ''deposited'' (hd_Amount d) (hd_Index d)"

definition NormalizedBorrow :: "sdk_math \<Rightarrow> hard_borrow \<Rightarrow> (denom \<times> dec) list result" where
  "NormalizedBorrow m b = normalized m ''borrowed'' (hb_Amount b) (hb_Index b)"

section \<open>Valuations\<close>

type_synonym ValuationMap = "(denom, dec) kv"

definition valuation_Get :: "ValuationMap \<Rightarrow> denom \<Rightarrow> dec result" where
  \<comment> \<open>a missing denomination gives the zero value of \<open>sdk.Dec\<close>, on which every operation panics\<close>
  "valuation_Get vm d = (case kv_get vm d of None \<Rightarrow> Inl (Panic ''nil pointer dereference'') | Some v \<Rightarrow> Inr v)"

definition valuation_SetZero :: "ValuationMap \<Rightarrow> denom \<Rightarrow> ValuationMap" where
  "valuation_SetZero vm d = kv_set vm d 0"

definition valuation_Increment :: "sdk_math \<Rightarrow> ValuationMap \<Rightarrow> denom \<Rightarrow> dec \<Rightarrow> ValuationMap result" where
  "valuation_Increment m vm d amount = (case kv_get vm d of
      None \<Rightarrow> Inr (kv_set vm d amount)
    | Some v \<Rightarrow> bnd (toDec m (v + amount)) (\<lambda>v'. Inr (kv_set vm d v')))"

definition valuation_Decrement :: "sdk_math \<Rightarrow> ValuationMap \<Rightarrow> denom \<Rightarrow> dec \<Rightarrow> ValuationMap result" where
  "valuation_Decrement m vm d amount = (case kv_get vm d of
      None \<Rightarrow> Inr (kv_set vm d amount)
    | Some v \<Rightarrow> bnd (toDec m (v - amount)) (\<lambda>v'. Inr (kv_set vm d v')))"

definition valuation_Sum :: "sdk_math \<Rightarrow> ValuationMap \<Rightarrow> dec result" where
  \<comment> \<open>the order in which a Go map is walked does not matter for a sum\<close>
  "valuation_Sum m vm = foldR (\<lambda>(d, v) sum. toDec m (sum + v)) vm 0"

definition valuation_GetSortedKeys :: "ValuationMap \<Rightarrow> denom list" where
  "valuation_GetSortedKeys vm = map fst vm"

end
