(* ===== verification/Hard.thy ===== *)
theory Hard
  imports Hard_Types Elapsed_Time Auction Pricefeed
begin

text \<open>
  The lending module, \<open>x/hard\<close>: the stores of \<open>keeper/keeper.go\<close>, interest (\<open>keeper/interest.go\<close>), deposits and
  withdrawals (\<open>keeper/deposit.go\<close>, \<open>keeper/withdraw.go\<close>), borrows and repayments (\<open>keeper/borrow.go\<close>,
  \<open>keeper/repay.go\<close>) and loan-to-value (\<open>keeper/liquidation.go\<close>). Prices come from the model of \<open>x/pricefeed\<close>, and the
  bank is the one inside the model of \<open>x/auction\<close>, which liquidations start auctions in.
\<close>

section \<open>State and environment\<close>

record ('b, 'h) hard_state =
  hs_params :: hard_Params
  hs_deposits :: "(address, hard_deposit) kv"
  hs_borrows :: "(address, hard_borrow) kv"
  hs_borrowed :: coins
  hs_supplied :: coins
  hs_reserves :: coins
  hs_markets :: "(denom, MoneyMarket) kv"
  hs_accrual :: "(denom, time) kv"
  hs_borrowFactor :: "(denom, dec) kv"
  hs_supplyFactor :: "(denom, dec) kv"
  hs_auction :: "'b auction_state"
  hs_prices :: pricefeed_state
  hs_hooks :: 'h

text \<open>
  A hook may read the whole state and writes the state \<open>'h\<close> of the module that registered it. \<open>he_ApproxRoot\<close> is
  \<open>Dec.ApproxRoot\<close> and \<open>he_RelativePow\<close> is \<open>sdkmath.RelativePow\<close>, both of the SDK.
\<close>

record ('b, 'h) hard_hooks =
  hk_AfterDepositCreated :: "('b, 'h) hard_state \<Rightarrow> hard_deposit \<Rightarrow> 'h result"
  hk_BeforeDepositModified :: "('b, 'h) hard_state \<Rightarrow> hard_deposit \<Rightarrow> 'h result"
  hk_AfterDepositModified :: "('b, 'h) hard_state \<Rightarrow> hard_deposit \<Rightarrow> 'h result"
  hk_AfterBorrowCreated :: "('b, 'h) hard_state \<Rightarrow> hard_borrow \<Rightarrow> 'h result"
  hk_BeforeBorrowModified :: "('b, 'h) hard_state \<Rightarrow> hard_borrow \<Rightarrow> 'h result"
  hk_AfterBorrowModified :: "('b, 'h) hard_state \<Rightarrow> hard_borrow \<Rightarrow> 'h result"

record ('b, 'h) hard_env =
  he_sdk :: "'b sdk"
  he_coins :: coin_ops
  he_ApproxRoot :: "dec \<Rightarrow> int \<Rightarrow> dec result"
  he_RelativePow :: "int \<Rightarrow> int \<Rightarrow> int \<Rightarrow> int result"
  he_hooks :: "('b, 'h) hard_hooks option"

abbreviation he_math :: "('b, 'h) hard_env \<Rightarrow> sdk_math" where "he_math E \<equiv> Math (he_sdk E)"

definition hard_module :: string where "hard_module = ''hard''"

definition hs_bank :: "('b, 'h) hard_state \<Rightarrow> 'b" where "hs_bank st = ak_bank (hs_auction st)"

definition hs_set_bank :: "'b \<Rightarrow> ('b, 'h) hard_state \<Rightarrow> ('b, 'h) hard_state" where
  "hs_set_bank b st = st\<lparr>hs_auction := (hs_auction st)\<lparr>ak_bank := b\<rparr>\<rparr>"

definition hs_pay :: "('b \<Rightarrow> 'b result) \<Rightarrow> ('b, 'h) hard_state \<Rightarrow> ('b, 'h) hard_state result" where
  "hs_pay f st = bnd (f (hs_bank st)) (\<lambda>b. Inr (hs_set_bank b st))"

section \<open>Hooks\<close>

definition hard_call ::
    "('b, 'h) hard_env \<Rightarrow> (('b, 'h) hard_hooks \<Rightarrow> ('b, 'h) hard_state \<Rightarrow> 'x \<Rightarrow> 'h result) \<Rightarrow> ('b, 'h) hard_state \<Rightarrow> 'x \<Rightarrow> ('b, 'h) hard_state result" where
  "hard_call E hook st x = (case he_hooks E of
      None \<Rightarrow> Inr st
    | Some H \<Rightarrow> bnd (hook H st x) (\<lambda>h. Inr (st\<lparr>hs_hooks := h\<rparr>)))"

definition hard_AfterDepositCreated :: "('b, 'h) hard_env \<Rightarrow> ('b, 'h) hard_state \<Rightarrow> hard_deposit \<Rightarrow> ('b, 'h) hard_state result" where
  "hard_AfterDepositCreated E = hard_call E hk_AfterDepositCreated"

definition hard_BeforeDepositModified :: "('b, 'h) hard_env \<Rightarrow> ('b, 'h) hard_state \<Rightarrow> hard_deposit \<Rightarrow> ('b, 'h) hard_state result" where
  "hard_BeforeDepositModified E = hard_call E hk_BeforeDepositModified"

definition hard_AfterDepositModified :: "('b, 'h) hard_env \<Rightarrow> ('b, 'h) hard_state \<Rightarrow> hard_deposit \<Rightarrow> ('b, 'h) hard_state result" where
  "hard_AfterDepositModified E = hard_call E hk_AfterDepositModified"

definition hard_AfterBorrowCreated :: "('b, 'h) hard_env \<Rightarrow> ('b, 'h) hard_state \<Rightarrow> hard_borrow \<Rightarrow> ('b, 'h) hard_state result" where
  "hard_AfterBorrowCreated E = hard_call E hk_AfterBorrowCreated"

definition hard_BeforeBorrowModified :: "('b, 'h) hard_env \<Rightarrow> ('b, 'h) hard_state \<Rightarrow> hard_borrow \<Rightarrow> ('b, 'h) hard_state result" where
  "hard_BeforeBorrowModified E = hard_call E hk_BeforeBorrowModified"

definition hard_AfterBorrowModified :: "('b, 'h) hard_env \<Rightarrow> ('b, 'h) hard_state \<Rightarrow> hard_borrow \<Rightarrow> ('b, 'h) hard_state result" where
  "hard_AfterBorrowModified E = hard_call E hk_AfterBorrowModified"

section \<open>Stores\<close>

definition hard_GetDeposit :: "('b, 'h) hard_state \<Rightarrow> address \<Rightarrow> hard_deposit option" where
  "hard_GetDeposit st depositor = kv_get (hs_deposits st) depositor"

definition hard_SetDeposit :: "('b, 'h) hard_state \<Rightarrow> hard_deposit \<Rightarrow> ('b, 'h) hard_state" where
  "hard_SetDeposit st d = st\<lparr>hs_deposits := kv_set (hs_deposits st) (hd_Depositor d) d\<rparr>"

definition hard_DeleteDeposit :: "('b, 'h) hard_state \<Rightarrow> hard_deposit \<Rightarrow> ('b, 'h) hard_state" where
  "hard_DeleteDeposit st d = st\<lparr>hs_deposits := kv_del (hs_deposits st) (hd_Depositor d)\<rparr>"

definition hard_deposits :: "('b, 'h) hard_state \<Rightarrow> hard_deposit list" where
  \<comment> \<open>the records \<open>IterateDeposits\<close> visits, in its order\<close>
  "hard_deposits st = map snd (hs_deposits st)"

definition hard_GetDepositsByUser :: "('b, 'h) hard_state \<Rightarrow> address \<Rightarrow> hard_deposit list" where
  "hard_GetDepositsByUser st user = filter (\<lambda>d. hd_Depositor d = user) (hard_deposits st)"

definition hard_GetBorrow :: "('b, 'h) hard_state \<Rightarrow> address \<Rightarrow> hard_borrow option" where
  "hard_GetBorrow st borrower = kv_get (hs_borrows st) borrower"

definition hard_SetBorrow :: "('b, 'h) hard_state \<Rightarrow> hard_borrow \<Rightarrow> ('b, 'h) hard_state" where
  "hard_SetBorrow st b = st\<lparr>hs_borrows := kv_set (hs_borrows st) (hb_Borrower b) b\<rparr>"

definition hard_DeleteBorrow :: "('b, 'h) hard_state \<Rightarrow> hard_borrow \<Rightarrow> ('b, 'h) hard_state" where
  "hard_DeleteBorrow st b = st\<lparr>hs_borrows := kv_del (hs_borrows st) (hb_Borrower b)\<rparr>"

definition hard_borrows :: "('b, 'h) hard_state \<Rightarrow> hard_borrow list" where
  "hard_borrows st = map snd (hs_borrows st)"

text \<open>The totals: an empty list is stored as no bytes, which reads as not found.\<close>

definition found_coins :: "coins \<Rightarrow> coins option" where
  "found_coins cs = (if cs = [] then None else Some cs)"

definition SetBorrowedCoins :: "('b, 'h) hard_state \<Rightarrow> coins \<Rightarrow> ('b, 'h) hard_state" where
  "SetBorrowedCoins st cs = st\<lparr>hs_borrowed := cs\<rparr>"

definition GetBorrowedCoins :: "('b, 'h) hard_state \<Rightarrow> coins option" where
  "GetBorrowedCoins st = found_coins (hs_borrowed st)"

definition SetSuppliedCoins :: "('b, 'h) hard_state \<Rightarrow> coins \<Rightarrow> ('b, 'h) hard_state" where
  "SetSuppliedCoins st cs = st\<lparr>hs_supplied := cs\<rparr>"

definition GetSuppliedCoins :: "('b, 'h) hard_state \<Rightarrow> coins option" where
  "GetSuppliedCoins st = found_coins (hs_supplied st)"

definition SetTotalReserves :: "('b, 'h) hard_state \<Rightarrow> coins \<Rightarrow> ('b, 'h) hard_state" where
  "SetTotalReserves st cs = st\<lparr>hs_reserves := cs\<rparr>"

definition GetTotalReserves :: "('b, 'h) hard_state \<Rightarrow> coins option" where
  "GetTotalReserves st = found_coins (hs_reserves st)"

definition GetMoneyMarket :: "('b, 'h) hard_state \<Rightarrow> denom \<Rightarrow> MoneyMarket option" where
  "GetMoneyMarket st d = kv_get (hs_markets st) d"

definition SetMoneyMarket :: "('b, 'h) hard_state \<Rightarrow> denom \<Rightarrow> MoneyMarket \<Rightarrow> ('b, 'h) hard_state" where
  "SetMoneyMarket st d mm = st\<lparr>hs_markets := kv_set (hs_markets st) d mm\<rparr>"

definition DeleteMoneyMarket :: "('b, 'h) hard_state \<Rightarrow> denom \<Rightarrow> ('b, 'h) hard_state" where
  "DeleteMoneyMarket st d = st\<lparr>hs_markets := kv_del (hs_markets st) d\<rparr>"

definition GetAllMoneyMarkets :: "('b, 'h) hard_state \<Rightarrow> MoneyMarket list" where
  "GetAllMoneyMarkets st = map snd (hs_markets st)"

definition hard_GetPreviousAccrualTime :: "('b, 'h) hard_state \<Rightarrow> denom \<Rightarrow> time option" where
  "hard_GetPreviousAccrualTime st d = kv_get (hs_accrual st) d"

definition hard_SetPreviousAccrualTime :: "('b, 'h) hard_state \<Rightarrow> denom \<Rightarrow> time \<Rightarrow> ('b, 'h) hard_state" where
  "hard_SetPreviousAccrualTime st d t = st\<lparr>hs_accrual := kv_set (hs_accrual st) d t\<rparr>"

definition GetBorrowInterestFactor :: "('b, 'h) hard_state \<Rightarrow> denom \<Rightarrow> dec option" where
  "GetBorrowInterestFactor st d = kv_get (hs_borrowFactor st) d"

definition SetBorrowInterestFactor :: "('b, 'h) hard_state \<Rightarrow> denom \<Rightarrow> dec \<Rightarrow> ('b, 'h) hard_state" where
  "SetBorrowInterestFactor st d f = st\<lparr>hs_borrowFactor := kv_set (hs_borrowFactor st) d f\<rparr>"

definition GetSupplyInterestFactor :: "('b, 'h) hard_state \<Rightarrow> denom \<Rightarrow> dec option" where
  "GetSupplyInterestFactor st d = kv_get (hs_supplyFactor st) d"

definition SetSupplyInterestFactor :: "('b, 'h) hard_state \<Rightarrow> denom \<Rightarrow> dec \<Rightarrow> ('b, 'h) hard_state" where
  "SetSupplyInterestFactor st d f = st\<lparr>hs_supplyFactor := kv_set (hs_supplyFactor st) d f\<rparr>"

definition hard_SetParams :: "sdk_math \<Rightarrow> ('b, 'h) hard_state \<Rightarrow> hard_Params \<Rightarrow> ('b, 'h) hard_state result" where
  "hard_SetParams m st p = bnd (panic_on_err (hard_Params_Validate m p)) (\<lambda>_. Inr (st\<lparr>hs_params := p\<rparr>))"

definition GetMinimumBorrowUSDValue :: "('b, 'h) hard_state \<Rightarrow> dec" where
  "GetMinimumBorrowUSDValue st = hp_MinimumBorrowUSDValue (hs_params st)"

definition hard_GetTotalDeposited :: "('b, 'h) hard_env \<Rightarrow> ('b, 'h) hard_state \<Rightarrow> denom \<Rightarrow> int" where
  "hard_GetTotalDeposited E st d = GetBalance (he_sdk E) (hs_bank st) (ModuleAddress (he_sdk E) hard_module) d"

section \<open>The total amounts\<close>

text \<open>\<open>Coins.AmountOf\<close> panics on an invalid denomination.\<close>

definition checked_AmountOf :: "sdk_math \<Rightarrow> coins \<Rightarrow> denom \<Rightarrow> int result" where
  "checked_AmountOf m cs d = (if ValidDenom m d then Inr (AmountOf cs d) else Inl (Panic ''invalid denom''))"

text \<open>\<open>Add\<close> of a new coin, the idiom with which sums of interest are built.\<close>

definition add_coin :: "('b, 'h) hard_env \<Rightarrow> coins \<Rightarrow> denom \<Rightarrow> int \<Rightarrow> coins result" where
  "add_coin E cs d n = bnd (NewCoin (he_math E) d n) (\<lambda>c. CoinsAdd (he_sdk E) cs [c])"

definition IncrementBorrowedCoins :: "('b, 'h) hard_env \<Rightarrow> ('b, 'h) hard_state \<Rightarrow> coins \<Rightarrow> ('b, 'h) hard_state result" where
  "IncrementBorrowedCoins E st newCoins =
     (case GetBorrowedCoins st of
        None \<Rightarrow> if newCoins \<noteq> [] then Inr (SetBorrowedCoins st newCoins) else Inr st
      | Some borrowedCoins \<Rightarrow> bnd (CoinsAdd (he_sdk E) borrowedCoins newCoins) (\<lambda>cs. Inr (SetBorrowedCoins st cs)))"

definition IncrementSuppliedCoins :: "('b, 'h) hard_env \<Rightarrow> ('b, 'h) hard_state \<Rightarrow> coins \<Rightarrow> ('b, 'h) hard_state result" where
  "IncrementSuppliedCoins E st newCoins =
     (case GetSuppliedCoins st of
        None \<Rightarrow> if newCoins \<noteq> [] then Inr (SetSuppliedCoins st newCoins) else Inr st
      | Some suppliedCoins \<Rightarrow> bnd (CoinsAdd (he_sdk E) suppliedCoins newCoins) (\<lambda>cs. Inr (SetSuppliedCoins st cs)))"

text \<open>
  What \<open>DecrementBorrowedCoins\<close> and \<open>DecrementSuppliedCoins\<close> leave of a total: when a coin exceeds the total, as it may
  by rounding, the total of its denomination becomes zero.
\<close>

definition coins_to_subtract :: "('b, 'h) hard_env \<Rightarrow> coins \<Rightarrow> coins \<Rightarrow> coins result" where
  "coins_to_subtract E tot cs =
     foldR (\<lambda>c acc.
       bnd (checked_AmountOf (he_math E) tot (Denom c)) (\<lambda>amount.
       if amount < Amount c then
         if amount > 0 then add_coin E acc (Denom c) amount else Inr acc
       else CoinsAdd (he_sdk E) acc [c])) cs []"

definition decremented :: "('b, 'h) hard_env \<Rightarrow> coins \<Rightarrow> coins \<Rightarrow> coins result" where
  "decremented E tot cs =
     bnd (CoinsSafeSub (he_coins E) tot cs) (\<lambda>(updated, isNegative).
     if isNegative then bnd (coins_to_subtract E tot cs) (\<lambda>sub. CoinsSub (he_coins E) tot sub)
     else Inr updated)"

definition DecrementBorrowedCoins :: "('b, 'h) hard_env \<Rightarrow> ('b, 'h) hard_state \<Rightarrow> coins \<Rightarrow> ('b, 'h) hard_state result" where
  "DecrementBorrowedCoins E st cs =
     (case GetBorrowedCoins st of
        None \<Rightarrow> Inl (Err ''ErrBorrowedCoinsNotFound'')
      | Some borrowedCoins \<Rightarrow> bnd (decremented E borrowedCoins cs) (\<lambda>updated. Inr (SetBorrowedCoins st updated)))"

definition DecrementSuppliedCoins :: "('b, 'h) hard_env \<Rightarrow> ('b, 'h) hard_state \<Rightarrow> coins \<Rightarrow> ('b, 'h) hard_state result" where
  "DecrementSuppliedCoins E st cs =
     (case GetSuppliedCoins st of
        None \<Rightarrow> Inl (Err ''ErrSuppliedCoinsNotFound'')
      | Some suppliedCoins \<Rightarrow> bnd (decremented E suppliedCoins cs) (\<lambda>updated. Inr (SetSuppliedCoins st updated)))"

section \<open>Interest of a position\<close>

text \<open>
  \<open>grown\<close> is the interest \<open>storedAmount.Quo(last).Mul(current).Sub(storedAmount)\<close> truncated to whole coins,
  \<open>grown_supply\<close> multiplies first and divides then, as \<open>SyncSupplyInterest\<close> does.
\<close>

definition grown :: "sdk_math \<Rightarrow> int \<Rightarrow> dec \<Rightarrow> dec \<Rightarrow> int result" where
  "grown m amount lastFactor current =
     bnd (DecQuo m (NewDecFromInt amount) lastFactor) (\<lambda>q.
     bnd (DecMul m q current) (\<lambda>p.
     bnd (toDec m (p - NewDecFromInt amount)) (\<lambda>interest. DecTruncateInt m interest)))"

definition grown_supply :: "sdk_math \<Rightarrow> int \<Rightarrow> dec \<Rightarrow> dec \<Rightarrow> int result" where
  "grown_supply m amount lastFactor current =
     bnd (DecMul m (NewDecFromInt amount) current) (\<lambda>p.
     bnd (DecQuo m p lastFactor) (\<lambda>q.
     bnd (toDec m (q - NewDecFromInt amount)) (\<lambda>interest. DecTruncateInt m interest)))"

definition factor_or_zero :: "dec option \<Rightarrow> dec" where
  "factor_or_zero f = (case f of None \<Rightarrow> 0 | Some v \<Rightarrow> v)"

definition load_synced ::
    "('b, 'h) hard_env \<Rightarrow> (denom \<Rightarrow> dec option) \<Rightarrow> coins \<Rightarrow> interest_factor list \<Rightarrow> (coins \<times> interest_factor list) result" where
  "load_synced E factor amount index =
     bnd (foldR (\<lambda>c (newIndexes, totalNewInterest).
       bnd (case factor (Denom c) of
              None \<Rightarrow> Inr totalNewInterest
            | Some value \<Rightarrow>
                case GetInterestFactor_of index (Denom c) of
                  None \<Rightarrow> Inr totalNewInterest
                | Some userLast \<Rightarrow>
                    bnd (checked_AmountOf (he_math E) amount (Denom c)) (\<lambda>stored.
                    bnd (grown (he_math E) stored userLast value) (\<lambda>interest.
                    add_coin E totalNewInterest (Denom c) interest))) (\<lambda>total'.
       Inr (newIndexes @ [\<lparr>if_Denom = Denom c, if_Value = factor_or_zero (factor (Denom c))\<rparr>], total')))
       amount ([], [])) (\<lambda>(newIndexes, totalNewInterest).
     bnd (CoinsAdd (he_sdk E) amount totalNewInterest) (\<lambda>amount'. Inr (amount', newIndexes)))"

definition loadSyncedBorrow :: "('b, 'h) hard_env \<Rightarrow> ('b, 'h) hard_state \<Rightarrow> hard_borrow \<Rightarrow> hard_borrow result" where
  "loadSyncedBorrow E st b =
     bnd (load_synced E (GetBorrowInterestFactor st) (hb_Amount b) (hb_Index b)) (\<lambda>(amount, index).
     Inr \<lparr>hb_Borrower = hb_Borrower b, hb_Amount = amount, hb_Index = index\<rparr>)"

definition loadSyncedDeposit :: "('b, 'h) hard_env \<Rightarrow> ('b, 'h) hard_state \<Rightarrow> hard_deposit \<Rightarrow> hard_deposit result" where
  "loadSyncedDeposit E st d =
     bnd (load_synced E (GetSupplyInterestFactor st) (hd_Amount d) (hd_Index d)) (\<lambda>(amount, index).
     Inr \<lparr>hd_Depositor = hd_Depositor d, hd_Amount = amount, hd_Index = index\<rparr>)"

definition GetSyncedBorrow :: "('b, 'h) hard_env \<Rightarrow> ('b, 'h) hard_state \<Rightarrow> address \<Rightarrow> hard_borrow option result" where
  "GetSyncedBorrow E st borrower =
     (case hard_GetBorrow st borrower of
        None \<Rightarrow> Inr None
      | Some b \<Rightarrow> bnd (loadSyncedBorrow E st b) (\<lambda>b'. Inr (Some b')))"

definition GetSyncedDeposit :: "('b, 'h) hard_env \<Rightarrow> ('b, 'h) hard_state \<Rightarrow> address \<Rightarrow> hard_deposit option result" where
  "GetSyncedDeposit E st depositor =
     (case hard_GetDeposit st depositor of
        None \<Rightarrow> Inr None
      | Some d \<Rightarrow> bnd (loadSyncedDeposit E st d) (\<lambda>d'. Inr (Some d')))"

text \<open>
  \<open>SyncBorrowInterest\<close> and \<open>SyncSupplyInterest\<close> write the synchronised record back. A factor the store has not gives the
  decimal zero.
\<close>

definition sync_borrow_coin ::
    "('b, 'h) hard_env \<Rightarrow> ('b, 'h) hard_state \<Rightarrow> coins \<Rightarrow> coin \<Rightarrow> interest_factor list \<times> coins \<Rightarrow> (interest_factor list \<times> coins) result" where
  "sync_borrow_coin E st amount c acc =
     (case acc of (index, totalNewInterest) \<Rightarrow>
        let value = factor_or_zero (GetBorrowInterestFactor st (Denom c)) in
        case GetInterestFactor_of index (Denom c) of
          None \<Rightarrow> Inr (index @ [\<lparr>if_Denom = Denom c, if_Value = value\<rparr>], totalNewInterest)
        | Some userLast \<Rightarrow>
            bnd (checked_AmountOf (he_math E) amount (Denom c)) (\<lambda>stored.
            bnd (grown (he_math E) stored userLast value) (\<lambda>interest.
            bnd (add_coin E totalNewInterest (Denom c) interest) (\<lambda>total'.
            Inr (SetInterestFactor_of index (Denom c) value, total')))))"

definition SyncBorrowInterest :: "('b, 'h) hard_env \<Rightarrow> ('b, 'h) hard_state \<Rightarrow> address \<Rightarrow> ('b, 'h) hard_state result" where
  "SyncBorrowInterest E st addr =
     (case hard_GetBorrow st addr of
        None \<Rightarrow> Inr st
      | Some b \<Rightarrow>
          bnd (foldR (sync_borrow_coin E st (hb_Amount b)) (hb_Amount b) (hb_Index b, [])) (\<lambda>(index, totalNewInterest).
          bnd (CoinsAdd (he_sdk E) (hb_Amount b) totalNewInterest) (\<lambda>amount.
          Inr (hard_SetBorrow st (b\<lparr>hb_Amount := amount, hb_Index := index\<rparr>)))))"

definition sync_supply_coin ::
    "('b, 'h) hard_env \<Rightarrow> ('b, 'h) hard_state \<Rightarrow> coins \<Rightarrow> coin \<Rightarrow> interest_factor list \<times> coins \<Rightarrow> (interest_factor list \<times> coins) result" where
  "sync_supply_coin E st amount c acc =
     (case acc of (index, totalNewInterest) \<Rightarrow>
        let value = factor_or_zero (GetSupplyInterestFactor st (Denom c)) in
        case GetInterestFactor_of index (Denom c) of
          None \<Rightarrow> Inr (index @ [\<lparr>if_Denom = Denom c, if_Value = value\<rparr>], totalNewInterest)
        | Some userLast \<Rightarrow>
            bnd (checked_AmountOf (he_math E) amount (Denom c)) (\<lambda>stored.
            bnd (grown_supply (he_math E) stored userLast value) (\<lambda>interest.
            bnd (if interest > 0 then add_coin E totalNewInterest (Denom c) interest else Inr totalNewInterest) (\<lambda>total'.
            Inr (SetInterestFactor_of index (Denom c) value, total')))))"

definition SyncSupplyInterest :: "('b, 'h) hard_env \<Rightarrow> ('b, 'h) hard_state \<Rightarrow> address \<Rightarrow> ('b, 'h) hard_state result" where
  "SyncSupplyInterest E st addr =
     (case hard_GetDeposit st addr of
        None \<Rightarrow> Inr st
      | Some d \<Rightarrow>
          bnd (foldR (sync_supply_coin E st (hd_Amount d)) (hd_Amount d) (hd_Index d, [])) (\<lambda>(index, totalNewInterest).
          bnd (CoinsAdd (he_sdk E) (hd_Amount d) totalNewInterest) (\<lambda>amount.
          Inr (hard_SetDeposit st (d\<lparr>hd_Amount := amount, hd_Index := index\<rparr>)))))"

section \<open>Interest of a market\<close>

definition CalculateUtilizationRatio :: "sdk_math \<Rightarrow> dec \<Rightarrow> dec \<Rightarrow> dec \<Rightarrow> dec result" where
  "CalculateUtilizationRatio m cash borrows reserves =
     (if borrows = 0 then Inr 0
      else
        bnd (toDec m (cash + borrows)) (\<lambda>s.
        bnd (toDec m (s - reserves)) (\<lambda>totalSupply.
        if totalSupply < 0 then Inr OneDec
        else bnd (DecQuo m borrows totalSupply) (\<lambda>q. Inr (min OneDec q)))))"

definition CalculateBorrowRate :: "sdk_math \<Rightarrow> InterestRateModel \<Rightarrow> dec \<Rightarrow> dec \<Rightarrow> dec \<Rightarrow> dec result" where
  "CalculateBorrowRate m model cash borrows reserves =
     bnd (CalculateUtilizationRatio m cash borrows reserves) (\<lambda>utilRatio.
     if utilRatio \<le> irm_Kink model then
       bnd (DecMul m utilRatio (irm_BaseMultiplier model)) (\<lambda>p. toDec m (p + irm_BaseRateAPY model))
     else
       bnd (DecMul m (irm_Kink model) (irm_BaseMultiplier model)) (\<lambda>p.
       bnd (toDec m (p + irm_BaseRateAPY model)) (\<lambda>normalRate.
       bnd (toDec m (utilRatio - irm_Kink model)) (\<lambda>excessUtil.
       bnd (DecMul m excessUtil (irm_JumpMultiplier model)) (\<lambda>q. toDec m (q + normalRate))))))"

definition CalculateBorrowInterestFactor :: "('b, 'h) hard_env \<Rightarrow> dec \<Rightarrow> int \<Rightarrow> dec result" where
  "CalculateBorrowInterestFactor E perSecondInterestRate secondsElapsed =
     bnd (toDec (he_math E) (perSecondInterestRate * scalingFactor)) (\<lambda>scaled.
     bnd (DecRoundInt (he_math E) scaled) (\<lambda>rounded.
     bnd (NewUint rounded) (\<lambda>interestMantissa.
     bnd (NewUint secondsElapsed) (\<lambda>secondsElapsedUint.
     bnd (he_RelativePow E interestMantissa secondsElapsedUint scalingFactor) (\<lambda>interestFactorMantissa.
     Inr (Quo (NewDecFromInt interestFactorMantissa) scalingFactor))))))"

definition CalculateSupplyInterestFactor :: "sdk_math \<Rightarrow> dec \<Rightarrow> dec \<Rightarrow> dec \<Rightarrow> dec \<Rightarrow> dec result" where
  "CalculateSupplyInterestFactor m newInterest cash borrows reserves =
     bnd (toDec m (cash + borrows)) (\<lambda>s.
     bnd (toDec m (s - reserves)) (\<lambda>totalSupply.
     if totalSupply = 0 then Inr OneDec
     else bnd (DecQuo m newInterest totalSupply) (\<lambda>q. toDec m (q + OneDec))))"

definition secondsPerYear :: int where "secondsPerYear = 31536000"

definition APYToSPY :: "('b, 'h) hard_env \<Rightarrow> dec \<Rightarrow> dec result" where
  "APYToSPY E apy = he_ApproxRoot E apy secondsPerYear"

definition borrow_factor_or_one :: "('b, 'h) hard_state \<Rightarrow> denom \<Rightarrow> ('b, 'h) hard_state \<times> dec" where
  "borrow_factor_or_one st d = (case GetBorrowInterestFactor st d of
      None \<Rightarrow> (SetBorrowInterestFactor st d OneDec, OneDec) | Some f \<Rightarrow> (st, f))"

definition supply_factor_or_one :: "('b, 'h) hard_state \<Rightarrow> denom \<Rightarrow> ('b, 'h) hard_state \<times> dec" where
  "supply_factor_or_one st d = (case GetSupplyInterestFactor st d of
      None \<Rightarrow> (SetSupplyInterestFactor st d OneDec, OneDec) | Some f \<Rightarrow> (st, f))"

definition book_interest ::
    "('b, 'h) hard_env \<Rightarrow> time \<Rightarrow> ('b, 'h) hard_state \<Rightarrow> denom \<Rightarrow> MoneyMarket \<Rightarrow> dec \<Rightarrow> dec \<Rightarrow> dec \<Rightarrow> int \<Rightarrow> int \<Rightarrow> coins \<Rightarrow> int \<Rightarrow> int \<Rightarrow> ('b, 'h) hard_state result" where
  \<comment> \<open>the last part of \<open>AccrueInterest\<close>, from \<open>totalBorrowInterestAccumulated\<close> on\<close>
  "book_interest E now st denom mm borrowPrior supplyPrior borrowInterestFactor cashPrior borrowedPrior reservesPrior reservesOf interest =
     bnd (NewCoin (he_math E) denom interest) (\<lambda>ic.
     bnd (NewCoins (he_sdk E) [ic]) (\<lambda>totalBorrowInterestAccumulated.
     bnd (DecMul (he_math E) (NewDecFromInt interest) (mm_ReserveFactor mm)) (\<lambda>r.
     bnd (DecTruncateInt (he_math E) r) (\<lambda>reservesNew.
     bnd (DecMul (he_math E) borrowPrior borrowInterestFactor) (\<lambda>borrowInterestFactorNew.
     let st1 = SetBorrowInterestFactor st denom borrowInterestFactorNew in
     bnd (toInt (he_math E) (interest - reservesNew)) (\<lambda>supplyInterestNew.
     bnd (CalculateSupplyInterestFactor (he_math E) (NewDecFromInt supplyInterestNew) (NewDecFromInt cashPrior)
            (NewDecFromInt borrowedPrior) (NewDecFromInt reservesOf)) (\<lambda>supplyInterestFactor.
     bnd (DecMul (he_math E) supplyPrior supplyInterestFactor) (\<lambda>supplyInterestFactorNew.
     let st2 = SetSupplyInterestFactor st1 denom supplyInterestFactorNew in
     bnd (IncrementBorrowedCoins E st2 totalBorrowInterestAccumulated) (\<lambda>st3.
     bnd (NewCoin (he_math E) denom supplyInterestNew) (\<lambda>sc.
     bnd (NewCoins (he_sdk E) [sc]) (\<lambda>supplied.
     bnd (IncrementSuppliedCoins E st3 supplied) (\<lambda>st4.
     bnd (add_coin E reservesPrior denom reservesNew) (\<lambda>reserves'.
     Inr (hard_SetPreviousAccrualTime (SetTotalReserves st4 reserves') denom now))))))))))))))"

definition AccrueInterest :: "('b, 'h) hard_env \<Rightarrow> time \<Rightarrow> ('b, 'h) hard_state \<Rightarrow> denom \<Rightarrow> ('b, 'h) hard_state result" where
  "AccrueInterest E now st denom =
     (case hard_GetPreviousAccrualTime st denom of
        None \<Rightarrow> Inr (hard_SetPreviousAccrualTime st denom now)
      | Some previousAccrualTime \<Rightarrow>
          let timeElapsed = round_seconds (time_Sub now previousAccrualTime) in
          if timeElapsed = 0 then Inr st
          else
            let cashPrior = hard_GetTotalDeposited E st denom in
            bnd (NewCoin (he_math E) denom (AmountOf (hs_borrowed st) denom)) (\<lambda>borrowed.
            let borrowedPrior = Amount borrowed in
            if borrowedPrior = 0 then Inr (hard_SetPreviousAccrualTime st denom now)
            else
              let reservesPrior = hs_reserves st;
                  (st1, borrowInterestFactorPrior) = borrow_factor_or_one st denom;
                  (st2, supplyInterestFactorPrior) = supply_factor_or_one st1 denom
              in
              case GetMoneyMarket st2 denom of
                None \<Rightarrow> Inl (Err ''ErrMoneyMarketNotFound'')
              | Some mm \<Rightarrow>
                  bnd (CalculateBorrowRate (he_math E) (mm_InterestRateModel mm) (NewDecFromInt cashPrior)
                         (NewDecFromInt borrowedPrior) (NewDecFromInt (AmountOf reservesPrior denom))) (\<lambda>borrowRateApy.
                  bnd (toDec (he_math E) (OneDec + borrowRateApy)) (\<lambda>apy.
                  bnd (APYToSPY E apy) (\<lambda>borrowRateSpy.
                  bnd (CalculateBorrowInterestFactor E borrowRateSpy timeElapsed) (\<lambda>borrowInterestFactor.
                  bnd (DecMul (he_math E) borrowInterestFactor (NewDecFromInt borrowedPrior)) (\<lambda>p.
                  bnd (DecTruncateInt (he_math E) p) (\<lambda>n.
                  bnd (toInt (he_math E) (n - borrowedPrior)) (\<lambda>interestBorrowAccumulated.
                  if interestBorrowAccumulated = 0 \<and> borrowRateApy > 0 then Inr st2
                  else
                    book_interest E now st2 denom mm borrowInterestFactorPrior supplyInterestFactorPrior borrowInterestFactor
                      cashPrior borrowedPrior reservesPrior (AmountOf reservesPrior denom) interestBorrowAccumulated)))))))))"

definition update_market :: "('b, 'h) hard_env \<Rightarrow> time \<Rightarrow> MoneyMarket \<Rightarrow> ('b, 'h) hard_state \<Rightarrow> ('b, 'h) hard_state result" where
  "update_market E now mm st =
     (let (st1, moneyMarket) = (case GetMoneyMarket st (mm_Denom mm) of
            None \<Rightarrow> (SetMoneyMarket st (mm_Denom mm) mm, mm) | Some found \<Rightarrow> (st, found)) in
      bnd (panic_on_err (AccrueInterest E now st1 (mm_Denom mm))) (\<lambda>st2.
      Inr (if \<not> MoneyMarket_Equal moneyMarket mm then SetMoneyMarket st2 (mm_Denom mm) mm else st2)))"

definition retire_market :: "('b, 'h) hard_env \<Rightarrow> time \<Rightarrow> denom list \<Rightarrow> denom \<Rightarrow> ('b, 'h) hard_state \<Rightarrow> ('b, 'h) hard_state result" where
  "retire_market E now denomSet denom st =
     (if denom \<notin> set denomSet
      then bnd (panic_on_err (AccrueInterest E now st denom)) (\<lambda>st1. Inr (DeleteMoneyMarket st1 denom))
      else Inr st)"

definition ApplyInterestRateUpdates :: "('b, 'h) hard_env \<Rightarrow> time \<Rightarrow> ('b, 'h) hard_state \<Rightarrow> ('b, 'h) hard_state result" where
  "ApplyInterestRateUpdates E now st =
     (let mms = hp_MoneyMarkets (hs_params st) in
      bnd (foldR (update_market E now) mms st) (\<lambda>st1.
      foldR (retire_market E now (map mm_Denom mms)) (map fst (hs_markets st1)) st1))"

definition hard_BeginBlocker :: "('b, 'h) hard_env \<Rightarrow> time \<Rightarrow> ('b, 'h) hard_state \<Rightarrow> ('b, 'h) hard_state result" where
  "hard_BeginBlocker E now st = ApplyInterestRateUpdates E now st"

end
