(* ===== verification/Hard_Keeper.thy ===== *)
theory Hard_Keeper
  imports Hard
begin

text \<open>
  What users of \<open>x/hard\<close> do: deposits and withdrawals (\<open>keeper/deposit.go\<close>, \<open>keeper/withdraw.go\<close>), borrows and repayments
  (\<open>keeper/borrow.go\<close>, \<open>keeper/repay.go\<close>), liquidations (\<open>keeper/liquidation.go\<close>), the messages (\<open>types/msg.go\<close>,
  \<open>keeper/msg_server.go\<close>) and genesis (\<open>genesis.go\<close>, \<open>types/genesis.go\<close>).
\<close>

section \<open>Values in dollars\<close>

definition usd_value :: "sdk_math \<Rightarrow> int \<Rightarrow> int \<Rightarrow> dec \<Rightarrow> dec result" where
  \<comment> \<open>\<open>NewDecFromInt(amount).Quo(NewDecFromInt(conversionFactor)).Mul(price)\<close>\<close>
  "usd_value m amount conversionFactor price =
     bnd (DecQuo m (NewDecFromInt amount) (NewDecFromInt conversionFactor)) (\<lambda>q. DecMul m q price)"

definition market_price :: "('b, 'h) hard_state \<Rightarrow> denom \<Rightarrow> (MoneyMarket \<times> dec) result" where
  "market_price st d =
     (case GetMoneyMarket st d of
        None \<Rightarrow> Inl (Err ''ErrMarketNotFound'')
      | Some mm \<Rightarrow>
          (case GetCurrentPrice (hs_prices st) (mm_SpotMarketID mm) of
             Inl (Err e) \<Rightarrow> Inl (Err ''ErrPriceNotFound'')
           | Inl (Panic e) \<Rightarrow> Inl (Panic e)
           | Inr cp \<Rightarrow> Inr (mm, cur_Price cp)))"

record LiqData =
  lq_price :: dec
  lq_ltv :: dec
  lq_conversionFactor :: int

text \<open>
  \<open>LoadLiquidationData\<close> walks the denominations of both coin sets in order, without duplicates. Looking up a
  denomination that was not loaded would give the zero value of \<open>LiqData\<close>, whose decimals panic in every operation.
\<close>

definition hard_getDenoms :: "coins \<Rightarrow> denom list" where
  "hard_getDenoms cs = map Denom cs"

definition removeDuplicates :: "string list \<Rightarrow> string list \<Rightarrow> string list" where
  "removeDuplicates one two = sort (remdups (one @ two))"

definition LoadLiquidationData :: "('b, 'h) hard_state \<Rightarrow> hard_deposit \<Rightarrow> hard_borrow \<Rightarrow> (denom \<rightharpoonup> LiqData) result" where
  "LoadLiquidationData st deposit borrow =
     foldR (\<lambda>denom liqMap.
       case GetMoneyMarket st denom of
         None \<Rightarrow> Inl (Err ''ErrMarketNotFound'')
       | Some mm \<Rightarrow>
           bnd (GetCurrentPrice (hs_prices st) (mm_SpotMarketID mm)) (\<lambda>priceData.
           Inr (liqMap(denom \<mapsto> \<lparr>lq_price = cur_Price priceData, lq_ltv = bl_LoanToValue (mm_BorrowLimit mm),
                                  lq_conversionFactor = mm_ConversionFactor mm\<rparr>))))
       (removeDuplicates (hard_getDenoms (hb_Amount borrow)) (hard_getDenoms (hd_Amount deposit))) Map.empty"

definition liq_data :: "(denom \<rightharpoonup> LiqData) \<Rightarrow> denom \<Rightarrow> LiqData result" where
  "liq_data liqMap d = (case liqMap d of None \<Rightarrow> Inl (Panic ''nil pointer dereference'') | Some l \<Rightarrow> Inr l)"

definition liq_value :: "sdk_math \<Rightarrow> (denom \<rightharpoonup> LiqData) \<Rightarrow> coin \<Rightarrow> dec result" where
  "liq_value m liqMap c =
     bnd (liq_data liqMap (Denom c)) (\<lambda>l. usd_value m (Amount c) (lq_conversionFactor l) (lq_price l))"

definition IsWithinValidLtvRange :: "('b, 'h) hard_env \<Rightarrow> ('b, 'h) hard_state \<Rightarrow> hard_deposit \<Rightarrow> hard_borrow \<Rightarrow> bool result" where
  "IsWithinValidLtvRange E st deposit borrow =
     bnd (LoadLiquidationData st deposit borrow) (\<lambda>liqMap.
     bnd (foldR (\<lambda>c total.
            bnd (liq_value (he_math E) liqMap c) (\<lambda>usdValue.
            bnd (liq_data liqMap (Denom c)) (\<lambda>l.
            bnd (DecMul (he_math E) usdValue (lq_ltv l)) (\<lambda>v. toDec (he_math E) (total + v)))))
          (hd_Amount deposit) 0) (\<lambda>totalBorrowableUSDAmount.
     bnd (foldR (\<lambda>c total. bnd (liq_value (he_math E) liqMap c) (\<lambda>v. toDec (he_math E) (total + v)))
          (hb_Amount borrow) 0) (\<lambda>totalBorrowedUSDAmount.
     Inr (\<not> totalBorrowedUSDAmount > totalBorrowableUSDAmount))))"

section \<open>Deposit\<close>

definition hard_ValidateDeposit :: "('b, 'h) hard_state \<Rightarrow> coins \<Rightarrow> unit result" where
  "hard_ValidateDeposit st cs =
     foldR (\<lambda>c _. case GetMoneyMarket st (Denom c) of
         None \<Rightarrow> Inl (Err ''ErrInvalidDepositDenom'') | Some _ \<Rightarrow> Inr ()) cs ()"

definition init_supply_factors :: "('b, 'h) hard_state \<Rightarrow> coins \<Rightarrow> ('b, 'h) hard_state" where
  "init_supply_factors st cs =
     fold (\<lambda>c st. if GetSupplyInterestFactor st (Denom c) = None \<and> GetMoneyMarket st (Denom c) \<noteq> None
                  then SetSupplyInterestFactor st (Denom c) OneDec else st) cs st"

definition first_short :: "('b, 'h) hard_env \<Rightarrow> coins \<Rightarrow> coins \<Rightarrow> fault \<Rightarrow> 'a result" where
  \<comment> \<open>the loop over the coins after a transfer that failed for lack of funds\<close>
  "first_short E have cs err =
     bnd (foldR (\<lambda>c _. bnd (CoinsSafeSub (he_coins E) have [c]) (\<lambda>(_, isNegative).
       if isNegative then Inl (Err ''ErrBorrowExceedsAvailableBalance'') else Inr ())) cs ()) (\<lambda>_. Inl err)"

definition deposit_funds :: "('b, 'h) hard_env \<Rightarrow> ('b, 'h) hard_state \<Rightarrow> address \<Rightarrow> coins \<Rightarrow> ('b, 'h) hard_state result" where
  "deposit_funds E st depositor cs =
     (case SendCoinsFromAccountToModule (he_sdk E) (hs_bank st) depositor hard_module cs of
        Inr b \<Rightarrow> Inr (hs_set_bank b st)
      | Inl (Panic e) \<Rightarrow> Inl (Panic e)
      | Inl (Err e) \<Rightarrow>
          if e = ''ErrInsufficientFunds'' then
            if \<not> HasAccount (he_sdk E) (hs_bank st) depositor then Inl (Panic ''nil pointer dereference'')
            else first_short E (SpendableCoins (he_sdk E) (hs_bank st) depositor) cs (Err e)
          else Inl (Err e))"

definition with_factors :: "(denom \<Rightarrow> dec option) \<Rightarrow> coins \<Rightarrow> interest_factor list \<Rightarrow> interest_factor list" where
  \<comment> \<open>the factors of the coins set to the global ones\<close>
  "with_factors factor cs index =
     fold (\<lambda>c index. case factor (Denom c) of None \<Rightarrow> index | Some v \<Rightarrow> SetInterestFactor_of index (Denom c) v) cs index"

definition before_deposit :: "('b, 'h) hard_env \<Rightarrow> address \<Rightarrow> ('b, 'h) hard_state \<Rightarrow> ('b, 'h) hard_state result" where
  "before_deposit E a st = (case hard_GetDeposit st a of None \<Rightarrow> Inr st | Some d \<Rightarrow> hard_BeforeDepositModified E st d)"

definition before_borrow :: "('b, 'h) hard_env \<Rightarrow> address \<Rightarrow> ('b, 'h) hard_state \<Rightarrow> ('b, 'h) hard_state result" where
  "before_borrow E a st = (case hard_GetBorrow st a of None \<Rightarrow> Inr st | Some b \<Rightarrow> hard_BeforeBorrowModified E st b)"

definition store_deposit :: "('b, 'h) hard_state \<Rightarrow> hard_deposit \<Rightarrow> ('b, 'h) hard_state" where
  "store_deposit st d = (if hd_Amount d = [] then hard_DeleteDeposit st d else hard_SetDeposit st d)"

definition store_borrow :: "('b, 'h) hard_state \<Rightarrow> hard_borrow \<Rightarrow> ('b, 'h) hard_state" where
  "store_borrow st b = (if hb_Amount b = [] then hard_DeleteBorrow st b else hard_SetBorrow st b)"

definition add_to_deposit :: "('b, 'h) hard_env \<Rightarrow> ('b, 'h) hard_state \<Rightarrow> address \<Rightarrow> coins \<Rightarrow> ('b, 'h) hard_state result" where
  \<comment> \<open>the second half of \<open>Deposit\<close>, after the transfer\<close>
  "add_to_deposit E st depositor cs =
     (let (found, currAmount, currIndex) = (case hard_GetDeposit st depositor of
            None \<Rightarrow> (False, [], []) | Some d \<Rightarrow> (True, hd_Amount d, hd_Index d));
          interestFactors = with_factors (GetSupplyInterestFactor st) cs currIndex
      in
      bnd (if found then CoinsAdd (he_sdk E) currAmount cs else Inr cs) (\<lambda>amount.
      let deposit = \<lparr>hd_Depositor = depositor, hd_Amount = amount, hd_Index = interestFactors\<rparr> in
      bnd (IncrementSuppliedCoins E (store_deposit st deposit) cs) (\<lambda>st1.
      if \<not> found then hard_AfterDepositCreated E st1 deposit else hard_AfterDepositModified E st1 deposit)))"

definition hard_Deposit :: "('b, 'h) hard_env \<Rightarrow> ('b, 'h) hard_state \<Rightarrow> address \<Rightarrow> coins \<Rightarrow> ('b, 'h) hard_state result" where
  "hard_Deposit E st depositor cs =
     bnd (before_deposit E depositor (init_supply_factors st cs)) (\<lambda>st1.
     bnd (SyncSupplyInterest E st1 depositor) (\<lambda>st2.
     bnd (hard_ValidateDeposit st2 cs) (\<lambda>_.
     bnd (deposit_funds E st2 depositor cs) (\<lambda>st3.
     add_to_deposit E st3 depositor cs))))"

section \<open>Withdraw\<close>

definition capped_coin :: "sdk_math \<Rightarrow> coins \<Rightarrow> coin \<Rightarrow> coins \<Rightarrow> coins result" where
  "capped_coin m limit c acc =
     bnd (checked_AmountOf m limit (Denom c)) (\<lambda>most.
     if Amount c > most then bnd (NewCoin m (Denom c) most) (\<lambda>c'. Inr (acc @ [c'])) else Inr (acc @ [c]))"

definition hard_CalculateWithdrawAmount :: "('b, 'h) hard_env \<Rightarrow> coins \<Rightarrow> coins \<Rightarrow> coins result" where
  "hard_CalculateWithdrawAmount E available request =
     bnd (DenomsSubsetOf (he_coins E) request available) (\<lambda>sub.
     if \<not> sub then Inl (Err ''ErrInvalidWithdrawDenom'') else foldR (capped_coin (he_math E) available) request [])"

definition drop_withdrawn :: "('b, 'h) hard_env \<Rightarrow> coins \<Rightarrow> coin \<Rightarrow> interest_factor list \<Rightarrow> interest_factor list result" where
  \<comment> \<open>the factor of a denomination that is completely withdrawn\<close>
  "drop_withdrawn E rest c index =
     bnd (NewCoins (he_sdk E) [c]) (\<lambda>one.
     bnd (DenomsSubsetOf (he_coins E) one rest) (\<lambda>sub.
     if \<not> sub then
       (case RemoveInterestFactor_of index (Denom c) of (index', removed) \<Rightarrow>
          if \<not> removed then Inl (Err ''ErrInvalidIndexFactorDenom'') else Inr index')
     else Inr index))"

definition empty_borrow :: hard_borrow where "empty_borrow = \<lparr>hb_Borrower = [], hb_Amount = [], hb_Index = []\<rparr>"
definition empty_deposit :: hard_deposit where "empty_deposit = \<lparr>hd_Depositor = [], hd_Amount = [], hd_Index = []\<rparr>"

definition hard_Withdraw :: "('b, 'h) hard_env \<Rightarrow> ('b, 'h) hard_state \<Rightarrow> address \<Rightarrow> coins \<Rightarrow> ('b, 'h) hard_state result" where
  "hard_Withdraw E st depositor cs =
     (case hard_GetDeposit st depositor of
        None \<Rightarrow> Inl (Err ''ErrDepositNotFound'')
      | Some existingDeposit \<Rightarrow>
          bnd (hard_BeforeDepositModified E st existingDeposit) (\<lambda>st1.
          bnd (before_borrow E depositor st1) (\<lambda>st2.
          bnd (SyncBorrowInterest E st2 depositor) (\<lambda>st3.
          bnd (SyncSupplyInterest E st3 depositor) (\<lambda>st4.
          let deposit = (case hard_GetDeposit st4 depositor of None \<Rightarrow> empty_deposit | Some d \<Rightarrow> d) in
          bnd (hard_CalculateWithdrawAmount E (hd_Amount deposit) cs) (\<lambda>amount.
          let borrow = (case hard_GetBorrow st4 depositor of None \<Rightarrow> empty_borrow | Some b \<Rightarrow> b) in
          bnd (CoinsSub (he_coins E) (hd_Amount deposit) amount) (\<lambda>rest.
          let proposedDeposit = \<lparr>hd_Depositor = hd_Depositor deposit, hd_Amount = rest, hd_Index = []\<rparr> in
          bnd (IsWithinValidLtvRange E st4 proposedDeposit borrow) (\<lambda>valid.
          if \<not> valid then Inl (Err ''ErrInvalidWithdrawAmount'')
          else
            bnd (hs_pay (\<lambda>b. SendCoinsFromModuleToAccount (he_sdk E) b hard_module depositor amount) st4) (\<lambda>st5.
            bnd (foldR (drop_withdrawn E rest) (hd_Amount deposit) (hd_Index deposit)) (\<lambda>index.
            bnd (CoinsSub (he_coins E) (hd_Amount deposit) amount) (\<lambda>left.
            let deposit' = deposit\<lparr>hd_Amount := left, hd_Index := index\<rparr> in
            bnd (DecrementSuppliedCoins E (store_deposit st5 deposit') amount) (\<lambda>st6.
            hard_AfterDepositModified E st6 deposit'))))))))))))"

section \<open>Borrow\<close>

definition FilterCoinsByDenoms :: "coins \<Rightarrow> coins \<Rightarrow> coins" where
  "FilterCoinsByDenoms cs filterByCoins = filter (\<lambda>c. Denom c \<in> set (map Denom filterByCoins)) cs"

definition proposed_value :: "('b, 'h) hard_env \<Rightarrow> ('b, 'h) hard_state \<Rightarrow> coins \<Rightarrow> dec result" where
  \<comment> \<open>the loop over the requested coins in \<open>ValidateBorrow\<close>\<close>
  "proposed_value E st amount =
     foldR (\<lambda>c total.
       bnd (market_price st (Denom c)) (\<lambda>(mm, price).
       bnd (usd_value (he_math E) (Amount c) (mm_ConversionFactor mm) price) (\<lambda>coinUSDValue.
       bnd (if bl_HasMaxLimit (mm_BorrowLimit mm) then
              bnd (case GetBorrowedCoins st of
                     None \<Rightarrow> Inr 0
                   | Some totalBorrowedCoins \<Rightarrow> checked_AmountOf (he_math E) totalBorrowedCoins (Denom c)) (\<lambda>assetTotal.
              bnd (toInt (he_math E) (assetTotal + Amount c)) (\<lambda>newTotal.
              if NewDecFromInt newTotal > bl_MaximumLimit (mm_BorrowLimit mm)
              then Inl (Err ''ErrGreaterThanAssetBorrowLimit'') else Inr ()))
            else Inr ()) (\<lambda>_.
       toDec (he_math E) (total + coinUSDValue))))) amount 0"

definition coins_value :: "('b, 'h) hard_env \<Rightarrow> ('b, 'h) hard_state \<Rightarrow> coins \<Rightarrow> dec result" where
  "coins_value E st cs =
     foldR (\<lambda>c total.
       bnd (market_price st (Denom c)) (\<lambda>(mm, price).
       bnd (usd_value (he_math E) (Amount c) (mm_ConversionFactor mm) price) (\<lambda>v. toDec (he_math E) (total + v)))) cs 0"

definition borrowable_value :: "('b, 'h) hard_env \<Rightarrow> ('b, 'h) hard_state \<Rightarrow> coins \<Rightarrow> dec result" where
  "borrowable_value E st cs =
     foldR (\<lambda>c total.
       bnd (market_price st (Denom c)) (\<lambda>(mm, price).
       bnd (usd_value (he_math E) (Amount c) (mm_ConversionFactor mm) price) (\<lambda>v.
       bnd (DecMul (he_math E) v (bl_LoanToValue (mm_BorrowLimit mm))) (\<lambda>w. toDec (he_math E) (total + w))))) cs 0"

definition check_borrowable :: "('b, 'h) hard_env \<Rightarrow> ('b, 'h) hard_state \<Rightarrow> coins \<Rightarrow> unit result" where
  \<comment> \<open>the reserves are not available to borrowers\<close>
  "check_borrowable E st amount =
     (let hardMaccCoins = FilterCoinsByDenoms
            (GetAllBalances (he_sdk E) (hs_bank st) (ModuleAddress (he_sdk E) hard_module)) amount;
          reserveCoins = (case GetTotalReserves st of None \<Rightarrow> [] | Some r \<Rightarrow> FilterCoinsByDenoms r amount) in
      bnd (CoinsSafeSub (he_coins E) hardMaccCoins reserveCoins) (\<lambda>(fundsAvailableToBorrow, isNegative).
      if isNegative then Inl (Err ''ErrReservesExceedCash'')
      else
        bnd (CoinsIsAnyGT (he_coins E) amount fundsAvailableToBorrow) (\<lambda>gt.
        if gt then Inl (Err ''ErrExceedsProtocolBorrowableBalance'') else Inr ())))"

definition ValidateBorrow :: "('b, 'h) hard_env \<Rightarrow> ('b, 'h) hard_state \<Rightarrow> address \<Rightarrow> coins \<Rightarrow> unit result" where
  "ValidateBorrow E st borrower amount =
     (if coins_IsZero amount then Inl (Err ''ErrBorrowEmptyCoins'')
      else
        bnd (check_borrowable E st amount) (\<lambda>_.
        bnd (proposed_value E st amount) (\<lambda>proposedBorrowUSDValue.
        case hard_GetDeposit st borrower of
          None \<Rightarrow> Inl (Err ''ErrDepositsNotFound'')
        | Some deposit \<Rightarrow>
            bnd (borrowable_value E st (hd_Amount deposit)) (\<lambda>totalBorrowableAmount.
            bnd (case hard_GetBorrow st borrower of None \<Rightarrow> Inr 0 | Some b \<Rightarrow> coins_value E st (hb_Amount b)) (\<lambda>existingBorrowUSDValue.
            bnd (toDec (he_math E) (proposedBorrowUSDValue + existingBorrowUSDValue)) (\<lambda>totalBorrowUSDValue.
            if totalBorrowUSDValue < GetMinimumBorrowUSDValue st then Inl (Err ''ErrBelowMinimumBorrowValue'')
            else
              bnd (toDec (he_math E) (totalBorrowableAmount - existingBorrowUSDValue)) (\<lambda>room.
              if proposedBorrowUSDValue > room then Inl (Err ''ErrInsufficientLoanToValue'') else Inr ())))))))"

definition init_borrow_factors :: "('b, 'h) hard_state \<Rightarrow> coins \<Rightarrow> ('b, 'h) hard_state" where
  "init_borrow_factors st cs =
     fold (\<lambda>c st. if GetBorrowInterestFactor st (Denom c) = None \<and> GetMoneyMarket st (Denom c) \<noteq> None
                  then SetBorrowInterestFactor st (Denom c) OneDec else st) cs st"

definition lend_funds :: "('b, 'h) hard_env \<Rightarrow> ('b, 'h) hard_state \<Rightarrow> address \<Rightarrow> coins \<Rightarrow> ('b, 'h) hard_state result" where
  "lend_funds E st borrower cs =
     (case SendCoinsFromModuleToAccount (he_sdk E) (hs_bank st) hard_module borrower cs of
        Inr b \<Rightarrow> Inr (hs_set_bank b st)
      | Inl (Panic e) \<Rightarrow> Inl (Panic e)
      | Inl (Err e) \<Rightarrow>
          if e = ''ErrInsufficientFunds''
          then first_short E (GetAllBalances (he_sdk E) (hs_bank st) (ModuleAddress (he_sdk E) hard_module)) cs (Err e)
          else Inl (Err e))"

definition add_to_borrow ::
    "('b, 'h) hard_env \<Rightarrow> bool \<Rightarrow> ('b, 'h) hard_state \<Rightarrow> address \<Rightarrow> coins \<Rightarrow> ('b, 'h) hard_state result" where
  \<comment> \<open>the second half of \<open>Borrow\<close>, after the transfer\<close>
  "add_to_borrow E hasExistingBorrow st borrower cs =
     (let (found, currAmount, currIndex) = (case hard_GetBorrow st borrower of
            None \<Rightarrow> (False, [], []) | Some b \<Rightarrow> (True, hb_Amount b, hb_Index b));
          interestFactors = with_factors (GetBorrowInterestFactor st) cs currIndex
      in
      bnd (if found then CoinsAdd (he_sdk E) currAmount cs else Inr cs) (\<lambda>amount.
      let borrow = \<lparr>hb_Borrower = borrower, hb_Amount = amount, hb_Index = interestFactors\<rparr> in
      bnd (IncrementBorrowedCoins E (store_borrow st borrow) cs) (\<lambda>st1.
      if \<not> hasExistingBorrow then hard_AfterBorrowCreated E st1 borrow else hard_AfterBorrowModified E st1 borrow)))"

definition hard_Borrow :: "('b, 'h) hard_env \<Rightarrow> ('b, 'h) hard_state \<Rightarrow> address \<Rightarrow> coins \<Rightarrow> ('b, 'h) hard_state result" where
  "hard_Borrow E st borrower cs =
     (let st0 = init_borrow_factors st cs; hasExistingBorrow = (hard_GetBorrow st0 borrower \<noteq> None) in
      bnd (before_deposit E borrower st0) (\<lambda>st1.
      bnd (before_borrow E borrower st1) (\<lambda>st2.
      bnd (SyncSupplyInterest E st2 borrower) (\<lambda>st3.
      bnd (SyncBorrowInterest E st3 borrower) (\<lambda>st4.
      bnd (ValidateBorrow E st4 borrower cs) (\<lambda>_.
      bnd (lend_funds E st4 borrower cs) (\<lambda>st5.
      add_to_borrow E hasExistingBorrow st5 borrower cs)))))))"

section \<open>Repay\<close>

definition CalculatePaymentAmount :: "('b, 'h) hard_env \<Rightarrow> coins \<Rightarrow> coins \<Rightarrow> coins result" where
  "CalculatePaymentAmount E owed payment =
     bnd (DenomsSubsetOf (he_coins E) payment owed) (\<lambda>sub.
     if \<not> sub then Inl (Err ''ErrInvalidRepaymentDenom'') else foldR (capped_coin (he_math E) owed) payment [])"

definition cached_value ::
    "('b, 'h) hard_env \<Rightarrow> ('b, 'h) hard_state \<Rightarrow> coin \<Rightarrow> (denom \<rightharpoonup> dec) \<times> dec \<Rightarrow> ((denom \<rightharpoonup> dec) \<times> dec) result" where
  \<comment> \<open>the price of a denomination is fetched once and kept in \<open>assetPriceCache\<close>\<close>
  "cached_value E st c acc =
     (case acc of (cache, tot) \<Rightarrow>
        (case GetMoneyMarket st (Denom c) of
          None \<Rightarrow> Inl (Err ''ErrMarketNotFound'')
        | Some mm \<Rightarrow>
            bnd (case cache (Denom c) of
                   Some p \<Rightarrow> Inr (p, cache)
                 | None \<Rightarrow>
                     (case GetCurrentPrice (hs_prices st) (mm_SpotMarketID mm) of
                        Inl (Err e) \<Rightarrow> Inl (Err ''ErrPriceNotFound'')
                      | Inl (Panic e) \<Rightarrow> Inl (Panic e)
                      | Inr cp \<Rightarrow> Inr (cur_Price cp, cache(Denom c \<mapsto> cur_Price cp)))) (\<lambda>(price, cache').
            bnd (usd_value (he_math E) (Amount c) (mm_ConversionFactor mm) price) (\<lambda>v.
            bnd (toDec (he_math E) (tot + v)) (\<lambda>total'. Inr (cache', total'))))))"

definition ValidateRepay :: "('b, 'h) hard_env \<Rightarrow> ('b, 'h) hard_state \<Rightarrow> address \<Rightarrow> address \<Rightarrow> coins \<Rightarrow> unit result" where
  "ValidateRepay E st sender owner cs =
     (let existing = (case hard_GetBorrow st owner of None \<Rightarrow> [] | Some b \<Rightarrow> hb_Amount b) in
      bnd (foldR (cached_value E st) existing (Map.empty, 0)) (\<lambda>(cache, existingBorrowUSDValue).
      let senderCoins = SpendableCoins (he_sdk E) (hs_bank st) sender in
      bnd (foldR (\<lambda>c acc.
             bnd (checked_AmountOf (he_math E) senderCoins (Denom c)) (\<lambda>has.
             if has < Amount c then Inl (Err ''ErrInsufficientBalanceForRepay'') else cached_value E st c acc))
           cs (cache, 0)) (\<lambda>(_, repayTotalUSDValue).
      bnd (toDec (he_math E) (existingBorrowUSDValue - repayTotalUSDValue)) (\<lambda>proposedBorrowNewUSDValue.
      bnd (CoinsIsEqual (he_sdk E) cs existing) (\<lambda>isFullRepayment.
      if proposedBorrowNewUSDValue < GetMinimumBorrowUSDValue st \<and> \<not> isFullRepayment
      then Inl (Err ''ErrBelowMinimumBorrowValue'') else Inr ())))))"

definition drop_repaid :: "('b, 'h) hard_env \<Rightarrow> coins \<Rightarrow> coin \<Rightarrow> interest_factor list \<Rightarrow> interest_factor list result" where
  "drop_repaid E owed c index =
     bnd (checked_AmountOf (he_math E) owed (Denom c)) (\<lambda>amount.
     if Amount c = amount then
       (case RemoveInterestFactor_of index (Denom c) of (index', removed) \<Rightarrow>
          if \<not> removed then Inl (Err ''ErrInvalidIndexFactorDenom'') else Inr index')
     else Inr index)"

definition hard_Repay :: "('b, 'h) hard_env \<Rightarrow> ('b, 'h) hard_state \<Rightarrow> address \<Rightarrow> address \<Rightarrow> coins \<Rightarrow> ('b, 'h) hard_state result" where
  "hard_Repay E st sender owner cs =
     (case hard_GetBorrow st owner of
        None \<Rightarrow> Inl (Err ''ErrBorrowNotFound'')
      | Some existing \<Rightarrow>
          bnd (hard_BeforeBorrowModified E st existing) (\<lambda>st1.
          bnd (SyncBorrowInterest E st1 owner) (\<lambda>st2.
          let borrow = (case hard_GetBorrow st2 owner of None \<Rightarrow> empty_borrow | Some b \<Rightarrow> b) in
          bnd (CalculatePaymentAmount E (hb_Amount borrow) cs) (\<lambda>payment.
          bnd (ValidateRepay E st2 sender owner payment) (\<lambda>_.
          bnd (hs_pay (\<lambda>b. SendCoinsFromAccountToModule (he_sdk E) b sender hard_module payment) st2) (\<lambda>st3.
          bnd (foldR (drop_repaid E (hb_Amount borrow)) payment (hb_Index borrow)) (\<lambda>index.
          bnd (CoinsSub (he_coins E) (hb_Amount borrow) payment) (\<lambda>amount.
          let borrow' = borrow\<lparr>hb_Amount := amount, hb_Index := index\<rparr> in
          bnd (DecrementBorrowedCoins E (store_borrow st3 borrow') payment) (\<lambda>st4.
          hard_AfterBorrowModified E st4 borrow')))))))))"

end
