(* ===== verification/Hard_Liquidation.thy ===== *)
theory Hard_Liquidation
  imports Hard_Keeper
begin

text \<open>
  Liquidation in \<open>x/hard\<close> (\<open>keeper/liquidation.go\<close>): a position outside its loan-to-value range loses its deposit, part of
  it to the keeper who reported it and the rest to collateral auctions of \<open>x/auction\<close>. Then the messages
  (\<open>types/msg.go\<close>, \<open>keeper/msg_server.go\<close>) and genesis (\<open>genesis.go\<close>, \<open>types/genesis.go\<close>).
\<close>

section \<open>Loan-to-value\<close>

definition valuations :: "sdk_math \<Rightarrow> (denom \<rightharpoonup> LiqData) \<Rightarrow> coins \<Rightarrow> ValuationMap result" where
  "valuations m liqMap cs =
     foldR (\<lambda>c vm. bnd (liq_value m liqMap c) (\<lambda>v. valuation_Increment m vm (Denom c) v)) cs []"

definition CalculateLtv :: "('b, 'h) hard_env \<Rightarrow> ('b, 'h) hard_state \<Rightarrow> hard_deposit \<Rightarrow> hard_borrow \<Rightarrow> dec result" where
  "CalculateLtv E st deposit borrow =
     (case LoadLiquidationData st deposit borrow of
        Inl (Err e) \<Rightarrow> Inr 0
      | Inl (Panic e) \<Rightarrow> Inl (Panic e)
      | Inr liqMap \<Rightarrow>
          bnd (valuations (he_math E) liqMap (hd_Amount deposit)) (\<lambda>depositCoinValues.
          bnd (valuations (he_math E) liqMap (hb_Amount borrow)) (\<lambda>borrowCoinValues.
          bnd (valuation_Sum (he_math E) depositCoinValues) (\<lambda>sumDeposits.
          if sumDeposits = 0 then Inr 0
          else bnd (valuation_Sum (he_math E) borrowCoinValues) (\<lambda>sumBorrows. DecQuo (he_math E) sumBorrows sumDeposits)))))"

definition GetStoreLTV :: "('b, 'h) hard_env \<Rightarrow> ('b, 'h) hard_state \<Rightarrow> address \<Rightarrow> dec result" where
  "GetStoreLTV E st addr =
     (case hard_GetDeposit st addr of
        None \<Rightarrow> Inr 0
      | Some deposit \<Rightarrow>
          (case hard_GetBorrow st addr of None \<Rightarrow> Inr 0 | Some borrow \<Rightarrow> CalculateLtv E st deposit borrow))"

section \<open>Auctions\<close>

text \<open>The variables of \<open>StartAuctions\<close>; \<open>lv_maxLotSize\<close> belongs to the inner loop, \<open>lv_debt\<close> is a constant.\<close>

record ('b, 'h) liq_vars =
  lv_state :: "('b, 'h) hard_state"
  lv_borrows :: coins
  lv_deposits :: coins
  lv_dValues :: ValuationMap
  lv_bValues :: ValuationMap
  lv_liquidated :: coins
  lv_maxLotSize :: dec
  lv_debt :: coin

definition sell_lot ::
    "('b, 'h) hard_env \<Rightarrow> address \<Rightarrow> coins \<Rightarrow> ('b, 'h) liq_vars \<Rightarrow> coin \<Rightarrow> coin \<Rightarrow> (('b, 'h) liq_vars \<times> bool) result" where
  \<comment> \<open>both branches: cap the lot by what the module account holds, start the auction and book it; \<open>insufficientLotFunds\<close> is returned\<close>
  "sell_lot E borrower maccCoins v bid lot0 =
     bnd (checked_AmountOf (he_math E) maccCoins (Denom lot0)) (\<lambda>have.
     let insufficientLotFunds = (Amount lot0 > have) in
     bnd (if insufficientLotFunds then NewCoin (he_math E) (Denom lot0) have else Inr lot0) (\<lambda>lot.
     bnd (checked_AmountOf (he_math E) (lv_deposits v) (Denom lot)) (\<lambda>left.
     if left < Amount lot then Inl (Err ''ErrInsufficientCoins'')
     else
       bnd (StartCollateralAuction (he_sdk E) (hs_auction (lv_state v)) hard_module lot bid [borrower] [100] (lv_debt v)) (\<lambda>(auctions, _).
       bnd (DecrementSuppliedCoins E ((lv_state v)\<lparr>hs_auction := auctions\<rparr>) [lot]) (\<lambda>st1.
       bnd (DecrementBorrowedCoins E st1 [bid]) (\<lambda>st2.
       bnd (CoinsAdd (he_sdk E) (lv_liquidated v) [lot]) (\<lambda>liquidated.
       bnd (CoinsSub (he_coins E) (lv_borrows v) [bid]) (\<lambda>borrows'.
       bnd (if insufficientLotFunds then NewCoin (he_math E) (Denom lot) left else Inr lot) (\<lambda>gone.
       bnd (CoinsSub (he_coins E) (lv_deposits v) [gone]) (\<lambda>deposits'.
       Inr (v\<lparr>lv_state := st2, lv_borrows := borrows', lv_deposits := deposits', lv_liquidated := liquidated\<rparr>,
            insufficientLotFunds)))))))))))"

definition sell_whole ::
    "('b, 'h) hard_env \<Rightarrow> address \<Rightarrow> coins \<Rightarrow> (denom \<rightharpoonup> LiqData) \<Rightarrow> denom \<Rightarrow> denom \<Rightarrow> ('b, 'h) liq_vars \<Rightarrow> ('b, 'h) liq_vars result" where
  \<comment> \<open>an auction for the whole borrow amount\<close>
  "sell_whole E borrower maccCoins liqMap bKey dKey v =
     bnd (checked_AmountOf (he_math E) (lv_borrows v) bKey) (\<lambda>owed.
     bnd (NewCoin (he_math E) bKey owed) (\<lambda>bid.
     bnd (liq_data liqMap dKey) (\<lambda>l.
     bnd (toDec (he_math E) (lv_maxLotSize v * lq_conversionFactor l)) (\<lambda>p.
     bnd (DecQuo (he_math E) p (lq_price l)) (\<lambda>lotSize.
     bnd (DecTruncateInt (he_math E) lotSize) (\<lambda>n.
     if n = 0 then Inr v
     else
       bnd (NewCoin (he_math E) dKey n) (\<lambda>lot.
       bnd (sell_lot E borrower maccCoins v bid lot) (\<lambda>(v1, _).
       bnd (valuation_Decrement (he_math E) (lv_dValues v1) dKey (lv_maxLotSize v)) (\<lambda>dValues.
       Inr (v1\<lparr>lv_bValues := valuation_SetZero (lv_bValues v1) bKey, lv_dValues := dValues, lv_maxLotSize := 0\<rparr>))))))))))"

definition sell_part ::
    "('b, 'h) hard_env \<Rightarrow> address \<Rightarrow> coins \<Rightarrow> (denom \<rightharpoonup> LiqData) \<Rightarrow> dec \<Rightarrow> denom \<Rightarrow> denom \<Rightarrow> dec \<Rightarrow> ('b, 'h) liq_vars \<Rightarrow> ('b, 'h) liq_vars result" where
  \<comment> \<open>an auction of the whole deposit for part of the borrow amount\<close>
  "sell_part E borrower maccCoins liqMap ltv bKey dKey dValue v =
     bnd (DecMul (he_math E) dValue ltv) (\<lambda>maxBid.
     bnd (liq_data liqMap bKey) (\<lambda>l.
     bnd (toDec (he_math E) (maxBid * lq_conversionFactor l)) (\<lambda>p.
     bnd (DecQuo (he_math E) p (lq_price l)) (\<lambda>bidSize.
     bnd (DecTruncateInt (he_math E) bidSize) (\<lambda>n.
     bnd (NewCoin (he_math E) bKey n) (\<lambda>bid.
     bnd (checked_AmountOf (he_math E) (lv_deposits v) dKey) (\<lambda>left.
     bnd (NewCoin (he_math E) dKey left) (\<lambda>lot.
     if Amount bid = 0 \<or> Amount lot = 0 then Inr v
     else
       bnd (sell_lot E borrower maccCoins v bid lot) (\<lambda>(v1, _).
       bnd (valuation_Decrement (he_math E) (lv_bValues v1) bKey maxBid) (\<lambda>bValues.
       bnd (valuation_Get bValues bKey) (\<lambda>bValue.
       bnd (DecQuo (he_math E) bValue ltv) (\<lambda>maxLotSize.
       Inr (v1\<lparr>lv_bValues := bValues, lv_dValues := valuation_SetZero (lv_dValues v1) dKey, lv_maxLotSize := maxLotSize\<rparr>)))))))))))))"

fun sell_deposits ::
    "('b, 'h) hard_env \<Rightarrow> address \<Rightarrow> coins \<Rightarrow> (denom \<rightharpoonup> LiqData) \<Rightarrow> dec \<Rightarrow> denom \<Rightarrow> denom list \<Rightarrow> ('b, 'h) liq_vars \<Rightarrow> ('b, 'h) liq_vars result" where
  "sell_deposits E borrower maccCoins liqMap ltv bKey [] v = Inr v"
| "sell_deposits E borrower maccCoins liqMap ltv bKey (dKey # dKeys) v =
     bnd (valuation_Get (lv_dValues v) dKey) (\<lambda>dValue.
     if lv_maxLotSize v = 0 then Inr v
     else
       bnd (if dValue \<ge> lv_maxLotSize v then sell_whole E borrower maccCoins liqMap bKey dKey v
            else sell_part E borrower maccCoins liqMap ltv bKey dKey dValue v) (\<lambda>v1.
       sell_deposits E borrower maccCoins liqMap ltv bKey dKeys v1))"

definition sell_for ::
    "('b, 'h) hard_env \<Rightarrow> address \<Rightarrow> coins \<Rightarrow> (denom \<rightharpoonup> LiqData) \<Rightarrow> dec \<Rightarrow> denom list \<Rightarrow> denom \<Rightarrow> ('b, 'h) liq_vars \<Rightarrow> ('b, 'h) liq_vars result" where
  "sell_for E borrower maccCoins liqMap ltv dKeys bKey v =
     bnd (valuation_Get (lv_bValues v) bKey) (\<lambda>bValue.
     bnd (DecQuo (he_math E) bValue ltv) (\<lambda>maxLotSize.
     sell_deposits E borrower maccCoins liqMap ltv bKey dKeys (v\<lparr>lv_maxLotSize := maxLotSize\<rparr>)))"

definition return_rest ::
    "('b, 'h) hard_env \<Rightarrow> address \<Rightarrow> coins \<Rightarrow> denom \<Rightarrow> ('b, 'h) hard_state \<Rightarrow> ('b, 'h) hard_state result" where
  "return_rest E borrower deposits dKey st =
     bnd (checked_AmountOf (he_math E) deposits dKey) (\<lambda>remaining.
     if remaining > 0 then
       bnd (NewCoin (he_math E) dKey remaining) (\<lambda>c.
       bnd (NewCoins (he_sdk E) [c]) (\<lambda>returnCoin.
       hs_pay (\<lambda>b. SendCoinsFromModuleToAccount (he_sdk E) b hard_module borrower returnCoin) st))
     else Inr st)"

definition StartAuctions ::
    "('b, 'h) hard_env \<Rightarrow> ('b, 'h) hard_state \<Rightarrow> address \<Rightarrow> coins \<Rightarrow> coins \<Rightarrow> ValuationMap \<Rightarrow> ValuationMap \<Rightarrow> dec \<Rightarrow>
       (denom \<rightharpoonup> LiqData) \<Rightarrow> (('b, 'h) hard_state \<times> coins) result" where
  "StartAuctions E st borrower borrows deposits depositCoinValues borrowCoinValues ltv liqMap =
     (let bKeys = valuation_GetSortedKeys borrowCoinValues;
          dKeys = valuation_GetSortedKeys depositCoinValues;
          maccCoins = SpendableCoins (he_sdk E) (hs_bank st) (ModuleAddress (he_sdk E) hard_module)
      in
      bnd (NewCoin (he_math E) ''debt'' 0) (\<lambda>debt.
      bnd (foldR (sell_for E borrower maccCoins liqMap ltv dKeys) bKeys
             \<lparr>lv_state = st, lv_borrows = borrows, lv_deposits = deposits, lv_dValues = depositCoinValues,
              lv_bValues = borrowCoinValues, lv_liquidated = [], lv_maxLotSize = 0, lv_debt = debt\<rparr>) (\<lambda>v.
      bnd (foldR (return_rest E borrower (lv_deposits v)) dKeys (lv_state v)) (\<lambda>st'.
      Inr (st', lv_liquidated v)))))"

section \<open>Seizing a position\<close>

definition keeper_reward :: "('b, 'h) hard_env \<Rightarrow> ('b, 'h) hard_state \<Rightarrow> coin \<Rightarrow> coins \<Rightarrow> coins result" where
  "keeper_reward E st depCoin rewards =
     (case GetMoneyMarket st (Denom depCoin) of
        None \<Rightarrow> Inl (Panic ''nil pointer dereference'')
      | Some mm \<Rightarrow>
          bnd (toDec (he_math E) (mm_KeeperRewardPercentage mm * Amount depCoin)) (\<lambda>p.
          bnd (DecTruncateInt (he_math E) p) (\<lambda>keeperReward.
          if keeperReward > 0
          then bnd (NewCoin (he_math E) (Denom depCoin) keeperReward) (\<lambda>keeperCoin. Inr (rewards @ [keeperCoin]))
          else Inr rewards)))"

definition pay_keeper :: "('b, 'h) hard_env \<Rightarrow> ('b, 'h) hard_state \<Rightarrow> address \<Rightarrow> coins \<Rightarrow> ('b, 'h) hard_state result" where
  "pay_keeper E st keeper keeperRewardCoins =
     (if keeperRewardCoins \<noteq> [] then
        bnd (DecrementSuppliedCoins E st keeperRewardCoins) (\<lambda>st1.
        hs_pay (\<lambda>b. SendCoinsFromModuleToAccount (he_sdk E) b hard_module keeper keeperRewardCoins) st1)
      else Inr st)"

text \<open>The two lists of denominations that the caller passes on are not used.\<close>

definition SeizeDeposits ::
    "('b, 'h) hard_env \<Rightarrow> ('b, 'h) hard_state \<Rightarrow> address \<Rightarrow> hard_deposit \<Rightarrow> hard_borrow \<Rightarrow> ('b, 'h) hard_state result" where
  "SeizeDeposits E st keeper deposit borrow =
     bnd (LoadLiquidationData st deposit borrow) (\<lambda>liqMap.
     bnd (foldR (keeper_reward E st) (hd_Amount deposit) []) (\<lambda>keeperRewardCoins.
     bnd (pay_keeper E st keeper keeperRewardCoins) (\<lambda>st1.
     bnd (CoinsSub (he_coins E) (hd_Amount deposit) keeperRewardCoins) (\<lambda>aucDeposits.
     bnd (valuations (he_math E) liqMap aucDeposits) (\<lambda>depositCoinValues.
     bnd (valuations (he_math E) liqMap (hb_Amount borrow)) (\<lambda>borrowCoinValues.
     bnd (valuation_Sum (he_math E) depositCoinValues) (\<lambda>depositUsdValue.
     if depositUsdValue = 0 then Inr st1
     else
       bnd (valuation_Sum (he_math E) borrowCoinValues) (\<lambda>borrowUsdValue.
       bnd (DecQuo (he_math E) borrowUsdValue depositUsdValue) (\<lambda>ltv.
       bnd (StartAuctions E st1 (hd_Depositor deposit) (hb_Amount borrow) aucDeposits depositCoinValues borrowCoinValues ltv liqMap) (\<lambda>(st2, _).
       Inr st2))))))))))"

definition hard_AttemptKeeperLiquidation ::
    "('b, 'h) hard_env \<Rightarrow> ('b, 'h) hard_state \<Rightarrow> address \<Rightarrow> address \<Rightarrow> ('b, 'h) hard_state result" where
  "hard_AttemptKeeperLiquidation E st keeper borrower =
     (case (hard_GetDeposit st borrower, hard_GetBorrow st borrower) of
        (None, _) \<Rightarrow> Inl (Err ''ErrDepositNotFound'')
      | (Some deposit0, None) \<Rightarrow> Inl (Err ''ErrBorrowNotFound'')
      | (Some deposit0, Some borrow0) \<Rightarrow>
          bnd (hard_BeforeDepositModified E st deposit0) (\<lambda>st1.
          bnd (hard_BeforeBorrowModified E st1 borrow0) (\<lambda>st2.
          bnd (SyncBorrowInterest E st2 borrower) (\<lambda>st3.
          bnd (SyncSupplyInterest E st3 borrower) (\<lambda>st4.
          case (hard_GetDeposit st4 borrower, hard_GetBorrow st4 borrower) of
            (None, _) \<Rightarrow> Inl (Err ''ErrDepositNotFound'')
          | (Some deposit, None) \<Rightarrow> Inl (Err ''ErrBorrowNotFound'')
          | (Some deposit, Some borrow) \<Rightarrow>
              bnd (IsWithinValidLtvRange E st4 deposit borrow) (\<lambda>isWithinRange.
              if isWithinRange then Inl (Err ''ErrBorrowNotLiquidatable'')
              else
                bnd (SeizeDeposits E st4 keeper deposit borrow) (\<lambda>st5.
                let deposit' = deposit\<lparr>hd_Amount := []\<rparr> in
                bnd (hard_AfterDepositModified E (hard_DeleteDeposit st5 deposit') deposit') (\<lambda>st6.
                let borrow' = borrow\<lparr>hb_Amount := []\<rparr> in
                hard_AfterBorrowModified E (hard_DeleteBorrow st6 borrow') borrow'))))))))"

section \<open>Messages\<close>

datatype hard_msg =
    HardMsgDeposit string coins
  | HardMsgWithdraw string coins
  | HardMsgBorrow string coins
  | HardMsgRepay string string coins
  | HardMsgLiquidate string string

definition hard_address :: "(string \<Rightarrow> address result) \<Rightarrow> string \<Rightarrow> unit result" where
  "hard_address bech a =
     (case bech a of Inl (Err e) \<Rightarrow> Inl (Err ''ErrInvalidAddress'') | Inl (Panic e) \<Rightarrow> Inl (Panic e) | Inr _ \<Rightarrow> Inr ())"

definition hard_amount :: "sdk_math \<Rightarrow> coins \<Rightarrow> unit result" where
  "hard_amount m amount = (if \<not> coins_Valid m amount \<or> coins_IsZero amount then Inl (Err ''ErrInvalidCoins'') else Inr ())"

fun hard_ValidateBasic :: "sdk_math \<Rightarrow> (string \<Rightarrow> address result) \<Rightarrow> hard_msg \<Rightarrow> unit result" where
  "hard_ValidateBasic m bech (HardMsgDeposit depositor amount) = bnd (hard_address bech depositor) (\<lambda>_. hard_amount m amount)"
| "hard_ValidateBasic m bech (HardMsgWithdraw depositor amount) = bnd (hard_address bech depositor) (\<lambda>_. hard_amount m amount)"
| "hard_ValidateBasic m bech (HardMsgBorrow borrower amount) = bnd (hard_address bech borrower) (\<lambda>_. hard_amount m amount)"
| "hard_ValidateBasic m bech (HardMsgRepay sender owner amount) =
     bnd (hard_address bech sender) (\<lambda>_. bnd (hard_address bech owner) (\<lambda>_. hard_amount m amount))"
| "hard_ValidateBasic m bech (HardMsgLiquidate keeper borrower) =
     bnd (hard_address bech keeper) (\<lambda>_. hard_address bech borrower)"

definition hard_msg_Deposit ::
    "('b, 'h) hard_env \<Rightarrow> (string \<Rightarrow> address result) \<Rightarrow> ('b, 'h) hard_state \<Rightarrow> string \<Rightarrow> coins \<Rightarrow> ('b, 'h) hard_state result" where
  "hard_msg_Deposit E bech st depositor amount = bnd (bech depositor) (\<lambda>a. hard_Deposit E st a amount)"

definition hard_msg_Withdraw ::
    "('b, 'h) hard_env \<Rightarrow> (string \<Rightarrow> address result) \<Rightarrow> ('b, 'h) hard_state \<Rightarrow> string \<Rightarrow> coins \<Rightarrow> ('b, 'h) hard_state result" where
  "hard_msg_Withdraw E bech st depositor amount = bnd (bech depositor) (\<lambda>a. hard_Withdraw E st a amount)"

definition hard_msg_Borrow ::
    "('b, 'h) hard_env \<Rightarrow> (string \<Rightarrow> address result) \<Rightarrow> ('b, 'h) hard_state \<Rightarrow> string \<Rightarrow> coins \<Rightarrow> ('b, 'h) hard_state result" where
  "hard_msg_Borrow E bech st borrower amount = bnd (bech borrower) (\<lambda>a. hard_Borrow E st a amount)"

definition hard_msg_Repay ::
    "('b, 'h) hard_env \<Rightarrow> (string \<Rightarrow> address result) \<Rightarrow> ('b, 'h) hard_state \<Rightarrow> string \<Rightarrow> string \<Rightarrow> coins \<Rightarrow> ('b, 'h) hard_state result" where
  "hard_msg_Repay E bech st sender owner amount =
     bnd (bech sender) (\<lambda>s. bnd (bech owner) (\<lambda>o'. hard_Repay E st s o' amount))"

definition hard_msg_Liquidate ::
    "('b, 'h) hard_env \<Rightarrow> (string \<Rightarrow> address result) \<Rightarrow> ('b, 'h) hard_state \<Rightarrow> string \<Rightarrow> string \<Rightarrow> ('b, 'h) hard_state result" where
  "hard_msg_Liquidate E bech st keeper borrower =
     bnd (bech keeper) (\<lambda>k. bnd (bech borrower) (\<lambda>b. hard_AttemptKeeperLiquidation E st k b))"

fun hard_serve ::
    "('b, 'h) hard_env \<Rightarrow> (string \<Rightarrow> address result) \<Rightarrow> ('b, 'h) hard_state \<Rightarrow> hard_msg \<Rightarrow> ('b, 'h) hard_state result" where
  "hard_serve E bech st (HardMsgDeposit depositor amount) = hard_msg_Deposit E bech st depositor amount"
| "hard_serve E bech st (HardMsgWithdraw depositor amount) = hard_msg_Withdraw E bech st depositor amount"
| "hard_serve E bech st (HardMsgBorrow borrower amount) = hard_msg_Borrow E bech st borrower amount"
| "hard_serve E bech st (HardMsgRepay sender owner amount) = hard_msg_Repay E bech st sender owner amount"
| "hard_serve E bech st (HardMsgLiquidate keeper borrower) = hard_msg_Liquidate E bech st keeper borrower"

definition hard_handle ::
    "('b, 'h) hard_env \<Rightarrow> (string \<Rightarrow> address result) \<Rightarrow> ('b, 'h) hard_state \<Rightarrow> hard_msg \<Rightarrow> ('b, 'h) hard_state result" where
  \<comment> \<open>a message is checked by \<open>ValidateBasic\<close> before it reaches the message server\<close>
  "hard_handle E bech st msg = bnd (hard_ValidateBasic (he_math E) bech msg) (\<lambda>_. hard_serve E bech st msg)"

section \<open>Genesis\<close>

record hard_accumulation =
  ha_CollateralType :: denom
  ha_PreviousAccumulationTime :: time
  ha_SupplyInterestFactor :: dec
  ha_BorrowInterestFactor :: dec

record hard_genesis =
  hg_Params :: hard_Params
  hg_PreviousAccumulationTimes :: "hard_accumulation list"
  hg_Deposits :: "hard_deposit list"
  hg_Borrows :: "hard_borrow list"
  hg_TotalSupplied :: coins
  hg_TotalBorrowed :: coins
  hg_TotalReserves :: coins

definition hard_accumulation_Validate :: "hard_accumulation \<Rightarrow> unit result" where
  "hard_accumulation_Validate gat =
     (if ha_SupplyInterestFactor gat < OneDec then Inl (Err ''supply interest factor should be at least 1.0'')
      else if ha_BorrowInterestFactor gat < OneDec then Inl (Err ''borrow interest factor should be at least 1.0'')
      else Inr ())"

definition hard_accumulations_Validate :: "hard_accumulation list \<Rightarrow> unit result" where
  "hard_accumulations_Validate gats = foldR (\<lambda>gat _. hard_accumulation_Validate gat) gats ()"

definition hard_genesis_Validate :: "sdk_math \<Rightarrow> hard_genesis \<Rightarrow> unit result" where
  "hard_genesis_Validate m gs =
     bnd (hard_Params_Validate m (hg_Params gs)) (\<lambda>_.
     bnd (hard_accumulations_Validate (hg_PreviousAccumulationTimes gs)) (\<lambda>_.
     bnd (check_hard_deposits m [] (hg_Deposits gs)) (\<lambda>_.
     bnd (check_hard_borrows m [] (hg_Borrows gs)) (\<lambda>_.
     if \<not> coins_Valid m (hg_TotalSupplied gs) then Inl (Err ''invalid total supplied coins'')
     else if \<not> coins_Valid m (hg_TotalBorrowed gs) then Inl (Err ''invalid total borrowed coins'')
     else if \<not> coins_Valid m (hg_TotalReserves gs) then Inl (Err ''invalid total reserves coins'')
     else Inr ()))))"

definition load_accumulation :: "hard_accumulation \<Rightarrow> ('b, 'h) hard_state \<Rightarrow> ('b, 'h) hard_state" where
  "load_accumulation gat st =
     SetBorrowInterestFactor
       (SetSupplyInterestFactor
         (hard_SetPreviousAccrualTime st (ha_CollateralType gat) (ha_PreviousAccumulationTime gat))
         (ha_CollateralType gat) (ha_SupplyInterestFactor gat))
       (ha_CollateralType gat) (ha_BorrowInterestFactor gat)"

definition hard_InitGenesis :: "('b, 'h) hard_env \<Rightarrow> ('b, 'h) hard_state \<Rightarrow> hard_genesis \<Rightarrow> ('b, 'h) hard_state result" where
  "hard_InitGenesis E st gs =
     bnd (panic_on_err (hard_genesis_Validate (he_math E) gs)) (\<lambda>_.
     bnd (hard_SetParams (he_math E) st (hg_Params gs)) (\<lambda>st1.
     let st2 = fold (\<lambda>mm st. SetMoneyMarket st (mm_Denom mm) mm) (hp_MoneyMarkets (hg_Params gs)) st1;
         st3 = fold load_accumulation (hg_PreviousAccumulationTimes gs) st2;
         st4 = fold (\<lambda>d st. hard_SetDeposit st d) (hg_Deposits gs) st3;
         st5 = fold (\<lambda>b st. hard_SetBorrow st b) (hg_Borrows gs) st4;
         st6 = SetTotalReserves (SetBorrowedCoins (SetSuppliedCoins st5 (hg_TotalSupplied gs)) (hg_TotalBorrowed gs)) (hg_TotalReserves gs)
     in
     if \<not> HasModuleAccount (he_sdk E) (hs_bank st6) hard_module
     then Inl (Panic ''module account has not been set'') else Inr st6))"

definition export_deposit ::
    "('b, 'h) hard_env \<Rightarrow> hard_deposit \<Rightarrow> ('b, 'h) hard_state \<times> hard_deposit list \<Rightarrow> (('b, 'h) hard_state \<times> hard_deposit list) result" where
  "export_deposit E d acc =
     (case acc of (st, deposits) \<Rightarrow>
        bnd (hard_BeforeDepositModified E st d) (\<lambda>st1.
        bnd (GetSyncedDeposit E st1 (hd_Depositor d)) (\<lambda>synced.
        case synced of None \<Rightarrow> Inl (Panic ''syncable deposit not found'') | Some d' \<Rightarrow> Inr (st1, deposits @ [d']))))"

definition export_borrow ::
    "('b, 'h) hard_env \<Rightarrow> hard_borrow \<Rightarrow> ('b, 'h) hard_state \<times> hard_borrow list \<Rightarrow> (('b, 'h) hard_state \<times> hard_borrow list) result" where
  "export_borrow E b acc =
     (case acc of (st, borrows) \<Rightarrow>
        bnd (hard_BeforeBorrowModified E st b) (\<lambda>st1.
        bnd (GetSyncedBorrow E st1 (hb_Borrower b)) (\<lambda>synced.
        case synced of None \<Rightarrow> Inl (Panic ''syncable borrow not found'') | Some b' \<Rightarrow> Inr (st1, borrows @ [b']))))"

definition export_market :: "('b, 'h) hard_state \<Rightarrow> MoneyMarket \<Rightarrow> hard_accumulation list \<Rightarrow> hard_accumulation list result" where
  "export_market st mm gats =
     (case hard_GetPreviousAccrualTime st (mm_Denom mm) of
        None \<Rightarrow> Inl (Panic ''expected previous accrual time to be set in state'')
      | Some t \<Rightarrow>
          Inr (gats @ [\<lparr>ha_CollateralType = mm_Denom mm, ha_PreviousAccumulationTime = t,
             ha_SupplyInterestFactor = (case GetSupplyInterestFactor st (mm_Denom mm) of None \<Rightarrow> OneDec | Some f \<Rightarrow> f),
             ha_BorrowInterestFactor = (case GetBorrowInterestFactor st (mm_Denom mm) of None \<Rightarrow> OneDec | Some f \<Rightarrow> f)\<rparr>]))"

definition hard_ExportGenesis :: "('b, 'h) hard_env \<Rightarrow> ('b, 'h) hard_state \<Rightarrow> hard_genesis result" where
  "hard_ExportGenesis E st =
     bnd (foldR (export_deposit E) (hard_deposits st) (st, [])) (\<lambda>(st1, deposits).
     bnd (foldR (export_borrow E) (hard_borrows st1) (st1, [])) (\<lambda>(st2, borrows).
     bnd (foldR (export_market st2) (hp_MoneyMarkets (hs_params st2)) []) (\<lambda>gats.
     Inr \<lparr>hg_Params = hs_params st, hg_PreviousAccumulationTimes = gats, hg_Deposits = deposits, hg_Borrows = borrows,
          hg_TotalSupplied = hs_supplied st2, hg_TotalBorrowed = hs_borrowed st2, hg_TotalReserves = hs_reserves st2\<rparr>)))"

end
