(* ===== verification/Hard_Safety.thy ===== *)
theory Hard_Safety
  imports Hard_Liquidation
begin

text \<open>
  The books of \<open>x/hard\<close>: well-formed records and totals, what bringing a position up to date does, and what each
  operation does to the records, the totals and the bank.
\<close>

section \<open>Well-formed states\<close>

definition hard_laws :: "('b, 'h) hard_env \<Rightarrow> bool" where
  "hard_laws E \<longleftrightarrow> sdk_laws (he_sdk E) \<and> coins_add_loose_law (he_sdk E) \<and> coin_ops_laws (he_math E) (he_coins E)"

lemma hard_lawsD:
  assumes "hard_laws E"
  shows "sdk_laws (he_sdk E)" "coins_add_loose_law (he_sdk E)" "coin_ops_laws (he_math E) (he_coins E)"
    "math_laws (he_math E)"
  using assms sdk_lawsD(1) by (auto simp: hard_laws_def)

definition hard_wf :: "sdk_math \<Rightarrow> ('b, 'h) hard_state \<Rightarrow> bool" where
  "hard_wf m st \<longleftrightarrow>
     (\<forall>a r. hard_GetDeposit st a = Some r \<longrightarrow> hd_Depositor r = a \<and> coins_Valid m (hd_Amount r)) \<and>
     (\<forall>a r. hard_GetBorrow st a = Some r \<longrightarrow> hb_Borrower r = a \<and> coins_Valid m (hb_Amount r)) \<and>
     coins_Valid m (hs_borrowed st) \<and> coins_Valid m (hs_supplied st) \<and> coins_Valid m (hs_reserves st)"

lemma hard_wfD:
  assumes "hard_wf m st"
  shows "hard_GetDeposit st a = Some r \<Longrightarrow> hd_Depositor r = a \<and> coins_Valid m (hd_Amount r)"
    "hard_GetBorrow st a = Some b \<Longrightarrow> hb_Borrower b = a \<and> coins_Valid m (hb_Amount b)"
    "coins_Valid m (hs_borrowed st)" "coins_Valid m (hs_supplied st)" "coins_Valid m (hs_reserves st)"
  using assms by (simp_all add: hard_wf_def)

definition dep_at :: "('b, 'h) hard_state \<Rightarrow> address \<Rightarrow> denom \<Rightarrow> int" where
  "dep_at st a d = (case hard_GetDeposit st a of None \<Rightarrow> 0 | Some r \<Rightarrow> AmountOf (hd_Amount r) d)"

definition bor_at :: "('b, 'h) hard_state \<Rightarrow> address \<Rightarrow> denom \<Rightarrow> int" where
  "bor_at st a d = (case hard_GetBorrow st a of None \<Rightarrow> 0 | Some r \<Rightarrow> AmountOf (hb_Amount r) d)"

text \<open>Reading back what was written.\<close>

lemma hard_records [simp]:
  "hard_GetDeposit (hard_SetDeposit st r) a = (if a = hd_Depositor r then Some r else hard_GetDeposit st a)"
  "hard_GetDeposit (hard_DeleteDeposit st r) a = (if a = hd_Depositor r then None else hard_GetDeposit st a)"
  "hard_GetBorrow (hard_SetBorrow st b) a = (if a = hb_Borrower b then Some b else hard_GetBorrow st a)"
  "hard_GetBorrow (hard_DeleteBorrow st b) a = (if a = hb_Borrower b then None else hard_GetBorrow st a)"
  "hard_GetBorrow (hard_SetDeposit st r) = hard_GetBorrow st"
  "hard_GetBorrow (hard_DeleteDeposit st r) = hard_GetBorrow st"
  "hard_GetDeposit (hard_SetBorrow st b) = hard_GetDeposit st"
  "hard_GetDeposit (hard_DeleteBorrow st b) = hard_GetDeposit st"
  by (simp_all add: hard_GetDeposit_def hard_SetDeposit_def hard_DeleteDeposit_def hard_GetBorrow_def
      hard_SetBorrow_def hard_DeleteBorrow_def fun_eq_iff)

text \<open>The parts of a state that neither synchronising nor writing a record touches.\<close>

definition same_books :: "('b, 'h) hard_state \<Rightarrow> ('b, 'h) hard_state \<Rightarrow> bool" where
  "same_books st st' \<longleftrightarrow>
     hs_params st' = hs_params st \<and> hs_borrowed st' = hs_borrowed st \<and> hs_supplied st' = hs_supplied st \<and>
     hs_reserves st' = hs_reserves st \<and> hs_markets st' = hs_markets st \<and> hs_prices st' = hs_prices st \<and>
     hs_auction st' = hs_auction st"

lemma same_books_refl [simp]: "same_books st st"
  and same_books_trans: "same_books s t \<Longrightarrow> same_books t u \<Longrightarrow> same_books s u"
  by (simp_all add: same_books_def)

lemma same_booksD:
  assumes "same_books st st'"
  shows "hs_borrowed st' = hs_borrowed st" "hs_supplied st' = hs_supplied st" "hs_reserves st' = hs_reserves st"
    "hs_markets st' = hs_markets st" "hs_prices st' = hs_prices st" "hs_auction st' = hs_auction st"
    "hs_bank st' = hs_bank st" "hs_params st' = hs_params st"
  using assms by (simp_all add: same_books_def hs_bank_def)

lemma same_books_simps [simp]:
  "same_books st (hard_SetDeposit st r)" "same_books st (hard_DeleteDeposit st r)" "same_books st (hard_SetBorrow st b)"
  "same_books st (hard_DeleteBorrow st b)" "same_books st (st\<lparr>hs_hooks := h\<rparr>)"
  "same_books st (store_deposit st r)" "same_books st (store_borrow st b)"
  by (simp_all add: same_books_def hard_SetDeposit_def hard_DeleteDeposit_def hard_SetBorrow_def hard_DeleteBorrow_def
      store_deposit_def store_borrow_def)

lemma hard_wf_books:
  assumes "hard_wf m st" "same_books st st'"
    "\<And>a r. hard_GetDeposit st' a = Some r \<Longrightarrow> hd_Depositor r = a \<and> coins_Valid m (hd_Amount r)"
    "\<And>a r. hard_GetBorrow st' a = Some r \<Longrightarrow> hb_Borrower r = a \<and> coins_Valid m (hb_Amount r)"
  shows "hard_wf m st'"
  unfolding hard_wf_def same_booksD(1-3) [OF assms(2)] using hard_wfD(3-5) [OF assms(1)] assms(3,4) by blast

section \<open>Synchronising a position\<close>

text \<open>
  \<open>settled a st st'\<close>: from \<open>st\<close> to \<open>st'\<close> only hooks ran and the records of \<open>a\<close> were brought up to date, which adds
  interest to them and never takes from them.
\<close>

definition settled :: "sdk_math \<Rightarrow> address \<Rightarrow> ('b, 'h) hard_state \<Rightarrow> ('b, 'h) hard_state \<Rightarrow> bool" where
  "settled m a st st' \<longleftrightarrow>
     same_books st st' \<and> hard_wf m st' \<and>
     (\<forall>x. x \<noteq> a \<longrightarrow> hard_GetDeposit st' x = hard_GetDeposit st x \<and> hard_GetBorrow st' x = hard_GetBorrow st x) \<and>
     (hard_GetDeposit st' a = None \<longleftrightarrow> hard_GetDeposit st a = None) \<and>
     (hard_GetBorrow st' a = None \<longleftrightarrow> hard_GetBorrow st a = None) \<and>
     (\<forall>d. dep_at st a d \<le> dep_at st' a d \<and> bor_at st a d \<le> bor_at st' a d)"

lemma settled_refl: "hard_wf m st \<Longrightarrow> settled m a st st"
  by (simp add: settled_def)

lemma settled_trans:
  assumes "settled m a s t" "settled m a t u"
  shows "settled m a s u"
  unfolding settled_def
proof (intro conjI allI impI)
  show "same_books s u" using assms same_books_trans by (auto simp: settled_def)
  show "hard_wf m u" using assms(2) by (simp add: settled_def)
  fix x d
  show "dep_at s a d \<le> dep_at u a d" "bor_at s a d \<le> bor_at u a d"
    using assms unfolding settled_def by (meson order_trans)+
  assume "x \<noteq> a"
  then show "hard_GetDeposit u x = hard_GetDeposit s x" "hard_GetBorrow u x = hard_GetBorrow s x"
    using assms by (simp_all add: settled_def)
qed (use assms in \<open>simp_all add: settled_def\<close>)

lemma settledD:
  assumes "settled m a st st'"
  shows "same_books st st'" "hard_wf m st'" "dep_at st a d \<le> dep_at st' a d" "bor_at st a d \<le> bor_at st' a d"
    "x \<noteq> a \<Longrightarrow> hard_GetDeposit st' x = hard_GetDeposit st x" "x \<noteq> a \<Longrightarrow> hard_GetBorrow st' x = hard_GetBorrow st x"
    "hard_GetDeposit st' a = None \<longleftrightarrow> hard_GetDeposit st a = None"
    "hard_GetBorrow st' a = None \<longleftrightarrow> hard_GetBorrow st a = None"
  using assms by (simp_all add: settled_def)

text \<open>States that agree on the records and the books.\<close>

lemma settled_frame:
  assumes "hard_wf m st" "same_books st st'" "hs_deposits st' = hs_deposits st" "hs_borrows st' = hs_borrows st"
  shows "settled m a st st'"
proof -
  have g: "hard_GetDeposit st' = hard_GetDeposit st" "hard_GetBorrow st' = hard_GetBorrow st"
    using assms(3,4) by (simp_all add: hard_GetDeposit_def hard_GetBorrow_def fun_eq_iff)
  then have "hard_wf m st'" using hard_wf_books [OF assms(1,2)] hard_wfD(1,2) [OF assms(1)] by simp
  then show ?thesis using assms(2) by (simp add: settled_def g dep_at_def bor_at_def)
qed

lemma hard_call_hooks: "hard_call E hook st x = Inr st' \<Longrightarrow> \<exists>h. st' = st\<lparr>hs_hooks := h\<rparr>"
  unfolding hard_call_def by (auto split: option.split_asm intro: exI [of _ "hs_hooks st"])

lemmas hard_hook_defs = hard_AfterDepositCreated_def hard_BeforeDepositModified_def hard_AfterDepositModified_def
  hard_AfterBorrowCreated_def hard_BeforeBorrowModified_def hard_AfterBorrowModified_def

lemma hook_same: "\<exists>h. st = st\<lparr>hs_hooks := h\<rparr>"
  by (rule exI [of _ "hs_hooks st"]) simp

lemma before_hooks:
  "before_deposit E c st = Inr st' \<Longrightarrow> \<exists>h. st' = st\<lparr>hs_hooks := h\<rparr>"
  "before_borrow E c st = Inr st' \<Longrightarrow> \<exists>h. st' = st\<lparr>hs_hooks := h\<rparr>"
  unfolding before_deposit_def before_borrow_def hard_hook_defs
  by (auto split: option.split_asm intro: hook_same dest: hard_call_hooks)

lemma settled_hooks:
  assumes "hard_wf m st" "\<exists>h. st' = st\<lparr>hs_hooks := h\<rparr>"
  shows "settled m a st st'"
  using assms by (auto intro!: settled_frame)

text \<open>Interest is a sum of coins that are not negative.\<close>

lemma add_coin_Inr:
  assumes "hard_laws E" "coins_Valid (he_math E) cs" "add_coin E cs d n = Inr r"
  shows "coins_Valid (he_math E) r" "AmountOf r x = AmountOf cs x + (if x = d then n else 0)" "0 \<le> n"
proof -
  have c: "ValidDenom (he_math E) d" "0 \<le> n" "CoinsAdd (he_sdk E) cs [Coin d n] = Inr r"
    using assms(3) by (auto simp: add_coin_def)
  note r = CoinsAdd_loose [OF hard_lawsD(2) [OF assms(1)] assms(2) _ c(3)]
  show "coins_Valid (he_math E) r" "0 \<le> n" using r(1) c(1,2) by simp_all
  show "AmountOf r x = AmountOf cs x + (if x = d then n else 0)" using r(2) [of x] c(1,2) by simp
qed

lemma sync_interest_valid:
  assumes "hard_laws E"
    and "foldR (sync_borrow_coin E st amount) cs (index, tot) = Inr (index', tot') \<or>
      foldR (sync_supply_coin E st amount) cs (index, tot) = Inr (index', tot')"
    and "coins_Valid (he_math E) tot"
  shows "coins_Valid (he_math E) tot'"
proof -
  have step: "coins_Valid (he_math E) (snd s')"
    if "sync_borrow_coin E st amount c s = Inr s' \<or> sync_supply_coin E st amount c s = Inr s'" "coins_Valid (he_math E) (snd s)"
    for c s s'
    using that add_coin_Inr(1) [OF assms(1)]
    unfolding sync_borrow_coin_def sync_supply_coin_def Let_def
    by (auto split: prod.split_asm option.split_asm if_split_asm)
  let ?P = "\<lambda>s. coins_Valid (he_math E) (snd s)"
  have b: "?P s'" if "c \<in> set cs" "?P s" "sync_borrow_coin E st amount c s = Inr s'" for c s s'
    by (rule step [OF disjI1 [OF that(3)] that(2)])
  have d: "?P s'" if "c \<in> set cs" "?P s" "sync_supply_coin E st amount c s = Inr s'" for c s s'
    by (rule step [OF disjI2 [OF that(3)] that(2)])
  have start: "?P (index, tot)" using assms(3) by simp
  from assms(2) have "?P (index', tot')"
  proof
    assume f: "foldR (sync_borrow_coin E st amount) cs (index, tot) = Inr (index', tot')"
    show ?thesis by (rule foldR_invariant [where P = ?P, OF f start]) (rule b)
  next
    assume f: "foldR (sync_supply_coin E st amount) cs (index, tot) = Inr (index', tot')"
    show ?thesis by (rule foldR_invariant [where P = ?P, OF f start]) (rule d)
  qed
  then show ?thesis by simp
qed

lemma coins_Valid_Nil [simp]: "coins_Valid m []"
  by (simp add: coins_Valid_def)

lemma SyncBorrowInterest_settled:
  assumes E: "hard_laws E" and wf: "hard_wf (he_math E) st" and r: "SyncBorrowInterest E st a = Inr st'"
  shows "settled (he_math E) a st st' \<and> (\<forall>x. hard_GetDeposit st' x = hard_GetDeposit st x)"
proof (cases "hard_GetBorrow st a")
  case None
  then show ?thesis using r settled_refl [OF wf] by (simp add: SyncBorrowInterest_def)
next
  case (Some b)
  then obtain index interest amount where f: "foldR (sync_borrow_coin E st (hb_Amount b)) (hb_Amount b) (hb_Index b, []) = Inr (index, interest)"
      and add: "CoinsAdd (he_sdk E) (hb_Amount b) interest = Inr amount"
      and st': "st' = hard_SetBorrow st (b\<lparr>hb_Amount := amount, hb_Index := index\<rparr>)"
    using r by (auto simp: SyncBorrowInterest_def)
  have b: "hb_Borrower b = a" "coins_Valid (he_math E) (hb_Amount b)" using hard_wfD(2) [OF wf Some] by auto
  have i: "coins_Valid (he_math E) interest" using sync_interest_valid [OF E disjI1 [OF f]] by simp
  note amount = CoinsAdd_amount [OF hard_lawsD(1) [OF E] b(2) i add]
  have "hard_wf (he_math E) st'"
    by (rule hard_wf_books [OF wf]) (use amount(1) b hard_wfD(1,2) [OF wf] in \<open>auto simp: st' split: if_split_asm\<close>)
  moreover have "bor_at st a d \<le> bor_at st' a d" for d
    using AmountOf_valid(1) [OF i] amount(2) [of d] by (simp add: bor_at_def Some st' b)
  ultimately show ?thesis using Some by (simp add: settled_def st' b(1) dep_at_def)
qed

lemma SyncSupplyInterest_settled:
  assumes E: "hard_laws E" and wf: "hard_wf (he_math E) st" and r: "SyncSupplyInterest E st a = Inr st'"
  shows "settled (he_math E) a st st' \<and> (\<forall>x. hard_GetBorrow st' x = hard_GetBorrow st x)"
proof (cases "hard_GetDeposit st a")
  case None
  then show ?thesis using r settled_refl [OF wf] by (simp add: SyncSupplyInterest_def)
next
  case (Some b)
  then obtain index interest amount where f: "foldR (sync_supply_coin E st (hd_Amount b)) (hd_Amount b) (hd_Index b, []) = Inr (index, interest)"
      and add: "CoinsAdd (he_sdk E) (hd_Amount b) interest = Inr amount"
      and st': "st' = hard_SetDeposit st (b\<lparr>hd_Amount := amount, hd_Index := index\<rparr>)"
    using r by (auto simp: SyncSupplyInterest_def)
  have b: "hd_Depositor b = a" "coins_Valid (he_math E) (hd_Amount b)" using hard_wfD(1) [OF wf Some] by auto
  have i: "coins_Valid (he_math E) interest" using sync_interest_valid [OF E disjI2 [OF f]] by simp
  note amount = CoinsAdd_amount [OF hard_lawsD(1) [OF E] b(2) i add]
  have "hard_wf (he_math E) st'"
    by (rule hard_wf_books [OF wf]) (use amount(1) b hard_wfD(1,2) [OF wf] in \<open>auto simp: st' split: if_split_asm\<close>)
  moreover have "dep_at st a d \<le> dep_at st' a d" for d
    using AmountOf_valid(1) [OF i] amount(2) [of d] by (simp add: dep_at_def Some st' b)
  ultimately show ?thesis using Some by (simp add: settled_def st' b(1) bor_at_def)
qed

section \<open>The totals\<close>

lemma found_coins_simps [simp]: "found_coins cs = None \<longleftrightarrow> cs = []" "found_coins cs = Some x \<longleftrightarrow> cs \<noteq> [] \<and> x = cs"
  by (auto simp: found_coins_def)

lemma IncrementSuppliedCoins_ok:
  assumes E: "hard_laws E" and v: "coins_Valid (he_math E) (hs_supplied st)" "coins_Valid (he_math E) cs"
    and r: "IncrementSuppliedCoins E st cs = Inr st'"
  shows "\<exists>t. st' = SetSuppliedCoins st t \<and> coins_Valid (he_math E) t \<and>
    (\<forall>d. AmountOf t d = AmountOf (hs_supplied st) d + AmountOf cs d)"
proof (cases "hs_supplied st = []")
  case True
  then have "st' = SetSuppliedCoins st cs"
    using r by (auto simp: IncrementSuppliedCoins_def GetSuppliedCoins_def found_coins_def SetSuppliedCoins_def split: if_split_asm)
  then show ?thesis using True v(2) by auto
next
  case False
  then obtain t where t: "CoinsAdd (he_sdk E) (hs_supplied st) cs = Inr t" "st' = SetSuppliedCoins st t"
    using r by (auto simp: IncrementSuppliedCoins_def GetSuppliedCoins_def found_coins_def)
  then show ?thesis using CoinsAdd_amount [OF hard_lawsD(1) [OF E] v t(1)] by blast
qed

lemma IncrementBorrowedCoins_ok:
  assumes E: "hard_laws E" and v: "coins_Valid (he_math E) (hs_borrowed st)" "coins_Valid (he_math E) cs"
    and r: "IncrementBorrowedCoins E st cs = Inr st'"
  shows "\<exists>t. st' = SetBorrowedCoins st t \<and> coins_Valid (he_math E) t \<and>
    (\<forall>d. AmountOf t d = AmountOf (hs_borrowed st) d + AmountOf cs d)"
proof (cases "hs_borrowed st = []")
  case True
  then have "st' = SetBorrowedCoins st cs"
    using r by (auto simp: IncrementBorrowedCoins_def GetBorrowedCoins_def found_coins_def SetBorrowedCoins_def split: if_split_asm)
  then show ?thesis using True v(2) by auto
next
  case False
  then obtain t where t: "CoinsAdd (he_sdk E) (hs_borrowed st) cs = Inr t" "st' = SetBorrowedCoins st t"
    using r by (auto simp: IncrementBorrowedCoins_def GetBorrowedCoins_def found_coins_def)
  then show ?thesis using CoinsAdd_amount [OF hard_lawsD(1) [OF E] v t(1)] by blast
qed

lemma AmountOf_loose: "coins_Loose m cs \<Longrightarrow> 0 \<le> AmountOf cs d"
  by (induction cs) (auto simp: coins_Loose_def)

lemma coins_to_subtract_fold:
  assumes E: "hard_laws E" and tot: "\<And>d. 0 \<le> AmountOf tot d"
    and "coins_Loose (he_math E) cs" "coins_Valid (he_math E) acc"
    and "foldR (\<lambda>c acc. bnd (checked_AmountOf (he_math E) tot (Denom c)) (\<lambda>amount.
       if amount < Amount c then
         if amount > 0 then add_coin E acc (Denom c) amount else Inr acc
       else CoinsAdd (he_sdk E) acc [c])) cs acc = Inr r" (is "foldR ?f cs acc = Inr r")
  shows "coins_Valid (he_math E) r \<and> (\<forall>d. AmountOf r d = AmountOf acc d + min (AmountOf tot d) (AmountOf cs d))"
  using assms(3-5)
proof (induction cs arbitrary: acc)
  case Nil
  then show ?case using min_absorb2 [OF tot] by simp
next
  case (Cons c cs)
  have c: "0 \<le> Amount c" "ValidDenom (he_math E) (Denom c)" and cs: "coins_Loose (he_math E) cs"
      and notin: "Denom c \<notin> Denom ` set cs" using Cons.prems(1) by (auto simp: coins_Loose_def)
  obtain acc1 where s: "?f c acc = Inr acc1" "foldR ?f cs acc1 = Inr r" using Cons.prems(3) by auto
  have acc1: "coins_Valid (he_math E) acc1 \<and> (\<forall>d. AmountOf acc1 d = AmountOf acc d + (if d = Denom c then min (AmountOf tot d) (Amount c) else 0))"
  proof (cases "AmountOf tot (Denom c) < Amount c")
    case True
    show ?thesis
    proof (cases "AmountOf tot (Denom c) > 0")
      case pos: True
      have "add_coin E acc (Denom c) (AmountOf tot (Denom c)) = Inr acc1" using s(1) True pos c by (simp add: checked_AmountOf_def)
      from add_coin_Inr [OF E Cons.prems(2) this] show ?thesis using True by auto
    next
      case False
      then show ?thesis using s(1) True c Cons.prems(2) tot [of "Denom c"] by (simp add: checked_AmountOf_def)
    qed
  next
    case False
    then have "CoinsAdd (he_sdk E) acc [c] = Inr acc1" using s(1) c by (simp add: checked_AmountOf_def)
    from CoinsAdd_loose [OF hard_lawsD(2) [OF E] Cons.prems(2) _ this] show ?thesis using c False by auto
  qed
  have "coins_Valid (he_math E) r \<and> (\<forall>d. AmountOf r d = AmountOf acc1 d + min (AmountOf tot d) (AmountOf cs d))"
    using Cons.IH [OF cs _ s(2)] acc1 by blast
  then show ?case using acc1 AmountOf_notin [OF notin] tot [of "Denom c"] by auto
qed

lemma decremented_ok:
  assumes E: "hard_laws E" and tot: "coins_Valid (he_math E) tot" and cs: "coins_Loose (he_math E) cs"
    and r: "decremented E tot cs = Inr r"
  shows "coins_Valid (he_math E) r" "AmountOf r d = max 0 (AmountOf tot d - AmountOf cs d)"
proof -
  obtain u neg where u: "CoinsSafeSub (he_coins E) tot cs = Inr (u, neg)"
      and rest: "(if neg then bnd (coins_to_subtract E tot cs) (\<lambda>sub. CoinsSub (he_coins E) tot sub) else Inr u) = Inr r"
    using r by (auto simp: decremented_def)
  note ops = hard_lawsD(3) [OF E]
  have "coins_Valid (he_math E) r \<and> (\<forall>d. AmountOf r d = max 0 (AmountOf tot d - AmountOf cs d))"
  proof (cases neg)
    case False
    then have "r = u" using rest by simp
    moreover have "AmountOf cs d \<le> AmountOf tot d" for d
      using False CoinsSafeSub_cases(1) [OF ops tot cs u] by (simp add: not_less)
    ultimately show ?thesis using CoinsSafeSub_cases(2) [OF ops tot cs u False] by simp
  next
    case True
    then obtain sub where sub: "coins_to_subtract E tot cs = Inr sub" "CoinsSub (he_coins E) tot sub = Inr r"
      using rest by auto
    have "coins_Valid (he_math E) sub \<and> (\<forall>d. AmountOf sub d = AmountOf [] d + min (AmountOf tot d) (AmountOf cs d))"
      by (rule coins_to_subtract_fold [OF E AmountOf_valid(1) [OF tot] cs _ sub(1) [unfolded coins_to_subtract_def]]) simp
    then show ?thesis using CoinsSub_amount [OF ops tot _ sub(2)] by auto
  qed
  then show "coins_Valid (he_math E) r" "AmountOf r d = max 0 (AmountOf tot d - AmountOf cs d)" by blast+
qed

lemma DecrementSuppliedCoins_ok:
  assumes E: "hard_laws E" and v: "coins_Valid (he_math E) (hs_supplied st)" "coins_Loose (he_math E) cs"
    and r: "DecrementSuppliedCoins E st cs = Inr st'"
  shows "\<exists>t. st' = SetSuppliedCoins st t \<and> coins_Valid (he_math E) t \<and>
    (\<forall>d. AmountOf t d = max 0 (AmountOf (hs_supplied st) d - AmountOf cs d))"
proof -
  obtain t where t: "decremented E (hs_supplied st) cs = Inr t" "st' = SetSuppliedCoins st t"
    using r by (auto simp: DecrementSuppliedCoins_def GetSuppliedCoins_def found_coins_def split: if_split_asm)
  then show ?thesis using decremented_ok [OF E v t(1)] by blast
qed

lemma DecrementBorrowedCoins_ok:
  assumes E: "hard_laws E" and v: "coins_Valid (he_math E) (hs_borrowed st)" "coins_Loose (he_math E) cs"
    and r: "DecrementBorrowedCoins E st cs = Inr st'"
  shows "\<exists>t. st' = SetBorrowedCoins st t \<and> coins_Valid (he_math E) t \<and>
    (\<forall>d. AmountOf t d = max 0 (AmountOf (hs_borrowed st) d - AmountOf cs d))"
proof -
  obtain t where t: "decremented E (hs_borrowed st) cs = Inr t" "st' = SetBorrowedCoins st t"
    using r by (auto simp: DecrementBorrowedCoins_def GetBorrowedCoins_def found_coins_def split: if_split_asm)
  then show ?thesis using decremented_ok [OF E v t(1)] by blast
qed

section \<open>What operations do\<close>

text \<open>
  \<open>acted a st st2 st'\<close>: first the position of \<open>a\<close> was brought up to date, from \<open>st\<close> to \<open>st2\<close>; then, up to \<open>st'\<close>, the
  records of nobody else changed, nor reserves, markets, prices and parameters.
\<close>

definition acted :: "sdk_math \<Rightarrow> address \<Rightarrow> ('b, 'h) hard_state \<Rightarrow> ('b, 'h) hard_state \<Rightarrow> ('b, 'h) hard_state \<Rightarrow> bool" where
  "acted m a st st2 st' \<longleftrightarrow>
     settled m a st st2 \<and> hard_wf m st' \<and> hs_reserves st' = hs_reserves st \<and> hs_markets st' = hs_markets st \<and>
     hs_prices st' = hs_prices st \<and> hs_params st' = hs_params st \<and>
     (\<forall>x. x \<noteq> a \<longrightarrow> hard_GetDeposit st' x = hard_GetDeposit st x \<and> hard_GetBorrow st' x = hard_GetBorrow st x)"

lemma init_supply_factors_eq: "\<exists>f. init_supply_factors st cs = st\<lparr>hs_supplyFactor := f\<rparr>"
proof (induction cs arbitrary: st)
  case Nil
  show ?case by (rule exI [of _ "hs_supplyFactor st"]) (simp add: init_supply_factors_def)
next
  case (Cons c cs)
  let ?g = "if GetSupplyInterestFactor st (Denom c) = None \<and> GetMoneyMarket st (Denom c) \<noteq> None
            then SetSupplyInterestFactor st (Denom c) OneDec else st"
  obtain f where "init_supply_factors ?g cs = ?g\<lparr>hs_supplyFactor := f\<rparr>" using Cons by blast
  moreover have "?g\<lparr>hs_supplyFactor := f\<rparr> = st\<lparr>hs_supplyFactor := f\<rparr>" by (simp add: SetSupplyInterestFactor_def)
  moreover have "init_supply_factors st (c # cs) = init_supply_factors ?g cs" unfolding init_supply_factors_def by simp
  ultimately show ?case by metis
qed

lemma init_borrow_factors_eq: "\<exists>f. init_borrow_factors st cs = st\<lparr>hs_borrowFactor := f\<rparr>"
proof (induction cs arbitrary: st)
  case Nil
  show ?case by (rule exI [of _ "hs_borrowFactor st"]) (simp add: init_borrow_factors_def)
next
  case (Cons c cs)
  let ?g = "if GetBorrowInterestFactor st (Denom c) = None \<and> GetMoneyMarket st (Denom c) \<noteq> None
            then SetBorrowInterestFactor st (Denom c) OneDec else st"
  obtain f where "init_borrow_factors ?g cs = ?g\<lparr>hs_borrowFactor := f\<rparr>" using Cons by blast
  moreover have "?g\<lparr>hs_borrowFactor := f\<rparr> = st\<lparr>hs_borrowFactor := f\<rparr>" by (simp add: SetBorrowInterestFactor_def)
  moreover have "init_borrow_factors st (c # cs) = init_borrow_factors ?g cs" unfolding init_borrow_factors_def by simp
  ultimately show ?case by metis
qed

lemma settled_init:
  assumes "hard_wf m st"
  shows "settled m a st (init_supply_factors st cs)" "settled m a st (init_borrow_factors st cs)"
  using init_supply_factors_eq [of st cs] init_borrow_factors_eq [of st cs]
  by (auto intro!: settled_frame [OF assms] simp: same_books_def)

lemma first_short_Inr [simp]: "first_short E have cs err \<noteq> Inr x"
  by (simp add: first_short_def)

lemma deposit_funds_Inr:
  "deposit_funds E st a cs = Inr st' \<longleftrightarrow>
     (\<exists>b. SendCoinsFromAccountToModule (he_sdk E) (hs_bank st) a hard_module cs = Inr b \<and> st' = hs_set_bank b st)"
  by (auto simp: deposit_funds_def split: sum.split fault.split)

lemma lend_funds_Inr:
  "lend_funds E st a cs = Inr st' \<longleftrightarrow>
     (\<exists>b. SendCoinsFromModuleToAccount (he_sdk E) (hs_bank st) hard_module a cs = Inr b \<and> st' = hs_set_bank b st)"
  by (auto simp: lend_funds_def split: sum.split fault.split)

lemma set_bank_frame [simp]:
  "hs_bank (hs_set_bank b st) = b" "hard_GetDeposit (hs_set_bank b st) = hard_GetDeposit st"
  "hard_GetBorrow (hs_set_bank b st) = hard_GetBorrow st" "hs_borrowed (hs_set_bank b st) = hs_borrowed st"
  "hs_supplied (hs_set_bank b st) = hs_supplied st" "hs_reserves (hs_set_bank b st) = hs_reserves st"
  "hs_markets (hs_set_bank b st) = hs_markets st" "hs_prices (hs_set_bank b st) = hs_prices st"
  "hs_params (hs_set_bank b st) = hs_params st"
  by (simp_all add: hs_bank_def hs_set_bank_def hard_GetDeposit_def hard_GetBorrow_def fun_eq_iff)

lemma set_totals_frame [simp]:
  "hs_bank (SetSuppliedCoins st t) = hs_bank st" "hard_GetDeposit (SetSuppliedCoins st t) = hard_GetDeposit st"
  "hard_GetBorrow (SetSuppliedCoins st t) = hard_GetBorrow st" "hs_borrowed (SetSuppliedCoins st t) = hs_borrowed st"
  "hs_supplied (SetSuppliedCoins st t) = t" "hs_reserves (SetSuppliedCoins st t) = hs_reserves st"
  "hs_markets (SetSuppliedCoins st t) = hs_markets st" "hs_prices (SetSuppliedCoins st t) = hs_prices st"
  "hs_params (SetSuppliedCoins st t) = hs_params st"
  "hs_bank (SetBorrowedCoins st t) = hs_bank st" "hard_GetDeposit (SetBorrowedCoins st t) = hard_GetDeposit st"
  "hard_GetBorrow (SetBorrowedCoins st t) = hard_GetBorrow st" "hs_borrowed (SetBorrowedCoins st t) = t"
  "hs_supplied (SetBorrowedCoins st t) = hs_supplied st" "hs_reserves (SetBorrowedCoins st t) = hs_reserves st"
  "hs_markets (SetBorrowedCoins st t) = hs_markets st" "hs_prices (SetBorrowedCoins st t) = hs_prices st"
  "hs_params (SetBorrowedCoins st t) = hs_params st"
  by (simp_all add: hs_bank_def SetSuppliedCoins_def SetBorrowedCoins_def hard_GetDeposit_def hard_GetBorrow_def fun_eq_iff)

lemma store_records [simp]:
  "hard_GetDeposit (store_deposit st r) a =
     (if a = hd_Depositor r then if hd_Amount r = [] then None else Some r else hard_GetDeposit st a)"
  "hard_GetBorrow (store_deposit st r) = hard_GetBorrow st"
  "hard_GetBorrow (store_borrow st b) a =
     (if a = hb_Borrower b then if hb_Amount b = [] then None else Some b else hard_GetBorrow st a)"
  "hard_GetDeposit (store_borrow st b) = hard_GetDeposit st"
  by (simp_all add: store_deposit_def store_borrow_def)

lemma store_books [simp]:
  "hs_bank (store_deposit st r) = hs_bank st" "hs_borrowed (store_deposit st r) = hs_borrowed st"
  "hs_supplied (store_deposit st r) = hs_supplied st" "hs_reserves (store_deposit st r) = hs_reserves st"
  "hs_markets (store_deposit st r) = hs_markets st" "hs_prices (store_deposit st r) = hs_prices st"
  "hs_params (store_deposit st r) = hs_params st"
  "hs_bank (store_borrow st b) = hs_bank st" "hs_borrowed (store_borrow st b) = hs_borrowed st"
  "hs_supplied (store_borrow st b) = hs_supplied st" "hs_reserves (store_borrow st b) = hs_reserves st"
  "hs_markets (store_borrow st b) = hs_markets st" "hs_prices (store_borrow st b) = hs_prices st"
  "hs_params (store_borrow st b) = hs_params st"
  using same_booksD [OF same_books_simps(6) [of st r]] same_booksD [OF same_books_simps(7) [of st b]] by simp_all

lemma hard_hooks_frame [simp]:
  "hs_bank (st\<lparr>hs_hooks := h\<rparr>) = hs_bank st" "hard_GetDeposit (st\<lparr>hs_hooks := h\<rparr>) = hard_GetDeposit st"
  "hard_GetBorrow (st\<lparr>hs_hooks := h\<rparr>) = hard_GetBorrow st" "hard_wf m (st\<lparr>hs_hooks := h\<rparr>) = hard_wf m st"
  by (simp_all add: hs_bank_def hard_GetDeposit_def hard_GetBorrow_def fun_eq_iff hard_wf_def)

text \<open>Ending an operation: one record of \<open>a\<close> written, the totals set, and hooks called.\<close>

lemma actedI:
  assumes "settled m a st st2"
    and "\<And>x. x \<noteq> a \<Longrightarrow> hard_GetDeposit st' x = hard_GetDeposit st2 x \<and> hard_GetBorrow st' x = hard_GetBorrow st2 x"
    and "\<And>r. hard_GetDeposit st' a = Some r \<Longrightarrow> hd_Depositor r = a \<and> coins_Valid m (hd_Amount r)"
    and "\<And>r. hard_GetBorrow st' a = Some r \<Longrightarrow> hb_Borrower r = a \<and> coins_Valid m (hb_Amount r)"
    and "coins_Valid m (hs_borrowed st')" "coins_Valid m (hs_supplied st')" "hs_reserves st' = hs_reserves st2"
    and "hs_markets st' = hs_markets st2" "hs_prices st' = hs_prices st2" "hs_params st' = hs_params st2"
  shows "acted m a st st2 st'"
proof -
  note s = settledD(1,2,5,6) [OF assms(1)]
  have d: "hd_Depositor r = x \<and> coins_Valid m (hd_Amount r)" if "hard_GetDeposit st' x = Some r" for x r
    using that assms(2) [of x] assms(3) [of r] hard_wfD(1) [OF s(2)] by (cases "x = a") auto
  have b: "hb_Borrower r = x \<and> coins_Valid m (hb_Amount r)" if "hard_GetBorrow st' x = Some r" for x r
    using that assms(2) [of x] assms(4) [of r] hard_wfD(2) [OF s(2)] by (cases "x = a") auto
  have "coins_Valid m (hs_reserves st')" using assms(7) hard_wfD(5) [OF s(2)] by simp
  then have "hard_wf m st'" unfolding hard_wf_def using d b assms(5,6) by blast
  moreover have "\<forall>x. x \<noteq> a \<longrightarrow> hard_GetDeposit st' x = hard_GetDeposit st x \<and> hard_GetBorrow st' x = hard_GetBorrow st x"
    using assms(2) s(3,4) by simp
  ultimately show ?thesis using assms(1,7-10) same_booksD [OF s(1)] by (simp add: acted_def)
qed

lemma add_to_deposit_ok:
  assumes E: "hard_laws E" and wf: "hard_wf (he_math E) st" and cs: "coins_Valid (he_math E) cs"
    and r: "add_to_deposit E st a cs = Inr st'"
  obtains index amount t h where
    "st' = (SetSuppliedCoins (store_deposit st \<lparr>hd_Depositor = a, hd_Amount = amount, hd_Index = index\<rparr>) t)\<lparr>hs_hooks := h\<rparr>"
    "coins_Valid (he_math E) t" "\<forall>d. AmountOf t d = AmountOf (hs_supplied st) d + AmountOf cs d"
    "coins_Valid (he_math E) amount" "\<forall>d. AmountOf amount d = dep_at st a d + AmountOf cs d"
proof -
  have "\<exists>index amount st1. coins_Valid (he_math E) amount \<and> (\<forall>d. AmountOf amount d = dep_at st a d + AmountOf cs d) \<and>
      IncrementSuppliedCoins E (store_deposit st \<lparr>hd_Depositor = a, hd_Amount = amount, hd_Index = index\<rparr>) cs = Inr st1 \<and>
      (\<exists>h. st' = st1\<lparr>hs_hooks := h\<rparr>)"
  proof (cases "hard_GetDeposit st a")
    case None
    then have "\<exists>st1. IncrementSuppliedCoins E (store_deposit st
          \<lparr>hd_Depositor = a, hd_Amount = cs, hd_Index = with_factors (GetSupplyInterestFactor st) cs []\<rparr>) cs = Inr st1 \<and>
        (\<exists>h. st' = st1\<lparr>hs_hooks := h\<rparr>)"
      using r by (auto simp: add_to_deposit_def Let_def hard_hook_defs dest: hard_call_hooks)
    then show ?thesis using cs None by (auto simp: dep_at_def)
  next
    case (Some rec)
    then obtain amount st1 where a: "CoinsAdd (he_sdk E) (hd_Amount rec) cs = Inr amount"
        and st1: "IncrementSuppliedCoins E (store_deposit st
          \<lparr>hd_Depositor = a, hd_Amount = amount, hd_Index = with_factors (GetSupplyInterestFactor st) cs (hd_Index rec)\<rparr>) cs = Inr st1"
        and h: "\<exists>h. st' = st1\<lparr>hs_hooks := h\<rparr>"
      using r by (fastforce simp: add_to_deposit_def Let_def hard_hook_defs dest: hard_call_hooks)
    have "coins_Valid (he_math E) (hd_Amount rec)" using hard_wfD(1) [OF wf Some] by blast
    note amount = CoinsAdd_amount [OF hard_lawsD(1) [OF E] this cs a]
    then have "\<forall>d. AmountOf amount d = dep_at st a d + AmountOf cs d" by (simp add: dep_at_def Some)
    then show ?thesis using amount(1) st1 h by blast
  qed
  then obtain index amount st1 h where x: "coins_Valid (he_math E) amount" "\<forall>d. AmountOf amount d = dep_at st a d + AmountOf cs d"
      "IncrementSuppliedCoins E (store_deposit st \<lparr>hd_Depositor = a, hd_Amount = amount, hd_Index = index\<rparr>) cs = Inr st1"
      "st' = st1\<lparr>hs_hooks := h\<rparr>" by blast
  have "coins_Valid (he_math E) (hs_supplied (store_deposit st \<lparr>hd_Depositor = a, hd_Amount = amount, hd_Index = index\<rparr>))"
    using hard_wfD(4) [OF wf] by simp
  from IncrementSuppliedCoins_ok [OF E this cs x(3)] obtain t where
      "st1 = SetSuppliedCoins (store_deposit st \<lparr>hd_Depositor = a, hd_Amount = amount, hd_Index = index\<rparr>) t"
      "coins_Valid (he_math E) t" "\<forall>d. AmountOf t d = AmountOf (hs_supplied st) d + AmountOf cs d" by auto
  then show ?thesis using that x by blast
qed

lemma add_to_borrow_ok:
  assumes E: "hard_laws E" and wf: "hard_wf (he_math E) st" and cs: "coins_Valid (he_math E) cs"
    and r: "add_to_borrow E ex st a cs = Inr st'"
  obtains index amount t h where
    "st' = (SetBorrowedCoins (store_borrow st \<lparr>hb_Borrower = a, hb_Amount = amount, hb_Index = index\<rparr>) t)\<lparr>hs_hooks := h\<rparr>"
    "coins_Valid (he_math E) t" "\<forall>d. AmountOf t d = AmountOf (hs_borrowed st) d + AmountOf cs d"
    "coins_Valid (he_math E) amount" "\<forall>d. AmountOf amount d = bor_at st a d + AmountOf cs d"
proof -
  have "\<exists>index amount st1. coins_Valid (he_math E) amount \<and> (\<forall>d. AmountOf amount d = bor_at st a d + AmountOf cs d) \<and>
      IncrementBorrowedCoins E (store_borrow st \<lparr>hb_Borrower = a, hb_Amount = amount, hb_Index = index\<rparr>) cs = Inr st1 \<and>
      (\<exists>h. st' = st1\<lparr>hs_hooks := h\<rparr>)"
  proof (cases "hard_GetBorrow st a")
    case None
    then have "\<exists>st1. IncrementBorrowedCoins E (store_borrow st
          \<lparr>hb_Borrower = a, hb_Amount = cs, hb_Index = with_factors (GetBorrowInterestFactor st) cs []\<rparr>) cs = Inr st1 \<and>
        (\<exists>h. st' = st1\<lparr>hs_hooks := h\<rparr>)"
      using r by (auto simp: add_to_borrow_def Let_def hard_hook_defs dest: hard_call_hooks split: if_split_asm)
    then show ?thesis using cs None by (auto simp: bor_at_def)
  next
    case (Some rec)
    then obtain amount st1 where a: "CoinsAdd (he_sdk E) (hb_Amount rec) cs = Inr amount"
        and st1: "IncrementBorrowedCoins E (store_borrow st
          \<lparr>hb_Borrower = a, hb_Amount = amount, hb_Index = with_factors (GetBorrowInterestFactor st) cs (hb_Index rec)\<rparr>) cs = Inr st1"
        and h: "\<exists>h. st' = st1\<lparr>hs_hooks := h\<rparr>"
      using r by (fastforce simp: add_to_borrow_def Let_def hard_hook_defs dest: hard_call_hooks split: if_split_asm)
    have "coins_Valid (he_math E) (hb_Amount rec)" using hard_wfD(2) [OF wf Some] by blast
    note amount = CoinsAdd_amount [OF hard_lawsD(1) [OF E] this cs a]
    then have "\<forall>d. AmountOf amount d = bor_at st a d + AmountOf cs d" by (simp add: bor_at_def Some)
    then show ?thesis using amount(1) st1 h by blast
  qed
  then obtain index amount st1 h where x: "coins_Valid (he_math E) amount" "\<forall>d. AmountOf amount d = bor_at st a d + AmountOf cs d"
      "IncrementBorrowedCoins E (store_borrow st \<lparr>hb_Borrower = a, hb_Amount = amount, hb_Index = index\<rparr>) cs = Inr st1"
      "st' = st1\<lparr>hs_hooks := h\<rparr>" by blast
  have "coins_Valid (he_math E) (hs_borrowed (store_borrow st \<lparr>hb_Borrower = a, hb_Amount = amount, hb_Index = index\<rparr>))"
    using hard_wfD(3) [OF wf] by simp
  from IncrementBorrowedCoins_ok [OF E this cs x(3)] obtain t where
      "st1 = SetBorrowedCoins (store_borrow st \<lparr>hb_Borrower = a, hb_Amount = amount, hb_Index = index\<rparr>) t"
      "coins_Valid (he_math E) t" "\<forall>d. AmountOf t d = AmountOf (hs_borrowed st) d + AmountOf cs d" by auto
  then show ?thesis using that x by blast
qed

lemma hard_wf_set_bank [simp]: "hard_wf m (hs_set_bank b st) = hard_wf m st"
  by (simp add: hard_wf_def)

lemma at_set_bank [simp]: "dep_at (hs_set_bank b st) = dep_at st" "bor_at (hs_set_bank b st) = bor_at st"
  by (simp_all add: dep_at_def bor_at_def fun_eq_iff)

lemma dep_at_store:
  "dep_at (store_deposit st r) a d = (if a = hd_Depositor r then AmountOf (hd_Amount r) d else dep_at st a d)"
  "bor_at (store_borrow st b) a d = (if a = hb_Borrower b then AmountOf (hb_Amount b) d else bor_at st a d)"
  by (simp_all add: dep_at_def bor_at_def)

lemma hard_Deposit_ok:
  assumes E: "hard_laws E" and wf: "hard_wf (he_math E) st" and cs: "coins_Valid (he_math E) cs"
    and r: "hard_Deposit E st a cs = Inr st'"
  obtains st2 where "acted (he_math E) a st st2 st'"
    "SendCoinsFromAccountToModule (he_sdk E) (hs_bank st) a hard_module cs = Inr (hs_bank st')"
    "\<forall>d. AmountOf (hs_supplied st') d = AmountOf (hs_supplied st) d + AmountOf cs d" "hs_borrowed st' = hs_borrowed st"
    "\<forall>d. dep_at st' a d = dep_at st2 a d + AmountOf cs d" "hard_GetBorrow st' = hard_GetBorrow st"
proof -
  let ?m = "he_math E"
  let ?st0 = "init_supply_factors st cs"
  obtain st1 st2 st3 where s: "before_deposit E a ?st0 = Inr st1" "SyncSupplyInterest E st1 a = Inr st2"
      "deposit_funds E st2 a cs = Inr st3" "add_to_deposit E st3 a cs = Inr st'"
    using r by (auto simp: hard_Deposit_def)
  have s0: "settled ?m a st ?st0" by (rule settled_init [OF wf])
  have s1: "settled ?m a st st1" by (rule settled_trans [OF s0 settled_hooks [OF settledD(2) [OF s0] before_hooks(1) [OF s(1)]]])
  have sync: "settled ?m a st1 st2 \<and> (\<forall>x. hard_GetBorrow st2 x = hard_GetBorrow st1 x)"
    by (rule SyncSupplyInterest_settled [OF E settledD(2) [OF s1] s(2)])
  have s2: "settled ?m a st st2" using settled_trans [OF s1] sync by blast
  note wf2 = settledD(2) [OF s2] and same = same_booksD [OF settledD(1) [OF s2]]
  obtain b where b: "SendCoinsFromAccountToModule (he_sdk E) (hs_bank st) a hard_module cs = Inr b" "st3 = hs_set_bank b st2"
    using s(3) same(7) by (auto simp: deposit_funds_Inr)
  have wf3: "hard_wf ?m st3" using wf2 b(2) by simp
  obtain index amount t h where o: "st' = (SetSuppliedCoins (store_deposit st3 \<lparr>hd_Depositor = a, hd_Amount = amount, hd_Index = index\<rparr>) t)\<lparr>hs_hooks := h\<rparr>"
      "coins_Valid ?m t" "\<forall>d. AmountOf t d = AmountOf (hs_supplied st3) d + AmountOf cs d"
      "coins_Valid ?m amount" "\<forall>d. AmountOf amount d = dep_at st3 a d + AmountOf cs d"
    by (rule add_to_deposit_ok [OF E wf3 cs s(4)])
  have acted: "acted ?m a st st2 st'"
    by (rule actedI [OF s2]) (use o(2,4) hard_wfD(2-4) [OF wf2] in \<open>auto simp: o(1) b(2) split: if_split_asm\<close>)
  have "hard_GetBorrow ?st0 = hard_GetBorrow st"
    using init_supply_factors_eq [of st cs] by (auto simp: hard_GetBorrow_def fun_eq_iff)
  moreover have "hard_GetBorrow st1 = hard_GetBorrow ?st0" using before_hooks(1) [OF s(1)] by auto
  moreover have "hard_GetBorrow st2 = hard_GetBorrow st1" using sync by (auto simp: fun_eq_iff)
  moreover have "hard_GetBorrow st' = hard_GetBorrow st2" by (simp add: o(1) b(2))
  ultimately have bor: "hard_GetBorrow st' = hard_GetBorrow st" by simp
  have "dep_at st' a d = dep_at (store_deposit st3 \<lparr>hd_Depositor = a, hd_Amount = amount, hd_Index = index\<rparr>) a d" for d
    by (simp add: o(1) dep_at_def)
  then have at: "dep_at st' a d = dep_at st2 a d + AmountOf cs d" for d using o(5) b(2) by (simp add: dep_at_store)
  show ?thesis
    by (rule that [OF acted _ _ _ allI [OF at] bor]) (use b o(3) same in \<open>simp_all add: o(1)\<close>)
qed

end
