(* ===== verification/Hard_Positions.thy ===== *)
theory Hard_Positions
  imports Hard_Safety
begin

text \<open>
  Borrowing, withdrawing, repaying and liquidating in \<open>x/hard\<close>: what they do to the position, the totals and the
  bank, and the conditions under which they are allowed.
\<close>

section \<open>Borrow\<close>

lemma hard_Borrow_ok:
  assumes E: "hard_laws E" and wf: "hard_wf (he_math E) st" and cs: "coins_Valid (he_math E) cs"
    and r: "hard_Borrow E st a cs = Inr st'"
  obtains st2 where "acted (he_math E) a st st2 st'" "ValidateBorrow E st2 a cs = Inr ()"
    "SendCoinsFromModuleToAccount (he_sdk E) (hs_bank st) hard_module a cs = Inr (hs_bank st')"
    "\<forall>d. AmountOf (hs_borrowed st') d = AmountOf (hs_borrowed st) d + AmountOf cs d" "hs_supplied st' = hs_supplied st"
    "\<forall>d. bor_at st' a d = bor_at st2 a d + AmountOf cs d" "hard_GetDeposit st' = hard_GetDeposit st2"
proof -
  let ?m = "he_math E"
  let ?st0 = "init_borrow_factors st cs"
  obtain st1 st2 st3 st4 st5 ex where s: "before_deposit E a ?st0 = Inr st1" "before_borrow E a st1 = Inr st2"
      "SyncSupplyInterest E st2 a = Inr st3" "SyncBorrowInterest E st3 a = Inr st4" "ValidateBorrow E st4 a cs = Inr ()"
      "lend_funds E st4 a cs = Inr st5" "add_to_borrow E ex st5 a cs = Inr st'"
    using r by (auto simp: hard_Borrow_def Let_def)
  have s0: "settled ?m a st ?st0" by (rule settled_init [OF wf])
  have s1: "settled ?m a st st1" by (rule settled_trans [OF s0 settled_hooks [OF settledD(2) [OF s0] before_hooks(1) [OF s(1)]]])
  have s2: "settled ?m a st st2" by (rule settled_trans [OF s1 settled_hooks [OF settledD(2) [OF s1] before_hooks(2) [OF s(2)]]])
  have s3: "settled ?m a st st3"
    using settled_trans [OF s2] SyncSupplyInterest_settled [OF E settledD(2) [OF s2] s(3)] by blast
  have s4: "settled ?m a st st4"
    using settled_trans [OF s3] SyncBorrowInterest_settled [OF E settledD(2) [OF s3] s(4)] by blast
  note wf4 = settledD(2) [OF s4] and same = same_booksD [OF settledD(1) [OF s4]]
  obtain b where b: "SendCoinsFromModuleToAccount (he_sdk E) (hs_bank st) hard_module a cs = Inr b" "st5 = hs_set_bank b st4"
    using s(6) same(7) by (auto simp: lend_funds_Inr)
  have wf5: "hard_wf ?m st5" using wf4 b(2) by simp
  obtain index amount t h where o: "st' = (SetBorrowedCoins (store_borrow st5 \<lparr>hb_Borrower = a, hb_Amount = amount, hb_Index = index\<rparr>) t)\<lparr>hs_hooks := h\<rparr>"
      "coins_Valid ?m t" "\<forall>d. AmountOf t d = AmountOf (hs_borrowed st5) d + AmountOf cs d"
      "coins_Valid ?m amount" "\<forall>d. AmountOf amount d = bor_at st5 a d + AmountOf cs d"
    by (rule add_to_borrow_ok [OF E wf5 cs s(7)])
  have acted: "acted ?m a st st4 st'"
    by (rule actedI [OF s4]) (use o(2,4) hard_wfD(1,4) [OF wf4] in \<open>auto simp: o(1) b(2) split: if_split_asm\<close>)
  have "bor_at st' a d = bor_at (store_borrow st5 \<lparr>hb_Borrower = a, hb_Amount = amount, hb_Index = index\<rparr>) a d" for d
    by (simp add: o(1) bor_at_def)
  then have at: "bor_at st' a d = bor_at st4 a d + AmountOf cs d" for d using o(5) b(2) by (simp add: dep_at_store)
  show ?thesis
    by (rule that [OF acted s(5) _ _ _ allI [OF at]]) (use b o(3) same in \<open>simp_all add: o(1)\<close>)
qed

text \<open>The values in dollars that \<open>ValidateBorrow\<close> compares.\<close>

definition under_limit :: "('b, 'h) hard_state \<Rightarrow> coin \<Rightarrow> bool" where
  "under_limit st c \<longleftrightarrow>
     (\<forall>mm. GetMoneyMarket st (Denom c) = Some mm \<longrightarrow> bl_HasMaxLimit (mm_BorrowLimit mm) \<longrightarrow>
        NewDecFromInt (AmountOf (hs_borrowed st) (Denom c) + Amount c) \<le> bl_MaximumLimit (mm_BorrowLimit mm))"

lemma market_price_Inr: "market_price st d = Inr (mm, p) \<Longrightarrow> GetMoneyMarket st d = Some mm"
  by (auto simp: market_price_def split: option.split_asm sum.split_asm fault.split_asm)

lemma proposed_value_fold:
  assumes "foldR (\<lambda>c total.
       bnd (market_price st (Denom c)) (\<lambda>(mm, price).
       bnd (usd_value (he_math E) (Amount c) (mm_ConversionFactor mm) price) (\<lambda>coinUSDValue.
       bnd (if bl_HasMaxLimit (mm_BorrowLimit mm) then
              bnd (case GetBorrowedCoins st of
                     None \<Rightarrow> Inr 0
                   | Some totalBorrowedCoins \<Rightarrow> checked_AmountOf (he_math E) totalBorrowedCoins (Denom c)) (\<lambda>assetTotal.
              bnd (toInt (he_math E) (assetTotal + Amount c)) (\<lambda>newTotal.
              if NewDecFromInt newTotal > bl_MaximumLimit (mm_BorrowLimit mm)
              then Inl (Err ''ErrGreaterThanAssetBorrowLimit'') else Inr ()))
            else Inr ()) (\<lambda>_.
       toDec (he_math E) (total + coinUSDValue))))) cs acc = Inr v" (is "foldR ?f cs acc = Inr v")
  shows "foldR (\<lambda>c total.
       bnd (market_price st (Denom c)) (\<lambda>(mm, price).
       bnd (usd_value (he_math E) (Amount c) (mm_ConversionFactor mm) price) (\<lambda>v. toDec (he_math E) (total + v)))) cs acc = Inr v \<and>
    (\<forall>c\<in>set cs. under_limit st c)"
  using assms
proof (induction cs arbitrary: acc)
  case (Cons c cs)
  obtain acc1 where s: "?f c acc = Inr acc1" "foldR ?f cs acc1 = Inr v" using Cons.prems by auto
  obtain mm p where mp: "market_price st (Denom c) = Inr (mm, p)" using s(1) by (auto simp: bnd_def split: sum.split_asm)
  have step: "bnd (usd_value (he_math E) (Amount c) (mm_ConversionFactor mm) p) (\<lambda>v. toDec (he_math E) (acc + v)) = Inr acc1"
    using s(1) mp by auto
  have "AmountOf (hs_borrowed st) (Denom c) = n" if "(case GetBorrowedCoins st of None \<Rightarrow> Inr 0
      | Some tot \<Rightarrow> checked_AmountOf (he_math E) tot (Denom c)) = Inr n" for n
    using that by (auto simp: GetBorrowedCoins_def found_coins_def checked_AmountOf_def split: if_split_asm)
  then have "under_limit st c"
    using s(1) mp market_price_Inr [OF mp] unfolding under_limit_def
    by (auto split: if_split_asm)
  then show ?case using Cons.IH [OF s(2)] step mp by auto
qed simp

lemma ValidateBorrow_ok:
  assumes "ValidateBorrow E st a cs = Inr ()"
  obtains deposit asked limit owed where "hard_GetDeposit st a = Some deposit" "coins_value E st cs = Inr asked"
    "borrowable_value E st (hd_Amount deposit) = Inr limit"
    "coins_value E st (case hard_GetBorrow st a of None \<Rightarrow> [] | Some b \<Rightarrow> hb_Amount b) = Inr owed"
    "asked + owed \<le> limit" "GetMinimumBorrowUSDValue st \<le> asked + owed" "\<forall>c\<in>set cs. under_limit st c"
    "check_borrowable E st cs = Inr ()"
proof -
  obtain asked where a: "check_borrowable E st cs = Inr ()" "proposed_value E st cs = Inr asked"
    using assms by (auto simp: ValidateBorrow_def split: if_split_asm)
  obtain deposit where d: "hard_GetDeposit st a = Some deposit"
    using assms a by (auto simp: ValidateBorrow_def split: if_split_asm option.split_asm)
  obtain limit owed where v: "borrowable_value E st (hd_Amount deposit) = Inr limit"
      "(case hard_GetBorrow st a of None \<Rightarrow> Inr 0 | Some b \<Rightarrow> coins_value E st (hb_Amount b)) = Inr owed"
      "\<not> asked + owed < GetMinimumBorrowUSDValue st" "\<not> asked > limit - owed"
    using assms a d by (auto simp: ValidateBorrow_def split: if_split_asm)
  have "coins_value E st (case hard_GetBorrow st a of None \<Rightarrow> [] | Some b \<Rightarrow> hb_Amount b) = Inr owed"
    using v(2) by (auto simp: coins_value_def split: option.split_asm)
  moreover have "coins_value E st cs = Inr asked \<and> (\<forall>c\<in>set cs. under_limit st c)"
    using proposed_value_fold [OF a(2) [unfolded proposed_value_def]] by (simp add: coins_value_def)
  ultimately show ?thesis using that [OF d _ v(1)] v(3,4) a(1) by auto
qed

section \<open>Withdraw and repay\<close>

lemma capped_coin_fold:
  assumes "\<forall>c\<in>set request. ValidDenom m (Denom c) \<and> 0 \<le> AmountOf limit (Denom c)"
  shows "foldR (capped_coin m limit) request acc =
     Inr (acc @ map (\<lambda>c. Coin (Denom c) (min (Amount c) (AmountOf limit (Denom c)))) request)"
  using assms
proof (induction request arbitrary: acc)
  case (Cons c request)
  then have "NewCoin m (Denom c) (AmountOf limit (Denom c)) = Inr (Coin (Denom c) (AmountOf limit (Denom c)))" by simp
  with Cons show ?case by (cases c) (simp add: min_def capped_coin_def checked_AmountOf_def)
qed simp

lemma capped_request:
  assumes E: "hard_laws E" and v: "coins_Valid (he_math E) limit" "coins_Valid (he_math E) request"
    and r: "bnd (DenomsSubsetOf (he_coins E) request limit) (\<lambda>sub.
      if \<not> sub then Inl err else foldR (capped_coin (he_math E) limit) request []) = Inr amount"
  shows "coins_Valid (he_math E) amount" "AmountOf amount d = min (AmountOf request d) (AmountOf limit d)"
proof -
  have ok: "\<forall>c\<in>set request. ValidDenom (he_math E) (Denom c) \<and> 0 \<le> AmountOf limit (Denom c)"
    using v(2) AmountOf_valid(1) [OF v(1)] by (simp add: coins_Valid_def)
  have sub: "Denom ` set request \<subseteq> Denom ` set limit"
      and am: "amount = map (\<lambda>c. Coin (Denom c) (min (Amount c) (AmountOf limit (Denom c)))) request"
    using r unfolding DenomsSubsetOf_eq [OF hard_lawsD(3) [OF E] v(2,1)] capped_coin_fold [OF ok] by (auto split: if_split_asm)
  show "coins_Valid (he_math E) amount" "AmountOf amount d = min (AmountOf request d) (AmountOf limit d)"
    using capped_coins [OF v sub am] by blast+
qed

lemma hs_pay_Inr: "hs_pay f st = Inr st' \<longleftrightarrow> (\<exists>b. f (hs_bank st) = Inr b \<and> st' = hs_set_bank b st)"
  by (auto simp: hs_pay_def)

lemma hard_Withdraw_ok:
  assumes E: "hard_laws E" and wf: "hard_wf (he_math E) st" and cs: "coins_Valid (he_math E) cs"
    and r: "hard_Withdraw E st a cs = Inr st'"
  obtains st2 amount rest where "acted (he_math E) a st st2 st'" "coins_Valid (he_math E) amount"
    "\<forall>d. AmountOf amount d = min (AmountOf cs d) (dep_at st2 a d)"
    "SendCoinsFromModuleToAccount (he_sdk E) (hs_bank st) hard_module a amount = Inr (hs_bank st')"
    "\<forall>d. AmountOf (hs_supplied st') d = max 0 (AmountOf (hs_supplied st) d - AmountOf amount d)" "hs_borrowed st' = hs_borrowed st"
    "\<forall>d. dep_at st' a d = dep_at st2 a d - AmountOf amount d" "hard_GetBorrow st' = hard_GetBorrow st2"
    "coins_Valid (he_math E) rest" "\<forall>d. AmountOf rest d = dep_at st' a d"
    "IsWithinValidLtvRange E st2 \<lparr>hd_Depositor = a, hd_Amount = rest, hd_Index = []\<rparr>
       (case hard_GetBorrow st2 a of None \<Rightarrow> empty_borrow | Some b \<Rightarrow> b) = Inr True"
proof -
  let ?m = "he_math E"
  obtain old where old: "hard_GetDeposit st a = Some old" using r by (auto simp: hard_Withdraw_def split: option.split_asm)
  obtain st1 st2 st3 st4 where s: "hard_BeforeDepositModified E st old = Inr st1" "before_borrow E a st1 = Inr st2"
      "SyncBorrowInterest E st2 a = Inr st3" "SyncSupplyInterest E st3 a = Inr st4"
    using r old by (auto simp: hard_Withdraw_def)
  have s1: "settled ?m a st st1" by (rule settled_hooks [OF wf hard_call_hooks [OF s(1) [unfolded hard_hook_defs]]])
  have s2: "settled ?m a st st2" by (rule settled_trans [OF s1 settled_hooks [OF settledD(2) [OF s1] before_hooks(2) [OF s(2)]]])
  have s3: "settled ?m a st st3"
    using settled_trans [OF s2] SyncBorrowInterest_settled [OF E settledD(2) [OF s2] s(3)] by blast
  have s4: "settled ?m a st st4"
    using settled_trans [OF s3] SyncSupplyInterest_settled [OF E settledD(2) [OF s3] s(4)] by blast
  note wf4 = settledD(2) [OF s4] and same = same_booksD [OF settledD(1) [OF s4]]
  obtain dep where dep: "hard_GetDeposit st4 a = Some dep" using settledD(7) [OF s4] old by auto
  note d4 = hard_wfD(1) [OF wf4 dep]
  have at4: "dep_at st4 a = AmountOf (hd_Amount dep)" by (simp add: dep_at_def dep fun_eq_iff)
  let ?b = "case hard_GetBorrow st4 a of None \<Rightarrow> empty_borrow | Some b \<Rightarrow> b"
  obtain amount rest st5 index st6 where am: "hard_CalculateWithdrawAmount E (hd_Amount dep) cs = Inr amount"
      and rest: "CoinsSub (he_coins E) (hd_Amount dep) amount = Inr rest"
      and range: "IsWithinValidLtvRange E st4 \<lparr>hd_Depositor = hd_Depositor dep, hd_Amount = rest, hd_Index = []\<rparr> ?b = Inr True"
      and pay: "hs_pay (\<lambda>b. SendCoinsFromModuleToAccount (he_sdk E) b hard_module a amount) st4 = Inr st5"
      and dec: "DecrementSuppliedCoins E (store_deposit st5 (dep\<lparr>hd_Amount := rest, hd_Index := index\<rparr>)) amount = Inr st6"
      and hook: "hard_AfterDepositModified E st6 (dep\<lparr>hd_Amount := rest, hd_Index := index\<rparr>) = Inr st'"
    using r old s dep unfolding hard_Withdraw_def Let_def by (auto split: if_split_asm)
  note amount = capped_request [OF E conjunct2 [OF d4] cs am [unfolded hard_CalculateWithdrawAmount_def]]
  note left = CoinsSub_amount [OF hard_lawsD(3) [OF E] conjunct2 [OF d4] amount(1) rest]
  obtain b where b: "SendCoinsFromModuleToAccount (he_sdk E) (hs_bank st) hard_module a amount = Inr b" "st5 = hs_set_bank b st4"
    using pay same(7) by (auto simp: hs_pay_Inr)
  let ?st = "store_deposit st5 (dep\<lparr>hd_Amount := rest, hd_Index := index\<rparr>)"
  obtain t where t: "st6 = SetSuppliedCoins ?st t" "coins_Valid ?m t"
      "\<forall>d. AmountOf t d = max 0 (AmountOf (hs_supplied st4) d - AmountOf amount d)"
    using DecrementSuppliedCoins_ok [OF E _ coins_Valid_Loose [OF amount(1)] dec] hard_wfD(4) [OF wf4] b(2) by auto
  obtain h where h: "st' = st6\<lparr>hs_hooks := h\<rparr>" using hard_call_hooks [OF hook [unfolded hard_hook_defs]] by blast
  have acted: "acted ?m a st st4 st'"
    by (rule actedI [OF s4]) (use left(1) t(2) d4 hard_wfD(2,3) [OF wf4] in \<open>auto simp: h t(1) b(2) split: if_split_asm\<close>)
  have "dep_at st' a d = dep_at ?st a d" for d by (simp add: h t(1) dep_at_def)
  then have at: "dep_at st' a d = AmountOf rest d" for d using d4 by (simp add: dep_at_store)
  show ?thesis
    by (rule that [OF acted amount(1) _ _ _ _ _ _ left(1)])
      (use amount(2) b t(3) same left(2) at range d4 in \<open>simp_all add: h t(1) at4\<close>)
qed

lemma hard_Repay_ok:
  assumes E: "hard_laws E" and wf: "hard_wf (he_math E) st" and cs: "coins_Valid (he_math E) cs"
    and r: "hard_Repay E st sender a cs = Inr st'"
  obtains st2 payment where "acted (he_math E) a st st2 st'" "coins_Valid (he_math E) payment"
    "\<forall>d. AmountOf payment d = min (AmountOf cs d) (bor_at st2 a d)"
    "SendCoinsFromAccountToModule (he_sdk E) (hs_bank st) sender hard_module payment = Inr (hs_bank st')"
    "\<forall>d. AmountOf (hs_borrowed st') d = max 0 (AmountOf (hs_borrowed st) d - AmountOf payment d)" "hs_supplied st' = hs_supplied st"
    "\<forall>d. bor_at st' a d = bor_at st2 a d - AmountOf payment d" "hard_GetDeposit st' = hard_GetDeposit st"
    "ValidateRepay E st2 sender a payment = Inr ()"
proof -
  let ?m = "he_math E"
  obtain old where old: "hard_GetBorrow st a = Some old" using r by (auto simp: hard_Repay_def split: option.split_asm)
  obtain st1 st2 where s: "hard_BeforeBorrowModified E st old = Inr st1" "SyncBorrowInterest E st1 a = Inr st2"
    using r old by (auto simp: hard_Repay_def)
  note h1 = hard_call_hooks [OF s(1) [unfolded hard_hook_defs]]
  have s1: "settled ?m a st st1" by (rule settled_hooks [OF wf h1])
  have sync: "settled ?m a st1 st2 \<and> (\<forall>x. hard_GetDeposit st2 x = hard_GetDeposit st1 x)"
    by (rule SyncBorrowInterest_settled [OF E settledD(2) [OF s1] s(2)])
  have s2: "settled ?m a st st2" using settled_trans [OF s1] sync by blast
  note wf2 = settledD(2) [OF s2] and same = same_booksD [OF settledD(1) [OF s2]]
  obtain bor where bor: "hard_GetBorrow st2 a = Some bor" using settledD(8) [OF s2] old by auto
  note d2 = hard_wfD(2) [OF wf2 bor]
  have at2: "bor_at st2 a = AmountOf (hb_Amount bor)" by (simp add: bor_at_def bor fun_eq_iff)
  obtain payment st3 index rest st4 where pm: "CalculatePaymentAmount E (hb_Amount bor) cs = Inr payment"
      and val: "ValidateRepay E st2 sender a payment = Inr ()"
      and pay: "hs_pay (\<lambda>b. SendCoinsFromAccountToModule (he_sdk E) b sender hard_module payment) st2 = Inr st3"
      and rest: "CoinsSub (he_coins E) (hb_Amount bor) payment = Inr rest"
      and dec: "DecrementBorrowedCoins E (store_borrow st3 (bor\<lparr>hb_Amount := rest, hb_Index := index\<rparr>)) payment = Inr st4"
      and hook: "hard_AfterBorrowModified E st4 (bor\<lparr>hb_Amount := rest, hb_Index := index\<rparr>) = Inr st'"
    using r old s bor unfolding hard_Repay_def Let_def by auto
  note payment = capped_request [OF E conjunct2 [OF d2] cs pm [unfolded CalculatePaymentAmount_def]]
  note left = CoinsSub_amount [OF hard_lawsD(3) [OF E] conjunct2 [OF d2] payment(1) rest]
  obtain b where b: "SendCoinsFromAccountToModule (he_sdk E) (hs_bank st) sender hard_module payment = Inr b" "st3 = hs_set_bank b st2"
    using pay same(7) by (auto simp: hs_pay_Inr)
  let ?st = "store_borrow st3 (bor\<lparr>hb_Amount := rest, hb_Index := index\<rparr>)"
  obtain t where t: "st4 = SetBorrowedCoins ?st t" "coins_Valid ?m t"
      "\<forall>d. AmountOf t d = max 0 (AmountOf (hs_borrowed st2) d - AmountOf payment d)"
    using DecrementBorrowedCoins_ok [OF E _ coins_Valid_Loose [OF payment(1)] dec] hard_wfD(3) [OF wf2] b(2) by auto
  obtain h where h: "st' = st4\<lparr>hs_hooks := h\<rparr>" using hard_call_hooks [OF hook [unfolded hard_hook_defs]] by blast
  have acted: "acted ?m a st st2 st'"
    by (rule actedI [OF s2]) (use left(1) t(2) d2 hard_wfD(1,4) [OF wf2] in \<open>auto simp: h t(1) b(2) split: if_split_asm\<close>)
  have "bor_at st' a d = bor_at ?st a d" for d by (simp add: h t(1) bor_at_def)
  then have at: "bor_at st' a d = AmountOf rest d" for d using d2 by (simp add: dep_at_store)
  have "hard_GetDeposit st2 = hard_GetDeposit st" using sync h1 by (auto simp: fun_eq_iff)
  then have dep: "hard_GetDeposit st' = hard_GetDeposit st" by (simp add: h t(1) b(2))
  show ?thesis
    by (rule that [OF acted payment(1) _ _ _ _ _ dep val])
      (use payment(2) b t(3) same left(2) at in \<open>simp_all add: h t(1) at2\<close>)
qed

section \<open>Liquidation\<close>

text \<open>Seizing a deposit changes the totals and the auctions, but no record.\<close>

definition taken_over :: "sdk_math \<Rightarrow> ('b, 'h) hard_state \<Rightarrow> ('b, 'h) hard_state \<Rightarrow> bool" where
  "taken_over m st st' \<longleftrightarrow>
     hs_deposits st' = hs_deposits st \<and> hs_borrows st' = hs_borrows st \<and> hs_params st' = hs_params st \<and>
     hs_markets st' = hs_markets st \<and> hs_prices st' = hs_prices st \<and> hs_reserves st' = hs_reserves st \<and>
     (coins_Valid m (hs_borrowed st) \<and> coins_Valid m (hs_supplied st) \<longrightarrow>
        coins_Valid m (hs_borrowed st') \<and> coins_Valid m (hs_supplied st'))"

lemma taken_over_refl [simp]: "taken_over m st st"
  and taken_over_trans: "taken_over m s t \<Longrightarrow> taken_over m t u \<Longrightarrow> taken_over m s u"
  by (auto simp: taken_over_def)

lemma taken_over_bank: "hs_pay f st = Inr st' \<Longrightarrow> taken_over m st st'"
  by (auto simp: hs_pay_Inr taken_over_def hs_set_bank_def)

lemma DecrementSuppliedCoins_taken_over:
  assumes "hard_laws E" "coins_Loose (he_math E) cs" "DecrementSuppliedCoins E st cs = Inr st'"
  shows "taken_over (he_math E) st st'"
proof -
  obtain t where t: "st' = SetSuppliedCoins st t"
    using assms(3) by (auto simp: DecrementSuppliedCoins_def split: option.split_asm)
  have "coins_Valid (he_math E) t" if "coins_Valid (he_math E) (hs_supplied st)"
    using DecrementSuppliedCoins_ok [OF assms(1) that assms(2,3)] set_totals_frame(5) t by metis
  then show ?thesis by (simp add: taken_over_def t SetSuppliedCoins_def)
qed

lemma DecrementBorrowedCoins_taken_over:
  assumes "hard_laws E" "coins_Loose (he_math E) cs" "DecrementBorrowedCoins E st cs = Inr st'"
  shows "taken_over (he_math E) st st'"
proof -
  obtain t where t: "st' = SetBorrowedCoins st t"
    using assms(3) by (auto simp: DecrementBorrowedCoins_def split: option.split_asm)
  have "coins_Valid (he_math E) t" if "coins_Valid (he_math E) (hs_borrowed st)"
    using DecrementBorrowedCoins_ok [OF assms(1) that assms(2,3)] set_totals_frame(13) t by metis
  then show ?thesis by (simp add: taken_over_def t SetBorrowedCoins_def)
qed

lemma sell_lot_taken_over:
  assumes E: "hard_laws E" and c: "coin_IsValid (he_math E) bid" "coin_IsValid (he_math E) lot0"
    and r: "sell_lot E borrower maccCoins v bid lot0 = Inr (v', ins)"
  shows "taken_over (he_math E) (lv_state v) (lv_state v')"
proof -
  obtain lot auctions i st1 st2 where lot: "(if Amount lot0 > AmountOf maccCoins (Denom lot0)
        then NewCoin (he_math E) (Denom lot0) (AmountOf maccCoins (Denom lot0)) else Inr lot0) = Inr lot"
      and s: "DecrementSuppliedCoins E ((lv_state v)\<lparr>hs_auction := auctions\<rparr>) [lot] = Inr st1"
        "DecrementBorrowedCoins E st1 [bid] = Inr st2" and v': "lv_state v' = st2"
    using r unfolding sell_lot_def Let_def checked_AmountOf_def by (auto split: if_split_asm)
  have "coins_Loose (he_math E) [lot]" using lot c(2) by (auto simp: coin_IsValid_def split: if_split_asm)
  moreover have "coins_Loose (he_math E) [bid]" using c(1) by (simp add: coin_IsValid_def)
  moreover have "taken_over (he_math E) (lv_state v) ((lv_state v)\<lparr>hs_auction := auctions\<rparr>)" by (simp add: taken_over_def)
  ultimately show ?thesis
    using DecrementSuppliedCoins_taken_over [OF E _ s(1)] DecrementBorrowedCoins_taken_over [OF E _ s(2)] v' taken_over_trans by blast
qed

lemma sell_deposits_taken_over:
  assumes E: "hard_laws E"
  shows "sell_deposits E borrower maccCoins liqMap ltv bKey dKeys v = Inr v' \<Longrightarrow>
    taken_over (he_math E) (lv_state v) (lv_state v')"
proof (induction dKeys arbitrary: v)
  case (Cons dKey dKeys)
  have whole: "taken_over (he_math E) (lv_state v) (lv_state w)" if "sell_whole E borrower maccCoins liqMap bKey dKey v = Inr w" for w
    using that unfolding sell_whole_def
    by (auto simp: coin_IsValid_def split: if_split_asm prod.split_asm dest!: sell_lot_taken_over [OF E, rotated 2])
  have part: "taken_over (he_math E) (lv_state v) (lv_state w)"
    if "sell_part E borrower maccCoins liqMap ltv bKey dKey dValue v = Inr w" for w dValue
    using that unfolding sell_part_def
    by (auto simp: coin_IsValid_def split: if_split_asm prod.split_asm dest!: sell_lot_taken_over [OF E, rotated 2])
  show ?case
  proof (cases "lv_maxLotSize v = 0")
    case True
    then show ?thesis using Cons.prems by auto
  next
    case False
    then obtain dValue w where w: "(if dValue \<ge> lv_maxLotSize v then sell_whole E borrower maccCoins liqMap bKey dKey v
        else sell_part E borrower maccCoins liqMap ltv bKey dKey dValue v) = Inr w"
        "sell_deposits E borrower maccCoins liqMap ltv bKey dKeys w = Inr v'"
      using Cons.prems by auto
    have "taken_over (he_math E) (lv_state v) (lv_state w)" using w(1) whole part by (auto split: if_split_asm)
    then show ?thesis using Cons.IH [OF w(2)] taken_over_trans by blast
  qed
qed simp

lemma StartAuctions_taken_over:
  assumes E: "hard_laws E" and r: "StartAuctions E st borrower borrows deposits dVals bVals ltv liqMap = Inr (st', liquidated)"
  shows "taken_over (he_math E) st st'"
proof -
  let ?macc = "SpendableCoins (he_sdk E) (hs_bank st) (ModuleAddress (he_sdk E) hard_module)"
  obtain debt v where v: "foldR (sell_for E borrower ?macc liqMap ltv (valuation_GetSortedKeys dVals)) (valuation_GetSortedKeys bVals)
             \<lparr>lv_state = st, lv_borrows = borrows, lv_deposits = deposits, lv_dValues = dVals,
              lv_bValues = bVals, lv_liquidated = [], lv_maxLotSize = 0, lv_debt = debt\<rparr> = Inr v"
      and ret: "foldR (return_rest E borrower (lv_deposits v)) (valuation_GetSortedKeys dVals) (lv_state v) = Inr st'"
    using r by (auto simp: StartAuctions_def Let_def)
  have "taken_over (he_math E) st (lv_state v)"
  proof (rule foldR_invariant [where P = "\<lambda>v. taken_over (he_math E) st (lv_state v)", OF v])
    fix bKey s s'
    assume "taken_over (he_math E) st (lv_state s)"
      and "sell_for E borrower ?macc liqMap ltv (valuation_GetSortedKeys dVals) bKey s = Inr s'"
    then show "taken_over (he_math E) st (lv_state s')"
      using sell_deposits_taken_over [OF E] taken_over_trans unfolding sell_for_def by (fastforce simp: valuation_Get_def)
  qed simp
  moreover have "taken_over (he_math E) (lv_state v) st'"
  proof (rule foldR_invariant [where P = "taken_over (he_math E) (lv_state v)", OF ret])
    fix dKey s s'
    assume "taken_over (he_math E) (lv_state v) s" and "return_rest E borrower (lv_deposits v) dKey s = Inr s'"
    then show "taken_over (he_math E) (lv_state v) s'"
      using taken_over_bank taken_over_trans unfolding return_rest_def by (auto split: if_split_asm) blast
  qed simp
  ultimately show ?thesis by (rule taken_over_trans)
qed

lemma keeper_reward_valid:
  assumes "coins_Valid m cs" "foldR (keeper_reward E st) cs acc = Inr r" "m = he_math E"
    "coins_Valid m acc" "\<forall>x\<in>set acc. \<forall>y\<in>set cs. Denom x < Denom y"
  shows "coins_Valid m r"
  using assms(1,2,4,5)
proof (induction cs arbitrary: acc)
  case (Cons c cs)
  obtain acc1 where s: "keeper_reward E st c acc = Inr acc1" "foldR (keeper_reward E st) cs acc1 = Inr r" using Cons.prems(2) by auto
  have "acc1 = acc \<or> (\<exists>n>0. ValidDenom m (Denom c) \<and> acc1 = acc @ [Coin (Denom c) n])"
    using s(1) assms(3) by (auto simp: keeper_reward_def split: option.split_asm if_split_asm)
  then have "coins_Valid m acc1 \<and> (\<forall>x\<in>set acc1. \<forall>y\<in>set cs. Denom x < Denom y)"
    using Cons.prems(1,3,4) by (auto simp: coins_Valid_def sorted_wrt_append)
  then show ?case using Cons.IH [OF _ s(2)] Cons.prems(1) by (simp add: coins_Valid_Cons)
qed simp

lemma SeizeDeposits_taken_over:
  assumes E: "hard_laws E" and v: "coins_Valid (he_math E) (hd_Amount deposit)"
    and r: "SeizeDeposits E st keeper deposit borrow = Inr st'"
  shows "taken_over (he_math E) st st'"
proof -
  obtain rewards st1 where rw: "foldR (keeper_reward E st) (hd_Amount deposit) [] = Inr rewards"
      and pay: "pay_keeper E st keeper rewards = Inr st1"
      and rest: "st' = st1 \<or> (\<exists>borrower borrows deposits dVals bVals ltv liqMap liquidated.
        StartAuctions E st1 borrower borrows deposits dVals bVals ltv liqMap = Inr (st', liquidated))"
    using r unfolding SeizeDeposits_def by (fastforce split: if_split_asm)
  have "coins_Loose (he_math E) rewards" by (rule coins_Valid_Loose [OF keeper_reward_valid [OF v rw refl]]) auto
  then have "taken_over (he_math E) st st1"
    using pay DecrementSuppliedCoins_taken_over [OF E] taken_over_bank taken_over_trans unfolding pay_keeper_def
    by (auto split: if_split_asm) blast
  then show ?thesis using rest StartAuctions_taken_over [OF E] taken_over_trans by blast
qed

lemma taken_over_records:
  assumes "taken_over m st st'"
  shows "hard_GetDeposit st' = hard_GetDeposit st" "hard_GetBorrow st' = hard_GetBorrow st" "hard_wf m st \<Longrightarrow> hard_wf m st'"
  using assms by (simp_all add: taken_over_def hard_GetDeposit_def hard_GetBorrow_def fun_eq_iff hard_wf_def)

lemma hard_AttemptKeeperLiquidation_ok:
  assumes E: "hard_laws E" and wf: "hard_wf (he_math E) st" and r: "hard_AttemptKeeperLiquidation E st keeper a = Inr st'"
  obtains st2 deposit borrow where "acted (he_math E) a st st2 st'"
    "hard_GetDeposit st2 a = Some deposit" "hard_GetBorrow st2 a = Some borrow"
    "IsWithinValidLtvRange E st2 deposit borrow = Inr False"
    "hard_GetDeposit st' a = None" "hard_GetBorrow st' a = None"
    "\<exists>h st1. SyncBorrowInterest E (st\<lparr>hs_hooks := h\<rparr>) a = Inr st1 \<and> SyncSupplyInterest E st1 a = Inr st2"
proof -
  let ?m = "he_math E"
  obtain old0 old1 where old: "hard_GetDeposit st a = Some old0" "hard_GetBorrow st a = Some old1"
    using r by (auto simp: hard_AttemptKeeperLiquidation_def split: option.split_asm)
  obtain st1 st2 st3 st4 where s: "hard_BeforeDepositModified E st old0 = Inr st1" "hard_BeforeBorrowModified E st1 old1 = Inr st2"
      "SyncBorrowInterest E st2 a = Inr st3" "SyncSupplyInterest E st3 a = Inr st4"
    using r old by (auto simp: hard_AttemptKeeperLiquidation_def)
  have "\<exists>h. st2 = st\<lparr>hs_hooks := h\<rparr>"
    using hard_call_hooks [OF s(1) [unfolded hard_hook_defs]] hard_call_hooks [OF s(2) [unfolded hard_hook_defs]] by auto
  then have synced: "\<exists>h st1. SyncBorrowInterest E (st\<lparr>hs_hooks := h\<rparr>) a = Inr st1 \<and> SyncSupplyInterest E st1 a = Inr st4"
    using s(3,4) by blast
  have s1: "settled ?m a st st1" by (rule settled_hooks [OF wf hard_call_hooks [OF s(1) [unfolded hard_hook_defs]]])
  have s2: "settled ?m a st st2"
    by (rule settled_trans [OF s1 settled_hooks [OF settledD(2) [OF s1] hard_call_hooks [OF s(2) [unfolded hard_hook_defs]]]])
  have s3: "settled ?m a st st3"
    using settled_trans [OF s2] SyncBorrowInterest_settled [OF E settledD(2) [OF s2] s(3)] by blast
  have s4: "settled ?m a st st4"
    using settled_trans [OF s3] SyncSupplyInterest_settled [OF E settledD(2) [OF s3] s(4)] by blast
  note wf4 = settledD(2) [OF s4]
  obtain deposit borrow where rec: "hard_GetDeposit st4 a = Some deposit" "hard_GetBorrow st4 a = Some borrow"
    using settledD(7,8) [OF s4] old by auto
  obtain st5 st6 where x: "IsWithinValidLtvRange E st4 deposit borrow = Inr False" "SeizeDeposits E st4 keeper deposit borrow = Inr st5"
      "hard_AfterDepositModified E (hard_DeleteDeposit st5 (deposit\<lparr>hd_Amount := []\<rparr>)) (deposit\<lparr>hd_Amount := []\<rparr>) = Inr st6"
      "hard_AfterBorrowModified E (hard_DeleteBorrow st6 (borrow\<lparr>hb_Amount := []\<rparr>)) (borrow\<lparr>hb_Amount := []\<rparr>) = Inr st'"
    using r old s rec unfolding hard_AttemptKeeperLiquidation_def Let_def by (auto split: if_split_asm)
  obtain h6 h' where h: "st6 = (hard_DeleteDeposit st5 (deposit\<lparr>hd_Amount := []\<rparr>))\<lparr>hs_hooks := h6\<rparr>"
      "st' = (hard_DeleteBorrow st6 (borrow\<lparr>hb_Amount := []\<rparr>))\<lparr>hs_hooks := h'\<rparr>"
    using hard_call_hooks [OF x(3) [unfolded hard_hook_defs]] hard_call_hooks [OF x(4) [unfolded hard_hook_defs]] by blast
  have o: "hd_Depositor deposit = a" "hb_Borrower borrow = a" using hard_wfD(1,2) [OF wf4] rec by auto
  have z: "taken_over ?m st4 st5"
    using SeizeDeposits_taken_over [OF E _ x(2)] hard_wfD(1) [OF wf4 rec(1)] by blast
  note zr = taken_over_records(1,2) [OF z]
  have books: "same_books st5 st'" unfolding h
    by (simp add: same_books_def hard_DeleteDeposit_def hard_DeleteBorrow_def)
  have gone: "hard_GetDeposit st' a = None" "hard_GetBorrow st' a = None" by (simp_all add: h o)
  have others: "hard_GetDeposit st' x = hard_GetDeposit st4 x \<and> hard_GetBorrow st' x = hard_GetBorrow st4 x" if "x \<noteq> a" for x
    using that by (simp add: h o zr)
  have "acted ?m a st st4 st'"
    by (rule actedI [OF s4 others])
      (use gone same_booksD [OF books] z hard_wfD(3-5) [OF wf4] in \<open>simp_all add: taken_over_def\<close>)
  then show ?thesis using that rec x(1) gone synced by blast
qed

end
