(* ===== verification/Hard_Reach.thy ===== *)
theory Hard_Reach
  imports Hard_Positions
begin

text \<open>
  The begin blocker and genesis of \<open>x/hard\<close>, the reachable states, and the properties of the module: what can be borrowed
  and withdrawn, who is liquidated, how interest is shared, and that no operation but a liquidation spends money that
  belongs to depositors or to the reserves.
\<close>

section \<open>Rates\<close>

lemma DecMul_range:
  assumes "math_laws m" "DecMul m a b = Inr c"
  shows "0 \<le> a * b \<Longrightarrow> 0 \<le> c" "a * b \<le> k * Precision \<Longrightarrow> c \<le> k"
proof -
  define x where "x = a * b"
  define y where "y = \<bar>c * Precision - x\<bar>"
  have near: "2 * y \<le> Precision" unfolding x_def y_def by (rule DecMul_bound [OF assms])
  have y: "c * Precision - x \<le> y" "x - c * Precision \<le> y" by (simp_all add: y_def)
  show "0 \<le> a * b \<Longrightarrow> 0 \<le> c" using near y unfolding x_def [symmetric] by linarith
  show "a * b \<le> k * Precision \<Longrightarrow> c \<le> k" using near y unfolding x_def [symmetric] by linarith
qed

lemma CalculateUtilizationRatio_range:
  assumes "math_laws m" "CalculateUtilizationRatio m cash borrows reserves = Inr u" "0 \<le> borrows"
  shows "0 \<le> u \<and> u \<le> OneDec"
proof (cases "borrows = 0 \<or> cash + borrows - reserves < 0")
  case True
  then show ?thesis using assms(2) by (auto simp: CalculateUtilizationRatio_def OneDec_def split: if_split_asm)
next
  case False
  then obtain q where q: "DecQuo m borrows (cash + borrows - reserves) = Inr q" "u = min OneDec q"
    using assms(2) by (auto simp: CalculateUtilizationRatio_def)
  have "cash + borrows - reserves \<noteq> 0" using q(1) assms(1) unfolding math_laws_def quo_law_def by blast
  then have "0 \<le> q" using DecQuo_lower [OF assms(1) q(1), of 0] assms(3) False by simp
  then show ?thesis using q(2) by (simp add: OneDec_def)
qed

lemma CalculateBorrowRate_range:
  assumes "math_laws m" "InterestRateModel_Validate model = Inr ()" "0 \<le> borrows"
    "CalculateBorrowRate m model cash borrows reserves = Inr r"
  shows "irm_BaseRateAPY model \<le> r \<and> r \<le> irm_BaseRateAPY model + irm_BaseMultiplier model + irm_JumpMultiplier model"
proof -
  have v: "0 \<le> irm_BaseMultiplier model" "0 \<le> irm_Kink model" "irm_Kink model \<le> OneDec" "0 \<le> irm_JumpMultiplier model"
    using assms(2) by (auto simp: InterestRateModel_Validate_def split: if_split_asm)
  obtain u where u: "CalculateUtilizationRatio m cash borrows reserves = Inr u"
    using assms(4) by (auto simp: CalculateBorrowRate_def)
  have range: "0 \<le> u" "u \<le> Precision" using CalculateUtilizationRatio_range [OF assms(1) u assms(3)] by (simp_all add: OneDec_def)
  have part: "0 \<le> p \<and> p \<le> k" if "DecMul m x k = Inr p" "0 \<le> x" "x \<le> Precision" "0 \<le> k" for x k p
    using DecMul_range [OF assms(1) that(1)] mult_right_mono [OF that(3,4)] that(2,4) by (simp add: mult.commute)
  show ?thesis
  proof (cases "u \<le> irm_Kink model")
    case True
    then obtain p where "DecMul m u (irm_BaseMultiplier model) = Inr p" "r = p + irm_BaseRateAPY model"
      using assms(4) u by (auto simp: CalculateBorrowRate_def)
    then show ?thesis using part [of u "irm_BaseMultiplier model" p] range v by simp
  next
    case False
    then obtain p q where p: "DecMul m (irm_Kink model) (irm_BaseMultiplier model) = Inr p"
        "DecMul m (u - irm_Kink model) (irm_JumpMultiplier model) = Inr q" "r = q + (p + irm_BaseRateAPY model)"
      using assms(4) u by (auto simp: CalculateBorrowRate_def)
    then show ?thesis
      using part [OF p(1)] part [OF p(2)] range v False by (simp add: OneDec_def)
  qed
qed

section \<open>Interest of the markets\<close>

text \<open>
  \<open>accrued st st'\<close>: from \<open>st\<close> to \<open>st'\<close> borrowers owe \<open>i d\<close> more of each denomination \<open>d\<close>, of which \<open>r d\<close> went to the
  reserves and the rest to depositors; records and balances are untouched.
\<close>

definition accrued :: "sdk_math \<Rightarrow> ('b, 'h) hard_state \<Rightarrow> ('b, 'h) hard_state \<Rightarrow> bool" where
  "accrued m st st' \<longleftrightarrow>
     hs_deposits st' = hs_deposits st \<and> hs_borrows st' = hs_borrows st \<and> hs_auction st' = hs_auction st \<and>
     hs_prices st' = hs_prices st \<and> hs_params st' = hs_params st \<and> hard_wf m st' \<and>
     (\<exists>i r. \<forall>d. 0 \<le> r d \<and> r d \<le> i d \<and>
        AmountOf (hs_borrowed st') d = AmountOf (hs_borrowed st) d + i d \<and>
        AmountOf (hs_supplied st') d = AmountOf (hs_supplied st) d + (i d - r d) \<and>
        AmountOf (hs_reserves st') d = AmountOf (hs_reserves st) d + r d)"

lemma accrued_frame:
  assumes "hard_wf m st" "hs_deposits st' = hs_deposits st" "hs_borrows st' = hs_borrows st" "hs_auction st' = hs_auction st"
    "hs_prices st' = hs_prices st" "hs_params st' = hs_params st" "hs_borrowed st' = hs_borrowed st"
    "hs_supplied st' = hs_supplied st" "hs_reserves st' = hs_reserves st"
  shows "accrued m st st'"
proof -
  have "hard_wf m st'" using assms by (simp add: hard_wf_def hard_GetDeposit_def hard_GetBorrow_def)
  moreover have "\<exists>i r. \<forall>d::denom. 0 \<le> r d \<and> r d \<le> i d \<and> i d = 0 \<and> r d = (0::int)"
    by (intro exI [of _ "\<lambda>_. 0"]) simp
  ultimately show ?thesis unfolding accrued_def using assms(2-9) by (metis add.right_neutral diff_zero)
qed

lemma accrued_trans:
  assumes "accrued m s t" "accrued m t u"
  shows "accrued m s u"
proof -
  obtain i r where a: "\<forall>d. 0 \<le> r d \<and> r d \<le> i d \<and> AmountOf (hs_borrowed t) d = AmountOf (hs_borrowed s) d + i d \<and>
      AmountOf (hs_supplied t) d = AmountOf (hs_supplied s) d + (i d - r d) \<and>
      AmountOf (hs_reserves t) d = AmountOf (hs_reserves s) d + r d" using assms(1) unfolding accrued_def by blast
  obtain j q where b: "\<forall>d. 0 \<le> q d \<and> q d \<le> j d \<and> AmountOf (hs_borrowed u) d = AmountOf (hs_borrowed t) d + j d \<and>
      AmountOf (hs_supplied u) d = AmountOf (hs_supplied t) d + (j d - q d) \<and>
      AmountOf (hs_reserves u) d = AmountOf (hs_reserves t) d + q d" using assms(2) unfolding accrued_def by blast
  have "0 \<le> r d + q d \<and> r d + q d \<le> i d + j d \<and> AmountOf (hs_borrowed u) d = AmountOf (hs_borrowed s) d + (i d + j d) \<and>
      AmountOf (hs_supplied u) d = AmountOf (hs_supplied s) d + (i d + j d - (r d + q d)) \<and>
      AmountOf (hs_reserves u) d = AmountOf (hs_reserves s) d + (r d + q d)" for d
    using a [rule_format, of d] b [rule_format, of d] by linarith
  then have "\<exists>i r. \<forall>d. 0 \<le> r d \<and> r d \<le> i d \<and> AmountOf (hs_borrowed u) d = AmountOf (hs_borrowed s) d + i d \<and>
      AmountOf (hs_supplied u) d = AmountOf (hs_supplied s) d + (i d - r d) \<and>
      AmountOf (hs_reserves u) d = AmountOf (hs_reserves s) d + r d"
    by (intro exI [of _ "\<lambda>d. i d + j d"] exI [of _ "\<lambda>d. r d + q d"]) blast
  then show ?thesis using assms unfolding accrued_def by simp
qed

lemma book_interest_accrued:
  assumes E: "hard_laws E" and wf: "hard_wf (he_math E) st"
    and r: "book_interest E now st denom mm bp sp bf cash borrowed (hs_reserves st) ro interest = Inr st'"
  shows "accrued (he_math E) st st'"
proof -
  let ?m = "he_math E"
  obtain ic sc part bn sn t3 s4 rs st3 st4 where
      n: "NewCoin ?m denom interest = Inr (Coin denom interest)" "NewCoins (he_sdk E) [Coin denom interest] = Inr ic"
        "NewCoin ?m denom (interest - part) = Inr (Coin denom (interest - part))" "NewCoins (he_sdk E) [Coin denom (interest - part)] = Inr sc"
      and inc: "IncrementBorrowedCoins E (SetSupplyInterestFactor (SetBorrowInterestFactor st denom bn) denom sn) ic = Inr st3"
        "IncrementSuppliedCoins E st3 sc = Inr st4"
      and res: "add_coin E (hs_reserves st) denom part = Inr rs"
      and st': "st' = hard_SetPreviousAccrualTime (SetTotalReserves st4 rs) denom now"
    using r unfolding book_interest_def Let_def by auto
  note S = hard_lawsD(1) [OF E] and v = hard_wfD [OF wf]
  let ?st = "SetSupplyInterestFactor (SetBorrowInterestFactor st denom bn) denom sn"
  have b0: "hs_borrowed ?st = hs_borrowed st" "hs_supplied ?st = hs_supplied st"
    by (simp_all add: SetSupplyInterestFactor_def SetBorrowInterestFactor_def)
  obtain t where t: "st3 = SetBorrowedCoins ?st t" "coins_Valid ?m t" "\<forall>d. AmountOf t d = AmountOf (hs_borrowed st) d + AmountOf ic d"
    using IncrementBorrowedCoins_ok [OF E _ NewCoins_valid [OF S n(2)] inc(1)] v(3) b0 by auto
  obtain u where u: "st4 = SetSuppliedCoins st3 u" "coins_Valid ?m u" "\<forall>d. AmountOf u d = AmountOf (hs_supplied st) d + AmountOf sc d"
    using IncrementSuppliedCoins_ok [OF E _ NewCoins_valid [OF S n(4)] inc(2)] v(4) b0 t(1) by auto
  note rv = add_coin_Inr [OF E v(5) res]
  have e: "hs_deposits st' = hs_deposits st" "hs_borrows st' = hs_borrows st" "hs_auction st' = hs_auction st"
      "hs_prices st' = hs_prices st" "hs_params st' = hs_params st" "hs_borrowed st' = t" "hs_supplied st' = u" "hs_reserves st' = rs"
    by (simp_all add: st' u(1) t(1) hard_SetPreviousAccrualTime_def SetTotalReserves_def SetSuppliedCoins_def SetBorrowedCoins_def
        SetSupplyInterestFactor_def SetBorrowInterestFactor_def)
  have "hard_wf ?m st'"
    unfolding hard_wf_def hard_GetDeposit_def hard_GetBorrow_def e
    using v(1,2) t(2) u(2) rv(1) unfolding hard_GetDeposit_def hard_GetBorrow_def by blast
  moreover have "0 \<le> part" "part \<le> interest" using rv(3) n(3) by simp_all
  then have "\<exists>i r. \<forall>d. 0 \<le> r d \<and> r d \<le> i d \<and> AmountOf t d = AmountOf (hs_borrowed st) d + i d \<and>
      AmountOf u d = AmountOf (hs_supplied st) d + (i d - r d) \<and> AmountOf rs d = AmountOf (hs_reserves st) d + r d"
    by (intro exI [of _ "coin_amt (Coin denom interest)"] exI [of _ "coin_amt (Coin denom part)"])
      (simp add: t(3) u(3) rv(2) NewCoins_one(1) [OF S n(2)] NewCoins_one(1) [OF S n(4)] coin_amt_def)
  ultimately show ?thesis unfolding accrued_def e by simp
qed

lemma AccrueInterest_accrued:
  assumes E: "hard_laws E" and wf: "hard_wf (he_math E) st" and r: "AccrueInterest E now st d = Inr st'"
  shows "accrued (he_math E) st st'"
proof -
  let ?m = "he_math E"
  let ?st1 = "fst (borrow_factor_or_one st d)"
  let ?st2 = "fst (supply_factor_or_one ?st1 d)"
  have keep: "accrued ?m st (hard_SetPreviousAccrualTime st d now)" "accrued ?m st st" "accrued ?m st ?st2"
    by (rule accrued_frame [OF wf]; simp add: hard_SetPreviousAccrualTime_def borrow_factor_or_one_def
        supply_factor_or_one_def SetBorrowInterestFactor_def SetSupplyInterestFactor_def split: option.split)+
  have wf2: "hard_wf ?m ?st2" and res2: "hs_reserves ?st2 = hs_reserves st"
    using keep(3) by (simp_all add: accrued_def borrow_factor_or_one_def
        supply_factor_or_one_def SetBorrowInterestFactor_def SetSupplyInterestFactor_def split: option.split)
  have "st' = hard_SetPreviousAccrualTime st d now \<or> st' = st \<or> st' = ?st2 \<or>
      (\<exists>mm bp sp bf cash borrowed ro interest. book_interest E now ?st2 d mm bp sp bf cash borrowed (hs_reserves st) ro interest = Inr st')"
    using r unfolding AccrueInterest_def Let_def
    by (auto simp: case_prod_beta split: option.split_asm if_split_asm)
  then show ?thesis
    using keep book_interest_accrued [OF E wf2, unfolded res2] accrued_trans by blast
qed

lemma hard_BeginBlocker_accrued:
  assumes E: "hard_laws E" and wf: "hard_wf (he_math E) st" and r: "hard_BeginBlocker E now st = Inr st'"
  shows "accrued (he_math E) st st'"
proof -
  let ?m = "he_math E"
  have keep: "accrued ?m s (SetMoneyMarket s d mm)" "accrued ?m s (DeleteMoneyMarket s d)" if "hard_wf ?m s" for s d mm
    by (rule accrued_frame [OF that]; simp add: SetMoneyMarket_def DeleteMoneyMarket_def)+
  have wf': "hard_wf ?m t" if "accrued ?m s t" for s t using that by (simp add: accrued_def)
  have update: "accrued ?m s s'" if w: "hard_wf ?m s" and u: "update_market E now mm s = Inr s'" for mm s s'
  proof -
    let ?s1 = "fst (case GetMoneyMarket s (mm_Denom mm) of None \<Rightarrow> (SetMoneyMarket s (mm_Denom mm) mm, mm) | Some found \<Rightarrow> (s, found))"
    obtain s2 where s2: "AccrueInterest E now ?s1 (mm_Denom mm) = Inr s2" "s' = s2 \<or> s' = SetMoneyMarket s2 (mm_Denom mm) mm"
      using u unfolding update_market_def Let_def by (auto simp: case_prod_beta split: if_split_asm)
    have s1: "accrued ?m s ?s1" using keep [OF w] accrued_frame [OF w] by (simp split: option.split)
    have "accrued ?m s s2" using accrued_trans [OF s1 AccrueInterest_accrued [OF E wf' [OF s1] s2(1)]] .
    then show ?thesis using s2(2) keep(1) wf' accrued_trans by blast
  qed
  have retire: "accrued ?m s s'" if w: "hard_wf ?m s" and u: "retire_market E now ds d s = Inr s'" for ds d s s'
  proof (cases "d \<in> set ds")
    case True
    then show ?thesis using u accrued_frame [OF w] by (simp add: retire_market_def)
  next
    case False
    then obtain s1 where s1: "AccrueInterest E now s d = Inr s1" "s' = DeleteMoneyMarket s1 d"
      using u by (auto simp: retire_market_def)
    have "accrued ?m s s1" by (rule AccrueInterest_accrued [OF E w s1(1)])
    then show ?thesis using s1(2) keep(2) wf' accrued_trans by blast
  qed
  obtain st1 where s: "foldR (update_market E now) (hp_MoneyMarkets (hs_params st)) st = Inr st1"
      "foldR (retire_market E now (map mm_Denom (hp_MoneyMarkets (hs_params st)))) (map fst (hs_markets st1)) st1 = Inr st'"
    using r by (auto simp: hard_BeginBlocker_def ApplyInterestRateUpdates_def Let_def)
  have start: "accrued ?m st st" using accrued_frame [OF wf] by simp
  have one: "accrued ?m st st1"
  proof (rule foldR_invariant [where P = "accrued ?m st", OF s(1) start])
    fix mm t t' assume t: "accrued ?m st t" "update_market E now mm t = Inr t'"
    show "accrued ?m st t'" by (rule accrued_trans [OF t(1) update [OF wf' [OF t(1)] t(2)]])
  qed
  show ?thesis
  proof (rule foldR_invariant [where P = "accrued ?m st", OF s(2) one])
    fix d t t' assume t: "accrued ?m st t" "retire_market E now (map mm_Denom (hp_MoneyMarkets (hs_params st))) d t = Inr t'"
    show "accrued ?m st t'" by (rule accrued_trans [OF t(1) retire [OF wf' [OF t(1)] t(2)]])
  qed
qed

section \<open>Reachable states\<close>

lemma check_hard_deposits_valid: "check_hard_deposits m seen ds = Inr () \<Longrightarrow> \<forall>d\<in>set ds. coins_Valid m (hd_Amount d)"
  by (induction ds arbitrary: seen) (auto simp: hard_deposit_Validate_def split: if_split_asm)

lemma check_hard_borrows_valid: "check_hard_borrows m seen bs = Inr () \<Longrightarrow> \<forall>b\<in>set bs. coins_Valid m (hb_Amount b)"
  by (induction bs arbitrary: seen) (auto simp: hard_borrow_Validate_def split: if_split_asm)

lemma load_deposits_get:
  "hard_GetDeposit (fold (\<lambda>d st. hard_SetDeposit st d) ds st) a = Some r \<Longrightarrow>
     hard_GetDeposit st a = Some r \<or> (r \<in> set ds \<and> hd_Depositor r = a)"
  by (induction ds arbitrary: st) (force split: if_split_asm)+

lemma load_borrows_get:
  "hard_GetBorrow (fold (\<lambda>b st. hard_SetBorrow st b) bs st) a = Some r \<Longrightarrow>
     hard_GetBorrow st a = Some r \<or> (r \<in> set bs \<and> hb_Borrower r = a)"
  by (induction bs arbitrary: st) (force split: if_split_asm)+

lemma load_frames [simp]:
  "hard_GetBorrow (fold (\<lambda>d st. hard_SetDeposit st d) ds st) = hard_GetBorrow st"
  "hard_GetDeposit (fold (\<lambda>b st. hard_SetBorrow st b) bs st) = hard_GetDeposit st"
  "hard_GetBorrow (fold load_accumulation gats st) = hard_GetBorrow st"
  "hard_GetDeposit (fold load_accumulation gats st) = hard_GetDeposit st"
  "hard_GetBorrow (fold (\<lambda>mm st. SetMoneyMarket st (mm_Denom mm) mm) mms st) = hard_GetBorrow st"
  "hard_GetDeposit (fold (\<lambda>mm st. SetMoneyMarket st (mm_Denom mm) mm) mms st) = hard_GetDeposit st"
proof -
  show "hard_GetBorrow (fold (\<lambda>d st. hard_SetDeposit st d) ds st) = hard_GetBorrow st" by (induction ds arbitrary: st) simp_all
  show "hard_GetDeposit (fold (\<lambda>b st. hard_SetBorrow st b) bs st) = hard_GetDeposit st" by (induction bs arbitrary: st) simp_all
  have acc: "hard_GetBorrow (load_accumulation g s) = hard_GetBorrow s" "hard_GetDeposit (load_accumulation g s) = hard_GetDeposit s" for g s
    by (simp_all add: load_accumulation_def hard_SetPreviousAccrualTime_def SetSupplyInterestFactor_def
        SetBorrowInterestFactor_def hard_GetBorrow_def hard_GetDeposit_def fun_eq_iff)
  show "hard_GetBorrow (fold load_accumulation gats st) = hard_GetBorrow st"
    "hard_GetDeposit (fold load_accumulation gats st) = hard_GetDeposit st" by (induction gats arbitrary: st) (simp_all add: acc)
  have mk: "hard_GetBorrow (SetMoneyMarket s d mm) = hard_GetBorrow s" "hard_GetDeposit (SetMoneyMarket s d mm) = hard_GetDeposit s" for s d mm
    by (simp_all add: SetMoneyMarket_def hard_GetBorrow_def hard_GetDeposit_def fun_eq_iff)
  show "hard_GetBorrow (fold (\<lambda>mm st. SetMoneyMarket st (mm_Denom mm) mm) mms st) = hard_GetBorrow st"
    "hard_GetDeposit (fold (\<lambda>mm st. SetMoneyMarket st (mm_Denom mm) mm) mms st) = hard_GetDeposit st"
    by (induction mms arbitrary: st) (simp_all add: mk)
qed

lemma hard_genesis_wf:
  assumes "hard_InitGenesis E st gs = Inr st'" "hs_deposits st = []" "hs_borrows st = []"
  shows "hard_wf (he_math E) st'"
proof -
  let ?m = "he_math E"
  let ?st4 = "\<lambda>s. fold (\<lambda>d st. hard_SetDeposit st d) (hg_Deposits gs) (fold load_accumulation (hg_PreviousAccumulationTimes gs)
      (fold (\<lambda>mm st. SetMoneyMarket st (mm_Denom mm) mm) (hp_MoneyMarkets (hg_Params gs)) s))"
  have gs: "hard_genesis_Validate ?m gs = Inr ()" using assms(1) by (auto simp: hard_InitGenesis_def)
  then have v: "\<forall>d\<in>set (hg_Deposits gs). coins_Valid ?m (hd_Amount d)" "\<forall>b\<in>set (hg_Borrows gs). coins_Valid ?m (hb_Amount b)"
      "coins_Valid ?m (hg_TotalSupplied gs)" "coins_Valid ?m (hg_TotalBorrowed gs)" "coins_Valid ?m (hg_TotalReserves gs)"
    using check_hard_deposits_valid check_hard_borrows_valid by (fastforce simp: hard_genesis_Validate_def split: if_split_asm)+
  define s where "s = st\<lparr>hs_params := hg_Params gs\<rparr>"
  define t where "t = fold (\<lambda>b st. hard_SetBorrow st b) (hg_Borrows gs) (?st4 s)"
  have st': "st' = SetTotalReserves (SetBorrowedCoins (SetSuppliedCoins t (hg_TotalSupplied gs)) (hg_TotalBorrowed gs)) (hg_TotalReserves gs)"
    using assms(1) by (auto simp: hard_InitGenesis_def hard_SetParams_def Let_def t_def s_def split: if_split_asm)
  have none: "hard_GetDeposit s a = None" "hard_GetBorrow s a = None" for a
    using assms(2,3) by (simp_all add: s_def hard_GetDeposit_def hard_GetBorrow_def)
  have d: "hard_GetDeposit t a = Some r \<Longrightarrow> r \<in> set (hg_Deposits gs) \<and> hd_Depositor r = a" for a r
    using load_deposits_get [of "hg_Deposits gs"] none unfolding t_def by fastforce
  have b: "hard_GetBorrow t a = Some r \<Longrightarrow> r \<in> set (hg_Borrows gs) \<and> hb_Borrower r = a" for a r
    using load_borrows_get [of "hg_Borrows gs"] none unfolding t_def by fastforce
  have e: "hard_GetDeposit st' = hard_GetDeposit t" "hard_GetBorrow st' = hard_GetBorrow t" "hs_supplied st' = hg_TotalSupplied gs"
      "hs_borrowed st' = hg_TotalBorrowed gs" "hs_reserves st' = hg_TotalReserves gs"
    by (simp_all add: st' SetTotalReserves_def SetBorrowedCoins_def SetSuppliedCoins_def hard_GetDeposit_def hard_GetBorrow_def fun_eq_iff)
  show ?thesis unfolding hard_wf_def e using d b v by blast
qed

text \<open>
  Reachable states: a genesis written to an empty store, then messages, begin blockers, changes of the parameters, and
  whatever other modules do to the bank, the auctions, the prices and their own state.
\<close>

inductive hard_reach :: "('b, 'h) hard_env \<Rightarrow> (string \<Rightarrow> address result) \<Rightarrow> ('b, 'h) hard_state \<Rightarrow> bool" for E bech where
  genesis: "hs_deposits st = [] \<Longrightarrow> hs_borrows st = [] \<Longrightarrow> hard_InitGenesis E st gs = Inr st' \<Longrightarrow> hard_reach E bech st'"
| message: "hard_reach E bech st \<Longrightarrow> hard_handle E bech st msg = Inr st' \<Longrightarrow> hard_reach E bech st'"
| block: "hard_reach E bech st \<Longrightarrow> hard_BeginBlocker E now st = Inr st' \<Longrightarrow> hard_reach E bech st'"
| params: "hard_reach E bech st \<Longrightarrow> hard_SetParams (he_math E) st p = Inr st' \<Longrightarrow> hard_reach E bech st'"
| others: "hard_reach E bech st \<Longrightarrow> hard_reach E bech (st\<lparr>hs_auction := A, hs_prices := P, hs_hooks := h\<rparr>)"

lemma hard_handle_wf:
  assumes E: "hard_laws E" and wf: "hard_wf (he_math E) st" and r: "hard_handle E bech st msg = Inr st'"
  shows "hard_wf (he_math E) st'"
proof -
  have acted: "hard_wf (he_math E) st'" if "acted (he_math E) a st st2 st'" for a st2 using that by (simp add: acted_def)
  have serve: "hard_serve E bech st msg = Inr st'" and valid: "hard_ValidateBasic (he_math E) bech msg = Inr ()"
    using r by (auto simp: hard_handle_def)
  have cs: "hard_amount (he_math E) cs = Inr () \<Longrightarrow> coins_Valid (he_math E) cs" for cs
    by (simp add: hard_amount_def split: if_split_asm)
  show ?thesis
  proof (cases msg)
    case (HardMsgDeposit x c)
    then obtain a where "hard_Deposit E st a c = Inr st'" using serve by (auto simp: hard_msg_Deposit_def)
    moreover have "coins_Valid (he_math E) c" using valid HardMsgDeposit by (auto intro: cs)
    ultimately show ?thesis using hard_Deposit_ok [OF E wf] acted by metis
  next
    case (HardMsgWithdraw x c)
    then obtain a where "hard_Withdraw E st a c = Inr st'" using serve by (auto simp: hard_msg_Withdraw_def)
    moreover have "coins_Valid (he_math E) c" using valid HardMsgWithdraw by (auto intro: cs)
    ultimately show ?thesis using hard_Withdraw_ok [OF E wf] acted by metis
  next
    case (HardMsgBorrow x c)
    then obtain a where "hard_Borrow E st a c = Inr st'" using serve by (auto simp: hard_msg_Borrow_def)
    moreover have "coins_Valid (he_math E) c" using valid HardMsgBorrow by (auto intro: cs)
    ultimately show ?thesis using hard_Borrow_ok [OF E wf] acted by metis
  next
    case (HardMsgRepay x y c)
    then obtain s a where "hard_Repay E st s a c = Inr st'" using serve by (auto simp: hard_msg_Repay_def)
    moreover have "coins_Valid (he_math E) c" using valid HardMsgRepay by (auto intro: cs)
    ultimately show ?thesis using hard_Repay_ok [OF E wf] acted by metis
  next
    case (HardMsgLiquidate x y)
    then obtain k a where "hard_AttemptKeeperLiquidation E st k a = Inr st'" using serve by (auto simp: hard_msg_Liquidate_def)
    then show ?thesis using hard_AttemptKeeperLiquidation_ok [OF E wf] acted by metis
  qed
qed

lemma hard_reach_wf:
  assumes "hard_reach E bech st" "hard_laws E"
  shows "hard_wf (he_math E) st"
  using assms(1)
proof (induction rule: hard_reach.induct)
  case (genesis st gs st')
  then show ?case by (intro hard_genesis_wf)
next
  case (message st msg st')
  then show ?case using hard_handle_wf assms(2) by blast
next
  case (block st now st')
  then show ?case using hard_BeginBlocker_accrued [OF assms(2)] by (auto simp: accrued_def)
next
  case (params st p st')
  then have "st' = st\<lparr>hs_params := p\<rparr>" by (auto simp: hard_SetParams_def)
  with params.IH show ?case by (simp add: hard_wf_def hard_GetDeposit_def hard_GetBorrow_def)
next
  case (others st A P h)
  then show ?case by (simp add: hard_wf_def hard_GetDeposit_def hard_GetBorrow_def)
qed

end
