(* ===== verification/Hard_Properties.thy ===== *)
theory Hard_Properties
  imports Hard_Reach
begin

text \<open>The properties of \<open>x/hard\<close>, each with a concrete run of the module.\<close>

section \<open>Values depend on markets and prices only\<close>

lemma value_cong:
  assumes "hs_markets st' = hs_markets st" "hs_prices st' = hs_prices st"
  shows "coins_value E st' = coins_value E st" "borrowable_value E st' = borrowable_value E st"
    "LoadLiquidationData st' = LoadLiquidationData st" "IsWithinValidLtvRange E st' = IsWithinValidLtvRange E st"
proof -
  have m: "GetMoneyMarket st' = GetMoneyMarket st" using assms(1) by (simp add: GetMoneyMarket_def fun_eq_iff)
  have p: "market_price st' = market_price st" by (rule ext) (simp only: market_price_def m assms(2))
  show "coins_value E st' = coins_value E st" "borrowable_value E st' = borrowable_value E st"
    by (rule ext, simp only: coins_value_def borrowable_value_def p)+
  show l: "LoadLiquidationData st' = LoadLiquidationData st"
    by (rule ext, rule ext) (simp only: LoadLiquidationData_def m assms(2))
  show "IsWithinValidLtvRange E st' = IsWithinValidLtvRange E st"
    by (rule ext, rule ext) (simp only: IsWithinValidLtvRange_def l)
qed

lemma range_amounts:
  assumes "hd_Amount d = hd_Amount d'" "hb_Amount b = hb_Amount b'"
  shows "IsWithinValidLtvRange E st d b = IsWithinValidLtvRange E st d' b'"
  using assms by (simp add: IsWithinValidLtvRange_def LoadLiquidationData_def)

lemma AmountOf_member: "coins_Valid m cs \<Longrightarrow> c \<in> set cs \<Longrightarrow> AmountOf cs (Denom c) = Amount c"
  by (induction cs) (auto simp: coins_Valid_Cons)

lemma acted_books:
  assumes "acted m a st st2 st'"
  shows "hs_markets st' = hs_markets st2" "hs_prices st' = hs_prices st2" "hs_params st' = hs_params st2"
    "hs_borrowed st2 = hs_borrowed st" "x \<noteq> a \<Longrightarrow> hard_GetDeposit st' x = hard_GetDeposit st x"
    "x \<noteq> a \<Longrightarrow> hard_GetBorrow st' x = hard_GetBorrow st x" "settled m a st st2" "hard_wf m st'" "hs_reserves st' = hs_reserves st"
  using assms same_booksD [OF settledD(1), of m a st st2] by (simp_all add: acted_def)

section \<open>A concrete run\<close>

definition ex_hard_env :: "(ledger, unit) hard_env" where
  "ex_hard_env = \<lparr>he_sdk = ref_sdk, he_coins = ref_coin_ops, he_ApproxRoot = (\<lambda>a n. Inr (OneDec + (a - OneDec) div n)),
     he_RelativePow = (\<lambda>x n b. Inr (b + n * (x - b))), he_hooks = None\<rparr>"

definition ex_hard_market :: "denom \<Rightarrow> string \<Rightarrow> MoneyMarket" where
  "ex_hard_market d i = \<lparr>mm_Denom = d, mm_BorrowLimit = \<lparr>bl_HasMaxLimit = True, bl_MaximumLimit = 1000 * OneDec, bl_LoanToValue = OneDec div 2\<rparr>,
     mm_SpotMarketID = i, mm_ConversionFactor = 1,
     mm_InterestRateModel = \<lparr>irm_BaseRateAPY = OneDec div 10, irm_BaseMultiplier = OneDec, irm_Kink = OneDec div 2, irm_JumpMultiplier = 2 * OneDec\<rparr>,
     mm_ReserveFactor = OneDec div 4, mm_KeeperRewardPercentage = OneDec div 10\<rparr>"

definition ex_hard_prices :: "dec \<Rightarrow> pricefeed_state" where
  "ex_hard_prices p = \<lparr>pf_Markets = [], pf_raw = [],
     pf_current = [(''bnb:usd'', \<lparr>cur_MarketID = ''bnb:usd'', cur_Price = p\<rparr>), (''usdx:usd'', \<lparr>cur_MarketID = ''usdx:usd'', cur_Price = OneDec\<rparr>)]\<rparr>"

definition ex_hard_auctions :: "ledger \<Rightarrow> ledger auction_state" where
  "ex_hard_auctions l = \<lparr>ak_auctions = [], ak_byTime = [], ak_nextID = Some 1,
     ak_params = \<lparr>MaxAuctionDuration = 100 * second, ForwardBidDuration = 10 * second, ReverseBidDuration = 20 * second,
       IncrementSurplus = 50000000000000000, IncrementDebt = 50000000000000000, IncrementCollateral = 50000000000000000\<rparr>,
     ak_bank = l\<rparr>"

definition ex_hard_empty :: "(ledger, unit) hard_state" where
  "ex_hard_empty = \<lparr>hs_params = \<lparr>hp_MoneyMarkets = [], hp_MinimumBorrowUSDValue = 0\<rparr>, hs_deposits = [], hs_borrows = [],
     hs_borrowed = [], hs_supplied = [], hs_reserves = [], hs_markets = [], hs_accrual = [], hs_borrowFactor = [], hs_supplyFactor = [],
     hs_auction = ex_hard_auctions \<lparr>lbal = [((''module/hard'', ''bnb''), 10), ((''module/hard'', ''usdx''), 500)], lsupply = []\<rparr>,
     hs_prices = ex_hard_prices (20 * OneDec), hs_hooks = ()\<rparr>"

definition ex_hard_params :: hard_Params where
  "ex_hard_params = \<lparr>hp_MoneyMarkets = [ex_hard_market ''bnb'' ''bnb:usd'', ex_hard_market ''usdx'' ''usdx:usd''],
     hp_MinimumBorrowUSDValue = 10 * OneDec\<rparr>"

definition ex_hard_deposit :: "address \<Rightarrow> denom \<Rightarrow> int \<Rightarrow> hard_deposit" where
  "ex_hard_deposit a d n = \<lparr>hd_Depositor = a, hd_Amount = [Coin d n], hd_Index = [\<lparr>if_Denom = d, if_Value = OneDec\<rparr>]\<rparr>"

definition ex_hard_genesis :: hard_genesis where
  "ex_hard_genesis = \<lparr>hg_Params = ex_hard_params,
     hg_PreviousAccumulationTimes = [\<lparr>ha_CollateralType = ''bnb'', ha_PreviousAccumulationTime = 0, ha_SupplyInterestFactor = OneDec, ha_BorrowInterestFactor = OneDec\<rparr>,
       \<lparr>ha_CollateralType = ''usdx'', ha_PreviousAccumulationTime = 0, ha_SupplyInterestFactor = OneDec, ha_BorrowInterestFactor = OneDec\<rparr>],
     hg_Deposits = [ex_hard_deposit ''alice'' ''bnb'' 10, ex_hard_deposit ''carol'' ''usdx'' 500], hg_Borrows = [],
     hg_TotalSupplied = [Coin ''bnb'' 10, Coin ''usdx'' 500], hg_TotalBorrowed = [], hg_TotalReserves = []\<rparr>"

text \<open>After the genesis, after a loan to Alice, and after the begin blocker half a year later.\<close>

definition ex_hard1 :: "(ledger, unit) hard_state" where
  "ex_hard1 = ex_hard_empty\<lparr>hs_params := ex_hard_params,
     hs_deposits := [(''alice'', ex_hard_deposit ''alice'' ''bnb'' 10), (''carol'', ex_hard_deposit ''carol'' ''usdx'' 500)],
     hs_supplied := [Coin ''bnb'' 10, Coin ''usdx'' 500],
     hs_markets := [(''bnb'', ex_hard_market ''bnb'' ''bnb:usd''), (''usdx'', ex_hard_market ''usdx'' ''usdx:usd'')],
     hs_accrual := [(''bnb'', 0), (''usdx'', 0)], hs_borrowFactor := [(''bnb'', OneDec), (''usdx'', OneDec)],
     hs_supplyFactor := [(''bnb'', OneDec), (''usdx'', OneDec)]\<rparr>"

definition ex_hard2 :: "(ledger, unit) hard_state" where
  "ex_hard2 = ex_hard1\<lparr>hs_borrows := [(''alice'', \<lparr>hb_Borrower = ''alice'', hb_Amount = [Coin ''usdx'' 80],
       hb_Index = [\<lparr>if_Denom = ''usdx'', if_Value = OneDec\<rparr>]\<rparr>)],
     hs_borrowed := [Coin ''usdx'' 80],
     hs_auction := ex_hard_auctions \<lparr>lbal = [((''alice'', ''usdx''), 80), ((''module/hard'', ''usdx''), 420),
       ((''module/hard'', ''bnb''), 10), ((''module/hard'', ''usdx''), 500)], lsupply = []\<rparr>\<rparr>"

definition ex_hard3 :: "(ledger, unit) hard_state" where
  "ex_hard3 = ex_hard2\<lparr>hs_borrowed := [Coin ''usdx'' 90], hs_supplied := [Coin ''bnb'' 10, Coin ''usdx'' 508],
     hs_reserves := [Coin ''usdx'' 2], hs_accrual := [(''bnb'', 15768000 * second), (''usdx'', 15768000 * second)],
     hs_borrowFactor := [(''bnb'', OneDec), (''usdx'', 1129999999987720000)],
     hs_supplyFactor := [(''bnb'', OneDec), (''usdx'', 1016000000000000000)]\<rparr>"

text \<open>The price of the collateral falls.\<close>

definition ex_hard4 :: "(ledger, unit) hard_state" where
  "ex_hard4 = ex_hard3\<lparr>hs_auction := hs_auction ex_hard3, hs_prices := ex_hard_prices (12 * OneDec), hs_hooks := ()\<rparr>"

lemma ex_hard_laws: "hard_laws ex_hard_env"
  using ref_sdk_laws ref_add_loose_law ref_coin_ops_laws by (simp add: hard_laws_def ex_hard_env_def)

lemma ex_hard_genesis_runs: "hard_InitGenesis ex_hard_env ex_hard_empty ex_hard_genesis = Inr ex_hard1"
  by code_simp

lemma ex_hard_borrow_runs: "hard_Borrow ex_hard_env ex_hard1 ''alice'' [Coin ''usdx'' 80] = Inr ex_hard2"
  by code_simp

lemma ex_hard_block_runs: "hard_BeginBlocker ex_hard_env (15768000 * second) ex_hard2 = Inr ex_hard3"
  by code_simp

lemma ex_hard_coins: "coins_Valid (he_math ex_hard_env) [Coin ''usdx'' 80]" "coins_Valid (he_math ex_hard_env) [Coin ''bnb'' 1]"
  by code_simp+

lemma ex_hard_reach:
  "hard_reach ex_hard_env Inr ex_hard1" "hard_reach ex_hard_env Inr ex_hard2" "hard_reach ex_hard_env Inr ex_hard3"
  "hard_reach ex_hard_env Inr ex_hard4"
proof -
  have "hs_deposits ex_hard_empty = []" "hs_borrows ex_hard_empty = []" by (simp_all add: ex_hard_empty_def)
  from hard_reach.genesis [OF this ex_hard_genesis_runs] show r1: "hard_reach ex_hard_env Inr ex_hard1" .
  have "hard_ValidateBasic (he_math ex_hard_env) Inr (HardMsgBorrow ''alice'' [Coin ''usdx'' 80]) = Inr ()"
    using ex_hard_coins(1) by (simp add: hard_address_def hard_amount_def coins_IsZero_def)
  then have "hard_handle ex_hard_env Inr ex_hard1 (HardMsgBorrow ''alice'' [Coin ''usdx'' 80]) = Inr ex_hard2"
    using ex_hard_borrow_runs by (simp only: hard_handle_def hard_serve.simps hard_msg_Borrow_def bnd_Inr)
  from hard_reach.message [OF r1 this] show r2: "hard_reach ex_hard_env Inr ex_hard2" .
  from hard_reach.block [OF r2 ex_hard_block_runs] show r3: "hard_reach ex_hard_env Inr ex_hard3" .
  show "hard_reach ex_hard_env Inr ex_hard4" unfolding ex_hard4_def by (rule hard_reach.others [OF r3])
qed

section \<open>Properties\<close>

text \<open>
  C20: a loan that is granted is covered. With the borrower's deposit and debt brought up to date, the dollar values of
  the old debt and of the loan add up to at most the deposit's value times its loan-to-value ratios, at current prices,
  and to at least the minimum of the parameters; the total borrowed of each denomination with a limit stays within it;
  the loan is paid from the module account and recorded as owed in full; nobody else's records change.
\<close>

theorem hard_borrow_covered:
  assumes "hard_laws E" "hard_reach E bech st" "coins_Valid (he_math E) cs" "hard_Borrow E st a cs = Inr st'"
  shows "(\<exists>deposit old limit owed asked. hard_GetDeposit st' a = Some deposit \<and>
      (\<forall>d. bor_at st a d \<le> AmountOf old d \<and> bor_at st' a d = AmountOf old d + AmountOf cs d) \<and>
      borrowable_value E st' (hd_Amount deposit) = Inr limit \<and> coins_value E st' old = Inr owed \<and> coins_value E st' cs = Inr asked \<and>
      owed + asked \<le> limit \<and> GetMinimumBorrowUSDValue st' \<le> owed + asked) \<and>
    (\<forall>c\<in>set cs. \<forall>mm. GetMoneyMarket st' (Denom c) = Some mm \<longrightarrow> bl_HasMaxLimit (mm_BorrowLimit mm) \<longrightarrow>
      NewDecFromInt (AmountOf (hs_borrowed st') (Denom c)) \<le> bl_MaximumLimit (mm_BorrowLimit mm)) \<and>
    moved (he_sdk E) (hs_bank st) (hs_bank st') (ModuleAddress (he_sdk E) hard_module) a cs \<and>
    (\<forall>x. x \<noteq> a \<longrightarrow> hard_GetDeposit st' x = hard_GetDeposit st x \<and> hard_GetBorrow st' x = hard_GetBorrow st x)"
proof -
  obtain st2 where o: "acted (he_math E) a st st2 st'" "ValidateBorrow E st2 a cs = Inr ()"
      "SendCoinsFromModuleToAccount (he_sdk E) (hs_bank st) hard_module a cs = Inr (hs_bank st')"
      "\<forall>d. AmountOf (hs_borrowed st') d = AmountOf (hs_borrowed st) d + AmountOf cs d"
      "hs_supplied st' = hs_supplied st" "\<forall>d. bor_at st' a d = bor_at st2 a d + AmountOf cs d"
      "hard_GetDeposit st' = hard_GetDeposit st2"
    by (rule hard_Borrow_ok [OF assms(1) hard_reach_wf [OF assms(2,1)] assms(3,4)])
  note b = acted_books [OF o(1)]
  obtain deposit asked limit owed where v: "hard_GetDeposit st2 a = Some deposit" "coins_value E st2 cs = Inr asked"
      "borrowable_value E st2 (hd_Amount deposit) = Inr limit"
      "coins_value E st2 (case hard_GetBorrow st2 a of None \<Rightarrow> [] | Some b \<Rightarrow> hb_Amount b) = Inr owed"
      "asked + owed \<le> limit" "GetMinimumBorrowUSDValue st2 \<le> asked + owed" "\<forall>c\<in>set cs. under_limit st2 c"
    by (rule ValidateBorrow_ok [OF o(2)])
  let ?old = "case hard_GetBorrow st2 a of None \<Rightarrow> [] | Some b \<Rightarrow> hb_Amount b"
  have old: "AmountOf ?old d = bor_at st2 a d" for d by (simp add: bor_at_def split: option.split)
  have gm: "GetMoneyMarket st' = GetMoneyMarket st2" "GetMinimumBorrowUSDValue st' = GetMinimumBorrowUSDValue st2"
    using b by (simp_all add: GetMoneyMarket_def GetMinimumBorrowUSDValue_def fun_eq_iff)
  note vals = value_cong(1,2) [OF b(1,2), of E]
  have "hard_GetDeposit st' a = Some deposit \<and> (\<forall>d. bor_at st a d \<le> AmountOf ?old d \<and> bor_at st' a d = AmountOf ?old d + AmountOf cs d) \<and>
      borrowable_value E st' (hd_Amount deposit) = Inr limit \<and> coins_value E st' ?old = Inr owed \<and> coins_value E st' cs = Inr asked \<and>
      owed + asked \<le> limit \<and> GetMinimumBorrowUSDValue st' \<le> owed + asked"
    using v(1-6) o(6,7) settledD(4) [OF b(7)] unfolding vals gm(2) old by (simp add: add.commute)
  moreover have "NewDecFromInt (AmountOf (hs_borrowed st') (Denom c)) \<le> bl_MaximumLimit (mm_BorrowLimit mm)"
    if "c \<in> set cs" "GetMoneyMarket st' (Denom c) = Some mm" "bl_HasMaxLimit (mm_BorrowLimit mm)" for c mm
    using that bspec [OF v(7) that(1)] spec [OF o(4), of "Denom c"] AmountOf_member [OF assms(3) that(1)] b(4) gm(1)
    by (simp add: under_limit_def)
  ultimately show ?thesis using sends(3) [OF hard_lawsD(1) [OF assms(1)] o(3)] b(5,6) by blast
qed

theorem hard_borrow_covered_witness:
  "\<exists>deposit old limit owed asked. hard_GetDeposit ex_hard2 ''alice'' = Some deposit \<and>
     (\<forall>d. bor_at ex_hard1 ''alice'' d \<le> AmountOf old d \<and> bor_at ex_hard2 ''alice'' d = AmountOf old d + AmountOf [Coin ''usdx'' 80] d) \<and>
     borrowable_value ex_hard_env ex_hard2 (hd_Amount deposit) = Inr limit \<and> coins_value ex_hard_env ex_hard2 old = Inr owed \<and>
     coins_value ex_hard_env ex_hard2 [Coin ''usdx'' 80] = Inr asked \<and>
     owed + asked \<le> limit \<and> GetMinimumBorrowUSDValue ex_hard2 \<le> owed + asked"
  by (rule conjunct1 [OF hard_borrow_covered [OF ex_hard_laws ex_hard_reach(1) ex_hard_coins(1) ex_hard_borrow_runs]])

text \<open>
  C21: a withdrawal leaves the depositor's position within its loan-to-value range at current prices, debt and interest
  brought up to date. It pays in each denomination what was asked, or else the whole deposit with its interest, out of
  the module account; nobody else's records change.
\<close>

theorem hard_withdraw_covered:
  assumes "hard_laws E" "hard_reach E bech st" "coins_Valid (he_math E) cs" "hard_Withdraw E st a cs = Inr st'"
  shows "IsWithinValidLtvRange E st' (case hard_GetDeposit st' a of None \<Rightarrow> empty_deposit | Some r \<Rightarrow> r)
      (case hard_GetBorrow st' a of None \<Rightarrow> empty_borrow | Some b \<Rightarrow> b) = Inr True \<and>
    (\<forall>d. bor_at st a d \<le> bor_at st' a d) \<and>
    (\<exists>paid. moved (he_sdk E) (hs_bank st) (hs_bank st') (ModuleAddress (he_sdk E) hard_module) a paid \<and>
      (\<forall>d. dep_at st a d \<le> dep_at st' a d + AmountOf paid d \<and> AmountOf paid d \<le> AmountOf cs d \<and>
        (AmountOf paid d = AmountOf cs d \<or> dep_at st' a d = 0))) \<and>
    (\<forall>x. x \<noteq> a \<longrightarrow> hard_GetDeposit st' x = hard_GetDeposit st x \<and> hard_GetBorrow st' x = hard_GetBorrow st x)"
proof -
  obtain st2 amount rest where o: "acted (he_math E) a st st2 st'" "coins_Valid (he_math E) amount"
      "\<forall>d. AmountOf amount d = min (AmountOf cs d) (dep_at st2 a d)"
      "SendCoinsFromModuleToAccount (he_sdk E) (hs_bank st) hard_module a amount = Inr (hs_bank st')"
      "\<forall>d. AmountOf (hs_supplied st') d = max 0 (AmountOf (hs_supplied st) d - AmountOf amount d)" "hs_borrowed st' = hs_borrowed st"
      "\<forall>d. dep_at st' a d = dep_at st2 a d - AmountOf amount d" "hard_GetBorrow st' = hard_GetBorrow st2"
      "coins_Valid (he_math E) rest" "\<forall>d. AmountOf rest d = dep_at st' a d"
      "IsWithinValidLtvRange E st2 \<lparr>hd_Depositor = a, hd_Amount = rest, hd_Index = []\<rparr>
         (case hard_GetBorrow st2 a of None \<Rightarrow> empty_borrow | Some b \<Rightarrow> b) = Inr True"
    by (rule hard_Withdraw_ok [OF assms(1) hard_reach_wf [OF assms(2,1)] assms(3,4)])
  note b = acted_books [OF o(1)]
  let ?dep = "case hard_GetDeposit st' a of None \<Rightarrow> empty_deposit | Some r \<Rightarrow> r"
  have "coins_Valid (he_math E) (hd_Amount ?dep)"
    using hard_wfD(1) [OF b(8)] by (auto simp: empty_deposit_def split: option.split)
  moreover have "AmountOf (hd_Amount ?dep) d = dep_at st' a d" for d
    by (simp add: dep_at_def empty_deposit_def split: option.split)
  ultimately have "hd_Amount ?dep = rest" using coins_Valid_eqI [OF _ o(9)] o(10) by simp
  then have "IsWithinValidLtvRange E st' ?dep (case hard_GetBorrow st' a of None \<Rightarrow> empty_borrow | Some b \<Rightarrow> b) = Inr True"
    unfolding value_cong(4) [OF b(1,2)] o(8)
    using o(11) range_amounts [of ?dep "\<lparr>hd_Depositor = a, hd_Amount = rest, hd_Index = []\<rparr>", OF _ refl, where E = E and st = st2] by simp
  moreover have "bor_at st a d \<le> bor_at st' a d" for d
    using settledD(4) [OF b(7), of d] o(8) by (simp add: bor_at_def)
  moreover have "dep_at st a d \<le> dep_at st' a d + AmountOf amount d \<and> AmountOf amount d \<le> AmountOf cs d \<and>
      (AmountOf amount d = AmountOf cs d \<or> dep_at st' a d = 0)" for d
    using settledD(3) [OF b(7), of d] spec [OF o(7), of d] spec [OF o(3), of d] by (auto simp: min_def)
  moreover have "moved (he_sdk E) (hs_bank st) (hs_bank st') (ModuleAddress (he_sdk E) hard_module) a amount"
    by (rule sends(3) [OF hard_lawsD(1) [OF assms(1)] o(4)])
  ultimately show ?thesis using b(5,6) by blast
qed

theorem hard_withdraw_covered_witness:
  "\<exists>st'. hard_Withdraw ex_hard_env ex_hard3 ''alice'' [Coin ''bnb'' 1] = Inr st' \<and>
     IsWithinValidLtvRange ex_hard_env st' (case hard_GetDeposit st' ''alice'' of None \<Rightarrow> empty_deposit | Some r \<Rightarrow> r)
       (case hard_GetBorrow st' ''alice'' of None \<Rightarrow> empty_borrow | Some b \<Rightarrow> b) = Inr True \<and> dep_at st' ''alice'' ''bnb'' = 9"
proof -
  have w: "hard_Withdraw ex_hard_env ex_hard3 ''alice'' [Coin ''bnb'' 1] =
      Inr (projr (hard_Withdraw ex_hard_env ex_hard3 ''alice'' [Coin ''bnb'' 1]))" by code_simp
  have "dep_at (projr (hard_Withdraw ex_hard_env ex_hard3 ''alice'' [Coin ''bnb'' 1])) ''alice'' ''bnb'' = 9" by code_simp
  then show ?thesis
    using conjunct1 [OF hard_withdraw_covered [OF ex_hard_laws ex_hard_reach(3) ex_hard_coins(2) w]] w by blast
qed

text \<open>
  C22: only a position outside its loan-to-value range is liquidated. The position that is judged is the stored one with
  exactly the interest that the synchronisation of its debt and of its deposit charges, at current prices; the hooks
  that run before change their own state only. The liquidation removes deposit and debt and changes no other record.
\<close>

theorem hard_liquidates_uncovered:
  assumes "hard_laws E" "hard_reach E bech st" "hard_AttemptKeeperLiquidation E st keeper a = Inr st'"
  shows "(\<exists>h st1 st2 deposit borrow.
      SyncBorrowInterest E (st\<lparr>hs_hooks := h\<rparr>) a = Inr st1 \<and> SyncSupplyInterest E st1 a = Inr st2 \<and>
      hard_GetDeposit st2 a = Some deposit \<and> hard_GetBorrow st2 a = Some borrow \<and>
      IsWithinValidLtvRange E st2 deposit borrow = Inr False) \<and>
    hard_GetDeposit st' a = None \<and> hard_GetBorrow st' a = None \<and>
    (\<forall>x. x \<noteq> a \<longrightarrow> hard_GetDeposit st' x = hard_GetDeposit st x \<and> hard_GetBorrow st' x = hard_GetBorrow st x)"
proof -
  obtain st2 deposit borrow where o: "acted (he_math E) a st st2 st'"
      "hard_GetDeposit st2 a = Some deposit" "hard_GetBorrow st2 a = Some borrow"
      "IsWithinValidLtvRange E st2 deposit borrow = Inr False" "hard_GetDeposit st' a = None" "hard_GetBorrow st' a = None"
      "\<exists>h st1. SyncBorrowInterest E (st\<lparr>hs_hooks := h\<rparr>) a = Inr st1 \<and> SyncSupplyInterest E st1 a = Inr st2"
    by (rule hard_AttemptKeeperLiquidation_ok [OF assms(1) hard_reach_wf [OF assms(2,1)] assms(3)])
  show ?thesis using o(2-7) acted_books(5,6) [OF o(1)] by blast
qed

theorem hard_liquidates_uncovered_witness:
  "hard_AttemptKeeperLiquidation ex_hard_env ex_hard3 ''carol'' ''alice'' = Inl (Err ''ErrBorrowNotLiquidatable'') \<and>
   (\<exists>st'. hard_AttemptKeeperLiquidation ex_hard_env ex_hard4 ''carol'' ''alice'' = Inr st' \<and>
     hard_GetDeposit st' ''alice'' = None \<and> hard_GetBorrow st' ''alice'' = None \<and>
     hard_GetDeposit st' ''carol'' = hard_GetDeposit ex_hard4 ''carol'')"
proof -
  have n: "hard_AttemptKeeperLiquidation ex_hard_env ex_hard3 ''carol'' ''alice'' = Inl (Err ''ErrBorrowNotLiquidatable'')" by code_simp
  have l: "hard_AttemptKeeperLiquidation ex_hard_env ex_hard4 ''carol'' ''alice'' =
      Inr (projr (hard_AttemptKeeperLiquidation ex_hard_env ex_hard4 ''carol'' ''alice''))" by code_simp
  note c = conjunct2 [OF hard_liquidates_uncovered [OF ex_hard_laws ex_hard_reach(4) l]]
  have "''carol'' \<noteq> ''alice''" by simp
  then show ?thesis using n l c by metis
qed

definition hard_surplus :: "('b, 'h) hard_env \<Rightarrow> ('b, 'h) hard_state \<Rightarrow> denom \<Rightarrow> int" where
  "hard_surplus E st d = hard_GetTotalDeposited E st d + AmountOf (hs_borrowed st) d - AmountOf (hs_supplied st) d - AmountOf (hs_reserves st) d"

lemma hard_block_surplus:
  assumes "hard_laws E" "hard_wf (he_math E) st" "hard_BeginBlocker E now st = Inr st'"
  shows "hard_surplus E st' d = hard_surplus E st d"
proof -
  note acc = hard_BeginBlocker_accrued [OF assms]
  then have "hs_auction st' = hs_auction st" by (simp add: accrued_def)
  moreover obtain i r where "\<forall>d. 0 \<le> r d \<and> r d \<le> i d \<and> AmountOf (hs_borrowed st') d = AmountOf (hs_borrowed st) d + i d \<and>
      AmountOf (hs_supplied st') d = AmountOf (hs_supplied st) d + (i d - r d) \<and>
      AmountOf (hs_reserves st') d = AmountOf (hs_reserves st) d + r d" using acc unfolding accrued_def by blast
  ultimately show ?thesis by (simp add: hard_surplus_def hard_GetTotalDeposited_def hs_bank_def)
qed

text \<open>
  C23: the surplus of a denomination is what the module account holds and is owed, less what depositors and the reserves
  own. Deposits, loans and the interest of a block do not change it, as interest goes in full to depositors and to the
  reserves; a repayment never lowers it; a withdrawal lowers it only by what it pays above the recorded total supply.
\<close>

theorem hard_surplus_kept:
  assumes "hard_laws E" "hard_reach E bech st" "coins_Valid (he_math E) cs" "a \<noteq> ModuleAddress (he_sdk E) hard_module"
  shows "(\<forall>st' d. hard_Deposit E st a cs = Inr st' \<longrightarrow> hard_surplus E st' d = hard_surplus E st d) \<and>
    (\<forall>st' d. hard_Borrow E st a cs = Inr st' \<longrightarrow> hard_surplus E st' d = hard_surplus E st d) \<and>
    (\<forall>owner st' d. hard_Repay E st a owner cs = Inr st' \<longrightarrow> hard_surplus E st d \<le> hard_surplus E st' d) \<and>
    (\<forall>st' d. hard_Withdraw E st a cs = Inr st' \<longrightarrow> hard_surplus E st' d = hard_surplus E st d -
       max 0 (hard_GetTotalDeposited E st d - hard_GetTotalDeposited E st' d - AmountOf (hs_supplied st) d)) \<and>
    (\<forall>now st' d. hard_BeginBlocker E now st = Inr st' \<longrightarrow> hard_surplus E st' d = hard_surplus E st d)"
proof -
  let ?m = "he_math E" and ?M = "ModuleAddress (he_sdk E) hard_module"
  note wf = hard_reach_wf [OF assms(2,1)]
  note S = hard_lawsD(1) [OF assms(1)]
  have into: "hard_GetTotalDeposited E st' d = hard_GetTotalDeposited E st d + AmountOf x d"
    if "SendCoinsFromAccountToModule (he_sdk E) (hs_bank st) a hard_module x = Inr (hs_bank st')" for st' x d
    using moved_balance [OF sends(2) [OF S that], of ?M d] assms(4) by (simp add: hard_GetTotalDeposited_def)
  have out: "hard_GetTotalDeposited E st' d = hard_GetTotalDeposited E st d - AmountOf x d"
    if "SendCoinsFromModuleToAccount (he_sdk E) (hs_bank st) hard_module a x = Inr (hs_bank st')" for st' x d
    using moved_balance [OF sends(3) [OF S that], of ?M d] assms(4) by (simp add: hard_GetTotalDeposited_def)
  have "hard_surplus E st' d = hard_surplus E st d" if r: "hard_Deposit E st a cs = Inr st'" for st' d
  proof (rule hard_Deposit_ok [OF assms(1) wf assms(3) r])
    fix st2 assume o: "acted ?m a st st2 st'" "SendCoinsFromAccountToModule (he_sdk E) (hs_bank st) a hard_module cs = Inr (hs_bank st')"
      "\<forall>d. AmountOf (hs_supplied st') d = AmountOf (hs_supplied st) d + AmountOf cs d" "hs_borrowed st' = hs_borrowed st"
    show ?thesis using into [OF o(2), of d] spec [OF o(3), of d] o(4) acted_books(9) [OF o(1)] by (simp add: hard_surplus_def)
  qed
  moreover have "hard_surplus E st' d = hard_surplus E st d" if r: "hard_Borrow E st a cs = Inr st'" for st' d
  proof (rule hard_Borrow_ok [OF assms(1) wf assms(3) r])
    fix st2 assume o: "acted ?m a st st2 st'" "SendCoinsFromModuleToAccount (he_sdk E) (hs_bank st) hard_module a cs = Inr (hs_bank st')"
      "\<forall>d. AmountOf (hs_borrowed st') d = AmountOf (hs_borrowed st) d + AmountOf cs d" "hs_supplied st' = hs_supplied st"
    show ?thesis using out [OF o(2), of d] spec [OF o(3), of d] o(4) acted_books(9) [OF o(1)] by (simp add: hard_surplus_def)
  qed
  moreover have "hard_surplus E st d \<le> hard_surplus E st' d" if r: "hard_Repay E st a owner cs = Inr st'" for owner st' d
  proof (rule hard_Repay_ok [OF assms(1) wf assms(3) r])
    fix st2 payment assume o: "acted ?m owner st st2 st'" "SendCoinsFromAccountToModule (he_sdk E) (hs_bank st) a hard_module payment = Inr (hs_bank st')"
      "\<forall>d. AmountOf (hs_borrowed st') d = max 0 (AmountOf (hs_borrowed st) d - AmountOf payment d)" "hs_supplied st' = hs_supplied st"
    show ?thesis using into [OF o(2), of d] spec [OF o(3), of d] o(4) acted_books(9) [OF o(1)] by (simp add: hard_surplus_def)
  qed
  moreover have "hard_surplus E st' d = hard_surplus E st d -
      max 0 (hard_GetTotalDeposited E st d - hard_GetTotalDeposited E st' d - AmountOf (hs_supplied st) d)"
    if r: "hard_Withdraw E st a cs = Inr st'" for st' d
  proof (rule hard_Withdraw_ok [OF assms(1) wf assms(3) r])
    fix st2 amount assume o: "acted ?m a st st2 st'" "SendCoinsFromModuleToAccount (he_sdk E) (hs_bank st) hard_module a amount = Inr (hs_bank st')"
      "\<forall>d. AmountOf (hs_supplied st') d = max 0 (AmountOf (hs_supplied st) d - AmountOf amount d)" "hs_borrowed st' = hs_borrowed st"
    show ?thesis using out [OF o(2), of d] spec [OF o(3), of d] o(4) acted_books(9) [OF o(1)] by (simp add: hard_surplus_def)
  qed
  moreover have "hard_surplus E st' d = hard_surplus E st d" if "hard_BeginBlocker E now st = Inr st'" for now st' d
    by (rule hard_block_surplus [OF assms(1) wf that])
  ultimately show ?thesis by simp
qed

theorem hard_surplus_kept_witness:
  "hard_surplus ex_hard_env ex_hard3 ''usdx'' = 0 \<and> hard_surplus ex_hard_env ex_hard1 ''usdx'' = 0 \<and>
   AmountOf (hs_borrowed ex_hard3) ''usdx'' = 90 \<and> AmountOf (hs_reserves ex_hard3) ''usdx'' = 2"
proof -
  have a: "''alice'' \<noteq> ModuleAddress (he_sdk ex_hard_env) hard_module" by code_simp
  note kept = hard_surplus_kept [OF ex_hard_laws _ ex_hard_coins(1) a]
  have "hard_surplus ex_hard_env ex_hard2 ''usdx'' = hard_surplus ex_hard_env ex_hard1 ''usdx''"
    using kept [OF ex_hard_reach(1)] ex_hard_borrow_runs by blast
  moreover have "hard_surplus ex_hard_env ex_hard3 ''usdx'' = hard_surplus ex_hard_env ex_hard2 ''usdx''"
    using kept [OF ex_hard_reach(2)] ex_hard_block_runs by blast
  moreover have "hard_surplus ex_hard_env ex_hard1 ''usdx'' = 0" by code_simp
  moreover have "AmountOf (hs_borrowed ex_hard3) ''usdx'' = 90" "AmountOf (hs_reserves ex_hard3) ''usdx'' = 2" by code_simp+
  ultimately show ?thesis by simp
qed

text \<open>
  C38: the utilisation of a market is between zero and one, whatever cash, debts and reserves are, and the yearly rate it
  gives under valid parameters is at least the base rate and at most the base rate and the two multipliers together.
\<close>

theorem hard_rate_bounds:
  assumes "math_laws m" "InterestRateModel_Validate model = Inr ()" "0 \<le> borrows"
    "CalculateBorrowRate m model cash borrows reserves = Inr rate"
  shows "(\<exists>u. CalculateUtilizationRatio m cash borrows reserves = Inr u \<and> 0 \<le> u \<and> u \<le> OneDec) \<and>
    irm_BaseRateAPY model \<le> rate \<and> rate \<le> irm_BaseRateAPY model + irm_BaseMultiplier model + irm_JumpMultiplier model"
proof -
  obtain u where u: "CalculateUtilizationRatio m cash borrows reserves = Inr u"
    using assms(4) by (auto simp: CalculateBorrowRate_def)
  then show ?thesis
    using CalculateUtilizationRatio_range [OF assms(1) u assms(3)] CalculateBorrowRate_range [OF assms] by simp
qed

theorem hard_rate_bounds_witness:
  "\<exists>rate. CalculateBorrowRate ref_math (mm_InterestRateModel (ex_hard_market ''usdx'' ''usdx:usd''))
      (NewDecFromInt 10) (NewDecFromInt 100) (NewDecFromInt 20) = Inr rate \<and> OneDec div 10 \<le> rate \<and> rate \<le> 4 * OneDec"
proof -
  let ?model = "mm_InterestRateModel (ex_hard_market ''usdx'' ''usdx:usd'')"
  let ?run = "CalculateBorrowRate ref_math ?model (NewDecFromInt 10) (NewDecFromInt 100) (NewDecFromInt 20)"
  have r: "?run = Inr (projr ?run)" "InterestRateModel_Validate ?model = Inr ()" "0 \<le> NewDecFromInt 100" by code_simp+
  have "irm_BaseRateAPY ?model = OneDec div 10" "irm_BaseRateAPY ?model + irm_BaseMultiplier ?model + irm_JumpMultiplier ?model \<le> 4 * OneDec"
    by code_simp+
  then have "OneDec div 10 \<le> projr ?run \<and> projr ?run \<le> 4 * OneDec"
    using conjunct2 [OF hard_rate_bounds [OF ref_math_laws r(2,3,1)]] by linarith
  then show ?thesis by (intro exI [of _ "projr ?run"] conjI r(1)) (rule conjunct1, assumption, rule conjunct2, assumption)
qed

end
