(* ===== verification/Kavadist.thy ===== *)
theory Kavadist
  imports Sdk_Coins Elapsed_Time
begin

text \<open>
  The distribution module, \<open>x/kavadist\<close>: coins are minted by inflation periods for incentives (\<open>keeper/mint.go\<close>) and for
  infrastructure, and the latter are paid to partners at a fixed rate and then to core addresses by weight
  (\<open>keeper/infrastructure.go\<close>). Parameters and genesis are those of \<open>types/params.go\<close> and \<open>types/genesis.go\<close>, the spending
  proposal that of \<open>types/proposal.go\<close> and \<open>keeper/proposal_handler.go\<close>.
\<close>

section \<open>Parameters\<close>

record Period =
  pd_Start :: time
  pd_End :: time
  pd_Inflation :: dec

record PartnerReward =
  pr_Address :: address
  pr_RewardsPerSecond :: coin

record CoreReward =
  cr_Address :: address
  cr_Weight :: dec

record InfrastructureParams =
  ip_InfrastructurePeriods :: "Period list"
  ip_PartnerRewards :: "PartnerReward list"
  ip_CoreRewards :: "CoreReward list"

record kavadist_Params =
  kd_Active :: bool
  kd_Periods :: "Period list"
  kd_InfrastructureParams :: InfrastructureParams

fun check_periods :: "time \<Rightarrow> Period list \<Rightarrow> unit result" where
  "check_periods prevEnd [] = Inr ()"
| "check_periods prevEnd (pr # prs) =
     (if pd_End pr < pd_Start pr then Inl (Err ''end time for period is before start time'')
      else if pd_Start pr < prevEnd then Inl (Err ''periods must be in chronological order'')
      else if time_Unix (pd_Start pr) \<le> 0 \<or> time_Unix (pd_End pr) \<le> 0 then Inl (Err ''start or end time cannot be zero'')
      else check_periods (pd_End pr) prs)"

definition validatePeriodsParams :: "Period list \<Rightarrow> unit result" where
  "validatePeriodsParams periods = check_periods 0 periods"

text \<open>The end of the previous period is set anew for each period, so that their order is not checked.\<close>

definition validateInfraParams :: "InfrastructureParams \<Rightarrow> unit result" where
  "validateInfraParams ip =
     foldR (\<lambda>pr _.
       if pd_End pr < pd_Start pr then Inl (Err ''end time for period is before start time'')
       else if pd_Start pr < 0 then Inl (Err ''periods must be in chronological order'')
       else if time_Unix (pd_Start pr) \<le> 0 \<or> time_Unix (pd_End pr) \<le> 0 then Inl (Err ''start or end time cannot be zero'')
       else Inr ()) (ip_InfrastructurePeriods ip) ()"

definition kavadist_Params_Validate :: "kavadist_Params \<Rightarrow> unit result" where
  "kavadist_Params_Validate p = validatePeriodsParams (kd_Periods p)"

definition kavadist_Params_Equal :: "kavadist_Params \<Rightarrow> kavadist_Params \<Rightarrow> bool" where
  "kavadist_Params_Equal p other =
     (if kd_Active p \<noteq> kd_Active other then False
      else if length (kd_Periods p) \<noteq> length (kd_Periods other) then False
      else list_all2 (\<lambda>a b. a = b) (kd_Periods p) (kd_Periods other))"

section \<open>State\<close>

record 'b kavadist_state =
  ks_params :: kavadist_Params
  ks_previous :: "time option"
  ks_bank :: 'b

text \<open>\<open>ke_RelativePow\<close> is \<open>sdkmath.RelativePow\<close>, \<open>ke_FeePool\<close> is \<open>DistributeFromFeePool\<close> of the distribution module.\<close>

record 'b kavadist_env =
  ke_sdk :: "'b sdk"
  ke_RelativePow :: "int \<Rightarrow> int \<Rightarrow> int \<Rightarrow> int result"
  ke_FeePool :: "'b \<Rightarrow> coins \<Rightarrow> address \<Rightarrow> 'b result"
  ke_blacklisted :: "string \<Rightarrow> bool"

abbreviation ke_math :: "'b kavadist_env \<Rightarrow> sdk_math" where "ke_math E \<equiv> Math (ke_sdk E)"

definition kavadist_module :: string where "kavadist_module = ''kavadist''"

definition GovDenom :: denom where "GovDenom = ''ukava''"

definition GetPreviousBlockTime :: "'b kavadist_state \<Rightarrow> time option" where
  "GetPreviousBlockTime st = ks_previous st"

definition SetPreviousBlockTime :: "'b kavadist_state \<Rightarrow> time \<Rightarrow> 'b kavadist_state" where
  "SetPreviousBlockTime st t = st\<lparr>ks_previous := Some t\<rparr>"

text \<open>Setting the parameters runs the validators of each of them, and panics when one fails.\<close>

definition kavadist_SetParams :: "'b kavadist_state \<Rightarrow> kavadist_Params \<Rightarrow> 'b kavadist_state result" where
  "kavadist_SetParams st p =
     bnd (panic_on_err (validatePeriodsParams (kd_Periods p))) (\<lambda>_.
     bnd (panic_on_err (validateInfraParams (kd_InfrastructureParams p))) (\<lambda>_.
     Inr (st\<lparr>ks_params := p\<rparr>)))"

section \<open>Minting\<close>

definition inflated :: "'b kavadist_env \<Rightarrow> dec \<Rightarrow> int \<Rightarrow> int \<Rightarrow> int result" where
  \<comment> \<open>\<open>amountToMint\<close>: what the inflation rate adds to a supply in a number of seconds\<close>
  "inflated E inflationRate timePeriods supply =
     bnd (DecMul (ke_math E) inflationRate (NewDecFromInt 1000000000000000000)) (\<lambda>scaled.
     bnd (DecTruncateInt (ke_math E) scaled) (\<lambda>n.
     bnd (NewUint n) (\<lambda>inflationInt.
     bnd (NewUint timePeriods) (\<lambda>timePeriodsUint.
     bnd (ke_RelativePow E inflationInt timePeriodsUint 1000000000000000000) (\<lambda>power.
     bnd (DecMul (ke_math E) (NewDecFromInt power) 1) (\<lambda>accumulator.
     bnd (DecMul (ke_math E) (NewDecFromInt supply) accumulator) (\<lambda>grown.
     bnd (toDec (ke_math E) (grown - NewDecFromInt supply)) (\<lambda>diff.
     DecTruncateInt (ke_math E) diff))))))))"

text \<open>The coin is \<open>None\<close> where the source returns the empty \<open>sdk.Coin{}\<close>, which has no amount.\<close>

definition mintInflationaryCoins ::
    "'b kavadist_env \<Rightarrow> 'b kavadist_state \<Rightarrow> dec \<Rightarrow> int \<Rightarrow> denom \<Rightarrow> ('b kavadist_state \<times> coin option) result" where
  "mintInflationaryCoins E st inflationRate timePeriods denom =
     bnd (inflated E inflationRate timePeriods (GetSupply (ke_sdk E) (ks_bank st) denom)) (\<lambda>amountToMint.
     if amountToMint = 0 then Inr (st, None)
     else
       bnd (NewCoin (ke_math E) denom amountToMint) (\<lambda>coin.
       bnd (NewCoins (ke_sdk E) [coin]) (\<lambda>cs.
       bnd (MintCoins (ke_sdk E) (ks_bank st) kavadist_module cs) (\<lambda>b.
       Inr (st\<lparr>ks_bank := b\<rparr>, Some coin)))))"

text \<open>The four cases of both loops; a period that starts between the two block times and ends later is in none of them.\<close>

datatype period_kind = PeriodExpired | PeriodEnded int | PeriodOngoing int | PeriodFuture | PeriodOther

definition period_case :: "time \<Rightarrow> time \<Rightarrow> Period \<Rightarrow> period_kind" where
  "period_case now previousBlockTime period =
     (if pd_End period < previousBlockTime then PeriodExpired
      else if pd_End period > previousBlockTime \<and> (pd_End period < now \<or> pd_End period = now)
        then PeriodEnded (time_Unix (pd_End period) - time_Unix previousBlockTime)
      else if (pd_Start period < previousBlockTime \<or> pd_Start period = previousBlockTime) \<and> pd_End period > now
        then PeriodOngoing (time_Unix now - time_Unix previousBlockTime)
      else if pd_Start period > now \<or> pd_Start period = now then PeriodFuture
      else PeriodOther)"

fun mintIncentivePeriods ::
    "'b kavadist_env \<Rightarrow> time \<Rightarrow> Period list \<Rightarrow> time \<Rightarrow> 'b kavadist_state \<Rightarrow> 'b kavadist_state result" where
  "mintIncentivePeriods E now [] previousBlockTime st = Inr st"
| "mintIncentivePeriods E now (period # periods) previousBlockTime st =
     (case period_case now previousBlockTime period of
        PeriodEnded timeElapsed \<Rightarrow>
          bnd (mintInflationaryCoins E st (pd_Inflation period) timeElapsed GovDenom) (\<lambda>(st1, _).
          mintIncentivePeriods E now periods (pd_End period) st1)
      | PeriodOngoing timeElapsed \<Rightarrow>
          bnd (mintInflationaryCoins E st (pd_Inflation period) timeElapsed GovDenom) (\<lambda>(st1, _).
          mintIncentivePeriods E now periods previousBlockTime st1)
      | _ \<Rightarrow> mintIncentivePeriods E now periods previousBlockTime st)"

section \<open>Infrastructure\<close>

text \<open>
  The result is asked for being zero before its error is looked at; the empty coin, which is returned with an error and
  when nothing was minted, has no amount, so that the question panics.
\<close>

definition mint_for_infrastructure ::
    "'b kavadist_env \<Rightarrow> 'b kavadist_state \<Rightarrow> Period \<Rightarrow> int \<Rightarrow> coin \<Rightarrow> ('b kavadist_state \<times> coin) result" where
  "mint_for_infrastructure E st period timeElapsed coinsMinted =
     (case mintInflationaryCoins E st (pd_Inflation period) timeElapsed GovDenom of
        Inl (Err e) \<Rightarrow> Inl (Panic ''nil pointer dereference'')
      | Inl (Panic e) \<Rightarrow> Inl (Panic e)
      | Inr (st1, None) \<Rightarrow> Inl (Panic ''nil pointer dereference'')
      | Inr (st1, Some c) \<Rightarrow>
          if Amount c \<noteq> 0 then bnd (coin_Add (ke_math E) coinsMinted c) (\<lambda>coinsMinted'. Inr (st1, coinsMinted'))
          else Inr (st1, coinsMinted))"

fun mint_infrastructure ::
    "'b kavadist_env \<Rightarrow> time \<Rightarrow> Period list \<Rightarrow> time \<Rightarrow> 'b kavadist_state \<Rightarrow> coin \<Rightarrow> int \<Rightarrow> ('b kavadist_state \<times> coin \<times> int) result" where
  "mint_infrastructure E now [] previousBlockTime st coinsMinted timeElapsed = Inr (st, coinsMinted, timeElapsed)"
| "mint_infrastructure E now (period # periods) previousBlockTime st coinsMinted timeElapsed =
     (case period_case now previousBlockTime period of
        PeriodEnded timeElapsed' \<Rightarrow>
          bnd (mint_for_infrastructure E st period timeElapsed' coinsMinted) (\<lambda>(st1, coinsMinted').
          mint_infrastructure E now periods (pd_End period) st1 coinsMinted' timeElapsed')
      | PeriodOngoing timeElapsed' \<Rightarrow>
          bnd (mint_for_infrastructure E st period timeElapsed' coinsMinted) (\<lambda>(st1, coinsMinted').
          mint_infrastructure E now periods previousBlockTime st1 coinsMinted' timeElapsed')
      | PeriodFuture \<Rightarrow>
          mint_infrastructure E now periods previousBlockTime st coinsMinted (time_Unix now - time_Unix previousBlockTime)
      | _ \<Rightarrow> mint_infrastructure E now periods previousBlockTime st coinsMinted timeElapsed)"

definition mintInfrastructurePeriods ::
    "'b kavadist_env \<Rightarrow> time \<Rightarrow> Period list \<Rightarrow> time \<Rightarrow> 'b kavadist_state \<Rightarrow> ('b kavadist_state \<times> coin \<times> int) result" where
  "mintInfrastructurePeriods E now periods previousBlockTime st =
     bnd (NewCoin (ke_math E) GovDenom 0) (\<lambda>coinsMinted.
     mint_infrastructure E now periods previousBlockTime st coinsMinted 0)"

definition kavadist_safeSub :: "sdk_math \<Rightarrow> coin \<Rightarrow> coin \<Rightarrow> (bool \<times> coin option) result" where
  "kavadist_safeSub m a b =
     bnd (coin_IsLT a b) (\<lambda>isNeg. if isNeg then Inr (True, None) else bnd (coin_Sub m a b) (\<lambda>c. Inr (False, Some c)))"

definition pay_from_minted ::
    "'b kavadist_env \<Rightarrow> address \<Rightarrow> coin \<Rightarrow> 'b kavadist_state \<times> coin \<Rightarrow> ('b kavadist_state \<times> coin) result" where
  "pay_from_minted E addr coinsToSend acc =
     (case acc of (st, coinsToDistribute) \<Rightarrow>
        bnd (NewCoins (ke_sdk E) [coinsToSend]) (\<lambda>cs.
        bnd (SendCoinsFromModuleToAccount (ke_sdk E) (ks_bank st) kavadist_module addr cs) (\<lambda>b.
        bnd (kavadist_safeSub (ke_math E) coinsToDistribute coinsToSend) (\<lambda>(neg, updatedCoins).
        case updatedCoins of
          None \<Rightarrow> Inl (Err ''negative coins'')
        | Some rest \<Rightarrow> Inr (st\<lparr>ks_bank := b\<rparr>, rest)))))"

definition pay_partner ::
    "'b kavadist_env \<Rightarrow> int \<Rightarrow> PartnerReward \<Rightarrow> 'b kavadist_state \<times> coin \<Rightarrow> ('b kavadist_state \<times> coin) result" where
  "pay_partner E timeElapsed pr acc =
     bnd (toInt (ke_math E) (Amount (pr_RewardsPerSecond pr) * timeElapsed)) (\<lambda>n.
     bnd (NewCoin (ke_math E) GovDenom n) (\<lambda>coinsToSend.
     pay_from_minted E (pr_Address pr) coinsToSend acc))"

definition pay_core ::
    "'b kavadist_env \<Rightarrow> CoreReward \<Rightarrow> 'b kavadist_state \<times> coin \<Rightarrow> ('b kavadist_state \<times> coin) result" where
  "pay_core E cr acc =
     bnd (DecMul (ke_math E) (NewDecFromInt (Amount (snd acc))) (cr_Weight cr)) (\<lambda>p.
     bnd (DecRoundInt (ke_math E) p) (\<lambda>n.
     bnd (NewCoin (ke_math E) GovDenom n) (\<lambda>coinsToSend.
     pay_from_minted E (cr_Address cr) coinsToSend acc)))"

definition distributeInfrastructureCoins ::
    "'b kavadist_env \<Rightarrow> 'b kavadist_state \<Rightarrow> PartnerReward list \<Rightarrow> CoreReward list \<Rightarrow> int \<Rightarrow> coin \<Rightarrow> 'b kavadist_state result" where
  "distributeInfrastructureCoins E st partnerRewards coreRewards timeElapsed coinsToDistribute =
     (if timeElapsed = 0 then Inr st
      else if Amount coinsToDistribute = 0 then Inr st
      else
        bnd (foldR (pay_partner E timeElapsed) partnerRewards (st, coinsToDistribute)) (\<lambda>acc.
        bnd (foldR (pay_core E) coreRewards acc) (\<lambda>(st', _).
        Inr st')))"

definition MintPeriodInflation :: "'b kavadist_env \<Rightarrow> time \<Rightarrow> 'b kavadist_state \<Rightarrow> 'b kavadist_state result" where
  "MintPeriodInflation E now st =
     (let params = ks_params st; infra = kd_InfrastructureParams params in
      if \<not> kd_Active params then Inr st
      else
        case GetPreviousBlockTime st of
          None \<Rightarrow> Inr (SetPreviousBlockTime st now)
        | Some previousBlockTime \<Rightarrow>
            bnd (mintIncentivePeriods E now (kd_Periods params) previousBlockTime st) (\<lambda>st1.
            bnd (mintInfrastructurePeriods E now (ip_InfrastructurePeriods infra) previousBlockTime st1) (\<lambda>(st2, coinsToDistribute, timeElapsed).
            bnd (distributeInfrastructureCoins E st2 (ip_PartnerRewards infra) (ip_CoreRewards infra) timeElapsed coinsToDistribute) (\<lambda>st3.
            Inr (SetPreviousBlockTime st3 now)))))"

section \<open>Spending proposals\<close>

record MultiSpendRecipient =
  ms_Address :: string
  ms_Amount :: coins

record CommunityPoolMultiSpendProposal =
  cp_Title :: string
  cp_Description :: string
  cp_RecipientList :: "MultiSpendRecipient list"

definition MultiSpendRecipient_Validate :: "sdk_math \<Rightarrow> (string \<Rightarrow> address result) \<Rightarrow> MultiSpendRecipient \<Rightarrow> unit result" where
  "MultiSpendRecipient_Validate m bech msr =
     (if \<not> coins_Valid m (ms_Amount msr) then Inl (Err ''ErrInvalidProposalAmount'')
      else if ms_Address msr = [] then Inl (Err ''ErrEmptyProposalRecipient'')
      else bnd (bech (ms_Address msr)) (\<lambda>_. Inr ()))"

definition MultiSpend_ValidateBasic ::
    "sdk_math \<Rightarrow> (string \<Rightarrow> address result) \<Rightarrow> (string \<Rightarrow> string \<Rightarrow> unit result) \<Rightarrow> CommunityPoolMultiSpendProposal \<Rightarrow> unit result" where
  \<comment> \<open>\<open>abstract\<close> is \<open>ValidateAbstract\<close> of the governance module, on title and description\<close>
  "MultiSpend_ValidateBasic m bech abstract csp =
     bnd (abstract (cp_Title csp) (cp_Description csp)) (\<lambda>_.
     foldR (\<lambda>msr _. MultiSpendRecipient_Validate m bech msr) (cp_RecipientList csp) ())"

definition MultiSpendRecipient_GetAddress :: "(string \<Rightarrow> address result) \<Rightarrow> MultiSpendRecipient \<Rightarrow> address result" where
  "MultiSpendRecipient_GetAddress bech msr = panic_on_err (bech (ms_Address msr))"

definition spend_one ::
    "'b kavadist_env \<Rightarrow> (string \<Rightarrow> address result) \<Rightarrow> MultiSpendRecipient \<Rightarrow> 'b kavadist_state \<Rightarrow> 'b kavadist_state result" where
  "spend_one E bech r st =
     (if ke_blacklisted E (ms_Address r) then Inl (Err ''ErrUnauthorized'')
      else
        bnd (MultiSpendRecipient_GetAddress bech r) (\<lambda>a.
        bnd (ke_FeePool E (ks_bank st) (ms_Amount r) a) (\<lambda>b.
        Inr (st\<lparr>ks_bank := b\<rparr>))))"

definition HandleCommunityPoolMultiSpendProposal ::
    "'b kavadist_env \<Rightarrow> (string \<Rightarrow> address result) \<Rightarrow> 'b kavadist_state \<Rightarrow> CommunityPoolMultiSpendProposal \<Rightarrow> 'b kavadist_state result" where
  "HandleCommunityPoolMultiSpendProposal E bech st p = foldR (spend_one E bech) (cp_RecipientList p) st"

section \<open>Genesis\<close>

record kavadist_genesis =
  kg_Params :: kavadist_Params
  kg_PreviousBlockTime :: time

text \<open>\<open>time.Time{}\<close> is the first of January of the year one.\<close>

definition zero_time :: time where "zero_time = - 62135596800 * second"

definition kavadist_genesis_Validate :: "kavadist_genesis \<Rightarrow> unit result" where
  "kavadist_genesis_Validate gs =
     bnd (kavadist_Params_Validate (kg_Params gs)) (\<lambda>_.
     if kg_PreviousBlockTime gs = zero_time then Inl (Err ''previous block time not set'') else Inr ())"

end
