(* ===== verification/Kavadist_Safety.thy ===== *)
theory Kavadist_Safety
  imports Kavadist
begin

text \<open>
  What a block of \<open>x/kavadist\<close> does: no second is charged twice by periods in chronological order, and payments for
  infrastructure stay within what was minted for it.
\<close>

section \<open>Spans of time\<close>

text \<open>The seconds each period is charged for, the specification of the loop over the periods.\<close>

fun spans :: "time \<Rightarrow> Period list \<Rightarrow> time \<Rightarrow> (Period \<times> int) list" where
  "spans now [] previous = []"
| "spans now (p # ps) previous =
     (case period_case now previous p of
        PeriodEnded s \<Rightarrow> (p, s) # spans now ps (pd_End p)
      | PeriodOngoing s \<Rightarrow> (p, s) # spans now ps previous
      | _ \<Rightarrow> spans now ps previous)"

definition mint_span :: "'b kavadist_env \<Rightarrow> Period \<times> int \<Rightarrow> 'b kavadist_state \<Rightarrow> 'b kavadist_state result" where
  "mint_span E ps st = bnd (mintInflationaryCoins E st (pd_Inflation (fst ps)) (snd ps) GovDenom) (\<lambda>(st1, _). Inr st1)"

lemma mintIncentivePeriods_spans: "mintIncentivePeriods E now ps previous st = foldR (mint_span E) (spans now ps previous) st"
  by (induction ps arbitrary: previous st)
    (auto simp: mint_span_def bnd_assoc split: period_kind.split prod.split intro!: bnd_cong)

lemma unix_seconds_mono: "s \<le> t \<Longrightarrow> time_Unix s \<le> time_Unix t"
  by (simp add: time_Unix_def zdiv_mono1)

lemma check_periods_Cons [simp]:
  "check_periods e (p # ps) = Inr () \<longleftrightarrow>
     pd_Start p \<le> pd_End p \<and> e \<le> pd_Start p \<and> 0 < time_Unix (pd_Start p) \<and> 0 < time_Unix (pd_End p) \<and>
     check_periods (pd_End p) ps = Inr ()"
  by auto

declare check_periods.simps(2) [simp del]

lemma spans_future:
  assumes "check_periods e ps = Inr ()" "now < e" "previous \<le> now"
  shows "spans now ps previous = []"
  using assms
proof (induction ps arbitrary: e)
  case (Cons p ps)
  have "now < pd_Start p" "pd_Start p \<le> pd_End p" "check_periods (pd_End p) ps = Inr ()" using Cons.prems by simp_all
  then have "period_case now previous p = PeriodFuture" using Cons.prems by (simp add: period_case_def)
  then show ?case using Cons.IH [of "pd_End p"] \<open>now < pd_Start p\<close> \<open>pd_Start p \<le> pd_End p\<close> \<open>check_periods (pd_End p) ps = Inr ()\<close> Cons.prems(3)
    by simp
qed simp

lemma spans_bounds:
  assumes "check_periods e ps = Inr ()" "previous \<le> now"
  shows "(\<forall>x\<in>set (spans now ps previous). 0 \<le> snd x) \<and> sum_list (map snd (spans now ps previous)) \<le> time_Unix now - time_Unix previous"
  using assms
proof (induction ps arbitrary: e previous)
  case Nil
  then show ?case using unix_seconds_mono [of previous now] by simp
next
  case (Cons p ps)
  have p: "check_periods (pd_End p) ps = Inr ()" using Cons.prems(1) by simp
  consider (ended) s where "period_case now previous p = PeriodEnded s" | (ongoing) s where "period_case now previous p = PeriodOngoing s"
    | (skip) "spans now (p # ps) previous = spans now ps previous"
    by (cases "period_case now previous p") auto
  then show ?case
  proof cases
    case ended
    then have e: "previous < pd_End p" "pd_End p \<le> now" "s = time_Unix (pd_End p) - time_Unix previous"
      by (auto simp: period_case_def split: if_splits)
    show ?thesis using ended Cons.IH [OF p e(2)] unix_seconds_mono [of previous "pd_End p"] e by auto
  next
    case ongoing
    then have o: "now < pd_End p" "s = time_Unix now - time_Unix previous" by (auto simp: period_case_def split: if_splits)
    show ?thesis using ongoing spans_future [OF p o(1) Cons.prems(2)] o(2) unix_seconds_mono [OF Cons.prems(2)] by simp
  next
    case skip
    then show ?thesis using Cons.IH [OF p Cons.prems(2)] by simp
  qed
qed

text \<open>
  C39: with valid parameters the incentive periods of a block mint, one after another, each period's rate compounded over
  a span of seconds; the spans are not negative, and together they are at most the seconds between the previous block and
  this one, so that no second is charged twice. A period that starts and ends between two blocks is charged from the
  previous block or the end of the period before it on.
\<close>

theorem kavadist_seconds_once:
  assumes "kavadist_Params_Validate p = Inr ()" "previous \<le> now"
  shows "mintIncentivePeriods E now (kd_Periods p) previous st = foldR (mint_span E) (spans now (kd_Periods p) previous) st \<and>
    (\<forall>(period, seconds)\<in>set (spans now (kd_Periods p) previous). period \<in> set (kd_Periods p) \<and> 0 \<le> seconds) \<and>
    sum_list (map snd (spans now (kd_Periods p) previous)) \<le> time_Unix now - time_Unix previous"
proof -
  have "check_periods 0 (kd_Periods p) = Inr ()"
    using assms(1) by (simp add: kavadist_Params_Validate_def validatePeriodsParams_def)
  note b = spans_bounds [OF this assms(2)]
  have "fst ` set (spans now ps previous) \<subseteq> set ps" for ps :: "Period list" and previous
  proof (induction ps arbitrary: previous)
    case (Cons p ps)
    then show ?case using Cons.IH [of previous] Cons.IH [of "pd_End p"] by (auto split: period_kind.split)
  qed simp
  then show ?thesis using b mintIncentivePeriods_spans by fastforce
qed

section \<open>What a block mints and pays\<close>

text \<open>The bank after minting \<open>n\<close> coins of the governance denomination for the module.\<close>

definition minted :: "'b kavadist_env \<Rightarrow> 'b kavadist_state \<Rightarrow> 'b kavadist_state \<Rightarrow> int \<Rightarrow> bool" where
  "minted E st st' n \<longleftrightarrow> 0 \<le> n \<and> ks_params st' = ks_params st \<and> ks_previous st' = ks_previous st \<and>
     (\<forall>a d. GetBalance (ke_sdk E) (ks_bank st') a d = GetBalance (ke_sdk E) (ks_bank st) a d +
        (if a = ModuleAddress (ke_sdk E) kavadist_module \<and> d = GovDenom then n else 0)) \<and>
     (\<forall>d. GetSupply (ke_sdk E) (ks_bank st') d = GetSupply (ke_sdk E) (ks_bank st) d + (if d = GovDenom then n else 0))"

lemma minted_refl: "minted E st st 0"
  by (simp add: minted_def)

lemma minted_trans: "minted E st st1 n \<Longrightarrow> minted E st1 st2 k \<Longrightarrow> minted E st st2 (n + k)"
  by (simp add: minted_def)

lemma mintInflationaryCoins_ok:
  assumes "sdk_laws (ke_sdk E)" "mintInflationaryCoins E st rate s GovDenom = Inr (st', c)"
  shows "minted E st st' (case c of None \<Rightarrow> 0 | Some coin \<Rightarrow> Amount coin) \<and> (\<forall>coin. c = Some coin \<longrightarrow> Denom coin = GovDenom)"
proof -
  obtain n where n: "(if n = 0 then Inr (st, None) else
       bnd (NewCoin (ke_math E) GovDenom n) (\<lambda>coin. bnd (NewCoins (ke_sdk E) [coin]) (\<lambda>cs.
       bnd (MintCoins (ke_sdk E) (ks_bank st) kavadist_module cs) (\<lambda>b. Inr (st\<lparr>ks_bank := b\<rparr>, Some coin))))) = Inr (st', c)"
    using assms(2) by (auto simp: mintInflationaryCoins_def)
  show ?thesis
  proof (cases "n = 0")
    case True
    then show ?thesis using n minted_refl by auto
  next
    case False
    then obtain coin cs b where c: "NewCoin (ke_math E) GovDenom n = Inr coin" "NewCoins (ke_sdk E) [coin] = Inr cs"
        "MintCoins (ke_sdk E) (ks_bank st) kavadist_module cs = Inr b" "st' = st\<lparr>ks_bank := b\<rparr>" "c = Some coin"
      using n by auto
    have d: "Denom coin = GovDenom" using c(1) by auto
    note a = NewCoins_one [OF assms(1) c(2)]
    show ?thesis
      using mints(1,3) [OF assms(1) c(3)] a d c(4,5) by (simp add: minted_def coin_amt_def)
  qed
qed

lemma mintIncentivePeriods_ok:
  assumes "sdk_laws (ke_sdk E)" "mintIncentivePeriods E now ps previous st = Inr st'"
  shows "\<exists>n. minted E st st' n"
proof -
  have "\<exists>n. minted E st s' n" if "\<exists>n. minted E st s n" "mint_span E x s = Inr s'" for x s s'
    using that mintInflationaryCoins_ok [OF assms(1)] minted_trans unfolding mint_span_def by (fastforce split: prod.splits)
  then show ?thesis
    using foldR_invariant [where P = "\<lambda>s. \<exists>n. minted E st s n"] assms(2) minted_refl
    unfolding mintIncentivePeriods_spans by blast
qed

lemma mint_for_infrastructure_ok:
  assumes "sdk_laws (ke_sdk E)" "mint_for_infrastructure E st p s c = Inr (st', c')" "Denom c = GovDenom"
  shows "minted E st st' (Amount c' - Amount c)" "Denom c' = GovDenom"
proof -
  obtain coin where m: "mintInflationaryCoins E st (pd_Inflation p) s GovDenom = Inr (st', Some coin)"
      and a: "(if Amount coin \<noteq> 0 then coin_Add (ke_math E) c coin else Inr c) = Inr c'"
    using assms(2) unfolding mint_for_infrastructure_def
    by (auto split: sum.splits fault.splits prod.splits option.splits if_splits)
  have "Denom c' = GovDenom \<and> Amount c' - Amount c = Amount coin" using a assms(3) by (auto split: if_splits)
  then show "minted E st st' (Amount c' - Amount c)" "Denom c' = GovDenom"
    using mintInflationaryCoins_ok [OF assms(1) m] by simp_all
qed

lemma mint_infrastructure_ok:
  assumes "sdk_laws (ke_sdk E)" "mint_infrastructure E now ps previous st c t = Inr (st', c', t')" "Denom c = GovDenom"
  shows "minted E st st' (Amount c' - Amount c) \<and> Denom c' = GovDenom"
  using assms(2,3)
proof (induction ps arbitrary: previous st c t)
  case Nil
  then show ?case using minted_refl by auto
next
  case (Cons p ps)
  have step: ?case if m: "mint_for_infrastructure E st p s c = Inr (st1, c1)"
      "mint_infrastructure E now ps previous' st1 c1 t1 = Inr (st', c', t')" for s st1 c1 previous' t1
    using minted_trans [OF mint_for_infrastructure_ok(1) [OF assms(1) m(1) Cons.prems(2)]
        conjunct1 [OF Cons.IH [OF m(2) mint_for_infrastructure_ok(2) [OF assms(1) m(1) Cons.prems(2)]]]]
      Cons.IH [OF m(2) mint_for_infrastructure_ok(2) [OF assms(1) m(1) Cons.prems(2)]] by simp
  show ?case
    using Cons.prems(1) step Cons.IH [OF _ Cons.prems(2)]
    by (cases "period_case now previous p") (force split: prod.splits)+
qed

lemma mintInfrastructurePeriods_ok:
  assumes "sdk_laws (ke_sdk E)" "mintInfrastructurePeriods E now ps previous st = Inr (st', c, t)"
  shows "minted E st st' (Amount c)" "Denom c = GovDenom"
proof -
  obtain c0 where "NewCoin (ke_math E) GovDenom 0 = Inr c0" "mint_infrastructure E now ps previous st c0 0 = Inr (st', c, t)"
    using assms(2) by (auto simp: mintInfrastructurePeriods_def)
  moreover from this have "Denom c0 = GovDenom" "Amount c0 = 0" by auto
  ultimately show "minted E st st' (Amount c)" "Denom c = GovDenom" using mint_infrastructure_ok [OF assms(1)] by fastforce+
qed

text \<open>The bank after the module paid at most \<open>n\<close> coins of the governance denomination out of its account.\<close>

definition disbursed :: "'b kavadist_env \<Rightarrow> 'b kavadist_state \<Rightarrow> 'b kavadist_state \<Rightarrow> int \<Rightarrow> bool" where
  "disbursed E st st' n \<longleftrightarrow> ks_params st' = ks_params st \<and> ks_previous st' = ks_previous st \<and>
     (\<forall>a d. (if a = ModuleAddress (ke_sdk E) kavadist_module \<and> d = GovDenom then - n else 0) \<le>
        GetBalance (ke_sdk E) (ks_bank st') a d - GetBalance (ke_sdk E) (ks_bank st) a d) \<and>
     (\<forall>d. GetBalance (ke_sdk E) (ks_bank st') (ModuleAddress (ke_sdk E) kavadist_module) d \<le>
        GetBalance (ke_sdk E) (ks_bank st) (ModuleAddress (ke_sdk E) kavadist_module) d) \<and>
     (\<forall>a d. d \<noteq> GovDenom \<longrightarrow> GetBalance (ke_sdk E) (ks_bank st') a d = GetBalance (ke_sdk E) (ks_bank st) a d) \<and>
     (\<forall>d. GetSupply (ke_sdk E) (ks_bank st') d = GetSupply (ke_sdk E) (ks_bank st) d)"

lemma disbursed_refl: "disbursed E st st 0"
  by (simp add: disbursed_def)

lemma disbursed_trans:
  assumes "disbursed E st st1 n" "disbursed E st1 st2 k"
  shows "disbursed E st st2 (n + k)"
proof -
  let ?M = "ModuleAddress (ke_sdk E) kavadist_module" and ?B = "\<lambda>s. GetBalance (ke_sdk E) (ks_bank s)"
  have "(if a = ?M \<and> d = GovDenom then - (n + k) else 0) \<le> ?B st2 a d - ?B st a d" for a d
  proof -
    have "(if a = ?M \<and> d = GovDenom then - n else 0) \<le> ?B st1 a d - ?B st a d"
      "(if a = ?M \<and> d = GovDenom then - k else 0) \<le> ?B st2 a d - ?B st1 a d"
      using assms unfolding disbursed_def by blast+
    then show ?thesis by (auto split: if_splits)
  qed
  then show ?thesis using assms unfolding disbursed_def by (fastforce intro: order_trans)
qed

lemma pay_from_minted_ok:
  assumes "sdk_laws (ke_sdk E)" "pay_from_minted E a c (st, have) = Inr (st', left)" "Denom c = GovDenom"
  shows "disbursed E st st' (Amount have - Amount left)" "Denom left = Denom have" "0 \<le> Amount left" "Amount left \<le> Amount have"
proof -
  obtain cs b where o: "NewCoins (ke_sdk E) [c] = Inr cs" "SendCoinsFromModuleToAccount (ke_sdk E) (ks_bank st) kavadist_module a cs = Inr b"
      "st' = st\<lparr>ks_bank := b\<rparr>" "kavadist_safeSub (ke_math E) have c = Inr (False, Some left)"
    using assms(2) unfolding pay_from_minted_def kavadist_safeSub_def by (auto split: option.splits if_splits)
  have l: "Denom left = Denom have" "Amount left = Amount have - Amount c" "0 \<le> Amount left" "Denom have = Denom c"
    using o(4) by (auto simp: kavadist_safeSub_def split: if_splits)
  note n = NewCoins_one [OF assms(1) o(1)]
  show "Denom left = Denom have" "0 \<le> Amount left" "Amount left \<le> Amount have" using l n(2) by simp_all
  show "disbursed E st st' (Amount have - Amount left)"
    using sends(3) [OF assms(1) o(2)] n(2) l(2) assms(3)
    by (simp add: disbursed_def moved_def o(3) n(1) coin_amt_def)
qed

lemma payments_ok:
  assumes "sdk_laws (ke_sdk E)" "foldR f xs (st, c) = Inr (st', c')"
    "\<forall>x acc acc'. f x acc = Inr acc' \<longrightarrow> (\<exists>a coin. Denom coin = GovDenom \<and> pay_from_minted E a coin acc = Inr acc')"
    "0 \<le> Amount c"
  shows "disbursed E st st' (Amount c - Amount c')" "0 \<le> Amount c'" "Amount c' \<le> Amount c"
proof -
  have "disbursed E st (fst acc) (Amount c - Amount (snd acc)) \<and> 0 \<le> Amount (snd acc) \<and> Amount (snd acc) \<le> Amount c"
    if "foldR f xs (st, c) = Inr acc" for acc
    using that
  proof (rule foldR_invariant)
    show "disbursed E st (fst (st, c)) (Amount c - Amount (snd (st, c))) \<and> 0 \<le> Amount (snd (st, c)) \<and> Amount (snd (st, c)) \<le> Amount c"
      using disbursed_refl assms(4) by simp
    fix x acc acc'
    assume i: "disbursed E st (fst acc) (Amount c - Amount (snd acc)) \<and> 0 \<le> Amount (snd acc) \<and> Amount (snd acc) \<le> Amount c"
      and s: "f x acc = Inr acc'"
    obtain a coin where "Denom coin = GovDenom" "pay_from_minted E a coin (fst acc, snd acc) = Inr (fst acc', snd acc')"
      using assms(3) s by (metis prod.collapse)
    note p = pay_from_minted_ok [OF assms(1) this(2,1)]
    show "disbursed E st (fst acc') (Amount c - Amount (snd acc')) \<and> 0 \<le> Amount (snd acc') \<and> Amount (snd acc') \<le> Amount c"
      using disbursed_trans [OF conjunct1 [OF i] p(1)] p(3,4) i by simp
  qed
  then show "disbursed E st st' (Amount c - Amount c')" "0 \<le> Amount c'" "Amount c' \<le> Amount c" using assms(2) by fastforce+
qed

lemma distribute_ok:
  assumes "sdk_laws (ke_sdk E)" "distributeInfrastructureCoins E st ps cs t c = Inr st'" "0 \<le> Amount c"
  shows "\<exists>paid. 0 \<le> paid \<and> paid \<le> Amount c \<and> disbursed E st st' paid"
proof (cases "t = 0 \<or> Amount c = 0")
  case True
  then have "st' = st" using assms(2) by (auto simp: distributeInfrastructureCoins_def split: if_splits)
  then show ?thesis using assms(3) disbursed_refl [of E st] by (intro exI [of _ 0]) simp
next
  case False
  then obtain st1 c1 c2 where f: "foldR (pay_partner E t) ps (st, c) = Inr (st1, c1)" "foldR (pay_core E) cs (st1, c1) = Inr (st', c2)"
    using assms(2) by (auto simp: distributeInfrastructureCoins_def)
  have partner: "\<forall>x acc acc'. pay_partner E t x acc = Inr acc' \<longrightarrow> (\<exists>a coin. Denom coin = GovDenom \<and> pay_from_minted E a coin acc = Inr acc')"
  proof (intro allI impI)
    fix x acc acc' assume r: "pay_partner E t x acc = Inr acc'"
    obtain n a where "pay_from_minted E a (Coin GovDenom n) acc = Inr acc'" using r unfolding pay_partner_def by auto
    then show "\<exists>a coin. Denom coin = GovDenom \<and> pay_from_minted E a coin acc = Inr acc'" by (intro exI [of _ a] exI [of _ "Coin GovDenom n"]) simp
  qed
  have core: "\<forall>x acc acc'. pay_core E x acc = Inr acc' \<longrightarrow> (\<exists>a coin. Denom coin = GovDenom \<and> pay_from_minted E a coin acc = Inr acc')"
  proof (intro allI impI)
    fix x acc acc' assume r: "pay_core E x acc = Inr acc'"
    obtain n a where "pay_from_minted E a (Coin GovDenom n) acc = Inr acc'" using r unfolding pay_core_def by auto
    then show "\<exists>a coin. Denom coin = GovDenom \<and> pay_from_minted E a coin acc = Inr acc'" by (intro exI [of _ a] exI [of _ "Coin GovDenom n"]) simp
  qed
  note p = payments_ok [OF assms(1) f(1) partner assms(3)]
  note q = payments_ok [OF assms(1) f(2) core p(2)]
  show ?thesis using disbursed_trans [OF p(1) q(1)] p(3) q(2,3) by (intro exI [of _ "Amount c - Amount c2"]) simp
qed

text \<open>
  C32: a block with active parameters mints for the incentive periods and for infrastructure and then pays infrastructure.
  The payments never exceed what was minted for infrastructure: what the incentive periods minted stays in the module
  account, whatever rates and weights the parameters have, and nobody else's balance falls. The supply of the governance
  denomination grows by what was minted, and no other denomination changes.
\<close>

theorem kavadist_pays_minted:
  assumes "sdk_laws (ke_sdk E)" "MintPeriodInflation E now st = Inr st'" "kd_Active (ks_params st)" "GetPreviousBlockTime st = Some previous"
  shows "\<exists>st1 incentives infrastructure.
    mintIncentivePeriods E now (kd_Periods (ks_params st)) previous st = Inr st1 \<and> 0 \<le> incentives \<and> 0 \<le> infrastructure \<and>
    GetSupply (ke_sdk E) (ks_bank st1) GovDenom = GetSupply (ke_sdk E) (ks_bank st) GovDenom + incentives \<and>
    GetSupply (ke_sdk E) (ks_bank st') GovDenom = GetSupply (ke_sdk E) (ks_bank st) GovDenom + incentives + infrastructure \<and>
    GetBalance (ke_sdk E) (ks_bank st) (ModuleAddress (ke_sdk E) kavadist_module) GovDenom + incentives
      \<le> GetBalance (ke_sdk E) (ks_bank st') (ModuleAddress (ke_sdk E) kavadist_module) GovDenom \<and>
    (\<forall>a d. GetBalance (ke_sdk E) (ks_bank st) a d \<le> GetBalance (ke_sdk E) (ks_bank st') a d) \<and>
    (\<forall>a d. d \<noteq> GovDenom \<longrightarrow> GetBalance (ke_sdk E) (ks_bank st') a d = GetBalance (ke_sdk E) (ks_bank st) a d) \<and>
    ks_params st' = ks_params st \<and> GetPreviousBlockTime st' = Some now"
proof -
  let ?p = "ks_params st" and ?ip = "kd_InfrastructureParams (ks_params st)"
  obtain st1 st2 c t st3 where o: "mintIncentivePeriods E now (kd_Periods ?p) previous st = Inr st1"
      "mintInfrastructurePeriods E now (ip_InfrastructurePeriods ?ip) previous st1 = Inr (st2, c, t)"
      "distributeInfrastructureCoins E st2 (ip_PartnerRewards ?ip) (ip_CoreRewards ?ip) t c = Inr st3"
      "st' = SetPreviousBlockTime st3 now"
    using assms(2-4) by (auto simp: MintPeriodInflation_def Let_def)
  obtain i where i: "minted E st st1 i" using mintIncentivePeriods_ok [OF assms(1) o(1)] by blast
  note j = mintInfrastructurePeriods_ok(1) [OF assms(1) o(2)]
  obtain paid where paid: "0 \<le> paid" "paid \<le> Amount c" "disbursed E st2 st3 paid"
    using distribute_ok [OF assms(1) o(3)] j by (auto simp: minted_def)
  note ij = minted_trans [OF i j]
  have "GetBalance (ke_sdk E) (ks_bank st) a d \<le> GetBalance (ke_sdk E) (ks_bank st') a d \<and>
      (a = ModuleAddress (ke_sdk E) kavadist_module \<and> d = GovDenom \<longrightarrow>
        GetBalance (ke_sdk E) (ks_bank st) a d + i \<le> GetBalance (ke_sdk E) (ks_bank st') a d)" for a d
  proof -
    have "(if a = ModuleAddress (ke_sdk E) kavadist_module \<and> d = GovDenom then - paid else 0) \<le>
        GetBalance (ke_sdk E) (ks_bank st3) a d - GetBalance (ke_sdk E) (ks_bank st2) a d"
      using paid(3) unfolding disbursed_def by blast
    then show ?thesis using ij paid(1,2) i unfolding minted_def o(4) SetPreviousBlockTime_def by (auto split: if_splits)
  qed
  moreover have "GetSupply (ke_sdk E) (ks_bank st') GovDenom = GetSupply (ke_sdk E) (ks_bank st) GovDenom + i + Amount c"
    using ij paid(3) by (simp add: minted_def disbursed_def o(4) SetPreviousBlockTime_def)
  moreover have "GetBalance (ke_sdk E) (ks_bank st') a d = GetBalance (ke_sdk E) (ks_bank st) a d" if "d \<noteq> GovDenom" for a d
    using ij paid(3) that by (simp add: minted_def disbursed_def o(4) SetPreviousBlockTime_def)
  moreover have "ks_params st' = ks_params st" "GetPreviousBlockTime st' = Some now"
    using ij paid(3) by (simp_all add: minted_def disbursed_def o(4) SetPreviousBlockTime_def GetPreviousBlockTime_def)
  moreover have "0 \<le> i" "0 \<le> Amount c" "GetSupply (ke_sdk E) (ks_bank st1) GovDenom = GetSupply (ke_sdk E) (ks_bank st) GovDenom + i"
    using i j by (simp_all add: minted_def)
  ultimately show ?thesis using o(1) by blast
qed

section \<open>A block\<close>

text \<open>
  A chain with a thousand coins. In ten seconds the first period ends after six and the second, twice as generous, runs
  for the other four; infrastructure gets as much as the first, of which a partner takes ten coins a second and a core
  address half of the rest.
\<close>

definition ex_period :: "int \<Rightarrow> int \<Rightarrow> int \<Rightarrow> Period" where
  "ex_period s e percent = \<lparr>pd_Start = s * second, pd_End = e * second, pd_Inflation = OneDec + percent * (OneDec div 100)\<rparr>"

definition ex_kavadist_params :: kavadist_Params where
  "ex_kavadist_params = \<lparr>kd_Active = True, kd_Periods = [ex_period 10 26 1, ex_period 26 100 2],
     kd_InfrastructureParams = \<lparr>ip_InfrastructurePeriods = [ex_period 10 100 10],
       ip_PartnerRewards = [\<lparr>pr_Address = ''bob'', pr_RewardsPerSecond = Coin ''ukava'' 10\<rparr>],
       ip_CoreRewards = [\<lparr>cr_Address = ''carol'', cr_Weight = OneDec div 2\<rparr>]\<rparr>\<rparr>"

definition ex_kavadist_env :: "ledger kavadist_env" where
  "ex_kavadist_env = \<lparr>ke_sdk = ref_sdk, ke_RelativePow = (\<lambda>x n b. Inr (b + n * (x - b))),
     ke_FeePool = (\<lambda>l cs a. ledger_send l (module_address ''distribution'') a cs), ke_blacklisted = (\<lambda>a. False)\<rparr>"

definition ex_kavadist :: "ledger kavadist_state" where
  "ex_kavadist = \<lparr>ks_params = ex_kavadist_params, ks_previous = Some (20 * second),
     ks_bank = \<lparr>lbal = [((''alice'', ''ukava''), 1000)], lsupply = [(''ukava'', 1000)]\<rparr>\<rparr>"

theorem kavadist_seconds_once_witness:
  "map snd (spans (30 * second) (kd_Periods ex_kavadist_params) (20 * second)) = [6, 4] \<and>
   sum_list (map snd (spans (30 * second) (kd_Periods ex_kavadist_params) (20 * second))) \<le> 10"
proof -
  have v: "kavadist_Params_Validate ex_kavadist_params = Inr ()" by code_simp
  have "map snd (spans (30 * second) (kd_Periods ex_kavadist_params) (20 * second)) = [6, 4]" by code_simp
  then show ?thesis
    using kavadist_seconds_once [OF v, of "20 * second" "30 * second"] by (simp add: time_Unix_def)
qed

theorem kavadist_pays_minted_witness:
  "\<exists>st' st1. MintPeriodInflation ex_kavadist_env (30 * second) ex_kavadist = Inr st' \<and>
     mintIncentivePeriods ex_kavadist_env (30 * second) (kd_Periods ex_kavadist_params) (20 * second) ex_kavadist = Inr st1 \<and>
     lget (ks_bank st1) ''module/kavadist'' ''ukava'' = 144 \<and> 144 \<le> lget (ks_bank st') ''module/kavadist'' ''ukava'' \<and>
     lget (ks_bank st') ''bob'' ''ukava'' = 100 \<and> ks_previous st' = Some (30 * second)"
proof -
  let ?run = "MintPeriodInflation ex_kavadist_env (30 * second) ex_kavadist"
  let ?mint = "mintIncentivePeriods ex_kavadist_env (30 * second) (kd_Periods ex_kavadist_params) (20 * second) ex_kavadist"
  have r: "?run = Inr (projr ?run)" by code_simp
  have m: "?mint = Inr (projr ?mint)" "lget (ks_bank (projr ?mint)) ''module/kavadist'' ''ukava'' = 144" by code_simp+
  have b: "lget (ks_bank (projr ?run)) ''bob'' ''ukava'' = 100" by code_simp
  have s: "kd_Active (ks_params ex_kavadist)" "GetPreviousBlockTime ex_kavadist = Some (20 * second)" "sdk_laws (ke_sdk ex_kavadist_env)"
    by (simp_all add: ex_kavadist_def ex_kavadist_params_def GetPreviousBlockTime_def ex_kavadist_env_def ref_sdk_laws)
  have e: "lsup (ks_bank (projr ?mint)) ''ukava'' = 1144" "lsup (ks_bank ex_kavadist) ''ukava'' = 1000"
    "lget (ks_bank ex_kavadist) ''module/kavadist'' ''ukava'' = 0" by code_simp+
  have n: "ks_params ex_kavadist = ex_kavadist_params" "GetSupply (ke_sdk ex_kavadist_env) = lsup" "GetBalance (ke_sdk ex_kavadist_env) = lget"
    "ModuleAddress (ke_sdk ex_kavadist_env) kavadist_module = ''module/kavadist''" "GovDenom = ''ukava''"
    by (simp_all add: ex_kavadist_def ex_kavadist_env_def ref_sdk_def kavadist_module_def module_address_def GovDenom_def)
  obtain st1 i where o: "?mint = Inr st1" "lsup (ks_bank st1) ''ukava'' = lsup (ks_bank ex_kavadist) ''ukava'' + i"
      "lget (ks_bank ex_kavadist) ''module/kavadist'' ''ukava'' + i \<le> lget (ks_bank (projr ?run)) ''module/kavadist'' ''ukava''"
      "GetPreviousBlockTime (projr ?run) = Some (30 * second)"
    using kavadist_pays_minted [OF s(3) r s(1,2)] unfolding n by blast
  have "st1 = projr ?mint" using o(1) m(1) by (metis sum.sel(2))
  then have "144 \<le> lget (ks_bank (projr ?run)) ''module/kavadist'' ''ukava'' \<and> ks_previous (projr ?run) = Some (30 * second)"
    using o(2-4) e by (simp add: GetPreviousBlockTime_def)
  then show ?thesis using r m b by blast
qed

text \<open>
  Infrastructure periods are not checked to be in chronological order. Two that overlap are both charged for the same
  seconds, and a block in the same second as the previous one panics on the coin that was not minted.
\<close>

lemma infrastructure_overlap:
  "validateInfraParams \<lparr>ip_InfrastructurePeriods = [ex_period 10 100 1, ex_period 10 100 1], ip_PartnerRewards = [], ip_CoreRewards = []\<rparr> = Inr ()"
  "map snd (spans (30 * second) [ex_period 10 100 1, ex_period 10 100 1] (20 * second)) = [10, 10]"
  "mintInfrastructurePeriods ex_kavadist_env (20 * second) [ex_period 10 100 1] (20 * second) ex_kavadist = Inl (Panic ''nil pointer dereference'')"
  by code_simp+

end
