(* ===== verification/Spec2Isabelle.thy ===== *)
theory Spec2Isabelle
  imports Swap_Solvency Auction_Reach Bep3_Reach Issuance_Safety Evmutil_Safety Evmutil_Convert_Safety Pricefeed_Safety Cdp_Positions
    Savings_Safety Committee_Permissions Committee_Reach Hard_Properties Kavadist_Safety
begin

text \<open>
  Verification of istchain, an application chain on the Cosmos SDK and CometBFT.

  \<^bold>\<open>The program.\<close> The chain is a set of modules under \<open>src/x\<close>. A module has a keeper that reads and writes
  its own key-value stores and calls the keepers of other modules, messages users send, a begin or
  end blocker that runs once per block, and genesis import and export. Every module moves money
  through the bank of the SDK and holds it in a module account. The modules modelled here interact so:
  \<open>x/cdp\<close> lends stable coins against collateral; it reads the prices of \<open>x/pricefeed\<close> and sells seized
  collateral, surplus and debt through \<open>x/auction\<close>. \<open>x/swap\<close> is a constant product exchange, \<open>x/bep3\<close>
  swaps coins with another chain under hash locks, \<open>x/issuance\<close> issues centrally managed coins, and
  \<open>x/evmutil\<close> gives the EVM a bank with 18 decimals and converts between coins and ERC20 tokens. \<open>x/hard\<close> lends deposited
  coins against other deposits; it reads prices of \<open>x/pricefeed\<close> and sells the deposits of liquidated positions through
  \<open>x/auction\<close>. \<open>x/savings\<close> holds deposits of supported coins, among them the derivatives of \<open>x/liquid\<close>. \<open>x/committee\<close> lets
  committees vote on proposals, such as changes of parameters of the other modules, within their permissions. \<open>x/kavadist\<close>
  mints coins by period for incentives and infrastructure.

  \<^bold>\<open>Conventions.\<close> A method that may fail returns \<open>result\<close>: \<open>Err\<close> for a returned error, \<open>Panic\<close> for a
  panic. Both undo all writes of the transaction, so a failing operation has no state; a begin blocker that
  panics stops the chain. A store is an association list sorted by key (\<open>kv\<close>), which is how iterators
  see it. \<open>uint64\<close> is a 64-bit word that wraps, \<open>sdkmath.Int\<close> an integer with a range check that
  panics, \<open>sdk.Dec\<close> an integer scaled by \<open>10\<^sup>18\<close>. Times are nanoseconds. Record fields carry a prefix
  of their type where two Go structs share a field name.

  \<^bold>\<open>Parameters and their laws.\<close> What is not in the repository is an argument: the integer and decimal
  arithmetic, coins, bank and account keepers of the SDK (\<open>sdk_math\<close>, \<open>sdk\<close>), with the laws \<open>math_laws\<close> and
  \<open>sdk_laws\<close>; subtraction and comparison of coin sets with \<open>coin_ops_laws\<close>, and addition of coin sets that contain zero coins
  with \<open>coins_add_loose_law\<close>; the EVM with \<open>evm_laws\<close>; hash functions, address codecs, hooks of other modules,
  \<open>sdkmath.RelativePow\<close>, \<open>Dec.ApproxRoot\<close> and the unstable sort of Go; for committees the decoding of JSON parameters, the
  contents of proposals of other modules and their handlers. \<open>Sdk_Reference\<close> gives a concrete instance of each
  and proves its laws; every witness runs on it.

  \<^bold>\<open>The library.\<close>
  \<^item> \<open>Sdk_Prelude\<close>: results, integers, decimals, coins, the bank, their laws and what a transfer, a
    mint and a burn do to balances. \<open>Ordered_Store\<close>: the stores, as the locale \<open>ordered_store\<close> with its
    interpretation on sorted lists. \<open>Time_Index\<close>: stores with an index of what is due, as the locales
    \<open>due_index\<close> and \<open>time_index\<close>, interpreted on the auctions by end time and on the swaps by expiry and by
    deletion height. \<open>Sdk_Coins\<close>: coin sets. \<open>Elapsed_Time\<close>: durations in seconds as floating point rounds them.
    \<open>Sdk_Reference\<close>: the concrete instance.
  \<^item> \<open>x/swap\<close>: \<open>Swap_Base_Pool\<close> (\<open>types/base_pool.go\<close>) has the pool, its rounding and the integer square root
    (a loop that ends because its value falls); swaps keep the product, take the least input, and a deposit followed
    by a withdrawal makes no profit. \<open>Swap_Keeper\<close> (\<open>types\<close>, \<open>keeper\<close>, \<open>genesis.go\<close>) has records, messages,
    invariants and genesis. \<open>Swap_Solvency\<close> shows that the module account holds exactly the reserves in
    every reachable state, what each message does, and the genesis round trip.
  \<^item> \<open>x/auction\<close>: \<open>Auction\<close> has the three kinds of auctions, bidding, closing, the blocker and genesis.
    \<open>Auction_Split\<close> shows that lots are divided exactly (\<open>keeper/math.go\<close>). \<open>Auction_Safety\<close> and
    \<open>Auction_Reach\<close> show that the account holds exactly lots and debts of open auctions, that a bid
    improves the auction and refunds the previous bidder, and that a block closes exactly what is due.
  \<^item> \<open>x/bep3\<close>: \<open>Bep3\<close>, \<open>Bep3_Safety\<close> and \<open>Bep3_Reach\<close>. Swaps refine an abstract life cycle (open,
    claimed or expired, refunded, deleted), pending swaps are escrowed, supplies stay within the limits, and
    exactly when a claim and a refund succeed: nothing the module keeps about a swap ever stands in the way.
  \<^item> \<open>x/issuance\<close>: \<open>Issuance\<close> and \<open>Issuance_Safety\<close>. Only owners change an asset, the rate limit holds
    over any sequence of issuances, and the blocker seizes exactly the coins of blocked accounts.
  \<^item> \<open>x/evmutil\<close>: \<open>Evmutil_Bank\<close> and \<open>Evmutil_Safety\<close> refine the two-part balances to one ledger;
    \<open>Evmutil_Convert\<close> and \<open>Evmutil_Convert_Safety\<close> show that converted coins and tokens are backed and that
    converting back and forth restores every balance.
  \<^item> \<open>x/pricefeed\<close>: \<open>Pricefeed\<close> has markets, posted prices and medians; \<open>Pricefeed_Safety\<close> shows that a minority of
    oracles cannot move a price out of the range of the rest, and that an unbounded price stops the chain.
  \<^item> \<open>x/cdp\<close>: \<open>Cdp_Types\<close> (\<open>types\<close>), \<open>Cdp\<close> (\<open>keeper\<close>, \<open>abci.go\<close>, \<open>genesis.go\<close>). The state holds the stores of
    the keeper, the state of the auction keeper with the bank in it, and the prices, so that liquidation runs
    through all three modules. \<open>Cdp_Auctions\<close> shows how a seized deposit is divided into auctions and that the
    scaled power returns. \<open>Cdp_Safety\<close> shows operation by operation, and \<open>Cdp_Reach\<close> for every reachable
    state, that deposits are held and that debt coins cover stable coins. \<open>Cdp_Positions\<close> shows that draws and
    withdrawals leave safe positions within the debt limits, what a repayment books, and that only unsafe positions
    are liquidated by keepers.
  \<^item> \<open>x/hard\<close>: \<open>Hard_Types\<close> (\<open>types\<close>), \<open>Hard\<close> (stores, hooks, interest), \<open>Hard_Keeper\<close> (deposits, withdrawals, borrows,
    repayments), \<open>Hard_Liquidation\<close> (liquidation, messages, genesis). As in \<open>x/cdp\<close> the state holds the state of the auction
    keeper with the bank in it, and the prices. \<open>Hard_Safety\<close> gives the laws of the interest arithmetic, of the totals and of
    accrual, \<open>Hard_Positions\<close> what each operation does to positions and totals, \<open>Hard_Reach\<close> the reachable states, and
    \<open>Hard_Properties\<close> shows that borrows and withdrawals leave covered positions, that only uncovered ones are liquidated,
    that interest is neither created nor lost in the books, and the range of the rates.
  \<^item> \<open>x/savings\<close>: \<open>Savings\<close> and \<open>Savings_Safety\<close>. The account holds exactly the deposits in every reachable state, and the
    registered invariants are never broken.
  \<^item> \<open>x/committee\<close>: \<open>Committee_Types\<close> (committees, permissions, proposals, votes), \<open>Committee\<close> (keeper, handler, blocker,
    genesis). \<open>Committee_Permissions\<close> shows what a permission to change parameters allows, \<open>Committee_Safety\<close> and
    \<open>Committee_Reach\<close> that the stores refer to each other consistently and that only passed, permitted proposals are
    enacted, which then disappear with their votes.
  \<^item> \<open>x/kavadist\<close>: \<open>Kavadist\<close> mints by period for incentives and infrastructure and pays the latter; \<open>Kavadist_Safety\<close>
    shows that no second is minted for twice and that infrastructure is never paid from the coins of the incentives.

  \<^bold>\<open>Bounds.\<close> No model uses fuel: every loop is structural recursion or has a termination proof. Interest uses
  the elapsed time as 64-bit floating point rounds it (\<open>round_seconds\<close>). Keys of \<open>x/cdp\<close> are tuples in the order of
  their bytes, which needs collateral types without a colon, as the code that splits the keys does. Reachability
  lets other modules act between steps, restricted to what they leave alone: they do not spend from the module
  account in question.

  \<^bold>\<open>Not modelled.\<close> Events, logging, telemetry, gas, protobuf encoding, queries with their responses, and the command
  line neither change state nor decide anything. Generated code (\<open>*.pb.go\<close>, \<open>*.pb.gw.go\<close>) is represented by the
  records of its structs. Migrations and \<open>legacy\<close> packages rewrite old states once. The copy of the auction module at
  the top of \<open>src/x\<close> is not wired into the chain. The remaining modules are left out for what they rest on: \<open>x/liquid\<close> beyond the
  names of its coins, \<open>x/community\<close> and \<open>x/router\<close> move delegations and pool coins inside the staking, distribution and
  mint modules of the SDK, whose code is not in the repository; \<open>x/incentive\<close> and \<open>x/earn\<close> are clients of the modules above,
  which see them as hooks. \<open>x/validator-vesting\<close> and \<open>x/metrics\<close> have no state,
  and the application (\<open>app\<close>, \<open>cmd\<close>) wires the modules together.
\<close>

end
